(* ===== verification/Prelude.thy ===== *)
theory Prelude
  imports Main "HOL-Library.Word" "HOL-Library.Sublist"
begin

text \<open>
  Shared vocabulary of the development: the effect type of a request handler (a state
  transformer that may throw), loops over rows, the relational tables the services keep their
  rows in, the JavaScript string and byte operations the sources call, and the theorem
  collections and hints that carry the component proofs.
\<close>

named_theorems op_simps \<open>evaluation of handler steps on a given state\<close>
named_theorems pres \<open>introduction rules for preservation of a state predicate\<close>
named_theorems table_simps \<open>lookup and update laws of the tables\<close>

section \<open>Handlers: state, result, exception\<close>

text \<open>
  A handler is an asynchronous TypeScript method that reads and writes a store and either
  returns or throws. What it wrote before it threw stays written, so the state is returned in
  both cases. Its steps run one after the other: the interleaving of two handlers is not part
  of this type.
\<close>

type_synonym ('s, 'e, 'a) op = "'s \<Rightarrow> ('e + 'a) \<times> 's"

definition ret :: "'a \<Rightarrow> ('s, 'e, 'a) op" where
  "ret a = (\<lambda>s. (Inr a, s))"

definition throw :: "'e \<Rightarrow> ('s, 'e, 'a) op" where
  "throw e = (\<lambda>s. (Inl e, s))"

definition andThen :: "('s, 'e, 'a) op \<Rightarrow> ('a \<Rightarrow> ('s, 'e, 'b) op) \<Rightarrow> ('s, 'e, 'b) op" where
  "andThen m f = (\<lambda>s. case m s of (Inl e, s') \<Rightarrow> (Inl e, s') | (Inr a, s') \<Rightarrow> f a s')"

definition gets :: "('s \<Rightarrow> 'a) \<Rightarrow> ('s, 'e, 'a) op" where
  "gets f = (\<lambda>s. (Inr (f s), s))"

definition modify :: "('s \<Rightarrow> 's) \<Rightarrow> ('s, 'e, unit) op" where
  "modify f = (\<lambda>s. (Inr (), f s))"

definition throwIf :: "bool \<Rightarrow> 'e \<Rightarrow> ('s, 'e, unit) op" where
  "throwIf c e = (if c then throw e else ret ())"

definition orThrow :: "'a option \<Rightarrow> 'e \<Rightarrow> ('s, 'e, 'a) op" where
  "orThrow v e = (case v of None \<Rightarrow> throw e | Some a \<Rightarrow> ret a)"

definition catching :: "('s, 'e, 'a) op \<Rightarrow> ('e \<Rightarrow> ('s, 'e, 'a) op) \<Rightarrow> ('s, 'e, 'a) op" where
  "catching m h = (\<lambda>s. case m s of (Inl e, s') \<Rightarrow> h e s' | (Inr a, s') \<Rightarrow> (Inr a, s'))"

fun forEach :: "'a list \<Rightarrow> ('a \<Rightarrow> ('s, 'e, unit) op) \<Rightarrow> ('s, 'e, unit) op" where
  "forEach [] f = ret ()"
| "forEach (x # xs) f = andThen (f x) (\<lambda>_. forEach xs f)"

lemma ret_run [simp]: "ret a s = (Inr a, s)"
  by (simp add: ret_def)

lemma throw_run [simp]: "throw e s = (Inl e, s)"
  by (simp add: throw_def)

lemma gets_run [simp]: "gets f s = (Inr (f s), s)"
  by (simp add: gets_def)

lemma modify_run [simp]: "modify f s = (Inr (), f s)"
  by (simp add: modify_def)

lemma throwIf_run [op_simps]: "throwIf c e s = (if c then (Inl e, s) else (Inr (), s))"
  by (simp add: throwIf_def)

lemma orThrow_run [op_simps]:
  "orThrow v e s = (case v of None \<Rightarrow> (Inl e, s) | Some a \<Rightarrow> (Inr a, s))"
  by (simp add: orThrow_def split: option.split)

lemma andThen_run [op_simps]:
  "andThen m f s = (case m s of (r, s') \<Rightarrow> case r of Inl e \<Rightarrow> (Inl e, s') | Inr a \<Rightarrow> f a s')"
  by (simp add: andThen_def split: prod.split sum.split)

lemma catching_run [op_simps]:
  "catching m h s = (case m s of (r, s') \<Rightarrow> case r of Inl e \<Rightarrow> h e s' | Inr a \<Rightarrow> (Inr a, s'))"
  by (simp add: catching_def split: prod.split sum.split)

lemma andThen_Inl: "m s = (Inl e, s') \<Longrightarrow> andThen m f s = (Inl e, s')"
  by (simp add: andThen_def)

lemma andThen_Inr: "m s = (Inr a, s') \<Longrightarrow> andThen m f s = f a s'"
  by (simp add: andThen_def)

lemma andThen_ret [simp]: "andThen (ret a) f = f a"
  by (simp add: andThen_def ret_def)

lemma andThen_throw [simp]: "andThen (throw e) f = throw e"
  by (simp add: andThen_def throw_def)

lemma andThen_gets [simp]: "andThen (gets g) f s = f (g s) s"
  by (simp add: andThen_def)

lemma andThen_modify [simp]: "andThen (modify g) f s = f () (g s)"
  by (simp add: andThen_def)

lemma andThen_throwIf [simp]:
  "andThen (throwIf c e) f s = (if c then (Inl e, s) else f () s)"
  by (simp add: throwIf_def)

lemma andThen_orThrow [simp]:
  "andThen (orThrow v e) f s = (case v of None \<Rightarrow> (Inl e, s) | Some a \<Rightarrow> f a s)"
  by (simp add: orThrow_def split: option.split)

lemma snd_andThen_ret [simp]: "snd (andThen m (\<lambda>a. ret (g a)) s) = snd (m s)"
  by (simp add: andThen_def split: prod.split sum.split)

lemma andThen_assoc: "andThen (andThen m f) g = andThen m (\<lambda>a. andThen (f a) g)"
  by (rule ext) (simp add: andThen_def split: prod.split sum.split)

text \<open>A fact about the state after two steps, from what the first step returned.\<close>

lemma andThen_sndI:
  assumes "\<And>e s'. m s = (Inl e, s') \<Longrightarrow> P s'"
    and "\<And>a s'. m s = (Inr a, s') \<Longrightarrow> P (snd (f a s'))"
  shows "P (snd (andThen m f s))"
  using assms by (simp add: andThen_def split: prod.split sum.split)

lemma andThen_InrE:
  assumes "andThen m f s = (Inr b, t)"
  obtains a s' where "m s = (Inr a, s')" and "f a s' = (Inr b, t)"
  using assms by (auto simp: andThen_def split: prod.splits sum.splits)

subsection \<open>Preservation of a state predicate\<close>

text \<open>
  \<open>preserves P m\<close>: whether the handler returns or throws, \<open>P\<close> holds afterwards
  if it held before. \<open>pure m\<close>: the handler does not write.
\<close>

definition preserves :: "('s \<Rightarrow> bool) \<Rightarrow> ('s, 'e, 'a) op \<Rightarrow> bool" where
  "preserves P m \<longleftrightarrow> (\<forall>s. P s \<longrightarrow> P (snd (m s)))"

definition readonly :: "('s, 'e, 'a) op \<Rightarrow> bool" where
  "readonly m \<longleftrightarrow> (\<forall>s. snd (m s) = s)"

lemma preservesI: "(\<And>s. P s \<Longrightarrow> P (snd (m s))) \<Longrightarrow> preserves P m"
  by (simp add: preserves_def)

lemma preservesD: "preserves P m \<Longrightarrow> P s \<Longrightarrow> P (snd (m s))"
  by (simp add: preserves_def)

lemma preservesD_eq: "preserves P m \<Longrightarrow> P s \<Longrightarrow> m s = (r, s') \<Longrightarrow> P s'"
  using preservesD by fastforce

lemma preserves_readonly: "readonly m \<Longrightarrow> preserves P m"
  by (simp add: preserves_def readonly_def)

lemma preserves_ret [pres, simp]: "preserves P (ret a)"
  by (simp add: preserves_def)

lemma preserves_throw [pres, simp]: "preserves P (throw e)"
  by (simp add: preserves_def)

lemma preserves_gets [pres, simp]: "preserves P (gets f)"
  by (simp add: preserves_def)

lemma preserves_throwIf [pres, simp]: "preserves P (throwIf c e)"
  by (simp add: throwIf_def)

lemma preserves_orThrow [pres, simp]: "preserves P (orThrow v e)"
  by (simp add: orThrow_def split: option.split)

lemma preserves_andThen [pres]:
  assumes "preserves P m" and "\<And>a. preserves P (f a)"
  shows "preserves P (andThen m f)"
  using assms unfolding preserves_def andThen_def
  by (auto split: prod.split sum.split)

text \<open>The same with what the first step established about its result.\<close>

lemma preserves_andThen_post:
  assumes "preserves P m"
    and "\<And>a s s'. P s \<Longrightarrow> m s = (Inr a, s') \<Longrightarrow> P s' \<Longrightarrow> P (snd (f a s'))"
  shows "preserves P (andThen m f)"
proof (rule preservesI)
  fix s
  assume P: "P s"
  obtain r s' where m: "m s = (r, s')" by (cases "m s")
  from assms(1) P m have P': "P s'" by (rule preservesD_eq)
  show "P (snd (andThen m f s))"
  proof (cases r)
    case (Inl e)
    with m P' show ?thesis by (simp add: andThen_def)
  next
    case (Inr a)
    with m assms(2) P P' show ?thesis by (simp add: andThen_def)
  qed
qed

lemma preserves_if [pres]:
  "preserves P m \<Longrightarrow> preserves P n \<Longrightarrow> preserves P (if c then m else n)"
  by simp

lemma preserves_catching [pres]:
  assumes "preserves P m" and "\<And>e. preserves P (h e)"
  shows "preserves P (catching m h)"
  using assms unfolding preserves_def catching_def
  by (auto split: prod.split sum.split)

lemma preserves_forEach [pres]:
  "(\<And>x. x \<in> set xs \<Longrightarrow> preserves P (f x)) \<Longrightarrow> preserves P (forEach xs f)"
  by (induction xs) (auto intro: preserves_andThen)

lemma preserves_case_option [pres]:
  "preserves P m \<Longrightarrow> (\<And>a. v = Some a \<Longrightarrow> preserves P (f a)) \<Longrightarrow>
    preserves P (case v of None \<Rightarrow> m | Some a \<Rightarrow> f a)"
  by (cases v) simp_all

lemma preserves_modify: "(\<And>s. P s \<Longrightarrow> P (f s)) \<Longrightarrow> preserves P (modify f)"
  by (simp add: preserves_def)

text \<open>A loop of writes that never throws is a fold over the rows.\<close>

lemma forEach_modify:
  "forEach xs (\<lambda>x. modify (g x)) s = (Inr (), fold g xs s)"
  by (induction xs arbitrary: s) (simp_all add: andThen_def)

section \<open>Options\<close>

fun coalesce :: "'a option \<Rightarrow> 'a \<Rightarrow> 'a" where
  "coalesce None d = d"
| "coalesce (Some a) d = a"

lemma coalesce_conv: "coalesce v d = (case v of None \<Rightarrow> d | Some a \<Rightarrow> a)"
  by (cases v) simp_all

lemma find_Some_iff_in:
  "find P xs = Some x \<Longrightarrow> x \<in> set xs \<and> P x"
  by (auto simp: find_Some_iff)

lemma find_None_iff_all: "find P xs = None \<longleftrightarrow> (\<forall>x\<in>set xs. \<not> P x)"
  by (auto simp: find_None_iff)

end
