(* ===== verification/JsValues.thy ===== *)
theory JsValues
  imports Prelude
begin

text \<open>
  The JavaScript and Node operations on strings, bytes and dates that the sources call. A
  string is the list of its characters; the texts the services handle (identifiers, keys,
  header values, e-mail addresses) are ASCII, so the case and white-space tables are the ASCII
  rows of the Unicode ones. Dates are milliseconds since the epoch; the proleptic Gregorian
  calendar gives their UTC year and month.
\<close>

section \<open>Strings\<close>

definition isSpaceChar :: "char \<Rightarrow> bool" where
  "isSpaceChar c \<longleftrightarrow> (let n = of_char c :: nat in n = 32 \<or> 9 \<le> n \<and> n \<le> 13 \<or> n = 160)"

definition trim :: "string \<Rightarrow> string" where
  "trim s = rev (dropWhile isSpaceChar (rev (dropWhile isSpaceChar s)))"

definition lowerChar :: "char \<Rightarrow> char" where
  "lowerChar c =
     (let n = of_char c :: nat in if 65 \<le> n \<and> n \<le> 90 then char_of (n + 32) else c)"

definition upperChar :: "char \<Rightarrow> char" where
  "upperChar c =
     (let n = of_char c :: nat in if 97 \<le> n \<and> n \<le> 122 then char_of (n - 32) else c)"

definition toLowerCase :: "string \<Rightarrow> string" where
  "toLowerCase s = map lowerChar s"

definition startsWith :: "string \<Rightarrow> string \<Rightarrow> bool" where
  "startsWith s p \<longleftrightarrow> take (length p) s = p"

definition endsWith :: "string \<Rightarrow> string \<Rightarrow> bool" where
  "endsWith s p \<longleftrightarrow> length p \<le> length s \<and> drop (length s - length p) s = p"

definition includesStr :: "string \<Rightarrow> string \<Rightarrow> bool" where
  "includesStr s p \<longleftrightarrow> (\<exists>i\<in>set [0..<Suc (length s)]. startsWith (drop i s) p)"

text \<open>\<open>s.replace(/\/$/, '')\<close>: one trailing slash is dropped.\<close>

definition dropTrailingSlash :: "string \<Rightarrow> string" where
  "dropTrailingSlash s = (if s \<noteq> [] \<and> last s = CHR ''/'' then butlast s else s)"

text \<open>\<open>s.split(c)\<close>: never the empty list.\<close>

fun splitOn :: "char \<Rightarrow> string \<Rightarrow> string list" where
  "splitOn c [] = [[]]"
| "splitOn c (x # xs) =
     (if x = c then [] # splitOn c xs
      else (case splitOn c xs of [] \<Rightarrow> [[x]] | w # ws \<Rightarrow> (x # w) # ws))"

fun joinWith :: "string \<Rightarrow> string list \<Rightarrow> string" where
  "joinWith d [] = []"
| "joinWith d [w] = w"
| "joinWith d (w # ws) = w @ d @ joinWith d ws"

text \<open>\<open>s.slice(0, s.indexOf(c))\<close> when \<open>c\<close> occurs, else \<open>s\<close>.\<close>

definition upTo :: "char \<Rightarrow> string \<Rightarrow> string" where
  "upTo c s = takeWhile (\<lambda>x. x \<noteq> c) s"

text \<open>The decimal rendering of a number in a template literal.\<close>

fun natStr :: "nat \<Rightarrow> string" where
  "natStr n = (if n < 10 then [char_of (48 + n)] else natStr (n div 10) @ [char_of (48 + n mod 10)])"

declare natStr.simps [simp del]

definition intStr :: "int \<Rightarrow> string" where
  "intStr i = (if i < 0 then CHR ''-'' # natStr (nat (- i)) else natStr (nat i))"

definition padStart2 :: "string \<Rightarrow> string" where
  "padStart2 s = (if length s < 2 then replicate (2 - length s) (CHR ''0'') @ s else s)"

lemma splitOn_nonempty [simp]: "splitOn c s \<noteq> []"
  by (cases s) (auto split: list.split)

lemma splitOn_absent: "c \<notin> set s \<Longrightarrow> splitOn c s = [s]"
  by (induction s) auto

lemma splitOn_first: "c \<notin> set a \<Longrightarrow> splitOn c (a @ c # b) = a # splitOn c b"
  by (induction a) (auto split: list.split)

lemma joinWith_splitOn: "joinWith [c] (splitOn c s) = s"
proof (induction s)
  case Nil
  show ?case by simp
next
  case (Cons x s)
  obtain w ws where ws: "splitOn c s = w # ws"
    by (cases "splitOn c s") auto
  with Cons show ?case by (cases ws) auto
qed

lemma startsWith_append [simp]: "startsWith (p @ s) p"
  by (simp add: startsWith_def)

lemma startsWith_iff: "startsWith s p \<longleftrightarrow> (\<exists>t. s = p @ t)"
  by (metis append_take_drop_id append_eq_conv_conj startsWith_def)

lemma endsWith_append [simp]: "endsWith (s @ p) p"
  by (simp add: endsWith_def)

lemma endsWith_iff: "endsWith s p \<longleftrightarrow> (\<exists>t. s = t @ p)"
proof
  assume "endsWith s p"
  then have "s = take (length s - length p) s @ p"
    unfolding endsWith_def by (metis append_take_drop_id)
  then show "\<exists>t. s = t @ p" ..
qed auto

lemma toLowerCase_idem [simp]: "toLowerCase (toLowerCase s) = toLowerCase s"
proof -
  have "lowerChar (lowerChar c) = lowerChar c" for c
    by (simp add: lowerChar_def Let_def)
  then show ?thesis by (simp add: toLowerCase_def)
qed

lemma trim_id: "s = [] \<or> \<not> isSpaceChar (hd s) \<and> \<not> isSpaceChar (last s) \<Longrightarrow> trim s = s"
proof -
  have nohead: "t = [] \<or> \<not> isSpaceChar (hd t) \<Longrightarrow> dropWhile isSpaceChar t = t" for t
    by (cases t) auto
  assume "s = [] \<or> \<not> isSpaceChar (hd s) \<and> \<not> isSpaceChar (last s)"
  then show ?thesis
    by (auto simp: trim_def nohead hd_rev)
qed

lemma length_trim: "length (trim s) \<le> length s"
  unfolding trim_def by (metis length_dropWhile_le le_trans length_rev)

lemma trim_Nil [simp]: "trim [] = []"
  by (simp add: trim_def)

lemma length_natStr_pos: "0 < length (natStr n)"
  by (subst natStr.simps) simp

lemma natStr_length_two: "n < 100 \<Longrightarrow> length (padStart2 (natStr n)) = 2"
proof (cases "n < 10")
  case True
  then show ?thesis by (subst natStr.simps) (simp add: padStart2_def)
next
  case False
  moreover assume "n < 100"
  ultimately have "natStr n = [char_of (48 + n div 10), char_of (48 + n mod 10)]"
    by (subst natStr.simps) (simp, subst natStr.simps, simp)
  then show ?thesis by (simp add: padStart2_def)
qed

lemma char_of_digit_inj:
  "m < 10 \<Longrightarrow> n < 10 \<Longrightarrow> (char_of (48 + m) :: char) = char_of (48 + n) \<Longrightarrow> m = (n::nat)"
  by (auto dest: arg_cong [where f = of_char] simp: of_char_of)

lemma natStr_inj: "natStr m = natStr n \<Longrightarrow> m = n"
proof (induction m arbitrary: n rule: natStr.induct)
  case (1 m)
  have len: "length (natStr k) = 1 \<longleftrightarrow> k < 10" for k
    using length_natStr_pos [of "k div 10"] by (subst natStr.simps) auto
  show ?case
  proof (cases "m < 10")
    case True
    with "1.prems" len have "n < 10" by metis
    with True "1.prems" show ?thesis
      using char_of_digit_inj by (simp add: natStr.simps [of m] natStr.simps [of n])
  next
    case False
    with "1.prems" len have n: "\<not> n < 10" by metis
    with False "1.prems" have eq: "natStr (m div 10) = natStr (n div 10)"
        "(char_of (48 + m mod 10) :: char) = char_of (48 + n mod 10)"
      by (simp_all add: natStr.simps [of m] natStr.simps [of n])
    from "1.IH" [OF False eq(1)] have "m div 10 = n div 10" .
    moreover from eq(2) have "m mod 10 = n mod 10"
      by (rule char_of_digit_inj [rotated 2]) simp_all
    ultimately show ?thesis by (metis div_mult_mod_eq)
  qed
qed

section \<open>Bytes and hexadecimal\<close>

type_synonym bytes = "8 word list"

definition hexDigit :: "nat \<Rightarrow> char" where
  "hexDigit n = (if n < 10 then char_of (48 + n) else char_of (87 + n))"

definition hexVal :: "char \<Rightarrow> nat option" where
  "hexVal c =
     (let n = of_char c :: nat in
      if 48 \<le> n \<and> n \<le> 57 then Some (n - 48)
      else if 97 \<le> n \<and> n \<le> 102 then Some (n - 87)
      else if 65 \<le> n \<and> n \<le> 70 then Some (n - 55)
      else None)"

text \<open>\<open>buf.toString('hex')\<close>.\<close>

definition toHex :: "bytes \<Rightarrow> string" where
  "toHex bs = concat (map (\<lambda>b. [hexDigit (unat b div 16), hexDigit (unat b mod 16)]) bs)"

text \<open>\<open>Buffer.from(s, 'hex')\<close>: decoding stops at the first pair that is not hexadecimal.\<close>

fun fromHex :: "string \<Rightarrow> bytes" where
  "fromHex (a # b # cs) =
     (case (hexVal a, hexVal b) of
        (Some h, Some l) \<Rightarrow> of_nat (16 * h + l) # fromHex cs
      | _ \<Rightarrow> [])"
| "fromHex _ = []"

lemma hexVal_hexDigit: "n < 16 \<Longrightarrow> hexVal (hexDigit n) = Some n"
  by (auto simp: hexVal_def hexDigit_def Let_def of_char_of)

lemma fromHex_toHex: "fromHex (toHex bs) = bs"
proof (induction bs)
  case Nil
  show ?case by (simp add: toHex_def)
next
  case (Cons b bs)
  have b: "unat b < 256" using unsigned_less [of b] by simp
  then have "unat b div 16 < 16" by simp
  then have "hexVal (hexDigit (unat b div 16)) = Some (unat b div 16)"
    "hexVal (hexDigit (unat b mod 16)) = Some (unat b mod 16)"
    by (simp_all add: hexVal_hexDigit)
  moreover have "(of_nat (16 * (unat b div 16) + unat b mod 16) :: 8 word) = b"
    by simp
  ultimately show ?case using Cons by (simp add: toHex_def)
qed

lemma hexDigit_not_colon:
  assumes "n < 16"
  shows "hexDigit n \<noteq> CHR '':''"
proof
  assume "hexDigit n = CHR '':''"
  then have "of_char (hexDigit n) = (58 :: nat)" by simp
  with assms show False by (auto simp: hexDigit_def of_char_of split: if_splits)
qed

lemma toHex_not_colon: "CHR '':'' \<notin> set (toHex bs)"
proof -
  have "hexDigit (unat b div 16) \<noteq> CHR '':'' \<and> hexDigit (unat b mod 16) \<noteq> CHR '':''" for b :: "8 word"
  proof (intro conjI hexDigit_not_colon)
    have "unat b < 256" using unsigned_less [of b] by simp
    then show "unat b div 16 < 16" "unat b mod 16 < 16" by simp_all
  qed
  then show ?thesis by (simp add: toHex_def) metis
qed

lemma length_toHex: "length (toHex bs) = 2 * length bs"
  by (induction bs) (simp_all add: toHex_def)

text \<open>\<open>buf.toString('base64url')\<close>: groups of three bytes, no padding.\<close>

definition b64Char :: "nat \<Rightarrow> char" where
  "b64Char n =
     (if n < 26 then char_of (65 + n)
      else if n < 52 then char_of (71 + n)
      else if n < 62 then char_of (n - 4)
      else if n = 62 then CHR ''-'' else CHR ''_'')"

fun toBase64url :: "bytes \<Rightarrow> string" where
  "toBase64url [] = []"
| "toBase64url [a] = [b64Char (unat a div 4), b64Char (unat a mod 4 * 16)]"
| "toBase64url [a, b] =
     [b64Char (unat a div 4), b64Char (unat a mod 4 * 16 + unat b div 16),
      b64Char (unat b mod 16 * 4)]"
| "toBase64url (a # b # c # bs) =
     b64Char (unat a div 4) # b64Char (unat a mod 4 * 16 + unat b div 16) #
     b64Char (unat b mod 16 * 4 + unat c div 64) # b64Char (unat c mod 64) # toBase64url bs"

lemma b64Char_not_space: "\<not> isSpaceChar (b64Char n)"
proof -
  have "n < 26 \<Longrightarrow> (of_char (b64Char n) :: nat) = 65 + n"
    "\<not> n < 26 \<Longrightarrow> n < 52 \<Longrightarrow> (of_char (b64Char n) :: nat) = 71 + n"
    "\<not> n < 52 \<Longrightarrow> n < 62 \<Longrightarrow> (of_char (b64Char n) :: nat) = n - 4"
    by (simp_all add: b64Char_def of_char_of)
  then show ?thesis
    by (cases "n < 26"; cases "n < 52"; cases "n < 62")
      (auto simp: isSpaceChar_def Let_def b64Char_def)
qed

lemma toBase64url_no_space: "c \<in> set (toBase64url bs) \<Longrightarrow> \<not> isSpaceChar c"
  by (induction bs rule: toBase64url.induct) (auto simp: b64Char_not_space)

lemma length_toBase64url_24: "length bs = 24 \<Longrightarrow> length (toBase64url bs) = 32"
proof -
  have "length (toBase64url bs) = 4 * k" if "length bs = 3 * k" for bs :: bytes and k
    using that
  proof (induction bs arbitrary: k rule: toBase64url.induct)
    case (4 a b c bs)
    then have "length bs = 3 * (k - 1)" and "0 < k" by auto
    with "4.IH" have "length (toBase64url bs) = 4 * (k - 1)" by blast
    with \<open>0 < k\<close> show ?case by simp
  qed (simp; presburger)+
  from this [of bs 8] show "length bs = 24 \<Longrightarrow> length (toBase64url bs) = 32" by simp
qed

section \<open>JSON values\<close>

text \<open>
  What \<open>JSON.parse\<close> and an untyped request body give; the numbers the services read are
  integers.
\<close>

datatype json =
    JNull
  | JBool bool
  | JNum int
  | JStr string
  | JArr "json list"
  | JObj "(string \<times> json) list"

fun jsonStr :: "json \<Rightarrow> string option" where
  "jsonStr (JStr s) = Some s"
| "jsonStr _ = None"

text \<open>\<open>o.k\<close>: the last binding of a repeated key wins in \<open>JSON.parse\<close>.\<close>

fun jsonField :: "string \<Rightarrow> json \<Rightarrow> json option" where
  "jsonField k (JObj kvs) = map_of (rev kvs) k"
| "jsonField k _ = None"

section \<open>Dates\<close>

text \<open>An optional field of a body: absent, \<open>null\<close>, or a value.\<close>

datatype 'a jsOpt = Undefined | Null | Val 'a

fun nullish :: "'a jsOpt \<Rightarrow> 'a option" where
  "nullish (Val v) = Some v"
| "nullish _ = None"


type_synonym millis = int

text \<open>Days since the epoch to the civil year and month (proleptic Gregorian calendar).\<close>

definition dayOf :: "millis \<Rightarrow> int" where
  "dayOf t = t div 86400000"

definition civilYearMonth :: "int \<Rightarrow> int \<times> int" where
  "civilYearMonth days =
     (let z = days + 719468; era = z div 146097; doe = z mod 146097;
          yoe = (doe - doe div 1460 + doe div 36524 - doe div 146096) div 365;
          doy = doe - (365 * yoe + yoe div 4 - yoe div 100);
          mp = (5 * doy + 2) div 153;
          m = (if mp < 10 then mp + 3 else mp - 9)
      in (yoe + era * 400 + (if m \<le> 2 then 1 else 0), m))"

definition utcFullYear :: "millis \<Rightarrow> int" where
  "utcFullYear t = fst (civilYearMonth (dayOf t))"

text \<open>\<open>getUTCMonth\<close> counts from zero.\<close>

definition utcMonth :: "millis \<Rightarrow> int" where
  "utcMonth t = snd (civilYearMonth (dayOf t)) - 1"

lemma civil_day_of_year:
  fixes doe a b c y q r :: int
  assumes "0 \<le> doe" "doe < 146097"
    and "1460 * a \<le> doe" "doe \<le> 1460 * a + 1459"
    and "36524 * b \<le> doe" "doe \<le> 36524 * b + 36523"
    and "146096 * c \<le> doe" "doe \<le> 146096 * c + 146095"
    and "365 * y \<le> doe - a + b - c" "doe - a + b - c \<le> 365 * y + 364"
    and "4 * q \<le> y" "y \<le> 4 * q + 3"
    and "100 * r \<le> y" "y \<le> 100 * r + 99"
  shows "0 \<le> doe - (365 * y + q - r) \<and> doe - (365 * y + q - r) \<le> 366"
proof -
  have "c = 0 \<or> c = 1" using assms by linarith
  moreover have "b = 0 \<or> b = 1 \<or> b = 2 \<or> b = 3 \<or> b = 4" using assms by linarith
  moreover have "0 \<le> r" "r \<le> 4" using assms by linarith+
  then have "r = 0 \<or> r = 1 \<or> r = 2 \<or> r = 3 \<or> r = 4" by linarith
  ultimately show ?thesis using assms
    by (elim disjE) (simp, linarith)+
qed

lemma div_bounds: "0 < (k::int) \<Longrightarrow> k * (n div k) \<le> n \<and> n \<le> k * (n div k) + (k - 1)"
  by (smt (verit) mult_div_mod_eq pos_mod_bound pos_mod_sign)

lemma utcMonth_range: "0 \<le> utcMonth t \<and> utcMonth t \<le> 11"
proof -
  define doe where "doe = (dayOf t + 719468) mod 146097"
  define yoe where "yoe = (doe - doe div 1460 + doe div 36524 - doe div 146096) div 365"
  define doy where "doy = doe - (365 * yoe + yoe div 4 - yoe div 100)"
  have doe: "0 \<le> doe" "doe < 146097" by (simp_all add: doe_def)
  have "0 \<le> doy \<and> doy \<le> 366"
    unfolding doy_def
    by (rule civil_day_of_year
          [of doe "doe div 1460" "doe div 36524" "doe div 146096" yoe "yoe div 4" "yoe div 100"])
      (use doe div_bounds [of 1460 doe] div_bounds [of 36524 doe] div_bounds [of 146096 doe]
          div_bounds [of 4 yoe] div_bounds [of 100 yoe]
          div_bounds [of 365 "doe - doe div 1460 + doe div 36524 - doe div 146096"]
        in \<open>simp_all add: yoe_def [symmetric]\<close>)
  define mp where "mp = (5 * doy + 2) div 153"
  from \<open>0 \<le> doy \<and> doy \<le> 366\<close> have "0 \<le> mp \<and> mp \<le> 11"
    unfolding mp_def by linarith
  moreover have "utcMonth t = (if mp < 10 then mp + 3 else mp - 9) - 1"
    by (simp only: utcMonth_def civilYearMonth_def Let_def snd_conv mp_def doy_def yoe_def doe_def)
  ultimately show ?thesis by (simp split: if_splits)
qed

text \<open>From 1970 to 9575 (in milliseconds since 1970) the year has four digits.\<close>

definition calendarMillis :: "millis \<Rightarrow> bool" where
  "calendarMillis t \<longleftrightarrow> 0 \<le> t \<and> t \<le> 240000000000000"

lemma year_of_era_range:
  fixes doe a b c y :: int
  assumes "0 \<le> doe" "doe < 146097"
    and "1460 * a \<le> doe" "doe \<le> 1460 * a + 1459"
    and "36524 * b \<le> doe" "doe \<le> 36524 * b + 36523"
    and "146096 * c \<le> doe" "doe \<le> 146096 * c + 146095"
    and "365 * y \<le> doe - a + b - c" "doe - a + b - c \<le> 365 * y + 364"
  shows "0 \<le> y \<and> y \<le> 401"
  using assms by linarith

lemma leap_bit: "\<exists>c::int. (c = 0 \<or> c = 1) \<and> x + (if P then 1 else 0) = x + c"
  by auto

lemma utcFullYear_range:
  assumes "calendarMillis t"
  shows "1600 \<le> utcFullYear t \<and> utcFullYear t \<le> 9999"
proof -
  define z where "z = dayOf t + 719468"
  define doe where "doe = z mod 146097"
  define yoe where "yoe = (doe - doe div 1460 + doe div 36524 - doe div 146096) div 365"
  have z: "719468 \<le> z" "z \<le> 3497245"
    using assms unfolding calendarMillis_def z_def dayOf_def by linarith+
  then have era: "4 \<le> z div 146097" "z div 146097 \<le> 23" by linarith+
  have doe: "0 \<le> doe" "doe < 146097" by (simp_all add: doe_def)
  have "0 \<le> yoe \<and> yoe \<le> 401"
    by (rule year_of_era_range [of doe "doe div 1460" "doe div 36524" "doe div 146096"])
      (use doe div_bounds [of 1460 doe] div_bounds [of 36524 doe] div_bounds [of 146096 doe]
          div_bounds [of 365 "doe - doe div 1460 + doe div 36524 - doe div 146096"]
        in \<open>simp_all add: yoe_def [symmetric]\<close>)
  then have yoe: "0 \<le> yoe" "yoe \<le> 401" by simp_all
  have "\<exists>c. (c = 0 \<or> c = 1) \<and> utcFullYear t = yoe + z div 146097 * 400 + c"
    unfolding utcFullYear_def civilYearMonth_def Let_def fst_conv yoe_def doe_def z_def
    by (rule leap_bit)
  with era yoe show ?thesis by linarith
qed

lemma natStr_length_four: "1000 \<le> n \<Longrightarrow> n < 10000 \<Longrightarrow> length (natStr n) = 4"
proof -
  assume n: "1000 \<le> n" "n < 10000"
  have one: "k < 10 \<Longrightarrow> length (natStr k) = 1" for k
    by (subst natStr.simps) simp
  have step: "\<not> k < 10 \<Longrightarrow> length (natStr k) = length (natStr (k div 10)) + 1" for k
    by (subst natStr.simps) simp
  have "\<not> n < 10" "\<not> n div 10 < 10" "\<not> n div 10 div 10 < 10" "n div 10 div 10 div 10 < 10"
    using n by linarith+
  with step [of n] step [of "n div 10"] step [of "n div 10 div 10"] one [of "n div 10 div 10 div 10"]
  show "length (natStr n) = 4" by linarith
qed

end
