(* ===== verification/Plans.thy ===== *)
theory Plans
  imports JsValues
begin

text \<open>
  The commercial plan catalogue of the billing service
  (\<^verbatim>\<open>identity-billing-service/source/src/billing/plans.ts\<close>): plan identifiers,
  the quotas of each plan, and the total functions that turn any incoming string into a plan,
  with the legacy alias \<^verbatim>\<open>paid\<close>. Plans are ordered by tier, and the lemmas at the
  end say that quotas grow with the tier and that the two normalisation functions agree.
\<close>

section \<open>Identifiers\<close>

datatype planId = Free | Pro | ProDouble | Business

fun planIdStr :: "planId \<Rightarrow> string" where
  "planIdStr Free = ''free''"
| "planIdStr Pro = ''pro''"
| "planIdStr ProDouble = ''pro_double''"
| "planIdStr Business = ''business''"

text \<open>The type guard, as the identifier it narrows to.\<close>

definition isPlanId :: "string \<Rightarrow> planId option" where
  "isPlanId value =
     (if value = ''free'' then Some Free
      else if value = ''pro'' then Some Pro
      else if value = ''pro_double'' then Some ProDouble
      else if value = ''business'' then Some Business
      else None)"

record planDefinition =
  plan_id :: planId
  plan_label :: string
  plan_maxProducts :: int
  plan_rateLimitRpm :: int
  plan_monthlyTxQuota :: int

fun PLANS :: "planId \<Rightarrow> planDefinition" where
  "PLANS Free =
     \<lparr>plan_id = Free, plan_label = ''Free'', plan_maxProducts = 2,
      plan_rateLimitRpm = 30, plan_monthlyTxQuota = 5000\<rparr>"
| "PLANS Pro =
     \<lparr>plan_id = Pro, plan_label = ''Pro'', plan_maxProducts = 2,
      plan_rateLimitRpm = 600, plan_monthlyTxQuota = 100000\<rparr>"
| "PLANS ProDouble =
     \<lparr>plan_id = ProDouble, plan_label = ''Proveedores'', plan_maxProducts = 10,
      plan_rateLimitRpm = 1200, plan_monthlyTxQuota = 200000\<rparr>"
| "PLANS Business =
     \<lparr>plan_id = Business, plan_label = ''Dedicado'', plan_maxProducts = 20,
      plan_rateLimitRpm = 3000, plan_monthlyTxQuota = 1000000\<rparr>"

definition resolvePlan :: "string \<Rightarrow> planDefinition" where
  "resolvePlan plan =
     (if plan = ''paid'' then PLANS Pro
      else case isPlanId plan of Some p \<Rightarrow> PLANS p | None \<Rightarrow> PLANS Free)"

definition normalizePlanId :: "string \<Rightarrow> planId" where
  "normalizePlanId value =
     (if value = ''paid'' then Pro
      else case isPlanId value of Some p \<Rightarrow> p | None \<Rightarrow> Free)"

definition listPlans :: "planDefinition list" where
  "listPlans = [PLANS Free, PLANS Pro, PLANS ProDouble, PLANS Business]"

section \<open>Tiers\<close>

fun planTier :: "planId \<Rightarrow> nat" where
  "planTier Free = 0"
| "planTier Pro = 1"
| "planTier ProDouble = 2"
| "planTier Business = 3"

lemma planTier_inj: "planTier p = planTier q \<Longrightarrow> p = q"
  by (cases p; cases q) simp_all

instantiation planId :: linorder
begin

definition less_eq_planId :: "planId \<Rightarrow> planId \<Rightarrow> bool" where
  "less_eq_planId p q \<longleftrightarrow> planTier p \<le> planTier q"

definition less_planId :: "planId \<Rightarrow> planId \<Rightarrow> bool" where
  "less_planId p q \<longleftrightarrow> planTier p < planTier q"

instance
  by intro_classes (auto simp: less_eq_planId_def less_planId_def intro: planTier_inj)

end

section \<open>Laws\<close>

lemma isPlanId_planIdStr [simp]: "isPlanId (planIdStr p) = Some p"
  by (cases p) (simp_all add: isPlanId_def)

lemma isPlanId_Some: "isPlanId v = Some p \<Longrightarrow> v = planIdStr p"
  by (auto simp: isPlanId_def split: if_splits)

lemma planIdStr_not_paid [simp]: "planIdStr p \<noteq> ''paid''"
  by (cases p) simp_all

lemma normalizePlanId_planIdStr [simp]: "normalizePlanId (planIdStr p) = p"
  by (simp add: normalizePlanId_def)

lemma resolvePlan_planIdStr [simp]: "resolvePlan (planIdStr p) = PLANS p"
  by (simp add: resolvePlan_def)

lemma PLANS_id [simp]: "plan_id (PLANS p) = p"
  by (cases p) simp_all

lemma resolvePlan_normalize: "resolvePlan v = PLANS (normalizePlanId v)"
  by (simp add: resolvePlan_def normalizePlanId_def split: option.split)

lemma PLANS_mono:
  "p \<le> q \<Longrightarrow> plan_maxProducts (PLANS p) \<le> plan_maxProducts (PLANS q) \<and>
    plan_rateLimitRpm (PLANS p) \<le> plan_rateLimitRpm (PLANS q) \<and>
    plan_monthlyTxQuota (PLANS p) \<le> plan_monthlyTxQuota (PLANS q)"
  by (cases p; cases q) (simp_all add: less_eq_planId_def)

lemma PLANS_positive:
  "1 \<le> plan_maxProducts (PLANS p) \<and> 1 \<le> plan_rateLimitRpm (PLANS p) \<and>
    1 \<le> plan_monthlyTxQuota (PLANS p)"
  by (cases p) simp_all

end
