(* ===== verification/Tables.thy ===== *)
theory Tables
  imports Prelude
begin

text \<open>
  Relational tables. A table is the list of its rows in insertion order; each row carries its
  primary key. The contract the services rely on (a saved row is found under its key, other
  rows are untouched, keys stay unique) is the locale \<open>row_table\<close>; the generic
  operations of this theory satisfy it for every key selector, and each entity of the billing
  schema and of the status list schema interprets it for its own table.
\<close>

section \<open>Operations\<close>

text \<open>\<open>save\<close>: update the row with the same primary key, insert it when there is none.\<close>

definition saveRow :: "('r \<Rightarrow> 'k) \<Rightarrow> 'r \<Rightarrow> 'r list \<Rightarrow> 'r list" where
  "saveRow key r rows =
     (if key r \<in> key ` set rows
      then map (\<lambda>x. if key x = key r then r else x) rows
      else rows @ [r])"

text \<open>\<open>findOne\<close> by primary key.\<close>

definition rowAt :: "('r \<Rightarrow> 'k) \<Rightarrow> 'k \<Rightarrow> 'r list \<Rightarrow> 'r option" where
  "rowAt key k rows = find (\<lambda>r. key r = k) rows"

definition deleteWhere :: "('r \<Rightarrow> bool) \<Rightarrow> 'r list \<Rightarrow> 'r list" where
  "deleteWhere P rows = filter (\<lambda>r. \<not> P r) rows"

text \<open>\<open>UPDATE ... SET f WHERE P\<close>.\<close>

definition updateWhere :: "('r \<Rightarrow> bool) \<Rightarrow> ('r \<Rightarrow> 'r) \<Rightarrow> 'r list \<Rightarrow> 'r list" where
  "updateWhere P f rows = map (\<lambda>r. if P r then f r else r) rows"

definition countWhere :: "('r \<Rightarrow> bool) \<Rightarrow> 'r list \<Rightarrow> nat" where
  "countWhere P rows = length (filter P rows)"

lemma saveRow_new: "key r \<notin> key ` set rows \<Longrightarrow> saveRow key r rows = rows @ [r]"
  by (auto simp: saveRow_def)

lemma saveRow_old:
  "key r \<in> key ` set rows \<Longrightarrow>
    saveRow key r rows = map (\<lambda>x. if key x = key r then r else x) rows"
  by (auto simp: saveRow_def)

lemma set_saveRow [table_simps]:
  "set (saveRow key r rows) = insert r {x \<in> set rows. key x \<noteq> key r}"
proof (cases "key r \<in> key ` set rows")
  case True
  then show ?thesis by (auto simp: saveRow_old)
next
  case False
  then have "{x \<in> set rows. key x \<noteq> key r} = set rows"
    unfolding image_iff by auto
  with False show ?thesis by (simp add: saveRow_new)
qed

lemma map_key_saveRow_old:
  "key r \<in> key ` set rows \<Longrightarrow> map key (saveRow key r rows) = map key rows"
  by (simp add: saveRow_old)

lemma distinct_saveRow:
  "distinct (map key rows) \<Longrightarrow> distinct (map key (saveRow key r rows))"
  by (cases "key r \<in> key ` set rows") (auto simp: saveRow_new map_key_saveRow_old)

lemma rowAt_Some_in: "rowAt key k rows = Some r \<Longrightarrow> r \<in> set rows \<and> key r = k"
  by (auto simp: rowAt_def dest: find_Some_iff_in)

lemma rowAt_None: "rowAt key k rows = None \<longleftrightarrow> k \<notin> key ` set rows"
  by (auto simp: rowAt_def find_None_iff_all)

lemma rowAt_distinct:
  assumes "distinct (map key rows)" and "r \<in> set rows"
  shows "rowAt key (key r) rows = Some r"
  using assms by (induction rows) (force simp: rowAt_def)+

lemma rowAt_iff:
  "distinct (map key rows) \<Longrightarrow> rowAt key k rows = Some r \<longleftrightarrow> r \<in> set rows \<and> key r = k"
  by (auto dest: rowAt_Some_in rowAt_distinct)

lemma rowAt_append [table_simps]:
  "rowAt key k (xs @ ys) = (case rowAt key k xs of None \<Rightarrow> rowAt key k ys | Some r \<Rightarrow> Some r)"
  by (induction xs) (auto simp: rowAt_def)

lemma rowAt_map_other:
  "(\<And>r. r \<in> set rows \<Longrightarrow> key (f r) = key r) \<Longrightarrow>
    rowAt key k (map f rows) = map_option f (rowAt key k rows)"
  by (induction rows) (auto simp: rowAt_def)

lemma rowAt_saveRow [table_simps]:
  "rowAt key k (saveRow key r rows) = (if k = key r then Some r else rowAt key k rows)"
proof (cases "key r \<in> key ` set rows")
  case True
  then have "saveRow key r rows = map (\<lambda>x. if key x = key r then r else x) rows"
    by (rule saveRow_old)
  moreover have "rowAt key k (map (\<lambda>x. if key x = key r then r else x) rows) =
      map_option (\<lambda>x. if key x = key r then r else x) (rowAt key k rows)"
    by (rule rowAt_map_other) auto
  moreover have "k = key r \<Longrightarrow> rowAt key k rows \<noteq> None"
    using True by (simp add: rowAt_None)
  ultimately show ?thesis
    by (cases "rowAt key k rows") (auto dest: rowAt_Some_in)
next
  case False
  then have "rowAt key (key r) rows = None"
    by (simp add: rowAt_None)
  with False show ?thesis
    by (auto simp: saveRow_new rowAt_append split: option.split) (auto simp: rowAt_def)
qed

lemma rowAt_snoc:
  "key r \<notin> key ` set rows \<Longrightarrow> rowAt key (key r) (rows @ [r]) = Some r"
proof -
  assume "key r \<notin> key ` set rows"
  then have "rowAt key (key r) rows = None" by (simp add: rowAt_None)
  then show ?thesis by (simp add: rowAt_append) (simp add: rowAt_def)
qed

lemma saveRow_snoc:
  "key r \<notin> key ` set rows \<Longrightarrow> key r' = key r \<Longrightarrow> saveRow key r' (rows @ [r]) = rows @ [r']"
proof -
  assume new: "key r \<notin> key ` set rows" and same: "key r' = key r"
  then have "\<forall>x\<in>set rows. key x \<noteq> key r'" by (metis imageI)
  then have "map (\<lambda>x. if key x = key r' then r' else x) rows = rows"
    by (intro map_idI) simp
  with same show "saveRow key r' (rows @ [r]) = rows @ [r']"
    by (simp add: saveRow_def)
qed

lemma deleteWhere_none: "\<forall>r\<in>set rows. \<not> P r \<Longrightarrow> deleteWhere P rows = rows"
  by (simp add: deleteWhere_def)

lemma deleteWhere_append:
  "deleteWhere P (xs @ ys) = deleteWhere P xs @ deleteWhere P ys"
  by (simp add: deleteWhere_def)

lemma set_deleteWhere [table_simps]: "set (deleteWhere P rows) = {r \<in> set rows. \<not> P r}"
  by (auto simp: deleteWhere_def)

lemma distinct_deleteWhere:
  "distinct (map key rows) \<Longrightarrow> distinct (map key (deleteWhere P rows))"
  by (simp add: deleteWhere_def distinct_map_filter)

lemma set_updateWhere [table_simps]:
  "set (updateWhere P f rows) = (\<lambda>r. if P r then f r else r) ` set rows"
  by (simp add: updateWhere_def)

lemma map_key_updateWhere:
  "(\<And>r. key (f r) = key r) \<Longrightarrow> map key (updateWhere P f rows) = map key rows"
  by (simp add: updateWhere_def)

lemma countWhere_append [table_simps]:
  "countWhere P (xs @ ys) = countWhere P xs + countWhere P ys"
  by (simp add: countWhere_def)

lemma countWhere_Cons [table_simps]:
  "countWhere P (x # xs) = (if P x then 1 else 0) + countWhere P xs"
  by (simp add: countWhere_def)

lemma countWhere_Nil [table_simps]: "countWhere P [] = 0"
  by (simp add: countWhere_def)

lemma countWhere_cong:
  "(\<And>r. r \<in> set rows \<Longrightarrow> P r = Q r) \<Longrightarrow> countWhere P rows = countWhere Q rows"
  by (simp add: countWhere_def cong: filter_cong)

lemma countWhere_mono:
  "(\<And>r. r \<in> set rows \<Longrightarrow> P r \<Longrightarrow> Q r) \<Longrightarrow> countWhere P rows \<le> countWhere Q rows"
  by (induction rows) (auto simp: table_simps)

lemma countWhere_0: "countWhere P rows = 0 \<longleftrightarrow> (\<forall>r\<in>set rows. \<not> P r)"
  by (auto simp: countWhere_def filter_empty_conv)

section \<open>Integrity\<close>

text \<open>
  The three constraints a relational schema keeps: primary keys drawn without repetition from
  a generator \<open>g\<close>, a column unique among the rows where \<open>P\<close> holds, a foreign key.
\<close>

definition fresh_table :: "(nat \<Rightarrow> 'k) \<Rightarrow> nat \<Rightarrow> ('r \<Rightarrow> 'k) \<Rightarrow> 'r list \<Rightarrow> bool" where
  "fresh_table g n key rows \<longleftrightarrow>
     distinct (map key rows) \<and> (\<forall>r\<in>set rows. \<exists>i<n. key r = g i)"

definition unique_where ::
  "('r \<Rightarrow> bool) \<Rightarrow> ('r \<Rightarrow> 'c) \<Rightarrow> ('r \<Rightarrow> 'k) \<Rightarrow> 'r list \<Rightarrow> bool" where
  "unique_where P f key rows \<longleftrightarrow>
     (\<forall>x\<in>set rows. \<forall>y\<in>set rows. P x \<and> P y \<and> f x = f y \<longrightarrow> key x = key y)"

definition refers :: "('r \<Rightarrow> 'k) \<Rightarrow> 'r list \<Rightarrow> ('t \<Rightarrow> 'k) \<Rightarrow> 't list \<Rightarrow> bool" where
  "refers f rows key targets \<longleftrightarrow> f ` set rows \<subseteq> key ` set targets"

named_theorems integrity \<open>preservation of the table constraints\<close>

lemma fresh_table_Nil [simp]: "fresh_table g n key []"
  by (simp add: fresh_table_def)

lemma fresh_table_distinct: "fresh_table g n key rows \<Longrightarrow> distinct (map key rows)"
  by (simp add: fresh_table_def)

lemma fresh_table_mono: "fresh_table g n key rows \<Longrightarrow> n \<le> m \<Longrightarrow> fresh_table g m key rows"
  unfolding fresh_table_def by (meson order_less_le_trans)

lemma fresh_table_Suc [integrity]: "fresh_table g n key rows \<Longrightarrow> fresh_table g (Suc n) key rows"
  by (erule fresh_table_mono) simp

lemma fresh_table_unused:
  assumes "fresh_table g n key rows" and "inj g" and "n \<le> m"
  shows "g m \<notin> key ` set rows"
proof
  assume "g m \<in> key ` set rows"
  then obtain r where "r \<in> set rows" and "key r = g m" by auto
  moreover from this assms(1) obtain i where "i < n" and "key r = g i"
    unfolding fresh_table_def by blast
  ultimately have "m = i" using assms(2) by (auto dest: injD)
  with \<open>i < n\<close> assms(3) show False by simp
qed

lemma fresh_table_append [integrity]:
  assumes "fresh_table g n key rows" and "inj g" and "key r = g n"
  shows "fresh_table g (Suc n) key (rows @ [r])"
proof -
  have "g n \<notin> key ` set rows" using fresh_table_unused [OF assms(1,2)] by simp
  moreover have "\<forall>x\<in>set (rows @ [r]). \<exists>i<Suc n. key x = g i"
    using assms(1,3) unfolding fresh_table_def by (auto dest: less_SucI)
  ultimately show ?thesis
    using assms(1,3) unfolding fresh_table_def by auto
qed

lemma fresh_table_save [integrity]:
  assumes "fresh_table g n key rows" and "key r \<in> key ` set rows"
  shows "fresh_table g n key (saveRow key r rows)"
  using assms unfolding fresh_table_def by (auto simp: distinct_saveRow set_saveRow)

lemma fresh_table_map [integrity]:
  assumes "fresh_table g n key rows" and "\<And>x. key (f x) = key x"
  shows "fresh_table g n key (map f rows)"
proof -
  have "map key (map f rows) = map key rows" using assms(2) by simp
  moreover have "\<forall>r\<in>set (map f rows). \<exists>i<n. key r = g i"
    using assms unfolding fresh_table_def by simp
  ultimately show ?thesis using assms(1) unfolding fresh_table_def by metis
qed

lemma fresh_table_delete [integrity]:
  "fresh_table g n key rows \<Longrightarrow> fresh_table g n key (deleteWhere P rows)"
  unfolding fresh_table_def by (auto simp: distinct_deleteWhere set_deleteWhere)

lemma unique_whereD:
  "unique_where P f key rows \<Longrightarrow> x \<in> set rows \<Longrightarrow> y \<in> set rows \<Longrightarrow> P x \<Longrightarrow> P y \<Longrightarrow>
    f x = f y \<Longrightarrow> key x = key y"
  unfolding unique_where_def by blast

lemma unique_where_Nil [simp]: "unique_where P f key []"
  by (simp add: unique_where_def)

lemma unique_where_append [integrity]:
  assumes "unique_where P f key rows" and "P r \<Longrightarrow> \<forall>x\<in>set rows. P x \<longrightarrow> f x \<noteq> f r"
  shows "unique_where P f key (rows @ [r])"
  unfolding unique_where_def
proof (intro ballI impI)
  fix x y
  assume "x \<in> set (rows @ [r])" and "y \<in> set (rows @ [r])" and *: "P x \<and> P y \<and> f x = f y"
  then consider "x \<in> set rows" "y \<in> set rows" | "x = r" "y = r" | "x = r" "y \<in> set rows"
    | "x \<in> set rows" "y = r" by auto
  then show "key x = key y"
  proof cases
    case 1
    with * show ?thesis by (blast intro: unique_whereD [OF assms(1)])
  next
    case 2
    then show ?thesis by simp
  next
    case 3
    with * assms(2) show ?thesis by metis
  next
    case 4
    with * assms(2) show ?thesis by metis
  qed
qed

lemma unique_where_save [integrity]:
  assumes "unique_where P f key rows" and "old \<in> set rows" and "key old = key r"
    and "P r \<Longrightarrow> P old" and "f r = f old"
  shows "unique_where P f key (saveRow key r rows)"
  unfolding unique_where_def
proof (intro ballI impI)
  fix x y
  assume "x \<in> set (saveRow key r rows)" and "y \<in> set (saveRow key r rows)"
    and *: "P x \<and> P y \<and> f x = f y"
  then consider "x \<in> set rows" "y \<in> set rows" | "x = r" "y = r" | "x = r" "y \<in> set rows"
    | "x \<in> set rows" "y = r" by (auto simp: set_saveRow)
  then show "key x = key y"
  proof cases
    case 1
    with * show ?thesis by (blast intro: unique_whereD [OF assms(1)])
  next
    case 2
    then show ?thesis by simp
  next
    case 3
    with * assms(4,5) have "P old" "f old = f y" by simp_all
    with 3 * have "key old = key y" by (blast intro: unique_whereD [OF assms(1)] assms(2))
    with 3 assms(3) show ?thesis by simp
  next
    case 4
    with * assms(4,5) have "P old" "f x = f old" by simp_all
    with 4 * have "key x = key old" by (blast intro: unique_whereD [OF assms(1)] assms(2))
    with 4 assms(3) show ?thesis by simp
  qed
qed

lemma unique_where_map [integrity]:
  assumes "unique_where P f key rows" and "\<And>x. key (h x) = key x" and "\<And>x. f (h x) = f x"
    and "\<And>x. P (h x) \<Longrightarrow> P x"
  shows "unique_where P f key (map h rows)"
  unfolding unique_where_def
proof (intro ballI impI)
  fix x y
  assume "x \<in> set (map h rows)" and "y \<in> set (map h rows)" and *: "P x \<and> P y \<and> f x = f y"
  then obtain a b where ab: "a \<in> set rows" "b \<in> set rows" "x = h a" "y = h b" by auto
  with * assms(3,4) have "P a" "P b" "f a = f b" by metis+
  with ab have "key a = key b" by (blast intro: unique_whereD [OF assms(1)])
  with ab assms(2) show "key x = key y" by simp
qed

lemma unique_where_delete [integrity]:
  "unique_where P f key rows \<Longrightarrow> unique_where P f key (deleteWhere Q rows)"
  unfolding unique_where_def set_deleteWhere by blast

lemma refers_Nil [simp]: "refers f [] key targets"
  by (simp add: refers_def)

lemma refers_append [integrity]:
  "refers f rows key targets \<Longrightarrow> f r \<in> key ` set targets \<Longrightarrow> refers f (rows @ [r]) key targets"
  by (auto simp: refers_def)

lemma refers_target_append [integrity]:
  "refers f rows key targets \<Longrightarrow> refers f rows key (targets @ [t])"
  by (auto simp: refers_def)

lemma refers_save [integrity]:
  "refers f rows key targets \<Longrightarrow> f r \<in> key ` set targets \<Longrightarrow>
    refers f (saveRow k r rows) key targets"
  by (auto simp: refers_def set_saveRow)

lemma refers_target_save [integrity]:
  "refers f rows key targets \<Longrightarrow> refers f rows key (saveRow key t targets)"
proof -
  have "key ` set targets \<subseteq> key ` set (saveRow key t targets)"
    by (auto simp: set_saveRow)
  then show "refers f rows key targets \<Longrightarrow> refers f rows key (saveRow key t targets)"
    unfolding refers_def by (rule subset_trans [rotated])
qed

lemma refers_map [integrity]:
  "refers f rows key targets \<Longrightarrow> (\<And>x. f (h x) = f x) \<Longrightarrow> refers f (map h rows) key targets"
  by (auto simp: refers_def)

lemma refers_target_map [integrity]:
  "refers f rows key targets \<Longrightarrow> (\<And>x. key (h x) = key x) \<Longrightarrow> refers f rows key (map h targets)"
  by (simp add: refers_def image_image)

lemma refers_in: "refers f rows key targets \<Longrightarrow> r \<in> set rows \<Longrightarrow> f r \<in> key ` set targets"
  by (auto simp: refers_def)

lemma refers_rowAt:
  "refers f rows key targets \<Longrightarrow> r \<in> set rows \<Longrightarrow> \<exists>t. rowAt key (f r) targets = Some t"
  by (meson refers_in not_None_eq rowAt_None)

lemma refers_delete_rows [integrity]:
  "refers f rows key targets \<Longrightarrow> refers f (deleteWhere P rows) key targets"
  by (auto simp: refers_def set_deleteWhere)

text \<open>A cascading delete keeps the foreign key.\<close>

lemma refers_cascade:
  assumes "refers f rows key targets"
    and "\<And>r t. r \<in> set rows \<Longrightarrow> t \<in> set targets \<Longrightarrow> key t = f r \<Longrightarrow> Q t \<Longrightarrow> P r"
  shows "refers f (deleteWhere P rows) key (deleteWhere Q targets)"
  unfolding refers_def set_deleteWhere
proof
  fix k
  assume "k \<in> f ` {r \<in> set rows. \<not> P r}"
  then obtain r where r: "r \<in> set rows" "\<not> P r" "k = f r" by auto
  with assms(1) obtain t where t: "t \<in> set targets" "key t = f r"
    unfolding refers_def by force
  with r assms(2) have "\<not> Q t" by blast
  with r t show "k \<in> key ` {t \<in> set targets. \<not> Q t}" by force
qed

lemma distinct_key_eq:
  "distinct (map key rows) \<Longrightarrow> x \<in> set rows \<Longrightarrow> y \<in> set rows \<Longrightarrow> key x = key y \<Longrightarrow> x = y"
  by (simp add: distinct_map inj_on_def)

text \<open>Saving a changed copy of some of the rows changes exactly these rows.\<close>

lemma fold_saveRow:
  assumes "distinct (map key rows)" and "distinct rs" and "set rs \<subseteq> set rows"
    and "\<And>r. key (g r) = key r"
  shows "fold (\<lambda>r rows. saveRow key (g r) rows) rs rows =
    map (\<lambda>x. if x \<in> set rs then g x else x) rows"
  using assms(1-3)
proof (induction rs arbitrary: rows)
  case Nil
  then show ?case by simp
next
  case (Cons r rs)
  have inj: "x = y" if "x \<in> set rows" "y \<in> set rows" "key x = key y" for x y
    using Cons.prems(1) that by (meson distinct_map inj_onD)
  have r: "r \<in> set rows" using Cons.prems(3) by simp
  have save: "saveRow key (g r) rows = map (\<lambda>x. if x = r then g r else x) rows"
    using r assms(4) inj by (auto simp: saveRow_def)
  have d: "distinct (map key (saveRow key (g r) rows))"
    using Cons.prems(1) by (rule distinct_saveRow)
  have sub: "set rs \<subseteq> set (saveRow key (g r) rows)"
    using Cons.prems(2,3) unfolding save by auto
  have stays: "g r \<in> set rs \<Longrightarrow> g r = r"
    using inj r Cons.prems(3) assms(4) by (meson list.set_intros(2) subsetD)
  have "fold (\<lambda>r rows. saveRow key (g r) rows) (r # rs) rows =
      map (\<lambda>x. if x \<in> set rs then g x else x) (map (\<lambda>x. if x = r then g r else x) rows)"
    using Cons.IH [OF d _ sub] Cons.prems(2) save by simp
  also have "\<dots> = map (\<lambda>x. if x \<in> set (r # rs) then g x else x) rows"
    using Cons.prems(2) stays by auto
  finally show ?case .
qed

section \<open>The contract of a table\<close>

locale row_table =
  fixes key :: "'r \<Rightarrow> 'k"
    and save :: "'r \<Rightarrow> 'r list \<Rightarrow> 'r list"
    and lookup :: "'k \<Rightarrow> 'r list \<Rightarrow> 'r option"
  assumes lookup_save: "lookup k (save r rows) = (if k = key r then Some r else lookup k rows)"
    and lookup_member: "lookup k rows = Some r \<Longrightarrow> r \<in> set rows \<and> key r = k"
    and member_save: "x \<in> set (save r rows) \<longleftrightarrow> x = r \<or> x \<in> set rows \<and> key x \<noteq> key r"
    and unique_save: "distinct (map key rows) \<Longrightarrow> distinct (map key (save r rows))"
    and append_save: "key r \<notin> key ` set rows \<Longrightarrow> save r rows = rows @ [r]"
begin

lemma saved_found: "lookup (key r) (save r rows) = Some r"
  by (simp add: lookup_save)

lemma others_kept: "k \<noteq> key r \<Longrightarrow> lookup k (save r rows) = lookup k rows"
  by (simp add: lookup_save)

lemma keys_save: "key ` set (save r rows) = insert (key r) (key ` set rows)"
proof -
  have "set (save r rows) = insert r {x \<in> set rows. key x \<noteq> key r}"
    using member_save by blast
  then show ?thesis by auto
qed

text \<open>A predicate of all rows survives a save when the saved row satisfies it.\<close>

lemma all_save: "(\<forall>x\<in>set rows. Q x) \<Longrightarrow> Q r \<Longrightarrow> \<forall>x\<in>set (save r rows). Q x"
  by (auto simp: member_save)

text \<open>Saving a changed copy of a stored row leaves the set of keys alone.\<close>

lemma keys_update: "lookup (key r) rows = Some r' \<Longrightarrow> key ` set (save r rows) = key ` set rows"
  by (metis keys_save lookup_member image_eqI insert_absorb)

text \<open>The last write to a key wins.\<close>

lemma lookup_save_save:
  "key r = key r' \<Longrightarrow> lookup k (save r' (save r rows)) = lookup k (save r' rows)"
  by (simp add: lookup_save)

lemma lookup_save_commute:
  "key r \<noteq> key r' \<Longrightarrow> lookup k (save r' (save r rows)) = lookup k (save r (save r' rows))"
  by (simp add: lookup_save)

end

text \<open>The generic operations satisfy the contract for every key selector.\<close>

lemma saveRow_row_table: "row_table key (saveRow key) (rowAt key)"
  by unfold_locales
    (auto simp: rowAt_saveRow set_saveRow distinct_saveRow saveRow_new dest: rowAt_Some_in)

end
