(* ===== verification/BillingDb.thy ===== *)
theory BillingDb
  imports Plans Tables
begin

text \<open>
  The state of the billing service
  (\<^verbatim>\<open>identity-billing-service/source/src/entities\<close>): one record per entity, the
  database as the tables of its rows together with the in-memory rate windows of the service,
  the errors its methods throw with their HTTP status, and the credentials it derives
  (\<^verbatim>\<open>billing/api-key.util.ts\<close>, \<^verbatim>\<open>common/password.util.ts\<close>,
  \<^verbatim>\<open>common/wallet-id.validation.ts\<close>).

  Code outside the repository is a field of the parameter record \<open>env\<close>: the UUIDs the
  database generates, SHA-256, scrypt and the random byte source.
\<close>

section \<open>Entities\<close>

datatype accountStatus = AccActive | AccSuspended | AccPastDue
datatype productStatus = ProdActive | ProdArchived
datatype resourceService = Issuer | Verifier
datatype resourceStatus = ResActive | ResSuspended | ResPending
datatype subscriptionStatus = SubActive | SubCanceled | SubPastDue | SubTrialing
datatype oauthProvider = Google | Github

record account =
  acc_id :: string
  acc_name :: string
  acc_email :: "string option"
  acc_passwordHash :: "string option"
  acc_plan :: string
  acc_status :: accountStatus
  acc_maxProducts :: int
  acc_rateLimitRpm :: int
  acc_monthlyTxQuota :: int
  acc_createdAt :: millis
  acc_updatedAt :: millis

record accountIdentity =
  idn_id :: string
  idn_accountId :: string
  idn_provider :: oauthProvider
  idn_providerSubject :: string
  idn_email :: "string option"
  idn_displayName :: "string option"
  idn_createdAt :: millis
  idn_updatedAt :: millis

record product =
  prod_id :: string
  prod_accountId :: string
  prod_name :: string
  prod_description :: "string option"
  prod_status :: productStatus
  prod_createdAt :: millis
  prod_updatedAt :: millis

record resource =
  res_id :: string
  res_productId :: string
  res_service :: resourceService
  res_walletId :: string
  res_status :: resourceStatus
  res_createdAt :: millis
  res_updatedAt :: millis

record apiKey =
  key_id :: string
  key_resourceId :: string
  key_prefix :: string
  key_keyHash :: string
  key_name :: "string option"
  key_revokedAt :: "millis option"
  key_lastUsedAt :: "millis option"
  key_createdAt :: millis
  key_updatedAt :: millis

record subscription =
  sub_id :: string
  sub_accountId :: string
  sub_provider :: string
  sub_externalId :: "string option"
  sub_status :: subscriptionStatus
  sub_plan :: string
  sub_createdAt :: millis
  sub_updatedAt :: millis

record paymentEvent =
  pev_id :: string
  pev_provider :: string
  pev_type :: string
  pev_accountId :: "string option"
  pev_externalId :: "string option"
  pev_payload :: json
  pev_createdAt :: millis

record usagePeriod =
  use_id :: string
  use_accountId :: string
  use_periodKey :: string
  use_txCount :: int
  use_createdAt :: millis
  use_updatedAt :: millis

record rateWindow =
  win_startMs :: millis
  win_count :: int

text \<open>
  The store: the eight tables, the in-memory map of rate windows, the clock, and how many UUIDs
  and random draws have been handed out.
\<close>

record db =
  accounts :: "account list"
  identities :: "accountIdentity list"
  products :: "product list"
  resources :: "resource list"
  apiKeys :: "apiKey list"
  subscriptions :: "subscription list"
  paymentEvents :: "paymentEvent list"
  usagePeriods :: "usagePeriod list"
  rateWindows :: "string \<rightharpoonup> rateWindow"
  clock :: millis
  nextId :: nat
  nextRandom :: nat

definition emptyDb :: db where
  "emptyDb =
     \<lparr>accounts = [], identities = [], products = [], resources = [], apiKeys = [],
      subscriptions = [], paymentEvents = [], usagePeriods = [], rateWindows = Map.empty,
      clock = 0, nextId = 0, nextRandom = 0\<rparr>"

text \<open>The code outside the repository.\<close>

record env =
  newUuid :: "nat \<Rightarrow> string"
  validUuid :: "string \<Rightarrow> bool"
  sha256 :: "string \<Rightarrow> bytes"
  scrypt :: "string \<Rightarrow> string \<Rightarrow> bytes"
  randomBytes :: "nat \<Rightarrow> nat \<Rightarrow> bytes"

text \<open>
  The documented behaviour the code relies on: generated UUIDs never repeat, a random draw has
  the length asked for, scrypt returns the 64 bytes asked for, a SHA-256 digest has 32 bytes.
\<close>

definition env_ok :: "env \<Rightarrow> bool" where
  "env_ok E \<longleftrightarrow> inj (newUuid E) \<and> (\<forall>n. validUuid E (newUuid E n)) \<and>
     (\<forall>n k. length (randomBytes E n k) = k) \<and> (\<forall>p t. length (scrypt E p t) = 64) \<and>
     (\<forall>x. length (sha256 E x) = 32)"

section \<open>Errors\<close>

datatype billingError =
    EmailTaken
  | BadCredentials
  | AccountSuspended
  | AccountInactive
  | AccountNotFound
  | ProductQuotaReached int
  | ProductNotFound
  | ProductArchivedError
  | BadWalletId
  | ResourceExists resourceService string
  | ResourceNotFound
  | ResourceSuspendedError
  | ApiKeyNotFound
  | ApiKeyForeign
  | ApiKeyMissing
  | ApiKeyInvalid
  | WrongService resourceService resourceService
  | WrongWallet
  | BadCount
  | QuotaExhausted int int string
  | RateLimited int
  | ProvisionUrlMissing resourceService
  | ProvisionUnreachable resourceService
  | ProvisionUnreadable
  | ProvisionFailed resourceService int string
  | UniqueViolation string
  | ValueTooLong string
  | NotNullViolation string
  | InvalidUuidSyntax
  | NullDereference

fun httpStatus :: "billingError \<Rightarrow> nat" where
  "httpStatus EmailTaken = 409"
| "httpStatus BadCredentials = 401"
| "httpStatus AccountSuspended = 403"
| "httpStatus AccountInactive = 403"
| "httpStatus AccountNotFound = 404"
| "httpStatus (ProductQuotaReached _) = 403"
| "httpStatus ProductNotFound = 404"
| "httpStatus ProductArchivedError = 403"
| "httpStatus BadWalletId = 400"
| "httpStatus (ResourceExists _ _) = 409"
| "httpStatus ResourceNotFound = 404"
| "httpStatus ResourceSuspendedError = 403"
| "httpStatus ApiKeyNotFound = 404"
| "httpStatus ApiKeyForeign = 403"
| "httpStatus ApiKeyMissing = 401"
| "httpStatus ApiKeyInvalid = 401"
| "httpStatus (WrongService _ _) = 403"
| "httpStatus WrongWallet = 403"
| "httpStatus BadCount = 400"
| "httpStatus (QuotaExhausted _ _ _) = 402"
| "httpStatus (RateLimited _) = 429"
| "httpStatus (ProvisionUrlMissing _) = 502"
| "httpStatus (ProvisionUnreachable _) = 502"
| "httpStatus ProvisionUnreadable = 500"
| "httpStatus (ProvisionFailed _ _ _) = 502"
| "httpStatus (UniqueViolation _) = 500"
| "httpStatus (ValueTooLong _) = 500"
| "httpStatus (NotNullViolation _) = 500"
| "httpStatus InvalidUuidSyntax = 500"
| "httpStatus NullDereference = 500"

type_synonym 'a billing = "(db, billingError, 'a) op"

end
