(* ===== verification/BillingStore.thy ===== *)
theory BillingStore
  imports BillingDb
begin

text \<open>
  Credentials and table access of the billing service: the API key and password utilities, the
  wallet identifier pattern, and the writes the repositories perform (insert of a created
  entity, save of a loaded one, cascading delete) with the constraints the entities declare.
  Every table meets the contract \<open>row_table\<close>, which is where the lookup laws of the
  component theories come from.
\<close>

section \<open>Credentials\<close>

text \<open>\<open>api-key.util.ts\<close>.\<close>

definition hashApiKey :: "env \<Rightarrow> string \<Rightarrow> string" where
  "hashApiKey E rawKey = toHex (sha256 E rawKey)"

text \<open>The raw key and its visible prefix, from the 24 random bytes drawn.\<close>

definition apiKeyOf :: "resourceService \<Rightarrow> bytes \<Rightarrow> string \<times> string" where
  "apiKeyOf service secretBytes =
     (let prefixTag = (if service = Issuer then ''iss'' else ''ver'');
          raw = prefixTag @ ''_live_'' @ toBase64url secretBytes
      in (raw, take 16 raw))"

definition drawRandom :: "env \<Rightarrow> nat \<Rightarrow> bytes billing" where
  "drawRandom E k =
     (\<lambda>s. (Inr (randomBytes E (nextRandom s) k), s\<lparr>nextRandom := nextRandom s + 1\<rparr>))"

definition generateApiKey :: "env \<Rightarrow> resourceService \<Rightarrow> (string \<times> string) billing" where
  "generateApiKey E service = andThen (drawRandom E 24) (\<lambda>bs. ret (apiKeyOf service bs))"

text \<open>\<open>password.util.ts\<close>: \<open>salt:hash\<close> in hexadecimal.\<close>

definition passwordHashOf :: "env \<Rightarrow> bytes \<Rightarrow> string \<Rightarrow> string" where
  "passwordHashOf E saltBytes password =
     (let salt = toHex saltBytes; hash = toHex (scrypt E password salt)
      in salt @ '':'' @ hash)"

definition hashPassword :: "env \<Rightarrow> string \<Rightarrow> string billing" where
  "hashPassword E password = andThen (drawRandom E 16) (\<lambda>bs. ret (passwordHashOf E bs password))"

definition verifyPassword :: "env \<Rightarrow> string \<Rightarrow> string \<Rightarrow> bool" where
  "verifyPassword E password stored =
     (case splitOn (CHR '':'') stored of
        salt # hash # _ \<Rightarrow>
          if salt = [] \<or> hash = [] then False
          else (let computed = scrypt E password salt; expected = fromHex hash
                in length expected = length computed \<and> computed = expected)
      | _ \<Rightarrow> False)"

text \<open>\<open>/^[a-zA-Z0-9][a-zA-Z0-9._-]*$/\<close>.\<close>

definition isAlnum :: "char \<Rightarrow> bool" where
  "isAlnum c \<longleftrightarrow>
     (let n = of_char c :: nat in
      48 \<le> n \<and> n \<le> 57 \<or> 65 \<le> n \<and> n \<le> 90 \<or> 97 \<le> n \<and> n \<le> 122)"

fun walletIdValid :: "string \<Rightarrow> bool" where
  "walletIdValid [] = False"
| "walletIdValid (c # cs) =
     (isAlnum c \<and>
      list_all (\<lambda>x. isAlnum x \<or> x = CHR ''.'' \<or> x = CHR ''_'' \<or> x = CHR ''-'') cs)"

lemma drawRandom_run [op_simps]:
  "drawRandom E k s =
     (Inr (randomBytes E (nextRandom s) k), s\<lparr>nextRandom := nextRandom s + 1\<rparr>)"
  by (simp add: drawRandom_def)

lemma passwordHash_roundtrip:
  assumes "env_ok E" and "saltBytes \<noteq> []"
  shows "verifyPassword E p (passwordHashOf E saltBytes p)"
proof -
  let ?salt = "toHex saltBytes"
  have len: "length (scrypt E p ?salt) = 64" using assms(1) by (simp add: env_ok_def)
  have ne: "?salt \<noteq> []" using assms(2) length_toHex [of saltBytes] by auto
  have hne: "toHex (scrypt E p ?salt) \<noteq> []"
    using len length_toHex [of "scrypt E p ?salt"] by auto
  have "splitOn (CHR '':'') (passwordHashOf E saltBytes p) = [?salt, toHex (scrypt E p ?salt)]"
    by (simp add: passwordHashOf_def Let_def splitOn_first splitOn_absent toHex_not_colon)
  with ne hne show ?thesis
    by (simp add: verifyPassword_def fromHex_toHex)
qed

lemma verifyPassword_iff:
  assumes "env_ok E" and "saltBytes \<noteq> []"
  shows "verifyPassword E q (passwordHashOf E saltBytes p) \<longleftrightarrow>
    scrypt E q (toHex saltBytes) = scrypt E p (toHex saltBytes)"
proof -
  let ?salt = "toHex saltBytes"
  have len: "length (scrypt E r ?salt) = 64" for r using assms(1) by (simp add: env_ok_def)
  have ne: "?salt \<noteq> []" using assms(2) length_toHex [of saltBytes] by auto
  have hne: "toHex (scrypt E p ?salt) \<noteq> []"
    using len [of p] length_toHex [of "scrypt E p ?salt"] by auto
  have "splitOn (CHR '':'') (passwordHashOf E saltBytes p) = [?salt, toHex (scrypt E p ?salt)]"
    by (simp add: passwordHashOf_def Let_def splitOn_first splitOn_absent toHex_not_colon)
  with ne hne len show ?thesis
    by (simp add: verifyPassword_def fromHex_toHex)
qed

lemma apiKeyOf_trim: "trim (fst (apiKeyOf svc bs)) = fst (apiKeyOf svc bs)"
proof -
  have sp: "\<forall>c \<in> set (fst (apiKeyOf svc bs)). \<not> isSpaceChar c"
    using toBase64url_no_space [of _ bs]
    by (auto simp: apiKeyOf_def Let_def isSpaceChar_def)
  moreover have "fst (apiKeyOf svc bs) \<noteq> []"
    by (simp add: apiKeyOf_def Let_def)
  ultimately show ?thesis by (intro trim_id) simp
qed

lemma apiKeyOf_nonempty: "fst (apiKeyOf svc bs) \<noteq> []"
  by (simp add: apiKeyOf_def Let_def)

section \<open>The tables\<close>

interpretation accountTable: row_table acc_id "saveRow acc_id" "rowAt acc_id"
  by (rule saveRow_row_table)

interpretation identityTable: row_table idn_id "saveRow idn_id" "rowAt idn_id"
  by (rule saveRow_row_table)

interpretation productTable: row_table prod_id "saveRow prod_id" "rowAt prod_id"
  by (rule saveRow_row_table)

interpretation resourceTable: row_table res_id "saveRow res_id" "rowAt res_id"
  by (rule saveRow_row_table)

interpretation apiKeyTable: row_table key_id "saveRow key_id" "rowAt key_id"
  by (rule saveRow_row_table)

interpretation usageTable: row_table use_id "saveRow use_id" "rowAt use_id"
  by (rule saveRow_row_table)

section \<open>Writes\<close>

text \<open>A created entity gets a fresh UUID and the current time.\<close>

definition freshId :: "env \<Rightarrow> string billing" where
  "freshId E = (\<lambda>s. (Inr (newUuid E (nextId s)), s\<lparr>nextId := nextId s + 1\<rparr>))"

text \<open>\<open>varchar(n)\<close>, and its nullable form.\<close>

definition fits :: "nat \<Rightarrow> string \<Rightarrow> bool" where
  "fits n v \<longleftrightarrow> length v \<le> n"

definition fitsOpt :: "nat \<Rightarrow> string option \<Rightarrow> bool" where
  "fitsOpt n v \<longleftrightarrow> (case v of None \<Rightarrow> True | Some x \<Rightarrow> fits n x)"

definition insertAccount :: "env \<Rightarrow> account \<Rightarrow> account billing" where
  "insertAccount E a = andThen (freshId E) (\<lambda>uid s.
     let row = a\<lparr>acc_id := uid, acc_createdAt := clock s, acc_updatedAt := clock s\<rparr>
     in if \<not> (fits 160 (acc_name a) \<and> fitsOpt 255 (acc_email a))
        then (Inl (ValueTooLong ''accounts''), s)
        else if acc_email a \<noteq> None \<and> (\<exists>x\<in>set (accounts s). acc_email x = acc_email a)
        then (Inl (UniqueViolation ''accounts.email''), s)
        else (Inr row, s\<lparr>accounts := accounts s @ [row]\<rparr>))"

definition updateAccount :: "account \<Rightarrow> account billing" where
  "updateAccount a = (\<lambda>s.
     let row = a\<lparr>acc_updatedAt := clock s\<rparr>
     in (Inr row, s\<lparr>accounts := saveRow acc_id row (accounts s)\<rparr>))"

definition insertIdentity :: "env \<Rightarrow> accountIdentity \<Rightarrow> accountIdentity billing" where
  "insertIdentity E i = andThen (freshId E) (\<lambda>uid s.
     let row = i\<lparr>idn_id := uid, idn_createdAt := clock s, idn_updatedAt := clock s\<rparr>
     in if \<not> (fits 255 (idn_providerSubject i) \<and> fitsOpt 255 (idn_email i) \<and>
               fitsOpt 160 (idn_displayName i))
        then (Inl (ValueTooLong ''account_identities''), s)
        else if \<exists>x\<in>set (identities s).
             idn_provider x = idn_provider i \<and> idn_providerSubject x = idn_providerSubject i
        then (Inl (UniqueViolation ''account_identities.provider''), s)
        else (Inr row, s\<lparr>identities := identities s @ [row]\<rparr>))"

definition updateIdentity :: "accountIdentity \<Rightarrow> accountIdentity billing" where
  "updateIdentity i = (\<lambda>s.
     let row = i\<lparr>idn_updatedAt := clock s\<rparr>
     in if \<not> fitsOpt 255 (idn_email i) then (Inl (ValueTooLong ''account_identities''), s)
        else (Inr row, s\<lparr>identities := saveRow idn_id row (identities s)\<rparr>))"

definition insertProduct :: "env \<Rightarrow> product \<Rightarrow> product billing" where
  "insertProduct E p = andThen (freshId E) (\<lambda>uid s.
     let row = p\<lparr>prod_id := uid, prod_createdAt := clock s, prod_updatedAt := clock s\<rparr>
     in if \<not> fits 160 (prod_name p) then (Inl (ValueTooLong ''products''), s)
        else (Inr row, s\<lparr>products := products s @ [row]\<rparr>))"

definition updateProduct :: "product \<Rightarrow> product billing" where
  "updateProduct p = (\<lambda>s.
     let row = p\<lparr>prod_updatedAt := clock s\<rparr>
     in (Inr row, s\<lparr>products := saveRow prod_id row (products s)\<rparr>))"

text \<open>\<open>products.delete\<close>: the foreign keys cascade to resources and their keys.\<close>

definition deleteProduct :: "string \<Rightarrow> unit billing" where
  "deleteProduct pid = modify (\<lambda>s.
     let gone = res_id ` {r \<in> set (resources s). res_productId r = pid}
     in s\<lparr>products := deleteWhere (\<lambda>p. prod_id p = pid) (products s),
          resources := deleteWhere (\<lambda>r. res_productId r = pid) (resources s),
          apiKeys := deleteWhere (\<lambda>k. key_resourceId k \<in> gone) (apiKeys s)\<rparr>)"

definition insertResource :: "env \<Rightarrow> resource \<Rightarrow> resource billing" where
  "insertResource E r = andThen (freshId E) (\<lambda>uid s.
     let row = r\<lparr>res_id := uid, res_createdAt := clock s, res_updatedAt := clock s\<rparr>
     in if \<not> fits 128 (res_walletId r) then (Inl (ValueTooLong ''resources''), s)
        else if \<exists>x\<in>set (resources s).
             res_service x = res_service r \<and> res_walletId x = res_walletId r
        then (Inl (UniqueViolation ''resources.service''), s)
        else (Inr row, s\<lparr>resources := resources s @ [row]\<rparr>))"

definition updateResource :: "resource \<Rightarrow> resource billing" where
  "updateResource r = (\<lambda>s.
     let row = r\<lparr>res_updatedAt := clock s\<rparr>
     in (Inr row, s\<lparr>resources := saveRow res_id row (resources s)\<rparr>))"

definition insertApiKey :: "env \<Rightarrow> apiKey \<Rightarrow> apiKey billing" where
  "insertApiKey E k = andThen (freshId E) (\<lambda>uid s.
     let row = k\<lparr>key_id := uid, key_createdAt := clock s, key_updatedAt := clock s\<rparr>
     in if \<not> (fits 32 (key_prefix k) \<and> fits 128 (key_keyHash k) \<and> fitsOpt 80 (key_name k))
        then (Inl (ValueTooLong ''api_keys''), s)
        else (Inr row, s\<lparr>apiKeys := apiKeys s @ [row]\<rparr>))"

definition updateApiKey :: "apiKey \<Rightarrow> apiKey billing" where
  "updateApiKey k = (\<lambda>s.
     let row = k\<lparr>key_updatedAt := clock s\<rparr>
     in (Inr row, s\<lparr>apiKeys := saveRow key_id row (apiKeys s)\<rparr>))"

definition insertSubscription :: "env \<Rightarrow> subscription \<Rightarrow> subscription billing" where
  "insertSubscription E b = andThen (freshId E) (\<lambda>uid s.
     let row = b\<lparr>sub_id := uid, sub_createdAt := clock s, sub_updatedAt := clock s\<rparr>
     in (Inr row, s\<lparr>subscriptions := subscriptions s @ [row]\<rparr>))"

text \<open>The account column of a payment event is of type \<open>uuid\<close>.\<close>

definition insertPaymentEvent :: "env \<Rightarrow> paymentEvent \<Rightarrow> paymentEvent billing" where
  "insertPaymentEvent E v = andThen (freshId E) (\<lambda>uid s.
     let row = v\<lparr>pev_id := uid, pev_createdAt := clock s\<rparr>
     in if \<not> (fits 64 (pev_type v) \<and> fitsOpt 255 (pev_externalId v))
        then (Inl (ValueTooLong ''payment_events''), s)
        else if \<not> (case pev_accountId v of None \<Rightarrow> True | Some a \<Rightarrow> validUuid E a)
        then (Inl InvalidUuidSyntax, s)
        else (Inr row, s\<lparr>paymentEvents := paymentEvents s @ [row]\<rparr>))"

definition insertUsage :: "env \<Rightarrow> usagePeriod \<Rightarrow> usagePeriod billing" where
  "insertUsage E u = andThen (freshId E) (\<lambda>uid s.
     let row = u\<lparr>use_id := uid, use_createdAt := clock s, use_updatedAt := clock s\<rparr>
     in if \<not> fits 7 (use_periodKey u) then (Inl (ValueTooLong ''usage_periods''), s)
        else if \<exists>x\<in>set (usagePeriods s).
             use_accountId x = use_accountId u \<and> use_periodKey x = use_periodKey u
        then (Inl (UniqueViolation ''usage_periods.account_id''), s)
        else (Inr row, s\<lparr>usagePeriods := usagePeriods s @ [row]\<rparr>))"

definition updateUsage :: "usagePeriod \<Rightarrow> usagePeriod billing" where
  "updateUsage u = (\<lambda>s.
     let row = u\<lparr>use_updatedAt := clock s\<rparr>
     in (Inr row, s\<lparr>usagePeriods := saveRow use_id row (usagePeriods s)\<rparr>))"

definition setRateWindow :: "string \<Rightarrow> rateWindow \<Rightarrow> unit billing" where
  "setRateWindow aid w = modify (\<lambda>s. s\<lparr>rateWindows := (rateWindows s)(aid \<mapsto> w)\<rparr>)"

lemma freshId_run [op_simps]:
  "freshId E s = (Inr (newUuid E (nextId s)), s\<lparr>nextId := nextId s + 1\<rparr>)"
  by (simp add: freshId_def)

text \<open>Inserts without a constraint that can fail.\<close>

lemma insertSubscription_run [op_simps]:
  "insertSubscription E b s =
     (let row = b\<lparr>sub_id := newUuid E (nextId s), sub_createdAt := clock s,
                  sub_updatedAt := clock s\<rparr>
      in (Inr row, s\<lparr>nextId := nextId s + 1, subscriptions := subscriptions s @ [row]\<rparr>))"
  by (simp add: insertSubscription_def op_simps Let_def)

lemma insertSubscription_frame [simp]:
  "accounts (snd (insertSubscription E b s)) = accounts s"
  "products (snd (insertSubscription E b s)) = products s"
  "resources (snd (insertSubscription E b s)) = resources s"
  "apiKeys (snd (insertSubscription E b s)) = apiKeys s"
  "usagePeriods (snd (insertSubscription E b s)) = usagePeriods s"
  "paymentEvents (snd (insertSubscription E b s)) = paymentEvents s"
  "identities (snd (insertSubscription E b s)) = identities s"
  "clock (snd (insertSubscription E b s)) = clock s"
  by (simp_all add: insertSubscription_run Let_def)

text \<open>Steps that cannot fail, inside a handler.\<close>

lemma andThen_drawRandom [simp]:
  "andThen (drawRandom E k) f s =
     f (randomBytes E (nextRandom s) k) (s\<lparr>nextRandom := nextRandom s + 1\<rparr>)"
  by (simp add: andThen_def drawRandom_run)

lemma andThen_freshId [simp]:
  "andThen (freshId E) f s = f (newUuid E (nextId s)) (s\<lparr>nextId := nextId s + 1\<rparr>)"
  by (simp add: andThen_def freshId_run)

lemma andThen_updateAccount [simp]:
  "andThen (updateAccount a) f s =
     f (a\<lparr>acc_updatedAt := clock s\<rparr>)
       (s\<lparr>accounts := saveRow acc_id (a\<lparr>acc_updatedAt := clock s\<rparr>) (accounts s)\<rparr>)"
  by (simp add: andThen_def updateAccount_def Let_def)

lemma andThen_updateProduct [simp]:
  "andThen (updateProduct p) f s =
     f (p\<lparr>prod_updatedAt := clock s\<rparr>)
       (s\<lparr>products := saveRow prod_id (p\<lparr>prod_updatedAt := clock s\<rparr>) (products s)\<rparr>)"
  by (simp add: andThen_def updateProduct_def Let_def)

lemma andThen_updateResource [simp]:
  "andThen (updateResource r) f s =
     f (r\<lparr>res_updatedAt := clock s\<rparr>)
       (s\<lparr>resources := saveRow res_id (r\<lparr>res_updatedAt := clock s\<rparr>) (resources s)\<rparr>)"
  by (simp add: andThen_def updateResource_def Let_def)

lemma andThen_updateApiKey [simp]:
  "andThen (updateApiKey k) f s =
     f (k\<lparr>key_updatedAt := clock s\<rparr>)
       (s\<lparr>apiKeys := saveRow key_id (k\<lparr>key_updatedAt := clock s\<rparr>) (apiKeys s)\<rparr>)"
  by (simp add: andThen_def updateApiKey_def Let_def)

lemma andThen_setRateWindow [simp]:
  "andThen (setRateWindow aid w) f s = f () (s\<lparr>rateWindows := (rateWindows s)(aid \<mapsto> w)\<rparr>)"
  by (simp add: setRateWindow_def)

text \<open>Inserts inside a handler.\<close>

lemma andThen_insertResource:
  "andThen (insertResource E r) f s =
     (let s' = s\<lparr>nextId := nextId s + 1\<rparr>;
          row = r\<lparr>res_id := newUuid E (nextId s), res_createdAt := clock s, res_updatedAt := clock s\<rparr>
      in if \<not> fits 128 (res_walletId r) then (Inl (ValueTooLong ''resources''), s')
         else if \<exists>x\<in>set (resources s).
                   res_service x = res_service r \<and> res_walletId x = res_walletId r
         then (Inl (UniqueViolation ''resources.service''), s')
         else f row (s'\<lparr>resources := resources s @ [row]\<rparr>))"
  by (auto simp: andThen_def insertResource_def freshId_run Let_def)

lemma andThen_insertApiKey:
  "andThen (insertApiKey E k) f s =
     (let s' = s\<lparr>nextId := nextId s + 1\<rparr>;
          row = k\<lparr>key_id := newUuid E (nextId s), key_createdAt := clock s, key_updatedAt := clock s\<rparr>
      in if \<not> (fits 32 (key_prefix k) \<and> fits 128 (key_keyHash k) \<and> fitsOpt 80 (key_name k))
         then (Inl (ValueTooLong ''api_keys''), s')
         else f row (s'\<lparr>apiKeys := apiKeys s @ [row]\<rparr>))"
  by (simp add: andThen_def insertApiKey_def freshId_run Let_def)

lemma andThen_insertAccount:
  "andThen (insertAccount E a) f s =
     (let s' = s\<lparr>nextId := nextId s + 1\<rparr>;
          row = a\<lparr>acc_id := newUuid E (nextId s), acc_createdAt := clock s, acc_updatedAt := clock s\<rparr>
      in if \<not> (fits 160 (acc_name a) \<and> fitsOpt 255 (acc_email a))
         then (Inl (ValueTooLong ''accounts''), s')
         else if acc_email a \<noteq> None \<and> (\<exists>x\<in>set (accounts s). acc_email x = acc_email a)
         then (Inl (UniqueViolation ''accounts.email''), s')
         else f row (s'\<lparr>accounts := accounts s @ [row]\<rparr>))"
  by (simp add: andThen_def insertAccount_def freshId_run Let_def)

lemma andThen_insertIdentity:
  "andThen (insertIdentity E i) f s =
     (let s' = s\<lparr>nextId := nextId s + 1\<rparr>;
          row = i\<lparr>idn_id := newUuid E (nextId s), idn_createdAt := clock s, idn_updatedAt := clock s\<rparr>
      in if \<not> (fits 255 (idn_providerSubject i) \<and> fitsOpt 255 (idn_email i) \<and>
                fitsOpt 160 (idn_displayName i))
         then (Inl (ValueTooLong ''account_identities''), s')
         else if \<exists>x\<in>set (identities s).
              idn_provider x = idn_provider i \<and> idn_providerSubject x = idn_providerSubject i
         then (Inl (UniqueViolation ''account_identities.provider''), s')
         else f row (s'\<lparr>identities := identities s @ [row]\<rparr>))"
  by (auto simp: andThen_def insertIdentity_def freshId_run Let_def)

lemma andThen_insertProduct:
  "andThen (insertProduct E p) f s =
     (let s' = s\<lparr>nextId := nextId s + 1\<rparr>;
          row = p\<lparr>prod_id := newUuid E (nextId s), prod_createdAt := clock s, prod_updatedAt := clock s\<rparr>
      in if \<not> fits 160 (prod_name p) then (Inl (ValueTooLong ''products''), s')
         else f row (s'\<lparr>products := products s @ [row]\<rparr>))"
  by (simp add: andThen_def insertProduct_def freshId_run Let_def)

lemma andThen_insertSubscription [simp]:
  "andThen (insertSubscription E b) f s =
     f (b\<lparr>sub_id := newUuid E (nextId s), sub_createdAt := clock s, sub_updatedAt := clock s\<rparr>)
       (snd (insertSubscription E b s))"
  by (simp add: andThen_def insertSubscription_run Let_def)

lemmas insert_steps =
  andThen_insertAccount andThen_insertIdentity andThen_insertProduct andThen_insertResource andThen_insertApiKey

lemmas insert_defs =
  insertAccount_def insertIdentity_def insertProduct_def insertResource_def insertApiKey_def
  insertSubscription_def insertPaymentEvent_def insertUsage_def

lemmas update_defs =
  updateAccount_def updateIdentity_def updateProduct_def updateResource_def updateApiKey_def
  updateUsage_def setRateWindow_def

end
