(* ===== verification/PaymentPort.thy ===== *)
theory PaymentPort
  imports BillingDb
begin

text \<open>
  The port to the payment gateways (\<^verbatim>\<open>payment/payment-provider.ts\<close>) and the only
  implementation of the repository (\<^verbatim>\<open>payment/manual.provider.ts\<close>). The billing
  service holds a provider as a record of its operations; what it relies on is the locale
  \<open>payment_provider\<close>, which the manual provider satisfies.
\<close>

section \<open>The port\<close>

text \<open>
  The event type of a parsed webhook is whatever string the payload carried: the cast of the
  source does not check it.
\<close>

record normalizedPaymentEvent =
  nev_type :: string
  nev_accountId :: "string option"
  nev_externalId :: "string option"
  nev_plan :: "string option"
  nev_raw :: json

record checkoutResult =
  chk_url :: "string option"
  chk_externalId :: "string option"

type_synonym headers = "string \<Rightarrow> string list"

record paymentProvider =
  pp_name :: string
  pp_createCheckout :: "string \<Rightarrow> planId \<Rightarrow> checkoutResult"
  pp_parseWebhook :: "headers \<Rightarrow> json \<Rightarrow> normalizedPaymentEvent"

section \<open>The manual provider\<close>

text \<open>\<open>String(v)\<close> of a JSON value.\<close>

fun jsonToString :: "json \<Rightarrow> string" where
  "jsonToString JNull = ''null''"
| "jsonToString (JBool b) = (if b then ''true'' else ''false'')"
| "jsonToString (JNum i) = intStr i"
| "jsonToString (JStr s) = s"
| "jsonToString (JArr vs) =
     joinWith '','' (map (\<lambda>v. if v = JNull then [] else jsonToString v) vs)"
| "jsonToString (JObj _) = ''[object Object]''"

definition manualCheckout :: "string \<Rightarrow> planId \<Rightarrow> checkoutResult" where
  "manualCheckout accountId plan =
     \<lparr>chk_url = None,
      chk_externalId = Some (''manual_'' @ accountId @ ''_'' @ planIdStr plan)\<rparr>"

definition manualParseWebhook :: "headers \<Rightarrow> json \<Rightarrow> normalizedPaymentEvent" where
  "manualParseWebhook hdrs body =
     (let payload = (if body = JNull then JObj [] else body);
          typ = (case jsonField ''type'' payload of
                   None \<Rightarrow> ''payment.succeeded''
                 | Some JNull \<Rightarrow> ''payment.succeeded''
                 | Some v \<Rightarrow> jsonToString v);
          rawPlan = Option.bind (jsonField ''plan'' payload) jsonStr;
          plan = (case rawPlan of
                    None \<Rightarrow> None
                  | Some p \<Rightarrow>
                      if p \<noteq> [] \<and> (isPlanId p \<noteq> None \<or> p = ''paid'')
                      then Some (planIdStr (normalizePlanId p)) else None)
      in \<lparr>nev_type = typ,
          nev_accountId = Option.bind (jsonField ''accountId'' payload) jsonStr,
          nev_externalId = Option.bind (jsonField ''externalId'' payload) jsonStr,
          nev_plan = plan,
          nev_raw = payload\<rparr>)"

definition ManualPaymentProvider :: paymentProvider where
  "ManualPaymentProvider =
     \<lparr>pp_name = ''manual'', pp_createCheckout = manualCheckout,
      pp_parseWebhook = manualParseWebhook\<rparr>"

section \<open>What the billing service relies on\<close>

locale payment_provider =
  fixes parse :: "headers \<Rightarrow> json \<Rightarrow> normalizedPaymentEvent"
    and checkout :: "string \<Rightarrow> planId \<Rightarrow> checkoutResult"
  assumes parsed_plan: "nev_plan (parse h b) = Some p \<Longrightarrow> \<exists>q. p = planIdStr q"
    and checkout_named: "chk_url (checkout aid q) = None \<Longrightarrow> chk_externalId (checkout aid q) \<noteq> None"
begin

text \<open>The plan of an event is a catalogue plan: normalising it loses nothing.\<close>

lemma parsed_plan_normal:
  "nev_plan (parse h b) = Some p \<Longrightarrow> planIdStr (normalizePlanId p) = p"
  using parsed_plan by fastforce

lemma parsed_plan_not_alias: "nev_plan (parse h b) \<noteq> Some ''paid''"
  using parsed_plan planIdStr_not_paid by metis

end

interpretation manualProvider: payment_provider manualParseWebhook manualCheckout
  by unfold_locales
    (auto simp: manualParseWebhook_def manualCheckout_def Let_def split: option.splits if_splits)

lemma manualParseWebhook_headers: "manualParseWebhook h b = manualParseWebhook h' b"
  by (simp add: manualParseWebhook_def)

lemma ManualPaymentProvider_simps [simp]:
  "pp_name ManualPaymentProvider = ''manual''"
  "pp_createCheckout ManualPaymentProvider = manualCheckout"
  "pp_parseWebhook ManualPaymentProvider = manualParseWebhook"
  by (simp_all add: ManualPaymentProvider_def)

end
