(* ===== verification/Accounts.thy ===== *)
theory Accounts
  imports BillingStore PaymentPort
begin

text \<open>
  Accounts of the billing service (\<^verbatim>\<open>billing/billing.service.ts\<close>): registration,
  login with password, login or registration through an OAuth identity, status and quota
  overrides, and the public view of an account.
\<close>

section \<open>Operations\<close>

record accountView =
  view_id :: string
  view_name :: string
  view_email :: "string option"
  view_plan :: string
  view_status :: accountStatus
  view_maxProducts :: int
  view_rateLimitRpm :: int
  view_monthlyTxQuota :: int
  view_createdAt :: millis
  view_updatedAt :: millis

definition toAccountView :: "account \<Rightarrow> accountView" where
  "toAccountView a =
     \<lparr>view_id = acc_id a, view_name = acc_name a, view_email = acc_email a,
      view_plan = acc_plan a, view_status = acc_status a,
      view_maxProducts = acc_maxProducts a, view_rateLimitRpm = acc_rateLimitRpm a,
      view_monthlyTxQuota = acc_monthlyTxQuota a,
      view_createdAt = acc_createdAt a, view_updatedAt = acc_updatedAt a\<rparr>"

definition requireAccount :: "string \<Rightarrow> account billing" where
  "requireAccount accountId =
     andThen (gets (\<lambda>s. rowAt acc_id accountId (accounts s)))
       (\<lambda>r. orThrow r AccountNotFound)"

definition listAccounts :: "account list billing" where
  "listAccounts = gets (\<lambda>s. sort_key (\<lambda>a. - acc_createdAt a) (accounts s))"

definition getAccount :: "string \<Rightarrow> account billing" where
  "getAccount accountId = requireAccount accountId"

definition getAccountPublic :: "string \<Rightarrow> accountView billing" where
  "getAccountPublic accountId =
     andThen (requireAccount accountId) (\<lambda>account. ret (toAccountView account))"

text \<open>The entities \<open>create\<close> builds; identifier and dates are filled in by the insert.\<close>

definition freeAccount ::
  "string \<Rightarrow> string option \<Rightarrow> string option \<Rightarrow> account" where
  "freeAccount name email passwordHash =
     (let plan = resolvePlan ''free'' in
      \<lparr>acc_id = [], acc_name = name, acc_email = email, acc_passwordHash = passwordHash,
       acc_plan = planIdStr (plan_id plan), acc_status = AccActive,
       acc_maxProducts = plan_maxProducts plan, acc_rateLimitRpm = plan_rateLimitRpm plan,
       acc_monthlyTxQuota = plan_monthlyTxQuota plan, acc_createdAt = 0, acc_updatedAt = 0\<rparr>)"

definition activeSubscription :: "paymentProvider \<Rightarrow> string \<Rightarrow> string \<Rightarrow> subscription" where
  "activeSubscription P accountId plan =
     \<lparr>sub_id = [], sub_accountId = accountId, sub_provider = pp_name P,
      sub_externalId = None, sub_status = SubActive, sub_plan = plan,
      sub_createdAt = 0, sub_updatedAt = 0\<rparr>"

definition findByEmail :: "string \<Rightarrow> account list \<Rightarrow> account option" where
  "findByEmail email rows = find (\<lambda>a. acc_email a = Some email) rows"

definition register ::
  "env \<Rightarrow> paymentProvider \<Rightarrow> string \<Rightarrow> string \<Rightarrow> string \<Rightarrow> accountView billing" where
  "register E P name emailIn password =
     (let email = toLowerCase (trim emailIn) in
      andThen (gets (\<lambda>s. findByEmail email (accounts s))) (\<lambda>existing.
      andThen (throwIf (existing \<noteq> None) EmailTaken) (\<lambda>_.
      andThen (hashPassword E password) (\<lambda>hash.
      andThen (insertAccount E (freeAccount (trim name) (Some email) (Some hash))) (\<lambda>account.
      andThen (insertSubscription E (activeSubscription P (acc_id account) (acc_plan account)))
        (\<lambda>_. ret (toAccountView account)))))))"

definition login :: "env \<Rightarrow> string \<Rightarrow> string \<Rightarrow> account billing" where
  "login E emailIn password =
     (let email = toLowerCase (trim emailIn) in
      andThen (gets (\<lambda>s. findByEmail email (accounts s))) (\<lambda>account.
        case account of
          None \<Rightarrow> throw BadCredentials
        | Some a \<Rightarrow>
            (case acc_passwordHash a of
               None \<Rightarrow> throw BadCredentials
             | Some stored \<Rightarrow>
                 if stored = [] \<or> \<not> verifyPassword E password stored then throw BadCredentials
                 else if acc_status a = AccSuspended then throw AccountSuspended
                 else ret a)))"

record oauthProfile =
  prof_provider :: oauthProvider
  prof_subject :: string
  prof_email :: "string option"
  prof_name :: "string option"
  prof_emailVerified :: "bool option"

fun providerStr :: "oauthProvider \<Rightarrow> string" where
  "providerStr Google = ''google''"
| "providerStr Github = ''github''"

text \<open>\<open>profile.email?.trim().toLowerCase() || null\<close>.\<close>

definition oauthEmail :: "oauthProfile \<Rightarrow> string option" where
  "oauthEmail profile =
     (case prof_email profile of
        None \<Rightarrow> None
      | Some e \<Rightarrow> (let e' = toLowerCase (trim e) in if e' = [] then None else Some e'))"

definition oauthName :: "oauthProfile \<Rightarrow> string" where
  "oauthName profile =
     (let fallback = providerStr (prof_provider profile) @ ''-'' @ take 8 (prof_subject profile);
          local = (case oauthEmail profile of
                     None \<Rightarrow> []
                   | Some e \<Rightarrow> (case splitOn (CHR ''@'') e of w # _ \<Rightarrow> w | [] \<Rightarrow> []));
          given = (case prof_name profile of None \<Rightarrow> [] | Some n \<Rightarrow> trim n)
      in if given \<noteq> [] then given else if local \<noteq> [] then local else fallback)"

definition findIdentity :: "oauthProfile \<Rightarrow> accountIdentity list \<Rightarrow> accountIdentity option" where
  "findIdentity profile rows =
     find (\<lambda>i. idn_provider i = prof_provider profile \<and>
               idn_providerSubject i = prof_subject profile) rows"

definition identityOf :: "oauthProfile \<Rightarrow> string \<Rightarrow> accountIdentity" where
  "identityOf profile accountId =
     \<lparr>idn_id = [], idn_accountId = accountId, idn_provider = prof_provider profile,
      idn_providerSubject = prof_subject profile, idn_email = oauthEmail profile,
      idn_displayName = prof_name profile, idn_createdAt = 0, idn_updatedAt = 0\<rparr>"

text \<open>The identity is known: refresh its e-mail, unless the account is suspended.\<close>

definition oauthKnown :: "oauthProfile \<Rightarrow> accountIdentity \<Rightarrow> accountView billing" where
  "oauthKnown profile idn =
     andThen (requireAccount (idn_accountId idn)) (\<lambda>account.
     andThen (throwIf (acc_status account = AccSuspended) AccountSuspended) (\<lambda>_.
     andThen
       (if (case prof_email profile of None \<Rightarrow> False | Some e \<Rightarrow> e \<noteq> []) \<and>
           (case idn_email idn of None \<Rightarrow> True | Some e \<Rightarrow> e = [])
        then andThen (updateIdentity (idn\<lparr>idn_email := prof_email profile\<rparr>)) (\<lambda>_. ret ())
        else ret ())
       (\<lambda>_. ret (toAccountView account))))"

text \<open>The identity is new: link it by verified e-mail, or to a fresh free account.\<close>

definition oauthAccount ::
  "env \<Rightarrow> paymentProvider \<Rightarrow> oauthProfile \<Rightarrow> account option \<Rightarrow> account billing" where
  "oauthAccount E P profile linked =
     (case linked of
        None \<Rightarrow>
          andThen (insertAccount E (freeAccount (oauthName profile) (oauthEmail profile) None))
            (\<lambda>account.
          andThen (insertSubscription E
                     (activeSubscription P (acc_id account) (acc_plan account)))
            (\<lambda>_. ret account))
      | Some account \<Rightarrow>
          if acc_status account = AccSuspended then throw AccountSuspended else ret account)"

definition oauthNew :: "env \<Rightarrow> paymentProvider \<Rightarrow> oauthProfile \<Rightarrow> accountView billing" where
  "oauthNew E P profile =
     andThen (gets (\<lambda>s.
       case oauthEmail profile of
         None \<Rightarrow> None
       | Some e \<Rightarrow>
           if prof_emailVerified profile \<noteq> Some False then findByEmail e (accounts s) else None))
       (\<lambda>linked.
     andThen (oauthAccount E P profile linked) (\<lambda>account.
     andThen (insertIdentity E (identityOf profile (acc_id account)))
       (\<lambda>_. ret (toAccountView account))))"

definition findOrCreateFromOAuth ::
  "env \<Rightarrow> paymentProvider \<Rightarrow> oauthProfile \<Rightarrow> accountView billing" where
  "findOrCreateFromOAuth E P profile =
     andThen (gets (\<lambda>s. findIdentity profile (identities s))) (\<lambda>existing.
       case existing of
         Some idn \<Rightarrow> oauthKnown profile idn
       | None \<Rightarrow> oauthNew E P profile)"

definition setAccountStatus :: "string \<Rightarrow> accountStatus \<Rightarrow> account billing" where
  "setAccountStatus accountId status =
     andThen (requireAccount accountId) (\<lambda>account.
       updateAccount (account\<lparr>acc_status := status\<rparr>))"

record quotaInput =
  quo_maxProducts :: "int jsOpt"
  quo_rateLimitRpm :: "int jsOpt"
  quo_monthlyTxQuota :: "int jsOpt"

text \<open>An absent quota is kept; \<open>null\<close> is refused by the column.\<close>

definition setQuota :: "string \<Rightarrow> quotaInput \<Rightarrow> account billing" where
  "setQuota accountId input =
     andThen (requireAccount accountId) (\<lambda>account.
     andThen (throwIf (quo_maxProducts input = Null \<or> quo_rateLimitRpm input = Null \<or>
                       quo_monthlyTxQuota input = Null) (NotNullViolation ''accounts'')) (\<lambda>_.
       updateAccount (account\<lparr>
         acc_maxProducts := coalesce (nullish (quo_maxProducts input)) (acc_maxProducts account),
         acc_rateLimitRpm := coalesce (nullish (quo_rateLimitRpm input)) (acc_rateLimitRpm account),
         acc_monthlyTxQuota :=
           coalesce (nullish (quo_monthlyTxQuota input)) (acc_monthlyTxQuota account)\<rparr>)))"

lemma requireAccount_run [op_simps]:
  "requireAccount aid s =
     (case rowAt acc_id aid (accounts s) of
        None \<Rightarrow> (Inl AccountNotFound, s) | Some a \<Rightarrow> (Inr a, s))"
  by (simp add: requireAccount_def op_simps)

lemma andThen_requireAccount [simp]:
  "andThen (requireAccount aid) f s =
     (case rowAt acc_id aid (accounts s) of None \<Rightarrow> (Inl AccountNotFound, s) | Some a \<Rightarrow> f a s)"
  by (simp add: requireAccount_def andThen_assoc)

end
