(* ===== verification/Products.thy ===== *)
theory Products
  imports Accounts
begin

text \<open>
  Products, resources and API keys of the billing service
  (\<^verbatim>\<open>billing/billing.service.ts\<close>), with the remote provisioning of the tenant
  (\<^verbatim>\<open>billing/tenant-provisioner.ts\<close>). The HTTP client is a parameter: a call
  may change the billing store meanwhile, since the service that is called asks billing to
  validate and meter the new API key.
\<close>

section \<open>Tenant provisioning\<close>

text \<open>
  A call fails, answers with a status and a text, or answers with a status while the text of the
  answer cannot be read.
\<close>

datatype fetchResult = NetworkError | Response int string | BodyFailure int

type_synonym remote = "string \<Rightarrow> string \<Rightarrow> json \<Rightarrow> db \<Rightarrow> fetchResult \<times> db"

record provisionConfig =
  cfg_provisionOnCreate :: bool
  cfg_issuerUrl :: string
  cfg_verifierUrl :: string

definition provisionBody :: "resourceService \<Rightarrow> string \<Rightarrow> json" where
  "provisionBody service walletId =
     (if service = Issuer
      then JObj
        [(''issuerId'', JStr walletId),
         (''oid4vc'', JObj
            [(''display'', JArr [JObj [(''name'', JStr walletId), (''locale'', JStr ''es'')]]),
             (''dpopSigningAlgValuesSupported'', JArr [JStr ''ES256'']),
             (''credentialConfigurationsSupported'', JObj [])])]
      else JObj
        [(''verifierId'', JStr walletId),
         (''oid4vp'', JObj
            [(''clientMetadata'', JObj [(''client_name'', JStr walletId)])])])"

definition responseOk :: "int \<Rightarrow> bool" where
  "responseOk status \<longleftrightarrow> 200 \<le> status \<and> status < 300"

definition provision ::
  "provisionConfig \<Rightarrow> remote \<Rightarrow> resourceService \<Rightarrow> string \<Rightarrow> string \<Rightarrow> unit billing" where
  "provision cfg fetch service walletId key =
     (if \<not> cfg_provisionOnCreate cfg then ret ()
      else
        let base = dropTrailingSlash
                     (if service = Issuer then cfg_issuerUrl cfg else cfg_verifierUrl cfg);
            path = (if service = Issuer then ''/v1/issuers'' else ''/v1/verifiers'')
        in if base = [] then throw (ProvisionUrlMissing service)
           else (\<lambda>s.
             case fetch (base @ path) key (provisionBody service walletId) s of
               (NetworkError, s') \<Rightarrow> (Inl (ProvisionUnreachable service), s')
             | (BodyFailure status, s') \<Rightarrow> (Inl ProvisionUnreadable, s')
             | (Response status txt, s') \<Rightarrow>
                 if \<not> responseOk status \<and> status \<noteq> 409
                 then (Inl (ProvisionFailed service status (take 300 txt)), s')
                 else (Inr (), s')))"

section \<open>Products\<close>

definition activeProducts :: "string \<Rightarrow> db \<Rightarrow> product list" where
  "activeProducts accountId s =
     sort_key prod_createdAt
       (filter (\<lambda>p. prod_accountId p = accountId \<and> prod_status p = ProdActive) (products s))"

definition resourcesOf :: "string \<Rightarrow> db \<Rightarrow> resource list" where
  "resourcesOf productId s = filter (\<lambda>r. res_productId r = productId) (resources s)"

definition requireOwnedProduct :: "string \<Rightarrow> string \<Rightarrow> product billing" where
  "requireOwnedProduct accountId productId =
     andThen (gets (\<lambda>s. find (\<lambda>p. prod_id p = productId \<and> prod_accountId p = accountId \<and>
                                  prod_status p = ProdActive) (products s)))
       (\<lambda>r. orThrow r ProductNotFound)"

definition requireOwnedResource :: "string \<Rightarrow> string \<Rightarrow> resource billing" where
  "requireOwnedResource accountId resourceId =
     andThen (gets (\<lambda>s. rowAt res_id resourceId (resources s))) (\<lambda>r.
       case r of
         None \<Rightarrow> throw ResourceNotFound
       | Some resource \<Rightarrow>
           andThen (gets (\<lambda>s. rowAt prod_id (res_productId resource) (products s))) (\<lambda>p.
             case p of
               None \<Rightarrow> throw NullDereference
             | Some product \<Rightarrow>
                 if prod_accountId product \<noteq> accountId then throw ResourceNotFound
                 else ret resource))"

definition assertProductQuota :: "account \<Rightarrow> unit billing" where
  "assertProductQuota account =
     andThen (gets (\<lambda>s. countWhere
        (\<lambda>p. prod_accountId p = acc_id account \<and> prod_status p = ProdActive) (products s)))
       (\<lambda>count. throwIf (acc_maxProducts account \<le> int count)
                   (ProductQuotaReached (acc_maxProducts account)))"

definition suspendResource :: "resource \<Rightarrow> unit billing" where
  "suspendResource r = andThen (updateResource (r\<lparr>res_status := ResSuspended\<rparr>)) (\<lambda>_. ret ())"

text \<open>Archive one product, then suspend the resources it was loaded with.\<close>

definition archiveWith :: "product \<times> resource list \<Rightarrow> unit billing" where
  "archiveWith x =
     andThen (updateProduct ((fst x)\<lparr>prod_status := ProdArchived\<rparr>)) (\<lambda>_.
       forEach (snd x) suspendResource)"

definition enforceProductQuota :: "string \<Rightarrow> int \<Rightarrow> unit billing" where
  "enforceProductQuota accountId maxProducts =
     andThen (gets (\<lambda>s. map (\<lambda>p. (p, resourcesOf (prod_id p) s))
                          (drop (nat (max 0 maxProducts)) (activeProducts accountId s))))
       (\<lambda>extras. forEach extras archiveWith)"

definition setPlan :: "env \<Rightarrow> paymentProvider \<Rightarrow> string \<Rightarrow> string \<Rightarrow> account billing" where
  "setPlan E P accountId planInput =
     andThen (requireAccount accountId) (\<lambda>account.
       let planId = normalizePlanId planInput; plan = resolvePlan (planIdStr planId) in
       andThen (updateAccount (account\<lparr>
           acc_plan := planIdStr planId, acc_maxProducts := plan_maxProducts plan,
           acc_rateLimitRpm := plan_rateLimitRpm plan,
           acc_monthlyTxQuota := plan_monthlyTxQuota plan\<rparr>)) (\<lambda>saved.
       andThen (enforceProductQuota accountId (acc_maxProducts saved)) (\<lambda>_.
       andThen (insertSubscription E (activeSubscription P accountId (planIdStr planId)))
         (\<lambda>_. ret saved))))"

record resourceCreated =
  rc_resource :: resource
  rc_apiKey :: string
  rc_prefix :: string

definition newApiKey :: "string \<Rightarrow> string \<Rightarrow> string \<Rightarrow> string \<Rightarrow> apiKey" where
  "newApiKey resourceId pfx keyHash name =
     \<lparr>key_id = [], key_resourceId = resourceId, key_prefix = pfx, key_keyHash = keyHash,
      key_name = Some name, key_revokedAt = None, key_lastUsedAt = None,
      key_createdAt = 0, key_updatedAt = 0\<rparr>"

fun serviceStr :: "resourceService \<Rightarrow> string" where
  "serviceStr Issuer = ''issuer''"
| "serviceStr Verifier = ''verifier''"

definition createResourceInternal ::
  "env \<Rightarrow> string \<Rightarrow> resourceService \<Rightarrow> string \<Rightarrow> string option \<Rightarrow> resourceCreated billing" where
  "createResourceInternal E productId service walletId keyName =
     andThen (throwIf (\<not> walletIdValid walletId) BadWalletId) (\<lambda>_.
     andThen (gets (\<lambda>s. find (\<lambda>r. res_service r = service \<and> res_walletId r = walletId)
                          (resources s))) (\<lambda>existing.
     andThen (throwIf (existing \<noteq> None) (ResourceExists service walletId)) (\<lambda>_.
     andThen (insertResource E
        \<lparr>res_id = [], res_productId = productId, res_service = service,
         res_walletId = walletId, res_status = ResPending,
         res_createdAt = 0, res_updatedAt = 0\<rparr>) (\<lambda>resource.
     andThen (generateApiKey E service) (\<lambda>(raw, pfx).
     andThen (insertApiKey E (newApiKey (res_id resource) pfx (hashApiKey E raw)
        (coalesce keyName (serviceStr service @ ''-'' @ walletId)))) (\<lambda>_.
     ret \<lparr>rc_resource = resource, rc_apiKey = raw, rc_prefix = pfx\<rparr>))))))"

definition markResourceActive :: "string \<Rightarrow> resource billing" where
  "markResourceActive resourceId =
     andThen (gets (\<lambda>s. rowAt res_id resourceId (resources s))) (\<lambda>r.
     andThen (orThrow r ResourceNotFound) (\<lambda>resource.
       updateResource (resource\<lparr>res_status := ResActive\<rparr>)))"

record productCreated =
  pc_product :: product
  pc_resource :: resource
  pc_apiKey :: string
  pc_prefix :: string

record createProductInput =
  cpi_accountId :: string
  cpi_name :: string
  cpi_description :: "string option"
  cpi_service :: resourceService
  cpi_walletId :: string

definition newProduct :: "string \<Rightarrow> createProductInput \<Rightarrow> product" where
  "newProduct accountId input =
     \<lparr>prod_id = [], prod_accountId = accountId, prod_name = trim (cpi_name input),
      prod_description = cpi_description input, prod_status = ProdActive,
      prod_createdAt = 0, prod_updatedAt = 0\<rparr>"

text \<open>The \<open>try\<close> block: provision, then activate; on any error drop the product.\<close>

definition provisionOrRollback ::
  "provisionConfig \<Rightarrow> remote \<Rightarrow> createProductInput \<Rightarrow> product \<Rightarrow> resourceCreated
    \<Rightarrow> productCreated billing" where
  "provisionOrRollback cfg fetch input product created =
     catching
       (andThen (provision cfg fetch (cpi_service input) (cpi_walletId input) (rc_apiKey created))
          (\<lambda>_.
        andThen (markResourceActive (res_id (rc_resource created))) (\<lambda>active.
        ret \<lparr>pc_product = product, pc_resource = active,
             pc_apiKey = rc_apiKey created, pc_prefix = rc_prefix created\<rparr>)))
       (\<lambda>err. andThen (deleteProduct (prod_id product)) (\<lambda>_. throw err))"

definition createProduct ::
  "env \<Rightarrow> provisionConfig \<Rightarrow> remote \<Rightarrow> createProductInput \<Rightarrow> productCreated billing" where
  "createProduct E cfg fetch input =
     andThen (requireAccount (cpi_accountId input)) (\<lambda>account.
     andThen (throwIf (acc_status account \<noteq> AccActive) AccountInactive) (\<lambda>_.
     andThen (assertProductQuota account) (\<lambda>_.
     andThen (insertProduct E (newProduct (acc_id account) input)) (\<lambda>product.
     andThen (createResourceInternal E (prod_id product) (cpi_service input)
                (cpi_walletId input) None) (\<lambda>created.
     provisionOrRollback cfg fetch input product created)))))"

definition archiveProduct :: "string \<Rightarrow> string \<Rightarrow> unit billing" where
  "archiveProduct accountId productId =
     andThen (requireOwnedProduct accountId productId) (\<lambda>product.
     andThen (updateProduct (product\<lparr>prod_status := ProdArchived\<rparr>)) (\<lambda>_.
     andThen (gets (resourcesOf productId)) (\<lambda>rs. forEach rs suspendResource)))"

text \<open>\<open>input.name.trim()\<close> of a \<open>null\<close> name raises.\<close>

definition patchProduct ::
  "string \<Rightarrow> string \<Rightarrow> string jsOpt \<Rightarrow> string jsOpt \<Rightarrow> product billing" where
  "patchProduct accountId productId name description =
     andThen (requireOwnedProduct accountId productId) (\<lambda>product.
     andThen (throwIf (name = Null) NullDereference) (\<lambda>_.
     andThen (throwIf (\<not> fitsOpt 160 (map_option trim (nullish name))) (ValueTooLong ''products''))
       (\<lambda>_.
       updateProduct (product\<lparr>
         prod_name := (case name of Val n \<Rightarrow> trim n | _ \<Rightarrow> prod_name product),
         prod_description := (case description of
                                Undefined \<Rightarrow> prod_description product
                              | Null \<Rightarrow> None
                              | Val d \<Rightarrow> Some d)\<rparr>))))"

section \<open>API keys\<close>

definition liveKeysOf :: "string \<Rightarrow> db \<Rightarrow> apiKey list" where
  "liveKeysOf resourceId s =
     filter (\<lambda>k. key_resourceId k = resourceId \<and> key_revokedAt k = None) (apiKeys s)"

text \<open>\<open>key.revokedAt = new Date(); save(key)\<close>.\<close>

definition stampRevoked :: "apiKey \<Rightarrow> unit billing" where
  "stampRevoked k =
     andThen (gets clock) (\<lambda>now.
     andThen (updateApiKey (k\<lparr>key_revokedAt := Some now\<rparr>)) (\<lambda>_. ret ()))"

definition rotateApiKey ::
  "env \<Rightarrow> string \<Rightarrow> string option \<Rightarrow> (string \<times> string) billing" where
  "rotateApiKey E resourceId keyName =
     andThen (gets (\<lambda>s. rowAt res_id resourceId (resources s))) (\<lambda>r.
     andThen (orThrow r ResourceNotFound) (\<lambda>resource.
     andThen (gets (liveKeysOf resourceId)) (\<lambda>activeKeys.
     andThen (forEach activeKeys stampRevoked) (\<lambda>_.
     andThen (generateApiKey E (res_service resource)) (\<lambda>(raw, pfx).
     andThen (insertApiKey E (newApiKey resourceId pfx (hashApiKey E raw)
        (coalesce keyName (''rotated-'' @ res_walletId resource)))) (\<lambda>_.
     ret (raw, pfx)))))))"

definition rotateApiKeyForAccount ::
  "env \<Rightarrow> string \<Rightarrow> string \<Rightarrow> string option \<Rightarrow> (string \<times> string) billing" where
  "rotateApiKeyForAccount E accountId resourceId keyName =
     andThen (requireOwnedResource accountId resourceId) (\<lambda>_.
       rotateApiKey E resourceId keyName)"

definition revokeApiKey :: "string \<Rightarrow> unit billing" where
  "revokeApiKey apiKeyId =
     andThen (gets (\<lambda>s. rowAt key_id apiKeyId (apiKeys s))) (\<lambda>r.
     andThen (orThrow r ApiKeyNotFound) stampRevoked)"

text \<open>The product a key belongs to, through its resource.\<close>

definition productOfKey :: "apiKey \<Rightarrow> db \<Rightarrow> product option" where
  "productOfKey k s =
     Option.bind (rowAt res_id (key_resourceId k) (resources s))
       (\<lambda>r. rowAt prod_id (res_productId r) (products s))"

definition revokeApiKeyForAccount :: "string \<Rightarrow> string \<Rightarrow> unit billing" where
  "revokeApiKeyForAccount accountId apiKeyId =
     andThen (gets (\<lambda>s. rowAt key_id apiKeyId (apiKeys s))) (\<lambda>r.
     andThen (orThrow r ApiKeyNotFound) (\<lambda>key.
     andThen (gets (productOfKey key)) (\<lambda>p.
     andThen (orThrow p NullDereference) (\<lambda>product.
     andThen (throwIf (prod_accountId product \<noteq> accountId) ApiKeyForeign) (\<lambda>_.
     stampRevoked key)))))"

section \<open>Views\<close>

record apiKeyView =
  kv_id :: string
  kv_prefix :: string
  kv_name :: "string option"
  kv_lastUsedAt :: "millis option"
  kv_createdAt :: millis

record resourceView =
  rv_id :: string
  rv_service :: resourceService
  rv_walletId :: string
  rv_status :: resourceStatus
  rv_apiKeys :: "apiKeyView list"

record productView =
  pv_id :: string
  pv_name :: string
  pv_description :: "string option"
  pv_status :: productStatus
  pv_service :: "resourceService option"
  pv_walletId :: "string option"
  pv_resource :: "resourceView option"
  pv_createdAt :: millis
  pv_updatedAt :: millis

definition toApiKeyView :: "apiKey \<Rightarrow> apiKeyView" where
  "toApiKeyView k =
     \<lparr>kv_id = key_id k, kv_prefix = key_prefix k, kv_name = key_name k,
      kv_lastUsedAt = key_lastUsedAt k, kv_createdAt = key_createdAt k\<rparr>"

definition toResourceView :: "db \<Rightarrow> resource \<Rightarrow> resourceView" where
  "toResourceView s r =
     \<lparr>rv_id = res_id r, rv_service = res_service r, rv_walletId = res_walletId r,
      rv_status = res_status r,
      rv_apiKeys = map toApiKeyView
        (filter (\<lambda>k. key_revokedAt k = None)
          (filter (\<lambda>k. key_resourceId k = res_id r) (apiKeys s)))\<rparr>"

definition toProductView :: "db \<Rightarrow> product \<Rightarrow> productView" where
  "toProductView s p =
     (let resource = (case resourcesOf (prod_id p) s of [] \<Rightarrow> None | r # _ \<Rightarrow> Some r)
      in \<lparr>pv_id = prod_id p, pv_name = prod_name p, pv_description = prod_description p,
          pv_status = prod_status p,
          pv_service = map_option res_service resource,
          pv_walletId = map_option res_walletId resource,
          pv_resource = map_option (toResourceView s) resource,
          pv_createdAt = prod_createdAt p, pv_updatedAt = prod_updatedAt p\<rparr>)"

record productCreateResponse =
  pr_id :: string
  pr_name :: string
  pr_description :: "string option"
  pr_status :: productStatus
  pr_service :: resourceService
  pr_walletId :: string
  pr_resourceId :: string
  pr_resourceStatus :: resourceStatus
  pr_apiKey :: string
  pr_prefix :: string

definition toProductCreateResponse :: "productCreated \<Rightarrow> productCreateResponse" where
  "toProductCreateResponse created =
     (let r = pc_resource created; p = pc_product created
      in \<lparr>pr_id = prod_id p, pr_name = prod_name p, pr_description = prod_description p,
          pr_status = prod_status p, pr_service = res_service r, pr_walletId = res_walletId r,
          pr_resourceId = res_id r, pr_resourceStatus = res_status r,
          pr_apiKey = pc_apiKey created, pr_prefix = pc_prefix created\<rparr>)"

definition listProducts :: "string \<Rightarrow> productView list billing" where
  "listProducts accountId =
     andThen (requireAccount accountId) (\<lambda>_.
       gets (\<lambda>s. map (toProductView s) (activeProducts accountId s)))"

definition getProduct :: "string \<Rightarrow> string \<Rightarrow> productView billing" where
  "getProduct accountId productId =
     andThen (requireOwnedProduct accountId productId) (\<lambda>product.
     andThen (gets (\<lambda>s. (s, rowAt prod_id (prod_id product) (products s)))) (\<lambda>(s, full).
     andThen (orThrow full ProductNotFound) (\<lambda>p. ret (toProductView s p))))"

definition patchProductView ::
  "string \<Rightarrow> string \<Rightarrow> string jsOpt \<Rightarrow> string jsOpt \<Rightarrow> productView billing" where
  "patchProductView accountId productId name description =
     andThen (patchProduct accountId productId name description) (\<lambda>_.
       getProduct accountId productId)"

definition listProductResources :: "string \<Rightarrow> string \<Rightarrow> resourceView list billing" where
  "listProductResources accountId productId =
     andThen (requireOwnedProduct accountId productId) (\<lambda>product.
       gets (\<lambda>s. map (toResourceView s)
                   (sort_key res_createdAt (resourcesOf (prod_id product) s))))"

end
