(* ===== verification/Metering.thy ===== *)
theory Metering
  imports Products
begin

text \<open>
  Authorisation and metering of the billing service
  (\<^verbatim>\<open>billing/billing.service.ts\<close>): \<open>validateApiKey\<close> resolves a raw key to its
  account, product and resource and checks that each is usable, \<open>meter\<close> counts
  transactions against a one-minute window held in memory and a monthly quota held in the
  store, and \<open>validateAndMeter\<close> is the round trip the issuer and verifier guards make.
\<close>

section \<open>Operations\<close>

text \<open>The monthly period key \<open>YYYY-MM\<close>, in UTC.\<close>

definition currentPeriodKey :: "millis \<Rightarrow> string" where
  "currentPeriodKey now =
     intStr (utcFullYear now) @ ''-'' @ padStart2 (intStr (utcMonth now + 1))"

definition usageRow :: "string \<Rightarrow> string \<Rightarrow> usagePeriod list \<Rightarrow> usagePeriod option" where
  "usageRow accountId periodKey rows =
     find (\<lambda>u. use_accountId u = accountId \<and> use_periodKey u = periodKey) rows"

definition getMonthlyTxUsed :: "string \<Rightarrow> string \<Rightarrow> int billing" where
  "getMonthlyTxUsed accountId periodKey =
     gets (\<lambda>s. case usageRow accountId periodKey (usagePeriods s) of
                 None \<Rightarrow> 0 | Some u \<Rightarrow> use_txCount u)"

record usageView =
  uv_periodKey :: string
  uv_monthlyTxUsed :: int
  uv_monthlyTxQuota :: int
  uv_rateLimitRpm :: int
  uv_maxProducts :: int
  uv_plan :: string

definition getUsage :: "string \<Rightarrow> usageView billing" where
  "getUsage accountId =
     andThen (requireAccount accountId) (\<lambda>account.
     andThen (gets (\<lambda>s. currentPeriodKey (clock s))) (\<lambda>periodKey.
     andThen (getMonthlyTxUsed accountId periodKey) (\<lambda>used.
     ret \<lparr>uv_periodKey = periodKey, uv_monthlyTxUsed = used,
          uv_monthlyTxQuota = acc_monthlyTxQuota account,
          uv_rateLimitRpm = acc_rateLimitRpm account,
          uv_maxProducts = acc_maxProducts account, uv_plan = acc_plan account\<rparr>)))"

text \<open>
  The window an account is in: the stored one while it is younger than a minute, else a new
  one. A new window is stored even when the request is then refused.
\<close>

definition currentWindow :: "millis \<Rightarrow> rateWindow option \<Rightarrow> rateWindow" where
  "currentWindow now entry =
     (case entry of
        None \<Rightarrow> \<lparr>win_startMs = now, win_count = 0\<rparr>
      | Some w \<Rightarrow>
          if 60000 \<le> now - win_startMs w then \<lparr>win_startMs = now, win_count = 0\<rparr> else w)"

definition assertRateLimit :: "string \<Rightarrow> int \<Rightarrow> int \<Rightarrow> unit billing" where
  "assertRateLimit accountId rpm count =
     andThen (gets (\<lambda>s. currentWindow (clock s) (rateWindows s accountId))) (\<lambda>entry.
     andThen (setRateWindow accountId entry) (\<lambda>_.
     andThen (throwIf (rpm < win_count entry + count) (RateLimited rpm)) (\<lambda>_.
     setRateWindow accountId (entry\<lparr>win_count := win_count entry + count\<rparr>))))"

record validateApiKeyResult =
  val_accountId :: string
  val_accountStatus :: accountStatus
  val_plan :: string
  val_rateLimitRpm :: int
  val_monthlyTxQuota :: int
  val_monthlyTxUsed :: int
  val_maxProducts :: int
  val_productId :: string
  val_productName :: string
  val_resourceId :: string
  val_service :: resourceService
  val_walletId :: string
  val_resourceStatus :: resourceStatus
  val_apiKeyId :: string
  val_apiKeyPrefix :: string

text \<open>The key row with the relations \<open>resource.product.account\<close> it is loaded with.\<close>

definition keyContext :: "apiKey \<Rightarrow> db \<Rightarrow> (resource \<times> product \<times> account) option" where
  "keyContext k s =
     (case rowAt res_id (key_resourceId k) (resources s) of
        None \<Rightarrow> None
      | Some r \<Rightarrow>
          (case rowAt prod_id (res_productId r) (products s) of
             None \<Rightarrow> None
           | Some p \<Rightarrow> map_option (\<lambda>a. (r, p, a)) (rowAt acc_id (prod_accountId p) (accounts s))))"

definition findLiveKey :: "string \<Rightarrow> apiKey list \<Rightarrow> apiKey option" where
  "findLiveKey keyHash rows = find (\<lambda>k. key_keyHash k = keyHash \<and> key_revokedAt k = None) rows"

text \<open>The refusals, in the order the code makes them.\<close>

definition keyRefusal ::
  "resourceService \<Rightarrow> string option \<Rightarrow> resource \<Rightarrow> product \<Rightarrow> account \<Rightarrow> billingError option" where
  "keyRefusal service walletId r p a =
     (if acc_status a \<noteq> AccActive then Some AccountInactive
      else if prod_status p = ProdArchived then Some ProductArchivedError
      else if res_status r = ResSuspended then Some ResourceSuspendedError
      else if res_service r \<noteq> service then Some (WrongService (res_service r) service)
      else if (case walletId of None \<Rightarrow> False | Some w \<Rightarrow> w \<noteq> [] \<and> w \<noteq> res_walletId r)
        then Some WrongWallet
      else None)"

definition validateResult ::
  "apiKey \<Rightarrow> resource \<Rightarrow> product \<Rightarrow> account \<Rightarrow> int \<Rightarrow> validateApiKeyResult" where
  "validateResult k r p a used =
     \<lparr>val_accountId = acc_id a, val_accountStatus = acc_status a, val_plan = acc_plan a,
      val_rateLimitRpm = acc_rateLimitRpm a, val_monthlyTxQuota = acc_monthlyTxQuota a,
      val_monthlyTxUsed = used, val_maxProducts = acc_maxProducts a,
      val_productId = prod_id p, val_productName = prod_name p, val_resourceId = res_id r,
      val_service = res_service r, val_walletId = res_walletId r,
      val_resourceStatus = res_status r, val_apiKeyId = key_id k,
      val_apiKeyPrefix = key_prefix k\<rparr>"

definition validateApiKey ::
  "env \<Rightarrow> string \<Rightarrow> resourceService \<Rightarrow> string option \<Rightarrow> validateApiKeyResult billing" where
  "validateApiKey E rawKey service walletId =
     andThen (throwIf (trim rawKey = []) ApiKeyMissing) (\<lambda>_.
     andThen (gets (\<lambda>s. findLiveKey (hashApiKey E (trim rawKey)) (apiKeys s))) (\<lambda>found.
     andThen (orThrow found ApiKeyInvalid) (\<lambda>key.
     andThen (gets (keyContext key)) (\<lambda>ctx.
     andThen (orThrow ctx NullDereference) (\<lambda>(r, p, a).
     (case keyRefusal service walletId r p a of
        Some e \<Rightarrow> throw e
      | None \<Rightarrow>
          andThen (gets (\<lambda>s. currentPeriodKey (clock s))) (\<lambda>periodKey.
          andThen (getMonthlyTxUsed (acc_id a) periodKey) (\<lambda>used.
          andThen (gets clock) (\<lambda>now.
          andThen (updateApiKey (key\<lparr>key_lastUsedAt := Some now\<rparr>)) (\<lambda>saved.
          ret (validateResult saved r p a used)))))))))))"

record meterResult =
  met_periodKey :: string
  met_monthlyTxUsed :: int
  met_monthlyTxQuota :: int
  met_rateLimitRpm :: int

text \<open>The stored usage row, or the entity \<open>create\<close> builds.\<close>

definition usageOrNew :: "string \<Rightarrow> string \<Rightarrow> usagePeriod option \<Rightarrow> usagePeriod" where
  "usageOrNew accountId periodKey found =
     coalesce found
       \<lparr>use_id = [], use_accountId = accountId, use_periodKey = periodKey, use_txCount = 0,
        use_createdAt = 0, use_updatedAt = 0\<rparr>"

definition saveUsage :: "env \<Rightarrow> usagePeriod option \<Rightarrow> usagePeriod \<Rightarrow> usagePeriod billing" where
  "saveUsage E found u = (case found of None \<Rightarrow> insertUsage E u | Some _ \<Rightarrow> updateUsage u)"

definition meter :: "env \<Rightarrow> string \<Rightarrow> int \<Rightarrow> meterResult billing" where
  "meter E accountId count =
     andThen (throwIf (count < 1) BadCount) (\<lambda>_.
     andThen (requireAccount accountId) (\<lambda>account.
     andThen (throwIf (acc_status account \<noteq> AccActive) AccountInactive) (\<lambda>_.
     andThen (assertRateLimit (acc_id account) (acc_rateLimitRpm account) count) (\<lambda>_.
     andThen (gets (\<lambda>s. currentPeriodKey (clock s))) (\<lambda>periodKey.
     andThen (gets (\<lambda>s. usageRow (acc_id account) periodKey (usagePeriods s))) (\<lambda>found.
     let usage = usageOrNew (acc_id account) periodKey found in
     andThen (throwIf (acc_monthlyTxQuota account < use_txCount usage + count)
        (QuotaExhausted (use_txCount usage) (acc_monthlyTxQuota account) periodKey)) (\<lambda>_.
     andThen (saveUsage E found (usage\<lparr>use_txCount := use_txCount usage + count\<rparr>)) (\<lambda>saved.
     ret \<lparr>met_periodKey = periodKey, met_monthlyTxUsed = use_txCount saved,
          met_monthlyTxQuota = acc_monthlyTxQuota account,
          met_rateLimitRpm = acc_rateLimitRpm account\<rparr>))))))))"

record meteredAuth =
  ma_auth :: validateApiKeyResult
  ma_periodKey :: string

definition validateAndMeter ::
  "env \<Rightarrow> string \<Rightarrow> resourceService \<Rightarrow> string option \<Rightarrow> int option \<Rightarrow> meteredAuth billing" where
  "validateAndMeter E rawKey service walletId count =
     andThen (validateApiKey E rawKey service walletId) (\<lambda>auth.
     andThen (meter E (val_accountId auth) (coalesce count 1)) (\<lambda>metered.
     ret \<lparr>ma_auth = auth\<lparr>val_monthlyTxUsed := met_monthlyTxUsed metered,
            val_monthlyTxQuota := met_monthlyTxQuota metered,
            val_rateLimitRpm := met_rateLimitRpm metered\<rparr>,
          ma_periodKey = met_periodKey metered\<rparr>))"

section \<open>Closed forms\<close>

definition usedInPeriod :: "string \<Rightarrow> string \<Rightarrow> db \<Rightarrow> int" where
  "usedInPeriod aid period s =
     (case usageRow aid period (usagePeriods s) of None \<Rightarrow> 0 | Some u \<Rightarrow> use_txCount u)"

lemma getMonthlyTxUsed_gets: "getMonthlyTxUsed aid period = gets (usedInPeriod aid period)"
  by (simp add: getMonthlyTxUsed_def usedInPeriod_def [abs_def])

definition keyUsed :: "millis \<Rightarrow> apiKey \<Rightarrow> apiKey" where
  "keyUsed now k = k\<lparr>key_lastUsedAt := Some now, key_updatedAt := now\<rparr>"

lemma validateApiKey_run:
  "validateApiKey E raw svc w s =
     (if trim raw = [] then (Inl ApiKeyMissing, s)
      else case findLiveKey (hashApiKey E (trim raw)) (apiKeys s) of
        None \<Rightarrow> (Inl ApiKeyInvalid, s)
      | Some k \<Rightarrow>
          (case keyContext k s of
             None \<Rightarrow> (Inl NullDereference, s)
           | Some (r, p, a) \<Rightarrow>
               (case keyRefusal svc w r p a of
                  Some e \<Rightarrow> (Inl e, s)
                | None \<Rightarrow>
                    (Inr (validateResult (keyUsed (clock s) k) r p a
                            (usedInPeriod (acc_id a) (currentPeriodKey (clock s)) s)),
                     s\<lparr>apiKeys := saveRow key_id (keyUsed (clock s) k) (apiKeys s)\<rparr>))))"
  by (auto simp: validateApiKey_def getMonthlyTxUsed_gets keyUsed_def split: option.split)

lemma assertRateLimit_run:
  "assertRateLimit aid rpm c s =
     (let w = currentWindow (clock s) (rateWindows s aid) in
      if rpm < win_count w + c
      then (Inl (RateLimited rpm), s\<lparr>rateWindows := (rateWindows s)(aid \<mapsto> w)\<rparr>)
      else (Inr (), s\<lparr>rateWindows := (rateWindows s)(aid \<mapsto> w\<lparr>win_count := win_count w + c\<rparr>)\<rparr>))"
  by (simp add: assertRateLimit_def setRateWindow_def Let_def)

lemma usage_of_usageOrNew:
  "use_txCount (usageOrNew aid period (usageRow aid period (usagePeriods s))) = usedInPeriod aid period s"
  by (simp add: usageOrNew_def usedInPeriod_def coalesce_conv split: option.split)

text \<open>The refusals of \<open>meter\<close> and its effect, branch by branch.\<close>

lemma meter_BadCount: "c < 1 \<Longrightarrow> meter E aid c s = (Inl BadCount, s)"
  by (simp add: meter_def)

lemma meter_NoAccount:
  "1 \<le> c \<Longrightarrow> rowAt acc_id aid (accounts s) = None \<Longrightarrow> meter E aid c s = (Inl AccountNotFound, s)"
  by (simp add: meter_def)

lemma meter_Inactive:
  "1 \<le> c \<Longrightarrow> rowAt acc_id aid (accounts s) = Some a \<Longrightarrow> acc_status a \<noteq> AccActive \<Longrightarrow>
    meter E aid c s = (Inl AccountInactive, s)"
  by (simp add: meter_def)

lemma meter_RateLimited:
  assumes "1 \<le> c" and "rowAt acc_id aid (accounts s) = Some a" and "acc_status a = AccActive"
    and "w = currentWindow (clock s) (rateWindows s aid)" and "acc_rateLimitRpm a < win_count w + c"
  shows "meter E aid c s =
    (Inl (RateLimited (acc_rateLimitRpm a)), s\<lparr>rateWindows := (rateWindows s)(aid \<mapsto> w)\<rparr>)"
proof -
  have "acc_id a = aid" using assms(2) accountTable.lookup_member by blast
  moreover have "assertRateLimit aid (acc_rateLimitRpm a) c s =
      (Inl (RateLimited (acc_rateLimitRpm a)), s\<lparr>rateWindows := (rateWindows s)(aid \<mapsto> w)\<rparr>)"
    using assms(4,5) by (simp add: assertRateLimit_run Let_def)
  ultimately show ?thesis
    using assms(1-3) by (simp add: meter_def andThen_Inl)
qed

text \<open>The state after the rate limiter has let the request pass.\<close>

definition rateCharged :: "string \<Rightarrow> int \<Rightarrow> db \<Rightarrow> db" where
  "rateCharged aid c s =
     (let w = currentWindow (clock s) (rateWindows s aid)
      in s\<lparr>rateWindows := (rateWindows s)(aid \<mapsto> w\<lparr>win_count := win_count w + c\<rparr>)\<rparr>)"

lemma rateCharged_frame [simp]:
  "accounts (rateCharged aid c s) = accounts s" "usagePeriods (rateCharged aid c s) = usagePeriods s"
  "clock (rateCharged aid c s) = clock s" "products (rateCharged aid c s) = products s"
  "resources (rateCharged aid c s) = resources s" "apiKeys (rateCharged aid c s) = apiKeys s"
  "identities (rateCharged aid c s) = identities s" "nextId (rateCharged aid c s) = nextId s"
  "subscriptions (rateCharged aid c s) = subscriptions s"
  "paymentEvents (rateCharged aid c s) = paymentEvents s"
  "nextRandom (rateCharged aid c s) = nextRandom s"
  by (simp_all add: rateCharged_def Let_def)

lemma usedInPeriod_rateCharged [simp]:
  "usedInPeriod a p (rateCharged aid c s) = usedInPeriod a p s"
  by (simp add: usedInPeriod_def)

definition rateAllows :: "string \<Rightarrow> int \<Rightarrow> int \<Rightarrow> db \<Rightarrow> bool" where
  "rateAllows aid rpm c s \<longleftrightarrow> win_count (currentWindow (clock s) (rateWindows s aid)) + c \<le> rpm"

lemma meter_allowed:
  assumes "1 \<le> c" and "rowAt acc_id aid (accounts s) = Some a" and "acc_status a = AccActive"
    and "rateAllows aid (acc_rateLimitRpm a) c s"
  shows "meter E aid c s =
    (let s' = rateCharged aid c s; period = currentPeriodKey (clock s);
         used = usedInPeriod aid period s; found = usageRow aid period (usagePeriods s)
     in if acc_monthlyTxQuota a < used + c
        then (Inl (QuotaExhausted used (acc_monthlyTxQuota a) period), s')
        else andThen (saveUsage E found ((usageOrNew aid period found)\<lparr>use_txCount := used + c\<rparr>))
          (\<lambda>saved. ret \<lparr>met_periodKey = period, met_monthlyTxUsed = use_txCount saved,
             met_monthlyTxQuota = acc_monthlyTxQuota a, met_rateLimitRpm = acc_rateLimitRpm a\<rparr>) s')"
proof -
  have "acc_id a = aid" using assms(2) accountTable.lookup_member by blast
  moreover have "andThen (assertRateLimit aid (acc_rateLimitRpm a) c) f s = f () (rateCharged aid c s)"
    for f :: "unit \<Rightarrow> meterResult billing"
    using assms(4)
    by (simp add: andThen_def assertRateLimit_run Let_def rateAllows_def rateCharged_def)
  ultimately show ?thesis
    using assms(1-3) by (simp add: meter_def Let_def usage_of_usageOrNew)
qed

lemma saveUsage_run:
  assumes "fits 7 period" and "found = usageRow aid period (usagePeriods s)"
  shows "saveUsage E found ((usageOrNew aid period found)\<lparr>use_txCount := n\<rparr>) s =
    (case found of
       None \<Rightarrow>
         (let row = \<lparr>use_id = newUuid E (nextId s), use_accountId = aid, use_periodKey = period,
                     use_txCount = n, use_createdAt = clock s, use_updatedAt = clock s\<rparr>
          in (Inr row, s\<lparr>nextId := nextId s + 1, usagePeriods := usagePeriods s @ [row]\<rparr>))
     | Some u \<Rightarrow>
         (let row = u\<lparr>use_txCount := n, use_updatedAt := clock s\<rparr>
          in (Inr row, s\<lparr>usagePeriods := saveRow use_id row (usagePeriods s)\<rparr>)))"
proof -
  have "usageRow aid period (usagePeriods s) = None \<Longrightarrow>
      \<forall>x\<in>set (usagePeriods s). use_accountId x = aid \<longrightarrow> use_periodKey x \<noteq> period"
    by (auto simp: usageRow_def find_None_iff)
  with assms show ?thesis
    by (auto simp: saveUsage_def insertUsage_def updateUsage_def usageOrNew_def andThen_def
        freshId_run Let_def split: option.split)
qed

text \<open>
  Payments of the billing service: the effect of a normalised payment event on plan and status
  (\<^verbatim>\<open>billing/billing.service.ts\<close>), the manual activation, the checkout, and the
  webhook endpoint (\<^verbatim>\<open>webhooks/webhooks.controller.ts\<close>).
\<close>

section \<open>Operations\<close>

definition paymentEventOf :: "paymentProvider \<Rightarrow> normalizedPaymentEvent \<Rightarrow> paymentEvent" where
  "paymentEventOf P ev =
     \<lparr>pev_id = [], pev_provider = pp_name P, pev_type = nev_type ev,
      pev_accountId = nev_accountId ev, pev_externalId = nev_externalId ev,
      pev_payload = nev_raw ev, pev_createdAt = 0\<rparr>"

definition applyPaymentEvent ::
  "env \<Rightarrow> paymentProvider \<Rightarrow> normalizedPaymentEvent \<Rightarrow> unit billing" where
  "applyPaymentEvent E P ev =
     andThen (insertPaymentEvent E (paymentEventOf P ev)) (\<lambda>_.
       case nev_accountId ev of
         None \<Rightarrow> ret ()
       | Some accountId \<Rightarrow>
           if accountId = [] then ret ()
           else if nev_type ev = ''payment.succeeded''
           then andThen (setPlan E P accountId (coalesce (nev_plan ev) ''pro'')) (\<lambda>_.
                andThen (setAccountStatus accountId AccActive) (\<lambda>_. ret ()))
           else if nev_type ev = ''payment.failed'' \<or> nev_type ev = ''subscription.canceled''
           then andThen (setAccountStatus accountId AccSuspended) (\<lambda>_. ret ())
           else ret ())"

definition activationEvent :: "string \<Rightarrow> normalizedPaymentEvent" where
  "activationEvent accountId =
     \<lparr>nev_type = ''payment.succeeded'', nev_accountId = Some accountId,
      nev_externalId = Some (''manual_activate_'' @ accountId), nev_plan = Some ''pro'',
      nev_raw = JObj [(''source'', JStr ''manual_activate'')]\<rparr>"

definition activatePaid :: "env \<Rightarrow> paymentProvider \<Rightarrow> string \<Rightarrow> account billing" where
  "activatePaid E P accountId =
     andThen (requireAccount accountId) (\<lambda>_.
     andThen (applyPaymentEvent E P (activationEvent accountId)) (\<lambda>_.
     requireAccount accountId))"

definition createCheckout ::
  "paymentProvider \<Rightarrow> string \<Rightarrow> string \<Rightarrow> checkoutResult billing" where
  "createCheckout P accountId plan =
     andThen (requireAccount accountId) (\<lambda>_.
     ret (pp_createCheckout P accountId (normalizePlanId plan)))"

end
