(* ===== verification/BillingInv.thy ===== *)
theory BillingInv
  imports Metering
begin

text \<open>
  The integrity invariant of the billing store and its preservation by every write. Beyond the
  constraints of the schema (generated keys, unique columns, foreign keys) it holds what only
  the code keeps: a product has at most one resource, a resource at most one live API key, the
  resources of an archived product are suspended, and plans are plans of the catalogue. The
  second half lifts the invariant to every operation of the service.
\<close>

section \<open>The invariant\<close>

definition keyLive :: "apiKey \<Rightarrow> bool" where
  "keyLive k \<longleftrightarrow> key_revokedAt k = None"

definition hasEmail :: "account \<Rightarrow> bool" where
  "hasEmail a \<longleftrightarrow> acc_email a \<noteq> None"

definition ids_ok :: "env \<Rightarrow> db \<Rightarrow> bool" where
  "ids_ok E s \<longleftrightarrow>
     fresh_table (newUuid E) (nextId s) acc_id (accounts s) \<and>
     fresh_table (newUuid E) (nextId s) idn_id (identities s) \<and>
     fresh_table (newUuid E) (nextId s) prod_id (products s) \<and>
     fresh_table (newUuid E) (nextId s) res_id (resources s) \<and>
     fresh_table (newUuid E) (nextId s) key_id (apiKeys s) \<and>
     fresh_table (newUuid E) (nextId s) sub_id (subscriptions s) \<and>
     fresh_table (newUuid E) (nextId s) pev_id (paymentEvents s) \<and>
     fresh_table (newUuid E) (nextId s) use_id (usagePeriods s)"

definition uniques_ok :: "db \<Rightarrow> bool" where
  "uniques_ok s \<longleftrightarrow>
     unique_where hasEmail acc_email acc_id (accounts s) \<and>
     unique_where (\<lambda>_. True) (\<lambda>i. (idn_provider i, idn_providerSubject i)) idn_id (identities s) \<and>
     unique_where (\<lambda>_. True) (\<lambda>r. (res_service r, res_walletId r)) res_id (resources s) \<and>
     unique_where (\<lambda>_. True) res_productId res_id (resources s) \<and>
     unique_where keyLive key_resourceId key_id (apiKeys s) \<and>
     unique_where (\<lambda>_. True) (\<lambda>u. (use_accountId u, use_periodKey u)) use_id (usagePeriods s)"

definition refs_ok :: "db \<Rightarrow> bool" where
  "refs_ok s \<longleftrightarrow>
     refers idn_accountId (identities s) acc_id (accounts s) \<and>
     refers prod_accountId (products s) acc_id (accounts s) \<and>
     refers res_productId (resources s) prod_id (products s) \<and>
     refers key_resourceId (apiKeys s) res_id (resources s) \<and>
     refers sub_accountId (subscriptions s) acc_id (accounts s) \<and>
     refers use_accountId (usagePeriods s) acc_id (accounts s)"

definition rows_ok :: "db \<Rightarrow> bool" where
  "rows_ok s \<longleftrightarrow>
     (\<forall>a\<in>set (accounts s). \<exists>p. acc_plan a = planIdStr p) \<and>
     (\<forall>u\<in>set (usagePeriods s). 0 \<le> use_txCount u) \<and>
     (\<forall>aid w. rateWindows s aid = Some w \<longrightarrow> 0 \<le> win_count w)"

definition archive_ok :: "db \<Rightarrow> bool" where
  "archive_ok s \<longleftrightarrow>
     (\<forall>p\<in>set (products s). prod_status p = ProdArchived \<longrightarrow>
        (\<forall>r\<in>set (resources s). res_productId r = prod_id p \<longrightarrow> res_status r = ResSuspended))"

definition db_inv :: "env \<Rightarrow> db \<Rightarrow> bool" where
  "db_inv E s \<longleftrightarrow> ids_ok E s \<and> uniques_ok s \<and> refs_ok s \<and> rows_ok s \<and> archive_ok s"

lemmas inv_defs = db_inv_def ids_ok_def uniques_ok_def refs_ok_def rows_ok_def archive_ok_def

lemma db_inv_empty: "db_inv E emptyDb"
  by (simp add: inv_defs emptyDb_def)

lemma db_inv_distinct:
  assumes "db_inv E s"
  shows "distinct (map acc_id (accounts s))" "distinct (map prod_id (products s))"
    "distinct (map res_id (resources s))" "distinct (map key_id (apiKeys s))"
    "distinct (map use_id (usagePeriods s))" "distinct (map idn_id (identities s))"
  using assms by (auto simp: db_inv_def ids_ok_def dest: fresh_table_distinct)

lemma env_ok_inj: "env_ok E \<Longrightarrow> inj (newUuid E)"
  by (simp add: env_ok_def)

section \<open>Writes keep the invariant\<close>

lemma inv_clock: "db_inv E s \<Longrightarrow> db_inv E (s\<lparr>clock := t\<rparr>)"
  by (simp add: inv_defs)

lemma inv_random: "db_inv E s \<Longrightarrow> db_inv E (s\<lparr>nextRandom := n\<rparr>)"
  by (simp add: inv_defs)

lemma inv_nextId: "db_inv E s \<Longrightarrow> db_inv E (s\<lparr>nextId := Suc (nextId s)\<rparr>)"
  by (simp add: inv_defs fresh_table_Suc)

lemma inv_window: "db_inv E s \<Longrightarrow> 0 \<le> win_count w \<Longrightarrow> db_inv E (snd (setRateWindow aid w s))"
  by (simp add: inv_defs setRateWindow_def)

lemma inv_insertAccount:
  assumes "db_inv E s" and "env_ok E" and "\<exists>p. acc_plan a = planIdStr p"
  shows "db_inv E (snd (insertAccount E a s))"
proof -
  have "fits 160 (acc_name a) \<Longrightarrow> fitsOpt 255 (acc_email a) \<Longrightarrow>
      acc_email a = None \<or> (\<forall>x\<in>set (accounts s). acc_email x \<noteq> acc_email a) \<Longrightarrow>
      db_inv E (s\<lparr>nextId := Suc (nextId s), accounts := accounts s @
        [a\<lparr>acc_id := newUuid E (nextId s), acc_createdAt := clock s, acc_updatedAt := clock s\<rparr>]\<rparr>)"
    using assms env_ok_inj [OF assms(2)]
    by (auto simp: inv_defs integrity hasEmail_def)
  with inv_nextId [OF assms(1)] show ?thesis
    by (auto simp: insertAccount_def op_simps Let_def)
qed

lemma inv_updateAccount:
  assumes "db_inv E s" and "old \<in> set (accounts s)" and "acc_id old = acc_id a"
    and "acc_email a = acc_email old" and "\<exists>p. acc_plan a = planIdStr p"
  shows "db_inv E (snd (updateAccount a s))"
proof -
  have "acc_id a \<in> acc_id ` set (accounts s)" using assms(2,3) by (metis imageI)
  moreover have "unique_where hasEmail acc_email acc_id
      (saveRow acc_id (a\<lparr>acc_updatedAt := clock s\<rparr>) (accounts s))"
    using assms by (intro unique_where_save [where old = old]) (auto simp: inv_defs hasEmail_def)
  moreover have "\<forall>x\<in>set (saveRow acc_id (a\<lparr>acc_updatedAt := clock s\<rparr>) (accounts s)).
      \<exists>p. acc_plan x = planIdStr p"
    using assms(1,5) by (intro accountTable.all_save) (auto simp: inv_defs hasEmail_def)
  ultimately show ?thesis
    using assms(1) unfolding updateAccount_def Let_def
    by (simp add: inv_defs integrity)
qed

lemma inv_insertIdentity:
  assumes "db_inv E s" and "env_ok E" and "idn_accountId i \<in> acc_id ` set (accounts s)"
  shows "db_inv E (snd (insertIdentity E i s))"
proof -
  have "\<forall>x\<in>set (identities s). idn_provider x = idn_provider i \<longrightarrow>
        idn_providerSubject x \<noteq> idn_providerSubject i \<Longrightarrow>
      db_inv E (s\<lparr>nextId := Suc (nextId s), identities := identities s @
        [i\<lparr>idn_id := newUuid E (nextId s), idn_createdAt := clock s, idn_updatedAt := clock s\<rparr>]\<rparr>)"
    using assms env_ok_inj [OF assms(2)]
    by (auto simp: inv_defs integrity hasEmail_def)
  with inv_nextId [OF assms(1)] show ?thesis
    by (auto simp: insertIdentity_def op_simps Let_def)
qed

lemma inv_updateIdentity:
  assumes "db_inv E s" and "old \<in> set (identities s)" and "idn_id old = idn_id i"
    and "idn_provider i = idn_provider old" and "idn_providerSubject i = idn_providerSubject old"
    and "idn_accountId i = idn_accountId old"
  shows "db_inv E (snd (updateIdentity i s))"
proof -
  have "idn_id i \<in> idn_id ` set (identities s)" using assms(2,3) by (metis imageI)
  moreover have "idn_accountId i \<in> acc_id ` set (accounts s)"
    using assms(1,2,6) by (auto simp: inv_defs dest: refers_in)
  moreover have "unique_where (\<lambda>_. True) (\<lambda>i. (idn_provider i, idn_providerSubject i)) idn_id
      (saveRow idn_id (i\<lparr>idn_updatedAt := clock s\<rparr>) (identities s))"
    using assms by (intro unique_where_save [where old = old]) (auto simp: inv_defs hasEmail_def)
  ultimately show ?thesis
    using assms(1) by (auto simp: updateIdentity_def Let_def inv_defs integrity)
qed

lemma inv_insertProduct:
  assumes "db_inv E s" and "env_ok E" and "prod_accountId p \<in> acc_id ` set (accounts s)"
    and "prod_status p = ProdActive"
  shows "db_inv E (snd (insertProduct E p s))"
proof -
  have "db_inv E (s\<lparr>nextId := Suc (nextId s), products := products s @
        [p\<lparr>prod_id := newUuid E (nextId s), prod_createdAt := clock s, prod_updatedAt := clock s\<rparr>]\<rparr>)"
    using assms env_ok_inj [OF assms(2)]
    by (auto simp: inv_defs integrity hasEmail_def)
  with inv_nextId [OF assms(1)] show ?thesis
    by (auto simp: insertProduct_def op_simps Let_def)
qed

lemma inv_updateProduct:
  assumes "db_inv E s" and "old \<in> set (products s)" and "prod_id old = prod_id p"
    and "prod_accountId p = prod_accountId old" and "prod_status p = prod_status old"
  shows "db_inv E (snd (updateProduct p s))"
proof -
  have "prod_id p \<in> prod_id ` set (products s)" using assms(2,3) by (metis imageI)
  moreover have "prod_accountId p \<in> acc_id ` set (accounts s)"
    using assms(1,2,4) by (auto simp: inv_defs dest: refers_in)
  moreover have "archive_ok (s\<lparr>products :=
      saveRow prod_id (p\<lparr>prod_updatedAt := clock s\<rparr>) (products s)\<rparr>)"
    using assms by (auto simp: db_inv_def archive_ok_def productTable.member_save)
  ultimately show ?thesis
    using assms(1) by (auto simp: updateProduct_def Let_def inv_defs integrity)
qed

lemma inv_insertResource:
  assumes "db_inv E s" and "env_ok E" and "p \<in> set (products s)" and "prod_id p = res_productId r"
    and "prod_status p = ProdActive" and "\<forall>x\<in>set (resources s). res_productId x \<noteq> res_productId r"
  shows "db_inv E (snd (insertResource E r s))"
proof -
  have pid: "res_productId r \<in> prod_id ` set (products s)"
    using assms(3,4) by (metis imageI)
  have active: "q = p" if "q \<in> set (products s)" "prod_id q = res_productId r" for q
    using distinct_key_eq [OF db_inv_distinct(2) [OF assms(1)] that(1) assms(3)] that(2) assms(4)
    by simp
  have "\<forall>x\<in>set (resources s). res_service x = res_service r \<longrightarrow> res_walletId x \<noteq> res_walletId r \<Longrightarrow>
      db_inv E (s\<lparr>nextId := Suc (nextId s), resources := resources s @
        [r\<lparr>res_id := newUuid E (nextId s), res_createdAt := clock s, res_updatedAt := clock s\<rparr>]\<rparr>)"
    using assms pid env_ok_inj [OF assms(2)]
    by (auto simp: inv_defs integrity dest: active)
  with inv_nextId [OF assms(1)] show ?thesis
    by (auto simp: insertResource_def op_simps Let_def)
qed

lemma inv_updateResource:
  assumes "db_inv E s" and "old \<in> set (resources s)" and "res_id old = res_id r"
    and "res_productId r = res_productId old" and "res_service r = res_service old"
    and "res_walletId r = res_walletId old"
    and "\<And>p. p \<in> set (products s) \<Longrightarrow> prod_id p = res_productId r \<Longrightarrow>
      prod_status p = ProdArchived \<Longrightarrow> res_status r = ResSuspended"
  shows "db_inv E (snd (updateResource r s))"
proof -
  let ?row = "r\<lparr>res_updatedAt := clock s\<rparr>"
  have "res_id r \<in> res_id ` set (resources s)" using assms(2,3) by (metis imageI)
  moreover have "res_productId r \<in> prod_id ` set (products s)"
    using assms(1,2,4) by (auto simp: inv_defs dest: refers_in)
  moreover have "unique_where (\<lambda>_. True) (\<lambda>r. (res_service r, res_walletId r)) res_id
      (saveRow res_id ?row (resources s))"
    using assms by (intro unique_where_save [where old = old]) (auto simp: inv_defs)
  moreover have "unique_where (\<lambda>_. True) res_productId res_id (saveRow res_id ?row (resources s))"
    using assms by (intro unique_where_save [where old = old]) (auto simp: inv_defs)
  moreover have "archive_ok (s\<lparr>resources := saveRow res_id ?row (resources s)\<rparr>)"
    using assms(1,7) by (auto simp: db_inv_def archive_ok_def resourceTable.member_save)
  ultimately show ?thesis
    using assms(1) by (auto simp: updateResource_def Let_def inv_defs integrity)
qed

lemma inv_insertApiKey:
  assumes "db_inv E s" and "env_ok E" and "key_resourceId k \<in> res_id ` set (resources s)"
    and "keyLive k \<Longrightarrow> \<forall>x\<in>set (apiKeys s). keyLive x \<longrightarrow> key_resourceId x \<noteq> key_resourceId k"
  shows "db_inv E (snd (insertApiKey E k s))"
proof -
  let ?row = "k\<lparr>key_id := newUuid E (nextId s), key_createdAt := clock s, key_updatedAt := clock s\<rparr>"
  have "unique_where keyLive key_resourceId key_id (apiKeys s @ [?row])"
    using assms by (intro unique_where_append) (auto simp: inv_defs keyLive_def)
  then have "db_inv E (s\<lparr>nextId := Suc (nextId s), apiKeys := apiKeys s @ [?row]\<rparr>)"
    using assms env_ok_inj [OF assms(2)]
    by (auto simp: inv_defs integrity)
  with inv_nextId [OF assms(1)] show ?thesis
    by (auto simp: insertApiKey_def op_simps Let_def)
qed

lemma inv_updateApiKey:
  assumes "db_inv E s" and "old \<in> set (apiKeys s)" and "key_id old = key_id k"
    and "key_resourceId k = key_resourceId old" and "keyLive k \<Longrightarrow> keyLive old"
  shows "db_inv E (snd (updateApiKey k s))"
proof -
  let ?row = "k\<lparr>key_updatedAt := clock s\<rparr>"
  have "key_id k \<in> key_id ` set (apiKeys s)" using assms(2,3) by (metis imageI)
  moreover have "key_resourceId k \<in> res_id ` set (resources s)"
    using assms(1,2,4) by (auto simp: inv_defs dest: refers_in)
  moreover have "unique_where keyLive key_resourceId key_id (saveRow key_id ?row (apiKeys s))"
    using assms by (intro unique_where_save [where old = old]) (auto simp: inv_defs keyLive_def)
  ultimately show ?thesis
    using assms(1) by (auto simp: updateApiKey_def Let_def inv_defs integrity)
qed

lemma inv_insertSubscription:
  assumes "db_inv E s" and "env_ok E" and "sub_accountId b \<in> acc_id ` set (accounts s)"
  shows "db_inv E (snd (insertSubscription E b s))"
  using assms env_ok_inj [OF assms(2)]
  by (auto simp: insertSubscription_def op_simps Let_def inv_defs integrity)

lemma inv_insertPaymentEvent:
  assumes "db_inv E s" and "env_ok E"
  shows "db_inv E (snd (insertPaymentEvent E v s))"
proof -
  have "db_inv E (s\<lparr>nextId := Suc (nextId s), paymentEvents := paymentEvents s @
      [v\<lparr>pev_id := newUuid E (nextId s), pev_createdAt := clock s\<rparr>]\<rparr>)"
    using assms env_ok_inj [OF assms(2)] by (auto simp: inv_defs integrity)
  with inv_nextId [OF assms(1)] show ?thesis
    by (auto simp: insertPaymentEvent_def op_simps Let_def)
qed

lemma inv_insertUsage:
  assumes "db_inv E s" and "env_ok E" and "use_accountId u \<in> acc_id ` set (accounts s)"
    and "0 \<le> use_txCount u"
  shows "db_inv E (snd (insertUsage E u s))"
proof -
  have "\<forall>x\<in>set (usagePeriods s). use_accountId x = use_accountId u \<longrightarrow>
        use_periodKey x \<noteq> use_periodKey u \<Longrightarrow>
      db_inv E (s\<lparr>nextId := Suc (nextId s), usagePeriods := usagePeriods s @
        [u\<lparr>use_id := newUuid E (nextId s), use_createdAt := clock s, use_updatedAt := clock s\<rparr>]\<rparr>)"
    using assms env_ok_inj [OF assms(2)] by (auto simp: inv_defs integrity)
  with inv_nextId [OF assms(1)] show ?thesis
    by (auto simp: insertUsage_def op_simps Let_def)
qed

lemma inv_updateUsage:
  assumes "db_inv E s" and "old \<in> set (usagePeriods s)" and "use_id old = use_id u"
    and "use_accountId u = use_accountId old" and "use_periodKey u = use_periodKey old"
    and "0 \<le> use_txCount u"
  shows "db_inv E (snd (updateUsage u s))"
proof -
  let ?row = "u\<lparr>use_updatedAt := clock s\<rparr>"
  have "use_id u \<in> use_id ` set (usagePeriods s)" using assms(2,3) by (metis imageI)
  moreover have "use_accountId u \<in> acc_id ` set (accounts s)"
    using assms(1,2,4) by (auto simp: inv_defs dest: refers_in)
  moreover have "unique_where (\<lambda>_. True) (\<lambda>u. (use_accountId u, use_periodKey u)) use_id
      (saveRow use_id ?row (usagePeriods s))"
    using assms by (intro unique_where_save [where old = old]) (auto simp: inv_defs)
  moreover have "\<forall>x\<in>set (saveRow use_id ?row (usagePeriods s)). 0 \<le> use_txCount x"
    using assms(1,6) by (intro usageTable.all_save) (auto simp: inv_defs)
  ultimately show ?thesis
    using assms(1) by (auto simp: updateUsage_def Let_def inv_defs integrity)
qed

lemma inv_deleteProduct:
  assumes "db_inv E s"
  shows "db_inv E (snd (deleteProduct pid s))"
proof -
  let ?rs = "deleteWhere (\<lambda>r. res_productId r = pid) (resources s)"
  let ?ks = "deleteWhere (\<lambda>k. key_resourceId k \<in>
      res_id ` {r \<in> set (resources s). res_productId r = pid}) (apiKeys s)"
  have "refers res_productId ?rs prod_id (deleteWhere (\<lambda>p. prod_id p = pid) (products s))"
    using assms by (intro refers_cascade) (auto simp: inv_defs)
  moreover have "refers key_resourceId ?ks res_id ?rs"
  proof (rule refers_cascade)
    show "refers key_resourceId (apiKeys s) res_id (resources s)"
      using assms by (simp add: inv_defs)
  next
    fix k r
    assume "r \<in> set (resources s)" and "res_id r = key_resourceId k" and "res_productId r = pid"
    then show "key_resourceId k \<in> res_id ` {r \<in> set (resources s). res_productId r = pid}"
      by force
  qed
  ultimately show ?thesis
    using assms by (auto simp: deleteProduct_def Let_def inv_defs integrity set_deleteWhere)
qed

section \<open>Archiving\<close>

text \<open>What archiving a set of products leaves in the tables.\<close>

definition archiveRows :: "millis \<Rightarrow> string set \<Rightarrow> product list \<Rightarrow> product list" where
  "archiveRows now ids ps =
     map (\<lambda>p. if prod_id p \<in> ids then p\<lparr>prod_status := ProdArchived, prod_updatedAt := now\<rparr> else p) ps"

definition suspendRows :: "millis \<Rightarrow> string set \<Rightarrow> resource list \<Rightarrow> resource list" where
  "suspendRows now ids rs =
     map (\<lambda>r. if res_productId r \<in> ids then r\<lparr>res_status := ResSuspended, res_updatedAt := now\<rparr> else r) rs"

definition archived :: "string set \<Rightarrow> db \<Rightarrow> db" where
  "archived ids s =
     s\<lparr>products := archiveRows (clock s) ids (products s),
       resources := suspendRows (clock s) ids (resources s)\<rparr>"

lemma archived_empty: "archived {} s = s"
  by (simp add: archived_def archiveRows_def suspendRows_def)

lemma archived_insert: "archived B (archived A s) = archived (A \<union> B) s"
  by (auto simp: archived_def archiveRows_def suspendRows_def)

lemma archived_frame [simp]:
  "accounts (archived ids s) = accounts s" "apiKeys (archived ids s) = apiKeys s"
  "clock (archived ids s) = clock s" "usagePeriods (archived ids s) = usagePeriods s"
  "rateWindows (archived ids s) = rateWindows s" "nextId (archived ids s) = nextId s"
  by (simp_all add: archived_def)

lemma inv_archived:
  assumes "db_inv E s"
  shows "db_inv E (archived ids s)"
proof -
  have "archive_ok (archived ids s)"
    using assms by (auto simp: db_inv_def archive_ok_def archived_def archiveRows_def suspendRows_def)
  moreover have "uniques_ok (archived ids s)"
    using assms
    by (auto simp: db_inv_def uniques_ok_def archived_def suspendRows_def intro!: unique_where_map)
  moreover have "ids_ok E (archived ids s)"
    using assms
    by (auto simp: db_inv_def ids_ok_def archived_def archiveRows_def suspendRows_def
        intro!: fresh_table_map)
  moreover have "refs_ok (archived ids s)"
    using assms
    by (auto simp: db_inv_def refs_ok_def archived_def archiveRows_def suspendRows_def
        intro!: refers_map refers_target_map)
  ultimately show ?thesis
    using assms by (simp add: db_inv_def rows_ok_def archived_def)
qed

lemma suspend_loop:
  assumes "distinct (map res_id (resources s))" and "distinct rs" and "set rs \<subseteq> set (resources s)"
  shows "forEach rs suspendResource s =
    (Inr (), s\<lparr>resources :=
       map (\<lambda>r. if r \<in> set rs then r\<lparr>res_status := ResSuspended, res_updatedAt := clock s\<rparr> else r)
         (resources s)\<rparr>)"
proof -
  let ?g = "\<lambda>r. r\<lparr>res_status := ResSuspended, res_updatedAt := clock s\<rparr>"
  have "forEach xs suspendResource t =
      (Inr (), t\<lparr>resources := fold (\<lambda>r rows. saveRow res_id (?g r) rows) xs (resources t)\<rparr>)"
    if "clock t = clock s" for xs t
    using that
    by (induction xs arbitrary: t)
      (simp_all add: suspendResource_def updateResource_def op_simps Let_def)
  moreover have "fold (\<lambda>r rows. saveRow res_id (?g r) rows) rs (resources s) =
      map (\<lambda>r. if r \<in> set rs then ?g r else r) (resources s)"
    using assms by (intro fold_saveRow) simp_all
  ultimately show ?thesis by simp
qed

end
