(* ===== verification/BillingSafe.thy ===== *)
theory BillingSafe
  imports BillingInv
begin

text \<open>
  Every operation of the billing service keeps the integrity invariant. The operations that
  archive products have closed forms here, which their functional properties use as well.
\<close>

section \<open>Closed forms of the archiving operations\<close>

lemma archiveWith_run:
  assumes "distinct (map prod_id (products s))" and "distinct (map res_id (resources s))"
    and "p \<in> set (products s)"
  shows "archiveWith (p, resourcesOf (prod_id p) s) s = (Inr (), archived {prod_id p} s)"
proof -
  let ?row = "p\<lparr>prod_status := ProdArchived, prod_updatedAt := clock s\<rparr>"
  let ?s = "s\<lparr>products := saveRow prod_id ?row (products s)\<rparr>"
  have "saveRow prod_id ?row (products s) = archiveRows (clock s) {prod_id p} (products s)"
    using assms(1,3) by (auto simp: saveRow_def archiveRows_def dest: distinct_key_eq)
  moreover have "forEach (resourcesOf (prod_id p) s) suspendResource ?s =
      (Inr (), ?s\<lparr>resources := suspendRows (clock s) {prod_id p} (resources s)\<rparr>)"
    using assms(2)
    by (subst suspend_loop)
      (auto simp: resourcesOf_def suspendRows_def distinct_map intro: distinct_filter)
  ultimately show ?thesis
    by (simp add: archiveWith_def updateProduct_def op_simps Let_def archived_def)
qed

lemma archived_distinct [simp]:
  "map prod_id (products (archived ids s)) = map prod_id (products s)"
  "map res_id (resources (archived ids s)) = map res_id (resources s)"
  by (simp_all add: archived_def archiveRows_def suspendRows_def)

lemma archived_other_product:
  "p \<in> set (products s) \<Longrightarrow> prod_id p \<notin> ids \<Longrightarrow> p \<in> set (products (archived ids s))"
  by (force simp: archived_def archiveRows_def)

lemma resourcesOf_archived:
  assumes "pid \<notin> ids"
  shows "resourcesOf pid (archived ids s) = resourcesOf pid s"
proof -
  have "filter (\<lambda>r. res_productId r = pid) (suspendRows now ids rs) =
      filter (\<lambda>r. res_productId r = pid) rs" for now rs
    using assms by (induction rs) (auto simp: suspendRows_def)
  then show ?thesis by (simp add: resourcesOf_def archived_def)
qed

lemma archive_loop:
  assumes "distinct (map prod_id (products s))" and "distinct (map res_id (resources s))"
    and "distinct (map prod_id ps)" and "set ps \<subseteq> set (products s)"
    and "\<forall>p\<in>set ps. f p = resourcesOf (prod_id p) s"
  shows "forEach (map (\<lambda>p. (p, f p)) ps) archiveWith s =
    (Inr (), archived (prod_id ` set ps) s)"
  using assms
proof (induction ps arbitrary: s)
  case Nil
  then show ?case by (simp add: archived_empty)
next
  case (Cons p ps)
  let ?s = "archived {prod_id p} s"
  have step: "archiveWith (p, f p) s = (Inr (), ?s)"
    using archiveWith_run [OF Cons.prems(1,2), of p] Cons.prems(4,5) by simp
  have other: "prod_id q \<noteq> prod_id p" if "q \<in> set ps" for q
    using Cons.prems(3) that by (auto simp: image_iff)
  have "forEach (map (\<lambda>p. (p, f p)) ps) archiveWith ?s =
      (Inr (), archived (prod_id ` set ps) ?s)"
    using Cons.prems other
    by (intro Cons.IH) (auto simp: archived_other_product resourcesOf_archived)
  then show ?case
    by (simp add: andThen_def step archived_insert)
qed

definition excessIds :: "string \<Rightarrow> int \<Rightarrow> db \<Rightarrow> string set" where
  "excessIds accountId m s = prod_id ` set (drop (nat (max 0 m)) (activeProducts accountId s))"

lemma activeProducts_distinct:
  "distinct (map prod_id (products s)) \<Longrightarrow> distinct (map prod_id (activeProducts aid s))"
  by (auto simp: activeProducts_def distinct_map intro: inj_on_subset)

lemma set_activeProducts:
  "set (activeProducts aid s) =
    {p \<in> set (products s). prod_accountId p = aid \<and> prod_status p = ProdActive}"
  by (auto simp: activeProducts_def)

lemma enforceProductQuota_run:
  assumes "distinct (map prod_id (products s))" and "distinct (map res_id (resources s))"
  shows "enforceProductQuota aid m s = (Inr (), archived (excessIds aid m s) s)"
proof -
  let ?ps = "drop (nat (max 0 m)) (activeProducts aid s)"
  have "set ?ps \<subseteq> set (products s)"
    using set_drop_subset [of _ "activeProducts aid s"] set_activeProducts [of aid s] by blast
  moreover have "distinct (map prod_id ?ps)"
    using activeProducts_distinct [OF assms(1), of aid] by (simp add: drop_map [symmetric])
  ultimately show ?thesis
    using archive_loop [OF assms, of ?ps "\<lambda>p. resourcesOf (prod_id p) s"]
    by (simp add: enforceProductQuota_def op_simps excessIds_def)
qed

definition withPlan :: "planId \<Rightarrow> millis \<Rightarrow> account \<Rightarrow> account" where
  "withPlan q now a =
     a\<lparr>acc_plan := planIdStr q, acc_maxProducts := plan_maxProducts (PLANS q),
       acc_rateLimitRpm := plan_rateLimitRpm (PLANS q),
       acc_monthlyTxQuota := plan_monthlyTxQuota (PLANS q), acc_updatedAt := now\<rparr>"

text \<open>The account after \<open>setPlan\<close>, the store after it.\<close>

lemma setPlan_run:
  assumes "distinct (map prod_id (products s))" and "distinct (map res_id (resources s))"
    and "rowAt acc_id aid (accounts s) = Some a" and "q = normalizePlanId v"
  shows "setPlan E P aid v s =
    (let a' = withPlan q (clock s) a;
         s' = archived (excessIds aid (plan_maxProducts (PLANS q)) s)
                (s\<lparr>accounts := saveRow acc_id a' (accounts s)\<rparr>)
     in (Inr a', snd (insertSubscription E (activeSubscription P aid (planIdStr q)) s')))"
proof -
  let ?s = "s\<lparr>accounts := saveRow acc_id (withPlan q (clock s) a) (accounts s)\<rparr>"
  have ex: "excessIds aid m ?s = excessIds aid m s" for m
    by (simp add: excessIds_def activeProducts_def)
  have "enforceProductQuota aid m ?s = (Inr (), archived (excessIds aid m s) ?s)" for m
    using enforceProductQuota_run [of ?s] assms(1,2) ex by simp
  then show ?thesis
    using assms(3,4)
    by (simp add: setPlan_def op_simps updateAccount_def Let_def withPlan_def)
qed

lemma archiveProduct_run:
  assumes "distinct (map prod_id (products s))" and "distinct (map res_id (resources s))"
  shows "archiveProduct aid pid s =
    (case find (\<lambda>p. prod_id p = pid \<and> prod_accountId p = aid \<and> prod_status p = ProdActive)
            (products s) of
       None \<Rightarrow> (Inl ProductNotFound, s)
     | Some p \<Rightarrow> (Inr (), archived {pid} s))"
proof (cases "find (\<lambda>p. prod_id p = pid \<and> prod_accountId p = aid \<and> prod_status p = ProdActive)
            (products s)")
  case None
  then show ?thesis by (simp add: archiveProduct_def requireOwnedProduct_def op_simps)
next
  case (Some p)
  then have p: "p \<in> set (products s)" "prod_id p = pid"
    by (auto dest: find_Some_iff_in)
  have "archiveWith (p, resourcesOf (prod_id p) s) s = (Inr (), archived {prod_id p} s)"
    using assms p(1) by (rule archiveWith_run)
  with Some p(2) show ?thesis
    by (simp add: archiveProduct_def requireOwnedProduct_def archiveWith_def updateProduct_def
        op_simps Let_def resourcesOf_def)
qed

section \<open>Operations keep the invariant\<close>

lemma account_of_row:
  "rowAt acc_id aid (accounts s) = Some a \<Longrightarrow>
    a \<in> set (accounts s) \<and> acc_id a = aid \<and> aid \<in> acc_id ` set (accounts s)"
  using accountTable.lookup_member by blast

lemma plan_of_account:
  "db_inv E s \<Longrightarrow> a \<in> set (accounts s) \<Longrightarrow> \<exists>p. acc_plan a = planIdStr p"
  by (auto simp: inv_defs)

lemma freeAccount_plan: "acc_plan (freeAccount n e h) = planIdStr Free"
  by (simp add: freeAccount_def Let_def resolvePlan_def isPlanId_def)

lemma insertAccount_Inr:
  assumes "insertAccount E a s = (Inr row, s')"
  shows "row \<in> set (accounts s')" and "acc_plan row = acc_plan a"
    and "acc_email row = acc_email a" and "acc_id row = newUuid E (nextId s)"
    and "acc_status row = acc_status a"
  using assms by (auto simp: insertAccount_def op_simps Let_def split: if_splits)

lemma inv_subscribe:
  assumes "env_ok E" and "db_inv E s" and "a \<in> set (accounts s)"
  shows "db_inv E (snd (insertSubscription E (activeSubscription P (acc_id a) pl) s))"
  using assms by (intro inv_insertSubscription) (auto simp: activeSubscription_def)

lemma preserves_drawRandom [pres]: "preserves (db_inv E) (drawRandom E' k)"
  by (rule preservesI) (simp add: drawRandom_run inv_random)

lemma preserves_requireAccount [pres]: "preserves P (requireAccount aid)"
  by (simp add: requireAccount_def pres)

text \<open>The free account of a registration, with its subscription.\<close>

lemma inv_newAccount:
  assumes "env_ok E"
  shows "preserves (db_inv E)
    (andThen (insertAccount E (freeAccount n e h)) (\<lambda>account.
     andThen (insertSubscription E (activeSubscription P (acc_id account) (acc_plan account)))
       (\<lambda>_. ret account)))"
proof (rule preserves_andThen_post)
  show "preserves (db_inv E) (insertAccount E (freeAccount n e h))"
    using inv_insertAccount [OF _ assms] freeAccount_plan by (blast intro: preservesI)
next
  fix a s s'
  assume ins: "insertAccount E (freeAccount n e h) s = (Inr a, s')" and "db_inv E s'"
  then show "db_inv E (snd (andThen (insertSubscription E
      (activeSubscription P (acc_id a) (acc_plan a))) (\<lambda>_. ret a) s'))"
    using inv_subscribe [OF assms] insertAccount_Inr(1) [OF ins] by simp
qed

lemma inv_newAccount_then:
  assumes "env_ok E" and "\<And>a. preserves (db_inv E) (g a)"
  shows "preserves (db_inv E)
    (andThen (insertAccount E (freeAccount n e h)) (\<lambda>account.
     andThen (insertSubscription E (activeSubscription P (acc_id account) (acc_plan account)))
       (\<lambda>_. g account)))"
proof -
  have "preserves (db_inv E) (andThen (andThen (insertAccount E (freeAccount n e h)) (\<lambda>account.
     andThen (insertSubscription E (activeSubscription P (acc_id account) (acc_plan account)))
       (\<lambda>_. ret account))) g)"
    by (intro preserves_andThen inv_newAccount assms)
  then show ?thesis by (simp add: andThen_assoc)
qed

lemma register_inv: "env_ok E \<Longrightarrow> preserves (db_inv E) (register E P n e pw)"
  unfolding register_def Let_def hashPassword_def by (intro pres inv_newAccount_then)

lemma login_inv: "preserves Q (login E e pw)"
  unfolding login_def Let_def by (intro pres preserves_gets)

lemma oauthKnown_inv:
  assumes "i \<in> set (identities s)" and "db_inv E s"
  shows "db_inv E (snd (oauthKnown prof i s))"
proof -
  have "db_inv E (snd (updateIdentity (i\<lparr>idn_email := v\<rparr>) s))" for v
    using inv_updateIdentity [OF assms(2,1)] by simp
  then show ?thesis
    using assms(2) by (simp add: oauthKnown_def if_distrib [of "\<lambda>m. andThen m _"] split: option.split)
qed

lemma oauthNew_inv:
  assumes "env_ok E"
  shows "preserves (db_inv E) (oauthNew E P prof)"
proof (rule preservesI)
  fix s
  assume inv: "db_inv E s"
  let ?tail = "\<lambda>account. andThen (insertIdentity E (identityOf prof (acc_id account)))
      (\<lambda>_. ret (toAccountView account))"
  have link: "db_inv E (snd (?tail a s))" if "db_inv E s" "a \<in> set (accounts s)" for a s
    using inv_insertIdentity [OF that(1) assms, of "identityOf prof (acc_id a)"] that(2)
    by (simp add: identityOf_def)
  have fresh: "db_inv E (snd (andThen (oauthAccount E P prof None) ?tail s))"
  proof (rule andThen_sndI)
    have "preserves (db_inv E) (oauthAccount E P prof None)"
      unfolding oauthAccount_def by (simp add: inv_newAccount [OF assms])
    then have keep: "db_inv E (snd (oauthAccount E P prof None s))"
      using inv by (rule preservesD)
    show "db_inv E s'" if "oauthAccount E P prof None s = (Inl e, s')" for e s'
      using keep that by simp
    fix a s'
    assume run: "oauthAccount E P prof None s = (Inr a, s')"
    then obtain b s1 where ins: "insertAccount E (freeAccount (oauthName prof) (oauthEmail prof) None) s
          = (Inr b, s1)"
      and sub: "andThen (insertSubscription E (activeSubscription P (acc_id b) (acc_plan b)))
          (\<lambda>_. ret b) s1 = (Inr a, s')"
      unfolding oauthAccount_def option.case by (rule andThen_InrE)
    have "a = b" and "accounts s' = accounts s1"
      using sub by (auto simp: andThen_def insertSubscription_run Let_def)
    with insertAccount_Inr(1) [OF ins] have "a \<in> set (accounts s')" by simp
    with keep run show "db_inv E (snd (?tail a s'))"
      using link by simp
  qed
  have linked: "db_inv E (snd (andThen (oauthAccount E P prof l) ?tail s))"
    if "l = None \<or> (\<exists>m. l = findByEmail m (accounts s))" for l
  proof (cases l)
    case None
    with fresh show ?thesis by simp
  next
    case (Some a)
    with that have "a \<in> set (accounts s)"
      by (auto simp: findByEmail_def dest!: sym [of "Some a"] find_Some_iff_in)
    with Some link [OF inv] inv show ?thesis
      by (simp add: oauthAccount_def)
  qed
  show "db_inv E (snd (oauthNew E P prof s))"
    unfolding oauthNew_def andThen_gets by (rule linked) (auto split: option.split)
qed

lemma findOrCreateFromOAuth_inv:
  assumes "env_ok E"
  shows "preserves (db_inv E) (findOrCreateFromOAuth E P prof)"
proof (rule preservesI)
  fix s
  assume inv: "db_inv E s"
  have "findIdentity prof (identities s) = Some i \<Longrightarrow> i \<in> set (identities s)" for i
    by (auto simp: findIdentity_def dest: find_Some_iff_in)
  with inv oauthKnown_inv preservesD [OF oauthNew_inv [OF assms] inv]
  show "db_inv E (snd (findOrCreateFromOAuth E P prof s))"
    by (auto simp: findOrCreateFromOAuth_def split: option.split)
qed

lemma setAccountStatus_inv: "preserves (db_inv E) (setAccountStatus aid st)"
proof (rule preservesI)
  fix s
  assume inv: "db_inv E s"
  have "db_inv E (snd (updateAccount (a\<lparr>acc_status := st\<rparr>) s))" if "a \<in> set (accounts s)" for a
    using inv that plan_of_account [OF inv that] by (intro inv_updateAccount) simp_all
  with inv show "db_inv E (snd (setAccountStatus aid st s))"
    by (auto simp: setAccountStatus_def dest: account_of_row split: option.split)
qed

lemma setQuota_inv: "preserves (db_inv E) (setQuota aid q)"
proof (rule preservesI)
  fix s
  assume inv: "db_inv E s"
  have "db_inv E (snd (updateAccount (a\<lparr>acc_maxProducts := x, acc_rateLimitRpm := y,
      acc_monthlyTxQuota := z\<rparr>) s))" if "a \<in> set (accounts s)" for a x y z
    using inv that plan_of_account [OF inv that] by (intro inv_updateAccount) simp_all
  with inv show "db_inv E (snd (setQuota aid q s))"
    by (auto simp: setQuota_def dest: account_of_row split: option.split)
qed

lemma setPlan_inv:
  assumes "env_ok E"
  shows "preserves (db_inv E) (setPlan E P aid v)"
proof (rule preservesI)
  fix s
  assume inv: "db_inv E s"
  note d = db_inv_distinct [OF inv]
  show "db_inv E (snd (setPlan E P aid v s))"
  proof (cases "rowAt acc_id aid (accounts s)")
    case None
    with inv show ?thesis by (simp add: setPlan_def)
  next
    case (Some a)
    define q where "q = normalizePlanId v"
    let ?a = "withPlan q (clock s) a"
    let ?s = "s\<lparr>accounts := saveRow acc_id ?a (accounts s)\<rparr>"
    have "db_inv E (snd (updateAccount (withPlan q (clock s) a) s))"
      using inv account_of_row [OF Some] by (intro inv_updateAccount) (auto simp: withPlan_def)
    then have "db_inv E ?s"
      by (simp add: updateAccount_def Let_def withPlan_def)
    then have "db_inv E (archived ids ?s)" for ids
      by (rule inv_archived)
    moreover have "?a \<in> set (accounts (archived ids ?s))" for ids
      by (simp add: set_saveRow)
    moreover have "acc_id ?a = aid" using account_of_row [OF Some] by (simp add: withPlan_def)
    ultimately have "db_inv E (snd (insertSubscription E
        (activeSubscription P aid (planIdStr q)) (archived ids ?s)))" for ids
      using inv_subscribe [OF assms] by metis
    then show ?thesis
      using setPlan_run [OF d(2,3) Some q_def] by (simp add: Let_def)
  qed
qed

lemma archiveProduct_inv: "preserves (db_inv E) (archiveProduct aid pid)"
proof (rule preservesI)
  fix s
  assume "db_inv E s"
  then show "db_inv E (snd (archiveProduct aid pid s))"
    using archiveProduct_run [of s aid pid] db_inv_distinct [of E s] inv_archived
    by (auto split: option.split)
qed

text \<open>
  The authorisation and metering path keeps the invariant and touches nothing but the usage
  rows, the rate windows and the time stamps of the key it used. \<open>meterSteps\<close> closes it
  under repetition and the passing of time: it is what a remote service that only calls
  \<open>validate-and-meter\<close> can do to the store while billing waits for its answer.
\<close>

section \<open>Metering keeps the invariant\<close>

lemma inv_setWindow:
  "db_inv E s \<Longrightarrow> 0 \<le> win_count w \<Longrightarrow> db_inv E (s\<lparr>rateWindows := (rateWindows s)(aid \<mapsto> w)\<rparr>)"
  using inv_window [of E s w aid] by (simp add: setRateWindow_def)

lemma currentWindow_nonneg: "db_inv E s \<Longrightarrow> 0 \<le> win_count (currentWindow now (rateWindows s aid))"
  by (auto simp: inv_defs currentWindow_def split: option.split)

lemma inv_rateCharged: "db_inv E s \<Longrightarrow> 0 \<le> c \<Longrightarrow> db_inv E (rateCharged aid c s)"
  using currentWindow_nonneg [of E s] by (simp add: rateCharged_def Let_def inv_setWindow)

lemma usageRow_Some:
  "usageRow aid period rows = Some u \<Longrightarrow>
    u \<in> set rows \<and> use_accountId u = aid \<and> use_periodKey u = period"
  by (auto simp: usageRow_def dest: find_Some_iff_in)

lemma usedInPeriod_nonneg: "db_inv E s \<Longrightarrow> 0 \<le> usedInPeriod aid period s"
  by (auto simp: inv_defs usedInPeriod_def dest: usageRow_Some split: option.split)

lemma saveUsage_inv:
  assumes "env_ok E" and "db_inv E s" and "aid \<in> acc_id ` set (accounts s)" and "0 \<le> n"
    and "found = usageRow aid period (usagePeriods s)"
  shows "db_inv E (snd (saveUsage E found ((usageOrNew aid period found)\<lparr>use_txCount := n\<rparr>) s))"
proof (cases found)
  case None
  with assms inv_insertUsage [OF assms(2,1)] show ?thesis
    by (simp add: saveUsage_def usageOrNew_def)
next
  case (Some u)
  with assms have "u \<in> set (usagePeriods s)" by (auto dest!: sym [of "Some u"] usageRow_Some)
  with Some assms inv_updateUsage [OF assms(2), of u "u\<lparr>use_txCount := n\<rparr>"] show ?thesis
    by (simp add: saveUsage_def usageOrNew_def)
qed

lemma meter_inv:
  assumes "env_ok E"
  shows "preserves (db_inv E) (meter E aid c)"
proof (rule preservesI)
  fix s
  assume inv: "db_inv E s"
  show "db_inv E (snd (meter E aid c s))"
  proof (cases "1 \<le> c")
    case False
    with inv show ?thesis by (simp add: meter_BadCount)
  next
    case c: True
    show ?thesis
    proof (cases "rowAt acc_id aid (accounts s)")
      case None
      with inv c show ?thesis by (simp add: meter_NoAccount)
    next
      case (Some a)
      note acc = account_of_row [OF Some]
      consider "acc_status a \<noteq> AccActive" | "acc_status a = AccActive" "\<not> rateAllows aid (acc_rateLimitRpm a) c s"
        | "acc_status a = AccActive" "rateAllows aid (acc_rateLimitRpm a) c s" by blast
      then show ?thesis
      proof cases
        case 1
        with inv c Some show ?thesis by (simp add: meter_Inactive)
      next
        case 2
        with meter_RateLimited [OF c Some 2(1) refl, of E] inv show ?thesis
          by (simp add: rateAllows_def inv_setWindow currentWindow_nonneg [OF inv])
      next
        case 3
        let ?s = "rateCharged aid c s"
        let ?p = "currentPeriodKey (clock s)"
        let ?f = "usageRow aid ?p (usagePeriods s)"
        have "db_inv E ?s" using inv c by (simp add: inv_rateCharged)
        moreover have "db_inv E (snd (saveUsage E ?f ((usageOrNew aid ?p ?f)
            \<lparr>use_txCount := usedInPeriod aid ?p s + c\<rparr>) ?s))"
          using \<open>db_inv E ?s\<close> acc c usedInPeriod_nonneg [OF inv, of aid ?p]
          by (intro saveUsage_inv [OF assms]) simp_all
        ultimately show ?thesis
          using meter_allowed [OF c Some 3, of E] by (simp add: Let_def)
      qed
    qed
  qed
qed

lemma findLiveKey_Some:
  "findLiveKey h rows = Some k \<Longrightarrow> k \<in> set rows \<and> key_keyHash k = h \<and> keyLive k"
  by (auto simp: findLiveKey_def keyLive_def dest: find_Some_iff_in)

lemma keyUsed_core [simp]:
  "key_id (keyUsed now k) = key_id k" "key_resourceId (keyUsed now k) = key_resourceId k"
  "keyLive (keyUsed now k) = keyLive k" "key_keyHash (keyUsed now k) = key_keyHash k"
  by (simp_all add: keyUsed_def keyLive_def)

lemma inv_keyUsed:
  assumes "db_inv E s" and "k \<in> set (apiKeys s)"
  shows "db_inv E (s\<lparr>apiKeys := saveRow key_id (keyUsed (clock s) k) (apiKeys s)\<rparr>)"
proof -
  have "db_inv E (snd (updateApiKey (keyUsed (clock s) k) s))"
    using assms by (intro inv_updateApiKey) simp_all
  then show ?thesis by (simp add: updateApiKey_def Let_def keyUsed_def)
qed

lemma validateApiKey_inv: "preserves (db_inv E) (validateApiKey E raw svc w)"
  by (rule preservesI)
    (auto simp: validateApiKey_run split: option.split dest!: findLiveKey_Some intro: inv_keyUsed)

lemma validateAndMeter_inv:
  "env_ok E \<Longrightarrow> preserves (db_inv E) (validateAndMeter E raw svc w c)"
  unfolding validateAndMeter_def by (intro pres validateApiKey_inv meter_inv)

section \<open>What metering leaves alone\<close>

text \<open>A key up to its usage stamps.\<close>

definition keyCore :: "apiKey \<Rightarrow> apiKey" where
  "keyCore k = k\<lparr>key_lastUsedAt := None, key_updatedAt := 0\<rparr>"

definition meterFrame :: "db \<Rightarrow> db \<Rightarrow> bool" where
  "meterFrame s t \<longleftrightarrow>
     accounts t = accounts s \<and> identities t = identities s \<and> products t = products s \<and>
     resources t = resources s \<and> subscriptions t = subscriptions s \<and>
     paymentEvents t = paymentEvents s \<and> map keyCore (apiKeys t) = map keyCore (apiKeys s) \<and>
     nextRandom t = nextRandom s \<and> nextId s \<le> nextId t \<and> clock s \<le> clock t"

lemma meterFrame_refl [simp]: "meterFrame s s"
  by (simp add: meterFrame_def)

lemma meterFrame_trans: "meterFrame s t \<Longrightarrow> meterFrame t u \<Longrightarrow> meterFrame s u"
  by (auto simp: meterFrame_def)

lemma keyCore_proj [simp]:
  "key_id (keyCore k) = key_id k" "key_resourceId (keyCore k) = key_resourceId k"
  "key_keyHash (keyCore k) = key_keyHash k" "key_revokedAt (keyCore k) = key_revokedAt k"
  "keyLive (keyCore k) = keyLive k"
  by (simp_all add: keyCore_def keyLive_def)

lemma keyCore_keyUsed [simp]: "keyCore (keyUsed now k) = keyCore k"
  by (simp add: keyCore_def keyUsed_def)

lemma map_keyCore_keyUsed:
  assumes "distinct (map key_id rows)" and "k \<in> set rows"
  shows "map keyCore (saveRow key_id (keyUsed now k) rows) = map keyCore rows"
proof -
  have "x = k" if "x \<in> set rows" "key_id x = key_id k" for x
    using distinct_key_eq [OF assms(1) that(1) assms(2) that(2)] .
  with assms(2) show ?thesis by (auto simp: saveRow_def)
qed

lemma validateApiKey_frame:
  assumes "db_inv E s"
  shows "meterFrame s (snd (validateApiKey E raw svc w s))"
  using map_keyCore_keyUsed [OF db_inv_distinct(4) [OF assms]]
  by (auto simp: validateApiKey_run meterFrame_def split: option.split dest!: findLiveKey_Some)

lemma meter_frame: "meterFrame s (snd (meter E aid c s))"
proof -
  have save: "meterFrame t (snd (saveUsage E f u t))" for f u t
    by (auto simp: saveUsage_def insertUsage_def updateUsage_def meterFrame_def Let_def
        split: option.split)
  have charge: "meterFrame s (rateCharged aid c s)" for aid c
    by (simp add: meterFrame_def)
  show ?thesis
  proof (cases "1 \<le> c")
    case False
    then show ?thesis by (simp add: meter_BadCount)
  next
    case c: True
    show ?thesis
    proof (cases "rowAt acc_id aid (accounts s)")
      case None
      with c show ?thesis by (simp add: meter_NoAccount)
    next
      case (Some a)
      consider "acc_status a \<noteq> AccActive" | "acc_status a = AccActive" "\<not> rateAllows aid (acc_rateLimitRpm a) c s"
        | "acc_status a = AccActive" "rateAllows aid (acc_rateLimitRpm a) c s" by blast
      then show ?thesis
      proof cases
        case 1
        with c Some show ?thesis by (simp add: meter_Inactive)
      next
        case 2
        with meter_RateLimited [OF c Some 2(1) refl, of E] show ?thesis
          by (simp add: rateAllows_def meterFrame_def)
      next
        case 3
        with meter_allowed [OF c Some 3, of E] show ?thesis
          using meterFrame_trans [OF charge [of aid c] save] charge by (simp add: Let_def)
      qed
    qed
  qed
qed

lemma validateAndMeter_frame:
  assumes "db_inv E s"
  shows "meterFrame s (snd (validateAndMeter E raw svc w c s))"
  unfolding validateAndMeter_def
proof (rule andThen_sndI)
  show "meterFrame s s'" if "validateApiKey E raw svc w s = (Inl e, s')" for e s'
    using validateApiKey_frame [OF assms, of raw svc w] that by simp
  fix a s'
  assume "validateApiKey E raw svc w s = (Inr a, s')"
  with validateApiKey_frame [OF assms, of raw svc w] have "meterFrame s s'" by simp
  then show "meterFrame s (snd (andThen (meter E (val_accountId a) (coalesce c 1))
      (\<lambda>metered. ret \<lparr>ma_auth = a\<lparr>val_monthlyTxUsed := met_monthlyTxUsed metered,
            val_monthlyTxQuota := met_monthlyTxQuota metered,
            val_rateLimitRpm := met_rateLimitRpm metered\<rparr>,
          ma_periodKey = met_periodKey metered\<rparr>) s'))"
    using meter_frame by (simp add: meterFrame_trans)
qed

section \<open>What a metering client can do\<close>

inductive meterSteps :: "env \<Rightarrow> db \<Rightarrow> db \<Rightarrow> bool" for E where
  none: "meterSteps E s s"
| call: "meterSteps E s t \<Longrightarrow> meterSteps E s (snd (validateAndMeter E raw svc w c t))"
| time: "meterSteps E s t \<Longrightarrow> clock t \<le> now \<Longrightarrow> meterSteps E s (t\<lparr>clock := now\<rparr>)"

lemma meterSteps_inv:
  assumes "meterSteps E s t" and "env_ok E" and "db_inv E s"
  shows "db_inv E t"
  using assms by (induction) (auto intro: inv_clock preservesD [OF validateAndMeter_inv])

lemma meterSteps_frame:
  assumes "meterSteps E s t" and "env_ok E" and "db_inv E s"
  shows "meterFrame s t"
  using assms
proof (induction)
  case (none s)
  then show ?case by simp
next
  case (call s t raw svc w c)
  then have "db_inv E t" using meterSteps_inv by blast
  with call show ?case using meterFrame_trans validateAndMeter_frame by blast
next
  case (time s t now)
  then show ?case by (auto simp: meterFrame_def)
qed

text \<open>The remote service calls back into billing only to authorise and meter.\<close>

definition remote_meters :: "env \<Rightarrow> remote \<Rightarrow> bool" where
  "remote_meters E fetch \<longleftrightarrow> (\<forall>url key body s. meterSteps E s (snd (fetch url key body s)))"

end
