(* ===== verification/ProductOps.thy ===== *)
theory ProductOps
  imports BillingSafe
begin

text \<open>
  Closed forms of product creation and of the key operations, and their preservation of the
  integrity invariant. The state between the creation of the rows and the answer of the remote
  service is \<open>createdState\<close>; the state the caller sees is \<open>activated\<close> or
  \<open>deleteProduct\<close> applied to what the remote service left.
\<close>

section \<open>Creation of the rows\<close>

definition productRow :: "env \<Rightarrow> createProductInput \<Rightarrow> db \<Rightarrow> product" where
  "productRow E input s =
     \<lparr>prod_id = newUuid E (nextId s), prod_accountId = cpi_accountId input,
      prod_name = trim (cpi_name input), prod_description = cpi_description input,
      prod_status = ProdActive, prod_createdAt = clock s, prod_updatedAt = clock s\<rparr>"

definition resourceRow :: "env \<Rightarrow> createProductInput \<Rightarrow> db \<Rightarrow> resource" where
  "resourceRow E input s =
     \<lparr>res_id = newUuid E (nextId s + 1), res_productId = newUuid E (nextId s),
      res_service = cpi_service input, res_walletId = cpi_walletId input,
      res_status = ResPending, res_createdAt = clock s, res_updatedAt = clock s\<rparr>"

definition drawnKey :: "env \<Rightarrow> resourceService \<Rightarrow> db \<Rightarrow> string \<times> string" where
  "drawnKey E svc s = apiKeyOf svc (randomBytes E (nextRandom s) 24)"

definition defaultKeyName :: "createProductInput \<Rightarrow> string" where
  "defaultKeyName input = serviceStr (cpi_service input) @ ''-'' @ cpi_walletId input"

definition keyRow :: "env \<Rightarrow> createProductInput \<Rightarrow> db \<Rightarrow> apiKey" where
  "keyRow E input s =
     \<lparr>key_id = newUuid E (nextId s + 2), key_resourceId = newUuid E (nextId s + 1),
      key_prefix = snd (drawnKey E (cpi_service input) s),
      key_keyHash = hashApiKey E (fst (drawnKey E (cpi_service input) s)),
      key_name = Some (defaultKeyName input), key_revokedAt = None, key_lastUsedAt = None,
      key_createdAt = clock s, key_updatedAt = clock s\<rparr>"

text \<open>The product is stored; the resource is not.\<close>

definition orphaned :: "env \<Rightarrow> createProductInput \<Rightarrow> db \<Rightarrow> db" where
  "orphaned E input s =
     s\<lparr>products := products s @ [productRow E input s], nextId := nextId s + 1\<rparr>"

definition createdState :: "env \<Rightarrow> createProductInput \<Rightarrow> db \<Rightarrow> db" where
  "createdState E input s =
     s\<lparr>products := products s @ [productRow E input s],
       resources := resources s @ [resourceRow E input s],
       apiKeys := apiKeys s @ [keyRow E input s],
       nextId := nextId s + 3, nextRandom := nextRandom s + 1\<rparr>"

definition activeCount :: "string \<Rightarrow> db \<Rightarrow> nat" where
  "activeCount aid s =
     countWhere (\<lambda>p. prod_accountId p = aid \<and> prod_status p = ProdActive) (products s)"

text \<open>What \<open>createProduct\<close> checks before it stores anything.\<close>

definition mayCreate :: "createProductInput \<Rightarrow> db \<Rightarrow> bool" where
  "mayCreate input s \<longleftrightarrow>
     (\<exists>a. rowAt acc_id (cpi_accountId input) (accounts s) = Some a \<and> acc_status a = AccActive \<and>
        int (activeCount (cpi_accountId input) s) < acc_maxProducts a) \<and>
     fits 160 (trim (cpi_name input))"

definition walletTaken :: "createProductInput \<Rightarrow> db \<Rightarrow> bool" where
  "walletTaken input s \<longleftrightarrow>
     (\<exists>r\<in>set (resources s). res_service r = cpi_service input \<and> res_walletId r = cpi_walletId input)"

definition resourceOk :: "createProductInput \<Rightarrow> db \<Rightarrow> bool" where
  "resourceOk input s \<longleftrightarrow>
     walletIdValid (cpi_walletId input) \<and> \<not> walletTaken input s \<and>
     fits 128 (cpi_walletId input) \<and> fits 80 (defaultKeyName input)"

lemma apiKeyOf_prefix_fits: "fits 32 (snd (apiKeyOf svc bs))"
  by (simp add: apiKeyOf_def Let_def fits_def)

lemma hashApiKey_fits: "env_ok E \<Longrightarrow> fits 128 (hashApiKey E raw)"
  by (simp add: hashApiKey_def fits_def env_ok_def length_toHex)

lemma createResource_run:
  assumes "env_ok E"
  shows "createResourceInternal E pid svc wid None s =
    (if \<not> walletIdValid wid then (Inl BadWalletId, s)
     else if \<exists>r\<in>set (resources s). res_service r = svc \<and> res_walletId r = wid
       then (Inl (ResourceExists svc wid), s)
     else if \<not> fits 128 wid then (Inl (ValueTooLong ''resources''), s\<lparr>nextId := nextId s + 1\<rparr>)
     else
       let r = \<lparr>res_id = newUuid E (nextId s), res_productId = pid, res_service = svc,
                res_walletId = wid, res_status = ResPending, res_createdAt = clock s,
                res_updatedAt = clock s\<rparr>;
           raw = fst (drawnKey E svc s); pfx = snd (drawnKey E svc s);
           nm = serviceStr svc @ ''-'' @ wid;
           s' = s\<lparr>resources := resources s @ [r], nextId := nextId s + 2,
                  nextRandom := nextRandom s + 1\<rparr>
       in if \<not> fits 80 nm then (Inl (ValueTooLong ''api_keys''), s')
          else (Inr \<lparr>rc_resource = r, rc_apiKey = raw, rc_prefix = pfx\<rparr>,
                s'\<lparr>apiKeys := apiKeys s @
                  [\<lparr>key_id = newUuid E (nextId s + 1), key_resourceId = newUuid E (nextId s),
                    key_prefix = pfx, key_keyHash = hashApiKey E raw, key_name = Some nm,
                    key_revokedAt = None, key_lastUsedAt = None,
                    key_createdAt = clock s, key_updatedAt = clock s\<rparr>]\<rparr>))"
proof -
  let ?P = "\<lambda>r. res_service r = svc \<and> res_walletId r = wid"
  obtain raw pfx where key: "drawnKey E svc s = (raw, pfx)" by (cases "drawnKey E svc s")
  then have draw: "apiKeyOf svc (randomBytes E (nextRandom s) 24) = (raw, pfx)"
    by (simp add: drawnKey_def)
  have "fits 32 pfx" using apiKeyOf_prefix_fits [of svc "randomBytes E (nextRandom s) 24"] draw by simp
  moreover have "fits 128 (hashApiKey E raw)" by (rule hashApiKey_fits [OF assms])
  moreover have "(find ?P (resources s) \<noteq> None) = (\<exists>r\<in>set (resources s). ?P r)"
    by (auto simp: find_None_iff)
  ultimately show ?thesis
    using draw key
    by (auto simp: createResourceInternal_def insert_steps generateApiKey_def newApiKey_def
        andThen_assoc Let_def fitsOpt_def)
qed

lemma createProduct_refused:
  "rowAt acc_id (cpi_accountId input) (accounts s) = None \<Longrightarrow>
    createProduct E cfg fetch input s = (Inl AccountNotFound, s)"
  "rowAt acc_id (cpi_accountId input) (accounts s) = Some a \<Longrightarrow> acc_status a \<noteq> AccActive \<Longrightarrow>
    createProduct E cfg fetch input s = (Inl AccountInactive, s)"
  by (simp_all add: createProduct_def)

lemma createProduct_quota:
  assumes "rowAt acc_id (cpi_accountId input) (accounts s) = Some a" and "acc_status a = AccActive"
    and "acc_maxProducts a \<le> int (activeCount (cpi_accountId input) s)"
  shows "createProduct E cfg fetch input s = (Inl (ProductQuotaReached (acc_maxProducts a)), s)"
proof -
  have "acc_id a = cpi_accountId input" using account_of_row [OF assms(1)] by simp
  with assms show ?thesis
    by (simp add: createProduct_def assertProductQuota_def andThen_assoc activeCount_def)
qed

lemma createProduct_run:
  assumes "mayCreate input s"
  shows "createProduct E cfg fetch input s =
    andThen (createResourceInternal E (newUuid E (nextId s)) (cpi_service input)
        (cpi_walletId input) None)
      (provisionOrRollback cfg fetch input (productRow E input s)) (orphaned E input s)"
proof -
  from assms obtain a where a: "rowAt acc_id (cpi_accountId input) (accounts s) = Some a"
      "acc_status a = AccActive" "int (activeCount (cpi_accountId input) s) < acc_maxProducts a"
    and nm: "fits 160 (trim (cpi_name input))"
    unfolding mayCreate_def by blast
  have "acc_id a = cpi_accountId input" using account_of_row [OF a(1)] by simp
  moreover have "insertProduct E (newProduct (cpi_accountId input) input) s =
      (Inr (productRow E input s), orphaned E input s)"
    using nm by (simp add: insertProduct_def newProduct_def productRow_def orphaned_def Let_def)
  ultimately show ?thesis
    using a by (simp add: createProduct_def assertProductQuota_def andThen_assoc activeCount_def
        andThen_Inr productRow_def)
qed

lemma createProduct_bad_resource:
  assumes "env_ok E" and "mayCreate input s"
  shows "\<not> walletIdValid (cpi_walletId input) \<Longrightarrow>
      createProduct E cfg fetch input s = (Inl BadWalletId, orphaned E input s)"
    and "walletIdValid (cpi_walletId input) \<Longrightarrow> walletTaken input s \<Longrightarrow>
      createProduct E cfg fetch input s =
        (Inl (ResourceExists (cpi_service input) (cpi_walletId input)), orphaned E input s)"
  using assms
  by (auto simp: createProduct_run andThen_def createResource_run walletTaken_def orphaned_def)

lemma createResource_created:
  assumes "env_ok E" and "resourceOk input s"
  shows "createResourceInternal E (newUuid E (nextId s)) (cpi_service input)
      (cpi_walletId input) None (orphaned E input s) =
    (Inr \<lparr>rc_resource = resourceRow E input s, rc_apiKey = fst (drawnKey E (cpi_service input) s),
          rc_prefix = snd (drawnKey E (cpi_service input) s)\<rparr>, createdState E input s)"
proof -
  have "drawnKey E svc (orphaned E input s) = drawnKey E svc s" for svc
    by (simp add: drawnKey_def orphaned_def)
  moreover have "\<not> (\<exists>r\<in>set (resources (orphaned E input s)).
      res_service r = cpi_service input \<and> res_walletId r = cpi_walletId input)"
    using assms(2) by (simp add: resourceOk_def walletTaken_def orphaned_def)
  ultimately show ?thesis
    using assms(2)
    by (simp add: createResource_run [OF assms(1)] resourceOk_def defaultKeyName_def Let_def)
      (simp add: orphaned_def resourceRow_def keyRow_def defaultKeyName_def createdState_def)
qed

lemma createProduct_created:
  assumes "env_ok E" and "mayCreate input s" and "resourceOk input s"
  shows "createProduct E cfg fetch input s =
    provisionOrRollback cfg fetch input (productRow E input s)
      \<lparr>rc_resource = resourceRow E input s, rc_apiKey = fst (drawnKey E (cpi_service input) s),
       rc_prefix = snd (drawnKey E (cpi_service input) s)\<rparr>
      (createdState E input s)"
  using assms(2) by (simp add: createProduct_run andThen_def createResource_created [OF assms(1,3)])

section \<open>The invariant through creation\<close>

lemma createResource_inv:
  assumes "env_ok E" and "db_inv E s" and "p \<in> set (products s)" and "prod_id p = pid"
    and "prod_status p = ProdActive" and "\<forall>x\<in>set (resources s). res_productId x \<noteq> pid"
  shows "db_inv E (snd (createResourceInternal E pid svc wid None s))"
proof -
  let ?r = "\<lparr>res_id = newUuid E (nextId s), res_productId = pid, res_service = svc,
      res_walletId = wid, res_status = ResPending, res_createdAt = clock s, res_updatedAt = clock s\<rparr>"
  let ?s = "s\<lparr>resources := resources s @ [?r], nextId := nextId s + 2, nextRandom := nextRandom s + 1\<rparr>"
  let ?s1 = "s\<lparr>nextId := nextId s + 1, resources := resources s @ [?r]\<rparr>"
  let ?free = "fits 128 wid \<and> \<not> (\<exists>r\<in>set (resources s). res_service r = svc \<and> res_walletId r = wid)"
  have s1: "db_inv E ?s1" if ?free
  proof -
    have "db_inv E (snd (insertResource E ?r s))"
      using assms by (intro inv_insertResource) auto
    moreover have "insertResource E ?r s = (Inr ?r, ?s1)"
      using that by (auto simp: insertResource_def Let_def)
    ultimately show ?thesis by simp
  qed
  have s2: "db_inv E ?s" if ?free
  proof -
    have "?s = ?s1\<lparr>nextId := Suc (nextId ?s1), nextRandom := nextRandom s + 1\<rparr>" by simp
    with inv_random [OF inv_nextId [OF s1 [OF that]]] show ?thesis by metis
  qed
  have unused: "key_resourceId k \<noteq> newUuid E (nextId s)" if "k \<in> set (apiKeys s)" for k
  proof -
    have "key_resourceId k \<in> res_id ` set (resources s)"
      using assms(2) that by (auto simp: inv_defs dest: refers_in)
    moreover have "newUuid E (nextId s) \<notin> res_id ` set (resources s)"
      using assms(1,2) by (auto simp: inv_defs dest!: env_ok_inj fresh_table_unused [of _ _ res_id])
    ultimately show ?thesis by auto
  qed
  have s3: "db_inv E (?s\<lparr>apiKeys := apiKeys s @
      [\<lparr>key_id = newUuid E (nextId s + 1), key_resourceId = newUuid E (nextId s),
        key_prefix = pfx, key_keyHash = h, key_name = Some nm, key_revokedAt = None,
        key_lastUsedAt = None, key_createdAt = clock s, key_updatedAt = clock s\<rparr>]\<rparr>)"
    if ?free "fits 80 nm" "fits 32 pfx" "fits 128 h" for pfx h nm
  proof -
    let ?k = "newApiKey (newUuid E (nextId s)) pfx h nm"
    let ?t = "?s1\<lparr>nextRandom := nextRandom s + 1\<rparr>"
    let ?row = "?k\<lparr>key_id := newUuid E (nextId s + 1), key_createdAt := clock s,
        key_updatedAt := clock s\<rparr>"
    have "db_inv E ?t" using inv_random [OF s1 [OF that(1)]] .
    then have "db_inv E (snd (insertApiKey E ?k ?t))"
      using assms(1) unused by (intro inv_insertApiKey) (auto simp: newApiKey_def)
    moreover have "snd (insertApiKey E ?k ?t) = ?s\<lparr>apiKeys := apiKeys s @ [?row]\<rparr>"
      using that by (simp add: insertApiKey_def newApiKey_def fitsOpt_def Let_def)
    ultimately show ?thesis by (simp add: newApiKey_def)
  qed
  show ?thesis
    using assms(2) inv_nextId [OF assms(2)] s2 s3 hashApiKey_fits [OF assms(1)]
      apiKeyOf_prefix_fits
    by (auto simp: createResource_run [OF assms(1)] Let_def drawnKey_def)
qed

lemma inv_orphaned:
  assumes "env_ok E" and "db_inv E s" and "mayCreate input s"
  shows "db_inv E (orphaned E input s)"
proof -
  have "cpi_accountId input \<in> acc_id ` set (accounts s)"
    using assms(3) by (auto simp: mayCreate_def dest: account_of_row)
  then have "db_inv E (snd (insertProduct E (newProduct (cpi_accountId input) input) s))"
    using assms by (intro inv_insertProduct) (auto simp: newProduct_def)
  moreover have "snd (insertProduct E (newProduct (cpi_accountId input) input) s) = orphaned E input s"
    using assms(3)
    by (simp add: insertProduct_def newProduct_def productRow_def orphaned_def mayCreate_def Let_def)
  ultimately show ?thesis by simp
qed

lemma fresh_product_unused:
  assumes "env_ok E" and "db_inv E s"
  shows "newUuid E (nextId s) \<notin> prod_id ` set (products s)"
    and "newUuid E (Suc (nextId s)) \<notin> res_id ` set (resources s)"
    and "\<forall>r\<in>set (resources s). res_productId r \<noteq> newUuid E (nextId s)"
    and "\<forall>k\<in>set (apiKeys s). key_resourceId k \<noteq> newUuid E (Suc (nextId s))"
proof -
  note inj = env_ok_inj [OF assms(1)]
  show p: "newUuid E (nextId s) \<notin> prod_id ` set (products s)"
    using assms(2) fresh_table_unused [OF _ inj, of "nextId s" prod_id] by (auto simp: inv_defs)
  show r: "newUuid E (Suc (nextId s)) \<notin> res_id ` set (resources s)"
    using assms(2) fresh_table_unused [OF _ inj, of "nextId s" res_id _ "Suc (nextId s)"]
    by (auto simp: inv_defs)
  have "refers res_productId (resources s) prod_id (products s)"
    and "refers key_resourceId (apiKeys s) res_id (resources s)"
    using assms(2) by (simp_all add: inv_defs)
  with p r show "\<forall>r\<in>set (resources s). res_productId r \<noteq> newUuid E (nextId s)"
    and "\<forall>k\<in>set (apiKeys s). key_resourceId k \<noteq> newUuid E (Suc (nextId s))"
    by (metis refers_in)+
qed

lemma orphan_resource_inv:
  assumes "env_ok E" and "db_inv E s" and "mayCreate input s"
  shows "db_inv E (snd (createResourceInternal E (newUuid E (nextId s)) (cpi_service input)
    (cpi_walletId input) None (orphaned E input s)))"
  using inv_orphaned [OF assms] fresh_product_unused(3) [OF assms(1,2)]
  by (intro createResource_inv [OF assms(1), where p = "productRow E input s"])
    (auto simp: orphaned_def productRow_def)

lemma inv_createdState:
  assumes "env_ok E" and "db_inv E s" and "mayCreate input s" and "resourceOk input s"
  shows "db_inv E (createdState E input s)"
  using orphan_resource_inv [OF assms(1-3)] createResource_created [OF assms(1,4)] by simp

section \<open>Provisioning\<close>

lemma provision_steps:
  assumes "remote_meters E fetch"
  shows "meterSteps E s (snd (provision cfg fetch svc wid key s))"
proof -
  have "meterSteps E s t" if "fetch u k b s = (r, t)" for u k b r t
    using assms that unfolding remote_meters_def by (metis snd_conv)
  then show ?thesis
    by (auto simp: provision_def Let_def split: prod.split fetchResult.split intro: meterSteps.none)
qed

text \<open>The row after the resource has been marked active.\<close>

definition activeRow :: "env \<Rightarrow> createProductInput \<Rightarrow> db \<Rightarrow> millis \<Rightarrow> resource" where
  "activeRow E input s now =
     (resourceRow E input s)\<lparr>res_status := ResActive, res_updatedAt := now\<rparr>"

definition createdResult :: "env \<Rightarrow> createProductInput \<Rightarrow> db \<Rightarrow> millis \<Rightarrow> productCreated" where
  "createdResult E input s now =
     \<lparr>pc_product = productRow E input s, pc_resource = activeRow E input s now,
      pc_apiKey = fst (drawnKey E (cpi_service input) s),
      pc_prefix = snd (drawnKey E (cpi_service input) s)\<rparr>"

lemma createProduct_outcome:
  assumes "env_ok E" and "db_inv E s" and "remote_meters E fetch"
    and "mayCreate input s" and "resourceOk input s"
  obtains (created) t where "meterSteps E (createdState E input s) t"
      and "createProduct E cfg fetch input s =
        (Inr (createdResult E input s (clock t)),
         t\<lparr>resources := resources s @ [activeRow E input s (clock t)]\<rparr>)"
  | (rolledBack) t e where "meterSteps E (createdState E input s) t"
      and "fst (provision cfg fetch (cpi_service input) (cpi_walletId input)
              (fst (drawnKey E (cpi_service input) s)) (createdState E input s)) = Inl e"
      and "createProduct E cfg fetch input s =
        (Inl e, snd (deleteProduct (newUuid E (nextId s)) t))"
proof -
  let ?c = "createdState E input s"
  let ?key = "fst (drawnKey E (cpi_service input) s)"
  obtain r t where prov: "provision cfg fetch (cpi_service input) (cpi_walletId input) ?key ?c = (r, t)"
    by (cases "provision cfg fetch (cpi_service input) (cpi_walletId input) ?key ?c")
  have steps: "meterSteps E ?c t"
    using provision_steps [OF assms(3), of ?c cfg "cpi_service input" "cpi_walletId input" ?key] prov
    by simp
  have "db_inv E ?c" using assms by (rule_tac inv_createdState)
  then have "resources t = resources s @ [resourceRow E input s]"
    using meterSteps_frame [OF steps assms(1)] by (simp add: meterFrame_def createdState_def)
  moreover have "res_id (resourceRow E input s) \<notin> res_id ` set (resources s)"
    using fresh_product_unused(2) [OF assms(1,2)] by (simp add: resourceRow_def)
  ultimately have row: "rowAt res_id (res_id (resourceRow E input s)) (resources t) =
      Some (resourceRow E input s)"
    and save: "saveRow res_id (activeRow E input s (clock t)) (resources t) =
      resources s @ [activeRow E input s (clock t)]"
    by (simp_all add: rowAt_snoc saveRow_snoc activeRow_def)
  show thesis
  proof (cases r)
    case (Inl e)
    then have "createProduct E cfg fetch input s =
        (Inl e, snd (deleteProduct (newUuid E (nextId s)) t))"
      using prov
      by (simp add: createProduct_created [OF assms(1,4,5)] provisionOrRollback_def catching_def
          andThen_def deleteProduct_def productRow_def)
    with steps prov Inl that(2) show thesis by simp
  next
    case (Inr u)
    have mark: "markResourceActive (res_id (resourceRow E input s)) t =
        (Inr (activeRow E input s (clock t)),
         t\<lparr>resources := resources s @ [activeRow E input s (clock t)]\<rparr>)"
      using row save by (simp add: markResourceActive_def updateResource_def Let_def activeRow_def)
    have "createProduct E cfg fetch input s =
        (Inr (createdResult E input s (clock t)),
         t\<lparr>resources := resources s @ [activeRow E input s (clock t)]\<rparr>)"
      using prov Inr
      by (simp add: createProduct_created [OF assms(1,4,5)] provisionOrRollback_def catching_def
          andThen_def mark createdResult_def)
    with steps that(1) show thesis by blast
  qed
qed

text \<open>The two ways creation ends before the remote service is called.\<close>

lemma createProduct_not_allowed:
  assumes "\<not> mayCreate input s"
  shows "\<exists>e. createProduct E cfg fetch input s = (Inl e, s) \<or>
    createProduct E cfg fetch input s = (Inl e, s\<lparr>nextId := Suc (nextId s)\<rparr>)"
proof (cases "rowAt acc_id (cpi_accountId input) (accounts s)")
  case None
  then show ?thesis by (auto simp: createProduct_refused)
next
  case (Some a)
  then have id: "acc_id a = cpi_accountId input" using account_of_row by blast
  show ?thesis
  proof (cases "acc_status a = AccActive \<and> int (activeCount (cpi_accountId input) s) < acc_maxProducts a")
    case False
    with Some show ?thesis
      by (cases "acc_status a = AccActive") (auto simp: createProduct_refused createProduct_quota)
  next
    case True
    with Some assms have "\<not> fits 160 (trim (cpi_name input))"
      by (auto simp: mayCreate_def)
    with Some True id show ?thesis
      by (auto simp: createProduct_def assertProductQuota_def andThen_assoc activeCount_def
          insert_steps newProduct_def Let_def)
  qed
qed

lemma createProduct_not_ok:
  assumes "env_ok E" and "mayCreate input s" and "\<not> resourceOk input s"
  shows "\<exists>e. createProduct E cfg fetch input s =
    (Inl e, snd (createResourceInternal E (newUuid E (nextId s)) (cpi_service input)
      (cpi_walletId input) None (orphaned E input s)))"
proof -
  let ?m = "createResourceInternal E (newUuid E (nextId s)) (cpi_service input)
      (cpi_walletId input) None (orphaned E input s)"
  have "drawnKey E svc (orphaned E input s) = drawnKey E svc s" for svc
    by (simp add: drawnKey_def orphaned_def)
  with assms(3) have "\<exists>e. fst ?m = Inl e"
    by (auto simp: createResource_run [OF assms(1)] resourceOk_def walletTaken_def defaultKeyName_def
        orphaned_def Let_def)
  then show ?thesis
    by (auto simp: createProduct_run [OF assms(2)] andThen_def split: prod.split sum.split)
qed

lemma createProduct_inv_refused:
  assumes "db_inv E s" and "\<not> mayCreate input s"
  shows "db_inv E (snd (createProduct E cfg fetch input s))"
  using createProduct_not_allowed [OF assms(2), of E cfg fetch] assms(1) inv_nextId [OF assms(1)]
  by auto

lemma createProduct_inv_bad_resource:
  assumes "env_ok E" and "db_inv E s" and "mayCreate input s" and "\<not> resourceOk input s"
  shows "db_inv E (snd (createProduct E cfg fetch input s))"
  using createProduct_not_ok [OF assms(1,3,4), of cfg fetch] orphan_resource_inv [OF assms(1-3)]
  by auto

text \<open>Marking the new resource active keeps the invariant: its product is not archived.\<close>

lemma inv_activated:
  assumes "env_ok E" and "db_inv E s" and "db_inv E t"
    and same: "resources t = resources s @ [resourceRow E input s]"
      "products t = products s @ [productRow E input s]"
  shows "db_inv E (t\<lparr>resources := resources s @ [activeRow E input s (clock t)]\<rparr>)"
proof -
  let ?r = "(resourceRow E input s)\<lparr>res_status := ResActive\<rparr>"
  have "db_inv E (snd (updateResource ?r t))"
  proof (rule inv_updateResource [OF assms(3), where old = "resourceRow E input s"])
    fix p
    assume "p \<in> set (products t)" and "prod_id p = res_productId ?r"
      and arch: "prod_status p = ProdArchived"
    moreover have "prod_id q \<noteq> newUuid E (nextId s)" if "q \<in> set (products s)" for q
      using fresh_product_unused(1) [OF assms(1,2)] that by (metis imageI)
    ultimately have "p = productRow E input s" using same(2) by (auto simp: resourceRow_def)
    with arch show "res_status ?r = ResSuspended" by (simp add: productRow_def)
  qed (simp_all add: same)
  moreover have "saveRow res_id (activeRow E input s (clock t)) (resources t) =
      resources s @ [activeRow E input s (clock t)]"
    unfolding same(1) using fresh_product_unused(2) [OF assms(1,2)]
    by (intro saveRow_snoc) (simp_all add: resourceRow_def activeRow_def)
  ultimately show ?thesis
    by (simp add: updateResource_def activeRow_def Let_def)
qed

lemma createProduct_inv:
  assumes "env_ok E" and "remote_meters E fetch"
  shows "preserves (db_inv E) (createProduct E cfg fetch input)"
proof (rule preservesI)
  fix s
  assume inv: "db_inv E s"
  show "db_inv E (snd (createProduct E cfg fetch input s))"
  proof (cases "mayCreate input s \<and> resourceOk input s")
    case False
    with createProduct_inv_refused [OF inv] createProduct_inv_bad_resource [OF assms(1) inv]
    show ?thesis by blast
  next
    case ok: True
    note created = inv_createdState [OF assms(1) inv conjunct1 [OF ok] conjunct2 [OF ok]]
    show ?thesis
    proof (rule createProduct_outcome
        [OF assms(1) inv assms(2) conjunct1 [OF ok] conjunct2 [OF ok], of cfg])
      fix t
      assume steps: "meterSteps E (createdState E input s) t"
        and run: "createProduct E cfg fetch input s = (Inr (createdResult E input s (clock t)),
          t\<lparr>resources := resources s @ [activeRow E input s (clock t)]\<rparr>)"
      show ?thesis
        unfolding run snd_conv
        using meterSteps_frame [OF steps assms(1) created]
        by (intro inv_activated [OF assms(1) inv meterSteps_inv [OF steps assms(1) created]])
          (simp_all add: meterFrame_def createdState_def)
    next
      fix t e
      assume steps: "meterSteps E (createdState E input s) t"
        and "createProduct E cfg fetch input s = (Inl e, snd (deleteProduct (newUuid E (nextId s)) t))"
      then show ?thesis
        using inv_deleteProduct [OF meterSteps_inv [OF steps assms(1) created]] by simp
    qed
  qed
qed

end
