(* ===== verification/KeyOps.thy ===== *)
theory KeyOps
  imports ProductOps
begin

text \<open>
  Rotation and revocation of API keys in closed form, and the invariant through the remaining
  operations of the service: key operations, product edits and payment events.
\<close>

section \<open>Keys\<close>

definition revokeRow :: "millis \<Rightarrow> apiKey \<Rightarrow> apiKey" where
  "revokeRow now k = k\<lparr>key_revokedAt := Some now, key_updatedAt := now\<rparr>"

definition revokeLive :: "string \<Rightarrow> millis \<Rightarrow> apiKey list \<Rightarrow> apiKey list" where
  "revokeLive rid now rows =
     map (\<lambda>k. if key_resourceId k = rid \<and> keyLive k then revokeRow now k else k) rows"

lemma revokeRow_simps [simp]:
  "key_id (revokeRow now k) = key_id k" "key_resourceId (revokeRow now k) = key_resourceId k"
  "key_keyHash (revokeRow now k) = key_keyHash k" "\<not> keyLive (revokeRow now k)"
  by (simp_all add: revokeRow_def keyLive_def)

lemma stampRevoked_run:
  "stampRevoked k s =
     (Inr (), s\<lparr>apiKeys := saveRow key_id (revokeRow (clock s) k) (apiKeys s)\<rparr>)"
  by (simp add: stampRevoked_def revokeRow_def)

lemma revoke_loop:
  assumes "distinct (map key_id (apiKeys s))"
  shows "forEach (liveKeysOf rid s) stampRevoked s =
    (Inr (), s\<lparr>apiKeys := revokeLive rid (clock s) (apiKeys s)\<rparr>)"
proof -
  have "forEach xs stampRevoked t =
      (Inr (), t\<lparr>apiKeys := fold (\<lambda>k rows. saveRow key_id (revokeRow (clock s) k) rows) xs (apiKeys t)\<rparr>)"
    if "clock t = clock s" for xs t
    using that by (induction xs arbitrary: t) (simp_all add: andThen_def stampRevoked_run)
  moreover have "fold (\<lambda>k rows. saveRow key_id (revokeRow (clock s) k) rows) (liveKeysOf rid s) (apiKeys s) =
      map (\<lambda>k. if k \<in> set (liveKeysOf rid s) then revokeRow (clock s) k else k) (apiKeys s)"
    using assms by (intro fold_saveRow) (auto simp: liveKeysOf_def distinct_map)
  moreover have "map (\<lambda>k. if k \<in> set (liveKeysOf rid s) then revokeRow (clock s) k else k) (apiKeys s) =
      revokeLive rid (clock s) (apiKeys s)"
    by (auto simp: revokeLive_def liveKeysOf_def keyLive_def)
  ultimately show ?thesis by simp
qed

text \<open>The name a rotation gives the new key, and the row it stores.\<close>

definition rotatedName :: "string option \<Rightarrow> resource \<Rightarrow> string" where
  "rotatedName keyName r = coalesce keyName (''rotated-'' @ res_walletId r)"

definition rotatedRow :: "env \<Rightarrow> string \<Rightarrow> string option \<Rightarrow> resource \<Rightarrow> db \<Rightarrow> apiKey" where
  "rotatedRow E rid keyName r s =
     \<lparr>key_id = newUuid E (nextId s), key_resourceId = rid,
      key_prefix = snd (drawnKey E (res_service r) s),
      key_keyHash = hashApiKey E (fst (drawnKey E (res_service r) s)),
      key_name = Some (rotatedName keyName r), key_revokedAt = None, key_lastUsedAt = None,
      key_createdAt = clock s, key_updatedAt = clock s\<rparr>"

definition rotatedState :: "string \<Rightarrow> db \<Rightarrow> db" where
  "rotatedState rid s =
     s\<lparr>apiKeys := revokeLive rid (clock s) (apiKeys s), nextRandom := nextRandom s + 1,
       nextId := nextId s + 1\<rparr>"

lemma rotateApiKey_run:
  assumes "env_ok E" and "distinct (map key_id (apiKeys s))"
  shows "rotateApiKey E rid keyName s =
    (case rowAt res_id rid (resources s) of
       None \<Rightarrow> (Inl ResourceNotFound, s)
     | Some r \<Rightarrow>
         if \<not> fits 80 (rotatedName keyName r)
         then (Inl (ValueTooLong ''api_keys''), rotatedState rid s)
         else (Inr (drawnKey E (res_service r) s),
               (rotatedState rid s)\<lparr>apiKeys :=
                  revokeLive rid (clock s) (apiKeys s) @ [rotatedRow E rid keyName r s]\<rparr>))"
proof (cases "rowAt res_id rid (resources s)")
  case None
  then show ?thesis by (simp add: rotateApiKey_def)
next
  case (Some r)
  obtain raw pfx where key: "drawnKey E (res_service r) s = (raw, pfx)"
    by (cases "drawnKey E (res_service r) s")
  then have draw: "apiKeyOf (res_service r) (randomBytes E (nextRandom s) 24) = (raw, pfx)"
    by (simp add: drawnKey_def)
  have "fits 32 pfx"
    using apiKeyOf_prefix_fits [of "res_service r" "randomBytes E (nextRandom s) 24"] draw by simp
  moreover have "fits 128 (hashApiKey E raw)" by (rule hashApiKey_fits [OF assms(1)])
  moreover have "andThen (forEach (liveKeysOf rid s) stampRevoked) f s =
      f () (s\<lparr>apiKeys := revokeLive rid (clock s) (apiKeys s)\<rparr>)" for f :: "unit \<Rightarrow> (string \<times> string) billing"
    by (simp add: andThen_def revoke_loop [OF assms(2)])
  ultimately show ?thesis
    using Some key draw
    by (simp add: rotateApiKey_def generateApiKey_def andThen_assoc insert_steps newApiKey_def
        rotatedName_def rotatedRow_def rotatedState_def fitsOpt_def Let_def)
qed

lemma inv_revokeLive:
  assumes "db_inv E s"
  shows "db_inv E (s\<lparr>apiKeys := revokeLive rid now (apiKeys s)\<rparr>)"
proof -
  let ?f = "\<lambda>k. if key_resourceId k = rid \<and> keyLive k then revokeRow now k else k"
  have "fresh_table (newUuid E) (nextId s) key_id (map ?f (apiKeys s))"
    using assms by (intro fresh_table_map) (simp_all add: inv_defs)
  moreover have "unique_where keyLive key_resourceId key_id (map ?f (apiKeys s))"
    using assms by (intro unique_where_map) (simp_all add: inv_defs split: if_splits)
  moreover have "refers key_resourceId (map ?f (apiKeys s)) res_id (resources s)"
    using assms by (intro refers_map) (simp_all add: inv_defs)
  ultimately show ?thesis
    using assms by (simp add: inv_defs revokeLive_def)
qed

lemma revokeLive_none:
  assumes "k \<in> set (revokeLive rid now rows)" and "keyLive k"
  shows "key_resourceId k \<noteq> rid"
proof -
  from assms(1) obtain x where "x \<in> set rows"
    and k: "k = (if key_resourceId x = rid \<and> keyLive x then revokeRow now x else x)"
    unfolding revokeLive_def by auto
  with assms(2) show ?thesis by (cases "key_resourceId x = rid \<and> keyLive x") auto
qed

lemma inv_rotatedState:
  assumes "db_inv E s"
  shows "db_inv E (rotatedState rid s)"
proof -
  have "rotatedState rid s = s\<lparr>apiKeys := revokeLive rid (clock s) (apiKeys s),
      nextRandom := nextRandom s + 1,
      nextId := Suc (nextId (s\<lparr>apiKeys := revokeLive rid (clock s) (apiKeys s)\<rparr>))\<rparr>"
    by (simp add: rotatedState_def)
  with inv_nextId [OF inv_random [OF inv_revokeLive [OF assms]]] show ?thesis by simp
qed

lemma rotateApiKey_inv:
  assumes "env_ok E"
  shows "preserves (db_inv E) (rotateApiKey E rid keyName)"
proof (rule preservesI)
  fix s
  assume inv: "db_inv E s"
  show "db_inv E (snd (rotateApiKey E rid keyName s))"
  proof (cases "rowAt res_id rid (resources s)")
    case None
    with inv show ?thesis by (simp add: rotateApiKey_run [OF assms db_inv_distinct(4) [OF inv]])
  next
    case (Some r)
    let ?s = "s\<lparr>apiKeys := revokeLive rid (clock s) (apiKeys s), nextRandom := nextRandom s + 1\<rparr>"
    let ?k = "rotatedRow E rid keyName r s"
    have "rid \<in> res_id ` set (resources s)"
      using Some resourceTable.lookup_member by blast
    then have "db_inv E (snd (insertApiKey E ?k ?s))"
      using inv_random [OF inv_revokeLive [OF inv]] revokeLive_none
      by (intro inv_insertApiKey [OF _ assms]) (auto simp: rotatedRow_def)
    then have "db_inv E ((rotatedState rid s)\<lparr>apiKeys := revokeLive rid (clock s) (apiKeys s) @ [?k]\<rparr>)"
      if "fits 80 (rotatedName keyName r)"
    proof -
      have "snd (insertApiKey E ?k ?s) =
          (rotatedState rid s)\<lparr>apiKeys := revokeLive rid (clock s) (apiKeys s) @ [?k]\<rparr>"
        using that hashApiKey_fits [OF assms] apiKeyOf_prefix_fits
        by (simp add: insertApiKey_def rotatedRow_def rotatedState_def fitsOpt_def drawnKey_def Let_def)
      with \<open>db_inv E (snd (insertApiKey E ?k ?s))\<close> show ?thesis by simp
    qed
    with Some inv_rotatedState [OF inv] show ?thesis
      by (simp add: rotateApiKey_run [OF assms db_inv_distinct(4) [OF inv]])
  qed
qed

lemma requireOwnedResource_readonly: "snd (requireOwnedResource aid rid s) = s"
  by (simp add: requireOwnedResource_def split: option.split)

lemma preserves_requireOwnedResource [pres]: "preserves P (requireOwnedResource aid rid)"
  by (rule preservesI) (simp add: requireOwnedResource_readonly)

lemma preserves_requireOwnedProduct [pres]: "preserves P (requireOwnedProduct aid pid)"
  unfolding requireOwnedProduct_def by (intro pres)

lemma rotateApiKeyForAccount_inv:
  "env_ok E \<Longrightarrow> preserves (db_inv E) (rotateApiKeyForAccount E aid rid keyName)"
  unfolding rotateApiKeyForAccount_def by (intro pres rotateApiKey_inv)

lemma stampRevoked_inv:
  assumes "db_inv E s" and "k \<in> set (apiKeys s)"
  shows "db_inv E (snd (stampRevoked k s))"
proof -
  have "db_inv E (snd (updateApiKey (revokeRow (clock s) k) s))"
    using assms by (intro inv_updateApiKey) simp_all
  then show ?thesis by (simp add: stampRevoked_run updateApiKey_def revokeRow_def Let_def)
qed

lemma revokeApiKey_inv: "preserves (db_inv E) (revokeApiKey kid)"
  by (rule preservesI)
    (auto simp: revokeApiKey_def split: option.split dest!: rowAt_Some_in intro: stampRevoked_inv)

lemma revokeApiKeyForAccount_inv: "preserves (db_inv E) (revokeApiKeyForAccount aid kid)"
  by (rule preservesI)
    (auto simp: revokeApiKeyForAccount_def split: option.split dest!: rowAt_Some_in
      intro: stampRevoked_inv)

section \<open>Product edits and payments\<close>

lemma ownedProduct_Some:
  "requireOwnedProduct aid pid s = (Inr p, s') \<Longrightarrow>
    s' = s \<and> p \<in> set (products s) \<and> prod_id p = pid \<and> prod_accountId p = aid \<and>
    prod_status p = ProdActive"
  by (auto simp: requireOwnedProduct_def orThrow_run split: option.splits dest: find_Some_iff_in)

lemma patchProduct_inv: "preserves (db_inv E) (patchProduct aid pid n d)"
  unfolding patchProduct_def
proof (rule preserves_andThen_post [OF preserves_requireOwnedProduct])
  fix p s s'
  assume inv: "db_inv E s'" and "requireOwnedProduct aid pid s = (Inr p, s')"
  then have "p \<in> set (products s')" by (auto dest: ownedProduct_Some)
  then have "db_inv E (snd (updateProduct (p\<lparr>prod_name := x, prod_description := y\<rparr>) s'))" for x y
    using inv by (intro inv_updateProduct [where old = p]) simp_all
  with inv show "db_inv E (snd (andThen (throwIf (n = Null) NullDereference) (\<lambda>_.
      andThen (throwIf (\<not> fitsOpt 160 (map_option trim (nullish n))) (ValueTooLong ''products''))
      (\<lambda>_. updateProduct (p\<lparr>
         prod_name := (case n of Val n \<Rightarrow> trim n | _ \<Rightarrow> prod_name p),
         prod_description := (case d of Undefined \<Rightarrow> prod_description p | Null \<Rightarrow> None
                              | Val d \<Rightarrow> Some d)\<rparr>))) s'))"
    by simp
qed

lemma preserves_getProduct [pres]: "preserves P (getProduct aid pid)"
  unfolding getProduct_def by (intro pres) (auto intro!: pres)

lemma patchProductView_inv: "preserves (db_inv E) (patchProductView aid pid n d)"
  unfolding patchProductView_def by (intro pres patchProduct_inv)

lemma insertPaymentEvent_inv: "env_ok E \<Longrightarrow> preserves (db_inv E) (insertPaymentEvent E v)"
  by (blast intro: preservesI inv_insertPaymentEvent)

lemma applyPaymentEvent_inv:
  "env_ok E \<Longrightarrow> preserves (db_inv E) (applyPaymentEvent E P ev)"
  unfolding applyPaymentEvent_def
  by (intro pres insertPaymentEvent_inv setPlan_inv setAccountStatus_inv)

lemma activatePaid_inv: "env_ok E \<Longrightarrow> preserves (db_inv E) (activatePaid E P aid)"
  unfolding activatePaid_def by (intro pres applyPaymentEvent_inv)

end
