(* ===== verification/Samples.thy ===== *)
theory Samples
  imports BillingHttp
begin

text \<open>
  Concrete instances on which the properties of the billing service are exercised: an
  environment in which every parameter is a computable function, and a store with one active
  account on the free plan that owns one issuer product with its resource and live key.
\<close>

definition sampleEnv :: env where
  "sampleEnv =
     \<lparr>newUuid = (\<lambda>n. CHR ''u'' # natStr n), validUuid = (\<lambda>_. True),
      sha256 = (\<lambda>x. take 32 (map (\<lambda>c. of_nat (of_char c)) x @ replicate 32 0)),
      scrypt = (\<lambda>p t. take 64 (map (\<lambda>c. of_nat (of_char c)) (p @ t) @ replicate 64 0)),
      randomBytes = (\<lambda>n k. replicate k (of_nat n))\<rparr>"

lemma sampleEnv_ok: "env_ok sampleEnv"
  by (auto simp: env_ok_def sampleEnv_def inj_def dest: natStr_inj)

lemma sampleEnv_id [simp]: "newUuid sampleEnv m = newUuid sampleEnv n \<longleftrightarrow> m = n"
  using sampleEnv_ok by (auto simp: env_ok_def dest: injD)

definition sampleAccount :: account where
  "sampleAccount =
     \<lparr>acc_id = newUuid sampleEnv 0, acc_name = ''ACME'', acc_email = Some ''ops@acme.io'',
      acc_passwordHash = None, acc_plan = ''free'', acc_status = AccActive,
      acc_maxProducts = 2, acc_rateLimitRpm = 30, acc_monthlyTxQuota = 5000,
      acc_createdAt = 0, acc_updatedAt = 0\<rparr>"

definition sampleProduct :: product where
  "sampleProduct =
     \<lparr>prod_id = newUuid sampleEnv 1, prod_accountId = newUuid sampleEnv 0, prod_name = ''Cards'',
      prod_description = None, prod_status = ProdActive, prod_createdAt = 0, prod_updatedAt = 0\<rparr>"

definition sampleResource :: resource where
  "sampleResource =
     \<lparr>res_id = newUuid sampleEnv 2, res_productId = newUuid sampleEnv 1, res_service = Issuer,
      res_walletId = ''acme'', res_status = ResActive, res_createdAt = 0, res_updatedAt = 0\<rparr>"

definition sampleRawKey :: string where
  "sampleRawKey = ''iss_live_k''"

definition sampleKey :: apiKey where
  "sampleKey =
     \<lparr>key_id = newUuid sampleEnv 3, key_resourceId = newUuid sampleEnv 2, key_prefix = ''iss_live_k'',
      key_keyHash = hashApiKey sampleEnv sampleRawKey, key_name = Some ''issuer-acme'',
      key_revokedAt = None, key_lastUsedAt = None, key_createdAt = 0, key_updatedAt = 0\<rparr>"

definition sampleDb :: db where
  "sampleDb =
     \<lparr>accounts = [sampleAccount], identities = [], products = [sampleProduct],
      resources = [sampleResource], apiKeys = [sampleKey], subscriptions = [],
      paymentEvents = [], usagePeriods = [], rateWindows = Map.empty,
      clock = 1000, nextId = 4, nextRandom = 0\<rparr>"

lemmas sample_defs =
  sampleAccount_def sampleProduct_def sampleResource_def sampleKey_def sampleDb_def

lemma sampleDb_inv: "db_inv sampleEnv sampleDb"
proof -
  have "\<exists>p. ''free'' = planIdStr p" by (rule exI [of _ Free]) simp
  moreover have "\<exists>i<4. newUuid sampleEnv n = newUuid sampleEnv i" if "n < 4" for n
    using that by blast
  ultimately show ?thesis
    by (simp add: inv_defs sample_defs fresh_table_def unique_where_def refers_def)
qed

lemma sampleDb_account [simp]: "rowAt acc_id (newUuid sampleEnv 0) (accounts sampleDb) = Some sampleAccount"
  by (simp add: sample_defs rowAt_def)

lemma sampleDb_clock [simp]: "clock sampleDb = 1000"
  by (simp add: sampleDb_def)

lemma sampleDb_calendar: "calendarMillis (clock sampleDb)"
  by (simp add: calendarMillis_def)

lemma sampleAccount_simps [simp]:
  "acc_id sampleAccount = newUuid sampleEnv 0" "acc_status sampleAccount = AccActive"
  "acc_rateLimitRpm sampleAccount = 30" "acc_monthlyTxQuota sampleAccount = 5000"
  "acc_maxProducts sampleAccount = 2" "acc_plan sampleAccount = ''free''"
  by (simp_all add: sampleAccount_def)

text \<open>A remote service that always answers 201, one that is down, and a world around them.\<close>

definition remoteUp :: remote where
  "remoteUp = (\<lambda>url key body s. (Response 201 [], s))"

definition remoteDown :: remote where
  "remoteDown = (\<lambda>url key body s. (NetworkError, s))"

lemma remoteUp_meters: "remote_meters E remoteUp"
  by (simp add: remote_meters_def remoteUp_def meterSteps.none)

lemma remoteDown_meters: "remote_meters E remoteDown"
  by (simp add: remote_meters_def remoteDown_def meterSteps.none)

text \<open>The remote service authorises itself against billing before it answers.\<close>

definition remoteCalling :: remote where
  "remoteCalling = (\<lambda>url key body s.
     (Response 201 [], snd (validateAndMeter sampleEnv key Issuer None None s)))"

lemma remoteCalling_meters: "remote_meters sampleEnv remoteCalling"
  unfolding remote_meters_def remoteCalling_def
  by (auto intro: meterSteps.call meterSteps.none)

definition sampleConfig :: environment where
  "sampleConfig = environmentConfig Map.empty"

definition sampleJwt :: jwtLib where
  "sampleJwt =
     \<lparr>jwt_sign = (\<lambda>secret lifetime now sub email. CHR ''t'' # sub),
      jwt_verify = (\<lambda>secret now tok.
        case tok of [] \<Rightarrow> None | c # sub \<Rightarrow> if c = CHR ''t'' then Some (sub, None) else None)\<rparr>"

definition sampleWorld :: world where
  "sampleWorld =
     \<lparr>w_env = sampleEnv, w_config = sampleConfig, w_fetch = remoteCalling, w_jwt = sampleJwt,
      w_isEmail = (\<lambda>e. CHR ''@'' \<in> set e)\<rparr>"

end
