(* ===== verification/MeterProps.thy ===== *)
theory MeterProps
  imports Samples
begin

text \<open>
  What metering guarantees. The monthly counter of an account moves by exactly the count that
  was granted and never past the quota; a refusal leaves it alone; a run of requests is bounded
  by the quota as a whole; a key is accepted exactly when it is live and everything it belongs
  to is usable.
\<close>

section \<open>The period key\<close>

lemma periodKey_shape:
  assumes "calendarMillis t"
  shows "currentPeriodKey t = natStr (nat (utcFullYear t)) @ ''-'' @ padStart2 (natStr (nat (utcMonth t + 1)))"
  using utcFullYear_range [OF assms] utcMonth_range [of t]
  by (simp add: currentPeriodKey_def intStr_def)

lemma periodKey_length:
  assumes "calendarMillis t"
  shows "length (currentPeriodKey t) = 7"
proof -
  have "length (natStr (nat (utcFullYear t))) = 4"
    using utcFullYear_range [OF assms] by (intro natStr_length_four) auto
  moreover have "length (padStart2 (natStr (nat (utcMonth t + 1)))) = 2"
    using utcMonth_range [of t] by (intro natStr_length_two) auto
  ultimately show ?thesis by (simp add: periodKey_shape [OF assms])
qed

lemma periodKey_fits: "calendarMillis t \<Longrightarrow> fits 7 (currentPeriodKey t)"
  by (simp add: fits_def periodKey_length)

section \<open>One request\<close>

definition usedNow :: "string \<Rightarrow> db \<Rightarrow> int" where
  "usedNow aid s = usedInPeriod aid (currentPeriodKey (clock s)) s"

lemma usedInPeriod_insert:
  assumes "usageRow aid period (usagePeriods s) = None" and "use_accountId row = aid"
    and "use_periodKey row = period"
  shows "usedInPeriod aid period (s\<lparr>nextId := n, usagePeriods := usagePeriods s @ [row]\<rparr>) = use_txCount row"
proof -
  have "find P (xs @ [x]) = Some x" if "find P xs = None" "P x" for P :: "usagePeriod \<Rightarrow> bool" and xs x
    using that by (induction xs) (auto split: if_splits)
  with assms show ?thesis by (simp add: usedInPeriod_def usageRow_def)
qed

lemma usedInPeriod_update:
  assumes "unique_where (\<lambda>_. True) (\<lambda>u. (use_accountId u, use_periodKey u)) use_id (usagePeriods s)"
    and "usageRow aid period (usagePeriods s) = Some u"
    and "use_id row = use_id u" and "use_accountId row = aid" and "use_periodKey row = period"
  shows "usedInPeriod aid period (s\<lparr>usagePeriods := saveRow use_id row (usagePeriods s)\<rparr>) = use_txCount row"
proof -
  let ?P = "\<lambda>x. use_accountId x = aid \<and> use_periodKey x = period"
  have u: "u \<in> set (usagePeriods s)" "?P u" using usageRow_Some [OF assms(2)] by auto
  have "use_id row \<in> use_id ` set (usagePeriods s)" using u(1) assms(3) by (metis imageI)
  then have sv: "saveRow use_id row (usagePeriods s) =
      map (\<lambda>x. if use_id x = use_id row then row else x) (usagePeriods s)" by (rule saveRow_old)
  have only: "use_id x = use_id row" if "x \<in> set (usagePeriods s)" "?P x" for x
    using unique_whereD [OF assms(1) that(1) u(1)] that(2) u(2) assms(3) by simp
  have "\<forall>x\<in>set (saveRow use_id row (usagePeriods s)). ?P x \<longrightarrow> x = row"
    unfolding sv using only by auto
  moreover have "row \<in> set (saveRow use_id row (usagePeriods s))" "?P row"
    using assms(4,5) by (simp_all add: set_saveRow)
  ultimately have "find ?P (saveRow use_id row (usagePeriods s)) = Some row"
    by (smt (verit) find_None_iff find_Some_iff_in not_None_eq)
  then show ?thesis by (simp add: usedInPeriod_def usageRow_def)
qed

lemma usageRow_saved_other:
  assumes "usageRow aid period (usagePeriods s) = Some u" and "use_id row = use_id u"
    and "use_accountId row = aid" and "use_periodKey row = period"
    and "distinct (map use_id (usagePeriods s))" and "(aid', period') \<noteq> (aid, period)"
  shows "usageRow aid' period' (saveRow use_id row (usagePeriods s)) = usageRow aid' period' (usagePeriods s)"
proof -
  have u: "u \<in> set (usagePeriods s)" "use_accountId u = aid" "use_periodKey u = period"
    using usageRow_Some [OF assms(1)] by auto
  have "use_id row \<in> use_id ` set (usagePeriods s)" using u(1) assms(2) by (metis imageI)
  then have sv: "saveRow use_id row (usagePeriods s) =
      map (\<lambda>x. if use_id x = use_id row then row else x) (usagePeriods s)" by (rule saveRow_old)
  have "x = u" if "x \<in> set (usagePeriods s)" "use_id x = use_id row" for x
    using distinct_key_eq [OF assms(5) that(1) u(1)] that(2) assms(2) by simp
  then have "\<forall>x\<in>set (usagePeriods s).
      (use_accountId (if use_id x = use_id row then row else x) = aid' \<and>
       use_periodKey (if use_id x = use_id row then row else x) = period') =
      (use_accountId x = aid' \<and> use_periodKey x = period')"
    using u assms(3,4) by auto
  moreover have "find P (map f xs) = find P xs"
    if "\<forall>x\<in>set xs. P (f x) = P x" "\<forall>x\<in>set xs. P x \<longrightarrow> f x = x" for P and f :: "usagePeriod \<Rightarrow> usagePeriod" and xs
    using that by (induction xs) auto
  ultimately show ?thesis
    unfolding usageRow_def sv using u assms(2-4,6) \<open>\<And>x. x \<in> set (usagePeriods s) \<Longrightarrow> use_id x = use_id row \<Longrightarrow> x = u\<close>
    by (smt (verit, ccfv_SIG) find_cong)
qed

lemma usageRow_append_other:
  assumes "(aid', period') \<noteq> (use_accountId row, use_periodKey row)"
  shows "usageRow aid' period' (rows @ [row]) = usageRow aid' period' rows"
proof -
  have "find P (xs @ [x]) = find P xs" if "\<not> P x" for P :: "usagePeriod \<Rightarrow> bool" and xs x
    using that by (induction xs) auto
  with assms show ?thesis by (auto simp: usageRow_def)
qed

text \<open>What \<open>saveUsage\<close> leaves behind: this counter set, the others untouched.\<close>

lemma saveUsage_spec:
  assumes "db_inv E s" and "fits 7 period" and "found = usageRow aid period (usagePeriods s)"
  obtains row t where "saveUsage E found ((usageOrNew aid period found)\<lparr>use_txCount := n\<rparr>) s = (Inr row, t)"
    and "use_txCount row = n" and "usedInPeriod aid period t = n"
    and "\<And>aid' period'. (aid', period') \<noteq> (aid, period) \<Longrightarrow>
          usedInPeriod aid' period' t = usedInPeriod aid' period' s"
    and "rateWindows t = rateWindows s" and "clock t = clock s" and "accounts t = accounts s"
    and "apiKeys t = apiKeys s"
proof (cases found)
  case None
  let ?row = "\<lparr>use_id = newUuid E (nextId s), use_accountId = aid, use_periodKey = period,
      use_txCount = n, use_createdAt = clock s, use_updatedAt = clock s\<rparr>"
  let ?t = "s\<lparr>nextId := nextId s + 1, usagePeriods := usagePeriods s @ [?row]\<rparr>"
  have "saveUsage E found ((usageOrNew aid period found)\<lparr>use_txCount := n\<rparr>) s = (Inr ?row, ?t)"
    using saveUsage_run [OF assms(2,3)] None by (simp add: Let_def)
  moreover have "usedInPeriod aid period ?t = n"
    using None assms(3) by (subst usedInPeriod_insert) simp_all
  moreover have "usedInPeriod a p ?t = usedInPeriod a p s" if "(a, p) \<noteq> (aid, period)" for a p
    using that usageRow_append_other [of a p ?row] by (simp add: usedInPeriod_def)
  ultimately show thesis by (intro that [of ?row ?t]) simp_all
next
  case (Some u)
  let ?row = "u\<lparr>use_txCount := n, use_updatedAt := clock s\<rparr>"
  let ?t = "s\<lparr>usagePeriods := saveRow use_id ?row (usagePeriods s)\<rparr>"
  have row: "usageRow aid period (usagePeriods s) = Some u" using Some assms(3) by simp
  note u = usageRow_Some [OF row]
  have "saveUsage E found ((usageOrNew aid period found)\<lparr>use_txCount := n\<rparr>) s = (Inr ?row, ?t)"
    using saveUsage_run [OF assms(2,3)] Some by (simp add: Let_def)
  moreover have "usedInPeriod aid period ?t = n"
    using u assms(1) by (subst usedInPeriod_update [OF _ row]) (simp_all add: inv_defs)
  moreover have "usedInPeriod a p ?t = usedInPeriod a p s" if "(a, p) \<noteq> (aid, period)" for a p
    using usageRow_saved_other [OF row, of ?row a p] u that db_inv_distinct(5) [OF assms(1)]
    by (simp add: usedInPeriod_def)
  ultimately show thesis by (intro that [of ?row ?t]) simp_all
qed

text \<open>The branches of \<open>meter\<close>.\<close>

definition meterReply :: "account \<Rightarrow> string \<Rightarrow> int \<Rightarrow> meterResult" where
  "meterReply a period used =
     \<lparr>met_periodKey = period, met_monthlyTxUsed = used,
      met_monthlyTxQuota = acc_monthlyTxQuota a, met_rateLimitRpm = acc_rateLimitRpm a\<rparr>"

lemma meter_granted:
  assumes "db_inv E s" and "calendarMillis (clock s)" and "1 \<le> c"
    and "rowAt acc_id aid (accounts s) = Some a" and "acc_status a = AccActive"
    and "rateAllows aid (acc_rateLimitRpm a) c s" and "usedNow aid s + c \<le> acc_monthlyTxQuota a"
  obtains t where "meter E aid c s =
      (Inr (meterReply a (currentPeriodKey (clock s)) (usedNow aid s + c)), t)"
    and "usedNow aid t = usedNow aid s + c" and "clock t = clock s" and "accounts t = accounts s"
    and "\<And>aid' period'. (aid', period') \<noteq> (aid, currentPeriodKey (clock s)) \<Longrightarrow>
          usedInPeriod aid' period' t = usedInPeriod aid' period' s"
    and "rateWindows t = rateWindows (rateCharged aid c s)" and "apiKeys t = apiKeys s"
proof -
  let ?s = "rateCharged aid c s"
  let ?p = "currentPeriodKey (clock s)"
  have inv: "db_inv E ?s" using inv_rateCharged [OF assms(1)] assms(3) by simp
  show thesis
  proof (rule saveUsage_spec [OF inv periodKey_fits [OF assms(2)] refl, of aid "usedNow aid s + c"])
    fix row t
    assume "saveUsage E (usageRow aid ?p (usagePeriods ?s))
        ((usageOrNew aid ?p (usageRow aid ?p (usagePeriods ?s)))\<lparr>use_txCount := usedNow aid s + c\<rparr>) ?s =
        (Inr row, t)" and "use_txCount row = usedNow aid s + c"
      and rest: "usedInPeriod aid ?p t = usedNow aid s + c" "clock t = clock ?s"
        "rateWindows t = rateWindows ?s" "accounts t = accounts ?s" "apiKeys t = apiKeys ?s"
        "\<And>aid' period'. (aid', period') \<noteq> (aid, ?p) \<Longrightarrow>
          usedInPeriod aid' period' t = usedInPeriod aid' period' ?s"
    then have "meter E aid c s = (Inr (meterReply a ?p (usedNow aid s + c)), t)"
      using assms(7)
      by (simp add: meter_allowed [OF assms(3-6)] Let_def andThen_def usedNow_def meterReply_def)
    with rest show thesis by (intro that [of t]) (simp_all add: usedNow_def)
  qed
qed

lemma meter_exhausted:
  assumes "1 \<le> c" and "rowAt acc_id aid (accounts s) = Some a" and "acc_status a = AccActive"
    and "rateAllows aid (acc_rateLimitRpm a) c s" and "acc_monthlyTxQuota a < usedNow aid s + c"
  shows "meter E aid c s =
    (Inl (QuotaExhausted (usedNow aid s) (acc_monthlyTxQuota a) (currentPeriodKey (clock s))),
     rateCharged aid c s)"
  using assms(5) by (simp add: meter_allowed [OF assms(1-4)] Let_def usedNow_def)

definition mayMeter :: "string \<Rightarrow> int \<Rightarrow> account \<Rightarrow> db \<Rightarrow> bool" where
  "mayMeter aid c a s \<longleftrightarrow>
     1 \<le> c \<and> rowAt acc_id aid (accounts s) = Some a \<and> acc_status a = AccActive \<and>
     rateAllows aid (acc_rateLimitRpm a) c s \<and> usedNow aid s + c \<le> acc_monthlyTxQuota a"

lemma meter_refused:
  assumes "\<not> (\<exists>a. mayMeter aid c a s)"
  obtains e t where "meter E aid c s = (Inl e, t)" and "usagePeriods t = usagePeriods s"
    and "clock t = clock s" and "accounts t = accounts s"
proof (cases "1 \<le> c")
  case False
  then show thesis using that [of BadCount s] by (simp add: meter_BadCount)
next
  case c: True
  show thesis
  proof (cases "rowAt acc_id aid (accounts s)")
    case None
    then show thesis using that [of AccountNotFound s] c by (simp add: meter_NoAccount)
  next
    case (Some a)
    consider "acc_status a \<noteq> AccActive" | "acc_status a = AccActive" "\<not> rateAllows aid (acc_rateLimitRpm a) c s"
      | "acc_status a = AccActive" "rateAllows aid (acc_rateLimitRpm a) c s" by blast
    then show thesis
    proof cases
      case 1
      then show thesis using that [of AccountInactive s] c Some by (simp add: meter_Inactive)
    next
      case 2
      then show thesis
        using that meter_RateLimited [OF c Some 2(1) refl, of E] by (simp add: rateAllows_def)
    next
      case 3
      with assms c Some have "acc_monthlyTxQuota a < usedNow aid s + c"
        by (auto simp: mayMeter_def not_le)
      then show thesis by (intro that [OF meter_exhausted [OF c Some 3]]) simp_all
    qed
  qed
qed

text \<open>Both outcomes of a metered request, with what moved.\<close>

lemma meter_accounting_cases:
  assumes "env_ok E" and "db_inv E s" and "calendarMillis (clock s)"
  obtains (granted) a t where "mayMeter aid c a s"
      and "meter E aid c s = (Inr (meterReply a (currentPeriodKey (clock s)) (usedNow aid s + c)), t)"
      and "clock t = clock s" and "usedNow aid t = usedNow aid s + c"
      and "\<And>aid' p. (aid', p) \<noteq> (aid, currentPeriodKey (clock s)) \<Longrightarrow>
            usedInPeriod aid' p t = usedInPeriod aid' p s"
      and "rateWindows t = rateWindows (rateCharged aid c s)"
  | (refused) e t where "\<not> (\<exists>a. mayMeter aid c a s)" and "meter E aid c s = (Inl e, t)"
      and "clock t = clock s" and "usagePeriods t = usagePeriods s"
proof (cases "\<exists>a. mayMeter aid c a s")
  case True
  then obtain a where a: "mayMeter aid c a s" by blast
  then have pre: "1 \<le> c" "rowAt acc_id aid (accounts s) = Some a" "acc_status a = AccActive"
      "rateAllows aid (acc_rateLimitRpm a) c s" "usedNow aid s + c \<le> acc_monthlyTxQuota a"
    by (simp_all add: mayMeter_def)
  show thesis by (rule meter_granted [OF assms(2,3) pre]) (rule that(1) [OF a])
next
  case False
  obtain e t where "meter E aid c s = (Inl e, t)" and "usagePeriods t = usagePeriods s"
    and "clock t = clock s"
    by (rule meter_refused [OF False, of E])
  with False that(2) show thesis by blast
qed

text \<open>
  C27. One metered request, on every branch: when the account is active, the minute window and
  the monthly quota have room, the request is granted, the counter of the account for the
  current period grows by exactly the count and stays within the quota, and no other counter
  moves; in every other case the request is refused and no counter moves at all.
\<close>

theorem meter_accounting:
  assumes "env_ok E" and "db_inv E s" and "calendarMillis (clock s)"
  shows "case meter E aid c s of
      (Inr m, t) \<Rightarrow>
        (\<exists>a. mayMeter aid c a s \<and>
          m = meterReply a (currentPeriodKey (clock s)) (usedNow aid s + c) \<and>
          usedNow aid t = usedNow aid s + c \<and> usedNow aid t \<le> acc_monthlyTxQuota a) \<and>
        (\<forall>aid' p. (aid', p) \<noteq> (aid, currentPeriodKey (clock s)) \<longrightarrow>
          usedInPeriod aid' p t = usedInPeriod aid' p s)
    | (Inl e, t) \<Rightarrow> (\<forall>a. \<not> mayMeter aid c a s) \<and> usagePeriods t = usagePeriods s"
proof (rule meter_accounting_cases [OF assms, of aid c])
qed (auto simp: mayMeter_def)

theorem meter_accounting_witness:
  "case meter sampleEnv (newUuid sampleEnv 0) 2 sampleDb of
      (Inr m, t) \<Rightarrow>
        (\<exists>a. mayMeter (newUuid sampleEnv 0) 2 a sampleDb \<and>
          m = meterReply a (currentPeriodKey (clock sampleDb)) (usedNow (newUuid sampleEnv 0) sampleDb + 2) \<and>
          usedNow (newUuid sampleEnv 0) t = usedNow (newUuid sampleEnv 0) sampleDb + 2 \<and>
          usedNow (newUuid sampleEnv 0) t \<le> acc_monthlyTxQuota a) \<and>
        (\<forall>aid' p. (aid', p) \<noteq> (newUuid sampleEnv 0, currentPeriodKey (clock sampleDb)) \<longrightarrow>
          usedInPeriod aid' p t = usedInPeriod aid' p sampleDb)
    | (Inl e, t) \<Rightarrow> (\<forall>a. \<not> mayMeter (newUuid sampleEnv 0) 2 a sampleDb) \<and>
        usagePeriods t = usagePeriods sampleDb"
  by (rule meter_accounting [OF sampleEnv_ok sampleDb_inv sampleDb_calendar])

end
