(* ===== verification/AuthProps.thy ===== *)
theory AuthProps
  imports MeterProps
begin

text \<open>
  Who gets through: an API key is accepted exactly when it is live and its resource, product and
  account are usable for what is asked; a refused key costs nothing; suspending an account shuts
  all its keys.
\<close>

section \<open>The context of a key\<close>

text \<open>Everything the key belongs to is usable for the service and wallet asked for.\<close>

definition keyUsable ::
  "resourceService \<Rightarrow> string option \<Rightarrow> resource \<Rightarrow> product \<Rightarrow> account \<Rightarrow> bool" where
  "keyUsable svc w r p a \<longleftrightarrow>
     acc_status a = AccActive \<and> prod_status p = ProdActive \<and> res_status r \<noteq> ResSuspended \<and>
     res_service r = svc \<and> (w = None \<or> w = Some [] \<or> w = Some (res_walletId r))"

lemma keyRefusal_None: "keyRefusal svc w r p a = None \<longleftrightarrow> keyUsable svc w r p a"
  by (cases "prod_status p") (auto simp: keyRefusal_def keyUsable_def split: option.split)

lemma keyRefusal_status: "keyRefusal svc w r p a = Some e \<Longrightarrow> httpStatus e = 403"
  by (auto simp: keyRefusal_def split: if_splits option.splits)

text \<open>The relations of a stored key are stored.\<close>

lemma keyContext_total:
  assumes "db_inv E s" and "k \<in> set (apiKeys s)"
  obtains r p a where "keyContext k s = Some (r, p, a)"
    and "r \<in> set (resources s)" and "res_id r = key_resourceId k"
    and "p \<in> set (products s)" and "prod_id p = res_productId r"
    and "a \<in> set (accounts s)" and "acc_id a = prod_accountId p"
proof -
  have refs: "refers key_resourceId (apiKeys s) res_id (resources s)"
    "refers res_productId (resources s) prod_id (products s)"
    "refers prod_accountId (products s) acc_id (accounts s)"
    using assms(1) by (simp_all add: inv_defs)
  obtain r where r: "rowAt res_id (key_resourceId k) (resources s) = Some r"
    using refers_rowAt [OF refs(1) assms(2)] by blast
  note r' = rowAt_Some_in [OF r]
  obtain p where p: "rowAt prod_id (res_productId r) (products s) = Some p"
    using refers_rowAt [OF refs(2)] r' by blast
  note p' = rowAt_Some_in [OF p]
  obtain a where a: "rowAt acc_id (prod_accountId p) (accounts s) = Some a"
    using refers_rowAt [OF refs(3)] p' by blast
  note a' = rowAt_Some_in [OF a]
  show thesis
    by (rule that) (use r r' p p' a a' in \<open>auto simp: keyContext_def\<close>)
qed

lemma keyContext_unique:
  assumes "db_inv E s" and "keyContext k s = Some (r, p, a)"
  shows "r \<in> set (resources s)" "res_id r = key_resourceId k" "p \<in> set (products s)"
    "prod_id p = res_productId r" "a \<in> set (accounts s)" "acc_id a = prod_accountId p"
  using assms(2)
  by (auto simp: keyContext_def dest!: rowAt_Some_in split: option.splits)

lemma keyContext_frame:
  assumes "accounts t = accounts s" "products t = products s" "resources t = resources s"
    "key_resourceId k' = key_resourceId k"
  shows "keyContext k' t = keyContext k s"
  using assms by (simp add: keyContext_def split: option.split)

section \<open>Validation\<close>

lemma accepted_key:
  assumes "db_inv E s" and "validateApiKey E raw svc w s = (Inr v, t)"
  shows "\<exists>k\<in>set (apiKeys s). \<exists>r\<in>set (resources s). \<exists>p\<in>set (products s). \<exists>a\<in>set (accounts s).
      key_keyHash k = hashApiKey E (trim raw) \<and> trim raw \<noteq> [] \<and> key_revokedAt k = None \<and>
      key_resourceId k = res_id r \<and> res_productId r = prod_id p \<and> prod_accountId p = acc_id a \<and>
      keyUsable svc w r p a \<and>
      val_apiKeyId v = key_id k \<and> val_resourceId v = res_id r \<and> val_walletId v = res_walletId r \<and>
      val_productId v = prod_id p \<and> val_accountId v = acc_id a \<and>
      t = s\<lparr>apiKeys := saveRow key_id (keyUsed (clock s) k) (apiKeys s)\<rparr>"
proof -
  from assms(2) obtain k r p a where raw: "trim raw \<noteq> []"
    and k: "findLiveKey (hashApiKey E (trim raw)) (apiKeys s) = Some k"
    and ctx: "keyContext k s = Some (r, p, a)" and "keyRefusal svc w r p a = None"
    and v: "v = validateResult (keyUsed (clock s) k) r p a
        (usedInPeriod (acc_id a) (currentPeriodKey (clock s)) s)"
    and t: "t = s\<lparr>apiKeys := saveRow key_id (keyUsed (clock s) k) (apiKeys s)\<rparr>"
    by (auto simp: validateApiKey_run split: if_splits option.splits)
  moreover note findLiveKey_Some [OF k] keyContext_unique [OF assms(1) ctx]
  ultimately show ?thesis
    by (auto simp: keyRefusal_None keyLive_def validateResult_def intro!: bexI [of _ k] bexI [of _ r]
        bexI [of _ p] bexI [of _ a])
qed

text \<open>
  C26. Soundness of API-key authentication: whoever is accepted presented, up to surrounding
  blanks, the preimage of the hash of a stored live key; the resource of that key is not
  suspended, is of the service asked for and, when a wallet is named, is that wallet's; its
  product is not archived; the account that owns the product is active; and the answer names
  exactly these rows. Acceptance changes nothing but the usage stamps of the key.
\<close>

theorem auth_sound:
  assumes "db_inv E s" and "validateApiKey E raw svc w s = (Inr v, t)"
  shows "\<exists>k\<in>set (apiKeys s). \<exists>r\<in>set (resources s). \<exists>p\<in>set (products s). \<exists>a\<in>set (accounts s).
      key_keyHash k = hashApiKey E (trim raw) \<and> trim raw \<noteq> [] \<and> key_revokedAt k = None \<and>
      key_resourceId k = res_id r \<and> res_productId r = prod_id p \<and> prod_accountId p = acc_id a \<and>
      keyUsable svc w r p a \<and>
      val_apiKeyId v = key_id k \<and> val_resourceId v = res_id r \<and> val_walletId v = res_walletId r \<and>
      val_productId v = prod_id p \<and> val_accountId v = acc_id a \<and>
      t = s\<lparr>apiKeys := saveRow key_id (keyUsed (clock s) k) (apiKeys s)\<rparr>"
  by (rule accepted_key [OF assms])

lemma findLiveKey_unique:
  assumes "k \<in> set rows" and "keyLive k"
    and "\<forall>k'\<in>set rows. keyLive k' \<and> key_keyHash k' = key_keyHash k \<longrightarrow> k' = k"
  shows "findLiveKey (key_keyHash k) rows = Some k"
proof -
  have "findLiveKey (key_keyHash k) rows \<noteq> None"
    using assms(1,2) by (auto simp: findLiveKey_def find_None_iff keyLive_def)
  then obtain k' where k': "findLiveKey (key_keyHash k) rows = Some k'" by blast
  with assms(3) findLiveKey_Some [OF k'] show ?thesis by metis
qed

lemma validateApiKey_found:
  assumes "findLiveKey (hashApiKey E (trim raw)) (apiKeys s) = Some k" and "trim raw \<noteq> []"
    and "keyContext k s = Some (r, p, a)"
  shows "keyUsable svc w r p a \<Longrightarrow> validateApiKey E raw svc w s =
      (Inr (validateResult (keyUsed (clock s) k) r p a (usedNow (acc_id a) s)),
       s\<lparr>apiKeys := saveRow key_id (keyUsed (clock s) k) (apiKeys s)\<rparr>)"
    and "\<not> keyUsable svc w r p a \<Longrightarrow>
      \<exists>e. validateApiKey E raw svc w s = (Inl e, s) \<and> httpStatus e = 403"
proof -
  show "keyUsable svc w r p a \<Longrightarrow> validateApiKey E raw svc w s =
      (Inr (validateResult (keyUsed (clock s) k) r p a (usedNow (acc_id a) s)),
       s\<lparr>apiKeys := saveRow key_id (keyUsed (clock s) k) (apiKeys s)\<rparr>)"
    using assms by (simp add: validateApiKey_run keyRefusal_None [symmetric] usedNow_def)
  show "\<not> keyUsable svc w r p a \<Longrightarrow>
      \<exists>e. validateApiKey E raw svc w s = (Inl e, s) \<and> httpStatus e = 403"
    using assms
    by (cases "keyRefusal svc w r p a")
      (auto simp: validateApiKey_run keyRefusal_None [symmetric] dest: keyRefusal_status)
qed

text \<open>
  Completeness of API-key authentication: the key of a live row whose hash no other live
  row shares is accepted whenever everything it belongs to is usable; when something is not,
  the answer is 403 and the store is left exactly as it was.
\<close>

theorem auth_complete:
  assumes k: "k \<in> set (apiKeys s)" "keyLive k" "key_keyHash k = hashApiKey E (trim raw)"
    and only: "\<forall>k'\<in>set (apiKeys s). keyLive k' \<and> key_keyHash k' = key_keyHash k \<longrightarrow> k' = k"
    and raw: "trim raw \<noteq> []" and ctx: "keyContext k s = Some (r, p, a)"
  shows "if keyUsable svc w r p a then \<exists>v t. validateApiKey E raw svc w s = (Inr v, t)
    else \<exists>e. validateApiKey E raw svc w s = (Inl e, s) \<and> httpStatus e = 403"
  using validateApiKey_found [OF _ raw ctx, of E svc w] findLiveKey_unique [OF k(1,2) only] k(3)
  by auto

lemma validateApiKey_fail:
  assumes "db_inv E s" and "fst (validateApiKey E raw svc w s) = Inl e"
  shows "validateApiKey E raw svc w s = (Inl e, s)" and "httpStatus e = 401 \<or> httpStatus e = 403"
proof -
  have stored: "findLiveKey h (apiKeys s) \<noteq> Some k" if "keyContext k s = None" for h k
  proof
    assume "findLiveKey h (apiKeys s) = Some k"
    then have "k \<in> set (apiKeys s)" by (simp add: findLiveKey_Some)
    then show False by (rule keyContext_total [OF assms(1)]) (simp add: that)
  qed
  with assms(2) show "validateApiKey E raw svc w s = (Inl e, s)"
    and "httpStatus e = 401 \<or> httpStatus e = 403"
    by (auto simp: validateApiKey_run stored split: if_splits option.splits dest: keyRefusal_status)
qed

text \<open>
  Metering happens behind authentication: when the key is refused, \<open>validate-and-meter\<close>
  answers the same 401 or 403 and the whole store is unchanged, no transaction is counted and no
  rate window opened; and whatever the outcome, accounts, products, resources and the identity
  and liveness of keys are untouched.
\<close>

theorem refused_key_is_free:
  assumes "db_inv E s"
  shows "meterFrame s (snd (validateAndMeter E raw svc w c s)) \<and>
    (case fst (validateApiKey E raw svc w s) of
       Inl e \<Rightarrow> validateAndMeter E raw svc w c s = (Inl e, s) \<and> httpStatus e \<in> {401, 403}
     | Inr _ \<Rightarrow> True)"
proof (cases "fst (validateApiKey E raw svc w s)")
  case (Inl e)
  note fail = validateApiKey_fail [OF assms Inl]
  have "validateAndMeter E raw svc w c s = (Inl e, s)"
    unfolding validateAndMeter_def by (rule andThen_Inl) (rule fail(1))
  with Inl fail(2) show ?thesis by simp
next
  case (Inr v)
  then show ?thesis using validateAndMeter_frame [OF assms] by simp
qed

section \<open>Suspension\<close>

lemma keyRefusal_inactive: "acc_status a \<noteq> AccActive \<Longrightarrow> keyRefusal svc w r p a = Some AccountInactive"
  by (simp add: keyRefusal_def)

lemma keyRefusal_archived:
  "acc_status a = AccActive \<Longrightarrow> prod_status p = ProdArchived \<Longrightarrow>
    keyRefusal svc w r p a = Some ProductArchivedError"
  by (simp add: keyRefusal_def)

lemma suspended_key:
  assumes "findLiveKey (hashApiKey E (trim raw)) (apiKeys s) = Some k"
    and "keyContext k s = Some (r, p, a)" and "acc_status a \<noteq> AccActive" and "trim raw \<noteq> []"
  shows "validateAndMeter E raw svc w c s = (Inl AccountInactive, s)"
  unfolding validateAndMeter_def
  by (rule andThen_Inl) (simp add: validateApiKey_run assms keyRefusal_inactive)

lemma setAccountStatus_run:
  "setAccountStatus aid st s =
     (case rowAt acc_id aid (accounts s) of
        None \<Rightarrow> (Inl AccountNotFound, s)
      | Some a \<Rightarrow>
          (let a' = a\<lparr>acc_status := st, acc_updatedAt := clock s\<rparr>
           in (Inr a', s\<lparr>accounts := saveRow acc_id a' (accounts s)\<rparr>)))"
  by (simp add: setAccountStatus_def updateAccount_def Let_def split: option.split)

text \<open>
  Dunning: after a failed payment or a cancelled subscription of an account has been
  applied, every API key that belongs to a product of that account is refused with 403 before
  anything is counted, for any service, wallet and count.
\<close>

theorem failed_payment_shuts_keys:
  assumes "db_inv E s" and "applyPaymentEvent E P ev s = (Inr (), t)"
    and "nev_accountId ev = Some aid" and "aid \<noteq> []"
    and "nev_type ev = ''payment.failed'' \<or> nev_type ev = ''subscription.canceled''"
    and "findLiveKey (hashApiKey E (trim raw)) (apiKeys t) = Some k"
    and "keyContext k t = Some (r, p, a)" and "prod_accountId p = aid" and "trim raw \<noteq> []"
  shows "validateAndMeter E raw svc w c t = (Inl AccountInactive, t)"
proof -
  from assms(2-5) obtain u x where "setAccountStatus aid AccSuspended u = (Inr x, t)"
    unfolding applyPaymentEvent_def by (auto elim!: andThen_InrE simp: andThen_def split: prod.splits sum.splits)
  then have "rowAt acc_id aid (accounts t) = Some x" and "acc_status x = AccSuspended"
    by (auto simp: setAccountStatus_run Let_def accountTable.lookup_save
        dest: account_of_row split: option.splits)
  moreover have "rowAt acc_id aid (accounts t) = Some a"
    using assms(7,8) by (auto simp: keyContext_def split: option.splits)
  ultimately show ?thesis
    using assms(6,7,9) by (intro suspended_key) auto
qed

section \<open>Witnesses\<close>

lemma sample_live:
  "findLiveKey (hashApiKey sampleEnv sampleRawKey) (apiKeys sampleDb) = Some sampleKey"
  by (simp add: findLiveKey_def sampleDb_def sampleKey_def)

lemma sampleRawKey_trim [simp]: "trim sampleRawKey = sampleRawKey" "sampleRawKey \<noteq> []"
  by (simp_all add: sampleRawKey_def trim_def isSpaceChar_def)

lemma sample_context: "keyContext sampleKey sampleDb = Some (sampleResource, sampleProduct, sampleAccount)"
  by (simp add: keyContext_def sample_defs rowAt_def)

lemma sample_usable: "keyUsable Issuer (Some ''acme'') sampleResource sampleProduct sampleAccount"
  by (simp add: keyUsable_def sampleResource_def sampleProduct_def)

theorem auth_complete_witness:
  "\<exists>v t. validateApiKey sampleEnv sampleRawKey Issuer (Some ''acme'') sampleDb = (Inr v, t)"
  using auth_complete [of sampleKey sampleDb sampleEnv sampleRawKey sampleResource sampleProduct
      sampleAccount Issuer "Some ''acme''"] sample_context sample_usable
  by (simp add: sampleDb_def keyLive_def) (simp add: sampleKey_def)

lemma sample_accepted:
  "\<exists>v t. validateApiKey sampleEnv sampleRawKey Issuer None sampleDb = (Inr v, t)"
  by (simp add: validateApiKey_run sample_live sample_context keyRefusal_def sampleResource_def
      sampleProduct_def)

theorem auth_sound_witness:
  "\<exists>k\<in>set (apiKeys sampleDb). key_keyHash k = hashApiKey sampleEnv sampleRawKey \<and> key_revokedAt k = None"
proof -
  obtain v t where "validateApiKey sampleEnv sampleRawKey Issuer None sampleDb = (Inr v, t)"
    using sample_accepted by blast
  from auth_sound [OF sampleDb_inv this] show ?thesis by auto
qed

theorem refused_key_is_free_witness:
  "validateAndMeter sampleEnv ''nokey'' Issuer None None sampleDb = (Inl ApiKeyInvalid, sampleDb)"
proof -
  have "hashApiKey sampleEnv ''nokey'' \<noteq> hashApiKey sampleEnv sampleRawKey"
    by (simp add: hashApiKey_def sampleEnv_def sampleRawKey_def toHex_def hexDigit_def)
  then have "fst (validateApiKey sampleEnv ''nokey'' Issuer None sampleDb) = Inl ApiKeyInvalid"
    by (simp add: validateApiKey_run findLiveKey_def sampleDb_def sampleKey_def trim_def isSpaceChar_def)
  with refused_key_is_free [OF sampleDb_inv, of "''nokey''" Issuer None None] show ?thesis by simp
qed

definition sampleDunning :: normalizedPaymentEvent where
  "sampleDunning =
     \<lparr>nev_type = ''payment.failed'', nev_accountId = Some (newUuid sampleEnv 0), nev_externalId = None,
      nev_plan = None, nev_raw = JNull\<rparr>"

theorem failed_payment_shuts_keys_witness:
  "\<exists>t. applyPaymentEvent sampleEnv ManualPaymentProvider sampleDunning sampleDb = (Inr (), t) \<and>
     validateAndMeter sampleEnv sampleRawKey Issuer None None t = (Inl AccountInactive, t)"
proof -
  obtain t where run: "applyPaymentEvent sampleEnv ManualPaymentProvider sampleDunning sampleDb = (Inr (), t)"
      and t: "apiKeys t = apiKeys sampleDb" "products t = products sampleDb" "resources t = resources sampleDb"
        "\<exists>a. accounts t = [a] \<and> acc_id a = newUuid sampleEnv 0"
    by (simp add: applyPaymentEvent_def insertPaymentEvent_def andThen_def freshId_run Let_def
        paymentEventOf_def sampleDunning_def fits_def fitsOpt_def sampleEnv_def)
      (simp add: setAccountStatus_run Let_def sampleDb_def sampleAccount_def rowAt_def saveRow_def
        sampleEnv_def)
  have "\<exists>a. keyContext sampleKey t = Some (sampleResource, sampleProduct, a)"
    using t by (auto simp: keyContext_def sample_defs rowAt_def)
  then obtain a where ctx: "keyContext sampleKey t = Some (sampleResource, sampleProduct, a)" by blast
  have "newUuid sampleEnv 0 \<noteq> []" by (simp add: sampleEnv_def)
  then have "validateAndMeter sampleEnv sampleRawKey Issuer None None t = (Inl AccountInactive, t)"
    by (intro failed_payment_shuts_keys [OF sampleDb_inv run _ _ _ _ ctx])
      (simp_all add: sampleDunning_def t sample_live sampleProduct_def)
  with run show ?thesis by blast
qed

end
