(* ===== verification/ProductProps.thy ===== *)
theory ProductProps
  imports AuthProps
begin

text \<open>
  What product creation, plan changes and key operations guarantee: a creation that succeeds
  hands out a key that works, one whose provisioning fails leaves no trace, a plan change keeps
  the oldest products the plan pays for, a rotation leaves exactly the new key. Two theorems
  describe what the code does when a resource is refused after its product has been stored and
  when the name of a rotated key does not fit its column.
\<close>

section \<open>Creation\<close>

lemma activeCount_append:
  "activeCount aid (s\<lparr>products := products s @ [p]\<rparr>) =
     activeCount aid s + (if prod_accountId p = aid \<and> prod_status p = ProdActive then 1 else 0)"
  by (simp add: activeCount_def countWhere_append table_simps)

lemma activeCount_cong: "products t = products s \<Longrightarrow> activeCount aid t = activeCount aid s"
  by (simp add: activeCount_def)

lemma createProduct_Inr:
  assumes "env_ok E" and "db_inv E s" and "remote_meters E fetch"
    and "createProduct E cfg fetch input s = (Inr c, t)"
  obtains u where "mayCreate input s" and "resourceOk input s"
    and "meterSteps E (createdState E input s) u" and "c = createdResult E input s (clock u)"
    and "t = u\<lparr>resources := resources s @ [activeRow E input s (clock u)]\<rparr>"
proof -
  have may: "mayCreate input s"
  proof (rule ccontr)
    assume "\<not> mayCreate input s"
    then show False using assms(4) createProduct_not_allowed [of input s E cfg fetch] by simp
  qed
  have ok: "resourceOk input s"
  proof (rule ccontr)
    assume "\<not> resourceOk input s"
    then show False using assms(4) createProduct_not_ok [OF assms(1) may, of cfg fetch] by simp
  qed
  show thesis
    by (rule createProduct_outcome [OF assms(1-3) may ok, of cfg])
      (use assms(4) that may ok in auto)
qed

lemma createProduct_Inr_state:
  assumes "env_ok E" and "db_inv E s" and "remote_meters E fetch"
    and "createProduct E cfg fetch input s = (Inr c, t)"
  shows "mayCreate input s" and "resourceOk input s" and "db_inv E t"
    and "products t = products s @ [productRow E input s]"
    and "\<exists>now. resources t = resources s @ [activeRow E input s now] \<and> c = createdResult E input s now"
    and "map keyCore (apiKeys t) = map keyCore (apiKeys s @ [keyRow E input s])"
    and "accounts t = accounts s"
proof -
  obtain u where may: "mayCreate input s" and ok: "resourceOk input s"
    and steps: "meterSteps E (createdState E input s) u"
    and c: "c = createdResult E input s (clock u)"
    and t: "t = u\<lparr>resources := resources s @ [activeRow E input s (clock u)]\<rparr>"
    by (rule createProduct_Inr [OF assms])
  have "meterFrame (createdState E input s) u"
    by (rule meterSteps_frame [OF steps assms(1) inv_createdState [OF assms(1,2) may ok]])
  with c t show "products t = products s @ [productRow E input s]"
    and "\<exists>now. resources t = resources s @ [activeRow E input s now] \<and> c = createdResult E input s now"
    and "map keyCore (apiKeys t) = map keyCore (apiKeys s @ [keyRow E input s])"
    and "accounts t = accounts s"
    by (auto simp: meterFrame_def createdState_def)
  show "mayCreate input s" "resourceOk input s" using may ok .
  show "db_inv E t"
    using preservesD_eq [OF createProduct_inv [OF assms(1,3)] assms(2,4)] .
qed

text \<open>
  C34. A product creation that returns has done all of it: the account exists, is active and
  had room in its product quota, which is not exceeded afterwards; exactly one active product
  of that account and one active resource for the service and wallet asked for were added; and
  exactly one key was added, live, bound to that resource, whose hash is the hash of the raw key
  the caller receives. This holds whatever the provisioned service metered meanwhile.
\<close>

theorem createProduct_success:
  assumes "env_ok E" and "db_inv E s" and "remote_meters E fetch"
    and "createProduct E cfg fetch input s = (Inr c, t)"
  shows "\<exists>a\<in>set (accounts s). acc_id a = cpi_accountId input \<and> acc_status a = AccActive \<and>
      activeCount (acc_id a) t = activeCount (acc_id a) s + 1 \<and>
      int (activeCount (acc_id a) t) \<le> acc_maxProducts a \<and>
      products t = products s @ [pc_product c] \<and> prod_accountId (pc_product c) = acc_id a \<and>
      prod_status (pc_product c) = ProdActive \<and>
      resources t = resources s @ [pc_resource c] \<and>
      res_productId (pc_resource c) = prod_id (pc_product c) \<and>
      res_service (pc_resource c) = cpi_service input \<and>
      res_walletId (pc_resource c) = cpi_walletId input \<and> res_status (pc_resource c) = ResActive \<and>
      (\<exists>k. map keyCore (apiKeys t) = map keyCore (apiKeys s) @ [keyCore k] \<and> keyLive k \<and>
         key_resourceId k = res_id (pc_resource c) \<and>
         key_keyHash k = hashApiKey E (pc_apiKey c))"
proof -
  note st = createProduct_Inr_state [OF assms]
  from st(1) obtain a where a: "rowAt acc_id (cpi_accountId input) (accounts s) = Some a"
      "acc_status a = AccActive" "int (activeCount (cpi_accountId input) s) < acc_maxProducts a"
    by (auto simp: mayCreate_def)
  note row = account_of_row [OF a(1)]
  have "activeCount (acc_id a) t = activeCount (acc_id a) s + 1"
    using st(4) row by (simp add: activeCount_def countWhere_append table_simps productRow_def)
  moreover have "key_keyHash (keyRow E input s) = hashApiKey E (pc_apiKey c)"
    and "keyLive (keyRow E input s)" and "key_resourceId (keyRow E input s) = res_id (pc_resource c)"
    using st(5) by (auto simp: keyRow_def createdResult_def activeRow_def resourceRow_def keyLive_def)
  ultimately show ?thesis
    using row a st(4-6)
    by (intro bexI [of _ a])
      (auto simp: createdResult_def productRow_def activeRow_def resourceRow_def
        intro!: exI [of _ "keyRow E input s"])
qed

text \<open>The key of a creation, among the keys of the store after it.\<close>

lemma created_key_row:
  assumes "map keyCore (apiKeys t) = map keyCore (apiKeys s @ [keyRow E input s])"
    and "\<forall>k\<in>set (apiKeys s). keyLive k \<longrightarrow> key_keyHash k \<noteq> key_keyHash (keyRow E input s)"
  obtains k where "k \<in> set (apiKeys t)" and "keyCore k = keyCore (keyRow E input s)"
    and "findLiveKey (key_keyHash (keyRow E input s)) (apiKeys t) = Some k"
proof -
  from assms(1) obtain ks k where keys: "apiKeys t = ks @ [k]" "map keyCore ks = map keyCore (apiKeys s)"
      and core: "keyCore k = keyCore (keyRow E input s)"
    by (auto simp: map_eq_append_conv)
  have live: "keyLive k" "key_keyHash k = key_keyHash (keyRow E input s)"
    using core keyCore_proj(3,5) [of k] keyCore_proj(3,5) [of "keyRow E input s"]
    by (simp_all add: keyRow_def keyLive_def)
  have only: "\<forall>k'\<in>set (apiKeys t). keyLive k' \<and> key_keyHash k' = key_keyHash k \<longrightarrow> k' = k"
  proof (intro ballI impI, rule ccontr)
    fix k'
    assume "k' \<in> set (apiKeys t)" and h: "keyLive k' \<and> key_keyHash k' = key_keyHash k" and "k' \<noteq> k"
    with keys(1) have "keyCore k' \<in> set (map keyCore ks)" by auto
    then obtain x where "x \<in> set (apiKeys s)" "keyCore x = keyCore k'"
      unfolding keys(2) by auto
    with h live(2) assms(2) show False by (metis keyCore_proj(3,5))
  qed
  have "k \<in> set (apiKeys t)" using keys by simp
  with findLiveKey_unique [OF this live(1) only] core live(2) that show thesis by simp
qed

lemma created_key_context:
  assumes "env_ok E" and "db_inv E s" and "remote_meters E fetch"
    and "createProduct E cfg fetch input s = (Inr c, t)"
    and "k \<in> set (apiKeys t)" and "keyCore k = keyCore (keyRow E input s)"
  obtains r p a where "keyContext k t = Some (r, p, a)"
    and "keyUsable (cpi_service input) (Some (cpi_walletId input)) r p a"
    and "acc_id a = cpi_accountId input"
proof -
  note st = createProduct_Inr_state [OF assms(1-4)]
  obtain now where res: "resources t = resources s @ [activeRow E input s now]"
    using st(5) by blast
  have kres: "key_resourceId k = newUuid E (nextId s + 1)"
    using assms(6) keyCore_proj(2) [of k] keyCore_proj(2) [of "keyRow E input s"]
    by (simp add: keyRow_def)
  obtain r p a where ctx: "keyContext k t = Some (r, p, a)" and r: "r \<in> set (resources t)"
      "res_id r = key_resourceId k" and p: "p \<in> set (products t)" "prod_id p = res_productId r"
      and a: "a \<in> set (accounts t)" "acc_id a = prod_accountId p"
    by (rule keyContext_total [OF st(3) assms(5)])
  have r_eq: "r = activeRow E input s now"
    using distinct_key_eq [OF db_inv_distinct(3) [OF st(3)] r(1)] r(2) kres res
    by (simp add: activeRow_def resourceRow_def)
  have p_eq: "p = productRow E input s"
    using distinct_key_eq [OF db_inv_distinct(2) [OF st(3)] p(1)] p(2) r_eq st(4)
    by (simp add: activeRow_def resourceRow_def productRow_def)
  from st(1) obtain a' where a': "rowAt acc_id (cpi_accountId input) (accounts s) = Some a'"
      "acc_status a' = AccActive" by (auto simp: mayCreate_def)
  have "a = a'"
    using distinct_key_eq [OF db_inv_distinct(1) [OF st(3)] a(1)] a(2) p_eq st(7) account_of_row [OF a'(1)]
    by (simp add: productRow_def)
  with ctx r_eq p_eq a' account_of_row [OF a'(1)] that show thesis
    by (simp add: keyUsable_def activeRow_def resourceRow_def productRow_def)
qed

text \<open>
  C40. The key handed out works: right after a creation that returned, the raw key
  authenticates for the service and the wallet it was created for, as the account that created
  it, provided no live key of the store already had its hash.
\<close>

theorem created_key_authenticates:
  assumes "env_ok E" and "db_inv E s" and "remote_meters E fetch"
    and "createProduct E cfg fetch input s = (Inr c, t)"
    and "\<forall>k\<in>set (apiKeys s). keyLive k \<longrightarrow> key_keyHash k \<noteq> hashApiKey E (pc_apiKey c)"
  shows "\<exists>v u. validateApiKey E (pc_apiKey c) (cpi_service input) (Some (cpi_walletId input)) t = (Inr v, u) \<and>
    val_accountId v = cpi_accountId input"
proof -
  note st = createProduct_Inr_state [OF assms(1-4)]
  have c: "pc_apiKey c = fst (drawnKey E (cpi_service input) s)"
    using st(5) by (auto simp: createdResult_def)
  then have hash: "hashApiKey E (pc_apiKey c) = key_keyHash (keyRow E input s)"
    and raw: "trim (pc_apiKey c) = pc_apiKey c" "pc_apiKey c \<noteq> []"
    by (simp_all add: keyRow_def drawnKey_def apiKeyOf_trim apiKeyOf_nonempty)
  obtain k where k: "k \<in> set (apiKeys t)" "keyCore k = keyCore (keyRow E input s)"
      "findLiveKey (key_keyHash (keyRow E input s)) (apiKeys t) = Some k"
    using assms(5) hash by (auto intro: created_key_row [OF st(6)])
  obtain r p a where "keyContext k t = Some (r, p, a)"
    and "keyUsable (cpi_service input) (Some (cpi_walletId input)) r p a"
    and "acc_id a = cpi_accountId input"
    by (rule created_key_context [OF assms(1-4) k(1,2)])
  with validateApiKey_found(1) [of E "pc_apiKey c" t k] k(3) hash raw show ?thesis
    by (auto simp: validateResult_def)
qed

text \<open>The store after a creation that was rolled back.\<close>

lemma rollback_state:
  assumes "env_ok E" and "db_inv E s" and "remote_meters E fetch"
    and "mayCreate input s" and "resourceOk input s"
    and "createProduct E cfg fetch input s = (Inl e, t)"
  shows "products t = products s \<and> resources t = resources s \<and> accounts t = accounts s \<and>
    identities t = identities s \<and> map keyCore (apiKeys t) = map keyCore (apiKeys s) \<and>
    subscriptions t = subscriptions s \<and> paymentEvents t = paymentEvents s"
proof -
  obtain u where steps: "meterSteps E (createdState E input s) u"
    and prov: "fst (provision cfg fetch (cpi_service input) (cpi_walletId input)
        (fst (drawnKey E (cpi_service input) s)) (createdState E input s)) = Inl e"
    and t: "t = snd (deleteProduct (newUuid E (nextId s)) u)"
    by (rule createProduct_outcome [OF assms(1-5), of cfg]) (use assms(6) in auto)
  have fr: "meterFrame (createdState E input s) u"
    by (rule meterSteps_frame [OF steps assms(1) inv_createdState [OF assms(1,2,4,5)]])
  note fresh = fresh_product_unused [OF assms(1,2)]
  let ?gone = "res_id ` {r \<in> set (resources u). res_productId r = newUuid E (nextId s)}"
  have "{r \<in> set (resources u). res_productId r = newUuid E (nextId s)} = {resourceRow E input s}"
    using fr fresh(3) by (auto simp: meterFrame_def createdState_def resourceRow_def)
  then have "?gone = {newUuid E (Suc (nextId s))}" by (simp add: resourceRow_def)
  then have keys: "apiKeys t = deleteWhere (\<lambda>k. key_resourceId k = newUuid E (Suc (nextId s))) (apiKeys u)"
    by (simp add: t deleteProduct_def Let_def)
  have core: "map keyCore (deleteWhere (\<lambda>k. key_resourceId k = x) ks) =
      deleteWhere (\<lambda>k. key_resourceId k = x) (map keyCore ks)" for x ks
    by (induction ks) (simp_all add: deleteWhere_def)
  have "map keyCore (apiKeys t) = map keyCore (deleteWhere
      (\<lambda>k. key_resourceId k = newUuid E (Suc (nextId s))) (apiKeys s @ [keyRow E input s]))"
    using fr by (simp add: keys core meterFrame_def createdState_def)
  also have "\<dots> = map keyCore (apiKeys s)"
    using fresh(4) by (simp add: deleteWhere_append deleteWhere_none) (simp add: deleteWhere_def keyRow_def)
  finally have "map keyCore (apiKeys t) = map keyCore (apiKeys s)" .
  moreover have "products t = products s"
  proof -
    have "products t = deleteWhere (\<lambda>p. prod_id p = newUuid E (nextId s)) (products s) @
        deleteWhere (\<lambda>p. prod_id p = newUuid E (nextId s)) [productRow E input s]"
      using fr by (simp add: t deleteProduct_def Let_def meterFrame_def createdState_def deleteWhere_append)
    also have "\<dots> = products s"
      using fresh(1) by (subst deleteWhere_none) (auto simp: image_iff deleteWhere_def productRow_def)
    finally show ?thesis .
  qed
  moreover have "resources t = resources s"
  proof -
    have "resources t = deleteWhere (\<lambda>r. res_productId r = newUuid E (nextId s)) (resources s) @
        deleteWhere (\<lambda>r. res_productId r = newUuid E (nextId s)) [resourceRow E input s]"
      using fr by (simp add: t deleteProduct_def Let_def meterFrame_def createdState_def deleteWhere_append)
    also have "\<dots> = resources s"
      using fresh(3) by (subst deleteWhere_none) (auto simp: image_iff deleteWhere_def resourceRow_def)
    finally show ?thesis .
  qed
  ultimately show ?thesis
    using fr by (simp add: t deleteProduct_def Let_def meterFrame_def createdState_def)
qed

text \<open>The resource created is still there when the service has answered, so it can be marked.\<close>

lemma created_row_marked:
  assumes "env_ok E" and "db_inv E s" and "remote_meters E fetch"
    and "mayCreate input s" and "resourceOk input s"
    and "provision cfg fetch (cpi_service input) (cpi_walletId input)
      (fst (drawnKey E (cpi_service input) s)) (createdState E input s) = (x, u)"
  obtains r u' where "markResourceActive (res_id (resourceRow E input s)) u = (Inr r, u')"
proof -
  have "meterSteps E (createdState E input s) u"
    using provision_steps [OF assms(3), of "createdState E input s" cfg] assms(6) by (metis snd_conv)
  from meterSteps_frame [OF this assms(1) inv_createdState [OF assms(1,2,4,5)]]
  have "resources u = resources s @ [resourceRow E input s]"
    by (simp add: meterFrame_def createdState_def)
  moreover have "res_id (resourceRow E input s) \<notin> res_id ` set (resources s)"
    using fresh_product_unused(2) [OF assms(1,2)] by (simp add: resourceRow_def)
  ultimately have "rowAt res_id (res_id (resourceRow E input s)) (resources u) =
      Some (resourceRow E input s)"
    by (simp add: rowAt_snoc)
  with that show thesis by (simp add: markResourceActive_def updateResource_def Let_def)
qed

text \<open>The error of a creation that was rolled back is the one of the provisioning.\<close>

lemma rollback_error:
  assumes "env_ok E" and "mayCreate input s" and "resourceOk input s"
    and "createProduct E cfg fetch input s = (Inl e, t)"
    and "markResourceActive (res_id (resourceRow E input s)) u = (Inr r, u')"
    and "provision cfg fetch (cpi_service input) (cpi_walletId input)
      (fst (drawnKey E (cpi_service input) s)) (createdState E input s) = (x, u)"
  shows "x = Inl e \<and> usagePeriods t = usagePeriods u \<and> rateWindows t = rateWindows u"
  using assms(4-6)
  by (cases x) (auto simp: createProduct_created [OF assms(1-3)] provisionOrRollback_def catching_def
      andThen_def deleteProduct_def)

text \<open>
  C36. Provisioning is all or nothing: when the rows could be created but the creation fails, the
  provisioning is switched on and the URL of the service is missing, it cannot be reached, its
  answer cannot be read or it refuses the tenant with anything but 409; the error says which, with
  status 502 except 500 for an answer that cannot be read. Accounts, identities, products,
  resources, keys (up to the usage stamps), subscriptions and payment events are exactly as before
  the request; usage counters and rate windows keep what the call of the service counted.
\<close>

theorem createProduct_rollback:
  assumes "env_ok E" and "db_inv E s" and "remote_meters E fetch"
    and "mayCreate input s" and "resourceOk input s"
    and "createProduct E cfg fetch input s = (Inl e, t)"
  shows "products t = products s \<and> resources t = resources s \<and> accounts t = accounts s \<and>
    identities t = identities s \<and> map keyCore (apiKeys t) = map keyCore (apiKeys s) \<and>
    subscriptions t = subscriptions s \<and> paymentEvents t = paymentEvents s \<and>
    cfg_provisionOnCreate cfg \<and>
    (let svc = cpi_service input;
         base = dropTrailingSlash (if svc = Issuer then cfg_issuerUrl cfg else cfg_verifierUrl cfg)
     in if base = [] then e = ProvisionUrlMissing svc \<and> httpStatus e = 502 \<and>
          usagePeriods t = usagePeriods s \<and> rateWindows t = rateWindows s
        else
          let (answer, u) = fetch (base @ (if svc = Issuer then ''/v1/issuers'' else ''/v1/verifiers''))
                (fst (drawnKey E svc s)) (provisionBody svc (cpi_walletId input)) (createdState E input s)
          in usagePeriods t = usagePeriods u \<and> rateWindows t = rateWindows u \<and>
             (case answer of
                NetworkError \<Rightarrow> e = ProvisionUnreachable svc \<and> httpStatus e = 502
              | BodyFailure status \<Rightarrow> httpStatus e = 500
              | Response status txt \<Rightarrow> \<not> (200 \<le> status \<and> status < 300) \<and> status \<noteq> 409 \<and>
                  e = ProvisionFailed svc status (take 300 txt) \<and> httpStatus e = 502))"
proof -
  note st = rollback_state [OF assms]
  obtain x u where prov: "provision cfg fetch (cpi_service input) (cpi_walletId input)
      (fst (drawnKey E (cpi_service input) s)) (createdState E input s) = (x, u)"
    by fastforce
  obtain r u' where "markResourceActive (res_id (resourceRow E input s)) u = (Inr r, u')"
    by (rule created_row_marked [OF assms(1-5) prov])
  from rollback_error [OF assms(1,4-6) this prov]
  have x: "x = Inl e" "usagePeriods t = usagePeriods u" "rateWindows t = rateWindows u" by blast+
  have kept: "usagePeriods (createdState E input s) = usagePeriods s"
      "rateWindows (createdState E input s) = rateWindows s"
    by (simp_all add: createdState_def)
  show ?thesis
    using st prov x(2,3) kept unfolding x(1)
    by (auto simp: provision_def Let_def responseOk_def split: if_splits prod.splits fetchResult.splits)
qed

section \<open>A refused resource\<close>

text \<open>
  A product whose resource is refused stays behind: when the account may create a product
  but the wallet identifier is malformed or already taken for the service, the request fails with
  400 or 409, no resource and no key is stored, yet the new active product is, and it counts
  against the quota of the account.
\<close>

theorem refused_resource_leaves_product:
  assumes "env_ok E" and "mayCreate input s"
    and "\<not> walletIdValid (cpi_walletId input) \<or> walletTaken input s"
  shows "\<exists>e t. createProduct E cfg fetch input s = (Inl e, t) \<and> httpStatus e \<in> {400, 409} \<and>
    products t = products s @ [productRow E input s] \<and> resources t = resources s \<and>
    apiKeys t = apiKeys s \<and> accounts t = accounts s \<and>
    activeCount (cpi_accountId input) t = activeCount (cpi_accountId input) s + 1"
proof -
  have "activeCount (cpi_accountId input) (orphaned E input s) = activeCount (cpi_accountId input) s + 1"
    by (simp add: activeCount_def orphaned_def countWhere_append table_simps productRow_def)
  then show ?thesis
    using createProduct_bad_resource [OF assms(1,2), of cfg fetch] assms(3)
    by (cases "walletIdValid (cpi_walletId input)") (auto simp: orphaned_def)
qed

fun attempts :: "env \<Rightarrow> provisionConfig \<Rightarrow> remote \<Rightarrow> createProductInput \<Rightarrow> nat \<Rightarrow> db \<Rightarrow> db" where
  "attempts E cfg fetch input 0 s = s"
| "attempts E cfg fetch input (Suc n) s =
     attempts E cfg fetch input n (snd (createProduct E cfg fetch input s))"

lemma attempts_orphans:
  assumes "env_ok E" and "walletTaken input s"
    and "rowAt acc_id (cpi_accountId input) (accounts s) = Some a" and "acc_status a = AccActive"
    and "fits 160 (trim (cpi_name input))" and "walletIdValid (cpi_walletId input)"
    and "int (activeCount (cpi_accountId input) s + n) \<le> acc_maxProducts a"
  shows "activeCount (cpi_accountId input) (attempts E cfg fetch input n s) =
      activeCount (cpi_accountId input) s + n"
    and "accounts (attempts E cfg fetch input n s) = accounts s"
    and "resources (attempts E cfg fetch input n s) = resources s"
proof -
  have "activeCount (cpi_accountId input) (attempts E cfg fetch input n s) =
      activeCount (cpi_accountId input) s + n \<and>
    accounts (attempts E cfg fetch input n s) = accounts s \<and>
    resources (attempts E cfg fetch input n s) = resources s"
    using assms(2,3,7)
  proof (induction n arbitrary: s)
    case 0
    then show ?case by simp
  next
    case (Suc n)
    have may: "mayCreate input s"
      using Suc.prems assms(4,5) by (auto simp: mayCreate_def)
    have run: "snd (createProduct E cfg fetch input s) = orphaned E input s"
      using createProduct_bad_resource(2) [OF assms(1) may assms(6) Suc.prems(1)] by simp
    have one: "activeCount (cpi_accountId input) (orphaned E input s) =
        activeCount (cpi_accountId input) s + 1"
      by (simp add: activeCount_def orphaned_def countWhere_append table_simps productRow_def)
    have "walletTaken input (orphaned E input s)" "accounts (orphaned E input s) = accounts s"
        "resources (orphaned E input s) = resources s"
      using Suc.prems(1) by (simp_all add: walletTaken_def orphaned_def)
    with Suc.IH [of "orphaned E input s"] Suc.prems(2,3) one show ?case by (simp add: run)
  qed
  then show "activeCount (cpi_accountId input) (attempts E cfg fetch input n s) =
      activeCount (cpi_accountId input) s + n"
    and "accounts (attempts E cfg fetch input n s) = accounts s"
    and "resources (attempts E cfg fetch input n s) = resources s" by simp_all
qed

text \<open>
  The leftovers lock the account out: repeating a creation for a taken wallet as often as
  the quota has room exhausts the quota without a single resource having been created, and
  from then on every creation of the account, a perfectly valid one included, is refused with the
  quota error.
\<close>

theorem refused_resources_exhaust_quota:
  assumes "env_ok E" and "walletTaken input s"
    and "rowAt acc_id (cpi_accountId input) (accounts s) = Some a" and "acc_status a = AccActive"
    and "fits 160 (trim (cpi_name input))" and "walletIdValid (cpi_walletId input)"
    and "int (activeCount (cpi_accountId input) s + n) = acc_maxProducts a"
    and "t = attempts E cfg fetch input n s" and "cpi_accountId other = cpi_accountId input"
  shows "resources t = resources s \<and>
    createProduct E cfg fetch other t = (Inl (ProductQuotaReached (acc_maxProducts a)), t)"
proof -
  note left = attempts_orphans [OF assms(1-6), of n cfg fetch]
  have "activeCount (cpi_accountId other) t = activeCount (cpi_accountId input) s + n"
    and "rowAt acc_id (cpi_accountId other) (accounts t) = Some a" and "resources t = resources s"
    using left assms(3,7,8,9) by simp_all
  with assms(4,7) show ?thesis by (simp add: createProduct_quota)
qed

section \<open>Plans\<close>

lemma filter_archiveRows:
  "filter (\<lambda>p. prod_accountId p = aid \<and> prod_status p = ProdActive) (archiveRows now ids ps) =
    filter (\<lambda>p. prod_id p \<notin> ids)
      (filter (\<lambda>p. prod_accountId p = aid \<and> prod_status p = ProdActive) ps)"
  by (induction ps) (auto simp: archiveRows_def)

lemma activeProducts_archived:
  "activeProducts aid (archived ids s) = filter (\<lambda>p. prod_id p \<notin> ids) (activeProducts aid s)"
  by (simp add: activeProducts_def archived_def filter_archiveRows filter_sort)

lemma filter_not_dropped:
  assumes "distinct (map key xs)"
  shows "filter (\<lambda>x. key x \<notin> key ` set (drop n xs)) xs = take n xs"
proof -
  define P where "P = (\<lambda>x. key x \<notin> key ` set (drop n xs))"
  have "P x" if "x \<in> set (take n xs)" for x
  proof (rule ccontr)
    assume "\<not> P x"
    then have "key x \<in> set (take n (map key xs)) \<inter> set (drop n (map key xs))"
      using that by (auto simp: P_def take_map drop_map)
    then show False using set_take_disj_set_drop_if_distinct [OF assms, of n n] by simp
  qed
  then have "filter P (take n xs) = take n xs" by (simp add: filter_id_conv)
  moreover have "filter P (drop n xs) = []" by (simp add: filter_empty_conv P_def)
  ultimately have "filter P (take n xs @ drop n xs) = take n xs" by (simp only: filter_append append_Nil2)
  then show ?thesis by (simp only: append_take_drop_id P_def)
qed

lemma filter_all_kept: "(\<And>x. x \<in> set xs \<Longrightarrow> P x) \<Longrightarrow> filter P xs = xs"
  by (simp add: filter_id_conv)


end
