(* ===== verification/KeyProps.thy ===== *)
theory KeyProps
  imports ProductProps
begin

text \<open>
  What rotating and revoking a key guarantee to the owner of the resource, and the isolation of
  tenants: no operation an account can reach touches rows of another account.
\<close>

section \<open>Rotation\<close>

lemma filter_revokeLive:
  "filter (\<lambda>k. key_resourceId k \<noteq> rid) (revokeLive rid now rows) =
    filter (\<lambda>k. key_resourceId k \<noteq> rid) rows"
  by (induction rows) (auto simp: revokeLive_def)

lemma live_after_revoke:
  "filter (\<lambda>k. key_resourceId k = rid \<and> key_revokedAt k = None) (revokeLive rid now rows) = []"
  by (auto simp: filter_empty_conv keyLive_def dest: revokeLive_none)

lemma rotateForAccount_Inr:
  assumes "env_ok E" and "db_inv E s"
    and "rotateApiKeyForAccount E aid rid keyName s = (Inr (raw, pfx), t)"
  obtains r where "rowAt res_id rid (resources s) = Some r"
    and "requireOwnedResource aid rid s = (Inr r, s)"
    and "(raw, pfx) = drawnKey E (res_service r) s"
    and "t = (rotatedState rid s)\<lparr>apiKeys :=
               revokeLive rid (clock s) (apiKeys s) @ [rotatedRow E rid keyName r s]\<rparr>"
proof -
  from assms(3) obtain r where own: "requireOwnedResource aid rid s = (Inr r, s)"
    and run: "rotateApiKey E rid keyName s = (Inr (raw, pfx), t)"
    unfolding rotateApiKeyForAccount_def
    by (elim andThen_InrE) (metis requireOwnedResource_readonly snd_conv)
  have "rowAt res_id rid (resources s) = Some r"
    using own by (auto simp: requireOwnedResource_def split: option.splits if_splits)
  with own run that show thesis
    by (simp add: rotateApiKey_run [OF assms(1) db_inv_distinct(4) [OF assms(2)]] split: if_splits)
qed

text \<open>
  Rotation replaces: when the owner of a resource rotates its key, afterwards exactly one
  key of the resource is live, its hash is that of the raw key handed out, every key that was
  live is still stored with the time of the rotation as its revocation, the keys of all other
  resources are untouched and so are all other tables.
\<close>

theorem rotation_replaces:
  assumes "env_ok E" and "db_inv E s"
    and "rotateApiKeyForAccount E aid rid keyName s = (Inr (raw, pfx), t)"
  shows "\<exists>k. liveKeysOf rid t = [k] \<and> key_keyHash k = hashApiKey E raw \<and> key_prefix k = pfx \<and>
    (\<forall>x\<in>set (liveKeysOf rid s). \<exists>y\<in>set (apiKeys t). key_id y = key_id x \<and>
       key_revokedAt y = Some (clock s)) \<and>
    filter (\<lambda>k. key_resourceId k \<noteq> rid) (apiKeys t) = filter (\<lambda>k. key_resourceId k \<noteq> rid) (apiKeys s) \<and>
    accounts t = accounts s \<and> products t = products s \<and> resources t = resources s \<and>
    usagePeriods t = usagePeriods s \<and> db_inv E t"
proof -
  obtain r where "rowAt res_id rid (resources s) = Some r" and key: "(raw, pfx) = drawnKey E (res_service r) s"
    and t: "t = (rotatedState rid s)\<lparr>apiKeys :=
               revokeLive rid (clock s) (apiKeys s) @ [rotatedRow E rid keyName r s]\<rparr>"
    by (rule rotateForAccount_Inr [OF assms])
  have "\<exists>y\<in>set (apiKeys t). key_id y = key_id x \<and> key_revokedAt y = Some (clock s)"
    if "x \<in> set (liveKeysOf rid s)" for x
  proof -
    have "revokeRow (clock s) x \<in> set (apiKeys t)"
      using that by (force simp: t revokeLive_def liveKeysOf_def keyLive_def image_iff)
    then show ?thesis by (rule rev_bexI) (simp add: revokeRow_def)
  qed
  moreover have "db_inv E t"
    using preservesD_eq [OF rotateApiKeyForAccount_inv [OF assms(1)] assms(2,3)] .
  moreover have "liveKeysOf rid t = [rotatedRow E rid keyName r s]"
    by (simp add: t liveKeysOf_def live_after_revoke) (simp add: rotatedRow_def)
  moreover have "key_resourceId (rotatedRow E rid keyName r s) = rid"
    by (simp add: rotatedRow_def)
  ultimately show ?thesis
    using key [symmetric]
    by (intro exI [of _ "rotatedRow E rid keyName r s"])
      (simp add: t filter_revokeLive rotatedState_def, simp add: rotatedRow_def)
qed

text \<open>
  A rotated key is dead at once: after the rotation, a raw key of which every live key with
  its hash belonged to the resource is refused as invalid, unless it is the key just issued.
\<close>

theorem rotation_refuses_old:
  assumes "env_ok E" and "db_inv E s"
    and "rotateApiKeyForAccount E aid rid keyName s = (Inr (raw, pfx), t)"
    and "\<forall>k\<in>set (apiKeys s). keyLive k \<and> key_keyHash k = hashApiKey E (trim old) \<longrightarrow>
      key_resourceId k = rid"
    and "hashApiKey E (trim old) \<noteq> hashApiKey E raw"
  shows "validateAndMeter E old svc w c t = (Inl (if trim old = [] then ApiKeyMissing else ApiKeyInvalid), t)"
proof -
  obtain r where key: "(raw, pfx) = drawnKey E (res_service r) s"
    and t: "t = (rotatedState rid s)\<lparr>apiKeys :=
               revokeLive rid (clock s) (apiKeys s) @ [rotatedRow E rid keyName r s]\<rparr>"
    by (rule rotateForAccount_Inr [OF assms(1-3)])
  have "\<not> (key_keyHash k = hashApiKey E (trim old) \<and> key_revokedAt k = None)"
    if "k \<in> set (apiKeys t)" for k
  proof (cases "k = rotatedRow E rid keyName r s")
    case True
    then show ?thesis using assms(5) key [symmetric] by (simp add: rotatedRow_def)
  next
    case False
    with that have in_old: "k \<in> set (revokeLive rid (clock s) (apiKeys s))" by (simp add: t)
    then obtain x where x: "x \<in> set (apiKeys s)"
        "k = (if key_resourceId x = rid \<and> keyLive x then revokeRow (clock s) x else x)"
      by (auto simp: revokeLive_def)
    then show ?thesis
      using assms(4) by (cases "key_resourceId x = rid \<and> keyLive x")
        (auto simp: keyLive_def revokeRow_def)
  qed
  then have "findLiveKey (hashApiKey E (trim old)) (apiKeys t) = None"
    by (auto simp: findLiveKey_def find_None_iff)
  then show ?thesis
    by (simp add: validateAndMeter_def andThen_def validateApiKey_run)
qed

text \<open>
  A rotation that cannot store its key has already revoked the old ones: without a name in
  the request, the new key is called \<open>rotated-<walletId>\<close>, which does not fit the 80
  characters of its column when the wallet identifier has more than 72. Such a rotation fails
  with 500 and leaves the resource without a live key, although the resource itself was created
  with a key named \<open>issuer-<walletId>\<close> that fits up to 73 characters.
\<close>

theorem rotation_loses_keys:
  assumes "env_ok E" and "db_inv E s" and "rowAt res_id rid (resources s) = Some r"
    and "72 < length (res_walletId r)"
  shows "\<exists>t. rotateApiKey E rid None s = (Inl (ValueTooLong ''api_keys''), t) \<and>
    liveKeysOf rid t = [] \<and> httpStatus (ValueTooLong ''api_keys'') = 500"
proof -
  have "\<not> fits 80 (rotatedName None r)"
    using assms(4) by (simp add: fits_def rotatedName_def)
  then show ?thesis
    using assms(3) by (simp add: rotateApiKey_run [OF assms(1) db_inv_distinct(4) [OF assms(2)]]
        rotatedState_def liveKeysOf_def live_after_revoke)
qed

section \<open>Isolation of tenants\<close>

definition ownProducts :: "string \<Rightarrow> db \<Rightarrow> string set" where
  "ownProducts aid s = prod_id ` {p \<in> set (products s). prod_accountId p = aid}"

definition ownResources :: "string \<Rightarrow> db \<Rightarrow> string set" where
  "ownResources aid s = res_id ` {r \<in> set (resources s). res_productId r \<in> ownProducts aid s}"

text \<open>
  The part of the store that belongs to the other accounts: their accounts, products, resources
  and keys, the latter up to the stamps of their last use.
\<close>

definition foreignRows ::
  "string \<Rightarrow> db \<Rightarrow> account list \<times> product list \<times> resource list \<times> apiKey list" where
  "foreignRows aid s =
     (filter (\<lambda>a. acc_id a \<noteq> aid) (accounts s),
      filter (\<lambda>p. prod_accountId p \<noteq> aid) (products s),
      filter (\<lambda>r. res_productId r \<notin> ownProducts aid s) (resources s),
      filter (\<lambda>k. key_resourceId k \<notin> ownResources aid s) (map keyCore (apiKeys s)))"

text \<open>A write confined to rows of the account leaves the foreign part alone.\<close>

lemma filter_map_kept:
  "(\<And>x. x \<in> set xs \<Longrightarrow> P (f x) = P x \<and> (P x \<longrightarrow> f x = x)) \<Longrightarrow> filter P (map f xs) = filter P xs"
proof (induction xs)
  case (Cons x xs)
  from Cons.prems [of x] have "P (f x) = P x" and "P x \<Longrightarrow> f x = x" by auto
  moreover have "filter P (map f xs) = filter P xs"
    using Cons.prems by (intro Cons.IH) simp
  ultimately show ?case by (cases "P x") simp_all
qed simp

lemma ids_map_kept:
  assumes "\<And>x. x \<in> set xs \<Longrightarrow> key (f x) = key x \<and> P (f x) = P x"
  shows "key ` {x \<in> set (map f xs). P x} = key ` {x \<in> set xs. P x}"
proof -
  have "{x \<in> set (map f xs). P x} = f ` {x \<in> set xs. P x}"
    using assms by auto
  moreover have "(\<lambda>x. key (f x)) ` {x \<in> set xs. P x} = key ` {x \<in> set xs. P x}"
    using assms by (intro image_cong) auto
  ultimately show ?thesis by (simp add: image_image)
qed

lemma saveRow_as_map:
  assumes "distinct (map key rows)" and "old \<in> set rows" and "key old = key r"
  shows "saveRow key r rows = map (\<lambda>x. if x = old then r else x) rows"
proof -
  have "(key x = key r) = (x = old)" if "x \<in> set rows" for x
    using distinct_key_eq [OF assms(1) that assms(2)] assms(3) by auto
  moreover have "key r \<in> key ` set rows" using assms(2,3) by (metis imageI)
  ultimately show ?thesis by (simp add: saveRow_old)
qed

lemma ownProducts_cong:
  "products t = products s \<Longrightarrow> ownProducts aid t = ownProducts aid s"
  by (simp add: ownProducts_def)

lemma ownResources_cong:
  "products t = products s \<Longrightarrow> resources t = resources s \<Longrightarrow> ownResources aid t = ownResources aid s"
  using ownProducts_cong [of t s aid] by (simp add: ownResources_def)

lemma foreign_meterFrame: "meterFrame s t \<Longrightarrow> foreignRows aid t = foreignRows aid s"
  using ownProducts_cong [of t s aid] ownResources_cong [of t s aid]
  by (simp add: foreignRows_def meterFrame_def)

lemma foreign_maps:
  assumes "\<And>p. p \<in> set (products s) \<Longrightarrow> prod_id (f p) = prod_id p \<and>
      prod_accountId (f p) = prod_accountId p \<and> (prod_accountId p \<noteq> aid \<longrightarrow> f p = p)"
    and "\<And>r. r \<in> set (resources s) \<Longrightarrow> res_id (g r) = res_id r \<and>
      res_productId (g r) = res_productId r \<and> (res_productId r \<notin> ownProducts aid s \<longrightarrow> g r = r)"
  shows "foreignRows aid (s\<lparr>products := map f (products s), resources := map g (resources s)\<rparr>) =
    foreignRows aid s"
proof -
  let ?t = "s\<lparr>products := map f (products s), resources := map g (resources s)\<rparr>"
  have same: "products ?t = map f (products s)" "resources ?t = map g (resources s)" by simp_all
  have own: "ownProducts aid ?t = ownProducts aid s"
    unfolding ownProducts_def same by (rule ids_map_kept, drule assms(1), simp)
  have "ownResources aid ?t = ownResources aid s"
    unfolding ownResources_def own same by (rule ids_map_kept, drule assms(2), simp)
  moreover have "filter (\<lambda>p. prod_accountId p \<noteq> aid) (map f (products s)) =
      filter (\<lambda>p. prod_accountId p \<noteq> aid) (products s)"
    by (rule filter_map_kept, drule assms(1), simp)
  moreover have "filter (\<lambda>r. res_productId r \<notin> ownProducts aid s) (map g (resources s)) =
      filter (\<lambda>r. res_productId r \<notin> ownProducts aid s) (resources s)"
    by (rule filter_map_kept, drule assms(2), simp)
  ultimately show ?thesis by (simp add: foreignRows_def own)
qed

lemma foreign_archived:
  assumes "pid \<in> ownProducts aid s" and "distinct (map prod_id (products s))"
  shows "foreignRows aid (archived {pid} s) = foreignRows aid s"
proof -
  have "prod_accountId p = aid" if "p \<in> set (products s)" "prod_id p = pid" for p
    using assms distinct_key_eq [OF assms(2) that(1)] that(2) by (auto simp: ownProducts_def)
  then show ?thesis
    using assms(1) unfolding archived_def archiveRows_def suspendRows_def
    by (intro foreign_maps) auto
qed

lemma foreign_updateProduct:
  assumes "distinct (map prod_id (products s))" and "p \<in> set (products s)"
    and "prod_accountId p = aid" and "prod_id p' = prod_id p" and "prod_accountId p' = aid"
  shows "foreignRows aid (s\<lparr>products := saveRow prod_id p' (products s)\<rparr>) = foreignRows aid s"
  using foreign_maps [of s "\<lambda>x. if x = p then p' else x" aid "\<lambda>r. r"]
    saveRow_as_map [OF assms(1,2), of p'] assms(3-5)
  by simp

lemma foreign_keys:
  assumes "filter (\<lambda>k. key_resourceId k \<notin> ownResources aid s) (map keyCore ks) =
      filter (\<lambda>k. key_resourceId k \<notin> ownResources aid s) (map keyCore (apiKeys s))"
  shows "foreignRows aid (s\<lparr>apiKeys := ks, nextRandom := n, nextId := m\<rparr>) = foreignRows aid s"
  using assms by (simp add: foreignRows_def ownProducts_def ownResources_def)

lemma foreign_revoke:
  assumes "\<And>k. k \<in> set (apiKeys s) \<Longrightarrow> key_resourceId (f k) = key_resourceId k"
    and "\<And>k. k \<in> set (apiKeys s) \<Longrightarrow> key_resourceId k \<notin> ownResources aid s \<Longrightarrow> f k = k"
  shows "foreignRows aid (s\<lparr>apiKeys := map f (apiKeys s), nextRandom := n, nextId := m\<rparr>) =
    foreignRows aid s"
proof (rule foreign_keys)
  have "filter (\<lambda>k. key_resourceId k \<notin> ownResources aid s) (map keyCore (map f ks)) =
      filter (\<lambda>k. key_resourceId k \<notin> ownResources aid s) (map keyCore ks)"
    if "set ks \<subseteq> set (apiKeys s)" for ks
    using that by (induction ks) (auto simp: assms)
  then show "filter (\<lambda>k. key_resourceId k \<notin> ownResources aid s) (map keyCore (map f (apiKeys s))) =
      filter (\<lambda>k. key_resourceId k \<notin> ownResources aid s) (map keyCore (apiKeys s))" by simp
qed

lemma foreign_revokeLive:
  assumes "rid \<in> ownResources aid s"
  shows "foreignRows aid (s\<lparr>apiKeys := revokeLive rid now (apiKeys s), nextRandom := n, nextId := m\<rparr>) =
    foreignRows aid s"
  unfolding revokeLive_def using assms by (intro foreign_revoke) auto

lemma patchProduct_state:
  assumes "patchProduct aid pid n d s = (r, t)"
  shows "t = s \<or> (\<exists>p p'. p \<in> set (products s) \<and> prod_accountId p = aid \<and> prod_id p' = prod_id p \<and>
    prod_accountId p' = aid \<and> t = s\<lparr>products := saveRow prod_id p' (products s)\<rparr>)"
proof (cases "requireOwnedProduct aid pid s")
  case (Pair r' s')
  show ?thesis
  proof (cases r')
    case (Inl e)
    with Pair assms show ?thesis
      by (auto simp: patchProduct_def andThen_def requireOwnedProduct_def orThrow_run split: option.splits)
  next
    case (Inr p)
    with Pair have p: "s' = s" "p \<in> set (products s)" "prod_accountId p = aid"
      using ownedProduct_Some by blast+
    let ?p = "p\<lparr>prod_name := (case n of Val n \<Rightarrow> trim n | _ \<Rightarrow> prod_name p),
       prod_description := (case d of Undefined \<Rightarrow> prod_description p | Null \<Rightarrow> None | Val d \<Rightarrow> Some d),
       prod_updatedAt := clock s\<rparr>"
    have "t = s \<or> t = s\<lparr>products := saveRow prod_id ?p (products s)\<rparr>"
      using assms Pair Inr p(1)
      by (auto simp: patchProduct_def updateProduct_def andThen_Inr Let_def split: if_splits)
    moreover have "prod_id ?p = prod_id p" "prod_accountId ?p = aid" using p(3) by simp_all
    ultimately show ?thesis using p(2,3) by blast
  qed
qed

text \<open>Creating a product adds rows of the account only, whatever the remote service meters.\<close>

lemma foreign_append:
  assumes "env_ok E" and "db_inv E s" and "cpi_accountId input = aid"
    and "products t = products s @ [productRow E input s]"
    and "resources t = resources s @ rs" and "\<forall>r\<in>set rs. res_productId r = newUuid E (nextId s)"
    and "map keyCore (apiKeys t) = map keyCore (apiKeys s) @ ks"
    and "\<forall>k\<in>set ks. key_resourceId k \<in> res_id ` set rs" and "accounts t = accounts s"
    and "\<forall>r\<in>set rs. res_id r = newUuid E (Suc (nextId s))"
  shows "foreignRows aid t = foreignRows aid s"
proof -
  note fresh = fresh_product_unused [OF assms(1,2)]
  have own: "ownProducts aid t = insert (newUuid E (nextId s)) (ownProducts aid s)"
  proof -
    have "{p \<in> set (products t). prod_accountId p = aid} =
        insert (productRow E input s) {p \<in> set (products s). prod_accountId p = aid}"
      using assms(3,4) by (auto simp: productRow_def)
    then show ?thesis by (simp add: ownProducts_def productRow_def)
  qed
  have old: "{r \<in> set (resources s). res_productId r \<in> ownProducts aid t} =
      {r \<in> set (resources s). res_productId r \<in> ownProducts aid s}"
    using fresh(3) by (auto simp: own)
  have ownr: "ownResources aid t = res_id ` set rs \<union> ownResources aid s"
  proof -
    have "{r \<in> set (resources t). res_productId r \<in> ownProducts aid t} =
        set rs \<union> {r \<in> set (resources s). res_productId r \<in> ownProducts aid t}"
      using assms(5,6) by (auto simp: own)
    then show ?thesis unfolding ownResources_def old by auto
  qed
  have "filter (\<lambda>r. res_productId r \<notin> ownProducts aid t) (resources s) =
      filter (\<lambda>r. res_productId r \<notin> ownProducts aid s) (resources s)"
    using fresh(3) by (auto simp: own intro!: filter_cong)
  moreover have "filter (\<lambda>k. key_resourceId k \<notin> ownResources aid t) (map keyCore (apiKeys s)) =
      filter (\<lambda>k. key_resourceId k \<notin> ownResources aid s) (map keyCore (apiKeys s))"
  proof (rule filter_cong [OF refl])
    fix k
    assume "k \<in> set (map keyCore (apiKeys s))"
    then have "key_resourceId k \<noteq> newUuid E (Suc (nextId s))" using fresh(4) by auto
    with assms(10) show "(key_resourceId k \<notin> ownResources aid t) = (key_resourceId k \<notin> ownResources aid s)"
      by (auto simp: ownr)
  qed
  moreover have "filter (\<lambda>r. res_productId r \<notin> ownProducts aid t) rs = []"
    using assms(6) by (auto simp: filter_empty_conv own)
  moreover have "filter (\<lambda>k. key_resourceId k \<notin> ownResources aid t) ks = []"
    using assms(8) by (auto simp: filter_empty_conv ownr)
  ultimately show ?thesis
    using assms(3,4,5,7,9) by (simp add: foreignRows_def productRow_def)
qed

lemma refused_state:
  assumes "env_ok E" and "\<not> resourceOk input s"
  defines "t \<equiv> snd (createResourceInternal E (newUuid E (nextId s)) (cpi_service input)
      (cpi_walletId input) None (orphaned E input s))"
  shows "products t = products s @ [productRow E input s]"
    and "resources t = resources s \<or> resources t = resources s @ [resourceRow E input s]"
    and "apiKeys t = apiKeys s" and "accounts t = accounts s"
proof -
  note run = t_def createResource_run [OF assms(1)] Let_def
  show "products t = products s @ [productRow E input s]" "accounts t = accounts s"
    by (simp_all add: run) (simp_all add: orphaned_def)
  show "resources t = resources s \<or> resources t = resources s @ [resourceRow E input s]"
    by (simp add: run) (simp add: orphaned_def resourceRow_def)
  show "apiKeys t = apiKeys s"
    using assms(2) by (simp add: run resourceOk_def walletTaken_def defaultKeyName_def)
      (auto simp: orphaned_def)
qed

lemma foreign_createProduct:
  assumes "env_ok E" and "db_inv E s" and "remote_meters E fetch" and "cpi_accountId input = aid"
  shows "foreignRows aid (snd (createProduct E cfg fetch input s)) = foreignRows aid s"
proof -
  obtain r t where run: "createProduct E cfg fetch input s = (r, t)"
    by (cases "createProduct E cfg fetch input s")
  note append = foreign_append [OF assms(1,2,4)]
  have "foreignRows aid t = foreignRows aid s"
  proof (cases "mayCreate input s")
    case False
    then show ?thesis
      using createProduct_not_allowed [OF False, of E cfg fetch] run
      by (auto simp: foreignRows_def ownResources_def ownProducts_def)
  next
    case may: True
    show ?thesis
    proof (cases "resourceOk input s")
      case False
      have t: "t = snd (createResourceInternal E (newUuid E (nextId s)) (cpi_service input)
          (cpi_walletId input) None (orphaned E input s))"
        using createProduct_not_ok [OF assms(1) may False, of cfg fetch] run by auto
      note st = refused_state [OF assms(1) False, folded t]
      from st(2) obtain rs where rs: "resources t = resources s @ rs"
          "rs = [] \<or> rs = [resourceRow E input s]" by auto
      then show ?thesis
        using st(1,3,4) by (intro append [where rs = rs and ks = "[]"]) (auto simp: resourceRow_def)
    next
      case ok: True
      show ?thesis
      proof (cases r)
        case (Inl e)
        then show ?thesis
          using rollback_state [OF assms(1-3) may ok] run
          by (simp add: foreignRows_def ownProducts_def ownResources_def)
      next
        case (Inr c)
        note st = createProduct_Inr_state [OF assms(1-3) run [unfolded Inr]]
        from st(5) obtain now where "resources t = resources s @ [activeRow E input s now]" by blast
        then show ?thesis
          using st(4,6,7)
          by (intro append [where rs = "[activeRow E input s now]" and ks = "[keyCore (keyRow E input s)]"])
            (auto simp: activeRow_def resourceRow_def keyRow_def)
      qed
    qed
  qed
  then show ?thesis by (simp add: run)
qed

lemma foreign_patch:
  assumes "db_inv E s"
  shows "foreignRows aid (snd (patchProduct aid pid n d s)) = foreignRows aid s"
proof -
  obtain r t where run: "patchProduct aid pid n d s = (r, t)" by (cases "patchProduct aid pid n d s")
  from patchProduct_state [OF run] have "foreignRows aid t = foreignRows aid s"
    using foreign_updateProduct [OF db_inv_distinct(2) [OF assms]] by auto
  then show ?thesis by (simp add: run)
qed

lemma getProduct_readonly: "snd (getProduct aid pid s) = s"
  by (auto simp: getProduct_def andThen_def requireOwnedProduct_def orThrow_run
      split: prod.splits sum.splits option.splits)

lemma listProductResources_readonly: "snd (listProductResources aid pid s) = s"
  by (auto simp: listProductResources_def andThen_def requireOwnedProduct_def orThrow_run
      split: prod.splits sum.splits option.splits)

lemma foreign_patchView:
  assumes "db_inv E s"
  shows "foreignRows aid (snd (patchProductView aid pid n d s)) = foreignRows aid s"
  unfolding patchProductView_def
  by (rule andThen_sndI) (metis foreign_patch [OF assms] getProduct_readonly snd_conv)+

lemma foreign_archiveProduct:
  assumes "db_inv E s"
  shows "foreignRows aid (snd (archiveProduct aid pid s)) = foreignRows aid s"
proof (cases "find (\<lambda>p. prod_id p = pid \<and> prod_accountId p = aid \<and> prod_status p = ProdActive) (products s)")
  case None
  then show ?thesis using archiveProduct_run [OF db_inv_distinct(2,3) [OF assms], of aid pid] by simp
next
  case (Some p)
  then have "pid \<in> ownProducts aid s" by (auto simp: ownProducts_def dest!: find_Some_iff_in)
  with Some show ?thesis
    using archiveProduct_run [OF db_inv_distinct(2,3) [OF assms], of aid pid]
      foreign_archived [OF _ db_inv_distinct(2) [OF assms], of pid aid] by simp
qed

lemma ownResourcesI:
  "r \<in> set (resources s) \<Longrightarrow> p \<in> set (products s) \<Longrightarrow> prod_accountId p = aid \<Longrightarrow>
    prod_id p = res_productId r \<Longrightarrow> res_id r \<in> ownResources aid s"
  by (auto simp: ownResources_def ownProducts_def intro!: imageI) (metis (mono_tags, lifting) imageI mem_Collect_eq)

lemma owned_resource:
  "requireOwnedResource aid rid s = (Inr r, t) \<Longrightarrow> t = s \<and> rid \<in> ownResources aid s"
  by (auto simp: requireOwnedResource_def split: option.splits if_splits dest!: rowAt_Some_in
      intro: ownResourcesI)

lemma foreign_rotate:
  assumes "env_ok E" and "db_inv E s" and "rid \<in> ownResources aid s"
  shows "foreignRows aid (snd (rotateApiKey E rid nm s)) = foreignRows aid s"
proof -
  have state: "foreignRows aid (rotatedState rid s) = foreignRows aid s"
    using foreign_revokeLive [OF assms(3)] by (simp add: rotatedState_def)
  have "foreignRows aid ((rotatedState rid s)\<lparr>apiKeys :=
      revokeLive rid (clock s) (apiKeys s) @ [rotatedRow E rid nm r s]\<rparr>) = foreignRows aid s" for r
    using assms(3) state
    by (simp add: foreignRows_def ownProducts_def ownResources_def rotatedState_def rotatedRow_def)
  with state show ?thesis
    by (simp add: rotateApiKey_run [OF assms(1) db_inv_distinct(4) [OF assms(2)]] split: option.split)
qed

lemma foreign_rotateForAccount:
  assumes "env_ok E" and "db_inv E s"
  shows "foreignRows aid (snd (rotateApiKeyForAccount E aid rid nm s)) = foreignRows aid s"
  unfolding rotateApiKeyForAccount_def
proof (rule andThen_sndI)
  fix e s' assume "requireOwnedResource aid rid s = (Inl e, s')"
  then show "foreignRows aid s' = foreignRows aid s" by (metis requireOwnedResource_readonly snd_conv)
next
  fix r s' assume "requireOwnedResource aid rid s = (Inr r, s')"
  then show "foreignRows aid (snd (rotateApiKey E rid nm s')) = foreignRows aid s"
    using foreign_rotate [OF assms] owned_resource by blast
qed

lemma foreign_revokeForAccount:
  assumes "db_inv E s"
  shows "foreignRows aid (snd (revokeApiKeyForAccount aid kid s)) = foreignRows aid s"
proof (cases "rowAt key_id kid (apiKeys s)")
  case None
  then show ?thesis by (simp add: revokeApiKeyForAccount_def)
next
  case (Some k)
  then have k: "k \<in> set (apiKeys s)" by (auto dest: rowAt_Some_in)
  have own: "foreignRows aid (snd (stampRevoked k s)) = foreignRows aid s"
    if p: "productOfKey k s = Some p" "prod_accountId p = aid" for p
  proof -
    from p have in_own: "key_resourceId k \<in> ownResources aid s"
      by (auto simp: productOfKey_def bind_eq_Some_conv dest!: rowAt_Some_in intro: ownResourcesI)
        (metis ownResourcesI)
    let ?f = "\<lambda>x. if x = k then revokeRow (clock s) k else x"
    have same: "saveRow key_id (revokeRow (clock s) k) (apiKeys s) = map ?f (apiKeys s)"
      by (rule saveRow_as_map [OF db_inv_distinct(4) [OF assms] k]) simp
    have "snd (stampRevoked k s) =
        s\<lparr>apiKeys := map ?f (apiKeys s), nextRandom := nextRandom s, nextId := nextId s\<rparr>"
      by (simp add: stampRevoked_run same)
    also have "foreignRows aid \<dots> = foreignRows aid s"
      by (rule foreign_revoke) (use in_own in auto)
    finally show ?thesis .
  qed
  with Some show ?thesis
    by (cases "productOfKey k s") (simp_all add: revokeApiKeyForAccount_def)
qed

lemma foreign_parsed:
  "(\<And>a. v = Some a \<Longrightarrow> foreignRows aid (snd (f a s)) = foreignRows aid s) \<Longrightarrow>
    foreignRows aid (snd (parsed v f s)) = foreignRows aid s"
  by (cases v) (simp_all add: parsed_def)

lemma foreign_uuidParam:
  "foreignRows aid (snd (m s)) = foreignRows aid s \<Longrightarrow>
    foreignRows aid (snd (uuidParam W p m s)) = foreignRows aid s"
  by (simp add: uuidParam_def)

lemmas foreign_pipes = foreign_parsed foreign_uuidParam

text \<open>
  C35. Tenants are isolated: whatever an authenticated account requests from the product and
  resource endpoints, accepted or refused, the accounts, products, resources and keys of all
  other accounts are afterwards exactly what they were, up to usage stamps of keys.
\<close>

theorem tenant_isolation:
  assumes "env_ok (w_env W)" and "remote_meters (w_env W) (w_fetch W)" and "db_inv (w_env W) s"
  shows "foreignRows aid (snd (productsController W aid pe s)) = foreignRows aid s \<and>
    foreignRows aid (snd (resourcesController W aid re s)) = foreignRows aid s"
proof
  have input: "cpi_accountId i = aid" if "CreateProductDto aid body = Some i" for i body
    using that by (auto simp: CreateProductDto_def split: option.splits)
  show "foreignRows aid (snd (productsController W aid pe s)) = foreignRows aid s"
  proof (cases pe)
    case ProductList
    then show ?thesis by (simp add: listProducts_def split: option.split)
  next
    case (ProductCreate body)
    have "foreignRows aid (snd (createAndReply W i s)) = foreignRows aid s"
      if "CreateProductDto aid body = Some i" for i
      using foreign_createProduct [OF assms(1,3,2) input [OF that]] by (simp add: createAndReply_def)
    with ProductCreate show ?thesis by (simp add: foreign_parsed)
  next
    case (ProductGet pid)
    then show ?thesis by (simp add: foreign_uuidParam getProduct_readonly)
  next
    case (ProductPatch pid body)
    then show ?thesis
      by (simp add: foreign_pipes foreign_patchView [OF assms(3)] split: prod.split)
  next
    case (ProductRemove pid)
    then show ?thesis by (simp add: foreign_uuidParam foreign_archiveProduct [OF assms(3)])
  next
    case (ProductResources pid)
    then show ?thesis by (simp add: foreign_uuidParam listProductResources_readonly)
  qed
  show "foreignRows aid (snd (resourcesController W aid re s)) = foreignRows aid s"
    by (cases re)
      (simp_all add: foreign_pipes foreign_rotateForAccount [OF assms(1,3)]
        foreign_revokeForAccount [OF assms(3)])
qed

end
