(* ===== verification/ProductWitnesses.thy ===== *)
theory ProductWitnesses
  imports KeyProps
begin

text \<open>
  The properties of products and keys applied to the sample store: a second product is created
  with a remote service that is up, rolled back with one that is down, refused for a wallet that
  is taken; the account changes its plan; the key of its resource is rotated.
\<close>

definition sampleInput :: "resourceService \<Rightarrow> string \<Rightarrow> createProductInput" where
  "sampleInput svc wallet =
     \<lparr>cpi_accountId = newUuid sampleEnv 0, cpi_name = ''Checks'', cpi_description = None,
      cpi_service = svc, cpi_walletId = wallet\<rparr>"

lemma sampleInput_simps [simp]:
  "cpi_accountId (sampleInput svc w) = newUuid sampleEnv 0" "cpi_service (sampleInput svc w) = svc"
  "cpi_walletId (sampleInput svc w) = w" "cpi_name (sampleInput svc w) = ''Checks''"
  by (simp_all add: sampleInput_def)

lemma sample_activeCount: "activeCount (newUuid sampleEnv 0) sampleDb = 1"
  by (simp add: activeCount_def countWhere_def sample_defs)

lemma sample_mayCreate: "mayCreate (sampleInput svc w) sampleDb"
  by (simp add: mayCreate_def sample_activeCount fits_def trim_def isSpaceChar_def)

lemma sample_resourceOk: "resourceOk (sampleInput Verifier ''acme'') sampleDb"
  by (simp add: resourceOk_def walletTaken_def fits_def defaultKeyName_def sample_defs isAlnum_def)

lemma sample_taken: "walletTaken (sampleInput Issuer ''acme'') sampleDb"
  by (simp add: walletTaken_def sample_defs)

definition sampleProv :: provisionConfig where
  "sampleProv = \<lparr>cfg_provisionOnCreate = True, cfg_issuerUrl = ''http://i/'', cfg_verifierUrl = ''http://v''\<rparr>"

lemma sample_provision:
  "provision sampleProv remoteUp svc w k s = (Inr (), s)"
  "provision sampleProv remoteDown svc w k s = (Inl (ProvisionUnreachable svc), s)"
  by (cases svc; simp add: provision_def sampleProv_def remoteUp_def remoteDown_def responseOk_def
      dropTrailingSlash_def)+

lemma sample_created:
  obtains c t where
    "createProduct sampleEnv sampleProv remoteUp (sampleInput Verifier ''acme'') sampleDb = (Inr c, t)"
  by (rule createProduct_outcome [OF sampleEnv_ok sampleDb_inv remoteUp_meters sample_mayCreate
        sample_resourceOk, of sampleProv]) (auto simp: sample_provision)

lemma sample_rolled_back:
  obtains e t where
    "createProduct sampleEnv sampleProv remoteDown (sampleInput Verifier ''acme'') sampleDb = (Inl e, t)"
proof (cases "createProduct sampleEnv sampleProv remoteDown (sampleInput Verifier ''acme'') sampleDb")
  case (Pair r t)
  show thesis
    by (rule createProduct_outcome [OF sampleEnv_ok sampleDb_inv remoteDown_meters sample_mayCreate
        sample_resourceOk, of sampleProv])
      (use Pair that in \<open>auto simp: createProduct_created [OF sampleEnv_ok sample_mayCreate sample_resourceOk]
        provisionOrRollback_def catching_run andThen_run sample_provision split: prod.splits sum.splits\<close>)
qed

theorem createProduct_success_witness:
  "\<exists>c t. createProduct sampleEnv sampleProv remoteUp (sampleInput Verifier ''acme'') sampleDb = (Inr c, t) \<and>
    products t = products sampleDb @ [pc_product c] \<and> prod_status (pc_product c) = ProdActive"
proof -
  obtain c t where run:
    "createProduct sampleEnv sampleProv remoteUp (sampleInput Verifier ''acme'') sampleDb = (Inr c, t)"
    by (rule sample_created)
  from createProduct_success [OF sampleEnv_ok sampleDb_inv remoteUp_meters run] run show ?thesis by blast
qed

text \<open>The sample keys have pairwise different hashes: they differ in the first 32 characters.\<close>

lemma toHex_inj: "toHex x = toHex y \<Longrightarrow> x = y"
  by (metis fromHex_toHex)

lemma sample_hash_differs:
  assumes "i < 32" and "i < length x" and "i < length y" and "x ! i \<noteq> y ! i"
  shows "hashApiKey sampleEnv x \<noteq> hashApiKey sampleEnv y"
proof
  assume "hashApiKey sampleEnv x = hashApiKey sampleEnv y"
  then have "sha256 sampleEnv x ! i = sha256 sampleEnv y ! i"
    by (auto simp: hashApiKey_def dest: toHex_inj)
  then have "of_nat (of_char (x ! i)) = (of_nat (of_char (y ! i)) :: 8 word)"
    using assms(1-3) by (simp add: sampleEnv_def nth_append)
  then have "(of_char (x ! i) :: nat) mod 256 = of_char (y ! i) mod 256"
    by (simp add: word_of_nat_eq_iff take_bit_eq_mod)
  then show False using assms(4) by simp
qed

lemma sample_drawn: "fst (drawnKey sampleEnv svc sampleDb) =
    (if svc = Issuer then ''iss'' else ''ver'') @ ''_live_'' @ toBase64url (replicate 24 0)"
  by (simp add: drawnKey_def apiKeyOf_def sampleEnv_def sampleDb_def Let_def)

lemma sample_new_hash: "hashApiKey sampleEnv (fst (drawnKey sampleEnv svc sampleDb)) \<noteq>
    hashApiKey sampleEnv sampleRawKey"
proof -
  have "replicate 24 (0::8 word) = 0 # 0 # 0 # replicate 21 0"
    by (simp add: replicate_Suc [symmetric] del: replicate_Suc)
  moreover have "char_of (65::nat) = CHR ''A''"
  proof -
    have "of_char CHR ''A'' = (65::nat)" by simp
    then show ?thesis by (metis char_of_char)
  qed
  ultimately obtain xs where b64: "toBase64url (replicate 24 0) = CHR ''A'' # xs"
    by (simp add: b64Char_def)
  show ?thesis
    by (rule sample_hash_differs [of 9]; cases svc; simp add: sample_drawn sampleRawKey_def b64)
qed

theorem created_key_authenticates_witness:
  "\<exists>c t v u. createProduct sampleEnv sampleProv remoteUp (sampleInput Verifier ''acme'') sampleDb = (Inr c, t) \<and>
    validateApiKey sampleEnv (pc_apiKey c) (cpi_service (sampleInput Verifier ''acme''))
      (Some (cpi_walletId (sampleInput Verifier ''acme''))) t = (Inr v, u)"
proof -
  obtain c t where run:
    "createProduct sampleEnv sampleProv remoteUp (sampleInput Verifier ''acme'') sampleDb = (Inr c, t)"
    by (rule sample_created)
  have "pc_apiKey c = fst (drawnKey sampleEnv Verifier sampleDb)"
    using createProduct_Inr_state(5) [OF sampleEnv_ok sampleDb_inv remoteUp_meters run]
    by (auto simp: createdResult_def)
  then have "\<forall>k\<in>set (apiKeys sampleDb). keyLive k \<longrightarrow> key_keyHash k \<noteq> hashApiKey sampleEnv (pc_apiKey c)"
    using sample_new_hash [of Verifier] by (simp add: sampleDb_def sampleKey_def)
  from created_key_authenticates [OF sampleEnv_ok sampleDb_inv remoteUp_meters run this] run
  show ?thesis by blast
qed

theorem createProduct_rollback_witness:
  "\<exists>e t. createProduct sampleEnv sampleProv remoteDown (sampleInput Verifier ''acme'') sampleDb = (Inl e, t) \<and>
    products t = products sampleDb \<and> paymentEvents t = paymentEvents sampleDb \<and>
    cfg_provisionOnCreate sampleProv"
proof -
  obtain e t where run:
    "createProduct sampleEnv sampleProv remoteDown (sampleInput Verifier ''acme'') sampleDb = (Inl e, t)"
    by (rule sample_rolled_back)
  from createProduct_rollback [OF sampleEnv_ok sampleDb_inv remoteDown_meters sample_mayCreate
      sample_resourceOk run] run
  show ?thesis by blast
qed

theorem refused_resource_leaves_product_witness:
  "\<exists>e t. createProduct sampleEnv sampleProv remoteUp (sampleInput Issuer ''acme'') sampleDb = (Inl e, t) \<and>
    products t = products sampleDb @ [productRow sampleEnv (sampleInput Issuer ''acme'') sampleDb]"
  using refused_resource_leaves_product [OF sampleEnv_ok sample_mayCreate, of Issuer "''acme''" sampleProv remoteUp]
    sample_taken by blast

theorem refused_resources_exhaust_quota_witness:
  "fst (createProduct sampleEnv sampleProv remoteUp (sampleInput Verifier ''new'')
     (attempts sampleEnv sampleProv remoteUp (sampleInput Issuer ''acme'') 1 sampleDb)) =
   Inl (ProductQuotaReached 2)"
  using refused_resources_exhaust_quota [OF sampleEnv_ok sample_taken, where a = sampleAccount and n = 1
      and cfg = sampleProv and fetch = remoteUp and other = "sampleInput Verifier ''new''"
      and t = "attempts sampleEnv sampleProv remoteUp (sampleInput Issuer ''acme'') 1 sampleDb"]
    sample_activeCount sample_mayCreate [of Issuer "''acme''"] sample_resourceOk
  by (simp add: mayCreate_def resourceOk_def)


section \<open>Keys\<close>

lemma sample_rotated:
  obtains raw pfx t where
    "rotateApiKeyForAccount sampleEnv (newUuid sampleEnv 0) (newUuid sampleEnv 2) None sampleDb = (Inr (raw, pfx), t)"
proof -
  have own: "requireOwnedResource (newUuid sampleEnv 0) (newUuid sampleEnv 2) sampleDb = (Inr sampleResource, sampleDb)"
    and row: "rowAt res_id (newUuid sampleEnv 2) (resources sampleDb) = Some sampleResource"
    by (simp_all add: requireOwnedResource_def sample_defs rowAt_def)
  have "fits 80 (rotatedName None sampleResource)"
    by (simp add: fits_def rotatedName_def sampleResource_def)
  with row have "fst (rotateApiKey sampleEnv (newUuid sampleEnv 2) None sampleDb) =
      Inr (drawnKey sampleEnv (res_service sampleResource) sampleDb)"
    by (simp add: rotateApiKey_run [OF sampleEnv_ok db_inv_distinct(4) [OF sampleDb_inv]])
  with own that show thesis
    by (cases "rotateApiKey sampleEnv (newUuid sampleEnv 2) None sampleDb")
      (auto simp: rotateApiKeyForAccount_def andThen_Inr, metis surj_pair)
qed

theorem rotation_replaces_witness:
  "\<exists>raw pfx t k. rotateApiKeyForAccount sampleEnv (newUuid sampleEnv 0) (newUuid sampleEnv 2) None sampleDb =
    (Inr (raw, pfx), t) \<and> liveKeysOf (newUuid sampleEnv 2) t = [k]"
proof -
  obtain raw pfx t where run:
    "rotateApiKeyForAccount sampleEnv (newUuid sampleEnv 0) (newUuid sampleEnv 2) None sampleDb = (Inr (raw, pfx), t)"
    by (rule sample_rotated)
  from rotation_replaces [OF sampleEnv_ok sampleDb_inv run] run show ?thesis by blast
qed

theorem rotation_refuses_old_witness:
  "\<exists>raw pfx t. rotateApiKeyForAccount sampleEnv (newUuid sampleEnv 0) (newUuid sampleEnv 2) None sampleDb =
    (Inr (raw, pfx), t) \<and> validateAndMeter sampleEnv sampleRawKey Issuer None None t = (Inl ApiKeyInvalid, t)"
proof -
  obtain raw pfx t where run:
    "rotateApiKeyForAccount sampleEnv (newUuid sampleEnv 0) (newUuid sampleEnv 2) None sampleDb = (Inr (raw, pfx), t)"
    by (rule sample_rotated)
  obtain r :: resource where "(raw, pfx) = drawnKey sampleEnv (res_service r) sampleDb"
    by (rule rotateForAccount_Inr [OF sampleEnv_ok sampleDb_inv run])
  then have "hashApiKey sampleEnv (trim sampleRawKey) \<noteq> hashApiKey sampleEnv raw"
    using sample_new_hash [of "res_service r"] by (metis fst_conv sampleRawKey_trim(1))
  moreover have "\<forall>k\<in>set (apiKeys sampleDb). keyLive k \<and>
      key_keyHash k = hashApiKey sampleEnv (trim sampleRawKey) \<longrightarrow> key_resourceId k = newUuid sampleEnv 2"
    by (simp add: sampleDb_def sampleKey_def)
  ultimately show ?thesis
    using rotation_refuses_old [OF sampleEnv_ok sampleDb_inv run, of sampleRawKey Issuer None None] run
    by auto
qed

text \<open>The sample store with a wallet identifier of 73 characters.\<close>

definition longDb :: db where
  "longDb = sampleDb\<lparr>resources := [sampleResource\<lparr>res_walletId := replicate 73 CHR ''w''\<rparr>]\<rparr>"

lemma longDb_inv: "db_inv sampleEnv longDb"
  using sampleDb_inv
  by (simp add: longDb_def inv_defs sample_defs fresh_table_def unique_where_def refers_def)

theorem rotation_loses_keys_witness:
  "walletIdValid (replicate 73 CHR ''w'') \<and> fits 80 (''issuer-'' @ replicate 73 CHR ''w'') \<and>
   (\<exists>t. rotateApiKey sampleEnv (newUuid sampleEnv 2) None longDb = (Inl (ValueTooLong ''api_keys''), t) \<and>
     liveKeysOf (newUuid sampleEnv 2) t = [])"
proof -
  have "walletIdValid (CHR ''w'' # replicate 72 CHR ''w'')" by (simp add: isAlnum_def list_all_iff)
  moreover have "replicate 73 CHR ''w'' = CHR ''w'' # replicate 72 CHR ''w''"
    by (simp add: replicate_Suc [symmetric] del: replicate_Suc)
  moreover have "rowAt res_id (newUuid sampleEnv 2) (resources longDb) =
      Some (sampleResource\<lparr>res_walletId := replicate 73 CHR ''w''\<rparr>)"
    by (simp add: longDb_def rowAt_def sampleResource_def)
  ultimately show ?thesis
    using rotation_loses_keys [OF sampleEnv_ok longDb_inv] by (auto simp: fits_def)
qed

theorem tenant_isolation_witness:
  "foreignRows (newUuid sampleEnv 1)
     (snd (productsController sampleWorld (newUuid sampleEnv 1) (ProductRemove (newUuid sampleEnv 1)) sampleDb)) =
   foreignRows (newUuid sampleEnv 1) sampleDb"
proof -
  have W: "w_env sampleWorld = sampleEnv" "w_fetch sampleWorld = remoteCalling"
    by (simp_all add: sampleWorld_def)
  show ?thesis
    using tenant_isolation [of sampleWorld sampleDb] sampleEnv_ok remoteCalling_meters sampleDb_inv
    unfolding W by blast
qed

end
