(* ===== verification/AccountProps.thy ===== *)
theory AccountProps
  imports ProductWitnesses
begin

text \<open>
  What accounts and payments guarantee: a registered account can log in, with exactly its
  password; OAuth logins are idempotent and adopt an existing account only through a verified
  e-mail; a payment event moves the account to its plan and status. Two theorems describe what
  the code does with an unverified e-mail that is already taken and with an unsigned webhook.
\<close>

section \<open>Registration and login\<close>

definition normalEmail :: "string \<Rightarrow> string" where
  "normalEmail e = toLowerCase (trim e)"

definition registeredRow :: "env \<Rightarrow> string \<Rightarrow> string \<Rightarrow> string \<Rightarrow> db \<Rightarrow> account" where
  "registeredRow E name email password s =
     (freeAccount (trim name) (Some (normalEmail email))
        (Some (passwordHashOf E (randomBytes E (nextRandom s) 16) password)))
       \<lparr>acc_id := newUuid E (nextId s), acc_createdAt := clock s, acc_updatedAt := clock s\<rparr>"

lemma findByEmail_None:
  "findByEmail e rows = None \<longleftrightarrow> (\<forall>a\<in>set rows. acc_email a \<noteq> Some e)"
  by (auto simp: findByEmail_def find_None_iff)

lemma findByEmail_snoc:
  "findByEmail e rows = None \<Longrightarrow> acc_email a = Some e \<Longrightarrow> findByEmail e (rows @ [a]) = Some a"
  by (induction rows) (auto simp: findByEmail_def)

lemma freeAccount_simps [simp]:
  "acc_name (freeAccount n e h) = n" "acc_email (freeAccount n e h) = e"
  "acc_passwordHash (freeAccount n e h) = h" "acc_status (freeAccount n e h) = AccActive"
  by (simp_all add: freeAccount_def Let_def)

lemma register_run:
  "register E P name email pw s =
    (if findByEmail (normalEmail email) (accounts s) \<noteq> None then (Inl EmailTaken, s)
     else if \<not> (fits 160 (trim name) \<and> fits 255 (normalEmail email))
     then (Inl (ValueTooLong ''accounts''),
           s\<lparr>nextRandom := nextRandom s + 1, nextId := nextId s + 1\<rparr>)
     else let a = registeredRow E name email pw s in
       (Inr (toAccountView a),
        snd (insertSubscription E (activeSubscription P (acc_id a) (acc_plan a))
          (s\<lparr>nextRandom := nextRandom s + 1, nextId := nextId s + 1, accounts := accounts s @ [a]\<rparr>))))"
proof (cases "findByEmail (normalEmail email) (accounts s)")
  case None
  then have "\<not> (\<exists>a\<in>set (accounts s). acc_email a = Some (normalEmail email))"
    by (simp add: findByEmail_None)
  with None show ?thesis
    by (simp add: register_def hashPassword_def andThen_assoc insert_steps Let_def fitsOpt_def
        registeredRow_def normalEmail_def [symmetric])
next
  case (Some a)
  then show ?thesis by (simp add: register_def normalEmail_def Let_def)
qed

lemma register_Inr:
  assumes "register E P name email pw s = (Inr v, t)"
  shows "findByEmail (normalEmail email) (accounts s) = None" and "fits 160 (trim name)"
    and "fits 255 (normalEmail email)" and "v = toAccountView (registeredRow E name email pw s)"
    and "accounts t = accounts s @ [registeredRow E name email pw s]"
    and "identities t = identities s" and "products t = products s"
  using assms by (auto simp: register_run Let_def split: if_splits)

text \<open>
  An account registers once per e-mail: registration succeeds exactly when no account has
  the e-mail (up to blanks and case) and name and e-mail fit their columns; then one active
  account with the free plan's quotas is appended. An e-mail in use is refused with 409 and the
  store is unchanged.
\<close>

theorem register_iff:
  "if \<exists>a\<in>set (accounts s). acc_email a = Some (normalEmail email)
   then register E P name email pw s = (Inl EmailTaken, s) \<and> httpStatus EmailTaken = 409
   else (\<exists>v t. register E P name email pw s = (Inr v, t) \<and>
           (\<exists>a. accounts t = accounts s @ [a] \<and> toAccountView a = v \<and> acc_status a = AccActive \<and>
             acc_email a = Some (normalEmail email) \<and> acc_plan a = ''free'' \<and>
             acc_maxProducts a = plan_maxProducts (PLANS Free) \<and>
             acc_rateLimitRpm a = plan_rateLimitRpm (PLANS Free) \<and>
             acc_monthlyTxQuota a = plan_monthlyTxQuota (PLANS Free))) =
        (fits 160 (trim name) \<and> fits 255 (normalEmail email))"
proof -
  have free: "resolvePlan ''free'' = PLANS Free" by (simp add: resolvePlan_def isPlanId_def)
  have row: "acc_plan a = ''free'' \<and> acc_maxProducts a = plan_maxProducts (PLANS Free) \<and>
      acc_rateLimitRpm a = plan_rateLimitRpm (PLANS Free) \<and> acc_status a = AccActive \<and>
      acc_monthlyTxQuota a = plan_monthlyTxQuota (PLANS Free) \<and> acc_email a = Some (normalEmail email)"
    if "a = registeredRow E name email pw s" for a
    using that by (simp add: registeredRow_def freeAccount_def free Let_def)
  show ?thesis
  proof (cases "\<exists>a\<in>set (accounts s). acc_email a = Some (normalEmail email)")
    case True
    then have "findByEmail (normalEmail email) (accounts s) \<noteq> None" by (simp add: findByEmail_None)
    with True show ?thesis by (simp add: register_run)
  next
    case False
    then have new: "findByEmail (normalEmail email) (accounts s) = None" by (auto simp: findByEmail_None)
    show ?thesis
    proof (cases "fits 160 (trim name) \<and> fits 255 (normalEmail email)")
      case True
      with False new row [OF refl] show ?thesis by (auto simp: register_run Let_def)
    next
      case False': False
      with False new show ?thesis by (auto simp: register_run)
    qed
  qed
qed

text \<open>
  Password round trip: right after a registration, a login with the same e-mail, however it
  is padded or capitalised, succeeds with a password exactly when the key derivation maps it to
  the same key as the registered one under the stored salt; every other password gets 401. The
  answer is the account that was registered, and logging in changes nothing.
\<close>

theorem register_then_login:
  assumes "env_ok E" and "register E P name email pw s = (Inr v, t)"
    and "toLowerCase (trim email') = toLowerCase (trim email)"
  shows "\<exists>a. toAccountView a = v \<and> login E email' pw' t =
    (if scrypt E pw' (toHex (randomBytes E (nextRandom s) 16)) =
        scrypt E pw (toHex (randomBytes E (nextRandom s) 16))
     then (Inr a, t) else (Inl BadCredentials, t))"
proof -
  note st = register_Inr [OF assms(2)]
  let ?a = "registeredRow E name email pw s"
  have len: "length (randomBytes E (nextRandom s) 16) = 16" using assms(1) by (simp add: env_ok_def)
  then have ne: "randomBytes E (nextRandom s) 16 \<noteq> []" by auto
  have "findByEmail (normalEmail email) (accounts t) = Some ?a"
    using st(1) by (simp add: st(5) findByEmail_snoc registeredRow_def)
  moreover have "acc_passwordHash ?a = Some (passwordHashOf E (randomBytes E (nextRandom s) 16) pw)"
    and "acc_status ?a = AccActive" by (simp_all add: registeredRow_def)
  moreover have "passwordHashOf E (randomBytes E (nextRandom s) 16) pw \<noteq> []"
    by (simp add: passwordHashOf_def Let_def)
  ultimately show ?thesis
    using verifyPassword_iff [OF assms(1) ne, of pw' pw] assms(3) st(4)
    by (intro exI [of _ ?a]) (simp add: login_def normalEmail_def Let_def)
qed

section \<open>OAuth\<close>

lemma insertIdentity_Inr:
  assumes "insertIdentity E i s = (Inr row, t)"
  shows "row = i\<lparr>idn_id := newUuid E (nextId s), idn_createdAt := clock s, idn_updatedAt := clock s\<rparr>"
    and "identities t = identities s @ [row]" and "accounts t = accounts s"
    and "subscriptions t = subscriptions s"
  using assms by (auto simp: insertIdentity_def Let_def split: if_splits)

lemma oauthAccount_Inr:
  assumes "oauthAccount E P prof linked s = (Inr a, t)" and "\<forall>b. linked = Some b \<longrightarrow> b \<in> set (accounts s)"
  shows "a \<in> set (accounts t)" and "acc_status a \<noteq> AccSuspended" and "identities t = identities s"
    and "linked = None \<Longrightarrow> acc_id a = newUuid E (nextId s)" and "\<And>b. linked = Some b \<Longrightarrow> a = b"
  using assms
  by (auto simp: oauthAccount_def insert_steps Let_def split: option.splits if_splits)


lemma findIdentity_snoc:
  "findIdentity prof rows = None \<Longrightarrow> idn_provider i = prof_provider prof \<Longrightarrow>
    idn_providerSubject i = prof_subject prof \<Longrightarrow> findIdentity prof (rows @ [i]) = Some i"
  by (induction rows) (auto simp: findIdentity_def)

definition needsEmail :: "oauthProfile \<Rightarrow> accountIdentity \<Rightarrow> bool" where
  "needsEmail profile i \<longleftrightarrow>
     (\<exists>e. prof_email profile = Some e \<and> e \<noteq> []) \<and> (idn_email i = None \<or> idn_email i = Some [])"

definition refreshed :: "oauthProfile \<Rightarrow> accountIdentity \<Rightarrow> db \<Rightarrow> accountIdentity" where
  "refreshed profile i s = i\<lparr>idn_email := prof_email profile, idn_updatedAt := clock s\<rparr>"

lemma andThen_updateIdentity:
  "andThen (updateIdentity i) f s =
    (let row = i\<lparr>idn_updatedAt := clock s\<rparr>
     in if \<not> fitsOpt 255 (idn_email i) then (Inl (ValueTooLong ''account_identities''), s)
        else f row (s\<lparr>identities := saveRow idn_id row (identities s)\<rparr>))"
  by (simp add: andThen_def updateIdentity_def Let_def)

lemma oauthKnown_run:
  "oauthKnown profile i s =
    (case rowAt acc_id (idn_accountId i) (accounts s) of
       None \<Rightarrow> (Inl AccountNotFound, s)
     | Some a \<Rightarrow>
         if acc_status a = AccSuspended then (Inl AccountSuspended, s)
         else if needsEmail profile i \<and> \<not> fitsOpt 255 (prof_email profile)
         then (Inl (ValueTooLong ''account_identities''), s)
         else if needsEmail profile i
         then (Inr (toAccountView a),
               s\<lparr>identities := saveRow idn_id (refreshed profile i s) (identities s)\<rparr>)
         else (Inr (toAccountView a), s))"
proof -
  have need: "((case prof_email profile of None \<Rightarrow> False | Some e \<Rightarrow> e \<noteq> []) \<and>
      (case idn_email i of None \<Rightarrow> True | Some e \<Rightarrow> e = [])) = needsEmail profile i"
    by (auto simp: needsEmail_def split: option.splits)
  show ?thesis
    unfolding oauthKnown_def need
    by (cases "rowAt acc_id (idn_accountId i) (accounts s)"; cases "needsEmail profile i")
      (auto simp: andThen_assoc andThen_updateIdentity refreshed_def Let_def)
qed

lemma findIdentity_map:
  assumes "findIdentity prof rows = Some i" and "idn_provider i' = idn_provider i"
    and "idn_providerSubject i' = idn_providerSubject i"
  shows "findIdentity prof (map (\<lambda>x. if x = i then i' else x) rows) = Some i'"
proof -
  have P: "idn_provider i = prof_provider prof" "idn_providerSubject i = prof_subject prof"
    using assms(1) by (auto simp: findIdentity_def dest: find_Some_iff_in)
  from assms(1) show ?thesis
    by (induction rows) (auto simp: findIdentity_def assms(2,3) P split: if_splits)
qed

text \<open>The account an OAuth login of a new identity is given.\<close>

definition oauthLinked :: "oauthProfile \<Rightarrow> db \<Rightarrow> account option" where
  "oauthLinked profile s =
     (case oauthEmail profile of
        None \<Rightarrow> None
      | Some e \<Rightarrow>
          if prof_emailVerified profile \<noteq> Some False then findByEmail e (accounts s) else None)"

lemma oauthNew_run:
  "oauthNew E P profile s =
    andThen (oauthAccount E P profile (oauthLinked profile s)) (\<lambda>account.
    andThen (insertIdentity E (identityOf profile (acc_id account)))
       (\<lambda>_. ret (toAccountView account))) s"
  by (simp add: oauthNew_def oauthLinked_def)

lemma oauthLinked_member: "oauthLinked profile s = Some a \<Longrightarrow> a \<in> set (accounts s)"
  by (auto simp: oauthLinked_def findByEmail_def split: option.splits if_splits dest: find_Some_iff_in)

lemma oauthNew_Inr:
  assumes "oauthNew E P profile s = (Inr v, t)"
  obtains a i s' where "oauthAccount E P profile (oauthLinked profile s) s = (Inr a, s')"
    and "v = toAccountView a" and "a \<in> set (accounts t)" and "acc_status a \<noteq> AccSuspended"
    and "identities t = identities s @ [i]" and "idn_accountId i = acc_id a"
    and "idn_provider i = prof_provider profile" and "idn_providerSubject i = prof_subject profile"
    and "idn_email i = oauthEmail profile" and "accounts t = accounts s'"
proof -
  from assms obtain a s' i where acc: "oauthAccount E P profile (oauthLinked profile s) s = (Inr a, s')"
    and ins: "insertIdentity E (identityOf profile (acc_id a)) s' = (Inr i, t)" and v: "v = toAccountView a"
    unfolding oauthNew_run by (elim andThen_InrE) simp
  have "\<forall>b. oauthLinked profile s = Some b \<longrightarrow> b \<in> set (accounts s)"
    using oauthLinked_member by blast
  note a = oauthAccount_Inr [OF acc this]
  note i = insertIdentity_Inr [OF ins]
  show thesis
    using acc v a(1,2,3) i that by (simp add: identityOf_def)
qed

text \<open>A second login: the identity is known and its account is not suspended.\<close>

lemma known_again:
  assumes "findIdentity profile (identities t) = Some i" and "db_inv E t"
    and "a \<in> set (accounts t)" and "acc_id a = idn_accountId i" and "acc_status a \<noteq> AccSuspended"
    and "\<forall>e. prof_email profile = Some e \<longrightarrow> fits 255 e"
  shows "\<exists>u. findOrCreateFromOAuth E P profile t = (Inr (toAccountView a), u) \<and> accounts u = accounts t \<and>
    subscriptions u = subscriptions t \<and> map idn_id (identities u) = map idn_id (identities t)"
proof -
  have row: "rowAt acc_id (idn_accountId i) (accounts t) = Some a"
    using assms(3,4) rowAt_distinct [OF db_inv_distinct(1) [OF assms(2)]] by metis
  have "idn_id i \<in> idn_id ` set (identities t)"
    using assms(1) by (auto simp: findIdentity_def dest: find_Some_iff_in)
  then have "map idn_id (saveRow idn_id (refreshed profile i t) (identities t)) = map idn_id (identities t)"
    by (intro map_key_saveRow_old) (simp add: refreshed_def)
  moreover have "fitsOpt 255 (prof_email profile)"
    using assms(6) by (simp add: fitsOpt_def split: option.split)
  ultimately show ?thesis
    using assms(1,5) row by (simp add: findOrCreateFromOAuth_def oauthKnown_run)
qed

lemma distinct_identities: "db_inv E s \<Longrightarrow> distinct (map idn_id (identities s))"
  by (simp add: inv_defs fresh_table_def)

text \<open>What the first login leaves: an identity of the profile and its account.\<close>

lemma oauth_Inr:
  assumes "env_ok E" and "db_inv E s" and "findOrCreateFromOAuth E P profile s = (Inr v, t)"
  obtains a i where "v = toAccountView a" and "a \<in> set (accounts t)" and "acc_status a \<noteq> AccSuspended"
    and "findIdentity profile (identities t) = Some i" and "idn_accountId i = acc_id a"
proof (cases "findIdentity profile (identities s)")
  case None
  then have new: "oauthNew E P profile s = (Inr v, t)"
    using assms(3) by (simp add: findOrCreateFromOAuth_def)
  from oauthNew_Inr [OF new] that findIdentity_snoc [OF None] show thesis by metis
next
  case (Some i)
  then have known: "oauthKnown profile i s = (Inr v, t)"
    using assms(3) by (simp add: findOrCreateFromOAuth_def)
  then obtain a where row: "rowAt acc_id (idn_accountId i) (accounts s) = Some a"
    and v: "v = toAccountView a" "acc_status a \<noteq> AccSuspended" "accounts t = accounts s"
    and ids: "identities t = identities s \<or>
      identities t = saveRow idn_id (refreshed profile i s) (identities s)"
    by (auto simp: oauthKnown_run split: option.splits if_splits)
  have i: "i \<in> set (identities s)" using Some by (auto simp: findIdentity_def dest: find_Some_iff_in)
  have "findIdentity profile (saveRow idn_id (refreshed profile i s) (identities s)) =
      Some (refreshed profile i s)"
    using saveRow_as_map [OF distinct_identities [OF assms(2)] i, of "refreshed profile i s"]
      findIdentity_map [OF Some, of "refreshed profile i s"] by (simp add: refreshed_def)
  with ids Some that [OF v(1) _ v(2)] account_of_row [OF row] v(3) show thesis
    by (auto simp: refreshed_def)
qed

text \<open>
  An OAuth login is idempotent: after it returned, logging in again with the same profile
  returns the same account, and adds neither an account nor an identity nor a subscription.
\<close>

theorem oauth_idempotent:
  assumes "env_ok E" and "db_inv E s" and "findOrCreateFromOAuth E P profile s = (Inr v, t)"
    and "\<forall>e. prof_email profile = Some e \<longrightarrow> fits 255 e"
  shows "\<exists>u. findOrCreateFromOAuth E P profile t = (Inr v, u) \<and> accounts u = accounts t \<and>
    subscriptions u = subscriptions t \<and> map idn_id (identities u) = map idn_id (identities t)"
proof -
  obtain a i where "v = toAccountView a" and "a \<in> set (accounts t)" and "acc_status a \<noteq> AccSuspended"
    and "findIdentity profile (identities t) = Some i" and "idn_accountId i = acc_id a"
    by (rule oauth_Inr [OF assms(1-3)])
  moreover have "db_inv E t"
    using preservesD_eq [OF findOrCreateFromOAuth_inv [OF assms(1)] assms(2,3)] .
  ultimately show ?thesis using known_again assms(4) by metis
qed

text \<open>
  An OAuth login takes over an account that already existed only if the identity was linked
  to it before, or the provider did not report the e-mail as unverified and it is the e-mail of
  that account; and never a suspended one.
\<close>

theorem oauth_takeover_safe:
  assumes "env_ok E" and "db_inv E s" and "findOrCreateFromOAuth E P profile s = (Inr v, t)"
    and "a \<in> set (accounts s)" and "acc_id a = view_id v"
  shows "acc_status a \<noteq> AccSuspended \<and>
    ((\<exists>i\<in>set (identities s). idn_provider i = prof_provider profile \<and>
        idn_providerSubject i = prof_subject profile \<and> idn_accountId i = acc_id a) \<or>
     prof_emailVerified profile \<noteq> Some False \<and> acc_email a \<noteq> None \<and> acc_email a = oauthEmail profile)"
proof (cases "findIdentity profile (identities s)")
  case (Some i)
  then have "oauthKnown profile i s = (Inr v, t)"
    using assms(3) by (simp add: findOrCreateFromOAuth_def)
  then obtain b where "rowAt acc_id (idn_accountId i) (accounts s) = Some b" "v = toAccountView b"
      "acc_status b \<noteq> AccSuspended"
    by (auto simp: oauthKnown_run split: option.splits if_splits)
  moreover from this have "b = a"
    using assms(4,5) distinct_key_eq [OF db_inv_distinct(1) [OF assms(2)]] account_of_row
    by (metis accountView.select_convs(1) toAccountView_def)
  moreover have "i \<in> set (identities s) \<and> idn_provider i = prof_provider profile \<and>
      idn_providerSubject i = prof_subject profile"
    using Some by (auto simp: findIdentity_def dest: find_Some_iff_in)
  ultimately show ?thesis using account_of_row by metis
next
  case None
  then have "oauthNew E P profile s = (Inr v, t)"
    using assms(3) by (simp add: findOrCreateFromOAuth_def)
  then obtain b s' where acc: "oauthAccount E P profile (oauthLinked profile s) s = (Inr b, s')"
      and v: "v = toAccountView b"
    by (rule oauthNew_Inr)
  have old: "acc_id a \<noteq> newUuid E (nextId s)"
  proof -
    have "newUuid E (nextId s) \<notin> acc_id ` set (accounts s)"
      using assms(2) fresh_table_unused [OF _ env_ok_inj [OF assms(1)], of "nextId s" acc_id "accounts s" "nextId s"]
      by (auto simp: inv_defs)
    then show ?thesis using assms(4) by (metis imageI)
  qed
  note facts = oauthAccount_Inr [OF acc]
  show ?thesis
  proof (cases "oauthLinked profile s")
    case None
    then have "acc_id b = newUuid E (nextId s)" using facts(4) by simp
    with old assms(5) v show ?thesis by (simp add: toAccountView_def)
  next
    case (Some c)
    then have c: "c \<in> set (accounts s)" "b = c" "acc_status c \<noteq> AccSuspended"
      using oauthLinked_member facts(2,5) by auto
    have "a = c"
      using distinct_key_eq [OF db_inv_distinct(1) [OF assms(2)] assms(4) c(1)] assms(5) v c(2)
      by (simp add: toAccountView_def)
    with Some c(3) show ?thesis
      by (auto simp: oauthLinked_def findByEmail_def split: option.splits if_splits dest: find_Some_iff_in)
  qed
qed

text \<open>
  An unverified e-mail that is already taken blocks the login with a server error: a new
  identity whose profile carries the e-mail of an existing account, marked unverified, is not
  linked to it, and the account the code then tries to insert violates the unique e-mail column;
  the request fails with 500 and neither account nor identity is stored.
\<close>

theorem oauth_unverified_conflict:
  assumes "findIdentity profile (identities s) = None" and "prof_emailVerified profile = Some False"
    and "oauthEmail profile = Some e" and "\<exists>a\<in>set (accounts s). acc_email a = Some e"
    and "fits 160 (oauthName profile)" and "fits 255 e"
  shows "\<exists>t. findOrCreateFromOAuth E P profile s = (Inl (UniqueViolation ''accounts.email''), t) \<and>
    accounts t = accounts s \<and> identities t = identities s \<and>
    httpStatus (UniqueViolation ''accounts.email'') = 500"
proof -
  have "oauthLinked profile s = None" using assms(2,3) by (simp add: oauthLinked_def)
  with assms show ?thesis
    by (simp add: findOrCreateFromOAuth_def oauthNew_run oauthAccount_def andThen_assoc insert_steps
        Let_def fitsOpt_def)
qed

text \<open>
  What payment events do to an account, and who can send them: the effect of an applied payment,
  the manual activation, the plan catalogue, and the webhook endpoint, which changes accounts
  without any credential.
\<close>

section \<open>Payments\<close>

lemma insertPaymentEvent_frame:
  "insertPaymentEvent E v s = (r, t) \<Longrightarrow> accounts t = accounts s \<and> products t = products s \<and>
    resources t = resources s \<and> clock t = clock s"
  by (auto simp: insertPaymentEvent_def Let_def split: if_splits)

lemma setPlan_account:
  assumes "db_inv E s" and "setPlan E P aid v s = (Inr a', t)"
  obtains a where "rowAt acc_id aid (accounts s) = Some a"
    and "rowAt acc_id aid (accounts t) = Some (withPlan (normalizePlanId v) (clock s) a)"
    and "a' = withPlan (normalizePlanId v) (clock s) a"
proof (cases "rowAt acc_id aid (accounts s)")
  case None
  with assms(2) show thesis by (simp add: setPlan_def)
next
  case (Some a)
  note run = setPlan_run [OF db_inv_distinct(2,3) [OF assms(1)] Some refl, of E P v]
  have "rowAt acc_id aid (accounts t) = Some (withPlan (normalizePlanId v) (clock s) a)"
    using assms(2) account_of_row [OF Some]
    by (auto simp: run Let_def accountTable.lookup_save withPlan_def)
  moreover have "a' = withPlan (normalizePlanId v) (clock s) a"
    using assms(2) by (simp add: run Let_def)
  ultimately show thesis using Some that by blast
qed

text \<open>The account after a successful payment.\<close>

lemma payment_run:
  assumes "env_ok E" and "db_inv E s" and "applyPaymentEvent E P ev s = (Inr (), t)"
    and "nev_type ev = ''payment.succeeded''" and "nev_accountId ev = Some aid" and "aid \<noteq> []"
  obtains a now now' where "rowAt acc_id aid (accounts s) = Some a"
    and "rowAt acc_id aid (accounts t) = Some
      ((withPlan (normalizePlanId (coalesce (nev_plan ev) ''pro'')) now a)
         \<lparr>acc_status := AccActive, acc_updatedAt := now'\<rparr>)"
proof -
  let ?q = "normalizePlanId (coalesce (nev_plan ev) ''pro'')"
  from assms(3-6) obtain e s1 a1 s2 a2 where
    ins: "insertPaymentEvent E (paymentEventOf P ev) s = (Inr e, s1)"
    and plan: "setPlan E P aid (coalesce (nev_plan ev) ''pro'') s1 = (Inr a1, s2)"
    and status: "setAccountStatus aid AccActive s2 = (Inr a2, t)"
    unfolding applyPaymentEvent_def by (auto elim!: andThen_InrE)
  have "db_inv E s1" using preservesD_eq [OF insertPaymentEvent_inv [OF assms(1)] assms(2) ins] .
  then obtain a where a: "rowAt acc_id aid (accounts s1) = Some a"
      "rowAt acc_id aid (accounts s2) = Some (withPlan ?q (clock s1) a)"
    by (rule setPlan_account [OF _ plan])
  have "rowAt acc_id aid (accounts t) = Some
      ((withPlan ?q (clock s1) a)\<lparr>acc_status := AccActive, acc_updatedAt := clock s2\<rparr>)"
    using status a(2) account_of_row [OF a(2)]
    by (auto simp: setAccountStatus_run Let_def accountTable.lookup_save)
  moreover have "rowAt acc_id aid (accounts s) = Some a"
    using a(1) insertPaymentEvent_frame [OF ins] by simp
  ultimately show thesis using that by blast
qed

text \<open>
  A successful payment takes effect on the account it names: whatever plan and status it
  had, the account is active afterwards and has the plan of the event (pro when it names none)
  with exactly the quotas of that plan, all its other columns being kept.
\<close>

theorem payment_activates:
  assumes "env_ok E" and "db_inv E s" and "applyPaymentEvent E P ev s = (Inr (), t)"
    and "nev_type ev = ''payment.succeeded''" and "nev_accountId ev = Some aid" and "aid \<noteq> []"
    and "q = normalizePlanId (coalesce (nev_plan ev) ''pro'')"
  shows "\<exists>a b. rowAt acc_id aid (accounts s) = Some a \<and> rowAt acc_id aid (accounts t) = Some b \<and>
    acc_status b = AccActive \<and> acc_plan b = planIdStr q \<and>
    acc_maxProducts b = plan_maxProducts (PLANS q) \<and>
    acc_rateLimitRpm b = plan_rateLimitRpm (PLANS q) \<and>
    acc_monthlyTxQuota b = plan_monthlyTxQuota (PLANS q) \<and> acc_name b = acc_name a \<and>
    acc_email b = acc_email a \<and> acc_passwordHash b = acc_passwordHash a"
proof -
  obtain a now now' where "rowAt acc_id aid (accounts s) = Some a"
    and "rowAt acc_id aid (accounts t) = Some
      ((withPlan q now a)\<lparr>acc_status := AccActive, acc_updatedAt := now'\<rparr>)"
    using payment_run [OF assms(1-6)] assms(7) by metis
  then show ?thesis by (simp add: withPlan_def)
qed

section \<open>Webhooks\<close>

text \<open>The body that names an account and a cancelled subscription, and the event it becomes.\<close>

definition cancelBody :: "string \<Rightarrow> json" where
  "cancelBody aid = JObj [(''type'', JStr ''subscription.canceled''), (''accountId'', JStr aid)]"

lemma parse_cancelBody:
  "nev_type (manualParseWebhook h (cancelBody aid)) = ''subscription.canceled''"
  "nev_accountId (manualParseWebhook h (cancelBody aid)) = Some aid"
  "nev_externalId (manualParseWebhook h (cancelBody aid)) = None"
  by (simp_all add: manualParseWebhook_def cancelBody_def)

lemma paymentProviderOf_manual [simp]: "paymentProviderOf c = ManualPaymentProvider"
  by (simp add: paymentProviderOf_def)

lemma applyCancel_run:
  assumes "validUuid E aid" and "aid \<noteq> []" and "rowAt acc_id aid (accounts s) = Some a"
    and "nev_type ev = ''subscription.canceled''" and "nev_accountId ev = Some aid"
    and "nev_externalId ev = None"
  shows "\<exists>t b. applyPaymentEvent E P ev s = (Inr (), t) \<and> rowAt acc_id aid (accounts t) = Some b \<and>
    acc_status b = AccSuspended \<and> products t = products s"
proof -
  have "insertPaymentEvent E (paymentEventOf P ev) s = (Inr ((paymentEventOf P ev)\<lparr>
      pev_id := newUuid E (nextId s), pev_createdAt := clock s\<rparr>),
      s\<lparr>nextId := nextId s + 1, paymentEvents := paymentEvents s @ [(paymentEventOf P ev)\<lparr>
      pev_id := newUuid E (nextId s), pev_createdAt := clock s\<rparr>]\<rparr>)"
    using assms by (simp add: insertPaymentEvent_def paymentEventOf_def fits_def fitsOpt_def Let_def)
  then have "applyPaymentEvent E P ev s =
      andThen (setAccountStatus aid AccSuspended) (\<lambda>_. ret ())
        (s\<lparr>nextId := nextId s + 1, paymentEvents := paymentEvents s @ [(paymentEventOf P ev)\<lparr>
          pev_id := newUuid E (nextId s), pev_createdAt := clock s\<rparr>]\<rparr>)"
    using assms by (simp add: applyPaymentEvent_def andThen_Inr)
  then show ?thesis
    using assms(3) account_of_row [OF assms(3)]
    by (simp add: setAccountStatus_run andThen_def Let_def accountTable.lookup_save)
qed

text \<open>
  The payment webhook needs no credential: the headers of the request have no influence on
  its effect, and anyone who knows the identifier of an account suspends it with one request.
\<close>

theorem webhook_unauthenticated:
  assumes "validUuid (w_env W) aid" and "aid \<noteq> []" and "rowAt acc_id aid (accounts s) = Some a"
  shows "serve W hdrs (WebhookE ''manual'' body) s = serve W hdrs' (WebhookE ''manual'' body) s \<and>
    (\<exists>t b. serve W hdrs (WebhookE ''manual'' (cancelBody aid)) s =
        (Inr (RWebhook True ''subscription.canceled''), t) \<and>
      rowAt acc_id aid (accounts t) = Some b \<and> acc_status b = AccSuspended)"
proof -
  have same: "manualParseWebhook hdrs body = manualParseWebhook hdrs' body"
    by (rule manualParseWebhook_headers)
  obtain t b where "applyPaymentEvent (w_env W) ManualPaymentProvider
      (manualParseWebhook hdrs (cancelBody aid)) s = (Inr (), t)"
    and "rowAt acc_id aid (accounts t) = Some b" and "acc_status b = AccSuspended"
    using applyCancel_run [OF assms parse_cancelBody] by blast
  then show ?thesis
    by (simp add: webhooksController_def Let_def same replying_def service_def andThen_def
        parse_cancelBody)
qed

section \<open>The catalogue\<close>

text \<open>
  The plans form a ladder and their names are handled consistently: a higher plan grants at
  least the quotas of a lower one, every quota is positive, the catalogue lists each plan once
  in increasing order, a plan's name resolves to that plan, the legacy name to pro and every
  other name to free, and both normalisations agree.
\<close>

theorem plan_catalogue:
  "(\<forall>p q. p \<le> q \<longrightarrow> plan_maxProducts (PLANS p) \<le> plan_maxProducts (PLANS q) \<and>
      plan_rateLimitRpm (PLANS p) \<le> plan_rateLimitRpm (PLANS q) \<and>
      plan_monthlyTxQuota (PLANS p) \<le> plan_monthlyTxQuota (PLANS q)) \<and>
   (\<forall>p. 1 \<le> plan_maxProducts (PLANS p) \<and> 1 \<le> plan_rateLimitRpm (PLANS p) \<and>
      1 \<le> plan_monthlyTxQuota (PLANS p) \<and> normalizePlanId (planIdStr p) = p) \<and>
   sorted (map plan_id listPlans) \<and> distinct (map plan_id listPlans) \<and>
   (\<forall>v. resolvePlan v = PLANS (normalizePlanId v)) \<and> normalizePlanId ''paid'' = Pro \<and>
   (\<forall>v. v \<noteq> ''paid'' \<and> isPlanId v = None \<longrightarrow> normalizePlanId v = Free)"
proof (intro conjI allI impI)
  show "sorted (map plan_id listPlans)" by (simp add: listPlans_def less_eq_planId_def)
  show "distinct (map plan_id listPlans)" by (simp add: listPlans_def)
qed (simp_all add: PLANS_mono PLANS_positive resolvePlan_normalize, simp_all add: normalizePlanId_def)

section \<open>Witnesses\<close>

lemma sample_registered:
  obtains v t where "register sampleEnv ManualPaymentProvider ''Bob'' ''bob@x.io'' ''secret'' sampleDb = (Inr v, t)"
  by (simp add: register_run findByEmail_def sampleDb_def sampleAccount_def normalEmail_def
      toLowerCase_def trim_def isSpaceChar_def lowerChar_def fits_def Let_def)

theorem register_then_login_witness:
  "\<exists>v t a. register sampleEnv ManualPaymentProvider ''Bob'' ''bob@x.io'' ''secret'' sampleDb = (Inr v, t) \<and>
    login sampleEnv '' bob@x.io'' ''secret'' t = (Inr a, t) \<and> toAccountView a = v"
proof -
  obtain v t where run: "register sampleEnv ManualPaymentProvider ''Bob'' ''bob@x.io'' ''secret'' sampleDb = (Inr v, t)"
    by (rule sample_registered)
  have "toLowerCase (trim '' bob@x.io'') = toLowerCase (trim ''bob@x.io'')"
    by (simp add: trim_def isSpaceChar_def)
  from register_then_login [OF sampleEnv_ok run this, of "''secret''"] run show ?thesis by auto
qed

definition sampleProfile :: "bool \<Rightarrow> oauthProfile" where
  "sampleProfile verified =
     \<lparr>prof_provider = Google, prof_subject = ''g-1'', prof_email = Some ''ops@acme.io'',
      prof_name = Some ''Ops'', prof_emailVerified = Some verified\<rparr>"

lemma sampleProfile_simps [simp]:
  "prof_provider (sampleProfile b) = Google" "prof_subject (sampleProfile b) = ''g-1''"
  "prof_email (sampleProfile b) = Some ''ops@acme.io''" "prof_name (sampleProfile b) = Some ''Ops''"
  "prof_emailVerified (sampleProfile b) = Some b"
  by (simp_all add: sampleProfile_def)

lemma sample_oauthEmail: "oauthEmail (sampleProfile b) = Some ''ops@acme.io''"
  by (simp add: oauthEmail_def toLowerCase_def trim_def isSpaceChar_def lowerChar_def Let_def)

lemma sample_unknown: "findIdentity prof (identities sampleDb) = None"
  by (simp add: findIdentity_def sampleDb_def)

lemma sample_linked:
  obtains t where "findOrCreateFromOAuth sampleEnv ManualPaymentProvider (sampleProfile True) sampleDb =
    (Inr (toAccountView sampleAccount), t)"
proof -
  have "oauthLinked (sampleProfile True) sampleDb = Some sampleAccount"
    by (simp add: oauthLinked_def sample_oauthEmail findByEmail_def sampleDb_def sampleAccount_def)
  then have "findOrCreateFromOAuth sampleEnv ManualPaymentProvider (sampleProfile True) sampleDb =
      andThen (insertIdentity sampleEnv (identityOf (sampleProfile True) (acc_id sampleAccount)))
        (\<lambda>_. ret (toAccountView sampleAccount)) sampleDb"
    by (simp add: findOrCreateFromOAuth_def sample_unknown oauthNew_run oauthAccount_def)
  moreover have "identities sampleDb = []" by (simp add: sampleDb_def)
  ultimately show thesis
    using that by (simp add: insert_steps identityOf_def fits_def fitsOpt_def sample_oauthEmail Let_def)
qed

theorem oauth_idempotent_witness:
  "\<exists>v t u. findOrCreateFromOAuth sampleEnv ManualPaymentProvider (sampleProfile True) sampleDb = (Inr v, t) \<and>
    findOrCreateFromOAuth sampleEnv ManualPaymentProvider (sampleProfile True) t = (Inr v, u)"
proof -
  obtain t where run: "findOrCreateFromOAuth sampleEnv ManualPaymentProvider (sampleProfile True) sampleDb =
      (Inr (toAccountView sampleAccount), t)" by (rule sample_linked)
  from oauth_idempotent [OF sampleEnv_ok sampleDb_inv run] run show ?thesis
    by (auto simp: fits_def)
qed

theorem oauth_takeover_safe_witness:
  "acc_status sampleAccount \<noteq> AccSuspended \<and> acc_email sampleAccount = oauthEmail (sampleProfile True)"
proof -
  obtain t where run: "findOrCreateFromOAuth sampleEnv ManualPaymentProvider (sampleProfile True) sampleDb =
      (Inr (toAccountView sampleAccount), t)" by (rule sample_linked)
  have "sampleAccount \<in> set (accounts sampleDb)" "acc_id sampleAccount = view_id (toAccountView sampleAccount)"
      "identities sampleDb = []"
    by (simp_all add: sampleDb_def toAccountView_def)
  with oauth_takeover_safe [OF sampleEnv_ok sampleDb_inv run] show ?thesis by simp
qed

theorem oauth_unverified_conflict_witness:
  "\<exists>t. findOrCreateFromOAuth sampleEnv ManualPaymentProvider (sampleProfile False) sampleDb =
    (Inl (UniqueViolation ''accounts.email''), t)"
proof -
  have "\<exists>a\<in>set (accounts sampleDb). acc_email a = Some ''ops@acme.io''"
    by (simp add: sampleDb_def sampleAccount_def)
  moreover have "fits 160 (oauthName (sampleProfile False))" "fits 255 ''ops@acme.io''"
    by (simp_all add: oauthName_def fits_def trim_def isSpaceChar_def Let_def)
  ultimately show ?thesis
    using oauth_unverified_conflict [OF sample_unknown _ sample_oauthEmail, of False sampleEnv ManualPaymentProvider]
    by auto
qed

definition samplePaid :: normalizedPaymentEvent where
  "samplePaid = activationEvent (newUuid sampleEnv 0)"

lemma sample_paid:
  obtains t where "applyPaymentEvent sampleEnv ManualPaymentProvider samplePaid sampleDb = (Inr (), t)"
proof -
  let ?v = "paymentEventOf ManualPaymentProvider samplePaid"
  have sid: "newUuid sampleEnv 0 \<noteq> []" "length (newUuid sampleEnv 0) = 2" "validUuid sampleEnv x" for x
    by (simp_all add: sampleEnv_def natStr.simps)
  have ins: "fst (insertPaymentEvent sampleEnv ?v sampleDb) = Inr (?v\<lparr>pev_id := newUuid sampleEnv (nextId sampleDb),
      pev_createdAt := clock sampleDb\<rparr>)"
    using sid by (simp add: insertPaymentEvent_def paymentEventOf_def samplePaid_def activationEvent_def
        fits_def fitsOpt_def Let_def)
  obtain s1 where s1: "insertPaymentEvent sampleEnv ?v sampleDb =
      (Inr (?v\<lparr>pev_id := newUuid sampleEnv (nextId sampleDb), pev_createdAt := clock sampleDb\<rparr>), s1)"
    using ins by (metis prod.collapse)
  have inv1: "db_inv sampleEnv s1"
    using preservesD_eq [OF insertPaymentEvent_inv [OF sampleEnv_ok] sampleDb_inv s1] .
  have row: "rowAt acc_id (newUuid sampleEnv 0) (accounts s1) = Some sampleAccount"
    using insertPaymentEvent_frame [OF s1] by simp
  obtain a2 s2 where s2: "setPlan sampleEnv ManualPaymentProvider (newUuid sampleEnv 0) ''pro'' s1 = (Inr a2, s2)"
    using setPlan_run [OF db_inv_distinct(2,3) [OF inv1] row refl] by (auto simp: Let_def)
  have "rowAt acc_id (newUuid sampleEnv 0) (accounts s2) \<noteq> None"
    by (rule setPlan_account [OF inv1 s2]) simp
  then obtain a3 s3 where "setAccountStatus (newUuid sampleEnv 0) AccActive s2 = (Inr a3, s3)"
    by (auto simp: setAccountStatus_run Let_def)
  with s1 s2 sid(1) that show thesis
    by (simp add: applyPaymentEvent_def andThen_def samplePaid_def activationEvent_def)
qed

theorem payment_activates_witness:
  "\<exists>t b. applyPaymentEvent sampleEnv ManualPaymentProvider samplePaid sampleDb = (Inr (), t) \<and>
    rowAt acc_id (newUuid sampleEnv 0) (accounts t) = Some b \<and> acc_plan b = ''pro''"
proof -
  obtain t where run: "applyPaymentEvent sampleEnv ManualPaymentProvider samplePaid sampleDb = (Inr (), t)"
    by (rule sample_paid)
  have "nev_type samplePaid = ''payment.succeeded''" "nev_accountId samplePaid = Some (newUuid sampleEnv 0)"
    and ne: "newUuid sampleEnv 0 \<noteq> []" and "Pro = normalizePlanId (coalesce (nev_plan samplePaid) ''pro'')"
    by (simp_all add: samplePaid_def activationEvent_def sampleEnv_def normalizePlanId_def isPlanId_def)
  from payment_activates [OF sampleEnv_ok sampleDb_inv run this(1,2,3,4)] run show ?thesis by auto
qed

theorem webhook_unauthenticated_witness:
  "\<exists>t b. serve sampleWorld (\<lambda>_. []) (WebhookE ''manual'' (cancelBody (newUuid sampleEnv 0))) sampleDb =
      (Inr (RWebhook True ''subscription.canceled''), t) \<and>
    rowAt acc_id (newUuid sampleEnv 0) (accounts t) = Some b \<and> acc_status b = AccSuspended"
  using webhook_unauthenticated [of sampleWorld "newUuid sampleEnv 0" sampleDb sampleAccount "\<lambda>_. []" JNull "\<lambda>_. []"]
  by (simp add: sampleWorld_def) (simp add: sampleEnv_def)

theorem plan_catalogue_witness:
  "plan_maxProducts (PLANS Free) \<le> plan_maxProducts (PLANS Pro) \<and> normalizePlanId ''gold'' = Free"
proof -
  have "Free \<le> Pro" and "isPlanId ''gold'' = None" and "''gold'' \<noteq> ''paid''"
    by (simp_all add: less_eq_planId_def isPlanId_def)
  with conjunct1 [OF plan_catalogue] plan_catalogue show ?thesis by presburger
qed

end
