(* ===== verification/BillingReach.thy ===== *)
theory BillingReach
  imports AccountProps
begin

text \<open>
  The billing service as a transition system: any request to any endpoint, an OAuth login, the
  clock moving and a restart of the process, in any order. Every reachable store satisfies the
  invariant \<open>db_inv\<close>. Requests without a valid credential do not move it at all.
\<close>

section \<open>Steps\<close>

definition world_ok :: "world \<Rightarrow> bool" where
  "world_ok W \<longleftrightarrow> env_ok (w_env W) \<and> remote_meters (w_env W) (w_fetch W)"

text \<open>A restart loses the rate windows, which live in the memory of the process.\<close>

definition restarted :: "db \<Rightarrow> db" where
  "restarted s = s\<lparr>rateWindows := Map.empty\<rparr>"

inductive step :: "world \<Rightarrow> db \<Rightarrow> db \<Rightarrow> bool" for W where
  request: "step W s (snd (serve W hdrs e s))"
| oauth: "step W s (snd (findOrCreateFromOAuth (w_env W) (paymentProviderOf (w_config W)) prof s))"
| tick: "clock s \<le> now \<Longrightarrow> step W s (s\<lparr>clock := now\<rparr>)"
| restart: "step W s (restarted s)"

inductive reachable :: "world \<Rightarrow> db \<Rightarrow> bool" for W where
  start: "reachable W emptyDb"
| later: "reachable W s \<Longrightarrow> step W s t \<Longrightarrow> reachable W t"

section \<open>Invariant\<close>

lemma preserves_service [pres]: "preserves P m \<Longrightarrow> preserves P (service m)"
  by (simp add: preserves_def)

lemma preserves_replying [pres]: "preserves P m \<Longrightarrow> preserves P (replying f m)"
  by (simp add: preserves_def)

lemma preserves_parsed [pres]: "(\<And>a. preserves P (f a)) \<Longrightarrow> preserves P (parsed v f)"
  by (cases v) (simp_all add: parsed_def pres)

lemma preserves_uuidParam [pres]: "preserves P m \<Longrightarrow> preserves P (uuidParam W p m)"
  by (simp add: uuidParam_def pres)

lemma preserves_case_prod [pres]:
  "(\<And>a b. preserves P (f a b)) \<Longrightarrow> preserves P (case x of (a, b) \<Rightarrow> f a b)"
  by (cases x) simp

lemma preserves_signToken [pres]: "preserves P (signToken W a e)"
  by (simp add: signToken_def preserves_gets)

lemma readonly_views [pres]:
  "preserves P listAccounts" "preserves P (getAccount aid)" "preserves P (getAccountPublic aid)"
  "preserves P (getUsage aid)" "preserves P (listProducts aid)" "preserves P (createCheckout Q aid p)"
  by (simp_all add: preserves_def listAccounts_def getAccount_def getAccountPublic_def getUsage_def
      listProducts_def createCheckout_def getMonthlyTxUsed_def op_simps split: option.split)

lemma preserves_listProductResources [pres]: "preserves P (listProductResources aid pid)"
  by (simp add: preserves_def listProductResources_readonly)

lemmas service_invs =
  register_inv login_inv setPlan_inv setAccountStatus_inv setQuota_inv activatePaid_inv
  createProduct_inv patchProductView_inv archiveProduct_inv rotateApiKey_inv
  rotateApiKeyForAccount_inv revokeApiKey_inv revokeApiKeyForAccount_inv validateAndMeter_inv
  applyPaymentEvent_inv

lemma controllers_inv:
  assumes "world_ok W"
  shows "preserves (db_inv (w_env W)) (authController W ae)"
    and "preserves (db_inv (w_env W)) (meController W aid me)"
    and "preserves (db_inv (w_env W)) (productsController W aid pe)"
    and "preserves (db_inv (w_env W)) (resourcesController W aid re)"
    and "preserves (db_inv (w_env W)) (adminController W ad)"
    and "preserves (db_inv (w_env W)) (internalController W body)"
    and "preserves (db_inv (w_env W)) (webhooksController W hdrs prov body)"
proof -
  have E: "env_ok (w_env W)" and R: "remote_meters (w_env W) (w_fetch W)"
    using assms by (simp_all add: world_ok_def)
  note rules = pres service_invs E R
  have create: "preserves (db_inv (w_env W)) (createAndReply W i)" for i
    unfolding createAndReply_def by (intro rules)
  show "preserves (db_inv (w_env W)) (authController W ae)"
    by (cases ae) (simp_all, (intro rules)+)
  show "preserves (db_inv (w_env W)) (meController W aid me)"
    by (cases me) (auto intro!: rules)
  show "preserves (db_inv (w_env W)) (productsController W aid pe)"
    by (cases pe) (simp_all, (intro rules create)+)
  show "preserves (db_inv (w_env W)) (resourcesController W aid re)"
    by (cases re) (simp_all, (intro rules)+)
  show "preserves (db_inv (w_env W)) (adminController W ad)"
    by (cases ad) (simp_all, (intro rules create)+)
  show "preserves (db_inv (w_env W)) (internalController W body)"
    unfolding internalController_def by (intro rules)
  show "preserves (db_inv (w_env W)) (webhooksController W hdrs prov body)"
    unfolding webhooksController_def Let_def by (intro rules)
qed

lemma guards_readonly:
  "snd (JwtAuthGuard W hdrs s) = s" "snd (AdminApiKeyGuard W hdrs s) = s"
  "snd (InternalTokenGuard W hdrs s) = s"
  by (auto simp: JwtAuthGuard_def AdminApiKeyGuard_def InternalTokenGuard_def Let_def throwIf_run
      split: option.split)

lemma preserves_guards [pres]:
  "preserves P (JwtAuthGuard W hdrs)" "preserves P (AdminApiKeyGuard W hdrs)"
  "preserves P (InternalTokenGuard W hdrs)"
  by (simp_all add: preserves_def guards_readonly)

lemma serve_inv: "world_ok W \<Longrightarrow> preserves (db_inv (w_env W)) (serve W hdrs e)"
  by (cases e) (simp_all, (intro pres controllers_inv; assumption)+)

lemma step_inv:
  assumes "world_ok W" and "step W s t" and "db_inv (w_env W) s"
  shows "db_inv (w_env W) t"
  using assms(2)
proof cases
  case (request hdrs e)
  then show ?thesis using preservesD [OF serve_inv [OF assms(1)] assms(3)] by simp
next
  case (oauth prof)
  then show ?thesis
    using assms(1,3) preservesD [OF findOrCreateFromOAuth_inv] by (simp add: world_ok_def)
next
  case (tick now)
  then show ?thesis using assms(3) inv_clock by simp
next
  case restart
  then show ?thesis using assms(3) by (simp add: restarted_def inv_defs)
qed

lemma emptyDb_inv: "db_inv E emptyDb"
  by (simp add: inv_defs emptyDb_def fresh_table_def unique_where_def refers_def)

text \<open>
  C25. The integrity of the store is an invariant of the running service: whatever requests, OAuth
  logins, restarts and passage of time it has seen since it started on an empty database, in
  whatever order, identifiers are unique, e-mails, identities, wallets and live keys are not
  shared, every foreign key refers to a row, counters are not negative, plans are of the
  catalogue, and no resource of an archived product is active.
\<close>

theorem reachable_inv:
  assumes "world_ok W" and "reachable W s"
  shows "db_inv (w_env W) s"
  using assms(2) by (induction) (auto intro: emptyDb_inv step_inv [OF assms(1)])

section \<open>Credentials\<close>

text \<open>
  What a request has to carry to reach a controller: a bearer token which the JWT library verifies
  under the secret of the service at the time of the request, the key of the administration, or the
  internal token, both configured and not empty.
\<close>

definition bearer :: "world \<Rightarrow> headers \<Rightarrow> db \<Rightarrow> string \<Rightarrow> bool" where
  "bearer W hdrs s sub \<longleftrightarrow> (\<exists>token others email.
     hdrs ''authorization'' = (''Bearer '' @ token) # others \<and>
     jwt_verify (w_jwt W) (ev_jwtSecret (w_config W)) (clock s) (trim token) = Some (sub, email))"

fun credential :: "world \<Rightarrow> headers \<Rightarrow> db \<Rightarrow> endpoint \<Rightarrow> bool" where
  "credential W hdrs s (MeE e) = (\<exists>sub. bearer W hdrs s sub)"
| "credential W hdrs s (ProductsE e) = (\<exists>sub. bearer W hdrs s sub)"
| "credential W hdrs s (ResourcesE e) = (\<exists>sub. bearer W hdrs s sub)"
| "credential W hdrs s (AdminE e) =
     (\<exists>k. (headerValue hdrs ''x-admin-key'' = Some k \<or>
           headerValue hdrs ''x-admin-key'' = None \<and> headerValue hdrs ''x-api-key'' = Some k) \<and>
        k = ev_adminApiKey (w_config W) \<and> k \<noteq> [])"
| "credential W hdrs s (InternalE body) =
     (\<exists>k. headerValue hdrs ''x-internal-token'' = Some k \<and>
        k = ev_billingInternalToken (w_config W) \<and> k \<noteq> [])"
| "credential W hdrs s _ = True"

lemma JwtAuthGuard_Inr:
  assumes "JwtAuthGuard W hdrs s = (Inr sub, t)"
  shows "bearer W hdrs s sub"
proof -
  from assms obtain v email where v: "headerValue hdrs ''authorization'' = Some v" "startsWith v ''Bearer ''"
      and j: "jwt_verify (w_jwt W) (ev_jwtSecret (w_config W)) (clock s) (trim (drop (length ''Bearer '') v)) =
        Some (sub, email)"
    by (auto simp: JwtAuthGuard_def Let_def andThen_def gets_def split: option.splits if_splits)
  from v(1) obtain others where "hdrs ''authorization'' = v # others"
    by (auto simp: headerValue_def split: list.splits)
  moreover have "v = ''Bearer '' @ drop (length ''Bearer '') v"
    using v(2) unfolding startsWith_def by (metis append_take_drop_id)
  ultimately show ?thesis using j unfolding bearer_def by metis
qed

lemma JwtAuthGuard_Inl:
  "JwtAuthGuard W hdrs s = (Inl e, t) \<Longrightarrow> failureStatus e = 401 \<and> t = s"
  by (auto simp: JwtAuthGuard_def Let_def split: option.splits if_splits)

lemma guarded_401:
  assumes "\<not> (\<exists>a t. g s = (Inr a, t))" and "\<And>e t. g s = (Inl e, t) \<Longrightarrow> failureStatus e = 401 \<and> t = s"
  shows "\<exists>e. andThen g f s = (Inl e, s) \<and> failureStatus e = 401"
proof (cases "g s")
  case (Pair r t)
  with assms show ?thesis by (cases r) (auto simp: andThen_def)
qed

text \<open>
  C39. Without a credential nothing happens: a request to the account's own pages, products or
  resources without a bearer token that verifies under the secret of the service at that time, to
  the administration without its key, or to the metering without the internal token, is answered
  with 401 and leaves the store exactly as it was.
\<close>

theorem no_credential_no_effect:
  assumes "\<not> credential W hdrs s e"
  shows "\<exists>f. serve W hdrs e s = (Inl f, s) \<and> failureStatus f = 401"
proof -
  have jwt: "\<exists>f. andThen (JwtAuthGuard W hdrs) k s = (Inl f, s) \<and> failureStatus f = 401"
    if "\<not> (\<exists>sub. bearer W hdrs s sub)" for k :: "string \<Rightarrow> reply http"
  proof (rule guarded_401)
    show "\<not> (\<exists>aid t. JwtAuthGuard W hdrs s = (Inr aid, t))" using that JwtAuthGuard_Inr by blast
  qed (rule JwtAuthGuard_Inl)
  show ?thesis
  proof (cases e)
    case (AdminE a)
    with assms show ?thesis
      by (auto simp: AdminApiKeyGuard_def keyMatches_def Let_def split: option.splits)
  next
    case (InternalE body)
    with assms show ?thesis
      by (auto simp: InternalTokenGuard_def keyMatches_def split: option.splits)
  qed (use assms jwt in auto)
qed

section \<open>Witnesses\<close>

lemma sampleWorld_ok: "world_ok sampleWorld"
  by (simp add: world_ok_def sampleWorld_def sampleEnv_ok remoteCalling_meters)

theorem reachable_inv_witness:
  "db_inv (w_env sampleWorld) (snd (serve sampleWorld (\<lambda>_. []) HealthE (emptyDb\<lparr>clock := 5\<rparr>)))"
proof -
  have "step sampleWorld emptyDb (emptyDb\<lparr>clock := 5\<rparr>)"
    by (rule step.tick) (simp add: emptyDb_def)
  then have "reachable sampleWorld (emptyDb\<lparr>clock := 5\<rparr>)"
    by (rule reachable.later [OF reachable.start])
  from reachable_inv [OF sampleWorld_ok reachable.later [OF this step.request]] show ?thesis .
qed

definition forgedBearer :: headers where
  "forgedBearer = (\<lambda>name. if name = ''authorization'' then [''Bearer forged''] else [])"

theorem no_credential_no_effect_witness:
  "(\<exists>f. serve sampleWorld forgedBearer (MeE MeUsage) sampleDb = (Inl f, sampleDb) \<and> failureStatus f = 401) \<and>
   (\<exists>f. serve sampleWorld forgedBearer (AdminE AdminAccounts) sampleDb = (Inl f, sampleDb) \<and> failureStatus f = 401)"
proof -
  have "trim ''forged'' = ''forged''" by code_simp
  then have "\<not> credential sampleWorld forgedBearer sampleDb (MeE MeUsage)"
    by (auto simp: bearer_def forgedBearer_def sampleWorld_def sampleJwt_def)
  note me = no_credential_no_effect [OF this]
  have "\<not> credential sampleWorld forgedBearer sampleDb (AdminE AdminAccounts)"
    by (simp add: headerValue_def forgedBearer_def)
  note admin = no_credential_no_effect [OF this]
  show ?thesis by (rule conjI [OF me admin])
qed

end
