(* ===== verification/FixedWindow.thy ===== *)
theory FixedWindow
  imports Prelude
begin

text \<open>
  The contract of a fixed-window rate limiter, which the repository writes three times: per
  account in the billing service, per address in the public middleware of billing and in that
  of the core package. A limiter holds the start of a window and what was charged to it; the
  client lemmas bound what a whole run of requests can obtain.
\<close>

locale fixed_window =
  fixes W :: int and limit :: int and costOk :: "int \<Rightarrow> bool"
    and valid :: "'s \<Rightarrow> bool" and start :: "'s \<Rightarrow> int option" and load :: "'s \<Rightarrow> int"
    and step :: "int \<Rightarrow> int \<Rightarrow> 's \<Rightarrow> bool \<times> 's"
  assumes width: "0 < W"
    and cost_nonneg: "costOk c \<Longrightarrow> 0 \<le> c"
    and load_range: "valid s \<Longrightarrow> 0 \<le> load s \<and> load s \<le> limit"
    and valid_step: "valid s \<Longrightarrow> costOk c \<Longrightarrow> valid (snd (step now c s))"
    and start_step: "valid s \<Longrightarrow> start (snd (step now c s)) =
      Some (case start s of None \<Rightarrow> now | Some st \<Rightarrow> if now - st < W then st else now)"
    and granted_load: "valid s \<Longrightarrow> costOk c \<Longrightarrow> fst (step now c s) \<Longrightarrow> load (snd (step now c s)) =
      (case start s of None \<Rightarrow> 0 | Some st \<Rightarrow> if now - st < W then load s else 0) + c"
    and refused_load: "valid s \<Longrightarrow> costOk c \<Longrightarrow>
      (case start s of None \<Rightarrow> 0 | Some st \<Rightarrow> if now - st < W then load s else 0)
        \<le> load (snd (step now c s))"
begin

text \<open>The granted requests of a run, each with its time and count.\<close>

fun granted :: "(int \<times> int) list \<Rightarrow> 's \<Rightarrow> (int \<times> int) list" where
  "granted [] s = []"
| "granted ((t, c) # es) s =
     (if fst (step t c s) then (t, c) # granted es (snd (step t c s))
      else granted es (snd (step t c s)))"

fun chargedIn :: "int \<Rightarrow> (int \<times> int) list \<Rightarrow> int" where
  "chargedIn T [] = 0"
| "chargedIn T ((t, c) # es) = (if T \<le> t \<and> t < T + W then c else 0) + chargedIn T es"

text \<open>What a run from a given window can still charge to the interval starting at \<open>T\<close>.\<close>

definition budget :: "int \<Rightarrow> 's \<Rightarrow> int" where
  "budget T s =
     (case start s of
        None \<Rightarrow> 2 * limit
      | Some st \<Rightarrow>
          if T + W \<le> st then 0 else if T \<le> st then limit - load s
          else if T < st + W then 2 * limit - load s else 2 * limit)"

lemma limit_nonneg: "valid s \<Longrightarrow> 0 \<le> limit"
  using load_range by (meson order_trans)

lemma budget_nonneg: "valid s \<Longrightarrow> 0 \<le> budget T s"
  using load_range [of s] by (auto simp: budget_def split: option.split)

text \<open>One request costs the budget what it charges to the interval.\<close>

lemma budget_step:
  assumes "valid s" and "costOk c" and "\<And>st. start s = Some st \<Longrightarrow> st \<le> t"
  shows "(if fst (step t c s) \<and> T \<le> t \<and> t < T + W then c else 0) + budget T (snd (step t c s))
    \<le> budget T s"
proof -
  let ?s = "snd (step t c s)"
  define base where "base = (case start s of None \<Rightarrow> 0 | Some st \<Rightarrow> if t - st < W then load s else 0)"
  define st' where "st' = (case start s of None \<Rightarrow> t | Some st \<Rightarrow> if t - st < W then st else t)"
  have st: "start ?s = Some st'" using start_step [OF assms(1)] by (simp add: st'_def)
  have up: "base \<le> load ?s" using refused_load [OF assms(1,2)] by (simp add: base_def)
  have gr: "fst (step t c s) \<Longrightarrow> load ?s = base + c"
    using granted_load [OF assms(1,2)] by (simp add: base_def)
  note range = load_range [OF assms(1)] load_range [OF valid_step [OF assms(1,2), of t]] width
    cost_nonneg [OF assms(2)]
  show ?thesis
  proof (cases "start s")
    case None
    then have "base = 0" "st' = t" by (simp_all add: base_def st'_def)
    with None st up gr range show ?thesis by (auto simp: budget_def)
  next
    case (Some u)
    show ?thesis
    proof (cases "t - u < W")
      case True
      with Some have "base = load s" "st' = u" by (simp_all add: base_def st'_def)
      with Some st up gr range True assms(3) [OF Some] show ?thesis
        by (auto simp: budget_def)
    next
      case False
      with Some have "base = 0" "st' = t" by (simp_all add: base_def st'_def)
      with Some st up gr range False show ?thesis by (auto simp: budget_def)
    qed
  qed
qed

lemma charged_le_budget:
  assumes "valid s" and "sorted (map fst es)" and "\<forall>(t, c)\<in>set es. costOk c"
    and "\<And>st t c. start s = Some st \<Longrightarrow> (t, c) \<in> set es \<Longrightarrow> st \<le> t"
  shows "chargedIn T (granted es s) \<le> budget T s"
  using assms
proof (induction es arbitrary: s)
  case Nil
  then show ?case by (simp add: budget_nonneg)
next
  case (Cons e es)
  obtain t c where e: "e = (t, c)" by (cases e)
  let ?s = "snd (step t c s)"
  have c: "costOk c" using Cons.prems(3) e by simp
  have later: "t \<le> t'" if "(t', c') \<in> set es" for t' c'
    using Cons.prems(2) e that by fastforce
  have "chargedIn T (granted es ?s) \<le> budget T ?s"
  proof (rule Cons.IH)
    show "valid ?s" using Cons.prems(1) c by (rule valid_step)
    show "sorted (map fst es)" using Cons.prems(2) by simp
    show "\<forall>(t, c)\<in>set es. costOk c" using Cons.prems(3) by simp
    fix st t' c'
    assume "start ?s = Some st" and mem: "(t', c') \<in> set es"
    then have "st = (case start s of None \<Rightarrow> t | Some u \<Rightarrow> if t - u < W then u else t)"
      using start_step [OF Cons.prems(1)] by simp
    then have "st \<le> t" using Cons.prems(4) e by (auto split: option.splits if_splits)
    with later [OF mem] show "st \<le> t'" by simp
  qed
  moreover have "(if fst (step t c s) \<and> T \<le> t \<and> t < T + W then c else 0) + budget T ?s \<le> budget T s"
    using Cons.prems(1) c Cons.prems(4) e by (intro budget_step) auto
  ultimately show ?case using e by (auto split: if_splits)
qed

text \<open>In any interval as long as the window, at most twice the limit is granted.\<close>

lemma burst_bound:
  assumes "valid s" and "sorted (map fst es)" and "\<forall>(t, c)\<in>set es. costOk c"
    and "\<And>st t c. start s = Some st \<Longrightarrow> (t, c) \<in> set es \<Longrightarrow> st \<le> t"
  shows "chargedIn T (granted es s) \<le> 2 * limit"
proof -
  have "budget T s \<le> 2 * limit"
    using load_range [OF assms(1)] by (auto simp: budget_def split: option.split)
  with charged_le_budget [OF assms] show ?thesis by (rule order_trans)
qed

text \<open>From the start of a window to its end, at most the limit.\<close>

lemma window_bound:
  assumes "valid s" and "sorted (map fst es)" and "\<forall>(t, c)\<in>set es. costOk c"
    and "\<And>t c. (t, c) \<in> set es \<Longrightarrow> st \<le> t" and "start s = Some st"
  shows "chargedIn st (granted es s) \<le> limit - load s"
proof -
  have "budget st s = limit - load s" using assms(5) width by (simp add: budget_def)
  moreover have "chargedIn st (granted es s) \<le> budget st s"
    using assms(4,5) by (intro charged_le_budget [OF assms(1-3)]) auto
  ultimately show ?thesis by simp
qed

end

end
