(* ===== verification/MeterRuns.thy ===== *)
theory MeterRuns
  imports MeterProps FixedWindow
begin

text \<open>
  Metering over runs of requests: the minute window of an account satisfies the contract of a
  fixed window, so a run of metered requests of any accounts, in order of time, is bounded by
  the contract's client lemmas, and by the monthly quota. Two requests that interleave at the
  \<open>await\<close> between read and write escape that bound.
\<close>

section \<open>The minute window of an account\<close>

definition accountStep :: "int \<Rightarrow> millis \<Rightarrow> int \<Rightarrow> rateWindow option \<Rightarrow> bool \<times> rateWindow option" where
  "accountStep rpm now c entry =
     (let w = currentWindow now entry
      in if rpm < win_count w + c then (False, Some w)
         else (True, Some (w\<lparr>win_count := win_count w + c\<rparr>)))"

definition entryValid :: "rateWindow option \<Rightarrow> bool" where
  "entryValid entry = (case entry of None \<Rightarrow> True | Some w \<Rightarrow> 0 \<le> win_count w)"

definition entryLoad :: "int \<Rightarrow> rateWindow option \<Rightarrow> int" where
  "entryLoad rpm entry = (case entry of None \<Rightarrow> 0 | Some w \<Rightarrow> min (win_count w) rpm)"

lemma accountStep_fixed_window:
  "0 \<le> rpm \<Longrightarrow>
    fixed_window 60000 rpm (\<lambda>c. 1 \<le> c) entryValid (map_option win_startMs) (entryLoad rpm) (accountStep rpm)"
  by unfold_locales
    (auto simp: accountStep_def entryValid_def entryLoad_def currentWindow_def Let_def
      split: option.splits if_splits)

interpretation freeRate: fixed_window 60000 "plan_rateLimitRpm (PLANS Free)" "\<lambda>c. 1 \<le> c" entryValid
    "map_option win_startMs" "entryLoad (plan_rateLimitRpm (PLANS Free))"
    "accountStep (plan_rateLimitRpm (PLANS Free))"
  by (rule accountStep_fixed_window) simp

lemma assertRateLimit_step:
  "rateWindows (snd (assertRateLimit aid rpm c s)) aid = snd (accountStep rpm (clock s) c (rateWindows s aid))"
  "rateAllows aid rpm c s = fst (accountStep rpm (clock s) c (rateWindows s aid))"
  by (auto simp: assertRateLimit_run accountStep_def rateAllows_def Let_def)

section \<open>Runs\<close>

type_synonym use = "millis \<times> string \<times> int"

text \<open>The requests of a run that were granted, and the store after it.\<close>

fun meterRun :: "env \<Rightarrow> use list \<Rightarrow> db \<Rightarrow> use list \<times> db" where
  "meterRun E [] s = ([], s)"
| "meterRun E ((now, aid, c) # es) s =
     (case meter E aid c (s\<lparr>clock := now\<rparr>) of
        (Inl _, s') \<Rightarrow> meterRun E es s'
      | (Inr _, s') \<Rightarrow> (case meterRun E es s' of (g, t) \<Rightarrow> ((now, aid, c) # g, t)))"

fun total :: "(use \<Rightarrow> bool) \<Rightarrow> use list \<Rightarrow> int" where
  "total P [] = 0"
| "total P (u # us) = (if P u then snd (snd u) else 0) + total P us"

definition inPeriod :: "string \<Rightarrow> string \<Rightarrow> use \<Rightarrow> bool" where
  "inPeriod aid period u \<longleftrightarrow> fst (snd u) = aid \<and> currentPeriodKey (fst u) = period"

definition inMinute :: "string \<Rightarrow> millis \<Rightarrow> use \<Rightarrow> bool" where
  "inMinute aid T u \<longleftrightarrow> fst (snd u) = aid \<and> T \<le> fst u \<and> fst u < T + 60000"

lemma inPeriod_simp [simp]:
  "inPeriod aid p (now, aid', c) \<longleftrightarrow> aid' = aid \<and> currentPeriodKey now = p"
  by (simp add: inPeriod_def)

lemma inMinute_simp [simp]:
  "inMinute aid T (now, aid', c) \<longleftrightarrow> aid' = aid \<and> T \<le> now \<and> now < T + 60000"
  by (simp add: inMinute_def)

lemma usedInPeriod_clock [simp]: "usedInPeriod aid p (s\<lparr>clock := t\<rparr>) = usedInPeriod aid p s"
  by (simp add: usedInPeriod_def)

lemma meter_keeps_accounts: "accounts (snd (meter E aid c s)) = accounts s"
  using meter_frame [of s E aid c] by (simp add: meterFrame_def)

lemma meter_keeps_clock: "db_inv E s \<Longrightarrow> calendarMillis (clock s) \<Longrightarrow> clock (snd (meter E aid c s)) = clock s"
proof (cases "\<exists>a. mayMeter aid c a s")
  case False
  then show ?thesis using meter_refused [OF False, of E] by (metis snd_conv)
next
  case True
  assume pre: "db_inv E s" "calendarMillis (clock s)"
  from True obtain a where "1 \<le> c" "rowAt acc_id aid (accounts s) = Some a" "acc_status a = AccActive"
      "rateAllows aid (acc_rateLimitRpm a) c s" "usedNow aid s + c \<le> acc_monthlyTxQuota a"
    by (auto simp: mayMeter_def)
  then show ?thesis by (rule meter_granted [OF pre]) simp
qed

text \<open>One step of a run, on the counter of an account in a period.\<close>

definition isGranted :: "('e + 'a) \<times> 's \<Rightarrow> bool" where
  "isGranted out \<longleftrightarrow> (case fst out of Inl _ \<Rightarrow> False | Inr _ \<Rightarrow> True)"

lemma meter_counter:
  assumes "env_ok E" and "db_inv E s" and "calendarMillis (clock s)"
  shows "usedInPeriod aid p (snd (meter E aid' c s)) = usedInPeriod aid p s +
      (if isGranted (meter E aid' c s) \<and> aid' = aid \<and> currentPeriodKey (clock s) = p then c else 0)"
    and "rowAt acc_id aid (accounts s) = Some a \<Longrightarrow>
      usedInPeriod aid p (snd (meter E aid' c s)) \<le> max (usedInPeriod aid p s) (acc_monthlyTxQuota a)"
proof -
  have "usedInPeriod aid p (snd (meter E aid' c s)) = usedInPeriod aid p s +
      (if isGranted (meter E aid' c s) \<and> aid' = aid \<and> currentPeriodKey (clock s) = p then c else 0) \<and>
    (rowAt acc_id aid (accounts s) = Some a \<longrightarrow>
      usedInPeriod aid p (snd (meter E aid' c s)) \<le> max (usedInPeriod aid p s) (acc_monthlyTxQuota a))"
  proof (rule meter_accounting_cases [OF assms, of aid' c])
    fix a' t
    assume may: "mayMeter aid' c a' s"
      and run: "meter E aid' c s = (Inr (meterReply a' (currentPeriodKey (clock s)) (usedNow aid' s + c)), t)"
      and "clock t = clock s" and "usedNow aid' t = usedNow aid' s + c"
      and other: "\<And>a p. (a, p) \<noteq> (aid', currentPeriodKey (clock s)) \<Longrightarrow>
            usedInPeriod a p t = usedInPeriod a p s"
    then have own: "usedInPeriod aid' (currentPeriodKey (clock s)) t =
        usedInPeriod aid' (currentPeriodKey (clock s)) s + c"
      by (simp add: usedNow_def)
    show ?thesis
      using own other [of aid p] may run
      by (cases "aid' = aid \<and> currentPeriodKey (clock s) = p")
        (auto simp: isGranted_def mayMeter_def usedNow_def)
  next
    fix e t
    assume "meter E aid' c s = (Inl e, t)" and "usagePeriods t = usagePeriods s"
    then show ?thesis by (simp add: isGranted_def usedInPeriod_def)
  qed
  then show "usedInPeriod aid p (snd (meter E aid' c s)) = usedInPeriod aid p s +
      (if isGranted (meter E aid' c s) \<and> aid' = aid \<and> currentPeriodKey (clock s) = p then c else 0)"
    and "rowAt acc_id aid (accounts s) = Some a \<Longrightarrow>
      usedInPeriod aid p (snd (meter E aid' c s)) \<le> max (usedInPeriod aid p s) (acc_monthlyTxQuota a)"
    by simp_all
qed

lemma meterRun_Cons:
  "meterRun E ((now, aid, c) # es) s =
     (let out = meter E aid c (s\<lparr>clock := now\<rparr>); rest = meterRun E es (snd out)
      in ((if isGranted out then [(now, aid, c)] else []) @ fst rest, snd rest))"
  by (auto simp: isGranted_def Let_def split: prod.split sum.split)

text \<open>
  C28. Monthly quota over a run: after any run of metered requests of any accounts, at any
  times, the counter of an account in a period has grown by exactly the sum of the counts
  granted to that account in that period, and it is within the quota unless it was above it
  before the run.
\<close>

theorem meter_run_quota:
  assumes "env_ok E" and "db_inv E s" and "rowAt acc_id aid (accounts s) = Some a"
    and "\<forall>(now, aid', c)\<in>set es. calendarMillis now"
    and "meterRun E es s = (g, t)"
  shows "usedInPeriod aid p t = usedInPeriod aid p s + total (inPeriod aid p) g \<and>
    usedInPeriod aid p t \<le> max (usedInPeriod aid p s) (acc_monthlyTxQuota a)"
proof -
  have "usedInPeriod aid p (snd (meterRun E es s)) =
      usedInPeriod aid p s + total (inPeriod aid p) (fst (meterRun E es s)) \<and>
    usedInPeriod aid p (snd (meterRun E es s)) \<le> max (usedInPeriod aid p s) (acc_monthlyTxQuota a)"
    using assms(2-4)
  proof (induction es arbitrary: s)
    case Nil
    then show ?case by simp
  next
    case (Cons e es)
    obtain now aid' c where e: "e = (now, aid', c)" by (cases e)
    let ?s = "s\<lparr>clock := now\<rparr>"
    let ?t = "snd (meter E aid' c ?s)"
    have inv: "db_inv E ?s" using Cons.prems(1) by (rule inv_clock)
    have cal: "calendarMillis (clock ?s)" using Cons.prems(3) e by simp
    have row: "rowAt acc_id aid (accounts ?s) = Some a" using Cons.prems(2) by simp
    have "db_inv E ?t" using preservesD [OF meter_inv [OF assms(1)] inv] .
    moreover have "rowAt acc_id aid (accounts ?t) = Some a"
      using Cons.prems(2) by (simp add: meter_keeps_accounts)
    ultimately have IH: "usedInPeriod aid p (snd (meterRun E es ?t)) =
        usedInPeriod aid p ?t + total (inPeriod aid p) (fst (meterRun E es ?t)) \<and>
      usedInPeriod aid p (snd (meterRun E es ?t)) \<le> max (usedInPeriod aid p ?t) (acc_monthlyTxQuota a)"
      using Cons.prems(3) by (intro Cons.IH) auto
    note step = meter_counter(1) [OF assms(1) inv cal, of aid p aid' c]
      meter_counter(2) [OF assms(1) inv cal row, of p aid' c]
    from IH step show ?case
      unfolding e meterRun_Cons Let_def by auto
  qed
  with assms(5) show ?thesis by simp
qed

lemma meter_frame_windows:
  "aid' \<noteq> aid \<Longrightarrow> rateWindows (snd (meter E aid' c s)) aid = rateWindows s aid"
proof -
  assume ne: "aid' \<noteq> aid"
  have save: "rateWindows (snd (saveUsage E f u t)) = rateWindows t" for f u t
    by (auto simp: saveUsage_def insertUsage_def updateUsage_def Let_def split: option.split)
  show ?thesis
  proof (cases "1 \<le> c \<and> (\<exists>a. rowAt acc_id aid' (accounts s) = Some a \<and> acc_status a = AccActive)")
    case False
    then show ?thesis
      by (cases "1 \<le> c"; cases "rowAt acc_id aid' (accounts s)")
        (auto simp: meter_BadCount meter_NoAccount meter_Inactive)
  next
    case True
    then obtain a where a: "1 \<le> c" "rowAt acc_id aid' (accounts s) = Some a" "acc_status a = AccActive"
      by blast
    show ?thesis
    proof (cases "rateAllows aid' (acc_rateLimitRpm a) c s")
      case False
      with meter_RateLimited [OF a refl, of E] ne show ?thesis by (simp add: rateAllows_def)
    next
      case True
      with ne show ?thesis
        by (simp add: meter_allowed [OF a True] Let_def save rateCharged_def)
    qed
  qed
qed

text \<open>One step of a run, on the minute window of an account.\<close>

lemma meter_window:
  assumes "env_ok E" and "db_inv E s" and "calendarMillis (clock s)"
    and "rowAt acc_id aid (accounts s) = Some a" and "acc_status a = AccActive"
  shows "aid' \<noteq> aid \<Longrightarrow> rateWindows (snd (meter E aid' c s)) aid = rateWindows s aid"
    and "\<not> 1 \<le> c \<Longrightarrow> meter E aid c s = (Inl BadCount, s)"
    and "1 \<le> c \<Longrightarrow> rateWindows (snd (meter E aid c s)) aid =
      snd (accountStep (acc_rateLimitRpm a) (clock s) c (rateWindows s aid))"
    and "1 \<le> c \<Longrightarrow> isGranted (meter E aid c s) \<Longrightarrow>
      fst (accountStep (acc_rateLimitRpm a) (clock s) c (rateWindows s aid))"
proof -
  have charge: "rateWindows (rateCharged aid c s) aid =
      snd (accountStep (acc_rateLimitRpm a) (clock s) c (rateWindows s aid))"
    if "rateAllows aid (acc_rateLimitRpm a) c s"
    using that by (simp add: rateCharged_def rateAllows_def accountStep_def Let_def)
  have other: "rateWindows (rateCharged aid' c s) aid = rateWindows s aid" if "aid' \<noteq> aid"
    using that by (simp add: rateCharged_def Let_def)
  show "\<not> 1 \<le> c \<Longrightarrow> meter E aid c s = (Inl BadCount, s)" by (simp add: meter_BadCount)
  show "aid' \<noteq> aid \<Longrightarrow> rateWindows (snd (meter E aid' c s)) aid = rateWindows s aid"
    using meter_frame_windows [of aid' aid E c s] by blast
  assume c: "1 \<le> c"
  have split: "rateWindows (snd (meter E aid c s)) aid =
      snd (accountStep (acc_rateLimitRpm a) (clock s) c (rateWindows s aid)) \<and>
    (isGranted (meter E aid c s) \<longrightarrow>
      fst (accountStep (acc_rateLimitRpm a) (clock s) c (rateWindows s aid)))"
  proof (cases "rateAllows aid (acc_rateLimitRpm a) c s")
    case False
    with meter_RateLimited [OF c assms(4,5) refl, of E] show ?thesis
      by (auto simp: rateAllows_def accountStep_def isGranted_def Let_def)
  next
    case True
    then have "fst (accountStep (acc_rateLimitRpm a) (clock s) c (rateWindows s aid))"
      by (simp add: assertRateLimit_step)
    moreover have "rateWindows (snd (meter E aid c s)) aid = rateWindows (rateCharged aid c s) aid"
    proof (cases "usedNow aid s + c \<le> acc_monthlyTxQuota a")
      case True
      show ?thesis
        by (rule meter_granted [OF assms(2,3) c assms(4,5) \<open>rateAllows _ _ _ _\<close> True]) simp
    next
      case False
      then have "acc_monthlyTxQuota a < usedNow aid s + c" by simp
      with meter_exhausted [OF c assms(4,5) True] show ?thesis by simp
    qed
    ultimately show ?thesis using charge [OF True] by simp
  qed
  then show "rateWindows (snd (meter E aid c s)) aid =
      snd (accountStep (acc_rateLimitRpm a) (clock s) c (rateWindows s aid))"
    and "isGranted (meter E aid c s) \<Longrightarrow>
      fst (accountStep (acc_rateLimitRpm a) (clock s) c (rateWindows s aid))"
    by simp_all
qed

definition ownUses :: "string \<Rightarrow> use list \<Rightarrow> (int \<times> int) list" where
  "ownUses aid es = map (\<lambda>(now, _, c). (now, c)) (filter (\<lambda>(_, aid', c). aid' = aid \<and> 1 \<le> c) es)"

text \<open>What a run grants an account in a minute is at most what its window grants.\<close>

lemma meterRun_window:
  assumes "env_ok E" and "db_inv E s" and "rowAt acc_id aid (accounts s) = Some a"
    and "acc_status a = AccActive" and "0 \<le> acc_rateLimitRpm a"
    and "\<forall>(now, aid', c)\<in>set es. calendarMillis now"
  shows "total (inMinute aid T) (fst (meterRun E es s)) \<le>
    fixed_window.chargedIn 60000 T
      (fixed_window.granted (accountStep (acc_rateLimitRpm a)) (ownUses aid es) (rateWindows s aid))"
  using assms(2,3,6)
proof (induction es arbitrary: s)
  case Nil
  note runs = fixed_window.granted.simps fixed_window.chargedIn.simps
  show ?case
    by (simp add: ownUses_def runs [OF accountStep_fixed_window [OF assms(5)]])
next
  case (Cons e es)
  note fw = accountStep_fixed_window [OF assms(5)]
  note runs = fixed_window.granted.simps [OF fw] fixed_window.chargedIn.simps [OF fw]
  obtain now aid' c where e: "e = (now, aid', c)" by (cases e)
  let ?s = "s\<lparr>clock := now\<rparr>"
  let ?t = "snd (meter E aid' c ?s)"
  have inv: "db_inv E ?s" using Cons.prems(1) by (rule inv_clock)
  have cal: "calendarMillis (clock ?s)" using Cons.prems(3) e by simp
  have row: "rowAt acc_id aid (accounts ?s) = Some a" using Cons.prems(2) by simp
  note win = meter_window [OF assms(1) inv cal row assms(4)]
  have "db_inv E ?t" using preservesD [OF meter_inv [OF assms(1)] inv] .
  moreover have "rowAt acc_id aid (accounts ?t) = Some a"
    using Cons.prems(2) by (simp add: meter_keeps_accounts)
  ultimately have IH: "total (inMinute aid T) (fst (meterRun E es ?t)) \<le>
      fixed_window.chargedIn 60000 T
        (fixed_window.granted (accountStep (acc_rateLimitRpm a)) (ownUses aid es) (rateWindows ?t aid))"
    using Cons.prems(3) by (intro Cons.IH) auto
  show ?case
  proof (cases "aid' = aid \<and> 1 \<le> c")
    case True
    with IH win(3) [of c] win(4) [of c] show ?thesis
      unfolding e meterRun_Cons Let_def by (auto simp: ownUses_def runs)
  next
    case False
    then have "rateWindows ?t aid = rateWindows s aid"
        and "isGranted (meter E aid' c ?s) \<Longrightarrow> aid' \<noteq> aid"
      using win(1) [of aid' c] win(2) [of c] by (cases "aid' = aid"; auto simp: isGranted_def)+
    with IH False show ?thesis
      unfolding e meterRun_Cons Let_def by (auto simp: ownUses_def)
  qed
qed

text \<open>
  Requests per minute over a run: of any run of metered requests of any accounts, in order
  of time, an active account is granted at most twice its requests-per-minute limit in any
  interval of 60 seconds, wherever the interval starts.
\<close>

theorem meter_run_burst:
  assumes "env_ok E" and "db_inv E s" and "rowAt acc_id aid (accounts s) = Some a"
    and "acc_status a = AccActive" and "0 \<le> acc_rateLimitRpm a"
    and "\<forall>(now, aid', c)\<in>set es. calendarMillis now \<and>
      (\<forall>w. rateWindows s aid = Some w \<longrightarrow> win_startMs w \<le> now)"
    and "sorted (map fst es)"
  shows "total (inMinute aid T) (fst (meterRun E es s)) \<le> 2 * acc_rateLimitRpm a"
proof -
  have sorted: "sorted (map fst (ownUses aid es))"
    using assms(7) unfolding ownUses_def by (induction es) (auto simp: case_prod_unfold)
  have "entryValid (rateWindows s aid)"
    using assms(2) by (auto simp: entryValid_def inv_defs split: option.split)
  then have "fixed_window.chargedIn 60000 T
      (fixed_window.granted (accountStep (acc_rateLimitRpm a)) (ownUses aid es) (rateWindows s aid))
      \<le> 2 * acc_rateLimitRpm a"
    using sorted assms(6)
    by (intro fixed_window.burst_bound [OF accountStep_fixed_window [OF assms(5)]])
      (auto simp: ownUses_def)
  moreover have "total (inMinute aid T) (fst (meterRun E es s)) \<le>
      fixed_window.chargedIn 60000 T
        (fixed_window.granted (accountStep (acc_rateLimitRpm a)) (ownUses aid es) (rateWindows s aid))"
    using assms(6) by (intro meterRun_window [OF assms(1-5)]) auto
  ultimately show ?thesis by simp
qed

section \<open>Two requests at a time\<close>

text \<open>
  \<open>meter\<close> awaits the read of the usage row before it checks and writes it: another request may run in
  between. Its two phases.
\<close>

definition readForMeter :: "string \<Rightarrow> int \<Rightarrow> (account \<times> string \<times> usagePeriod option) billing" where
  "readForMeter accountId count =
     andThen (throwIf (count < 1) BadCount) (\<lambda>_.
     andThen (requireAccount accountId) (\<lambda>account.
     andThen (throwIf (acc_status account \<noteq> AccActive) AccountInactive) (\<lambda>_.
     andThen (assertRateLimit (acc_id account) (acc_rateLimitRpm account) count) (\<lambda>_.
     andThen (gets (\<lambda>s. currentPeriodKey (clock s))) (\<lambda>periodKey.
     andThen (gets (\<lambda>s. usageRow (acc_id account) periodKey (usagePeriods s))) (\<lambda>found.
     ret (account, periodKey, found)))))))"

definition commitMeter ::
  "env \<Rightarrow> int \<Rightarrow> account \<times> string \<times> usagePeriod option \<Rightarrow> meterResult billing" where
  "commitMeter E count readings =
     (let (account, periodKey, found) = readings;
          usage = usageOrNew (acc_id account) periodKey found
      in
        andThen (throwIf (acc_monthlyTxQuota account < use_txCount usage + count)
          (QuotaExhausted (use_txCount usage) (acc_monthlyTxQuota account) periodKey)) (\<lambda>_.
        andThen (saveUsage E found (usage\<lparr>use_txCount := use_txCount usage + count\<rparr>)) (\<lambda>saved.
        ret \<lparr>met_periodKey = periodKey, met_monthlyTxUsed = use_txCount saved,
          met_monthlyTxQuota = acc_monthlyTxQuota account, met_rateLimitRpm = acc_rateLimitRpm account\<rparr>)))"

lemma meter_phases: "meter E aid c s = andThen (readForMeter aid c) (commitMeter E c) s"
  by (simp add: meter_def readForMeter_def commitMeter_def andThen_run Let_def
      split: prod.split sum.split)

lemma readForMeter_reads:
  assumes "readForMeter aid c s = (Inr x, s')"
  obtains a w where "x = (a, currentPeriodKey (clock s), usageRow aid (currentPeriodKey (clock s)) (usagePeriods s))"
    and "s' = s\<lparr>rateWindows := w\<rparr>" and "rowAt acc_id aid (accounts s) = Some a" and "acc_id a = aid"
proof -
  from assms obtain a w where "rowAt acc_id aid (accounts s) = Some a"
    and "x = (a, currentPeriodKey (clock s), usageRow (acc_id a) (currentPeriodKey (clock s)) (usagePeriods s))"
    and "s' = s\<lparr>rateWindows := w\<rparr>"
    by (auto simp: readForMeter_def andThen_run throwIf_run requireAccount_run assertRateLimit_run Let_def
        split: if_splits option.splits)
  with rowAt_Some_in [of acc_id aid "accounts s" a] show thesis by (intro that) auto
qed

lemma saveRow_twice:
  assumes "key r = key r'" and "key r' \<in> key ` set rows"
  shows "saveRow key r (saveRow key r' rows) = saveRow key r rows"
proof -
  have "key r \<in> key ` set (saveRow key r' rows)"
    using assms(1) by (auto simp: set_saveRow)
  with assms show ?thesis by (simp add: saveRow_old)
qed

lemma commit_known:
  "commitMeter E n (a, p, Some u) t =
     (if acc_monthlyTxQuota a < use_txCount u + n
      then (Inl (QuotaExhausted (use_txCount u) (acc_monthlyTxQuota a) p), t)
      else (Inr (meterReply a p (use_txCount u + n)), t\<lparr>usagePeriods := saveRow use_id
        (u\<lparr>use_txCount := use_txCount u + n, use_updatedAt := clock t\<rparr>) (usagePeriods t)\<rparr>))"
  by (simp add: commitMeter_def usageOrNew_def saveUsage_def updateUsage_def andThen_run throwIf_run
      meterReply_def Let_def)

lemma commit_first:
  assumes "n \<le> acc_monthlyTxQuota a" and "fits 7 p"
  shows "commitMeter E n (a, p, None) t =
    (if usageRow (acc_id a) p (usagePeriods t) \<noteq> None
     then (Inl (UniqueViolation ''usage_periods.account_id''), t\<lparr>nextId := nextId t + 1\<rparr>)
     else (Inr (meterReply a p n), t\<lparr>nextId := nextId t + 1, usagePeriods := usagePeriods t @
       [\<lparr>use_id = newUuid E (nextId t), use_accountId = acc_id a, use_periodKey = p, use_txCount = n,
         use_createdAt = clock t, use_updatedAt = clock t\<rparr>]\<rparr>))"
  using assms
  by (auto simp: commitMeter_def usageOrNew_def saveUsage_def insertUsage_def freshId_def andThen_run
      throwIf_run meterReply_def Let_def usageRow_def find_None_iff)

lemma usageRow_append: "usageRow aid p (rows @ [r]) = (case usageRow aid p rows of Some u \<Rightarrow> Some u
    | None \<Rightarrow> if use_accountId r = aid \<and> use_periodKey r = p then Some r else None)"
  by (induction rows) (auto simp: usageRow_def)

text \<open>
  C29. Two metered requests of an account that both read its counter before either writes it back,
  each of which alone fits the quota: when the account has a counter both are granted, together
  beyond the quota if need be, and only the second one is counted; when it is the first request of
  the month the second one fails in the database. One after the other they would be counted both.
\<close>

theorem concurrent_metering_lost:
  assumes "db_inv E s" and "calendarMillis (clock s)"
    and "readForMeter aid c s = (Inr x, s1)" and "readForMeter aid d s1 = (Inr y, s2)"
    and "usedNow aid s + c \<le> acc_monthlyTxQuota (fst x)" and "usedNow aid s + d \<le> acc_monthlyTxQuota (fst x)"
  shows "meter E aid c s = commitMeter E c x s1 \<and> isGranted (commitMeter E c x s2) \<and>
    (case usageRow aid (currentPeriodKey (clock s)) (usagePeriods s) of
       Some _ \<Rightarrow> isGranted (commitMeter E d y (snd (commitMeter E c x s2))) \<and>
         usedNow aid (snd (commitMeter E d y (snd (commitMeter E c x s2)))) = usedNow aid s + d
     | None \<Rightarrow> fst (commitMeter E d y (snd (commitMeter E c x s2))) =
         Inl (UniqueViolation ''usage_periods.account_id''))"
proof -
  let ?p = "currentPeriodKey (clock s)"
  let ?f = "usageRow aid ?p (usagePeriods s)"
  obtain a w where x: "x = (a, ?p, ?f)" "s1 = s\<lparr>rateWindows := w\<rparr>" "acc_id a = aid"
    and a: "rowAt acc_id aid (accounts s) = Some a"
    by (rule readForMeter_reads [OF assms(3)]) auto
  obtain v where y: "y = (a, ?p, ?f)" "s2 = s\<lparr>rateWindows := v\<rparr>"
    by (rule readForMeter_reads [OF assms(4)]) (use x a in auto)
  have whole: "meter E aid c s = commitMeter E c x s1"
    using assms(3) by (simp add: meter_phases andThen_run)
  have fits: "fits 7 ?p" by (rule periodKey_fits [OF assms(2)])
  show ?thesis
  proof (cases ?f)
    case (Some u)
    note u = usageRow_Some [OF this]
    have tx: "use_txCount u = usedNow aid s" using Some by (simp add: usedNow_def usedInPeriod_def)
    have keep: "unique_where (\<lambda>_. True) (\<lambda>u. (use_accountId u, use_periodKey u)) use_id (usagePeriods s)"
      using assms(1) by (simp add: inv_defs)
    have stored: "usedInPeriod aid ?p (s\<lparr>usagePeriods := saveRow use_id
        (u\<lparr>use_txCount := n, use_updatedAt := clock s\<rparr>) (usagePeriods s)\<rparr>) = n" for n
      using usedInPeriod_update [OF keep Some, of "u\<lparr>use_txCount := n, use_updatedAt := clock s\<rparr>"] u by simp
    have first: "commitMeter E c x s2 = (Inr (meterReply a ?p (use_txCount u + c)), s2\<lparr>usagePeriods := saveRow use_id
        (u\<lparr>use_txCount := use_txCount u + c, use_updatedAt := clock s\<rparr>) (usagePeriods s)\<rparr>)"
      using assms(5) tx by (simp add: x(1) y(2) Some commit_known)
    have second: "commitMeter E d y (snd (commitMeter E c x s2)) = (Inr (meterReply a ?p (use_txCount u + d)),
        s2\<lparr>usagePeriods := saveRow use_id
          (u\<lparr>use_txCount := use_txCount u + d, use_updatedAt := clock s\<rparr>) (usagePeriods s)\<rparr>)"
      unfolding first using assms(6) tx u
      by (simp add: x(1) y Some commit_known saveRow_twice)
    have "usedNow aid (snd (commitMeter E d y (snd (commitMeter E c x s2)))) = usedNow aid s + d"
      using stored [of "use_txCount u + d"] tx
      unfolding second by (simp add: y(2) usedNow_def usedInPeriod_def)
    with first second whole Some show ?thesis by (simp add: isGranted_def)
  next
    case None
    then have zero: "usedNow aid s = 0" by (simp add: usedNow_def usedInPeriod_def)
    have first: "fst (commitMeter E c x s2) = Inr (meterReply a ?p c)"
      and row: "usageRow aid ?p (usagePeriods (snd (commitMeter E c x s2))) \<noteq> None"
      using assms(5) zero fits by (simp_all add: x y(2) None commit_first usageRow_append)
    have "fst (commitMeter E d y (snd (commitMeter E c x s2))) = Inl (UniqueViolation ''usage_periods.account_id'')"
      using assms(6) zero fits row by (simp add: x(1,3) y(1) None commit_first)
    with first whole None show ?thesis by (simp add: isGranted_def)
  qed
qed

definition busyDb :: db where
  "busyDb = sampleDb\<lparr>nextId := 5, usagePeriods :=
     [\<lparr>use_id = newUuid sampleEnv 4, use_accountId = newUuid sampleEnv 0, use_periodKey = ''1970-01'',
       use_txCount = 4995, use_createdAt = 0, use_updatedAt = 0\<rparr>]\<rparr>"

lemma busyDb_inv: "db_inv sampleEnv busyDb"
proof -
  have "\<exists>p. ''free'' = planIdStr p" by (rule exI [of _ Free]) simp
  moreover have "\<exists>i<5. newUuid sampleEnv n = newUuid sampleEnv i" if "n < 5" for n
    using that by blast
  ultimately show ?thesis
    by (simp add: inv_defs sample_defs busyDb_def fresh_table_def unique_where_def refers_def)
qed

section \<open>Witnesses\<close>

theorem meter_run_quota_witness:
  "usedInPeriod (newUuid sampleEnv 0) ''1970-01''
     (snd (meterRun sampleEnv [(0, newUuid sampleEnv 0, 3), (5, newUuid sampleEnv 0, 40)] sampleDb)) \<le> 5000"
proof -
  let ?es = "[(0, newUuid sampleEnv 0, 3), (5, newUuid sampleEnv 0, 40)]"
  obtain g t where "meterRun sampleEnv ?es sampleDb = (g, t)" by fastforce
  moreover from this have "usedInPeriod (newUuid sampleEnv 0) ''1970-01'' t \<le>
      max (usedInPeriod (newUuid sampleEnv 0) ''1970-01'' sampleDb) (acc_monthlyTxQuota sampleAccount)"
    using meter_run_quota [OF sampleEnv_ok sampleDb_inv sampleDb_account, of ?es g t "''1970-01''"]
    by (simp add: calendarMillis_def)
  moreover have "usedInPeriod (newUuid sampleEnv 0) ''1970-01'' sampleDb = 0"
    by (simp add: usedInPeriod_def usageRow_def sampleDb_def)
  ultimately show ?thesis by simp
qed

theorem meter_run_burst_witness:
  "total (inMinute (newUuid sampleEnv 0) 0)
     (fst (meterRun sampleEnv [(0, newUuid sampleEnv 0, 30), (59999, newUuid sampleEnv 0, 30)] sampleDb)) \<le> 60"
  using meter_run_burst [OF sampleEnv_ok sampleDb_inv sampleDb_account,
      of "[(0, newUuid sampleEnv 0, 30), (59999, newUuid sampleEnv 0, 30)]" 0]
  by (simp add: calendarMillis_def sampleDb_def)

theorem concurrent_metering_lost_witness:
  "\<exists>x y s1 s2. readForMeter (newUuid sampleEnv 0) 4 busyDb = (Inr x, s1) \<and>
    readForMeter (newUuid sampleEnv 0) 3 s1 = (Inr y, s2) \<and>
    isGranted (commitMeter sampleEnv 4 x s2) \<and>
    isGranted (commitMeter sampleEnv 3 y (snd (commitMeter sampleEnv 4 x s2))) \<and>
    usedNow (newUuid sampleEnv 0) (snd (commitMeter sampleEnv 3 y (snd (commitMeter sampleEnv 4 x s2)))) = 4998"
proof -
  let ?i = "newUuid sampleEnv 0"
  have period: "currentPeriodKey (clock busyDb) = ''1970-01''" by (simp add: busyDb_def) code_simp
  have row: "usageRow ?i ''1970-01'' (usagePeriods busyDb) = Some (hd (usagePeriods busyDb))"
    by (simp add: usageRow_def busyDb_def)
  have used: "usedNow ?i busyDb = 4995" unfolding usedNow_def period usedInPeriod_def row by (simp add: busyDb_def)
  obtain x s1 where x: "readForMeter ?i 4 busyDb = (Inr x, s1)" "fst x = sampleAccount"
    and s1: "s1 = snd (assertRateLimit ?i 30 4 busyDb)"
    by (simp add: readForMeter_def andThen_run throwIf_run requireAccount_run assertRateLimit_run
        currentWindow_def busyDb_def sample_defs rowAt_def Let_def)
  obtain y s2 where y: "readForMeter ?i 3 s1 = (Inr y, s2)"
    unfolding s1
    by (simp add: readForMeter_def andThen_run throwIf_run requireAccount_run assertRateLimit_run
        currentWindow_def busyDb_def sample_defs rowAt_def Let_def)
  have cal: "calendarMillis (clock busyDb)" by (simp add: busyDb_def calendarMillis_def)
  have fits: "usedNow ?i busyDb + 4 \<le> acc_monthlyTxQuota (fst x)" "usedNow ?i busyDb + 3 \<le> acc_monthlyTxQuota (fst x)"
    by (simp_all add: used x(2))
  note lost = concurrent_metering_lost [OF busyDb_inv cal x(1) y fits]
  with lost x(1) y show ?thesis by (auto simp: period row used)
qed

end
