(* ===== verification/PublicRateLimit.thy ===== *)
theory PublicRateLimit
  imports FixedWindow JsValues
begin

text \<open>
  The public rate limiter of the core package
  (\<^verbatim>\<open>identity-core/src/http/public-rate-limit.ts\<close>) and that of the billing service
  (\<^verbatim>\<open>common/public-rate-limit.ts\<close>): Express middleware with a window per bucket and
  client address, held in memory. Both windows satisfy the contract \<open>fixed_window\<close>.
\<close>

section \<open>Requests\<close>

record request =
  rq_header :: "string \<Rightarrow> string option"
  rq_originalUrl :: string
  rq_url :: string
  rq_path :: string
  rq_method :: string
  rq_remoteAddress :: "string option"

definition headerOf :: "request \<Rightarrow> string \<Rightarrow> string" where
  "headerOf req name = (case rq_header req name of None \<Rightarrow> [] | Some v \<Rightarrow> v)"

text \<open>\<open>/^bearer\s+(iss_|ver_)/i\<close> on the trimmed header.\<close>

definition bearerProductKey :: "string \<Rightarrow> bool" where
  "bearerProductKey auth =
     (let a = toLowerCase auth; rest = drop 6 a; tail = dropWhile isSpaceChar rest
      in startsWith a ''bearer'' \<and> length tail < length rest \<and>
         (startsWith tail ''iss_'' \<or> startsWith tail ''ver_''))"

definition hasProductApiKey :: "request \<Rightarrow> bool" where
  "hasProductApiKey req \<longleftrightarrow>
     trim (headerOf req ''x-api-key'') \<noteq> [] \<or>
     bearerProductKey (trim (headerOf req ''authorization''))"

definition clientIp :: "request \<Rightarrow> bool \<Rightarrow> string" where
  "clientIp req trustProxy =
     (let forwarded = headerOf req ''x-forwarded-for'';
          first = trim (upTo (CHR '','') forwarded)
      in if trustProxy \<and> forwarded \<noteq> [] \<and> first \<noteq> [] then first
         else case rq_remoteAddress req of None \<Rightarrow> ''unknown'' | Some a \<Rightarrow> a)"

definition requestPath :: "request \<Rightarrow> string" where
  "requestPath req =
     (let raw = (if rq_originalUrl req \<noteq> [] then rq_originalUrl req
                 else if rq_url req \<noteq> [] then rq_url req
                 else if rq_path req \<noteq> [] then rq_path req else ''/'')
      in upTo (CHR ''?'') raw)"

section \<open>The middleware\<close>

record bucket =
  bk_name :: string
  bk_match :: "string \<Rightarrow> string \<Rightarrow> bool"
  bk_windowMs :: int
  bk_max :: int

record options =
  op_enabled :: bool
  op_trustProxy :: bool
  op_buckets :: "bucket list"

record windowState =
  ws_count :: int
  ws_resetAt :: int

datatype outcome =
    Next
  | NextLimited int int
  | TooMany string int

text \<open>The window a request falls in, and the refusal's \<open>Retry-After\<close> in seconds.\<close>

definition freshOrCurrent :: "int \<Rightarrow> int \<Rightarrow> windowState option \<Rightarrow> windowState" where
  "freshOrCurrent windowMs now state =
     (case state of
        None \<Rightarrow> \<lparr>ws_count = 0, ws_resetAt = now + windowMs\<rparr>
      | Some w \<Rightarrow> if ws_resetAt w \<le> now then \<lparr>ws_count = 0, ws_resetAt = now + windowMs\<rparr> else w)"

definition retryAfterSec :: "int \<Rightarrow> int \<Rightarrow> int" where
  "retryAfterSec resetAt now = max 1 ((resetAt - now + 999) div 1000)"

definition bucketFor :: "options \<Rightarrow> request \<Rightarrow> bucket option" where
  "bucketFor opts req =
     (let method = (if rq_method req = [] then ''GET'' else map upperChar (rq_method req))
      in find (\<lambda>b. bk_match b (requestPath req) method) (op_buckets opts))"

definition windowKey :: "options \<Rightarrow> bucket \<Rightarrow> request \<Rightarrow> string" where
  "windowKey opts b req = bk_name b @ '':'' @ clientIp req (op_trustProxy opts)"

definition publicRateLimit ::
  "options \<Rightarrow> int \<Rightarrow> request \<Rightarrow> (string \<rightharpoonup> windowState) \<Rightarrow> outcome \<times> (string \<rightharpoonup> windowState)" where
  "publicRateLimit opts now req windows =
     (if \<not> op_enabled opts then (Next, windows)
      else if hasProductApiKey req then (Next, windows)
      else case bucketFor opts req of
        None \<Rightarrow> (Next, windows)
      | Some b \<Rightarrow>
          (let key = windowKey opts b req;
               state = freshOrCurrent (bk_windowMs b) now (windows key);
               state' = state\<lparr>ws_count := ws_count state + 1\<rparr>;
               windows' = windows(key \<mapsto> state')
           in if bk_max b < ws_count state'
              then (TooMany (bk_name b) (retryAfterSec (ws_resetAt state') now), windows')
              else (NextLimited (bk_max b) (max 0 (bk_max b - ws_count state')), windows')))"

definition defaultPublicRateLimitBuckets :: "int \<Rightarrow> int \<Rightarrow> int \<Rightarrow> bucket list" where
  "defaultPublicRateLimitBuckets health discovery protocol =
     [\<lparr>bk_name = ''health'',
       bk_match = (\<lambda>path method.
         path = ''/v1/health'' \<or> path = ''/v1/health/ready'' \<or>
         path = ''/health'' \<or> path = ''/health/ready''),
       bk_windowMs = 60000, bk_max = health\<rparr>,
      \<lparr>bk_name = ''discovery'',
       bk_match = (\<lambda>path method.
         if method \<noteq> ''GET'' \<and> method \<noteq> ''HEAD'' then False
         else endsWith path ''/did.json'' \<or> startsWith path ''/oob/'' \<or>
              includesStr path ''/.well-known/'' \<or> includesStr path ''/revocation/status-list/''),
       bk_windowMs = 60000, bk_max = discovery\<rparr>,
      \<lparr>bk_name = ''protocol'',
       bk_match = (\<lambda>path method.
         path = ''/didcomm'' \<or> startsWith path ''/didcomm/'' \<or>
         startsWith path ''/openid4vc-flow/'' \<or> startsWith path ''/openid4vc-auth/''),
       bk_windowMs = 60000, bk_max = protocol\<rparr>]"

text \<open>\<open>Number(...)\<close> of a variable: \<open>None\<close> when it is not finite.\<close>

definition rpmOr :: "int option \<Rightarrow> int \<Rightarrow> int" where
  "rpmOr v d = (case v of None \<Rightarrow> d | Some n \<Rightarrow> if 0 < n then n else d)"

definition flagOn :: "string option \<Rightarrow> bool" where
  "flagOn v \<longleftrightarrow> toLowerCase (coalesce v ''true'') \<noteq> ''false''"

definition publicRateLimitConfig ::
  "string option \<Rightarrow> string option \<Rightarrow> int option \<Rightarrow> int option \<Rightarrow> int option \<Rightarrow> options" where
  "publicRateLimitConfig enabled trustProxy health discovery protocol =
     \<lparr>op_enabled = flagOn enabled, op_trustProxy = flagOn trustProxy,
      op_buckets = defaultPublicRateLimitBuckets (rpmOr health 300) (rpmOr discovery 120)
                     (rpmOr protocol 180)\<rparr>"

text \<open>The middleware of the billing service: one bucket, no exemption for product keys.\<close>

definition billingPublicRateLimit ::
  "bool \<Rightarrow> bool \<Rightarrow> int option \<Rightarrow> int \<Rightarrow> request \<Rightarrow> (string \<rightharpoonup> windowState)
    \<Rightarrow> outcome \<times> (string \<rightharpoonup> windowState)" where
  "billingPublicRateLimit enabled trustProxy healthRpm now req windows =
     (let path = requestPath req; mx = rpmOr healthRpm 300 in
      if \<not> enabled then (Next, windows)
      else if path \<noteq> ''/health'' \<and> path \<noteq> ''/v1/health'' then (Next, windows)
      else (let key = ''health'' @ '':'' @ clientIp req trustProxy;
                state = freshOrCurrent 60000 now (windows key);
                state' = state\<lparr>ws_count := ws_count state + 1\<rparr>;
                windows' = windows(key \<mapsto> state')
            in if mx < ws_count state'
               then (TooMany ''health'' (retryAfterSec (ws_resetAt state') now), windows')
               else (Next, windows')))"

section \<open>The contract\<close>

text \<open>One window of either middleware, for a limit and a width.\<close>

definition windowStep :: "int \<Rightarrow> int \<Rightarrow> int \<Rightarrow> int \<Rightarrow> windowState option \<Rightarrow> bool \<times> windowState option" where
  "windowStep W mx now c state =
     (let w = freshOrCurrent W now state; w' = w\<lparr>ws_count := ws_count w + 1\<rparr>
      in (ws_count w' \<le> mx, Some w'))"

definition windowValid :: "windowState option \<Rightarrow> bool" where
  "windowValid state = (case state of None \<Rightarrow> True | Some w \<Rightarrow> 0 \<le> ws_count w)"

definition windowStart :: "int \<Rightarrow> windowState option \<Rightarrow> int option" where
  "windowStart W state = map_option (\<lambda>w. ws_resetAt w - W) state"

definition windowLoad :: "int \<Rightarrow> windowState option \<Rightarrow> int" where
  "windowLoad mx state = (case state of None \<Rightarrow> 0 | Some w \<Rightarrow> min (ws_count w) mx)"

lemma windowStep_fixed_window:
  assumes "0 < W" and "0 \<le> mx"
  shows "fixed_window W mx (\<lambda>c. c = 1) windowValid (windowStart W) (windowLoad mx) (windowStep W mx)"
  using assms
  by unfold_locales
    (auto simp: windowStep_def windowValid_def windowStart_def windowLoad_def freshOrCurrent_def
      Let_def split: option.splits if_splits)

interpretation healthWindow: fixed_window 60000 300 "\<lambda>c. c = 1" windowValid "windowStart 60000"
    "windowLoad 300" "windowStep 60000 300"
  by (rule windowStep_fixed_window) simp_all

interpretation discoveryWindow: fixed_window 60000 120 "\<lambda>c. c = 1" windowValid "windowStart 60000"
    "windowLoad 120" "windowStep 60000 120"
  by (rule windowStep_fixed_window) simp_all

interpretation protocolWindow: fixed_window 60000 180 "\<lambda>c. c = 1" windowValid "windowStart 60000"
    "windowLoad 180" "windowStep 60000 180"
  by (rule windowStep_fixed_window) simp_all

end
