(* ===== verification/RateProps.thy ===== *)
theory RateProps
  imports PublicRateLimit
begin

text \<open>
  Guarantees of the public rate limiter over whole runs of requests, derived from the contract
  of a fixed window, and the requests it does not count.
\<close>

section \<open>Runs\<close>

fun publicRun :: "options \<Rightarrow> (int \<times> request) list \<Rightarrow> (string \<rightharpoonup> windowState) \<Rightarrow> (int \<times> request \<times> outcome) list" where
  "publicRun opts [] windows = []"
| "publicRun opts ((now, req) # rs) windows =
     (case publicRateLimit opts now req windows of
        (res, windows') \<Rightarrow> (now, req, res) # publicRun opts rs windows')"

definition counted :: "options \<Rightarrow> request \<Rightarrow> bool" where
  "counted opts req \<longleftrightarrow> op_enabled opts \<and> \<not> hasProductApiKey req"

definition hits :: "options \<Rightarrow> bucket \<Rightarrow> string \<Rightarrow> request \<Rightarrow> bool" where
  "hits opts b ip req \<longleftrightarrow>
     counted opts req \<and> bucketFor opts req = Some b \<and> clientIp req (op_trustProxy opts) = ip"

fun admitted :: "outcome \<Rightarrow> bool" where
  "admitted (TooMany _ _) = False"
| "admitted _ = True"

text \<open>The admitted requests of a run that fall in one window of one address, in an interval.\<close>

definition admittedIn :: "options \<Rightarrow> bucket \<Rightarrow> string \<Rightarrow> int \<Rightarrow> (int \<times> request \<times> outcome) list \<Rightarrow> nat" where
  "admittedIn opts b ip T run =
     length (filter (\<lambda>(t, req, res). T \<le> t \<and> t < T + bk_windowMs b \<and> hits opts b ip req \<and> admitted res) run)"

lemma publicRateLimit_hit:
  assumes "hits opts b ip req" and "k = bk_name b @ '':'' @ ip"
  shows "\<exists>res. publicRateLimit opts now req windows =
      (res, windows(k := snd (windowStep (bk_windowMs b) (bk_max b) now 1 (windows k)))) \<and>
    admitted res = fst (windowStep (bk_windowMs b) (bk_max b) now 1 (windows k))"
  using assms
  by (auto simp: hits_def counted_def publicRateLimit_def windowKey_def windowStep_def Let_def)

lemma publicRateLimit_miss:
  assumes "\<not> (counted opts req \<and> (\<exists>b. bucketFor opts req = Some b \<and> windowKey opts b req = k))"
    and "publicRateLimit opts now req windows = (res, windows')"
  shows "windows' k = windows k"
  using assms by (auto simp: counted_def publicRateLimit_def Let_def split: option.splits if_splits)

text \<open>Buckets whose names are free of the separator give every pair its own window.\<close>

definition plainBuckets :: "options \<Rightarrow> bool" where
  "plainBuckets opts \<longleftrightarrow>
     (\<forall>b\<in>set (op_buckets opts). CHR '':'' \<notin> set (bk_name b)) \<and>
     (\<forall>b\<in>set (op_buckets opts). \<forall>c\<in>set (op_buckets opts). bk_name b = bk_name c \<longrightarrow> b = c)"

lemma separator_split:
  assumes "x @ c # y = x' @ c # y'" and "c \<notin> set x" and "c \<notin> set x'"
  shows "x = x' \<and> y = y'"
proof -
  have "takeWhile (\<lambda>d. d \<noteq> c) (a @ c # b) = a" "dropWhile (\<lambda>d. d \<noteq> c) (a @ c # b) = c # b"
    if "c \<notin> set a" for a b :: "'a list"
    using that by (induction a) auto
  with assms show ?thesis by (metis list.inject)
qed

lemma windowKey_hits:
  assumes "plainBuckets opts" and "b \<in> set (op_buckets opts)"
    and "counted opts req" and "bucketFor opts req = Some c"
    and "windowKey opts c req = bk_name b @ '':'' @ ip"
  shows "hits opts b ip req"
proof -
  have c: "c \<in> set (op_buckets opts)"
    using assms(4) by (auto simp: bucketFor_def Let_def dest: find_Some_iff_in)
  have "bk_name c @ CHR '':'' # clientIp req (op_trustProxy opts) = bk_name b @ CHR '':'' # ip"
    using assms(5) by (simp add: windowKey_def)
  moreover have "CHR '':'' \<notin> set (bk_name c)" "CHR '':'' \<notin> set (bk_name b)"
    using assms(1,2) c by (simp_all add: plainBuckets_def)
  ultimately have "bk_name c = bk_name b \<and> clientIp req (op_trustProxy opts) = ip"
    by (rule separator_split)
  moreover from this have "c = b"
    using assms(1,2) c unfolding plainBuckets_def by blast
  ultimately show ?thesis using assms(3,4) by (simp add: hits_def)
qed

text \<open>The run of one window inside the run of the middleware.\<close>

definition ownRequests :: "options \<Rightarrow> bucket \<Rightarrow> string \<Rightarrow> (int \<times> request) list \<Rightarrow> (int \<times> int) list" where
  "ownRequests opts b ip rs = map (\<lambda>(t, _). (t, 1)) (filter (\<lambda>(_, req). hits opts b ip req) rs)"

lemma admittedIn_granted:
  fixes b :: bucket
  defines "W \<equiv> bk_windowMs b" and "mx \<equiv> bk_max b"
  assumes "0 < W" and "0 \<le> mx" and "plainBuckets opts" and "b \<in> set (op_buckets opts)"
  shows "int (admittedIn opts b ip T (publicRun opts rs windows)) =
    fixed_window.chargedIn W T (fixed_window.granted (windowStep W mx)
      (ownRequests opts b ip rs) (windows (bk_name b @ '':'' @ ip)))"
proof -
  note fw = windowStep_fixed_window [OF assms(3,4)]
  note runs = fixed_window.granted.simps [OF fw] fixed_window.chargedIn.simps [OF fw]
  let ?k = "bk_name b @ '':'' @ ip"
  show ?thesis
  proof (induction rs arbitrary: windows)
    case Nil
    show ?case by (simp add: admittedIn_def ownRequests_def runs)
  next
    case (Cons r rs)
    obtain now req where r: "r = (now, req)" by (cases r)
    obtain res windows' where lim: "publicRateLimit opts now req windows = (res, windows')"
      by (cases "publicRateLimit opts now req windows")
    show ?case
    proof (cases "hits opts b ip req")
      case True
      from publicRateLimit_hit [OF True refl, of now windows] lim
      have w: "windows' ?k = snd (windowStep W mx now 1 (windows ?k))"
        and ok: "admitted res = fst (windowStep W mx now 1 (windows ?k))"
        by (auto simp: W_def mx_def)
      with Cons.IH [of windows'] True r lim show ?thesis
        by (auto simp: admittedIn_def ownRequests_def W_def [symmetric] runs)
    next
      case False
      have "windows' ?k = windows ?k"
        using publicRateLimit_miss [OF _ lim] False windowKey_hits [OF assms(5,6)] by blast
      with Cons.IH [of windows'] False r lim show ?thesis
        by (auto simp: admittedIn_def ownRequests_def runs)
    qed
  qed
qed

section \<open>Guarantees\<close>

lemma ownRequests_sorted:
  "sorted (map fst rs) \<Longrightarrow> sorted (map fst (ownRequests opts b ip rs))"
  unfolding ownRequests_def
  by (induction rs) (auto simp: case_prod_unfold)

text \<open>
  Public rate limit: whatever requests arrive, in order of time, an address is admitted at
  most twice the limit of a bucket in any interval as long as the window, in the configuration
  the environment gives.
\<close>

theorem public_rate_bound:
  assumes "b \<in> set (op_buckets opts)" and "opts = publicRateLimitConfig en tp h d p"
    and "sorted (map fst rs)"
  shows "int (admittedIn opts b ip T (publicRun opts rs Map.empty)) \<le> 2 * bk_max b"
proof -
  have b: "0 < bk_windowMs b" "0 \<le> bk_max b" and plain: "plainBuckets opts"
    using assms(1,2)
    by (auto simp: publicRateLimitConfig_def defaultPublicRateLimitBuckets_def plainBuckets_def
        rpmOr_def split: option.split)
  note fw = windowStep_fixed_window [OF b]
  have "fixed_window.chargedIn (bk_windowMs b) T (fixed_window.granted
      (windowStep (bk_windowMs b) (bk_max b)) (ownRequests opts b ip rs) None) \<le> 2 * bk_max b"
    using ownRequests_sorted [OF assms(3)]
    by (intro fixed_window.burst_bound [OF fw])
      (auto simp: windowValid_def windowStart_def ownRequests_def)
  then show ?thesis
    using admittedIn_granted [OF b plain assms(1), of ip T rs Map.empty] by simp
qed

text \<open>The outcomes of requests that all fall in one open window.\<close>

lemma open_window_run:
  assumes "\<forall>(t, req)\<in>set rs. hits opts b ip req \<and> t < R \<and> R - t \<le> 60000" and "k = bk_name b @ '':'' @ ip"
    and "windows k = Some \<lparr>ws_count = c, ws_resetAt = R\<rparr>" and "i < length rs"
  shows "let res = snd (snd (publicRun opts rs windows ! i)) in
    if c + int i < bk_max b then admitted res
    else \<exists>sec. res = TooMany (bk_name b) sec \<and> 1 \<le> sec \<and> sec \<le> 60"
  using assms
proof (induction rs arbitrary: windows c i)
  case Nil
  then show ?case by simp
next
  case (Cons r rs)
  obtain now req where r: "r = (now, req)" by (cases r)
  have hit: "hits opts b ip req" and now: "now < R" "R - now \<le> 60000"
    using Cons.prems(1) r by auto
  let ?w = "windows(k \<mapsto> \<lparr>ws_count = c + 1, ws_resetAt = R\<rparr>)"
  have lim: "publicRateLimit opts now req windows =
      (if bk_max b < c + 1 then TooMany (bk_name b) (retryAfterSec R now)
       else NextLimited (bk_max b) (max 0 (bk_max b - (c + 1))), ?w)"
    using hit now Cons.prems(2,3)
    by (auto simp: hits_def counted_def publicRateLimit_def windowKey_def freshOrCurrent_def Let_def)
  have sec: "1 \<le> retryAfterSec R now \<and> retryAfterSec R now \<le> 60"
    using now unfolding retryAfterSec_def by linarith
  show ?case
  proof (cases i)
    case 0
    with lim r sec show ?thesis by (simp add: Let_def)
  next
    case (Suc j)
    have "let res = snd (snd (publicRun opts rs ?w ! j)) in
        if c + 1 + int j < bk_max b then admitted res
        else \<exists>sec. res = TooMany (bk_name b) sec \<and> 1 \<le> sec \<and> sec \<le> 60"
      using Cons.prems Suc by (intro Cons.IH) auto
    with Suc lim r show ?thesis by (simp add: algebra_simps)
  qed
qed

text \<open>
  Within one window an address gets exactly the limit: of the requests that reach a
  bucket from one address in the 60 seconds after its first request, the ones up to the limit are
  admitted and every later one is answered 429 with a \<open>Retry-After\<close> between 1 and 60
  seconds.
\<close>

theorem public_rate_exact:
  assumes "b \<in> set (op_buckets opts)" and "opts = publicRateLimitConfig en tp h d p"
    and "\<forall>(t, req)\<in>set rs. hits opts b ip req \<and> t0 \<le> t \<and> t < t0 + 60000"
    and "fst (hd rs) = t0" and "i < length rs"
  shows "let res = snd (snd (publicRun opts rs Map.empty ! i)) in
    if int i < bk_max b then admitted res
    else \<exists>sec. res = TooMany (bk_name b) sec \<and> 1 \<le> sec \<and> sec \<le> 60"
proof -
  obtain req rs' where rs: "rs = (t0, req) # rs'"
    using assms(4,5) by (cases rs) (auto simp: prod_eq_iff)
  have W: "bk_windowMs b = 60000" and mx: "0 < bk_max b"
    using assms(1,2)
    by (auto simp: publicRateLimitConfig_def defaultPublicRateLimitBuckets_def rpmOr_def
        split: option.split)
  let ?k = "bk_name b @ '':'' @ ip"
  let ?w = "Map.empty(?k \<mapsto> \<lparr>ws_count = 1, ws_resetAt = t0 + 60000\<rparr>)"
  have lim: "publicRateLimit opts t0 req Map.empty = (NextLimited (bk_max b) (max 0 (bk_max b - 1)), ?w)"
    using assms(3) W mx unfolding rs
    by (auto simp: hits_def counted_def publicRateLimit_def windowKey_def freshOrCurrent_def Let_def)
  show ?thesis
  proof (cases i)
    case 0
    with lim mx show ?thesis by (simp add: rs Let_def)
  next
    case (Suc j)
    have "let res = snd (snd (publicRun opts rs' ?w ! j)) in
        if 1 + int j < bk_max b then admitted res
        else \<exists>sec. res = TooMany (bk_name b) sec \<and> 1 \<le> sec \<and> sec \<le> 60"
      using assms(3,5) Suc unfolding rs
      by (intro open_window_run [where R = "t0 + 60000" and ip = ip]) auto
    with Suc lim show ?thesis by (simp add: rs)
  qed
qed

text \<open>
  The exemption for product keys looks only at the shape of the headers: a request with
  any non-blank \<open>x-api-key\<close>, a key nobody issued included, is let through and leaves no
  trace, so a run of such requests is admitted whole, however long, whatever else is counted.
\<close>

theorem product_key_bypass:
  assumes "\<forall>(t, req)\<in>set rs. trim (headerOf req ''x-api-key'') \<noteq> []"
  shows "publicRun opts (rs @ later) windows =
    map (\<lambda>(t, req). (t, req, Next)) rs @ publicRun opts later windows"
  using assms
proof (induction rs)
  case (Cons r rs)
  then show ?case
    by (cases r) (auto simp: publicRateLimit_def hasProductApiKey_def)
qed simp

section \<open>Witnesses\<close>

definition sampleRequest :: "string \<Rightarrow> string option \<Rightarrow> request" where
  "sampleRequest path key =
     \<lparr>rq_header = (\<lambda>n. if n = ''x-api-key'' then key else None), rq_originalUrl = path,
      rq_url = path, rq_path = path, rq_method = ''GET'', rq_remoteAddress = Some ''10.0.0.1''\<rparr>"

definition sampleOptions :: options where
  "sampleOptions = publicRateLimitConfig None None (Some 1) None None"

lemma sampleOptions_health:
  "hd (op_buckets sampleOptions) \<in> set (op_buckets sampleOptions)"
  "hits sampleOptions (hd (op_buckets sampleOptions)) ''10.0.0.1'' (sampleRequest ''/health'' None)"
  by (simp_all add: sampleOptions_def publicRateLimitConfig_def defaultPublicRateLimitBuckets_def
      hits_def counted_def bucketFor_def sampleRequest_def requestPath_def upTo_def clientIp_def
      hasProductApiKey_def headerOf_def bearerProductKey_def toLowerCase_def startsWith_def
      flagOn_def Let_def)

theorem public_rate_bound_witness:
  "int (admittedIn sampleOptions (hd (op_buckets sampleOptions)) ''10.0.0.1'' 0
     (publicRun sampleOptions [(0, sampleRequest ''/health'' None), (5, sampleRequest ''/health'' None)]
       Map.empty)) \<le> 2 * bk_max (hd (op_buckets sampleOptions))"
  by (rule public_rate_bound [OF sampleOptions_health(1) sampleOptions_def]) simp

theorem public_rate_exact_witness:
  "\<exists>sec. snd (snd (publicRun sampleOptions
      [(7, sampleRequest ''/health'' None), (9, sampleRequest ''/health'' None)] Map.empty ! 1)) =
    TooMany ''health'' sec \<and> 1 \<le> sec \<and> sec \<le> 60"
  using public_rate_exact [OF sampleOptions_health(1) sampleOptions_def,
      of "[(7, sampleRequest ''/health'' None), (9, sampleRequest ''/health'' None)]" "''10.0.0.1''" 7 1]
    sampleOptions_health(2)
  by (simp add: sampleOptions_def publicRateLimitConfig_def defaultPublicRateLimitBuckets_def
      rpmOr_def Let_def)

theorem product_key_bypass_witness:
  "publicRun sampleOptions ([(0, sampleRequest ''/health'' (Some ''x'')), (1, sampleRequest ''/health'' (Some ''x''))]
      @ []) Map.empty =
    [(0, sampleRequest ''/health'' (Some ''x''), Next), (1, sampleRequest ''/health'' (Some ''x''), Next)]"
  using product_key_bypass [of "[(0, sampleRequest ''/health'' (Some ''x'')),
      (1, sampleRequest ''/health'' (Some ''x''))]" sampleOptions "[]" Map.empty]
  by (simp add: sampleRequest_def headerOf_def trim_def isSpaceChar_def)

end
