(* ===== verification/Json.thy ===== *)
theory Json
  imports JsValues
begin

text \<open>
  Text encodings of the Node runtime that tokens are built from: \<open>JSON.stringify\<close> and
  \<open>JSON.parse\<close>, and the decoding half of base64url. The numbers of the model are
  integers, so a literal with a fraction or an exponent is outside it and taken as a failed
  parse, as is a \<open>\u\<close> escape above \<open>U+00FF\<close>; the payloads the services write hold
  neither.
\<close>

section \<open>Base64url\<close>

definition b64Val :: "char \<Rightarrow> nat option" where
  "b64Val c =
     (let n = of_char c :: nat in
      if 65 \<le> n \<and> n \<le> 90 then Some (n - 65)
      else if 97 \<le> n \<and> n \<le> 122 then Some (n - 71)
      else if 48 \<le> n \<and> n \<le> 57 then Some (n + 4)
      else if c = CHR ''-'' \<or> c = CHR ''+'' then Some 62
      else if c = CHR ''_'' \<or> c = CHR ''/'' then Some 63
      else None)"

fun sextets :: "nat list \<Rightarrow> bytes" where
  "sextets (a # b # c # d # xs) =
     of_nat (a * 4 + b div 16) # of_nat (b mod 16 * 16 + c div 4) # of_nat (c mod 4 * 64 + d) #
     sextets xs"
| "sextets [a, b, c] = [of_nat (a * 4 + b div 16), of_nat (b mod 16 * 16 + c div 4)]"
| "sextets [a, b] = [of_nat (a * 4 + b div 16)]"
| "sextets _ = []"

text \<open>
  \<open>Buffer.from(s, 'base64url')\<close>: both alphabets are read, padding ends the input and
  characters outside the alphabets are skipped.
\<close>

definition fromBase64url :: "string \<Rightarrow> bytes" where
  "fromBase64url s = sextets (List.map_filter b64Val (takeWhile (\<lambda>c. c \<noteq> CHR ''='') s))"

text \<open>\<open>Buffer.from(text)\<close> and \<open>buf.toString()\<close> on ASCII text.\<close>

definition textBytes :: "string \<Rightarrow> bytes" where
  "textBytes s = map (\<lambda>c. of_nat (of_char c)) s"

definition bytesText :: "bytes \<Rightarrow> string" where
  "bytesText bs = map (\<lambda>b. char_of (unat b)) bs"

lemma bytesText_textBytes [simp]: "bytesText (textBytes s) = s"
proof -
  have "char_of (unat (of_nat (of_char c) :: 8 word)) = c" for c
    by (simp add: unsigned_of_nat take_bit_nat_def)
  then show ?thesis by (simp add: bytesText_def textBytes_def comp_def)
qed

lemma b64Val_b64Char: "n < 64 \<Longrightarrow> b64Val (b64Char n) = Some n"
  by (auto simp: b64Val_def b64Char_def Let_def of_char_of)

lemma b64Char_not_pad: "b64Char n \<noteq> CHR ''=''"
proof
  assume "b64Char n = CHR ''=''"
  then have "of_char (b64Char n) = (61 :: nat)" by simp
  then show False
    by (auto simp: b64Char_def of_char_of split: if_splits)
qed

lemma takeWhile_toBase64url: "takeWhile (\<lambda>c. c \<noteq> CHR ''='') (toBase64url bs) = toBase64url bs"
  by (induction bs rule: toBase64url.induct) (simp_all add: b64Char_not_pad)

lemma unat8: "unat (x :: 8 word) < 256"
  using unsigned_less [of x] by simp

lemma of_nat_unat8: "of_nat (unat x) = (x :: 8 word)"
  by simp

lemma sextet_lt:
  fixes x y :: nat
  shows "x < 256 \<Longrightarrow> x div 4 < 64" "x mod 64 < 64" "x mod 4 * 16 < 64" "x mod 16 * 4 < 64"
    "y < 256 \<Longrightarrow> x mod 4 * 16 + y div 16 < 64"
    "y < 256 \<Longrightarrow> x mod 16 * 4 + y div 64 < 64"
proof -
  show "x < 256 \<Longrightarrow> x div 4 < 64" "x mod 64 < 64" "x mod 4 * 16 < 64" "x mod 16 * 4 < 64"
    by simp_all
  have "x mod 4 \<le> 3" "x mod 16 \<le> 15" by simp_all
  moreover have "y < 256 \<Longrightarrow> y div 16 < 16" "y < 256 \<Longrightarrow> y div 64 < 4" by simp_all
  ultimately show "y < 256 \<Longrightarrow> x mod 4 * 16 + y div 16 < 64"
    "y < 256 \<Longrightarrow> x mod 16 * 4 + y div 64 < 64" by linarith+
qed

lemma octet_join:
  fixes x y z :: nat
  shows "y < 256 \<Longrightarrow> x div 4 * 4 + (x mod 4 * 16 + y div 16) div 16 = x"
    "y < 256 \<Longrightarrow> z < 256 \<Longrightarrow>
      (x mod 4 * 16 + y div 16) mod 16 * 16 + (y mod 16 * 4 + z div 64) div 4 = y"
    "z < 256 \<Longrightarrow> (y mod 16 * 4 + z div 64) mod 4 * 64 + z mod 64 = z"
    "x div 4 * 4 + x mod 4 * 16 div 16 = x"
    "y < 256 \<Longrightarrow> (x mod 4 * 16 + y div 16) mod 16 * 16 + y mod 16 * 4 div 4 = y"
proof -
  have 1: "(x mod 4 * 16 + y div 16) div 16 = x mod 4" if "y < 256" using that by simp
  have 2: "(x mod 4 * 16 + y div 16) mod 16 = y div 16" if "y < 256" using that by simp
  have 3: "(y mod 16 * 4 + z div 64) div 4 = y mod 16" if "z < 256" using that by simp
  have 4: "(y mod 16 * 4 + z div 64) mod 4 = z div 64" if "z < 256" using that by simp
  show "y < 256 \<Longrightarrow> x div 4 * 4 + (x mod 4 * 16 + y div 16) div 16 = x"
    by (simp only: 1 div_mult_mod_eq)
  show "y < 256 \<Longrightarrow> z < 256 \<Longrightarrow>
      (x mod 4 * 16 + y div 16) mod 16 * 16 + (y mod 16 * 4 + z div 64) div 4 = y"
    by (simp only: 2 3 div_mult_mod_eq)
  show "z < 256 \<Longrightarrow> (y mod 16 * 4 + z div 64) mod 4 * 64 + z mod 64 = z"
    by (simp only: 4 div_mult_mod_eq)
  show "x div 4 * 4 + x mod 4 * 16 div 16 = x" by simp
  show "y < 256 \<Longrightarrow> (x mod 4 * 16 + y div 16) mod 16 * 16 + y mod 16 * 4 div 4 = y"
    by (simp only: 2) simp
qed

lemma fromBase64url_toBase64url [simp]: "fromBase64url (toBase64url bs) = bs"
  unfolding fromBase64url_def takeWhile_toBase64url
  by (induction bs rule: toBase64url.induct)
    (simp_all only: toBase64url.simps map_filter_simps b64Val_b64Char sextet_lt unat8 option.case
      sextets.simps octet_join of_nat_unat8)

lemma toBase64url_no_dot: "CHR ''.'' \<notin> set (toBase64url bs)"
proof -
  have "b64Char n \<noteq> CHR ''.''" for n
  proof
    assume "b64Char n = CHR ''.''"
    then have "of_char (b64Char n) = (46 :: nat)" by simp
    then show False by (auto simp: b64Char_def of_char_of split: if_splits)
  qed
  then have "b64Char n \<noteq> CHR ''.'' \<and> CHR ''.'' \<noteq> b64Char n" for n by metis
  then show ?thesis by (induction bs rule: toBase64url.induct) auto
qed

lemma toBase64url_inj: "toBase64url a = toBase64url b \<longleftrightarrow> a = b"
  by (metis fromBase64url_toBase64url)

lemma toBase64url_Nil_iff [simp]: "toBase64url bs = [] \<longleftrightarrow> bs = []"
  by (cases bs rule: toBase64url.cases) auto

section \<open>\<open>JSON.stringify\<close>\<close>

definition escapeChar :: "char \<Rightarrow> string" where
  "escapeChar c =
     (let n = of_char c :: nat in
      if n = 34 then [char_of (92 :: nat), c]
      else if n = 92 then [c, c]
      else if n = 8 then [char_of (92 :: nat), CHR ''b'']
      else if n = 9 then [char_of (92 :: nat), CHR ''t'']
      else if n = 10 then [char_of (92 :: nat), CHR ''n'']
      else if n = 12 then [char_of (92 :: nat), CHR ''f'']
      else if n = 13 then [char_of (92 :: nat), CHR ''r'']
      else if n < 32 then
        [char_of (92 :: nat), CHR ''u'', CHR ''0'', CHR ''0'', hexDigit (n div 16),
         hexDigit (n mod 16)]
      else [c])"

definition quoted :: "string \<Rightarrow> string" where
  "quoted s = char_of (34 :: nat) # concat (map escapeChar s) @ [char_of (34 :: nat)]"

fun stringify :: "json \<Rightarrow> string" where
  "stringify JNull = ''null''"
| "stringify (JBool b) = (if b then ''true'' else ''false'')"
| "stringify (JNum i) = intStr i"
| "stringify (JStr s) = quoted s"
| "stringify (JArr vs) = ''['' @ joinWith '','' (map stringify vs) @ '']''"
| "stringify (JObj kvs) =
     ''{'' @ joinWith '','' (map (\<lambda>(k, v). quoted k @ '':'' @ stringify v) kvs) @ ''}''"

section \<open>\<open>JSON.parse\<close>\<close>

definition isJsonSpace :: "char \<Rightarrow> bool" where
  "isJsonSpace c \<longleftrightarrow> (let n = of_char c :: nat in n = 32 \<or> n = 9 \<or> n = 10 \<or> n = 13)"

definition skipWs :: "string \<Rightarrow> string" where
  "skipWs s = dropWhile isJsonSpace s"

definition isDigit :: "char \<Rightarrow> bool" where
  "isDigit c \<longleftrightarrow> (let n = of_char c :: nat in 48 \<le> n \<and> n \<le> 57)"

definition digitVal :: "char \<Rightarrow> nat" where
  "digitVal c = of_char c - 48"

definition decimal :: "string \<Rightarrow> nat" where
  "decimal ds = foldl (\<lambda>a d. 10 * a + digitVal d) 0 ds"

text \<open>An integer literal without leading zeros, and no fraction or exponent behind it.\<close>

definition parseNat :: "string \<Rightarrow> (nat \<times> string) option" where
  "parseNat s =
     (let ds = takeWhile isDigit s; rest = dropWhile isDigit s in
      if ds = [] \<or> hd ds = CHR ''0'' \<and> tl ds \<noteq> [] \<or>
         rest \<noteq> [] \<and> hd rest \<in> {CHR ''.'', CHR ''e'', CHR ''E''} then None
      else Some (decimal ds, rest))"

definition parseInt :: "string \<Rightarrow> (json \<times> string) option" where
  "parseInt s =
     (if s \<noteq> [] \<and> hd s = CHR ''-'' then
        map_option (\<lambda>(n, rest). (JNum (- int n), rest)) (parseNat (tl s))
      else map_option (\<lambda>(n, rest). (JNum (int n), rest)) (parseNat s))"

text \<open>What follows a backslash.\<close>

definition unescape :: "string \<Rightarrow> (char \<times> string) option" where
  "unescape s =
     (case s of [] \<Rightarrow> None
      | c # rest \<Rightarrow>
          let n = of_char c :: nat in
          if n = 34 \<or> n = 92 \<or> n = 47 then Some (c, rest)
          else if c = CHR ''b'' then Some (char_of (8 :: nat), rest)
          else if c = CHR ''t'' then Some (char_of (9 :: nat), rest)
          else if c = CHR ''n'' then Some (char_of (10 :: nat), rest)
          else if c = CHR ''f'' then Some (char_of (12 :: nat), rest)
          else if c = CHR ''r'' then Some (char_of (13 :: nat), rest)
          else if c = CHR ''u'' then
            (case rest of
               a # b # h # l # rest' \<Rightarrow>
                 (case (hexVal a, hexVal b, hexVal h, hexVal l) of
                    (Some 0, Some 0, Some x, Some y) \<Rightarrow> Some (char_of (16 * x + y), rest')
                  | _ \<Rightarrow> None)
             | _ \<Rightarrow> None)
          else None)"

lemma unescape_shorter: "unescape s = Some (c, rest) \<Longrightarrow> length rest < length s"
  by (auto simp: unescape_def Let_def split: list.splits if_splits option.splits nat.splits)

function parseChars :: "string \<Rightarrow> (string \<times> string) option" where
  "parseChars s =
     (case s of [] \<Rightarrow> None
      | c # rest \<Rightarrow>
          let n = of_char c :: nat in
          if n = 34 then Some ([], rest)
          else if n < 32 then None
          else if n = 92 then
            (case unescape rest of None \<Rightarrow> None
             | Some (d, rest') \<Rightarrow>
                 map_option (\<lambda>(ds, r). (d # ds, r)) (parseChars rest'))
          else map_option (\<lambda>(ds, r). (c # ds, r)) (parseChars rest))"
  by pat_completeness auto
termination
  by (relation "measure length") (auto dest: unescape_shorter)

declare parseChars.simps [simp del]

text \<open>
  Values, array elements and object members. Each call on the way down spends one unit of fuel
  and at most two calls are made per character, so twice the length of the text is enough.
\<close>

fun parseValue :: "nat \<Rightarrow> string \<Rightarrow> (json \<times> string) option"
  and parseElements :: "nat \<Rightarrow> string \<Rightarrow> (json list \<times> string) option"
  and parseMembers :: "nat \<Rightarrow> string \<Rightarrow> ((string \<times> json) list \<times> string) option" where
  "parseValue 0 s = None"
| "parseValue (Suc n) s =
     (case skipWs s of [] \<Rightarrow> None
      | c # rest \<Rightarrow>
          if c = CHR ''['' then
            (case skipWs rest of [] \<Rightarrow> None
             | d # rest' \<Rightarrow>
                 if d = CHR '']'' then Some (JArr [], rest')
                 else map_option (\<lambda>(vs, r). (JArr vs, r)) (parseElements n (d # rest')))
          else if c = CHR ''{'' then
            (case skipWs rest of [] \<Rightarrow> None
             | d # rest' \<Rightarrow>
                 if d = CHR ''}'' then Some (JObj [], rest')
                 else map_option (\<lambda>(kvs, r). (JObj kvs, r)) (parseMembers n (d # rest')))
          else if c = char_of (34 :: nat) then
            map_option (\<lambda>(t, r). (JStr t, r)) (parseChars rest)
          else if startsWith (c # rest) ''null'' then Some (JNull, drop 4 (c # rest))
          else if startsWith (c # rest) ''true'' then Some (JBool True, drop 4 (c # rest))
          else if startsWith (c # rest) ''false'' then Some (JBool False, drop 5 (c # rest))
          else parseInt (c # rest))"
| "parseElements 0 s = None"
| "parseElements (Suc n) s =
     (case parseValue n s of None \<Rightarrow> None
      | Some (v, r) \<Rightarrow>
          (case skipWs r of [] \<Rightarrow> None
           | d # r' \<Rightarrow>
               if d = CHR '']'' then Some ([v], r')
               else if d = CHR '','' then
                 map_option (\<lambda>(vs, t). (v # vs, t)) (parseElements n r')
               else None))"
| "parseMembers 0 s = None"
| "parseMembers (Suc n) s =
     (case skipWs s of [] \<Rightarrow> None
      | q # s' \<Rightarrow>
          if q \<noteq> char_of (34 :: nat) then None
          else (case parseChars s' of None \<Rightarrow> None
                | Some (k, r) \<Rightarrow>
                    (case skipWs r of [] \<Rightarrow> None
                     | d # r' \<Rightarrow>
                         if d \<noteq> CHR '':'' then None
                         else (case parseValue n r' of None \<Rightarrow> None
                               | Some (v, t) \<Rightarrow>
                                   (case skipWs t of [] \<Rightarrow> None
                                    | e # t' \<Rightarrow>
                                        if e = CHR ''}'' then Some ([(k, v)], t')
                                        else if e = CHR '','' then
                                          map_option (\<lambda>(kvs, u). ((k, v) # kvs, u))
                                            (parseMembers n t')
                                        else None)))))"

definition jsonParse :: "string \<Rightarrow> json option" where
  "jsonParse s =
     (case parseValue (2 * length s + 2) s of None \<Rightarrow> None
      | Some (v, rest) \<Rightarrow> if skipWs rest = [] then Some v else None)"

section \<open>Parsing what was printed\<close>

definition follows :: "string \<Rightarrow> bool" where
  "follows rest \<longleftrightarrow> rest = [] \<or> hd rest \<in> {CHR '','', CHR '']'', CHR ''}''}"

lemma follows_simps [simp]:
  "follows []" "follows (CHR '','' # r)" "follows (CHR '']'' # r)" "follows (CHR ''}'' # r)"
  by (simp_all add: follows_def)

lemma isDigit_char_of [simp]: "d < 10 \<Longrightarrow> isDigit (char_of (48 + d :: nat))"
  by (simp add: isDigit_def of_char_of Let_def)

lemma digitVal_char_of [simp]: "d < 10 \<Longrightarrow> digitVal (char_of (48 + d :: nat)) = d"
  by (simp add: digitVal_def of_char_of)

lemma decimal_snoc [simp]: "decimal (ds @ [d]) = 10 * decimal ds + digitVal d"
  by (simp add: decimal_def)

lemma natStr_digits: "list_all isDigit (natStr n)"
proof (induction n rule: natStr.induct)
  case (1 n)
  show ?case
    by (cases "n < 10") (simp_all add: natStr.simps [of n] 1)
qed

lemma decimal_natStr [simp]: "decimal (natStr n) = n"
proof (induction n rule: natStr.induct)
  case (1 n)
  show ?case
  proof (cases "n < 10")
    case True
    then show ?thesis by (simp add: natStr.simps [of n] decimal_def)
  next
    case False
    then show ?thesis by (simp add: natStr.simps [of n] 1)
  qed
qed

lemma natStr_nonempty [simp]: "natStr n \<noteq> []"
  using length_natStr_pos [of n] by auto

lemma natStr_lead: "0 < n \<Longrightarrow> hd (natStr n) \<noteq> CHR ''0''"
proof (induction n rule: natStr.induct)
  case (1 n)
  show ?case
  proof (cases "n < 10")
    case True
    have "(of_char (char_of (48 + n) :: char) :: nat) \<noteq> of_char (CHR ''0'')"
      using True 1 by (simp add: of_char_of)
    with True show ?thesis by (metis list.sel(1) natStr.simps)
  next
    case False
    with 1 show ?thesis by (simp add: natStr.simps [of n])
  qed
qed

lemma natStr_zero: "natStr 0 = ''0''"
  by (subst natStr.simps) (simp add: char_of_def bit_simps)

lemma not_isDigit [simp]:
  "\<not> isDigit (CHR '','')" "\<not> isDigit (CHR '']'')" "\<not> isDigit (CHR ''}'')"
  by (simp_all add: isDigit_def)

lemma follows_digit: "follows rest \<Longrightarrow> takeWhile isDigit rest = [] \<and> dropWhile isDigit rest = rest"
  by (cases rest) (auto simp: follows_def)

lemma parseNat_natStr: "follows rest \<Longrightarrow> parseNat (natStr n @ rest) = Some (n, rest)"
proof -
  assume f: "follows rest"
  have all: "\<And>c. c \<in> set (natStr n) \<Longrightarrow> isDigit c"
    using natStr_digits [of n] by (simp add: list_all_iff)
  have "takeWhile isDigit (natStr n @ rest) = natStr n"
    "dropWhile isDigit (natStr n @ rest) = rest"
    using f all follows_digit by (simp_all add: takeWhile_append2 dropWhile_append2)
  moreover have "\<not> (hd (natStr n) = CHR ''0'' \<and> tl (natStr n) \<noteq> [])"
    using natStr_lead [of n] by (cases "n = 0") (auto simp: natStr_zero)
  moreover have "\<not> (rest \<noteq> [] \<and> hd rest \<in> {CHR ''.'', CHR ''e'', CHR ''E''})"
    using f by (auto simp: follows_def)
  ultimately show ?thesis by (simp add: parseNat_def Let_def)
qed

lemma digit_facts:
  assumes "isDigit c"
  shows "\<not> isJsonSpace c" "c \<noteq> CHR ''-''" "c \<noteq> CHR ''[''" "c \<noteq> CHR ''{''" "c \<noteq> CHR '']''"
    "c \<noteq> char_of (34 :: nat)" "c \<noteq> CHR ''n''" "c \<noteq> CHR ''t''" "c \<noteq> CHR ''f''"
  using assms by (auto simp: isDigit_def isJsonSpace_def Let_def of_char_of)

lemma hd_natStr_digit: "isDigit (hd (natStr n))"
  using natStr_digits [of n] by (cases "natStr n") simp_all

lemma parseInt_intStr: "follows rest \<Longrightarrow> parseInt (intStr i @ rest) = Some (JNum i, rest)"
  using parseNat_natStr [of rest] digit_facts(2) [OF hd_natStr_digit [of "nat i"]]
  by (simp add: parseInt_def intStr_def)

lemma parseChars_backslash:
  "unescape r = Some (d, r') \<Longrightarrow>
    parseChars (char_of (92 :: nat) # r) = map_option (\<lambda>(ds, t). (d # ds, t)) (parseChars r')"
  by (subst parseChars.simps) (simp add: of_char_of)

lemma unescape_escape:
  "unescape (char_of (34 :: nat) # r) = Some (char_of (34 :: nat), r)"
  "unescape (char_of (92 :: nat) # r) = Some (char_of (92 :: nat), r)"
  "unescape (CHR ''b'' # r) = Some (char_of (8 :: nat), r)"
  "unescape (CHR ''t'' # r) = Some (char_of (9 :: nat), r)"
  "unescape (CHR ''n'' # r) = Some (char_of (10 :: nat), r)"
  "unescape (CHR ''f'' # r) = Some (char_of (12 :: nat), r)"
  "unescape (CHR ''r'' # r) = Some (char_of (13 :: nat), r)"
  by (simp_all add: unescape_def of_char_of)

lemma unescape_hex:
  assumes "n < 32"
  shows "unescape (CHR ''u'' # CHR ''0'' # CHR ''0'' # hexDigit (n div 16) # hexDigit (n mod 16) # r) =
    Some (char_of n, r)"
proof -
  have "hexVal (hexDigit (n div 16)) = Some (n div 16)"
    "hexVal (hexDigit (n mod 16)) = Some (n mod 16)" "hexVal (CHR ''0'') = Some 0"
    using assms by (simp_all add: hexVal_hexDigit) (simp add: hexVal_def)
  then show ?thesis by (simp add: unescape_def)
qed

lemma parseChars_escape:
  "parseChars (escapeChar c @ r) = map_option (\<lambda>(ds, t). (c # ds, t)) (parseChars r)"
proof -
  let ?n = "of_char c :: nat"
  have c: "c = char_of ?n" by simp
  consider "?n \<in> {34, 92, 8, 9, 10, 12, 13}" | "?n < 32" "?n \<notin> {8, 9, 10, 12, 13}"
    | "32 \<le> ?n" "?n \<noteq> 34" "?n \<noteq> 92" by fastforce
  then show ?thesis
  proof cases
    case 1
    with c have "c = char_of (34 :: nat) \<or> c = char_of (92 :: nat) \<or> c = char_of (8 :: nat) \<or>
        c = char_of (9 :: nat) \<or> c = char_of (10 :: nat) \<or> c = char_of (12 :: nat) \<or>
        c = char_of (13 :: nat)" by (metis insertE emptyE)
    then show ?thesis
      by (elim disjE)
        (simp_all add: escapeChar_def of_char_of parseChars_backslash unescape_escape)
  next
    case 2
    then have "escapeChar c =
        [char_of (92 :: nat), CHR ''u'', CHR ''0'', CHR ''0'', hexDigit (?n div 16),
         hexDigit (?n mod 16)]" by (simp add: escapeChar_def Let_def)
    with 2 c show ?thesis by (simp add: parseChars_backslash unescape_hex)
  next
    case 3
    then show ?thesis by (subst parseChars.simps) (simp add: escapeChar_def Let_def)
  qed
qed

lemma parseChars_quoted:
  "parseChars (concat (map escapeChar s) @ char_of (34 :: nat) # rest) = Some (s, rest)"
proof (induction s)
  case Nil
  show ?case by (subst parseChars.simps) (simp add: of_char_of)
next
  case (Cons c s)
  then show ?case by (simp add: parseChars_escape)
qed

lemma skipWs_Cons [simp]: "\<not> isJsonSpace c \<Longrightarrow> skipWs (c # r) = c # r"
  by (simp add: skipWs_def)

lemma skipWs_Nil [simp]: "skipWs [] = []"
  by (simp add: skipWs_def)

lemma not_isJsonSpace [simp]:
  "\<not> isJsonSpace (CHR '','')" "\<not> isJsonSpace (CHR '']'')" "\<not> isJsonSpace (CHR ''}'')"
  "\<not> isJsonSpace (CHR ''['')" "\<not> isJsonSpace (CHR ''{'')" "\<not> isJsonSpace (CHR '':'')"
  "\<not> isJsonSpace (CHR ''n'')" "\<not> isJsonSpace (CHR ''t'')" "\<not> isJsonSpace (CHR ''f'')"
  "\<not> isJsonSpace (CHR ''-'')" "\<not> isJsonSpace (char_of (34 :: nat))"
  by (simp_all add: isJsonSpace_def of_char_of)

text \<open>Every printed value starts with a character that is neither space nor a closing bracket.\<close>

lemma stringify_head: "\<exists>c t. stringify v = c # t \<and> \<not> isJsonSpace c \<and> c \<noteq> CHR '']''"
proof (cases v)
  case (JNum i)
  obtain c t where "natStr (nat i) = c # t" by (cases "natStr (nat i)") simp_all
  moreover have "isDigit c" using calculation hd_natStr_digit [of "nat i"] by simp
  ultimately show ?thesis using JNum digit_facts [of c] by (simp add: intStr_def)
qed (auto simp: quoted_def char_of_def bit_simps isJsonSpace_def)

lemma quote_cases: "char_of (34 :: nat) \<noteq> CHR ''[''" "char_of (34 :: nat) \<noteq> CHR ''{''"
  by (simp_all add: char_of_def bit_simps)

lemma parse_scalar:
  assumes "follows rest"
  shows "parseValue (Suc n) (stringify JNull @ rest) = Some (JNull, rest)"
    "parseValue (Suc n) (stringify (JBool b) @ rest) = Some (JBool b, rest)"
    "parseValue (Suc n) (stringify (JStr s) @ rest) = Some (JStr s, rest)"
    "parseValue (Suc n) (stringify (JNum i) @ rest) = Some (JNum i, rest)"
proof -
  show "parseValue (Suc n) (stringify JNull @ rest) = Some (JNull, rest)"
    "parseValue (Suc n) (stringify (JBool b) @ rest) = Some (JBool b, rest)"
    by (simp_all add: startsWith_def char_of_def bit_simps)
  show "parseValue (Suc n) (stringify (JStr s) @ rest) = Some (JStr s, rest)"
    by (simp add: quoted_def quote_cases parseChars_quoted)
  obtain c t where ct: "intStr i @ rest = c # t" and c: "c = CHR ''-'' \<or> isDigit c"
  proof -
    obtain c t where "natStr (nat i) = c # t" by (cases "natStr (nat i)") simp_all
    moreover have "isDigit c" using calculation hd_natStr_digit [of "nat i"] by simp
    ultimately show ?thesis using that by (cases "i < 0") (simp_all add: intStr_def)
  qed
  have "\<not> startsWith (c # t) ''null''" "\<not> startsWith (c # t) ''true''"
    "\<not> startsWith (c # t) ''false''" "c \<noteq> CHR ''[''" "c \<noteq> CHR ''{''"
    "c \<noteq> char_of (34 :: nat)" "\<not> isJsonSpace c"
    using c digit_facts [of c] by (auto simp: startsWith_def char_of_def bit_simps isJsonSpace_def)
  moreover have "parseInt (c # t) = Some (JNum i, rest)"
    using parseInt_intStr [OF assms, of i] ct by simp
  ultimately show "parseValue (Suc n) (stringify (JNum i) @ rest) = Some (JNum i, rest)"
    using ct by simp
qed

lemma joinWith_head:
  "xs \<noteq> [] \<Longrightarrow> \<exists>t. joinWith d (x # xs) = x @ t"
  by (cases xs) auto

lemma parse_elements:
  assumes "vs \<noteq> []"
    and "\<And>v n rest. v \<in> set vs \<Longrightarrow> 2 * length (stringify v) < n \<Longrightarrow> follows rest \<Longrightarrow>
      parseValue n (stringify v @ rest) = Some (v, rest)"
    and "2 * length (joinWith '','' (map stringify vs)) + 1 < n"
  shows "parseElements n (joinWith '','' (map stringify vs) @ CHR '']'' # rest) = Some (vs, rest)"
  using assms
proof (induction vs arbitrary: n)
  case Nil
  then show ?case by simp
next
  case (Cons v vs)
  from Cons.prems(3) obtain m where n: "n = Suc m" by (cases n) auto
  show ?case
  proof (cases "vs = []")
    case True
    have "parseValue m (stringify v @ CHR '']'' # rest) = Some (v, CHR '']'' # rest)"
      using Cons.prems(3) n True by (intro Cons.prems(2)) simp_all
    with True n show ?thesis by simp
  next
    case False
    let ?J = "joinWith '','' (map stringify vs)"
    have J: "joinWith '','' (map stringify (v # vs)) = stringify v @ CHR '','' # ?J"
      using False by (cases vs) simp_all
    have "parseValue m (stringify v @ CHR '','' # ?J @ CHR '']'' # rest) =
        Some (v, CHR '','' # ?J @ CHR '']'' # rest)"
      using Cons.prems(3) n J by (intro Cons.prems(2)) simp_all
    moreover have "parseElements m (?J @ CHR '']'' # rest) = Some (vs, rest)"
    proof (rule Cons.IH [OF False])
      show "2 * length ?J + 1 < m" using Cons.prems(3) n J by simp
    qed (use Cons.prems(2) in auto)
    ultimately show ?thesis using J n by simp
  qed
qed

lemma parse_members:
  assumes "kvs \<noteq> []"
    and "\<And>k v n rest. (k, v) \<in> set kvs \<Longrightarrow> 2 * length (stringify v) < n \<Longrightarrow> follows rest \<Longrightarrow>
      parseValue n (stringify v @ rest) = Some (v, rest)"
    and "2 * length (joinWith '','' (map (\<lambda>(k, v). quoted k @ '':'' @ stringify v) kvs)) + 1 < n"
  shows "parseMembers n (joinWith '','' (map (\<lambda>(k, v). quoted k @ '':'' @ stringify v) kvs) @
    CHR ''}'' # rest) = Some (kvs, rest)"
  using assms
proof (induction kvs arbitrary: n)
  case Nil
  then show ?case by simp
next
  case (Cons kv kvs)
  obtain k v where kv: "kv = (k, v)" by (cases kv)
  let ?m = "map (\<lambda>(k, v). quoted k @ '':'' @ stringify v)"
  have q: "quoted k @ r = char_of (34 :: nat) # concat (map escapeChar k) @ char_of (34 :: nat) # r"
    for r by (simp add: quoted_def)
  from Cons.prems(3) obtain m where n: "n = Suc m" by (cases n) auto
  show ?case
  proof (cases "kvs = []")
    case True
    have "parseValue m (stringify v @ CHR ''}'' # rest) = Some (v, CHR ''}'' # rest)"
      using Cons.prems(3) n True kv by (intro Cons.prems(2)) (simp_all add: quoted_def)
    with True n kv show ?thesis by (simp add: q parseChars_quoted)
  next
    case False
    let ?J = "joinWith '','' (?m kvs)"
    have J: "joinWith '','' (?m (kv # kvs)) = quoted k @ CHR '':'' # stringify v @ CHR '','' # ?J"
      using False kv by (cases kvs) simp_all
    have len: "length (joinWith '','' (?m (kv # kvs))) =
        length (quoted k) + 2 + length (stringify v) + length ?J" by (simp only: J) simp
    have bounds: "2 * length (stringify v) < m" "2 * length ?J + 1 < m"
      using Cons.prems(3) unfolding len n by simp_all
    have "parseValue m (stringify v @ CHR '','' # ?J @ CHR ''}'' # rest) =
        Some (v, CHR '','' # ?J @ CHR ''}'' # rest)"
      using bounds(1) kv by (intro Cons.prems(2) [of k]) simp_all
    moreover have "parseMembers m (?J @ CHR ''}'' # rest) = Some (kvs, rest)"
      by (rule Cons.IH [OF False _ bounds(2)]) (use Cons.prems(2) in auto)
    moreover have eq: "joinWith '','' (?m (kv # kvs)) @ CHR ''}'' # rest =
        char_of (34 :: nat) # concat (map escapeChar k) @ char_of (34 :: nat) # CHR '':'' #
          stringify v @ CHR '','' # ?J @ CHR ''}'' # rest"
      unfolding J q [of "CHR '':'' # stringify v @ CHR '','' # ?J @ CHR ''}'' # rest", symmetric]
      by simp
    ultimately show ?thesis unfolding eq n by (simp add: parseChars_quoted kv)
  qed
qed

lemma parse_stringify:
  "2 * length (stringify v) < n \<Longrightarrow> follows rest \<Longrightarrow>
    parseValue n (stringify v @ rest) = Some (v, rest)"
proof (induction v arbitrary: n rest)
  case (JArr vs)
  from JArr.prems(1) obtain m where n: "n = Suc m" by (cases n) auto
  show ?case
  proof (cases "vs = []")
    case True
    then show ?thesis using n by simp
  next
    case False
    let ?J = "joinWith '','' (map stringify vs)"
    have "parseElements m (?J @ CHR '']'' # rest) = Some (vs, rest)"
    proof (rule parse_elements [OF False])
      show "2 * length ?J + 1 < m" using JArr.prems(1) n by simp
    qed (use JArr.IH in auto)
    moreover obtain c t where "?J = c # t" "\<not> isJsonSpace c" "c \<noteq> CHR '']''"
    proof -
      obtain v ws where v: "vs = v # ws" using False by (cases vs) auto
      obtain c t where "stringify v = c # t" "\<not> isJsonSpace c" "c \<noteq> CHR '']''"
        using stringify_head [of v] by blast
      with v that show ?thesis by (cases ws) auto
    qed
    ultimately show ?thesis using n by simp
  qed
next
  case (JObj kvs)
  from JObj.prems(1) obtain m where n: "n = Suc m" by (cases n) auto
  show ?case
  proof (cases "kvs = []")
    case True
    then show ?thesis using n by simp
  next
    case False
    let ?J = "joinWith '','' (map (\<lambda>(k, v). quoted k @ '':'' @ stringify v) kvs)"
    have "parseMembers m (?J @ CHR ''}'' # rest) = Some (kvs, rest)"
    proof (rule parse_members [OF False])
      show "2 * length ?J + 1 < m" using JObj.prems(1) n by simp
    qed (use JObj.IH in \<open>auto\<close>)
    moreover obtain t where "?J = char_of (34 :: nat) # t"
    proof -
      obtain kv ws where v: "kvs = kv # ws" using False by (cases kvs) auto
      with that show ?thesis by (cases ws; cases kv) (auto simp: quoted_def)
    qed
    moreover have "char_of (34 :: nat) \<noteq> CHR ''}''" by (simp add: char_of_def bit_simps)
    ultimately show ?thesis using n by simp
  qed
qed (metis parse_scalar gr_implies_not0 not0_implies_Suc)+

theorem jsonParse_stringify [simp]: "jsonParse (stringify v) = Some v"
  using parse_stringify [of v "2 * length (stringify v) + 2" "[]"]
  by (simp add: jsonParse_def)

end
