(* ===== verification/StatusListTypes.thy ===== *)
theory StatusListTypes
  imports Json Tables
begin

text \<open>
  Vocabulary of the revocation module (\<^verbatim>\<open>identity-core/src/revocation\<close>): the types
  and constants of \<^verbatim>\<open>status-list.types.ts\<close>, the errors of
  \<^verbatim>\<open>revocation.errors.ts\<close>, and the parameters that stand for code outside the
  repository: the library \<open>@sd-jwt/jwt-status-list\<close>, the key service that signs and the
  message bus.
\<close>

section \<open>Dates as text\<close>

text \<open>Day of the month of a day since the epoch, as in \<open>civilYearMonth\<close>.\<close>

definition civilDay :: "int \<Rightarrow> int" where
  "civilDay days =
     (let z = days + 719468; doe = z mod 146097;
          yoe = (doe - doe div 1460 + doe div 36524 - doe div 146096) div 365;
          doy = doe - (365 * yoe + yoe div 4 - yoe div 100);
          mp = (5 * doy + 2) div 153
      in doy - (153 * mp + 2) div 5 + 1)"

definition padTo :: "nat \<Rightarrow> string \<Rightarrow> string" where
  "padTo k s = replicate (k - length s) (CHR ''0'') @ s"

text \<open>\<open>Date.prototype.toISOString\<close>.\<close>

definition isoYear :: "int \<Rightarrow> string" where
  "isoYear y =
     (if 0 \<le> y \<and> y \<le> 9999 then padTo 4 (intStr y)
      else if y < 0 then CHR ''-'' # padTo 6 (intStr (- y))
      else CHR ''+'' # padTo 6 (intStr y))"

definition toISOString :: "millis \<Rightarrow> string" where
  "toISOString t =
     (let ms = t mod 86400000 in
      isoYear (utcFullYear t) @ ''-'' @ padTo 2 (intStr (utcMonth t + 1)) @ ''-'' @
      padTo 2 (intStr (civilDay (dayOf t))) @ ''T'' @
      padTo 2 (intStr (ms div 3600000)) @ '':'' @ padTo 2 (intStr (ms div 60000 mod 60)) @ '':'' @
      padTo 2 (intStr (ms div 1000 mod 60)) @ ''.'' @ padTo 3 (intStr (ms mod 1000)) @ ''Z'')"

section \<open>Types\<close>

definition STATUS_TYPE_VALID :: int where "STATUS_TYPE_VALID = 0"
definition STATUS_TYPE_INVALID :: int where "STATUS_TYPE_INVALID = 1"
definition STATUS_TYPE_SUSPENDED :: int where "STATUS_TYPE_SUSPENDED = 2"
definition STATUS_TYPE_UNRECOGNIZED :: int where "STATUS_TYPE_UNRECOGNIZED = 15"

lemmas status_types =
  STATUS_TYPE_VALID_def STATUS_TYPE_INVALID_def STATUS_TYPE_SUSPENDED_def
  STATUS_TYPE_UNRECOGNIZED_def

record statusListEntry =
  idx :: int
  uri :: string

record statusListInfo =
  li_id :: string
  li_walletId :: string
  li_vct :: string
  li_bits :: int
  li_capacity :: int
  li_compressed :: string
  li_nextIndex :: int
  li_revokedCount :: int
  li_lastUpdatedAt :: "millis option"
  li_createdAt :: millis
  li_updatedAt :: millis

record createStatusListParams =
  cs_walletId :: string
  cs_vct :: string
  cs_bits :: "int option"
  cs_capacity :: "int option"

record allocateIndexParams =
  al_walletId :: string
  al_vct :: string
  al_credentialId :: "string option"
  al_preferredIndex :: "int option"

record revokeParams =
  rp_walletId :: string
  rp_vct :: string
  rp_index :: int
  rp_reason :: "string option"
  rp_revokedBy :: "string option"

record signerMetadata =
  sg_did :: string
  sg_keyId :: string
  sg_kid :: string
  sg_alg :: "string option"

text \<open>\<open>kms.sign\<close> is the key service: key, algorithm and data to a signature.\<close>

record signerOptions = signerMetadata +
  sg_sign :: "string \<Rightarrow> string \<Rightarrow> bytes \<Rightarrow> string + bytes"

record getStatusResult =
  gs_status :: int
  gs_updatedAt :: "millis option"

record getStatusListJwtResult =
  sj_jwt :: string
  sj_uri :: string

section \<open>Errors\<close>

text \<open>
  The classes of \<^verbatim>\<open>revocation.errors.ts\<close>, and what the code below them throws:
  a database error with its SQLSTATE, an error of the status list library, of the signer, or a
  range error of the runtime.
\<close>

datatype revError =
    StatusListNotFoundError string string
  | NoFreeIndexError string string int
  | IndexOutOfBoundsError int int
  | InvalidStatusListJwtError string
  | StatusListExpiredError int
  | StatusListSignatureError string
  | CredentialAlreadyRevokedError int
  | DbError string
  | LibError string
  | SignerError string
  | RangeError string

fun errorCode :: "revError \<Rightarrow> string option" where
  "errorCode (StatusListNotFoundError _ _) = Some ''STATUS_LIST_NOT_FOUND''"
| "errorCode (NoFreeIndexError _ _ _) = Some ''NO_FREE_INDEX''"
| "errorCode (IndexOutOfBoundsError _ _) = Some ''INDEX_OUT_OF_BOUNDS''"
| "errorCode (InvalidStatusListJwtError _) = Some ''INVALID_STATUS_LIST_JWT''"
| "errorCode (StatusListExpiredError _) = Some ''STATUS_LIST_EXPIRED''"
| "errorCode (StatusListSignatureError _) = Some ''STATUS_LIST_SIGNATURE_INVALID''"
| "errorCode (CredentialAlreadyRevokedError _) = Some ''CREDENTIAL_ALREADY_REVOKED''"
| "errorCode (DbError c) = Some c"
| "errorCode _ = None"

text \<open>\<open>error.message\<close>; the texts of database errors are not the repository's.\<close>

fun errorMessage :: "revError \<Rightarrow> string" where
  "errorMessage (StatusListNotFoundError w v) =
     ''StatusList not found for walletId='' @ w @ '', vct='' @ v"
| "errorMessage (NoFreeIndexError w v c) =
     ''No free index available in StatusList for walletId='' @ w @ '', vct='' @ v @
     ''. Capacity: '' @ intStr c"
| "errorMessage (IndexOutOfBoundsError i c) =
     ''Index '' @ intStr i @ '' is out of bounds. Capacity: '' @ intStr c"
| "errorMessage (InvalidStatusListJwtError r) = ''Invalid StatusList JWT: '' @ r"
| "errorMessage (StatusListExpiredError t) =
     ''StatusList JWT expired at '' @ toISOString (t * 1000)"
| "errorMessage (StatusListSignatureError i) =
     ''Failed to verify signature of StatusList JWT issued by '' @ i"
| "errorMessage (CredentialAlreadyRevokedError i) =
     ''Credential at index '' @ intStr i @ '' is already revoked''"
| "errorMessage (DbError c) = c"
| "errorMessage (LibError m) = m"
| "errorMessage (SignerError m) = m"
| "errorMessage (RangeError m) = m"

section \<open>The status list library\<close>

text \<open>
  \<open>StatusList\<close> of \<open>@sd-jwt/jwt-status-list\<close>: its constructor, accessors, text form
  and JWT helpers. \<open>list.setStatus\<close> changes the object in place; every list of the code is
  local to one operation, so the changed object is returned.
\<close>

record 'l statusLib =
  newList :: "int list \<Rightarrow> int \<Rightarrow> string + 'l"
  entries :: "'l \<Rightarrow> int list"
  bitsOf :: "'l \<Rightarrow> int"
  readEntry :: "'l \<Rightarrow> int \<Rightarrow> string + int"
  writeEntry :: "'l \<Rightarrow> int \<Rightarrow> int \<Rightarrow> string + 'l"
  compressList :: "'l \<Rightarrow> string"
  decompressList :: "string \<Rightarrow> int \<Rightarrow> string + 'l"
  createHeaderAndPayload :: "'l \<Rightarrow> json \<Rightarrow> json \<Rightarrow> string + json \<times> json"
  listFromJwt :: "string \<Rightarrow> string + 'l"
  entryFromJwt :: "string \<Rightarrow> string + statusListEntry"

definition validBits :: "int \<Rightarrow> bool" where
  "validBits b \<longleftrightarrow> b \<in> {1, 2, 4, 8}"

definition well_formed :: "'l statusLib \<Rightarrow> 'l \<Rightarrow> bool" where
  "well_formed L l \<longleftrightarrow>
     validBits (bitsOf L l) \<and> (\<forall>x\<in>set (entries L l). 0 \<le> x \<and> x < 2 ^ nat (bitsOf L l))"

definition inRange :: "'l statusLib \<Rightarrow> 'l \<Rightarrow> int \<Rightarrow> bool" where
  "inRange L l i \<longleftrightarrow> 0 \<le> i \<and> i < int (length (entries L l))"

text \<open>
  What the documentation of the library promises: the constructor keeps the entries it is
  given, an index outside the list is refused, decompression gives the entries back and fills
  the last byte with zeros, the payload gains the \<open>status_list\<close> claim, and the helpers read
  a compact JWT without verifying it.
\<close>

definition compactJwt :: "string \<Rightarrow> json \<Rightarrow> string \<Rightarrow> string" where
  "compactJwt h p s = h @ ''.'' @ toBase64url (textBytes (stringify p)) @ ''.'' @ s"

definition status_claim :: "int \<Rightarrow> string \<Rightarrow> json" where
  "status_claim b lst = JObj [(''bits'', JNum b), (''lst'', JStr lst)]"

definition lib_constructs :: "'l statusLib \<Rightarrow> bool" where
  "lib_constructs L \<longleftrightarrow>
     (\<forall>xs b. validBits b \<and> (\<forall>x\<in>set xs. 0 \<le> x \<and> x < 2 ^ nat b) \<longrightarrow>
        (\<exists>l. newList L xs b = Inr l \<and> entries L l = xs \<and> bitsOf L l = b)) \<and>
     (\<forall>xs b. \<not> validBits b \<longrightarrow> isl (newList L xs b))"

definition lib_reads :: "'l statusLib \<Rightarrow> bool" where
  "lib_reads L \<longleftrightarrow>
     (\<forall>l i. if inRange L l i then readEntry L l i = Inr (entries L l ! nat i)
        else isl (readEntry L l i))"

definition lib_writes :: "'l statusLib \<Rightarrow> bool" where
  "lib_writes L \<longleftrightarrow>
     (\<forall>l i v. if inRange L l i
        then \<exists>l'. writeEntry L l i v = Inr l' \<and> entries L l' = (entries L l)[nat i := v] \<and>
          bitsOf L l' = bitsOf L l
        else isl (writeEntry L l i v))"

definition lib_codec :: "'l statusLib \<Rightarrow> bool" where
  "lib_codec L \<longleftrightarrow>
     (\<forall>l. well_formed L l \<longrightarrow>
        (\<exists>l' k. decompressList L (compressList L l) (bitsOf L l) = Inr l' \<and>
          entries L l' = entries L l @ replicate k 0 \<and> bitsOf L l' = bitsOf L l))"

definition lib_payloads :: "'l statusLib \<Rightarrow> bool" where
  "lib_payloads L \<longleftrightarrow>
     (\<forall>l kvs h. ''status_list'' \<notin> fst ` set kvs \<and> {''iss'', ''sub'', ''iat''} \<subseteq> fst ` set kvs \<longrightarrow>
        createHeaderAndPayload L l (JObj kvs) h =
          Inr (h, JObj (kvs @ [(''status_list'', status_claim (bitsOf L l) (compressList L l))])))"

definition lib_jwts :: "'l statusLib \<Rightarrow> bool" where
  "lib_jwts L \<longleftrightarrow>
     (\<forall>h p s b lst. jsonField ''status_list'' p = Some (status_claim b lst) \<and>
        CHR ''.'' \<notin> set h \<and> CHR ''.'' \<notin> set s \<longrightarrow>
        listFromJwt L (compactJwt h p s) = decompressList L lst b)"

definition lib_ok :: "'l statusLib \<Rightarrow> bool" where
  "lib_ok L \<longleftrightarrow> lib_constructs L \<and> lib_reads L \<and> lib_writes L \<and> lib_codec L \<and>
     lib_payloads L \<and> lib_jwts L"

end
