(* ===== verification/StatusListStore.thy ===== *)
theory StatusListStore
  imports StatusListTypes
begin

text \<open>
  Persistence of status lists: the Postgres adapter
  (\<^verbatim>\<open>revocation/postgres-status-list.storage.ts\<close>) over its two tables, the
  transactional variant it hands to \<open>withTransaction\<close>, and the port both implement
  (\<^verbatim>\<open>status-list-storage.interface.ts\<close>) as the locale \<open>status_list_storage\<close>.

  Every query may fail: \<open>F n\<close> is the SQLSTATE the \<open>n\<close>-th query of the process fails
  with, if it does. A statement that fails has no effect, and a failed \<open>COMMIT\<close> counts as one
  that did not happen. \<open>await this.ready\<close> always resolves, because the constructor catches what
  its initialisation throws, so it is not a step.
\<close>

section \<open>Tables\<close>

record statusListRow =
  sl_id :: string
  sl_wallet_id :: string
  sl_vct :: string
  sl_bits :: int
  sl_capacity :: int
  sl_compressed_bitstring :: string
  sl_next_index :: int
  sl_revoked_count :: int
  sl_last_updated_at :: "millis option"
  sl_created_at :: millis
  sl_updated_at :: millis

record revocationRow =
  rv_id :: string
  rv_status_list_id :: string
  rv_index :: int
  rv_credential_id :: "string option"
  rv_reason :: "string option"
  rv_revoked_by :: "string option"
  rv_revoked_at :: millis

record statusDb =
  statusLists :: "statusListRow list"
  revocations :: "revocationRow list"
  dbUuids :: nat
  dbQueries :: nat
  dbClock :: millis
  dbEvents :: "(string \<times> json) list"

type_synonym 'a storage = "(statusDb, revError, 'a) op"
type_synonym faults = "nat \<Rightarrow> string option"

text \<open>A revocation as the port returns it.\<close>

record revocationInfo =
  ri_id :: string
  ri_index :: int
  ri_credentialId :: "string option"
  ri_reason :: "string option"
  ri_revokedBy :: "string option"
  ri_revokedAt :: millis

definition toStatusListInfo :: "statusListRow \<Rightarrow> statusListInfo" where
  "toStatusListInfo row = \<lparr>
     li_id = sl_id row, li_walletId = sl_wallet_id row, li_vct = sl_vct row,
     li_bits = sl_bits row, li_capacity = sl_capacity row,
     li_compressed = sl_compressed_bitstring row, li_nextIndex = sl_next_index row,
     li_revokedCount = sl_revoked_count row, li_lastUpdatedAt = sl_last_updated_at row,
     li_createdAt = sl_created_at row, li_updatedAt = sl_updated_at row\<rparr>"

section \<open>Statements\<close>

definition query :: "faults \<Rightarrow> 'a storage \<Rightarrow> 'a storage" where
  "query F statement = (\<lambda>s.
     let s' = s\<lparr>dbQueries := Suc (dbQueries s)\<rparr> in
     case F (dbQueries s) of Some code \<Rightarrow> (Inl (DbError code), s') | None \<Rightarrow> statement s')"

text \<open>Column types: \<open>INT\<close> is a signed 32-bit integer, \<open>VARCHAR(n)\<close> is bounded.\<close>

definition fitsInt :: "int \<Rightarrow> bool" where
  "fitsInt i \<longleftrightarrow> - (2 ^ 31) \<le> i \<and> i < 2 ^ 31"

definition fitsVarchar :: "nat \<Rightarrow> string option \<Rightarrow> bool" where
  "fitsVarchar n v \<longleftrightarrow> (case v of None \<Rightarrow> True | Some t \<Rightarrow> length t \<le> n)"

definition outOfRange :: revError where "outOfRange = DbError ''22003''"
definition tooLong :: revError where "tooLong = DbError ''22001''"
definition uniqueViolation :: revError where "uniqueViolation = DbError ''23505''"
definition foreignKeyViolation :: revError where "foreignKeyViolation = DbError ''23503''"

definition selectByWalletAndVct :: "string \<Rightarrow> string \<Rightarrow> statusListRow option storage" where
  "selectByWalletAndVct walletId vct =
     gets (\<lambda>s. find (\<lambda>r. sl_wallet_id r = walletId \<and> sl_vct r = vct) (statusLists s))"

definition selectById :: "string \<Rightarrow> statusListRow option storage" where
  "selectById i = gets (\<lambda>s. rowAt sl_id i (statusLists s))"

definition insertStatusList ::
  "(nat \<Rightarrow> string) \<Rightarrow> string \<Rightarrow> string \<Rightarrow> int \<Rightarrow> int \<Rightarrow> string \<Rightarrow> int \<Rightarrow> statusListRow storage" where
  "insertStatusList uuid walletId vct bits capacity compressed nextIndex = (\<lambda>s.
     if 128 < length walletId \<or> 256 < length vct then (Inl tooLong, s)
     else if \<not> (fitsInt bits \<and> fitsInt capacity \<and> fitsInt nextIndex) then (Inl outOfRange, s)
     else if \<exists>r\<in>set (statusLists s). sl_wallet_id r = walletId \<and> sl_vct r = vct
       then (Inl uniqueViolation, s\<lparr>dbUuids := Suc (dbUuids s)\<rparr>)
     else
       let row = \<lparr>sl_id = uuid (dbUuids s), sl_wallet_id = walletId, sl_vct = vct, sl_bits = bits,
             sl_capacity = capacity, sl_compressed_bitstring = compressed,
             sl_next_index = nextIndex, sl_revoked_count = 0, sl_last_updated_at = None,
             sl_created_at = dbClock s, sl_updated_at = dbClock s\<rparr>
       in (Inr row, s\<lparr>statusLists := statusLists s @ [row], dbUuids := Suc (dbUuids s)\<rparr>))"

definition updateBitstring :: "string \<Rightarrow> string \<Rightarrow> int \<Rightarrow> unit storage" where
  "updateBitstring i compressed nextIndex = (\<lambda>s.
     if \<not> fitsInt nextIndex then (Inl outOfRange, s)
     else (Inr (), s\<lparr>statusLists := updateWhere (\<lambda>r. sl_id r = i)
       (\<lambda>r. r\<lparr>sl_compressed_bitstring := compressed, sl_next_index := nextIndex,
         sl_last_updated_at := Some (dbClock s), sl_updated_at := dbClock s\<rparr>) (statusLists s)\<rparr>))"

definition bumpRevokedCount :: "string \<Rightarrow> unit storage" where
  "bumpRevokedCount i = (\<lambda>s.
     if \<exists>r\<in>set (statusLists s). sl_id r = i \<and> \<not> fitsInt (sl_revoked_count r + 1)
       then (Inl outOfRange, s)
     else (Inr (), s\<lparr>statusLists := updateWhere (\<lambda>r. sl_id r = i)
       (\<lambda>r. r\<lparr>sl_revoked_count := sl_revoked_count r + 1\<rparr>) (statusLists s)\<rparr>))"

definition atIndex :: "string \<Rightarrow> int \<Rightarrow> revocationRow \<Rightarrow> bool" where
  "atIndex listId i r \<longleftrightarrow> rv_status_list_id r = listId \<and> rv_index r = i"

definition insertRevocation ::
  "(nat \<Rightarrow> string) \<Rightarrow> string \<Rightarrow> int \<Rightarrow> string option \<Rightarrow> string option \<Rightarrow> string option \<Rightarrow> unit storage" where
  "insertRevocation uuid listId i credentialId reason revokedBy = (\<lambda>s.
     if \<not> fitsInt i then (Inl outOfRange, s)
     else if \<not> (fitsVarchar 256 credentialId \<and> fitsVarchar 256 reason \<and> fitsVarchar 128 revokedBy)
       then (Inl tooLong, s)
     else if \<exists>r\<in>set (revocations s). atIndex listId i r
       then (Inl uniqueViolation, s\<lparr>dbUuids := Suc (dbUuids s)\<rparr>)
     else if listId \<notin> sl_id ` set (statusLists s)
       then (Inl foreignKeyViolation, s\<lparr>dbUuids := Suc (dbUuids s)\<rparr>)
     else (Inr (), s\<lparr>revocations := revocations s @ [\<lparr>rv_id = uuid (dbUuids s),
         rv_status_list_id = listId, rv_index = i, rv_credential_id = credentialId,
         rv_reason = reason, rv_revoked_by = revokedBy, rv_revoked_at = dbClock s\<rparr>],
         dbUuids := Suc (dbUuids s)\<rparr>))"

definition selectRevocation :: "string \<Rightarrow> int \<Rightarrow> revocationRow option storage" where
  "selectRevocation listId i = (\<lambda>s.
     if \<not> fitsInt i then (Inl outOfRange, s)
     else (Inr (find (atIndex listId i) (revocations s)), s))"

text \<open>\<open>COALESCE(new, old)\<close>.\<close>

definition sqlCoalesce :: "'a option \<Rightarrow> 'a option \<Rightarrow> 'a option" where
  "sqlCoalesce v old = (case v of None \<Rightarrow> old | Some x \<Rightarrow> Some x)"

definition reviseRevocation ::
  "string \<Rightarrow> int \<Rightarrow> string option \<Rightarrow> string option \<Rightarrow> unit storage" where
  "reviseRevocation listId i reason revokedBy = (\<lambda>s.
     if \<not> fitsInt i then (Inl outOfRange, s)
     else if \<not> (fitsVarchar 256 reason \<and> fitsVarchar 128 revokedBy) \<and>
        (\<exists>r\<in>set (revocations s). atIndex listId i r) then (Inl tooLong, s)
     else (Inr (), s\<lparr>revocations := updateWhere (atIndex listId i)
       (\<lambda>r. r\<lparr>rv_reason := sqlCoalesce reason (rv_reason r),
         rv_revoked_by := sqlCoalesce revokedBy (rv_revoked_by r),
         rv_revoked_at := dbClock s\<rparr>) (revocations s)\<rparr>))"

text \<open>A unique violation of the audit table is the index already revoked.\<close>

definition auditError :: "int \<Rightarrow> revError \<Rightarrow> 'a storage" where
  "auditError i e = throw (if e = uniqueViolation then CredentialAlreadyRevokedError i else e)"

definition toRevocationInfo :: "revocationRow \<Rightarrow> revocationInfo" where
  "toRevocationInfo r = \<lparr>ri_id = rv_id r, ri_index = rv_index r,
     ri_credentialId = rv_credential_id r, ri_reason = rv_reason r,
     ri_revokedBy = rv_revoked_by r, ri_revokedAt = rv_revoked_at r\<rparr>"

section \<open>The adapter over the pool\<close>

definition findByWalletAndVct :: "faults \<Rightarrow> string \<Rightarrow> string \<Rightarrow> statusListInfo option storage" where
  "findByWalletAndVct F walletId vct =
     andThen (query F (selectByWalletAndVct walletId vct)) (\<lambda>row. ret (map_option toStatusListInfo row))"

definition findById :: "faults \<Rightarrow> string \<Rightarrow> statusListInfo option storage" where
  "findById F i = andThen (query F (selectById i)) (\<lambda>row. ret (map_option toStatusListInfo row))"

definition create ::
  "faults \<Rightarrow> (nat \<Rightarrow> string) \<Rightarrow> string \<Rightarrow> string \<Rightarrow> int \<Rightarrow> int \<Rightarrow> string \<Rightarrow> int \<Rightarrow> statusListInfo storage" where
  "create F uuid walletId vct bits capacity compressed nextIndex =
     andThen (query F (insertStatusList uuid walletId vct bits capacity compressed nextIndex))
       (\<lambda>row. ret (toStatusListInfo row))"

definition updateCompressedBitstring :: "faults \<Rightarrow> string \<Rightarrow> string \<Rightarrow> int \<Rightarrow> unit storage" where
  "updateCompressedBitstring F i compressed nextIndex =
     query F (updateBitstring i compressed nextIndex)"

definition incrementRevokedCount :: "faults \<Rightarrow> string \<Rightarrow> unit storage" where
  "incrementRevokedCount F i = query F (bumpRevokedCount i)"

definition saveRevocation ::
  "faults \<Rightarrow> (nat \<Rightarrow> string) \<Rightarrow> string \<Rightarrow> int \<Rightarrow> string option \<Rightarrow> string option \<Rightarrow> string option \<Rightarrow>
    unit storage" where
  "saveRevocation F uuid listId i credentialId reason revokedBy =
     catching (query F (insertRevocation uuid listId i credentialId reason revokedBy)) (auditError i)"

definition findRevocation :: "faults \<Rightarrow> string \<Rightarrow> int \<Rightarrow> revocationInfo option storage" where
  "findRevocation F listId i =
     andThen (query F (selectRevocation listId i)) (\<lambda>row. ret (map_option toRevocationInfo row))"

definition updateRevocation ::
  "faults \<Rightarrow> string \<Rightarrow> int \<Rightarrow> string option \<Rightarrow> string option \<Rightarrow> unit storage" where
  "updateRevocation F listId i reason revokedBy = query F (reviseRevocation listId i reason revokedBy)"

text \<open>
  \<open>BEGIN\<close>, the body on one connection, \<open>COMMIT\<close>. What the body or the commit throws is thrown
  again after \<open>ROLLBACK\<close>, whose own failure is ignored: the server discards the transaction
  when the connection is released or lost.
\<close>

definition rollback :: "statusDb \<Rightarrow> statusDb \<Rightarrow> statusDb" where
  "rollback before s = s\<lparr>statusLists := statusLists before, revocations := revocations before,
     dbQueries := Suc (dbQueries s)\<rparr>"

definition withTransaction :: "faults \<Rightarrow> 'a storage \<Rightarrow> 'a storage" where
  "withTransaction F body = andThen (query F (ret ())) (\<lambda>_. (\<lambda>s.
     case andThen (query F (ret ())) (\<lambda>_.
            andThen body (\<lambda>result.
              andThen (query F (ret ())) (\<lambda>_. ret result))) s of
       (Inr result, s') \<Rightarrow> (Inr result, s')
     | (Inl e, s') \<Rightarrow> (Inl e, rollback s s')))"

section \<open>The adapter over one connection\<close>

definition runTx :: "faults \<Rightarrow> 'a storage \<Rightarrow> 'a storage" where
  "runTx F statement = query F statement"

definition txFindByWalletAndVct :: "faults \<Rightarrow> string \<Rightarrow> string \<Rightarrow> statusListInfo option storage" where
  "txFindByWalletAndVct F walletId vct =
     andThen (runTx F (selectByWalletAndVct walletId vct)) (\<lambda>row. ret (map_option toStatusListInfo row))"

definition txFindById :: "faults \<Rightarrow> string \<Rightarrow> statusListInfo option storage" where
  "txFindById F i = andThen (runTx F (selectById i)) (\<lambda>row. ret (map_option toStatusListInfo row))"

definition txCreate ::
  "faults \<Rightarrow> (nat \<Rightarrow> string) \<Rightarrow> string \<Rightarrow> string \<Rightarrow> int \<Rightarrow> int \<Rightarrow> string \<Rightarrow> int \<Rightarrow> statusListInfo storage" where
  "txCreate F uuid walletId vct bits capacity compressed nextIndex =
     andThen (runTx F (insertStatusList uuid walletId vct bits capacity compressed nextIndex))
       (\<lambda>row. ret (toStatusListInfo row))"

definition txUpdateCompressedBitstring :: "faults \<Rightarrow> string \<Rightarrow> string \<Rightarrow> int \<Rightarrow> unit storage" where
  "txUpdateCompressedBitstring F i compressed nextIndex =
     runTx F (updateBitstring i compressed nextIndex)"

definition txIncrementRevokedCount :: "faults \<Rightarrow> string \<Rightarrow> unit storage" where
  "txIncrementRevokedCount F i = runTx F (bumpRevokedCount i)"

definition txSaveRevocation ::
  "faults \<Rightarrow> (nat \<Rightarrow> string) \<Rightarrow> string \<Rightarrow> int \<Rightarrow> string option \<Rightarrow> string option \<Rightarrow> string option \<Rightarrow>
    unit storage" where
  "txSaveRevocation F uuid listId i credentialId reason revokedBy =
     catching (runTx F (insertRevocation uuid listId i credentialId reason revokedBy)) (auditError i)"

definition txFindRevocation :: "faults \<Rightarrow> string \<Rightarrow> int \<Rightarrow> revocationInfo option storage" where
  "txFindRevocation F listId i =
     andThen (runTx F (selectRevocation listId i)) (\<lambda>row. ret (map_option toRevocationInfo row))"

definition txUpdateRevocation ::
  "faults \<Rightarrow> string \<Rightarrow> int \<Rightarrow> string option \<Rightarrow> string option \<Rightarrow> unit storage" where
  "txUpdateRevocation F listId i reason revokedBy = runTx F (reviseRevocation listId i reason revokedBy)"

definition txWithTransaction :: "'a storage \<Rightarrow> 'a storage" where
  "txWithTransaction body = body"

end
