(* ===== verification/StatusLists.thy ===== *)
theory StatusLists
  imports StatusListStore
begin

text \<open>
  \<^verbatim>\<open>revocation/status-list.service.ts\<close>: the operations on a status list in memory and the
  signed JWT it is published as, over the library parameter \<open>statusLib\<close>. An error the library
  throws is \<open>LibError\<close>; results are sums because these methods have no other effect.
\<close>

fun fromLib :: "string + 'a \<Rightarrow> revError + 'a" where
  "fromLib (Inl m) = Inl (LibError m)"
| "fromLib (Inr a) = Inr a"

definition lift :: "revError + 'a \<Rightarrow> 'a storage" where
  "lift r = (\<lambda>s. (r, s))"

lemma lift_run [simp]: "lift r s = (r, s)"
  by (simp add: lift_def)

section \<open>The bitstring\<close>

text \<open>\<open>new Array(capacity).fill(0)\<close>: the length of an array is below \<open>2 ^ 32\<close>.\<close>

definition createEmptyList :: "'l statusLib \<Rightarrow> int \<Rightarrow> int \<Rightarrow> revError + 'l" where
  "createEmptyList L bits capacity =
     (if capacity < 0 \<or> 2 ^ 32 \<le> capacity then Inl (RangeError ''Invalid array length'')
      else fromLib (newList L (replicate (nat capacity) 0) bits))"

definition setStatus :: "'l statusLib \<Rightarrow> 'l \<Rightarrow> int \<Rightarrow> int \<Rightarrow> revError + 'l" where
  "setStatus L list i value = fromLib (writeEntry L list i value)"

definition listStatus :: "'l statusLib \<Rightarrow> 'l \<Rightarrow> int \<Rightarrow> revError + int" where
  "listStatus L list i = fromLib (readEntry L list i)"

definition getBitsPerStatus :: "'l statusLib \<Rightarrow> 'l \<Rightarrow> int" where
  "getBitsPerStatus L list = bitsOf L list"

definition compress :: "'l statusLib \<Rightarrow> 'l \<Rightarrow> string" where
  "compress L list = compressList L list"

definition decompress :: "'l statusLib \<Rightarrow> string \<Rightarrow> int \<Rightarrow> revError + 'l" where
  "decompress L compressed bits = fromLib (decompressList L compressed bits)"

definition getCapacity :: "'l statusLib \<Rightarrow> 'l \<Rightarrow> int" where
  "getCapacity L list = int (length (entries L list))"

text \<open>
  The loop of \<open>findFreeIndex\<close>: \<open>i\<close> runs up to the length of the list, which bounds the
  recursion.
\<close>

function scanFree :: "'l statusLib \<Rightarrow> 'l \<Rightarrow> int \<Rightarrow> revError + int option" where
  "scanFree L list i =
     (if i < getCapacity L list then
        (case listStatus L list i of
           Inl e \<Rightarrow> Inl e
         | Inr v \<Rightarrow> if v = 0 then Inr (Some i) else scanFree L list (i + 1))
      else Inr None)"
  by pat_completeness auto
termination
  by (relation "measure (\<lambda>(L, list, i). nat (getCapacity L list - i))") auto

declare scanFree.simps [simp del]

definition findFreeIndex :: "'l statusLib \<Rightarrow> 'l \<Rightarrow> int \<Rightarrow> revError + int option" where
  "findFreeIndex L list fromIndex = scanFree L list fromIndex"

section \<open>The JWT\<close>

record jwtOptions =
  jo_uri :: string
  jo_ttl :: "int option"
  jo_exp :: "int option"

text \<open>\<open>if (options.ttl) payload.ttl = options.ttl\<close>: zero counts as absent.\<close>

definition truthyClaim :: "string \<Rightarrow> int option \<Rightarrow> (string \<times> json) list" where
  "truthyClaim k v = (case v of None \<Rightarrow> [] | Some n \<Rightarrow> if n = 0 then [] else [(k, JNum n)])"

definition signerAlg :: "'a signerMetadata_scheme \<Rightarrow> string" where
  "signerAlg signer =
     (case sg_alg signer of None \<Rightarrow> ''ES256'' | Some a \<Rightarrow> if a = [] then ''ES256'' else a)"

definition b64Json :: "json \<Rightarrow> string" where
  "b64Json v = toBase64url (textBytes (stringify v))"

definition signAsJwt ::
  "'l statusLib \<Rightarrow> millis \<Rightarrow> 'l \<Rightarrow> signerOptions \<Rightarrow> jwtOptions \<Rightarrow> revError + string" where
  "signAsJwt L dateNow list signer options =
     (let now = dateNow div 1000;
          payload = JObj ([(''iss'', JStr (sg_did signer)), (''sub'', JStr (jo_uri options)),
            (''iat'', JNum now)] @ truthyClaim ''ttl'' (jo_ttl options) @
            truthyClaim ''exp'' (jo_exp options));
          alg = signerAlg signer;
          header = JObj [(''alg'', JStr alg), (''typ'', JStr ''statuslist+jwt'')]
      in case createHeaderAndPayload L list payload header of
           Inl m \<Rightarrow> Inl (LibError m)
         | Inr (jwtHeader, jwtPayload) \<Rightarrow>
             let headerB64 = b64Json jwtHeader; payloadB64 = b64Json jwtPayload;
                 signInput = textBytes (headerB64 @ ''.'' @ payloadB64)
             in case sg_sign signer (sg_keyId signer) alg signInput of
                  Inl m \<Rightarrow> Inl (SignerError m)
                | Inr signature \<Rightarrow>
                    Inr (headerB64 @ ''.'' @ payloadB64 @ ''.'' @ toBase64url signature))"

text \<open>
  A missing second part is \<open>undefined\<close>, and \<open>Buffer.from(undefined)\<close> throws a \<open>TypeError\<close> like
  the failing parse does a \<open>SyntaxError\<close>; the texts of both are the runtime's.
\<close>

definition decodeJwt :: "'l statusLib \<Rightarrow> string \<Rightarrow> revError + 'l \<times> json" where
  "decodeJwt L jwt =
     (case listFromJwt L jwt of
        Inl m \<Rightarrow> Inl (InvalidStatusListJwtError m)
      | Inr list \<Rightarrow>
          (case splitOn (CHR ''.'') jwt of
             _ # payloadB64 # _ \<Rightarrow>
               (case jsonParse (bytesText (fromBase64url payloadB64)) of
                  None \<Rightarrow> Inl (InvalidStatusListJwtError ''Unexpected token'')
                | Some payload \<Rightarrow> Inr (list, payload))
           | _ \<Rightarrow> Inl (InvalidStatusListJwtError
                   ''The first argument must be of type string'')))"

definition extractReference :: "'l statusLib \<Rightarrow> string \<Rightarrow> revError + statusListEntry" where
  "extractReference L credentialJwt = fromLib (entryFromJwt L credentialJwt)"

definition buildStatusClaim :: "int \<Rightarrow> string \<Rightarrow> json" where
  "buildStatusClaim i u = JObj [(''status_list'', JObj [(''idx'', JNum i), (''uri'', JStr u)])]"

section \<open>Laws\<close>

text \<open>The laws of the library, one per operation.\<close>

lemma lib_new:
  assumes "lib_ok L" and "validBits b" and "\<forall>x\<in>set xs. 0 \<le> x \<and> x < 2 ^ nat b"
  obtains l where "newList L xs b = Inr l" and "entries L l = xs" and "bitsOf L l = b"
  using assms that unfolding lib_ok_def lib_constructs_def by metis

lemma lib_read: "lib_ok L \<Longrightarrow> inRange L l i \<Longrightarrow> readEntry L l i = Inr (entries L l ! nat i)"
  unfolding lib_ok_def lib_reads_def by metis

lemma lib_write:
  assumes "lib_ok L" and "inRange L l i"
  obtains l' where "writeEntry L l i v = Inr l'" and "entries L l' = (entries L l)[nat i := v]"
    and "bitsOf L l' = bitsOf L l"
  using assms that unfolding lib_ok_def lib_writes_def by metis

lemma lib_write_bad: "lib_ok L \<Longrightarrow> \<not> inRange L l i \<Longrightarrow> isl (writeEntry L l i v)"
  unfolding lib_ok_def lib_writes_def by metis

lemma lib_roundtrip:
  assumes "lib_ok L" and "well_formed L l"
  obtains l' k where "decompressList L (compressList L l) (bitsOf L l) = Inr l'"
    and "entries L l' = entries L l @ replicate k 0" and "bitsOf L l' = bitsOf L l"
  using assms that unfolding lib_ok_def lib_codec_def by metis

lemma lib_payload:
  "lib_ok L \<Longrightarrow> ''status_list'' \<notin> fst ` set kvs \<Longrightarrow>
    {''iss'', ''sub'', ''iat''} \<subseteq> fst ` set kvs \<Longrightarrow>
    createHeaderAndPayload L l (JObj kvs) h =
      Inr (h, JObj (kvs @ [(''status_list'', status_claim (bitsOf L l) (compressList L l))]))"
  unfolding lib_ok_def lib_payloads_def by metis

lemma lib_jwt:
  "lib_ok L \<Longrightarrow> jsonField ''status_list'' p = Some (status_claim b lst) \<Longrightarrow>
    CHR ''.'' \<notin> set h \<Longrightarrow> CHR ''.'' \<notin> set s \<Longrightarrow>
    listFromJwt L (compactJwt h p s) = decompressList L lst b"
  unfolding lib_ok_def lib_jwts_def by metis

lemma fromLib_Inr [simp]: "fromLib r = Inr a \<longleftrightarrow> r = Inr a"
  by (cases r) auto

lemma listStatus_ok: "lib_ok L \<Longrightarrow> inRange L l i \<Longrightarrow> listStatus L l i = Inr (entries L l ! nat i)"
  by (simp add: listStatus_def lib_read)

lemma setStatus_ok:
  assumes "lib_ok L" and "inRange L l i"
  obtains l' where "setStatus L l i v = Inr l'" and "entries L l' = (entries L l)[nat i := v]"
    and "bitsOf L l' = bitsOf L l"
  using lib_write [OF assms, of v] by (auto simp: setStatus_def)

lemma setStatus_inRange:
  assumes "lib_ok L" and "setStatus L l i v = Inr l'"
  shows "inRange L l i \<and> entries L l' = (entries L l)[nat i := v] \<and> bitsOf L l' = bitsOf L l"
proof -
  have "inRange L l i" using assms lib_write_bad [OF assms(1), of l i v] 
    by (auto simp: setStatus_def)
  moreover from this obtain l'' where "setStatus L l i v = Inr l''"
      "entries L l'' = (entries L l)[nat i := v]" "bitsOf L l'' = bitsOf L l"
    by (rule setStatus_ok [OF assms(1)])
  ultimately show ?thesis using assms(2) by simp
qed

lemma well_formed_set:
  assumes "well_formed L l" and "entries L l' = (entries L l)[nat i := v]"
    and "bitsOf L l' = bitsOf L l" and "v \<in> {0, 1}"
  shows "well_formed L l'"
proof -
  have "(1::int) < 2 ^ nat (bitsOf L l)"
    using assms(1) by (auto simp: well_formed_def validBits_def)
  then have "0 \<le> v \<and> v < 2 ^ nat (bitsOf L l)" using assms(4) by auto
  then show ?thesis
    using assms(1-3) set_update_subset_insert [of "entries L l" "nat i" v]
    unfolding well_formed_def by auto
qed

text \<open>\<open>findFreeIndex\<close> is total and gives the first position from \<open>i\<close> on that holds zero.\<close>

lemma scanFree_spec:
  assumes "lib_ok L" and "0 \<le> i"
  shows "\<exists>r. scanFree L l i = Inr r \<and>
    (case r of
       None \<Rightarrow> \<forall>j. i \<le> j \<and> j < getCapacity L l \<longrightarrow> entries L l ! nat j \<noteq> 0
     | Some j \<Rightarrow> i \<le> j \<and> j < getCapacity L l \<and> entries L l ! nat j = 0 \<and>
         (\<forall>k. i \<le> k \<and> k < j \<longrightarrow> entries L l ! nat k \<noteq> 0))"
  using assms
proof (induction L l i rule: scanFree.induct)
  case (1 L l i)
  show ?case
  proof (cases "i < getCapacity L l")
    case False
    then show ?thesis by (subst scanFree.simps) simp
  next
    case True
    with "1.prems" have read: "listStatus L l i = Inr (entries L l ! nat i)"
      by (intro listStatus_ok) (simp_all add: inRange_def getCapacity_def)
    show ?thesis
    proof (cases "entries L l ! nat i = 0")
      case True
      with read \<open>i < getCapacity L l\<close> show ?thesis by (subst scanFree.simps) simp
    next
      case False
      with read True have eq: "scanFree L l i = scanFree L l (i + 1)"
        by (subst scanFree.simps) simp
      from "1.IH" [OF True read False "1.prems"(1)] "1.prems"(2)
      obtain r where r: "scanFree L l (i + 1) = Inr r"
        and rest: "case r of
          None \<Rightarrow> \<forall>j. i + 1 \<le> j \<and> j < getCapacity L l \<longrightarrow> entries L l ! nat j \<noteq> 0
        | Some j \<Rightarrow> i + 1 \<le> j \<and> j < getCapacity L l \<and> entries L l ! nat j = 0 \<and>
            (\<forall>k. i + 1 \<le> k \<and> k < j \<longrightarrow> entries L l ! nat k \<noteq> 0)" by auto
      have step: "entries L l ! nat k \<noteq> 0"
        if "i \<le> k" "i + 1 \<le> k \<Longrightarrow> entries L l ! nat k \<noteq> 0" for k
        using that False by (cases "k = i") auto
      show ?thesis
        using r rest step unfolding eq by (cases r) auto
    qed
  qed
qed

lemma findFreeIndex_spec:
  assumes "lib_ok L" and "0 \<le> i"
  shows "\<exists>r. findFreeIndex L l i = Inr r \<and>
    (case r of
       None \<Rightarrow> \<forall>j. i \<le> j \<and> j < getCapacity L l \<longrightarrow> entries L l ! nat j \<noteq> 0
     | Some j \<Rightarrow> i \<le> j \<and> j < getCapacity L l \<and> entries L l ! nat j = 0 \<and>
         (\<forall>k. i \<le> k \<and> k < j \<longrightarrow> entries L l ! nat k \<noteq> 0))"
  unfolding findFreeIndex_def by (rule scanFree_spec [OF assms])

end
