(* ===== verification/JsCoercion.thy ===== *)
theory JsCoercion
  imports Json
begin

text \<open>
  What the operators of JavaScript make of a value whose type the code does not check: truth,
  number, text and date.
\<close>

text \<open>\<open>payload.k\<close> throws on \<open>null\<close> and is \<open>undefined\<close> on a value that is not an object.\<close>

definition isTruthy :: "json option \<Rightarrow> bool" where
  "isTruthy v =
     (case v of None \<Rightarrow> False | Some JNull \<Rightarrow> False | Some (JBool b) \<Rightarrow> b
      | Some (JNum n) \<Rightarrow> n \<noteq> 0 | Some (JStr s) \<Rightarrow> s \<noteq> [] | Some _ \<Rightarrow> True)"

text \<open>
  The number an arithmetic operator makes of a text or of a value, \<open>None\<close> for \<open>NaN\<close>. Numbers are
  integers here: a text with a fraction, an exponent or a radix counts as \<open>NaN\<close>.
\<close>

definition textNumber :: "string \<Rightarrow> int option" where
  "textNumber s =
     (let t = trim s;
          digits = (\<lambda>d. if d \<noteq> [] \<and> list_all isDigit d then Some (int (decimal d)) else None)
      in case t of
           [] \<Rightarrow> Some 0
         | c # d \<Rightarrow> if c = CHR ''-'' then map_option uminus (digits d)
                   else if c = CHR ''+'' then digits d else digits t)"

fun toNumber :: "json \<Rightarrow> int option" where
  "toNumber JNull = Some 0"
| "toNumber (JBool b) = Some (if b then 1 else 0)"
| "toNumber (JNum n) = Some n"
| "toNumber (JStr s) = textNumber s"
| "toNumber (JArr []) = Some 0"
| "toNumber (JArr [JBool _]) = None"
| "toNumber (JArr [v]) = toNumber v"
| "toNumber (JArr _) = None"
| "toNumber (JObj _) = None"

definition numberOf :: "json option \<Rightarrow> int option" where
  "numberOf v = Option.bind v toNumber"

text \<open>\<open>String(v)\<close> and \<open>${v}\<close>.\<close>

fun toText :: "json \<Rightarrow> string" where
  "toText JNull = ''null''"
| "toText (JBool b) = (if b then ''true'' else ''false'')"
| "toText (JNum n) = intStr n"
| "toText (JStr s) = s"
| "toText (JArr vs) = joinWith '','' (map (\<lambda>v. case v of JNull \<Rightarrow> [] | _ \<Rightarrow> toText v) vs)"
| "toText (JObj _) = ''[object Object]''"

definition templateText :: "json option \<Rightarrow> string" where
  "templateText v = (case v of None \<Rightarrow> ''undefined'' | Some j \<Rightarrow> toText j)"

text \<open>\<open>new Date(n)\<close>: \<open>None\<close> is the invalid date.\<close>

definition dateFrom :: "int option \<Rightarrow> millis option" where
  "dateFrom n =
     (case n of None \<Rightarrow> None | Some t \<Rightarrow> if \<bar>t\<bar> \<le> 8640000000000000 then Some t else None)"

end
