(* ===== verification/Verifier.thy ===== *)
theory Verifier
  imports StatusLists JsCoercion
begin

text \<open>
  \<^verbatim>\<open>identity-verifier-service/source/src/revocation\<close>: the verifier downloads the JWT of a
  status list, decodes it with \<open>StatusListService\<close> and reads the status of a credential. It
  keeps no state; \<open>fetch\<close> is a parameter, so results are sums.
\<close>

section \<open>Errors\<close>

text \<open>
  A failed request, a status outside 200 to 299, an error of the core, or a \<open>TypeError\<close> on a
  payload that is not what the code takes it for.
\<close>

datatype verifierError =
    FetchFailed string
  | HttpFailure int string
  | CoreFailure revError
  | TypeFailure string

fun verifierMessage :: "verifierError \<Rightarrow> string" where
  "verifierMessage (FetchFailed m) = m"
| "verifierMessage (HttpFailure code text) = ''HTTP '' @ intStr code @ '': '' @ text"
| "verifierMessage (CoreFailure e) = errorMessage e"
| "verifierMessage (TypeFailure m) = m"

fun inCore :: "revError + 'a \<Rightarrow> verifierError + 'a" where
  "inCore (Inl e) = Inl (CoreFailure e)"
| "inCore (Inr a) = Inr a"

definition bindv :: "verifierError + 'a \<Rightarrow> ('a \<Rightarrow> verifierError + 'b) \<Rightarrow> verifierError + 'b" where
  "bindv r f = (case r of Inl e \<Rightarrow> Inl e | Inr a \<Rightarrow> f a)"

lemma bindv_simps [simp]: "bindv (Inl e) f = Inl e" "bindv (Inr a) f = f a"
  by (simp_all add: bindv_def)

section \<open>The service\<close>

record httpResponse =
  ht_status :: int
  ht_statusText :: string
  ht_body :: string

record 'l verifierEnv =
  vfLib :: "'l statusLib"
  vfFetch :: "string \<Rightarrow> string + httpResponse"

record listOptions =
  lo_forceRefresh :: "bool option"
  lo_defaultTtl :: "int option"

record fetchedList =
  fl_jwt :: string
  fl_cached :: bool
  fl_expiresAt :: "millis option"

definition plus_opt :: "int option \<Rightarrow> int option \<Rightarrow> int option" where
  "plus_opt a b = (case (a, b) of (Some x, Some y) \<Rightarrow> Some (x + y) | _ \<Rightarrow> None)"

text \<open>\<open>payload.ttl || options.defaultTtl || 3600\<close>.\<close>

definition listTtl :: "json \<Rightarrow> listOptions \<Rightarrow> int option" where
  "listTtl payload options =
     (if isTruthy (jsonField ''ttl'' payload) then numberOf (jsonField ''ttl'' payload)
      else case lo_defaultTtl options of
             None \<Rightarrow> Some 3600 | Some d \<Rightarrow> if d = 0 then Some 3600 else Some d)"

text \<open>\<open>const \{ payload \} = decodeJwt(jwt)\<close>, then the first access to the payload.\<close>

definition usable :: "json \<Rightarrow> verifierError + json" where
  "usable payload =
     (if payload = JNull then Inl (TypeFailure ''Cannot read properties of null'') else Inr payload)"

definition verifierGetStatusList ::
  "'l verifierEnv \<Rightarrow> string \<Rightarrow> listOptions \<Rightarrow> verifierError + fetchedList" where
  "verifierGetStatusList V address options =
     (case vfFetch V address of
        Inl m \<Rightarrow> Inl (FetchFailed m)
      | Inr response \<Rightarrow>
          if \<not> (200 \<le> ht_status response \<and> ht_status response < 300)
          then Inl (HttpFailure (ht_status response) (ht_statusText response))
          else
            let jwt = ht_body response in
            bindv (inCore (decodeJwt (vfLib V) jwt)) (\<lambda>(_, raw).
            bindv (usable raw) (\<lambda>payload.
            Inr \<lparr>fl_jwt = jwt, fl_cached = False,
              fl_expiresAt = dateFrom (plus_opt
                (map_option (\<lambda>n. n * 1000) (numberOf (jsonField ''iat'' payload)))
                (map_option (\<lambda>n. n * 1000) (listTtl payload options)))\<rparr>)))"

definition noListOptions :: listOptions where
  "noListOptions = \<lparr>lo_forceRefresh = None, lo_defaultTtl = None\<rparr>"

record checkedStatus =
  ck_revoked :: bool
  ck_status :: int
  ck_updatedAt :: "millis option"

definition verifierGetStatus ::
  "'l verifierEnv \<Rightarrow> string \<Rightarrow> int \<Rightarrow> bool option \<Rightarrow> verifierError + checkedStatus" where
  "verifierGetStatus V address i forceRefresh =
     bindv (verifierGetStatusList V address \<lparr>lo_forceRefresh = forceRefresh, lo_defaultTtl = None\<rparr>) (\<lambda>f.
     bindv (inCore (decodeJwt (vfLib V) (fl_jwt f))) (\<lambda>(list, raw).
     bindv (inCore (listStatus (vfLib V) list i)) (\<lambda>status.
     bindv (usable raw) (\<lambda>payload.
     Inr \<lparr>ck_revoked = (status \<noteq> 0), ck_status = status,
       ck_updatedAt = dateFrom (map_option (\<lambda>n. n * 1000) (numberOf (jsonField ''iat'' payload)))\<rparr>))))"

text \<open>An entry of \<open>errors\<close>; \<open>details\<close> is the status and the index.\<close>

record verifyIssue =
  is_code :: string
  is_message :: string
  is_details :: "(int \<times> int) option"

record verdict =
  vd_valid :: bool
  vd_errors :: "verifyIssue list"
  vd_payload :: "json option"

definition issuerIssues :: "string option \<Rightarrow> json option \<Rightarrow> verifyIssue list" where
  "issuerIssues expectedIssuer issuer =
     (case expectedIssuer of
        None \<Rightarrow> []
      | Some e \<Rightarrow>
          if e = [] \<or> issuer = Some (JStr e) then []
          else [\<lparr>is_code = ''ISSUER_MISMATCH'',
                 is_message = ''Expected issuer '' @ e @ '', got '' @ templateText issuer,
                 is_details = None\<rparr>])"

definition statusIssues :: "int \<Rightarrow> int \<Rightarrow> verifyIssue list" where
  "statusIssues status i =
     (if status = 0 then []
      else [\<lparr>is_code = ''STATUS_INVALID'',
             is_message = ''Credential status is '' @ intStr status @ '' (revoked/suspended)'',
             is_details = Some (status, i)\<rparr>])"

text \<open>
  \<open>decompress(payload.status_list.lst, payload.status_list.bits)\<close>: the library's types ask for a
  text and a number, anything else is its error.
\<close>

definition payloadList :: "'l statusLib \<Rightarrow> json \<Rightarrow> verifierError + 'l" where
  "payloadList L payload =
     (case jsonField ''status_list'' payload of
        None \<Rightarrow> Inl (TypeFailure ''Cannot read properties of undefined'')
      | Some JNull \<Rightarrow> Inl (TypeFailure ''Cannot read properties of null'')
      | Some claim \<Rightarrow>
          (case (jsonField ''lst'' claim, jsonField ''bits'' claim) of
             (Some (JStr lst), Some (JNum bits)) \<Rightarrow> inCore (decompress L lst bits)
           | _ \<Rightarrow> Inl (CoreFailure (LibError ''bad status list''))))"

definition checkCredential ::
  "'l verifierEnv \<Rightarrow> string \<Rightarrow> string option \<Rightarrow> verifierError + verdict" where
  "checkCredential V credentialJwt expectedIssuer =
     bindv (inCore (extractReference (vfLib V) credentialJwt)) (\<lambda>reference.
     bindv (verifierGetStatusList V (uri reference) noListOptions) (\<lambda>f.
     bindv (inCore (decodeJwt (vfLib V) (fl_jwt f))) (\<lambda>(_, raw).
     bindv (usable raw) (\<lambda>payload.
     let errors = issuerIssues expectedIssuer (jsonField ''iss'' payload) in
     bindv (payloadList (vfLib V) payload) (\<lambda>list.
     bindv (inCore (listStatus (vfLib V) list (idx reference))) (\<lambda>status.
     let errors' = errors @ statusIssues status (idx reference) in
     Inr \<lparr>vd_valid = (errors' = []), vd_errors = errors', vd_payload = Some payload\<rparr>))))))"

definition verifyCredential :: "'l verifierEnv \<Rightarrow> string \<Rightarrow> string option \<Rightarrow> verdict" where
  "verifyCredential V credentialJwt expectedIssuer =
     (case checkCredential V credentialJwt expectedIssuer of
        Inr v \<Rightarrow> v
      | Inl e \<Rightarrow> \<lparr>vd_valid = False,
          vd_errors = [\<lparr>is_code = ''VERIFICATION_ERROR'', is_message = verifierMessage e,
            is_details = None\<rparr>],
          vd_payload = None\<rparr>)"

section \<open>The controller\<close>

text \<open>
  \<open>ParseIntPipe\<close> of the query takes a decimal integer or answers 400; the path parameter is
  converted to a number by the validation pipe with \<open>transform\<close>, here to an integer.
\<close>

definition parseIntPipe :: "string \<Rightarrow> int option" where
  "parseIntPipe s =
     (let digits = (\<lambda>d. d \<noteq> [] \<and> list_all isDigit d) in
      case s of
        [] \<Rightarrow> None
      | c # d \<Rightarrow> if c = CHR ''-'' then (if digits d then Some (- int (decimal d)) else None)
                else if digits s then Some (int (decimal s)) else None)"

datatype verifierCall =
    GetStatusList "string option"
  | GetStatusFromQuery string string
  | GetStatusFromPath string int
  | VerifyCredential "string option"

datatype verifierReply =
    ListReply fetchedList
  | StatusReply checkedStatus
  | VerdictReply verdict
  | BadRequest
  | Failed verifierError

fun replyOf :: "('a \<Rightarrow> verifierReply) \<Rightarrow> verifierError + 'a \<Rightarrow> verifierReply" where
  "replyOf f (Inl e) = Failed e"
| "replyOf f (Inr a) = f a"

text \<open>The bodies ask for non-empty strings.\<close>

fun verifierRevocationController :: "'l verifierEnv \<Rightarrow> verifierCall \<Rightarrow> verifierReply" where
  "verifierRevocationController V (GetStatusList u) =
     (case u of
        None \<Rightarrow> BadRequest
      | Some t \<Rightarrow> if t = [] then BadRequest
          else replyOf ListReply (verifierGetStatusList V t noListOptions))"
| "verifierRevocationController V (GetStatusFromQuery u i) =
     (case parseIntPipe i of
        None \<Rightarrow> BadRequest
      | Some n \<Rightarrow> replyOf StatusReply (verifierGetStatus V u n None))"
| "verifierRevocationController V (GetStatusFromPath u i) =
     replyOf StatusReply (verifierGetStatus V u i None)"
| "verifierRevocationController V (VerifyCredential c) =
     (case c of
        None \<Rightarrow> BadRequest
      | Some t \<Rightarrow> if t = [] then BadRequest else VerdictReply (verifyCredential V t None))"

end
