(* ===== verification/Revocation.thy ===== *)
theory Revocation
  imports StatusLists
begin

text \<open>
  \<^verbatim>\<open>revocation/revocation.service.ts\<close>, its facade \<^verbatim>\<open>revocation.issuer.ts\<close> and
  the factory. Each operation runs over the database of \<open>StatusListStore\<close>; the ports it is
  given (signers, URI builder, message bus) and the library are the fields of \<open>revEnv\<close>.
  \<open>allocateIndex\<close> and \<open>revoke\<close> read the list, change it in memory and write it in a
  transaction: the two phases are definitions of their own, so that the phases of two requests
  can be interleaved.
\<close>

record 'l revEnv =
  rvLib :: "'l statusLib"
  rvSigners :: "string \<Rightarrow> string + signerOptions"
  rvUri :: "string \<Rightarrow> string \<Rightarrow> string \<Rightarrow> string"
  rvUuid :: "nat \<Rightarrow> string"
  rvFaults :: faults
  rvMessaging :: "(string \<Rightarrow> json \<Rightarrow> bool) option"

definition resolveSigner :: "'l revEnv \<Rightarrow> string \<Rightarrow> signerOptions storage" where
  "resolveSigner V walletId =
     (case rvSigners V walletId of Inl m \<Rightarrow> throw (SignerError m) | Inr o' \<Rightarrow> ret o')"

definition dateNow :: "millis storage" where
  "dateNow = gets dbClock"

text \<open>What the bus delivered is logged; without a bus, or when it fails, nothing happens.\<close>

definition publishEvent :: "'l revEnv \<Rightarrow> string \<Rightarrow> json \<Rightarrow> unit storage" where
  "publishEvent V routingKey payload =
     (case rvMessaging V of
        None \<Rightarrow> ret ()
      | Some delivers \<Rightarrow>
          if delivers routingKey payload
          then modify (\<lambda>s. s\<lparr>dbEvents := dbEvents s @ [(routingKey, payload)]\<rparr>)
          else ret ())"

text \<open>A property of an event whose value is \<open>undefined\<close> is not transmitted.\<close>

definition optField :: "string \<Rightarrow> string option \<Rightarrow> (string \<times> json) list" where
  "optField k v = (case v of None \<Rightarrow> [] | Some t \<Rightarrow> [(k, JStr t)])"

section \<open>Creation\<close>

record listRef =
  lr_listId :: string
  lr_uri :: string

definition createStatusList :: "'l revEnv \<Rightarrow> createStatusListParams \<Rightarrow> listRef storage" where
  "createStatusList V params =
     (let walletId = cs_walletId params; vct = cs_vct params;
          bits = coalesce (cs_bits params) 1; capacity = coalesce (cs_capacity params) 16384 in
      andThen (resolveSigner V walletId) (\<lambda>signer.
      andThen (findByWalletAndVct (rvFaults V) walletId vct) (\<lambda>existing.
        case existing of
          Some info \<Rightarrow>
            ret \<lparr>lr_listId = li_id info, lr_uri = rvUri V walletId vct (sg_did signer)\<rparr>
        | None \<Rightarrow>
            andThen (lift (createEmptyList (rvLib V) bits capacity)) (\<lambda>list.
            andThen (create (rvFaults V) (rvUuid V) walletId vct bits capacity
              (compress (rvLib V) list) 0) (\<lambda>created.
            let uri = rvUri V walletId vct (sg_did signer) in
            andThen dateNow (\<lambda>now.
            andThen (publishEvent V ''revocation.status-list.created'' (JObj [
                (''walletId'', JStr walletId), (''vct'', JStr vct), (''listId'', JStr (li_id created)),
                (''uri'', JStr uri), (''bits'', JNum bits), (''capacity'', JNum capacity),
                (''timestamp'', JStr (toISOString now))])) (\<lambda>_.
            ret \<lparr>lr_listId = li_id created, lr_uri = uri\<rparr>)))))))"

section \<open>Allocation\<close>

record allocation =
  ac_list :: statusListInfo
  ac_index :: int
  ac_compressed :: string
  ac_uri :: string

record indexRef =
  ir_index :: int
  ir_uri :: string

text \<open>The list of the pair, created on first use.\<close>

definition findOrCreateList :: "'l revEnv \<Rightarrow> string \<Rightarrow> string \<Rightarrow> statusListInfo storage" where
  "findOrCreateList V walletId vct =
     andThen (findByWalletAndVct (rvFaults V) walletId vct) (\<lambda>found.
       case found of
         Some info \<Rightarrow> ret info
       | None \<Rightarrow>
           andThen (createStatusList V \<lparr>cs_walletId = walletId, cs_vct = vct, cs_bits = None,
             cs_capacity = None\<rparr>) (\<lambda>_.
           andThen (findByWalletAndVct (rvFaults V) walletId vct) (\<lambda>again.
             orThrow again (StatusListNotFoundError walletId vct))))"

definition freeOrFail :: "revError + int option \<Rightarrow> revError \<Rightarrow> revError + int" where
  "freeOrFail r full =
     (case r of Inl e \<Rightarrow> Inl e | Inr None \<Rightarrow> Inl full | Inr (Some i) \<Rightarrow> Inr i)"

definition chooseIndex ::
  "'l statusLib \<Rightarrow> 'l \<Rightarrow> statusListInfo \<Rightarrow> revError \<Rightarrow> int option \<Rightarrow> revError + int" where
  "chooseIndex L list info full preferredIndex =
     (let capacity = li_capacity info;
          sequential =
            (if capacity \<le> li_nextIndex info then freeOrFail (findFreeIndex L list 0) full
             else Inr (li_nextIndex info))
      in case preferredIndex of
           None \<Rightarrow> sequential
         | Some p \<Rightarrow>
             if 0 \<le> p \<and> p < capacity then
               (case listStatus L list p of
                  Inl e \<Rightarrow> Inl e
                | Inr v \<Rightarrow>
                    if v = STATUS_TYPE_VALID then Inr p
                    else freeOrFail (findFreeIndex L list (p + 1)) full)
             else sequential)"

definition planAllocation :: "'l revEnv \<Rightarrow> allocateIndexParams \<Rightarrow> allocation storage" where
  "planAllocation V params =
     (let walletId = al_walletId params; vct = al_vct params; L = rvLib V in
      andThen (resolveSigner V walletId) (\<lambda>signer.
      andThen (findOrCreateList V walletId vct) (\<lambda>info.
      andThen (lift (decompress L (li_compressed info) (li_bits info))) (\<lambda>list.
      andThen (lift (chooseIndex L list info
          (NoFreeIndexError walletId vct (li_capacity info)) (al_preferredIndex params))) (\<lambda>index.
      andThen (lift (setStatus L list index STATUS_TYPE_VALID)) (\<lambda>list'.
      ret \<lparr>ac_list = info, ac_index = index, ac_compressed = compress L list',
        ac_uri = rvUri V walletId vct (sg_did signer)\<rparr>))))))"

definition truthyText :: "string option \<Rightarrow> bool" where
  "truthyText v \<longleftrightarrow> v \<noteq> None \<and> v \<noteq> Some []"

definition allocationTx :: "'l revEnv \<Rightarrow> string option \<Rightarrow> allocation \<Rightarrow> unit storage" where
  "allocationTx V credentialId a =
     andThen (txUpdateCompressedBitstring (rvFaults V) (li_id (ac_list a)) (ac_compressed a)
         (ac_index a + 1)) (\<lambda>_.
       if truthyText credentialId
       then txSaveRevocation (rvFaults V) (rvUuid V) (li_id (ac_list a)) (ac_index a) credentialId
         None None
       else ret ())"

definition commitAllocation ::
  "'l revEnv \<Rightarrow> allocateIndexParams \<Rightarrow> allocation \<Rightarrow> indexRef storage" where
  "commitAllocation V params a =
     andThen (withTransaction (rvFaults V) (allocationTx V (al_credentialId params) a)) (\<lambda>_.
     andThen dateNow (\<lambda>now.
     andThen (publishEvent V ''revocation.status-list.allocated'' (JObj ([
         (''walletId'', JStr (al_walletId params)), (''vct'', JStr (al_vct params)),
         (''listId'', JStr (li_id (ac_list a))), (''index'', JNum (ac_index a))] @
         optField ''credentialId'' (al_credentialId params) @
         [(''timestamp'', JStr (toISOString now))]))) (\<lambda>_.
     ret \<lparr>ir_index = ac_index a, ir_uri = ac_uri a\<rparr>)))"

definition allocateIndex :: "'l revEnv \<Rightarrow> allocateIndexParams \<Rightarrow> indexRef storage" where
  "allocateIndex V params = andThen (planAllocation V params) (commitAllocation V params)"

section \<open>Revocation\<close>

record revocationPlan =
  rp_list :: statusListInfo
  rp_compressed :: string

record revokeResult =
  rr_revokedAt :: millis
  rr_status :: int

definition requireList :: "'l revEnv \<Rightarrow> string \<Rightarrow> string \<Rightarrow> statusListInfo storage" where
  "requireList V walletId vct =
     andThen (findByWalletAndVct (rvFaults V) walletId vct) (\<lambda>found.
       orThrow found (StatusListNotFoundError walletId vct))"

definition planRevocation :: "'l revEnv \<Rightarrow> revokeParams \<Rightarrow> revocationPlan storage" where
  "planRevocation V params =
     (let L = rvLib V; index = rp_index params in
      andThen (requireList V (rp_walletId params) (rp_vct params)) (\<lambda>info.
      andThen (lift (decompress L (li_compressed info) (li_bits info))) (\<lambda>list.
      andThen (throwIf (index < 0 \<or> li_capacity info \<le> index)
        (IndexOutOfBoundsError index (li_capacity info))) (\<lambda>_.
      andThen (lift (setStatus L list index STATUS_TYPE_INVALID)) (\<lambda>list'.
      ret \<lparr>rp_list = info, rp_compressed = compress L list'\<rparr>)))))"

definition revocationTx :: "'l revEnv \<Rightarrow> revokeParams \<Rightarrow> revocationPlan \<Rightarrow> unit storage" where
  "revocationTx V params p =
     (let F = rvFaults V; listId = li_id (rp_list p); index = rp_index params in
      andThen (txUpdateCompressedBitstring F listId (rp_compressed p) (li_nextIndex (rp_list p))) (\<lambda>_.
      andThen (txIncrementRevokedCount F listId) (\<lambda>_.
      andThen (txFindRevocation F listId index) (\<lambda>existing.
        case existing of
          Some _ \<Rightarrow> txUpdateRevocation F listId index (rp_reason params) (rp_revokedBy params)
        | None \<Rightarrow> txSaveRevocation F (rvUuid V) listId index None (rp_reason params)
            (rp_revokedBy params)))))"

definition commitRevocation :: "'l revEnv \<Rightarrow> revokeParams \<Rightarrow> revocationPlan \<Rightarrow> revokeResult storage" where
  "commitRevocation V params p =
     andThen (withTransaction (rvFaults V) (revocationTx V params p)) (\<lambda>_.
     andThen dateNow (\<lambda>revokedAt.
     andThen (publishEvent V ''credential.revoked'' (JObj ([
         (''walletId'', JStr (rp_walletId params)), (''vct'', JStr (rp_vct params)),
         (''listId'', JStr (li_id (rp_list p))), (''index'', JNum (rp_index params))] @
         optField ''reason'' (rp_reason params) @ optField ''revokedBy'' (rp_revokedBy params) @
         [(''timestamp'', JStr (toISOString revokedAt))]))) (\<lambda>_.
     ret \<lparr>rr_revokedAt = revokedAt, rr_status = STATUS_TYPE_INVALID\<rparr>)))"

definition revoke :: "'l revEnv \<Rightarrow> revokeParams \<Rightarrow> revokeResult storage" where
  "revoke V params = andThen (planRevocation V params) (commitRevocation V params)"

section \<open>Queries\<close>

definition getStatus :: "'l revEnv \<Rightarrow> string \<Rightarrow> string \<Rightarrow> int \<Rightarrow> getStatusResult storage" where
  "getStatus V walletId vct index =
     andThen (requireList V walletId vct) (\<lambda>info.
     andThen (lift (decompress (rvLib V) (li_compressed info) (li_bits info))) (\<lambda>list.
     andThen (throwIf (index < 0 \<or> li_capacity info \<le> index)
       (IndexOutOfBoundsError index (li_capacity info))) (\<lambda>_.
     andThen (lift (listStatus (rvLib V) list index)) (\<lambda>status.
     ret \<lparr>gs_status = status, gs_updatedAt = li_lastUpdatedAt info\<rparr>))))"

definition getStatusListJwt ::
  "'l revEnv \<Rightarrow> string \<Rightarrow> string \<Rightarrow> int option \<Rightarrow> int option \<Rightarrow> getStatusListJwtResult storage" where
  "getStatusListJwt V walletId vct ttl exp =
     andThen (requireList V walletId vct) (\<lambda>info.
     andThen (lift (decompress (rvLib V) (li_compressed info) (li_bits info))) (\<lambda>list.
     andThen (resolveSigner V walletId) (\<lambda>signer.
     let uri = rvUri V walletId vct (sg_did signer) in
     andThen dateNow (\<lambda>now.
     andThen (lift (signAsJwt (rvLib V) now list signer
       \<lparr>jo_uri = uri, jo_ttl = ttl, jo_exp = exp\<rparr>)) (\<lambda>jwt.
     ret \<lparr>sj_jwt = jwt, sj_uri = uri\<rparr>)))))"

definition getStatusListInfo :: "'l revEnv \<Rightarrow> string \<Rightarrow> string \<Rightarrow> statusListInfo option storage" where
  "getStatusListInfo V walletId vct = findByWalletAndVct (rvFaults V) walletId vct"

section \<open>The issuer's facade\<close>

text \<open>
  \<open>createRevocationIssuer\<close> wires the services from the ports: it is the environment the
  operations run in.
\<close>

definition createRevocationIssuer ::
  "'l statusLib \<Rightarrow> (nat \<Rightarrow> string) \<Rightarrow> faults \<Rightarrow> (string \<Rightarrow> string + signerOptions) \<Rightarrow>
    (string \<Rightarrow> string \<Rightarrow> string \<Rightarrow> string) \<Rightarrow> (string \<Rightarrow> json \<Rightarrow> bool) option \<Rightarrow> 'l revEnv" where
  "createRevocationIssuer L uuids faults signers uriBuilder messaging =
     \<lparr>rvLib = L, rvSigners = signers, rvUri = uriBuilder, rvUuid = uuids, rvFaults = faults,
       rvMessaging = messaging\<rparr>"

record createOptions =
  co_bits :: "int option"
  co_capacity :: "int option"

record allocateOptions =
  ao_credentialId :: "string option"
  ao_preferredIndex :: "int option"

record revokeOptions =
  ro_reason :: "string option"
  ro_revokedBy :: "string option"

record tokenOptions =
  to_ttl :: "int option"
  to_exp :: "int option"

definition issuerCreateStatusList ::
  "'l revEnv \<Rightarrow> string \<Rightarrow> string \<Rightarrow> createOptions \<Rightarrow> listRef storage" where
  "issuerCreateStatusList V walletId vct options =
     createStatusList V \<lparr>cs_walletId = walletId, cs_vct = vct, cs_bits = co_bits options,
       cs_capacity = co_capacity options\<rparr>"

definition issuerAllocateIndex ::
  "'l revEnv \<Rightarrow> string \<Rightarrow> string \<Rightarrow> allocateOptions \<Rightarrow> indexRef storage" where
  "issuerAllocateIndex V walletId vct options =
     allocateIndex V \<lparr>al_walletId = walletId, al_vct = vct,
       al_credentialId = ao_credentialId options, al_preferredIndex = ao_preferredIndex options\<rparr>"

definition issuerRevoke ::
  "'l revEnv \<Rightarrow> string \<Rightarrow> string \<Rightarrow> int \<Rightarrow> revokeOptions \<Rightarrow> revokeResult storage" where
  "issuerRevoke V walletId vct index options =
     revoke V \<lparr>rp_walletId = walletId, rp_vct = vct, rp_index = index,
       rp_reason = ro_reason options, rp_revokedBy = ro_revokedBy options\<rparr>"

definition issuerGetStatus :: "'l revEnv \<Rightarrow> string \<Rightarrow> string \<Rightarrow> int \<Rightarrow> getStatusResult storage" where
  "issuerGetStatus V walletId vct index = getStatus V walletId vct index"

definition issuerGetStatusListJwt ::
  "'l revEnv \<Rightarrow> string \<Rightarrow> string \<Rightarrow> tokenOptions \<Rightarrow> getStatusListJwtResult storage" where
  "issuerGetStatusListJwt V walletId vct options =
     getStatusListJwt V walletId vct (to_ttl options) (to_exp options)"

end
