(* ===== verification/StorageContract.thy ===== *)
theory StorageContract
  imports Revocation
begin

text \<open>
  The contract of the port \<open>StatusListStorage\<close>: what each operation that returns has done to
  the lists and the audit rows, and that one that throws has done nothing. The adapter over the
  pool and the one over a connection both meet it. The bodies of the two transactions of the
  service are verified against the contract, inside the locale.
\<close>

definition listsOf :: "statusDb \<Rightarrow> statusListInfo list" where
  "listsOf s = map toStatusListInfo (statusLists s)"

definition auditsOf :: "statusDb \<Rightarrow> (string \<times> revocationInfo) list" where
  "auditsOf s = map (\<lambda>r. (rv_status_list_id r, toRevocationInfo r)) (revocations s)"

text \<open>Row updates of the two tables, as functions on what the port shows of them.\<close>

definition ofPair :: "string \<Rightarrow> string \<Rightarrow> statusListInfo \<Rightarrow> bool" where
  "ofPair w v l \<longleftrightarrow> li_walletId l = w \<and> li_vct l = v"

definition withBits :: "string \<Rightarrow> int \<Rightarrow> millis \<Rightarrow> statusListInfo \<Rightarrow> statusListInfo" where
  "withBits c n now l = l\<lparr>li_compressed := c, li_nextIndex := n, li_lastUpdatedAt := Some now,
     li_updatedAt := now\<rparr>"

definition counted :: "statusListInfo \<Rightarrow> statusListInfo" where
  "counted l = l\<lparr>li_revokedCount := li_revokedCount l + 1\<rparr>"

definition ofIndex :: "string \<Rightarrow> int \<Rightarrow> string \<times> revocationInfo \<Rightarrow> bool" where
  "ofIndex l i a \<longleftrightarrow> fst a = l \<and> ri_index (snd a) = i"

definition revised :: "string option \<Rightarrow> string option \<Rightarrow> millis \<Rightarrow> string \<times> revocationInfo \<Rightarrow>
    string \<times> revocationInfo" where
  "revised reason by' now a = (fst a, (snd a)\<lparr>ri_reason := sqlCoalesce reason (ri_reason (snd a)),
     ri_revokedBy := sqlCoalesce by' (ri_revokedBy (snd a)), ri_revokedAt := now\<rparr>)"

locale status_list_storage =
  fixes lists :: "'s \<Rightarrow> statusListInfo list"
    and audits :: "'s \<Rightarrow> (string \<times> revocationInfo) list"
    and time :: "'s \<Rightarrow> millis"
    and findList :: "string \<Rightarrow> string \<Rightarrow> ('s, revError, statusListInfo option) op"
    and store :: "string \<Rightarrow> string \<Rightarrow> int \<Rightarrow> ('s, revError, unit) op"
    and increment :: "string \<Rightarrow> ('s, revError, unit) op"
    and save :: "string \<Rightarrow> int \<Rightarrow> string option \<Rightarrow> string option \<Rightarrow> string option \<Rightarrow>
      ('s, revError, unit) op"
    and findAudit :: "string \<Rightarrow> int \<Rightarrow> ('s, revError, revocationInfo option) op"
    and revise :: "string \<Rightarrow> int \<Rightarrow> string option \<Rightarrow> string option \<Rightarrow> ('s, revError, unit) op"
  assumes find_law: "findList w v s = (Inr r, t) \<Longrightarrow>
      r = find (ofPair w v) (lists s) \<and> lists t = lists s \<and> audits t = audits s \<and> time t = time s"
    and store_law: "store i c n s = (Inr u, t) \<Longrightarrow>
      lists t = updateWhere (\<lambda>l. li_id l = i) (withBits c n (time s)) (lists s) \<and>
      audits t = audits s \<and> time t = time s"
    and increment_law: "increment i s = (Inr u, t) \<Longrightarrow>
      lists t = updateWhere (\<lambda>l. li_id l = i) counted (lists s) \<and>
      audits t = audits s \<and> time t = time s"
    and save_law: "save i k cred reason by' s = (Inr u, t) \<Longrightarrow>
      \<not> (\<exists>a\<in>set (audits s). ofIndex i k a) \<and> i \<in> li_id ` set (lists s) \<and>
      lists t = lists s \<and> time t = time s \<and>
      (\<exists>a. ofIndex i k a \<and> ri_credentialId (snd a) = cred \<and> ri_reason (snd a) = reason \<and>
        ri_revokedBy (snd a) = by' \<and> audits t = audits s @ [a])"
    and findAudit_law: "findAudit i k s = (Inr found, t) \<Longrightarrow>
      found = map_option snd (find (ofIndex i k) (audits s)) \<and>
      lists t = lists s \<and> audits t = audits s \<and> time t = time s"
    and revise_law: "revise i k reason by' s = (Inr u, t) \<Longrightarrow>
      audits t = updateWhere (ofIndex i k) (revised reason by' (time s)) (audits s) \<and>
      lists t = lists s \<and> time t = time s"
begin

text \<open>The body of \<open>allocateIndex\<close>'s transaction.\<close>

lemma allocation_body:
  assumes "andThen (store i c n) (\<lambda>_. if audited then save i k cred None None else ret ()) s = (Inr u, t)"
  shows "lists t = updateWhere (\<lambda>l. li_id l = i) (withBits c n (time s)) (lists s) \<and> time t = time s \<and>
    (if audited then \<not> (\<exists>a\<in>set (audits s). ofIndex i k a) \<and>
       i \<in> li_id ` set (lists t) \<and>
       (\<exists>a. ofIndex i k a \<and> ri_credentialId (snd a) = cred \<and> audits t = audits s @ [a])
     else audits t = audits s)"
proof -
  from assms obtain u' s' where s': "store i c n s = (Inr u', s')"
    and rest: "(if audited then save i k cred None None else ret ()) s' = (Inr u, t)"
    by (rule andThen_InrE)
  from store_law [OF s'] rest show ?thesis
    by (cases audited) (auto dest: save_law)
qed

text \<open>
  The body of \<open>revoke\<close>'s transaction: new bitstring, one more revocation counted, and
  exactly one audit row for the index, holding the given reason.
\<close>

lemma revocation_body:
  assumes "andThen (store i c n) (\<lambda>_. andThen (increment i) (\<lambda>_. andThen (findAudit i k) (\<lambda>found.
      case found of Some _ \<Rightarrow> revise i k reason by' | None \<Rightarrow> save i k None reason by'))) s = (Inr u, t)"
  shows "lists t = updateWhere (\<lambda>l. li_id l = i) (counted \<circ> withBits c n (time s)) (lists s) \<and>
    (if \<exists>a\<in>set (audits s). ofIndex i k a
     then audits t = updateWhere (ofIndex i k) (revised reason by' (time s)) (audits s)
     else i \<in> li_id ` set (lists t) \<and>
       (\<exists>a. ofIndex i k a \<and> ri_reason (snd a) = reason \<and> ri_revokedBy (snd a) = by' \<and>
         audits t = audits s @ [a])) \<and> time t = time s"
proof -
  from assms obtain u1 s1 where 1: "store i c n s = (Inr u1, s1)"
    and r1: "andThen (increment i) (\<lambda>_. andThen (findAudit i k) (\<lambda>found. case found of
      Some _ \<Rightarrow> revise i k reason by' | None \<Rightarrow> save i k None reason by')) s1 = (Inr u, t)"
    by (rule andThen_InrE)
  from r1 obtain u2 s2 where 2: "increment i s1 = (Inr u2, s2)"
    and r2: "andThen (findAudit i k) (\<lambda>found. case found of
      Some _ \<Rightarrow> revise i k reason by' | None \<Rightarrow> save i k None reason by') s2 = (Inr u, t)"
    by (rule andThen_InrE)
  from r2 obtain found s3 where 3: "findAudit i k s2 = (Inr found, s3)"
    and r3: "(case found of Some _ \<Rightarrow> revise i k reason by' | None \<Rightarrow> save i k None reason by') s3 =
      (Inr u, t)"
    by (rule andThen_InrE)
  note laws = store_law [OF 1] increment_law [OF 2] findAudit_law [OF 3]
  have twice: "updateWhere (\<lambda>l. li_id l = i) counted
      (updateWhere (\<lambda>l. li_id l = i) (withBits c n (time s)) ls) =
      updateWhere (\<lambda>l. li_id l = i) (counted \<circ> withBits c n (time s)) ls" for ls
    by (simp add: updateWhere_def withBits_def)
  show ?thesis
  proof (cases found)
    case None
    with laws have no: "\<not> (\<exists>a\<in>set (audits s). ofIndex i k a)"
      by (auto simp: find_None_iff_all)
    from None r3 have "save i k None reason by' s3 = (Inr u, t)" by simp
    from save_law [OF this] laws no twice show ?thesis by auto
  next
    case (Some a)
    with laws have "map_option snd (find (ofIndex i k) (audits s)) = Some a" by simp
    then have "find (ofIndex i k) (audits s) \<noteq> None" by force
    then have yes: "\<exists>a\<in>set (audits s). ofIndex i k a"
      by (simp add: find_None_iff_all)
    from Some r3 have "revise i k reason by' s3 = (Inr u, t)" by simp
    from revise_law [OF this] laws yes twice show ?thesis by auto
  qed
qed

end

section \<open>The two adapters meet the contract\<close>

lemma query_Inr:
  "query F m s = (Inr a, t) \<Longrightarrow> m (s\<lparr>dbQueries := Suc (dbQueries s)\<rparr>) = (Inr a, t)"
  by (simp add: query_def Let_def split: option.splits)

lemma listsOf_queries [simp]: "listsOf (s\<lparr>dbQueries := n\<rparr>) = listsOf s"
  by (simp add: listsOf_def)

lemma auditsOf_queries [simp]: "auditsOf (s\<lparr>dbQueries := n\<rparr>) = auditsOf s"
  by (simp add: auditsOf_def)

lemma find_map: "find P (map f xs) = map_option f (find (P \<circ> f) xs)"
  by (induction xs) auto

lemma map_updateWhere:
  "(\<And>x. P x = Q (h x)) \<Longrightarrow> (\<And>x. h (f x) = g (h x)) \<Longrightarrow>
    map h (updateWhere P f xs) = updateWhere Q g (map h xs)"
  by (simp add: updateWhere_def)

lemma select_law:
  assumes "andThen (query F (selectByWalletAndVct w v)) (\<lambda>row. ret (map_option toStatusListInfo row)) s =
    (Inr r, t)"
  shows "r = find (ofPair w v) (listsOf s) \<and> listsOf t = listsOf s \<and> auditsOf t = auditsOf s \<and>
    dbClock t = dbClock s"
proof -
  have "(ofPair w v \<circ> toStatusListInfo) = (\<lambda>r. sl_wallet_id r = w \<and> sl_vct r = v)"
    by (auto simp: ofPair_def toStatusListInfo_def)
  with assms show ?thesis
    by (auto simp: selectByWalletAndVct_def listsOf_def auditsOf_def find_map
        elim!: andThen_InrE dest!: query_Inr)
qed

lemma store_row_law:
  assumes "query F (updateBitstring i c n) s = (Inr u, t)"
  shows "listsOf t = updateWhere (\<lambda>l. li_id l = i) (withBits c n (dbClock s)) (listsOf s) \<and>
    auditsOf t = auditsOf s \<and> dbClock t = dbClock s"
proof -
  have "map toStatusListInfo (updateWhere (\<lambda>r. sl_id r = i)
      (\<lambda>r. r\<lparr>sl_compressed_bitstring := c, sl_next_index := n, sl_last_updated_at := Some now,
        sl_updated_at := now\<rparr>) rows) =
      updateWhere (\<lambda>l. li_id l = i) (withBits c n now) (map toStatusListInfo rows)" for now rows
    by (rule map_updateWhere) (simp_all add: toStatusListInfo_def withBits_def)
  with query_Inr [OF assms] show ?thesis
    by (auto simp: updateBitstring_def listsOf_def auditsOf_def split: if_splits)
qed

lemma increment_row_law:
  assumes "query F (bumpRevokedCount i) s = (Inr u, t)"
  shows "listsOf t = updateWhere (\<lambda>l. li_id l = i) counted (listsOf s) \<and>
    auditsOf t = auditsOf s \<and> dbClock t = dbClock s"
proof -
  have "map toStatusListInfo (updateWhere (\<lambda>r. sl_id r = i)
      (\<lambda>r. r\<lparr>sl_revoked_count := sl_revoked_count r + 1\<rparr>) rows) =
      updateWhere (\<lambda>l. li_id l = i) counted (map toStatusListInfo rows)" for rows
    by (rule map_updateWhere) (simp_all add: toStatusListInfo_def counted_def)
  with query_Inr [OF assms] show ?thesis
    by (auto simp: bumpRevokedCount_def listsOf_def auditsOf_def split: if_splits)
qed

lemma atIndex_ofIndex:
  "atIndex i k r = ofIndex i k (rv_status_list_id r, toRevocationInfo r)"
  by (simp add: atIndex_def ofIndex_def toRevocationInfo_def)

lemma listsOf_ids: "li_id ` set (listsOf s) = sl_id ` set (statusLists s)"
  by (simp add: listsOf_def toStatusListInfo_def image_image)

lemma save_row_law:
  assumes "catching (query F (insertRevocation uuid i k cred reason by')) (auditError k) s = (Inr u, t)"
  shows "\<not> (\<exists>a\<in>set (auditsOf s). ofIndex i k a) \<and> i \<in> li_id ` set (listsOf s) \<and>
    listsOf t = listsOf s \<and> dbClock t = dbClock s \<and>
    (\<exists>a. ofIndex i k a \<and> ri_credentialId (snd a) = cred \<and> ri_reason (snd a) = reason \<and>
      ri_revokedBy (snd a) = by' \<and> auditsOf t = auditsOf s @ [a])"
proof -
  have "query F (insertRevocation uuid i k cred reason by') s = (Inr u, t)"
    using assms by (auto simp: catching_def auditError_def split: prod.splits sum.splits)
  from query_Inr [OF this] show ?thesis
    unfolding listsOf_ids
    by (auto simp: insertRevocation_def auditsOf_def listsOf_def atIndex_ofIndex ofIndex_def
        toRevocationInfo_def split: if_splits)
qed

lemma findAudit_row_law:
  assumes "andThen (query F (selectRevocation i k)) (\<lambda>row. ret (map_option toRevocationInfo row)) s =
    (Inr r, t)"
  shows "r = map_option snd (find (ofIndex i k) (auditsOf s)) \<and> listsOf t = listsOf s \<and>
    auditsOf t = auditsOf s \<and> dbClock t = dbClock s"
proof -
  have "(ofIndex i k \<circ> (\<lambda>r. (rv_status_list_id r, toRevocationInfo r))) = atIndex i k"
    by (simp add: fun_eq_iff atIndex_ofIndex)
  with assms show ?thesis
    by (auto simp: selectRevocation_def listsOf_def auditsOf_def find_map option.map_comp comp_def
        elim!: andThen_InrE dest!: query_Inr split: if_splits)
qed

lemma revise_row_law:
  assumes "query F (reviseRevocation i k reason by') s = (Inr u, t)"
  shows "auditsOf t = updateWhere (ofIndex i k) (revised reason by' (dbClock s)) (auditsOf s) \<and>
    listsOf t = listsOf s \<and> dbClock t = dbClock s"
proof -
  have "map (\<lambda>r. (rv_status_list_id r, toRevocationInfo r)) (updateWhere (atIndex i k)
      (\<lambda>r. r\<lparr>rv_reason := sqlCoalesce reason (rv_reason r),
         rv_revoked_by := sqlCoalesce by' (rv_revoked_by r), rv_revoked_at := now\<rparr>) rows) =
      updateWhere (ofIndex i k) (revised reason by' now)
        (map (\<lambda>r. (rv_status_list_id r, toRevocationInfo r)) rows)" for now rows
    by (rule map_updateWhere) (simp_all add: atIndex_ofIndex revised_def toRevocationInfo_def)
  with query_Inr [OF assms] show ?thesis
    by (auto simp: reviseRevocation_def listsOf_def auditsOf_def split: if_splits)
qed

interpretation pool: status_list_storage listsOf auditsOf dbClock "findByWalletAndVct F"
  "updateCompressedBitstring F" "incrementRevokedCount F" "saveRevocation F uuid" "findRevocation F"
  "updateRevocation F" for F uuid
  unfolding findByWalletAndVct_def updateCompressedBitstring_def incrementRevokedCount_def
    saveRevocation_def findRevocation_def updateRevocation_def
  by unfold_locales
    (erule select_law store_row_law increment_row_law save_row_law findAudit_row_law revise_row_law)+

interpretation connection: status_list_storage listsOf auditsOf dbClock "txFindByWalletAndVct F"
  "txUpdateCompressedBitstring F" "txIncrementRevokedCount F" "txSaveRevocation F uuid"
  "txFindRevocation F" "txUpdateRevocation F" for F uuid
  unfolding txFindByWalletAndVct_def txUpdateCompressedBitstring_def txIncrementRevokedCount_def
    txSaveRevocation_def txFindRevocation_def txUpdateRevocation_def runTx_def
  by unfold_locales
    (erule select_law store_row_law increment_row_law save_row_law findAudit_row_law revise_row_law)+

end
