(* ===== verification/RevocationOps.thy ===== *)
theory RevocationOps
  imports StorageContract
begin

text \<open>
  The operations of the revocation service on the store: what each phase has done when it
  returns, that a failed transaction leaves both tables alone, and the preservation of the
  invariant by every phase, from any state that other requests may have left in between.
\<close>

text \<open>
  The integrity of the status list store and its abstract view. The invariant \<open>rev_inv\<close>: one
  list per wallet and credential type, every stored bitstring decodes to at least the capacity
  of its list and holds only valid and revoked entries, one audit row per index. The register
  \<open>statusView V s\<close> maps a wallet and a credential type to the statuses of its list. The two write
  phases of the service preserve the invariant and act on the register as the abstract
  operations below, whatever other requests did between their read and their write.
\<close>

section \<open>Invariant\<close>

definition bits_ok :: "'l statusLib \<Rightarrow> int \<Rightarrow> int \<Rightarrow> string \<Rightarrow> bool" where
  "bits_ok L capacity bits compressed \<longleftrightarrow>
     (case decompressList L compressed bits of
        Inl _ \<Rightarrow> False
      | Inr l \<Rightarrow> bitsOf L l = bits \<and> set (entries L l) \<subseteq> {0, 1} \<and>
          capacity \<le> int (length (entries L l)))"

definition list_ok :: "'l statusLib \<Rightarrow> statusListInfo \<Rightarrow> bool" where
  "list_ok L l \<longleftrightarrow> validBits (li_bits l) \<and> 0 \<le> li_capacity l \<and> 0 \<le> li_nextIndex l \<and>
     0 \<le> li_revokedCount l \<and> bits_ok L (li_capacity l) (li_bits l) (li_compressed l)"

definition pairOf :: "statusListInfo \<Rightarrow> string \<times> string" where
  "pairOf l = (li_walletId l, li_vct l)"

definition auditKey :: "string \<times> revocationInfo \<Rightarrow> string \<times> int" where
  "auditKey a = (fst a, ri_index (snd a))"

definition lists_inv :: "'l revEnv \<Rightarrow> nat \<Rightarrow> statusListInfo list \<Rightarrow> bool" where
  "lists_inv V n ls \<longleftrightarrow> fresh_table (rvUuid V) n li_id ls \<and>
     unique_where (\<lambda>_. True) pairOf li_id ls \<and> (\<forall>l\<in>set ls. list_ok (rvLib V) l)"

definition audits_inv :: "statusListInfo list \<Rightarrow> (string \<times> revocationInfo) list \<Rightarrow> bool" where
  "audits_inv ls as \<longleftrightarrow> distinct (map auditKey as) \<and> fst ` set as \<subseteq> li_id ` set ls"

definition rev_inv :: "'l revEnv \<Rightarrow> statusDb \<Rightarrow> bool" where
  "rev_inv V s \<longleftrightarrow> lists_inv V (dbUuids s) (listsOf s) \<and> audits_inv (listsOf s) (auditsOf s)"

definition rev_env_ok :: "'l revEnv \<Rightarrow> bool" where
  "rev_env_ok V \<longleftrightarrow> lib_ok (rvLib V) \<and> inj (rvUuid V)"

section \<open>The register\<close>

type_synonym status_view = "string \<times> string \<Rightarrow> int list option"

definition statusesOf :: "'l statusLib \<Rightarrow> statusListInfo \<Rightarrow> int list" where
  "statusesOf L l =
     (case decompressList L (li_compressed l) (li_bits l) of
        Inl _ \<Rightarrow> []
      | Inr list \<Rightarrow> take (nat (li_capacity l)) (entries L list))"

definition statusView :: "'l revEnv \<Rightarrow> statusDb \<Rightarrow> status_view" where
  "statusView V s = (\<lambda>(w, v). map_option (statusesOf (rvLib V)) (find (ofPair w v) (listsOf s)))"

text \<open>The abstract operations.\<close>

definition specCreate :: "string \<times> string \<Rightarrow> int \<Rightarrow> status_view \<Rightarrow> status_view" where
  "specCreate p capacity reg =
     (case reg p of None \<Rightarrow> reg(p \<mapsto> replicate (nat capacity) 0) | Some _ \<Rightarrow> reg)"

definition specWrite :: "string \<times> string \<Rightarrow> int \<Rightarrow> int \<Rightarrow> status_view \<Rightarrow> status_view" where
  "specWrite p i status reg =
     (case reg p of None \<Rightarrow> reg | Some xs \<Rightarrow> reg(p \<mapsto> xs[nat i := status]))"

definition specStatus :: "string \<times> string \<Rightarrow> int \<Rightarrow> status_view \<Rightarrow> int option" where
  "specStatus p i reg =
     (case reg p of None \<Rightarrow> None
      | Some xs \<Rightarrow> if 0 \<le> i \<and> i < int (length xs) then Some (xs ! nat i) else None)"

section \<open>Bitstrings\<close>

lemma bits_okD:
  assumes "bits_ok L cap b c"
  obtains l where "decompressList L c b = Inr l" and "bitsOf L l = b"
    and "set (entries L l) \<subseteq> {0, 1}" and "cap \<le> int (length (entries L l))"
  using assms by (auto simp: bits_ok_def split: sum.splits)

lemma decoded_well_formed:
  assumes "validBits b" and "bitsOf L l = b" and "set (entries L l) \<subseteq> {0, 1}"
  shows "well_formed L l"
proof -
  have "(1::int) < 2 ^ nat b" using assms(1) by (auto simp: validBits_def)
  with assms show ?thesis unfolding well_formed_def by fastforce
qed

text \<open>
  What a write phase stores: the decoded list with one entry changed, compressed again. Its
  first entries up to the capacity are the old ones but for the change.
\<close>

lemma rewritten:
  assumes L: "lib_ok L" and b: "validBits b" and dec: "decompressList L c b = Inr l"
    and ok: "bits_ok L cap b c" and set: "setStatus L l i v = Inr l'" and v: "v \<in> {0, 1}"
    and cap: "0 \<le> cap"
  shows "bits_ok L cap b (compress L l') \<and>
    (\<exists>m. decompressList L (compress L l') b = Inr m \<and>
      take (nat cap) (entries L m) = (take (nat cap) (entries L l))[nat i := v])"
proof -
  from ok dec have l: "bitsOf L l = b" "set (entries L l) \<subseteq> {0, 1}" "cap \<le> int (length (entries L l))"
    by (auto simp: bits_ok_def)
  from setStatus_inRange [OF L set] have l': "entries L l' = (entries L l)[nat i := v]" "bitsOf L l' = b"
    using l(1) by simp_all
  have "well_formed L l'"
    by (rule well_formed_set [OF decoded_well_formed [OF b l(1,2)] l'(1)]) (use l l' v in auto)
  from lib_roundtrip [OF L this] obtain m k where m: "decompressList L (compress L l') b = Inr m"
      "entries L m = entries L l' @ replicate k 0" "bitsOf L m = b"
    unfolding compress_def l'(2) by metis
  have "set (entries L l') \<subseteq> {0, 1}"
    using l(2) v set_update_subset_insert [of "entries L l" "nat i" v] l'(1) by auto
  then have "bits_ok L cap b (compress L l')"
    using m l(3) l'(1) by (auto simp: bits_ok_def)
  moreover have "take (nat cap) (entries L m) = (take (nat cap) (entries L l))[nat i := v]"
    using m(2) l'(1) l(3) cap by (simp add: take_update_swap)
  ultimately show ?thesis using m(1) by blast
qed

lemma fresh_list_ok:
  assumes L: "lib_ok L" and new: "createEmptyList L b cap = Inr l"
  shows "bits_ok L cap b (compress L l) \<and> validBits b \<and> 0 \<le> cap \<and>
    (\<exists>m. decompressList L (compress L l) b = Inr m \<and>
      take (nat cap) (entries L m) = replicate (nat cap) 0)"
proof -
  from new have cap: "0 \<le> cap" and nl: "newList L (replicate (nat cap) 0) b = Inr l"
    by (auto simp: createEmptyList_def split: if_splits)
  have b: "validBits b"
    using nl L unfolding lib_ok_def lib_constructs_def by (metis sum.disc(2))
  have "\<forall>x\<in>set (replicate (nat cap) (0 :: int)). 0 \<le> x \<and> x < 2 ^ nat b" by simp
  from lib_new [OF L b this] nl have l: "entries L l = replicate (nat cap) 0" "bitsOf L l = b"
    by (metis sum.inject(2))+
  then have "well_formed L l" by (intro decoded_well_formed [OF b]) auto
  from lib_roundtrip [OF L this] obtain m k where m: "decompressList L (compress L l) b = Inr m"
      "entries L m = entries L l @ replicate k 0" "bitsOf L m = b"
    unfolding compress_def l(2) by metis
  then show ?thesis using cap b l by (auto simp: bits_ok_def)
qed

section \<open>Lists under a write\<close>

lemma find_ofPair:
  assumes "unique_where (\<lambda>_. True) pairOf li_id ls" and "distinct (map li_id ls)" and "l \<in> set ls"
  shows "find (ofPair (li_walletId l) (li_vct l)) ls = Some l"
proof -
  have "find (ofPair (li_walletId l) (li_vct l)) ls \<noteq> None"
    using assms(3) by (auto simp: find_None_iff_all ofPair_def)
  then obtain l' where l': "find (ofPair (li_walletId l) (li_vct l)) ls = Some l'" by blast
  from find_Some_iff_in [OF l'] have "l' \<in> set ls" "pairOf l' = pairOf l"
    by (simp_all add: ofPair_def pairOf_def)
  with assms have "li_id l' = li_id l" by (auto dest: unique_whereD)
  with assms(2,3) \<open>l' \<in> set ls\<close> have "l' = l" by (simp add: distinct_map inj_on_def)
  with l' show ?thesis by simp
qed

text \<open>A change of a row that keeps what identifies it and what fixes its length.\<close>

definition row_change :: "(statusListInfo \<Rightarrow> statusListInfo) \<Rightarrow> bool" where
  "row_change g \<longleftrightarrow> (\<forall>l. li_id (g l) = li_id l \<and> pairOf (g l) = pairOf l \<and>
     li_bits (g l) = li_bits l \<and> li_capacity (g l) = li_capacity l)"

lemma row_changeD:
  assumes "row_change g"
  shows "li_id (g l) = li_id l" "pairOf (g l) = pairOf l" "li_bits (g l) = li_bits l"
    "li_capacity (g l) = li_capacity l" "ofPair w v (g l) = ofPair w v l"
  using assms by (auto simp: row_change_def pairOf_def ofPair_def)

lemma row_change_withBits [simp]: "row_change (withBits c n now)"
  by (simp add: row_change_def withBits_def pairOf_def)

lemma row_change_counted [simp]: "row_change (counted \<circ> withBits c n now)"
  by (simp add: row_change_def withBits_def counted_def pairOf_def)

lemma li_ids_update [simp]:
  "row_change g \<Longrightarrow> li_id ` set (updateWhere P g ls) = li_id ` set ls"
  unfolding set_updateWhere image_image by (intro image_cong) (simp_all add: row_changeD)

lemma lists_inv_update:
  assumes inv: "lists_inv V n ls" and g: "row_change g"
    and ok: "\<And>l. l \<in> set ls \<Longrightarrow> li_id l = i \<Longrightarrow> list_ok (rvLib V) (g l)"
  shows "lists_inv V n (updateWhere (\<lambda>l. li_id l = i) g ls)"
proof -
  let ?h = "\<lambda>l. if li_id l = i then g l else l"
  have "fresh_table (rvUuid V) n li_id (map ?h ls)"
    by (rule fresh_table_map) (use inv g in \<open>auto simp: lists_inv_def row_changeD\<close>)
  moreover have "unique_where (\<lambda>_. True) pairOf li_id (map ?h ls)"
    by (rule unique_where_map) (use inv g in \<open>auto simp: lists_inv_def row_changeD\<close>)
  moreover have "\<forall>l\<in>set (map ?h ls). list_ok (rvLib V) l"
    using inv ok by (auto simp: lists_inv_def)
  ultimately show ?thesis by (simp add: lists_inv_def updateWhere_def)
qed

lemma find_update:
  assumes "row_change g"
  shows "find (ofPair w v) (updateWhere P g ls) =
    map_option (\<lambda>l. if P l then g l else l) (find (ofPair w v) ls)"
  by (induction ls) (auto simp: updateWhere_def row_changeD [OF assms])

section \<open>Steps that only count queries\<close>

definition quiet :: "statusDb \<Rightarrow> statusDb \<Rightarrow> bool" where
  "quiet s t \<longleftrightarrow> listsOf t = listsOf s \<and> auditsOf t = auditsOf s \<and> dbUuids t = dbUuids s \<and>
     dbClock t = dbClock s"

text \<open>Nothing visible but perhaps a drawn identifier: what a failed operation leaves behind.\<close>

definition untouched :: "statusDb \<Rightarrow> statusDb \<Rightarrow> bool" where
  "untouched s t \<longleftrightarrow> listsOf t = listsOf s \<and> auditsOf t = auditsOf s \<and> dbUuids s \<le> dbUuids t \<and>
     dbClock t = dbClock s"

lemma quiet_refl [simp]: "quiet s s"
  by (simp add: quiet_def)

lemma quiet_trans: "quiet s t \<Longrightarrow> quiet t u \<Longrightarrow> quiet s u"
  by (simp add: quiet_def)

lemma quiet_untouched: "quiet s t \<Longrightarrow> untouched s t"
  by (simp add: quiet_def untouched_def)

lemma untouched_trans: "untouched s t \<Longrightarrow> untouched t u \<Longrightarrow> untouched s u"
  by (auto simp: untouched_def)

lemma quiet_queries [simp]: "quiet s (s\<lparr>dbQueries := n\<rparr>)"
  by (simp add: quiet_def)

lemma listsOf_events [simp]: "listsOf (s\<lparr>dbEvents := e\<rparr>) = listsOf s"
  by (simp add: listsOf_def)

lemma auditsOf_events [simp]: "auditsOf (s\<lparr>dbEvents := e\<rparr>) = auditsOf s"
  by (simp add: auditsOf_def)

lemma publishEvent_run:
  obtains t where "publishEvent V k p s = (Inr (), t)" and "quiet s t"
proof -
  have "\<exists>t. publishEvent V k p s = (Inr (), t) \<and> quiet s t"
    by (auto simp: publishEvent_def quiet_def split: option.split)
  then show ?thesis using that by blast
qed

lemma find_run:
  assumes "findByWalletAndVct F w v s = (r, t)"
  shows "quiet s t \<and> (\<forall>found. r = Inr found \<longrightarrow> find (ofPair w v) (listsOf s) = found)"
proof -
  have "quiet s t"
    using assms by (auto simp: findByWalletAndVct_def query_def selectByWalletAndVct_def andThen_def
        Let_def split: option.splits)
  then show ?thesis using assms by (auto dest: pool.find_law)
qed

lemma requireList_run:
  assumes "requireList V w v s = (r, t)"
  shows "quiet s t \<and> (\<forall>l. r = Inr l \<longrightarrow> find (ofPair w v) (listsOf s) = Some l)"
proof -
  obtain r' t' where f: "findByWalletAndVct (rvFaults V) w v s = (r', t')" by fastforce
  from find_run [OF f] f assms show ?thesis
    by (auto simp: requireList_def andThen_def orThrow_def split: sum.splits option.splits)
qed

text \<open>The end of an operation: the clock is read, the event published, the result returned.\<close>

lemma announce_run:
  assumes "andThen dateNow (\<lambda>now. andThen (publishEvent V k (p now)) (\<lambda>_. ret (f now))) s = (r, t)"
  shows "quiet s t \<and> r = Inr (f (dbClock s))"
proof -
  obtain t' where t': "publishEvent V k (p (dbClock s)) s = (Inr (), t')" and "quiet s t'"
    by (rule publishEvent_run)
  moreover have "andThen (publishEvent V k (p (dbClock s))) (\<lambda>_. ret (f (dbClock s))) s = (r, t)"
    using assms by (simp add: dateNow_def)
  ultimately show ?thesis by (simp add: andThen_def t')
qed

section \<open>Transactions\<close>

lemma query_ret:
  "query F (ret ()) s = (Inr (), s\<lparr>dbQueries := Suc (dbQueries s)\<rparr>) \<or>
   (\<exists>e. query F (ret ()) s = (Inl e, s\<lparr>dbQueries := Suc (dbQueries s)\<rparr>))"
  by (auto simp: query_def Let_def split: option.split)

lemma rollback_restores [simp]:
  "listsOf (rollback s t) = listsOf s" "auditsOf (rollback s t) = auditsOf s"
  "dbUuids (rollback s t) = dbUuids t" "dbClock (rollback s t) = dbClock t"
  by (simp_all add: rollback_def listsOf_def auditsOf_def)

text \<open>A transaction that commits has run its body; one that fails has restored both tables.\<close>

lemma withTransaction_Inr:
  assumes "withTransaction F body s = (Inr r, t)"
  obtains s' t' where "quiet s s'" and "body s' = (Inr r, t')" and "quiet t' t"
proof -
  from assms obtain u s1 where 1: "query F (ret ()) s = (Inr u, s1)"
    and "(case andThen (query F (ret ())) (\<lambda>_. andThen body (\<lambda>result.
        andThen (query F (ret ())) (\<lambda>_. ret result))) s1 of
      (Inr result, s') \<Rightarrow> (Inr result, s') | (Inl e, s') \<Rightarrow> (Inl e, rollback s1 s')) = (Inr r, t)"
    unfolding withTransaction_def by (rule andThen_InrE)
  then have "andThen (query F (ret ())) (\<lambda>_. andThen body (\<lambda>result.
        andThen (query F (ret ())) (\<lambda>_. ret result))) s1 = (Inr r, t)"
    by (auto split: prod.splits sum.splits)
  then obtain u2 s2 where 2: "query F (ret ()) s1 = (Inr u2, s2)"
    and r2: "andThen body (\<lambda>result. andThen (query F (ret ())) (\<lambda>_. ret result)) s2 = (Inr r, t)"
    by (rule andThen_InrE)
  from r2 obtain r' s3 where 3: "body s2 = (Inr r', s3)"
    and r3: "andThen (query F (ret ())) (\<lambda>_. ret r') s3 = (Inr r, t)"
    by (rule andThen_InrE)
  from r3 obtain u4 s4 where 4: "query F (ret ()) s3 = (Inr u4, s4)" and "r' = r" "s4 = t"
    by (auto elim: andThen_InrE)
  have "quiet s s2" using 1 2 by (auto dest!: query_Inr intro: quiet_trans)
  moreover have "quiet s3 t" using 4 \<open>s4 = t\<close> by (auto dest!: query_Inr)
  ultimately show ?thesis using 3 \<open>r' = r\<close> that by blast
qed

definition drawing :: "'a storage \<Rightarrow> bool" where
  "drawing m \<longleftrightarrow> (\<forall>s. dbUuids s \<le> dbUuids (snd (m s)) \<and> dbClock (snd (m s)) = dbClock s)"

lemma drawingI:
  "(\<And>s. dbUuids s \<le> dbUuids (snd (m s)) \<and> dbClock (snd (m s)) = dbClock s) \<Longrightarrow> drawing m"
  by (simp add: drawing_def)

lemma drawing_ret [simp]: "drawing (ret a)"
  by (simp add: drawing_def)

lemma drawing_throw [simp]: "drawing (throw e)"
  by (simp add: drawing_def)

lemma drawing_query [simp]: "drawing m \<Longrightarrow> drawing (query F m)"
proof (rule drawingI)
  fix s
  assume m: "drawing m"
  have "dbUuids s \<le> dbUuids (snd (m (s\<lparr>dbQueries := n\<rparr>))) \<and>
      dbClock (snd (m (s\<lparr>dbQueries := n\<rparr>))) = dbClock s" for n
    using m [unfolded drawing_def, THEN spec [of _ "s\<lparr>dbQueries := n\<rparr>"]] by simp
  then show "dbUuids s \<le> dbUuids (snd (query F m s)) \<and> dbClock (snd (query F m s)) = dbClock s"
    by (simp add: query_def Let_def split: option.split)
qed

lemma drawing_andThen:
  assumes "drawing m" and "\<And>a. drawing (f a)"
  shows "drawing (andThen m f)"
proof (rule drawingI)
  fix s
  obtain r t where m: "m s = (r, t)" by fastforce
  with assms(1) have "dbUuids s \<le> dbUuids t" "dbClock t = dbClock s"
    unfolding drawing_def by (metis snd_conv)+
  moreover have "dbUuids t \<le> dbUuids (snd (f a t)) \<and> dbClock (snd (f a t)) = dbClock t" for a
    using assms(2) unfolding drawing_def by blast
  ultimately show "dbUuids s \<le> dbUuids (snd (andThen m f s)) \<and> dbClock (snd (andThen m f s)) = dbClock s"
    using m by (cases r) (auto simp: andThen_def intro: order_trans)
qed

lemma drawing_catching:
  assumes "drawing m" and "\<And>e. drawing (h e)"
  shows "drawing (catching m h)"
proof (rule drawingI)
  fix s
  obtain r t where m: "m s = (r, t)" by fastforce
  with assms(1) have "dbUuids s \<le> dbUuids t" "dbClock t = dbClock s"
    unfolding drawing_def by (metis snd_conv)+
  moreover have "dbUuids t \<le> dbUuids (snd (h e t)) \<and> dbClock (snd (h e t)) = dbClock t" for e
    using assms(2) unfolding drawing_def by blast
  ultimately show "dbUuids s \<le> dbUuids (snd (catching m h s)) \<and> dbClock (snd (catching m h s)) = dbClock s"
    using m by (cases r) (auto simp: catching_def intro: order_trans)
qed

lemma drawing_statements [simp]:
  "drawing (updateBitstring i c n)" "drawing (bumpRevokedCount i)"
  "drawing (insertRevocation uuid l j cr re by')" "drawing (selectRevocation l j)"
  "drawing (reviseRevocation l j re by')" "drawing (selectByWalletAndVct w v)"
  "drawing (insertStatusList uuid w v b k c n)"
  by (simp_all add: drawing_def updateBitstring_def bumpRevokedCount_def insertRevocation_def
      selectRevocation_def reviseRevocation_def selectByWalletAndVct_def insertStatusList_def Let_def)

lemma drawing_allocationTx: "drawing (allocationTx V c a)"
  by (auto simp: allocationTx_def txUpdateCompressedBitstring_def txSaveRevocation_def runTx_def
      auditError_def intro!: drawing_andThen drawing_catching)

lemma drawing_revocationTx: "drawing (revocationTx V ps p)"
  by (auto simp: revocationTx_def Let_def txUpdateCompressedBitstring_def txSaveRevocation_def
      txIncrementRevokedCount_def txFindRevocation_def txUpdateRevocation_def runTx_def
      auditError_def intro!: drawing_andThen drawing_catching split: option.split)

lemma withTransaction_Inl:
  assumes "drawing body" and "withTransaction F body s = (Inl e, t)"
  shows "untouched s t"
proof -
  obtain r s1 where 1: "query F (ret ()) s = (r, s1)" by fastforce
  then have q: "quiet s s1" using query_ret [of F s] by auto
  let ?m = "andThen (query F (ret ())) (\<lambda>_. andThen body (\<lambda>result.
        andThen (query F (ret ())) (\<lambda>_. ret result)))"
  have dm: "drawing ?m" by (intro drawing_andThen assms(1)) simp_all
  show ?thesis
  proof (cases r)
    case (Inl e')
    with 1 assms(2) q show ?thesis
      by (auto simp: withTransaction_def andThen_def intro: quiet_untouched)
  next
    case (Inr u)
    obtain r2 s2 where 2: "?m s1 = (r2, s2)" by fastforce
    with dm have "dbUuids s1 \<le> dbUuids s2" "dbClock s2 = dbClock s1"
      unfolding drawing_def by (metis snd_conv)+
    moreover have "withTransaction F body s =
        (case r2 of Inr a \<Rightarrow> (Inr a, s2) | Inl e \<Rightarrow> (Inl e, rollback s1 s2))"
      using 1 Inr 2 unfolding withTransaction_def by (simp add: andThen_Inr split: sum.split)
    ultimately show ?thesis
      using assms(2) q by (auto simp: untouched_def quiet_def split: sum.splits)
  qed
qed

section \<open>The write phases\<close>

definition revoked_rows ::
  "'l revEnv \<Rightarrow> revokeParams \<Rightarrow> revocationPlan \<Rightarrow> statusDb \<Rightarrow> statusDb \<Rightarrow> bool" where
  "revoked_rows V params p s t \<longleftrightarrow>
     (let i = li_id (rp_list p); k = rp_index params in
      listsOf t = updateWhere (\<lambda>l. li_id l = i)
        (counted \<circ> withBits (rp_compressed p) (li_nextIndex (rp_list p)) (dbClock s)) (listsOf s) \<and>
      (if \<exists>a\<in>set (auditsOf s). ofIndex i k a
       then auditsOf t = updateWhere (ofIndex i k)
         (revised (rp_reason params) (rp_revokedBy params) (dbClock s)) (auditsOf s)
       else i \<in> li_id ` set (listsOf t) \<and>
         (\<exists>a. ofIndex i k a \<and> ri_reason (snd a) = rp_reason params \<and>
           ri_revokedBy (snd a) = rp_revokedBy params \<and> auditsOf t = auditsOf s @ [a])) \<and>
      dbUuids s \<le> dbUuids t \<and> dbClock t = dbClock s)"

lemma commitRevocation_Inr:
  assumes "commitRevocation V params p s = (Inr r, t)"
  shows "revoked_rows V params p s t \<and> rr_status r = STATUS_TYPE_INVALID \<and>
    rr_revokedAt r = dbClock s"
proof -
  from assms obtain u s1 where 1: "withTransaction (rvFaults V) (revocationTx V params p) s = (Inr u, s1)"
    and fin: "quiet s1 t \<and> Inr r = (Inr \<lparr>rr_revokedAt = dbClock s1, rr_status = STATUS_TYPE_INVALID\<rparr>
      :: revError + revokeResult)"
    unfolding commitRevocation_def by - (erule andThen_InrE, drule announce_run, blast)
  from 1 obtain s' t' where q: "quiet s s'" and b: "revocationTx V params p s' = (Inr u, t')"
    and q': "quiet t' s1" by (rule withTransaction_Inr)
  have du: "dbUuids s' \<le> dbUuids t'" "dbClock t' = dbClock s'"
    using drawing_revocationTx [of V params p] b unfolding drawing_def by (metis snd_conv)+
  have e: "listsOf s' = listsOf s" "auditsOf s' = auditsOf s" "dbClock s' = dbClock s"
      "dbUuids s' = dbUuids s"
    and e': "listsOf t = listsOf t'" "auditsOf t = auditsOf t'" "dbClock t = dbClock t'"
      "dbUuids t = dbUuids t'" "dbClock s1 = dbClock t'"
    using q q' fin by (simp_all add: quiet_def)
  have "revoked_rows V params p s t"
    using connection.revocation_body [OF b [unfolded revocationTx_def Let_def], unfolded e] du [unfolded e]
    unfolding revoked_rows_def Let_def e' by - (elim conjE, intro conjI; assumption)
  with fin e' du(2) e(3) show ?thesis by simp
qed

lemma commitRevocation_Inl:
  assumes "commitRevocation V params p s = (Inl e, t)"
  shows "untouched s t"
proof -
  obtain r s1 where 1: "withTransaction (rvFaults V) (revocationTx V params p) s = (r, s1)" by fastforce
  show ?thesis
  proof (cases r)
    case (Inl e')
    with assms 1 have "withTransaction (rvFaults V) (revocationTx V params p) s = (Inl e', t)"
      by (simp add: commitRevocation_def andThen_def)
    then show ?thesis by (rule withTransaction_Inl [OF drawing_revocationTx])
  next
    case (Inr u)
    from assms 1 Inr have False
      by (auto simp: commitRevocation_def andThen_def [of "withTransaction F b" for F b] dest: announce_run)
    then show ?thesis ..
  qed
qed

definition allocated_rows ::
  "'l revEnv \<Rightarrow> allocateIndexParams \<Rightarrow> allocation \<Rightarrow> statusDb \<Rightarrow> statusDb \<Rightarrow> bool" where
  "allocated_rows V params a s t \<longleftrightarrow>
     (let i = li_id (ac_list a); k = ac_index a in
      listsOf t = updateWhere (\<lambda>l. li_id l = i) (withBits (ac_compressed a) (k + 1) (dbClock s))
        (listsOf s) \<and>
      (if truthyText (al_credentialId params)
       then \<not> (\<exists>x\<in>set (auditsOf s). ofIndex i k x) \<and> i \<in> li_id ` set (listsOf t) \<and>
         (\<exists>x. ofIndex i k x \<and> ri_credentialId (snd x) = al_credentialId params \<and>
           auditsOf t = auditsOf s @ [x])
       else auditsOf t = auditsOf s) \<and>
      dbUuids s \<le> dbUuids t \<and> dbClock t = dbClock s)"

lemma commitAllocation_Inr:
  assumes "commitAllocation V params a s = (Inr r, t)"
  shows "allocated_rows V params a s t \<and> ir_index r = ac_index a \<and> ir_uri r = ac_uri a"
proof -
  from assms obtain u s1 where
      1: "withTransaction (rvFaults V) (allocationTx V (al_credentialId params) a) s = (Inr u, s1)"
    and fin: "quiet s1 t \<and> Inr r = (Inr \<lparr>ir_index = ac_index a, ir_uri = ac_uri a\<rparr>
      :: revError + indexRef)"
    unfolding commitAllocation_def by - (erule andThen_InrE, drule announce_run, blast)
  from 1 obtain s' t' where q: "quiet s s'"
    and b: "allocationTx V (al_credentialId params) a s' = (Inr u, t')"
    and q': "quiet t' s1" by (rule withTransaction_Inr)
  have du: "dbUuids s' \<le> dbUuids t'" "dbClock t' = dbClock s'"
    using drawing_allocationTx [of V "al_credentialId params" a] b unfolding drawing_def
    by (metis snd_conv)+
  have e: "listsOf s' = listsOf s" "auditsOf s' = auditsOf s" "dbClock s' = dbClock s"
      "dbUuids s' = dbUuids s"
    and e': "listsOf t = listsOf t'" "auditsOf t = auditsOf t'" "dbClock t = dbClock t'"
      "dbUuids t = dbUuids t'"
    using q q' fin by (simp_all add: quiet_def)
  have "allocated_rows V params a s t"
    using connection.allocation_body [OF b [unfolded allocationTx_def], unfolded e] du [unfolded e]
    unfolding allocated_rows_def Let_def e' by - (elim conjE, intro conjI; assumption)
  with fin show ?thesis by simp
qed

lemma commitAllocation_Inl:
  assumes "commitAllocation V params a s = (Inl e, t)"
  shows "untouched s t"
proof -
  let ?T = "withTransaction (rvFaults V) (allocationTx V (al_credentialId params) a)"
  obtain r s1 where 1: "?T s = (r, s1)" by fastforce
  show ?thesis
  proof (cases r)
    case (Inl e')
    with assms 1 have "?T s = (Inl e', t)" by (simp add: commitAllocation_def andThen_def)
    then show ?thesis by (rule withTransaction_Inl [OF drawing_allocationTx])
  next
    case (Inr u)
    from assms 1 Inr have False
      by (auto simp: commitAllocation_def andThen_def [of "withTransaction F b" for F b] dest: announce_run)
    then show ?thesis ..
  qed
qed

section \<open>The read phases\<close>

lemma planRevocation_run:
  assumes "planRevocation V params s = (r, t)"
  shows "quiet s t \<and> (\<forall>p. r = Inr p \<longrightarrow>
    find (ofPair (rp_walletId params) (rp_vct params)) (listsOf s) = Some (rp_list p) \<and>
    0 \<le> rp_index params \<and> rp_index params < li_capacity (rp_list p) \<and>
    (\<exists>l l'. decompressList (rvLib V) (li_compressed (rp_list p)) (li_bits (rp_list p)) = Inr l \<and>
      setStatus (rvLib V) l (rp_index params) STATUS_TYPE_INVALID = Inr l' \<and>
      rp_compressed p = compress (rvLib V) l'))"
proof -
  obtain r0 t0 where f: "requireList V (rp_walletId params) (rp_vct params) s = (r0, t0)" by fastforce
  show ?thesis
  proof (cases r0)
    case (Inl e)
    with f assms requireList_run [OF f] show ?thesis
      by (auto simp: planRevocation_def Let_def andThen_def)
  next
    case (Inr info)
    with requireList_run [OF f]
    have q: "quiet s t0" "find (ofPair (rp_walletId params) (rp_vct params)) (listsOf s) = Some info"
      by simp_all
    from assms Inr f have "andThen (lift (decompress (rvLib V) (li_compressed info) (li_bits info))) (\<lambda>list.
        andThen (throwIf (rp_index params < 0 \<or> li_capacity info \<le> rp_index params)
          (IndexOutOfBoundsError (rp_index params) (li_capacity info))) (\<lambda>_.
        andThen (lift (setStatus (rvLib V) list (rp_index params) STATUS_TYPE_INVALID)) (\<lambda>list'.
        ret \<lparr>rp_list = info, rp_compressed = compress (rvLib V) list'\<rparr>))) t0 = (r, t)"
      by (simp add: planRevocation_def Let_def andThen_def)
    with q show ?thesis
      by (auto simp: andThen_def decompress_def throwIf_def split: sum.splits if_splits)
  qed
qed

lemma getStatus_run:
  assumes "getStatus V w v i s = (r, t)"
  shows "quiet s t \<and> (\<forall>g. r = Inr g \<longrightarrow> (\<exists>info l.
    find (ofPair w v) (listsOf s) = Some info \<and> 0 \<le> i \<and> i < li_capacity info \<and>
    decompressList (rvLib V) (li_compressed info) (li_bits info) = Inr l \<and>
    listStatus (rvLib V) l i = Inr (gs_status g)))"
proof -
  obtain r0 t0 where f: "requireList V w v s = (r0, t0)" by fastforce
  show ?thesis
  proof (cases r0)
    case (Inl e)
    with f assms requireList_run [OF f] show ?thesis
      by (auto simp: getStatus_def andThen_def)
  next
    case (Inr info)
    with requireList_run [OF f] have q: "quiet s t0" "find (ofPair w v) (listsOf s) = Some info"
      by simp_all
    from assms Inr f have "andThen (lift (decompress (rvLib V) (li_compressed info) (li_bits info))) (\<lambda>list.
        andThen (throwIf (i < 0 \<or> li_capacity info \<le> i) (IndexOutOfBoundsError i (li_capacity info))) (\<lambda>_.
        andThen (lift (listStatus (rvLib V) list i)) (\<lambda>status.
        ret \<lparr>gs_status = status, gs_updatedAt = li_lastUpdatedAt info\<rparr>))) t0 = (r, t)"
      by (simp add: getStatus_def andThen_def)
    with q show ?thesis
      by (auto simp: andThen_def decompress_def throwIf_def split: sum.splits if_splits)
  qed
qed

section \<open>Creation\<close>

definition inserted ::
  "(nat \<Rightarrow> string) \<Rightarrow> string \<Rightarrow> string \<Rightarrow> int \<Rightarrow> int \<Rightarrow> string \<Rightarrow> statusDb \<Rightarrow> statusListInfo \<Rightarrow>
    statusDb \<Rightarrow> bool" where
  "inserted uuid w v b cap c s l t \<longleftrightarrow>
     find (ofPair w v) (listsOf s) = None \<and> listsOf t = listsOf s @ [l] \<and> auditsOf t = auditsOf s \<and>
     dbUuids t = Suc (dbUuids s) \<and> dbClock t = dbClock s \<and> li_id l = uuid (dbUuids s) \<and>
     ofPair w v l \<and> li_bits l = b \<and> li_capacity l = cap \<and> li_compressed l = c \<and>
     li_nextIndex l = 0 \<and> li_revokedCount l = 0"

lemma insertStatusList_run:
  assumes "insertStatusList uuid w v b cap c 0 s = (r, t)"
  shows "case r of Inl _ \<Rightarrow> untouched s t
    | Inr row \<Rightarrow> inserted uuid w v b cap c s (toStatusListInfo row) t"
proof -
  have "find (ofPair w v) (map toStatusListInfo rows) = None \<longleftrightarrow>
      \<not> (\<exists>r\<in>set rows. sl_wallet_id r = w \<and> sl_vct r = v)" for rows
    by (auto simp: find_None_iff_all ofPair_def toStatusListInfo_def)
  with assms show ?thesis
    by (auto simp: insertStatusList_def inserted_def untouched_def listsOf_def auditsOf_def
        toStatusListInfo_def ofPair_def Let_def split: if_splits)
qed

lemma create_run:
  assumes "create F uuid w v b cap c 0 s = (r, t)"
  shows "case r of Inl _ \<Rightarrow> untouched s t | Inr l \<Rightarrow> inserted uuid w v b cap c s l t"
proof (cases "F (dbQueries s)")
  case (Some e)
  with assms show ?thesis by (auto simp: create_def andThen_def query_def untouched_def)
next
  case None
  let ?s = "s\<lparr>dbQueries := Suc (dbQueries s)\<rparr>"
  obtain r1 t1 where ins: "insertStatusList uuid w v b cap c 0 ?s = (r1, t1)" by fastforce
  with None assms have "r = (case r1 of Inl e \<Rightarrow> Inl e | Inr row \<Rightarrow> Inr (toStatusListInfo row))" "t = t1"
    by (auto simp: create_def andThen_def query_def split: sum.splits)
  with insertStatusList_run [OF ins] show ?thesis
    by (cases r1) (simp_all add: inserted_def untouched_def)
qed

text \<open>
  What creation guarantees: the tables are as before, or they have one new, empty list for a
  pair that had none.
\<close>

definition created_row ::
  "'l revEnv \<Rightarrow> string \<Rightarrow> string \<Rightarrow> int \<Rightarrow> statusDb \<Rightarrow> statusDb \<Rightarrow> bool" where
  "created_row V w v cap s t \<longleftrightarrow> find (ofPair w v) (listsOf s) = None \<and>
     (\<exists>l. listsOf t = listsOf s @ [l] \<and> auditsOf t = auditsOf s \<and> Suc (dbUuids s) \<le> dbUuids t \<and>
       dbClock t = dbClock s \<and> li_id l = rvUuid V (dbUuids s) \<and> ofPair w v l \<and>
       li_capacity l = cap \<and> li_nextIndex l = 0 \<and> li_revokedCount l = 0 \<and>
       list_ok (rvLib V) l \<and> statusesOf (rvLib V) l = replicate (nat cap) 0)"

lemma createStatusList_run:
  assumes lib: "lib_ok (rvLib V)" and run: "createStatusList V params s = (r, t)"
  shows "(untouched s t \<and> (\<forall>x. r = Inr x \<longrightarrow>
        find (ofPair (cs_walletId params) (cs_vct params)) (listsOf s) \<noteq> None)) \<or>
    created_row V (cs_walletId params) (cs_vct params) (coalesce (cs_capacity params) 16384) s t"
proof -
  let ?w = "cs_walletId params" and ?v = "cs_vct params"
  let ?b = "coalesce (cs_bits params) 1" and ?cap = "coalesce (cs_capacity params) 16384"
  show ?thesis
  proof (cases "rvSigners V ?w")
    case (Inl m)
    with run show ?thesis
      by (auto simp: createStatusList_def resolveSigner_def Let_def untouched_def)
  next
    case (Inr signer)
    obtain r1 s1 where f: "findByWalletAndVct (rvFaults V) ?w ?v s = (r1, s1)" by fastforce
    note found = find_run [OF f]
    show ?thesis
    proof (cases "r1 = Inr None")
      case False
      with run Inr f have "t = s1 \<and> (\<forall>x. r = Inr x \<longrightarrow> (\<exists>info. r1 = Inr (Some info)))"
        by (auto simp: createStatusList_def resolveSigner_def Let_def andThen_def
            split: sum.splits option.splits)
      with found show ?thesis by (auto intro: quiet_untouched)
    next
      case True
      let ?E = "createEmptyList (rvLib V) ?b ?cap"
      show ?thesis
      proof (cases ?E)
        case (Inl e)
        with True run \<open>rvSigners V ?w = Inr signer\<close> f found show ?thesis
          by (auto simp: createStatusList_def resolveSigner_def Let_def andThen_def intro: quiet_untouched)
      next
        case (Inr list)
        let ?c = "compress (rvLib V) list"
        obtain r2 s2 where c: "create (rvFaults V) (rvUuid V) ?w ?v ?b ?cap ?c 0 s1 = (r2, s2)"
          by fastforce
        show ?thesis
        proof (cases r2)
          case (Inl e)
          with True run \<open>rvSigners V ?w = Inr signer\<close> f \<open>?E = Inr list\<close> c have "t = s2 \<and> r = Inl e"
            by (simp add: createStatusList_def resolveSigner_def Let_def andThen_def)
          with create_run [OF c] Inl found show ?thesis
            by (auto intro: untouched_trans quiet_untouched)
        next
          case (Inr l)
          from True run \<open>rvSigners V ?w = Inr signer\<close> f \<open>?E = Inr list\<close> c Inr
          have "andThen dateNow (\<lambda>now. andThen (publishEvent V ''revocation.status-list.created'' (JObj [
                (''walletId'', JStr ?w), (''vct'', JStr ?v), (''listId'', JStr (li_id l)),
                (''uri'', JStr (rvUri V ?w ?v (sg_did signer))), (''bits'', JNum ?b),
                (''capacity'', JNum ?cap), (''timestamp'', JStr (toISOString now))])) (\<lambda>_.
              ret \<lparr>lr_listId = li_id l, lr_uri = rvUri V ?w ?v (sg_did signer)\<rparr>)) s2 = (r, t)"
            by (simp add: createStatusList_def resolveSigner_def Let_def
                andThen_def [of "findByWalletAndVct a b c" for a b c] andThen_def [of "lift x" for x]
                andThen_def [of "create a b c d e f g h" for a b c d e f g h])
          then have q: "quiet s2 t" by - (drule announce_run, simp)
          from create_run [OF c] Inr
          have ins: "inserted (rvUuid V) ?w ?v ?b ?cap ?c s1 l s2" by simp
          obtain m where m: "bits_ok (rvLib V) ?cap ?b ?c" "validBits ?b" "0 \<le> ?cap"
              "decompressList (rvLib V) ?c ?b = Inr m"
              "take (nat ?cap) (entries (rvLib V) m) = replicate (nat ?cap) 0"
            using fresh_list_ok [OF lib \<open>?E = Inr list\<close>] by blast
          have "list_ok (rvLib V) l" "statusesOf (rvLib V) l = replicate (nat ?cap) 0"
            using ins m by (simp_all add: inserted_def list_ok_def statusesOf_def)
          then have "created_row V ?w ?v ?cap s t"
            using ins q found unfolding created_row_def inserted_def quiet_def by auto
          then show ?thesis ..
        qed
      qed
    qed
  qed
qed

text \<open>The same for allocation, which creates the list on first use with the default capacity.\<close>

lemma findOrCreateList_run:
  assumes lib: "lib_ok (rvLib V)" and run: "findOrCreateList V w v s = (r, t)"
  shows "(untouched s t \<or> created_row V w v 16384 s t) \<and>
    (\<forall>info. r = Inr info \<longrightarrow> find (ofPair w v) (listsOf t) = Some info \<and>
      (find (ofPair w v) (listsOf s) = None \<longrightarrow> created_row V w v 16384 s t) \<and>
      (find (ofPair w v) (listsOf s) \<noteq> None \<longrightarrow> quiet s t))"
proof -
  obtain r1 s1 where f: "findByWalletAndVct (rvFaults V) w v s = (r1, s1)" by fastforce
  note found = find_run [OF f]
  show ?thesis
  proof (cases "r1 = Inr None")
    case False
    with run f have "t = s1 \<and> (\<forall>info. r = Inr info \<longrightarrow> r1 = Inr (Some info))"
      by (auto simp: findOrCreateList_def andThen_def split: sum.splits option.splits)
    with found show ?thesis by (auto simp: quiet_def untouched_def)
  next
    case True
    let ?ps = "\<lparr>cs_walletId = w, cs_vct = v, cs_bits = None, cs_capacity = None\<rparr>"
    obtain r2 s2 where c: "createStatusList V ?ps s1 = (r2, s2)" by fastforce
    note made = createStatusList_run [OF lib c]
    have none: "find (ofPair w v) (listsOf s) = None" "quiet s s1" using found True by simp_all
    have trans: "created_row V w v 16384 s1 u \<Longrightarrow> created_row V w v 16384 s u"
      "untouched s1 u \<Longrightarrow> untouched s u" for u
      using none(2) by (auto simp: created_row_def quiet_def untouched_def)
    show ?thesis
    proof (cases r2)
      case (Inl e)
      with True run f c have "t = s2 \<and> r = Inl e" by (simp add: findOrCreateList_def andThen_def)
      with made trans show ?thesis by auto
    next
      case (Inr x)
      with made none have cr: "created_row V w v 16384 s1 s2" by (auto simp: quiet_def)
      obtain r3 s3 where f3: "findByWalletAndVct (rvFaults V) w v s2 = (r3, s3)" by fastforce
      from True run f c Inr f3 have "t = s3 \<and> (\<forall>info. r = Inr info \<longrightarrow> r3 = Inr (Some info))"
        by (auto simp: findOrCreateList_def andThen_def orThrow_def split: sum.splits option.splits)
      with find_run [OF f3] have q: "quiet s2 t"
        and r: "\<forall>info. r = Inr info \<longrightarrow> find (ofPair w v) (listsOf s2) = Some info" by auto
      from cr q have "created_row V w v 16384 s1 t" by (simp add: created_row_def quiet_def)
      with trans q r none show ?thesis by (auto simp: quiet_def)
    qed
  qed
qed

text \<open>What an allocation plan holds: a list of the current table and its rewritten bitstring.\<close>

lemma planAllocation_run:
  assumes lib: "lib_ok (rvLib V)" and run: "planAllocation V params s = (r, t)"
  shows "(untouched s t \<or> created_row V (al_walletId params) (al_vct params) 16384 s t) \<and>
    (\<forall>a. r = Inr a \<longrightarrow>
      find (ofPair (al_walletId params) (al_vct params)) (listsOf t) = Some (ac_list a) \<and>
      (find (ofPair (al_walletId params) (al_vct params)) (listsOf s) = None \<longrightarrow>
        created_row V (al_walletId params) (al_vct params) 16384 s t) \<and>
      (find (ofPair (al_walletId params) (al_vct params)) (listsOf s) \<noteq> None \<longrightarrow> quiet s t) \<and>
      (\<exists>l l'. decompressList (rvLib V) (li_compressed (ac_list a)) (li_bits (ac_list a)) = Inr l \<and>
        chooseIndex (rvLib V) l (ac_list a) (NoFreeIndexError (al_walletId params) (al_vct params)
          (li_capacity (ac_list a))) (al_preferredIndex params) = Inr (ac_index a) \<and>
        setStatus (rvLib V) l (ac_index a) STATUS_TYPE_VALID = Inr l' \<and>
        ac_compressed a = compress (rvLib V) l'))"
proof (cases "rvSigners V (al_walletId params)")
  case (Inl m)
  with run show ?thesis by (auto simp: planAllocation_def resolveSigner_def Let_def untouched_def)
next
  case (Inr signer)
  obtain r1 s1 where f: "findOrCreateList V (al_walletId params) (al_vct params) s = (r1, s1)"
    by fastforce
  note made = findOrCreateList_run [OF lib f]
  show ?thesis
  proof (cases r1)
    case (Inl e)
    with run f \<open>rvSigners V _ = Inr signer\<close> have "t = s1 \<and> r = Inl e"
      by (simp add: planAllocation_def resolveSigner_def Let_def andThen_def)
    with made show ?thesis by auto
  next
    case (Inr info)
    from run f Inr \<open>rvSigners V _ = Inr signer\<close>
    have "t = s1 \<and> (\<forall>a. r = Inr a \<longrightarrow> ac_list a = info \<and>
      (\<exists>l l'. decompressList (rvLib V) (li_compressed info) (li_bits info) = Inr l \<and>
        chooseIndex (rvLib V) l info (NoFreeIndexError (al_walletId params) (al_vct params)
          (li_capacity info)) (al_preferredIndex params) = Inr (ac_index a) \<and>
        setStatus (rvLib V) l (ac_index a) STATUS_TYPE_VALID = Inr l' \<and>
        ac_compressed a = compress (rvLib V) l'))"
      by (auto simp: planAllocation_def resolveSigner_def Let_def andThen_def decompress_def
          split: sum.splits)
    with made Inr show ?thesis by auto
  qed
qed

end
