(* ===== verification/RevocationReach.thy ===== *)
theory RevocationReach
  imports RevocationOps
begin

text \<open>
  The revocation service as a transition system whose requests interleave: a request that
  writes reads the list in one step and commits its transaction in a later one, and other
  requests may run in between. The invariant holds in every reachable state; what a commit does
  to the register depends only on the plan it carries.
\<close>

section \<open>Plans\<close>

definition planStatuses :: "'l statusLib \<Rightarrow> statusListInfo \<Rightarrow> string \<Rightarrow> int list" where
  "planStatuses L info c = statusesOf L (info\<lparr>li_compressed := c\<rparr>)"

text \<open>The list a plan was made for still exists, with the same shape, and its text decodes.\<close>

definition plan_ok :: "'l revEnv \<Rightarrow> statusDb \<Rightarrow> statusListInfo \<Rightarrow> string \<Rightarrow> int \<Rightarrow> bool" where
  "plan_ok V s info c n \<longleftrightarrow> 0 \<le> n \<and> bits_ok (rvLib V) (li_capacity info) (li_bits info) c \<and>
     (\<exists>l\<in>set (listsOf s). li_id l = li_id info \<and> pairOf l = pairOf info \<and> li_bits l = li_bits info \<and>
       li_capacity l = li_capacity info)"

definition kept_rows :: "statusDb \<Rightarrow> statusDb \<Rightarrow> bool" where
  "kept_rows s t \<longleftrightarrow> (\<forall>l\<in>set (listsOf s). \<exists>l'\<in>set (listsOf t). li_id l' = li_id l \<and>
     pairOf l' = pairOf l \<and> li_bits l' = li_bits l \<and> li_capacity l' = li_capacity l)"

lemma kept_rows_refl [simp]: "listsOf t = listsOf s \<Longrightarrow> kept_rows s t"
  by (auto simp: kept_rows_def)

lemma kept_rows_append: "listsOf t = listsOf s @ [l] \<Longrightarrow> kept_rows s t"
  by (auto simp: kept_rows_def)

lemma kept_rows_update:
  assumes "row_change g" and "listsOf t = updateWhere P g (listsOf s)"
  shows "kept_rows s t"
  unfolding kept_rows_def assms(2) set_updateWhere
proof
  fix l
  assume "l \<in> set (listsOf s)"
  then show "\<exists>l'\<in>(\<lambda>r. if P r then g r else r) ` set (listsOf s). li_id l' = li_id l \<and>
      pairOf l' = pairOf l \<and> li_bits l' = li_bits l \<and> li_capacity l' = li_capacity l"
    by (intro bexI [of _ "if P l then g l else l"]) (simp_all add: row_changeD [OF assms(1)])
qed

lemma plan_ok_kept:
  assumes "plan_ok V s info c n" and "kept_rows s t"
  shows "plan_ok V t info c n"
proof -
  from assms(1) obtain l where l: "l \<in> set (listsOf s)" "li_id l = li_id info" "pairOf l = pairOf info"
      "li_bits l = li_bits info" "li_capacity l = li_capacity info" by (auto simp: plan_ok_def)
  from assms(2) l(1) obtain l' where "l' \<in> set (listsOf t)" "li_id l' = li_id l" "pairOf l' = pairOf l"
      "li_bits l' = li_bits l" "li_capacity l' = li_capacity l" unfolding kept_rows_def by blast
  with l assms(1) show ?thesis by (auto simp: plan_ok_def intro!: bexI [of _ l'])
qed

lemma rev_inv_ids: "rev_inv V s \<Longrightarrow> distinct (map li_id (listsOf s))"
  by (auto simp: rev_inv_def lists_inv_def intro: fresh_table_distinct)

lemma rev_inv_row: "rev_inv V s \<Longrightarrow> l \<in> set (listsOf s) \<Longrightarrow> list_ok (rvLib V) l"
  by (simp add: rev_inv_def lists_inv_def)

lemma rev_inv_find:
  "rev_inv V s \<Longrightarrow> l \<in> set (listsOf s) \<Longrightarrow> find (ofPair (li_walletId l) (li_vct l)) (listsOf s) = Some l"
  by (rule find_ofPair) (simp_all add: rev_inv_ids, simp add: rev_inv_def lists_inv_def)

lemma same_row:
  assumes "rev_inv V s" and "l \<in> set (listsOf s)" and "l' \<in> set (listsOf s)" and "li_id l = li_id l'"
  shows "l = l'"
  using rev_inv_ids [OF assms(1)] assms(2-4) by (simp add: distinct_map inj_on_def)

section \<open>Preservation of the invariant\<close>

lemma rev_inv_untouched:
  assumes "rev_inv V s" and "untouched s t"
  shows "rev_inv V t"
  using assms fresh_table_mono unfolding rev_inv_def lists_inv_def untouched_def by fastforce

lemma rev_inv_created:
  assumes inv: "rev_inv V s" and env: "inj (rvUuid V)" and new: "created_row V w v cap s t"
  shows "rev_inv V t"
proof -
  from new obtain l where l: "listsOf t = listsOf s @ [l]" "auditsOf t = auditsOf s"
      "Suc (dbUuids s) \<le> dbUuids t" "li_id l = rvUuid V (dbUuids s)" "ofPair w v l"
      "list_ok (rvLib V) l" and none: "find (ofPair w v) (listsOf s) = None"
    unfolding created_row_def by blast
  from inv have i: "fresh_table (rvUuid V) (dbUuids s) li_id (listsOf s)"
      "unique_where (\<lambda>_. True) pairOf li_id (listsOf s)" "\<forall>x\<in>set (listsOf s). list_ok (rvLib V) x"
      "audits_inv (listsOf s) (auditsOf s)"
    by (simp_all add: rev_inv_def lists_inv_def)
  have "fresh_table (rvUuid V) (dbUuids t) li_id (listsOf s @ [l])"
    using fresh_table_append [OF i(1) env l(4)] l(3) by (rule fresh_table_mono)
  moreover have "unique_where (\<lambda>_. True) pairOf li_id (listsOf s @ [l])"
    by (rule unique_where_append [OF i(2)])
      (use none l(5) in \<open>auto simp: find_None_iff_all ofPair_def pairOf_def\<close>)
  moreover have "audits_inv (listsOf s @ [l]) (auditsOf s)"
    using i(4) by (auto simp: audits_inv_def)
  ultimately show ?thesis using i(3) l by (simp add: rev_inv_def lists_inv_def)
qed

lemma audits_inv_revised:
  assumes "audits_inv ls as" and "li_id ` set ls' = li_id ` set ls"
  shows "audits_inv ls' (updateWhere P (revised a b now) as)"
proof -
  have "map auditKey (updateWhere P (revised a b now) as) = map auditKey as"
    by (rule map_key_updateWhere) (simp add: auditKey_def revised_def)
  moreover have "fst ` set (updateWhere P (revised a b now) as) = fst ` set as"
    unfolding set_updateWhere image_image by (intro image_cong) (simp_all add: revised_def)
  ultimately show ?thesis using assms by (simp add: audits_inv_def)
qed

lemma audits_inv_append:
  assumes "audits_inv ls as" and "li_id ` set ls' = li_id ` set ls"
    and "\<not> (\<exists>x\<in>set as. ofIndex i k x)" and "ofIndex i k a" and "i \<in> li_id ` set ls'"
  shows "audits_inv ls' (as @ [a])"
proof -
  have "auditKey a = (i, k)" using assms(4) by (simp add: auditKey_def ofIndex_def)
  moreover have "(i, k) \<notin> auditKey ` set as"
    using assms(3) by (fastforce simp: auditKey_def ofIndex_def)
  moreover have "fst a \<in> li_id ` set ls'" using assms(4,5) by (simp add: ofIndex_def)
  ultimately show ?thesis using assms(1,2) by (simp add: audits_inv_def)
qed

text \<open>A list whose bitstring is replaced by a planned one.\<close>

lemma lists_inv_planned:
  assumes inv: "rev_inv V s" and plan: "plan_ok V s info c n" and g: "row_change g"
    and eq: "listsOf t = updateWhere (\<lambda>l. li_id l = li_id info) g (listsOf s)"
    and c: "\<And>l. li_compressed (g l) = c" and n: "\<And>l. li_nextIndex (g l) = n"
    and r: "\<And>l. 0 \<le> li_revokedCount l \<Longrightarrow> 0 \<le> li_revokedCount (g l)"
    and u: "dbUuids s \<le> dbUuids t"
  shows "lists_inv V (dbUuids t) (listsOf t)"
proof -
  from plan obtain l0 where l0: "l0 \<in> set (listsOf s)" "li_id l0 = li_id info"
      "li_bits l0 = li_bits info" "li_capacity l0 = li_capacity info" and ok: "0 \<le> n"
      "bits_ok (rvLib V) (li_capacity info) (li_bits info) c" by (auto simp: plan_ok_def)
  have "lists_inv V (dbUuids s) (listsOf t)"
    unfolding eq
  proof (rule lists_inv_update [OF _ g])
    show "lists_inv V (dbUuids s) (listsOf s)" using inv by (simp add: rev_inv_def)
    fix l
    assume l: "l \<in> set (listsOf s)" "li_id l = li_id info"
    with l0 same_row [OF inv] have "l = l0" by simp
    with rev_inv_row [OF inv l(1)] l0 ok c n r row_changeD [OF g] show "list_ok (rvLib V) (g l)"
      by (simp add: list_ok_def)
  qed
  with u show ?thesis using fresh_table_mono by (auto simp: lists_inv_def)
qed

lemma commitRevocation_inv:
  assumes inv: "rev_inv V s" and plan: "plan_ok V s (rp_list p) (rp_compressed p) (li_nextIndex (rp_list p))"
    and run: "commitRevocation V params p s = (r, t)"
  shows "rev_inv V t \<and> kept_rows s t"
proof (cases r)
  case (Inl e)
  with run have "untouched s t" by (simp add: commitRevocation_Inl)
  with inv show ?thesis by (simp add: rev_inv_untouched untouched_def)
next
  case (Inr x)
  let ?g = "counted \<circ> withBits (rp_compressed p) (li_nextIndex (rp_list p)) (dbClock s)"
  let ?i = "li_id (rp_list p)" and ?k = "rp_index params"
  from commitRevocation_Inr [OF run [unfolded Inr]] have rows: "revoked_rows V params p s t" by simp
  then have eq: "listsOf t = updateWhere (\<lambda>l. li_id l = ?i) ?g (listsOf s)" and u: "dbUuids s \<le> dbUuids t"
    by (simp_all add: revoked_rows_def Let_def)
  have ids: "li_id ` set (listsOf t) = li_id ` set (listsOf s)" unfolding eq by simp
  have "lists_inv V (dbUuids t) (listsOf t)"
    by (rule lists_inv_planned [OF inv plan row_change_counted eq _ _ _ u])
      (simp_all add: counted_def withBits_def)
  moreover have as: "audits_inv (listsOf s) (auditsOf s)" using inv by (simp add: rev_inv_def)
  have "audits_inv (listsOf t) (auditsOf t)"
  proof (cases "\<exists>a\<in>set (auditsOf s). ofIndex ?i ?k a")
    case True
    with rows have "auditsOf t = updateWhere (ofIndex ?i ?k)
        (revised (rp_reason params) (rp_revokedBy params) (dbClock s)) (auditsOf s)"
      by (simp add: revoked_rows_def Let_def)
    with audits_inv_revised [OF as ids] show ?thesis by simp
  next
    case False
    with rows have "?i \<in> li_id ` set (listsOf t) \<and>
        (\<exists>a. ofIndex ?i ?k a \<and> auditsOf t = auditsOf s @ [a])"
      unfolding revoked_rows_def Let_def by (simp only: if_False) metis
    then obtain a where "ofIndex ?i ?k a" "auditsOf t = auditsOf s @ [a]"
        "?i \<in> li_id ` set (listsOf t)" by blast
    with audits_inv_append [OF as ids False] show ?thesis by simp
  qed
  ultimately show ?thesis using kept_rows_update [OF row_change_counted eq] by (simp add: rev_inv_def)
qed

lemma commitAllocation_inv:
  assumes inv: "rev_inv V s" and plan: "plan_ok V s (ac_list a) (ac_compressed a) (ac_index a + 1)"
    and run: "commitAllocation V params a s = (r, t)"
  shows "rev_inv V t \<and> kept_rows s t"
proof (cases r)
  case (Inl e)
  with run have "untouched s t" by (simp add: commitAllocation_Inl)
  with inv show ?thesis by (simp add: rev_inv_untouched untouched_def)
next
  case (Inr x)
  let ?g = "withBits (ac_compressed a) (ac_index a + 1) (dbClock s)"
  let ?i = "li_id (ac_list a)" and ?k = "ac_index a"
  from commitAllocation_Inr [OF run [unfolded Inr]] have rows: "allocated_rows V params a s t" by simp
  then have eq: "listsOf t = updateWhere (\<lambda>l. li_id l = ?i) ?g (listsOf s)" and u: "dbUuids s \<le> dbUuids t"
    by (simp_all add: allocated_rows_def Let_def)
  have ids: "li_id ` set (listsOf t) = li_id ` set (listsOf s)" unfolding eq by simp
  have "lists_inv V (dbUuids t) (listsOf t)"
    by (rule lists_inv_planned [OF inv plan row_change_withBits eq _ _ _ u])
      (simp_all add: withBits_def)
  moreover have as: "audits_inv (listsOf s) (auditsOf s)" using inv by (simp add: rev_inv_def)
  have "audits_inv (listsOf t) (auditsOf t)"
  proof (cases "truthyText (al_credentialId params)")
    case False
    with rows have "auditsOf t = auditsOf s" by (simp add: allocated_rows_def Let_def)
    with as ids show ?thesis by (simp add: audits_inv_def)
  next
    case True
    with rows have "\<not> (\<exists>x\<in>set (auditsOf s). ofIndex ?i ?k x) \<and> ?i \<in> li_id ` set (listsOf t) \<and>
        (\<exists>x. ofIndex ?i ?k x \<and> auditsOf t = auditsOf s @ [x])"
      unfolding allocated_rows_def Let_def by (simp only: if_True) metis
    then obtain x where no: "\<not> (\<exists>x\<in>set (auditsOf s). ofIndex ?i ?k x)"
      and "ofIndex ?i ?k x" "auditsOf t = auditsOf s @ [x]" "?i \<in> li_id ` set (listsOf t)" by blast
    with audits_inv_append [OF as ids no] show ?thesis by simp
  qed
  ultimately show ?thesis using kept_rows_update [OF row_change_withBits eq] by (simp add: rev_inv_def)
qed

section \<open>The register under a commit\<close>

lemma view_update:
  assumes inv: "rev_inv V s" and l0: "l0 \<in> set (listsOf s)" and g: "row_change g"
    and eq: "listsOf t = updateWhere (\<lambda>l. li_id l = li_id l0) g (listsOf s)"
  shows "statusView V t = (statusView V s)(pairOf l0 \<mapsto> statusesOf (rvLib V) (g l0))"
proof (rule ext)
  fix p :: "string \<times> string"
  obtain w v where p: "p = (w, v)" by fastforce
  have t: "statusView V t p = map_option (statusesOf (rvLib V))
      (map_option (\<lambda>l. if li_id l = li_id l0 then g l else l) (find (ofPair w v) (listsOf s)))"
    by (simp add: statusView_def p eq find_update [OF g])
  show "statusView V t p = ((statusView V s)(pairOf l0 \<mapsto> statusesOf (rvLib V) (g l0))) p"
  proof (cases "p = pairOf l0")
    case True
    then have "find (ofPair w v) (listsOf s) = Some l0"
      using rev_inv_find [OF inv l0] p by (simp add: pairOf_def)
    with t True show ?thesis by simp
  next
    case False
    have "li_id l \<noteq> li_id l0" if "find (ofPair w v) (listsOf s) = Some l" for l
    proof
      assume "li_id l = li_id l0"
      with find_Some_iff_in [OF that] same_row [OF inv _ l0] have "l = l0" "ofPair w v l" by auto
      with False p show False by (simp add: ofPair_def pairOf_def)
    qed
    with t False show ?thesis
      by (cases "find (ofPair w v) (listsOf s)") (auto simp: statusView_def p)
  qed
qed

lemma planned_statuses:
  assumes "row_change g" and "li_compressed (g l) = c" and "li_bits l = li_bits info"
    and "li_capacity l = li_capacity info"
  shows "statusesOf L (g l) = planStatuses L info c"
  using assms row_changeD [OF assms(1)] 
  by (simp add: statusesOf_def planStatuses_def split: sum.split)

lemma commitRevocation_view:
  assumes inv: "rev_inv V s" and plan: "plan_ok V s (rp_list p) (rp_compressed p) (li_nextIndex (rp_list p))"
    and run: "commitRevocation V params p s = (Inr r, t)"
  shows "statusView V t =
    (statusView V s)(pairOf (rp_list p) \<mapsto> planStatuses (rvLib V) (rp_list p) (rp_compressed p))"
proof -
  let ?g = "counted \<circ> withBits (rp_compressed p) (li_nextIndex (rp_list p)) (dbClock s)"
  from plan obtain l0 where l0: "l0 \<in> set (listsOf s)" "li_id l0 = li_id (rp_list p)"
      "pairOf l0 = pairOf (rp_list p)" "li_bits l0 = li_bits (rp_list p)"
      "li_capacity l0 = li_capacity (rp_list p)" by (auto simp: plan_ok_def)
  have eq: "listsOf t = updateWhere (\<lambda>l. li_id l = li_id l0) ?g (listsOf s)"
    using commitRevocation_Inr [OF run] l0(2) by (simp add: revoked_rows_def Let_def)
  have "statusesOf (rvLib V) (?g l0) = planStatuses (rvLib V) (rp_list p) (rp_compressed p)"
    by (rule planned_statuses [OF row_change_counted _ l0(4,5)]) (simp add: counted_def withBits_def)
  with view_update [OF inv l0(1) row_change_counted eq] l0(3) show ?thesis by simp
qed

lemma commitAllocation_view:
  assumes inv: "rev_inv V s" and plan: "plan_ok V s (ac_list a) (ac_compressed a) (ac_index a + 1)"
    and run: "commitAllocation V params a s = (Inr r, t)"
  shows "statusView V t =
    (statusView V s)(pairOf (ac_list a) \<mapsto> planStatuses (rvLib V) (ac_list a) (ac_compressed a))"
proof -
  let ?g = "withBits (ac_compressed a) (ac_index a + 1) (dbClock s)"
  from plan obtain l0 where l0: "l0 \<in> set (listsOf s)" "li_id l0 = li_id (ac_list a)"
      "pairOf l0 = pairOf (ac_list a)" "li_bits l0 = li_bits (ac_list a)"
      "li_capacity l0 = li_capacity (ac_list a)" by (auto simp: plan_ok_def)
  have eq: "listsOf t = updateWhere (\<lambda>l. li_id l = li_id l0) ?g (listsOf s)"
    using commitAllocation_Inr [OF run] l0(2) by (simp add: allocated_rows_def Let_def)
  have "statusesOf (rvLib V) (?g l0) = planStatuses (rvLib V) (ac_list a) (ac_compressed a)"
    by (rule planned_statuses [OF row_change_withBits _ l0(4,5)]) (simp add: withBits_def)
  with view_update [OF inv l0(1) row_change_withBits eq] l0(3) show ?thesis by simp
qed

section \<open>Plans are good when they are made\<close>

lemma find_row: "find (ofPair w v) (listsOf s) = Some info \<Longrightarrow> info \<in> set (listsOf s) \<and> pairOf info = (w, v)"
  by (auto dest!: find_Some_iff_in simp: ofPair_def pairOf_def)

lemma planRevocation_ok:
  assumes V: "rev_env_ok V" and inv: "rev_inv V s" and run: "planRevocation V params s = (Inr p, t)"
  shows "plan_ok V t (rp_list p) (rp_compressed p) (li_nextIndex (rp_list p)) \<and>
    statusView V s (rp_walletId params, rp_vct params) = Some (statusesOf (rvLib V) (rp_list p)) \<and>
    pairOf (rp_list p) = (rp_walletId params, rp_vct params) \<and>
    0 \<le> rp_index params \<and> rp_index params < int (length (statusesOf (rvLib V) (rp_list p))) \<and>
    planStatuses (rvLib V) (rp_list p) (rp_compressed p) =
      (statusesOf (rvLib V) (rp_list p))[nat (rp_index params) := STATUS_TYPE_INVALID]"
proof -
  let ?L = "rvLib V" and ?info = "rp_list p" and ?i = "rp_index params"
  from planRevocation_run [OF run] obtain l l' where q: "quiet s t"
    and f: "find (ofPair (rp_walletId params) (rp_vct params)) (listsOf s) = Some ?info"
    and i: "0 \<le> ?i" "?i < li_capacity ?info"
    and dec: "decompressList ?L (li_compressed ?info) (li_bits ?info) = Inr l"
    and st: "setStatus ?L l ?i STATUS_TYPE_INVALID = Inr l'" and c: "rp_compressed p = compress ?L l'"
    by auto
  have L: "lib_ok ?L" using V by (simp add: rev_env_ok_def)
  from find_row [OF f] have row: "?info \<in> set (listsOf s)" "pairOf ?info = (rp_walletId params, rp_vct params)"
    by simp_all
  from rev_inv_row [OF inv row(1)] have ok: "list_ok ?L ?info" .
  then have b: "validBits (li_bits ?info)" "0 \<le> li_capacity ?info"
      "bits_ok ?L (li_capacity ?info) (li_bits ?info) (li_compressed ?info)"
    by (simp_all add: list_ok_def)
  from rewritten [OF L b(1) dec b(3) st _ b(2)] c
  obtain m where new: "bits_ok ?L (li_capacity ?info) (li_bits ?info) (rp_compressed p)"
      "decompressList ?L (rp_compressed p) (li_bits ?info) = Inr m"
      "take (nat (li_capacity ?info)) (entries ?L m) =
        (take (nat (li_capacity ?info)) (entries ?L l))[nat ?i := STATUS_TYPE_INVALID]"
    by (auto simp: status_types)
  have sts: "statusesOf ?L ?info = take (nat (li_capacity ?info)) (entries ?L l)"
    using dec by (simp add: statusesOf_def)
  have "int (length (statusesOf ?L ?info)) = li_capacity ?info"
    using b(2,3) dec by (auto simp: sts bits_ok_def min_def)
  moreover have "planStatuses ?L ?info (rp_compressed p) =
      (statusesOf ?L ?info)[nat ?i := STATUS_TYPE_INVALID]"
    using new(2,3) sts by (simp add: planStatuses_def statusesOf_def)
  moreover have "plan_ok V t ?info (rp_compressed p) (li_nextIndex ?info)"
    using new(1) ok row(1) q by (auto simp: plan_ok_def list_ok_def quiet_def)
  moreover have "statusView V s (rp_walletId params, rp_vct params) = Some (statusesOf ?L ?info)"
    by (simp add: statusView_def f)
  ultimately show ?thesis using i row(2) by simp
qed

text \<open>The index chosen is never negative, so the stored cursor stays a natural number.\<close>

lemma chooseIndex_nonneg:
  assumes "lib_ok L" and "chooseIndex L list info full pref = Inr i" and "0 \<le> li_nextIndex info"
  shows "0 \<le> i"
proof -
  have free: "0 \<le> j" if "freeOrFail (findFreeIndex L list k) full = Inr j" "0 \<le> k" for j k
  proof -
    from findFreeIndex_spec [OF assms(1) that(2), of list] that
    show ?thesis by (auto simp: freeOrFail_def split: option.splits)
  qed
  have seq: "0 \<le> j" if "(if li_capacity info \<le> li_nextIndex info
      then freeOrFail (findFreeIndex L list 0) full else Inr (li_nextIndex info)) = Inr j" for j
    using that free [of 0 j] assms(3) by (auto split: if_splits)
  show ?thesis
  proof (cases pref)
    case None
    with assms(2) seq show ?thesis by (simp add: chooseIndex_def Let_def)
  next
    case (Some p)
    show ?thesis
    proof (cases "0 \<le> p \<and> p < li_capacity info")
      case True
      with Some assms(2) free [of "p + 1" i] show ?thesis
        by (auto simp: chooseIndex_def Let_def split: sum.splits if_splits)
    next
      case False
      with Some assms(2) seq show ?thesis by (auto simp: chooseIndex_def Let_def)
    qed
  qed
qed

lemma planAllocation_ok:
  assumes V: "rev_env_ok V" and inv: "rev_inv V s" and run: "planAllocation V params s = (Inr a, t)"
  shows "rev_inv V t \<and> plan_ok V t (ac_list a) (ac_compressed a) (ac_index a + 1) \<and>
    statusView V t (al_walletId params, al_vct params) = Some (statusesOf (rvLib V) (ac_list a)) \<and>
    pairOf (ac_list a) = (al_walletId params, al_vct params) \<and>
    planStatuses (rvLib V) (ac_list a) (ac_compressed a) =
      (statusesOf (rvLib V) (ac_list a))[nat (ac_index a) := STATUS_TYPE_VALID]"
proof -
  let ?L = "rvLib V" and ?info = "ac_list a" and ?i = "ac_index a"
  have L: "lib_ok ?L" and inj: "inj (rvUuid V)" using V by (simp_all add: rev_env_ok_def)
  from planAllocation_run [OF L run] obtain l l'
    where how: "untouched s t \<or> created_row V (al_walletId params) (al_vct params) 16384 s t"
    and f: "find (ofPair (al_walletId params) (al_vct params)) (listsOf t) = Some ?info"
    and dec: "decompressList ?L (li_compressed ?info) (li_bits ?info) = Inr l"
    and ch: "chooseIndex ?L l ?info (NoFreeIndexError (al_walletId params) (al_vct params)
          (li_capacity ?info)) (al_preferredIndex params) = Inr ?i"
    and st: "setStatus ?L l ?i STATUS_TYPE_VALID = Inr l'" and c: "ac_compressed a = compress ?L l'"
    by auto
  have inv': "rev_inv V t"
    using how rev_inv_untouched [OF inv] rev_inv_created [OF inv inj] by blast
  from find_row [OF f] have row: "?info \<in> set (listsOf t)" "pairOf ?info = (al_walletId params, al_vct params)"
    by simp_all
  from rev_inv_row [OF inv' row(1)] have ok: "list_ok ?L ?info" .
  then have b: "validBits (li_bits ?info)" "0 \<le> li_capacity ?info"
      "bits_ok ?L (li_capacity ?info) (li_bits ?info) (li_compressed ?info)"
    and n: "0 \<le> li_nextIndex ?info"
    by (simp_all add: list_ok_def)
  have i: "0 \<le> ?i" by (rule chooseIndex_nonneg [OF L ch n])
  from rewritten [OF L b(1) dec b(3) st _ b(2)] c
  obtain m where new: "bits_ok ?L (li_capacity ?info) (li_bits ?info) (ac_compressed a)"
      "decompressList ?L (ac_compressed a) (li_bits ?info) = Inr m"
      "take (nat (li_capacity ?info)) (entries ?L m) =
        (take (nat (li_capacity ?info)) (entries ?L l))[nat ?i := STATUS_TYPE_VALID]"
    by (auto simp: status_types)
  have "planStatuses ?L ?info (ac_compressed a) = (statusesOf ?L ?info)[nat ?i := STATUS_TYPE_VALID]"
    using new(2,3) dec by (simp add: planStatuses_def statusesOf_def)
  moreover have "plan_ok V t ?info (ac_compressed a) (?i + 1)"
    using new(1) i row(1) by (auto simp: plan_ok_def)
  moreover have "statusView V t (al_walletId params, al_vct params) = Some (statusesOf ?L ?info)"
    by (simp add: statusView_def f)
  ultimately show ?thesis using inv' row(2) by blast
qed

section \<open>Interleaved requests\<close>

text \<open>The database and the requests that have read their list but not committed yet.\<close>

record revSystem =
  sysDb :: statusDb
  revoking :: "(revokeParams \<times> revocationPlan) list"
  allocating :: "(allocateIndexParams \<times> allocation) list"

definition emptyDb :: statusDb where
  "emptyDb = \<lparr>statusLists = [], revocations = [], dbUuids = 0, dbQueries = 0, dbClock = 0,
     dbEvents = []\<rparr>"

definition startSystem :: revSystem where
  "startSystem = \<lparr>sysDb = emptyDb, revoking = [], allocating = []\<rparr>"

inductive rev_step :: "'l revEnv \<Rightarrow> revSystem \<Rightarrow> revSystem \<Rightarrow> bool" for V where
  creation: "createStatusList V params (sysDb \<sigma>) = (r, t) \<Longrightarrow> rev_step V \<sigma> (\<sigma>\<lparr>sysDb := t\<rparr>)"
| revocation_refused: "planRevocation V params (sysDb \<sigma>) = (Inl e, t) \<Longrightarrow>
    rev_step V \<sigma> (\<sigma>\<lparr>sysDb := t\<rparr>)"
| revocation_read: "planRevocation V params (sysDb \<sigma>) = (Inr p, t) \<Longrightarrow>
    rev_step V \<sigma> (\<sigma>\<lparr>sysDb := t, revoking := (params, p) # revoking \<sigma>\<rparr>)"
| revocation_commit: "(params, p) \<in> set (revoking \<sigma>) \<Longrightarrow>
    commitRevocation V params p (sysDb \<sigma>) = (r, t) \<Longrightarrow>
    rev_step V \<sigma> (\<sigma>\<lparr>sysDb := t, revoking := remove1 (params, p) (revoking \<sigma>)\<rparr>)"
| allocation_refused: "planAllocation V alloc (sysDb \<sigma>) = (Inl e, t) \<Longrightarrow>
    rev_step V \<sigma> (\<sigma>\<lparr>sysDb := t\<rparr>)"
| allocation_read: "planAllocation V alloc (sysDb \<sigma>) = (Inr a, t) \<Longrightarrow>
    rev_step V \<sigma> (\<sigma>\<lparr>sysDb := t, allocating := (alloc, a) # allocating \<sigma>\<rparr>)"
| allocation_commit: "(alloc, a) \<in> set (allocating \<sigma>) \<Longrightarrow>
    commitAllocation V alloc a (sysDb \<sigma>) = (x, t) \<Longrightarrow>
    rev_step V \<sigma> (\<sigma>\<lparr>sysDb := t, allocating := remove1 (alloc, a) (allocating \<sigma>)\<rparr>)"
| elapse: "0 \<le> d \<Longrightarrow> rev_step V \<sigma> (\<sigma>\<lparr>sysDb := (sysDb \<sigma>)\<lparr>dbClock := dbClock (sysDb \<sigma>) + d\<rparr>\<rparr>)"

inductive rev_reachable :: "'l revEnv \<Rightarrow> revSystem \<Rightarrow> bool" for V where
  start: "rev_reachable V startSystem"
| step: "rev_reachable V \<sigma> \<Longrightarrow> rev_step V \<sigma> \<tau> \<Longrightarrow> rev_reachable V \<tau>"

definition system_ok :: "'l revEnv \<Rightarrow> revSystem \<Rightarrow> bool" where
  "system_ok V \<sigma> \<longleftrightarrow> rev_inv V (sysDb \<sigma>) \<and>
     (\<forall>(_, p)\<in>set (revoking \<sigma>).
        plan_ok V (sysDb \<sigma>) (rp_list p) (rp_compressed p) (li_nextIndex (rp_list p))) \<and>
     (\<forall>(_, a)\<in>set (allocating \<sigma>).
        plan_ok V (sysDb \<sigma>) (ac_list a) (ac_compressed a) (ac_index a + 1))"

lemma system_ok_db:
  assumes "system_ok V \<sigma>" and "rev_inv V t" and "kept_rows (sysDb \<sigma>) t"
    and "set rs \<subseteq> set (revoking \<sigma>)" and "set as \<subseteq> set (allocating \<sigma>)"
  shows "system_ok V (\<sigma>\<lparr>sysDb := t, revoking := rs, allocating := as\<rparr>)"
  using assms plan_ok_kept [OF _ assms(3)] unfolding system_ok_def by fastforce

lemma kept_rows_created: "created_row V w v cap s t \<Longrightarrow> kept_rows s t"
  by (auto simp: created_row_def intro: kept_rows_append)

lemma kept_rows_untouched: "untouched s t \<Longrightarrow> kept_rows s t"
  by (simp add: untouched_def)

lemma system_ok_start: "system_ok V startSystem"
  by (simp add: system_ok_def startSystem_def emptyDb_def rev_inv_def lists_inv_def audits_inv_def
      listsOf_def auditsOf_def)

lemma system_ok_step:
  assumes V: "rev_env_ok V" and ok: "system_ok V \<sigma>" and step: "rev_step V \<sigma> \<tau>"
  shows "system_ok V \<tau>"
proof -
  have L: "lib_ok (rvLib V)" and inj: "inj (rvUuid V)" using V by (simp_all add: rev_env_ok_def)
  have inv: "rev_inv V (sysDb \<sigma>)" using ok by (simp add: system_ok_def)
  have only_db: "system_ok V (\<sigma>\<lparr>sysDb := t\<rparr>)" if "rev_inv V t" "kept_rows (sysDb \<sigma>) t" for t
    using system_ok_db [OF ok that, of "revoking \<sigma>" "allocating \<sigma>"] by simp
  from step show ?thesis
  proof cases
    case (creation params r t)
    from createStatusList_run [OF L creation(2)] have "rev_inv V t \<and> kept_rows (sysDb \<sigma>) t"
      using rev_inv_untouched [OF inv] rev_inv_created [OF inv inj] kept_rows_untouched
        kept_rows_created by blast
    with creation(1) only_db show ?thesis by simp
  next
    case (revocation_refused params e t)
    from planRevocation_run [OF revocation_refused(2)] have "untouched (sysDb \<sigma>) t"
      by (simp add: quiet_untouched)
    with revocation_refused(1) only_db rev_inv_untouched [OF inv] kept_rows_untouched
    show ?thesis by simp
  next
    case (revocation_read params p t)
    from planRevocation_run [OF revocation_read(2)] have "untouched (sysDb \<sigma>) t"
      by (simp add: quiet_untouched)
    then have "system_ok V (\<sigma>\<lparr>sysDb := t\<rparr>)"
      using only_db rev_inv_untouched [OF inv] kept_rows_untouched by blast
    moreover have "plan_ok V t (rp_list p) (rp_compressed p) (li_nextIndex (rp_list p))"
      using planRevocation_ok [OF V inv revocation_read(2)] by simp
    ultimately show ?thesis unfolding revocation_read(1) system_ok_def by simp
  next
    case (revocation_commit params p r t)
    from ok revocation_commit(2)
    have "plan_ok V (sysDb \<sigma>) (rp_list p) (rp_compressed p) (li_nextIndex (rp_list p))"
      by (auto simp: system_ok_def)
    from commitRevocation_inv [OF inv this revocation_commit(3)]
    have "rev_inv V t" "kept_rows (sysDb \<sigma>) t" by simp_all
    from system_ok_db [OF ok this set_remove1_subset subset_refl] show ?thesis
      unfolding revocation_commit(1) by simp
  next
    case (allocation_refused alloc e t)
    from planAllocation_run [OF L allocation_refused(2)] have "rev_inv V t \<and> kept_rows (sysDb \<sigma>) t"
      using rev_inv_untouched [OF inv] rev_inv_created [OF inv inj] kept_rows_untouched
        kept_rows_created by blast
    with allocation_refused(1) only_db show ?thesis by simp
  next
    case (allocation_read alloc a t)
    from planAllocation_run [OF L allocation_read(2)] have "kept_rows (sysDb \<sigma>) t"
      using kept_rows_untouched kept_rows_created by blast
    with planAllocation_ok [OF V inv allocation_read(2)] have "system_ok V (\<sigma>\<lparr>sysDb := t\<rparr>)"
      and "plan_ok V t (ac_list a) (ac_compressed a) (ac_index a + 1)"
      using only_db by blast+
    then show ?thesis unfolding allocation_read(1) system_ok_def by simp
  next
    case (allocation_commit alloc a x t)
    from ok allocation_commit(2)
    have "plan_ok V (sysDb \<sigma>) (ac_list a) (ac_compressed a) (ac_index a + 1)"
      by (auto simp: system_ok_def)
    from commitAllocation_inv [OF inv this allocation_commit(3)]
    have "rev_inv V t" "kept_rows (sysDb \<sigma>) t" by simp_all
    from system_ok_db [OF ok this subset_refl set_remove1_subset] show ?thesis
      unfolding allocation_commit(1) by simp
  next
    case (elapse d)
    let ?t = "(sysDb \<sigma>)\<lparr>dbClock := dbClock (sysDb \<sigma>) + d\<rparr>"
    have "listsOf ?t = listsOf (sysDb \<sigma>)" "auditsOf ?t = auditsOf (sysDb \<sigma>)"
      by (simp_all add: listsOf_def auditsOf_def)
    with inv have "rev_inv V ?t" "kept_rows (sysDb \<sigma>) ?t" by (simp_all add: rev_inv_def)
    with elapse only_db show ?thesis by simp
  qed
qed

lemma rev_reachable_ok: "rev_reachable V \<sigma> \<Longrightarrow> rev_env_ok V \<Longrightarrow> system_ok V \<sigma>"
  by (induction rule: rev_reachable.induct) (auto intro: system_ok_start system_ok_step)

end
