(* ===== verification/RevocationProps.thy ===== *)
theory RevocationProps
  imports RevocationReach
begin

text \<open>
  What the revocation service promises: a revocation acts on the register of statuses as the
  abstract write and shows in every later query, a failed one leaves the tables alone, every
  interleaving of requests keeps the store sound. And where it falls short: the read and the
  write of a request are not one transaction, and \<open>valid\<close> does not tell a free index from an
  assigned one.
\<close>

section \<open>Operations on the register\<close>

lemma revoke_parts:
  assumes "revoke V params s = (Inr r, t)"
  obtains p s' where "planRevocation V params s = (Inr p, s')" and "quiet s s'"
    and "commitRevocation V params p s' = (Inr r, t)"
  using assms unfolding revoke_def by (elim andThen_InrE) (metis planRevocation_run)

lemma rev_inv_quiet: "rev_inv V s \<Longrightarrow> quiet s t \<Longrightarrow> rev_inv V t"
  by (blast intro: rev_inv_untouched quiet_untouched)

lemma view_quiet: "quiet s t \<Longrightarrow> statusView V t = statusView V s"
  by (simp add: statusView_def quiet_def)

lemma revoke_effect:
  assumes V: "rev_env_ok V" and inv: "rev_inv V s" and run: "revoke V params s = (Inr r, t)"
  shows "\<exists>xs. statusView V s (rp_walletId params, rp_vct params) = Some xs \<and>
    0 \<le> rp_index params \<and> rp_index params < int (length xs) \<and>
    statusView V t = (statusView V s)((rp_walletId params, rp_vct params) \<mapsto>
      xs[nat (rp_index params) := STATUS_TYPE_INVALID]) \<and> rev_inv V t"
proof -
  from revoke_parts [OF run] obtain p s' where plan: "planRevocation V params s = (Inr p, s')"
    and q: "quiet s s'" and com: "commitRevocation V params p s' = (Inr r, t)" by blast
  note ok = planRevocation_ok [OF V inv plan]
  have inv': "rev_inv V s'" by (rule rev_inv_quiet [OF inv q])
  from commitRevocation_view [OF inv' _ com] commitRevocation_inv [OF inv' _ com] ok
    view_quiet [OF q, of V]
  show ?thesis by auto
qed

lemma getStatus_reads:
  assumes V: "rev_env_ok V" and inv: "rev_inv V s" and run: "getStatus V w v i s = (Inr g, t)"
  shows "specStatus (w, v) i (statusView V s) = Some (gs_status g) \<and> gs_status g \<in> {0, 1}"
proof -
  from getStatus_run [OF run] obtain info l where f: "find (ofPair w v) (listsOf s) = Some info"
    and i: "0 \<le> i" "i < li_capacity info"
    and dec: "decompressList (rvLib V) (li_compressed info) (li_bits info) = Inr l"
    and st: "listStatus (rvLib V) l i = Inr (gs_status g)" by auto
  from rev_inv_row [OF inv] find_row [OF f] have ok: "list_ok (rvLib V) info" by simp
  with dec have len: "li_capacity info \<le> int (length (entries (rvLib V) l))"
    and bin: "set (entries (rvLib V) l) \<subseteq> {0, 1}" by (auto simp: list_ok_def bits_ok_def)
  have "inRange (rvLib V) l i" using i len by (simp add: inRange_def)
  with st V have eq: "gs_status g = entries (rvLib V) l ! nat i"
    by (simp add: listStatus_ok rev_env_ok_def)
  have lt: "nat i < length (entries (rvLib V) l)" "nat i < nat (li_capacity info)" using i len by linarith+
  then have "gs_status g \<in> set (entries (rvLib V) l)" unfolding eq by (intro nth_mem)
  with bin have mem: "gs_status g \<in> {0, 1}" by blast
  have "statusView V s (w, v) = Some (take (nat (li_capacity info)) (entries (rvLib V) l))"
    using dec by (simp add: statusView_def f statusesOf_def)
  moreover have "i < int (min (length (entries (rvLib V) l)) (nat (li_capacity info)))"
    using i len by linarith
  ultimately have "specStatus (w, v) i (statusView V s) = Some (gs_status g)"
    using eq lt i by (simp add: specStatus_def)
  with mem show ?thesis by simp
qed

lemma allocate_parts:
  assumes "allocateIndex V params s = (Inr r, t)"
  obtains a s' where "planAllocation V params s = (Inr a, s')"
    and "commitAllocation V params a s' = (Inr r, t)"
  using assms unfolding allocateIndex_def by (elim andThen_InrE) metis

lemma allocate_effect:
  assumes V: "rev_env_ok V" and inv: "rev_inv V s" and run: "allocateIndex V params s = (Inr r, t)"
  shows "\<exists>a s'. planAllocation V params s = (Inr a, s') \<and> rev_inv V s' \<and> rev_inv V t \<and>
    ir_index r = ac_index a \<and> allocated_rows V params a s' t \<and>
    statusView V s' (al_walletId params, al_vct params) = Some (statusesOf (rvLib V) (ac_list a)) \<and>
    statusView V t = (statusView V s')((al_walletId params, al_vct params) \<mapsto>
      (statusesOf (rvLib V) (ac_list a))[nat (ac_index a) := STATUS_TYPE_VALID])"
proof -
  from allocate_parts [OF run] obtain a s' where plan: "planAllocation V params s = (Inr a, s')"
    and com: "commitAllocation V params a s' = (Inr r, t)" by blast
  from planAllocation_ok [OF V inv plan] have ok: "rev_inv V s'"
      "plan_ok V s' (ac_list a) (ac_compressed a) (ac_index a + 1)"
      "statusView V s' (al_walletId params, al_vct params) = Some (statusesOf (rvLib V) (ac_list a))"
      "pairOf (ac_list a) = (al_walletId params, al_vct params)"
      "planStatuses (rvLib V) (ac_list a) (ac_compressed a) =
        (statusesOf (rvLib V) (ac_list a))[nat (ac_index a) := STATUS_TYPE_VALID]" by simp_all
  from commitAllocation_view [OF ok(1,2) com] commitAllocation_inv [OF ok(1,2) com]
    commitAllocation_Inr [OF com] ok plan
  show ?thesis by (intro exI [of _ a] exI [of _ s']) simp
qed

section \<open>A library and a store to run\<close>

definition sampleLib :: "(int list \<times> int) statusLib" where
  "sampleLib = \<lparr>
     newList = (\<lambda>xs b. if validBits b \<and> list_all (\<lambda>x. 0 \<le> x \<and> x < 2 ^ nat b) xs then Inr (xs, b)
       else Inl ''bad list''),
     entries = fst, bitsOf = snd,
     readEntry = (\<lambda>l i. if 0 \<le> i \<and> i < int (length (fst l)) then Inr (fst l ! nat i)
       else Inl ''Index out of bounds''),
     writeEntry = (\<lambda>l i v. if 0 \<le> i \<and> i < int (length (fst l))
       then Inr ((fst l)[nat i := v], snd l) else Inl ''Index out of bounds''),
     compressList = (\<lambda>l. let n = length (fst l); k = nat (8 div snd l) in
       map (\<lambda>x. char_of (nat x)) (fst l @ replicate ((k - n mod k) mod k) 0)),
     decompressList = (\<lambda>c b. if validBits b then Inr (map of_char c, b) else Inl ''bad bits''),
     createHeaderAndPayload = (\<lambda>l p h. case p of
         JObj kvs \<Rightarrow> Inr (h, JObj (kvs @ [(''status_list'', status_claim (snd l)
           (let n = length (fst l); k = nat (8 div snd l) in
             map (\<lambda>x. char_of (nat x)) (fst l @ replicate ((k - n mod k) mod k) 0)))]))
       | _ \<Rightarrow> Inl ''bad payload''),
     listFromJwt = (\<lambda>jwt. case splitOn (CHR ''.'') jwt of
         _ # p # _ \<Rightarrow> (case jsonParse (bytesText (fromBase64url p)) of
             None \<Rightarrow> Inl ''bad payload''
           | Some v \<Rightarrow> (case jsonField ''status_list'' v of
               Some (JObj [(''bits'', JNum b), (''lst'', JStr lst)]) \<Rightarrow>
                 if validBits b then Inr (map of_char lst, b) else Inl ''bad bits''
             | _ \<Rightarrow> Inl ''no status list''))
       | _ \<Rightarrow> Inl ''bad jwt''),
     entryFromJwt = (\<lambda>jwt. Inr \<lparr>idx = int (length jwt), uri = jwt\<rparr>)\<rparr>"

lemma of_char_char_of_small: "0 \<le> x \<Longrightarrow> x < 256 \<Longrightarrow> of_char (char_of (nat x) :: char) = (x :: int)"
proof -
  assume "0 \<le> x" "x < 256"
  then have "of_char (char_of (nat x) :: char) = nat x" by (simp add: of_char_of)
  then have "int (of_char (char_of (nat x) :: char)) = x" using \<open>0 \<le> x\<close> by simp
  then show ?thesis by (metis of_nat_of_char)
qed

lemma sampleLib_codec: "lib_codec sampleLib"
  unfolding lib_codec_def
proof (intro allI impI)
  fix l :: "int list \<times> int"
  assume wf: "well_formed sampleLib l"
  let ?k = "nat (8 div snd l)" and ?n = "length (fst l)"
  let ?m = "(?k - ?n mod ?k) mod ?k"
  from wf have b: "validBits (snd l)" and r: "\<forall>x\<in>set (fst l). 0 \<le> x \<and> x < 2 ^ nat (snd l)"
    by (simp_all add: well_formed_def sampleLib_def)
  from b have "(2 :: int) ^ nat (snd l) \<le> 256" by (auto simp: validBits_def)
  with r have "\<forall>x\<in>set (fst l). 0 \<le> x \<and> x < 256" by force
  then have "map (\<lambda>x. of_char (char_of (nat x) :: char)) (fst l @ replicate ?m 0) =
      fst l @ replicate ?m (0 :: int)"
    by (intro map_idI) (auto intro: of_char_char_of_small)
  with b show "\<exists>l' k. decompressList sampleLib (compressList sampleLib l) (bitsOf sampleLib l) = Inr l' \<and>
      entries sampleLib l' = entries sampleLib l @ replicate k 0 \<and> bitsOf sampleLib l' = bitsOf sampleLib l"
    by (intro exI [of _ "(fst l @ replicate ?m 0, snd l)"] exI [of _ ?m])
      (simp add: sampleLib_def Let_def comp_def)
qed

lemma compactJwt_parts:
  "CHR ''.'' \<notin> set h \<Longrightarrow> CHR ''.'' \<notin> set s \<Longrightarrow>
    splitOn (CHR ''.'') (compactJwt h p s) = [h, b64Json p, s]"
  by (simp add: compactJwt_def b64Json_def splitOn_first splitOn_absent toBase64url_no_dot)

lemma sampleLib_ok: "lib_ok sampleLib"
  unfolding lib_ok_def
proof (intro conjI)
  show "lib_constructs sampleLib"
    by (auto simp: lib_constructs_def sampleLib_def list_all_iff)
  show "lib_reads sampleLib" "lib_writes sampleLib"
    by (auto simp: lib_reads_def lib_writes_def inRange_def sampleLib_def)
  show "lib_codec sampleLib" by (rule sampleLib_codec)
  show "lib_payloads sampleLib" by (simp add: lib_payloads_def sampleLib_def Let_def)
  show "lib_jwts sampleLib"
    by (auto simp: lib_jwts_def sampleLib_def compactJwt_parts b64Json_def status_claim_def)
qed

text \<open>A tenant with a signer whose signature is its input, no message bus, no faults.\<close>

definition sampleRev :: "(int list \<times> int) revEnv" where
  "sampleRev = \<lparr>rvLib = sampleLib,
     rvSigners = (\<lambda>w. Inr \<lparr>sg_did = ''did:web:t'', sg_keyId = ''k'', sg_kid = ''did:web:t#k'',
       sg_alg = None, sg_sign = (\<lambda>_ _ bs. Inr [])\<rparr>),
     rvUri = (\<lambda>w v d. ''http://issuer/'' @ w @ ''/'' @ v), rvUuid = natStr,
     rvFaults = (\<lambda>_. None), rvMessaging = None\<rparr>"

definition sampleRow :: "string \<Rightarrow> int \<Rightarrow> int \<Rightarrow> statusListRow" where
  "sampleRow compressed next' count = \<lparr>sl_id = natStr 0, sl_wallet_id = ''w'', sl_vct = ''v'',
     sl_bits = 1, sl_capacity = 8, sl_compressed_bitstring = compressed, sl_next_index = next',
     sl_revoked_count = count, sl_last_updated_at = None, sl_created_at = 0, sl_updated_at = 0\<rparr>"

definition sampleStore :: "int list \<Rightarrow> int \<Rightarrow> statusDb" where
  "sampleStore xs next' = \<lparr>statusLists = [sampleRow (map (\<lambda>x. char_of (nat x)) xs) next' 0],
     revocations = [], dbUuids = 1, dbQueries = 0, dbClock = 0, dbEvents = []\<rparr>"

lemma sampleRev_ok: "rev_env_ok sampleRev"
  by (auto simp: rev_env_ok_def sampleRev_def sampleLib_ok intro!: injI natStr_inj)

lemma sampleStore_inv:
  assumes "length xs = 8" and "set xs \<subseteq> {0, 1}" and "0 \<le> n"
  shows "rev_inv sampleRev (sampleStore xs n)"
proof -
  have "map (\<lambda>x. of_char (char_of (nat x) :: char)) xs = xs"
    using assms(2) by (intro map_idI) (force intro: of_char_char_of_small)
  with assms show ?thesis
    by (auto simp: rev_inv_def lists_inv_def audits_inv_def listsOf_def auditsOf_def sampleStore_def
        sampleRow_def toStatusListInfo_def fresh_table_def unique_where_def list_ok_def bits_ok_def
        validBits_def sampleRev_def sampleLib_def comp_def)
qed

definition sampleRevocation :: "int \<Rightarrow> revokeParams" where
  "sampleRevocation i = \<lparr>rp_walletId = ''w'', rp_vct = ''v'', rp_index = i, rp_reason = Some ''lost'',
     rp_revokedBy = Some ''w''\<rparr>"

definition sampleAllocation :: "int option \<Rightarrow> allocateIndexParams" where
  "sampleAllocation pref = \<lparr>al_walletId = ''w'', al_vct = ''v'', al_credentialId = None,
     al_preferredIndex = pref\<rparr>"

section \<open>Revocation\<close>

text \<open>
  C31. A revocation that returns refines the abstract write: the index was within the list of the
  pair, and afterwards the register is the old one with exactly that entry set to revoked.
\<close>

theorem revoke_refines:
  assumes "rev_env_ok V" and "rev_inv V s" and "revoke V params s = (Inr r, t)"
  shows "specStatus (rp_walletId params, rp_vct params) (rp_index params) (statusView V s) \<noteq> None \<and>
    statusView V t = specWrite (rp_walletId params, rp_vct params) (rp_index params)
      STATUS_TYPE_INVALID (statusView V s)"
  using revoke_effect [OF assms] by (auto simp: specStatus_def specWrite_def)

lemma run_Inr: "\<not> isl (fst x) \<Longrightarrow> x = (Inr (projr (fst x)), snd x)"
  by (cases x; cases "fst x") simp_all

definition zeros :: "int list" where "zeros = [0, 0, 0, 0, 0, 0, 0, 0]"

lemma zeros_inv [simp]: "0 \<le> n \<Longrightarrow> rev_inv sampleRev (sampleStore zeros n)"
  by (rule sampleStore_inv) (simp_all add: zeros_def)

definition afterRevoke :: statusDb where
  "afterRevoke = snd (revoke sampleRev (sampleRevocation 3) (sampleStore zeros 3))"

lemma sample_revoke:
  "revoke sampleRev (sampleRevocation 3) (sampleStore zeros 3) =
    (Inr (projr (fst (revoke sampleRev (sampleRevocation 3) (sampleStore zeros 3)))), afterRevoke)"
  unfolding afterRevoke_def by (rule run_Inr) code_simp

theorem revoke_refines_witness:
  "statusView sampleRev afterRevoke = specWrite (''w'', ''v'') 3 STATUS_TYPE_INVALID
    (statusView sampleRev (sampleStore zeros 3)) \<and>
   statusView sampleRev afterRevoke (''w'', ''v'') = Some [0, 0, 0, 1, 0, 0, 0, 0]"
proof
  show "statusView sampleRev afterRevoke = specWrite (''w'', ''v'') 3 STATUS_TYPE_INVALID
      (statusView sampleRev (sampleStore zeros 3))"
    using revoke_refines [OF sampleRev_ok zeros_inv sample_revoke] by (simp add: sampleRevocation_def)
  show "statusView sampleRev afterRevoke (''w'', ''v'') = Some [0, 0, 0, 1, 0, 0, 0, 0]" by code_simp
qed

text \<open>
  After a revocation every status query answers revoked for that index and, for every other
  index of every list, what the register held before.
\<close>

theorem status_after_revocation:
  assumes "rev_env_ok V" and "rev_inv V s" and "revoke V params s = (Inr r, t)"
    and "getStatus V w v i t = (Inr g, u)"
  shows "Some (gs_status g) =
    (if w = rp_walletId params \<and> v = rp_vct params \<and> i = rp_index params then Some STATUS_TYPE_INVALID
     else specStatus (w, v) i (statusView V s))"
proof -
  from revoke_effect [OF assms(1-3)] obtain xs
    where xs: "statusView V s (rp_walletId params, rp_vct params) = Some xs"
      "0 \<le> rp_index params" "rp_index params < int (length xs)"
      "statusView V t = (statusView V s)((rp_walletId params, rp_vct params) \<mapsto>
        xs[nat (rp_index params) := STATUS_TYPE_INVALID])" "rev_inv V t" by blast
  have st: "Some (gs_status g) = specStatus (w, v) i (statusView V t)"
    using getStatus_reads [OF assms(1) xs(5) assms(4)] by simp
  show ?thesis
  proof (cases "w = rp_walletId params \<and> v = rp_vct params")
    case True
    with st xs show ?thesis by (auto simp: specStatus_def nth_list_update)
  next
    case False
    with xs(4) have "statusView V t (w, v) = statusView V s (w, v)" by auto
    with False st show ?thesis by (auto simp: specStatus_def)
  qed
qed

definition sampleStatus :: "getStatusResult" where
  "sampleStatus = projr (fst (getStatus sampleRev ''w'' ''v'' 3 afterRevoke))"

theorem status_after_revocation_witness: "Some (gs_status sampleStatus) = Some STATUS_TYPE_INVALID"
proof -
  have "getStatus sampleRev ''w'' ''v'' 3 afterRevoke =
      (Inr sampleStatus, snd (getStatus sampleRev ''w'' ''v'' 3 afterRevoke))"
    unfolding sampleStatus_def by (rule run_Inr) code_simp
  from status_after_revocation [OF sampleRev_ok zeros_inv sample_revoke this]
  show ?thesis by (simp add: sampleRevocation_def)
qed

lemma inj_toStatusListInfo: "inj toStatusListInfo"
  by (rule injI) (simp add: toStatusListInfo_def)

lemma inj_auditRow: "inj (\<lambda>r. (rv_status_list_id r, toRevocationInfo r))"
  by (rule injI) (simp add: toRevocationInfo_def)

lemma untouched_tables: "untouched s t \<Longrightarrow> statusLists t = statusLists s \<and> revocations t = revocations s"
  using inj_map_eq_map [OF inj_toStatusListInfo] inj_map_eq_map [OF inj_auditRow]
  by (simp add: untouched_def listsOf_def auditsOf_def)

text \<open>
  A revocation that fails, for whatever reason and at whatever query, leaves both tables as
  they were: no bit without its audit row, no count without its bit.
\<close>

theorem failed_revocation_keeps_tables:
  assumes "revoke V params s = (Inl e, t)"
  shows "statusLists t = statusLists s \<and> revocations t = revocations s"
proof (rule untouched_tables)
  obtain r s' where plan: "planRevocation V params s = (r, s')" by fastforce
  note q = planRevocation_run [OF plan]
  show "untouched s t"
  proof (cases r)
    case (Inl e')
    with plan assms q show ?thesis by (auto simp: revoke_def andThen_def intro: quiet_untouched)
  next
    case (Inr p)
    with plan assms have "commitRevocation V params p s' = (Inl e, t)"
      by (simp add: revoke_def andThen_def)
    with q show ?thesis by (blast intro: untouched_trans quiet_untouched commitRevocation_Inl)
  qed
qed

text \<open>The reason does not fit its column, after the bitstring and the count were written.\<close>

definition longReason :: revokeParams where
  "longReason = (sampleRevocation 3)\<lparr>rp_reason := Some (replicate 257 (CHR ''x''))\<rparr>"

theorem failed_revocation_keeps_tables_witness:
  "fst (revoke sampleRev longReason (sampleStore zeros 3)) = Inl tooLong \<and>
   statusLists (snd (revoke sampleRev longReason (sampleStore zeros 3))) =
     statusLists (sampleStore zeros 3)"
proof -
  have fails: "fst (revoke sampleRev longReason (sampleStore zeros 3)) = Inl tooLong" by code_simp
  then have "revoke sampleRev longReason (sampleStore zeros 3) =
      (Inl tooLong, snd (revoke sampleRev longReason (sampleStore zeros 3)))"
    by (metis prod.collapse)
  from failed_revocation_keeps_tables [OF this] fails show ?thesis by simp
qed

section \<open>Every interleaving\<close>

text \<open>
  C30. However the requests of the service interleave between their read and their commit, every
  reachable store satisfies the invariant: one list per wallet and credential type, bitstrings
  that decode to at least their capacity, one audit row per index, no dangling reference.
\<close>

theorem reachable_store_sound:
  assumes "rev_env_ok V" and "rev_reachable V \<sigma>"
  shows "rev_inv V (sysDb \<sigma>)"
  using rev_reachable_ok [OF assms(2,1)] by (simp add: system_ok_def)

definition firstCreation :: createStatusListParams where
  "firstCreation = \<lparr>cs_walletId = ''w'', cs_vct = ''v'', cs_bits = Some 1, cs_capacity = Some 8\<rparr>"

theorem reachable_store_sound_witness:
  "rev_inv sampleRev (snd (createStatusList sampleRev firstCreation emptyDb))"
proof -
  let ?t = "snd (createStatusList sampleRev firstCreation emptyDb)"
  have "rev_reachable sampleRev (startSystem\<lparr>sysDb := ?t\<rparr>)"
    by (rule rev_reachable.step [OF rev_reachable.start], rule rev_step.creation)
      (simp add: startSystem_def prod_eq_iff)
  from reachable_store_sound [OF sampleRev_ok this] show ?thesis by simp
qed

text \<open>
  The status a query returns is 0 or 1, whatever the width of the entries: the controller's
  cast of the result to \<open>0 | 1\<close> is sound in every reachable store.
\<close>

theorem status_is_binary:
  assumes "rev_env_ok V" and "rev_reachable V \<sigma>" and "getStatus V w v i (sysDb \<sigma>) = (Inr g, t)"
  shows "gs_status g \<in> {0, 1}"
  using getStatus_reads [OF assms(1) _ assms(3)] rev_reachable_ok [OF assms(2,1)]
  by (simp add: system_ok_def)

theorem status_is_binary_witness:
  "gs_status (projr (fst (getStatus sampleRev ''w'' ''v'' 2
     (snd (createStatusList sampleRev firstCreation emptyDb))))) \<in> {0, 1}"
proof -
  let ?t = "snd (createStatusList sampleRev firstCreation emptyDb)"
  have r: "rev_reachable sampleRev (startSystem\<lparr>sysDb := ?t\<rparr>)"
    by (rule rev_reachable.step [OF rev_reachable.start], rule rev_step.creation)
      (simp add: startSystem_def prod_eq_iff)
  have "\<not> isl (fst (getStatus sampleRev ''w'' ''v'' 2 ?t))" by code_simp
  from run_Inr [OF this] have "getStatus sampleRev ''w'' ''v'' 2 (sysDb (startSystem\<lparr>sysDb := ?t\<rparr>)) =
      (Inr (projr (fst (getStatus sampleRev ''w'' ''v'' 2 ?t))),
       snd (getStatus sampleRev ''w'' ''v'' 2 ?t))" by simp
  from status_is_binary [OF sampleRev_ok r this] show ?thesis .
qed

section \<open>Where the service falls short\<close>

text \<open>
  C32. Two revocations of the same list that both read it before either commits: both return as
  revoked, and the first one is lost. The read is not part of the transaction and the whole
  bitstring is written back.
\<close>

theorem concurrent_revocation_lost:
  assumes "rev_env_ok V" and "rev_inv V s"
    and "planRevocation V params s = (Inr p, s1)" and "planRevocation V others s1 = (Inr q, s2)"
    and "commitRevocation V params p s2 = (Inr r, s3)" and "commitRevocation V others q s3 = (Inr r', s4)"
    and "rp_walletId others = rp_walletId params" and "rp_vct others = rp_vct params"
    and "rp_index others \<noteq> rp_index params"
  shows "rr_status r = STATUS_TYPE_INVALID \<and>
    specStatus (rp_walletId params, rp_vct params) (rp_index params) (statusView V s4) =
    specStatus (rp_walletId params, rp_vct params) (rp_index params) (statusView V s)"
proof -
  let ?pr = "(rp_walletId params, rp_vct params)"
  from planRevocation_run [OF assms(3)] have q1: "quiet s s1" by simp
  from planRevocation_run [OF assms(4)] have q2: "quiet s1 s2" by simp
  have inv: "rev_inv V s1" "rev_inv V s2"
    using rev_inv_quiet [OF assms(2) q1] rev_inv_quiet [OF _ q2] by blast+
  note P = planRevocation_ok [OF assms(1,2,3)] and Q = planRevocation_ok [OF assms(1) inv(1) assms(4)]
  have p2: "plan_ok V s2 (rp_list p) (rp_compressed p) (li_nextIndex (rp_list p))"
    by (rule plan_ok_kept [OF P [THEN conjunct1] kept_rows_refl]) (use q2 in \<open>simp add: quiet_def\<close>)
  from commitRevocation_inv [OF inv(2) p2 assms(5)] have inv3: "rev_inv V s3" "kept_rows s2 s3" by simp_all
  have q3: "plan_ok V s3 (rp_list q) (rp_compressed q) (li_nextIndex (rp_list q))"
    by (rule plan_ok_kept [OF Q [THEN conjunct1] inv3(2)])
  have "statusView V s4 ?pr = Some ((statusesOf (rvLib V) (rp_list q))[nat (rp_index others) := STATUS_TYPE_INVALID])"
    using commitRevocation_view [OF inv3(1) q3 assms(6)] Q assms(7,8) by simp
  moreover have "statusView V s ?pr = Some (statusesOf (rvLib V) (rp_list q))"
    using Q assms(7,8) view_quiet [OF q1, of V] by simp
  moreover have "0 \<le> rp_index others" "0 \<le> rp_index params" using P Q by simp_all
  moreover have "rr_status r = STATUS_TYPE_INVALID" using commitRevocation_Inr [OF assms(5)] by simp
  ultimately show ?thesis using assms(9) by (auto simp: specStatus_def nth_list_update)
qed

definition race1 :: "(revError + revocationPlan) \<times> statusDb" where
  "race1 = planRevocation sampleRev (sampleRevocation 3) (sampleStore zeros 8)"
definition race2 :: "(revError + revocationPlan) \<times> statusDb" where
  "race2 = planRevocation sampleRev (sampleRevocation 5) (snd race1)"
definition race3 :: "(revError + revokeResult) \<times> statusDb" where
  "race3 = commitRevocation sampleRev (sampleRevocation 3) (projr (fst race1)) (snd race2)"
definition race4 :: "(revError + revokeResult) \<times> statusDb" where
  "race4 = commitRevocation sampleRev (sampleRevocation 5) (projr (fst race2)) (snd race3)"

theorem concurrent_revocation_lost_witness:
  "rr_status (projr (fst race3)) = STATUS_TYPE_INVALID \<and>
   specStatus (''w'', ''v'') 3 (statusView sampleRev (snd race4)) =
     specStatus (''w'', ''v'') 3 (statusView sampleRev (sampleStore zeros 8)) \<and>
   statusView sampleRev (snd race4) (''w'', ''v'') = Some [0, 0, 0, 0, 0, 1, 0, 0]"
proof -
  have 1: "planRevocation sampleRev (sampleRevocation 3) (sampleStore zeros 8) =
      (Inr (projr (fst race1)), snd race1)"
    unfolding race1_def by (rule run_Inr) code_simp
  have 2: "planRevocation sampleRev (sampleRevocation 5) (snd race1) =
      (Inr (projr (fst race2)), snd race2)"
    unfolding race2_def by (rule run_Inr) code_simp
  have 3: "commitRevocation sampleRev (sampleRevocation 3) (projr (fst race1)) (snd race2) =
      (Inr (projr (fst race3)), snd race3)"
    unfolding race3_def by (rule run_Inr) code_simp
  have 4: "commitRevocation sampleRev (sampleRevocation 5) (projr (fst race2)) (snd race3) =
      (Inr (projr (fst race4)), snd race4)"
    unfolding race4_def by (rule run_Inr) code_simp
  have "statusView sampleRev (snd race4) (''w'', ''v'') = Some [0, 0, 0, 0, 0, 1, 0, 0]" by code_simp
  with concurrent_revocation_lost [OF sampleRev_ok zeros_inv 1 2 3 4]
  show ?thesis by (simp add: sampleRevocation_def)
qed

text \<open>
  Allocation hands out an index twice: after an allocation that returned \<open>i\<close>, an allocation
  that prefers \<open>i\<close> returns \<open>i\<close> again, because an assigned index and a free one both read as
  valid. Two credentials then share one status, and revoking one revokes the other.
\<close>

theorem allocation_reissues:
  assumes "rev_env_ok V" and "rev_inv V s"
    and "allocateIndex V params s = (Inr a, t)" and "allocateIndex V others t = (Inr b, u)"
    and "al_walletId others = al_walletId params" and "al_vct others = al_vct params"
    and "specStatus (al_walletId params, al_vct params) (ir_index a) (statusView V t) \<noteq> None"
    and "al_preferredIndex others = Some (ir_index a)"
  shows "ir_index b = ir_index a"
proof -
  let ?pr = "(al_walletId params, al_vct params)" and ?i = "ir_index a"
  have L: "lib_ok (rvLib V)" using assms(1) by (simp add: rev_env_ok_def)
  from allocate_effect [OF assms(1-3)] obtain xs where inv: "rev_inv V t"
    and t: "statusView V t ?pr = Some (xs[nat ?i := STATUS_TYPE_VALID])" by auto
  with assms(7) have i: "0 \<le> ?i" "?i < int (length xs)"
    and zero: "specStatus ?pr ?i (statusView V t) = Some 0"
    by (auto simp: specStatus_def status_types split: if_splits)
  from allocate_parts [OF assms(4)] obtain p t' where plan: "planAllocation V others t = (Inr p, t')"
    and com: "commitAllocation V others p t' = (Inr b, u)" by blast
  have idx: "ir_index b = ac_index p" using commitAllocation_Inr [OF com] by simp
  from t have "find (ofPair (al_walletId others) (al_vct others)) (listsOf t) \<noteq> None"
    using assms(5,6) by (auto simp: statusView_def)
  with planAllocation_run [OF L plan] obtain l l' where q: "quiet t t'"
    and f: "find (ofPair (al_walletId others) (al_vct others)) (listsOf t') = Some (ac_list p)"
    and dec: "decompressList (rvLib V) (li_compressed (ac_list p)) (li_bits (ac_list p)) = Inr l"
    and ch: "chooseIndex (rvLib V) l (ac_list p) (NoFreeIndexError (al_walletId others)
      (al_vct others) (li_capacity (ac_list p))) (al_preferredIndex others) = Inr (ac_index p)"
    by auto
  have sts: "statusView V t ?pr = Some (take (nat (li_capacity (ac_list p))) (entries (rvLib V) l))"
    using view_quiet [OF q, of V, symmetric] f dec assms(5,6)
    by (simp add: statusView_def statusesOf_def)
  with zero i have cap: "?i < li_capacity (ac_list p)" "inRange (rvLib V) l ?i"
    and "take (nat (li_capacity (ac_list p))) (entries (rvLib V) l) ! nat ?i = 0"
    by (auto simp: specStatus_def inRange_def split: if_splits)
  moreover have "nat ?i < nat (li_capacity (ac_list p))" using cap(1) i by linarith
  ultimately have "entries (rvLib V) l ! nat ?i = 0" by simp
  with cap have "listStatus (rvLib V) l ?i = Inr STATUS_TYPE_VALID"
    by (simp add: listStatus_ok [OF L] status_types)
  with ch cap i assms(8) have "ac_index p = ?i" by (simp add: chooseIndex_def)
  with idx show ?thesis by simp
qed

text \<open>A plan for a list that exists, step by step.\<close>

lemma planAllocation_found:
  assumes "rvSigners V (al_walletId params) = Inr signer"
    and "findByWalletAndVct (rvFaults V) (al_walletId params) (al_vct params) s = (Inr (Some info), s')"
    and "decompress (rvLib V) (li_compressed info) (li_bits info) = Inr list"
    and "chooseIndex (rvLib V) list info (NoFreeIndexError (al_walletId params) (al_vct params)
      (li_capacity info)) (al_preferredIndex params) = Inr i"
    and "setStatus (rvLib V) list i STATUS_TYPE_VALID = Inr list'"
  shows "planAllocation V params s = (Inr \<lparr>ac_list = info, ac_index = i,
    ac_compressed = compress (rvLib V) list',
    ac_uri = rvUri V (al_walletId params) (al_vct params) (sg_did signer)\<rparr>, s')"
  using assms by (simp add: planAllocation_def resolveSigner_def findOrCreateList_def Let_def andThen_def)

definition sampleSigner :: signerOptions where
  "sampleSigner = projr (rvSigners sampleRev ''w'')"

definition issueAt :: "int option \<Rightarrow> statusDb \<Rightarrow> (allocation \<times> statusDb) option" where
  "issueAt pref s =
     (case findByWalletAndVct (\<lambda>_. None) ''w'' ''v'' s of
        (Inr (Some info), s') \<Rightarrow>
          (case decompress sampleLib (li_compressed info) (li_bits info) of
             Inr list \<Rightarrow>
               (case chooseIndex sampleLib list info
                   (NoFreeIndexError ''w'' ''v'' (li_capacity info)) pref of
                  Inr i \<Rightarrow>
                    (case setStatus sampleLib list i STATUS_TYPE_VALID of
                       Inr list' \<Rightarrow> Some (\<lparr>ac_list = info, ac_index = i,
                         ac_compressed = compress sampleLib list',
                         ac_uri = rvUri sampleRev ''w'' ''v'' (sg_did sampleSigner)\<rparr>, s')
                     | _ \<Rightarrow> None)
                | _ \<Rightarrow> None)
           | _ \<Rightarrow> None)
      | _ \<Rightarrow> None)"

lemma issueAt_plan:
  assumes "issueAt pref s = Some (a, s')"
  shows "planAllocation sampleRev (sampleAllocation pref) s = (Inr a, s')"
proof -
  have env: "rvLib sampleRev = sampleLib" "rvFaults sampleRev = (\<lambda>_. None)"
      "rvSigners sampleRev ''w'' = Inr sampleSigner"
    by (simp_all add: sampleRev_def sampleSigner_def)
  from assms obtain info list i list' where
      "findByWalletAndVct (\<lambda>_. None) ''w'' ''v'' s = (Inr (Some info), s')"
      "decompress sampleLib (li_compressed info) (li_bits info) = Inr list"
      "chooseIndex sampleLib list info (NoFreeIndexError ''w'' ''v'' (li_capacity info)) pref = Inr i"
      "setStatus sampleLib list i STATUS_TYPE_VALID = Inr list'"
      "a = \<lparr>ac_list = info, ac_index = i, ac_compressed = compress sampleLib list',
        ac_uri = rvUri sampleRev ''w'' ''v'' (sg_did sampleSigner)\<rparr>"
    by (auto simp: issueAt_def split: prod.splits sum.splits option.splits)
  with planAllocation_found [of sampleRev "sampleAllocation pref" sampleSigner s info s' list i list'] env
  show ?thesis by (simp add: sampleAllocation_def)
qed

text \<open>The whole allocation from its two phases, each small enough to evaluate.\<close>

definition issue :: "int option \<Rightarrow> statusDb \<Rightarrow> (revError + indexRef) \<times> statusDb" where
  "issue pref s = (case the (issueAt pref s) of (a, s') \<Rightarrow>
     commitAllocation sampleRev (sampleAllocation pref) a s')"

lemma issue_run:
  assumes "\<not> Option.is_none (issueAt pref s)" and "\<not> isl (fst (issue pref s))"
  shows "allocateIndex sampleRev (sampleAllocation pref) s =
    (Inr (projr (fst (issue pref s))), snd (issue pref s))"
proof -
  from assms(1) obtain a s' where i: "issueAt pref s = Some (a, s')"
    by (auto simp: Option.is_none_def)
  then have "allocateIndex sampleRev (sampleAllocation pref) s = issue pref s"
    using issueAt_plan [OF i] by (simp add: allocateIndex_def issue_def andThen_def)
  with run_Inr [OF assms(2)] show ?thesis by simp
qed

definition issue1 :: "(revError + indexRef) \<times> statusDb" where
  "issue1 = issue None (sampleStore zeros 2)"
definition issue2 :: "(revError + indexRef) \<times> statusDb" where
  "issue2 = issue (Some 2) (snd issue1)"
definition issue3 :: "(revError + indexRef) \<times> statusDb" where
  "issue3 = issue None afterRevoke"

theorem allocation_reissues_witness:
  "ir_index (projr (fst issue1)) = 2 \<and> ir_index (projr (fst issue2)) = ir_index (projr (fst issue1))"
proof -
  have 1: "allocateIndex sampleRev (sampleAllocation None) (sampleStore zeros 2) =
      (Inr (projr (fst issue1)), snd issue1)"
    unfolding issue1_def by (rule issue_run; code_simp)
  have 2: "allocateIndex sampleRev (sampleAllocation (Some 2)) (snd issue1) =
      (Inr (projr (fst issue2)), snd issue2)"
    unfolding issue2_def by (rule issue_run; code_simp)
  have i: "ir_index (projr (fst issue1)) = 2" by code_simp
  have "specStatus (''w'', ''v'') 2 (statusView sampleRev (snd issue1)) = Some 0" by code_simp
  then have st: "specStatus (''w'', ''v'') 2 (statusView sampleRev (snd issue1)) \<noteq> None" by simp
  from allocation_reissues [OF sampleRev_ok zeros_inv 1 2] i st
  show ?thesis by (simp add: sampleAllocation_def)
qed

text \<open>
  Allocation undoes a revocation: when the index under the cursor is revoked, the next
  allocation returns that index and sets it back to valid.
\<close>

theorem allocation_unrevokes:
  assumes "rev_env_ok V" and "rev_inv V s"
    and "find (ofPair (rp_walletId params) (rp_vct params)) (listsOf s) = Some info"
    and "rp_index params = li_nextIndex info"
    and "revoke V params s = (Inr r, t)" and "allocateIndex V alloc t = (Inr a, u)"
    and "al_walletId alloc = rp_walletId params" and "al_vct alloc = rp_vct params"
    and "al_preferredIndex alloc = None"
  shows "ir_index a = rp_index params \<and>
    specStatus (rp_walletId params, rp_vct params) (ir_index a) (statusView V u) = Some STATUS_TYPE_VALID"
proof -
  let ?pr = "(rp_walletId params, rp_vct params)" and ?i = "rp_index params"
  have L: "lib_ok (rvLib V)" using assms(1) by (simp add: rev_env_ok_def)
  from revoke_effect [OF assms(1,2,5)] obtain xs where i: "0 \<le> ?i" "?i < int (length xs)"
    and inv: "rev_inv V t" and t: "statusView V t ?pr = Some (xs[nat ?i := STATUS_TYPE_INVALID])" by auto
  from revoke_parts [OF assms(5)] obtain p s' where plan: "planRevocation V params s = (Inr p, s')"
    and q: "quiet s s'" and com: "commitRevocation V params p s' = (Inr r, t)" by blast
  have p: "rp_list p = info" "rp_index params < li_capacity info"
    using planRevocation_run [OF plan] assms(3) by auto
  have row: "info \<in> set (listsOf s)" using find_row [OF assms(3)] by simp
  let ?g = "counted \<circ> withBits (rp_compressed p) (li_nextIndex info) (dbClock s')"
  have lt: "listsOf t = updateWhere (\<lambda>l. li_id l = li_id info) ?g (listsOf s)"
    using commitRevocation_Inr [OF com] q p(1) by (simp add: revoked_rows_def quiet_def Let_def)
  have ft: "find (ofPair (rp_walletId params) (rp_vct params)) (listsOf t) = Some (?g info)"
    unfolding lt find_update [OF row_change_counted] using assms(3) by simp
  from allocate_effect [OF assms(1) inv assms(6)] obtain b t' ys
    where pb: "planAllocation V alloc t = (Inr b, t')" and a: "ir_index a = ac_index b"
    and u: "statusView V t' ?pr = Some ys"
      "statusView V u ?pr = Some (ys[nat (ac_index b) := STATUS_TYPE_VALID])"
    using assms(7,8) by auto
  from planAllocation_run [OF L pb] ft assms(7,8) have q': "quiet t t'" by auto
  with planAllocation_run [OF L pb] ft assms(7,8) obtain l where lb: "ac_list b = ?g info"
    and ch: "chooseIndex (rvLib V) l (ac_list b) (NoFreeIndexError (al_walletId alloc) (al_vct alloc)
      (li_capacity (ac_list b))) (al_preferredIndex alloc) = Inr (ac_index b)"
    by (auto simp: quiet_def)
  have "ac_index b = ?i"
    using ch p(2) assms(4,9) unfolding lb
    by (simp add: chooseIndex_def counted_def withBits_def)
  moreover have "length ys = length xs"
    using u(1) t view_quiet [OF q', of V] by auto
  ultimately show ?thesis using a u(2) i by (auto simp: specStatus_def)
qed

theorem allocation_unrevokes_witness:
  "specStatus (''w'', ''v'') 3 (statusView sampleRev afterRevoke) = Some STATUS_TYPE_INVALID \<and>
   ir_index (projr (fst issue3)) = 3 \<and>
   specStatus (''w'', ''v'') 3 (statusView sampleRev (snd issue3)) = Some STATUS_TYPE_VALID"
proof -
  have 3: "allocateIndex sampleRev (sampleAllocation None) afterRevoke =
      (Inr (projr (fst issue3)), snd issue3)"
    unfolding issue3_def by (rule issue_run; code_simp)
  have f: "find (ofPair ''w'' ''v'') (listsOf (sampleStore zeros 3)) =
      Some (toStatusListInfo (sampleRow (map (\<lambda>x. char_of (nat x)) zeros) 3 0))"
    by (simp add: listsOf_def sampleStore_def sampleRow_def toStatusListInfo_def ofPair_def)
  have "specStatus (''w'', ''v'') 3 (statusView sampleRev afterRevoke) = Some STATUS_TYPE_INVALID"
    by code_simp
  moreover have "ir_index (projr (fst issue3)) = 3" by code_simp
  ultimately show ?thesis using allocation_unrevokes [OF sampleRev_ok zeros_inv _ _ sample_revoke 3] f
    by (auto simp: sampleRevocation_def sampleAllocation_def sampleRow_def toStatusListInfo_def)
qed

section \<open>Searching a free index\<close>

text \<open>
  The search for a free index ends on every list and every start: it returns the first
  position from the start on whose entry is zero, and \<open>null\<close> exactly when there is none.
\<close>

theorem findFreeIndex_total:
  assumes "lib_ok L" and "0 \<le> i"
  shows "\<exists>r. findFreeIndex L l i = Inr r \<and>
    (case r of
       None \<Rightarrow> \<forall>j. i \<le> j \<and> j < getCapacity L l \<longrightarrow> entries L l ! nat j \<noteq> 0
     | Some j \<Rightarrow> i \<le> j \<and> j < getCapacity L l \<and> entries L l ! nat j = 0 \<and>
         (\<forall>k. i \<le> k \<and> k < j \<longrightarrow> entries L l ! nat k \<noteq> 0))"
  by (rule findFreeIndex_spec [OF assms])

theorem findFreeIndex_total_witness:
  "\<exists>r. findFreeIndex sampleLib ([0, 1, 1, 0], 1) 1 = Inr r \<and> r = Some 3"
proof -
  obtain r where r: "findFreeIndex sampleLib ([0, 1, 1, 0], 1) 1 = Inr r"
    using findFreeIndex_total [OF sampleLib_ok, of 1 "([0, 1, 1, 0], 1)"] by auto
  have "findFreeIndex sampleLib ([0, 1, 1, 0], 1) 1 = Inr (Some 3)" by code_simp
  with r show ?thesis by simp
qed

end
