(* ===== verification/VerifierProps.thy ===== *)
theory VerifierProps
  imports Verifier RevocationProps
begin

text \<open>
  The two sides of the status list together: the verdict of the verifier on the JWT the issuer
  publishes is the status in the issuer's store, and a revocation reaches every verifier that
  downloads the list afterwards. The last theorem shows what the verifier does not check.
\<close>

section \<open>Reading a compact JWT\<close>

lemma decodeJwt_compact:
  assumes "lib_ok L" and "jsonField ''status_list'' p = Some (status_claim b lst)"
    and "CHR ''.'' \<notin> set h" and "CHR ''.'' \<notin> set s" and "decompressList L lst b = Inr l"
  shows "decodeJwt L (compactJwt h p s) = Inr (l, p)"
  using lib_jwt [OF assms(1-4)] assms(3-5)
  by (simp add: decodeJwt_def compactJwt_parts b64Json_def)

lemma jsonField_claim [simp]:
  "jsonField ''lst'' (status_claim b lst) = Some (JStr lst)"
  "jsonField ''bits'' (status_claim b lst) = Some (JNum b)"
  by (simp_all add: status_claim_def)

lemma payloadList_claim:
  "jsonField ''status_list'' p = Some (status_claim b lst) \<Longrightarrow>
    payloadList L p = inCore (decompress L lst b)"
  by (simp add: payloadList_def) (simp add: status_claim_def)

text \<open>A successful answer of the server.\<close>

definition served :: "'l verifierEnv \<Rightarrow> string \<Rightarrow> string \<Rightarrow> bool" where
  "served VF address body \<longleftrightarrow>
     (\<exists>response. vfFetch VF address = Inr response \<and> 200 \<le> ht_status response \<and>
        ht_status response < 300 \<and> ht_body response = body)"

lemma fetch_compact:
  assumes "lib_ok (vfLib VF)" and "jsonField ''status_list'' p = Some (status_claim b lst)"
    and "CHR ''.'' \<notin> set h" and "CHR ''.'' \<notin> set s" and "decompressList (vfLib VF) lst b = Inr l"
    and "served VF address (compactJwt h p s)"
  shows "\<exists>f. verifierGetStatusList VF address options = Inr f \<and> fl_jwt f = compactJwt h p s"
proof -
  have "p \<noteq> JNull" using assms(2) by auto
  then show ?thesis
    using assms(6) decodeJwt_compact [OF assms(1-5)]
    by (auto simp: served_def verifierGetStatusList_def usable_def Let_def)
qed

lemma verdict_compact:
  assumes "lib_ok (vfLib VF)" and "jsonField ''status_list'' p = Some (status_claim b lst)"
    and "CHR ''.'' \<notin> set h" and "CHR ''.'' \<notin> set s" and "decompressList (vfLib VF) lst b = Inr l"
    and "entryFromJwt (vfLib VF) cred = Inr \<lparr>idx = i, uri = address\<rparr>"
    and "served VF address (compactJwt h p s)" and "inRange (vfLib VF) l i"
  shows "verifyCredential VF cred expected =
    (let es = issuerIssues expected (jsonField ''iss'' p) @ statusIssues (entries (vfLib VF) l ! nat i) i
     in \<lparr>vd_valid = (es = []), vd_errors = es, vd_payload = Some p\<rparr>)"
proof -
  from fetch_compact [OF assms(1-5,7)] obtain f
    where f: "verifierGetStatusList VF address noListOptions = Inr f" "fl_jwt f = compactJwt h p s" by blast
  have "p \<noteq> JNull" using assms(2) by auto
  then show ?thesis
    using f decodeJwt_compact [OF assms(1-5)] assms(5,6) listStatus_ok [OF assms(1,8)]
      payloadList_claim [OF assms(2), where L = "vfLib VF"]
    by (simp add: verifyCredential_def checkCredential_def extractReference_def usable_def
        decompress_def Let_def)
qed

section \<open>What the issuer publishes\<close>

lemma signAsJwt_compact:
  assumes L: "lib_ok L" and run: "signAsJwt L now l signer options = Inr jwt"
  shows "\<exists>h p s. jwt = compactJwt h p s \<and> CHR ''.'' \<notin> set h \<and> CHR ''.'' \<notin> set s \<and>
    jsonField ''status_list'' p = Some (status_claim (bitsOf L l) (compressList L l)) \<and>
    jsonField ''iss'' p = Some (JStr (sg_did signer))"
proof -
  let ?kvs = "[(''iss'', JStr (sg_did signer)), (''sub'', JStr (jo_uri options)),
    (''iat'', JNum (now div 1000))] @ truthyClaim ''ttl'' (jo_ttl options) @
    truthyClaim ''exp'' (jo_exp options)"
  let ?hd = "JObj [(''alg'', JStr (signerAlg signer)), (''typ'', JStr ''statuslist+jwt'')]"
  let ?p = "JObj (?kvs @ [(''status_list'', status_claim (bitsOf L l) (compressList L l))])"
  have "createHeaderAndPayload L l (JObj ?kvs) ?hd = Inr (?hd, ?p)"
    by (rule lib_payload [OF L]) (auto simp: truthyClaim_def split: option.splits)
  with run obtain sig where "jwt = b64Json ?hd @ ''.'' @ b64Json ?p @ ''.'' @ toBase64url sig"
    by (auto simp: signAsJwt_def Let_def split: sum.splits)
  then have "jwt = compactJwt (b64Json ?hd) ?p (toBase64url sig)"
    by (simp add: compactJwt_def b64Json_def)
  moreover have "jsonField ''status_list'' ?p = Some (status_claim (bitsOf L l) (compressList L l))"
    "jsonField ''iss'' ?p = Some (JStr (sg_did signer))"
    by (simp_all add: truthyClaim_def split: option.split)
  ultimately show ?thesis by (metis b64Json_def toBase64url_no_dot)
qed

lemma getStatusListJwt_run:
  assumes "getStatusListJwt V w v ttl ex s = (Inr j, t)"
  shows "\<exists>info l signer now. find (ofPair w v) (listsOf s) = Some info \<and>
    decompressList (rvLib V) (li_compressed info) (li_bits info) = Inr l \<and>
    rvSigners V w = Inr signer \<and>
    signAsJwt (rvLib V) now l signer
      \<lparr>jo_uri = rvUri V w v (sg_did signer), jo_ttl = ttl, jo_exp = ex\<rparr> = Inr (sj_jwt j)"
proof -
  obtain r0 t0 where f: "requireList V w v s = (r0, t0)" by fastforce
  with assms obtain info where r0: "r0 = Inr info"
    by (cases r0) (auto simp: getStatusListJwt_def andThen_def)
  with requireList_run [OF f] have "find (ofPair w v) (listsOf s) = Some info" by simp
  moreover from assms f r0 have
    "\<exists>l signer now. decompressList (rvLib V) (li_compressed info) (li_bits info) = Inr l \<and>
      rvSigners V w = Inr signer \<and> signAsJwt (rvLib V) now l signer
      \<lparr>jo_uri = rvUri V w v (sg_did signer), jo_ttl = ttl, jo_exp = ex\<rparr> = Inr (sj_jwt j)"
    by (auto simp: getStatusListJwt_def andThen_def decompress_def resolveSigner_def dateNow_def
        Let_def split: sum.splits)
  ultimately show ?thesis by blast
qed

text \<open>On a sound store a signer that works always gets its list published.\<close>

definition signs :: "signerOptions \<Rightarrow> bool" where
  "signs signer \<longleftrightarrow> (\<forall>k a bs. \<not> isl (sg_sign signer k a bs))"

lemma signAsJwt_total:
  assumes "lib_ok L" and "signs signer"
  shows "\<not> isl (signAsJwt L now l signer options)"
proof -
  have "createHeaderAndPayload L l (JObj ([(''iss'', JStr (sg_did signer)),
      (''sub'', JStr (jo_uri options)), (''iat'', JNum (now div 1000))] @
      truthyClaim ''ttl'' (jo_ttl options) @ truthyClaim ''exp'' (jo_exp options))) h =
    Inr (h, JObj (([(''iss'', JStr (sg_did signer)), (''sub'', JStr (jo_uri options)),
      (''iat'', JNum (now div 1000))] @ truthyClaim ''ttl'' (jo_ttl options) @
      truthyClaim ''exp'' (jo_exp options)) @
      [(''status_list'', status_claim (bitsOf L l) (compressList L l))]))" for h
    by (rule lib_payload [OF assms(1)]) (auto simp: truthyClaim_def split: option.splits)
  with assms(2) show ?thesis
    by (auto simp: signAsJwt_def signs_def Let_def split: sum.split) (metis sum.disc(1))+
qed

lemma publication_total:
  assumes V: "rev_env_ok V" and inv: "rev_inv V s" and req: "\<not> isl (fst (requireList V w v s))"
    and sg: "rvSigners V w = Inr signer" "signs signer"
  shows "\<not> isl (fst (getStatusListJwt V w v ttl ex s))"
proof -
  from req obtain info t where f: "requireList V w v s = (Inr info, t)"
    by (cases "requireList V w v s"; cases "fst (requireList V w v s)") auto
  from requireList_run [OF f] have "find (ofPair w v) (listsOf s) = Some info" by simp
  from rev_inv_row [OF inv] find_row [OF this] have "list_ok (rvLib V) info" by simp
  then obtain l where "decompressList (rvLib V) (li_compressed info) (li_bits info) = Inr l"
    unfolding list_ok_def by (blast elim: bits_okD)
  moreover from V have "\<not> isl (signAsJwt (rvLib V) n l signer o')" for n o'
    by (intro signAsJwt_total sg(2)) (simp add: rev_env_ok_def)
  ultimately show ?thesis using f sg(1)
    by (simp add: getStatusListJwt_def andThen_def decompress_def resolveSigner_def dateNow_def
        Let_def split: sum.split) (metis sum.disc(1))
qed

text \<open>The list in the published JWT has the statuses of the store.\<close>

lemma published_list:
  assumes V: "rev_env_ok V" and inv: "rev_inv V s"
    and run: "getStatusListJwt V w v ttl ex s = (Inr j, t)"
    and st: "specStatus (w, v) i (statusView V s) = Some st"
  obtains h p sig b lst m signer where "sj_jwt j = compactJwt h p sig" and "CHR ''.'' \<notin> set h"
    and "CHR ''.'' \<notin> set sig" and "jsonField ''status_list'' p = Some (status_claim b lst)"
    and "jsonField ''iss'' p = Some (JStr (sg_did signer))" and "rvSigners V w = Inr signer"
    and "decompressList (rvLib V) lst b = Inr m" and "inRange (rvLib V) m i"
    and "entries (rvLib V) m ! nat i = st"
proof -
  let ?L = "rvLib V"
  from V have L: "lib_ok ?L" by (simp add: rev_env_ok_def)
  from getStatusListJwt_run [OF run] obtain info l signer now
    where f: "find (ofPair w v) (listsOf s) = Some info"
      and dec: "decompressList ?L (li_compressed info) (li_bits info) = Inr l"
      and sg: "rvSigners V w = Inr signer"
      and jwt: "signAsJwt ?L now l signer
        \<lparr>jo_uri = rvUri V w v (sg_did signer), jo_ttl = ttl, jo_exp = ex\<rparr> = Inr (sj_jwt j)" by blast
  from rev_inv_row [OF inv] find_row [OF f] have ok: "list_ok ?L info" by simp
  with dec have b: "validBits (li_bits info)" "bitsOf ?L l = li_bits info"
      "set (entries ?L l) \<subseteq> {0, 1}" "li_capacity info \<le> int (length (entries ?L l))"
    by (auto simp: list_ok_def bits_ok_def)
  from lib_roundtrip [OF L decoded_well_formed [OF b(1-3)]] obtain m k
    where m: "decompressList ?L (compressList ?L l) (bitsOf ?L l) = Inr m"
      "entries ?L m = entries ?L l @ replicate k 0" by blast
  have view: "statusView V s (w, v) = Some (take (nat (li_capacity info)) (entries ?L l))"
    using f dec by (simp add: statusView_def statusesOf_def)
  let ?xs = "take (nat (li_capacity info)) (entries ?L l)"
  from view st have i: "0 \<le> i" "i < int (length ?xs)" "?xs ! nat i = st"
    by (auto simp: specStatus_def split: if_splits)
  from i(1,2) have "nat i < length ?xs" by linarith
  with i have "nat i < length (entries ?L l)" "entries ?L l ! nat i = st" by simp_all
  then have "inRange ?L m i" "entries ?L m ! nat i = st"
    using m(2) i(1) by (auto simp: inRange_def nth_append)
  with that m(1) sg signAsJwt_compact [OF L jwt] show thesis by blast
qed

section \<open>Properties\<close>

definition statusCodes :: "int \<Rightarrow> string list" where
  "statusCodes st = (if st = STATUS_TYPE_VALID then [] else [''STATUS_INVALID''])"

definition mismatchCodes :: "string option \<Rightarrow> string \<Rightarrow> string list" where
  "mismatchCodes expected did =
     (if expected \<in> {None, Some [], Some did} then [] else [''ISSUER_MISMATCH''])"

lemma issue_codes:
  "map is_code (issuerIssues expected (Some (JStr did))) = mismatchCodes expected did"
  "map is_code (statusIssues st i) = statusCodes st"
  by (auto simp: issuerIssues_def mismatchCodes_def statusIssues_def statusCodes_def status_types
      split: option.split)

lemma verdict_codes:
  assumes "vd = (let es = a @ b in \<lparr>vd_valid = (es = []), vd_errors = es, vd_payload = q\<rparr>)"
  shows "map is_code (vd_errors vd) = map is_code a @ map is_code b \<and>
    vd_valid vd = (map is_code a @ map is_code b = [])"
  using assms by (simp add: Let_def)

text \<open>
  The verdict of a verifier that downloads the published list is the status in the issuer's
  store: on every sound store, for every list that was published and every credential that refers
  to an index of it, the errors are an issuer mismatch exactly when another issuer was expected
  and an invalid status exactly when the status is not 0, and the credential is valid without
  errors.
\<close>

theorem published_verdict:
  assumes "rev_env_ok V" and "rev_inv V s" and "getStatusListJwt V w v ttl ex s = (Inr j, t)"
    and "rvSigners V w = Inr signer" and "vfLib VF = rvLib V"
    and "entryFromJwt (rvLib V) cred = Inr \<lparr>idx = i, uri = address\<rparr>"
    and "served VF address (sj_jwt j)" and "specStatus (w, v) i (statusView V s) = Some st"
  shows "map is_code (vd_errors (verifyCredential VF cred expected)) =
      mismatchCodes expected (sg_did signer) @ statusCodes st \<and>
    vd_valid (verifyCredential VF cred expected) =
      (expected \<in> {None, Some [], Some (sg_did signer)} \<and> st = STATUS_TYPE_VALID)"
proof -
  obtain h p sig b lst m signer' where j: "sj_jwt j = compactJwt h p sig" "CHR ''.'' \<notin> set h"
      "CHR ''.'' \<notin> set sig" "jsonField ''status_list'' p = Some (status_claim b lst)"
      "jsonField ''iss'' p = Some (JStr (sg_did signer'))" "rvSigners V w = Inr signer'"
      "decompressList (rvLib V) lst b = Inr m" "inRange (rvLib V) m i" "entries (rvLib V) m ! nat i = st"
    by (rule published_list [OF assms(1-3,8)])
  from assms(1) have L: "lib_ok (rvLib V)" by (simp add: rev_env_ok_def)
  have "verifyCredential VF cred expected =
      (let es = issuerIssues expected (jsonField ''iss'' p) @ statusIssues (entries (vfLib VF) m ! nat i) i
       in \<lparr>vd_valid = (es = []), vd_errors = es, vd_payload = Some p\<rparr>)"
    by (rule verdict_compact) (use assms(5-7) L j in auto)
  from verdict_codes [OF this] j(5,6,9) assms(4,5) show ?thesis
    by (auto simp: issue_codes mismatchCodes_def statusCodes_def)
qed

definition sampleVerifier :: "string \<Rightarrow> (int list \<times> int) verifierEnv" where
  "sampleVerifier body = \<lparr>vfLib = sampleLib,
     vfFetch = (\<lambda>_. Inr \<lparr>ht_status = 200, ht_statusText = ''OK'', ht_body = body\<rparr>)\<rparr>"

lemma sample_served [simp]: "served (sampleVerifier body) address body"
  by (simp add: served_def sampleVerifier_def)

lemma sample_publishes:
  assumes "rev_inv sampleRev s" and "\<not> isl (fst (requireList sampleRev w v s))"
  shows "\<not> isl (fst (getStatusListJwt sampleRev w v ttl ex s))"
  by (rule publication_total [OF sampleRev_ok assms], simp add: sampleRev_def) (simp add: signs_def)

definition sampleToken :: "getStatusListJwtResult" where
  "sampleToken = projr (fst (getStatusListJwt sampleRev ''w'' ''v'' None None (sampleStore zeros 3)))"

lemma sample_token:
  "getStatusListJwt sampleRev ''w'' ''v'' None None (sampleStore zeros 3) =
    (Inr sampleToken, snd (getStatusListJwt sampleRev ''w'' ''v'' None None (sampleStore zeros 3)))"
  unfolding sampleToken_def
  by (intro run_Inr sample_publishes, simp) code_simp

lemma sample_statuses: "specStatus (''w'', ''v'') 1 (statusView sampleRev (sampleStore zeros 3)) = Some 0"
  by code_simp

lemma sample_entry:
  "entryFromJwt (rvLib sampleRev) ''xyz'' = Inr \<lparr>idx = 3, uri = ''xyz''\<rparr>"
  "entryFromJwt (rvLib sampleRev) ''x'' = Inr \<lparr>idx = 1, uri = ''x''\<rparr>"
  by (simp_all add: sampleRev_def sampleLib_def)

lemma sample_lib: "vfLib (sampleVerifier body) = rvLib sampleRev"
  by (simp add: sampleVerifier_def sampleRev_def)

lemma sample_signer: "\<exists>signer. rvSigners sampleRev w = Inr signer"
  by (simp add: sampleRev_def)

theorem published_verdict_witness:
  "vd_valid (verifyCredential (sampleVerifier (sj_jwt sampleToken)) ''x'' None)"
proof -
  obtain signer where "rvSigners sampleRev ''w'' = Inr signer" using sample_signer by blast
  from published_verdict [OF sampleRev_ok zeros_inv sample_token this sample_lib sample_entry(2)
      sample_served sample_statuses, of None]
  show ?thesis by (simp add: status_types)
qed

lemma revoked_rejected:
  assumes "rev_env_ok V" and "rev_inv V s" and "revoke V params s = (Inr r, t)"
    and "getStatusListJwt V (rp_walletId params) (rp_vct params) ttl ex t = (Inr j, u)"
    and "vfLib VF = rvLib V"
    and "entryFromJwt (rvLib V) cred = Inr \<lparr>idx = rp_index params, uri = address\<rparr>"
    and "served VF address (sj_jwt j)"
  shows "\<not> vd_valid (verifyCredential VF cred expected) \<and>
    ''STATUS_INVALID'' \<in> is_code ` set (vd_errors (verifyCredential VF cred expected))"
proof -
  from revoke_effect [OF assms(1-3)] have inv: "rev_inv V t"
    and st: "specStatus (rp_walletId params, rp_vct params) (rp_index params) (statusView V t) =
      Some STATUS_TYPE_INVALID"
    by (auto simp: specStatus_def)
  obtain h p sig b lst m signer where j: "sj_jwt j = compactJwt h p sig" "CHR ''.'' \<notin> set h"
      "CHR ''.'' \<notin> set sig" "jsonField ''status_list'' p = Some (status_claim b lst)"
      "jsonField ''iss'' p = Some (JStr (sg_did signer))" "rvSigners V (rp_walletId params) = Inr signer"
      "decompressList (rvLib V) lst b = Inr m" "inRange (rvLib V) m (rp_index params)"
      "entries (rvLib V) m ! nat (rp_index params) = STATUS_TYPE_INVALID"
    by (rule published_list [OF assms(1) inv assms(4) st])
  from assms(1) have L: "lib_ok (rvLib V)" by (simp add: rev_env_ok_def)
  have "verifyCredential VF cred expected =
      (let es = issuerIssues expected (jsonField ''iss'' p) @
         statusIssues (entries (vfLib VF) m ! nat (rp_index params)) (rp_index params)
       in \<lparr>vd_valid = (es = []), vd_errors = es, vd_payload = Some p\<rparr>)"
    by (rule verdict_compact) (use assms(5-7) L j in auto)
  with j(9) assms(5) show ?thesis by (auto simp: statusIssues_def status_types Let_def)
qed

text \<open>
  A revocation reaches the verifier: after a revocation that returned, every verifier that
  downloads a list published from then on rejects the credential of that index, with the error
  that names the status, whatever issuer it expects.
\<close>

theorem revoked_credential_rejected:
  assumes "rev_env_ok V" and "rev_inv V s" and "revoke V params s = (Inr r, t)"
    and "getStatusListJwt V (rp_walletId params) (rp_vct params) ttl ex t = (Inr j, u)"
    and "vfLib VF = rvLib V"
    and "entryFromJwt (rvLib V) cred = Inr \<lparr>idx = rp_index params, uri = address\<rparr>"
    and "served VF address (sj_jwt j)"
  shows "\<not> vd_valid (verifyCredential VF cred expected) \<and>
    ''STATUS_INVALID'' \<in> is_code ` set (vd_errors (verifyCredential VF cred expected))"
  by (rule revoked_rejected [OF assms])

lemma sample_after: "rev_inv sampleRev afterRevoke"
  using revoke_effect [OF sampleRev_ok zeros_inv sample_revoke] by auto

definition revokedToken :: "getStatusListJwtResult" where
  "revokedToken = projr (fst (getStatusListJwt sampleRev ''w'' ''v'' None None afterRevoke))"

lemma revoked_token:
  "getStatusListJwt sampleRev ''w'' ''v'' None None afterRevoke =
    (Inr revokedToken, snd (getStatusListJwt sampleRev ''w'' ''v'' None None afterRevoke))"
  unfolding revokedToken_def
  by (intro run_Inr sample_publishes, rule sample_after) code_simp

theorem revoked_credential_rejected_witness:
  "\<not> vd_valid (verifyCredential (sampleVerifier (sj_jwt revokedToken)) ''xyz'' None)"
proof -
  let ?p = "sampleRevocation 3"
  have p: "rp_walletId ?p = ''w''" "rp_vct ?p = ''v''" "rp_index ?p = 3"
    by (simp_all add: sampleRevocation_def)
  from revoked_credential_rejected [OF sampleRev_ok zeros_inv sample_revoke, unfolded p,
      OF _ revoked_token sample_lib sample_entry(1) sample_served]
  show ?thesis by simp
qed

text \<open>
  C33. The verifier checks neither the signature nor the age of the list: whoever answers for the
  address of the list, with any header, any signature, any issue time and any expiry, in the past
  too, makes the credential valid with a list that holds 0 at its index.
\<close>

theorem unsigned_list_accepted:
  assumes "lib_ok (vfLib VF)" and "decompressList (vfLib VF) lst b = Inr l"
    and "inRange (vfLib VF) l i" and "entries (vfLib VF) l ! nat i = STATUS_TYPE_VALID"
    and "entryFromJwt (vfLib VF) cred = Inr \<lparr>idx = i, uri = address\<rparr>"
    and "CHR ''.'' \<notin> set header" and "CHR ''.'' \<notin> set signature"
    and "served VF address (compactJwt header (JObj [(''iss'', JStr issuer), (''iat'', JNum iat),
      (''exp'', JNum expiry), (''status_list'', status_claim b lst)]) signature)"
  shows "vd_valid (verifyCredential VF cred (Some issuer)) \<and>
    vd_errors (verifyCredential VF cred (Some issuer)) = []"
proof -
  let ?p = "JObj [(''iss'', JStr issuer), (''iat'', JNum iat), (''exp'', JNum expiry),
    (''status_list'', status_claim b lst)]"
  have "verifyCredential VF cred (Some issuer) =
      (let es = issuerIssues (Some issuer) (jsonField ''iss'' ?p) @
         statusIssues (entries (vfLib VF) l ! nat i) i
       in \<lparr>vd_valid = (es = []), vd_errors = es, vd_payload = Some ?p\<rparr>)"
    by (rule verdict_compact [OF assms(1) _ assms(6,7,2,5,8,3)]) simp
  with assms(4) show ?thesis
    by (simp add: issuerIssues_def statusIssues_def status_types)
qed

definition forgedJwt :: string where
  "forgedJwt = compactJwt ''h'' (JObj [(''iss'', JStr ''did:web:t''), (''iat'', JNum 0),
     (''exp'', JNum 0), (''status_list'', status_claim 1 (replicate 8 (char_of (0 :: nat))))]) []"

theorem unsigned_list_accepted_witness:
  "vd_valid (verifyCredential (sampleVerifier forgedJwt) ''xyz'' (Some ''did:web:t''))"
proof -
  have "decompressList (vfLib (sampleVerifier forgedJwt)) (replicate 8 (char_of (0 :: nat))) 1 =
      Inr (replicate 8 0, 1)"
    by (simp add: sampleVerifier_def sampleLib_def validBits_def of_char_char_of_small [of 0, simplified])
  moreover have "inRange (vfLib (sampleVerifier forgedJwt)) (replicate 8 0, 1) 3"
    "entries (vfLib (sampleVerifier forgedJwt)) (replicate 8 0, 1) ! nat 3 = STATUS_TYPE_VALID"
    by (simp_all add: sampleVerifier_def sampleLib_def inRange_def status_types)
  moreover have "lib_ok (vfLib (sampleVerifier forgedJwt))"
    using sampleLib_ok by (simp add: sampleVerifier_def)
  moreover have "entryFromJwt (vfLib (sampleVerifier forgedJwt)) ''xyz'' = Inr \<lparr>idx = 3, uri = ''xyz''\<rparr>"
    by (simp add: sampleVerifier_def sampleLib_def)
  moreover have "served (sampleVerifier forgedJwt) ''xyz'' forgedJwt" by simp
  ultimately show ?thesis
    using unsigned_list_accepted [of "sampleVerifier forgedJwt" "replicate 8 (char_of (0 :: nat))" 1
        "(replicate 8 0, 1)" 3 "''xyz''" "''xyz''" "''h''" "[]" "''did:web:t''" 0 0]
    by (simp add: forgedJwt_def)
qed

end
