(* ===== verification/Signers.thy ===== *)
theory Signers
  imports Revocation
begin

text \<open>
  How the issuer signs and addresses its status lists: \<^verbatim>\<open>agent/agent-store.ts\<close> (the
  tenants of the process), \<^verbatim>\<open>revocation/signer.derivation.ts\<close> of the core,
  \<^verbatim>\<open>signer.provider.ts\<close> and \<^verbatim>\<open>uri.builder.ts\<close> of the issuer. The agent of a
  tenant is code of the Credo framework: a record of the calls the derivation makes.
\<close>

section \<open>Agents\<close>

record didRecordKey =
  dk_kmsKeyId :: string
  dk_relativeKeyId :: "string option"

record didRecord =
  dr_did :: "string option"
  dr_keys :: "didRecordKey list option"

record publicJwk =
  pj_alg :: "json option"
  pj_kty :: string
  pj_crv :: "string option"

record agent =
  ag_createdDids :: "string \<Rightarrow> string + didRecord list"
  ag_publicKey :: "string \<Rightarrow> string + publicJwk option"
  ag_sign :: "string \<Rightarrow> string \<Rightarrow> bytes \<Rightarrow> string + bytes"

text \<open>The root agent opens the agent of a tenant; \<open>tenantMap\<close> gives the tenant of a wallet.\<close>

record 'g agentStore =
  rootAgent :: "(string \<Rightarrow> string + 'g) option"
  tenantMap :: "string \<rightharpoonup> string"

definition setRootAgent ::
  "(string \<Rightarrow> string + 'g) \<Rightarrow> (string \<times> string) list \<Rightarrow> 'g agentStore \<Rightarrow> 'g agentStore" where
  "setRootAgent root wallets A =
     A\<lparr>rootAgent := Some root,
       tenantMap := foldl (\<lambda>m (walletId, tenantId). m(walletId \<mapsto> tenantId)) (tenantMap A) wallets\<rparr>"

definition hasWallet :: "string \<Rightarrow> 'g agentStore \<Rightarrow> bool" where
  "hasWallet walletId A \<longleftrightarrow> tenantMap A walletId \<noteq> None"

definition registerTenant :: "string \<Rightarrow> string \<Rightarrow> 'g agentStore \<Rightarrow> 'g agentStore" where
  "registerTenant walletId tenantId A = A\<lparr>tenantMap := (tenantMap A)(walletId \<mapsto> tenantId)\<rparr>"

definition quote :: string where
  "quote = [CHR 0x27]"

definition withWallet :: "'g agentStore \<Rightarrow> string \<Rightarrow> ('g \<Rightarrow> string + 'a) \<Rightarrow> string + 'a" where
  "withWallet A walletId callback =
     (case rootAgent A of
        None \<Rightarrow> Inl ''Agent not initialized''
      | Some openTenant \<Rightarrow>
          (case tenantMap A walletId of
             None \<Rightarrow> Inl (''Wallet '' @ quote @ walletId @ quote @ '' no encontrada'')
           | Some tenantId \<Rightarrow>
               if tenantId = [] then Inl (''Wallet '' @ quote @ walletId @ quote @ '' no encontrada'')
               else (case openTenant tenantId of Inl m \<Rightarrow> Inl m | Inr ag \<Rightarrow> callback ag)))"

section \<open>Derivation of the signer\<close>

record derivationOptions =
  do_algOverride :: "string option"
  do_kidOverride :: "string option"
  do_keyFragment :: "string option"
  do_didMethod :: "string option"

definition normalized :: "string \<Rightarrow> string" where
  "normalized fragment = (if startsWith fragment ''#'' then fragment else CHR ''#'' # fragment)"

definition pickDidRecordKey :: "didRecordKey list option \<Rightarrow> string option \<Rightarrow> didRecordKey option" where
  "pickDidRecordKey keys fragment =
     (case keys of
        None \<Rightarrow> None
      | Some [] \<Rightarrow> None
      | Some (first # rest) \<Rightarrow>
          if \<not> truthyText fragment then Some first
          else
            (case find (\<lambda>k. dk_relativeKeyId k = Some (normalized (coalesce fragment [])))
                (first # rest) of
               Some k \<Rightarrow> Some k
             | None \<Rightarrow> Some first))"

definition algOfCurve :: "string \<Rightarrow> string option \<Rightarrow> string option" where
  "algOfCurve kty crv =
     (if kty = ''EC'' \<and> crv = Some ''P-256'' then Some ''ES256''
      else if kty = ''EC'' \<and> crv = Some ''P-384'' then Some ''ES384''
      else if kty = ''EC'' \<and> crv = Some ''P-521'' then Some ''ES512''
      else if kty = ''EC'' \<and> crv = Some ''secp256k1'' then Some ''ES256K''
      else if kty = ''OKP'' \<and> crv = Some ''Ed25519'' then Some ''EdDSA''
      else None)"

definition deriveAlgFromKms :: "agent \<Rightarrow> string \<Rightarrow> string + string" where
  "deriveAlgFromKms ag keyId =
     (case ag_publicKey ag keyId of
        Inl m \<Rightarrow> Inl m
      | Inr None \<Rightarrow> Inl (''No public key found in KMS for keyId='' @ keyId)
      | Inr (Some jwk) \<Rightarrow>
          (case pj_alg jwk of
             Some (JStr (c # a)) \<Rightarrow> Inr (c # a)
           | _ \<Rightarrow>
               (case algOfCurve (pj_kty jwk) (pj_crv jwk) of
                  Some alg \<Rightarrow> Inr alg
                | None \<Rightarrow> Inl (''Cannot derive signing algorithm from keyId='' @ keyId @
                    '': unsupported kty='' @ pj_kty jwk @ '', crv='' @
                    coalesce (pj_crv jwk) ''undefined''))))"

definition resolveSignerFromAgent :: "agent \<Rightarrow> derivationOptions \<Rightarrow> string + signerMetadata" where
  "resolveSignerFromAgent ag options =
     (let didMethod = coalesce (do_didMethod options) ''web'' in
      case ag_createdDids ag didMethod of
        Inl m \<Rightarrow> Inl m
      | Inr records \<Rightarrow>
          (case records of
             [] \<Rightarrow> Inl (''No DID found in agent (method='' @ didMethod @ '')'')
           | record # _ \<Rightarrow>
               if \<not> truthyText (dr_did record)
               then Inl (''No DID found in agent (method='' @ didMethod @ '')'')
               else
                 (let did = coalesce (dr_did record) [];
                      noKey = ''No matching KMS key for DID '' @ did @
                        (if truthyText (do_keyFragment options)
                         then '' (fragment='' @ coalesce (do_keyFragment options) [] @ '')'' else [])
                  in case pickDidRecordKey (dr_keys record) (do_keyFragment options) of
                       None \<Rightarrow> Inl noKey
                     | Some key \<Rightarrow>
                         if dk_kmsKeyId key = [] then Inl noKey
                         else
                           (case (case do_algOverride options of
                                    Some a \<Rightarrow> Inr a
                                  | None \<Rightarrow> deriveAlgFromKms ag (dk_kmsKeyId key)) of
                              Inl m \<Rightarrow> Inl m
                            | Inr alg \<Rightarrow>
                                Inr \<lparr>sg_did = did, sg_keyId = dk_kmsKeyId key,
                                  sg_kid = coalesce (do_kidOverride options)
                                    (did @ coalesce (dk_relativeKeyId key) ''#key-p256''),
                                  sg_alg = Some alg\<rparr>))))"

section \<open>The issuer's ports\<close>

text \<open>The \<open>revocationSigner\<close> part of the environment: an empty variable counts as absent.\<close>

definition revocationSigner :: "(string \<rightharpoonup> string) \<Rightarrow> derivationOptions" where
  "revocationSigner env =
     (let orUndefined = (\<lambda>k. case env k of None \<Rightarrow> None | Some v \<Rightarrow> if v = [] then None else Some v)
      in \<lparr>do_algOverride = orUndefined ''REVOCATION_SIGNER_ALG'',
          do_kidOverride = orUndefined ''REVOCATION_SIGNER_KID'',
          do_keyFragment = orUndefined ''REVOCATION_SIGNER_KEY_FRAGMENT'',
          do_didMethod = Some (coalesce (orUndefined ''REVOCATION_SIGNER_DID_METHOD'') ''web'')\<rparr>)"

definition readOptions :: "derivationOptions option \<Rightarrow> derivationOptions" where
  "readOptions cfg =
     \<lparr>do_algOverride = Option.bind cfg do_algOverride,
      do_kidOverride = Option.bind cfg do_kidOverride,
      do_keyFragment = Option.bind cfg do_keyFragment,
      do_didMethod = Option.bind cfg do_didMethod\<rparr>"

text \<open>Every signature opens a session of the tenant of its own.\<close>

definition walletSigner ::
  "agent agentStore \<Rightarrow> derivationOptions option \<Rightarrow> string \<Rightarrow> string + signerOptions" where
  "walletSigner A cfg walletId =
     (case withWallet A walletId (\<lambda>ag. resolveSignerFromAgent ag (readOptions cfg)) of
        Inl m \<Rightarrow> Inl m
      | Inr metadata \<Rightarrow>
          Inr (signerMetadata.extend metadata (signerOptions.fields
            (\<lambda>keyId alg data. withWallet A walletId (\<lambda>ag. ag_sign ag keyId alg data)))))"

definition statusListUri :: "string \<Rightarrow> string \<Rightarrow> string \<Rightarrow> string \<Rightarrow> string" where
  "statusListUri publicBaseUrl walletId vct issuerDid =
     publicBaseUrl @ ''/v1/issuers/'' @ walletId @ ''/revocation/status-list/'' @ vct"

text \<open>The factory of the issuer's module.\<close>

definition issuerRevocation ::
  "'l statusLib \<Rightarrow> (nat \<Rightarrow> string) \<Rightarrow> faults \<Rightarrow> agent agentStore \<Rightarrow> derivationOptions option \<Rightarrow> string \<Rightarrow>
    (string \<Rightarrow> json \<Rightarrow> bool) option \<Rightarrow> 'l revEnv" where
  "issuerRevocation L uuids faults A cfg publicBaseUrl messaging =
     createRevocationIssuer L uuids faults (walletSigner A cfg) (statusListUri publicBaseUrl) messaging"

section \<open>What the derivation gives\<close>

lemma pickDidRecordKey_member:
  assumes "pickDidRecordKey (Some keys) f = Some k"
  shows "k \<in> set keys"
proof (cases keys)
  case (Cons first others)
  show ?thesis
  proof (cases "truthyText f")
    case False
    with assms Cons show ?thesis by (simp add: pickDidRecordKey_def)
  next
    case True
    let ?n = "\<lambda>k. dk_relativeKeyId k = Some (normalized (coalesce f []))"
    from assms Cons True have "(case find ?n keys of Some k' \<Rightarrow> Some k' | None \<Rightarrow> Some first) = Some k"
      by (simp add: pickDidRecordKey_def del: find.simps)
    moreover have "k' \<in> set keys" if "find ?n keys = Some k'" for k'
      by (rule conjunct1 [OF find_Some_iff_in [OF that]])
    ultimately show ?thesis using Cons by (auto split: option.splits)
  qed
qed (use assms in \<open>simp add: pickDidRecordKey_def\<close>)

text \<open>
  A signer that is resolved belongs to the first DID of the method: its key is one the DID record
  lists, and its key identifier is the DID with the key's fragment unless it is overridden.
\<close>

lemma resolveSignerFromAgent_sound:
  assumes "resolveSignerFromAgent ag options = Inr md"
  shows "\<exists>record rest keys key. ag_createdDids ag (coalesce (do_didMethod options) ''web'') =
      Inr (record # rest) \<and> dr_did record = Some (sg_did md) \<and> sg_did md \<noteq> [] \<and>
    dr_keys record = Some keys \<and> key \<in> set keys \<and> dk_kmsKeyId key = sg_keyId md \<and> sg_keyId md \<noteq> [] \<and>
    sg_kid md = coalesce (do_kidOverride options)
      (sg_did md @ coalesce (dk_relativeKeyId key) ''#key-p256'')"
proof -
  from assms obtain dr rest where r: "ag_createdDids ag (coalesce (do_didMethod options) ''web'') =
      Inr (dr # rest)" and d: "truthyText (dr_did dr)"
    by (auto simp: resolveSignerFromAgent_def Let_def split: sum.splits list.splits if_splits)
  then obtain did where did: "dr_did dr = Some did" "did \<noteq> []"
    by (cases "dr_did dr") (auto simp: truthyText_def)
  from assms r d obtain key
    where k: "pickDidRecordKey (dr_keys dr) (do_keyFragment options) = Some key"
    by (auto simp: resolveSignerFromAgent_def Let_def split: option.splits)
  then obtain keys where keys: "dr_keys dr = Some keys"
    by (cases "dr_keys dr") (auto simp: pickDidRecordKey_def)
  from assms r d did k have "md = \<lparr>sg_did = did, sg_keyId = dk_kmsKeyId key,
      sg_kid = coalesce (do_kidOverride options)
        (did @ coalesce (dk_relativeKeyId key) ''#key-p256''), sg_alg = sg_alg md\<rparr> \<and>
      dk_kmsKeyId key \<noteq> []"
    by (auto simp: resolveSignerFromAgent_def Let_def split: sum.splits if_splits)
  with r did keys pickDidRecordKey_member [OF k [unfolded keys]] show ?thesis
    by (metis signerMetadata.select_convs(1-3))
qed

text \<open>Without a fragment the first key is taken, whatever keys follow it.\<close>

lemma default_key_is_first:
  "pickDidRecordKey (Some (k # ks)) None = Some k"
  by (simp add: pickDidRecordKey_def truthyText_def)

end
