(* ===== verification/IssuerHttp.thy ===== *)
theory IssuerHttp
  imports BillingHttp Signers
begin

text \<open>
  The HTTP side of revocation in the issuer: the guard that both services put before every
  handler (\<^verbatim>\<open>auth/api-key.guard.ts\<close>), which asks billing whether a key may be used, the
  scopes guard, the bodies and the controller of \<^verbatim>\<open>revocation/\<close>. A request runs over the
  database of billing, which the guard reaches over HTTP, and the store of status lists.
\<close>

section \<open>The guard of the services\<close>

text \<open>A header of Node: absent, one text, or several.\<close>

datatype headerField = NoHeader | OneHeader string | ManyHeaders "string list"

record guardConfig =
  gc_apiKeyAuthEnabled :: "string option"
  gc_billingUrl :: "string option"
  gc_internalToken :: "string option"

record request =
  rq_headers :: "string \<Rightarrow> headerField"
  rq_walletId :: "string option"
  rq_body :: json

text \<open>
  What the guard throws; the message or body billing gave, \<open>JNull\<close> for the guard's own text.
\<close>

datatype guardFailure =
    AuthUnconfigured
  | MissingApiKey
  | KeyRejected json
  | KeyForbidden json
  | KeyQuotaExhausted json
  | RateExceeded json
  | BillingFailed
  | BillingUnavailable
  | ScopesInsufficient

fun guardStatus :: "guardFailure \<Rightarrow> nat" where
  "guardStatus AuthUnconfigured = 503"
| "guardStatus MissingApiKey = 401"
| "guardStatus (KeyRejected _) = 401"
| "guardStatus (KeyForbidden _) = 403"
| "guardStatus (KeyQuotaExhausted _) = 402"
| "guardStatus (RateExceeded _) = 429"
| "guardStatus BillingFailed = 503"
| "guardStatus BillingUnavailable = 503"
| "guardStatus ScopesInsufficient = 403"

definition bearerKey :: "headerField \<Rightarrow> string option" where
  "bearerKey auth =
     (case (case auth of NoHeader \<Rightarrow> None | OneHeader v \<Rightarrow> Some v
            | ManyHeaders [] \<Rightarrow> None | ManyHeaders (v # _) \<Rightarrow> Some v) of
        None \<Rightarrow> None
      | Some value \<Rightarrow>
          if startsWith value ''Bearer '' then
            (let token = trim (drop (length ''Bearer '') value) in
             if startsWith token ''iss_'' \<or> startsWith token ''ver_'' then Some token else None)
          else None)"

definition extractApiKey :: "(string \<Rightarrow> headerField) \<Rightarrow> string option" where
  "extractApiKey hdrs =
     (case hdrs ''x-api-key'' of
        OneHeader v \<Rightarrow> if trim v \<noteq> [] then Some (trim v) else bearerKey (hdrs ''authorization'')
      | ManyHeaders (v # _) \<Rightarrow> if v \<noteq> [] then Some (trim v) else bearerKey (hdrs ''authorization'')
      | _ \<Rightarrow> bearerKey (hdrs ''authorization''))"

text \<open>\<open>req.params.walletId ?? req.body.issuerId\<close>, not sent when it is \<open>undefined\<close>.\<close>

definition askedWallet :: "string \<Rightarrow> request \<Rightarrow> json option" where
  "askedWallet bodyField req =
     (case rq_walletId req of Some w \<Rightarrow> Some (JStr w) | None \<Rightarrow> jsonField bodyField (rq_body req))"

definition meterBody :: "string \<Rightarrow> string \<Rightarrow> json option \<Rightarrow> json" where
  "meterBody apiKey svc walletId =
     JObj ([(''apiKey'', JStr apiKey), (''service'', JStr svc)] @
       (case walletId of None \<Rightarrow> [] | Some w \<Rightarrow> [(''walletId'', w)]) @ [(''count'', JNum 1)])"

definition messageOf :: "json \<Rightarrow> json" where
  "messageOf body = (case jsonField ''message'' body of None \<Rightarrow> JNull | Some m \<Rightarrow> m)"

text \<open>What the guard makes of the status and the text of billing's answer.\<close>

definition billingVerdict :: "nat \<Rightarrow> string \<Rightarrow> guardFailure + json option" where
  "billingVerdict status answer =
     (case (if answer = [] then Some JNull else jsonParse answer) of
        None \<Rightarrow> Inl BillingUnavailable
      | Some body \<Rightarrow>
          if status = 401 then Inl (KeyRejected (messageOf body))
          else if status = 403 then Inl (KeyForbidden (messageOf body))
          else if status = 402 then Inl (KeyQuotaExhausted body)
          else if status = 429 then Inl (RateExceeded body)
          else if \<not> (200 \<le> status \<and> status < 300) then Inl BillingFailed
          else Inr (Some body))"

text \<open>\<open>fetch\<close>: address, internal token and body to a failure or a status and a text.\<close>

type_synonym 's post = "string \<Rightarrow> string \<Rightarrow> string \<Rightarrow> 's \<Rightarrow> (string + nat \<times> string) \<times> 's"

definition ApiKeyAuthGuard ::
  "guardConfig \<Rightarrow> string \<Rightarrow> string \<Rightarrow> 's post \<Rightarrow> bool \<Rightarrow> request \<Rightarrow>
    ('s, guardFailure, json option) op" where
  "ApiKeyAuthGuard G svc bodyField post isPublic req =
     (if isPublic then ret None
      else if toLowerCase (coalesce (gc_apiKeyAuthEnabled G) ''true'') = ''false'' then ret None
      else if \<not> truthyText (gc_billingUrl G) \<or> \<not> truthyText (gc_internalToken G)
      then throw AuthUnconfigured
      else if \<not> truthyText (extractApiKey (rq_headers req)) then throw MissingApiKey
      else (\<lambda>s.
        case post (dropTrailingSlash (coalesce (gc_billingUrl G) []) @ ''/v1/internal/validate-and-meter'')
            (coalesce (gc_internalToken G) [])
            (stringify (meterBody (coalesce (extractApiKey (rq_headers req)) []) svc
              (askedWallet bodyField req))) s of
          (Inl _, s') \<Rightarrow> (Inl BillingUnavailable, s')
        | (Inr (status, answer), s') \<Rightarrow> (billingVerdict status answer, s')))"

text \<open>The two services mount the guard with their own name and body field.\<close>

definition issuerGuard ::
  "guardConfig \<Rightarrow> 's post \<Rightarrow> bool \<Rightarrow> request \<Rightarrow> ('s, guardFailure, json option) op" where
  "issuerGuard G = ApiKeyAuthGuard G ''issuer'' ''issuerId''"

definition verifierGuard ::
  "guardConfig \<Rightarrow> 's post \<Rightarrow> bool \<Rightarrow> request \<Rightarrow> ('s, guardFailure, json option) op" where
  "verifierGuard G = ApiKeyAuthGuard G ''verifier'' ''verifierId''"

text \<open>The scopes of the class and of the handler add up; without any the guard lets pass.\<close>

definition IssuerScopesGuard ::
  "string list option \<Rightarrow> string list option \<Rightarrow> string list option \<Rightarrow> guardFailure + unit" where
  "IssuerScopesGuard classScopes handlerScopes userScopes =
     (let required = coalesce classScopes [] @ coalesce handlerScopes []; scopes = coalesce userScopes []
      in if required = [] then Inr ()
         else if scopes = [] then Inl ScopesInsufficient
         else if \<forall>scope\<in>set required. scope \<in> set scopes then Inr ()
         else Inl ScopesInsufficient)"

section \<open>Billing behind the guard\<close>

text \<open>
  The guard's request arrives at billing's \<open>serve\<close>: \<open>render\<close> is the framework's JSON text of a
  reply or an error, a \<open>POST\<close> that returns answers 201.
\<close>

definition billingPost :: "world \<Rightarrow> (httpFailure + reply \<Rightarrow> string) \<Rightarrow> db post" where
  "billingPost W render address token body s =
     (case jsonParse body of
        None \<Rightarrow> (Inr (400, render (Inl BadBody)), s)
      | Some b \<Rightarrow>
          (case serve W (\<lambda>name. if name = ''x-internal-token'' then [token] else []) (InternalE b) s of
             (Inl e, s') \<Rightarrow> (Inr (failureStatus e, render (Inl e)), s')
           | (Inr r, s') \<Rightarrow> (Inr (201, render (Inr r)), s')))"

section \<open>Bodies\<close>

text \<open>An optional field that is \<open>null\<close> passes and counts as absent in the services below.\<close>

definition decIntFrom :: "int \<Rightarrow> json \<Rightarrow> int option" where
  "decIntFrom lo v = (case v of JNum n \<Rightarrow> if lo \<le> n then Some n else None | _ \<Rightarrow> None)"

definition decBits :: "json \<Rightarrow> int option" where
  "decBits v = (case v of JNum n \<Rightarrow> if n \<in> {1, 2, 4, 8} then Some n else None | _ \<Rightarrow> None)"

definition orDefault :: "'a \<Rightarrow> 'a jsOpt \<Rightarrow> 'a option" where
  "orDefault d v = (case v of Undefined \<Rightarrow> Some d | Null \<Rightarrow> None | Val x \<Rightarrow> Some x)"

definition CreateStatusListDto :: "json \<Rightarrow> (string \<times> createOptions) option" where
  "CreateStatusListDto body =
     (case (reqField ''vct'' (decString 1 None) body,
            BillingHttp.optField ''bits'' decBits body,
            BillingHttp.optField ''capacity'' (decInt 1024 131072) body) of
        (Some v, Some b, Some c) \<Rightarrow>
          Some (v, \<lparr>co_bits = orDefault 1 b, co_capacity = orDefault 16384 c\<rparr>)
      | _ \<Rightarrow> None)"

definition AllocateIndexDto :: "json \<Rightarrow> allocateOptions option" where
  "AllocateIndexDto body =
     (case (BillingHttp.optField ''credentialId'' (decString 0 None) body,
            BillingHttp.optField ''preferredIndex'' (decIntFrom 0) body) of
        (Some c, Some p) \<Rightarrow> Some \<lparr>ao_credentialId = nullish c, ao_preferredIndex = nullish p\<rparr>
      | _ \<Rightarrow> None)"

definition RevokeCredentialDto :: "json \<Rightarrow> (int \<times> string option) option" where
  "RevokeCredentialDto body =
     (case (reqField ''index'' (decIntFrom 0) body,
            BillingHttp.optField ''reason'' (decString 0 (Some 255)) body) of
        (Some i, Some r) \<Rightarrow> Some (i, nullish r)
      | _ \<Rightarrow> None)"

section \<open>The controller\<close>

datatype issuerCall =
    CreateStatusListE string json
  | GetStatusListJwtE string string
  | AllocateIndexE string string json
  | RevokeCredentialE string string json
  | GetStatusE string string int

datatype issuerReply =
    ListCreated listRef
  | JwtReply string
  | IndexReply indexRef
  | RevokedReply millis
  | StatusOf int "millis option"

datatype issuerFailure =
    Guarded guardFailure
  | InvalidBody
  | CoreError revError
  | AlreadyRevoked string

text \<open>The \<open>@Public()\<close> handlers, and the wallet in the path.\<close>

fun publicCall :: "issuerCall \<Rightarrow> bool" where
  "publicCall (GetStatusListJwtE _ _) = True"
| "publicCall (GetStatusE _ _ _) = True"
| "publicCall _ = False"

fun callWallet :: "issuerCall \<Rightarrow> string" where
  "callWallet (CreateStatusListE w _) = w"
| "callWallet (GetStatusListJwtE w _) = w"
| "callWallet (AllocateIndexE w _ _) = w"
| "callWallet (RevokeCredentialE w _ _) = w"
| "callWallet (GetStatusE w _ _) = w"

fun callBody :: "issuerCall \<Rightarrow> json" where
  "callBody (CreateStatusListE _ b) = b"
| "callBody (AllocateIndexE _ _ b) = b"
| "callBody (RevokeCredentialE _ _ b) = b"
| "callBody _ = JNull"

type_synonym 'a issuer = "(db \<times> statusDb, issuerFailure, 'a) op"

text \<open>An operation on one of the two databases, its errors renamed.\<close>

definition onBilling :: "('e \<Rightarrow> issuerFailure) \<Rightarrow> (db, 'e, 'a) op \<Rightarrow> 'a issuer" where
  "onBilling f m = (\<lambda>(b, d). case m b of
     (Inl e, b') \<Rightarrow> (Inl (f e), (b', d)) | (Inr a, b') \<Rightarrow> (Inr a, (b', d)))"

definition onStatus :: "(revError \<Rightarrow> issuerFailure) \<Rightarrow> 'a storage \<Rightarrow> 'a issuer" where
  "onStatus f m = (\<lambda>(b, d). case m d of
     (Inl e, d') \<Rightarrow> (Inl (f e), (b, d')) | (Inr a, d') \<Rightarrow> (Inr a, (b, d')))"

definition noTokenOptions :: tokenOptions where
  "noTokenOptions = \<lparr>to_ttl = None, to_exp = None\<rparr>"

text \<open>An already revoked credential answers 409, by its class or by its code.\<close>

definition revokeFailure :: "revError \<Rightarrow> issuerFailure" where
  "revokeFailure e =
     (if errorCode e = Some ''CREDENTIAL_ALREADY_REVOKED'' then AlreadyRevoked (errorMessage e)
      else CoreError e)"

fun issuerRevocationController :: "'l revEnv \<Rightarrow> issuerCall \<Rightarrow> issuerReply issuer" where
  "issuerRevocationController V (CreateStatusListE w body) =
     (case CreateStatusListDto body of
        None \<Rightarrow> throw InvalidBody
      | Some (v, options) \<Rightarrow>
          andThen (onStatus CoreError (issuerCreateStatusList V w v options)) (\<lambda>r. ret (ListCreated r)))"
| "issuerRevocationController V (GetStatusListJwtE w v) =
     andThen (onStatus CoreError (issuerGetStatusListJwt V w v noTokenOptions)) (\<lambda>r.
       ret (JwtReply (sj_jwt r)))"
| "issuerRevocationController V (AllocateIndexE w v body) =
     (case AllocateIndexDto body of
        None \<Rightarrow> throw InvalidBody
      | Some options \<Rightarrow>
          andThen (onStatus CoreError (issuerAllocateIndex V w v options)) (\<lambda>r. ret (IndexReply r)))"
| "issuerRevocationController V (RevokeCredentialE w v body) =
     (case RevokeCredentialDto body of
        None \<Rightarrow> throw InvalidBody
      | Some (i, reason) \<Rightarrow>
          andThen (onStatus revokeFailure
            (issuerRevoke V w v i \<lparr>ro_reason = reason, ro_revokedBy = Some w\<rparr>)) (\<lambda>r.
          ret (RevokedReply (rr_revokedAt r))))"
| "issuerRevocationController V (GetStatusE w v i) =
     andThen (onStatus CoreError (issuerGetStatus V w v i)) (\<lambda>r.
       ret (StatusOf (gs_status r) (gs_updatedAt r)))"

text \<open>A request: the guard first, then the body and the handler.\<close>

definition issuerServe ::
  "guardConfig \<Rightarrow> db post \<Rightarrow> 'l revEnv \<Rightarrow> (string \<Rightarrow> headerField) \<Rightarrow> issuerCall \<Rightarrow>
    issuerReply issuer" where
  "issuerServe G post V hdrs call =
     andThen (onBilling Guarded (issuerGuard G post (publicCall call)
       \<lparr>rq_headers = hdrs, rq_walletId = Some (callWallet call), rq_body = callBody call\<rparr>)) (\<lambda>_.
     issuerRevocationController V call)"

end
