(* ===== verification/IssuerProps.thy ===== *)
theory IssuerProps
  imports IssuerHttp AuthProps RevocationProps
begin

text \<open>
  The services together: a request that touches a status list of the issuer has gone through
  billing with a key of that very wallet; and the address under which a list is published leads
  back to it only for credential types without reserved characters.
\<close>

section \<open>Through the guard\<close>

lemma jsonParse_meterBody [simp]: "jsonParse (stringify (meterBody k svc w)) = Some (meterBody k svc w)"
  by simp

lemma dto_meterBody:
  "ValidateAndMeterDto (meterBody raw ''issuer'' (Some (JStr w))) =
    (if walletIdValid w
     then Some \<lparr>vam_apiKey = raw, vam_service = Issuer, vam_walletId = Some w, vam_count = Some 1\<rparr>
     else None)"
  by (simp add: ValidateAndMeterDto_def meterBody_def reqField_def BillingHttp.optField_def
      decString_def decService_def decMatching_def decInt_def)

lemma serve_internal:
  assumes "serve W hdrs (InternalE (meterBody raw ''issuer'' (Some (JStr w)))) b = (Inr rep, b')"
  shows "walletIdValid w \<and> (\<exists>m. validateAndMeter (w_env W) raw Issuer (Some w) (Some 1) b = (Inr m, b'))"
  using assms
  by (auto simp: andThen_def InternalTokenGuard_def throwIf_def internalController_def parsed_def
      dto_meterBody replying_def service_def split: if_splits sum.splits prod.splits)

lemma billingVerdict_Inr: "billingVerdict status answer = Inr x \<Longrightarrow> 200 \<le> status \<and> status < 300"
  by (auto simp: billingVerdict_def split: option.splits if_splits)

lemma httpStatus_ge: "400 \<le> httpStatus e"
  by (cases e) auto

lemma failureStatus_ge: "\<not> failureStatus e < 300"
  using httpStatus_ge by (cases e) (auto simp: not_less intro: order_trans [of _ 400])

lemma guard_passes:
  assumes on: "toLowerCase (coalesce (gc_apiKeyAuthEnabled G) ''true'') \<noteq> ''false''"
    and run: "ApiKeyAuthGuard G ''issuer'' f (billingPost W render) False
      \<lparr>rq_headers = hdrs, rq_walletId = Some w, rq_body = body\<rparr> b = (Inr x, b')"
  shows "\<exists>raw m. extractApiKey hdrs = Some raw \<and> walletIdValid w \<and>
    validateAndMeter (w_env W) raw Issuer (Some w) (Some 1) b = (Inr m, b')"
proof -
  from on run have key: "truthyText (extractApiKey hdrs)"
    by (auto simp: ApiKeyAuthGuard_def throw_def split: if_splits)
  then obtain raw where raw: "extractApiKey hdrs = Some raw" by (auto simp: truthyText_def)
  let ?body = "meterBody raw ''issuer'' (Some (JStr w))"
  let ?serve = "serve W (\<lambda>name. if name = ''x-internal-token'' then [coalesce (gc_internalToken G) []] else [])
    (InternalE ?body) b"
  obtain r t where s: "?serve = (r, t)" by fastforce
  from on run raw key s obtain status answer
    where "(case r of Inl e \<Rightarrow> (failureStatus e, render (Inl e)) | Inr rep \<Rightarrow> (201, render (Inr rep))) =
        (status, answer)" and v: "billingVerdict status answer = Inr x" and t: "b' = t"
    by (auto simp: ApiKeyAuthGuard_def throw_def askedWallet_def billingPost_def simp del: serve.simps
        split: if_splits sum.splits prod.splits)
  with billingVerdict_Inr [OF v] failureStatus_ge obtain rep where "r = Inr rep"
    by (cases r) auto
  with s t serve_internal raw show ?thesis by (metis (no_types, lifting))
qed

text \<open>The handlers leave billing alone.\<close>

lemma onStatus_billing: "fst (snd (onStatus f m (b, d))) = b"
  by (simp add: onStatus_def split: sum.split prod.split)

lemma onStatus_then: "fst (snd (andThen (onStatus f m) (\<lambda>r. ret (g r)) (b, d))) = b"
proof -
  obtain y b' d' where "onStatus f m (b, d) = (y, (b', d'))" by (metis surj_pair)
  with onStatus_billing [of f m b d] show ?thesis by (cases y) (simp_all add: andThen_def)
qed

lemma controller_keeps_billing: "fst (snd (issuerRevocationController V call (b, d))) = b"
  by (cases call) (auto simp: onStatus_then onStatus_billing split: option.split)

lemma guarded_key:
  assumes "db_inv (w_env W) b"
    and "toLowerCase (coalesce (gc_apiKeyAuthEnabled G) ''true'') \<noteq> ''false''"
    and "ApiKeyAuthGuard G ''issuer'' f (billingPost W render) False
      \<lparr>rq_headers = hdrs, rq_walletId = Some w, rq_body = body\<rparr> b = (Inr x, b')"
  shows "\<exists>raw. extractApiKey hdrs = Some raw \<and>
    (\<exists>m. validateAndMeter (w_env W) raw Issuer (Some w) (Some 1) b = (Inr m, b')) \<and>
    (\<exists>k\<in>set (apiKeys b). \<exists>r\<in>set (resources b). \<exists>p\<in>set (products b). \<exists>a\<in>set (accounts b).
      key_keyHash k = hashApiKey (w_env W) (trim raw) \<and> key_revokedAt k = None \<and>
      key_resourceId k = res_id r \<and> res_productId r = prod_id p \<and> prod_accountId p = acc_id a \<and>
      res_service r = Issuer \<and> res_walletId r = w \<and> res_status r \<noteq> ResSuspended \<and>
      prod_status p = ProdActive \<and> acc_status a = AccActive)"
proof -
  from guard_passes [OF assms(2,3)] obtain raw m
    where raw: "extractApiKey hdrs = Some raw" and w: "walletIdValid w"
      and m: "validateAndMeter (w_env W) raw Issuer (Some w) (Some 1) b = (Inr m, b')" by blast
  from m obtain v s1 where "validateApiKey (w_env W) raw Issuer (Some w) b = (Inr v, s1)"
    unfolding validateAndMeter_def by (elim andThen_InrE)
  from accepted_key [OF assms(1) this] w raw m show ?thesis
    unfolding keyUsable_def by fastforce
qed


text \<open>Conversely, a key that billing meters passes the guard, whatever the reply looks like.\<close>

lemma guard_accepts:
  assumes "toLowerCase (coalesce (gc_apiKeyAuthEnabled G) ''true'') \<noteq> ''false''"
    and "truthyText (gc_billingUrl G)" and "gc_internalToken G = Some (ev_billingInternalToken (w_config W))"
    and "ev_billingInternalToken (w_config W) \<noteq> []"
    and "extractApiKey hdrs = Some raw" and "raw \<noteq> []" and "walletIdValid w"
    and "validateAndMeter (w_env W) raw Issuer (Some w) (Some 1) b = (Inr m, b')"
    and "jsonParse (render (Inr (RMetered m))) = Some v"
  shows "\<exists>x. ApiKeyAuthGuard G ''issuer'' f (billingPost W render) False
    \<lparr>rq_headers = hdrs, rq_walletId = Some w, rq_body = body\<rparr> b = (Inr x, b')"
proof -
  let ?hdrs = "\<lambda>name. if name = ''x-internal-token'' then [ev_billingInternalToken (w_config W)] else []"
  have "serve W ?hdrs (InternalE (meterBody raw ''issuer'' (Some (JStr w)))) b = (Inr (RMetered m), b')"
    using assms(4,7,8)
    by (simp add: InternalTokenGuard_def keyMatches_def headerValue_def throwIf_def internalController_def
        parsed_def dto_meterBody replying_def service_def andThen_def)
  with assms show ?thesis
    by (auto simp: ApiKeyAuthGuard_def truthyText_def askedWallet_def billingPost_def billingVerdict_def
        simp del: serve.simps split: if_splits)
qed

definition acmeStore :: statusDb where
  "acmeStore = (sampleStore zeros 3)\<lparr>statusLists := [(sampleRow (map (\<lambda>x. char_of (nat x)) zeros) 3 0)
     \<lparr>sl_wallet_id := ''acme''\<rparr>]\<rparr>"

definition acmeCall :: issuerCall where
  "acmeCall = RevokeCredentialE ''acme'' ''v'' (JObj [(''index'', JNum 3)])"

definition acmeGuard :: guardConfig where
  "acmeGuard = \<lparr>gc_apiKeyAuthEnabled = None, gc_billingUrl = Some ''http://billing/'',
     gc_internalToken = Some (ev_billingInternalToken (w_config sampleWorld))\<rparr>"

definition acmeHeaders :: "string \<Rightarrow> headerField" where
  "acmeHeaders name = (if name = ''x-api-key'' then OneHeader sampleRawKey else NoHeader)"

lemma acme_metered:
  "\<not> isl (fst (validateAndMeter sampleEnv sampleRawKey Issuer (Some ''acme'') (Some 1) sampleDb))"
proof -
  let ?t = "sampleDb\<lparr>apiKeys := saveRow key_id (keyUsed (clock sampleDb) sampleKey) (apiKeys sampleDb)\<rparr>"
  have k: "findLiveKey (hashApiKey sampleEnv (trim sampleRawKey)) (apiKeys sampleDb) = Some sampleKey"
    using sample_live by simp
  obtain v where v: "validateApiKey sampleEnv sampleRawKey Issuer (Some ''acme'') sampleDb = (Inr v, ?t)"
    and a: "val_accountId v = newUuid sampleEnv 0"
    using validateApiKey_found(1) [OF k _ sample_context sample_usable]
    by (simp add: validateResult_def)
  have inv: "db_inv sampleEnv ?t"
    by (rule preservesD_eq [OF validateApiKey_inv sampleDb_inv v])
  obtain u where "meter sampleEnv (newUuid sampleEnv 0) 1 ?t =
      (Inr (meterReply sampleAccount (currentPeriodKey (clock ?t)) (usedNow (newUuid sampleEnv 0) ?t + 1)), u)"
    by (rule meter_granted [OF inv, of 1 "newUuid sampleEnv 0" sampleAccount])
      (simp_all add: sampleDb_calendar rateAllows_def usedNow_def usedInPeriod_def usageRow_def currentWindow_def,
        simp_all add: sampleDb_def calendarMillis_def currentWindow_def)
  with v a show ?thesis by (simp add: validateAndMeter_def andThen_def)
qed

lemma acme_revoked:
  "\<not> isl (fst (issuerRevoke sampleRev ''acme'' ''v'' 3 \<lparr>ro_reason = None, ro_revokedBy = Some ''acme''\<rparr> acmeStore))"
  by code_simp

lemma acme_passes:
  obtains x b1 where "ApiKeyAuthGuard acmeGuard ''issuer'' ''issuerId'' (billingPost sampleWorld (\<lambda>_. ''null'')) False
      \<lparr>rq_headers = acmeHeaders, rq_walletId = Some ''acme'', rq_body = body\<rparr> sampleDb = (Inr x, b1)"
proof -
  have null: "jsonParse ''null'' = Some JNull" by code_simp
  obtain m b1 where m: "validateAndMeter sampleEnv sampleRawKey Issuer (Some ''acme'') (Some 1) sampleDb = (Inr m, b1)"
    using run_Inr [OF acme_metered] by blast
  have key: "extractApiKey acmeHeaders = Some sampleRawKey" by code_simp
  have "\<exists>x. ApiKeyAuthGuard acmeGuard ''issuer'' ''issuerId'' (billingPost sampleWorld (\<lambda>_. ''null'')) False
      \<lparr>rq_headers = acmeHeaders, rq_walletId = Some ''acme'', rq_body = body\<rparr> sampleDb = (Inr x, b1)"
    by (rule guard_accepts [where raw = sampleRawKey and m = m and v = JNull])
      (use key m null in \<open>auto simp: acmeGuard_def truthyText_def sampleWorld_def sampleConfig_def
        environmentConfig_def sampleRawKey_def toLowerCase_def lowerChar_def isAlnum_def\<close>)
  with that show thesis by blast
qed


section \<open>The address of a list\<close>

text \<open>
  The route \<^verbatim>\<open>GET /v1/issuers/:walletId/revocation/status-list/:vct\<close>: the path ends at a
  query or a fragment, and a parameter is one segment of it. Segments without \<open>%\<close> need no
  decoding.
\<close>

definition statusListRoute :: "string \<Rightarrow> (string \<times> string) option" where
  "statusListRoute target =
     (case splitOn (CHR ''/'') (takeWhile (\<lambda>c. c \<noteq> CHR ''?'' \<and> c \<noteq> CHR ''#'') target) of
        [s0, s1, s2, w, s3, s4, v] \<Rightarrow>
          if s0 = [] \<and> s1 = ''v1'' \<and> s2 = ''issuers'' \<and> s3 = ''revocation'' \<and> s4 = ''status-list'' \<and>
             w \<noteq> [] \<and> v \<noteq> []
          then Some (w, v) else None
      | _ \<Rightarrow> None)"

lemma walletId_plain: "walletIdValid w \<Longrightarrow> c \<in> {CHR ''/'', CHR ''?'', CHR ''#''} \<Longrightarrow> c \<notin> set w"
  by (cases w) (auto simp: list_all_iff isAlnum_def)

lemma splitOn_self: "splitOn c s = [s] \<longleftrightarrow> c \<notin> set s"
proof
  assume "splitOn c s = [s]"
  moreover have "\<forall>w\<in>set (splitOn c s). c \<notin> set w"
    by (induction s) (auto split: list.splits)
  ultimately show "c \<notin> set s" by auto
qed (rule splitOn_absent)

lemma single_segment: "(case xs of [v] \<Rightarrow> if v \<noteq> [] then Some (w, v) else None | _ \<Rightarrow> None) = Some (w, u) \<longleftrightarrow>
    xs = [u] \<and> u \<noteq> []"
  by (auto split: list.splits)

text \<open>
  The published address of a list leads back to the list exactly for the credential types
  without \<open>/\<close>, \<open>?\<close> and \<open>#\<close>: the builder does not encode the type, so for one that is an
  address itself, as types usually are, no verifier reaches the list.
\<close>

theorem status_uri_round_trip:
  assumes "walletIdValid w" and "v \<noteq> []" and "CHR ''%'' \<notin> set v"
  shows "statusListRoute (drop (length base) (statusListUri base w v did)) = Some (w, v) \<longleftrightarrow>
    {CHR ''/'', CHR ''?'', CHR ''#''} \<inter> set v = {}"
proof -
  let ?P = "\<lambda>c. c \<noteq> CHR ''?'' \<and> c \<noteq> CHR ''#''"
  let ?v = "takeWhile ?P v"
  let ?pre = "''/v1/issuers/'' @ w @ ''/revocation/status-list/''"
  have "w \<noteq> []" using assms(1) by (cases w) auto
  note w = this walletId_plain [OF assms(1), of "CHR ''/''", simplified]
    walletId_plain [OF assms(1), of "CHR ''?''", simplified]
    walletId_plain [OF assms(1), of "CHR ''#''", simplified]
  have "\<forall>c\<in>set ?pre. ?P c" using w by auto
  then have "takeWhile ?P (?pre @ v) = ?pre @ ?v" by (subst takeWhile_append2) auto
  moreover have "splitOn (CHR ''/'') (w @ CHR ''/'' # ''revocation/status-list/'' @ ?v) =
      w # splitOn (CHR ''/'') (''revocation/status-list/'' @ ?v)"
    by (rule splitOn_first [OF w(2)])
  ultimately have "splitOn (CHR ''/'') (takeWhile ?P (?pre @ v)) =
      [] # ''v1'' # ''issuers'' # w # ''revocation'' # ''status-list'' # splitOn (CHR ''/'') ?v"
    by simp
  then have "statusListRoute (?pre @ v) = (case splitOn (CHR ''/'') ?v of [u] \<Rightarrow>
      if u \<noteq> [] then Some (w, u) else None | _ \<Rightarrow> None)"
    unfolding statusListRoute_def using w(1) by (simp split: list.split)
  then have "statusListRoute (?pre @ v) = Some (w, v) \<longleftrightarrow> splitOn (CHR ''/'') ?v = [v]"
    using assms(2) by (simp add: single_segment)
  also have "\<dots> \<longleftrightarrow> ?v = v \<and> CHR ''/'' \<notin> set v"
  proof
    assume s: "splitOn (CHR ''/'') ?v = [v]"
    then have "?v = v" using joinWith_splitOn [of "CHR ''/''" ?v] by simp
    with s show "?v = v \<and> CHR ''/'' \<notin> set v" by (metis splitOn_self)
  next
    assume "?v = v \<and> CHR ''/'' \<notin> set v"
    then show "splitOn (CHR ''/'') ?v = [v]" by (metis splitOn_self)
  qed
  also have "\<dots> \<longleftrightarrow> {CHR ''/'', CHR ''?'', CHR ''#''} \<inter> set v = {}"
    by (auto simp: takeWhile_eq_all_conv)
  finally show ?thesis by (simp add: statusListUri_def)
qed

theorem status_uri_round_trip_witness:
  "statusListRoute (drop (length ''https://issuer'') (statusListUri ''https://issuer'' ''acme'' ''Degree'' [])) =
      Some (''acme'', ''Degree'')"
  using status_uri_round_trip [of "''acme''" "''Degree''" "''https://issuer''" "[]"]
  by (simp add: isAlnum_def)

end
