(* ===== verification/OAuth.thy ===== *)
theory OAuth
  imports BillingHttp JsCoercion
begin

text \<open>
  \<^verbatim>\<open>auth/oauth.service.ts\<close> of billing and the OAuth endpoints of
  \<^verbatim>\<open>auth/auth.controller.ts\<close>: the signed state that travels through the browser, the
  exchange of the code with the identity provider, and the callback that logs the account in.
  The provider's answers are a parameter record, as typed as the code takes them to be; an
  address with a query is a pair of the address and its parameters.
\<close>

section \<open>Parameters and errors\<close>

text \<open>A request to the provider: no answer or no JSON, a status outside 200 to 299, or a value.\<close>

datatype 'a httpAnswer = NoAnswer string | NotOk | Answer 'a

record tokenAnswer =
  tok_accessToken :: "string option"
  tok_error :: "string option"

record googleUser =
  gu_sub :: "string option"
  gu_email :: "string option"
  gu_emailVerified :: "bool option"
  gu_name :: "string option"

record githubUser =
  hu_id :: "int option"
  hu_login :: "string option"
  hu_name :: "string option"
  hu_email :: "string option"

record githubEmail =
  he_email :: string
  he_primary :: "bool option"
  he_verified :: "bool option"

type_synonym query = "(string \<times> string) list"

record identityProviders =
  ip_googleToken :: "query \<Rightarrow> tokenAnswer httpAnswer"
  ip_googleUser :: "string \<Rightarrow> googleUser httpAnswer"
  ip_githubToken :: "query \<Rightarrow> tokenAnswer httpAnswer"
  ip_githubUser :: "string \<Rightarrow> githubUser httpAnswer"
  ip_githubEmails :: "string \<Rightarrow> githubEmail list httpAnswer"
  ip_resolve :: "string \<Rightarrow> string \<Rightarrow> string"

text \<open>One constructor per throw site; \<open>TypeThrown\<close> is a runtime error, \<open>BillingThrown\<close> billing's.\<close>

datatype oauthError =
    ProviderUnknown
  | ProviderUnconfigured oauthProvider
  | StateInvalid
  | StateProviderMismatch
  | StateExpired
  | CodeNotExchanged oauthProvider
  | TokenInvalid oauthProvider "string option"
  | ProfileUnreadable oauthProvider
  | ProfileWithoutId oauthProvider
  | FetchThrown string
  | TypeThrown string
  | BillingThrown billingError

fun oauthStatus :: "oauthError \<Rightarrow> nat" where
  "oauthStatus (ProviderUnconfigured _) = 503"
| "oauthStatus (FetchThrown _) = 500"
| "oauthStatus (TypeThrown _) = 500"
| "oauthStatus (BillingThrown e) = httpStatus e"
| "oauthStatus _ = 400"

type_synonym 'a oauth = "(db, oauthError, 'a) op"

definition inOAuth :: "'a billing \<Rightarrow> 'a oauth" where
  "inOAuth m = (\<lambda>s. case m s of (Inl e, s') \<Rightarrow> (Inl (BillingThrown e), s') | (Inr a, s') \<Rightarrow> (Inr a, s'))"

section \<open>Providers\<close>

definition configuredProviders :: "environment \<Rightarrow> oauthProvider \<Rightarrow> bool" where
  "configuredProviders cfg p =
     (case p of
        Google \<Rightarrow> oc_googleClientId (ev_oauth cfg) \<noteq> [] \<and> oc_googleClientSecret (ev_oauth cfg) \<noteq> []
      | Github \<Rightarrow> oc_githubClientId (ev_oauth cfg) \<noteq> [] \<and> oc_githubClientSecret (ev_oauth cfg) \<noteq> [])"

definition assertProvider :: "environment \<Rightarrow> string \<Rightarrow> oauthError + oauthProvider" where
  "assertProvider cfg provider =
     (if provider = ''google'' then
        (if configuredProviders cfg Google then Inr Google else Inl (ProviderUnconfigured Google))
      else if provider = ''github'' then
        (if configuredProviders cfg Github then Inr Github else Inl (ProviderUnconfigured Github))
      else Inl ProviderUnknown)"

definition callbackUrl :: "environment \<Rightarrow> oauthProvider \<Rightarrow> string" where
  "callbackUrl cfg p =
     dropTrailingSlash (oc_publicBaseUrl (ev_oauth cfg)) @ ''/auth/oauth/'' @ providerStr p @ ''/callback''"

section \<open>The state\<close>

definition hmac :: "world \<Rightarrow> string \<Rightarrow> string" where
  "hmac W payloadB64 =
     toBase64url (sha256 (w_env W) (ev_jwtSecret (w_config W) @ '':oauth:'' @ payloadB64))"

definition statePayload :: "oauthProvider \<Rightarrow> millis \<Rightarrow> bytes \<Rightarrow> string" where
  "statePayload p now nonce =
     toBase64url (textBytes (stringify (JObj [(''p'', JStr (providerStr p)),
       (''exp'', JNum (now + 10 * 60 * 1000)), (''n'', JStr (toHex nonce))])))"

definition signState :: "world \<Rightarrow> oauthProvider \<Rightarrow> string oauth" where
  "signState W p =
     andThen (gets clock) (\<lambda>now.
     andThen (inOAuth (drawRandom (w_env W) 8)) (\<lambda>nonce.
     let payload = statePayload p now nonce in ret (payload @ ''.'' @ hmac W payload)))"

text \<open>
  \<open>Date.now() > parsed.exp\<close> is false when \<open>exp\<close> is no number; an access to a payload that is
  \<open>null\<close> is a \<open>TypeError\<close>.
\<close>

definition checkState :: "json \<Rightarrow> oauthProvider \<Rightarrow> millis \<Rightarrow> oauthError + unit" where
  "checkState content p now =
     (if content = JNull then Inl (TypeThrown ''Cannot read properties of null'')
      else if jsonField ''p'' content \<noteq> Some (JStr (providerStr p)) then Inl StateProviderMismatch
      else (case numberOf (jsonField ''exp'' content) of
              Some expiry \<Rightarrow> if expiry < now then Inl StateExpired else Inr ()
            | None \<Rightarrow> Inr ()))"

definition verifyState :: "world \<Rightarrow> string \<Rightarrow> oauthProvider \<Rightarrow> millis \<Rightarrow> oauthError + unit" where
  "verifyState W state p now =
     (case splitOn (CHR ''.'') state of
        payloadB64 # sig # _ \<Rightarrow>
          if payloadB64 = [] \<or> sig = [] then Inl StateInvalid
          else if hmac W payloadB64 \<noteq> sig then Inl StateInvalid
          else (case jsonParse (bytesText (fromBase64url payloadB64)) of
                  None \<Rightarrow> Inl StateInvalid
                | Some content \<Rightarrow> checkState content p now)
      | _ \<Rightarrow> Inl StateInvalid)"

definition authorizeQuery :: "environment \<Rightarrow> oauthProvider \<Rightarrow> string \<Rightarrow> string \<times> query" where
  "authorizeQuery cfg p state =
     (case p of
        Google \<Rightarrow> (''https://accounts.google.com/o/oauth2/v2/auth'',
          [(''client_id'', oc_googleClientId (ev_oauth cfg)), (''redirect_uri'', callbackUrl cfg p),
           (''response_type'', ''code''), (''scope'', ''openid email profile''), (''state'', state),
           (''access_type'', ''online''), (''prompt'', ''select_account'')])
      | Github \<Rightarrow> (''https://github.com/login/oauth/authorize'',
          [(''client_id'', oc_githubClientId (ev_oauth cfg)), (''redirect_uri'', callbackUrl cfg p),
           (''scope'', ''read:user user:email''), (''state'', state)]))"

definition buildAuthorizeUrl :: "world \<Rightarrow> oauthProvider \<Rightarrow> (string \<times> query) oauth" where
  "buildAuthorizeUrl W p =
     andThen (signState W p) (\<lambda>state. ret (authorizeQuery (w_config W) p state))"

section \<open>The exchange\<close>

definition answered :: "'a httpAnswer \<Rightarrow> oauthError \<Rightarrow> oauthError + 'a" where
  "answered a notOk =
     (case a of NoAnswer m \<Rightarrow> Inl (FetchThrown m) | NotOk \<Rightarrow> Inl notOk | Answer v \<Rightarrow> Inr v)"

definition nonEmpty :: "string option \<Rightarrow> string option" where
  "nonEmpty v = (if v = Some [] then None else v)"

definition exchangeGoogle ::
  "identityProviders \<Rightarrow> environment \<Rightarrow> string \<Rightarrow> oauthError + oauthProfile" where
  "exchangeGoogle I cfg code =
     (case answered (ip_googleToken I
         [(''code'', code), (''client_id'', oc_googleClientId (ev_oauth cfg)),
          (''client_secret'', oc_googleClientSecret (ev_oauth cfg)),
          (''redirect_uri'', callbackUrl cfg Google), (''grant_type'', ''authorization_code'')])
         (CodeNotExchanged Google) of
        Inl e \<Rightarrow> Inl e
      | Inr answer \<Rightarrow>
          (case nonEmpty (tok_accessToken answer) of
             None \<Rightarrow> Inl (TokenInvalid Google None)
           | Some token \<Rightarrow>
               (case answered (ip_googleUser I token) (ProfileUnreadable Google) of
                  Inl e \<Rightarrow> Inl e
                | Inr user \<Rightarrow>
                    (case nonEmpty (gu_sub user) of
                       None \<Rightarrow> Inl (ProfileWithoutId Google)
                     | Some sub \<Rightarrow>
                         Inr \<lparr>prof_provider = Google, prof_subject = sub,
                           prof_email = map_option toLowerCase (gu_email user), prof_name = gu_name user,
                           prof_emailVerified = Some (gu_emailVerified user = Some True)\<rparr>))))"

text \<open>
  The e-mail of a GitHub profile that shows none: the primary one when it is verified, else the
  first verified one; a failing request counts as none.
\<close>

definition verifiedEmail :: "githubEmail list \<Rightarrow> githubEmail option" where
  "verifiedEmail emails =
     (case find (\<lambda>e. he_primary e = Some True \<and> he_verified e = Some True) emails of
        Some e \<Rightarrow> Some e
      | None \<Rightarrow> find (\<lambda>e. he_verified e = Some True) emails)"

definition githubProfileEmail ::
  "identityProviders \<Rightarrow> string \<Rightarrow> githubUser \<Rightarrow> oauthError + string option" where
  "githubProfileEmail I token user =
     (case nonEmpty (map_option toLowerCase (hu_email user)) of
        Some e \<Rightarrow> Inr (Some e)
      | None \<Rightarrow>
          (case ip_githubEmails I token of
             NoAnswer m \<Rightarrow> Inl (FetchThrown m)
           | NotOk \<Rightarrow> Inr (map_option toLowerCase (hu_email user))
           | Answer emails \<Rightarrow> Inr (map_option (\<lambda>e. toLowerCase (he_email e)) (verifiedEmail emails))))"

definition exchangeGithub ::
  "identityProviders \<Rightarrow> environment \<Rightarrow> string \<Rightarrow> oauthError + oauthProfile" where
  "exchangeGithub I cfg code =
     (case answered (ip_githubToken I
         [(''client_id'', oc_githubClientId (ev_oauth cfg)),
          (''client_secret'', oc_githubClientSecret (ev_oauth cfg)), (''code'', code),
          (''redirect_uri'', callbackUrl cfg Github)])
         (CodeNotExchanged Github) of
        Inl e \<Rightarrow> Inl e
      | Inr answer \<Rightarrow>
          (case nonEmpty (tok_accessToken answer) of
             None \<Rightarrow> Inl (TokenInvalid Github (tok_error answer))
           | Some token \<Rightarrow>
               (case answered (ip_githubUser I token) (ProfileUnreadable Github) of
                  Inl e \<Rightarrow> Inl e
                | Inr user \<Rightarrow>
                    (case hu_id user of
                       None \<Rightarrow> Inl (ProfileWithoutId Github)
                     | Some n \<Rightarrow>
                         (case githubProfileEmail I token user of
                            Inl e \<Rightarrow> Inl e
                          | Inr email \<Rightarrow>
                              Inr \<lparr>prof_provider = Github, prof_subject = intStr n, prof_email = email,
                                prof_name = (case nonEmpty (hu_name user) of
                                   Some m \<Rightarrow> Some m | None \<Rightarrow> nonEmpty (hu_login user)),
                                prof_emailVerified = Some (nonEmpty email \<noteq> None)\<rparr>)))))"

definition exchangeCode ::
  "identityProviders \<Rightarrow> environment \<Rightarrow> oauthProvider \<Rightarrow> string \<Rightarrow> oauthError + oauthProfile" where
  "exchangeCode I cfg p code =
     (if p = Google then exchangeGoogle I cfg code else exchangeGithub I cfg code)"

definition loginOrRegister :: "world \<Rightarrow> oauthProfile \<Rightarrow> accountView oauth" where
  "loginOrRegister W profile =
     inOAuth (findOrCreateFromOAuth (w_env W) (paymentProviderOf (w_config W)) profile)"

section \<open>The endpoints\<close>

text \<open>A redirection of the browser; the error page shows a text or the message of an error.\<close>

datatype oauthReply =
    ProvidersReply bool bool
  | RedirectTo string query
  | RedirectSuccess string query
  | RedirectError string string
  | RedirectFailure string oauthError

definition frontendSuccessUrl :: "identityProviders \<Rightarrow> environment \<Rightarrow> string \<Rightarrow> oauthReply" where
  "frontendSuccessUrl I cfg accessToken =
     RedirectSuccess (ip_resolve I ''/login/oauth/callback'' (oc_frontendUrl (ev_oauth cfg)))
       [(''accessToken'', accessToken)]"

definition frontendErrorUrl :: "identityProviders \<Rightarrow> environment \<Rightarrow> string" where
  "frontendErrorUrl I cfg = ip_resolve I ''/login'' (oc_frontendUrl (ev_oauth cfg))"

datatype oauthCall =
    OAuthProviders
  | StartOAuth string
  | OAuthCallback string "string option" "string option" "string option"

definition sumOp :: "'e + 'a \<Rightarrow> ('s, 'e, 'a) op" where
  "sumOp r = (\<lambda>s. (r, s))"

text \<open>The part of the callback between the checks of its parameters and the redirection.\<close>

definition oauthLogin ::
  "world \<Rightarrow> identityProviders \<Rightarrow> oauthProvider \<Rightarrow> string \<Rightarrow> string \<Rightarrow> string oauth" where
  "oauthLogin W I p code state =
     andThen (gets clock) (\<lambda>now.
     andThen (sumOp (verifyState W state p now)) (\<lambda>_.
     andThen (sumOp (exchangeCode I (w_config W) p code)) (\<lambda>profile.
     andThen (loginOrRegister W profile) (\<lambda>account.
     gets (\<lambda>s. jwt_sign (w_jwt W) (ev_jwtSecret (w_config W)) (ev_jwtExpiresIn (w_config W))
       (clock s) (view_id account) (view_email account))))))"

fun oauthController :: "world \<Rightarrow> identityProviders \<Rightarrow> oauthCall \<Rightarrow> oauthReply oauth" where
  "oauthController W I OAuthProviders =
     ret (ProvidersReply (configuredProviders (w_config W) Google) (configuredProviders (w_config W) Github))"
| "oauthController W I (StartOAuth provider) =
     andThen (sumOp (assertProvider (w_config W) provider)) (\<lambda>p.
     andThen (buildAuthorizeUrl W p) (\<lambda>(address, query). ret (RedirectTo address query)))"
| "oauthController W I (OAuthCallback provider code state err) =
     (let failed = (\<lambda>e. ret (RedirectFailure (frontendErrorUrl I (w_config W)) e)) in
      case nonEmpty err of
        Some m \<Rightarrow> ret (RedirectError (frontendErrorUrl I (w_config W)) m)
      | None \<Rightarrow>
          (case assertProvider (w_config W) provider of
             Inl e \<Rightarrow> failed e
           | Inr p \<Rightarrow>
               (case (nonEmpty code, nonEmpty state) of
                  (Some c, Some st) \<Rightarrow>
                    catching (andThen (oauthLogin W I p c st) (\<lambda>token.
                      ret (frontendSuccessUrl I (w_config W) token))) failed
                | _ \<Rightarrow> ret (RedirectError (frontendErrorUrl I (w_config W)) ''missing_code''))))"

end
