(* ===== verification/OAuthProps.thy ===== *)
theory OAuthProps
  imports OAuth AccountProps
begin

text \<open>
  What the OAuth login promises: the state it signs comes back exactly for its provider and for
  ten minutes, and the callback touches an account only with a state of that kind and a profile
  the provider gave for the code.
\<close>

section \<open>The state\<close>

lemma hmac_plain:
  assumes "env_ok (w_env W)"
  shows "hmac W payload \<noteq> []" and "CHR ''.'' \<notin> set (hmac W payload)"
proof -
  have "length (sha256 (w_env W) x) = 32" for x using assms by (simp add: env_ok_def)
  then have "sha256 (w_env W) x \<noteq> []" for x by (metis list.size(3) zero_neq_numeral)
  then show "hmac W payload \<noteq> []" by (simp add: hmac_def)
  show "CHR ''.'' \<notin> set (hmac W payload)" by (simp add: hmac_def toBase64url_no_dot)
qed

lemma statePayload_plain: "statePayload p now nonce \<noteq> []" "CHR ''.'' \<notin> set (statePayload p now nonce)"
  by (simp_all add: statePayload_def toBase64url_no_dot textBytes_def)

lemma signState_run:
  "signState W p s =
    (let payload = statePayload p (clock s) (randomBytes (w_env W) (nextRandom s) 8)
     in (Inr (payload @ ''.'' @ hmac W payload), s\<lparr>nextRandom := nextRandom s + 1\<rparr>))"
  by (simp add: signState_def inOAuth_def drawRandom_def andThen_def Let_def)

lemma checkState_payload:
  "checkState (JObj [(''p'', JStr (providerStr p)), (''exp'', JNum t), (''n'', n)]) q now =
    (if q \<noteq> p then Inl StateProviderMismatch else if t < now then Inl StateExpired else Inr ())"
  by (cases p; cases q) (simp_all add: checkState_def numberOf_def)

lemma verifyState_payload:
  assumes "env_ok (w_env W)"
  shows "verifyState W (statePayload p t nonce @ ''.'' @ hmac W (statePayload p t nonce)) q now =
    (if q \<noteq> p then Inl StateProviderMismatch else if t + 600000 < now then Inl StateExpired else Inr ())"
proof -
  let ?p = "statePayload p t nonce"
  have "splitOn (CHR ''.'') (?p @ ''.'' @ hmac W ?p) = [?p, hmac W ?p]"
    by (simp add: splitOn_first statePayload_plain splitOn_absent hmac_plain [OF assms])
  moreover have "jsonParse (bytesText (fromBase64url ?p)) =
      Some (JObj [(''p'', JStr (providerStr p)), (''exp'', JNum (t + 600000)), (''n'', JStr (toHex nonce))])"
    by (simp add: statePayload_def del: stringify.simps)
  ultimately show ?thesis
    by (simp add: verifyState_def statePayload_plain hmac_plain [OF assms] checkState_payload)
qed

text \<open>
  The state of a login comes back: signed for a provider, it is accepted at the callback of
  that provider until ten minutes have passed and refused afterwards, and it is refused at the
  callback of the other one, whatever happened in between.
\<close>

theorem oauth_state_round_trip:
  assumes "env_ok (w_env W)" and "signState W p s = (Inr state, t)"
  shows "verifyState W state q now =
    (if q \<noteq> p then Inl StateProviderMismatch
     else if clock s + 600000 < now then Inl StateExpired else Inr ())"
  using assms verifyState_payload [OF assms(1)] by (auto simp: signState_run Let_def)

theorem oauth_state_round_trip_witness:
  "\<exists>state t. signState sampleWorld Google sampleDb = (Inr state, t) \<and>
    verifyState sampleWorld state Google 601000 = Inr () \<and>
    verifyState sampleWorld state Google 601001 = Inl StateExpired \<and>
    verifyState sampleWorld state Github 2000 = Inl StateProviderMismatch"
proof -
  obtain state t where run: "signState sampleWorld Google sampleDb = (Inr state, t)"
    by (simp add: signState_run Let_def)
  have "env_ok (w_env sampleWorld)" by (simp add: sampleWorld_def sampleEnv_ok)
  from oauth_state_round_trip [OF this run] run show ?thesis by auto
qed

section \<open>The callback\<close>

lemma exchangeCode_provider: "exchangeCode I cfg p code = Inr profile \<Longrightarrow> prof_provider profile = p"
  by (cases p) (auto simp: exchangeCode_def exchangeGoogle_def exchangeGithub_def
      split: sum.splits option.splits)

lemma oauthLogin_cases:
  assumes "oauthLogin W I p code state s = (r, t)"
  obtains (refused) e where "r = Inl e" and "t = s"
    | (exchanged) profile where "verifyState W state p (clock s) = Inr ()"
      and "exchangeCode I (w_config W) p code = Inr profile"
      and "t = snd (findOrCreateFromOAuth (w_env W) (paymentProviderOf (w_config W)) profile s)"
      and "\<And>token. r = Inr token \<Longrightarrow> \<exists>account. findOrCreateFromOAuth (w_env W)
          (paymentProviderOf (w_config W)) profile s = (Inr account, t) \<and>
        token = jwt_sign (w_jwt W) (ev_jwtSecret (w_config W)) (ev_jwtExpiresIn (w_config W)) (clock t)
          (view_id account) (view_email account)"
proof (cases "verifyState W state p (clock s)")
  case (Inl e)
  with assms show thesis by (intro refused [of e]) (simp_all add: oauthLogin_def andThen_def sumOp_def)
next
  case v: (Inr u)
  show thesis
  proof (cases "exchangeCode I (w_config W) p code")
    case (Inl e)
    with assms v show thesis by (intro refused [of e]) (simp_all add: oauthLogin_def andThen_def sumOp_def)
  next
    case (Inr profile)
    with assms v show thesis
      by (intro exchanged [of profile])
        (auto simp: oauthLogin_def andThen_def sumOp_def loginOrRegister_def inOAuth_def
          split: sum.splits prod.splits)
  qed
qed

text \<open>
  A state the service signed: up to its first two dots it is a payload and the HMAC of the payload
  under the secret of the service; the payload decodes to a content that names the provider and has
  not expired.
\<close>

definition signedState :: "world \<Rightarrow> string \<Rightarrow> oauthProvider \<Rightarrow> millis \<Rightarrow> bool" where
  "signedState W st p now \<longleftrightarrow> (\<exists>payload sig rest content.
     st = payload @ ''.'' @ sig @ rest \<and> CHR ''.'' \<notin> set (payload @ sig) \<and>
     (rest = [] \<or> hd rest = CHR ''.'') \<and>
     sig = toBase64url (sha256 (w_env W) (ev_jwtSecret (w_config W) @ '':oauth:'' @ payload)) \<and>
     jsonParse (bytesText (fromBase64url payload)) = Some content \<and>
     jsonField ''p'' content = Some (JStr (providerStr p)) \<and>
     (\<forall>e. jsonField ''exp'' content = Some (JNum e) \<longrightarrow> now \<le> e))"

lemma splitOn_head:
  assumes "splitOn c s = a # r"
  shows "c \<notin> set a \<and> (r = [] \<and> s = a \<or> (\<exists>u. s = a @ c # u \<and> splitOn c u = r))"
  using assms
proof (induction s arbitrary: a r)
  case (Cons x s)
  show ?case
  proof (cases "x = c")
    case True
    with Cons.prems show ?thesis by auto
  next
    case False
    obtain w ws where ws: "splitOn c s = w # ws" by (cases "splitOn c s") auto
    with Cons.prems False have a: "a = x # w" "r = ws" by auto
    from Cons.IH [OF ws] False show ?thesis by (auto simp: a)
  qed
qed simp

lemma verifyState_signed:
  assumes "verifyState W st p now = Inr ()"
  shows "signedState W st p now"
proof -
  from assms obtain payload sig more' where parts: "splitOn (CHR ''.'') st = payload # sig # more'"
      and h: "hmac W payload = sig"
    by (auto simp: verifyState_def split: list.splits if_splits)
  with assms obtain content where c: "jsonParse (bytesText (fromBase64url payload)) = Some content"
      and ok: "checkState content p now = Inr ()"
    by (auto simp: verifyState_def split: if_splits option.splits)
  from splitOn_head [OF parts] obtain u where u: "CHR ''.'' \<notin> set payload" "st = payload @ CHR ''.'' # u"
      "splitOn (CHR ''.'') u = sig # more'" by auto
  from splitOn_head [OF u(3)] obtain tail' where t: "CHR ''.'' \<notin> set sig" "u = sig @ tail'"
      "tail' = [] \<or> hd tail' = CHR ''.''" by auto
  have "jsonField ''p'' content = Some (JStr (providerStr p))"
    and "\<forall>e. jsonField ''exp'' content = Some (JNum e) \<longrightarrow> now \<le> e"
    using ok by (auto simp: checkState_def numberOf_def simp del: jsonField.simps split: if_splits option.splits)
  with u t c h show ?thesis
    unfolding signedState_def
    by (intro exI [of _ payload] exI [of _ sig] exI [of _ tail'] exI [of _ content]) (auto simp: hmac_def)
qed

lemma callback_cases:
  assumes "oauthController W I (OAuthCallback provider code state err) s = (x, t)"
  shows "\<not> isl x \<and>
    (t \<noteq> s \<or> (\<exists>a q. x = Inr (RedirectSuccess a q)) \<longrightarrow>
      (\<exists>p c st profile. assertProvider (w_config W) provider = Inr p \<and> code = Some c \<and> state = Some st \<and>
        verifyState W st p (clock s) = Inr () \<and> exchangeCode I (w_config W) p c = Inr profile \<and>
        prof_provider profile = p \<and>
        t = snd (findOrCreateFromOAuth (w_env W) (paymentProviderOf (w_config W)) profile s) \<and>
        (\<forall>a q. x = Inr (RedirectSuccess a q) \<longrightarrow>
          (\<exists>account. findOrCreateFromOAuth (w_env W) (paymentProviderOf (w_config W)) profile s =
              (Inr account, t) \<and>
            q = [(''accessToken'', jwt_sign (w_jwt W) (ev_jwtSecret (w_config W))
              (ev_jwtExpiresIn (w_config W)) (clock t) (view_id account) (view_email account))]))))"
proof -
  show ?thesis
  proof (cases "\<exists>p c st. nonEmpty err = None \<and> assertProvider (w_config W) provider = Inr p \<and>
      nonEmpty code = Some c \<and> nonEmpty state = Some st")
    case False
    with assms show ?thesis
      by (auto simp: Let_def split: option.splits sum.splits)
  next
    case True
    then obtain p c st where c: "nonEmpty err = None" "assertProvider (w_config W) provider = Inr p"
      "nonEmpty code = Some c" "nonEmpty state = Some st" by blast
    then have cs: "code = Some c" "state = Some st" by (auto simp: nonEmpty_def split: if_splits)
    obtain r t' where r: "oauthLogin W I p c st s = (r, t')" by fastforce
    with assms c have x: "t = t'" "x = (case r of Inr token \<Rightarrow> Inr (frontendSuccessUrl I (w_config W) token)
        | Inl e \<Rightarrow> Inr (RedirectFailure (frontendErrorUrl I (w_config W)) e))"
      by (auto simp: catching_def andThen_def split: sum.splits)
    from r show ?thesis
    proof (cases rule: oauthLogin_cases)
      case (refused e)
      with x show ?thesis by simp
    next
      case (exchanged profile)
      from exchanged(4) x have "\<forall>a q. x = Inr (RedirectSuccess a q) \<longrightarrow>
          (\<exists>account. findOrCreateFromOAuth (w_env W) (paymentProviderOf (w_config W)) profile s =
              (Inr account, t) \<and>
            q = [(''accessToken'', jwt_sign (w_jwt W) (ev_jwtSecret (w_config W))
              (ev_jwtExpiresIn (w_config W)) (clock t) (view_id account) (view_email account))])"
        by (cases r) (auto simp: frontendSuccessUrl_def)
      moreover have "\<not> isl x" using x by (cases r) (simp_all add: frontendSuccessUrl_def)
      ultimately show ?thesis
        using exchanged(1-3) exchangeCode_provider [OF exchanged(2)] x(1) c(2) cs by blast
    qed
  qed
qed

text \<open>
  C38. The callback is sound: it always answers with a redirection, and when it logs an account in
  or changes anything in the store, the provider of the path is configured, the state carries the
  HMAC of its payload under the secret of the service, names that provider and has not expired, the
  provider exchanged the code for a profile of its own, and the store is the one after the account
  of that profile was looked up or created. The token of a login is the one of an account of the
  store that is not suspended and to which the identity of the profile is linked.
\<close>

theorem oauth_callback_sound:
  assumes "env_ok (w_env W)" and "db_inv (w_env W) s"
    and "oauthController W I (OAuthCallback provider code state err) s = (x, t)"
  shows "\<not> isl x \<and>
    (t \<noteq> s \<or> (\<exists>a q. x = Inr (RedirectSuccess a q)) \<longrightarrow>
      (\<exists>p c st profile. provider = providerStr p \<and> configuredProviders (w_config W) p \<and>
        code = Some c \<and> state = Some st \<and> signedState W st p (clock s) \<and>
        exchangeCode I (w_config W) p c = Inr profile \<and> prof_provider profile = p \<and>
        t = snd (findOrCreateFromOAuth (w_env W) (paymentProviderOf (w_config W)) profile s) \<and>
        (\<forall>a q. x = Inr (RedirectSuccess a q) \<longrightarrow>
          (\<exists>account\<in>set (accounts t). \<exists>i\<in>set (identities t). acc_status account \<noteq> AccSuspended \<and>
            idn_provider i = p \<and> idn_providerSubject i = prof_subject profile \<and>
            idn_accountId i = acc_id account \<and>
            q = [(''accessToken'', jwt_sign (w_jwt W) (ev_jwtSecret (w_config W))
              (ev_jwtExpiresIn (w_config W)) (clock t) (acc_id account) (acc_email account))]))))"
proof -
  note c = callback_cases [OF assms(3)]
  show ?thesis
  proof (intro conjI impI)
    show "\<not> isl x" using c by blast
    assume "t \<noteq> s \<or> (\<exists>a q. x = Inr (RedirectSuccess a q))"
    with c obtain p k st profile where h: "assertProvider (w_config W) provider = Inr p" "code = Some k"
        "state = Some st" "verifyState W st p (clock s) = Inr ()" "exchangeCode I (w_config W) p k = Inr profile"
        "prof_provider profile = p"
        "t = snd (findOrCreateFromOAuth (w_env W) (paymentProviderOf (w_config W)) profile s)"
      and login: "\<forall>a q. x = Inr (RedirectSuccess a q) \<longrightarrow>
          (\<exists>account. findOrCreateFromOAuth (w_env W) (paymentProviderOf (w_config W)) profile s =
              (Inr account, t) \<and>
            q = [(''accessToken'', jwt_sign (w_jwt W) (ev_jwtSecret (w_config W))
              (ev_jwtExpiresIn (w_config W)) (clock t) (view_id account) (view_email account))])"
      by blast
    have "provider = providerStr p \<and> configuredProviders (w_config W) p"
      using h(1) by (auto simp: assertProvider_def split: if_splits)
    moreover have "\<exists>account\<in>set (accounts t). \<exists>i\<in>set (identities t). acc_status account \<noteq> AccSuspended \<and>
            idn_provider i = p \<and> idn_providerSubject i = prof_subject profile \<and>
            idn_accountId i = acc_id account \<and>
            q = [(''accessToken'', jwt_sign (w_jwt W) (ev_jwtSecret (w_config W))
              (ev_jwtExpiresIn (w_config W)) (clock t) (acc_id account) (acc_email account))]"
      if "x = Inr (RedirectSuccess a q)" for a q
    proof -
      from login that obtain v where v: "findOrCreateFromOAuth (w_env W) (paymentProviderOf (w_config W)) profile s =
          (Inr v, t)" "q = [(''accessToken'', jwt_sign (w_jwt W) (ev_jwtSecret (w_config W))
              (ev_jwtExpiresIn (w_config W)) (clock t) (view_id v) (view_email v))]" by blast
      obtain b i where b: "v = toAccountView b" "b \<in> set (accounts t)" "acc_status b \<noteq> AccSuspended"
        and i: "findIdentity profile (identities t) = Some i" "idn_accountId i = acc_id b"
        by (rule oauth_Inr [OF assms(1,2) v(1)])
      from i(1) have "i \<in> set (identities t)" "idn_provider i = prof_provider profile"
          "idn_providerSubject i = prof_subject profile"
        by (auto simp: findIdentity_def dest: find_Some_iff_in)
      with b i(2) v(2) h(6) show ?thesis
        by (intro bexI [of _ b] bexI [of _ i]) (simp_all add: toAccountView_def)
    qed
    ultimately show "\<exists>p c st profile. provider = providerStr p \<and> configuredProviders (w_config W) p \<and>
        code = Some c \<and> state = Some st \<and> signedState W st p (clock s) \<and>
        exchangeCode I (w_config W) p c = Inr profile \<and> prof_provider profile = p \<and>
        t = snd (findOrCreateFromOAuth (w_env W) (paymentProviderOf (w_config W)) profile s) \<and>
        (\<forall>a q. x = Inr (RedirectSuccess a q) \<longrightarrow>
          (\<exists>account\<in>set (accounts t). \<exists>i\<in>set (identities t). acc_status account \<noteq> AccSuspended \<and>
            idn_provider i = p \<and> idn_providerSubject i = prof_subject profile \<and>
            idn_accountId i = acc_id account \<and>
            q = [(''accessToken'', jwt_sign (w_jwt W) (ev_jwtSecret (w_config W))
              (ev_jwtExpiresIn (w_config W)) (clock t) (acc_id account) (acc_email account))]))"
      using h(2,3,5,6,7) verifyState_signed [OF h(4)] by blast
  qed
qed

definition oauthWorld :: world where
  "oauthWorld = sampleWorld\<lparr>w_config := sampleConfig\<lparr>ev_oauth := (ev_oauth sampleConfig)
     \<lparr>oc_googleClientId := ''id'', oc_googleClientSecret := ''secret''\<rparr>\<rparr>\<rparr>"

definition sampleProviders :: identityProviders where
  "sampleProviders = \<lparr>ip_googleToken = (\<lambda>_. Answer \<lparr>tok_accessToken = Some ''at'', tok_error = None\<rparr>),
     ip_googleUser = (\<lambda>_. Answer \<lparr>gu_sub = Some ''17'', gu_email = Some ''ops@acme.io'',
       gu_emailVerified = Some True, gu_name = None\<rparr>),
     ip_githubToken = (\<lambda>_. NotOk), ip_githubUser = (\<lambda>_. NotOk), ip_githubEmails = (\<lambda>_. NotOk),
     ip_resolve = (\<lambda>path base. base @ path)\<rparr>"

definition sampleProfile :: oauthProfile where
  "sampleProfile = \<lparr>prof_provider = Google, prof_subject = ''17'', prof_email = Some ''ops@acme.io'',
     prof_name = None, prof_emailVerified = Some True\<rparr>"

lemma sample_exchange: "exchangeCode sampleProviders (w_config oauthWorld) Google c = Inr sampleProfile"
  by (simp add: exchangeCode_def exchangeGoogle_def sampleProviders_def answered_def nonEmpty_def
      sampleProfile_def toLowerCase_def lowerChar_def)

lemma sample_oauth_account:
  "\<not> isl (fst (findOrCreateFromOAuth sampleEnv ManualPaymentProvider sampleProfile sampleDb))"
  by code_simp

theorem oauth_callback_sound_witness:
  "\<exists>st t a q. oauthController oauthWorld sampleProviders
      (OAuthCallback ''google'' (Some ''c'') (Some st) None) sampleDb = (Inr (RedirectSuccess a q), t) \<and>
    signedState oauthWorld st Google (clock sampleDb)"
proof -
  have E: "w_env oauthWorld = sampleEnv" by (simp add: oauthWorld_def sampleWorld_def)
  obtain st t' where "signState oauthWorld Google sampleDb = (Inr st, t')"
    by (simp add: signState_run Let_def)
  then have v: "verifyState oauthWorld st Google (clock sampleDb) = Inr ()" "st \<noteq> []"
    using verifyState_payload [of oauthWorld] by (auto simp: signState_run Let_def E sampleEnv_ok)
  obtain account t where acc: "findOrCreateFromOAuth sampleEnv ManualPaymentProvider sampleProfile sampleDb =
      (Inr account, t)"
    using sample_oauth_account
    by (cases "findOrCreateFromOAuth sampleEnv ManualPaymentProvider sampleProfile sampleDb";
        cases "fst (findOrCreateFromOAuth sampleEnv ManualPaymentProvider sampleProfile sampleDb)") auto
  have "assertProvider (w_config oauthWorld) ''google'' = Inr Google"
    by (simp add: assertProvider_def configuredProviders_def oauthWorld_def)
  then obtain a q where run: "oauthController oauthWorld sampleProviders
      (OAuthCallback ''google'' (Some ''c'') (Some st) None) sampleDb = (Inr (RedirectSuccess a q), t)"
    using v acc E
    by (simp add: nonEmpty_def catching_def andThen_def oauthLogin_def sumOp_def sample_exchange
        loginOrRegister_def inOAuth_def frontendSuccessUrl_def paymentProviderOf_def)
  have inv: "env_ok (w_env oauthWorld)" "db_inv (w_env oauthWorld) sampleDb"
    using sampleEnv_ok sampleDb_inv by (simp_all add: E)
  from oauth_callback_sound [OF inv run] obtain p where p: "''google'' = providerStr p"
      "signedState oauthWorld st p (clock sampleDb)"
    by blast
  from p(1) have "p = Google" by (cases p) simp_all
  with p(2) have "signedState oauthWorld st Google (clock sampleDb)" by simp
  with run show ?thesis by blast
qed

end
