(* ===== verification/RecordQuery.thy ===== *)
theory RecordQuery
  imports JsCoercion
begin

text \<open>
  Queries over the tags of a stored record, in the two forms of
  \<^verbatim>\<open>identity-core/src/record\<close>: evaluated in memory (\<^verbatim>\<open>record-query.matcher.ts\<close>)
  and translated to a condition of PostgreSQL with numbered parameters
  (\<^verbatim>\<open>record-query.sql.ts\<close>). The condition is a term instead of its text; the operators
  of \<open>jsonb\<close> are a parameter.
\<close>

section \<open>Queries\<close>

text \<open>
  \<open>Object.entries\<close>: a repeated key keeps its first place and its last value, keys that are array
  indices come first in their numeric order; arrays and texts have their indices as keys,
  \<open>null\<close> throws.
\<close>

definition isIndexKey :: "string \<Rightarrow> bool" where
  "isIndexKey k \<longleftrightarrow> k \<noteq> [] \<and> list_all isDigit k \<and> (k = ''0'' \<or> hd k \<noteq> CHR ''0'') \<and>
     decimal k < 4294967295"

definition ownKeys :: "string list \<Rightarrow> string list" where
  "ownKeys ks = (let distinctKeys = rev (remdups (rev ks)) in
     sort_key decimal (filter isIndexKey distinctKeys) @
     filter (\<lambda>k. \<not> isIndexKey k) distinctKeys)"

fun entriesOf :: "json \<Rightarrow> (string \<times> json) list option" where
  "entriesOf JNull = None"
| "entriesOf (JObj kvs) =
     Some (map (\<lambda>k. (k, the (map_of (rev kvs) k))) (ownKeys (map fst kvs)))"
| "entriesOf (JArr vs) = Some (zip (map natStr [0..<length vs]) vs)"
| "entriesOf (JStr s) = Some (zip (map natStr [0..<length s]) (map (\<lambda>c. JStr [c]) s))"
| "entriesOf _ = Some []"

text \<open>The entries of a query object, with distinct keys.\<close>

type_synonym recordQuery = "(string \<times> json) list"

record storedForQuery =
  sq_id :: string
  sq_tags :: "(string \<times> json) list"

definition primitive :: "json \<Rightarrow> bool" where
  "primitive v = (case v of JArr _ \<Rightarrow> False | JObj _ \<Rightarrow> False | _ \<Rightarrow> True)"

text \<open>\<open>===\<close> on values parsed from JSON: objects and arrays are never the same object.\<close>

definition strictEq :: "json \<Rightarrow> json \<Rightarrow> bool" where
  "strictEq a b \<longleftrightarrow> primitive a \<and> a = b"

definition includesJson :: "json list \<Rightarrow> json \<Rightarrow> bool" where
  "includesJson xs v \<longleftrightarrow> list_ex (\<lambda>x. strictEq x v) xs"

datatype arrayMode = Every | Some'

definition nullishJson :: "json option \<Rightarrow> bool" where
  "nullishJson v \<longleftrightarrow> v = None \<or> v = Some JNull"

section \<open>In memory\<close>

definition matchesTagEntry :: "(string \<times> json) list \<Rightarrow> string \<Rightarrow> json \<Rightarrow> arrayMode \<Rightarrow> bool" where
  "matchesTagEntry tags key v mode =
     (case map_of tags key of
        None \<Rightarrow> False
      | Some JNull \<Rightarrow> False
      | Some tagVal \<Rightarrow>
          (case v of
             JArr vs \<Rightarrow>
               (case tagVal of
                  JArr ts \<Rightarrow> if mode = Every then list_all (includesJson ts) vs
                             else list_ex (includesJson ts) vs
                | _ \<Rightarrow> False)
           | _ \<Rightarrow> (case tagVal of JArr ts \<Rightarrow> includesJson ts v | _ \<Rightarrow> strictEq tagVal v)))"

definition skipsEntry :: "string \<times> json \<Rightarrow> bool" where
  "skipsEntry e \<longleftrightarrow> fst e = ''$or'' \<or> fst e = ''id'' \<or> snd e = JNull"

definition branchMatches :: "(string \<times> json) list \<Rightarrow> (string \<times> json) list \<Rightarrow> bool" where
  "branchMatches tags es \<longleftrightarrow>
     list_all (\<lambda>(k, v). v = JNull \<or> matchesTagEntry tags k v Some') es"

text \<open>\<open>some\<close> over the branches: it stops at the first that matches, a \<open>null\<close> before it throws.\<close>

fun someBranch :: "((string \<times> json) list \<Rightarrow> bool) \<Rightarrow> json list \<Rightarrow> bool option" where
  "someBranch P [] = Some False"
| "someBranch P (b # bs) =
     (case entriesOf b of None \<Rightarrow> None | Some es \<Rightarrow> if P es then Some True else someBranch P bs)"

definition matchesRecordTagQuery :: "storedForQuery \<Rightarrow> recordQuery \<Rightarrow> bool option" where
  "matchesRecordTagQuery stored q =
     (if \<not> nullishJson (map_of q ''id'') \<and> map_of q ''id'' \<noteq> Some (JStr (sq_id stored)) then Some False
      else if \<not> list_all (\<lambda>e. skipsEntry e \<or> matchesTagEntry (sq_tags stored) (fst e) (snd e) Every) q
      then Some False
      else (case map_of q ''$or'' of
              Some (JArr bs) \<Rightarrow> someBranch (branchMatches (sq_tags stored)) bs
            | _ \<Rightarrow> Some True))"

section \<open>As a condition\<close>

text \<open>A parameter of the statement: a value of the query, a text or an array of texts.\<close>

datatype sqlParam = PValue json | PText string | PTexts "string list"

text \<open>
  A test of the tag whose key is a parameter: \<open>?|\<close>, \<open>@>\<close>, or the \<open>CASE\<close> of a scalar; then the
  conditions, joined by \<open>AND\<close>, and within \<open>OrOf\<close> a disjunction of conjunctions.
\<close>

datatype tagTest = AnyOf nat | ContainsAll nat | ScalarIs nat nat

type_synonym tagCond = "nat \<times> tagTest"

datatype sqlCond = IdIs nat | TagIs tagCond | OrOf "tagCond list list"

record sqlContext =
  cx_params :: "sqlParam list"
  cx_nextParam :: nat

definition pushParam :: "sqlParam \<Rightarrow> sqlContext \<Rightarrow> nat \<times> sqlContext" where
  "pushParam v cx =
     (cx_nextParam cx, cx\<lparr>cx_params := cx_params cx @ [v], cx_nextParam := cx_nextParam cx + 1\<rparr>)"

definition buildTagCondition :: "string \<Rightarrow> json \<Rightarrow> arrayMode \<Rightarrow> sqlContext \<Rightarrow> tagCond \<times> sqlContext" where
  "buildTagCondition key v mode cx =
     (let (keyIdx, cx1) = pushParam (PText key) cx in
      case v of
        JArr vs \<Rightarrow>
          if mode = Some' then
            (let (i, cx2) = pushParam (PTexts (map toText vs)) cx1 in ((keyIdx, AnyOf i), cx2))
          else
            (let (i, cx2) = pushParam (PText (stringify v)) cx1 in ((keyIdx, ContainsAll i), cx2))
      | _ \<Rightarrow>
          (let (i, cx2) = pushParam (PText (toText v)) cx1;
               (j, cx3) = pushParam (PText (stringify v)) cx2
           in ((keyIdx, ScalarIs i j), cx3)))"

fun buildAll :: "arrayMode \<Rightarrow> (string \<times> json) list \<Rightarrow> sqlContext \<Rightarrow> tagCond list \<times> sqlContext" where
  "buildAll mode [] cx = ([], cx)"
| "buildAll mode ((k, v) # es) cx =
     (let (c, cx1) = buildTagCondition k v mode cx; (cs, cx2) = buildAll mode es cx1 in (c # cs, cx2))"

text \<open>\<open>branches.map\<close>: every branch is built, so a \<open>null\<close> anywhere throws.\<close>

fun buildBranches :: "json list \<Rightarrow> sqlContext \<Rightarrow> (tagCond list list \<times> sqlContext) option" where
  "buildBranches [] cx = Some ([], cx)"
| "buildBranches (b # bs) cx =
     (case entriesOf b of
        None \<Rightarrow> None
      | Some es \<Rightarrow>
          (let (cs, cx1) = buildAll Some' (filter (\<lambda>e. snd e \<noteq> JNull) es) cx in
           case buildBranches bs cx1 of
             None \<Rightarrow> None | Some (css, cx2) \<Rightarrow> Some (cs # css, cx2)))"

definition buildOrClause :: "json list \<Rightarrow> sqlContext \<Rightarrow> (sqlCond \<times> sqlContext) option" where
  "buildOrClause bs cx = map_option (\<lambda>(css, cx'). (OrOf css, cx')) (buildBranches bs cx)"

record tagQuerySql =
  tq_conditions :: "sqlCond list"
  tq_params :: "sqlParam list"

definition buildTagQuerySql :: "recordQuery \<Rightarrow> nat \<Rightarrow> tagQuerySql option" where
  "buildTagQuerySql q startParamIndex =
     (let cx0 = \<lparr>cx_params = [], cx_nextParam = startParamIndex\<rparr>;
          (ids, cx1) =
            (case map_of q ''id'' of
               Some v \<Rightarrow> if v = JNull then ([], cx0)
                         else (let (i, cx) = pushParam (PValue v) cx0 in ([IdIs i], cx))
             | None \<Rightarrow> ([], cx0));
          (tags, cx2) = buildAll Every (filter (\<lambda>e. \<not> skipsEntry e) q) cx1;
          conds = ids @ map TagIs tags
      in case map_of q ''$or'' of
           Some (JArr (b # bs)) \<Rightarrow>
             (case buildOrClause (b # bs) cx2 of
                None \<Rightarrow> None
              | Some (c, cx3) \<Rightarrow> Some \<lparr>tq_conditions = conds @ [c], tq_params = cx_params cx3\<rparr>)
         | _ \<Rightarrow> Some \<lparr>tq_conditions = conds, tq_params = cx_params cx2\<rparr>)"

section \<open>What the condition means\<close>

text \<open>The operators \<open>@>\<close>, \<open>=\<close> and \<open>?\<close> of \<open>jsonb\<close>, on parsed values.\<close>

record jsonbOps =
  jb_contains :: "json \<Rightarrow> json \<Rightarrow> bool"
  jb_equal :: "json \<Rightarrow> json \<Rightarrow> bool"
  jb_exists :: "json \<Rightarrow> string \<Rightarrow> bool"

text \<open>
  Their documentation: an array contains an array of scalars when it has all its elements, a
  scalar equals itself only, a text exists in an array as one of its elements.
\<close>

definition jsonb_ok :: "jsonbOps \<Rightarrow> bool" where
  "jsonb_ok J \<longleftrightarrow>
     (\<forall>ts vs. list_all primitive vs \<longrightarrow> jb_contains J (JArr ts) (JArr vs) = (set vs \<subseteq> set ts)) \<and>
     (\<forall>a b. primitive b \<longrightarrow> jb_equal J a b = (a = b)) \<and>
     (\<forall>ts x. jb_exists J (JArr ts) x = (JStr x \<in> set ts))"

definition paramAt :: "sqlParam list \<Rightarrow> nat \<Rightarrow> sqlParam" where
  "paramAt ps i = ps ! (i - 1)"

definition isJsonArray :: "json \<Rightarrow> bool" where
  "isJsonArray v = (case v of JArr _ \<Rightarrow> True | _ \<Rightarrow> False)"

text \<open>
  \<open>jsonb_extract_path(data, 'tags', key)\<close> is SQL's null when the key is missing; a text cast to
  \<open>jsonb\<close> is parsed, and the parameters are always JSON.
\<close>

definition holdsTag :: "jsonbOps \<Rightarrow> sqlParam list \<Rightarrow> (string \<times> json) list \<Rightarrow> tagCond \<Rightarrow> bool" where
  "holdsTag J ps tags c =
     (case paramAt ps (fst c) of
        PText key \<Rightarrow>
          (case map_of tags key of
             None \<Rightarrow> False
           | Some t \<Rightarrow>
               (case snd c of
                  AnyOf i \<Rightarrow> isJsonArray t \<and>
                    (case paramAt ps i of PTexts xs \<Rightarrow> list_ex (jb_exists J t) xs | _ \<Rightarrow> False)
                | ContainsAll i \<Rightarrow> isJsonArray t \<and>
                    (case paramAt ps i of
                       PText s \<Rightarrow> (case jsonParse s of Some v \<Rightarrow> jb_contains J t v | None \<Rightarrow> False)
                     | _ \<Rightarrow> False)
                | ScalarIs i j \<Rightarrow>
                    if isJsonArray t
                    then (case paramAt ps i of PText x \<Rightarrow> jb_exists J t x | _ \<Rightarrow> False)
                    else (case paramAt ps j of
                            PText s \<Rightarrow> (case jsonParse s of Some v \<Rightarrow> jb_equal J t v | None \<Rightarrow> False)
                          | _ \<Rightarrow> False)))
      | _ \<Rightarrow> False)"

text \<open>A parameter compared with a column of type text is sent as text.\<close>

definition paramText :: "sqlParam \<Rightarrow> string option" where
  "paramText p = (case p of PValue v \<Rightarrow> Some (toText v) | PText s \<Rightarrow> Some s | PTexts _ \<Rightarrow> None)"

definition holdsCond :: "jsonbOps \<Rightarrow> sqlParam list \<Rightarrow> storedForQuery \<Rightarrow> sqlCond \<Rightarrow> bool" where
  "holdsCond J ps row c =
     (case c of
        IdIs i \<Rightarrow> paramText (paramAt ps i) = Some (sq_id row)
      | TagIs t \<Rightarrow> holdsTag J ps (sq_tags row) t
      | OrOf branches \<Rightarrow> list_ex (list_all (holdsTag J ps (sq_tags row))) branches)"

definition holdsQuery :: "jsonbOps \<Rightarrow> sqlParam list \<Rightarrow> storedForQuery \<Rightarrow> sqlCond list \<Rightarrow> bool" where
  "holdsQuery J ps row conds = list_all (holdsCond J ps row) conds"

end
