(* ===== verification/RecordTypes.thy ===== *)
theory RecordTypes
  imports RecordQuery Complex_Main
begin

text \<open>
  Pages of records (\<^verbatim>\<open>record/record-storage.types.ts\<close>), the catalogue of record types
  (\<^verbatim>\<open>record-type-catalog.ts\<close>) and the registry of classes by role of
  \<^verbatim>\<open>tenant-records.ts\<close>. The classes are those of the Credo framework: the registry is a
  function of what their \<open>name\<close> and static \<open>type\<close> are.
\<close>

section \<open>Pages\<close>

definition DEFAULT_RECORDS_PAGE_SIZE :: rat where "DEFAULT_RECORDS_PAGE_SIZE = 20"
definition MAX_RECORDS_PAGE_SIZE :: int where "MAX_RECORDS_PAGE_SIZE = 100"

record recordsPageOptions =
  po_page :: int
  po_limit :: int

record recordsPageMeta =
  pm_page :: int
  pm_limit :: int
  pm_total :: int
  pm_totalPages :: int
  pm_hasNextPage :: bool
  pm_hasPreviousPage :: bool

record 'a paginatedRecords =
  pr_items :: "'a list"
  pr_pagination :: recordsPageMeta

text \<open>The numbers are finite; the bodies only let integers through.\<close>

definition normalizeRecordsPageOptions :: "rat option \<Rightarrow> rat option \<Rightarrow> recordsPageOptions" where
  "normalizeRecordsPageOptions page limit =
     (let safePage = max 1 \<lfloor>case page of None \<Rightarrow> 1 | Some p \<Rightarrow> p\<rfloor>;
          rawLimit = \<lfloor>case limit of None \<Rightarrow> DEFAULT_RECORDS_PAGE_SIZE | Some l \<Rightarrow> l\<rfloor>;
          safeLimit = min MAX_RECORDS_PAGE_SIZE (max 1 rawLimit)
      in \<lparr>po_page = safePage, po_limit = safeLimit\<rparr>)"

definition buildRecordsPageMeta :: "int \<Rightarrow> int \<Rightarrow> int \<Rightarrow> recordsPageMeta" where
  "buildRecordsPageMeta records page limit =
     (let totalPages = (if records = 0 then 0 else \<lceil>of_int records / (of_int limit :: rat)\<rceil>)
      in \<lparr>pm_page = page, pm_limit = limit, pm_total = records, pm_totalPages = totalPages,
          pm_hasNextPage = (0 < totalPages \<and> page < totalPages),
          pm_hasPreviousPage = (1 < page \<and> 0 < records)\<rparr>)"

section \<open>The catalogue\<close>

datatype quarkAgentRole = IssuerRole | HolderRole | VerifierRole

datatype recordTypeCategory = Infra | Identity | Didcomm | Oid4vc | Credential

text \<open>The prose of an entry (\<open>description\<close>) is left out.\<close>

record recordTypeDescriptor =
  rd_className :: string
  rd_storageType :: string
  rd_category :: recordTypeCategory
  rd_roles :: "quarkAgentRole list"

definition RECORD_TYPE_CATALOG :: "recordTypeDescriptor list" where
  "RECORD_TYPE_CATALOG = [
     \<lparr>rd_className = ''StorageVersionRecord'', rd_storageType = ''StorageVersionRecord'',
       rd_category = Infra, rd_roles = [IssuerRole, HolderRole, VerifierRole]\<rparr>,
     \<lparr>rd_className = ''DidRecord'', rd_storageType = ''DidRecord'',
       rd_category = Identity, rd_roles = [IssuerRole, HolderRole, VerifierRole]\<rparr>,
     \<lparr>rd_className = ''DidCommConnectionRecord'', rd_storageType = ''ConnectionRecord'',
       rd_category = Didcomm, rd_roles = [IssuerRole, HolderRole, VerifierRole]\<rparr>,
     \<lparr>rd_className = ''DidCommCredentialExchangeRecord'', rd_storageType = ''CredentialExchangeRecord'',
       rd_category = Didcomm, rd_roles = [IssuerRole, HolderRole]\<rparr>,
     \<lparr>rd_className = ''DidCommProofExchangeRecord'', rd_storageType = ''ProofExchangeRecord'',
       rd_category = Didcomm, rd_roles = [HolderRole, VerifierRole]\<rparr>,
     \<lparr>rd_className = ''DidCommOutOfBandRecord'', rd_storageType = ''OutOfBandRecord'',
       rd_category = Didcomm, rd_roles = [IssuerRole, HolderRole, VerifierRole]\<rparr>,
     \<lparr>rd_className = ''OpenId4VcIssuerRecord'', rd_storageType = ''OpenId4VcIssuerRecord'',
       rd_category = Oid4vc, rd_roles = [IssuerRole]\<rparr>,
     \<lparr>rd_className = ''OpenId4VcIssuanceSessionRecord'',
       rd_storageType = ''OpenId4VcIssuanceSessionRecord'',
       rd_category = Oid4vc, rd_roles = [IssuerRole]\<rparr>,
     \<lparr>rd_className = ''OpenId4VcVerifierRecord'', rd_storageType = ''OpenId4VcVerifierRecord'',
       rd_category = Oid4vc, rd_roles = [VerifierRole]\<rparr>,
     \<lparr>rd_className = ''OpenId4VcVerificationSessionRecord'',
       rd_storageType = ''OpenId4VcVerificationSessionRecord'',
       rd_category = Oid4vc, rd_roles = [VerifierRole]\<rparr>,
     \<lparr>rd_className = ''SdJwtVcRecord'', rd_storageType = ''SdJwtVcRecord'',
       rd_category = Credential, rd_roles = [HolderRole]\<rparr>,
     \<lparr>rd_className = ''W3cCredentialRecord'', rd_storageType = ''W3cCredentialRecord'',
       rd_category = Credential, rd_roles = [HolderRole]\<rparr>,
     \<lparr>rd_className = ''W3cV2CredentialRecord'', rd_storageType = ''W3cV2CredentialRecord'',
       rd_category = Credential, rd_roles = [HolderRole]\<rparr>]"

definition getRecordTypeDescriptors :: "quarkAgentRole \<Rightarrow> recordTypeDescriptor list" where
  "getRecordTypeDescriptors role = filter (\<lambda>entry. role \<in> set (rd_roles entry)) RECORD_TYPE_CATALOG"

definition findRecordTypeDescriptor :: "quarkAgentRole \<Rightarrow> string \<Rightarrow> recordTypeDescriptor option" where
  "findRecordTypeDescriptor role recordType =
     find (\<lambda>d. rd_className d = recordType \<or> rd_storageType d = recordType)
       (getRecordTypeDescriptors role)"

section \<open>The registry\<close>

record recordClass =
  rc_name :: string
  rc_type :: "string option"

type_synonym credoClasses = "string \<Rightarrow> recordClass"

text \<open>The arrays of classes, by the names they are imported under.\<close>

definition COMMON_RECORDS :: "string list" where
  "COMMON_RECORDS = [''StorageVersionRecord'', ''DidRecord'']"

definition ISSUER_RECORDS :: "string list" where
  "ISSUER_RECORDS = COMMON_RECORDS @ [''DidCommConnectionRecord'', ''DidCommCredentialExchangeRecord'',
     ''DidCommOutOfBandRecord'', ''OpenId4VcIssuerRecord'', ''OpenId4VcIssuanceSessionRecord'']"

definition HOLDER_RECORDS :: "string list" where
  "HOLDER_RECORDS = COMMON_RECORDS @ [''SdJwtVcRecord'', ''W3cCredentialRecord'', ''W3cV2CredentialRecord'',
     ''DidCommConnectionRecord'', ''DidCommCredentialExchangeRecord'', ''DidCommProofExchangeRecord'',
     ''DidCommOutOfBandRecord'']"

definition VERIFIER_RECORDS :: "string list" where
  "VERIFIER_RECORDS = COMMON_RECORDS @ [''DidCommConnectionRecord'', ''DidCommProofExchangeRecord'',
     ''DidCommOutOfBandRecord'', ''OpenId4VcVerifierRecord'', ''OpenId4VcVerificationSessionRecord'']"

fun RECORDS_BY_ROLE :: "quarkAgentRole \<Rightarrow> string list" where
  "RECORDS_BY_ROLE IssuerRole = ISSUER_RECORDS"
| "RECORDS_BY_ROLE HolderRole = HOLDER_RECORDS"
| "RECORDS_BY_ROLE VerifierRole = VERIFIER_RECORDS"

definition registerClass :: "recordClass \<Rightarrow> (string \<rightharpoonup> recordClass) \<Rightarrow> (string \<rightharpoonup> recordClass)" where
  "registerClass c m =
     (let m' = m(rc_name c \<mapsto> c) in case rc_type c of None \<Rightarrow> m' | Some t \<Rightarrow> m'(t \<mapsto> c))"

definition buildRegistry :: "recordClass list \<Rightarrow> (string \<rightharpoonup> recordClass)" where
  "buildRegistry classes = fold registerClass classes Map.empty"

definition REGISTRIES :: "credoClasses \<Rightarrow> quarkAgentRole \<Rightarrow> (string \<rightharpoonup> recordClass)" where
  "REGISTRIES credo role = buildRegistry (map credo (RECORDS_BY_ROLE role))"

record unknownRecordType =
  ur_recordType :: string
  ur_role :: quarkAgentRole
  ur_allowed :: "recordTypeDescriptor list"

definition resolveRecordClass ::
  "credoClasses \<Rightarrow> quarkAgentRole \<Rightarrow> string \<Rightarrow> unknownRecordType + recordClass" where
  "resolveRecordClass credo role recordType =
     (case REGISTRIES credo role recordType of
        None \<Rightarrow> Inl \<lparr>ur_recordType = recordType, ur_role = role,
          ur_allowed = getRecordTypeDescriptors role\<rparr>
      | Some c \<Rightarrow> Inr c)"

text \<open>
  Credo 0.6, as the catalogue records it: each class has its own name, and the storage type the
  catalogue gives.
\<close>

definition credo06 :: credoClasses where
  "credo06 className = \<lparr>rc_name = className,
     rc_type = map_option rd_storageType (find (\<lambda>d. rd_className d = className) RECORD_TYPE_CATALOG)\<rparr>"

definition matchesCatalogue :: "credoClasses \<Rightarrow> bool" where
  "matchesCatalogue credo \<longleftrightarrow>
     (\<forall>d\<in>set RECORD_TYPE_CATALOG.
        credo (rd_className d) = \<lparr>rc_name = rd_className d, rc_type = Some (rd_storageType d)\<rparr>)"

lemma credo06_matches: "matchesCatalogue credo06"
  by (simp add: matchesCatalogue_def credo06_def RECORD_TYPE_CATALOG_def)

section \<open>Registry and catalogue agree\<close>

lemma find_append: "find P (xs @ ys) = (case find P xs of Some x \<Rightarrow> Some x | None \<Rightarrow> find P ys)"
  by (induction xs) simp_all

lemma registry_lookup:
  "fold registerClass cs m k =
    (case find (\<lambda>c. rc_name c = k \<or> rc_type c = Some k) (rev cs) of Some c \<Rightarrow> Some c | None \<Rightarrow> m k)"
  by (induction cs arbitrary: m rule: rev_induct)
    (auto simp: registerClass_def Let_def find_append split: option.splits)

text \<open>At most one entry has a given name, so the order of the search does not matter.\<close>

lemma find_unique:
  assumes "set xs = set ys" and "\<And>x y. x \<in> set xs \<Longrightarrow> y \<in> set xs \<Longrightarrow> P x \<Longrightarrow> P y \<Longrightarrow> x = y"
  shows "find P xs = find P ys"
proof (cases "find P xs")
  case None
  with assms(1) show ?thesis by (metis find_None_iff)
next
  case (Some x)
  then have x: "x \<in> set xs" "P x" by (auto simp: find_Some_iff)
  then obtain y where y: "find P ys = Some y" using assms(1) by (cases "find P ys") (auto simp: find_None_iff)
  then have "y \<in> set ys" "P y" by (auto simp: find_Some_iff)
  with x assms Some y show ?thesis by metis
qed

lemma find_mapped: "find P (map f xs) = map_option f (find (P \<circ> f) xs)"
  by (induction xs) simp_all

lemma catalogue_keys:
  "\<forall>d\<in>set RECORD_TYPE_CATALOG. \<forall>e\<in>set RECORD_TYPE_CATALOG.
     d = e \<or> {rd_className d, rd_storageType d} \<inter> {rd_className e, rd_storageType e} = {}"
  by code_simp

lemma registry_names:
  "set (RECORDS_BY_ROLE role) = set (map rd_className (getRecordTypeDescriptors role))"
  by (cases role) (simp_all only:, code_simp+)

theorem registry_agrees:
  assumes "matchesCatalogue credo"
  shows "resolveRecordClass credo role recordType =
    (case findRecordTypeDescriptor role recordType of
       None \<Rightarrow> Inl \<lparr>ur_recordType = recordType, ur_role = role, ur_allowed = getRecordTypeDescriptors role\<rparr>
     | Some d \<Rightarrow> Inr \<lparr>rc_name = rd_className d, rc_type = Some (rd_storageType d)\<rparr>)"
proof -
  let ?entry = "\<lambda>d. \<lparr>rc_name = rd_className d, rc_type = Some (rd_storageType d)\<rparr>"
  let ?P = "\<lambda>c. rc_name c = recordType \<or> rc_type c = Some recordType"
  have "?entry d = credo (rd_className d)" if "d \<in> set (getRecordTypeDescriptors role)" for d
    using assms that by (simp add: matchesCatalogue_def getRecordTypeDescriptors_def)
  then have sets: "set (rev (map credo (RECORDS_BY_ROLE role))) = set (map ?entry (getRecordTypeDescriptors role))"
    by (simp add: registry_names image_image)
  have "find ?P (rev (map credo (RECORDS_BY_ROLE role))) = find ?P (map ?entry (getRecordTypeDescriptors role))"
  proof (rule find_unique [OF sets])
    have entry: "\<exists>d\<in>set RECORD_TYPE_CATALOG. c = ?entry d \<and> recordType \<in> {rd_className d, rd_storageType d}"
      if "c \<in> set (rev (map credo (RECORDS_BY_ROLE role)))" "?P c" for c
      using that unfolding sets by (auto simp: getRecordTypeDescriptors_def)
    fix c c' assume c: "c \<in> set (rev (map credo (RECORDS_BY_ROLE role)))" "?P c"
      and c': "c' \<in> set (rev (map credo (RECORDS_BY_ROLE role)))" "?P c'"
    from entry [OF c] obtain d where d: "c = ?entry d" "d \<in> set RECORD_TYPE_CATALOG"
        "recordType \<in> {rd_className d, rd_storageType d}" by blast
    from entry [OF c'] obtain e where e: "c' = ?entry e" "e \<in> set RECORD_TYPE_CATALOG"
        "recordType \<in> {rd_className e, rd_storageType e}" by blast
    from catalogue_keys d(2,3) e(2,3) have "d = e" by blast
    with d(1) e(1) show "c = c'" by simp
  qed
  also have "\<dots> = map_option ?entry (findRecordTypeDescriptor role recordType)"
    by (simp add: find_mapped findRecordTypeDescriptor_def comp_def)
  finally show ?thesis
    by (simp add: resolveRecordClass_def REGISTRIES_def buildRegistry_def registry_lookup split: option.split)
qed

end
