(* ===== verification/Retry.thy ===== *)
theory Retry
  imports Prelude
begin

text \<open>
  Retries with exponential back-off (\<^verbatim>\<open>identity-core/src/utils/retry.ts\<close>), which the
  Postgres adapters run their initialisation under. The function retried is a handler over any
  state; \<open>delay\<close> is what the rest of the process does to the state meanwhile, and the log
  messages are left out.
\<close>

record 'e withRetryOptions =
  attempts :: int
  baseDelayMs :: int
  maxDelayMs :: int
  shouldRetry :: "('e \<Rightarrow> bool) option"

definition retryable :: "'e withRetryOptions \<Rightarrow> 'e \<Rightarrow> bool" where
  "retryable opts err = (case shouldRetry opts of None \<Rightarrow> True | Some p \<Rightarrow> p err)"

definition waitMs :: "'e withRetryOptions \<Rightarrow> int \<Rightarrow> int" where
  "waitMs opts attempt = min (baseDelayMs opts * 2 ^ nat (attempt - 1)) (maxDelayMs opts)"

text \<open>
  The loop from one attempt on. What is thrown is the last error, \<open>undefined\<close> (\<open>None\<close>) when
  there was no attempt.
\<close>

function retryFrom ::
  "'e withRetryOptions \<Rightarrow> (int \<Rightarrow> 's \<Rightarrow> 's) \<Rightarrow> ('s, 'e, 'a) op \<Rightarrow> int \<Rightarrow> 'e option \<Rightarrow> ('s, 'e option, 'a) op"
where
  "retryFrom opts delay f attempt lastErr s =
     (if attempts opts < attempt then (Inl lastErr, s)
      else
        (case f s of
           (Inr a, s') \<Rightarrow> (Inr a, s')
         | (Inl err, s') \<Rightarrow>
             if \<not> retryable opts err \<or> attempt = attempts opts then (Inl (Some err), s')
             else retryFrom opts delay f (attempt + 1) (Some err) (delay (waitMs opts attempt) s')))"
  by pat_completeness auto

termination
  by (relation "measure (\<lambda>(opts, _, _, attempt, _). nat (attempts opts + 1 - attempt))") auto

declare retryFrom.simps [simp del]

definition withRetry ::
  "'e withRetryOptions \<Rightarrow> (int \<Rightarrow> 's \<Rightarrow> 's) \<Rightarrow> ('s, 'e, 'a) op \<Rightarrow> ('s, 'e option, 'a) op" where
  "withRetry opts delay f = retryFrom opts delay f 1 None"

section \<open>What the loop does\<close>

text \<open>The state before the attempt that follows \<open>k\<close> failures.\<close>

fun before :: "'e withRetryOptions \<Rightarrow> (int \<Rightarrow> 's \<Rightarrow> 's) \<Rightarrow> ('s, 'e, 'a) op \<Rightarrow> 's \<Rightarrow> nat \<Rightarrow> 's" where
  "before opts delay f s 0 = s"
| "before opts delay f s (Suc k) =
     delay (waitMs opts (int k + 1)) (snd (f (before opts delay f s k)))"

text \<open>The attempt after \<open>k\<close> failures fails and is followed by another.\<close>

definition goesOn :: "'e withRetryOptions \<Rightarrow> (int \<Rightarrow> 's \<Rightarrow> 's) \<Rightarrow> ('s, 'e, 'a) op \<Rightarrow> 's \<Rightarrow> nat \<Rightarrow> bool" where
  "goesOn opts delay f s k \<longleftrightarrow>
     (case fst (f (before opts delay f s k)) of Inl err \<Rightarrow> retryable opts err | Inr _ \<Rightarrow> False)"

lemma retryFrom_skips:
  assumes "\<forall>i<k. goesOn opts delay f s i" and "int k < attempts opts"
  shows "retryFrom opts delay f 1 None s =
    retryFrom opts delay f (int k + 1)
      (if k = 0 then None else Some (projl (fst (f (before opts delay f s (k - 1))))))
      (before opts delay f s k)"
  using assms
proof (induction k)
  case (Suc k)
  then have "goesOn opts delay f s k" by simp
  then obtain err s' where e: "f (before opts delay f s k) = (Inl err, s')" "retryable opts err"
    by (cases "f (before opts delay f s k)") (auto simp: goesOn_def split: sum.splits)
  with Suc.prems(2) have
    "retryFrom opts delay f (int k + 1) l (before opts delay f s k) =
      retryFrom opts delay f (int k + 1 + 1) (Some err) (delay (waitMs opts (int k + 1)) s')" for l
    by (subst retryFrom.simps) simp
  with Suc e show ?case by (simp add: add.commute)
qed simp

text \<open>Every run has a last attempt: a success, an error not worth retrying or the last one allowed.\<close>

lemma retry_last:
  assumes "0 < attempts opts"
  obtains k where "int k < attempts opts" and "\<forall>i<k. goesOn opts delay f s i"
    and "\<not> goesOn opts delay f s k \<or> int k + 1 = attempts opts"
proof -
  define k where "k = (LEAST k. \<not> goesOn opts delay f s k \<or> int k + 1 = attempts opts)"
  have "\<exists>k. \<not> goesOn opts delay f s k \<or> int k + 1 = attempts opts"
    using assms by (intro exI [of _ "nat (attempts opts - 1)"]) simp
  then have k: "\<not> goesOn opts delay f s k \<or> int k + 1 = attempts opts"
    unfolding k_def by (rule LeastI_ex)
  have least: "goesOn opts delay f s i \<and> int i + 1 \<noteq> attempts opts" if "i < k" for i
    using not_less_Least [OF that [unfolded k_def]] by simp
  have "\<not> k > nat (attempts opts - 1)"
    using least [of "nat (attempts opts - 1)"] assms by auto
  then have "int k < attempts opts" using assms by linarith
  with k least show thesis by (intro that [of k]) blast+
qed

lemma retry_outcome:
  assumes "int k < attempts opts" and "\<forall>i<k. goesOn opts delay f s i"
    and "\<not> goesOn opts delay f s k \<or> int k + 1 = attempts opts"
  shows "withRetry opts delay f s =
    (case f (before opts delay f s k) of (Inr a, s') \<Rightarrow> (Inr a, s') | (Inl err, s') \<Rightarrow> (Inl (Some err), s'))"
proof -
  have "withRetry opts delay f s = retryFrom opts delay f (int k + 1)
      (if k = 0 then None else Some (projl (fst (f (before opts delay f s (k - 1))))))
      (before opts delay f s k)"
    unfolding withRetry_def by (rule retryFrom_skips [OF assms(2,1)])
  also have "\<dots> =
    (case f (before opts delay f s k) of (Inr a, s') \<Rightarrow> (Inr a, s') | (Inl err, s') \<Rightarrow> (Inl (Some err), s'))"
    using assms(1,3)
    by (subst retryFrom.simps) (auto simp: goesOn_def split: prod.splits sum.splits)
  finally show ?thesis .
qed

section \<open>The initialisation of the adapters\<close>

definition initRetryOptions :: "string withRetryOptions" where
  "initRetryOptions = \<lparr>attempts = 10, baseDelayMs = 2000, maxDelayMs = 15000,
     shouldRetry = Some (\<lambda>code. code \<noteq> ''42P07'' \<and> code \<noteq> ''23505'')\<rparr>"

section \<open>Properties\<close>

lemma waitMs_le: "waitMs opts i \<le> maxDelayMs opts"
  by (simp add: waitMs_def)

text \<open>A wait that only notes how long it was.\<close>

definition noteWait :: "int \<Rightarrow> nat \<times> int list \<Rightarrow> nat \<times> int list" where
  "noteWait ms = (\<lambda>(n, waits). (n, waits @ [ms]))"

text \<open>C24.
  It always comes to an end: it runs the function at most \<open>attempts\<close> times, stops at the first
  success, at the first error not worth retrying or at the last attempt, gives the outcome of
  that attempt, and the waits in between add up to at most \<open>maxDelayMs\<close> for each failure.
\<close>

theorem retry_ends:
  assumes "0 < attempts opts"
  shows "\<exists>k. int k < attempts opts \<and> (\<forall>i<k. goesOn opts delay f s i) \<and>
    (\<not> goesOn opts delay f s k \<or> int k + 1 = attempts opts) \<and>
    withRetry opts delay f s = (case f (before opts delay f s k) of
      (Inr a, s') \<Rightarrow> (Inr a, s') | (Inl err, s') \<Rightarrow> (Inl (Some err), s')) \<and>
    (\<Sum>i<k. waitMs opts (int i + 1)) \<le> int k * maxDelayMs opts"
proof -
  from retry_last [OF assms] obtain k where k: "int k < attempts opts"
    "\<forall>i<k. goesOn opts delay f s i" "\<not> goesOn opts delay f s k \<or> int k + 1 = attempts opts" .
  have "(\<Sum>i<k. waitMs opts (int i + 1)) \<le> (\<Sum>i<k. maxDelayMs opts)"
    by (rule sum_mono) (rule waitMs_le)
  with k retry_outcome [OF k] show ?thesis by (intro exI [of _ k]) simp
qed

text \<open>A database that never answers: ten attempts, and the last error.\<close>

definition refusing :: "(nat \<times> int list, string, nat) op" where
  "refusing = (\<lambda>(n, waits). (Inl ''ECONNREFUSED'', (n + 1, waits)))"

theorem retry_ends_witness:
  "fst (withRetry initRetryOptions noteWait refusing (0, [])) = Inl (Some ''ECONNREFUSED'')"
  using retry_ends [of initRetryOptions noteWait refusing "(0, [])"]
  by (auto simp: initRetryOptions_def refusing_def split: prod.splits)

theorem initialisation_waits:
  "(\<Sum>i<9. waitMs initRetryOptions (int i + 1)) = 104000"
  by (simp add: initRetryOptions_def waitMs_def eval_nat_numeral)

end
