(* ===== verification/RecordStores.thy ===== *)
theory RecordStores
  imports RecordTypes Tables Retry
begin

text \<open>
  The two adapters behind the port \<open>RecordStorage\<close>: PostgreSQL
  (\<^verbatim>\<open>record/postgres-record.storage.ts\<close>), over its table \<open>records\<close>, and Askar
  (\<^verbatim>\<open>record/askar-record.storage.ts\<close>), over the storage service of the framework, which
  is a parameter. A record of Credo is of a type \<open>'r\<close> of which the framework gives the class,
  the identifier, the tags and the JSON.
\<close>

section \<open>Records of the framework\<close>

text \<open>
  \<open>JsonTransformer\<close> with validation off, which may give nothing, and what an instance answers.
\<close>

record 'r credoFramework =
  fromJSON :: "json option \<Rightarrow> recordClass \<Rightarrow> 'r option"
  toJSON :: "'r \<Rightarrow> json"
  hasClone :: "'r \<Rightarrow> bool"
  classOf :: "'r \<Rightarrow> recordClass"
  idOf :: "'r \<Rightarrow> string"
  ownJSON :: "'r \<Rightarrow> (string \<times> json) list"
  getTags :: "'r \<Rightarrow> (string \<times> json) list"

datatype recordError =
    QueryFailed string
  | NotJson
  | NotAnObject
  | RecordNotFound
  | AskarFailed string
  | CapabilityMissing
  | UnknownType unknownRecordType
  | NoRootAgent
  | NoWallet string
  | TenantFailed string

section \<open>Rows\<close>

record recordRow =
  rr_type :: string
  rr_id :: string
  rr_wallet_id :: string
  rr_data :: string

record recordDb =
  rd_rows :: "recordRow list"
  rd_queries :: nat

text \<open>The SQLSTATE each query of the process fails with, if it does.\<close>

type_synonym queryFaults = "nat \<Rightarrow> string option"

definition pgQuery :: "queryFaults \<Rightarrow> (recordDb, recordError, 'a) op \<Rightarrow> (recordDb, recordError, 'a) op" where
  "pgQuery F statement = (\<lambda>s.
     let s' = s\<lparr>rd_queries := Suc (rd_queries s)\<rparr> in
     case F (rd_queries s) of Some code \<Rightarrow> (Inl (QueryFailed code), s') | None \<Rightarrow> statement s')"

definition keyIs :: "string \<Rightarrow> string \<Rightarrow> recordRow \<Rightarrow> bool" where
  "keyIs t i r \<longleftrightarrow> rr_type r = t \<and> rr_id r = i"

definition ownedKeyIs :: "string \<Rightarrow> string \<Rightarrow> string \<Rightarrow> recordRow \<Rightarrow> bool" where
  "ownedKeyIs t i w r \<longleftrightarrow> keyIs t i r \<and> rr_wallet_id r = w"

definition ofTenant :: "string \<Rightarrow> string \<Rightarrow> recordRow \<Rightarrow> bool" where
  "ofTenant t w r \<longleftrightarrow> rr_type r = t \<and> rr_wallet_id r = w"

section \<open>What is stored\<close>

record storedRecord =
  st_id :: string
  st_type :: string
  st_createdAt :: "json option"
  st_updatedAt :: "json option"
  st_tags :: "(string \<times> json) list"
  st_data :: "(string \<times> json) list"

definition typeOf :: "recordClass \<Rightarrow> string" where
  "typeOf c = (case rc_type c of None \<Rightarrow> ''record'' | Some t \<Rightarrow> t)"

definition buildStoredRecord :: "'r credoFramework \<Rightarrow> 'r \<Rightarrow> storedRecord" where
  "buildStoredRecord fw r =
     \<lparr>st_id = idOf fw r, st_type = typeOf (classOf fw r),
      st_createdAt = jsonField ''createdAt'' (JObj (ownJSON fw r)),
      st_updatedAt = jsonField ''updatedAt'' (JObj (ownJSON fw r)),
      st_tags = getTags fw r, st_data = ownJSON fw r\<rparr>"

text \<open>\<open>JSON.stringify\<close> leaves out the fields that are \<open>undefined\<close>.\<close>

definition definedField :: "string \<Rightarrow> json option \<Rightarrow> (string \<times> json) list" where
  "definedField k v = (case v of None \<Rightarrow> [] | Some j \<Rightarrow> [(k, j)])"

definition storedJson :: "storedRecord \<Rightarrow> json" where
  "storedJson st = JObj ([(''id'', JStr (st_id st)), (''type'', JStr (st_type st))] @
     definedField ''createdAt'' (st_createdAt st) @ definedField ''updatedAt'' (st_updatedAt st) @
     [(''tags'', JObj (st_tags st)), (''data'', JObj (st_data st))])"

definition storedText :: "storedRecord \<Rightarrow> string" where
  "storedText st = stringify (storedJson st)"

definition parseRow :: "recordRow \<Rightarrow> recordError + json" where
  "parseRow r =
     (case jsonParse (rr_data r) of None \<Rightarrow> Inl NotJson | Some JNull \<Rightarrow> Inl NotAnObject | Some v \<Rightarrow> Inr v)"

fun parseRows :: "recordRow list \<Rightarrow> recordError + json list" where
  "parseRows [] = Inr []"
| "parseRows (r # rs) =
     (case parseRow r of
        Inl e \<Rightarrow> Inl e
      | Inr v \<Rightarrow> (case parseRows rs of Inl e \<Rightarrow> Inl e | Inr vs \<Rightarrow> Inr (v # vs)))"

definition ensureRecordInstance :: "'r credoFramework \<Rightarrow> 'r option \<Rightarrow> recordClass \<Rightarrow> 'r option" where
  "ensureRecordInstance fw inst c =
     (case inst of
        None \<Rightarrow> None
      | Some r \<Rightarrow> if hasClone fw r then Some r else fromJSON fw (Some (toJSON fw r)) c)"

definition revive :: "'r credoFramework \<Rightarrow> recordClass \<Rightarrow> json \<Rightarrow> 'r option" where
  "revive fw c stored = ensureRecordInstance fw (fromJSON fw (jsonField ''data'' stored) c) c"

definition reviveAll :: "'r credoFramework \<Rightarrow> recordClass \<Rightarrow> json list \<Rightarrow> 'r list" where
  "reviveAll fw c stored = List.map_filter (revive fw c) stored"

definition ofSum :: "'e + 'a \<Rightarrow> ('s, 'e, 'a) op" where
  "ofSum v = (case v of Inl e \<Rightarrow> throw e | Inr a \<Rightarrow> ret a)"

section \<open>Initialisation\<close>

text \<open>
  The \<open>DDL\<close> statements only matter by how they fail. The version record is seeded in the wallet
  of the process; its text is a parameter, because it holds the time.
\<close>

definition seedStorageVersionRecord ::
  "queryFaults \<Rightarrow> recordRow \<Rightarrow> (recordDb, recordError, unit) op" where
  "seedStorageVersionRecord F seed = pgQuery F (\<lambda>s.
     (Inr (), if \<exists>r\<in>set (rd_rows s). keyIs (rr_type seed) (rr_id seed) r then s
              else s\<lparr>rd_rows := rd_rows s @ [seed]\<rparr>))"

definition tolerated :: "recordError \<Rightarrow> bool" where
  "tolerated e \<longleftrightarrow> e = QueryFailed ''42P07'' \<or> e = QueryFailed ''23505''"

definition initializeRecords :: "queryFaults \<Rightarrow> recordRow \<Rightarrow> (recordDb, recordError, unit) op" where
  "initializeRecords F seed =
     andThen (catching (pgQuery F (ret ())) (\<lambda>e. if tolerated e then ret () else throw e)) (\<lambda>_.
     andThen (pgQuery F (ret ())) (\<lambda>_.
     andThen (pgQuery F (ret ())) (\<lambda>_.
     andThen (pgQuery F (ret ())) (\<lambda>_.
     seedStorageVersionRecord F seed))))"

text \<open>\<open>ready\<close>: whatever the last attempt threw is only logged.\<close>

definition recordsReady :: "queryFaults \<Rightarrow> recordRow \<Rightarrow> (int \<Rightarrow> recordDb \<Rightarrow> recordDb) \<Rightarrow> recordDb \<Rightarrow> recordDb" where
  "recordsReady F seed delay s =
     snd (withRetry \<lparr>attempts = 10, baseDelayMs = 2000, maxDelayMs = 15000,
       shouldRetry = Some (\<lambda>e. \<not> tolerated e)\<rparr> delay (initializeRecords F seed) s)"

section \<open>PostgreSQL: one record\<close>

text \<open>\<open>ctx.contextCorrelationId\<close> is the wallet of the tenant.\<close>

definition pgSave :: "queryFaults \<Rightarrow> 'r credoFramework \<Rightarrow> string \<Rightarrow> 'r \<Rightarrow> (recordDb, recordError, unit) op" where
  "pgSave F fw wallet r =
     (let st = buildStoredRecord fw r in
      pgQuery F (\<lambda>s. (Inr (), s\<lparr>rd_rows :=
        (if \<exists>x\<in>set (rd_rows s). keyIs (st_type st) (st_id st) x
         then updateWhere (keyIs (st_type st) (st_id st)) (\<lambda>x. x\<lparr>rr_data := storedText st\<rparr>) (rd_rows s)
         else rd_rows s @ [\<lparr>rr_type = st_type st, rr_id = st_id st, rr_wallet_id = wallet,
           rr_data = storedText st\<rparr>])\<rparr>)))"

definition pgUpdate :: "queryFaults \<Rightarrow> 'r credoFramework \<Rightarrow> string \<Rightarrow> 'r \<Rightarrow> (recordDb, recordError, unit) op" where
  "pgUpdate F fw wallet r =
     (let st = buildStoredRecord fw r in
      pgQuery F (\<lambda>s. (Inr (), s\<lparr>rd_rows :=
        updateWhere (ownedKeyIs (st_type st) (st_id st) wallet) (\<lambda>x. x\<lparr>rr_data := storedText st\<rparr>)
          (rd_rows s)\<rparr>)))"

definition pgDelete :: "queryFaults \<Rightarrow> 'r credoFramework \<Rightarrow> string \<Rightarrow> 'r \<Rightarrow> (recordDb, recordError, unit) op" where
  "pgDelete F fw wallet r = pgQuery F (\<lambda>s. (Inr (), s\<lparr>rd_rows :=
     deleteWhere (ownedKeyIs (typeOf (classOf fw r)) (idOf fw r) wallet) (rd_rows s)\<rparr>))"

text \<open>
  The type of a class is compared as it is: SQL's null, which equals nothing, when it has none.
\<close>

definition whereType :: "recordClass \<Rightarrow> (string \<Rightarrow> recordRow \<Rightarrow> bool) \<Rightarrow> recordRow \<Rightarrow> bool" where
  "whereType c P r = (case rc_type c of None \<Rightarrow> False | Some t \<Rightarrow> P t r)"

definition pgDeleteById ::
  "queryFaults \<Rightarrow> string \<Rightarrow> recordClass \<Rightarrow> string \<Rightarrow> (recordDb, recordError, unit) op" where
  "pgDeleteById F wallet c i = pgQuery F (\<lambda>s. (Inr (), s\<lparr>rd_rows :=
     deleteWhere (whereType c (\<lambda>t. ownedKeyIs t i wallet)) (rd_rows s)\<rparr>))"

definition pgGetById ::
  "queryFaults \<Rightarrow> 'r credoFramework \<Rightarrow> string \<Rightarrow> recordClass \<Rightarrow> string \<Rightarrow>
    (recordDb, recordError, 'r option) op" where
  "pgGetById F fw wallet c i =
     andThen (pgQuery F (gets (\<lambda>s. filter (whereType c (\<lambda>t. ownedKeyIs t i wallet)) (rd_rows s)))) (\<lambda>rows.
     case rows of
       [] \<Rightarrow> ret None
     | r # _ \<Rightarrow> andThen (ofSum (parseRow r)) (\<lambda>stored. ret (revive fw c stored)))"

section \<open>PostgreSQL: lists\<close>

text \<open>\<open>data::jsonb ->> 'createdAt'\<close>: SQL's null when it is missing or \<open>null\<close>.\<close>

definition createdText :: "recordRow \<Rightarrow> string option" where
  "createdText r =
     (case jsonParse (rr_data r) of
        None \<Rightarrow> None
      | Some v \<Rightarrow> (case jsonField ''createdAt'' v of
          None \<Rightarrow> None | Some JNull \<Rightarrow> None | Some (JStr t) \<Rightarrow> Some t | Some w \<Rightarrow> Some (stringify w)))"

text \<open>
  \<open>ORDER BY createdAt DESC NULLS LAST, id ASC\<close>, by the collation of the database.
\<close>

type_synonym collation = "string \<Rightarrow> string \<Rightarrow> bool"

definition rowLe :: "collation \<Rightarrow> recordRow \<Rightarrow> recordRow \<Rightarrow> bool" where
  "rowLe le a b =
     (case (createdText a, createdText b) of
        (Some x, Some y) \<Rightarrow> if x = y then le (rr_id a) (rr_id b) else le y x
      | (Some _, None) \<Rightarrow> True
      | (None, Some _) \<Rightarrow> False
      | (None, None) \<Rightarrow> le (rr_id a) (rr_id b))"

fun insertBy :: "('a \<Rightarrow> 'a \<Rightarrow> bool) \<Rightarrow> 'a \<Rightarrow> 'a list \<Rightarrow> 'a list" where
  "insertBy le x [] = [x]"
| "insertBy le x (y # ys) = (if le x y then x # y # ys else y # insertBy le x ys)"

definition sortBy :: "('a \<Rightarrow> 'a \<Rightarrow> bool) \<Rightarrow> 'a list \<Rightarrow> 'a list" where
  "sortBy le xs = foldr (insertBy le) xs []"

definition slice :: "int \<Rightarrow> int \<Rightarrow> 'a list \<Rightarrow> 'a list" where
  "slice offset limit xs = take (nat limit) (drop (nat offset) xs)"

definition pageOf :: "recordsPageOptions \<Rightarrow> 'a list \<Rightarrow> 'a list" where
  "pageOf opts xs = slice ((po_page opts - 1) * po_limit opts) (po_limit opts) xs"

text \<open>
  A cast to \<open>jsonb\<close> fails on a text that is not JSON, and \<open>OFFSET\<close> is a 64-bit integer.
\<close>

definition castable :: "recordRow \<Rightarrow> bool" where
  "castable r \<longleftrightarrow> jsonParse (rr_data r) \<noteq> None"

definition offsetOf :: "recordsPageOptions \<Rightarrow> int" where
  "offsetOf opts = (po_page opts - 1) * po_limit opts"

definition selectPage ::
  "collation \<Rightarrow> (recordRow \<Rightarrow> bool) \<Rightarrow> (recordRow \<Rightarrow> bool) \<Rightarrow> recordsPageOptions option \<Rightarrow>
    (recordDb, recordError, recordRow list) op" where
  "selectPage le tenant cond page = (\<lambda>s.
     let candidates = filter tenant (rd_rows s);
         found = sortBy (rowLe le) (filter cond candidates)
     in if \<not> list_all castable candidates then (Inl (QueryFailed ''22P02''), s)
        else case page of
          None \<Rightarrow> (Inr found, s)
        | Some opts \<Rightarrow> if 2 ^ 63 \<le> offsetOf opts then (Inl (QueryFailed ''22003''), s)
                       else (Inr (pageOf opts found), s))"

text \<open>\<open>SELECT COUNT(*)\<close>, which casts only when there is a condition on the tags.\<close>

definition selectCount ::
  "(recordRow \<Rightarrow> bool) \<Rightarrow> (recordRow \<Rightarrow> bool) option \<Rightarrow> (recordDb, recordError, int) op" where
  "selectCount tenant cond = (\<lambda>s.
     let candidates = filter tenant (rd_rows s) in
     case cond of
       None \<Rightarrow> (Inr (int (length candidates)), s)
     | Some P \<Rightarrow> if list_all castable candidates then (Inr (int (length (filter P candidates))), s)
                 else (Inl (QueryFailed ''22P02''), s))"

definition pgGetAll ::
  "queryFaults \<Rightarrow> 'r credoFramework \<Rightarrow> string \<Rightarrow> recordClass \<Rightarrow> (recordDb, recordError, 'r list) op" where
  "pgGetAll F fw wallet c =
     andThen (pgQuery F (gets (\<lambda>s. filter (whereType c (\<lambda>t. ofTenant t wallet)) (rd_rows s)))) (\<lambda>rows.
     andThen (ofSum (parseRows rows)) (\<lambda>stored. ret (reviveAll fw c stored)))"

definition pgGetAllPaginated ::
  "queryFaults \<Rightarrow> collation \<Rightarrow> 'r credoFramework \<Rightarrow> string \<Rightarrow> recordClass \<Rightarrow> recordsPageOptions \<Rightarrow>
    (recordDb, recordError, 'r paginatedRecords) op" where
  "pgGetAllPaginated F le fw wallet c opts =
     (let tenant = whereType c (\<lambda>t. ofTenant t wallet) in
      andThen (pgQuery F (selectCount tenant None)) (\<lambda>count.
      andThen (pgQuery F (selectPage le tenant (\<lambda>_. True) (Some opts))) (\<lambda>rows.
      andThen (ofSum (parseRows rows)) (\<lambda>stored.
      ret \<lparr>pr_items = reviveAll fw c stored,
        pr_pagination = buildRecordsPageMeta count (po_page opts) (po_limit opts)\<rparr>))))"

section \<open>PostgreSQL: queries\<close>

definition storedTags :: "recordRow \<Rightarrow> (string \<times> json) list" where
  "storedTags r =
     (case jsonParse (rr_data r) of
        Some v \<Rightarrow> (case jsonField ''tags'' v of Some (JObj kvs) \<Rightarrow> rev kvs | _ \<Rightarrow> [])
      | None \<Rightarrow> [])"

definition storedForQueryOf :: "recordRow \<Rightarrow> storedForQuery" where
  "storedForQueryOf r = \<lparr>sq_id = rr_id r, sq_tags = storedTags r\<rparr>"

text \<open>The parameters of the page follow those of the condition.\<close>

definition pageParams :: "recordsPageOptions option \<Rightarrow> sqlParam list" where
  "pageParams page =
     (case page of None \<Rightarrow> [] | Some o' \<Rightarrow> [PValue (JNum (po_limit o')), PValue (JNum (offsetOf o'))])"

definition selectStoredByTagQuery ::
  "queryFaults \<Rightarrow> collation \<Rightarrow> jsonbOps \<Rightarrow> string \<Rightarrow> recordClass \<Rightarrow> recordQuery \<Rightarrow>
    recordsPageOptions option \<Rightarrow> (recordDb, recordError, json list \<times> int) op" where
  "selectStoredByTagQuery F le J wallet c q page =
     (case buildTagQuerySql q 3 of
        None \<Rightarrow> throw NotAnObject
      | Some sql \<Rightarrow>
          (let tenant = whereType c (\<lambda>t. ofTenant t wallet);
               base = [PText (typeOf c), PText wallet] @ tq_params sql;
               holds = (\<lambda>ps r. holdsQuery J ps (storedForQueryOf r) (tq_conditions sql))
           in andThen (pgQuery F (selectCount tenant (Some (holds base)))) (\<lambda>count.
              andThen (pgQuery F (selectPage le tenant (holds (base @ pageParams page)) page)) (\<lambda>rows.
              andThen (ofSum (parseRows rows)) (\<lambda>items. ret (items, count))))))"

text \<open>
  \<open>Date.parse\<close> of the only form the framework writes, \<open>YYYY-MM-DDTHH:mm:ss.sssZ\<close>; of any other
  text it counts as \<open>NaN\<close>.
\<close>

definition daysFromCivil :: "int \<Rightarrow> int \<Rightarrow> int \<Rightarrow> int" where
  "daysFromCivil y m d =
     (let y' = (if m \<le> 2 then y - 1 else y); yoe = y' mod 400;
          doy = (153 * (if 2 < m then m - 3 else m + 9) + 2) div 5 + d - 1;
          doe = yoe * 365 + yoe div 4 - yoe div 100 + doy
      in y' div 400 * 146097 + doe - 719468)"

definition dateParse :: "string \<Rightarrow> millis option" where
  "dateParse s =
     (let part = (\<lambda>i n. int (decimal (take n (drop i s))));
          digits = [0, 1, 2, 3, 5, 6, 8, 9, 11, 12, 14, 15, 17, 18, 20, 21, 22]
      in if length s = 24 \<and> list_all (\<lambda>i. isDigit (s ! i)) digits \<and>
            s ! 4 = CHR ''-'' \<and> s ! 7 = CHR ''-'' \<and> s ! 10 = CHR ''T'' \<and> s ! 13 = CHR '':'' \<and>
            s ! 16 = CHR '':'' \<and> s ! 19 = CHR ''.'' \<and> s ! 23 = CHR ''Z'' \<and>
            1 \<le> part 5 2 \<and> part 5 2 \<le> 12 \<and> 1 \<le> part 8 2 \<and> part 8 2 \<le> 31 \<and>
            part 11 2 < 24 \<and> part 14 2 < 60 \<and> part 17 2 < 60
         then Some (((daysFromCivil (part 0 4) (part 5 2) (part 8 2) * 24 + part 11 2) * 60 + part 14 2) *
             60000 + part 17 2 * 1000 + part 20 3)
         else None)"

definition parseDate :: "json option \<Rightarrow> millis" where
  "parseDate v =
     (case v of
        Some (JStr t) \<Rightarrow> if t = [] then 0 else (case dateParse t of None \<Rightarrow> 0 | Some ms \<Rightarrow> ms)
      | _ \<Rightarrow> 0)"

text \<open>\<open>s?.k != null\<close>.\<close>

definition hasField :: "string \<Rightarrow> json \<Rightarrow> bool" where
  "hasField k s \<longleftrightarrow> \<not> nullishJson (jsonField k s)"

definition isOobRecipientQuery :: "recordClass \<Rightarrow> recordQuery \<Rightarrow> bool" where
  "isOobRecipientQuery c q \<longleftrightarrow>
     rc_type c = Some ''OutOfBandRecord'' \<and>
     (case map_of q ''$or'' of
        Some (JArr bs) \<Rightarrow>
          list_ex (\<lambda>s. hasField ''recipientKeyFingerprints'' s \<or> hasField ''recipientRoutingKeyFingerprint'' s) bs
      | _ \<Rightarrow> False)"

definition applyOutOfBandRecipientDedup ::
  "('i \<Rightarrow> millis) \<Rightarrow> recordClass \<Rightarrow> recordQuery \<Rightarrow> 'i list \<Rightarrow> 'i list" where
  "applyOutOfBandRecipientDedup date c q items =
     (if \<not> isOobRecipientQuery c q \<or> length items \<le> 1 then items
      else take 1 (sortBy (\<lambda>a b. date b \<le> date a) items))"

definition findAllByQueryUnpaginated ::
  "queryFaults \<Rightarrow> collation \<Rightarrow> jsonbOps \<Rightarrow> string \<Rightarrow> recordClass \<Rightarrow> recordQuery \<Rightarrow>
    (recordDb, recordError, json list) op" where
  "findAllByQueryUnpaginated F le J wallet c q =
     andThen (selectStoredByTagQuery F le J wallet c q None) (\<lambda>(items, _).
     ret (applyOutOfBandRecipientDedup (\<lambda>v. parseDate (jsonField ''createdAt'' v)) c q items))"

definition pgFindByQuery ::
  "queryFaults \<Rightarrow> collation \<Rightarrow> jsonbOps \<Rightarrow> 'r credoFramework \<Rightarrow> string \<Rightarrow> recordClass \<Rightarrow> recordQuery \<Rightarrow>
    (recordDb, recordError, 'r list) op" where
  "pgFindByQuery F le J fw wallet c q =
     andThen (findAllByQueryUnpaginated F le J wallet c q) (\<lambda>stored. ret (reviveAll fw c stored))"

definition pgFindByQueryPaginated ::
  "queryFaults \<Rightarrow> collation \<Rightarrow> jsonbOps \<Rightarrow> 'r credoFramework \<Rightarrow> string \<Rightarrow> recordClass \<Rightarrow> recordQuery \<Rightarrow>
    recordsPageOptions \<Rightarrow> (recordDb, recordError, 'r paginatedRecords) op" where
  "pgFindByQueryPaginated F le J fw wallet c q opts =
     andThen (selectStoredByTagQuery F le J wallet c q (Some opts)) (\<lambda>(stored, count).
     ret \<lparr>pr_items = reviveAll fw c stored,
       pr_pagination = buildRecordsPageMeta count (po_page opts) (po_limit opts)\<rparr>)"

end
