(* ===== verification/RecordPort.thy ===== *)
theory RecordPort
  imports RecordStores
begin

text \<open>
  The Askar adapter (\<^verbatim>\<open>record/askar-record.storage.ts\<close>), the port of
  \<^verbatim>\<open>record-storage.interface.ts\<close> as an object whose methods may be missing
  (\<^verbatim>\<open>record-storage.guards.ts\<close>, \<^verbatim>\<open>record-storage.resolve.ts\<close>), its client
  \<^verbatim>\<open>tenant-records.ts\<close>, and the contract between them as a locale that both adapters
  interpret.
\<close>

section \<open>Askar\<close>

text \<open>The storage service of the framework, for the store of a context; a created date or text.\<close>

record ('s, 'r) askarService =
  as_save :: "string \<Rightarrow> 'r \<Rightarrow> ('s, recordError, unit) op"
  as_update :: "string \<Rightarrow> 'r \<Rightarrow> ('s, recordError, unit) op"
  as_delete :: "string \<Rightarrow> 'r \<Rightarrow> ('s, recordError, unit) op"
  as_deleteById :: "string \<Rightarrow> recordClass \<Rightarrow> string \<Rightarrow> ('s, recordError, unit) op"
  as_getById :: "string \<Rightarrow> recordClass \<Rightarrow> string \<Rightarrow> ('s, recordError, 'r) op"
  as_getAll :: "string \<Rightarrow> recordClass \<Rightarrow> ('s, recordError, 'r list) op"
  as_findByQuery :: "string \<Rightarrow> recordClass \<Rightarrow> recordQuery \<Rightarrow> ('s, recordError, 'r list) op"
  as_createdAt :: "'r \<Rightarrow> (millis + string) option"

definition askarGetById ::
  "('s, 'r) askarService \<Rightarrow> string \<Rightarrow> recordClass \<Rightarrow> string \<Rightarrow> ('s, recordError, 'r option) op" where
  "askarGetById A wallet c i =
     catching (andThen (as_getById A wallet c i) (\<lambda>r. ret (Some r)))
       (\<lambda>e. if e = RecordNotFound then ret None else throw e)"

definition askarGetAll ::
  "('s, 'r) askarService \<Rightarrow> string \<Rightarrow> recordClass \<Rightarrow> ('s, recordError, 'r list) op" where
  "askarGetAll A = as_getAll A"

definition inMemoryPage :: "recordsPageOptions \<Rightarrow> 'r list \<Rightarrow> 'r paginatedRecords" where
  "inMemoryPage opts all =
     (let offset = (po_page opts - 1) * po_limit opts
      in \<lparr>pr_items = slice offset (po_limit opts) all,
          pr_pagination = buildRecordsPageMeta (int (length all)) (po_page opts) (po_limit opts)\<rparr>)"

definition askarGetAllPaginated ::
  "('s, 'r) askarService \<Rightarrow> string \<Rightarrow> recordClass \<Rightarrow> recordsPageOptions \<Rightarrow>
    ('s, recordError, 'r paginatedRecords) op" where
  "askarGetAllPaginated A wallet c opts =
     andThen (askarGetAll A wallet c) (\<lambda>all. ret (inMemoryPage opts all))"

definition askarParseDate :: "(millis + string) option \<Rightarrow> millis" where
  "askarParseDate v =
     (case v of None \<Rightarrow> 0 | Some (Inl ms) \<Rightarrow> ms | Some (Inr t) \<Rightarrow> parseDate (Some (JStr t)))"

definition askarFindByQuery ::
  "('s, 'r) askarService \<Rightarrow> string \<Rightarrow> recordClass \<Rightarrow> recordQuery \<Rightarrow> ('s, recordError, 'r list) op" where
  "askarFindByQuery A wallet c q =
     andThen (as_findByQuery A wallet c q) (\<lambda>items.
     ret (applyOutOfBandRecipientDedup (\<lambda>r. askarParseDate (as_createdAt A r)) c q items))"

definition askarFindByQueryPaginated ::
  "('s, 'r) askarService \<Rightarrow> string \<Rightarrow> recordClass \<Rightarrow> recordQuery \<Rightarrow> recordsPageOptions \<Rightarrow>
    ('s, recordError, 'r paginatedRecords) op" where
  "askarFindByQueryPaginated A wallet c q opts =
     andThen (askarFindByQuery A wallet c q) (\<lambda>all. ret (inMemoryPage opts all))"

section \<open>The port\<close>

text \<open>The object registered in the agent, with the methods that \<open>isRecordStorage\<close> looks for.\<close>

record ('s, 'r) storageObject =
  so_getById :: "(string \<Rightarrow> recordClass \<Rightarrow> string \<Rightarrow> ('s, recordError, 'r option) op) option"
  so_getAllPaginated ::
    "(string \<Rightarrow> recordClass \<Rightarrow> recordsPageOptions \<Rightarrow> ('s, recordError, 'r paginatedRecords) op) option"
  so_findByQueryPaginated ::
    "(string \<Rightarrow> recordClass \<Rightarrow> recordQuery \<Rightarrow> recordsPageOptions \<Rightarrow>
      ('s, recordError, 'r paginatedRecords) op) option"

record ('s, 'r) recordPort =
  rp_getById :: "string \<Rightarrow> recordClass \<Rightarrow> string \<Rightarrow> ('s, recordError, 'r option) op"
  rp_getAllPaginated ::
    "string \<Rightarrow> recordClass \<Rightarrow> recordsPageOptions \<Rightarrow> ('s, recordError, 'r paginatedRecords) op"
  rp_findByQueryPaginated ::
    "string \<Rightarrow> recordClass \<Rightarrow> recordQuery \<Rightarrow> recordsPageOptions \<Rightarrow>
      ('s, recordError, 'r paginatedRecords) op"

definition isRecordStorage :: "('s, 'r) storageObject option \<Rightarrow> ('s, 'r) recordPort option" where
  "isRecordStorage storage =
     (case storage of
        None \<Rightarrow> None
      | Some o' \<Rightarrow>
          (case (so_getById o', so_getAllPaginated o', so_findByQueryPaginated o') of
             (Some g, Some a, Some q) \<Rightarrow>
               Some \<lparr>rp_getById = g, rp_getAllPaginated = a, rp_findByQueryPaginated = q\<rparr>
           | _ \<Rightarrow> None))"

record ('s, 'r) tenantAgent =
  ta_storage :: "('s, 'r) storageObject option"
  ta_wallet :: string

definition resolveRecordStorage :: "('s, 'r) tenantAgent \<Rightarrow> recordError + ('s, 'r) recordPort" where
  "resolveRecordStorage ag =
     (case isRecordStorage (ta_storage ag) of None \<Rightarrow> Inl CapabilityMissing | Some p \<Rightarrow> Inr p)"

section \<open>Listing and reading the records of a tenant\<close>

record listTenantRecordsOptions =
  lo_query :: "recordQuery option"
  lo_page :: "rat option"
  lo_limit :: "rat option"

record listTenantRecordsResult =
  lr_type :: "string option"
  lr_pagination :: recordsPageMeta
  lr_records :: "json list"

record tenantRecordResult =
  tr_type :: "string option"
  tr_id :: string
  tr_record :: json

definition classFor :: "credoClasses \<Rightarrow> quarkAgentRole \<Rightarrow> string \<Rightarrow> recordError + recordClass" where
  "classFor credo role recordType =
     (case resolveRecordClass credo role recordType of Inl u \<Rightarrow> Inl (UnknownType u) | Inr c \<Rightarrow> Inr c)"

definition listTenantRecords ::
  "credoClasses \<Rightarrow> 'r credoFramework \<Rightarrow> ('s, 'r) tenantAgent \<Rightarrow> quarkAgentRole \<Rightarrow> string \<Rightarrow>
    listTenantRecordsOptions \<Rightarrow> ('s, recordError, listTenantRecordsResult) op" where
  "listTenantRecords credo fw ag role recordType options =
     andThen (ofSum (classFor credo role recordType)) (\<lambda>c.
     andThen (ofSum (resolveRecordStorage ag)) (\<lambda>storage.
     let tagQuery = (case lo_query options of None \<Rightarrow> [] | Some q \<Rightarrow> q);
         pageOptions = normalizeRecordsPageOptions (lo_page options) (lo_limit options);
         hasQuery = (0 < length tagQuery)
     in andThen (if hasQuery then rp_findByQueryPaginated storage (ta_wallet ag) c tagQuery pageOptions
                 else rp_getAllPaginated storage (ta_wallet ag) c pageOptions) (\<lambda>paginated.
        ret \<lparr>lr_type = rc_type c, lr_pagination = pr_pagination paginated,
          lr_records = map (toJSON fw) (pr_items paginated)\<rparr>)))"

definition getTenantRecord ::
  "credoClasses \<Rightarrow> 'r credoFramework \<Rightarrow> ('s, 'r) tenantAgent \<Rightarrow> quarkAgentRole \<Rightarrow> string \<Rightarrow> string \<Rightarrow>
    ('s, recordError, tenantRecordResult option) op" where
  "getTenantRecord credo fw ag role recordType recordId =
     andThen (ofSum (classFor credo role recordType)) (\<lambda>c.
     andThen (ofSum (resolveRecordStorage ag)) (\<lambda>storage.
     andThen (rp_getById storage (ta_wallet ag) c recordId) (\<lambda>found.
     case found of
       None \<Rightarrow> ret None
     | Some r \<Rightarrow> ret (Some \<lparr>tr_type = rc_type c, tr_id = recordId, tr_record = toJSON fw r\<rparr>))))"

text \<open>The two adapters as the object registered in the agent.\<close>

definition postgresRecordStorage ::
  "queryFaults \<Rightarrow> collation \<Rightarrow> jsonbOps \<Rightarrow> 'r credoFramework \<Rightarrow> (recordDb, 'r) storageObject" where
  "postgresRecordStorage F le J fw =
     \<lparr>so_getById = Some (pgGetById F fw), so_getAllPaginated = Some (pgGetAllPaginated F le fw),
      so_findByQueryPaginated = Some (pgFindByQueryPaginated F le J fw)\<rparr>"

definition askarRecordStorage :: "('s, 'r) askarService \<Rightarrow> ('s, 'r) storageObject" where
  "askarRecordStorage A =
     \<lparr>so_getById = Some (askarGetById A), so_getAllPaginated = Some (askarGetAllPaginated A),
      so_findByQueryPaginated = Some (askarFindByQueryPaginated A)\<rparr>"

section \<open>Pages\<close>

text \<open>The pages of a list, in order, are the list.\<close>

lemma slice_next:
  assumes "0 \<le> offset" "0 \<le> limit"
  shows "take (nat offset) xs @ slice offset limit xs = take (nat (offset + limit)) xs"
  using assms by (simp add: slice_def nat_add_distrib take_add)

definition pageNumber :: "int \<Rightarrow> int \<Rightarrow> recordsPageOptions" where
  "pageNumber limit p = \<lparr>po_page = p, po_limit = limit\<rparr>"

lemma pages_prefix:
  assumes "0 < limit"
  shows "concat (map (\<lambda>p. pageOf (pageNumber limit (int p)) xs) [1..<Suc n]) = take (nat (int n * limit)) xs"
proof (induction n)
  case (Suc n)
  have "take (nat (int n * limit)) xs @ slice (int n * limit) limit xs = take (nat (int n * limit + limit)) xs"
    using assms by (intro slice_next) simp_all
  with Suc show ?case by (simp add: pageOf_def pageNumber_def algebra_simps)
qed simp

definition pageCount :: "'a list \<Rightarrow> int \<Rightarrow> nat" where
  "pageCount xs limit = nat (pm_totalPages (buildRecordsPageMeta (int (length xs)) 1 limit))"

lemma pageCount_enough:
  assumes "0 < limit"
  shows "int (length xs) \<le> int (pageCount xs limit) * limit"
proof (cases "xs = []")
  case False
  have pos: "(0 :: rat) < of_int limit" using assms by simp
  have "of_int (int (length xs)) / of_int limit \<le> (of_int \<lceil>of_int (int (length xs)) / (of_int limit :: rat)\<rceil> :: rat)"
    by (rule le_of_int_ceiling)
  then have "of_int (int (length xs)) \<le> (of_int (\<lceil>of_int (int (length xs)) / (of_int limit :: rat)\<rceil> * limit) :: rat)"
    by (simp only: pos_divide_le_eq [OF pos] of_int_mult)
  then have "int (length xs) \<le> \<lceil>of_int (int (length xs)) / (of_int limit :: rat)\<rceil> * limit"
    by (simp only: of_int_le_iff)
  moreover have "0 \<le> \<lceil>of_int (int (length xs)) / (of_int limit :: rat)\<rceil>"
    using assms by (simp add: less_le_trans [of _ 0])
  ultimately show ?thesis using False by (simp add: pageCount_def buildRecordsPageMeta_def Let_def)
qed (simp add: pageCount_def buildRecordsPageMeta_def)

lemma pages_all:
  assumes "0 < limit"
  shows "concat (map (\<lambda>p. pageOf (pageNumber limit (int p)) xs) [1..<Suc (pageCount xs limit)]) = xs"
  unfolding pages_prefix [OF assms] using pageCount_enough [OF assms, of xs] by simp

lemma pageOf_map: "pageOf opts (map f xs) = map f (pageOf opts xs)"
  by (simp add: pageOf_def slice_def take_map drop_map)

lemma map_filter_concat: "List.map_filter f (concat xss) = concat (map (List.map_filter f) xss)"
  by (induction xss) (simp_all add: List.map_filter_def)

section \<open>The contract\<close>

text \<open>
  What the client needs: in every state each type of record of a wallet is a list, some of whose
  entries cannot be revived, and what comes back is the page asked for of it, with the numbers
  of the whole list.
\<close>

definition isPage :: "recordsPageOptions \<Rightarrow> 'r option list \<Rightarrow> 'r paginatedRecords \<Rightarrow> bool" where
  "isPage opts all page \<longleftrightarrow>
     pr_items page = List.map_filter id (pageOf opts all) \<and>
     pr_pagination page = buildRecordsPageMeta (int (length all)) (po_page opts) (po_limit opts)"

definition agentOver where
  "agentOver getOne allPaginated queryPaginated w =
     \<lparr>ta_storage = Some \<lparr>so_getById = Some getOne, so_getAllPaginated = Some allPaginated,
        so_findByQueryPaginated = Some queryPaginated\<rparr>, ta_wallet = w\<rparr>"

lemma listTenantRecords_run:
  "listTenantRecords credo fw (agentOver g a q w) role recordType options s =
    (case resolveRecordClass credo role recordType of
       Inl u \<Rightarrow> (Inl (UnknownType u), s)
     | Inr c \<Rightarrow>
         andThen ((case lo_query options of Some (e # es) \<Rightarrow> q w c (e # es) | _ \<Rightarrow> a w c)
             (normalizeRecordsPageOptions (lo_page options) (lo_limit options)))
           (\<lambda>page. ret \<lparr>lr_type = rc_type c, lr_pagination = pr_pagination page,
              lr_records = map (toJSON fw) (pr_items page)\<rparr>) s)"
  by (simp add: listTenantRecords_def classFor_def ofSum_def resolveRecordStorage_def isRecordStorage_def
      agentOver_def Let_def split: sum.split option.split list.split)

locale record_storage =
  fixes listing :: "'s \<Rightarrow> string \<Rightarrow> recordClass \<Rightarrow> 'r option list"
    and matching :: "'s \<Rightarrow> string \<Rightarrow> recordClass \<Rightarrow> recordQuery \<Rightarrow> 'r option list"
    and allPaginated :: "string \<Rightarrow> recordClass \<Rightarrow> recordsPageOptions \<Rightarrow>
      ('s, recordError, 'r paginatedRecords) op"
    and queryPaginated :: "string \<Rightarrow> recordClass \<Rightarrow> recordQuery \<Rightarrow> recordsPageOptions \<Rightarrow>
      ('s, recordError, 'r paginatedRecords) op"
  assumes all_law: "allPaginated w c opts s = (Inr page, t) \<Longrightarrow> isPage opts (listing s w c) page"
    and query_law: "queryPaginated w c q opts s = (Inr page, t) \<Longrightarrow> isPage opts (matching s w c q) page"
begin

text \<open>One page of the client.\<close>

lemma listed_page:
  assumes "listTenantRecords credo fw (agentOver getOne allPaginated queryPaginated w) role recordType options s =
      (Inr res, t)"
  shows "\<exists>c. resolveRecordClass credo role recordType = Inr c \<and> lr_type res = rc_type c \<and>
    (let opts = normalizeRecordsPageOptions (lo_page options) (lo_limit options);
         all = (case lo_query options of Some (e # es) \<Rightarrow> matching s w c (e # es) | _ \<Rightarrow> listing s w c)
     in lr_records res = map (toJSON fw) (List.map_filter id (pageOf opts all)) \<and>
       lr_pagination res = buildRecordsPageMeta (int (length all)) (po_page opts) (po_limit opts))"
proof -
  let ?opts = "normalizeRecordsPageOptions (lo_page options) (lo_limit options)"
  from assms obtain c where c: "resolveRecordClass credo role recordType = Inr c"
    and r: "andThen ((case lo_query options of Some (e # es) \<Rightarrow> queryPaginated w c (e # es)
        | _ \<Rightarrow> allPaginated w c) ?opts)
      (\<lambda>page. ret \<lparr>lr_type = rc_type c, lr_pagination = pr_pagination page,
        lr_records = map (toJSON fw) (pr_items page)\<rparr>) s = (Inr res, t)"
    by (auto simp: listTenantRecords_run split: sum.splits)
  from r obtain page u where page: "(case lo_query options of Some (e # es) \<Rightarrow> queryPaginated w c (e # es)
        | _ \<Rightarrow> allPaginated w c) ?opts s = (Inr page, u)"
    and res: "res = \<lparr>lr_type = rc_type c, lr_pagination = pr_pagination page,
        lr_records = map (toJSON fw) (pr_items page)\<rparr>"
    by (auto elim!: andThen_InrE)
  from page have "isPage ?opts
      (case lo_query options of Some (e # es) \<Rightarrow> matching s w c (e # es) | _ \<Rightarrow> listing s w c) page"
    by (auto dest: all_law query_law split: option.splits list.splits)
  with c res show ?thesis by (auto simp: isPage_def Let_def)
qed

text \<open>All the pages: what can be revived of the list, each entry once, in its order.\<close>

lemma listed_pages:
  assumes "resolveRecordClass credo role recordType = Inr c" and "1 \<le> limit" "limit \<le> 100"
    and "\<And>p. p \<in> {1..pageCount all limit} \<Longrightarrow>
      listTenantRecords credo fw (agentOver getOne allPaginated queryPaginated w) role recordType
        \<lparr>lo_query = None, lo_page = Some (of_nat p), lo_limit = Some (of_int limit)\<rparr> (st p) =
        (Inr (res p), st' p) \<and> listing (st p) w c = all"
  shows "concat (map (lr_records \<circ> res) [1..<Suc (pageCount all limit)]) =
    map (toJSON fw) (List.map_filter id all)"
proof -
  have "lr_records (res p) = map (toJSON fw) (List.map_filter id (pageOf (pageNumber limit (int p)) all))"
    if p: "p \<in> set [1..<Suc (pageCount all limit)]" for p
  proof -
    have "normalizeRecordsPageOptions (Some (of_nat p)) (Some (of_int limit)) = pageNumber limit (int p)"
      using assms(2,3) p by (auto simp: normalizeRecordsPageOptions_def pageNumber_def Let_def
          MAX_RECORDS_PAGE_SIZE_def)
    with listed_page [OF conjunct1 [OF assms(4) [of p]]] assms(1) assms(4) [of p] p
    show ?thesis by (auto simp: Let_def)
  qed
  then have "concat (map (lr_records \<circ> res) [1..<Suc (pageCount all limit)]) =
      concat (map (\<lambda>p. map (toJSON fw) (List.map_filter id (pageOf (pageNumber limit (int p)) all)))
        [1..<Suc (pageCount all limit)])"
    by (intro arg_cong [of _ _ concat] map_cong) auto
  also have "\<dots> = map (toJSON fw) (List.map_filter id
        (concat (map (\<lambda>p. pageOf (pageNumber limit (int p)) all) [1..<Suc (pageCount all limit)])))"
    by (simp only: map_filter_concat map_concat map_map comp_def)
  finally show ?thesis using pages_all [of limit all] assms(2) by simp
qed

end

end
