(* ===== verification/RecordHttp.thy ===== *)
theory RecordHttp
  imports RecordPort IssuerHttp
begin

text \<open>
  The records endpoints of issuer, verifier and holder (\<^verbatim>\<open>records/records.controller.ts\<close>,
  \<^verbatim>\<open>records.service.ts\<close>, \<^verbatim>\<open>list-records-query.dto.ts\<close>), which differ only in
  their role, and their composition with the guard of the service. The merge of the metadata
  of issuer and verifier is in \<open>OpenIdServices\<close>.
\<close>

section \<open>Errors\<close>

datatype recordsFailure =
    QueryNotObject
  | QueryNotJson
  | BadListQuery
  | BadRecordType unknownRecordType
  | NoSuchRecord string string
  | RecordsFailed recordError
  | GuardRefused guardFailure

text \<open>\<open>NotFoundException\<close> is 404, \<open>BadRequestException\<close> 400, any other error 500.\<close>

fun recordsStatus :: "recordsFailure \<Rightarrow> nat" where
  "recordsStatus QueryNotObject = 400"
| "recordsStatus QueryNotJson = 400"
| "recordsStatus BadListQuery = 400"
| "recordsStatus (BadRecordType _) = 400"
| "recordsStatus (NoSuchRecord _ _) = 404"
| "recordsStatus (RecordsFailed (NoWallet _)) = 404"
| "recordsStatus (RecordsFailed _) = 500"
| "recordsStatus (GuardRefused g) = guardStatus g"

section \<open>The service\<close>

definition parseQuery :: "string option \<Rightarrow> recordsFailure + recordQuery" where
  "parseQuery queryJson =
     (case queryJson of
        None \<Rightarrow> Inr []
      | Some t \<Rightarrow>
          if t = [] then Inr []
          else (case jsonParse t of
                  None \<Rightarrow> Inl QueryNotJson
                | Some (JObj kvs) \<Rightarrow> Inr (case entriesOf (JObj kvs) of None \<Rightarrow> [] | Some es \<Rightarrow> es)
                | Some _ \<Rightarrow> Inl QueryNotObject))"

definition inWallet ::
  "('s, 'r) tenantAgent agentStore \<Rightarrow> string \<Rightarrow> (('s, 'r) tenantAgent \<Rightarrow> ('s, recordError, 'a) op) \<Rightarrow>
    ('s, recordError, 'a) op" where
  "inWallet A walletId callback =
     (case rootAgent A of
        None \<Rightarrow> throw NoRootAgent
      | Some openTenant \<Rightarrow>
          (case tenantMap A walletId of
             None \<Rightarrow> throw (NoWallet walletId)
           | Some tenantId \<Rightarrow>
               if tenantId = [] then throw (NoWallet walletId)
               else (case openTenant tenantId of Inl m \<Rightarrow> throw (TenantFailed m) | Inr ag \<Rightarrow> callback ag)))"

text \<open>\<open>rethrowRecordError\<close>, on the errors of the core.\<close>

definition rethrowRecordError :: "recordError \<Rightarrow> recordsFailure" where
  "rethrowRecordError e = (case e of UnknownType u \<Rightarrow> BadRecordType u | _ \<Rightarrow> RecordsFailed e)"

definition rethrown :: "('s, recordError, 'a) op \<Rightarrow> ('s, recordsFailure, 'a) op" where
  "rethrown m = (\<lambda>s. case m s of (Inl e, s') \<Rightarrow> (Inl (rethrowRecordError e), s') | (Inr a, s') \<Rightarrow> (Inr a, s'))"

definition getTypes :: "quarkAgentRole \<Rightarrow> quarkAgentRole \<times> recordTypeDescriptor list" where
  "getTypes role = (role, getRecordTypeDescriptors role)"

definition listRecords ::
  "credoClasses \<Rightarrow> 'r credoFramework \<Rightarrow> ('s, 'r) tenantAgent agentStore \<Rightarrow> quarkAgentRole \<Rightarrow> string \<Rightarrow> string \<Rightarrow>
    string option \<Rightarrow> int option \<Rightarrow> int option \<Rightarrow> ('s, recordsFailure, listTenantRecordsResult) op" where
  "listRecords credo fw A role walletId recordType queryJson page limit =
     andThen (ofSum (parseQuery queryJson)) (\<lambda>query.
     rethrown (inWallet A walletId (\<lambda>ag.
       listTenantRecords credo fw ag role recordType
         \<lparr>lo_query = Some query, lo_page = map_option of_int page, lo_limit = map_option of_int limit\<rparr>)))"

definition getRecord ::
  "credoClasses \<Rightarrow> 'r credoFramework \<Rightarrow> ('s, 'r) tenantAgent agentStore \<Rightarrow> quarkAgentRole \<Rightarrow> string \<Rightarrow> string \<Rightarrow>
    string \<Rightarrow> ('s, recordsFailure, tenantRecordResult) op" where
  "getRecord credo fw A role walletId recordType recordId =
     andThen (rethrown (inWallet A walletId (\<lambda>ag. getTenantRecord credo fw ag role recordType recordId)))
       (\<lambda>result. orThrow result (NoSuchRecord recordId recordType))"

section \<open>The controller\<close>

text \<open>A parameter of the query of a request: one text or several.\<close>

datatype queryParam = OneText string | ManyTexts "string list"

record listRecordsQueryDto =
  lq_type :: string
  lq_query :: "string option"
  lq_page :: "int option"
  lq_limit :: "int option"

definition textParam :: "queryParam \<Rightarrow> string option" where
  "textParam p = (case p of OneText t \<Rightarrow> Some t | ManyTexts _ \<Rightarrow> None)"

definition pageParam :: "(int \<Rightarrow> bool) \<Rightarrow> queryParam option \<Rightarrow> int option option" where
  "pageParam ok p =
     (case p of
        None \<Rightarrow> Some None
      | Some (ManyTexts _) \<Rightarrow> None
      | Some (OneText t) \<Rightarrow>
          (case textNumber t of None \<Rightarrow> None | Some n \<Rightarrow> if ok n then Some (Some n) else None))"

definition ListRecordsQueryDto :: "(string \<rightharpoonup> queryParam) \<Rightarrow> listRecordsQueryDto option" where
  "ListRecordsQueryDto params =
     (case Option.bind (params ''type'') textParam of
        None \<Rightarrow> None
      | Some t \<Rightarrow>
          (case (case params ''query'' of None \<Rightarrow> Some None | Some p \<Rightarrow> map_option Some (textParam p)) of
             None \<Rightarrow> None
           | Some q \<Rightarrow>
               (case (pageParam (\<lambda>n. 1 \<le> n) (params ''page''),
                      pageParam (\<lambda>n. 1 \<le> n \<and> n \<le> MAX_RECORDS_PAGE_SIZE) (params ''limit'')) of
                  (Some pg, Some lm) \<Rightarrow> Some \<lparr>lq_type = t, lq_query = q, lq_page = pg, lq_limit = lm\<rparr>
                | _ \<Rightarrow> None)))"

datatype recordsCall =
    ListTypes string
  | ListRecords string "string \<rightharpoonup> queryParam"
  | GetRecord string string string

datatype recordsReply =
    TypesReply quarkAgentRole "recordTypeDescriptor list"
  | ListReply listTenantRecordsResult
  | RecordReply tenantRecordResult

fun recordsWallet :: "recordsCall \<Rightarrow> string" where
  "recordsWallet (ListTypes w) = w"
| "recordsWallet (ListRecords w _) = w"
| "recordsWallet (GetRecord w _ _) = w"

fun recordsController ::
  "credoClasses \<Rightarrow> 'r credoFramework \<Rightarrow> ('s, 'r) tenantAgent agentStore \<Rightarrow> quarkAgentRole \<Rightarrow> recordsCall \<Rightarrow>
    ('s, recordsFailure, recordsReply) op" where
  "recordsController credo fw A role (ListTypes w) =
     (let (ro, types) = getTypes role in ret (TypesReply ro types))"
| "recordsController credo fw A role (ListRecords w params) =
     andThen (orThrow (ListRecordsQueryDto params) BadListQuery) (\<lambda>q.
     andThen (listRecords credo fw A role w (lq_type q) (lq_query q) (lq_page q) (lq_limit q)) (\<lambda>r.
     ret (ListReply r)))"
| "recordsController credo fw A role (GetRecord w t i) =
     andThen (getRecord credo fw A role w t i) (\<lambda>r. ret (RecordReply r))"

section \<open>Behind the guard\<close>

definition onFst :: "('e \<Rightarrow> 'f) \<Rightarrow> ('s, 'e, 'a) op \<Rightarrow> ('s \<times> 't, 'f, 'a) op" where
  "onFst err m = (\<lambda>(s, t). case m s of (Inl e, s') \<Rightarrow> (Inl (err e), (s', t)) | (Inr a, s') \<Rightarrow> (Inr a, (s', t)))"

definition onSnd :: "('t, 'e, 'a) op \<Rightarrow> ('s \<times> 't, 'e, 'a) op" where
  "onSnd m = (\<lambda>(s, t). case m t of (r, t') \<Rightarrow> (r, (s, t')))"

text \<open>The services that mount a guard put it before every route; the holder mounts none.\<close>

definition recordsServe ::
  "(request \<Rightarrow> ('b, guardFailure, json option) op) \<Rightarrow> credoClasses \<Rightarrow> 'r credoFramework \<Rightarrow>
    ('s, 'r) tenantAgent agentStore \<Rightarrow> quarkAgentRole \<Rightarrow> (string \<Rightarrow> headerField) \<Rightarrow> recordsCall \<Rightarrow>
    ('b \<times> 's, recordsFailure, recordsReply) op" where
  "recordsServe guard credo fw A role hdrs call =
     andThen (onFst GuardRefused
       (guard \<lparr>rq_headers = hdrs, rq_walletId = Some (recordsWallet call), rq_body = JObj []\<rparr>)) (\<lambda>_.
     onSnd (recordsController credo fw A role call))"

end
