(* ===== verification/RecordQueryProps.thy ===== *)
theory RecordQueryProps
  imports RecordQuery
begin

text \<open>
  The two evaluations of a query agree: the numbered parameters of the condition point at the
  values they were pushed with, whatever precedes and follows them in the statement, and each
  condition means what the matcher computes, for the values the types of the code allow.
\<close>

section \<open>Values of the declared types\<close>

definition textArray :: "json \<Rightarrow> bool" where
  "textArray v = (case v of JArr vs \<Rightarrow> list_all (\<lambda>x. \<exists>s. x = JStr s) vs | _ \<Rightarrow> False)"

text \<open>A tag is a text, a Boolean, \<open>null\<close> or an array of texts.\<close>

definition tagsTyped :: "(string \<times> json) list \<Rightarrow> bool" where
  "tagsTyped tags \<longleftrightarrow>
     (\<forall>(k, t)\<in>set tags. textArray t \<or> (case t of JStr _ \<Rightarrow> True | JBool _ \<Rightarrow> True | JNull \<Rightarrow> True | _ \<Rightarrow> False))"

text \<open>So is what it is compared with.\<close>

definition entryTyped :: "string \<times> json \<Rightarrow> bool" where
  "entryTyped e \<longleftrightarrow> (case snd e of JStr _ \<Rightarrow> True | JNull \<Rightarrow> True | JBool _ \<Rightarrow> True | _ \<Rightarrow> textArray (snd e))"

definition queryTyped :: "recordQuery \<Rightarrow> bool" where
  "queryTyped q \<longleftrightarrow>
     (\<forall>e\<in>set q. skipsEntry e \<or> entryTyped e) \<and>
     (case map_of q ''id'' of None \<Rightarrow> True | Some v \<Rightarrow> v = JNull \<or> (\<exists>s. v = JStr s)) \<and>
     (case map_of q ''$or'' of
        Some (JArr bs) \<Rightarrow> \<forall>b\<in>set bs. \<forall>es. entriesOf b = Some es \<longrightarrow> (\<forall>e\<in>set es. entryTyped e)
      | _ \<Rightarrow> True)"

text \<open>
  Where the two differ: a Boolean is compared with an array that holds its text. In memory the array
  does not include the Boolean; in SQL the operator looks for the text.
\<close>

definition clash :: "(string \<times> json) list \<Rightarrow> string \<times> json \<Rightarrow> bool" where
  "clash tags e \<longleftrightarrow> (\<exists>ts. map_of tags (fst e) = Some (JArr ts) \<and>
     (snd e = JBool True \<and> JStr ''true'' \<in> set ts \<or> snd e = JBool False \<and> JStr ''false'' \<in> set ts))"

definition branchClash :: "(string \<times> json) list \<Rightarrow> recordQuery \<Rightarrow> bool" where
  "branchClash tags q \<longleftrightarrow> (\<exists>bs b es e. map_of q ''$or'' = Some (JArr bs) \<and> b \<in> set bs \<and>
     entriesOf b = Some es \<and> e \<in> set es \<and> clash tags e)"

section \<open>Placeholders\<close>

definition covers :: "sqlParam list \<Rightarrow> sqlParam list \<Rightarrow> sqlContext \<Rightarrow> bool" where
  "covers base ps cx \<longleftrightarrow>
     (\<exists>rest. ps = base @ cx_params cx @ rest) \<and> cx_nextParam cx = Suc (length base + length (cx_params cx))"

lemma covers_push:
  assumes "pushParam v cx = (i, cx')" and "covers base ps cx'"
  shows "covers base ps cx \<and> paramAt ps i = v"
proof -
  from assms obtain rest where "ps = base @ cx_params cx @ [v] @ rest"
      "cx_nextParam cx = Suc (length base + length (cx_params cx))" "i = cx_nextParam cx"
    by (auto simp: pushParam_def covers_def)
  then show ?thesis by (simp add: covers_def paramAt_def nth_append)
qed

section \<open>One tag\<close>

lemma list_ex_primitive: "list_ex (\<lambda>x. strictEq x v) ts \<longleftrightarrow> primitive v \<and> v \<in> set ts"
  by (induction ts) (auto simp: strictEq_def)

lemma includesJson_iff: "includesJson ts v \<longleftrightarrow> primitive v \<and> v \<in> set ts"
  by (simp add: includesJson_def list_ex_primitive)

lemma texts_of: "textArray (JArr vs) \<Longrightarrow> \<exists>xs. vs = map JStr xs \<and> map toText vs = xs"
  by (induction vs) (auto simp: textArray_def intro: exI [of _ "_ # _"])

lemma typed_tag:
  assumes "tagsTyped tags" and "map_of tags key = Some t"
  shows "textArray t \<or> (\<exists>s. t = JStr s) \<or> (\<exists>b. t = JBool b) \<or> t = JNull"
  using map_of_SomeD [OF assms(2)] assms(1) by (cases t) (auto simp: tagsTyped_def)

lemma array_tag:
  assumes "textArray (JArr vs)" and "jsonb_ok J"
  shows "(isJsonArray t \<and> list_ex (jb_exists J t) (map toText vs)) =
      (case t of JArr ts \<Rightarrow> list_ex (includesJson ts) vs | _ \<Rightarrow> False)"
    and "(isJsonArray t \<and> jb_contains J t (JArr vs)) =
      (case t of JArr ts \<Rightarrow> list_all (includesJson ts) vs | _ \<Rightarrow> False)"
proof -
  from texts_of [OF assms(1)] obtain xs where xs: "vs = map JStr xs" "map toText vs = xs" by blast
  show "(isJsonArray t \<and> list_ex (jb_exists J t) (map toText vs)) =
      (case t of JArr ts \<Rightarrow> list_ex (includesJson ts) vs | _ \<Rightarrow> False)"
    unfolding xs(2) using assms(2)
    by (auto simp: isJsonArray_def jsonb_ok_def list_ex_iff includesJson_iff primitive_def xs(1)
        split: json.splits)
  have "list_all primitive vs" by (simp add: xs(1) list_all_iff primitive_def)
  then show "(isJsonArray t \<and> jb_contains J t (JArr vs)) =
      (case t of JArr ts \<Rightarrow> list_all (includesJson ts) vs | _ \<Rightarrow> False)"
    using assms(2)
    by (auto simp: isJsonArray_def jsonb_ok_def list_all_iff includesJson_iff split: json.splits)
qed

lemma buildTagCondition_means:
  assumes J: "jsonb_ok J" and T: "tagsTyped tags"
    and b: "buildTagCondition k v mode cx = (c, cx')" and cov: "covers base ps cx'"
  shows "covers base ps cx \<and>
    (v \<noteq> JNull \<and> entryTyped (k, v) \<longrightarrow> holdsTag J ps tags c = (matchesTagEntry tags k v mode \<or> clash tags (k, v)))"
proof -
  obtain ki cx1 where p1: "pushParam (PText k) cx = (ki, cx1)" by fastforce
  show ?thesis
  proof (cases "\<exists>vs. v = JArr vs")
    case True
    then obtain vs where v: "v = JArr vs" by blast
    show ?thesis
    proof (cases "mode = Some'")
      case True
      obtain i cx2 where p2: "pushParam (PTexts (map toText vs)) cx1 = (i, cx2)" by fastforce
      with b p1 v True have c: "c = (ki, AnyOf i)" "cx' = cx2" by (simp_all add: buildTagCondition_def)
      from covers_push [OF p2] cov c have i: "covers base ps cx1" "paramAt ps i = PTexts (map toText vs)" by auto
      from covers_push [OF p1 i(1)] i(2) array_tag(1) [OF _ J] show ?thesis
        by (auto simp: c v True holdsTag_def matchesTagEntry_def entryTyped_def isJsonArray_def clash_def
            split: option.splits json.splits)
    next
      case False
      obtain i cx2 where p2: "pushParam (PText (stringify v)) cx1 = (i, cx2)" by fastforce
      with b p1 v False have c: "c = (ki, ContainsAll i)" "cx' = cx2"
        by (simp_all add: buildTagCondition_def del: stringify.simps)
      from covers_push [OF p2] cov c have i: "covers base ps cx1" "paramAt ps i = PText (stringify v)" by auto
      from False have m: "mode = Every" by (cases mode) simp_all
      from covers_push [OF p1 i(1)] i(2) array_tag(2) [OF _ J] show ?thesis
        by (auto simp: c v m holdsTag_def matchesTagEntry_def entryTyped_def isJsonArray_def clash_def
            simp del: stringify.simps split: option.splits json.splits)
    qed
  next
    case False
    obtain i cx2 where p2: "pushParam (PText (toText v)) cx1 = (i, cx2)" by fastforce
    obtain j cx3 where p3: "pushParam (PText (stringify v)) cx2 = (j, cx3)" by fastforce
    from b p1 p2 p3 False have c: "c = (ki, ScalarIs i j)" "cx' = cx3"
      by (auto simp: buildTagCondition_def simp del: stringify.simps split: json.splits)
    from covers_push [OF p3] cov c have j: "covers base ps cx2" "paramAt ps j = PText (stringify v)" by auto
    from covers_push [OF p2 j(1)] have i: "covers base ps cx1" "paramAt ps i = PText (toText v)" by auto
    note k = covers_push [OF p1 i(1)]
    have "holdsTag J ps tags c = (matchesTagEntry tags k v mode \<or> clash tags (k, v))"
      if v: "v \<noteq> JNull" "entryTyped (k, v)"
    proof (cases "map_of tags k")
      case None
      with k show ?thesis by (simp add: c holdsTag_def matchesTagEntry_def clash_def)
    next
      case (Some t)
      have prim: "primitive v" using v False by (cases v) (auto simp: entryTyped_def primitive_def textArray_def)
      have eq: "matchesTagEntry tags k v mode =
          (t \<noteq> JNull \<and> (case t of JArr ts \<Rightarrow> includesJson ts v | _ \<Rightarrow> strictEq t v))"
        using Some False by (cases v; cases t) (auto simp: matchesTagEntry_def)
      from typed_tag [OF T Some] v False show ?thesis
        using k i(2) j(2) J Some prim unfolding eq
        by (cases t; cases v)
          (auto simp: c holdsTag_def isJsonArray_def jsonb_ok_def includesJson_iff strictEq_def
            entryTyped_def textArray_def primitive_def clash_def list_all_iff simp del: stringify.simps split: bool.splits)
    qed
    with k show ?thesis by blast
  qed
qed

section \<open>The condition\<close>

lemma buildAll_means:
  assumes J: "jsonb_ok J" and T: "tagsTyped tags"
    and b: "buildAll mode es cx = (cs, cx')" and cov: "covers base ps cx'"
  shows "covers base ps cx \<and>
    ((\<forall>e\<in>set es. snd e \<noteq> JNull \<and> entryTyped e) \<longrightarrow>
      list_all (holdsTag J ps tags) cs = list_all (\<lambda>(k, v). matchesTagEntry tags k v mode \<or> clash tags (k, v)) es)"
  using b cov
proof (induction es arbitrary: cs cx)
  case (Cons e es)
  obtain k v where e: "e = (k, v)" by fastforce
  obtain c cx1 where c: "buildTagCondition k v mode cx = (c, cx1)" by fastforce
  obtain cs' cx2 where cs: "buildAll mode es cx1 = (cs', cx2)" by fastforce
  from Cons.prems e c cs have eq: "cs = c # cs'" "cx2 = cx'" by simp_all
  from Cons.IH [OF cs [unfolded eq]] Cons.prems(2) have rest: "covers base ps cx1 \<and>
      ((\<forall>e\<in>set es. snd e \<noteq> JNull \<and> entryTyped e) \<longrightarrow>
        list_all (holdsTag J ps tags) cs' = list_all (\<lambda>(k, v). matchesTagEntry tags k v mode \<or> clash tags (k, v)) es)" by simp
  with buildTagCondition_means [OF J T c] show ?case by (auto simp: e eq)
qed simp

lemma branch_filter:
  "branchMatches tags es = list_all (\<lambda>(k, v). matchesTagEntry tags k v Some') (filter (\<lambda>e. snd e \<noteq> JNull) es)"
  by (auto simp: branchMatches_def list_all_iff)

lemma buildBranches_means:
  assumes J: "jsonb_ok J" and T: "tagsTyped tags"
    and b: "buildBranches bs cx = Some (css, cx')" and cov: "covers base ps cx'"
  shows "covers base ps cx \<and>
    ((\<forall>b\<in>set bs. \<forall>es. entriesOf b = Some es \<longrightarrow> (\<forall>e\<in>set es. entryTyped e)) \<longrightarrow>
      (\<exists>m. someBranch (branchMatches tags) bs = Some m \<and> (m \<longrightarrow> list_ex (list_all (holdsTag J ps tags)) css) \<and>
        ((\<forall>b\<in>set bs. \<forall>es. entriesOf b = Some es \<longrightarrow> (\<forall>e\<in>set es. \<not> clash tags e)) \<longrightarrow>
          m = list_ex (list_all (holdsTag J ps tags)) css)))"
  using b cov
proof (induction bs arbitrary: css cx)
  case (Cons b bs)
  from Cons.prems obtain es where es: "entriesOf b = Some es" by (cases "entriesOf b") simp_all
  obtain cs cx1 where cs: "buildAll Some' (filter (\<lambda>e. snd e \<noteq> JNull) es) cx = (cs, cx1)" by fastforce
  with Cons.prems es obtain css' where r: "buildBranches bs cx1 = Some (css', cx')" "css = cs # css'"
    by (auto split: option.splits)
  note ih = Cons.IH [OF r(1) Cons.prems(2)]
  from buildAll_means [OF J T cs, of base ps] ih have cov: "covers base ps cx" by blast
  have here: "(\<forall>e\<in>set es. entryTyped e) \<longrightarrow> list_all (holdsTag J ps tags) cs =
      list_all (\<lambda>(k, v). matchesTagEntry tags k v Some' \<or> clash tags (k, v)) (filter (\<lambda>e. snd e \<noteq> JNull) es)"
    using buildAll_means [OF J T cs, of base ps] ih by simp
  have "(\<forall>e\<in>set es. entryTyped e) \<longrightarrow> (branchMatches tags es \<longrightarrow> list_all (holdsTag J ps tags) cs)"
    using here unfolding branch_filter by (auto simp: list_all_iff)
  moreover have "(\<forall>e\<in>set es. entryTyped e) \<and> (\<forall>e\<in>set es. \<not> clash tags e) \<longrightarrow>
      branchMatches tags es = list_all (holdsTag J ps tags) cs"
    using here unfolding branch_filter by (auto simp: list_all_iff)
  note here = calculation this
  show ?case
  proof (intro conjI impI)
    show "covers base ps cx" by (rule cov)
    assume typed: "\<forall>b'\<in>set (b # bs). \<forall>es. entriesOf b' = Some es \<longrightarrow> (\<forall>e\<in>set es. entryTyped e)"
    then have t: "\<forall>e\<in>set es. entryTyped e" using es by simp
    from typed ih obtain m where m: "someBranch (branchMatches tags) bs = Some m"
        "m \<longrightarrow> list_ex (list_all (holdsTag J ps tags)) css'"
        "(\<forall>b\<in>set bs. \<forall>es. entriesOf b = Some es \<longrightarrow> (\<forall>e\<in>set es. \<not> clash tags e)) \<longrightarrow>
          m = list_ex (list_all (holdsTag J ps tags)) css'" by auto
    have "someBranch (branchMatches tags) (b # bs) = Some (branchMatches tags es \<or> m)"
      using m(1) es by simp
    moreover have "branchMatches tags es \<or> m \<longrightarrow> list_ex (list_all (holdsTag J ps tags)) css"
      using here(1) t m(2) by (auto simp: r(2))
    moreover have "branchMatches tags es \<or> m \<longleftrightarrow> list_ex (list_all (holdsTag J ps tags)) css"
      if "\<forall>b'\<in>set (b # bs). \<forall>es. entriesOf b' = Some es \<longrightarrow> (\<forall>e\<in>set es. \<not> clash tags e)"
      using here(2) t m(3) that es by (simp add: r(2))
    ultimately show "\<exists>m. someBranch (branchMatches tags) (b # bs) = Some m \<and>
        (m \<longrightarrow> list_ex (list_all (holdsTag J ps tags)) css) \<and>
        ((\<forall>b'\<in>set (b # bs). \<forall>es. entriesOf b' = Some es \<longrightarrow> (\<forall>e\<in>set es. \<not> clash tags e)) \<longrightarrow>
          m = list_ex (list_all (holdsTag J ps tags)) css)" by blast
  qed
qed (auto intro: exI [of _ False])

lemma covers_start: "covers base (base @ ps @ rest) \<lparr>cx_params = ps, cx_nextParam = Suc (length base + length ps)\<rparr>"
  by (simp add: covers_def)

lemma filtered_entries:
  "list_all (\<lambda>e. skipsEntry e \<or> matchesTagEntry tags (fst e) (snd e) Every) q =
    list_all (\<lambda>(k, v). matchesTagEntry tags k v Every) (filter (\<lambda>e. \<not> skipsEntry e) q)"
  by (induction q) auto

text \<open>The parameters before the \<open>$or\<close>: the identifier and the tags.\<close>

lemma buildTagQuerySql_parts:
  assumes "buildTagQuerySql q (Suc (length base)) = Some sql"
  obtains ids tags cx1 cx2 where
    "(case map_of q ''id'' of
        Some v \<Rightarrow> if v = JNull then (ids, cx1) = ([], \<lparr>cx_params = [], cx_nextParam = Suc (length base)\<rparr>)
          else (\<exists>i. pushParam (PValue v) \<lparr>cx_params = [], cx_nextParam = Suc (length base)\<rparr> = (i, cx1) \<and>
            ids = [IdIs i])
      | None \<Rightarrow> (ids, cx1) = ([], \<lparr>cx_params = [], cx_nextParam = Suc (length base)\<rparr>))"
    and "buildAll Every (filter (\<lambda>e. \<not> skipsEntry e) q) cx1 = (tags, cx2)"
    and "(case map_of q ''$or'' of
        Some (JArr (b # bs)) \<Rightarrow> (\<exists>css cx3. buildBranches (b # bs) cx2 = Some (css, cx3) \<and>
          sql = \<lparr>tq_conditions = (ids @ map TagIs tags) @ [OrOf css], tq_params = cx_params cx3\<rparr>)
      | _ \<Rightarrow> sql = \<lparr>tq_conditions = ids @ map TagIs tags, tq_params = cx_params cx2\<rparr>)"
proof -
  let ?cx0 = "\<lparr>cx_params = [], cx_nextParam = Suc (length base)\<rparr>"
  obtain ids cx1 where ids: "(case map_of q ''id'' of
      Some v \<Rightarrow> if v = JNull then ([], ?cx0)
        else (let (i, cx) = pushParam (PValue v) ?cx0 in ([IdIs i], cx))
    | None \<Rightarrow> ([], ?cx0)) = (ids, cx1)" by fastforce
  obtain tags cx2 where tags: "buildAll Every (filter (\<lambda>e. \<not> skipsEntry e) q) cx1 = (tags, cx2)" by fastforce
  show thesis
  proof (rule that)
    show "buildAll Every (filter (\<lambda>e. \<not> skipsEntry e) q) cx1 = (tags, cx2)" by (rule tags)
    show "(case map_of q ''id'' of
        Some v \<Rightarrow> if v = JNull then (ids, cx1) = ([], ?cx0)
          else (\<exists>i. pushParam (PValue v) ?cx0 = (i, cx1) \<and> ids = [IdIs i])
      | None \<Rightarrow> (ids, cx1) = ([], ?cx0))"
      using ids by (auto split: option.splits if_splits prod.splits)
    show "(case map_of q ''$or'' of
        Some (JArr (b # bs)) \<Rightarrow> (\<exists>css cx3. buildBranches (b # bs) cx2 = Some (css, cx3) \<and>
          sql = \<lparr>tq_conditions = (ids @ map TagIs tags) @ [OrOf css], tq_params = cx_params cx3\<rparr>)
      | _ \<Rightarrow> sql = \<lparr>tq_conditions = ids @ map TagIs tags, tq_params = cx_params cx2\<rparr>)"
      using assms ids tags
      by (auto simp: buildTagQuerySql_def buildOrClause_def Let_def simp del: buildBranches.simps
          split: option.splits json.splits list.splits)
  qed
qed

section \<open>Agreement\<close>

lemma idParam_means:
  assumes "(case map_of q ''id'' of
      Some v \<Rightarrow> if v = JNull then (ids, cx1) = ([], cx0)
        else (\<exists>i. pushParam (PValue v) cx0 = (i, cx1) \<and> ids = [IdIs i])
    | None \<Rightarrow> (ids, cx1) = ([], cx0))"
    and "covers base ps cx1"
    and "case map_of q ''id'' of None \<Rightarrow> True | Some v \<Rightarrow> v = JNull \<or> (\<exists>s. v = JStr s)"
  shows "list_all (holdsCond J ps row) ids \<longleftrightarrow>
    nullishJson (map_of q ''id'') \<or> map_of q ''id'' = Some (JStr (sq_id row))"
  using assms covers_push [of _ cx0 _ cx1 base ps]
  by (auto simp: holdsCond_def paramText_def nullishJson_def split: option.splits if_splits)

lemma holdsTags: "list_all (holdsCond J ps row) (map TagIs cs) = list_all (holdsTag J ps (sq_tags row)) cs"
  by (induction cs) (simp_all add: holdsCond_def)

lemma covers_end:
  assumes "cx_nextParam cx = Suc (length base + length (cx_params cx))"
  shows "covers base (base @ cx_params cx @ rest) cx"
  using assms by (auto simp: covers_def)

lemma pushParam_next:
  "pushParam v cx = (i, cx') \<Longrightarrow> cx_nextParam cx = Suc (n + length (cx_params cx)) \<Longrightarrow>
    cx_nextParam cx' = Suc (n + length (cx_params cx'))"
  by (auto simp: pushParam_def)

lemma buildTagCondition_next:
  assumes "buildTagCondition k v mode cx = (c, cx')" and "cx_nextParam cx = Suc (n + length (cx_params cx))"
  shows "cx_nextParam cx' = Suc (n + length (cx_params cx'))"
  using assms by (auto simp: buildTagCondition_def pushParam_def simp del: stringify.simps
      split: json.splits if_splits)

lemma buildAll_next:
  "buildAll mode es cx = (cs, cx') \<Longrightarrow> cx_nextParam cx = Suc (n + length (cx_params cx)) \<Longrightarrow>
    cx_nextParam cx' = Suc (n + length (cx_params cx'))"
  by (induction mode es cx arbitrary: cs rule: buildAll.induct)
    (auto split: prod.splits dest: buildTagCondition_next)

lemma buildBranches_next:
  "buildBranches bs cx = Some (css, cx') \<Longrightarrow> cx_nextParam cx = Suc (n + length (cx_params cx)) \<Longrightarrow>
    cx_nextParam cx' = Suc (n + length (cx_params cx'))"
proof (induction bs arbitrary: cx css)
  case (Cons b bs)
  then show ?case by (auto split: option.splits prod.splits dest: buildAll_next)
qed simp

section \<open>No placeholder points outside\<close>

definition tagIndices :: "tagCond \<Rightarrow> nat set" where
  "tagIndices c = insert (fst c)
     (case snd c of AnyOf i \<Rightarrow> {i} | ContainsAll i \<Rightarrow> {i} | ScalarIs i j \<Rightarrow> {i, j})"

fun condIndices :: "sqlCond \<Rightarrow> nat set" where
  "condIndices (IdIs i) = {i}"
| "condIndices (TagIs c) = tagIndices c"
| "condIndices (OrOf branches) = (\<Union>cs\<in>set branches. \<Union>c\<in>set cs. tagIndices c)"

definition between :: "sqlContext \<Rightarrow> sqlContext \<Rightarrow> nat set" where
  "between cx cx' = {cx_nextParam cx..<cx_nextParam cx'}"

lemma between_trans:
  "cx_nextParam cx \<le> cx_nextParam cx1 \<Longrightarrow> cx_nextParam cx1 \<le> cx_nextParam cx2 \<Longrightarrow>
    between cx cx1 \<subseteq> between cx cx2 \<and> between cx1 cx2 \<subseteq> between cx cx2"
  by (auto simp: between_def)

lemma buildTagCondition_between:
  assumes "buildTagCondition k v mode cx = (c, cx')"
  shows "tagIndices c \<subseteq> between cx cx' \<and> cx_nextParam cx \<le> cx_nextParam cx'"
  using assms by (auto simp: buildTagCondition_def pushParam_def tagIndices_def between_def
      simp del: stringify.simps split: json.splits if_splits)

lemma buildAll_between:
  "buildAll mode es cx = (cs, cx') \<Longrightarrow>
    (\<forall>c\<in>set cs. tagIndices c \<subseteq> between cx cx') \<and> cx_nextParam cx \<le> cx_nextParam cx'"
proof (induction es arbitrary: cs cx)
  case (Cons e es)
  obtain k v where e: "e = (k, v)" by fastforce
  obtain c cx1 where c: "buildTagCondition k v mode cx = (c, cx1)" by fastforce
  obtain cs' cx2 where cs: "buildAll mode es cx1 = (cs', cx2)" by fastforce
  from Cons.prems e c cs have eq: "cs = c # cs'" "cx2 = cx'" by simp_all
  note rest = Cons.IH [OF cs [unfolded eq]] and one = buildTagCondition_between [OF c]
  note sub = between_trans [OF conjunct2 [OF one] conjunct2 [OF rest]]
  have "tagIndices d \<subseteq> between cx cx'" if "d \<in> set (c # cs')" for d
    using that rest one sub by (metis set_ConsD subset_trans)
  with rest one show ?case unfolding eq by (blast intro: order_trans)
qed simp

lemma buildBranches_between:
  "buildBranches bs cx = Some (css, cx') \<Longrightarrow>
    condIndices (OrOf css) \<subseteq> between cx cx' \<and> cx_nextParam cx \<le> cx_nextParam cx'"
proof (induction bs arbitrary: css cx)
  case (Cons b bs)
  from Cons.prems obtain es where es: "entriesOf b = Some es" by (cases "entriesOf b") simp_all
  obtain cs cx1 where cs: "buildAll Some' (filter (\<lambda>e. snd e \<noteq> JNull) es) cx = (cs, cx1)" by fastforce
  with Cons.prems es obtain css' where r: "buildBranches bs cx1 = Some (css', cx')" "css = cs # css'"
    by (auto split: option.splits)
  from Cons.IH [OF r(1)] buildAll_between [OF cs]
  show ?case unfolding r(2) using between_trans [of cx cx1 cx']
    by (auto dest: order_trans)
qed simp

lemma paramAt_append: "i \<in> {1..length ps} \<Longrightarrow> paramAt (ps @ rest) i = paramAt ps i"
  by (auto simp: paramAt_def nth_append)

lemma holdsTag_append:
  assumes "tagIndices c \<subseteq> {1..length ps}"
  shows "holdsTag J (ps @ rest) tags c = holdsTag J ps tags c"
proof -
  obtain k t where c: "c = (k, t)" by fastforce
  have at: "paramAt (ps @ rest) i = paramAt ps i" if "i \<in> tagIndices c" for i
    using assms that by (intro paramAt_append) blast
  show ?thesis
    using at by (cases t) (simp_all add: c holdsTag_def tagIndices_def split: sqlParam.split option.split)
qed

lemma holdsCond_append:
  assumes "condIndices c \<subseteq> {1..length ps}"
  shows "holdsCond J (ps @ rest) row c = holdsCond J ps row c"
proof (cases c)
  case (IdIs i)
  with assms show ?thesis using paramAt_append [of i ps rest] by (simp add: holdsCond_def)
next
  case (TagIs t)
  with assms show ?thesis by (simp add: holdsCond_def holdsTag_append)
next
  case (OrOf branches)
  have "list_all (holdsTag J (ps @ rest) (sq_tags row)) cs = list_all (holdsTag J ps (sq_tags row)) cs"
    if cs: "cs \<in> set branches" for cs
  proof (rule list.pred_cong [OF refl])
    fix c assume "c \<in> set cs"
    with assms cs have "tagIndices c \<subseteq> {1..length ps}" unfolding OrOf condIndices.simps by blast
    then show "holdsTag J (ps @ rest) (sq_tags row) c = holdsTag J ps (sq_tags row) c"
      by (rule holdsTag_append)
  qed
  then show ?thesis by (simp add: OrOf holdsCond_def list_ex_iff)
qed

lemma holdsQuery_append:
  assumes "buildTagQuerySql q (Suc (length base)) = Some sql"
  shows "holdsQuery J (base @ tq_params sql @ rest) row (tq_conditions sql) =
    holdsQuery J (base @ tq_params sql) row (tq_conditions sql)"
proof -
  let ?cx0 = "\<lparr>cx_params = [], cx_nextParam = Suc (length base)\<rparr>"
  from assms obtain ids tags cx1 cx2 where
    ids: "(case map_of q ''id'' of
        Some v \<Rightarrow> if v = JNull then (ids, cx1) = ([], ?cx0)
          else (\<exists>i. pushParam (PValue v) ?cx0 = (i, cx1) \<and> ids = [IdIs i])
      | None \<Rightarrow> (ids, cx1) = ([], ?cx0))"
    and tags: "buildAll Every (filter (\<lambda>e. \<not> skipsEntry e) q) cx1 = (tags, cx2)"
    and sql: "(case map_of q ''$or'' of
        Some (JArr (b # bs)) \<Rightarrow> (\<exists>css cx3. buildBranches (b # bs) cx2 = Some (css, cx3) \<and>
          sql = \<lparr>tq_conditions = (ids @ map TagIs tags) @ [OrOf css], tq_params = cx_params cx3\<rparr>)
      | _ \<Rightarrow> sql = \<lparr>tq_conditions = ids @ map TagIs tags, tq_params = cx_params cx2\<rparr>)"
    by (rule buildTagQuerySql_parts)
  from ids have n1: "cx_nextParam cx1 = Suc (length base + length (cx_params cx1))"
    and i1: "(\<forall>c\<in>set ids. condIndices c \<subseteq> between ?cx0 cx1) \<and> cx_nextParam ?cx0 \<le> cx_nextParam cx1"
    by (auto simp: pushParam_def between_def split: option.splits if_splits)
  note n2 = buildAll_next [OF tags n1]
  note i2 = buildAll_between [OF tags]
  have parts: "\<forall>c\<in>set (ids @ map TagIs tags). condIndices c \<subseteq> between ?cx0 cx2"
    and le: "cx_nextParam ?cx0 \<le> cx_nextParam cx2"
    using i1 i2 between_trans [of ?cx0 cx1 cx2] by fastforce+
  have "\<exists>cx. (\<forall>c\<in>set (tq_conditions sql). condIndices c \<subseteq> between ?cx0 cx) \<and>
      tq_params sql = cx_params cx \<and> cx_nextParam cx = Suc (length base + length (cx_params cx))"
  proof (cases "\<exists>b bs. map_of q ''$or'' = Some (JArr (b # bs))")
    case True
    with sql obtain b bs css cx3 where r: "buildBranches (b # bs) cx2 = Some (css, cx3)"
        "sql = \<lparr>tq_conditions = (ids @ map TagIs tags) @ [OrOf css], tq_params = cx_params cx3\<rparr>"
      by auto
    from buildBranches_between [OF r(1)] parts le between_trans [of ?cx0 cx2 cx3]
    have "\<forall>c\<in>set (tq_conditions sql). condIndices c \<subseteq> between ?cx0 cx3"
      unfolding r(2) by (simp del: condIndices.simps) blast
    with buildBranches_next [OF r(1) n2] r(2) show ?thesis by auto
  next
    case False
    with sql have "sql = \<lparr>tq_conditions = ids @ map TagIs tags, tq_params = cx_params cx2\<rparr>"
      by (auto split: option.splits json.splits list.splits)
    with parts n2 show ?thesis by auto
  qed
  then have "condIndices c \<subseteq> {1..length (base @ tq_params sql)}" if "c \<in> set (tq_conditions sql)" for c
    using that by (fastforce simp: between_def)
  then have "holdsCond J ((base @ tq_params sql) @ rest) row c = holdsCond J (base @ tq_params sql) row c"
    if "c \<in> set (tq_conditions sql)" for c
    using that by (intro holdsCond_append) blast
  then show ?thesis by (simp add: holdsQuery_def list_all_iff)
qed

text \<open>A query without the entries that clash with a row.\<close>

definition withoutClashes :: "(string \<times> json) list \<Rightarrow> recordQuery \<Rightarrow> recordQuery" where
  "withoutClashes tags q = filter (\<lambda>e. skipsEntry e \<or> \<not> clash tags e) q"

lemma withoutClashes_lookup:
  assumes "k = ''id'' \<or> k = ''$or''"
  shows "map_of (withoutClashes tags q) k = map_of q k"
proof -
  have "skipsEntry (k, v)" for v using assms by (auto simp: skipsEntry_def)
  then show ?thesis by (induction q) (auto simp: withoutClashes_def)
qed

lemma matcher_run:
  "matchesRecordTagQuery row q =
    (if \<not> (nullishJson (map_of q ''id'') \<or> map_of q ''id'' = Some (JStr (sq_id row))) then Some False
     else if \<not> list_all (\<lambda>e. skipsEntry e \<or> matchesTagEntry (sq_tags row) (fst e) (snd e) Every) q then Some False
     else case map_of q ''$or'' of Some (JArr bs) \<Rightarrow> someBranch (branchMatches (sq_tags row)) bs | _ \<Rightarrow> Some True)"
  by (auto simp: matchesRecordTagQuery_def split: option.splits json.splits)

lemma condition_matches:
  assumes J: "jsonb_ok J" and b: "buildTagQuerySql q (Suc (length base)) = Some sql"
    and T: "tagsTyped (sq_tags row)" and Q: "queryTyped q"
    and nonempty: "map_of q ''$or'' \<noteq> Some (JArr [])"
  shows "\<exists>m. matchesRecordTagQuery row (withoutClashes (sq_tags row) q) = Some m \<and>
    (m \<longrightarrow> holdsQuery J (base @ tq_params sql @ rest) row (tq_conditions sql)) \<and>
    (\<not> branchClash (sq_tags row) q \<longrightarrow>
      m = holdsQuery J (base @ tq_params sql @ rest) row (tq_conditions sql))"
proof -
  let ?cx0 = "\<lparr>cx_params = [], cx_nextParam = Suc (length base)\<rparr>"
  from b obtain ids tags cx1 cx2 where
    ids: "(case map_of q ''id'' of
        Some v \<Rightarrow> if v = JNull then (ids, cx1) = ([], ?cx0)
          else (\<exists>i. pushParam (PValue v) ?cx0 = (i, cx1) \<and> ids = [IdIs i])
      | None \<Rightarrow> (ids, cx1) = ([], ?cx0))"
    and tags: "buildAll Every (filter (\<lambda>e. \<not> skipsEntry e) q) cx1 = (tags, cx2)"
    and sql: "(case map_of q ''$or'' of
        Some (JArr (b # bs)) \<Rightarrow> (\<exists>css cx3. buildBranches (b # bs) cx2 = Some (css, cx3) \<and>
          sql = \<lparr>tq_conditions = (ids @ map TagIs tags) @ [OrOf css], tq_params = cx_params cx3\<rparr>)
      | _ \<Rightarrow> sql = \<lparr>tq_conditions = ids @ map TagIs tags, tq_params = cx_params cx2\<rparr>)"
    by (rule buildTagQuerySql_parts)
  from ids have n1: "cx_nextParam cx1 = Suc (length base + length (cx_params cx1))"
    by (auto simp: pushParam_def split: option.splits if_splits)
  note n2 = buildAll_next [OF tags n1]
  from Q have typed: "\<forall>e\<in>set (filter (\<lambda>e. \<not> skipsEntry e) q). snd e \<noteq> JNull \<and> entryTyped e"
    by (auto simp: queryTyped_def skipsEntry_def)
  let ?q = "withoutClashes (sq_tags row) q"
  have every: "list_all (\<lambda>(k, v). matchesTagEntry (sq_tags row) k v Every \<or> clash (sq_tags row) (k, v))
        (filter (\<lambda>e. \<not> skipsEntry e) q) =
      list_all (\<lambda>e. skipsEntry e \<or> matchesTagEntry (sq_tags row) (fst e) (snd e) Every) ?q"
    by (auto simp: withoutClashes_def list_all_iff)
  have base: "list_all (holdsCond J ps row) (ids @ map TagIs tags) \<longleftrightarrow>
      (nullishJson (map_of q ''id'') \<or> map_of q ''id'' = Some (JStr (sq_id row))) \<and>
      list_all (\<lambda>e. skipsEntry e \<or> matchesTagEntry (sq_tags row) (fst e) (snd e) Every) ?q"
    if cov: "covers base ps cx2" for ps
    using buildAll_means [OF J T tags cov] typed idParam_means [OF ids, of base ps J row] Q
    by (simp add: holdsTags every queryTyped_def)
  have look: "map_of ?q ''id'' = map_of q ''id''" "map_of ?q ''$or'' = map_of q ''$or''"
    by (rule withoutClashes_lookup, simp)+
  show ?thesis
  proof (cases "\<exists>b bs. map_of q ''$or'' = Some (JArr (b # bs))")
    case True
    then obtain b bs where or: "map_of q ''$or'' = Some (JArr (b # bs))" by blast
    with sql obtain css cx3 where r: "buildBranches (b # bs) cx2 = Some (css, cx3)"
        "sql = \<lparr>tq_conditions = (ids @ map TagIs tags) @ [OrOf css], tq_params = cx_params cx3\<rparr>"
      by auto
    note cov = covers_end [OF buildBranches_next [OF r(1) n2], of rest]
    from Q or have "\<forall>b'\<in>set (b # bs). \<forall>es. entriesOf b' = Some es \<longrightarrow> (\<forall>e\<in>set es. entryTyped e)"
      by (simp add: queryTyped_def)
    with buildBranches_means [OF J T r(1) cov] obtain m where
      m: "someBranch (branchMatches (sq_tags row)) (b # bs) = Some m"
        "m \<longrightarrow> list_ex (list_all (holdsTag J (base @ cx_params cx3 @ rest) (sq_tags row))) css"
        "(\<forall>b'\<in>set (b # bs). \<forall>es. entriesOf b' = Some es \<longrightarrow> (\<forall>e\<in>set es. \<not> clash (sq_tags row) e)) \<longrightarrow>
          m = list_ex (list_all (holdsTag J (base @ cx_params cx3 @ rest) (sq_tags row))) css"
      and cov2: "covers base (base @ cx_params cx3 @ rest) cx2" by blast
    have clear: "\<not> branchClash (sq_tags row) q \<longrightarrow>
        m = list_ex (list_all (holdsTag J (base @ cx_params cx3 @ rest) (sq_tags row))) css"
      using m(3) or unfolding branchClash_def by blast
    show ?thesis
      unfolding matcher_run look or r(2)
      using m(1,2) clear base [OF cov2]
      by (auto simp: holdsQuery_def holdsCond_def simp del: someBranch.simps)
  next
    case False
    with nonempty sql have s: "sql = \<lparr>tq_conditions = ids @ map TagIs tags, tq_params = cx_params cx2\<rparr>"
      by (auto split: option.splits json.splits list.splits)
    have none: "(case map_of q ''$or'' of Some (JArr bs) \<Rightarrow> someBranch (branchMatches (sq_tags row)) bs
        | _ \<Rightarrow> Some True) = Some True"
      using False nonempty by (auto split: option.splits json.splits) (metis neq_Nil_conv)+
    with base [OF covers_end [OF n2]] show ?thesis
      unfolding matcher_run look none by (auto simp: holdsQuery_def s)
  qed
qed


section \<open>Where they differ\<close>

text \<open>An empty \<open>$or\<close> is no row in memory and no condition in SQL.\<close>

theorem empty_or_differs:
  assumes "map_of q ''$or'' = Some (JArr [])"
  shows "matchesRecordTagQuery row q = Some False \<and>
    buildTagQuerySql [(''$or'', JArr [])] n = Some \<lparr>tq_conditions = [], tq_params = []\<rparr> \<and>
    holdsQuery J ps row []"
  using assms
  by (simp add: matchesRecordTagQuery_def buildTagQuerySql_def skipsEntry_def holdsQuery_def)

definition jsonb_sample :: jsonbOps where
  "jsonb_sample = \<lparr>jb_contains = (\<lambda>a b. case (a, b) of (JArr ts, JArr vs) \<Rightarrow> set vs \<subseteq> set ts | _ \<Rightarrow> a = b),
     jb_equal = (=),
     jb_exists = (\<lambda>a x. case a of JArr ts \<Rightarrow> JStr x \<in> set ts | _ \<Rightarrow> False)\<rparr>"

lemma jsonb_sample_ok: "jsonb_ok jsonb_sample"
  by (simp add: jsonb_ok_def jsonb_sample_def)

definition query_sample :: recordQuery where
  "query_sample = [(''state'', JStr ''done''), (''roles'', JArr [JStr ''a'']),
     (''$or'', JArr [JObj [(''x'', JStr ''y'')], JObj [(''roles'', JArr [JStr ''b'', JStr ''c''])]])]"

definition row_sample :: storedForQuery where
  "row_sample = \<lparr>sq_id = ''r1'', sq_tags = [(''state'', JStr ''done''),
     (''roles'', JArr [JStr ''a'', JStr ''c'']), (''x'', JNull)]\<rparr>"


end
