(* ===== verification/RecordProps.thy ===== *)
theory RecordProps
  imports RecordPort RecordQueryProps "HOL-Library.Multiset" "HOL-Library.List_Lexorder" "HOL-Library.Char_ord"
begin

text \<open>
  Both adapters meet the contract of the port; what a tenant can list and read of its records,
  and what a saved record does to those of other tenants.
\<close>

section \<open>Sorting\<close>

lemma mset_insertBy [simp]: "mset (insertBy le x ys) = add_mset x (mset ys)"
  by (induction ys) auto

lemma mset_sortBy [simp]: "mset (sortBy le xs) = mset xs"
  by (induction xs) (simp_all add: sortBy_def)

lemma set_sortBy [simp]: "set (sortBy le xs) = set xs"
  by (metis mset_sortBy set_mset_mset)

lemma length_sortBy [simp]: "length (sortBy le xs) = length xs"
  by (metis mset_sortBy size_mset)

definition linearOrder :: "('a \<Rightarrow> 'a \<Rightarrow> bool) \<Rightarrow> bool" where
  "linearOrder le \<longleftrightarrow> (\<forall>x y. le x y \<or> le y x) \<and> (\<forall>x y z. le x y \<and> le y z \<longrightarrow> le x z) \<and>
     (\<forall>x y. le x y \<and> le y x \<longrightarrow> x = y)"

lemma sorted_insertBy:
  assumes "\<And>x y. le x y \<or> le y x" and "\<And>x y z. le x y \<Longrightarrow> le y z \<Longrightarrow> le x z" and "sorted_wrt le ys"
  shows "sorted_wrt le (insertBy le x ys)"
  using assms(3)
proof (induction ys)
  case (Cons y ys)
  have "set (insertBy le x ys) = insert x (set ys)"
    by (metis mset_insertBy set_mset_add_mset_insert set_mset_mset)
  with Cons assms(1,2) show ?case by auto
qed simp

lemma sorted_sortBy:
  assumes "\<And>x y. le x y \<or> le y x" and "\<And>x y z. le x y \<Longrightarrow> le y z \<Longrightarrow> le x z"
  shows "sorted_wrt le (sortBy le xs)"
proof (induction xs)
  case (Cons x xs)
  from sorted_insertBy [OF assms this] show ?case by (simp add: sortBy_def)
qed (simp add: sortBy_def)

lemma rowLe_total:
  assumes "linearOrder le"
  shows "rowLe le a b \<or> rowLe le b a"
proof -
  have "le x y \<or> le y x" for x y
    using assms unfolding linearOrder_def by blast
  then show ?thesis by (simp add: rowLe_def split: option.split) metis
qed

lemma rowLe_trans:
  assumes le: "linearOrder le" and ab: "rowLe le a b" and bc: "rowLe le b c"
  shows "rowLe le a c"
proof -
  have tr: "le x z" if "le x y" "le y z" for x y z
    using le that unfolding linearOrder_def by blast
  have anti: "x = y" if "le x y" "le y x" for x y
    using le that unfolding linearOrder_def by blast
  show ?thesis
  proof (cases "createdText c")
    case None
    with ab bc show ?thesis by (auto simp: rowLe_def intro: tr split: option.splits)
  next
    case (Some z)
    with bc obtain y where y: "createdText b = Some y" by (auto simp: rowLe_def split: option.splits)
    with ab obtain x where x: "createdText a = Some x" by (auto simp: rowLe_def split: option.splits)
    show ?thesis
    proof (cases "x = y \<or> y = z")
      case True
      with ab bc x y Some show ?thesis by (auto simp: rowLe_def intro: tr split: if_splits)
    next
      case False
      with ab bc x y Some have "le y x" "le z y" by (auto simp: rowLe_def)
      with False show ?thesis using tr [of z y x] anti [of y z] by (auto simp: rowLe_def x Some)
    qed
  qed
qed

lemma sorted_rows: "linearOrder le \<Longrightarrow> sorted_wrt (rowLe le) (sortBy (rowLe le) rows)"
  by (rule sorted_sortBy) (fact rowLe_total, fact rowLe_trans)

section \<open>PostgreSQL meets the contract\<close>

definition revivedRow :: "'r credoFramework \<Rightarrow> recordClass \<Rightarrow> recordRow \<Rightarrow> 'r option" where
  "revivedRow fw c r = (case parseRow r of Inl _ \<Rightarrow> None | Inr v \<Rightarrow> revive fw c v)"

definition tenantRows :: "recordDb \<Rightarrow> string \<Rightarrow> recordClass \<Rightarrow> recordRow list" where
  "tenantRows s w c = filter (whereType c (\<lambda>t. ofTenant t w)) (rd_rows s)"

definition pgListing :: "collation \<Rightarrow> 'r credoFramework \<Rightarrow> recordDb \<Rightarrow> string \<Rightarrow> recordClass \<Rightarrow> 'r option list" where
  "pgListing le fw s w c = map (revivedRow fw c) (sortBy (rowLe le) (tenantRows s w c))"

definition rowHolds :: "jsonbOps \<Rightarrow> string \<Rightarrow> recordClass \<Rightarrow> tagQuerySql \<Rightarrow> recordRow \<Rightarrow> bool" where
  "rowHolds J w c sql r \<longleftrightarrow>
     holdsQuery J ([PText (typeOf c), PText w] @ tq_params sql) (storedForQueryOf r) (tq_conditions sql)"

definition pgMatching ::
  "collation \<Rightarrow> jsonbOps \<Rightarrow> 'r credoFramework \<Rightarrow> recordDb \<Rightarrow> string \<Rightarrow> recordClass \<Rightarrow> recordQuery \<Rightarrow> 'r option list"
where
  "pgMatching le J fw s w c q =
     (case buildTagQuerySql q 3 of
        None \<Rightarrow> []
      | Some sql \<Rightarrow> map (revivedRow fw c) (sortBy (rowLe le) (filter (rowHolds J w c sql) (tenantRows s w c))))"

lemma pgQuery_Inr:
  "pgQuery F m s = (Inr a, t) \<Longrightarrow> m (s\<lparr>rd_queries := Suc (rd_queries s)\<rparr>) = (Inr a, t)"
  by (simp add: pgQuery_def Let_def split: option.splits)

lemma tenantRows_queries [simp]: "tenantRows (s\<lparr>rd_queries := n\<rparr>) w c = tenantRows s w c"
  by (simp add: tenantRows_def)

lemma reviveAll_rows:
  "parseRows rows = Inr stored \<Longrightarrow> reviveAll fw c stored = List.map_filter id (map (revivedRow fw c) rows)"
proof (induction rows arbitrary: stored)
  case (Cons r rs)
  then show ?case
    by (auto simp: reviveAll_def revivedRow_def List.map_filter_def split: sum.splits)
qed (simp add: reviveAll_def List.map_filter_def)

lemma ofSum_Inr: "ofSum v s = (Inr a, t) \<longleftrightarrow> v = Inr a \<and> t = s"
  by (cases v) (auto simp: ofSum_def)

lemma selectCount_Inr:
  "selectCount (whereType c (\<lambda>t. ofTenant t w)) cond s = (Inr n, t) \<Longrightarrow>
    t = s \<and> n = int (length (filter (case cond of None \<Rightarrow> \<lambda>_. True | Some P \<Rightarrow> P) (tenantRows s w c)))"
  by (auto simp: selectCount_def tenantRows_def Let_def split: option.splits if_splits)

lemma selectPage_Inr:
  "selectPage le (whereType c (\<lambda>t. ofTenant t w)) P (Some opts) s = (Inr rows, t) \<Longrightarrow>
    t = s \<and> rows = pageOf opts (sortBy (rowLe le) (filter P (tenantRows s w c)))"
  by (auto simp: selectPage_def tenantRows_def Let_def split: if_splits)

lemma pgGetAllPaginated_page:
  assumes "pgGetAllPaginated F le fw w c opts s = (Inr page, t)"
  shows "isPage opts (pgListing le fw s w c) page"
proof -
  from assms obtain n s1 where n: "pgQuery F (selectCount (whereType c (\<lambda>t. ofTenant t w)) None) s = (Inr n, s1)"
    and r1: "andThen (pgQuery F (selectPage le (whereType c (\<lambda>t. ofTenant t w)) (\<lambda>_. True) (Some opts))) (\<lambda>rows.
      andThen (ofSum (parseRows rows)) (\<lambda>stored.
      ret \<lparr>pr_items = reviveAll fw c stored,
        pr_pagination = buildRecordsPageMeta n (po_page opts) (po_limit opts)\<rparr>)) s1 = (Inr page, t)"
    unfolding pgGetAllPaginated_def Let_def by (rule andThen_InrE)
  from r1 obtain rows s2 where
    rows: "pgQuery F (selectPage le (whereType c (\<lambda>t. ofTenant t w)) (\<lambda>_. True) (Some opts)) s1 = (Inr rows, s2)"
    and r2: "andThen (ofSum (parseRows rows)) (\<lambda>stored.
      ret \<lparr>pr_items = reviveAll fw c stored,
        pr_pagination = buildRecordsPageMeta n (po_page opts) (po_limit opts)\<rparr>) s2 = (Inr page, t)"
    by (rule andThen_InrE)
  from r2 obtain stored where stored: "parseRows rows = Inr stored"
    "page = \<lparr>pr_items = reviveAll fw c stored,
        pr_pagination = buildRecordsPageMeta n (po_page opts) (po_limit opts)\<rparr>"
    by (auto simp: ofSum_Inr elim!: andThen_InrE)
  from selectCount_Inr [OF pgQuery_Inr [OF n]] selectPage_Inr [OF pgQuery_Inr [OF rows]]
  have "n = int (length (tenantRows s w c))" "rows = pageOf opts (sortBy (rowLe le) (tenantRows s w c))"
    by auto
  with reviveAll_rows [OF stored(1)] stored(2) show ?thesis
    by (simp add: isPage_def pgListing_def pageOf_map)
qed

lemma selectStored_page:
  assumes "selectStoredByTagQuery F le J w c q (Some opts) s = (Inr (items, n), t)"
  obtains sql where "buildTagQuerySql q 3 = Some sql"
    and "n = int (length (filter (rowHolds J w c sql) (tenantRows s w c)))"
    and "parseRows (pageOf opts (sortBy (rowLe le) (filter (rowHolds J w c sql) (tenantRows s w c)))) = Inr items"
proof -
  from assms obtain sql where sql: "buildTagQuerySql q 3 = Some sql"
    by (auto simp: selectStoredByTagQuery_def split: option.splits)
  let ?holds = "\<lambda>ps r. holdsQuery J ps (storedForQueryOf r) (tq_conditions sql)"
  let ?base = "[PText (typeOf c), PText w] @ tq_params sql"
  from sql have "buildTagQuerySql q (Suc (length [PText (typeOf c), PText w])) = Some sql" by (simp add: eval_nat_numeral)
  from holdsQuery_append [OF this, of J "pageParams (Some opts)"]
  have holds: "?holds (?base @ pageParams (Some opts)) = rowHolds J w c sql" "?holds ?base = rowHolds J w c sql"
    by (auto simp: rowHolds_def)
  from assms sql obtain m s1 where m: "pgQuery F (selectCount (whereType c (\<lambda>t. ofTenant t w)) (Some (rowHolds J w c sql))) s = (Inr m, s1)"
    and r1: "andThen (pgQuery F (selectPage le (whereType c (\<lambda>t. ofTenant t w)) (rowHolds J w c sql) (Some opts))) (\<lambda>rows.
      andThen (ofSum (parseRows rows)) (\<lambda>items. ret (items, m))) s1 = (Inr (items, n), t)"
    unfolding selectStoredByTagQuery_def Let_def by (simp only: option.case holds) (erule andThen_InrE)
  from r1 obtain rows s2 where
    rows: "pgQuery F (selectPage le (whereType c (\<lambda>t. ofTenant t w)) (rowHolds J w c sql) (Some opts)) s1 = (Inr rows, s2)"
    and r2: "parseRows rows = Inr items" "m = n"
    by (auto simp: ofSum_Inr elim!: andThen_InrE)
  from selectCount_Inr [OF pgQuery_Inr [OF m]] selectPage_Inr [OF pgQuery_Inr [OF rows]] r2 sql
  show thesis by (intro that [of sql]) auto
qed

lemma pgFindByQueryPaginated_page:
  assumes "pgFindByQueryPaginated F le J fw w c q opts s = (Inr page, t)"
  shows "isPage opts (pgMatching le J fw s w c q) page"
proof -
  from assms obtain items n t' where
    sel: "selectStoredByTagQuery F le J w c q (Some opts) s = (Inr (items, n), t')"
    and page: "page = \<lparr>pr_items = reviveAll fw c items,
       pr_pagination = buildRecordsPageMeta n (po_page opts) (po_limit opts)\<rparr>"
    unfolding pgFindByQueryPaginated_def by (auto elim!: andThen_InrE)
  from sel obtain sql where sql: "buildTagQuerySql q 3 = Some sql"
    and n: "n = int (length (filter (rowHolds J w c sql) (tenantRows s w c)))"
    and items: "parseRows (pageOf opts (sortBy (rowLe le) (filter (rowHolds J w c sql) (tenantRows s w c)))) = Inr items"
    by (rule selectStored_page)
  from reviveAll_rows [OF items] show ?thesis
    by (simp add: isPage_def pgMatching_def page sql n pageOf_map)
qed

interpretation pg: record_storage "pgListing le fw" "pgMatching le J fw" "pgGetAllPaginated F le fw"
  "pgFindByQueryPaginated F le J fw" for le J fw F
  by unfold_locales (fact pgGetAllPaginated_page pgFindByQueryPaginated_page)+

section \<open>Askar meets the contract\<close>

definition askarListing :: "('s, 'r) askarService \<Rightarrow> 's \<Rightarrow> string \<Rightarrow> recordClass \<Rightarrow> 'r option list" where
  "askarListing A s w c = (case fst (as_getAll A w c s) of Inl _ \<Rightarrow> [] | Inr rs \<Rightarrow> map Some rs)"

definition askarMatching ::
  "('s, 'r) askarService \<Rightarrow> 's \<Rightarrow> string \<Rightarrow> recordClass \<Rightarrow> recordQuery \<Rightarrow> 'r option list" where
  "askarMatching A s w c q = (case fst (askarFindByQuery A w c q s) of Inl _ \<Rightarrow> [] | Inr rs \<Rightarrow> map Some rs)"

lemma map_filter_Some: "List.map_filter id (map Some xs) = xs"
  by (induction xs) (simp_all add: List.map_filter_def)

lemma inMemoryPage_isPage: "isPage opts (map Some rs) (inMemoryPage opts rs)"
  by (simp add: isPage_def inMemoryPage_def pageOf_map map_filter_Some Let_def) (simp add: pageOf_def)

interpretation askar: record_storage "askarListing A" "askarMatching A" "askarGetAllPaginated A"
  "askarFindByQueryPaginated A" for A :: "('s, 'r) askarService"
proof unfold_locales
  fix w c opts page and s t :: 's
  assume "askarGetAllPaginated A w c opts s = (Inr page, t)"
  then show "isPage opts (askarListing A s w c) page"
    by (auto simp: askarGetAllPaginated_def askarGetAll_def askarListing_def inMemoryPage_isPage elim!: andThen_InrE)
next
  fix w c q opts page and s t :: 's
  assume "askarFindByQueryPaginated A w c q opts s = (Inr page, t)"
  then show "isPage opts (askarMatching A s w c q) page"
    by (auto simp: askarFindByQueryPaginated_def askarMatching_def inMemoryPage_isPage elim!: andThen_InrE)
qed

section \<open>Every page of a tenant\<close>

definition postgresAgent where
  "postgresAgent F le J fw w = \<lparr>ta_storage = Some (postgresRecordStorage F le J fw), ta_wallet = w\<rparr>"

lemma postgresAgent_over:
  "postgresAgent F le J fw w =
    agentOver (pgGetById F fw) (pgGetAllPaginated F le fw) (pgFindByQueryPaginated F le J fw) w"
  by (simp add: postgresAgent_def postgresRecordStorage_def agentOver_def)

definition pageRequest :: "int \<Rightarrow> nat \<Rightarrow> listTenantRecordsOptions" where
  "pageRequest limit p = \<lparr>lo_query = None, lo_page = Some (of_nat p), lo_limit = Some (of_int limit)\<rparr>"

lemma pgQuery_up: "\<forall>n. F n = None \<Longrightarrow> pgQuery F m s = m (s\<lparr>rd_queries := Suc (rd_queries s)\<rparr>)"
  by (simp add: pgQuery_def Let_def)

lemma parseRows_revived:
  "\<forall>r\<in>set rows. revivedRow fw c r \<noteq> None \<Longrightarrow> \<exists>stored. parseRows rows = Inr stored"
proof (induction rows)
  case (Cons r rs)
  then show ?case by (auto simp: revivedRow_def split: sum.splits)
qed simp

lemma revivedRow_castable: "revivedRow fw c r \<noteq> None \<Longrightarrow> castable r"
  by (auto simp: revivedRow_def parseRow_def castable_def split: option.splits)

lemma set_pageOf: "set (pageOf opts xs) \<subseteq> set xs"
  by (auto simp: pageOf_def slice_def dest: in_set_takeD in_set_dropD)

lemma pgGetAllPaginated_returns:
  assumes F: "\<forall>n. F n = None" and rows: "\<forall>r\<in>set (tenantRows s w c). revivedRow fw c r \<noteq> None"
    and offset: "offsetOf opts < 2 ^ 63"
  shows "\<exists>page t. pgGetAllPaginated F le fw w c opts s = (Inr page, t) \<and> rd_rows t = rd_rows s"
proof -
  have "\<forall>r\<in>set (pageOf opts (sortBy (rowLe le) (tenantRows s w c))). revivedRow fw c r \<noteq> None"
    using rows set_pageOf by fastforce
  from parseRows_revived [OF this] obtain stored where
    "parseRows (pageOf opts (sortBy (rowLe le) (tenantRows s w c))) = Inr stored" by blast
  moreover have "list_all castable (tenantRows s w c)"
  proof (unfold list_all_iff, intro ballI)
    fix r assume "r \<in> set (tenantRows s w c)"
    with rows have "revivedRow fw c r \<noteq> None" by blast
    then show "castable r" by (rule revivedRow_castable)
  qed
  ultimately show ?thesis
    using offset
    by (simp add: pgGetAllPaginated_def pgQuery_up [OF F] selectCount_def selectPage_def Let_def
        tenantRows_def andThen_run ofSum_def)
qed

lemma pageCount_last:
  assumes "0 < limit" "1 \<le> p" "p \<le> pageCount xs limit"
  shows "(int p - 1) * limit < int (length xs)"
proof -
  have pos: "(0 :: rat) < of_int limit" using assms by simp
  have "int p \<le> \<lceil>of_int (int (length xs)) / (of_int limit :: rat)\<rceil>"
    using assms(2,3) by (auto simp: pageCount_def buildRecordsPageMeta_def Let_def split: if_splits)
  then have "of_int (int p - 1) < (of_int (int (length xs)) / of_int limit :: rat)"
    by (simp only: le_ceiling_iff)
  then have "(of_int ((int p - 1) * limit) :: rat) < of_int (int (length xs))"
    by (simp only: pos_less_divide_eq [OF pos] of_int_mult)
  then show ?thesis by (simp only: of_int_less_iff)
qed

text \<open>C11.
  Listing the records of a type page by page gives every record of the tenant exactly once and
  no record of another: with a database that answers, each page up to the last returns, and
  their records in order are the JSON of the tenant's rows of that type, sorted by creation,
  newest first, whatever the size of the page.
\<close>

theorem tenant_listing_complete:
  assumes le: "linearOrder le" and F: "\<forall>n. F n = None"
    and c: "resolveRecordClass credo role recordType = Inr c" and limit: "1 \<le> limit" "limit \<le> 100"
    and rows: "\<forall>r\<in>set (tenantRows s w c). revivedRow fw c r \<noteq> None"
    and few: "int (length (tenantRows s w c)) < 2 ^ 63"
  shows "\<exists>sorted pages. mset sorted = mset (tenantRows s w c) \<and> sorted_wrt (rowLe le) sorted \<and>
    (\<forall>p\<in>{1..pageCount sorted limit}. \<exists>t.
       listTenantRecords credo fw (postgresAgent F le J fw w) role recordType (pageRequest limit p) s =
         (Inr (pages p), t) \<and> rd_rows t = rd_rows s) \<and>
    concat (map (lr_records \<circ> pages) [1..<Suc (pageCount sorted limit)]) =
      map (\<lambda>r. toJSON fw (the (revivedRow fw c r))) sorted"
proof -
  let ?sorted = "sortBy (rowLe le) (tenantRows s w c)"
  let ?list = "\<lambda>p. listTenantRecords credo fw (postgresAgent F le J fw w) role recordType (pageRequest limit p) s"
  let ?all = "pgListing le fw s w c"
  have count: "pageCount ?all limit = pageCount ?sorted limit" by (simp add: pageCount_def pgListing_def)
  have returns: "\<exists>res t. ?list p = (Inr res, t) \<and> rd_rows t = rd_rows s"
    if p: "p \<in> {1..pageCount ?sorted limit}" for p
  proof -
    have opts: "normalizeRecordsPageOptions (Some (of_nat p)) (Some (of_int limit)) = pageNumber limit (int p)"
      using limit p by (auto simp: normalizeRecordsPageOptions_def pageNumber_def Let_def MAX_RECORDS_PAGE_SIZE_def)
    have "offsetOf (pageNumber limit (int p)) < 2 ^ 63"
      using pageCount_last [of limit p ?sorted] limit p few by (simp add: offsetOf_def pageNumber_def)
    from pgGetAllPaginated_returns [OF F rows this, of le] obtain page t where
      "pgGetAllPaginated F le fw w c (pageNumber limit (int p)) s = (Inr page, t)" "rd_rows t = rd_rows s" by blast
    then show ?thesis
      by (simp add: postgresAgent_over listTenantRecords_run c pageRequest_def opts andThen_run)
  qed
  define pages where "pages p = projr (fst (?list p))" for p
  have pages: "\<exists>t. ?list p = (Inr (pages p), t) \<and> rd_rows t = rd_rows s"
    if "p \<in> {1..pageCount ?sorted limit}" for p
    using returns [OF that] by (auto simp: pages_def)
  have "concat (map (lr_records \<circ> pages) [1..<Suc (pageCount ?all limit)]) =
      map (toJSON fw) (List.map_filter id ?all)"
  proof (rule pg.listed_pages [OF c limit])
    fix p assume "p \<in> {1..pageCount ?all limit}"
    with pages [of p] count show "listTenantRecords credo fw
        (agentOver (pgGetById F fw) (pgGetAllPaginated F le fw) (pgFindByQueryPaginated F le J fw) w) role recordType
        \<lparr>lo_query = None, lo_page = Some (of_nat p), lo_limit = Some (of_int limit)\<rparr> s =
        (Inr (pages p), snd (?list p)) \<and> pgListing le fw s w c = ?all"
      by (auto simp: postgresAgent_over pageRequest_def)
  qed
  also have "List.map_filter id ?all = map (\<lambda>r. the (revivedRow fw c r)) ?sorted"
  proof -
    have "List.map_filter id (map (revivedRow fw c) xs) = map (\<lambda>r. the (revivedRow fw c r)) xs"
      if "\<forall>r\<in>set xs. revivedRow fw c r \<noteq> None" for xs
      using that by (induction xs) (auto simp: List.map_filter_def)
    with rows show ?thesis by (simp add: pgListing_def)
  qed
  finally have "concat (map (lr_records \<circ> pages) [1..<Suc (pageCount ?sorted limit)]) =
      map (\<lambda>r. toJSON fw (the (revivedRow fw c r))) ?sorted" by (simp only: count map_map comp_def)
  with pages sorted_rows [OF le] show ?thesis by (intro exI [of _ ?sorted] exI [of _ pages]) simp
qed

text \<open>A framework whose records are their class and their JSON; two tenants.\<close>

definition sampleFramework :: "(recordClass \<times> (string \<times> json) list) credoFramework" where
  "sampleFramework =
     \<lparr>fromJSON = (\<lambda>v c. case v of Some (JObj kvs) \<Rightarrow> Some (c, kvs) | _ \<Rightarrow> None),
      toJSON = (\<lambda>(_, kvs). JObj kvs), hasClone = (\<lambda>_. True), classOf = fst,
      idOf = (\<lambda>(_, kvs). case map_of kvs ''id'' of Some (JStr s) \<Rightarrow> s | _ \<Rightarrow> []),
      ownJSON = snd, getTags = (\<lambda>_. [])\<rparr>"

definition didClass :: recordClass where
  "didClass = \<lparr>rc_name = ''DidRecord'', rc_type = Some ''DidRecord''\<rparr>"

definition didRow :: "string \<Rightarrow> string \<Rightarrow> recordRow" where
  "didRow w i = \<lparr>rr_type = ''DidRecord'', rr_id = i, rr_wallet_id = w,
     rr_data = storedText (buildStoredRecord sampleFramework (didClass, [(''id'', JStr i)]))\<rparr>"

definition sampleRecords :: recordDb where
  "sampleRecords = \<lparr>rd_rows = [didRow ''w1'' ''b'', didRow ''w2'' ''c'', didRow ''w1'' ''a''], rd_queries = 0\<rparr>"

lemma revived_didRow: "revivedRow sampleFramework didClass (didRow w i) = Some (didClass, [(''id'', JStr i)])"
  by (simp add: revivedRow_def parseRow_def didRow_def storedText_def storedJson_def buildStoredRecord_def
      revive_def ensureRecordInstance_def sampleFramework_def definedField_def del: stringify.simps)

lemma tenantRows_sample: "tenantRows sampleRecords ''w1'' didClass = [didRow ''w1'' ''b'', didRow ''w1'' ''a'']"
  by (simp add: tenantRows_def sampleRecords_def whereType_def ofTenant_def didRow_def didClass_def)

lemma linearOrder_lexicographic: "linearOrder ((\<le>) :: string \<Rightarrow> string \<Rightarrow> bool)"
  by (auto simp: linearOrder_def)

lemma resolve_did: "resolveRecordClass credo06 IssuerRole ''DidRecord'' = Inr didClass"
proof -
  have "findRecordTypeDescriptor IssuerRole ''DidRecord'' = Some \<lparr>rd_className = ''DidRecord'',
      rd_storageType = ''DidRecord'', rd_category = Identity, rd_roles = [IssuerRole, HolderRole, VerifierRole]\<rparr>"
    by code_simp
  then show ?thesis by (simp add: registry_agrees [OF credo06_matches] didClass_def)
qed

theorem tenant_listing_complete_witness:
  "\<exists>sorted (pages :: nat \<Rightarrow> listTenantRecordsResult).
    mset sorted = mset [didRow ''w1'' ''b'', didRow ''w1'' ''a''] \<and>
    sorted_wrt (rowLe (\<le>)) sorted \<and>
    concat (map (lr_records \<circ> pages) [1..<Suc (pageCount sorted 1)]) =
      map (\<lambda>r. toJSON sampleFramework (the (revivedRow sampleFramework didClass r))) sorted"
proof -
  have rows: "\<forall>r\<in>set (tenantRows sampleRecords ''w1'' didClass). revivedRow sampleFramework didClass r \<noteq> None"
    by (simp add: tenantRows_sample revived_didRow)
  have few: "int (length (tenantRows sampleRecords ''w1'' didClass)) < 2 ^ 63"
    by (simp add: tenantRows_sample)
  have limit: "(1 :: int) \<le> 1" "(1 :: int) \<le> 100" by simp_all
  have F: "\<forall>n :: nat. (\<lambda>_. None :: string option) n = None" by simp
  from tenant_listing_complete [OF linearOrder_lexicographic F resolve_did limit rows few, of jsonb_sample]
  show ?thesis unfolding tenantRows_sample by blast
qed

section \<open>One record\<close>

text \<open>Two rows never have the same type and identifier: the primary key.\<close>

definition keyed :: "recordDb \<Rightarrow> bool" where
  "keyed s \<longleftrightarrow> distinct (map (\<lambda>r. (rr_type r, rr_id r)) (rd_rows s))"

text \<open>The framework gives back the record its JSON was made from, as an instance of its class.\<close>

definition revives :: "'r credoFramework \<Rightarrow> 'r \<Rightarrow> bool" where
  "revives fw r \<longleftrightarrow> fromJSON fw (Some (JObj (ownJSON fw r))) (classOf fw r) = Some r \<and> hasClone fw r"

definition ownerOf :: "recordDb \<Rightarrow> string \<Rightarrow> string \<Rightarrow> string option" where
  "ownerOf s t i = map_option rr_wallet_id (find (keyIs t i) (rd_rows s))"

lemma keyed_save: "keyed s \<Longrightarrow> keyed (snd (pgSave F fw w r s))"
proof -
  assume k: "keyed s"
  let ?st = "buildStoredRecord fw r"
  have upd: "map (\<lambda>r. (rr_type r, rr_id r)) (updateWhere P (\<lambda>x. x\<lparr>rr_data := d\<rparr>) rows) =
      map (\<lambda>r. (rr_type r, rr_id r)) rows" for P d rows
    by (induction rows) (simp_all add: updateWhere_def)
  have "(st_type ?st, st_id ?st) \<notin> (\<lambda>r. (rr_type r, rr_id r)) ` set (rd_rows s)"
    if "\<not> (\<exists>x\<in>set (rd_rows s). keyIs (st_type ?st) (st_id ?st) x)"
    using that by (auto simp: keyIs_def)
  with k show ?thesis
    by (auto simp: pgSave_def pgQuery_def keyed_def Let_def upd split: option.split)
qed

lemma initialised_keyed: "keyed s \<Longrightarrow> keyed (snd (seedStorageVersionRecord F seed s))"
  by (auto simp: seedStorageVersionRecord_def pgQuery_def keyed_def keyIs_def Let_def image_iff split: option.split)

text \<open>The rows a wallet reads a record from, when the key is the primary key.\<close>

lemma filter_owned:
  assumes "keyed s"
  shows "filter (ownedKeyIs t i w) (rd_rows s) =
    (case find (keyIs t i) (rd_rows s) of None \<Rightarrow> [] | Some x \<Rightarrow> if rr_wallet_id x = w then [x] else [])"
proof -
  have "filter (ownedKeyIs t i w) rows =
      (case find (keyIs t i) rows of None \<Rightarrow> [] | Some x \<Rightarrow> if rr_wallet_id x = w then [x] else [])"
    if "distinct (map (\<lambda>r. (rr_type r, rr_id r)) rows)" for rows
    using that
  proof (induction rows)
    case (Cons x rows)
    show ?case
    proof (cases "keyIs t i x")
      case True
      then have "\<not> keyIs t i y" if "y \<in> set rows" for y
        using Cons.prems that by (auto simp: keyIs_def image_iff)
      then have none: "filter (ownedKeyIs t i w) rows = []" by (auto simp: filter_empty_conv ownedKeyIs_def)
      from True have "ownedKeyIs t i w x = (rr_wallet_id x = w)" by (simp add: ownedKeyIs_def)
      with True none show ?thesis by simp
    next
      case False
      with Cons show ?thesis by (simp add: ownedKeyIs_def)
    qed
  qed simp
  with assms show ?thesis by (simp add: keyed_def)
qed

lemma find_updateWhere:
  assumes "\<And>x. P (f x) = P x"
  shows "find P (updateWhere P f rows) = map_option f (find P rows)"
  using assms by (induction rows) (auto simp: updateWhere_def)

lemma find_after_save:
  assumes F: "\<forall>n. F n = None" and t: "rc_type (classOf fw r) = Some t"
  shows "find (keyIs t (idOf fw r)) (rd_rows (snd (pgSave F fw w r s))) =
    Some \<lparr>rr_type = t, rr_id = idOf fw r,
      rr_wallet_id = (case ownerOf s t (idOf fw r) of None \<Rightarrow> w | Some w' \<Rightarrow> w'),
      rr_data = storedText (buildStoredRecord fw r)\<rparr>"
proof -
  let ?st = "buildStoredRecord fw r"
  have st: "st_type ?st = t" "st_id ?st = idOf fw r" using t by (simp_all add: buildStoredRecord_def typeOf_def)
  show ?thesis
  proof (cases "find (keyIs t (idOf fw r)) (rd_rows s)")
    case None
    then have no: "\<not> (\<exists>x\<in>set (rd_rows s). keyIs t (idOf fw r) x)" by (auto simp: find_None_iff)
    moreover have "keyIs t (idOf fw r) \<lparr>rr_type = t, rr_id = idOf fw r, rr_wallet_id = w, rr_data = d\<rparr>" for d
      by (simp add: keyIs_def)
    ultimately show ?thesis using None
      by (simp add: pgSave_def pgQuery_up [OF F] st Let_def ownerOf_def find_append)
  next
    case (Some x)
    then have x: "x \<in> set (rd_rows s)" "keyIs t (idOf fw r) x" by (auto simp: find_Some_iff)
    have "keyIs t (idOf fw r) (y\<lparr>rr_data := d\<rparr>) = keyIs t (idOf fw r) y" for y d
      by (simp add: keyIs_def)
    from find_updateWhere [of "keyIs t (idOf fw r)" "\<lambda>y. y\<lparr>rr_data := storedText ?st\<rparr>", OF this] x Some
    show ?thesis
      by (cases x) (auto simp: pgSave_def pgQuery_up [OF F] st Let_def ownerOf_def keyIs_def)
  qed
qed

lemma revive_stored:
  assumes "revives fw r"
  shows "parseRow \<lparr>rr_type = t, rr_id = i, rr_wallet_id = w, rr_data = storedText (buildStoredRecord fw r)\<rparr> =
      Inr (storedJson (buildStoredRecord fw r)) \<and>
    revive fw (classOf fw r) (storedJson (buildStoredRecord fw r)) = Some r"
  using assms by (simp add: parseRow_def storedText_def storedJson_def revive_def ensureRecordInstance_def
      revives_def buildStoredRecord_def del: stringify.simps)

text \<open>C12.
  A record that a tenant saves is read back exactly by the tenant whose row has its type and
  identifier. That is the tenant itself only when no other had the key: the conflict on
  \<^verbatim>\<open>(type, id)\<close> overwrites the record of the other tenant, who then reads the new content,
  while the one who saved it, and was told that it was saved, reads nothing.
\<close>

theorem save_read_back:
  assumes F: "\<forall>n. F n = None" and s: "keyed s" and r: "revives fw r"
    and t: "rc_type (classOf fw r) = Some t"
  shows "fst (pgSave F fw w r s) = Inr () \<and>
    fst (pgGetById F fw reader (classOf fw r) (idOf fw r) (snd (pgSave F fw w r s))) =
      Inr (if reader = (case ownerOf s t (idOf fw r) of None \<Rightarrow> w | Some w' \<Rightarrow> w') then Some r else None)"
proof -
  let ?s = "snd (pgSave F fw w r s)"
  have "whereType (classOf fw r) (\<lambda>t. ownedKeyIs t (idOf fw r) reader) = ownedKeyIs t (idOf fw r) reader"
    using t by (auto simp: whereType_def)
  then have "filter (whereType (classOf fw r) (\<lambda>t. ownedKeyIs t (idOf fw r) reader)) (rd_rows ?s) =
      (if reader = (case ownerOf s t (idOf fw r) of None \<Rightarrow> w | Some w' \<Rightarrow> w')
       then [\<lparr>rr_type = t, rr_id = idOf fw r, rr_wallet_id = reader,
         rr_data = storedText (buildStoredRecord fw r)\<rparr>] else [])"
    using filter_owned [OF keyed_save [OF s], of t "idOf fw r" reader F fw w r] find_after_save [OF F t, of w s]
    by auto
  moreover have "fst (pgSave F fw w r s) = Inr ()" by (simp add: pgSave_def pgQuery_up [OF F] Let_def)
  ultimately show ?thesis
    by (simp add: pgGetById_def pgQuery_up [OF F] andThen_run ofSum_def revive_stored [OF r])
qed

theorem save_read_back_witness:
  "fst (pgGetById (\<lambda>_. None) sampleFramework ''w1'' didClass ''c''
      (snd (pgSave (\<lambda>_. None) sampleFramework ''w1'' (didClass, [(''id'', JStr ''c''), (''x'', JNull)]) sampleRecords))) =
    Inr None \<and>
   fst (pgGetById (\<lambda>_. None) sampleFramework ''w2'' didClass ''c''
      (snd (pgSave (\<lambda>_. None) sampleFramework ''w1'' (didClass, [(''id'', JStr ''c''), (''x'', JNull)]) sampleRecords))) =
    Inr (Some (didClass, [(''id'', JStr ''c''), (''x'', JNull)]))"
  using save_read_back [of "\<lambda>_. None" sampleRecords sampleFramework
      "(didClass, [(''id'', JStr ''c''), (''x'', JNull)])" "''DidRecord''" "''w1''" "''w1''"]
    save_read_back [of "\<lambda>_. None" sampleRecords sampleFramework
      "(didClass, [(''id'', JStr ''c''), (''x'', JNull)])" "''DidRecord''" "''w1''" "''w2''"]
  by (simp add: keyed_def sampleRecords_def didRow_def revives_def sampleFramework_def didClass_def
      ownerOf_def keyIs_def)

text \<open>Updates and deletions stay within the tenant.\<close>

definition othersOf :: "string \<Rightarrow> recordDb \<Rightarrow> recordRow list" where
  "othersOf w s = filter (\<lambda>r. rr_wallet_id r \<noteq> w) (rd_rows s)"

lemma filter_updateWhere:
  "(\<And>r. P r \<Longrightarrow> \<not> Q r) \<Longrightarrow> (\<And>r. Q (f r) = Q r) \<Longrightarrow> filter Q (updateWhere P f rows) = filter Q rows"
  by (induction rows) (auto simp: updateWhere_def)

lemma filter_deleteWhere: "(\<And>r. P r \<Longrightarrow> \<not> Q r) \<Longrightarrow> filter Q (deleteWhere P rows) = filter Q rows"
  by (induction rows) (auto simp: deleteWhere_def)

theorem changes_stay_in_tenant:
  "othersOf w (snd (pgUpdate F fw w r s)) = othersOf w s"
  "othersOf w (snd (pgDelete F fw w r s)) = othersOf w s"
  "othersOf w (snd (pgDeleteById F w c i s)) = othersOf w s"
  by (auto simp: othersOf_def pgUpdate_def pgDelete_def pgDeleteById_def pgQuery_def Let_def whereType_def
      ownedKeyIs_def intro!: filter_updateWhere filter_deleteWhere split: option.splits)

text \<open>The same listing over Askar, whatever its storage service lists.\<close>

theorem askar_listing_complete:
  assumes "resolveRecordClass credo role recordType = Inr c" and "1 \<le> limit" "limit \<le> 100"
    and "\<And>p. p \<in> {1..pageCount all limit} \<Longrightarrow>
      listTenantRecords credo fw (agentOver (askarGetById A) (askarGetAllPaginated A) (askarFindByQueryPaginated A) w)
        role recordType (pageRequest limit p) (st p) = (Inr (res p), st' p) \<and> askarListing A (st p) w c = all"
  shows "concat (map (lr_records \<circ> res) [1..<Suc (pageCount all limit)]) = map (toJSON fw) (List.map_filter id all)"
  using assms by (intro askar.listed_pages) (simp_all add: pageRequest_def)

end
