(* ===== verification/RecordHttpProps.thy ===== *)
theory RecordHttpProps
  imports RecordHttp RecordProps IssuerProps
begin

text \<open>
  What a request for records can see: the composition of the guard, billing, the endpoints of
  \<^verbatim>\<open>records/\<close>, the tenants of the process and the Askar adapter, which is the one the services
  register (\<^verbatim>\<open>records/record-storage.module.ts\<close>).
\<close>

section \<open>Whose records an answer shows\<close>

text \<open>
  The storage service of the framework answers for a context out of the store of that context, as
  Askar keeps one for each tenant.
\<close>

definition storePerContext :: "('s, 'r) askarService \<Rightarrow> ('s \<Rightarrow> string \<Rightarrow> 'r set) \<Rightarrow> bool" where
  "storePerContext S stored \<longleftrightarrow>
     (\<forall>w c i s r t. as_getById S w c i s = (Inr r, t) \<longrightarrow> r \<in> stored s w) \<and>
     (\<forall>w c s rs t. as_getAll S w c s = (Inr rs, t) \<longrightarrow> set rs \<subseteq> stored s w) \<and>
     (\<forall>w c q s rs t. as_findByQuery S w c q s = (Inr rs, t) \<longrightarrow> set rs \<subseteq> stored s w)"

definition askarAgent :: "('s, 'r) askarService \<Rightarrow> string \<Rightarrow> ('s, 'r) tenantAgent" where
  "askarAgent S w = \<lparr>ta_storage = Some (askarRecordStorage S), ta_wallet = w\<rparr>"

lemma askarAgent_over:
  "askarAgent S w = agentOver (askarGetById S) (askarGetAllPaginated S) (askarFindByQueryPaginated S) w"
  by (simp add: askarAgent_def askarRecordStorage_def agentOver_def)

lemma in_map_filter: "x \<in> set (List.map_filter id xs) \<longleftrightarrow> Some x \<in> set xs"
  by (induction xs) (auto simp: List.map_filter_def)

lemma dedup_subset: "set (applyOutOfBandRecipientDedup date c q items) \<subseteq> set items"
  unfolding applyOutOfBandRecipientDedup_def using set_take_subset [of 1] by (auto simp: set_sortBy dest: in_set_takeD)

lemma listing_stored:
  assumes "storePerContext S stored"
    and "Some x \<in> set (askarListing S s w c) \<or> Some x \<in> set (askarMatching S s w c q)"
  shows "x \<in> stored s w"
  using assms(2)
proof
  assume "Some x \<in> set (askarListing S s w c)"
  then obtain rs t where "as_getAll S w c s = (Inr rs, t)" "x \<in> set rs"
    by (cases "as_getAll S w c s") (auto simp: askarListing_def split: sum.splits)
  with assms(1) show ?thesis unfolding storePerContext_def by blast
next
  assume "Some x \<in> set (askarMatching S s w c q)"
  then obtain rs t where "as_findByQuery S w c q s = (Inr rs, t)"
      "x \<in> set (applyOutOfBandRecipientDedup (\<lambda>r. askarParseDate (as_createdAt S r)) c q rs)"
    by (cases "as_findByQuery S w c q s")
      (auto simp: askarMatching_def askarFindByQuery_def andThen_run split: sum.splits)
  then have "x \<in> set rs" "as_findByQuery S w c q s = (Inr rs, t)" using dedup_subset by fast+
  with assms(1) show ?thesis unfolding storePerContext_def by blast
qed

lemma listed_stored:
  assumes "storePerContext S stored"
    and "listTenantRecords credo fw (askarAgent S w) role recordType options s = (Inr res, t)"
    and "j \<in> set (lr_records res)"
  shows "j \<in> toJSON fw ` stored s w"
proof -
  from askar.listed_page [OF assms(2) [unfolded askarAgent_over]] obtain c where
    "lr_records res = map (toJSON fw) (List.map_filter id
      (pageOf (normalizeRecordsPageOptions (lo_page options) (lo_limit options))
        (case lo_query options of Some (e # es) \<Rightarrow> askarMatching S s w c (e # es) | _ \<Rightarrow> askarListing S s w c)))"
    by (auto simp: Let_def)
  with assms(3) obtain x where x: "j = toJSON fw x"
      "Some x \<in> set (pageOf (normalizeRecordsPageOptions (lo_page options) (lo_limit options))
        (case lo_query options of Some (e # es) \<Rightarrow> askarMatching S s w c (e # es) | _ \<Rightarrow> askarListing S s w c))"
    by (auto simp: in_map_filter)
  from x(2) have "Some x \<in> set (case lo_query options of Some (e # es) \<Rightarrow> askarMatching S s w c (e # es)
      | _ \<Rightarrow> askarListing S s w c)"
    by (rule set_pageOf [THEN subsetD])
  then have "x \<in> stored s w"
    by (cases "lo_query options") (auto split: list.splits intro: listing_stored [OF assms(1)])
  with x(1) show ?thesis by blast
qed

lemma read_stored:
  assumes "storePerContext S stored"
    and "getTenantRecord credo fw (askarAgent S w) role recordType i s = (Inr (Some res), t)"
  shows "tr_record res \<in> toJSON fw ` stored s w" and "tr_id res = i"
proof -
  from assms(2) obtain c r s1 where r: "askarGetById S w c i s = (Inr (Some r), s1)"
    and res: "tr_record res = toJSON fw r" "tr_id res = i"
    by (auto simp: getTenantRecord_def askarAgent_def askarRecordStorage_def resolveRecordStorage_def
        isRecordStorage_def ofSum_def elim!: andThen_InrE split: option.splits sum.splits)
  from r have "as_getById S w c i s = (Inr r, s1)"
    by (auto simp: askarGetById_def catching_run andThen_run split: prod.splits sum.splits if_splits)
  with assms(1) have "r \<in> stored s w" unfolding storePerContext_def by blast
  with res show "tr_record res \<in> toJSON fw ` stored s w" "tr_id res = i" by auto
qed

section \<open>Through the endpoints\<close>

fun replyRecords :: "recordsReply \<Rightarrow> json list" where
  "replyRecords (TypesReply _ _) = []"
| "replyRecords (ListReply r) = lr_records r"
| "replyRecords (RecordReply r) = [tr_record r]"

text \<open>Every tenant of the process is opened over the same service, in a context of its own.\<close>

definition askarTenants ::
  "('s, 'r) askarService \<Rightarrow> (string \<Rightarrow> string) \<Rightarrow> ('s, 'r) tenantAgent agentStore \<Rightarrow> bool" where
  "askarTenants S context A \<longleftrightarrow>
     (\<forall>openTenant tenant ag. rootAgent A = Some openTenant \<and> openTenant tenant = Inr ag \<longrightarrow>
        ag = askarAgent S (context tenant))"

lemma inWallet_Inr:
  assumes "askarTenants S context A" and "rethrown (inWallet A w callback) s = (Inr x, t)"
  obtains tenant where "tenantMap A w = Some tenant"
    and "callback (askarAgent S (context tenant)) s = (Inr x, t)"
  using assms by (auto simp: rethrown_def inWallet_def askarTenants_def split: prod.splits sum.splits
      option.splits if_splits)

lemma controller_stored:
  assumes A: "askarTenants S context A" and P: "storePerContext S stored"
    and run: "recordsController credo fw A role call s = (Inr reply, t)" and j: "j \<in> set (replyRecords reply)"
  shows "\<exists>tenant. tenantMap A (recordsWallet call) = Some tenant \<and> j \<in> toJSON fw ` stored s (context tenant)"
proof (cases call)
  case (ListTypes w)
  with run j show ?thesis by (auto simp: getTypes_def)
next
  case (ListRecords w params)
  with run obtain q :: listRecordsQueryDto and res where reply: "reply = ListReply res"
    and "listRecords credo fw A role w (lq_type q) (lq_query q) (lq_page q) (lq_limit q) s = (Inr res, t)"
    by (auto elim!: andThen_InrE simp: orThrow_run split: option.splits)
  then obtain query where "rethrown (inWallet A w (\<lambda>ag. listTenantRecords credo fw ag role (lq_type q)
      \<lparr>lo_query = Some query, lo_page = map_option of_int (lq_page q), lo_limit = map_option of_int (lq_limit q)\<rparr>)) s =
      (Inr res, t)"
    unfolding listRecords_def by (auto elim!: andThen_InrE simp: ofSum_Inr)
  with A obtain tenant where "tenantMap A w = Some tenant"
    "listTenantRecords credo fw (askarAgent S (context tenant)) role (lq_type q)
      \<lparr>lo_query = Some query, lo_page = map_option of_int (lq_page q), lo_limit = map_option of_int (lq_limit q)\<rparr> s =
      (Inr res, t)"
    by (rule inWallet_Inr)
  with j reply listed_stored [OF P] show ?thesis by (fastforce simp: ListRecords)
next
  case (GetRecord w rt i)
  with run obtain res where reply: "reply = RecordReply res" and "getRecord credo fw A role w rt i s = (Inr res, t)"
    by (auto elim!: andThen_InrE)
  then have "rethrown (inWallet A w (\<lambda>ag. getTenantRecord credo fw ag role rt i)) s = (Inr (Some res), t)"
    unfolding getRecord_def by (auto elim!: andThen_InrE simp: orThrow_run split: option.splits)
  with A obtain tenant where "tenantMap A w = Some tenant"
    "getTenantRecord credo fw (askarAgent S (context tenant)) role rt i s = (Inr (Some res), t)"
    by (rule inWallet_Inr)
  with j reply read_stored [OF P] show ?thesis by (fastforce simp: GetRecord)
qed

text \<open>C9.
  Records are read only with a key of the wallet, and only out of the store of the wallet: when the
  issuer answers a request for the records of a wallet, the request carried the preimage of a
  live key of billing for that wallet, billing metered one transaction for it, and every record in the
  answer is the JSON of a record the storage keeps in the context of the tenant of that wallet,
  whatever type, filter, page or identifier was asked for.
\<close>

theorem record_reads_need_wallet_key:
  assumes "db_inv (w_env W) b"
    and "toLowerCase (coalesce (gc_apiKeyAuthEnabled G) ''true'') \<noteq> ''false''"
    and "askarTenants S context A" and "storePerContext S stored"
    and "recordsServe (issuerGuard G (billingPost W render) False) credo fw A IssuerRole hdrs call (b, s) =
      (Inr reply, (b', s'))"
  shows "\<exists>raw. extractApiKey hdrs = Some raw \<and>
    (\<exists>m. validateAndMeter (w_env W) raw Issuer (Some (recordsWallet call)) (Some 1) b = (Inr m, b')) \<and>
    (\<exists>k\<in>set (apiKeys b). \<exists>r\<in>set (resources b). \<exists>p\<in>set (products b). \<exists>a\<in>set (accounts b).
      key_keyHash k = hashApiKey (w_env W) (trim raw) \<and> key_revokedAt k = None \<and>
      key_resourceId k = res_id r \<and> res_productId r = prod_id p \<and> prod_accountId p = acc_id a \<and>
      res_service r = Issuer \<and> res_walletId r = recordsWallet call \<and> res_status r \<noteq> ResSuspended \<and>
      prod_status p = ProdActive \<and> acc_status a = AccActive) \<and>
    (\<forall>j\<in>set (replyRecords reply). \<exists>tenant. tenantMap A (recordsWallet call) = Some tenant \<and>
      (\<exists>r\<in>stored s (context tenant). j = toJSON fw r))"
proof -
  obtain x where g: "ApiKeyAuthGuard G ''issuer'' ''issuerId'' (billingPost W render) False
      \<lparr>rq_headers = hdrs, rq_walletId = Some (recordsWallet call), rq_body = JObj []\<rparr> b = (Inr x, b')"
    and rest: "recordsController credo fw A IssuerRole call s = (Inr reply, s')"
    using assms(5) unfolding recordsServe_def issuerGuard_def
    by (auto elim!: andThen_InrE simp: onFst_def onSnd_def split: prod.splits sum.splits)
  from guarded_key [OF assms(1,2) g] controller_stored [OF assms(3,4) rest] show ?thesis
    by (simp add: image_iff)
qed

text \<open>A service over a list of records by context.\<close>

type_synonym contextRecords = "(string \<times> recordClass \<times> (string \<times> json) list) list"

definition inContext :: "contextRecords \<Rightarrow> string \<Rightarrow> recordClass \<Rightarrow> (recordClass \<times> (string \<times> json) list) list" where
  "inContext s w c = map snd (filter (\<lambda>(w', c', _). w' = w \<and> c' = c) s)"

definition sampleAskar :: "(contextRecords, recordClass \<times> (string \<times> json) list) askarService" where
  "sampleAskar =
     \<lparr>as_save = (\<lambda>w r. ret ()), as_update = (\<lambda>w r. ret ()), as_delete = (\<lambda>w r. ret ()), as_deleteById = (\<lambda>w c i. ret ()),
      as_getById = (\<lambda>w c i s. (case filter (\<lambda>r. idOf sampleFramework r = i) (inContext s w c) of
        [] \<Rightarrow> (Inl RecordNotFound, s) | r # _ \<Rightarrow> (Inr r, s))),
      as_getAll = (\<lambda>w c s. (Inr (inContext s w c), s)),
      as_findByQuery = (\<lambda>w c q s. (Inr (inContext s w c), s)), as_createdAt = (\<lambda>r. None)\<rparr>"

lemma sampleAskar_contexts: "storePerContext sampleAskar (\<lambda>s w. {r. (w, r) \<in> set s})"
proof -
  have "set (inContext s w c) \<subseteq> {r. (w, r) \<in> set s}" for s w c
    by (auto simp: inContext_def)
  moreover have "r \<in> set (inContext s w c)"
    if "filter (\<lambda>r. idOf sampleFramework r = i) (inContext s w c) = r # rs" for s w c i r rs
    using that by (metis filter_is_subset list.set_intros(1) subsetD)
  ultimately show ?thesis
    unfolding storePerContext_def sampleAskar_def by (fastforce split: list.splits)
qed

definition twoContexts :: contextRecords where
  "twoContexts = [(''w2'', didClass, [(''id'', JStr ''a''), (''of'', JStr ''w2'')]),
     (''w1'', didClass, [(''id'', JStr ''a'')])]"

definition acmeTenants :: "(contextRecords, recordClass \<times> (string \<times> json) list) tenantAgent agentStore" where
  "acmeTenants = \<lparr>rootAgent = Some (\<lambda>t. Inr (askarAgent sampleAskar t)), tenantMap = [''acme'' \<mapsto> ''w1'']\<rparr>"

definition acmeRead :: recordsCall where
  "acmeRead = GetRecord ''acme'' ''DidRecord'' ''a''"

lemma acme_read:
  "recordsController credo06 sampleFramework acmeTenants IssuerRole acmeRead twoContexts =
    (Inr (RecordReply \<lparr>tr_type = Some ''DidRecord'', tr_id = ''a'', tr_record = JObj [(''id'', JStr ''a'')]\<rparr>), twoContexts)"
  by (simp add: acmeRead_def getRecord_def inWallet_def acmeTenants_def rethrown_def getTenantRecord_def classFor_def
      resolve_did askarAgent_def askarRecordStorage_def resolveRecordStorage_def isRecordStorage_def
      ofSum_def andThen_run askarGetById_def catching_run sampleAskar_def inContext_def twoContexts_def orThrow_run)
    (simp add: didClass_def sampleFramework_def)

theorem record_reads_need_wallet_key_witness:
  "\<exists>b1. recordsServe (issuerGuard acmeGuard (billingPost sampleWorld (\<lambda>_. ''null'')) False) credo06
      sampleFramework acmeTenants IssuerRole acmeHeaders acmeRead (sampleDb, twoContexts) =
      (Inr (RecordReply \<lparr>tr_type = Some ''DidRecord'', tr_id = ''a'', tr_record = JObj [(''id'', JStr ''a'')]\<rparr>),
        (b1, twoContexts)) \<and>
    (\<exists>r. (''w1'', r) \<in> set twoContexts \<and> JObj [(''id'', JStr ''a'')] = toJSON sampleFramework r)"
proof -
  obtain x b1 where g: "ApiKeyAuthGuard acmeGuard ''issuer'' ''issuerId'' (billingPost sampleWorld (\<lambda>_. ''null'')) False
      \<lparr>rq_headers = acmeHeaders, rq_walletId = Some ''acme'', rq_body = JObj []\<rparr> sampleDb = (Inr x, b1)"
    by (rule acme_passes)
  from g acme_read have run: "recordsServe (issuerGuard acmeGuard (billingPost sampleWorld (\<lambda>_. ''null'')) False) credo06
      sampleFramework acmeTenants IssuerRole acmeHeaders acmeRead (sampleDb, twoContexts) =
      (Inr (RecordReply \<lparr>tr_type = Some ''DidRecord'', tr_id = ''a'', tr_record = JObj [(''id'', JStr ''a'')]\<rparr>),
        (b1, twoContexts))"
    by (simp add: recordsServe_def issuerGuard_def andThen_run onFst_def onSnd_def acmeRead_def)
  have A: "askarTenants sampleAskar (\<lambda>t. t) acmeTenants"
    by (simp add: askarTenants_def acmeTenants_def)
  have inv: "db_inv (w_env sampleWorld) sampleDb" using sampleDb_inv by (simp add: sampleWorld_def)
  have on: "toLowerCase (coalesce (gc_apiKeyAuthEnabled acmeGuard) ''true'') \<noteq> ''false''"
    by (simp add: acmeGuard_def toLowerCase_def lowerChar_def)
  from record_reads_need_wallet_key [OF inv on A sampleAskar_contexts run] run show ?thesis
    by (auto simp: acmeRead_def acmeTenants_def)
qed

end
