(* ===== verification/Dids.thy ===== *)
theory Dids
  imports Signers Retry
begin

text \<open>
  Decentralised identifiers (\<^verbatim>\<open>identity-core/src/did/\<close>): the registrar of \<open>did:web\<close>,
  the functions that make sure a wallet has its identifier, those that choose a signing key of
  a document, and the resolvers over HTTP. The repository of identifiers, the key management and
  the conversion of a document by the framework are parameters, handlers of an arbitrary state.
\<close>

section \<open>Documents\<close>

text \<open>An entry of a relation: the identifier of a method, or an object that may have one.\<close>

datatype methodRef = MethodId string | MethodObject "string option"

definition refId :: "methodRef \<Rightarrow> string option" where
  "refId m = (case m of MethodId i \<Rightarrow> Some i | MethodObject i \<Rightarrow> i)"

record verificationMethod =
  vm_id :: string
  vm_type :: string
  vm_controller :: string
  vm_publicKeyJwk :: "json option"
  vm_publicKeyBase58 :: "string option"

record didService =
  ds_id :: string
  ds_type :: string
  ds_endpoint :: string
  ds_recipientKeys :: "string list"
  ds_routingKeys :: "string list"

record didDocument =
  dd_context :: "string list"
  dd_id :: string
  dd_verificationMethod :: "verificationMethod list"
  dd_authentication :: "methodRef list option"
  dd_assertionMethod :: "methodRef list option"
  dd_keyAgreement :: "methodRef list option"
  dd_service :: "didService list option"

record storedDid =
  sd_id :: string
  sd_did :: string
  sd_keys :: "didRecordKey list option"
  sd_didDocument :: "didDocument option"

section \<open>Keys and errors\<close>

text \<open>An error has a message and perhaps a cause; one kind is told apart.\<close>

datatype didError = KeyNotFound string | DidError string "string option"

definition didMessage :: "didError \<Rightarrow> string" where
  "didMessage e = (case e of KeyNotFound m \<Rightarrow> m | DidError m _ \<Rightarrow> m)"

definition didCause :: "didError \<Rightarrow> string" where
  "didCause e = (case e of DidError _ (Some c) \<Rightarrow> '' (causa: '' @ c @ '')'' | _ \<Rightarrow> [])"

record keyType =
  kt_kty :: string
  kt_crv :: string

definition p256Type :: keyType where "p256Type = \<lparr>kt_kty = ''EC'', kt_crv = ''P-256''\<rparr>"
definition ed25519Type :: keyType where "ed25519Type = \<lparr>kt_kty = ''OKP'', kt_crv = ''Ed25519''\<rparr>"

record blsCreated =
  bc_keyId :: string
  bc_publicKeyBase58 :: "string option"
  bc_jwkBase58 :: "string option"

datatype 's kmsBackend =
    BbsBackend "('s, didError, blsCreated) op"
  | PostgresBackend "('s, didError, blsCreated) op"
  | OtherBackend

definition isBbsBackend :: "'s kmsBackend \<Rightarrow> ('s, didError, blsCreated) op option" where
  "isBbsBackend k = (case k of BbsBackend b \<Rightarrow> Some b | _ \<Rightarrow> None)"

definition isPostgresBackend :: "'s kmsBackend \<Rightarrow> ('s, didError, blsCreated) op option" where
  "isPostgresBackend k = (case k of PostgresBackend b \<Rightarrow> Some b | _ \<Rightarrow> None)"

definition tryResolveBls12381G2KeyBackend ::
  "'s kmsBackend list \<Rightarrow> ('s, didError, blsCreated) op option" where
  "tryResolveBls12381G2KeyBackend backends =
     (case List.map_filter isBbsBackend backends of
        b # _ \<Rightarrow> Some b
      | [] \<Rightarrow> (case List.map_filter isPostgresBackend backends of b # _ \<Rightarrow> Some b | [] \<Rightarrow> None))"

definition createBls12381G2Key :: "'s kmsBackend list \<Rightarrow> ('s, didError, string \<times> string) op" where
  "createBls12381G2Key backends =
     (case tryResolveBls12381G2KeyBackend backends of
        None \<Rightarrow> throw (DidError (''Bls12381G2 (BBS+) requiere BbsKeyManagementService o '' @
          ''PostgresKeyManagementService registrado en el agente.'') None)
      | Some creates \<Rightarrow>
          andThen creates (\<lambda>created.
          let base58 = (case bc_publicKeyBase58 created of Some b \<Rightarrow> Some b | None \<Rightarrow> bc_jwkBase58 created)
          in if truthyText base58 then ret (bc_keyId created, coalesce base58 [])
             else throw (DidError ''createKey Bls12381G2 did not return publicKeyBase58'' None)))"

section \<open>The registrar of did:web\<close>

definition WEB_DID_KEY_P256_FRAGMENT :: string where
  "WEB_DID_KEY_P256_FRAGMENT = ''#key-p256''"
definition WEB_DID_KEY_ED25519_JWK_FRAGMENT :: string where
  "WEB_DID_KEY_ED25519_JWK_FRAGMENT = ''#key-ed25519-jwk''"
definition WEB_DID_KEY_ED25519_LDP_FRAGMENT :: string where
  "WEB_DID_KEY_ED25519_LDP_FRAGMENT = ''#key-ed25519-ldp''"
definition WEB_DID_KEY_BBS_LDP_FRAGMENT :: string where
  "WEB_DID_KEY_BBS_LDP_FRAGMENT = ''#key-bbs-ldp''"

definition BLS12381_G2_VERIFICATION_METHOD_TYPE :: string where
  "BLS12381_G2_VERIFICATION_METHOD_TYPE = ''Bls12381G2Key2020''"
definition BBS_SECURITY_CONTEXT :: string where
  "BBS_SECURITY_CONTEXT = ''https://w3id.org/security/bbs/v1''"

record webDidCreateOptions =
  wo_domain :: string
  wo_keyType :: "keyType option"
  wo_didcommEndpoint :: "string option"
  wo_addEd25519Key :: bool
  wo_addDidCommKey :: bool
  wo_addBbsKey :: bool

text \<open>
  What the registrar asks of the framework and of its libraries: keys, Base58, the conversion of
  the JSON of a document, and the repository.
\<close>

record 's didEnv =
  de_createKey :: "keyType \<Rightarrow> ('s, didError, json \<times> string) op"
  de_backends :: "'s kmsBackend list"
  de_base58 :: "bytes \<Rightarrow> string"
  de_fromJSON :: "didDocument \<Rightarrow> didError + didDocument"
  de_save :: "string \<Rightarrow> didDocument \<Rightarrow> didRecordKey list \<Rightarrow> ('s, didError, unit) op"

datatype didState = Finished string didDocument | Failed string

text \<open>\<open>Buffer.from\<close> refuses what is not a string.\<close>

definition ed25519JwkToBase58 :: "(bytes \<Rightarrow> string) \<Rightarrow> json \<Rightarrow> didError + string" where
  "ed25519JwkToBase58 base58 jwk =
     (case jsonField ''x'' jwk of
        Some (JStr x) \<Rightarrow> Inr (base58 (fromBase64url x))
      | _ \<Rightarrow> Inl (DidError ''The first argument must be of type string'' None))"

text \<open>A key with its method: the fragment, the method and the identifier in the key management.\<close>

type_synonym didKeyEntry = "verificationMethod \<times> didRecordKey"

definition keyEntry ::
  "string \<Rightarrow> string \<Rightarrow> string \<Rightarrow> json option \<Rightarrow> string option \<Rightarrow> string \<Rightarrow> didKeyEntry" where
  "keyEntry did fragment methodType jwk base58 keyId =
     (\<lparr>vm_id = did @ fragment, vm_type = methodType, vm_controller = did, vm_publicKeyJwk = jwk,
        vm_publicKeyBase58 = base58\<rparr>,
      \<lparr>dk_kmsKeyId = keyId, dk_relativeKeyId = Some fragment\<rparr>)"

definition whenFlag :: "bool \<Rightarrow> ('s, 'e, 'a) op \<Rightarrow> ('s, 'e, 'a list) op" where
  "whenFlag c m = (if c then andThen m (\<lambda>a. ret [a]) else ret [])"

definition didOfSum :: "didError + 'a \<Rightarrow> ('s, didError, 'a) op" where
  "didOfSum v = (case v of Inl e \<Rightarrow> throw e | Inr a \<Rightarrow> ret a)"

definition webDid :: "string \<Rightarrow> string" where
  "webDid domain = ''did:web:'' @ domain"

definition webDidDocument :: "webDidCreateOptions \<Rightarrow> string \<Rightarrow> didKeyEntry list \<Rightarrow> bool \<Rightarrow> didDocument" where
  "webDidDocument opts did keyed bbsKeyAdded =
     (let refs = map (vm_id \<circ> fst) keyed;
          authKeyRef = did @ WEB_DID_KEY_P256_FRAGMENT;
          ldpRef = did @ WEB_DID_KEY_ED25519_LDP_FRAGMENT
      in \<lparr>dd_context = [''https://www.w3.org/ns/did/v1'', ''https://w3id.org/security/suites/jws-2020/v1''] @
            (if wo_addDidCommKey opts then [''https://w3id.org/security/suites/ed25519-2018/v1''] else []) @
            (if bbsKeyAdded then [BBS_SECURITY_CONTEXT] else []),
          dd_id = did,
          dd_verificationMethod = map fst keyed,
          dd_authentication = Some (map MethodId (if bbsKeyAdded then butlast refs else refs)),
          dd_assertionMethod = Some (map MethodId refs),
          dd_keyAgreement = Some (map MethodId (if wo_addDidCommKey opts then [authKeyRef, ldpRef] else [authKeyRef])),
          dd_service = None\<rparr>)"

definition addDidCommService :: "webDidCreateOptions \<Rightarrow> string \<Rightarrow> didDocument \<Rightarrow> didDocument" where
  "addDidCommService opts did doc =
     (if truthyText (wo_didcommEndpoint opts) \<and> wo_addDidCommKey opts
      then doc\<lparr>dd_service := Some (coalesce (dd_service doc) [] @
        [\<lparr>ds_id = did @ ''#didcomm'', ds_type = ''did-communication'',
          ds_endpoint = coalesce (wo_didcommEndpoint opts) [],
          ds_recipientKeys = [did @ WEB_DID_KEY_ED25519_LDP_FRAGMENT], ds_routingKeys = []\<rparr>])\<rparr>
      else doc)"

text \<open>The keys the options ask for: the first of a chosen type, then the optional ones.\<close>

definition webDidKeys :: "'s didEnv \<Rightarrow> webDidCreateOptions \<Rightarrow> string \<Rightarrow> ('s, didError, didKeyEntry list) op" where
  "webDidKeys E opts did =
     andThen (andThen (de_createKey E (coalesce (wo_keyType opts) p256Type)) (\<lambda>(publicJwk, keyId).
       ret (keyEntry did WEB_DID_KEY_P256_FRAGMENT ''JsonWebKey2020'' (Some publicJwk) None keyId))) (\<lambda>first.
     andThen (whenFlag (wo_addEd25519Key opts)
       (andThen (de_createKey E ed25519Type) (\<lambda>(jwk, keyId).
        ret (keyEntry did WEB_DID_KEY_ED25519_JWK_FRAGMENT ''JsonWebKey2020'' (Some jwk) None keyId)))) (\<lambda>jwks.
     andThen (whenFlag (wo_addDidCommKey opts)
       (andThen (de_createKey E ed25519Type) (\<lambda>(jwk, keyId).
        andThen (didOfSum (ed25519JwkToBase58 (de_base58 E) jwk)) (\<lambda>base58.
        ret (keyEntry did WEB_DID_KEY_ED25519_LDP_FRAGMENT ''Ed25519VerificationKey2018'' None
          (Some base58) keyId))))) (\<lambda>ldps.
     andThen (whenFlag (wo_addBbsKey opts)
       (andThen (createBls12381G2Key (de_backends E)) (\<lambda>(keyId, base58).
        ret (keyEntry did WEB_DID_KEY_BBS_LDP_FRAGMENT BLS12381_G2_VERIFICATION_METHOD_TYPE None
          (Some base58) keyId)))) (\<lambda>bbs.
     ret (first # jwks @ ldps @ bbs)))))"

definition WebDidRegistrar_create :: "'s didEnv \<Rightarrow> webDidCreateOptions \<Rightarrow> ('s, didError, didState) op" where
  "WebDidRegistrar_create E opts =
     (let did = webDid (wo_domain opts) in
      catching
        (andThen (webDidKeys E opts did) (\<lambda>keyed.
         andThen (didOfSum (de_fromJSON E (webDidDocument opts did keyed (wo_addBbsKey opts)))) (\<lambda>converted.
         let didDocument = addDidCommService opts did converted
         in andThen (de_save E did didDocument (map snd keyed)) (\<lambda>_.
            ret (Finished did didDocument)))))
        (\<lambda>e. ret (Failed (''unknownError: '' @ didMessage e @ didCause e))))"

definition WebDidRegistrar_update :: didState where
  "WebDidRegistrar_update = Failed ''notSupported: cannot update did:web did''"

definition WebDidRegistrar_deactivate :: didState where
  "WebDidRegistrar_deactivate = Failed ''notSupported: cannot deactivate did:web did''"

section \<open>Choosing the key that signs\<close>

text \<open>What each of them says when the document has no such key.\<close>

definition OID4VP_NOT_FOUND :: string where
  "OID4VP_NOT_FOUND = ''No se encontr'' @ [CHR 0xF3] @
     '' clave OID4VP compatible (#key-p256, #key-ed25519 o #key-didcomm) en DID Document.''"
definition ED25519_NOT_FOUND :: string where
  "ED25519_NOT_FOUND = ''Clave Ed25519 (#key-ed25519) no encontrada en el DID Document. '' @
     ''Asegurate de inicializar el agente con addEd25519Key: true.''"
definition ES256_NOT_FOUND :: string where
  "ES256_NOT_FOUND = ''Clave ES256 (#key-p256) no encontrada en el DID Document. '' @
     ''Asegurate de que el agente est'' @ [CHR 0xE1] @ '' inicializado con una clave P-256 (#key-p256).''"
definition DIDCOMM_NOT_FOUND :: string where
  "DIDCOMM_NOT_FOUND = ''Clave DIDComm (#key-didcomm) no encontrada en el DID Document. '' @
     ''Asegurate de inicializar el agente con addDidCommKey: true.''"

text \<open>The first entry whose identifier ends with a fragment.\<close>

definition withSuffix :: "string \<Rightarrow> methodRef list \<Rightarrow> string option" where
  "withSuffix fragment methods = find (\<lambda>i. endsWith i fragment) (List.map_filter refId methods)"

definition getOid4VpSigningDidUrl :: "didDocument \<Rightarrow> string + string" where
  "getOid4VpSigningDidUrl doc =
     (let assertionMethods = coalesce (dd_assertionMethod doc) [] in
      case withSuffix ''#key-p256'' assertionMethods of
        Some i \<Rightarrow> Inr i
      | None \<Rightarrow>
          (case withSuffix ''#key-ed25519'' assertionMethods of
             Some i \<Rightarrow> Inr i
           | None \<Rightarrow>
               (case withSuffix ''#key-didcomm'' assertionMethods of
                  Some i \<Rightarrow> Inr i
                | None \<Rightarrow> Inl OID4VP_NOT_FOUND)))"

definition getOid4VcSigningDidUrl :: "didDocument \<Rightarrow> string + string" where
  "getOid4VcSigningDidUrl doc =
     (case withSuffix ''#key-ed25519'' (coalesce (dd_assertionMethod doc) []) of
        Some i \<Rightarrow> Inr i | None \<Rightarrow> Inl ED25519_NOT_FOUND)"

datatype signingAlg = ES256 | EdDSA

definition getOid4VcSigningDidUrlForAlg :: "didDocument \<Rightarrow> signingAlg \<Rightarrow> string + string" where
  "getOid4VcSigningDidUrlForAlg doc alg =
     (if alg = EdDSA then getOid4VcSigningDidUrl doc
      else case withSuffix ''#key-p256'' (coalesce (dd_assertionMethod doc) []) of
             Some i \<Rightarrow> Inr i | None \<Rightarrow> Inl ES256_NOT_FOUND)"

definition getDidCommSigningDidUrl :: "didDocument \<Rightarrow> string + string" where
  "getDidCommSigningDidUrl doc =
     (case withSuffix ''#key-didcomm'' (coalesce (dd_assertionMethod doc) []) of
        Some i \<Rightarrow> Inr i | None \<Rightarrow> Inl DIDCOMM_NOT_FOUND)"

section \<open>Making sure a wallet has its identifier\<close>

text \<open>The agent: identifiers created, deletion of a record, and keys. Creation is a parameter.\<close>

record 's didAgent =
  da_getCreatedDids :: "string \<Rightarrow> ('s, didError, storedDid list) op"
  da_getPublicKey :: "string \<Rightarrow> ('s, didError, unit) op"
  da_deleteById :: "string \<Rightarrow> ('s, didError, unit) op"
  da_backends :: "'s kmsBackend list"

definition firstKeyId :: "storedDid \<Rightarrow> string option" where
  "firstKeyId r = (case sd_keys r of Some (k # _) \<Rightarrow> Some (dk_kmsKeyId k) | _ \<Rightarrow> None)"

record ensureWebDidOptions =
  eo_domain :: string
  eo_keyType :: "keyType option"
  eo_didcommEndpoint :: "string option"
  eo_addEd25519Key :: "bool option"
  eo_addDidCommKey :: "bool option"
  eo_addBbsKey :: "bool option"

definition hasMethodRef :: "methodRef list option \<Rightarrow> string \<Rightarrow> bool" where
  "hasMethodRef methods fragment \<longleftrightarrow>
     list_ex (\<lambda>m. case refId m of None \<Rightarrow> False | Some i \<Rightarrow> endsWith i fragment) (coalesce methods [])"

definition hasDidCommV1Service :: "didDocument \<Rightarrow> bool" where
  "hasDidCommV1Service doc \<longleftrightarrow> list_ex (\<lambda>svc. ds_type svc = ''did-communication'') (coalesce (dd_service doc) [])"

definition mustRecreate :: "bool \<Rightarrow> ensureWebDidOptions \<Rightarrow> didDocument \<Rightarrow> bool" where
  "mustRecreate canAddBbsKey opts doc \<longleftrightarrow>
     eo_addEd25519Key opts = Some True \<and> \<not> hasMethodRef (dd_authentication doc) WEB_DID_KEY_ED25519_JWK_FRAGMENT \<or>
     eo_addDidCommKey opts = Some True \<and> \<not> hasMethodRef (dd_assertionMethod doc) WEB_DID_KEY_ED25519_LDP_FRAGMENT \<or>
     truthyText (eo_didcommEndpoint opts) \<and> eo_addDidCommKey opts = Some True \<and> \<not> hasDidCommV1Service doc \<or>
     eo_addBbsKey opts \<noteq> Some False \<and> canAddBbsKey \<and>
       \<not> hasMethodRef (dd_assertionMethod doc) WEB_DID_KEY_BBS_LDP_FRAGMENT"

definition webCreateOptions :: "ensureWebDidOptions \<Rightarrow> webDidCreateOptions" where
  "webCreateOptions opts =
     \<lparr>wo_domain = eo_domain opts, wo_keyType = eo_keyType opts,
      wo_didcommEndpoint = eo_didcommEndpoint opts,
      wo_addEd25519Key = (eo_addEd25519Key opts = Some True),
      wo_addDidCommKey = (eo_addDidCommKey opts = Some True),
      wo_addBbsKey = (eo_addBbsKey opts \<noteq> Some False)\<rparr>"

text \<open>What is found of an identifier: kept, or deleted so that it is created again.\<close>

definition reviewExisting ::
  "'s didAgent \<Rightarrow> ensureWebDidOptions \<Rightarrow> storedDid \<Rightarrow> string \<Rightarrow> ('s, didError, (string \<times> didDocument) option) op" where
  "reviewExisting A opts existing keyId =
     catching
       (andThen (da_getPublicKey A keyId) (\<lambda>_.
        case sd_didDocument existing of
          None \<Rightarrow> throw (DidError (''DID '' @ sd_did existing @ '' existe pero no tiene DID Document almacenado'') None)
        | Some doc \<Rightarrow>
            if mustRecreate (tryResolveBls12381G2KeyBackend (da_backends A) \<noteq> None) opts doc
            then andThen (da_deleteById A (sd_id existing)) (\<lambda>_. ret None)
            else ret (Some (sd_did existing, doc))))
       (\<lambda>e. case e of
          KeyNotFound _ \<Rightarrow> andThen (da_deleteById A (sd_id existing)) (\<lambda>_. ret None)
        | _ \<Rightarrow> throw e)"

definition ensureWebDid ::
  "'s didAgent \<Rightarrow> (webDidCreateOptions \<Rightarrow> ('s, didError, didState) op) \<Rightarrow> ensureWebDidOptions \<Rightarrow>
    ('s, didError, string \<times> didDocument) op" where
  "ensureWebDid A creates opts =
     (let targetDid = webDid (eo_domain opts) in
      andThen (da_getCreatedDids A ''web'') (\<lambda>created.
      andThen (case find (\<lambda>r. sd_did r = targetDid) created of
          None \<Rightarrow> ret None
        | Some existing \<Rightarrow>
            (case firstKeyId existing of
               None \<Rightarrow> ret None
             | Some keyId \<Rightarrow> if keyId = [] then ret None else reviewExisting A opts existing keyId)) (\<lambda>kept.
      case kept of
        Some r \<Rightarrow> ret r
      | None \<Rightarrow>
          andThen (creates (webCreateOptions opts)) (\<lambda>st.
          case st of
            Finished did doc \<Rightarrow>
              if did = [] then throw (DidError (''Error al crear did:web:'' @ eo_domain opts @ '': unknown'') None)
              else ret (did, doc)
          | Failed reason \<Rightarrow>
              throw (DidError (''Error al crear did:web:'' @ eo_domain opts @ '': '' @ reason) None)))))"

text \<open>
  The first identifier of a method is kept while its key is there; \<open>did:custom\<close> is also deleted
  from the registry of identifiers by a request whose failure is ignored, and is retried as a whole.
\<close>

definition keptDid ::
  "'s didAgent \<Rightarrow> (storedDid \<Rightarrow> 's \<Rightarrow> 's) \<Rightarrow> string \<Rightarrow> ('s, didError, string option) op" where
  "keptDid A forget method =
     andThen (da_getCreatedDids A method) (\<lambda>created.
     case created of
       [] \<Rightarrow> ret None
     | r # _ \<Rightarrow>
         (case firstKeyId r of
            None \<Rightarrow> ret None
          | Some keyId \<Rightarrow>
              if keyId = [] then ret None
              else catching (andThen (da_getPublicKey A keyId) (\<lambda>_. ret (Some (sd_did r))))
                (\<lambda>e. case e of
                   KeyNotFound _ \<Rightarrow>
                     andThen (da_deleteById A (sd_id r)) (\<lambda>_. andThen (modify (forget r)) (\<lambda>_. ret None))
                 | _ \<Rightarrow> throw e)))"

text \<open>What \<open>agent.dids.create\<close> answers: a state, an identifier and a reason, each optional.\<close>

record didCreated =
  cr_finished :: bool
  cr_did :: "string option"
  cr_reason :: "string option"

definition tryEnsureDid ::
  "'s didAgent \<Rightarrow> (string \<Rightarrow> string \<Rightarrow> 's \<Rightarrow> 's) \<Rightarrow> ('s, didError, didCreated) op \<Rightarrow> string \<Rightarrow>
    ('s, didError, string) op" where
  "tryEnsureDid A post creates vdrServiceUrl =
     andThen (keptDid A (\<lambda>r. post (dropTrailingSlash vdrServiceUrl @ ''/did/delete'') (sd_did r)) ''custom'') (\<lambda>kept.
     case kept of
       Some did \<Rightarrow> ret did
     | None \<Rightarrow>
         andThen creates (\<lambda>result.
         if truthyText (cr_did result) then ret (coalesce (cr_did result) [])
         else throw (DidError (''Failed to creates DID: '' @ coalesce (cr_reason result) ''unknown'') None)))"

record ensureDidOptions =
  en_vdrServiceUrl :: string
  en_attempts :: "int option"
  en_baseDelayMs :: "int option"
  en_maxDelayMs :: "int option"

definition ensureDid ::
  "(int \<Rightarrow> 's \<Rightarrow> 's) \<Rightarrow> 's didAgent \<Rightarrow> (string \<Rightarrow> string \<Rightarrow> 's \<Rightarrow> 's) \<Rightarrow> ('s, didError, didCreated) op \<Rightarrow>
    ensureDidOptions \<Rightarrow> ('s, didError option, string) op" where
  "ensureDid delay A post creates opts =
     withRetry \<lparr>attempts = coalesce (en_attempts opts) 10, baseDelayMs = coalesce (en_baseDelayMs opts) 5000,
       maxDelayMs = coalesce (en_maxDelayMs opts) 30000, shouldRetry = None\<rparr> delay
       (tryEnsureDid A post creates (en_vdrServiceUrl opts))"

datatype holderKeyType = HolderP256 | HolderEd25519

definition ensureKeyDid ::
  "'s didAgent \<Rightarrow> (keyType \<Rightarrow> ('s, didError, didCreated) op) \<Rightarrow> holderKeyType option \<Rightarrow> ('s, didError, string) op" where
  "ensureKeyDid A creates keyType =
     andThen (keptDid A (\<lambda>_ s. s) ''key'') (\<lambda>kept.
     case kept of
       Some did \<Rightarrow> ret did
     | None \<Rightarrow>
         andThen (creates (if coalesce keyType HolderP256 = HolderEd25519 then ed25519Type else p256Type)) (\<lambda>result.
         if \<not> cr_finished result \<or> \<not> truthyText (cr_did result)
         then throw (DidError (''Error al crear did:key: '' @ coalesce (cr_reason result) ''unknown'') None)
         else ret (coalesce (cr_did result) [])))"

end
