(* ===== verification/DidProps.thy ===== *)
theory DidProps
  imports Dids
begin

text \<open>
  What the registrar of \<open>did:web\<close> puts in a document: every reference is to a method of the
  document, the keys saved are those of its methods, and which of the functions that choose a
  signing key find one; and that a document made for some options is kept on the next start.
\<close>

section \<open>What a handler returns\<close>

definition yields :: "('s, 'e, 'a) op \<Rightarrow> ('a \<Rightarrow> bool) \<Rightarrow> bool" where
  "yields m P \<longleftrightarrow> (\<forall>s a t. m s = (Inr a, t) \<longrightarrow> P a)"

named_theorems yields_rules \<open>what composed handlers return\<close>

lemma yieldsD: "yields m P \<Longrightarrow> m s = (Inr a, t) \<Longrightarrow> P a"
  by (auto simp: yields_def)

lemma yields_ret [yields_rules]: "P a \<Longrightarrow> yields (ret a) P"
  by (simp add: yields_def)

lemma yields_bind: "yields m Q \<Longrightarrow> (\<And>a. Q a \<Longrightarrow> yields (f a) P) \<Longrightarrow> yields (andThen m f) P"
  unfolding yields_def by (blast elim: andThen_InrE)

lemma yields_andThen [yields_rules]: "(\<And>a. yields (f a) P) \<Longrightarrow> yields (andThen m f) P"
  unfolding yields_def by (blast elim: andThen_InrE)

lemma yields_prod [yields_rules]: "(\<And>a b. yields (f a b) P) \<Longrightarrow> yields (case x of (a, b) \<Rightarrow> f a b) P"
  by (cases x) simp

section \<open>The keys of a document\<close>

text \<open>The fragments of the keys the options ask for, in the order they are made.\<close>

definition webFragments :: "webDidCreateOptions \<Rightarrow> string list" where
  "webFragments opts =
     WEB_DID_KEY_P256_FRAGMENT #
     (if wo_addEd25519Key opts then [WEB_DID_KEY_ED25519_JWK_FRAGMENT] else []) @
     (if wo_addDidCommKey opts then [WEB_DID_KEY_ED25519_LDP_FRAGMENT] else []) @
     (if wo_addBbsKey opts then [WEB_DID_KEY_BBS_LDP_FRAGMENT] else [])"

definition keyedBy :: "string \<Rightarrow> string list \<Rightarrow> didKeyEntry list \<Rightarrow> bool" where
  "keyedBy did fs keyed \<longleftrightarrow>
     map (vm_id \<circ> fst) keyed = map ((@) did) fs \<and>
     map (dk_relativeKeyId \<circ> snd) keyed = map Some fs \<and>
     list_all (\<lambda>k. vm_controller (fst k) = did) keyed"

lemma keyedBy_Nil [simp]: "keyedBy did [] []"
  by (simp add: keyedBy_def)

lemma keyedBy_keyEntry [simp]: "keyedBy did [f] [keyEntry did f t j b k]"
  by (simp add: keyedBy_def keyEntry_def)

lemma keyedBy_append:
  "keyedBy did fs ks \<Longrightarrow> keyedBy did gs ls \<Longrightarrow> keyedBy did (fs @ gs) (ks @ ls)"
  by (simp add: keyedBy_def)

lemma keyedBy_Cons:
  "keyedBy did [f] [k] \<Longrightarrow> keyedBy did fs ks \<Longrightarrow> keyedBy did (f # fs) (k # ks)"
  using keyedBy_append [of did "[f]" "[k]" fs ks] by simp

lemma whenFlag_keyed:
  "yields m (\<lambda>k. keyedBy did [f] [k]) \<Longrightarrow> yields (whenFlag c m) (keyedBy did (if c then [f] else []))"
  by (simp add: whenFlag_def yields_ret yields_bind)

lemma webDidKeys_keyed: "yields (webDidKeys E opts did) (keyedBy did (webFragments opts))"
proof -
  have key: "yields (andThen m (\<lambda>(a, b). ret (keyEntry did f t (j a b) (p a b) (q a b))))
      (\<lambda>k. keyedBy did [f] [k])" for m :: "('a, didError, 'b \<times> 'c) op" and f t j p q
    by (intro yields_rules) simp
  have ldp: "yields (andThen m (\<lambda>(a, b). andThen (n a b) (\<lambda>c. ret (keyEntry did f t None (Some c) b))))
      (\<lambda>k. keyedBy did [f] [k])" for m :: "('a, didError, json \<times> string) op" and n f t
    by (intro yields_rules) simp
  show ?thesis
    unfolding webDidKeys_def
    apply (rule yields_bind, rule key)
    apply (rule yields_bind, rule whenFlag_keyed, rule key)
    apply (rule yields_bind, rule whenFlag_keyed, rule ldp)
    apply (rule yields_bind, rule whenFlag_keyed, rule key)
    apply (rule yields_ret)
    unfolding webFragments_def by (rule keyedBy_Cons, assumption, intro keyedBy_append)
qed

text \<open>What a finished creation went through.\<close>

lemma create_finished:
  assumes "WebDidRegistrar_create E opts s = (Inr (Finished did doc), t)"
  obtains keyed converted u where "did = webDid (wo_domain opts)"
    and "keyedBy did (webFragments opts) keyed"
    and "de_fromJSON E (webDidDocument opts did keyed (wo_addBbsKey opts)) = Inr converted"
    and "doc = addDidCommService opts did converted"
    and "de_save E did doc (map snd keyed) u = (Inr (), t)"
  using assms
  by (auto simp: WebDidRegistrar_create_def Let_def catching_run didOfSum_def
      split: prod.splits sum.splits elim!: andThen_InrE dest!: yieldsD [OF webDidKeys_keyed])

section \<open>The document is closed\<close>

definition methodIds :: "didDocument \<Rightarrow> string list" where
  "methodIds doc = map vm_id (dd_verificationMethod doc)"

definition refsOf :: "didDocument \<Rightarrow> methodRef list" where
  "refsOf doc = coalesce (dd_authentication doc) [] @ coalesce (dd_assertionMethod doc) [] @
     coalesce (dd_keyAgreement doc) []"

definition closedDocument :: "string \<Rightarrow> didDocument \<Rightarrow> bool" where
  "closedDocument did doc \<longleftrightarrow>
     dd_id doc = did \<and> distinct (methodIds doc) \<and>
     list_all (\<lambda>m. vm_controller m = did) (dd_verificationMethod doc) \<and>
     list_all (\<lambda>r. refId r \<in> Some ` set (methodIds doc)) (refsOf doc) \<and>
     list_all (\<lambda>svc. set (ds_recipientKeys svc) \<subseteq> set (methodIds doc)) (coalesce (dd_service doc) [])"

lemmas fragment_defs = WEB_DID_KEY_P256_FRAGMENT_def WEB_DID_KEY_ED25519_JWK_FRAGMENT_def
  WEB_DID_KEY_ED25519_LDP_FRAGMENT_def WEB_DID_KEY_BBS_LDP_FRAGMENT_def

lemma fragments_distinct: "distinct (webFragments opts)"
  by (simp add: webFragments_def fragment_defs)

lemma addDidCommService_keeps [simp]:
  "dd_id (addDidCommService opts did d) = dd_id d"
  "dd_verificationMethod (addDidCommService opts did d) = dd_verificationMethod d"
  "dd_authentication (addDidCommService opts did d) = dd_authentication d"
  "dd_assertionMethod (addDidCommService opts did d) = dd_assertionMethod d"
  "dd_keyAgreement (addDidCommService opts did d) = dd_keyAgreement d"
  by (simp_all add: addDidCommService_def)

lemma createdIds:
  assumes "keyedBy did fs keyed"
  shows "methodIds (webDidDocument opts did keyed b) = map ((@) did) fs"
    "dd_assertionMethod (webDidDocument opts did keyed b) = Some (map (MethodId \<circ> (@) did) fs)"
    "dd_authentication (webDidDocument opts did keyed b) =
      Some (map (MethodId \<circ> (@) did) (if b then butlast fs else fs))"
  using assms by (simp_all add: methodIds_def webDidDocument_def keyedBy_def Let_def map_butlast)

lemma created_refs:
  assumes "keyedBy did (webFragments opts) keyed"
  shows "\<forall>r\<in>set (refsOf (webDidDocument opts did keyed b)).
    \<exists>f\<in>set (webFragments opts). r = MethodId (did @ f)"
proof -
  have agreement: "dd_keyAgreement (webDidDocument opts did keyed b) =
      Some (map (MethodId \<circ> (@) did) (if wo_addDidCommKey opts
        then [WEB_DID_KEY_P256_FRAGMENT, WEB_DID_KEY_ED25519_LDP_FRAGMENT] else [WEB_DID_KEY_P256_FRAGMENT]))"
    by (simp add: webDidDocument_def Let_def)
  show ?thesis
    unfolding refsOf_def createdIds [OF assms] agreement
    by (auto simp: webFragments_def dest: in_set_butlastD)
qed

lemma created_services:
  "list_all (\<lambda>svc. set (ds_recipientKeys svc) \<subseteq> (@) did ` set (webFragments opts))
    (coalesce (dd_service (addDidCommService opts did (webDidDocument opts did keyed b))) [])"
  by (simp add: addDidCommService_def webDidDocument_def webFragments_def Let_def)

lemma created_closed:
  assumes "keyedBy did (webFragments opts) keyed"
  shows "closedDocument did (addDidCommService opts did (webDidDocument opts did keyed b))"
proof -
  let ?d = "addDidCommService opts did (webDidDocument opts did keyed b)"
  have ids: "methodIds ?d = map ((@) did) (webFragments opts)"
    using createdIds(1) [OF assms] by (simp add: methodIds_def)
  moreover have "refsOf ?d = refsOf (webDidDocument opts did keyed b)"
    by (simp add: refsOf_def)
  moreover have "dd_id ?d = did" "list_all (\<lambda>m. vm_controller m = did) (dd_verificationMethod ?d)"
    using assms by (simp_all add: webDidDocument_def keyedBy_def list_all_iff Let_def)
  ultimately show ?thesis
    using created_refs [OF assms, of b] created_services [of did opts keyed b] fragments_distinct [of opts]
    by (auto simp: closedDocument_def list_all_iff refId_def distinct_map inj_on_def)
qed

text \<open>
  C13. A document the registrar of \<open>did:web\<close> returns as finished is closed: its methods have
  distinct identifiers under the identifier of the wallet, which controls them; every entry of
  \<open>authentication\<close>, \<open>assertionMethod\<close> and \<open>keyAgreement\<close> and every recipient key of a
  service is one of these methods; there is one for each key the options ask for; and the record
  saved lists one key entry for each of them, in the same order, under its relative identifier.
  The hypothesis: the framework's conversion keeps the document it is given.
\<close>

theorem created_documents_closed:
  assumes "\<forall>d. de_fromJSON E d = Inr d"
    and "WebDidRegistrar_create E opts s = (Inr (Finished did doc), t)"
  shows "did = webDid (wo_domain opts) \<and> closedDocument did doc \<and>
    methodIds doc = map ((@) did) (webFragments opts) \<and>
    (\<exists>keys u. de_save E did doc keys u = (Inr (), t) \<and>
      map dk_relativeKeyId keys = map Some (webFragments opts))"
proof -
  from assms(2) obtain keyed converted u where did: "did = webDid (wo_domain opts)"
    and keyed: "keyedBy did (webFragments opts) keyed"
    and conv: "de_fromJSON E (webDidDocument opts did keyed (wo_addBbsKey opts)) = Inr converted"
    and doc: "doc = addDidCommService opts did converted"
    and save: "de_save E did doc (map snd keyed) u = (Inr (), t)"
    by (rule create_finished)
  from conv assms(1) have "converted = webDidDocument opts did keyed (wo_addBbsKey opts)" by simp
  with doc created_closed [OF keyed] createdIds(1) [OF keyed] have
    "closedDocument did doc" "methodIds doc = map ((@) did) (webFragments opts)"
    by (simp_all add: methodIds_def)
  moreover from keyed have "map dk_relativeKeyId (map snd keyed) = map Some (webFragments opts)"
    by (simp add: keyedBy_def)
  ultimately show ?thesis using did save by blast
qed

section \<open>Which key signs\<close>

lemma endsWith_either: "endsWith (a @ b) f \<Longrightarrow> endsWith b f \<or> endsWith f b"
  by (auto simp: endsWith_iff append_eq_append_conv2)

lemma withSuffix_created:
  "withSuffix f (map (MethodId \<circ> (@) did) fs) = find (\<lambda>i. endsWith i f) (map ((@) did) fs)"
proof -
  have "List.map_filter refId (map (MethodId \<circ> (@) did) fs) = map ((@) did) fs"
    by (induction fs) (simp_all add: refId_def List.map_filter_simps)
  then show ?thesis by (simp add: withSuffix_def)
qed

lemma no_fragment:
  assumes "list_all (\<lambda>g. \<not> endsWith g f \<and> \<not> endsWith f g) fs"
  shows "withSuffix f (map (MethodId \<circ> (@) did) fs) = None"
  using assms endsWith_either
  by (fastforce simp: withSuffix_created find_None_iff_all list_all_iff)

lemma fragments_unmatched:
  "list_all (\<lambda>g. \<not> endsWith g ''#key-ed25519'' \<and> \<not> endsWith ''#key-ed25519'' g) (webFragments opts)"
  "list_all (\<lambda>g. \<not> endsWith g ''#key-didcomm'' \<and> \<not> endsWith ''#key-didcomm'' g) (webFragments opts)"
  by (simp_all add: webFragments_def fragment_defs endsWith_def)

lemma created_methods:
  assumes "\<forall>d. de_fromJSON E d = Inr d"
    and "WebDidRegistrar_create E opts s = (Inr (Finished did doc), t)"
  shows "dd_assertionMethod doc = Some (map (MethodId \<circ> (@) did) (webFragments opts))"
    and "dd_authentication doc = Some (map (MethodId \<circ> (@) did)
      (if wo_addBbsKey opts then butlast (webFragments opts) else webFragments opts))"
proof -
  from assms(2) obtain keyed converted u where
    keyed: "keyedBy did (webFragments opts) keyed"
    and conv: "de_fromJSON E (webDidDocument opts did keyed (wo_addBbsKey opts)) = Inr converted"
    and doc: "doc = addDidCommService opts did converted"
    by (rule create_finished)
  from conv assms(1) have "converted = webDidDocument opts did keyed (wo_addBbsKey opts)" by simp
  with createdIds [OF keyed] doc show
    "dd_assertionMethod doc = Some (map (MethodId \<circ> (@) did) (webFragments opts))"
    "dd_authentication doc = Some (map (MethodId \<circ> (@) did)
      (if wo_addBbsKey opts then butlast (webFragments opts) else webFragments opts))"
    by simp_all
qed

lemma created_p256:
  assumes "\<forall>d. de_fromJSON E d = Inr d"
    and "WebDidRegistrar_create E opts s = (Inr (Finished did doc), t)"
  shows "getOid4VcSigningDidUrlForAlg doc ES256 = Inr (did @ WEB_DID_KEY_P256_FRAGMENT)"
    and "getOid4VpSigningDidUrl doc = Inr (did @ WEB_DID_KEY_P256_FRAGMENT)"
proof -
  have "withSuffix ''#key-p256'' (map (MethodId \<circ> (@) did) (webFragments opts)) =
      Some (did @ WEB_DID_KEY_P256_FRAGMENT)"
    unfolding withSuffix_created webFragments_def by (simp add: WEB_DID_KEY_P256_FRAGMENT_def)
  then show "getOid4VcSigningDidUrlForAlg doc ES256 = Inr (did @ WEB_DID_KEY_P256_FRAGMENT)"
    and "getOid4VpSigningDidUrl doc = Inr (did @ WEB_DID_KEY_P256_FRAGMENT)"
    by (simp_all add: getOid4VcSigningDidUrlForAlg_def getOid4VpSigningDidUrl_def created_methods(1) [OF assms])
qed

text \<open>
  The documents the registrar creates only ever sign with ES256: the key of \<open>ES256\<close> and of
  OID4VP requests is always \<open>#key-p256\<close>, while the choice of a key for \<open>EdDSA\<close> and for DIDComm
  fails whatever keys the options asked for, because it looks for the fragments
  \<open>#key-ed25519\<close> and \<open>#key-didcomm\<close>, which no document of the registrar has.
\<close>

theorem created_documents_sign_es256_only:
  assumes "\<forall>d. de_fromJSON E d = Inr d"
    and "WebDidRegistrar_create E opts s = (Inr (Finished did doc), t)"
  shows "getOid4VcSigningDidUrlForAlg doc ES256 = Inr (did @ WEB_DID_KEY_P256_FRAGMENT) \<and>
    getOid4VpSigningDidUrl doc = Inr (did @ WEB_DID_KEY_P256_FRAGMENT) \<and>
    getOid4VcSigningDidUrlForAlg doc EdDSA = Inl ED25519_NOT_FOUND \<and>
    getDidCommSigningDidUrl doc = Inl DIDCOMM_NOT_FOUND"
proof -
  note assertion = created_methods(1) [OF assms]
  show ?thesis
    by (simp add: created_p256 [OF assms] getOid4VcSigningDidUrl_def getOid4VcSigningDidUrlForAlg_def [of _ EdDSA]
      getDidCommSigningDidUrl_def assertion
      no_fragment [OF fragments_unmatched(1)] no_fragment [OF fragments_unmatched(2)])
qed

section \<open>A document made for some options is kept\<close>

lemma hasMethodRef_created:
  "hasMethodRef (Some (map (MethodId \<circ> (@) did) fs)) f \<longleftrightarrow> (\<exists>g\<in>set fs. endsWith (did @ g) f)"
  by (auto simp: hasMethodRef_def refId_def list_ex_iff)

lemma made_not_recreated:
  assumes "\<forall>d. de_fromJSON E d = Inr d"
    and "WebDidRegistrar_create E (webCreateOptions opts) s = (Inr (Finished did doc), t)"
  shows "\<not> mustRecreate b opts doc"
proof -
  note methods = created_methods [OF assms]
  have "hasDidCommV1Service doc"
    if "truthyText (eo_didcommEndpoint opts)" "eo_addDidCommKey opts = Some True"
  proof -
    from assms(2) obtain d where "doc = addDidCommService (webCreateOptions opts) did d"
      by (rule create_finished)
    with that show ?thesis
      by (simp add: hasDidCommV1Service_def addDidCommService_def webCreateOptions_def)
  qed
  moreover have "hasMethodRef (dd_assertionMethod doc) f \<longleftrightarrow>
      (\<exists>g\<in>set (webFragments (webCreateOptions opts)). endsWith (did @ g) f)" for f
    by (simp only: methods(1) hasMethodRef_created)
  moreover have "hasMethodRef (dd_authentication doc) WEB_DID_KEY_ED25519_JWK_FRAGMENT"
    if "eo_addEd25519Key opts = Some True"
    using that unfolding methods(2) hasMethodRef_created
    by (auto simp: webFragments_def webCreateOptions_def butlast_append)
  ultimately show ?thesis
    by (auto simp: mustRecreate_def webFragments_def webCreateOptions_def)
qed

text \<open>
  C14. What \<open>ensureWebDid\<close> created for some options it finds again: while the record it saved is
  listed and its first key is in the key management, a later call with the same options returns
  that document, and neither deletes the record nor creates another; all it does to the store is
  the two reads.
\<close>

theorem ensured_document_kept:
  assumes "\<forall>d. de_fromJSON E d = Inr d"
    and "WebDidRegistrar_create E (webCreateOptions opts) s\<^sub>0 = (Inr (Finished did doc), s\<^sub>1)"
    and "da_getCreatedDids A ''web'' s = (Inr created, s')"
    and "find (\<lambda>r. sd_did r = webDid (eo_domain opts)) created = Some r"
    and "sd_didDocument r = Some doc" and "firstKeyId r = Some keyId" and "keyId \<noteq> []"
    and "da_getPublicKey A keyId s' = (Inr (), s'')"
  shows "ensureWebDid A creates opts s = (Inr (did, doc), s'')"
proof -
  have "sd_did r = webDid (eo_domain opts)" using assms(4) by (auto dest: find_Some_iff_in)
  moreover have "did = webDid (eo_domain opts)"
    using assms(2) by (auto elim!: create_finished simp: webCreateOptions_def)
  ultimately have did: "sd_did r = did" by simp
  have "reviewExisting A opts r keyId s' = (Inr (Some (did, doc)), s'')"
    using made_not_recreated [OF assms(1,2)]
    by (simp add: reviewExisting_def catching_run andThen_run assms did)
  then show ?thesis
    by (simp add: ensureWebDid_def Let_def andThen_run assms)
qed

section \<open>Samples\<close>

text \<open>A wallet whose state counts the keys it made, and options for every key and the service.\<close>

definition sampleDidEnv :: "nat didEnv" where
  "sampleDidEnv =
     \<lparr>de_createKey = (\<lambda>_ n. (Inr (JObj [(''x'', JStr ''AQ'')], ''key'' @ natStr n), Suc n)),
      de_backends = [BbsBackend (\<lambda>n. (Inr \<lparr>bc_keyId = ''key'' @ natStr n, bc_publicKeyBase58 = None,
        bc_jwkBase58 = Some ''2''\<rparr>, Suc n))],
      de_base58 = (\<lambda>bs. map (char_of \<circ> (unat :: 8 word \<Rightarrow> nat)) bs),
      de_fromJSON = Inr,
      de_save = (\<lambda>_ _ _ n. (Inr (), n))\<rparr>"

definition sampleEnsureOptions :: ensureWebDidOptions where
  "sampleEnsureOptions =
     \<lparr>eo_domain = ''issuer.example'', eo_keyType = None, eo_didcommEndpoint = Some ''http://issuer.example/didcomm'',
      eo_addEd25519Key = Some True, eo_addDidCommKey = Some True, eo_addBbsKey = None\<rparr>"

definition sampleDocument :: didDocument where
  "sampleDocument =
     (case fst (WebDidRegistrar_create sampleDidEnv (webCreateOptions sampleEnsureOptions) 0) of
        Inr (Finished _ doc) \<Rightarrow> doc | _ \<Rightarrow> webDidDocument (webCreateOptions sampleEnsureOptions) [] [] False)"

lemma sampleCreated:
  "WebDidRegistrar_create sampleDidEnv (webCreateOptions sampleEnsureOptions) 0 =
    (Inr (Finished ''did:web:issuer.example'' sampleDocument), 4)"
  by (simp add: sampleDocument_def WebDidRegistrar_create_def webDidKeys_def andThen_run catching_run
      sampleDidEnv_def sampleEnsureOptions_def webCreateOptions_def whenFlag_def Let_def didOfSum_def
      createBls12381G2Key_def tryResolveBls12381G2KeyBackend_def isBbsBackend_def truthyText_def
      ed25519JwkToBase58_def webDid_def List.map_filter_simps)

lemma sampleConverts: "\<forall>d. de_fromJSON sampleDidEnv d = Inr d"
  by (simp add: sampleDidEnv_def)

theorem created_documents_closed_witness:
  "closedDocument ''did:web:issuer.example'' sampleDocument"
  using created_documents_closed [OF sampleConverts sampleCreated] by blast

theorem created_documents_sign_es256_only_witness:
  "getOid4VcSigningDidUrlForAlg sampleDocument EdDSA = Inl ED25519_NOT_FOUND \<and>
   getDidCommSigningDidUrl sampleDocument = Inl DIDCOMM_NOT_FOUND"
  using created_documents_sign_es256_only [OF sampleConverts sampleCreated] by simp

definition sampleStoredDid :: storedDid where
  "sampleStoredDid =
     \<lparr>sd_id = ''1'', sd_did = ''did:web:issuer.example'',
      sd_keys = Some [\<lparr>dk_kmsKeyId = ''key0'', dk_relativeKeyId = Some ''#key-p256''\<rparr>],
      sd_didDocument = Some sampleDocument\<rparr>"

definition sampleDidAgent :: "nat didAgent" where
  "sampleDidAgent =
     \<lparr>da_getCreatedDids = (\<lambda>_ n. (Inr [sampleStoredDid], Suc n)),
      da_getPublicKey = (\<lambda>_ n. (Inr (), Suc n)),
      da_deleteById = (\<lambda>_ n. (Inr (), 0)),
      da_backends = de_backends sampleDidEnv\<rparr>"

theorem ensured_document_kept_witness:
  "ensureWebDid sampleDidAgent (WebDidRegistrar_create sampleDidEnv) sampleEnsureOptions 4 =
    (Inr (''did:web:issuer.example'', sampleDocument), 6)"
  by (rule ensured_document_kept [OF sampleConverts sampleCreated, where keyId = "''key0''" and s' = 5 and r = sampleStoredDid and created = "[sampleStoredDid]"])
    (simp_all add: sampleDidAgent_def sampleStoredDid_def webDid_def sampleEnsureOptions_def firstKeyId_def)

end
