(* ===== verification/DidResolvers.thy ===== *)
theory DidResolvers
  imports Dids JsCoercion RecordQuery BillingStore
begin

text \<open>
  Resolving an identifier over HTTP (\<^verbatim>\<open>identity-core/src/did/resolver/\<close>): the address of a
  \<open>did:web\<close> without TLS, the resolvers of \<open>did:web\<close>, \<open>did:custom\<close> and \<open>did:quarkid\<close>, and the
  address under which a wallet of a service is published. What the server answers is a parameter.
\<close>

section \<open>Escapes in addresses\<close>

text \<open>
  A JavaScript string is a sequence of 16-bit units, which an escape can produce outside the
  characters of \<open>string\<close>; the decoder works on the units. \<open>None\<close> is the \<open>URIError\<close> it throws.
\<close>

type_synonym units = "nat list"

definition unitsOf :: "string \<Rightarrow> units" where
  "unitsOf s = map of_char s"

definition unitHex :: "nat \<Rightarrow> nat option" where
  "unitHex u = (if u < 256 then hexVal (char_of u) else None)"

definition escapeByte :: "units \<Rightarrow> (nat \<times> units) option" where
  "escapeByte us =
     (case us of
        p # a # b # r \<Rightarrow>
          if p \<noteq> 37 then None
          else (case (unitHex a, unitHex b) of (Some x, Some y) \<Rightarrow> Some (16 * x + y, r) | _ \<Rightarrow> None)
      | _ \<Rightarrow> None)"

text \<open>The bytes that follow the first of a character, and how many there are.\<close>

fun continuation :: "nat \<Rightarrow> units \<Rightarrow> (nat list \<times> units) option" where
  "continuation 0 us = Some ([], us)"
| "continuation (Suc n) us =
     (case escapeByte us of
        None \<Rightarrow> None
      | Some (b, r) \<Rightarrow>
          if 128 \<le> b \<and> b < 192 then map_option (\<lambda>(bs, r'). ((b - 128) # bs, r')) (continuation n r) else None)"

definition followers :: "nat \<Rightarrow> nat option" where
  "followers b =
     (if b < 128 then Some 0 else if 194 \<le> b \<and> b \<le> 223 then Some 1
      else if 224 \<le> b \<and> b \<le> 239 then Some 2 else if 240 \<le> b \<and> b \<le> 244 then Some 3 else None)"

definition pointOf :: "nat \<Rightarrow> nat list \<Rightarrow> nat" where
  "pointOf b bs =
     foldl (\<lambda>v c. v * 64 + c)
       (case length bs of 0 \<Rightarrow> b | Suc 0 \<Rightarrow> b - 192 | Suc (Suc 0) \<Rightarrow> b - 224 | _ \<Rightarrow> b - 240) bs"

text \<open>Overlong forms, the surrogates and what is past the last character are refused.\<close>

definition pointValid :: "nat \<Rightarrow> nat \<Rightarrow> bool" where
  "pointValid n v \<longleftrightarrow>
     (case n of 0 \<Rightarrow> v < 128 | Suc 0 \<Rightarrow> 128 \<le> v
      | Suc (Suc 0) \<Rightarrow> 2048 \<le> v \<and> \<not> (55296 \<le> v \<and> v \<le> 57343)
      | _ \<Rightarrow> 65536 \<le> v \<and> v \<le> 1114111)"

definition pointUnits :: "nat \<Rightarrow> units" where
  "pointUnits v =
     (if v < 65536 then [v] else [55296 + (v - 65536) div 1024, 56320 + (v - 65536) mod 1024])"

definition escapeChars :: "units \<Rightarrow> (units \<times> units) option" where
  "escapeChars us =
     (case escapeByte us of
        None \<Rightarrow> None
      | Some (b, r) \<Rightarrow>
          (case followers b of
             None \<Rightarrow> None
           | Some n \<Rightarrow>
               (case continuation n r of
                  None \<Rightarrow> None
                | Some (bs, r') \<Rightarrow>
                    if pointValid n (pointOf b bs) then Some (pointUnits (pointOf b bs), r') else None)))"

lemma continuation_shorter: "continuation n us = Some (bs, r) \<Longrightarrow> length r \<le> length us"
proof (induction n arbitrary: us bs)
  case (Suc n)
  then obtain b r' bs' where "escapeByte us = Some (b, r')" "continuation n r' = Some (bs', r)"
    by (auto split: option.splits prod.splits if_splits)
  with Suc.IH show ?case
    by (fastforce simp: escapeByte_def split: list.splits if_splits option.splits)
qed simp

lemma escapeChars_shorter: "escapeChars us = Some (cs, r) \<Longrightarrow> length r < length us"
proof -
  assume "escapeChars us = Some (cs, r)"
  then obtain b r' n bs where "escapeByte us = Some (b, r')" and "continuation n r' = Some (bs, r)"
    by (auto simp: escapeChars_def split: option.splits prod.splits if_splits)
  moreover from this(1) have "length r' < length us"
    by (auto simp: escapeByte_def split: list.splits if_splits option.splits)
  ultimately show ?thesis using continuation_shorter by fastforce
qed

function decodeURIComponent :: "units \<Rightarrow> units option" where
  "decodeURIComponent [] = Some []"
| "decodeURIComponent (u # us) =
     (if u \<noteq> 37 then map_option ((#) u) (decodeURIComponent us)
      else
        (case escapeChars (u # us) of
           None \<Rightarrow> None
         | Some (cs, r) \<Rightarrow> map_option ((@) cs) (decodeURIComponent r)))"
  by pat_completeness auto

termination
  by (relation "measure length") (auto dest: escapeChars_shorter)

declare decodeURIComponent.simps(2) [simp del]

text \<open>
  \<open>encodeURIComponent\<close> on text whose characters are below 256, which UTF-8 writes in at most two
  bytes.
\<close>

definition unreserved :: "char \<Rightarrow> bool" where
  "unreserved c \<longleftrightarrow>
     (let n = of_char c :: nat in
      48 \<le> n \<and> n \<le> 57 \<or> 65 \<le> n \<and> n \<le> 90 \<or> 97 \<le> n \<and> n \<le> 122 \<or>
      c \<in> set ''-_.!~*()'' \<or> n = 39)"

definition percent :: "nat \<Rightarrow> string" where
  "percent b = [CHR ''%'', upperChar (hexDigit (b div 16)), upperChar (hexDigit (b mod 16))]"

definition encodeChar :: "char \<Rightarrow> string" where
  "encodeChar c =
     (let n = of_char c in
      if unreserved c then [c]
      else if n < 128 then percent n
      else percent (192 + n div 64) @ percent (128 + n mod 64))"

definition encodeURIComponent :: "string \<Rightarrow> string" where
  "encodeURIComponent s = concat (map encodeChar s)"

section \<open>Addresses of did:web\<close>

text \<open>\<open>identifier.split(':')\<close> and \<open>join('/')\<close> on units; the address is built of the decoded parts.\<close>

fun splitUnits :: "nat \<Rightarrow> units \<Rightarrow> units list" where
  "splitUnits c [] = [[]]"
| "splitUnits c (x # xs) =
     (if x = c then [] # splitUnits c xs
      else (case splitUnits c xs of [] \<Rightarrow> [[x]] | w # ws \<Rightarrow> (x # w) # ws))"

fun joinUnits :: "units \<Rightarrow> units list \<Rightarrow> units" where
  "joinUnits d [] = []"
| "joinUnits d [w] = w"
| "joinUnits d (w # ws) = w @ d @ joinUnits d ws"

definition didWebToHttpUrl :: "units \<Rightarrow> units option" where
  "didWebToHttpUrl did =
     (case splitUnits 58 (drop (length ''did:web:'') did) of
        [] \<Rightarrow> None
      | hostPart # pathParts \<Rightarrow>
          Option.bind (decodeURIComponent hostPart) (\<lambda>host.
          if pathParts = [] then Some (unitsOf ''http://'' @ host @ unitsOf ''/.well-known/did.json'')
          else
            Option.bind (those (map decodeURIComponent pathParts)) (\<lambda>decoded.
            Some (unitsOf ''http://'' @ host @ unitsOf ''/'' @ joinUnits (unitsOf ''/'') decoded @
              unitsOf ''/did.json''))))"

section \<open>The resolvers\<close>

text \<open>
  What \<open>fetch\<close> gives: a failure of the network, or an answer whose body may not be JSON. A
  resolution is an error with its message, or a document with both metadata.
\<close>

record httpAnswer =
  ha_ok :: bool
  ha_status :: int
  ha_json :: "string + json"

datatype resolution =
    Unresolved string units
  | Resolved json json "(string \<times> json) list"

text \<open>\<open>None\<close>: the address is computed outside the \<open>try\<close>, so its error is thrown.\<close>

definition HttpWebDidResolver_resolve ::
  "(json \<Rightarrow> string + json) \<Rightarrow> (units \<Rightarrow> string + httpAnswer) \<Rightarrow> units \<Rightarrow> resolution option" where
  "HttpWebDidResolver_resolve fromJSON fetch did =
     map_option (\<lambda>url.
       let failed = (\<lambda>m. Unresolved ''internalError'' (unitsOf (''HttpWebDidResolver: '' @ m)))
       in case fetch url of
            Inl m \<Rightarrow> failed m
          | Inr res \<Rightarrow>
              if \<not> ha_ok res
              then Unresolved ''notFound'' (unitsOf (''HTTP '' @ intStr (ha_status res) @ '' fetching '') @ url)
              else (case ha_json res of
                      Inl m \<Rightarrow> failed m
                    | Inr body \<Rightarrow>
                        (case fromJSON body of
                           Inl m \<Rightarrow> failed m
                         | Inr doc \<Rightarrow>
                             Resolved doc (JObj []) [(''contentType'', JStr ''application/did+ld+json'')])))
       (didWebToHttpUrl did)"

text \<open>An error the upstream wraps in an answer it calls successful.\<close>

definition textOr :: "json option \<Rightarrow> string \<Rightarrow> string" where
  "textOr v d = (case v of Some (JStr (c # m)) \<Rightarrow> c # m | _ \<Rightarrow> d)"

definition wrappedError :: "json \<Rightarrow> string option" where
  "wrappedError body =
     (case jsonField ''status'' body of
        Some (JNum n) \<Rightarrow>
          if 400 \<le> n \<and> n < 600
          then Some (textOr (jsonField ''message'' (coalesce (jsonField ''data'' body) (JObj [])))
            (textOr (jsonField ''statusText'' body)
              (''Upstream returned HTTP '' @ intStr n @ '' wrapped in 200 OK'')))
          else None
      | _ \<Rightarrow> None)"

definition wrappedDoc :: "json \<Rightarrow> json option" where
  "wrappedDoc body = (case jsonField ''didDocument'' body of Some (JObj d) \<Rightarrow> Some (JObj d) | _ \<Rightarrow> None)"

definition presentOr :: "json option \<Rightarrow> json \<Rightarrow> json" where
  "presentOr v d = (case v of None \<Rightarrow> d | Some JNull \<Rightarrow> d | Some j \<Rightarrow> j)"

definition QuarkDidResolver_resolve ::
  "string \<Rightarrow> string \<Rightarrow> (string \<Rightarrow> string + httpAnswer) \<Rightarrow> string \<Rightarrow> resolution" where
  "QuarkDidResolver_resolve baseUrl pathPrefix fetch did =
     (let unable = ''Unable to resolve did '' @ quote @ did @ quote @ '': '';
          notFound = (\<lambda>m. Unresolved ''notFound'' (unitsOf m));
          url = dropTrailingSlash baseUrl @ pathPrefix @ ''/'' @ encodeURIComponent did
      in case fetch url of
           Inl m \<Rightarrow> notFound (''resolver_error: '' @ unable @ m)
         | Inr res \<Rightarrow>
             if \<not> ha_ok res then notFound (unable @ ''not found in registry'')
             else
               (case ha_json res of
                  Inl m \<Rightarrow> notFound (''resolver_error: '' @ unable @ m)
                | Inr body \<Rightarrow>
                    (case wrappedError body of
                       Some m \<Rightarrow> notFound (unable @ m)
                     | None \<Rightarrow>
                         (case wrappedDoc body of
                            Some doc \<Rightarrow>
                              Resolved doc (presentOr (jsonField ''didDocumentMetadata'' body) (JObj []))
                                ((''contentType'', JStr ''application/did+ld+json'') #
                                 coalesce (entriesOf (presentOr (jsonField ''didResolutionMetadata'' body) (JObj []))) [])
                          | None \<Rightarrow>
                              Resolved body (JObj [])
                                [(''contentType'', JStr ''application/did+ld+json'')]))))"

text \<open>\<open>QuarkidDidResolver\<close> differs in its default path; the one of \<open>did:web\<close> without TLS is chosen by a flag.\<close>

definition quarkPathPrefix :: "string option \<Rightarrow> string" where
  "quarkPathPrefix p = coalesce p ''/did''"

definition quarkidPathPrefix :: "string option \<Rightarrow> string" where
  "quarkidPathPrefix p = coalesce p ''/1.0/identifiers''"

definition buildWebDidResolver :: "bool option \<Rightarrow> (units \<Rightarrow> 'r) \<Rightarrow> (units \<Rightarrow> 'r) \<Rightarrow> units \<Rightarrow> 'r" where
  "buildWebDidResolver useHttp httpResolver tlsResolver = (if useHttp = Some True then httpResolver else tlsResolver)"

section \<open>Where a wallet is published\<close>

text \<open>
  The domain a wallet of a service gets: the host of the DIDComm endpoint, its port escaped, and
  the wallet. The parts of the endpoint are those \<open>new URL\<close> finds.
\<close>

record urlParts =
  up_hostname :: string
  up_port :: string

definition walletDomain :: "urlParts \<Rightarrow> string \<Rightarrow> string" where
  "walletDomain url walletId =
     (if up_port url \<noteq> [] then up_hostname url @ ''%3A'' @ up_port url else up_hostname url) @ '':'' @ walletId"

text \<open>
  The registrar of \<open>did:custom\<close> (\<^verbatim>\<open>identity-core/src/did/registrar/quark.registrar.ts\<close>):
  the document of a key is renamed in its JSON text, published in the registry of identifiers and
  saved. The framework's key types, the registry and the repository are parameters.
\<close>

text \<open>\<open>s.split(sep)\<close> for a text.\<close>

function splitText :: "string \<Rightarrow> string \<Rightarrow> string list" where
  "splitText sep s =
     (if sep = [] then map (\<lambda>c. [c]) s
      else if s = [] then [[]]
      else if startsWith s sep then [] # splitText sep (drop (length sep) s)
      else (case splitText sep (tl s) of [] \<Rightarrow> [[hd s]] | w # ws \<Rightarrow> (hd s # w) # ws))"
  by pat_completeness auto

termination
  by (relation "measure (length \<circ> snd)") auto

declare splitText.simps [simp del]

record didKeyInfo =
  ki_did :: string
  ki_fingerprint :: string
  ki_document :: json

record 's quarkEnv =
  qe_createKey :: "keyType \<Rightarrow> ('s, didError, json \<times> string) op"
  qe_getPublicKey :: "string \<Rightarrow> ('s, didError, json option) op"
  qe_didKey :: "json \<Rightarrow> didError + didKeyInfo"
  qe_uuid :: "('s, didError, string) op"
  qe_fromJSON :: "json \<Rightarrow> didError + didDocument"
  qe_toJSON :: "didDocument \<Rightarrow> json"
  qe_post :: "string \<Rightarrow> json \<Rightarrow> ('s, didError, httpAnswer) op"
  qe_save :: "string \<Rightarrow> didDocument \<Rightarrow> didRecordKey list \<Rightarrow> string list \<Rightarrow> ('s, didError, unit) op"

record quarkConfig =
  qc_vdrServiceUrl :: string
  qc_didcommEndpoint :: string

record quarkCreateOptions =
  qo_createKey :: "keyType option"
  qo_keyId :: "string option"

definition keyTypeText :: "keyType \<Rightarrow> string" where
  "keyTypeText t = stringify (JObj [(''kty'', JStr (kt_kty t)), (''crv'', JStr (kt_crv t))])"

text \<open>The key: a new one of a known type, one of the key management, or a new Ed25519 key.\<close>

definition quarkKey :: "'s quarkEnv \<Rightarrow> quarkCreateOptions \<Rightarrow> ('s, didError, (json \<times> string) option) op" where
  "quarkKey Q opts =
     (case qo_createKey opts of
        Some t \<Rightarrow>
          if t \<noteq> ed25519Type \<and> t \<noteq> p256Type
          then throw (DidError (''Tipo de clave no soportado: '' @ keyTypeText t) None)
          else andThen (qe_createKey Q t) (\<lambda>k. ret (Some k))
      | None \<Rightarrow>
          if truthyText (qo_keyId opts)
          then andThen (qe_getPublicKey Q (coalesce (qo_keyId opts) [])) (\<lambda>pk.
               ret (map_option (\<lambda>jwk. (jwk, coalesce (qo_keyId opts) [])) pk))
          else andThen (qe_createKey Q ed25519Type) (\<lambda>k. ret (Some k)))"

text \<open>\<open>JSON.parse\<close> of the renamed text; its syntax error is thrown.\<close>

definition renamedJson :: "string \<Rightarrow> string \<Rightarrow> json \<Rightarrow> didError + json" where
  "renamedJson oldDid newDid docJson =
     (case jsonParse (joinWith newDid (splitText oldDid (stringify docJson))) of
        None \<Rightarrow> Inl (DidError ''Unexpected token in JSON'' None)
      | Some j \<Rightarrow> Inr j)"

definition inlineService :: "quarkConfig \<Rightarrow> string \<Rightarrow> string \<Rightarrow> didService" where
  "inlineService cfg newDid fingerprint =
     \<lparr>ds_id = newDid @ ''#inline-0'', ds_type = ''did-communication'', ds_endpoint = qc_didcommEndpoint cfg,
      ds_recipientKeys = [newDid @ ''#'' @ fingerprint], ds_routingKeys = []\<rparr>"

definition quarkPublish ::
  "'s quarkEnv \<Rightarrow> quarkConfig \<Rightarrow> json \<times> string \<Rightarrow> ('s, didError, didState) op" where
  "quarkPublish Q cfg k =
     andThen (didOfSum (qe_didKey Q (fst k))) (\<lambda>info.
     andThen (qe_uuid Q) (\<lambda>uuid.
     let newDid = ''did:custom:'' @ uuid in
     andThen (didOfSum (renamedJson (ki_did info) newDid (ki_document info))) (\<lambda>j.
     andThen (didOfSum (qe_fromJSON Q j)) (\<lambda>doc.
     let didDocument = doc\<lparr>dd_service := Some (coalesce (dd_service doc) [] @
           [inlineService cfg newDid (ki_fingerprint info)])\<rparr>
     in andThen (qe_post Q (dropTrailingSlash (qc_vdrServiceUrl cfg) @ ''/did'')
          (JObj [(''id'', JStr newDid), (''document'', qe_toJSON Q didDocument)])) (\<lambda>_.
        andThen (qe_save Q newDid didDocument
          [\<lparr>dk_kmsKeyId = snd k, dk_relativeKeyId = Some (''#'' @ ki_fingerprint info)\<rparr>]
          [ki_fingerprint info]) (\<lambda>_.
        ret (Finished newDid didDocument)))))))"

text \<open>The dash of the reason, spaces around it, as its UTF-8 bytes.\<close>

definition emDash :: string where
  "emDash = '' '' @ [CHR 0xE2, CHR 0x80, CHR 0x94] @ '' ''"

definition QuarkDidRegistrar_create ::
  "'s quarkEnv \<Rightarrow> quarkConfig \<Rightarrow> quarkCreateOptions \<Rightarrow> ('s, didError, didState) op" where
  "QuarkDidRegistrar_create Q cfg opts =
     catching
       (andThen (quarkKey Q opts) (\<lambda>k.
        case k of
          None \<Rightarrow> ret (Failed (''notFound: key '' @ quote @ coalesce (qo_keyId opts) [] @ quote @ '' not found''))
        | Some key \<Rightarrow> quarkPublish Q cfg key))
       (\<lambda>e. ret (Failed (''unknownError: '' @ didMessage e @ didCause e @
          emDash @ ''vdrServiceUrl: '' @ qc_vdrServiceUrl cfg)))"

definition QuarkDidRegistrar_update :: didState where
  "QuarkDidRegistrar_update = Failed ''notSupported: cannot update did:custom did''"

definition QuarkDidRegistrar_deactivate :: didState where
  "QuarkDidRegistrar_deactivate = Failed ''notSupported: cannot deactivate did:custom did''"

section \<open>What the registry answers\<close>

definition answering :: "(httpAnswer \<Rightarrow> httpAnswer) \<Rightarrow> 's quarkEnv \<Rightarrow> 's quarkEnv" where
  "answering f Q =
     Q\<lparr>qe_post := \<lambda>url body s. (case qe_post Q url body s of
        (Inl e, s') \<Rightarrow> (Inl e, s') | (Inr a, s') \<Rightarrow> (Inr (f a), s'))\<rparr>"

lemma answering_ignored:
  "andThen (\<lambda>s. case m s of (Inl e, s') \<Rightarrow> (Inl e, s') | (Inr a, s') \<Rightarrow> (Inr (f a), s')) (\<lambda>_. k) =
    andThen m (\<lambda>_. k)"
  by (rule ext) (simp add: andThen_def split: prod.split sum.split)

lemma answering_keeps [simp]:
  "qe_createKey (answering f Q) = qe_createKey Q" "qe_getPublicKey (answering f Q) = qe_getPublicKey Q"
  "qe_didKey (answering f Q) = qe_didKey Q" "qe_uuid (answering f Q) = qe_uuid Q"
  "qe_fromJSON (answering f Q) = qe_fromJSON Q" "qe_toJSON (answering f Q) = qe_toJSON Q"
  "qe_save (answering f Q) = qe_save Q"
  by (simp_all add: answering_def)

lemma quarkKey_answering: "quarkKey (answering f Q) = quarkKey Q"
  unfolding quarkKey_def answering_keeps ..

lemma answering_post [simp]:
  "andThen (qe_post (answering f Q) u b) (\<lambda>_. k) = andThen (qe_post Q u b) (\<lambda>_. k)"
  by (simp add: answering_def answering_ignored)

lemma quarkPublish_answering: "quarkPublish (answering f Q) cfg = quarkPublish Q cfg"
  unfolding quarkPublish_def answering_keeps answering_post ..

text \<open>
  What the registry of identifiers answers to the publication of a \<open>did:custom\<close> does not
  matter: whatever status and body are put in place of its answers, the registrar returns the
  same, so an identifier the registry refused is saved and reported as created.
\<close>

theorem registry_answer_ignored:
  "QuarkDidRegistrar_create (answering f Q) cfg opts = QuarkDidRegistrar_create Q cfg opts"
  unfolding QuarkDidRegistrar_create_def quarkKey_answering quarkPublish_answering ..

lemma creation_returns: "\<exists>st t. QuarkDidRegistrar_create Q cfg opts s = (Inr st, t)"
  by (simp add: QuarkDidRegistrar_create_def catching_run split: prod.split sum.split)

end
