(* ===== verification/DidResolverProps.thy ===== *)
theory DidResolverProps
  imports DidResolvers
begin

text \<open>
  The identifier of a wallet leads to the address its service publishes the document at, and what
  \<open>encodeURIComponent\<close> writes is decoded again.
\<close>

section \<open>Splitting and decoding\<close>

lemma unitsOf_append [simp]: "unitsOf (a @ b) = unitsOf a @ unitsOf b"
  by (simp add: unitsOf_def)

lemma unitsOf_Nil [simp]: "unitsOf [] = []"
  by (simp add: unitsOf_def)

lemma splitUnits_nonempty [simp]: "splitUnits c us \<noteq> []"
  by (induction us) (auto split: list.splits)

lemma splitUnits_plain: "c \<notin> set a \<Longrightarrow> splitUnits c a = [a]"
  by (induction a) auto

lemma splitUnits_append: "c \<notin> set a \<Longrightarrow> splitUnits c (a @ c # b) = a # splitUnits c b"
  by (induction a) auto

lemma decode_plain: "37 \<notin> set a \<Longrightarrow> decodeURIComponent (a @ b) = map_option ((@) a) (decodeURIComponent b)"
  by (induction a; cases "decodeURIComponent b") (auto simp: decodeURIComponent.simps(2))

lemma decode_colon: "decodeURIComponent (37 # 51 # 65 # us) = map_option ((#) 58) (decodeURIComponent us)"
  by (cases "decodeURIComponent us")
    (simp_all add: decodeURIComponent.simps(2) escapeChars_def escapeByte_def unitHex_def hexVal_def
      followers_def pointValid_def pointOf_def pointUnits_def)

lemma unitsOf_absent: "c \<notin> set s \<Longrightarrow> of_char c \<notin> set (unitsOf s)"
  by (auto simp: unitsOf_def)

lemma alnum_units: "isAlnum c \<Longrightarrow> c \<noteq> CHR '':'' \<and> c \<noteq> CHR ''%''"
  by (auto simp: isAlnum_def)

lemma walletId_units:
  assumes "walletIdValid w"
  shows "58 \<notin> set (unitsOf w)" "37 \<notin> set (unitsOf w)"
proof -
  from assms have "CHR '':'' \<notin> set w" "CHR ''%'' \<notin> set w"
    by (cases w; auto simp: list_all_iff dest: alnum_units)+
  from this [THEN unitsOf_absent] show "58 \<notin> set (unitsOf w)" "37 \<notin> set (unitsOf w)" by simp_all
qed

section \<open>The last part of a lookup\<close>

lemma hexVal_upper: "n < 16 \<Longrightarrow> hexVal (upperChar (hexDigit n)) = Some n"
  by (auto simp: hexVal_def hexDigit_def upperChar_def Let_def of_char_of)

lemma escapeByte_percent: "n < 256 \<Longrightarrow> escapeByte (unitsOf (percent n) @ r) = Some (n, r)"
proof -
  assume "n < 256"
  then have "n div 16 < 16" by simp
  then have "hexVal (upperChar (hexDigit (n div 16))) = Some (n div 16)" by (rule hexVal_upper)
  moreover have "hexVal (upperChar (hexDigit (n mod 16))) = Some (n mod 16)" by (rule hexVal_upper) simp
  ultimately show ?thesis by (simp add: escapeByte_def percent_def unitsOf_def unitHex_def)
qed

lemma decode_percent: "decodeURIComponent (unitsOf (percent n) @ us) =
  (case escapeChars (unitsOf (percent n) @ us) of
     None \<Rightarrow> None | Some (cs, r) \<Rightarrow> map_option ((@) cs) (decodeURIComponent r))"
  by (simp add: decodeURIComponent.simps(2) percent_def unitsOf_def)

lemma encoded_char:
  "decodeURIComponent (unitsOf (encodeChar c) @ us) =
    map_option ((#) (of_char c)) (decodeURIComponent us)"
proof -
  let ?n = "of_char c :: nat"
  have n: "?n < 256" by (rule nat_of_char_less_256)
  consider "unreserved c" | "\<not> unreserved c" "?n < 128" | "\<not> unreserved c" "128 \<le> ?n" by linarith
  then show ?thesis
  proof cases
    case 1
    then have "?n \<noteq> 37" by (auto simp: unreserved_def Let_def)
    with 1 show ?thesis by (simp add: encodeChar_def unitsOf_def decodeURIComponent.simps(2))
  next
    case 2
    then show ?thesis using n
      by (cases "decodeURIComponent us")
        (simp_all add: encodeChar_def decode_percent escapeChars_def escapeByte_percent
          followers_def pointValid_def pointOf_def pointUnits_def)
  next
    case 3
    let ?a = "192 + ?n div 64" and ?b = "128 + ?n mod 64"
    have b: "?b < 192" by simp
    have a: "194 \<le> ?a" "?a \<le> 223" "?a < 256" using 3 n by linarith+
    have "escapeChars (unitsOf (percent ?a) @ unitsOf (percent ?b) @ us) = Some ([?n], us)"
      using 3 n a b by (simp add: escapeChars_def escapeByte_percent followers_def pointValid_def
        pointOf_def pointUnits_def)
    then show ?thesis using 3
      by (cases "decodeURIComponent us") (simp_all add: encodeChar_def decode_percent Let_def)
  qed
qed

lemma decode_encode: "decodeURIComponent (unitsOf (encodeURIComponent s)) = Some (unitsOf s)"
proof (induction s)
  case Nil
  show ?case by (simp add: encodeURIComponent_def)
next
  case (Cons c s)
  have "encodeURIComponent (c # s) = encodeChar c @ encodeURIComponent s"
    by (simp add: encodeURIComponent_def)
  with Cons show ?case by (simp add: encoded_char, simp add: unitsOf_def)
qed

section \<open>Wallets\<close>

text \<open>
  C15. The identifier \<open>did:web:<host>%3A<port>:<wallet>\<close> that a wallet of a service is created with
  resolves to the address its service publishes the document at,
  \<open>http://<host>:<port>/<wallet>/did.json\<close>, for every identifier a wallet may have and every host
  without a colon or an escape.
\<close>

theorem wallet_did_resolves:
  assumes "CHR '':'' \<notin> set (up_hostname url)" and "CHR ''%'' \<notin> set (up_hostname url)"
    and "list_all isDigit (up_port url)" and "walletIdValid walletId"
  shows "didWebToHttpUrl (unitsOf (webDid (walletDomain url walletId))) =
    Some (unitsOf (''http://'' @ up_hostname url @ (if up_port url = [] then [] else CHR '':'' # up_port url) @
      ''/'' @ walletId @ ''/did.json''))"
proof -
  let ?h = "unitsOf (up_hostname url)" and ?w = "unitsOf walletId" and ?p = "unitsOf (up_port url)"
  have "CHR '':'' \<notin> set (up_port url)" "CHR ''%'' \<notin> set (up_port url)"
    using assms(3) by (auto simp: list_all_iff isDigit_def)
  from this [THEN unitsOf_absent] have p: "58 \<notin> set ?p" "37 \<notin> set ?p" by simp_all
  from assms(1,2) [THEN unitsOf_absent] have h: "58 \<notin> set ?h" "37 \<notin> set ?h" by simp_all
  note w = walletId_units [OF assms(4)]
  let ?a = "if up_port url = [] then ?h else ?h @ [37, 51, 65] @ ?p"
  have "drop (length ''did:web:'') (unitsOf (webDid (walletDomain url walletId))) = ?a @ 58 # ?w"
    by (simp add: webDid_def walletDomain_def unitsOf_def)
  moreover have "splitUnits 58 (?a @ 58 # ?w) = [?a, ?w]"
    using h p w by (subst splitUnits_append) (auto simp: splitUnits_plain)
  moreover have "decodeURIComponent ?a = Some (if up_port url = [] then ?h else ?h @ 58 # ?p)"
    using decode_plain [OF h(2), of "[]"] decode_plain [OF h(2), of "[37, 51, 65] @ ?p"]
      decode_plain [OF p(2), of "[]"] by (simp add: decode_colon)
  moreover have "decodeURIComponent ?w = Some ?w"
    using decode_plain [OF w(2), of "[]"] by simp
  ultimately show ?thesis
    by (simp add: didWebToHttpUrl_def unitsOf_def)
qed

theorem wallet_did_resolves_witness:
  "didWebToHttpUrl (unitsOf (webDid (walletDomain \<lparr>up_hostname = ''localhost'', up_port = ''3000''\<rparr> ''acme''))) =
    Some (unitsOf ''http://localhost:3000/acme/did.json'')"
  using wallet_did_resolves [of "\<lparr>up_hostname = ''localhost'', up_port = ''3000''\<rparr>" "''acme''"]
  by (simp add: isDigit_def isAlnum_def)

end
