(* ===== verification/JsObjects.thy ===== *)
theory JsObjects
  imports RecordQuery "HOL-Library.AList"
begin

text \<open>
  Object literals with spreads, \<open>{...a, ...b, k: v}\<close>: their entries are written one after the
  other, a later one in place of an earlier one of the same key.
\<close>

definition objectOf :: "(string \<times> json) list \<Rightarrow> (string \<times> json) list" where
  "objectOf kvs = fold (\<lambda>(k, v). AList.update k v) kvs []"

text \<open>The entries \<open>...v\<close> writes; \<open>null\<close> and \<open>undefined\<close> write none.\<close>

fun spreadOf :: "json \<Rightarrow> (string \<times> json) list" where
  "spreadOf (JObj kvs) = kvs"
| "spreadOf v = coalesce (entriesOf v) []"

text \<open>An entry whose value may be \<open>undefined\<close>, which the JSON of the object leaves out.\<close>

definition entryOf :: "string \<Rightarrow> json option \<Rightarrow> (string \<times> json) list" where
  "entryOf k v = (case v of None \<Rightarrow> [] | Some j \<Rightarrow> [(k, j)])"

definition textEntry :: "string \<Rightarrow> string option \<Rightarrow> (string \<times> json) list" where
  "textEntry k v = entryOf k (map_option JStr v)"

text \<open>\<open>a ?? b\<close> on values that may be absent.\<close>

definition orElse :: "json option \<Rightarrow> json option \<Rightarrow> json option" where
  "orElse a b = (case a of None \<Rightarrow> b | Some JNull \<Rightarrow> b | Some j \<Rightarrow> Some j)"

text \<open>\<open>a?.k\<close>.\<close>

definition chainedField :: "string \<Rightarrow> json option \<Rightarrow> json option" where
  "chainedField k v = Option.bind v (jsonField k)"

lemma distinct_objectOf: "distinct (map fst (objectOf kvs))"
proof -
  have "distinct (map fst al) \<Longrightarrow> distinct (map fst (fold (\<lambda>(k, v). AList.update k v) kvs al))" for al
    by (induction kvs arbitrary: al) (auto simp: distinct_update)
  then show ?thesis by (simp add: objectOf_def)
qed

lemma map_of_objectOf: "map_of (objectOf kvs) k = map_of (rev kvs) k"
proof -
  have "map_of (fold (\<lambda>(k, v). AList.update k v) kvs al) k = (map_of al ++ map_of (rev kvs)) k" for al
    by (induction kvs arbitrary: al) (auto simp: update_conv' map_add_def split: option.splits)
  then show ?thesis by (simp add: objectOf_def)
qed

lemma map_of_rev_distinct:
  assumes "distinct (map fst al)"
  shows "map_of (rev al) k = map_of al k"
proof -
  have "map_of (rev al) k = Some v \<longleftrightarrow> map_of al k = Some v" for v
    using assms by (simp add: map_of_eq_Some_iff rev_map [symmetric])
  then show ?thesis by (metis not_Some_eq)
qed

lemma field_objectOf: "jsonField k (JObj (objectOf kvs)) = map_of (rev kvs) k"
  by (simp add: map_of_rev_distinct [OF distinct_objectOf] map_of_objectOf)

lemma map_of_rev_append: "map_of (rev (a @ b)) k = (case map_of (rev b) k of None \<Rightarrow> map_of (rev a) k | Some v \<Rightarrow> Some v)"
  by (simp add: map_add_def)

lemma map_of_rev_spread: "map_of (rev (spreadOf (JObj kvs))) k = jsonField k (JObj kvs)"
  by simp

end
