(* ===== verification/DidCommCalls.thy ===== *)
theory DidCommCalls
  imports JsObjects Dids StatusListTypes
begin

text \<open>
  The DIDComm calls of the core (\<^verbatim>\<open>protocol/didcomm/invitation.ts\<close>, \<^verbatim>\<open>issuance.ts\<close>,
  \<^verbatim>\<open>presentation.ts\<close>) and the credentials they offer
  (\<^verbatim>\<open>credential/credential.builder.ts\<close>). The agent is a record of the calls of the framework,
  handlers of an arbitrary state.
\<close>

section \<open>Invitations\<close>

text \<open>
  The normalisation of an invitation address, where \<open>replace\<close> with a global pattern replaces every
  occurrence.
\<close>

fun replaceAll :: "nat \<Rightarrow> string \<Rightarrow> string \<Rightarrow> string \<Rightarrow> string" where
  "replaceAll 0 p r s = s"
| "replaceAll (Suc n) p r s =
     (case s of
        [] \<Rightarrow> []
      | c # cs \<Rightarrow> if p \<noteq> [] \<and> startsWith s p then r @ replaceAll n p r (drop (length p) s)
                  else c # replaceAll n p r cs)"

definition normalizeInvitationUrl :: "string \<Rightarrow> string" where
  "normalizeInvitationUrl url =
     (if includesStr url ''_oob='' \<and> \<not> includesStr url ''oob=''
      then replaceAll (length url) ''_oob='' ''oob='' url else url)"

record createdInvitation =
  ci_invitationUrl :: string
  ci_outOfBandId :: string
  ci_invitationMessage :: json

record createInvitationOptions =
  io_domain :: "string option"
  io_goalCode :: "string option"
  io_goal :: "string option"

text \<open>The record of an invitation: its identifier, its address for a domain and its message.\<close>

record oobRecord =
  ob_id :: string
  ob_toUrl :: "string \<Rightarrow> string"
  ob_message :: json

definition createInvitation ::
  "((string \<times> json) list \<Rightarrow> ('s, string, oobRecord) op) \<Rightarrow> createInvitationOptions option \<Rightarrow>
    ('s, string, createdInvitation) op" where
  "createInvitation creates options =
     (let domain = coalesce (Option.bind options io_domain) ''https://example.org'';
          given = (\<lambda>k f. if truthyText (Option.bind options f) then textEntry k (Option.bind options f) else [])
      in andThen (creates (given ''goalCode'' io_goalCode @ given ''goal'' io_goal)) (\<lambda>record'.
         ret \<lparr>ci_invitationUrl = ob_toUrl record' domain, ci_outOfBandId = ob_id record',
           ci_invitationMessage = ob_message record'\<rparr>))"

definition receiveInvitation ::
  "(string \<Rightarrow> string \<Rightarrow> bool \<Rightarrow> ('s, string, json) op) \<Rightarrow> string option \<Rightarrow> string \<Rightarrow> string option \<Rightarrow>
    ('s, string, json) op" where
  "receiveInvitation receiveFromUrl configLabel invitationUrl label =
     receiveFromUrl (normalizeInvitationUrl invitationUrl)
       (coalesce label (coalesce configLabel ''agent'')) True"

section \<open>Credentials in JSON-LD\<close>

definition BBS_PROOF_TYPE :: string where
  "BBS_PROOF_TYPE = ''BbsBlsSignature2020''"
definition BBS_PROOF_TYPE_DERIVED :: string where
  "BBS_PROOF_TYPE_DERIVED = ''BbsBlsSignatureProof2020''"

definition isBbsProofType :: "string \<Rightarrow> bool" where
  "isBbsProofType proofType \<longleftrightarrow> proofType = BBS_PROOF_TYPE \<or> proofType = BBS_PROOF_TYPE_DERIVED"

record credentialInput =
  cd_context :: "json option"
  cd_subject :: "json option"
  cd_type :: "string list option"

record credentialParams =
  cp_credential :: credentialInput
  cp_proofType :: "string option"

definition DEFAULT_CONTEXTS :: "json list" where
  "DEFAULT_CONTEXTS = [JStr ''https://www.w3.org/2018/credentials/v1'', JStr ''http://schema.org/'']"

definition ensureBbsCredentialContext :: "json \<Rightarrow> string \<Rightarrow> json" where
  "ensureBbsCredentialContext context proofType =
     (if \<not> isBbsProofType proofType then context
      else
        (let list = (case context of JArr vs \<Rightarrow> vs | JNull \<Rightarrow> DEFAULT_CONTEXTS | v \<Rightarrow> [v])
         in JArr (if JStr BBS_SECURITY_CONTEXT \<in> set list then list else list @ [JStr BBS_SECURITY_CONTEXT])))"

definition buildCredentialContext :: "string list \<Rightarrow> json" where
  "buildCredentialContext customTypes =
     (if customTypes = [] then JArr DEFAULT_CONTEXTS
      else JArr (DEFAULT_CONTEXTS @ [JObj (objectOf
        (map (\<lambda>t. (t, JStr (''https://www.w3.org/2018/credentials#'' @ t))) customTypes))]))"

text \<open>\<open>subject?.id ?? holderDid\<close>.\<close>

definition subjectId :: "credentialInput \<Rightarrow> string \<Rightarrow> json" where
  "subjectId c holderDid = coalesce (orElse (Option.bind (cd_subject c) (jsonField ''id'')) None) (JStr holderDid)"

definition subjectEntries :: "credentialInput \<Rightarrow> (string \<times> json) list" where
  "subjectEntries c = (case cd_subject c of None \<Rightarrow> [] | Some s \<Rightarrow> spreadOf s)"

definition contextFor :: "credentialParams \<Rightarrow> json" where
  "contextFor params =
     (let c = cp_credential params
      in ensureBbsCredentialContext
           (coalesce (orElse (cd_context c) None)
             (buildCredentialContext (coalesce (cd_type c) [''GenericCredential''])))
           (coalesce (cp_proofType params) BBS_PROOF_TYPE))"

definition typesFor :: "credentialParams \<Rightarrow> json" where
  "typesFor params =
     JArr (map JStr (''VerifiableCredential'' # coalesce (cd_type (cp_credential params)) [''GenericCredential'']))"

definition buildOfferCredentialPayload ::
  "credentialParams \<Rightarrow> string \<Rightarrow> string \<Rightarrow> string \<Rightarrow> millis \<Rightarrow> json" where
  "buildOfferCredentialPayload params credentialId issuerDid holderDid now =
     JObj [(''@context'', contextFor params), (''id'', JStr credentialId), (''type'', typesFor params),
       (''issuer'', JStr issuerDid), (''issuanceDate'', JStr (toISOString now)),
       (''credentialSubject'', JObj (objectOf (subjectEntries (cp_credential params) @
          [(''id'', subjectId (cp_credential params) holderDid)])))]"

definition buildProposalCredentialPayload :: "credentialParams \<Rightarrow> string \<Rightarrow> millis \<Rightarrow> json" where
  "buildProposalCredentialPayload params holderDid now =
     JObj [(''@context'', contextFor params), (''type'', typesFor params),
       (''issuanceDate'', JStr (toISOString now)),
       (''credentialSubject'', JObj (objectOf
          ((''id'', subjectId (cp_credential params) holderDid) # subjectEntries (cp_credential params))))]"

definition getProofOptions :: "string option \<Rightarrow> json" where
  "getProofOptions proofType =
     JObj [(''proofType'', JStr (coalesce proofType BBS_PROOF_TYPE)), (''proofPurpose'', JStr ''assertionMethod'')]"

section \<open>Offers, proposals and proof requests\<close>

record didcommConnection =
  dc_theirDid :: "string option"
  dc_previousTheirDids :: "string list"

record proofRecord =
  px_id :: string
  px_state :: string
  px_role :: string
  px_protocolVersion :: string
  px_connectionId :: "string option"
  px_threadId :: string
  px_createdAt :: millis
  px_isVerified :: "bool option"
  px_errorMessage :: "string option"

text \<open>The request and the presentation of the format data, when they are there.\<close>

record formatData =
  fd_request :: "json option"
  fd_presentation :: "json option"

record 's didcommAgent =
  dg_ready :: bool
  dg_createInvitation :: "(string \<times> json) list \<Rightarrow> ('s, string, oobRecord) op"
  dg_findConnection :: "string \<Rightarrow> ('s, string, didcommConnection option) op"
  dg_createdDids :: "string \<Rightarrow> ('s, string, string list) op"
  dg_uuid :: "('s, string, string) op"
  dg_now :: "('s, string, millis) op"
  dg_offerCredential :: "json \<Rightarrow> ('s, string, string \<times> string) op"
  dg_proposeCredential :: "json \<Rightarrow> ('s, string, string \<times> string) op"
  dg_requestProof :: "json \<Rightarrow> ('s, string, string \<times> string) op"
  dg_findProof :: "string \<Rightarrow> ('s, string, proofRecord option) op"
  dg_getFormatData :: "string \<Rightarrow> ('s, string, formatData) op"

record offered =
  of_credentialExchangeId :: string
  of_state :: string
  of_credentialId :: string

definition exchangeRequest :: "string \<Rightarrow> json \<Rightarrow> string option \<Rightarrow> (string \<times> json) list \<Rightarrow> json" where
  "exchangeRequest connectionId credential proofType extra =
     JObj ([(''connectionId'', JStr connectionId), (''protocolVersion'', JStr ''v2''),
       (''credentialFormats'', JObj [(''jsonld'', JObj [(''credential'', credential),
          (''options'', getProofOptions proofType)])])] @ extra)"

text \<open>The errors the code turns into a value are on the left of the result.\<close>

definition asValue :: "('s, string, 'a) op \<Rightarrow> ('s, string, string + 'a) op" where
  "asValue m = catching (andThen m (\<lambda>a. ret (Inr a))) (\<lambda>e. ret (Inl e))"

definition offerCredential ::
  "'s didcommAgent \<Rightarrow> string \<Rightarrow> credentialParams \<Rightarrow> string option \<Rightarrow> ('s, string, string + offered) op" where
  "offerCredential A connectionId params issuer =
     (if \<not> dg_ready A then ret (Inl ''Agent not ready'')
      else andThen (dg_findConnection A connectionId) (\<lambda>conn.
        case conn of
          None \<Rightarrow> ret (Inl (''Connection '' @ connectionId @ '' not found''))
        | Some c \<Rightarrow>
            andThen (if truthyText issuer then ret (coalesce issuer [])
              else andThen (dg_createdDids A ''web'') (\<lambda>dids.
                   ret (case dids of [] \<Rightarrow> [] | d # _ \<Rightarrow> d))) (\<lambda>issuerDid.
            andThen (dg_uuid A) (\<lambda>uuid.
            andThen (dg_now A) (\<lambda>now.
            let holderDid = coalesce (dc_theirDid c) (case dc_previousTheirDids c of [] \<Rightarrow> [] | d # _ \<Rightarrow> d);
                credentialId = ''urn:uuid:'' @ uuid;
                credential = buildOfferCredentialPayload params credentialId issuerDid holderDid now
            in asValue (andThen (dg_offerCredential A
                 (exchangeRequest connectionId credential (cp_proofType params) [])) (\<lambda>(i, state).
               ret \<lparr>of_credentialExchangeId = i, of_state = state, of_credentialId = credentialId\<rparr>)))))))"

definition proposeCredential ::
  "'s didcommAgent \<Rightarrow> string \<Rightarrow> credentialParams \<Rightarrow> ('s, string, string + string \<times> string) op" where
  "proposeCredential A connectionId params =
     (if \<not> dg_ready A then ret (Inl ''Agent not ready'')
      else andThen (dg_findConnection A connectionId) (\<lambda>conn.
        case conn of
          None \<Rightarrow> ret (Inl (''Connection '' @ connectionId @ '' not found''))
        | Some c \<Rightarrow>
            andThen (dg_createdDids A ''key'') (\<lambda>dids.
            andThen (dg_now A) (\<lambda>now.
            let credential = buildProposalCredentialPayload params (case dids of [] \<Rightarrow> [] | d # _ \<Rightarrow> d) now
            in asValue (dg_proposeCredential A (exchangeRequest connectionId credential (cp_proofType params)
                 [(''comment'', JStr ''Requesting credential'')]))))))"

record requestedProof =
  rp_proofExchangeRecordId :: string
  rp_state :: string
  rp_mode :: string
  rp_error :: "string option"

definition proofFailure :: "string \<Rightarrow> requestedProof" where
  "proofFailure message =
     \<lparr>rp_proofExchangeRecordId = [], rp_state = ''error'', rp_mode = ''error'', rp_error = Some message\<rparr>"

definition requestProof ::
  "'s didcommAgent \<Rightarrow> string \<Rightarrow> json \<Rightarrow> string option \<Rightarrow> string option \<Rightarrow> ('s, string, requestedProof) op" where
  "requestProof A connectionId presentationDefinition challenge domain =
     (if \<not> dg_ready A then ret (proofFailure ''Agent or proofs module not ready'')
      else catching
        (andThen (case challenge of Some c \<Rightarrow> ret c
            | None \<Rightarrow> andThen (dg_now A) (\<lambda>now. ret (''challenge-'' @ intStr now))) (\<lambda>challenge.
         andThen (dg_requestProof A
           (JObj [(''connectionId'', JStr connectionId), (''protocolVersion'', JStr ''v2''),
             (''proofFormats'', JObj [(''presentationExchange'', JObj
               [(''presentationDefinition'', presentationDefinition),
                (''options'', JObj ((''challenge'', JStr challenge) # textEntry ''domain'' domain))])])])) (\<lambda>(i, state).
         ret \<lparr>rp_proofExchangeRecordId = i, rp_state = state, rp_mode = ''presentationDefinition'', rp_error = None\<rparr>)))
        (\<lambda>e. ret (proofFailure e)))"

record proofDetails =
  pd_record :: proofRecord
  pd_createdAt :: string
  pd_request :: "json option"
  pd_presentation :: "json option"

definition getDidCommProofDetails :: "'s didcommAgent \<Rightarrow> string \<Rightarrow> ('s, string, proofDetails option) op" where
  "getDidCommProofDetails A proofExchangeRecordId =
     (if \<not> dg_ready A then ret None
      else andThen (dg_findProof A proofExchangeRecordId) (\<lambda>found.
        case found of
          None \<Rightarrow> ret None
        | Some r \<Rightarrow>
            andThen (dg_getFormatData A proofExchangeRecordId) (\<lambda>d.
            ret (Some \<lparr>pd_record = r, pd_createdAt = toISOString (px_createdAt r),
              pd_request = fd_request d, pd_presentation = fd_presentation d\<rparr>))))"

text \<open>
  What the DIDComm calls make of an invitation address and of the credential they offer.
\<close>

lemma includes_longer: "includesStr s (c # p) \<Longrightarrow> includesStr s p"
proof -
  assume "includesStr s (c # p)"
  then obtain i where i: "i < Suc (length s)" "startsWith (drop i s) (c # p)"
    unfolding includesStr_def by (metis atLeastLessThan_iff set_upt)
  then obtain t where t: "drop i s = c # p @ t" by (auto simp: startsWith_iff)
  then have "drop (Suc i) s = p @ t" by (metis drop_Suc list.sel(3) tl_drop)
  moreover have "Suc i \<le> length s" using t i(1)
    by (metis Suc_leI drop_all less_Suc_eq list.distinct(1) not_less)
  ultimately show ?thesis unfolding includesStr_def by (intro bexI [of _ "Suc i"]) auto
qed

text \<open>
  The normalisation of an invitation address never changes it: it is to rename a parameter
  \<open>_oob\<close> to \<open>oob\<close> when the address has the first and not the second, but an address that
  contains \<open>_oob=\<close> contains \<open>oob=\<close>.
\<close>

theorem invitation_never_normalized: "normalizeInvitationUrl url = url"
  by (simp add: normalizeInvitationUrl_def) (blast dest: includes_longer)

section \<open>The credential that is offered\<close>

text \<open>The fields of the subject are those of the input, and its identifier the holder's if it has none.\<close>

lemma offered_subject:
  assumes "cd_subject (cp_credential params) = Some (JObj kvs)"
  shows "jsonField k (coalesce (jsonField ''credentialSubject''
      (buildOfferCredentialPayload params credentialId issuerDid holderDid now)) JNull) =
    (if k = ''id'' then Some (subjectId (cp_credential params) holderDid) else jsonField k (JObj kvs))"
  using field_objectOf [of k "kvs @ [(''id'', subjectId (cp_credential params) holderDid)]"]
  by (simp add: buildOfferCredentialPayload_def subjectEntries_def assms)

lemma offered_issuer:
  "jsonField ''issuer'' (buildOfferCredentialPayload params credentialId issuerDid holderDid now) =
    Some (JStr issuerDid)"
  by (simp add: buildOfferCredentialPayload_def)

lemma bbs_context:
  assumes "isBbsProofType proofType"
  shows "\<exists>vs. ensureBbsCredentialContext context proofType = JArr vs \<and> JStr BBS_SECURITY_CONTEXT \<in> set vs"
  using assms by (auto simp: ensureBbsCredentialContext_def Let_def)

end
