(* ===== verification/PendingStores.thy ===== *)
theory PendingStores
  imports JsValues "HOL-Library.AList"
begin

text \<open>
  The in-memory stores of DIDComm exchanges that wait for a connection: the offers of the issuer
  (\<^verbatim>\<open>identity-issuer-service/source/src/didcomm/pending-didcomm-offer.store.ts\<close>) and the
  proof requests of the verifier (\<^verbatim>\<open>pending-didcomm-proof.store.ts\<close>). A \<open>Map\<close> that is
  iterated is an association list in insertion order. An operation that reads the clock twice
  takes both readings; a new identifier is an argument of \<open>add\<close>.
\<close>

section \<open>Offers of the issuer\<close>

record pendingOffer =
  po_pendingOfferId :: string
  po_walletId :: string
  po_outOfBandId :: string
  po_credential :: json
  po_proofType :: "string option"
  po_issuerDid :: "string option"
  po_invitationMessage :: json
  po_consumed :: bool
  po_expiresAt :: millis
  po_createdAt :: millis

record offerStore =
  os_byPendingId :: "(string \<times> pendingOffer) list"
  os_byOutOfBandId :: "string \<rightharpoonup> string"

definition emptyOffers :: offerStore where
  "emptyOffers = \<lparr>os_byPendingId = [], os_byOutOfBandId = Map.empty\<rparr>"

definition purgeOffer :: "millis \<Rightarrow> string \<times> pendingOffer \<Rightarrow> offerStore \<Rightarrow> offerStore" where
  "purgeOffer now e st =
     (case e of (i, pending) \<Rightarrow>
        if now < po_expiresAt pending then st
        else st\<lparr>os_byOutOfBandId := (os_byOutOfBandId st)(po_outOfBandId pending := None),
                os_byPendingId := AList.delete i (os_byPendingId st)\<rparr>)"

definition purgeOffers :: "millis \<Rightarrow> offerStore \<Rightarrow> offerStore" where
  "purgeOffers now st = fold (purgeOffer now) (os_byPendingId st) st"

record newOffer =
  no_walletId :: string
  no_outOfBandId :: string
  no_credential :: json
  no_invitationMessage :: json
  no_proofType :: "string option"
  no_issuerDid :: "string option"
  no_expiresInSeconds :: int

definition offerOf :: "newOffer \<Rightarrow> string \<Rightarrow> millis \<Rightarrow> pendingOffer" where
  "offerOf input uuid now =
     \<lparr>po_pendingOfferId = uuid, po_walletId = no_walletId input, po_outOfBandId = no_outOfBandId input,
      po_credential = no_credential input, po_proofType = no_proofType input,
      po_issuerDid = no_issuerDid input, po_invitationMessage = no_invitationMessage input,
      po_consumed = False, po_expiresAt = now + no_expiresInSeconds input * 1000, po_createdAt = now\<rparr>"

definition addOffer ::
  "string \<Rightarrow> millis \<Rightarrow> millis \<Rightarrow> newOffer \<Rightarrow> offerStore \<Rightarrow> pendingOffer \<times> offerStore" where
  "addOffer uuid t now input st =
     (let st = purgeOffers t st; pending = offerOf input uuid now
      in (pending,
          st\<lparr>os_byPendingId := AList.update uuid pending (os_byPendingId st),
             os_byOutOfBandId := (os_byOutOfBandId st)(no_outOfBandId input \<mapsto> uuid)\<rparr>))"

definition findOfferMessage :: "millis \<Rightarrow> millis \<Rightarrow> string \<Rightarrow> offerStore \<Rightarrow> json option \<times> offerStore" where
  "findOfferMessage t now pendingOfferId st =
     (let st = purgeOffers t st in
      (case map_of (os_byPendingId st) pendingOfferId of
         None \<Rightarrow> None
       | Some pending \<Rightarrow>
           if po_expiresAt pending \<le> now then None else Some (po_invitationMessage pending),
       st))"

text \<open>The pending that is taken is the object of the map, marked as consumed there.\<close>

definition takeOffer :: "millis \<Rightarrow> millis \<Rightarrow> string \<Rightarrow> offerStore \<Rightarrow> pendingOffer option \<times> offerStore" where
  "takeOffer t now outOfBandId st =
     (let st = purgeOffers t st in
      case os_byOutOfBandId st outOfBandId of
        None \<Rightarrow> (None, st)
      | Some i \<Rightarrow>
          if i = [] then (None, st)
          else
            (let found = map_of (os_byPendingId st) i;
                 st = st\<lparr>os_byOutOfBandId := (os_byOutOfBandId st)(outOfBandId := None)\<rparr>
             in case found of
                  None \<Rightarrow> (None, st)
                | Some pending \<Rightarrow>
                    if po_consumed pending \<or> po_expiresAt pending \<le> now then (None, st)
                    else
                      (let taken = pending\<lparr>po_consumed := True\<rparr>
                       in (Some taken,
                           st\<lparr>os_byPendingId := AList.update i taken (os_byPendingId st)\<rparr>))))"

section \<open>Proof requests of the verifier\<close>

datatype proofStatus = ProofPending | ProofRequestSent | ProofError

record pendingProof =
  pp_pendingRequestId :: string
  pp_walletId :: string
  pp_outOfBandId :: string
  pp_presentationDefinition :: json
  pp_challenge :: "string option"
  pp_domain :: "string option"
  pp_invitationMessage :: json
  pp_status :: proofStatus
  pp_proofExchangeRecordId :: "string option"
  pp_errorMessage :: "string option"
  pp_expiresAt :: millis
  pp_createdAt :: millis
  pp_updatedAt :: millis

record proofStore =
  ps_byPendingId :: "(string \<times> pendingProof) list"
  ps_byOutOfBandId :: "string \<rightharpoonup> string"

definition emptyProofs :: proofStore where
  "emptyProofs = \<lparr>ps_byPendingId = [], ps_byOutOfBandId = Map.empty\<rparr>"

definition EXPIRED :: string where
  "EXPIRED = ''Pending request expirado''"

definition failedProof :: "millis \<Rightarrow> string \<Rightarrow> pendingProof \<Rightarrow> pendingProof" where
  "failedProof now message p =
     p\<lparr>pp_status := ProofError, pp_errorMessage := Some message, pp_updatedAt := now\<rparr>"

definition hasExchange :: "pendingProof \<Rightarrow> bool" where
  "hasExchange p \<longleftrightarrow> (case pp_proofExchangeRecordId p of None \<Rightarrow> False | Some i \<Rightarrow> i \<noteq> [])"

text \<open>The loop visits the objects of the map, which it changes in place.\<close>

definition purgeProof :: "millis \<Rightarrow> string \<Rightarrow> proofStore \<Rightarrow> proofStore" where
  "purgeProof now i st =
     (case map_of (ps_byPendingId st) i of
        None \<Rightarrow> st
      | Some pending \<Rightarrow>
          if now < pp_expiresAt pending \<or> hasExchange pending then st
          else
            (let pending' = (if pp_status pending = ProofPending then failedProof now EXPIRED pending else pending)
             in st\<lparr>ps_byOutOfBandId := (ps_byOutOfBandId st)(pp_outOfBandId pending := None),
                   ps_byPendingId :=
                     (if pp_status pending' = ProofError \<and> pp_expiresAt pending + 300000 \<le> now
                      then AList.delete i (ps_byPendingId st)
                      else AList.update i pending' (ps_byPendingId st))\<rparr>))"

definition purgeProofs :: "millis \<Rightarrow> proofStore \<Rightarrow> proofStore" where
  "purgeProofs now st = fold (purgeProof now) (map fst (ps_byPendingId st)) st"

record newProof =
  np_walletId :: string
  np_outOfBandId :: string
  np_presentationDefinition :: json
  np_invitationMessage :: json
  np_challenge :: "string option"
  np_domain :: "string option"
  np_expiresInSeconds :: int

definition proofOf :: "newProof \<Rightarrow> string \<Rightarrow> millis \<Rightarrow> pendingProof" where
  "proofOf input uuid now =
     \<lparr>pp_pendingRequestId = uuid, pp_walletId = np_walletId input, pp_outOfBandId = np_outOfBandId input,
      pp_presentationDefinition = np_presentationDefinition input, pp_challenge = np_challenge input,
      pp_domain = np_domain input, pp_invitationMessage = np_invitationMessage input,
      pp_status = ProofPending, pp_proofExchangeRecordId = None, pp_errorMessage = None,
      pp_expiresAt = now + np_expiresInSeconds input * 1000, pp_createdAt = now, pp_updatedAt = now\<rparr>"

definition addProof ::
  "string \<Rightarrow> millis \<Rightarrow> millis \<Rightarrow> newProof \<Rightarrow> proofStore \<Rightarrow> pendingProof \<times> proofStore" where
  "addProof uuid t now input st =
     (let st = purgeProofs t st; pending = proofOf input uuid now
      in (pending,
          st\<lparr>ps_byPendingId := AList.update uuid pending (ps_byPendingId st),
             ps_byOutOfBandId := (ps_byOutOfBandId st)(np_outOfBandId input \<mapsto> uuid)\<rparr>))"

definition findByPendingRequestId :: "millis \<Rightarrow> string \<Rightarrow> proofStore \<Rightarrow> pendingProof option \<times> proofStore" where
  "findByPendingRequestId t pendingRequestId st =
     (let st = purgeProofs t st in (map_of (ps_byPendingId st) pendingRequestId, st))"

definition findProofMessage :: "millis \<Rightarrow> millis \<Rightarrow> string \<Rightarrow> proofStore \<Rightarrow> json option \<times> proofStore" where
  "findProofMessage t now pendingRequestId st =
     (let st = purgeProofs t st in
      (case map_of (ps_byPendingId st) pendingRequestId of
         None \<Rightarrow> None
       | Some pending \<Rightarrow>
           if pp_expiresAt pending \<le> now then None else Some (pp_invitationMessage pending),
       st))"

text \<open>A change of the object under an identifier, if there is one.\<close>

definition changeProof :: "string \<Rightarrow> (pendingProof \<Rightarrow> pendingProof) \<Rightarrow> proofStore \<Rightarrow> proofStore" where
  "changeProof i f st =
     (case map_of (ps_byPendingId st) i of
        None \<Rightarrow> st
      | Some p \<Rightarrow> st\<lparr>ps_byPendingId := AList.update i (f p) (ps_byPendingId st)\<rparr>)"

definition markError :: "millis \<Rightarrow> string \<Rightarrow> string \<Rightarrow> proofStore \<Rightarrow> proofStore" where
  "markError now pendingRequestId errorMessage = changeProof pendingRequestId (failedProof now errorMessage)"

definition attachProofExchange :: "millis \<Rightarrow> string \<Rightarrow> string \<Rightarrow> proofStore \<Rightarrow> proofStore" where
  "attachProofExchange now pendingRequestId proofExchangeRecordId =
     changeProof pendingRequestId
       (\<lambda>p. p\<lparr>pp_status := ProofRequestSent, pp_proofExchangeRecordId := Some proofExchangeRecordId,
             pp_updatedAt := now\<rparr>)"

definition takeProof :: "millis \<Rightarrow> millis \<Rightarrow> string \<Rightarrow> proofStore \<Rightarrow> pendingProof option \<times> proofStore" where
  "takeProof t now outOfBandId st =
     (let st = purgeProofs t st in
      case ps_byOutOfBandId st outOfBandId of
        None \<Rightarrow> (None, st)
      | Some i \<Rightarrow>
          if i = [] then (None, st)
          else
            (let found = map_of (ps_byPendingId st) i;
                 st = st\<lparr>ps_byOutOfBandId := (ps_byOutOfBandId st)(outOfBandId := None)\<rparr>
             in case found of
                  None \<Rightarrow> (None, st)
                | Some pending \<Rightarrow>
                    if pp_status pending \<noteq> ProofPending then (None, st)
                    else if pp_expiresAt pending \<le> now then (None, markError now (pp_pendingRequestId pending) EXPIRED st)
                    else (Some pending, st)))"

end
