(* ===== verification/PendingContract.thy ===== *)
theory PendingContract
  imports JsValues
begin

text \<open>
  What the DIDComm services rely on in a store of pending exchanges: a pending exchange is armed
  under the out-of-band identifier of its invitation, a ready connection fires and disarms it, and
  nothing else arms one again. Under this contract an exchange fires at most once, in time.
\<close>

section \<open>Stores with two indices\<close>

text \<open>
  Both stores keep their exchanges by identifier and, of those still to be fired, the identifier by
  invitation. An exchange is armed when both lead to it and it is still waiting.
\<close>

type_synonym 'p indices = "(string \<rightharpoonup> 'p) \<times> (string \<rightharpoonup> string)"

definition keyedInv :: "('p \<Rightarrow> string) \<Rightarrow> ('p \<Rightarrow> string) \<Rightarrow> 'p indices \<Rightarrow> bool" where
  "keyedInv key oob st \<longleftrightarrow>
     (\<forall>i p. fst st i = Some p \<longrightarrow> key p = i) \<and>
     (\<forall>out i p. snd st out = Some i \<longrightarrow> fst st i = Some p \<longrightarrow> oob p = out)"

definition keyedArmed :: "('p \<Rightarrow> bool) \<Rightarrow> 'p indices \<Rightarrow> string \<rightharpoonup> 'p" where
  "keyedArmed waiting st out =
     (case snd st out of
        None \<Rightarrow> None
      | Some i \<Rightarrow> if i = [] then None
                  else (case fst st i of None \<Rightarrow> None | Some p \<Rightarrow> if waiting p then Some p else None))"

definition keyedKnown :: "'p indices \<Rightarrow> string set" where
  "keyedKnown st = dom (fst st) \<union> ran (snd st)"

text \<open>A step that creates nothing removes entries, or makes exchanges stop waiting.\<close>

definition keyedLess :: "('p \<Rightarrow> string) \<Rightarrow> ('p \<Rightarrow> string) \<Rightarrow> ('p \<Rightarrow> bool) \<Rightarrow> 'p indices \<Rightarrow> 'p indices \<Rightarrow> bool" where
  "keyedLess key oob waiting st' st \<longleftrightarrow>
     (\<forall>out i. snd st' out = Some i \<longrightarrow> snd st out = Some i) \<and>
     (\<forall>i p'. fst st' i = Some p' \<longrightarrow>
        (\<exists>p. fst st i = Some p \<and> key p' = key p \<and> oob p' = oob p \<and> (waiting p' \<longrightarrow> p' = p)))"

lemma keyedLessI:
  assumes "\<And>out i. snd st' out = Some i \<Longrightarrow> snd st out = Some i"
    and "\<And>i p'. fst st' i = Some p' \<Longrightarrow>
      \<exists>p. fst st i = Some p \<and> key p' = key p \<and> oob p' = oob p \<and> (waiting p' \<longrightarrow> p' = p)"
  shows "keyedLess key oob waiting st' st"
  using assms by (simp add: keyedLess_def)

lemma keyedLess_oob: "keyedLess key oob waiting st' st \<Longrightarrow> snd st' out = Some i \<Longrightarrow> snd st out = Some i"
  by (simp add: keyedLess_def)

lemma keyedLess_pend:
  assumes "keyedLess key oob waiting st' st" and "fst st' i = Some p'"
  obtains p where "fst st i = Some p" "key p' = key p" "oob p' = oob p" "waiting p' \<Longrightarrow> p' = p"
  using assms unfolding keyedLess_def by blast

lemma keyedInv_key: "keyedInv key oob st \<Longrightarrow> fst st i = Some p \<Longrightarrow> key p = i"
  by (simp add: keyedInv_def)

lemma keyedInv_oob: "keyedInv key oob st \<Longrightarrow> snd st out = Some i \<Longrightarrow> fst st i = Some p \<Longrightarrow> oob p = out"
  by (simp add: keyedInv_def)

lemma keyedLess_refl: "keyedLess key oob waiting st st"
  by (simp add: keyedLess_def)

lemma keyedLess_trans:
  assumes "keyedLess key oob waiting a b" and "keyedLess key oob waiting b c"
  shows "keyedLess key oob waiting a c"
proof (rule keyedLessI)
  fix out i
  assume "snd a out = Some i"
  then show "snd c out = Some i" by (rule keyedLess_oob [OF assms(2) keyedLess_oob [OF assms(1)]])
next
  fix i p'
  assume "fst a i = Some p'"
  then obtain p where p: "fst b i = Some p" "key p' = key p" "oob p' = oob p" "waiting p' \<Longrightarrow> p' = p"
    by (rule keyedLess_pend [OF assms(1)]) blast
  from p(1) obtain q where "fst c i = Some q" "key p = key q" "oob p = oob q" "waiting p \<Longrightarrow> p = q"
    by (rule keyedLess_pend [OF assms(2)]) blast
  with p show "\<exists>p. fst c i = Some p \<and> key p' = key p \<and> oob p' = oob p \<and> (waiting p' \<longrightarrow> p' = p)"
    by (intro exI [of _ q]) auto
qed

lemma keyedLess_fold:
  assumes "\<And>e st. keyedLess key oob waiting (view (f e st)) (view st)"
  shows "keyedLess key oob waiting (view (fold f es st)) (view st)"
proof (induction es arbitrary: st)
  case (Cons e es)
  from keyedLess_trans [OF Cons.IH assms] show ?case by simp
qed (simp add: keyedLess_refl)

lemma keyedLess_inv:
  assumes "keyedLess key oob waiting st' st" and "keyedInv key oob st"
  shows "keyedInv key oob st'"
  unfolding keyedInv_def
proof (intro conjI allI impI)
  fix i p'
  assume "fst st' i = Some p'"
  then show "key p' = i" by (rule keyedLess_pend [OF assms(1)]) (simp add: keyedInv_key [OF assms(2)])
next
  fix out i p'
  assume "snd st' out = Some i" and "fst st' i = Some p'"
  from keyedLess_oob [OF assms(1) this(1)] this(2) show "oob p' = out"
    by (elim keyedLess_pend [OF assms(1)]) (simp add: keyedInv_oob [OF assms(2)])
qed

lemma keyedLess_known:
  assumes "keyedLess key oob waiting st' st"
  shows "keyedKnown st' \<subseteq> keyedKnown st"
proof -
  have "fst st i \<noteq> None" if "fst st' i = Some p'" for i p'
    using that by (rule keyedLess_pend [OF assms]) simp
  then show ?thesis using keyedLess_oob [OF assms] unfolding keyedKnown_def ran_def dom_def by blast
qed

lemma keyedArmed_iff:
  "keyedArmed waiting st out = Some q \<longleftrightarrow>
    (\<exists>i. snd st out = Some i \<and> i \<noteq> [] \<and> fst st i = Some q \<and> waiting q)"
  by (auto simp: keyedArmed_def split: option.splits if_splits)

lemma keyedLess_armed:
  assumes "keyedLess key oob waiting st' st" and "keyedArmed waiting st' out = Some q"
  shows "keyedArmed waiting st out = Some q"
proof -
  from assms(2) obtain i where i: "snd st' out = Some i" "i \<noteq> []" "fst st' i = Some q" "waiting q"
    unfolding keyedArmed_iff by blast
  from i(3) have "fst st i = Some q" by (rule keyedLess_pend [OF assms(1)]) (use i(4) in simp)
  with i keyedLess_oob [OF assms(1) i(1)] show ?thesis unfolding keyedArmed_iff by blast
qed

lemma keyedArmed_fst:
  assumes "keyedInv key oob st" and "keyedArmed waiting st out = Some q"
  shows "fst st (key q) = Some q" and "oob q = out"
proof -
  from assms(2) obtain i where i: "snd st out = Some i" "fst st i = Some q"
    unfolding keyedArmed_iff by blast
  with keyedInv_key [OF assms(1) i(2)] keyedInv_oob [OF assms(1) i]
  show "fst st (key q) = Some q" "oob q = out" by simp_all
qed

lemma keyedArmed_known:
  assumes "keyedInv key oob st" and "keyedArmed waiting st out = Some q"
  shows "key q \<in> keyedKnown st"
proof -
  from keyedArmed_fst(1) [OF assms] have "key q \<in> dom (fst st)" by (rule domI)
  then show ?thesis unfolding keyedKnown_def by (rule UnI1)
qed

lemma keyedArmed_key:
  assumes "keyedInv key oob st" and "keyedArmed waiting st out = Some q"
    and "keyedArmed waiting st out' = Some q'" and "key q = key q'"
  shows "out = out'"
proof -
  have "Some q = fst st (key q')"
    using keyedArmed_fst(1) [OF assms(1,2)] by (simp only: assms(4))
  then have "Some q = Some q'" by (rule trans [OF _ keyedArmed_fst(1) [OF assms(1,3)]])
  then have "oob q = oob q'" by (simp only: option.inject)
  then show ?thesis by (simp only: keyedArmed_fst(2) [OF assms(1,2)] keyedArmed_fst(2) [OF assms(1,3)])
qed

text \<open>A new exchange under an identifier the store does not know.\<close>

lemma keyed_added:
  assumes "keyedInv key oob (pend, ob)" and "u \<notin> keyedKnown (pend, ob)" and "key p = u"
  shows "keyedInv key oob (pend(u \<mapsto> p), ob(oob p \<mapsto> u))"
    and "keyedKnown (pend(u \<mapsto> p), ob(oob p \<mapsto> u)) \<subseteq> insert u (keyedKnown (pend, ob))"
    and "keyedArmed waiting (pend(u \<mapsto> p), ob(oob p \<mapsto> u)) out = Some q \<Longrightarrow>
      q = p \<or> keyedArmed waiting (pend, ob) out = Some q"
proof -
  have u: "pend u = None" "\<And>out. ob out \<noteq> Some u"
    using assms(2) by (auto simp: keyedKnown_def ran_def)
  show "keyedInv key oob (pend(u \<mapsto> p), ob(oob p \<mapsto> u))"
    using assms(1,3) u by (auto simp: keyedInv_def)
  show "keyedKnown (pend(u \<mapsto> p), ob(oob p \<mapsto> u)) \<subseteq> insert u (keyedKnown (pend, ob))"
    by (auto simp: keyedKnown_def ran_def split: if_splits)
  show "keyedArmed waiting (pend(u \<mapsto> p), ob(oob p \<mapsto> u)) out = Some q \<Longrightarrow>
      q = p \<or> keyedArmed waiting (pend, ob) out = Some q"
    using u by (auto simp: keyedArmed_iff split: if_splits)
qed

lemma keyed_created:
  assumes less: "keyedLess key oob waiting w v" and inv: "keyedInv key oob v" and u: "u \<notin> keyedKnown v"
    and p: "key p = u"
  defines "v' \<equiv> ((fst w)(u \<mapsto> p), (snd w)(oob p \<mapsto> u))"
  shows "keyedInv key oob v' \<and> keyedKnown v' \<subseteq> insert u (keyedKnown v) \<and>
    (\<forall>out q. keyedArmed waiting v' out = Some q \<longrightarrow> q = p \<or> keyedArmed waiting v out = Some q)"
proof -
  have inv': "keyedInv key oob (fst w, snd w)" using keyedLess_inv [OF less inv] by simp
  have u': "u \<notin> keyedKnown (fst w, snd w)" using keyedLess_known [OF less] u by auto
  have "keyedArmed waiting v out = Some q"
    if "keyedArmed waiting v' out = Some q" and "q \<noteq> p" for out q
    using keyed_added(3) [OF inv' u' p, folded v'_def, OF that(1)] that(2) keyedLess_armed [OF less] by simp
  moreover have "keyedKnown v' \<subseteq> insert u (keyedKnown w)"
    using keyed_added(2) [OF inv' u' p] by (simp add: v'_def)
  with keyedLess_known [OF less] have "keyedKnown v' \<subseteq> insert u (keyedKnown v)" by blast
  moreover have "keyedInv key oob v'" unfolding v'_def by (rule keyed_added(1) [OF inv' u' p])
  ultimately show ?thesis by blast
qed

section \<open>The contract\<close>

text \<open>
  The runs of a store: exchanges created under fresh identifiers, connections that become ready,
  and steps that start no exchange. They keep the exchanges as they were created and, latest
  first, what was fired, for which invitation and when.
\<close>

inductive storeRuns ::
  "(string \<Rightarrow> millis \<Rightarrow> millis \<Rightarrow> 'i \<Rightarrow> 's \<Rightarrow> 'p \<times> 's) \<Rightarrow>
   (millis \<Rightarrow> millis \<Rightarrow> string \<Rightarrow> 's \<Rightarrow> 'c option \<times> 's) \<Rightarrow> ('s \<Rightarrow> 's \<Rightarrow> bool) \<Rightarrow> 's \<Rightarrow>
   's \<Rightarrow> (string \<rightharpoonup> 'p) \<Rightarrow> ('c \<times> string \<times> millis) list \<Rightarrow> bool"
  for add ready quiet init
where
  start: "storeRuns add ready quiet init init Map.empty []"
| created: "storeRuns add ready quiet init s I T \<Longrightarrow> I u = None \<Longrightarrow> add u t now input s = (p, s') \<Longrightarrow>
    storeRuns add ready quiet init s' (I(u \<mapsto> p)) T"
| readied: "storeRuns add ready quiet init s I T \<Longrightarrow> ready t now out s = (r, s') \<Longrightarrow>
    storeRuns add ready quiet init s' I (case r of None \<Rightarrow> T | Some c \<Rightarrow> (c, out, now) # T)"
| quieted: "storeRuns add ready quiet init s I T \<Longrightarrow> quiet s s' \<Longrightarrow> storeRuns add ready quiet init s' I T"

text \<open>The shortest run that fires something.\<close>

lemma runs_once:
  assumes "add u t now input init = (p, s)" and "ready t' now' out s = (Some c, s')"
  shows "storeRuns add ready quiet init s' [u \<mapsto> p] [(c, out, now')]"
proof -
  have "storeRuns add ready quiet init s [u \<mapsto> p] []"
    by (rule storeRuns.created [where s = init and u = u and t = t and now = now and input = input])
      (simp_all add: storeRuns.start assms(1))
  from storeRuns.readied [OF this assms(2)] show ?thesis by simp
qed

locale pending_store =
  fixes add :: "string \<Rightarrow> millis \<Rightarrow> millis \<Rightarrow> 'i \<Rightarrow> 's \<Rightarrow> 'p \<times> 's"
    and ready :: "millis \<Rightarrow> millis \<Rightarrow> string \<Rightarrow> 's \<Rightarrow> 'c option \<times> 's"
    and quiet :: "'s \<Rightarrow> 's \<Rightarrow> bool"
    and init :: 's
    and inv :: "'s \<Rightarrow> bool"
    and armed :: "'s \<Rightarrow> string \<rightharpoonup> 'p"
    and known :: "'s \<Rightarrow> string set"
    and key :: "'p \<Rightarrow> string"
    and due :: "'p \<Rightarrow> millis"
    and oob :: "'p \<Rightarrow> string"
    and callOf :: "'p \<Rightarrow> 'c"
    and idOf :: "'c \<Rightarrow> string"
  assumes init_ok: "inv init \<and> known init = {} \<and> armed init = Map.empty"
    and armed_known: "inv s \<Longrightarrow> armed s out = Some q \<Longrightarrow> key q \<in> known s"
    and armed_oob: "inv s \<Longrightarrow> armed s out = Some q \<Longrightarrow> oob q = out"
    and armed_key: "inv s \<Longrightarrow> armed s out = Some q \<Longrightarrow> armed s out' = Some q' \<Longrightarrow> key q = key q' \<Longrightarrow> out = out'"
    and added: "inv s \<Longrightarrow> u \<notin> known s \<Longrightarrow> add u t now input s = (p, s') \<Longrightarrow>
      inv s' \<and> known s' \<subseteq> insert u (known s) \<and> key p = u \<and>
      (\<forall>out q. armed s' out = Some q \<longrightarrow> q = p \<or> armed s out = Some q)"
    and fires: "inv s \<Longrightarrow> ready t now out s = (r, s') \<Longrightarrow>
      inv s' \<and> known s' \<subseteq> known s \<and>
      (\<forall>out' q. armed s' out' = Some q \<longrightarrow> out' \<noteq> out \<and> armed s out' = Some q) \<and>
      (\<forall>c. r = Some c \<longrightarrow> (\<exists>q. armed s out = Some q \<and> c = callOf q \<and> now < due q))"
    and stays: "inv s \<Longrightarrow> quiet s s' \<Longrightarrow>
      inv s' \<and> known s' \<subseteq> known s \<and> (\<forall>out q. armed s' out = Some q \<longrightarrow> armed s out = Some q)"
    and idOf_callOf: "idOf (callOf q) = key q"
begin

definition fired :: "('c \<times> string \<times> millis) list \<Rightarrow> string list" where
  "fired T = map (idOf \<circ> fst) T"

definition history :: "(string \<rightharpoonup> 'p) \<Rightarrow> ('c \<times> string \<times> millis) list \<Rightarrow> bool" where
  "history I T \<longleftrightarrow>
     (\<forall>u p. I u = Some p \<longrightarrow> key p = u) \<and> distinct (fired T) \<and> set (fired T) \<subseteq> dom I \<and>
     (\<forall>(c, out, now) \<in> set T. \<exists>q. I (idOf c) = Some q \<and> c = callOf q \<and> oob q = out \<and> now < due q)"

definition recorded :: "'s \<Rightarrow> (string \<rightharpoonup> 'p) \<Rightarrow> ('c \<times> string \<times> millis) list \<Rightarrow> bool" where
  "recorded s I T \<longleftrightarrow>
     known s \<subseteq> dom I \<and> (\<forall>out q. armed s out = Some q \<longrightarrow> I (key q) = Some q \<and> key q \<notin> set (fired T))"

definition sound :: "'s \<Rightarrow> (string \<rightharpoonup> 'p) \<Rightarrow> ('c \<times> string \<times> millis) list \<Rightarrow> bool" where
  "sound s I T \<longleftrightarrow> inv s \<and> recorded s I T \<and> history I T"

lemma recordedD: "recorded s I T \<Longrightarrow> armed s out = Some q \<Longrightarrow> I (key q) = Some q \<and> key q \<notin> set (fired T)"
  by (simp add: recorded_def)

lemma recorded_less:
  assumes "recorded s I T" and "known s' \<subseteq> known s"
    and "\<And>out q. armed s' out = Some q \<Longrightarrow> \<exists>out'. armed s out' = Some q"
  shows "recorded s' I T"
  using assms unfolding recorded_def by blast

lemma historyD:
  "history I T \<Longrightarrow> (c, out, now) \<in> set T \<Longrightarrow>
    \<exists>q. I (idOf c) = Some q \<and> c = callOf q \<and> oob q = out \<and> now < due q"
  by (auto simp: history_def)

lemma history_created:
  assumes "history I T" and "I u = None" and "key p = u"
  shows "history (I(u \<mapsto> p)) T"
proof -
  have "\<exists>q. (I(u \<mapsto> p)) (idOf c) = Some q \<and> c = callOf q \<and> oob q = out \<and> now < due q"
    if "(c, out, now) \<in> set T" for c out now
  proof -
    from historyD [OF assms(1) that] obtain q where
      "I (idOf c) = Some q" "c = callOf q" "oob q = out" "now < due q" by blast
    then show ?thesis using assms(2) by (intro exI [of _ q]) auto
  qed
  then show ?thesis using assms unfolding history_def by (auto split: if_splits)
qed

lemma sound_created:
  assumes "sound s I T" and "I u = None" and "add u t now input s = (p, s')"
  shows "sound s' (I(u \<mapsto> p)) T"
proof -
  have inv: "inv s" and rec: "recorded s I T" and his: "history I T"
    using assms(1) by (simp_all add: sound_def)
  have "u \<notin> known s" using rec assms(2) by (auto simp: recorded_def)
  from added [OF inv this assms(3)] have
    a: "inv s'" "known s' \<subseteq> insert u (known s)" "key p = u"
      "\<And>out q. armed s' out = Some q \<Longrightarrow> q = p \<or> armed s out = Some q" by blast+
  have u: "u \<notin> set (fired T)" using his assms(2) by (auto simp: history_def)
  have "(I(u \<mapsto> p)) (key q) = Some q \<and> key q \<notin> set (fired T)" if "armed s' out = Some q" for out q
  proof (cases "q = p")
    case False
    with a(4) [OF that] have "armed s out = Some q" by simp
    from recordedD [OF rec this] show ?thesis using assms(2) by (auto simp: fun_upd_def)
  qed (simp add: a(3) u)
  moreover have "known s' \<subseteq> dom (I(u \<mapsto> p))" using a(2) rec by (auto simp: recorded_def)
  ultimately have "recorded s' (I(u \<mapsto> p)) T" by (simp add: recorded_def)
  then show ?thesis using a(1) history_created [OF his assms(2) a(3)] by (simp add: sound_def)
qed

lemma sound_fired:
  assumes "sound s I T" and "ready t now out s = (r, s')"
  shows "sound s' I (case r of None \<Rightarrow> T | Some c \<Rightarrow> (c, out, now) # T)"
proof -
  have inv: "inv s" and rec: "recorded s I T" and his: "history I T"
    using assms(1) by (simp_all add: sound_def)
  from fires [OF inv assms(2)] have
    f: "inv s'" "known s' \<subseteq> known s" "\<And>out' q. armed s' out' = Some q \<Longrightarrow> out' \<noteq> out \<and> armed s out' = Some q"
      "\<And>c. r = Some c \<Longrightarrow> \<exists>q. armed s out = Some q \<and> c = callOf q \<and> now < due q" by blast+
  have rec': "recorded s' I T" by (rule recorded_less [OF rec f(2)]) (use f(3) in blast)
  show ?thesis
  proof (cases r)
    case None
    with f(1) rec' his show ?thesis by (simp add: sound_def)
  next
    case (Some c)
    with f(4) obtain q where q: "armed s out = Some q" "c = callOf q" "now < due q" by blast
    note Iq = recordedD [OF rec q(1)]
    have c: "idOf c = key q" by (simp add: q(2) idOf_callOf)
    have "key q' \<noteq> key q" if "armed s' out' = Some q'" for out' q'
      using f(3) [OF that] armed_key [OF inv q(1), of out' q'] by auto
    with rec' have "recorded s' I ((c, out, now) # T)"
      by (auto simp: recorded_def fired_def c)
    moreover have "history I ((c, out, now) # T)"
    proof -
      have "I (idOf c) = Some q \<and> c = callOf q \<and> oob q = out \<and> now < due q"
        using Iq q(2,3) armed_oob [OF inv q(1)] by (simp add: idOf_callOf)
      moreover have "fired ((c, out, now) # T) = key q # fired T" by (simp add: fired_def c)
      ultimately show ?thesis using his Iq unfolding history_def by auto
    qed
    ultimately show ?thesis using f(1) by (simp add: sound_def Some)
  qed
qed

lemma runs_sound: "storeRuns add ready quiet init s I T \<Longrightarrow> sound s I T"
proof (induction rule: storeRuns.induct)
  case start
  then show ?case using init_ok by (simp add: sound_def recorded_def history_def fired_def)
next
  case (created s I T u t now input p s')
  then show ?case by (blast intro: sound_created)
next
  case (readied s I T t now out r s')
  then show ?case by (blast intro: sound_fired)
next
  case (quieted s I T s')
  then have inv: "inv s" and rec: "recorded s I T" and his: "history I T" by (simp_all add: sound_def)
  from stays [OF inv quieted.hyps(2)] have st: "inv s'" "known s' \<subseteq> known s"
    "\<And>out q. armed s' out = Some q \<Longrightarrow> armed s out = Some q" by blast+
  have "recorded s' I T" by (rule recorded_less [OF rec st(2)]) (use st(3) in blast)
  with st(1) his show ?case by (simp add: sound_def)
qed

lemma fires_once:
  assumes "storeRuns add ready quiet init s I T"
  shows "distinct (map (idOf \<circ> fst) T)"
    and "(c, out, now) \<in> set T \<Longrightarrow> \<exists>q. I (idOf c) = Some q \<and> c = callOf q \<and> oob q = out \<and> now < due q"
  using runs_sound [OF assms] by (auto simp: sound_def history_def fired_def dest: historyD)

end

end
