(* ===== verification/DidCommServices.thy ===== *)
theory DidCommServices
  imports DidCommCalls PendingStores PendingContract
begin

text \<open>
  The DIDComm services of issuer and verifier (\<^verbatim>\<open>didcomm/didcomm.service.ts\<close>,
  \<^verbatim>\<open>oob-short-url.controller.ts\<close>): an invitation with an exchange that waits for its
  connection, the connection that becomes ready, and the queries. A handler runs over the state of
  the agents and the store of the process; what it does up to its first \<open>await\<close> is one step.
\<close>

section \<open>Wallets of the process\<close>

datatype serviceFailure =
    NotInitialized
  | WalletNotFound string
  | AgentFailed string
  | InvitationNotFound string
  | RequestNotFound string
  | ProofNotFound string

definition atWallet ::
  "'g agentStore \<Rightarrow> string \<Rightarrow> ('g \<Rightarrow> ('s, string, 'a) op) \<Rightarrow> ('s, serviceFailure, 'a) op" where
  "atWallet A walletId callback =
     (case rootAgent A of
        None \<Rightarrow> throw NotInitialized
      | Some openTenant \<Rightarrow>
          (case tenantMap A walletId of
             None \<Rightarrow> throw (WalletNotFound walletId)
           | Some tenantId \<Rightarrow>
               if tenantId = [] then throw (WalletNotFound walletId)
               else (case openTenant tenantId of
                       Inl m \<Rightarrow> throw (AgentFailed m)
                     | Inr ag \<Rightarrow> (\<lambda>s. case callback ag s of
                         (Inl m, s') \<Rightarrow> (Inl (AgentFailed m), s') | (Inr a, s') \<Rightarrow> (Inr a, s')))))"

text \<open>Handlers over the agents alone, and steps over the store alone.\<close>

definition onAgents :: "('s, 'e, 'a) op \<Rightarrow> ('s \<times> 't, 'e, 'a) op" where
  "onAgents m = (\<lambda>(s, t). case m s of (r, s') \<Rightarrow> (r, (s', t)))"

definition onStore :: "('t \<Rightarrow> 'a \<times> 't) \<Rightarrow> ('s \<times> 't, 'e, 'a) op" where
  "onStore f = (\<lambda>(s, t). case f t of (a, t') \<Rightarrow> (Inr a, (s, t')))"

text \<open>The clock and the source of identifiers of the process; every reading is one of its own.\<close>

record 's processEnv =
  pe_now :: "('s, serviceFailure, millis) op"
  pe_uuid :: "('s, serviceFailure, string) op"

record connectionReady =
  cr_connectionId :: string
  cr_outOfBandId :: "string option"
  cr_reused :: bool

text \<open>
  The listeners of the root agent turn two events into a ready connection: a state change to
  \<open>completed\<close>, and the reuse of a connection for an invitation. What the callback throws is logged.
\<close>

definition connectionStateChanged ::
  "string option \<Rightarrow> string option \<Rightarrow> string option \<Rightarrow> connectionReady option" where
  "connectionStateChanged state i outOfBandId =
     (if state = Some ''completed'' \<and> truthyText i
      then Some \<lparr>cr_connectionId = coalesce i [], cr_outOfBandId = outOfBandId, cr_reused = False\<rparr>
      else None)"

definition handshakeReused :: "string option \<Rightarrow> string option \<Rightarrow> connectionReady option" where
  "handshakeReused connectionId outOfBandId =
     (if truthyText connectionId
      then Some \<lparr>cr_connectionId = coalesce connectionId [], cr_outOfBandId = outOfBandId, cr_reused = True\<rparr>
      else None)"

definition listened :: "(connectionReady \<Rightarrow> ('s, 'e, unit) op) \<Rightarrow> connectionReady option \<Rightarrow> ('s, 'e, unit) op" where
  "listened onConnectionReady ready =
     (case ready of None \<Rightarrow> ret () | Some payload \<Rightarrow> catching (onConnectionReady payload) (\<lambda>_. ret ()))"

text \<open>
  The tenant a record belongs to: the first whose agent finds it. A tenant that fails is passed
  over; without a module of tenants there is none.
\<close>

fun firstTenantWith :: "(string \<Rightarrow> ('s, string, bool) op) \<Rightarrow> string list \<Rightarrow> ('s, string, string option) op" where
  "firstTenantWith finds [] = ret None"
| "firstTenantWith finds (t # ts) =
     andThen (catching (finds t) (\<lambda>_. ret False)) (\<lambda>found.
     if found then ret (Some t) else firstTenantWith finds ts)"

definition findTenantIdForRecord ::
  "('s, string, string list) op \<Rightarrow> (string \<Rightarrow> ('s, string, bool) op) \<Rightarrow> ('s, string, string option) op" where
  "findTenantIdForRecord getAllTenants finds =
     catching (andThen getAllTenants (firstTenantWith finds)) (\<lambda>_. ret None)"

definition DEFAULT_EXPIRES_IN_SECONDS :: int where
  "DEFAULT_EXPIRES_IN_SECONDS = 1800"

definition shortInvitationUrl :: "string option \<Rightarrow> string \<Rightarrow> string" where
  "shortInvitationUrl domain i = dropTrailingSlash (coalesce domain []) @ ''/oob/'' @ i"

definition inviteWith :: "string option \<Rightarrow> string \<Rightarrow> string \<Rightarrow> 's didcommAgent \<Rightarrow> ('s, string, createdInvitation) op" where
  "inviteWith domain goalCode goal ag =
     createInvitation (dg_createInvitation ag)
       (Some \<lparr>io_domain = domain, io_goalCode = Some goalCode, io_goal = Some goal\<rparr>)"

record invited =
  iv_invitation :: string
  iv_pendingId :: string
  iv_expiresAt :: string

section \<open>The issuer\<close>

record didCommOfferDto =
  cf_credential :: json
  cf_proofType :: "string option"
  cf_issuerDid :: "string option"
  cf_expiresInSeconds :: "int option"

definition issueGoal :: string where
  "issueGoal = ''Emisi'' @ [CHR 0xF3] @ ''n de credencial''"

definition createDidCommOffer ::
  "'s processEnv \<Rightarrow> 's didcommAgent agentStore \<Rightarrow> string option \<Rightarrow> string \<Rightarrow> didCommOfferDto \<Rightarrow>
    ('s \<times> offerStore, serviceFailure, invited) op" where
  "createDidCommOffer P A domain walletId body =
     andThen (onAgents (atWallet A walletId (inviteWith domain ''issue-vc'' issueGoal))) (\<lambda>inv.
     andThen (onAgents (pe_now P)) (\<lambda>t.
     andThen (onAgents (pe_now P)) (\<lambda>now.
     andThen (onAgents (pe_uuid P)) (\<lambda>uuid.
     andThen (onStore (addOffer uuid t now
       \<lparr>no_walletId = walletId, no_outOfBandId = ci_outOfBandId inv, no_credential = cf_credential body,
        no_invitationMessage = ci_invitationMessage inv, no_proofType = cf_proofType body,
        no_issuerDid = cf_issuerDid body,
        no_expiresInSeconds = coalesce (cf_expiresInSeconds body) DEFAULT_EXPIRES_IN_SECONDS\<rparr>)) (\<lambda>pending.
     ret \<lparr>iv_invitation = shortInvitationUrl domain (po_pendingOfferId pending),
       iv_pendingId = po_pendingOfferId pending, iv_expiresAt = toISOString (po_expiresAt pending)\<rparr>)))))"

definition getOfferInvitation ::
  "'s processEnv \<Rightarrow> string \<Rightarrow> ('s \<times> offerStore, serviceFailure, json) op" where
  "getOfferInvitation P invitationId =
     andThen (onAgents (pe_now P)) (\<lambda>t.
     andThen (onAgents (pe_now P)) (\<lambda>now.
     andThen (onStore (findOfferMessage t now invitationId)) (\<lambda>found.
     orThrow found (InvitationNotFound invitationId))))"

text \<open>What a ready connection makes the issuer send: the offer of a pending.\<close>

record offerDuty =
  od_pendingOfferId :: string
  od_walletId :: string
  od_credential :: json
  od_proofType :: "string option"
  od_issuerDid :: "string option"

definition dutyOfOffer :: "pendingOffer \<Rightarrow> offerDuty" where
  "dutyOfOffer p =
     \<lparr>od_pendingOfferId = po_pendingOfferId p, od_walletId = po_walletId p, od_credential = po_credential p,
      od_proofType = po_proofType p, od_issuerDid = po_issuerDid p\<rparr>"

definition readyOffer :: "millis \<Rightarrow> millis \<Rightarrow> string \<Rightarrow> offerStore \<Rightarrow> offerDuty option \<times> offerStore" where
  "readyOffer t now outOfBandId st =
     (case takeOffer t now outOfBandId st of (r, st') \<Rightarrow> (map_option dutyOfOffer r, st'))"

definition credentialOf :: "json \<Rightarrow> credentialInput" where
  "credentialOf j =
     \<lparr>cd_context = jsonField ''@context'' j, cd_subject = jsonField ''credentialSubject'' j,
      cd_type = (case jsonField ''type'' j of
         Some (JArr ts) \<Rightarrow> Some (List.map_filter jsonStr ts) | _ \<Rightarrow> None)\<rparr>"

text \<open>The result is only logged.\<close>

definition offerOnConnectionReady ::
  "'s processEnv \<Rightarrow> 's didcommAgent agentStore \<Rightarrow> connectionReady \<Rightarrow>
    ('s \<times> offerStore, serviceFailure, unit) op" where
  "offerOnConnectionReady P A payload =
     (if \<not> truthyText (cr_outOfBandId payload) then ret ()
      else
        andThen (onAgents (pe_now P)) (\<lambda>t.
        andThen (onAgents (pe_now P)) (\<lambda>now.
        andThen (onStore (readyOffer t now (coalesce (cr_outOfBandId payload) []))) (\<lambda>duty.
        case duty of
          None \<Rightarrow> ret ()
        | Some d \<Rightarrow>
            andThen (onAgents (atWallet A (od_walletId d) (\<lambda>ag.
              offerCredential ag (cr_connectionId payload)
                \<lparr>cp_credential = credentialOf (od_credential d), cp_proofType = od_proofType d\<rparr>
                (od_issuerDid d)))) (\<lambda>_. ret ())))))"

section \<open>The verifier\<close>

record didCommRequestDto =
  cq_presentationDefinition :: json
  cq_challenge :: "string option"
  cq_domain :: "string option"
  cq_expiresInSeconds :: "int option"

definition verifyGoal :: string where
  "verifyGoal = ''Verificaci'' @ [CHR 0xF3] @ ''n de credenciales''"

definition createDidCommRequest ::
  "'s processEnv \<Rightarrow> 's didcommAgent agentStore \<Rightarrow> string option \<Rightarrow> string \<Rightarrow> didCommRequestDto \<Rightarrow>
    ('s \<times> proofStore, serviceFailure, invited) op" where
  "createDidCommRequest P A domain walletId body =
     andThen (onAgents (atWallet A walletId (inviteWith domain ''request-proof'' verifyGoal))) (\<lambda>inv.
     andThen (onAgents (pe_now P)) (\<lambda>t.
     andThen (onAgents (pe_now P)) (\<lambda>now.
     andThen (onAgents (pe_uuid P)) (\<lambda>uuid.
     andThen (onStore (addProof uuid t now
       \<lparr>np_walletId = walletId, np_outOfBandId = ci_outOfBandId inv,
        np_presentationDefinition = cq_presentationDefinition body,
        np_invitationMessage = ci_invitationMessage inv, np_challenge = cq_challenge body,
        np_domain = cq_domain body,
        np_expiresInSeconds = coalesce (cq_expiresInSeconds body) DEFAULT_EXPIRES_IN_SECONDS\<rparr>)) (\<lambda>pending.
     ret \<lparr>iv_invitation = shortInvitationUrl domain (pp_pendingRequestId pending),
       iv_pendingId = pp_pendingRequestId pending, iv_expiresAt = toISOString (pp_expiresAt pending)\<rparr>)))))"

definition getProofInvitation ::
  "'s processEnv \<Rightarrow> string \<Rightarrow> ('s \<times> proofStore, serviceFailure, json) op" where
  "getProofInvitation P invitationId =
     andThen (onAgents (pe_now P)) (\<lambda>t.
     andThen (onAgents (pe_now P)) (\<lambda>now.
     andThen (onStore (findProofMessage t now invitationId)) (\<lambda>found.
     orThrow found (InvitationNotFound invitationId))))"

record proofDuty =
  pu_pendingRequestId :: string
  pu_walletId :: string
  pu_presentationDefinition :: json
  pu_challenge :: "string option"
  pu_domain :: "string option"

definition dutyOfProof :: "pendingProof \<Rightarrow> proofDuty" where
  "dutyOfProof p =
     \<lparr>pu_pendingRequestId = pp_pendingRequestId p, pu_walletId = pp_walletId p,
      pu_presentationDefinition = pp_presentationDefinition p, pu_challenge = pp_challenge p,
      pu_domain = pp_domain p\<rparr>"

definition readyProof :: "millis \<Rightarrow> millis \<Rightarrow> string \<Rightarrow> proofStore \<Rightarrow> proofDuty option \<times> proofStore" where
  "readyProof t now outOfBandId st =
     (case takeProof t now outOfBandId st of (r, st') \<Rightarrow> (map_option dutyOfProof r, st'))"

text \<open>What the request came to is kept under the identifier of the pending.\<close>

definition settleProof :: "millis \<Rightarrow> string \<Rightarrow> requestedProof \<Rightarrow> proofStore \<Rightarrow> proofStore" where
  "settleProof now i result =
     (if truthyText (rp_error result) \<or> rp_proofExchangeRecordId result = []
      then markError now i (coalesce (rp_error result) ''Auto-request sin proofExchangeRecordId'')
      else attachProofExchange now i (rp_proofExchangeRecordId result))"

definition proofOnConnectionReady ::
  "'s processEnv \<Rightarrow> 's didcommAgent agentStore \<Rightarrow> connectionReady \<Rightarrow>
    ('s \<times> proofStore, serviceFailure, unit) op" where
  "proofOnConnectionReady P A payload =
     (if \<not> truthyText (cr_outOfBandId payload) then ret ()
      else
        andThen (onAgents (pe_now P)) (\<lambda>t.
        andThen (onAgents (pe_now P)) (\<lambda>now.
        andThen (onStore (readyProof t now (coalesce (cr_outOfBandId payload) []))) (\<lambda>duty.
        case duty of
          None \<Rightarrow> ret ()
        | Some d \<Rightarrow>
            andThen (onAgents (atWallet A (pu_walletId d) (\<lambda>ag.
              requestProof ag (cr_connectionId payload) (pu_presentationDefinition d)
                (pu_challenge d) (pu_domain d)))) (\<lambda>result.
            andThen (onAgents (pe_now P)) (\<lambda>now'.
            onStore (\<lambda>st. ((), settleProof now' (pu_pendingRequestId d) result st))))))))"

section \<open>Queries of the verifier\<close>

datatype requestState = Pending | RequestSent | Done | Failure

fun stateOfStatus :: "proofStatus \<Rightarrow> requestState" where
  "stateOfStatus ProofPending = Pending"
| "stateOfStatus ProofRequestSent = RequestSent"
| "stateOfStatus ProofError = Failure"

record didCommRequestStatus =
  ds_pendingRequestId :: string
  ds_status :: requestState
  ds_expiresAt :: string
  ds_createdAt :: string
  ds_updatedAt :: string
  ds_proofExchangeRecordId :: "string option"
  ds_details :: "proofDetails option"
  ds_errorMessage :: "string option"

definition statusBase :: "pendingProof \<Rightarrow> didCommRequestStatus" where
  "statusBase p =
     \<lparr>ds_pendingRequestId = pp_pendingRequestId p, ds_status = stateOfStatus (pp_status p),
      ds_expiresAt = toISOString (pp_expiresAt p), ds_createdAt = toISOString (pp_createdAt p),
      ds_updatedAt = toISOString (pp_updatedAt p), ds_proofExchangeRecordId = pp_proofExchangeRecordId p,
      ds_details = None, ds_errorMessage = pp_errorMessage p\<rparr>"

definition statusOfDetails :: "proofDetails \<Rightarrow> proofStatus \<Rightarrow> requestState" where
  "statusOfDetails d s =
     (if px_state (pd_record d) = ''done'' then Done
      else if px_state (pd_record d) = ''abandoned'' then Failure else stateOfStatus s)"

text \<open>
  The fields of the record and of its details are given together as the details. The pending is
  an object of the store: after the query of the agent its fields are read again.
\<close>

definition currentProof :: "string \<Rightarrow> pendingProof \<Rightarrow> proofStore \<Rightarrow> pendingProof" where
  "currentProof i p st = coalesce (map_of (ps_byPendingId st) i) p"

definition getRequestByPendingId ::
  "'s processEnv \<Rightarrow> 's didcommAgent agentStore \<Rightarrow> string \<Rightarrow> string \<Rightarrow>
    ('s \<times> proofStore, serviceFailure, didCommRequestStatus) op" where
  "getRequestByPendingId P A walletId i =
     andThen (onAgents (pe_now P)) (\<lambda>t.
     andThen (onStore (findByPendingRequestId t i)) (\<lambda>found.
     case found of
       None \<Rightarrow> throw (RequestNotFound i)
     | Some p \<Rightarrow>
         if pp_walletId p \<noteq> walletId then throw (RequestNotFound i)
         else if \<not> hasExchange p then ret (statusBase p)
         else
           (let exchange = coalesce (pp_proofExchangeRecordId p) [] in
            andThen (onAgents (atWallet A walletId (\<lambda>ag. getDidCommProofDetails ag exchange))) (\<lambda>details.
            andThen (gets (currentProof i p \<circ> snd)) (\<lambda>p'.
            ret (case details of
                   None \<Rightarrow> (statusBase p)\<lparr>ds_status := Failure,
                     ds_errorMessage := Some (coalesce (pp_errorMessage p')
                       (''Proof exchange '' @ quote @ coalesce (pp_proofExchangeRecordId p') [] @ quote @ '' no encontrado''))\<rparr>
                 | Some d \<Rightarrow> (statusBase p)\<lparr>ds_status := statusOfDetails d (pp_status p'), ds_details := Some d,
                     ds_errorMessage := (case px_errorMessage (pd_record d) of
                        Some m \<Rightarrow> Some m | None \<Rightarrow> pp_errorMessage p')\<rparr>))))))"

definition getProofDetails ::
  "'s didcommAgent agentStore \<Rightarrow> string \<Rightarrow> string \<Rightarrow> ('s \<times> proofStore, serviceFailure, proofDetails) op" where
  "getProofDetails A walletId i =
     andThen (onAgents (atWallet A walletId (\<lambda>ag. getDidCommProofDetails ag i))) (\<lambda>details.
     orThrow details (ProofNotFound i))"

end
