(* ===== verification/PendingProps.thy ===== *)
theory PendingProps
  imports DidCommServices
begin

text \<open>
  Both stores of pending exchanges satisfy the contract their services rely on: an offer, and a
  proof request, is sent at most once, before it expires, on a connection of its own invitation
  and with the content it was created with.
\<close>

section \<open>Offers\<close>

definition offerView :: "offerStore \<Rightarrow> pendingOffer indices" where
  "offerView st = (map_of (os_byPendingId st), os_byOutOfBandId st)"

abbreviation offerWaiting :: "pendingOffer \<Rightarrow> bool" where
  "offerWaiting p \<equiv> \<not> po_consumed p"

abbreviation offersLess :: "offerStore \<Rightarrow> offerStore \<Rightarrow> bool" where
  "offersLess st' st \<equiv>
     keyedLess po_pendingOfferId po_outOfBandId offerWaiting (offerView st') (offerView st)"

abbreviation offerInv :: "offerStore \<Rightarrow> bool" where
  "offerInv st \<equiv> keyedInv po_pendingOfferId po_outOfBandId (offerView st)"

lemma offersLess_purge: "offersLess (purgeOffers now st) st"
  unfolding purgeOffers_def
proof (rule keyedLess_fold)
  fix e st
  show "offersLess (purgeOffer now e st) st"
    by (rule keyedLessI)
      (auto simp: purgeOffer_def offerView_def delete_conv' split: prod.splits if_splits)
qed

lemma offersLess_forget:
  "offersLess (st\<lparr>os_byOutOfBandId := (os_byOutOfBandId st)(out := None)\<rparr>) st"
  by (rule keyedLessI) (auto simp: offerView_def split: if_splits)

lemma offersLess_consume:
  assumes "map_of (os_byPendingId st) i = Some p"
  shows "offersLess (st\<lparr>os_byPendingId := AList.update i (p\<lparr>po_consumed := True\<rparr>) (os_byPendingId st)\<rparr>) st"
  using assms by (intro keyedLessI) (auto simp: offerView_def update_conv' split: if_splits)

definition quietOffer :: "offerStore \<Rightarrow> offerStore \<Rightarrow> bool" where
  "quietOffer st st' \<longleftrightarrow> (\<exists>t now i. st' = snd (findOfferMessage t now i st))"

lemma takeOffer_cases:
  assumes "readyOffer t now out st = (r, st')"
  obtains (none) "r = None" "offersLess st' st" "keyedArmed offerWaiting (offerView st') out = None"
  | (duty) q where "r = Some (dutyOfOffer q)" "offersLess st' st"
      "keyedArmed offerWaiting (offerView st') out = None"
      "keyedArmed offerWaiting (offerView st) out = Some q" "now < po_expiresAt q"
proof -
  let ?p = "purgeOffers t st"
  let ?f = "?p\<lparr>os_byOutOfBandId := (os_byOutOfBandId ?p)(out := None)\<rparr>"
  have less: "offersLess ?p st" by (rule offersLess_purge)
  have forget: "offersLess ?f st" by (rule keyedLess_trans [OF offersLess_forget less])
  have gone: "keyedArmed offerWaiting (offerView (?f\<lparr>os_byPendingId := x\<rparr>)) out = None" for x
    by (simp add: keyedArmed_def offerView_def)
  show thesis
  proof (cases "os_byOutOfBandId ?p out")
    case None
    with assms less show thesis
      by (intro none) (auto simp: readyOffer_def takeOffer_def Let_def keyedArmed_def offerView_def)
  next
    case (Some i)
    show thesis
    proof (cases "i = []")
      case True
      with assms less Some show thesis
        by (intro none) (auto simp: readyOffer_def takeOffer_def Let_def keyedArmed_def offerView_def)
    next
      case False
      show thesis
      proof (cases "map_of (os_byPendingId ?p) i")
        case None
        with assms Some False forget gone [of "os_byPendingId ?f"] show thesis
          by (intro none) (auto simp: readyOffer_def takeOffer_def Let_def)
      next
        case (Some q)
        note found = this and oob = \<open>os_byOutOfBandId ?p out = Some i\<close>
        show thesis
        proof (cases "po_consumed q \<or> po_expiresAt q \<le> now")
          case True
          with assms oob False found forget gone [of "os_byPendingId ?f"] show thesis
            by (intro none) (auto simp: readyOffer_def takeOffer_def Let_def)
        next
          case open': False
          let ?g = "?f\<lparr>os_byPendingId := AList.update i (q\<lparr>po_consumed := True\<rparr>) (os_byPendingId ?f)\<rparr>"
          from assms oob False found open' have
            r: "r = Some (dutyOfOffer (q\<lparr>po_consumed := True\<rparr>))" "st' = ?g"
            by (auto simp: readyOffer_def takeOffer_def Let_def)
          have "offersLess ?g st"
            by (rule keyedLess_trans [OF offersLess_consume forget]) (simp add: found)
          moreover have "keyedArmed offerWaiting (offerView ?p) out = Some q"
            using oob False found open' by (simp add: keyedArmed_def offerView_def)
          from keyedLess_armed [OF less this]
          have "keyedArmed offerWaiting (offerView st) out = Some q" .
          ultimately show thesis
            using r gone open' by (intro duty [of q]) (auto simp: dutyOfOffer_def)
        qed
      qed
    qed
  qed
qed

lemma takeOffer_fires:
  assumes "readyOffer t now out st = (r, st')"
  shows "offersLess st' st"
    and "keyedArmed offerWaiting (offerView st') out = None"
    and "r = Some c \<Longrightarrow> \<exists>q. keyedArmed offerWaiting (offerView st) out = Some q \<and> c = dutyOfOffer q \<and>
      now < po_expiresAt q"
  by (rule takeOffer_cases [OF assms]; auto)+

lemma quietOffer_less: "quietOffer st st' \<Longrightarrow> offersLess st' st"
  by (auto simp: quietOffer_def findOfferMessage_def Let_def offersLess_purge)

lemma addOffer_view:
  assumes "addOffer u t now input st = (p, st')"
  shows "po_pendingOfferId p = u"
    and "offerView st' = ((fst (offerView (purgeOffers t st)))(u \<mapsto> p),
      (snd (offerView (purgeOffers t st)))(po_outOfBandId p \<mapsto> u))"
  using assms by (auto simp: addOffer_def Let_def offerView_def update_conv' offerOf_def)

interpretation offers: pending_store addOffer readyOffer quietOffer emptyOffers offerInv
  "\<lambda>st. keyedArmed offerWaiting (offerView st)" "\<lambda>st. keyedKnown (offerView st)"
  po_pendingOfferId po_expiresAt po_outOfBandId dutyOfOffer od_pendingOfferId
proof
  show "offerInv emptyOffers \<and> keyedKnown (offerView emptyOffers) = {} \<and>
      keyedArmed offerWaiting (offerView emptyOffers) = Map.empty"
    by (auto simp: emptyOffers_def offerView_def keyedInv_def keyedKnown_def keyedArmed_def)
next
  fix st u t now input p st'
  assume inv: "offerInv st" and u: "u \<notin> keyedKnown (offerView st)"
    and add: "addOffer u t now input st = (p, st')"
  show "offerInv st' \<and> keyedKnown (offerView st') \<subseteq> insert u (keyedKnown (offerView st)) \<and>
      po_pendingOfferId p = u \<and>
      (\<forall>out q. keyedArmed offerWaiting (offerView st') out = Some q \<longrightarrow>
        q = p \<or> keyedArmed offerWaiting (offerView st) out = Some q)"
    using keyed_created [OF offersLess_purge inv u addOffer_view(1) [OF add], of t]
      addOffer_view(1) [OF add]
    unfolding addOffer_view(2) [OF add] by blast
next
  fix st t now out r st'
  assume "offerInv st" and ready: "readyOffer t now out st = (r, st')"
  note f = takeOffer_fires [OF ready]
  show "offerInv st' \<and> keyedKnown (offerView st') \<subseteq> keyedKnown (offerView st) \<and>
      (\<forall>out' q. keyedArmed offerWaiting (offerView st') out' = Some q \<longrightarrow>
        out' \<noteq> out \<and> keyedArmed offerWaiting (offerView st) out' = Some q) \<and>
      (\<forall>c. r = Some c \<longrightarrow> (\<exists>q. keyedArmed offerWaiting (offerView st) out = Some q \<and>
        c = dutyOfOffer q \<and> now < po_expiresAt q))"
    using keyedLess_inv [OF f(1) \<open>offerInv st\<close>] keyedLess_known [OF f(1)] keyedLess_armed [OF f(1)] f(2,3)
    by (metis option.distinct(1))
next
  fix st st'
  assume "offerInv st" and "quietOffer st st'"
  note less = quietOffer_less [OF this(2)]
  show "offerInv st' \<and> keyedKnown (offerView st') \<subseteq> keyedKnown (offerView st) \<and>
      (\<forall>out q. keyedArmed offerWaiting (offerView st') out = Some q \<longrightarrow>
        keyedArmed offerWaiting (offerView st) out = Some q)"
    using keyedLess_inv [OF less \<open>offerInv st\<close>] keyedLess_known [OF less] keyedLess_armed [OF less] by blast
qed (auto simp: dutyOfOffer_def intro: keyedArmed_known keyedArmed_fst(2) keyedArmed_key)

text \<open>
  C22. However offers are created, short addresses read and connections become ready, the issuer
  sends each pending offer at most once, before it expires, on a connection of the invitation it
  was created with, and for the wallet and with the credential it was created for.
\<close>

theorem offer_sent_once:
  assumes "storeRuns addOffer readyOffer quietOffer emptyOffers st created sent"
  shows "distinct (map (od_pendingOfferId \<circ> fst) sent) \<and>
    (\<forall>(duty, out, now)\<in>set sent. \<exists>p. created (od_pendingOfferId duty) = Some p \<and> duty = dutyOfOffer p \<and>
      po_outOfBandId p = out \<and> now < po_expiresAt p)"
  using offers.fires_once [OF assms] by blast

section \<open>Proof requests\<close>

definition proofView :: "proofStore \<Rightarrow> pendingProof indices" where
  "proofView st = (map_of (ps_byPendingId st), ps_byOutOfBandId st)"

abbreviation proofWaiting :: "pendingProof \<Rightarrow> bool" where
  "proofWaiting p \<equiv> pp_status p = ProofPending"

abbreviation proofsLess :: "proofStore \<Rightarrow> proofStore \<Rightarrow> bool" where
  "proofsLess st' st \<equiv>
     keyedLess pp_pendingRequestId pp_outOfBandId proofWaiting (proofView st') (proofView st)"

abbreviation proofInv :: "proofStore \<Rightarrow> bool" where
  "proofInv st \<equiv> keyedInv pp_pendingRequestId pp_outOfBandId (proofView st)"

lemma proofsLess_purge: "proofsLess (purgeProofs now st) st"
  unfolding purgeProofs_def
proof (rule keyedLess_fold)
  fix i st
  show "proofsLess (purgeProof now i st) st"
    by (rule keyedLessI)
      (auto simp: purgeProof_def proofView_def delete_conv' update_conv' failedProof_def Let_def
        split: option.splits if_splits)
qed

lemma proofsLess_forget:
  "proofsLess (st\<lparr>ps_byOutOfBandId := (ps_byOutOfBandId st)(out := None)\<rparr>) st"
  by (rule keyedLessI) (auto simp: proofView_def split: if_splits)

lemma proofsLess_change:
  assumes "\<And>p. pp_pendingRequestId (f p) = pp_pendingRequestId p \<and>
    pp_outOfBandId (f p) = pp_outOfBandId p \<and> pp_status (f p) \<noteq> ProofPending"
  shows "proofsLess (changeProof i f st) st"
  using assms
  by (intro keyedLessI) (auto simp: changeProof_def proofView_def update_conv' split: option.splits if_splits)

lemma proofsLess_settle: "proofsLess (settleProof now i result st) st"
  unfolding settleProof_def markError_def attachProofExchange_def
  by (auto intro: proofsLess_change simp: failedProof_def)

text \<open>Reading an address or a request, and what a request that was sent came to.\<close>

definition quietProof :: "proofStore \<Rightarrow> proofStore \<Rightarrow> bool" where
  "quietProof st st' \<longleftrightarrow>
     (\<exists>t now i. st' = snd (findProofMessage t now i st)) \<or>
     (\<exists>t i. st' = snd (findByPendingRequestId t i st)) \<or>
     (\<exists>now i result. st' = settleProof now i result st)"

lemma quietProof_less: "quietProof st st' \<Longrightarrow> proofsLess st' st"
  by (auto simp: quietProof_def findProofMessage_def findByPendingRequestId_def Let_def
    proofsLess_purge proofsLess_settle)

lemma takeProof_fires:
  assumes "readyProof t now out st = (r, st')"
  shows "proofsLess st' st \<and> keyedArmed proofWaiting (proofView st') out = None \<and>
    (\<forall>c. r = Some c \<longrightarrow> (\<exists>q. keyedArmed proofWaiting (proofView st) out = Some q \<and> c = dutyOfProof q \<and>
      now < pp_expiresAt q))"
proof -
  let ?p = "purgeProofs t st"
  let ?f = "?p\<lparr>ps_byOutOfBandId := (ps_byOutOfBandId ?p)(out := None)\<rparr>"
  have less: "proofsLess ?p st" by (rule proofsLess_purge)
  have forget: "proofsLess ?f st" by (rule keyedLess_trans [OF proofsLess_forget less])
  have failed: "proofsLess (markError now i EXPIRED ?f) st" for i
    unfolding markError_def
    by (rule keyedLess_trans [OF proofsLess_change forget]) (simp add: failedProof_def)
  have gone: "keyedArmed proofWaiting (proofView ?f) out = None"
    by (simp add: keyedArmed_def proofView_def)
  have failed_gone: "keyedArmed proofWaiting (proofView (markError now i EXPIRED ?f)) out = None" for i
    by (simp add: keyedArmed_def proofView_def markError_def changeProof_def split: option.split)
  consider "ps_byOutOfBandId ?p out = None \<or> ps_byOutOfBandId ?p out = Some []"
    | i where "ps_byOutOfBandId ?p out = Some i" "i \<noteq> []" "map_of (ps_byPendingId ?p) i = None"
    | i q where "ps_byOutOfBandId ?p out = Some i" "i \<noteq> []" "map_of (ps_byPendingId ?p) i = Some q"
    by (cases "ps_byOutOfBandId ?p out"; fastforce)
  then show ?thesis
  proof cases
    case 1
    with assms less show ?thesis
      by (auto simp: readyProof_def takeProof_def Let_def keyedArmed_def proofView_def)
  next
    case 2
    with assms forget gone show ?thesis by (auto simp: readyProof_def takeProof_def Let_def)
  next
    case (3 i q)
    show ?thesis
    proof (cases "pp_status q = ProofPending \<and> now < pp_expiresAt q")
      case True
      then have "keyedArmed proofWaiting (proofView ?p) out = Some q"
        using 3 by (simp add: keyedArmed_def proofView_def)
      from keyedLess_armed [OF less this] True 3 assms forget gone show ?thesis
        by (auto simp: readyProof_def takeProof_def Let_def)
    next
      case False
      with 3 assms forget gone failed failed_gone show ?thesis
        by (auto simp: readyProof_def takeProof_def Let_def split: if_splits)
    qed
  qed
qed

lemma addProof_view:
  assumes "addProof u t now input st = (p, st')"
  shows "pp_pendingRequestId p = u"
    and "proofView st' = ((fst (proofView (purgeProofs t st)))(u \<mapsto> p),
      (snd (proofView (purgeProofs t st)))(pp_outOfBandId p \<mapsto> u))"
  using assms by (auto simp: addProof_def Let_def proofView_def update_conv' proofOf_def)

interpretation proofs: pending_store addProof readyProof quietProof emptyProofs proofInv
  "\<lambda>st. keyedArmed proofWaiting (proofView st)" "\<lambda>st. keyedKnown (proofView st)"
  pp_pendingRequestId pp_expiresAt pp_outOfBandId dutyOfProof pu_pendingRequestId
proof
  show "proofInv emptyProofs \<and> keyedKnown (proofView emptyProofs) = {} \<and>
      keyedArmed proofWaiting (proofView emptyProofs) = Map.empty"
    by (auto simp: emptyProofs_def proofView_def keyedInv_def keyedKnown_def keyedArmed_def)
next
  fix st u t now input p st'
  assume inv: "proofInv st" and u: "u \<notin> keyedKnown (proofView st)"
    and add: "addProof u t now input st = (p, st')"
  show "proofInv st' \<and> keyedKnown (proofView st') \<subseteq> insert u (keyedKnown (proofView st)) \<and>
      pp_pendingRequestId p = u \<and>
      (\<forall>out q. keyedArmed proofWaiting (proofView st') out = Some q \<longrightarrow>
        q = p \<or> keyedArmed proofWaiting (proofView st) out = Some q)"
    using keyed_created [OF proofsLess_purge inv u addProof_view(1) [OF add], of t]
      addProof_view(1) [OF add]
    unfolding addProof_view(2) [OF add] by blast
next
  fix st t now out r st'
  assume "proofInv st" and ready: "readyProof t now out st = (r, st')"
  note f = conjunct1 [OF takeProof_fires [OF ready]] conjunct2 [OF takeProof_fires [OF ready]]
  show "proofInv st' \<and> keyedKnown (proofView st') \<subseteq> keyedKnown (proofView st) \<and>
      (\<forall>out' q. keyedArmed proofWaiting (proofView st') out' = Some q \<longrightarrow>
        out' \<noteq> out \<and> keyedArmed proofWaiting (proofView st) out' = Some q) \<and>
      (\<forall>c. r = Some c \<longrightarrow> (\<exists>q. keyedArmed proofWaiting (proofView st) out = Some q \<and>
        c = dutyOfProof q \<and> now < pp_expiresAt q))"
    using keyedLess_inv [OF f(1) \<open>proofInv st\<close>] keyedLess_known [OF f(1)] keyedLess_armed [OF f(1)] f(2)
    by (metis option.distinct(1))
next
  fix st st'
  assume "proofInv st" and "quietProof st st'"
  note less = quietProof_less [OF this(2)]
  show "proofInv st' \<and> keyedKnown (proofView st') \<subseteq> keyedKnown (proofView st) \<and>
      (\<forall>out q. keyedArmed proofWaiting (proofView st') out = Some q \<longrightarrow>
        keyedArmed proofWaiting (proofView st) out = Some q)"
    using keyedLess_inv [OF less \<open>proofInv st\<close>] keyedLess_known [OF less] keyedLess_armed [OF less] by blast
qed (auto simp: dutyOfProof_def intro: keyedArmed_known keyedArmed_fst(2) keyedArmed_key)

text \<open>
  C23. The verifier sends each pending proof request at most once, before it expires, on a
  connection of the invitation it was created with, and with the definition, challenge and domain
  it was created with, also when the outcome of a request arrives between other steps.
\<close>

theorem proof_requested_once:
  assumes "storeRuns addProof readyProof quietProof emptyProofs st created sent"
  shows "distinct (map (pu_pendingRequestId \<circ> fst) sent) \<and>
    (\<forall>(duty, out, now)\<in>set sent. \<exists>p. created (pu_pendingRequestId duty) = Some p \<and> duty = dutyOfProof p \<and>
      pp_outOfBandId p = out \<and> now < pp_expiresAt p)"
  using proofs.fires_once [OF assms] by blast

section \<open>Samples\<close>

definition sampleNewOffer :: newOffer where
  "sampleNewOffer =
     \<lparr>no_walletId = ''acme'', no_outOfBandId = ''oob1'', no_credential = JObj [], no_invitationMessage = JObj [],
      no_proofType = None, no_issuerDid = None, no_expiresInSeconds = 1800\<rparr>"

definition sampleOffers :: offerStore where
  "sampleOffers = snd (addOffer ''p1'' 0 0 sampleNewOffer emptyOffers)"

lemma sampleOfferRun:
  "storeRuns addOffer readyOffer quietOffer emptyOffers (snd (readyOffer 60000 60000 ''oob1'' sampleOffers))
    [''p1'' \<mapsto> offerOf sampleNewOffer ''p1'' 0] [(dutyOfOffer (offerOf sampleNewOffer ''p1'' 0), ''oob1'', 60000)]"
proof (rule runs_once)
  show "addOffer ''p1'' 0 0 sampleNewOffer emptyOffers = (offerOf sampleNewOffer ''p1'' 0, sampleOffers)"
    by (simp add: sampleOffers_def addOffer_def Let_def)
  have "fst (readyOffer 60000 60000 ''oob1'' sampleOffers) = Some (dutyOfOffer (offerOf sampleNewOffer ''p1'' 0))"
    by (simp add: sampleOffers_def addOffer_def emptyOffers_def sampleNewOffer_def offerOf_def purgeOffers_def
      purgeOffer_def readyOffer_def takeOffer_def dutyOfOffer_def Let_def)
  then show "readyOffer 60000 60000 ''oob1'' sampleOffers =
      (Some (dutyOfOffer (offerOf sampleNewOffer ''p1'' 0)), snd (readyOffer 60000 60000 ''oob1'' sampleOffers))"
    by (simp add: prod_eq_iff)
qed

theorem offer_sent_once_witness:
  "\<exists>p. [''p1'' \<mapsto> offerOf sampleNewOffer ''p1'' 0] ''p1'' = Some p \<and> po_outOfBandId p = ''oob1'' \<and> 60000 < po_expiresAt p"
  using offer_sent_once [OF sampleOfferRun] by (auto simp: dutyOfOffer_def offerOf_def)

definition sampleNewProof :: newProof where
  "sampleNewProof =
     \<lparr>np_walletId = ''acme'', np_outOfBandId = ''oob1'', np_presentationDefinition = JObj [],
      np_invitationMessage = JObj [], np_challenge = None, np_domain = None, np_expiresInSeconds = 1800\<rparr>"

definition sampleProofs :: proofStore where
  "sampleProofs = snd (addProof ''q1'' 0 0 sampleNewProof emptyProofs)"

lemma sampleProofRun:
  "storeRuns addProof readyProof quietProof emptyProofs (snd (readyProof 60000 60000 ''oob1'' sampleProofs))
    [''q1'' \<mapsto> proofOf sampleNewProof ''q1'' 0] [(dutyOfProof (proofOf sampleNewProof ''q1'' 0), ''oob1'', 60000)]"
proof (rule runs_once)
  show "addProof ''q1'' 0 0 sampleNewProof emptyProofs = (proofOf sampleNewProof ''q1'' 0, sampleProofs)"
    by (simp add: sampleProofs_def addProof_def Let_def)
  have "fst (readyProof 60000 60000 ''oob1'' sampleProofs) = Some (dutyOfProof (proofOf sampleNewProof ''q1'' 0))"
    by (simp add: sampleProofs_def addProof_def emptyProofs_def sampleNewProof_def proofOf_def purgeProofs_def
      purgeProof_def readyProof_def takeProof_def dutyOfProof_def Let_def)
  then show "readyProof 60000 60000 ''oob1'' sampleProofs =
      (Some (dutyOfProof (proofOf sampleNewProof ''q1'' 0)), snd (readyProof 60000 60000 ''oob1'' sampleProofs))"
    by (simp add: prod_eq_iff)
qed

theorem proof_requested_once_witness:
  "\<exists>p. [''q1'' \<mapsto> proofOf sampleNewProof ''q1'' 0] ''q1'' = Some p \<and> pp_outOfBandId p = ''oob1'' \<and> 60000 < pp_expiresAt p"
  using proof_requested_once [OF sampleProofRun] by (auto simp: dutyOfProof_def proofOf_def)

end
