(* ===== verification/OpenIdVerifier.thy ===== *)
theory OpenIdVerifier
  imports JsObjects Dids
begin

text \<open>
  Verification over OpenID (\<^verbatim>\<open>identity-core/src/protocol/openid4vc/verifier.oid4vc.ts\<close>): the
  metadata record of a verifier and the authorization requests it signs. The verifier API of the
  framework and its certificates are parameters.
\<close>

record oidVerifier =
  ov_verifierId :: string
  ov_clientMetadata :: "json option"

record verifierOptions =
  vo_verifierId :: "string option"
  vo_clientMetadata :: "json option"

text \<open>How a request is signed; the leaf of a chain carries the identifier of its key.\<close>

datatype 'c requestSigner =
    SignedByNone
  | SignedByChain "('c \<times> string option) list" "string option"
  | SignedByDid string

record 'c authorizationRequest =
  az_verifierId :: string
  az_requestSigner :: "'c requestSigner"
  az_definition :: "json option"
  az_dcqlQuery :: "json option"
  az_version :: "string option"
  az_responseMode :: string
  az_redirectUri :: "string option"

record ('s, 'c) verifierApi =
  va_getVerifierByVerifierId :: "string \<Rightarrow> ('s, string, oidVerifier) op"
  va_getAllVerifiers :: "('s, string, oidVerifier list) op"
  va_updateVerifierMetadata :: "oidVerifier \<Rightarrow> ('s, string, unit) op"
  va_createVerifier :: "verifierOptions option \<Rightarrow> ('s, string, oidVerifier) op"
  va_createAuthorizationRequest :: "'c authorizationRequest \<Rightarrow> ('s, string, string \<times> string) op"
  va_getVerificationSessionById :: "string \<Rightarrow> ('s, string, json) op"
  va_getCreatedDids :: "string \<Rightarrow> ('s, string, storedDid list) op"
  va_fromEncodedCertificate :: "string \<Rightarrow> string + 'c"

section \<open>The record of a verifier\<close>

definition mergedMetadata :: "json option \<Rightarrow> json option \<Rightarrow> json" where
  "mergedMetadata existing incoming =
     JObj (objectOf (spreadOf (coalesce existing JNull) @ spreadOf (coalesce incoming JNull)))"

text \<open>\<open>===\<close> on two properties read from objects: two objects are never the same here.\<close>

definition sameValue :: "json option \<Rightarrow> json option \<Rightarrow> bool" where
  "sameValue a b \<longleftrightarrow> a = b \<and> (case a of Some (JArr _) \<Rightarrow> False | Some (JObj _) \<Rightarrow> False | _ \<Rightarrow> True)"

definition hasDifferentMetadata :: "json \<Rightarrow> json \<Rightarrow> bool" where
  "hasDifferentMetadata existing incoming \<longleftrightarrow>
     \<not> sameValue (jsonField ''client_name'' existing) (jsonField ''client_name'' incoming) \<or>
     \<not> sameValue (jsonField ''logo_uri'' existing) (jsonField ''logo_uri'' incoming)"

text \<open>
  What the \<open>try\<close> of a named verifier leaves to do after it: a record it found, or a reading of
  the record it updated, whose failure is outside of the \<open>try\<close>.
\<close>

definition ensureVerifier ::
  "('s, 'c) verifierApi \<Rightarrow> verifierOptions option \<Rightarrow> ('s, string, oidVerifier) op" where
  "ensureVerifier A options =
     (let verifierId = Option.bind options vo_verifierId;
          clientMetadata = Option.bind options vo_clientMetadata
      in if truthyText verifierId then
           andThen (catching
             (andThen (va_getVerifierByVerifierId A (coalesce verifierId [])) (\<lambda>existing.
              if isTruthy clientMetadata
              then andThen (va_updateVerifierMetadata A
                     \<lparr>ov_verifierId = ov_verifierId existing,
                      ov_clientMetadata = Some (mergedMetadata (ov_clientMetadata existing) clientMetadata)\<rparr>) (\<lambda>_.
                   ret (Some None))
              else ret (Some (Some existing))))
             (\<lambda>_. ret None)) (\<lambda>found.
           case found of
             Some (Some existing) \<Rightarrow> ret existing
           | Some None \<Rightarrow> va_getVerifierByVerifierId A (coalesce verifierId [])
           | None \<Rightarrow> va_createVerifier A options)
         else
           andThen (va_getAllVerifiers A) (\<lambda>verifiers.
           case verifiers of
             [] \<Rightarrow> va_createVerifier A options
           | existing # _ \<Rightarrow>
               if isTruthy clientMetadata \<and>
                  hasDifferentMetadata (coalesce (orElse (ov_clientMetadata existing) None) (JObj []))
                    (coalesce clientMetadata JNull)
               then andThen (va_updateVerifierMetadata A
                      \<lparr>ov_verifierId = ov_verifierId existing,
                       ov_clientMetadata = Some (mergedMetadata (ov_clientMetadata existing) clientMetadata)\<rparr>) (\<lambda>_.
                    va_getVerifierByVerifierId A (ov_verifierId existing))
               else ret existing))"

definition initializeVerifierOid4vc ::
  "('s, 'c) verifierApi \<Rightarrow> verifierOptions option \<Rightarrow> ('s, string, oidVerifier) op" where
  "initializeVerifierOid4vc A options = ensureVerifier A options"

definition patchVerifierOid4vpMetadata ::
  "('s, 'c) verifierApi \<Rightarrow> string \<Rightarrow> json option \<Rightarrow> ('s, string, oidVerifier) op" where
  "patchVerifierOid4vpMetadata A verifierId clientMetadata =
     andThen (catching (andThen (va_getVerifierByVerifierId A verifierId) (\<lambda>r. ret (Some r))) (\<lambda>_. ret None)) (\<lambda>existing.
     case existing of
       None \<Rightarrow> initializeVerifierOid4vc A
         (Some \<lparr>vo_verifierId = Some verifierId, vo_clientMetadata = clientMetadata\<rparr>)
     | Some r \<Rightarrow>
         andThen (if isTruthy clientMetadata
           then va_updateVerifierMetadata A
             \<lparr>ov_verifierId = ov_verifierId r,
              ov_clientMetadata = Some (mergedMetadata (ov_clientMetadata r) clientMetadata)\<rparr>
           else ret ()) (\<lambda>_.
         va_getVerifierByVerifierId A verifierId))"

section \<open>Requests\<close>

definition createPresentationRequest ::
  "('s, 'c) verifierApi \<Rightarrow> string \<Rightarrow> 'c authorizationRequest \<Rightarrow> ('s, string, string \<times> string) op" where
  "createPresentationRequest A verifierId options =
     va_createAuthorizationRequest A (options\<lparr>az_verifierId := verifierId\<rparr>)"

definition getVerificationSession :: "('s, 'c) verifierApi \<Rightarrow> string \<Rightarrow> ('s, string, json) op" where
  "getVerificationSession A verificationSessionId = va_getVerificationSessionById A verificationSessionId"

record verificationRequest =
  vq_presentationDefinition :: "json option"
  vq_dcqlQuery :: "json option"
  vq_responseMode :: "string option"
  vq_redirectUri :: "string option"
  vq_requestSignerMethod :: "string option"
  vq_x5cCertificatesBase64 :: "string list option"
  vq_x5cLeafCertificateKeyId :: "string option"
  vq_x5cClientIdPrefix :: "string option"

definition resolveSigningDidUrl :: "('s, 'c) verifierApi \<Rightarrow> ('s, string, string) op" where
  "resolveSigningDidUrl A =
     andThen (va_getCreatedDids A ''web'') (\<lambda>dids.
     case dids of
       r # _ \<Rightarrow>
         (case sd_didDocument r of
            None \<Rightarrow> throw (''No se encontr'' @ [CHR 0xF3] @ '' did:web en el agente verifier'')
          | Some doc \<Rightarrow> (case getOid4VpSigningDidUrl doc of Inl m \<Rightarrow> throw m | Inr u \<Rightarrow> ret u))
     | [] \<Rightarrow> throw (''No se encontr'' @ [CHR 0xF3] @ '' did:web en el agente verifier''))"

fun decodedChain :: "(string \<Rightarrow> string + 'c) \<Rightarrow> string list \<Rightarrow> string + 'c list" where
  "decodedChain decode [] = Inr []"
| "decodedChain decode (e # es) =
     (case decode e of
        Inl m \<Rightarrow> Inl m
      | Inr c \<Rightarrow> (case decodedChain decode es of Inl m \<Rightarrow> Inl m | Inr cs \<Rightarrow> Inr (c # cs)))"

fun leafWithKey :: "string \<Rightarrow> 'c list \<Rightarrow> ('c \<times> string option) list" where
  "leafWithKey keyId [] = []"
| "leafWithKey keyId (c # cs) = (c, Some keyId) # map (\<lambda>x. (x, None)) cs"

definition X5C_CERTIFICATES :: string where
  "X5C_CERTIFICATES = ''x5cCertificatesBase64 es requerido cuando requestSignerMethod es x5c''"
definition X5C_KEY :: string where
  "X5C_KEY = ''x5cLeafCertificateKeyId es requerido cuando requestSignerMethod es x5c''"

definition chainSigner ::
  "(string \<Rightarrow> string + 'c) \<Rightarrow> verificationRequest \<Rightarrow> string + 'c requestSigner" where
  "chainSigner decode options =
     (if coalesce (vq_x5cCertificatesBase64 options) [] = [] then Inl X5C_CERTIFICATES
      else if \<not> truthyText (vq_x5cLeafCertificateKeyId options) then Inl X5C_KEY
      else
        (case decodedChain decode (coalesce (vq_x5cCertificatesBase64 options) []) of
           Inl m \<Rightarrow> Inl m
         | Inr cs \<Rightarrow>
             Inr (SignedByChain (leafWithKey (coalesce (vq_x5cLeafCertificateKeyId options) []) cs)
               (vq_x5cClientIdPrefix options))))"

definition requestSignerOf ::
  "('s, 'c) verifierApi \<Rightarrow> verificationRequest \<Rightarrow> ('s, string, 'c requestSigner) op" where
  "requestSignerOf A options =
     (let requestSignerMethod = coalesce (vq_requestSignerMethod options) ''did''
      in if requestSignerMethod = ''none'' then ret SignedByNone
         else if requestSignerMethod = ''x5c''
         then (case chainSigner (va_fromEncodedCertificate A) options of Inl m \<Rightarrow> throw m | Inr x \<Rightarrow> ret x)
         else andThen (resolveSigningDidUrl A) (\<lambda>u. ret (SignedByDid u)))"

definition requestOptionsOf :: "verificationRequest \<Rightarrow> 'c requestSigner \<Rightarrow> 'c authorizationRequest" where
  "requestOptionsOf options requestSigner =
     (let pex = isTruthy (vq_presentationDefinition options);
          dcql = \<not> pex \<and> isTruthy (vq_dcqlQuery options)
      in \<lparr>az_verifierId = [], az_requestSigner = requestSigner,
          az_definition = (if pex then vq_presentationDefinition options else None),
          az_dcqlQuery = (if dcql then vq_dcqlQuery options else None),
          az_version = (if pex then Some ''v1.draft21'' else if dcql then Some ''v1'' else None),
          az_responseMode = coalesce (vq_responseMode options) ''direct_post'',
          az_redirectUri = (if truthyText (vq_redirectUri options) then vq_redirectUri options else None)\<rparr>)"

definition createVerificationRequest ::
  "('s, 'c) verifierApi \<Rightarrow> verificationRequest \<Rightarrow> ('s, string, string \<times> string) op" where
  "createVerificationRequest A options =
     andThen (ensureVerifier A None) (\<lambda>verifierRecord.
     andThen (requestSignerOf A options) (\<lambda>requestSigner.
     createPresentationRequest A (ov_verifierId verifierRecord) (requestOptionsOf options requestSigner)))"

end
