(* ===== verification/OpenIdIssuer.thy ===== *)
theory OpenIdIssuer
  imports JsObjects Dids
begin

text \<open>
  Issuance over OpenID (\<^verbatim>\<open>identity-core/src/protocol/openid4vc/issuer.oid4vc.ts\<close>): the
  metadata record of an issuer, the offers of SD-JWT credentials and the credential that is
  signed when a wallet asks for it. The issuer API of the framework is a record of its calls,
  handlers of an arbitrary state. An entry that is \<open>undefined\<close> is left out of an object.
\<close>

section \<open>Metadata of an issuer\<close>

type_synonym configurations = "(string \<times> json) list"

record oidIssuer =
  oi_issuerId :: string
  oi_display :: "json option"
  oi_configurations :: configurations
  oi_dpop :: "json option"
  oi_batch :: "json option"
  oi_authorizationServers :: "json option"

record issuerOptions =
  op_display :: "json option"
  op_configurations :: "configurations option"
  op_dpop :: "json option"
  op_batch :: "json option"
  op_authorizationServers :: "json option"
  op_signerDidUrl :: "string option"

text \<open>\<open>{...o, k: v}\<close> for a value that may be \<open>undefined\<close>.\<close>

definition putEntry :: "string \<Rightarrow> json option \<Rightarrow> (string \<times> json) list \<Rightarrow> (string \<times> json) list" where
  "putEntry k v kvs = (case v of None \<Rightarrow> AList.delete k kvs | Some j \<Rightarrow> AList.update k j kvs)"

definition mergedDisplay :: "bool \<Rightarrow> json \<Rightarrow> json \<Rightarrow> json option" where
  "mergedDisplay preferIncomingDisplay incomingConfig existingConfig =
     (if preferIncomingDisplay
      then orElse (jsonField ''display'' incomingConfig) (jsonField ''display'' existingConfig)
      else orElse (jsonField ''display'' existingConfig) (jsonField ''display'' incomingConfig))"

definition mergedClaims :: "json \<Rightarrow> json \<Rightarrow> json option" where
  "mergedClaims incomingConfig existingConfig =
     (case jsonField ''claims'' incomingConfig of
        Some cs \<Rightarrow> Some (JObj (objectOf
          (spreadOf (coalesce (jsonField ''claims'' existingConfig) JNull) @ spreadOf cs)))
      | None \<Rightarrow> jsonField ''claims'' existingConfig)"

definition mergeConfiguration :: "bool \<Rightarrow> json \<Rightarrow> json \<Rightarrow> json" where
  "mergeConfiguration preferIncomingDisplay incomingConfig existingConfig =
     JObj (putEntry ''claims'' (mergedClaims incomingConfig existingConfig)
       (putEntry ''display'' (mergedDisplay preferIncomingDisplay incomingConfig existingConfig)
         (objectOf (spreadOf existingConfig @ spreadOf incomingConfig))))"

definition mergeEntry :: "bool \<Rightarrow> string \<times> json \<Rightarrow> configurations \<Rightarrow> configurations" where
  "mergeEntry preferIncomingDisplay e merged =
     (case e of (configId, incomingConfig) \<Rightarrow>
        if \<not> isTruthy (Some incomingConfig) then merged
        else if \<not> isTruthy (map_of merged configId) then AList.update configId incomingConfig merged
        else AList.update configId
               (mergeConfiguration preferIncomingDisplay incomingConfig (the (map_of merged configId))) merged)"

definition mergeCredentialConfigurationsSupported ::
  "configurations \<Rightarrow> configurations option \<Rightarrow> bool \<Rightarrow> configurations" where
  "mergeCredentialConfigurationsSupported existing incoming preferIncomingDisplay =
     (case incoming of
        None \<Rightarrow> existing
      | Some kvs \<Rightarrow> fold (mergeEntry preferIncomingDisplay) kvs existing)"

text \<open>The calls of the framework.\<close>

record credentialOffer =
  fo_issuerId :: string
  fo_configurationIds :: "string list"
  fo_preAuthorizedCode :: "string option"
  fo_issuanceMetadata :: json

record issuanceSession =
  iss_id :: string
  iss_issuanceMetadata :: "json option"

record 's issuerApi =
  ia_getIssuerByIssuerId :: "string \<Rightarrow> ('s, string, oidIssuer) op"
  ia_getAllIssuers :: "('s, string, oidIssuer list) op"
  ia_updateIssuerMetadata :: "oidIssuer \<Rightarrow> ('s, string, unit) op"
  ia_createIssuer :: "string option \<Rightarrow> issuerOptions \<Rightarrow> ('s, string, oidIssuer) op"
  ia_createCredentialOffer :: "credentialOffer \<Rightarrow> ('s, string, string \<times> issuanceSession) op"
  ia_getIssuanceSessionById :: "string \<Rightarrow> ('s, string, issuanceSession) op"
  ia_getCreatedDids :: "string \<Rightarrow> ('s, string, storedDid list) op"

definition updatedIssuer :: "issuerOptions \<Rightarrow> oidIssuer \<Rightarrow> oidIssuer" where
  "updatedIssuer options existing =
     \<lparr>oi_issuerId = oi_issuerId existing,
      oi_display = orElse (op_display options) (oi_display existing),
      oi_configurations = mergeCredentialConfigurationsSupported (oi_configurations existing)
        (op_configurations options) (op_display options \<noteq> None),
      oi_dpop = orElse (op_dpop options) (oi_dpop existing),
      oi_batch = oi_batch existing,
      oi_authorizationServers = orElse (op_authorizationServers options) (oi_authorizationServers existing)\<rparr>"

text \<open>
  The search and the update are inside the \<open>try\<close>; the last reading is returned without waiting,
  so its failure is outside of it.
\<close>

definition ensureIssuer ::
  "'s issuerApi \<Rightarrow> issuerOptions \<Rightarrow> string option \<Rightarrow> ('s, string, oidIssuer) op" where
  "ensureIssuer A options issuerId =
     (if truthyText issuerId then
        andThen (catching
          (andThen (ia_getIssuerByIssuerId A (coalesce issuerId [])) (\<lambda>existing.
           andThen (ia_updateIssuerMetadata A (updatedIssuer options existing)) (\<lambda>_.
           ret (Some (oi_issuerId existing)))))
          (\<lambda>_. ret None)) (\<lambda>updated.
        case updated of
          Some i \<Rightarrow> ia_getIssuerByIssuerId A i
        | None \<Rightarrow> ia_createIssuer A issuerId options)
      else
        andThen (ia_getAllIssuers A) (\<lambda>issuers.
        case issuers of
          existing # _ \<Rightarrow>
            andThen (ia_updateIssuerMetadata A (updatedIssuer options existing)) (\<lambda>_.
            ia_getIssuerByIssuerId A (oi_issuerId existing))
        | [] \<Rightarrow> ia_createIssuer A None options))"

definition firstDocument :: "storedDid list \<Rightarrow> didDocument option" where
  "firstDocument records = (case records of [] \<Rightarrow> None | r # _ \<Rightarrow> sd_didDocument r)"

definition initializeIssuerOid4vc ::
  "'s issuerApi \<Rightarrow> issuerOptions \<Rightarrow> string option \<Rightarrow> ('s, string, oidIssuer) op" where
  "initializeIssuerOid4vc A options issuerId =
     andThen (ia_getCreatedDids A ''web'') (\<lambda>didRecords.
     andThen (orThrow (firstDocument didRecords) ''No did:web DID document found for metadataSigner'') (\<lambda>doc.
     case getOid4VcSigningDidUrlForAlg doc ES256 of
       Inl m \<Rightarrow> throw m
     | Inr didUrl \<Rightarrow> ensureIssuer A (options\<lparr>op_signerDidUrl := Some didUrl\<rparr>) issuerId))"

text \<open>A patch has the fields of the options but the signer.\<close>

definition patchedIssuer :: "issuerOptions \<Rightarrow> oidIssuer \<Rightarrow> oidIssuer" where
  "patchedIssuer patch existing =
     \<lparr>oi_issuerId = oi_issuerId existing,
      oi_display = orElse (op_display patch) (oi_display existing),
      oi_configurations = mergeCredentialConfigurationsSupported (oi_configurations existing)
        (op_configurations patch) True,
      oi_dpop = orElse (op_dpop patch) (oi_dpop existing),
      oi_batch = orElse (op_batch patch) (oi_batch existing),
      oi_authorizationServers = orElse (op_authorizationServers patch) (oi_authorizationServers existing)\<rparr>"

definition patchIssuerOid4vcMetadata ::
  "'s issuerApi \<Rightarrow> string \<Rightarrow> issuerOptions \<Rightarrow> ('s, string, oidIssuer) op" where
  "patchIssuerOid4vcMetadata A issuerId patch =
     andThen (catching (andThen (ia_getIssuerByIssuerId A issuerId) (\<lambda>r. ret (Some r))) (\<lambda>_. ret None)) (\<lambda>existing.
     case existing of
       None \<Rightarrow> initializeIssuerOid4vc A
         (patch\<lparr>op_configurations := Some (coalesce (op_configurations patch) []), op_signerDidUrl := None\<rparr>)
         (Some issuerId)
     | Some r \<Rightarrow> andThen (ia_updateIssuerMetadata A (patchedIssuer patch r)) (\<lambda>_.
         ia_getIssuerByIssuerId A issuerId))"

definition createCredentialOffer ::
  "'s issuerApi \<Rightarrow> string \<Rightarrow> credentialOffer \<Rightarrow> ('s, string, string \<times> issuanceSession) op" where
  "createCredentialOffer A issuerId options = ia_createCredentialOffer A (options\<lparr>fo_issuerId := issuerId\<rparr>)"

definition getIssuanceSession :: "'s issuerApi \<Rightarrow> string \<Rightarrow> ('s, string, issuanceSession) op" where
  "getIssuanceSession A issuanceSessionId = ia_getIssuanceSessionById A issuanceSessionId"

section \<open>The credential that is signed\<close>

text \<open>What a holder proves possession of: a key, or a method of an identifier.\<close>

datatype holderKey = JwkKey json | DidKey string

definition NO_FIRST_KEY :: string where
  "NO_FIRST_KEY = ''Cannot read properties of undefined''"

definition keyAlg :: "holderKey \<Rightarrow> signingAlg" where
  "keyAlg k =
     (case k of
        JwkKey jwk \<Rightarrow> if jsonField ''kty'' jwk = Some (JStr ''OKP'') then EdDSA else ES256
      | DidKey didUrl \<Rightarrow>
          (case splitOn (CHR ''#'') didUrl of
             _ # fragment # _ \<Rightarrow> if startsWith fragment ''z6Mk'' then EdDSA else ES256
           | _ \<Rightarrow> ES256))"

definition extractProofAlg :: "holderKey list \<Rightarrow> string + signingAlg" where
  "extractProofAlg holderBinding =
     (case holderBinding of [] \<Rightarrow> Inl NO_FIRST_KEY | k # _ \<Rightarrow> Inr (keyAlg k))"

definition toSdJwtHolderBinding :: "holderKey list \<Rightarrow> string + holderKey" where
  "toSdJwtHolderBinding holderBinding =
     (case holderBinding of [] \<Rightarrow> Inl NO_FIRST_KEY | k # _ \<Rightarrow> Inr k)"

record sdJwtCredential =
  sc_payload :: json
  sc_issuerDidUrl :: string
  sc_holder :: holderKey
  sc_disclosureFrame :: "json option"

definition sdJwtPayload :: "json \<Rightarrow> string \<Rightarrow> json" where
  "sdJwtPayload metadata did =
     JObj (objectOf (
       [(''vct'', coalesce (orElse (jsonField ''vct'' metadata) None) (JStr ''QuarkCredential'')),
        (''iss'', JStr did)] @
       (if isTruthy (jsonField ''status'' metadata)
        then entryOf ''status'' (jsonField ''status'' metadata) else []) @
       spreadOf (coalesce (jsonField ''claims'' metadata) JNull)))"

definition sdJwtCredentialFor :: "didDocument \<Rightarrow> json \<Rightarrow> holderKey list \<Rightarrow> string + sdJwtCredential" where
  "sdJwtCredentialFor doc metadata holderBinding =
     (case extractProofAlg holderBinding of
        Inl m \<Rightarrow> Inl m
      | Inr alg \<Rightarrow>
          (case getOid4VcSigningDidUrlForAlg doc alg of
             Inl m \<Rightarrow> Inl m
           | Inr didUrl \<Rightarrow>
               (case toSdJwtHolderBinding holderBinding of
                  Inl m \<Rightarrow> Inl m
                | Inr holder \<Rightarrow>
                    Inr \<lparr>sc_payload = sdJwtPayload metadata (upTo (CHR ''#'') didUrl),
                      sc_issuerDidUrl = didUrl, sc_holder = holder,
                      sc_disclosureFrame = jsonField ''disclosureFrame'' metadata\<rparr>)))"

definition buildSdJwtCredentialMapper ::
  "(string \<Rightarrow> ('s, string, storedDid list) op) \<Rightarrow> issuanceSession \<Rightarrow> holderKey list \<Rightarrow>
    ('s, string, sdJwtCredential) op" where
  "buildSdJwtCredentialMapper getCreatedDids session holderBinding =
     andThen (getCreatedDids ''web'') (\<lambda>didRecords.
     andThen (orThrow (firstDocument didRecords) ''No did:web DID document found in issuer wallet'') (\<lambda>doc.
     case sdJwtCredentialFor doc (coalesce (orElse (iss_issuanceMetadata session) None) (JObj [])) holderBinding of
       Inl m \<Rightarrow> throw m | Inr c \<Rightarrow> ret c))"

section \<open>Offers of an SD-JWT credential\<close>

record sdJwtOffer =
  so_configurationId :: string
  so_preAuthorizedCode :: "string option"
  so_vct :: string
  so_claims :: "json option"
  so_claimsDisplay :: "json option"
  so_disclosureFrame :: "json option"
  so_issuerId :: "string option"
  so_supportedAlgorithms :: "string list option"
  so_status :: "json option"

text \<open>The display of a claim; \<open>info.name\<close> throws when \<open>info\<close> is \<open>null\<close>.\<close>

definition claimDisplay :: "json \<Rightarrow> json option" where
  "claimDisplay info =
     (if info = JNull then None
      else Some (JObj [(''mandatory'', JBool False),
        (''display'', JArr [JObj (entryOf ''name'' (jsonField ''name'' info) @
           [(''locale'', coalesce (orElse (jsonField ''locale'' info) None) (JStr ''es''))])])]))"

fun claimDisplays :: "(string \<times> json) list \<Rightarrow> (string \<times> json) list option" where
  "claimDisplays [] = Some []"
| "claimDisplays ((k, info) # es) =
     (case claimDisplay info of
        None \<Rightarrow> None
      | Some d \<Rightarrow> map_option (\<lambda>ds. (k, d) # ds) (claimDisplays es))"

definition sdJwtConfiguration :: "string \<Rightarrow> (string \<times> json) list \<Rightarrow> string list option \<Rightarrow> json" where
  "sdJwtConfiguration vct subject supportedAlgorithms =
     (let algs = JArr (map JStr (coalesce supportedAlgorithms [''ES256''])) in
      JObj ([(''format'', JStr ''dc+sd-jwt''), (''vct'', JStr vct)] @ subject @
        [(''cryptographic_binding_methods_supported'', JArr [JStr ''did:jwk'', JStr ''jwk'']),
         (''credential_signing_alg_values_supported'', algs),
         (''proof_types_supported'', JObj [(''jwt'', JObj [(''proof_signing_alg_values_supported'', algs)])])]))"

definition buildSdJwtCredentialConfiguration ::
  "string \<Rightarrow> string \<Rightarrow> json option \<Rightarrow> string list option \<Rightarrow> string + configurations" where
  "buildSdJwtCredentialConfiguration configurationId vct claimsDisplay supportedAlgorithms =
     (if \<not> isTruthy claimsDisplay then Inr [(configurationId, sdJwtConfiguration vct [] supportedAlgorithms)]
      else
        (case claimDisplays (spreadOf (coalesce claimsDisplay JNull)) of
           None \<Rightarrow> Inl ''Cannot read properties of null''
         | Some subject \<Rightarrow>
             Inr [(configurationId,
               sdJwtConfiguration vct [(''claims'', JObj (objectOf subject))] supportedAlgorithms)]))"

definition onlyConfigurations :: "configurations \<Rightarrow> issuerOptions" where
  "onlyConfigurations configurations =
     \<lparr>op_display = None, op_configurations = Some configurations, op_dpop = None, op_batch = None,
      op_authorizationServers = None, op_signerDidUrl = None\<rparr>"

definition issuanceMetadataOf :: "sdJwtOffer \<Rightarrow> json" where
  "issuanceMetadataOf options =
     JObj ((''vct'', JStr (so_vct options)) # entryOf ''claims'' (so_claims options) @
       entryOf ''disclosureFrame'' (so_disclosureFrame options) @
       (if isTruthy (so_status options) then entryOf ''status'' (so_status options) else []))"

definition createSdJwtOffer ::
  "'s issuerApi \<Rightarrow> sdJwtOffer \<Rightarrow> ('s, string, string \<times> string) op" where
  "createSdJwtOffer A options =
     (case buildSdJwtCredentialConfiguration (so_configurationId options) (so_vct options)
        (so_claimsDisplay options) (so_supportedAlgorithms options) of
        Inl m \<Rightarrow> throw m
      | Inr configurations \<Rightarrow>
          andThen (ensureIssuer A (onlyConfigurations configurations) (so_issuerId options)) (\<lambda>issuerRecord.
          andThen (createCredentialOffer A (oi_issuerId issuerRecord)
            \<lparr>fo_issuerId = [], fo_configurationIds = [so_configurationId options],
             fo_preAuthorizedCode = so_preAuthorizedCode options,
             fo_issuanceMetadata = issuanceMetadataOf options\<rparr>) (\<lambda>(offer, session).
          ret (offer, iss_id session))))"

end
