(* ===== verification/OpenIdServices.thy ===== *)
theory OpenIdServices
  imports OpenIdVerifier DidCommServices OpenIdIssuer
begin

text \<open>
  The OpenID services of issuer, verifier and holder (\<^verbatim>\<open>openid4vc/openid4vc.service.ts\<close>) and
  the update of their metadata (\<^verbatim>\<open>records.service.ts\<close>). The offers of the issuer run over
  the agents and the database of the status lists.
\<close>

text \<open>
  The holder over OpenID (\<^verbatim>\<open>holder.oid4vc.ts\<close>, \<^verbatim>\<open>binding.resolver.ts\<close>): the key it
  proves possession of, the credentials it receives and stores, and those it presents. The holder
  API of the framework is a parameter.
\<close>

section \<open>The key a credential is bound to\<close>

record didKeyCreated =
  kc_did :: "string option"
  kc_methodIds :: "string option list option"

definition bindingKeyType :: "string list option \<Rightarrow> keyType" where
  "bindingKeyType algorithms =
     (case coalesce algorithms [] of
        a # _ \<Rightarrow> if a = ''EdDSA'' then \<lparr>kt_kty = ''OKP'', kt_crv = ''Ed25519''\<rparr>
                 else \<lparr>kt_kty = ''EC'', kt_crv = ''P-256''\<rparr>
      | [] \<Rightarrow> \<lparr>kt_kty = ''EC'', kt_crv = ''P-256''\<rparr>)"

text \<open>\<open>didDocument?.verificationMethod?.[0]?.id\<close>.\<close>

definition firstMethodId :: "didKeyCreated \<Rightarrow> string option" where
  "firstMethodId r = (case kc_methodIds r of Some (i # _) \<Rightarrow> i | _ \<Rightarrow> None)"

type_synonym 's bindingResolver = "string list option \<Rightarrow> string list option \<Rightarrow> ('s, string, string list) op"

definition buildCredentialBindingResolver ::
  "(string \<Rightarrow> keyType \<Rightarrow> ('s, string, didKeyCreated) op) \<Rightarrow> 's bindingResolver" where
  "buildCredentialBindingResolver creates supportedDidMethods algorithms =
     andThen (if ''did:key'' \<in> set (coalesce supportedDidMethods [])
       then andThen (creates ''key'' (bindingKeyType algorithms)) (\<lambda>r. ret (firstMethodId r))
       else ret None) (\<lambda>verificationMethodId.
     if truthyText verificationMethodId then ret [coalesce verificationMethodId []]
     else
       andThen (creates ''jwk'' (bindingKeyType algorithms)) (\<lambda>r.
       if \<not> truthyText (kc_did r) then throw ''Failed to create did:jwk for credential binding''
       else ret [coalesce (kc_did r) [] @ ''#0'']))"

section \<open>Receiving\<close>

datatype 'v heldRecord =
    SdJwtVc 'v
  | W3cV2Credential 'v
  | W3cCredential 'v
  | OtherRecord 'v

record ('s, 'v, 'o, 'q, 'r) holderApi =
  ha_resolveCredentialOffer :: "string \<Rightarrow> ('s, string, 'o) op"
  ha_requestToken :: "'o \<Rightarrow> ('s, string, string \<times> json option) op"
  ha_createDid :: "string \<Rightarrow> keyType \<Rightarrow> ('s, string, didKeyCreated) op"
  ha_requestCredentials :: "'o \<Rightarrow> string \<times> json option \<Rightarrow> 's bindingResolver \<Rightarrow>
    ('s, string, 'v heldRecord list \<times> json list) op"
  ha_storeSdJwt :: "'v \<Rightarrow> ('s, string, unit) op"
  ha_storeW3cV2 :: "'v \<Rightarrow> ('s, string, unit) op"
  ha_storeW3c :: "'v \<Rightarrow> ('s, string, unit) op"
  ha_resolveRequest :: "string \<Rightarrow> ('s, string, 'q) op"
  ha_acceptRequest :: "'q \<Rightarrow> 'r \<Rightarrow> ('s, string, json) op"

definition storeRecord :: "('s, 'v, 'o, 'q, 'r) holderApi \<Rightarrow> 'v heldRecord \<Rightarrow> ('s, string, unit) op" where
  "storeRecord A r =
     (case r of
        SdJwtVc v \<Rightarrow> ha_storeSdJwt A v
      | W3cV2Credential v \<Rightarrow> ha_storeW3cV2 A v
      | W3cCredential v \<Rightarrow> ha_storeW3c A v
      | OtherRecord _ \<Rightarrow> ret ())"

definition receiveCredentialOffer ::
  "('s, 'v, 'o, 'q, 'r) holderApi \<Rightarrow> string \<Rightarrow> ('s, string, 'v heldRecord list \<times> json list) op" where
  "receiveCredentialOffer A offerUri =
     andThen (ha_resolveCredentialOffer A offerUri) (\<lambda>resolvedOffer.
     andThen (ha_requestToken A resolvedOffer) (\<lambda>token.
     andThen (ha_requestCredentials A resolvedOffer token
       (buildCredentialBindingResolver (ha_createDid A))) (\<lambda>(credentials, deferred).
     andThen (forEach credentials (storeRecord A)) (\<lambda>_.
     ret (credentials, deferred)))))"

section \<open>Presenting\<close>

text \<open>A resolved request: its exchange, its query, and the payload that is sent back.\<close>

record 'v submissionEntry =
  se_inputDescriptorId :: string
  se_verifiableCredentials :: "'v list"

record 'v credentialsForRequest =
  cr_satisfied :: "bool option"
  cr_requirements :: "'v submissionEntry list list"

record 'd dcqlResult =
  dq_canBeSatisfied :: bool
  dq_result :: 'd

record ('v, 'd) resolvedRequest =
  rr_payload :: json
  rr_presentationExchange :: "'v credentialsForRequest option option"
  rr_dcql :: "'d dcqlResult option option"

datatype ('v, 'k) selection =
    PexSelection "(string \<times> 'v list) list"
  | DcqlSelection 'k

definition chosenEntry :: "'v submissionEntry \<Rightarrow> (string \<times> 'v list) list \<Rightarrow> (string \<times> 'v list) list" where
  "chosenEntry entry credentials =
     (case se_verifiableCredentials entry of
        [] \<Rightarrow> credentials
      | v # _ \<Rightarrow> AList.update (se_inputDescriptorId entry) [v] credentials)"

definition selectCredentialsForRequest ::
  "('v, 'd) resolvedRequest \<Rightarrow> ('v, 'k) selection option" where
  "selectCredentialsForRequest resolved =
     (case rr_presentationExchange resolved of
        Some credentialsForRequest \<Rightarrow>
          if Option.bind credentialsForRequest cr_satisfied \<noteq> Some True then None
          else Some (PexSelection (fold (fold chosenEntry)
            (case credentialsForRequest of None \<Rightarrow> [] | Some c \<Rightarrow> cr_requirements c) []))
      | None \<Rightarrow> None)"

definition submitPresentation ::
  "('s, 'v, 'o, ('v, 'd) resolvedRequest, ('v, 'k) selection) holderApi \<Rightarrow> ('d \<Rightarrow> string + 'k) \<Rightarrow> string \<Rightarrow>
    ('s, string, json option) op" where
  "submitPresentation A selectForDcql requestUri =
     andThen (ha_resolveRequest A requestUri) (\<lambda>resolved.
     andThen (case rr_presentationExchange resolved of
         Some _ \<Rightarrow> ret (selectCredentialsForRequest resolved)
       | None \<Rightarrow>
           (case rr_dcql resolved of
              None \<Rightarrow> ret None
            | Some None \<Rightarrow> ret None
            | Some (Some queryResult) \<Rightarrow>
                if \<not> dq_canBeSatisfied queryResult then ret None
                else (case selectForDcql (dq_result queryResult) of
                        Inl m \<Rightarrow> throw m | Inr credentials \<Rightarrow> ret (Some (DcqlSelection credentials))))) (\<lambda>selection.
     case selection of
       None \<Rightarrow> ret None
     | Some sel \<Rightarrow> andThen (ha_acceptRequest A resolved sel) (\<lambda>r. ret (Some r))))"

datatype openIdFailure =
    NotEnabled string
  | AllocationFailed revError
  | WalletFailed serviceFailure
  | NoMatchingCredential

definition onWallet :: "('s, serviceFailure, 'a) op \<Rightarrow> ('s \<times> 't, openIdFailure, 'a) op" where
  "onWallet m = (\<lambda>(s, t). case m s of
     (Inl e, s') \<Rightarrow> (Inl (WalletFailed e), (s', t)) | (Inr a, s') \<Rightarrow> (Inr a, (s', t)))"

definition onLists :: "'a storage \<Rightarrow> ('s \<times> statusDb, openIdFailure, 'a) op" where
  "onLists m = (\<lambda>(s, d). case m d of
     (Inl e, d') \<Rightarrow> (Inl (AllocationFailed e), (s, d')) | (Inr a, d') \<Rightarrow> (Inr a, (s, d')))"

definition asWalletFailure :: "('s, serviceFailure, 'a) op \<Rightarrow> ('s, openIdFailure, 'a) op" where
  "asWalletFailure m = (\<lambda>s. case m s of (Inl e, s') \<Rightarrow> (Inl (WalletFailed e), s') | (Inr a, s') \<Rightarrow> (Inr a, s'))"

section \<open>The issuer\<close>

record createOfferDto =
  cd_credentialConfigurationId :: string
  cd_vct :: string
  cd_claims :: json
  cd_disclosureFrame :: "json option"
  cd_claimsDisplay :: "json option"
  cd_preAuthorizedCode :: "string option"

record offerConfig =
  oc_oid4vcBaseUrl :: "string option"
  oc_supportedAlgs :: "string list option"

definition OFFERS_NOT_ENABLED :: string where
  "OFFERS_NOT_ENABLED = ''OID4VCI no est'' @ [CHR 0xE1] @ '' habilitado: falta OID4VC_BASE_URL''"

definition offerFor :: "string \<Rightarrow> createOfferDto \<Rightarrow> string list \<Rightarrow> indexRef \<Rightarrow> sdJwtOffer" where
  "offerFor walletId dto supportedAlgorithms allocated =
     \<lparr>so_configurationId = cd_credentialConfigurationId dto,
      so_preAuthorizedCode = cd_preAuthorizedCode dto,
      so_vct = cd_vct dto, so_claims = Some (cd_claims dto), so_claimsDisplay = cd_claimsDisplay dto,
      so_disclosureFrame = cd_disclosureFrame dto, so_issuerId = Some walletId,
      so_supportedAlgorithms = Some supportedAlgorithms,
      so_status = Some (JObj [(''status_list'', JObj
        [(''idx'', JNum (ir_index allocated)), (''uri'', JStr (ir_uri allocated))])])\<rparr>"

definition offerAllocation :: "millis \<Rightarrow> allocateOptions" where
  "offerAllocation now = \<lparr>ao_credentialId = Some (''offer-'' @ intStr now), ao_preferredIndex = None\<rparr>"

definition createOffer ::
  "'s processEnv \<Rightarrow> 's issuerApi agentStore \<Rightarrow> 'l revEnv \<Rightarrow> offerConfig \<Rightarrow> string \<Rightarrow> createOfferDto \<Rightarrow>
    ('s \<times> statusDb, openIdFailure, string \<times> string) op" where
  "createOffer P A V config walletId dto =
     andThen (throwIf (\<not> truthyText (oc_oid4vcBaseUrl config)) (NotEnabled OFFERS_NOT_ENABLED)) (\<lambda>_.
     andThen (onWallet (pe_now P)) (\<lambda>now.
     andThen (onLists (issuerAllocateIndex V walletId (cd_vct dto) (offerAllocation now))) (\<lambda>allocated.
     onWallet (atWallet A walletId (\<lambda>agent.
       createSdJwtOffer agent
         (offerFor walletId dto (coalesce (oc_supportedAlgs config) [''ES256'']) allocated))))))"

definition patchIssuerMetadata ::
  "'s issuerApi agentStore \<Rightarrow> string \<Rightarrow> issuerOptions \<Rightarrow> ('s, serviceFailure, string \<times> oidIssuer) op" where
  "patchIssuerMetadata A walletId dto =
     andThen (atWallet A walletId (\<lambda>agent. patchIssuerOid4vcMetadata agent walletId dto)) (\<lambda>r.
     ret (walletId, r))"

section \<open>The verifier\<close>

record presentationDto =
  pn_presentationDefinition :: "json option"
  pn_dcqlQuery :: "json option"
  pn_responseMode :: "string option"
  pn_redirectUri :: "string option"
  pn_requestSignerMethod :: "string option"

record requestConfig =
  qc_oid4vcBaseUrl :: "string option"
  qc_x5cCertificatesBase64 :: "string list option"
  qc_x5cLeafCertificateKeyId :: "string option"
  qc_x5cClientIdPrefix :: "string option"

definition REQUESTS_NOT_ENABLED :: string where
  "REQUESTS_NOT_ENABLED = ''OID4VP no est'' @ [CHR 0xE1] @ '' habilitado: falta OID4VC_BASE_URL''"
definition X5C_NOT_CONFIGURED :: string where
  "X5C_NOT_CONFIGURED = ''OID4VP x5c no est'' @ [CHR 0xE1] @
     '' configurado: definir OID4VP_X5C_CERTIFICATES_BASE64 y OID4VP_X5C_LEAF_CERTIFICATE_KEY_ID''"

definition requestFor :: "requestConfig \<Rightarrow> presentationDto \<Rightarrow> verificationRequest" where
  "requestFor config dto =
     (let chain = (pn_requestSignerMethod dto = Some ''x5c'') in
      \<lparr>vq_presentationDefinition = pn_presentationDefinition dto, vq_dcqlQuery = pn_dcqlQuery dto,
       vq_responseMode = pn_responseMode dto, vq_redirectUri = pn_redirectUri dto,
       vq_requestSignerMethod = Some (coalesce (pn_requestSignerMethod dto) ''did''),
       vq_x5cCertificatesBase64 =
         (if chain then Some (coalesce (qc_x5cCertificatesBase64 config) []) else None),
       vq_x5cLeafCertificateKeyId =
         (if chain then Some (coalesce (qc_x5cLeafCertificateKeyId config) []) else None),
       vq_x5cClientIdPrefix =
         (if chain then Some (coalesce (qc_x5cClientIdPrefix config) ''x509_hash'') else None)\<rparr>)"

definition createRequest ::
  "('s, 'c) verifierApi agentStore \<Rightarrow> requestConfig \<Rightarrow> string \<Rightarrow> presentationDto \<Rightarrow>
    ('s, openIdFailure, string \<times> string) op" where
  "createRequest A config walletId dto =
     (if \<not> truthyText (qc_oid4vcBaseUrl config) then throw (NotEnabled REQUESTS_NOT_ENABLED)
      else if pn_requestSignerMethod dto = Some ''x5c'' \<and>
         (coalesce (qc_x5cCertificatesBase64 config) [] = [] \<or>
          \<not> truthyText (Some (coalesce (qc_x5cLeafCertificateKeyId config) [])))
      then throw (NotEnabled X5C_NOT_CONFIGURED)
      else asWalletFailure (atWallet A walletId (\<lambda>agent.
             createVerificationRequest agent (requestFor config dto))))"

definition getSession ::
  "('s, 'c) verifierApi agentStore \<Rightarrow> string \<Rightarrow> string \<Rightarrow> ('s, serviceFailure, json) op" where
  "getSession A walletId verificationSessionId =
     atWallet A walletId (\<lambda>agent. getVerificationSession agent verificationSessionId)"

definition patchVerifierMetadata ::
  "('s, 'c) verifierApi agentStore \<Rightarrow> string \<Rightarrow> json option \<Rightarrow> ('s, serviceFailure, string \<times> oidVerifier) op" where
  "patchVerifierMetadata A walletId clientMetadata =
     andThen (atWallet A walletId (\<lambda>agent. patchVerifierOid4vpMetadata agent walletId clientMetadata)) (\<lambda>r.
     ret (walletId, r))"

section \<open>The holder\<close>

definition receiveOffer ::
  "('s, 'v, 'o, 'q, 'r) holderApi agentStore \<Rightarrow> string \<Rightarrow> string \<Rightarrow>
    ('s, serviceFailure, 'v heldRecord list \<times> json list) op" where
  "receiveOffer A walletId offerUri = atWallet A walletId (\<lambda>agent. receiveCredentialOffer agent offerUri)"

text \<open>The answer of the verifier; without one no credential satisfied the request.\<close>

definition presentCredential ::
  "('s, 'v, 'o, ('v, 'd) resolvedRequest, ('v, 'k) selection) holderApi agentStore \<Rightarrow> ('d \<Rightarrow> string + 'k) \<Rightarrow>
    string \<Rightarrow> string \<Rightarrow> ('s, openIdFailure, json) op" where
  "presentCredential A selectForDcql walletId requestUri =
     andThen (asWalletFailure (atWallet A walletId (\<lambda>agent. submitPresentation agent selectForDcql requestUri))) (\<lambda>answer.
     if isTruthy answer then ret (coalesce answer JNull) else throw NoMatchingCredential)"

end
