(* ===== verification/IssuanceProps.thy ===== *)
theory IssuanceProps
  imports OpenIdServices VerifierProps
begin

text \<open>
  From an offer to the verdict of a verifier: the credential issued for an offer refers to the
  index the offer allocated, so that a revocation of that index reaches it, and what the claims of
  an offer can do to that reference.
\<close>

section \<open>What is relied on\<close>

text \<open>
  The framework keeps a session as it creates it, with the metadata of the offer, and the library
  of status lists reads the reference of a credential from the \<open>status\<close> of its payload.
\<close>

definition sessions_kept :: "'s issuerApi agentStore \<Rightarrow> ('s \<Rightarrow> string \<rightharpoonup> issuanceSession) \<Rightarrow> bool" where
  "sessions_kept A sessions \<longleftrightarrow>
     (\<forall>openTenant t ag. rootAgent A = Some openTenant \<and> openTenant t = Inr ag \<longrightarrow>
       (\<forall>fo s u ses s'. ia_createCredentialOffer ag fo s = (Inr (u, ses), s') \<longrightarrow>
         iss_issuanceMetadata ses = Some (fo_issuanceMetadata fo) \<and> sessions s' (iss_id ses) = Some ses))"

definition reads_status :: "'l statusLib \<Rightarrow> (json \<Rightarrow> string) \<Rightarrow> bool" where
  "reads_status L signing \<longleftrightarrow>
     (\<forall>p i u. jsonField ''status'' p = Some (buildStatusClaim i u) \<longrightarrow>
       entryFromJwt L (signing p) = Inr \<lparr>idx = i, uri = u\<rparr>)"

section \<open>The payload of a credential\<close>

lemma metadata_fields:
  "jsonField ''status'' (issuanceMetadataOf o') = (if isTruthy (so_status o') then so_status o' else None)"
  "jsonField ''claims'' (issuanceMetadataOf o') = so_claims o'"
  "jsonField ''vct'' (issuanceMetadataOf o') = Some (JStr (so_vct o'))"
  by (auto simp: issuanceMetadataOf_def entryOf_def isTruthy_def split: option.splits)

text \<open>Every field of the payload: the claims come last, so they win.\<close>

lemma payload_field:
  assumes "jsonField ''claims'' metadata = Some (JObj claims)"
  shows "jsonField k (sdJwtPayload metadata did) =
    (case jsonField k (JObj claims) of
       Some v \<Rightarrow> Some v
     | None \<Rightarrow>
         if k = ''status'' then (if isTruthy (jsonField ''status'' metadata) then jsonField ''status'' metadata else None)
         else if k = ''iss'' then Some (JStr did)
         else if k = ''vct'' then Some (coalesce (orElse (jsonField ''vct'' metadata) None) (JStr ''QuarkCredential''))
         else None)"
  unfolding sdJwtPayload_def field_objectOf map_of_rev_append
  using assms by (auto simp: entryOf_def isTruthy_def split: option.splits)

lemma allocated_status:
  "so_status (offerFor walletId dto algs a) = Some (buildStatusClaim (ir_index a) (ir_uri a))"
  by (simp add: offerFor_def buildStatusClaim_def)

lemma offered_claims:
  "cd_claims dto = JObj claims \<Longrightarrow>
    jsonField ''claims'' (issuanceMetadataOf (offerFor walletId dto algs a)) = Some (JObj claims)"
  by (simp only: metadata_fields) (simp add: offerFor_def)

lemma allocated_claims:
  "cd_claims dto = JObj claims \<Longrightarrow> jsonField k (JObj claims) = Some v \<Longrightarrow>
    jsonField k (sdJwtPayload (issuanceMetadataOf (offerFor walletId dto algs a)) did) = Some v"
  by (simp only: payload_field [OF offered_claims]) simp

lemma allocated_payload:
  assumes "cd_claims dto = JObj claims"
  shows "jsonField ''status'' (sdJwtPayload (issuanceMetadataOf (offerFor walletId dto algs a)) did) =
    (case jsonField ''status'' (JObj claims) of
       Some v \<Rightarrow> Some v | None \<Rightarrow> Some (buildStatusClaim (ir_index a) (ir_uri a)))"
  unfolding payload_field [OF offered_claims [OF assms]]
  by (simp add: metadata_fields allocated_status isTruthy_def buildStatusClaim_def split: option.split)

section \<open>A run of the offer\<close>

lemma onWallet_InrE:
  assumes "onWallet m (s, t) = (Inr a, (s', t'))"
  shows "m s = (Inr a, s')" and "t' = t"
  using assms by (auto simp: onWallet_def split: prod.splits sum.splits)

lemma onLists_InrE:
  assumes "onLists m (s, d) = (Inr a, (s', d'))"
  shows "m d = (Inr a, d')" and "s' = s"
  using assms by (auto simp: onLists_def split: prod.splits sum.splits)

lemma atWallet_InrE:
  assumes "atWallet A walletId callback s = (Inr a, s')"
  obtains openTenant tenantId ag where "rootAgent A = Some openTenant"
    and "tenantMap A walletId = Some tenantId" and "openTenant tenantId = Inr ag"
    and "callback ag s = (Inr a, s')"
  using assms
  by (auto simp: atWallet_def split: option.splits if_splits sum.splits prod.splits)

lemma createSdJwtOffer_InrE:
  assumes "createSdJwtOffer A options s = (Inr (offer, sessionId), s')"
  obtains fo session s1 where "ia_createCredentialOffer A fo s1 = (Inr (offer, session), s')"
    and "fo_issuanceMetadata fo = issuanceMetadataOf options" and "sessionId = iss_id session"
proof -
  from assms obtain configurations where
    "buildSdJwtCredentialConfiguration (so_configurationId options) (so_vct options)
       (so_claimsDisplay options) (so_supportedAlgorithms options) = Inr configurations"
    by (auto simp: createSdJwtOffer_def split: sum.splits)
  with assms show thesis
    by (auto simp: createSdJwtOffer_def createCredentialOffer_def elim!: andThen_InrE
        intro!: that split: prod.splits)
qed

lemma createOffer_InrE:
  assumes "createOffer P A V config walletId dto (s, d) = (Inr (offer, sessionId), (s', d'))"
    and "sessions_kept A sessions"
  obtains now a d1 session where
    "issuerAllocateIndex V walletId (cd_vct dto) (offerAllocation now) d = (Inr a, d1)"
    and "sessions s' sessionId = Some session"
    and "iss_issuanceMetadata session = Some (issuanceMetadataOf
      (offerFor walletId dto (coalesce (oc_supportedAlgs config) [''ES256'']) a))"
    and "d' = d1"
proof -
  let ?offer = "offerFor walletId dto (coalesce (oc_supportedAlgs config) [''ES256''])"
  from assms(1) obtain now s1 a d1 where
    alloc: "issuerAllocateIndex V walletId (cd_vct dto) (offerAllocation now) d = (Inr a, d1)"
    and run: "atWallet A walletId (\<lambda>agent. createSdJwtOffer agent (?offer a)) s1 =
      (Inr (offer, sessionId), s')" and d': "d' = d1"
  proof -
    from assms(1) have "andThen (onWallet (pe_now P)) (\<lambda>now.
        andThen (onLists (issuerAllocateIndex V walletId (cd_vct dto) (offerAllocation now))) (\<lambda>allocated.
        onWallet (atWallet A walletId (\<lambda>agent. createSdJwtOffer agent (?offer allocated))))) (s, d) =
        (Inr (offer, sessionId), (s', d'))"
      unfolding createOffer_def by (rule andThen_InrE) (simp add: throwIf_run split: if_splits)
    then obtain now r1 where "andThen (onLists (issuerAllocateIndex V walletId (cd_vct dto) (offerAllocation now)))
        (\<lambda>allocated. onWallet (atWallet A walletId (\<lambda>agent. createSdJwtOffer agent (?offer allocated)))) r1 =
        (Inr (offer, sessionId), (s', d'))" and "onWallet (pe_now P) (s, d) = (Inr now, r1)"
      by (rule andThen_InrE)
    moreover obtain s1 d1 where r1: "r1 = (s1, d1)" by (cases r1)
    ultimately have "d1 = d" and rest: "andThen (onLists (issuerAllocateIndex V walletId (cd_vct dto)
        (offerAllocation now))) (\<lambda>allocated. onWallet (atWallet A walletId (\<lambda>agent.
        createSdJwtOffer agent (?offer allocated)))) (s1, d1) = (Inr (offer, sessionId), (s', d'))"
      using onWallet_InrE by auto
    from rest obtain a r2 where alloc: "onLists (issuerAllocateIndex V walletId (cd_vct dto)
        (offerAllocation now)) (s1, d1) = (Inr a, r2)"
      and run: "onWallet (atWallet A walletId (\<lambda>agent. createSdJwtOffer agent (?offer a))) r2 =
        (Inr (offer, sessionId), (s', d'))"
      by (rule andThen_InrE)
    obtain s2 d2 where r2: "r2 = (s2, d2)" by (cases r2)
    show thesis
      by (rule that [OF _ onWallet_InrE(1) onWallet_InrE(2)])
        (use alloc run r2 \<open>d1 = d\<close> in \<open>auto dest: onLists_InrE\<close>)
  qed
  from run obtain openTenant tenantId ag where ag: "rootAgent A = Some openTenant" "openTenant tenantId = Inr ag"
    and offer: "createSdJwtOffer ag (?offer a) s1 = (Inr (offer, sessionId), s')"
    by (rule atWallet_InrE)
  from offer obtain fo session s2 where
    "ia_createCredentialOffer ag fo s2 = (Inr (offer, session), s')"
    "fo_issuanceMetadata fo = issuanceMetadataOf (?offer a)" "sessionId = iss_id session"
    by (rule createSdJwtOffer_InrE)
  with assms(2) ag alloc d' show thesis
    unfolding sessions_kept_def by (metis that)
qed

lemma verdict_fetch:
  assumes "vfLib VF = vfLib VF'" and "extractReference (vfLib VF) cred = Inr ref"
    and "vfFetch VF (uri ref) = vfFetch VF' (uri ref)"
  shows "verifyCredential VF cred expected = verifyCredential VF' cred expected"
proof -
  from assms(1,3) have "verifierGetStatusList VF (uri ref) noListOptions =
      verifierGetStatusList VF' (uri ref) noListOptions"
    unfolding verifierGetStatusList_def by (simp only:)
  with assms(1,2) show ?thesis by (simp add: verifyCredential_def checkCredential_def)
qed

section \<open>The credential of the session\<close>

lemma mapper_InrE:
  assumes "buildSdJwtCredentialMapper getCreatedDids session keys x = (Inr credential, y)"
    and "iss_issuanceMetadata session = Some (JObj metadata)"
  obtains dids doc k ks alg didUrl where "getCreatedDids ''web'' x = (Inr dids, y)"
    and "firstDocument dids = Some doc" and "keys = k # ks"
    and "getOid4VcSigningDidUrlForAlg doc (keyAlg k) = Inr didUrl"
    and "sc_payload credential = sdJwtPayload (JObj metadata) (upTo (CHR ''#'') didUrl)"
    and "sc_issuerDidUrl credential = didUrl" and "sc_holder credential = k"
  using assms
  by (auto simp: buildSdJwtCredentialMapper_def orThrow_run sdJwtCredentialFor_def extractProofAlg_def
      toSdJwtHolderBinding_def orElse_def elim!: andThen_InrE split: option.splits sum.splits list.splits)

lemma offer_metadata: "\<exists>kvs. issuanceMetadataOf o' = JObj kvs"
  by (simp add: issuanceMetadataOf_def)

text \<open>The \<open>status\<close> of the credential: that of the claims, or the reference the offer allocated.\<close>

lemma issued_status:
  assumes "sessions_kept A sessions" and "cd_claims dto = JObj claims"
    and "createOffer P A V config walletId dto (s, d) = (Inr (offer, sessionId), (s', d'))"
    and "sessions s' sessionId = Some session"
    and "buildSdJwtCredentialMapper getCreatedDids session keys x = (Inr credential, y)"
  obtains now a where
    "issuerAllocateIndex V walletId (cd_vct dto) (offerAllocation now) d = (Inr a, d')"
    and "jsonField ''status'' (sc_payload credential) =
      (case jsonField ''status'' (JObj claims) of
         Some v \<Rightarrow> Some v | None \<Rightarrow> Some (buildStatusClaim (ir_index a) (ir_uri a)))"
    and "\<forall>k v. jsonField k (JObj claims) = Some v \<longrightarrow> jsonField k (sc_payload credential) = Some v"
proof -
  from assms(3,1) obtain now a d1 session' where alloc:
    "issuerAllocateIndex V walletId (cd_vct dto) (offerAllocation now) d = (Inr a, d1)" "d' = d1"
    and session: "sessions s' sessionId = Some session'"
    "iss_issuanceMetadata session' = Some (issuanceMetadataOf
      (offerFor walletId dto (coalesce (oc_supportedAlgs config) [''ES256'']) a))"
    by (rule createOffer_InrE)
  obtain kvs where kvs: "issuanceMetadataOf
      (offerFor walletId dto (coalesce (oc_supportedAlgs config) [''ES256'']) a) = JObj kvs"
    using offer_metadata by blast
  from session assms(4) kvs have "iss_issuanceMetadata session = Some (JObj kvs)" by simp
  from assms(5) this obtain didUrl where
    payload: "sc_payload credential = sdJwtPayload (JObj kvs) (upTo (CHR ''#'') didUrl)"
    by (rule mapper_InrE)
  show thesis
    by (rule that [of now a])
      (use alloc allocated_payload [OF assms(2)] allocated_claims [OF assms(2)] in
        \<open>simp_all only: payload kvs [symmetric] simp_thms\<close>, blast?)
qed

text \<open>
  C1. The credential that is issued for an offer can be revoked: when the claims have no field
  \<open>status\<close>, the signed credential refers to the index and the address the offer allocated in the
  list of the wallet, and after a revocation of that index every verifier that downloads a list
  published from then on rejects it.
\<close>

theorem revoked_offer_rejected:
  assumes "rev_env_ok V" and "sessions_kept A sessions" and "reads_status (rvLib V) signing"
    and "cd_claims dto = JObj claims" and "jsonField ''status'' (JObj claims) = None"
    and "createOffer P A V config walletId dto (s, d) = (Inr (offer, sessionId), (s', d'))"
    and "sessions s' sessionId = Some session"
    and "buildSdJwtCredentialMapper getCreatedDids session keys x = (Inr credential, y)"
  shows "\<exists>now a. issuerAllocateIndex V walletId (cd_vct dto) (offerAllocation now) d = (Inr a, d') \<and>
    entryFromJwt (rvLib V) (signing (sc_payload credential)) = Inr \<lparr>idx = ir_index a, uri = ir_uri a\<rparr> \<and>
    (\<forall>params d1 r t ttl ex j v VF expected.
      rev_inv V d1 \<and> rp_walletId params = walletId \<and> rp_vct params = cd_vct dto \<and>
      rp_index params = ir_index a \<and> revoke V params d1 = (Inr r, t) \<and>
      getStatusListJwt V walletId (cd_vct dto) ttl ex t = (Inr j, v) \<and> vfLib VF = rvLib V \<and>
      served VF (ir_uri a) (sj_jwt j) \<longrightarrow>
      \<not> vd_valid (verifyCredential VF (signing (sc_payload credential)) expected))"
proof -
  from assms(2,4,6-8) obtain now a where
    alloc: "issuerAllocateIndex V walletId (cd_vct dto) (offerAllocation now) d = (Inr a, d')"
    and "jsonField ''status'' (sc_payload credential) =
      (case jsonField ''status'' (JObj claims) of
         Some v \<Rightarrow> Some v | None \<Rightarrow> Some (buildStatusClaim (ir_index a) (ir_uri a)))"
    by (rule issued_status)
  with assms(5) have "jsonField ''status'' (sc_payload credential) =
      Some (buildStatusClaim (ir_index a) (ir_uri a))" by simp
  with assms(3) have entry: "entryFromJwt (rvLib V) (signing (sc_payload credential)) =
      Inr \<lparr>idx = ir_index a, uri = ir_uri a\<rparr>"
    unfolding reads_status_def by blast
  have "\<not> vd_valid (verifyCredential VF (signing (sc_payload credential)) expected)"
    if "rev_inv V d1" "rp_walletId params = walletId" "rp_vct params = cd_vct dto"
      "rp_index params = ir_index a" "revoke V params d1 = (Inr r, t)"
      "getStatusListJwt V walletId (cd_vct dto) ttl ex t = (Inr j, v)" "vfLib VF = rvLib V"
      "served VF (ir_uri a) (sj_jwt j)" for params d1 r t ttl ex j v VF expected
    using revoked_rejected [OF assms(1) that(1,5), of ttl ex j v VF _ "ir_uri a" expected] that entry by simp
  with alloc entry show ?thesis by blast
qed

text \<open>
  The claims of an offer are written after the fields of the issuer and win over them: a claim
  \<open>status\<close> with the reference of any other list makes the credential refer to that list instead of
  the index the offer allocated, so that no revocation of that index reaches it, and a claim
  \<open>iss\<close> replaces the issuer that signs.
\<close>

theorem claims_replace_status:
  assumes "sessions_kept A sessions" and "reads_status (rvLib V) signing"
    and "cd_claims dto = JObj claims"
    and "jsonField ''status'' (JObj claims) = Some (buildStatusClaim i u)"
    and "createOffer P A V config walletId dto (s, d) = (Inr (offer, sessionId), (s', d'))"
    and "sessions s' sessionId = Some session"
    and "buildSdJwtCredentialMapper getCreatedDids session keys x = (Inr credential, y)"
  shows "entryFromJwt (rvLib V) (signing (sc_payload credential)) = Inr \<lparr>idx = i, uri = u\<rparr> \<and>
    (\<forall>k v. jsonField k (JObj claims) = Some v \<longrightarrow> jsonField k (sc_payload credential) = Some v) \<and>
    (\<forall>VF VF' expected. vfLib VF = rvLib V \<and> vfLib VF' = rvLib V \<and> vfFetch VF u = vfFetch VF' u \<longrightarrow>
      verifyCredential VF (signing (sc_payload credential)) expected =
      verifyCredential VF' (signing (sc_payload credential)) expected)"
proof -
  from assms(1,3,5-7) have
    claims: "\<forall>k v. jsonField k (JObj claims) = Some v \<longrightarrow> jsonField k (sc_payload credential) = Some v"
    by (rule issued_status)
  with assms(4) have "jsonField ''status'' (sc_payload credential) = Some (buildStatusClaim i u)" by blast
  with assms(2) have entry: "entryFromJwt (rvLib V) (signing (sc_payload credential)) = Inr \<lparr>idx = i, uri = u\<rparr>"
    unfolding reads_status_def by blast
  then have "verifyCredential VF (signing (sc_payload credential)) expected =
      verifyCredential VF' (signing (sc_payload credential)) expected"
    if "vfLib VF = rvLib V" "vfLib VF' = rvLib V" "vfFetch VF u = vfFetch VF' u" for VF VF' expected
    by (intro verdict_fetch [where ref = "\<lparr>idx = i, uri = u\<rparr>"])
      (use that in \<open>simp_all add: extractReference_def\<close>)
  with entry claims show ?thesis by blast
qed

section \<open>Samples\<close>

definition sampleEntry :: "string \<Rightarrow> string + statusListEntry" where
  "sampleEntry jwt =
     (case Option.bind (Option.bind (jsonParse jwt) (jsonField ''status'')) (jsonField ''status_list'') of
        None \<Rightarrow> Inl ''no status''
      | Some c \<Rightarrow>
          (case (jsonField ''idx'' c, jsonField ''uri'' c) of
             (Some (JNum i), Some (JStr u)) \<Rightarrow> Inr \<lparr>idx = i, uri = u\<rparr>
           | _ \<Rightarrow> Inl ''no reference''))"

definition offerRev :: "(int list \<times> int) revEnv" where
  "offerRev = sampleRev\<lparr>rvLib := (rvLib sampleRev)\<lparr>entryFromJwt := sampleEntry\<rparr>\<rparr>"

lemma lib_ok_entry: "lib_ok (L\<lparr>entryFromJwt := f\<rparr>) = lib_ok L"
  by (simp add: lib_ok_def lib_constructs_def lib_reads_def lib_writes_def lib_codec_def lib_payloads_def
      lib_jwts_def inRange_def well_formed_def)

lemma offerRev_ok: "rev_env_ok offerRev"
  using sampleRev_ok by (auto simp: offerRev_def rev_env_ok_def lib_ok_entry)

lemma offerRev_reads: "reads_status (rvLib offerRev) stringify"
  by (auto simp: reads_status_def offerRev_def sampleEntry_def buildStatusClaim_def)

definition sampleIssuer :: "issuanceSession list issuerApi" where
  "sampleIssuer =
     \<lparr>ia_getIssuerByIssuerId = (\<lambda>i. ret \<lparr>oi_issuerId = i, oi_display = None, oi_configurations = [],
        oi_dpop = None, oi_batch = None, oi_authorizationServers = None\<rparr>),
      ia_getAllIssuers = ret [], ia_updateIssuerMetadata = (\<lambda>_. ret ()),
      ia_createIssuer = (\<lambda>_ _. throw ''exists''),
      ia_createCredentialOffer = (\<lambda>fo s.
        let session = \<lparr>iss_id = natStr (length s), iss_issuanceMetadata = Some (fo_issuanceMetadata fo)\<rparr>
        in (Inr (''openid-credential-offer://1'', session), session # s)),
      ia_getIssuanceSessionById = (\<lambda>_. throw ''none''), ia_getCreatedDids = (\<lambda>_. ret [])\<rparr>"

definition sampleIssuers :: "issuanceSession list issuerApi agentStore" where
  "sampleIssuers = \<lparr>rootAgent = Some (\<lambda>_. Inr sampleIssuer), tenantMap = [''w'' \<mapsto> ''t1'']\<rparr>"

definition sampleSessions :: "issuanceSession list \<Rightarrow> string \<rightharpoonup> issuanceSession" where
  "sampleSessions s = map_of (map (\<lambda>x. (iss_id x, x)) s)"

lemma sampleIssuers_keep: "sessions_kept sampleIssuers sampleSessions"
  by (auto simp: sessions_kept_def sampleIssuers_def sampleIssuer_def sampleSessions_def Let_def)

definition sampleClock :: "issuanceSession list processEnv" where
  "sampleClock = \<lparr>pe_now = ret 7, pe_uuid = ret ''u1''\<rparr>"

definition sampleOfferDto :: "(string \<times> json) list \<Rightarrow> createOfferDto" where
  "sampleOfferDto claims =
     \<lparr>cd_credentialConfigurationId = ''c'', cd_vct = ''v'', cd_claims = JObj claims, cd_disclosureFrame = None,
      cd_claimsDisplay = None, cd_preAuthorizedCode = None\<rparr>"

text \<open>An allocation does not read a credential, so that the sample library serves it.\<close>

lemma library_entry:
  "decompress (L\<lparr>entryFromJwt := f\<rparr>) = decompress L" "compress (L\<lparr>entryFromJwt := f\<rparr>) = compress L"
  "listStatus (L\<lparr>entryFromJwt := f\<rparr>) = listStatus L" "setStatus (L\<lparr>entryFromJwt := f\<rparr>) = setStatus L"
  "createEmptyList (L\<lparr>entryFromJwt := f\<rparr>) = createEmptyList L"
  "getCapacity (L\<lparr>entryFromJwt := f\<rparr>) = getCapacity L"
  by (simp_all add: fun_eq_iff decompress_def compress_def listStatus_def setStatus_def createEmptyList_def
      getCapacity_def)

lemma scanFree_entry: "scanFree (L\<lparr>entryFromJwt := f\<rparr>) list i = scanFree L list i"
  by (induction L list i rule: scanFree.induct)
    (subst (1 2) scanFree.simps, auto simp: library_entry split: sum.splits)

lemma chooseIndex_entry: "chooseIndex (L\<lparr>entryFromJwt := f\<rparr>) = chooseIndex L"
proof -
  have "findFreeIndex (L\<lparr>entryFromJwt := f\<rparr>) = findFreeIndex L"
    by (simp add: fun_eq_iff findFreeIndex_def scanFree_entry)
  then show ?thesis unfolding chooseIndex_def [abs_def] by (simp only: library_entry)
qed

lemma offer_allocated:
  assumes "issueAt None s = Some (a, s')"
    and "\<not> isl (fst (commitAllocation sampleRev \<lparr>al_walletId = ''w'', al_vct = ''v'',
      al_credentialId = ao_credentialId (offerAllocation now), al_preferredIndex = None\<rparr> a s'))"
  shows "\<exists>r t. issuerAllocateIndex offerRev ''w'' ''v'' (offerAllocation now) s = (Inr r, t)"
proof -
  let ?p = "\<lparr>al_walletId = ''w'', al_vct = ''v'',
      al_credentialId = ao_credentialId (offerAllocation now), al_preferredIndex = None\<rparr>"
  from assms(1) obtain info list i list' where
      "findByWalletAndVct (\<lambda>_. None) ''w'' ''v'' s = (Inr (Some info), s')"
      "decompress sampleLib (li_compressed info) (li_bits info) = Inr list"
      "chooseIndex sampleLib list info (NoFreeIndexError ''w'' ''v'' (li_capacity info)) None = Inr i"
      "setStatus sampleLib list i STATUS_TYPE_VALID = Inr list'"
      "a = \<lparr>ac_list = info, ac_index = i, ac_compressed = compress sampleLib list',
        ac_uri = rvUri sampleRev ''w'' ''v'' (sg_did sampleSigner)\<rparr>"
    by (auto simp: issueAt_def split: prod.splits sum.splits option.splits)
  moreover have "rvLib offerRev = sampleLib\<lparr>entryFromJwt := sampleEntry\<rparr>" "rvFaults offerRev = (\<lambda>_. None)"
      "rvSigners offerRev ''w'' = Inr sampleSigner" "rvUri offerRev = rvUri sampleRev"
    by (simp_all add: offerRev_def sampleRev_def sampleSigner_def)
  ultimately have "planAllocation offerRev ?p s = (Inr a, s')"
    using planAllocation_found [of offerRev ?p sampleSigner s info s' list i list']
    by (simp add: library_entry chooseIndex_entry)
  moreover have "commitAllocation offerRev ?p = commitAllocation sampleRev ?p"
    unfolding commitAllocation_def allocationTx_def publishEvent_def
    by (simp add: offerRev_def sampleRev_def cong: if_cong)
  ultimately have "issuerAllocateIndex offerRev ''w'' ''v'' (offerAllocation now) s =
      commitAllocation sampleRev ?p a s'"
    by (simp add: issuerAllocateIndex_def allocateIndex_def andThen_def offerAllocation_def)
  with run_Inr [OF assms(2)] show ?thesis by metis
qed

lemma sample_allocated:
  "\<exists>r t. issuerAllocateIndex offerRev ''w'' ''v'' (offerAllocation 7) (sampleStore zeros 3) = (Inr r, t)"
proof -
  let ?i = "the (issueAt None (sampleStore zeros 3))"
  have "issueAt None (sampleStore zeros 3) \<noteq> None" by code_simp
  then have "issueAt None (sampleStore zeros 3) = Some (fst ?i, snd ?i)" by auto
  moreover have "\<not> isl (fst (commitAllocation sampleRev \<lparr>al_walletId = ''w'', al_vct = ''v'',
      al_credentialId = ao_credentialId (offerAllocation 7), al_preferredIndex = None\<rparr> (fst ?i) (snd ?i)))"
    by code_simp
  ultimately show ?thesis by (rule offer_allocated)
qed

text \<open>The offer of a credential, and the credential itself.\<close>

definition sampleOfferRun ::
  "(string \<times> json) list \<Rightarrow> (openIdFailure + string \<times> string) \<times> issuanceSession list \<times> statusDb" where
  "sampleOfferRun claims = createOffer sampleClock sampleIssuers offerRev
     \<lparr>oc_oid4vcBaseUrl = Some ''http://i'', oc_supportedAlgs = None\<rparr> ''w'' (sampleOfferDto claims)
     ([], sampleStore zeros 3)"

lemma sample_offer:
  "\<exists>session d'. sampleOfferRun claims = (Inr (''openid-credential-offer://1'', natStr 0), ([session], d')) \<and>
    iss_id session = natStr 0"
proof -
  obtain r t where "issuerAllocateIndex offerRev ''w'' ''v'' (offerAllocation 7) (sampleStore zeros 3) = (Inr r, t)"
    using sample_allocated by blast
  then show ?thesis
    by (simp add: sampleOfferRun_def createOffer_def sampleClock_def sampleIssuers_def atWallet_def onWallet_def
        onLists_def truthyText_def sampleOfferDto_def op_simps createSdJwtOffer_def sampleIssuer_def
        offerFor_def buildSdJwtCredentialConfiguration_def isTruthy_def ensureIssuer_def
        createCredentialOffer_def Let_def)
qed

definition sampleDids :: "string \<Rightarrow> (unit, string, storedDid list) op" where
  "sampleDids m = ret [\<lparr>sd_id = ''d'', sd_did = ''did:web:w'', sd_keys = None, sd_didDocument = Some
     \<lparr>dd_context = [], dd_id = ''did:web:w'', dd_verificationMethod = [], dd_authentication = None,
      dd_assertionMethod = Some [MethodId ''did:web:w#key-p256''], dd_keyAgreement = None, dd_service = None\<rparr>\<rparr>]"

lemma sample_issued:
  assumes "iss_issuanceMetadata session = Some (JObj metadata)"
  shows "\<exists>c. buildSdJwtCredentialMapper sampleDids session [JwkKey (JObj [])] () = (Inr c, ())"
proof -
  have "withSuffix ''#key-p256'' [MethodId ''did:web:w#key-p256''] = Some ''did:web:w#key-p256''" by code_simp
  with assms show ?thesis
    by (simp add: buildSdJwtCredentialMapper_def sampleDids_def andThen_run firstDocument_def orThrow_run
        sdJwtCredentialFor_def extractProofAlg_def keyAlg_def getOid4VcSigningDidUrlForAlg_def
        toSdJwtHolderBinding_def orElse_def)
qed

lemma sample_credential:
  obtains session s' d' c where
    "sampleOfferRun claims = (Inr (''openid-credential-offer://1'', natStr 0), (s', d'))"
    and "sampleSessions s' (natStr 0) = Some session"
    and "buildSdJwtCredentialMapper sampleDids session [JwkKey (JObj [])] () = (Inr c, ())"
proof -
  obtain s' d' where run:
    "sampleOfferRun claims = (Inr (''openid-credential-offer://1'', natStr 0), (s', d'))"
    using sample_offer [of claims] by blast
  from createOffer_InrE [OF run [unfolded sampleOfferRun_def] sampleIssuers_keep]
  obtain session o' where "sampleSessions s' (natStr 0) = Some session"
    and "iss_issuanceMetadata session = Some (issuanceMetadataOf o')" by metis
  with run sample_issued that offer_metadata [of o'] show thesis by metis
qed

theorem revoked_offer_rejected_witness:
  "\<exists>(c :: sdJwtCredential) a now d'. issuerAllocateIndex offerRev ''w'' ''v'' (offerAllocation now) (sampleStore zeros 3) = (Inr a, d') \<and>
    entryFromJwt (rvLib offerRev) (stringify (sc_payload c)) = Inr \<lparr>idx = ir_index a, uri = ir_uri a\<rparr>"
proof -
  obtain session s' d' c where run: "createOffer sampleClock sampleIssuers offerRev
      \<lparr>oc_oid4vcBaseUrl = Some ''http://i'', oc_supportedAlgs = None\<rparr> ''w''
      (sampleOfferDto [(''name'', JStr ''Ana'')]) ([], sampleStore zeros 3) =
      (Inr (''openid-credential-offer://1'', natStr 0), (s', d'))"
    and session: "sampleSessions s' (natStr 0) = Some session"
      "buildSdJwtCredentialMapper sampleDids session [JwkKey (JObj [])] () = (Inr c, ())"
    by (rule sample_credential [unfolded sampleOfferRun_def])
  have dto: "cd_claims (sampleOfferDto [(''name'', JStr ''Ana'')]) = JObj [(''name'', JStr ''Ana'')]"
      "cd_vct (sampleOfferDto [(''name'', JStr ''Ana'')]) = ''v''"
    by (simp_all add: sampleOfferDto_def)
  from revoked_offer_rejected [OF offerRev_ok sampleIssuers_keep offerRev_reads dto(1) _ run session]
  show ?thesis unfolding dto by auto
qed

definition foreignStatus :: "(string \<times> json) list" where
  "foreignStatus = [(''status'', buildStatusClaim 0 ''https://elsewhere'')]"

theorem claims_replace_status_witness:
  "\<exists>c :: sdJwtCredential. entryFromJwt (rvLib offerRev) (stringify (sc_payload c)) = Inr \<lparr>idx = 0, uri = ''https://elsewhere''\<rparr>"
proof -
  obtain session s' d' c where run: "createOffer sampleClock sampleIssuers offerRev
      \<lparr>oc_oid4vcBaseUrl = Some ''http://i'', oc_supportedAlgs = None\<rparr> ''w''
      (sampleOfferDto foreignStatus) ([], sampleStore zeros 3) =
      (Inr (''openid-credential-offer://1'', natStr 0), (s', d'))"
    and session: "sampleSessions s' (natStr 0) = Some session"
      "buildSdJwtCredentialMapper sampleDids session [JwkKey (JObj [])] () = (Inr c, ())"
    by (rule sample_credential [unfolded sampleOfferRun_def])
  have "cd_claims (sampleOfferDto foreignStatus) = JObj foreignStatus"
    by (simp add: sampleOfferDto_def)
  from claims_replace_status [OF sampleIssuers_keep offerRev_reads this _ run session,
      of 0 "''https://elsewhere''"]
  show ?thesis by (auto simp: foreignStatus_def)
qed

end
