(* ===== verification/OpenIdProps.thy ===== *)
theory OpenIdProps
  imports OpenIdServices DidProps
begin

text \<open>
  The metadata of an issuer under offers, the credential a wallet signs for a holder of the
  platform, and the credentials a holder presents.
\<close>

section \<open>Objects that are merged\<close>

lemma distinct_putEntry: "distinct (map fst kvs) \<Longrightarrow> distinct (map fst (putEntry k v kvs))"
  by (auto simp: putEntry_def distinct_update distinct_delete split: option.split)

lemma field_putEntry:
  assumes "distinct (map fst kvs)"
  shows "jsonField k (JObj (putEntry k' v kvs)) = (if k = k' then v else jsonField k (JObj kvs))"
  using distinct_putEntry [OF assms, of k' v] assms
  by (auto simp: map_of_rev_distinct putEntry_def update_conv' delete_conv' split: option.split)

lemma field_mergeConfiguration:
  "jsonField k (mergeConfiguration pref new (JObj old)) =
    (if k = ''claims'' then mergedClaims new (JObj old)
     else if k = ''display'' then mergedDisplay pref new (JObj old)
     else case map_of (rev (spreadOf new)) k of Some v \<Rightarrow> Some v | None \<Rightarrow> jsonField k (JObj old))"
proof -
  have "jsonField k (JObj (objectOf (old @ spreadOf new))) =
      (case map_of (rev (spreadOf new)) k of Some v \<Rightarrow> Some v | None \<Rightarrow> jsonField k (JObj old))"
    unfolding field_objectOf map_of_rev_append by (simp split: option.split)
  then show ?thesis
    by (simp add: mergeConfiguration_def field_putEntry distinct_putEntry distinct_objectOf del: jsonField.simps)
qed

lemma merge_lookup:
  assumes "distinct (map fst kvs)"
  shows "map_of (mergeCredentialConfigurationsSupported existing (Some kvs) pref) k =
    (case map_of kvs k of
       None \<Rightarrow> map_of existing k
     | Some v \<Rightarrow>
         if \<not> isTruthy (Some v) then map_of existing k
         else if \<not> isTruthy (map_of existing k) then Some v
         else Some (mergeConfiguration pref v (the (map_of existing k))))"
  using assms
proof (induction kvs arbitrary: existing)
  case Nil
  show ?case by (simp add: mergeCredentialConfigurationsSupported_def)
next
  case (Cons e kvs)
  obtain i v where e: "e = (i, v)" by (cases e)
  have step: "mergeCredentialConfigurationsSupported existing (Some (e # kvs)) pref =
      mergeCredentialConfigurationsSupported (mergeEntry pref e existing) (Some kvs) pref"
    by (simp add: mergeCredentialConfigurationsSupported_def)
  have "map_of kvs i = None" using Cons.prems e by (simp add: map_of_eq_None_iff)
  moreover have "distinct (map fst kvs)" using Cons.prems by simp
  ultimately show ?case
    unfolding step Cons.IH [OF \<open>distinct (map fst kvs)\<close>]
    by (auto simp: e mergeEntry_def update_conv' split: option.split)
qed

lemma claimDisplays_keys: "claimDisplays es = Some ds \<Longrightarrow> map fst ds = map fst es"
  by (induction es arbitrary: ds) (auto split: option.splits)

lemma claimDisplays_mandatory:
  "claimDisplays es = Some ds \<Longrightarrow> (c, d) \<in> set ds \<Longrightarrow> jsonField ''mandatory'' d = Some (JBool False)"
proof (induction es arbitrary: ds)
  case (Cons e es)
  then show ?case
    by (cases e) (auto simp: claimDisplay_def split: option.splits if_splits)
qed simp

lemma claimDisplays_total: "\<forall>(c, info) \<in> set es. info \<noteq> JNull \<Longrightarrow> \<exists>ds. claimDisplays es = Some ds"
  by (induction es) (auto simp: claimDisplay_def)

text \<open>What an offer describes: nothing, or the claims of its display.\<close>

definition describes :: "json option \<Rightarrow> (string \<times> json) list \<Rightarrow> bool" where
  "describes claimsDisplay described \<longleftrightarrow>
     (claimsDisplay = None \<and> described = [] \<or> claimsDisplay = Some (JObj described)) \<and>
     (\<forall>(c, info) \<in> set described. info \<noteq> JNull)"

lemma configuration_built:
  assumes "describes claimsDisplay described"
  obtains subject ds where "buildSdJwtCredentialConfiguration configurationId vct claimsDisplay algs =
      Inr [(configurationId, sdJwtConfiguration vct subject algs)]"
    and "subject = [] \<and> ds = [] \<or> subject = [(''claims'', JObj (objectOf ds))]"
    and "map fst ds = map fst described"
    and "\<And>c d. (c, d) \<in> set ds \<Longrightarrow> jsonField ''mandatory'' d = Some (JBool False)"
proof (cases "claimsDisplay = None")
  case True
  with assms that [of "[]" "[]"] show thesis
    by (simp add: describes_def buildSdJwtCredentialConfiguration_def isTruthy_def)
next
  case False
  with assms have cd: "claimsDisplay = Some (JObj described)" by (auto simp: describes_def)
  obtain ds where ds: "claimDisplays described = Some ds"
    using assms claimDisplays_total unfolding describes_def by blast
  show thesis
    by (rule that [of "[(''claims'', JObj (objectOf ds))]" ds])
      (use cd ds claimDisplays_keys [OF ds] claimDisplays_mandatory [OF ds] in
        \<open>simp_all add: buildSdJwtCredentialConfiguration_def isTruthy_def\<close>)
qed

lemma sdJwtConfiguration_truthy: "isTruthy (Some (sdJwtConfiguration vct subject algs))"
  by (simp add: sdJwtConfiguration_def Let_def isTruthy_def)

text \<open>
  What an offer writes itself into the configuration it offers, whatever was there before.
\<close>

definition writtenFields :: "string \<Rightarrow> string list option \<Rightarrow> (string \<times> json) list" where
  "writtenFields vct algs =
     [(''format'', JStr ''dc+sd-jwt''), (''vct'', JStr vct),
      (''cryptographic_binding_methods_supported'', JArr [JStr ''did:jwk'', JStr ''jwk'']),
      (''credential_signing_alg_values_supported'', JArr (map JStr (coalesce algs [''ES256'']))),
      (''proof_types_supported'', JObj [(''jwt'', JObj [(''proof_signing_alg_values_supported'',
         JArr (map JStr (coalesce algs [''ES256''])))])])]"

lemma configuration_field:
  assumes "subject = [] \<and> ds = [] \<or> subject = [(''claims'', JObj (objectOf ds))]"
  shows "map_of (rev (spreadOf (sdJwtConfiguration vct subject algs))) k =
    (if k = ''claims'' then map_of subject k else map_of (writtenFields vct algs) k)"
proof -
  let ?kvs = "spreadOf (sdJwtConfiguration vct subject algs)"
  have "distinct (map fst ?kvs)" using assms by (auto simp: sdJwtConfiguration_def Let_def)
  then have "map_of (rev ?kvs) k = map_of ?kvs k" by (rule map_of_rev_distinct)
  also have "\<dots> = (if k = ''claims'' then map_of subject k else map_of (writtenFields vct algs) k)"
    using assms by (cases "k = ''claims''")
      (elim disjE conjE; simp add: sdJwtConfiguration_def Let_def writtenFields_def)+
  finally show ?thesis .
qed

lemma configuration_json:
  "jsonField k (sdJwtConfiguration vct subject algs) = map_of (rev (spreadOf (sdJwtConfiguration vct subject algs))) k"
  by (simp add: sdJwtConfiguration_def Let_def)

lemma configuration_shown:
  assumes "subject = [] \<and> ds = [] \<or> subject = [(''claims'', JObj (objectOf ds))]"
  shows "jsonField ''display'' (sdJwtConfiguration vct subject algs) = None"
    and "jsonField ''claims'' (sdJwtConfiguration vct subject algs) = map_of subject ''claims''"
  unfolding configuration_json configuration_field [OF assms] by (simp_all add: writtenFields_def)

text \<open>
  The configuration after an offer: what the offer writes is overwritten; the display stays, and so
  does every claim the offer does not describe and every other field.
\<close>

definition syncedConfiguration ::
  "sdJwtOffer \<Rightarrow> (string \<times> json) list \<Rightarrow> (string \<times> json) list \<Rightarrow> (string \<times> json) list \<Rightarrow> json \<Rightarrow> bool" where
  "syncedConfiguration options described old cs new \<longleftrightarrow>
     (\<forall>k. k \<noteq> ''claims'' \<and> k \<noteq> ''display'' \<longrightarrow> jsonField k new =
       (case map_of (writtenFields (so_vct options) (so_supportedAlgorithms options)) k of
          Some v \<Rightarrow> Some v | None \<Rightarrow> jsonField k (JObj old))) \<and>
     jsonField ''display'' new =
       (if jsonField ''display'' (JObj old) = Some JNull then None else jsonField ''display'' (JObj old)) \<and>
     (\<forall>c. c \<notin> fst ` set described \<longrightarrow>
       chainedField c (jsonField ''claims'' new) = jsonField c (JObj cs)) \<and>
     (\<forall>c \<in> fst ` set described. \<exists>d. chainedField c (jsonField ''claims'' new) = Some d \<and>
       jsonField ''mandatory'' d = Some (JBool False))"

lemma merged_synced:
  assumes "subject = [] \<and> ds = [] \<or> subject = [(''claims'', JObj (objectOf ds))]"
    and "map fst ds = map fst described"
    and "\<And>c d. (c, d) \<in> set ds \<Longrightarrow> jsonField ''mandatory'' d = Some (JBool False)"
    and "jsonField ''claims'' (JObj old) = Some (JObj cs) \<or> jsonField ''claims'' (JObj old) = None \<and> cs = []"
  shows "syncedConfiguration options described old cs
    (mergeConfiguration False (sdJwtConfiguration (so_vct options) subject (so_supportedAlgorithms options)) (JObj old))"
    (is "syncedConfiguration _ _ _ _ ?new")
proof -
  note f = configuration_field [OF assms(1)] configuration_shown [OF assms(1)]
  have keys: "c \<in> fst ` set described \<longleftrightarrow> map_of (rev ds) c \<noteq> None" for c
    using assms(2) by (metis list.set_map map_of_eq_None_iff set_rev)
  have given: "jsonField ''mandatory'' d = Some (JBool False)" if "map_of (rev ds) c = Some d" for c d
    using assms(3) map_of_SomeD [OF that] by simp
  have claims: "chainedField c (jsonField ''claims'' ?new) =
      (case map_of (rev ds) c of Some d \<Rightarrow> Some d | None \<Rightarrow> jsonField c (JObj cs))" for c
    using assms(1)
  proof
    assume s: "subject = [] \<and> ds = []"
    have "jsonField ''claims'' ?new = jsonField ''claims'' (JObj old)"
      by (simp add: field_mergeConfiguration mergedClaims_def f(3) s [THEN conjunct1] del: jsonField.simps)
        (simp add: s f(3) [unfolded s [THEN conjunct1]])
    then show ?thesis using assms(4) s by (auto simp: chainedField_def)
  next
    assume s: "subject = [(''claims'', JObj (objectOf ds))]"
    have "spreadOf (coalesce (jsonField ''claims'' (JObj old)) JNull) = cs"
      using assms(4) by auto
    moreover have "jsonField ''claims'' (sdJwtConfiguration (so_vct options) subject
        (so_supportedAlgorithms options)) = Some (JObj (objectOf ds))"
      by (subst f(3)) (simp add: s)
    ultimately have "jsonField ''claims'' ?new = Some (JObj (objectOf (cs @ objectOf ds)))"
      by (simp add: field_mergeConfiguration mergedClaims_def del: jsonField.simps)
    then have "chainedField c (jsonField ''claims'' ?new) = map_of (rev (cs @ objectOf ds)) c"
      by (simp add: chainedField_def field_objectOf del: jsonField.simps)
    moreover have "map_of (rev (objectOf ds)) c = map_of (rev ds) c"
      using field_objectOf [of c ds] by simp
    ultimately show ?thesis by (simp only: map_of_rev_append jsonField.simps)
  qed
  have d: "jsonField ''display'' ?new = (if jsonField ''display'' (JObj old) = Some JNull then None
      else jsonField ''display'' (JObj old))"
    by (auto simp: field_mergeConfiguration mergedDisplay_def f(2) orElse_def simp del: jsonField.simps
        split: option.splits json.splits)
  have k: "jsonField k ?new = (case map_of (writtenFields (so_vct options) (so_supportedAlgorithms options)) k of
      Some v \<Rightarrow> Some v | None \<Rightarrow> jsonField k (JObj old))" if "k \<noteq> ''claims'' \<and> k \<noteq> ''display''" for k
    unfolding field_mergeConfiguration f(1) using that by (simp only: if_False simp_thms)
  have c: "chainedField c (jsonField ''claims'' ?new) = jsonField c (JObj cs)"
    if "c \<notin> fst ` set described" for c
    using that unfolding claims keys by auto
  have m: "\<exists>d. chainedField c (jsonField ''claims'' ?new) = Some d \<and>
      jsonField ''mandatory'' d = Some (JBool False)" if "c \<in> fst ` set described" for c
    using that given unfolding claims keys by auto
  show ?thesis
    unfolding syncedConfiguration_def
    by (intro conjI allI impI ballI; (rule d | erule k | erule c | erule m))
qed

text \<open>
  C6. What an offer does to the metadata of the issuer it is made for, the one it names or, when it
  names none, the first of the wallet: it writes one record back, in which the display, the
  algorithms, the batch size and the servers of the issuer and every other configuration are as they
  were. The configuration it offers is overwritten in its format, its type, its binding methods, its
  algorithms and its proof types; it keeps its visual display, every claim the offer does not
  describe and every other field, and is that of the offer when there was none. The offer is then
  made for the issuer that is read back.
\<close>

theorem offer_keeps_metadata:
  assumes "describes (so_claimsDisplay options) described"
    and "so_issuerId options = Some (c # i) \<and>
        ia_getIssuerByIssuerId A (c # i) s = (Inr existing, s1) \<or>
      so_issuerId options = None \<and> ia_getAllIssuers A s = (Inr (existing # others), s1)"
  shows "\<exists>updated. oi_issuerId updated = oi_issuerId existing \<and> oi_display updated = oi_display existing \<and>
    oi_dpop updated = oi_dpop existing \<and> oi_batch updated = oi_batch existing \<and>
    oi_authorizationServers updated = oi_authorizationServers existing \<and>
    (\<forall>k. k \<noteq> so_configurationId options \<longrightarrow>
      map_of (oi_configurations updated) k = map_of (oi_configurations existing) k) \<and>
    (\<exists>new. map_of (oi_configurations updated) (so_configurationId options) = Some new \<and>
      (map_of (oi_configurations existing) (so_configurationId options) = None \<longrightarrow>
        syncedConfiguration options described [] [] new) \<and>
      (\<forall>old cs. map_of (oi_configurations existing) (so_configurationId options) = Some (JObj old) \<and>
        (jsonField ''claims'' (JObj old) = Some (JObj cs) \<or> jsonField ''claims'' (JObj old) = None \<and> cs = []) \<longrightarrow>
        syncedConfiguration options described old cs new)) \<and>
    (\<forall>s2. ia_updateIssuerMetadata A updated s1 = (Inr (), s2) \<longrightarrow>
      createSdJwtOffer A options s =
        andThen (ia_getIssuerByIssuerId A (oi_issuerId existing)) (\<lambda>issuerRecord.
        andThen (ia_createCredentialOffer A
          \<lparr>fo_issuerId = oi_issuerId issuerRecord, fo_configurationIds = [so_configurationId options],
           fo_preAuthorizedCode = so_preAuthorizedCode options,
           fo_issuanceMetadata = issuanceMetadataOf options\<rparr>) (\<lambda>(offer, session).
        ret (offer, iss_id session))) s2)"
proof -
  let ?id = "so_configurationId options"
  obtain subject ds where built: "buildSdJwtCredentialConfiguration ?id (so_vct options)
        (so_claimsDisplay options) (so_supportedAlgorithms options) =
      Inr [(?id, sdJwtConfiguration (so_vct options) subject (so_supportedAlgorithms options))]"
    and subject: "subject = [] \<and> ds = [] \<or> subject = [(''claims'', JObj (objectOf ds))]"
    and ds: "map fst ds = map fst described"
      "\<And>c d. (c, d) \<in> set ds \<Longrightarrow> jsonField ''mandatory'' d = Some (JBool False)"
    by (rule configuration_built [OF assms(1), of ?id "so_vct options" "so_supportedAlgorithms options"]) blast
  let ?cfg = "sdJwtConfiguration (so_vct options) subject (so_supportedAlgorithms options)"
  define updated where "updated = updatedIssuer (onlyConfigurations [(?id, ?cfg)]) existing"
  have lookup: "map_of (oi_configurations updated) k =
      (if k = ?id then
         if \<not> isTruthy (map_of (oi_configurations existing) k) then Some ?cfg
         else Some (mergeConfiguration False ?cfg (the (map_of (oi_configurations existing) k)))
       else map_of (oi_configurations existing) k)" for k
    by (simp add: updated_def updatedIssuer_def onlyConfigurations_def merge_lookup sdJwtConfiguration_truthy)
  have fresh: "syncedConfiguration options described [] [] ?cfg"
  proof -
    have obj: "?cfg = JObj (spreadOf ?cfg)" by (simp add: sdJwtConfiguration_def Let_def)
    note f = configuration_field [OF subject] configuration_shown [OF subject]
    have k: "jsonField k ?cfg = (if k = ''claims'' then map_of subject k
        else map_of (writtenFields (so_vct options) (so_supportedAlgorithms options)) k)" for k
      by (subst obj) (simp only: jsonField.simps f(1))
    have keys: "c \<in> fst ` set described \<longleftrightarrow> map_of (rev ds) c \<noteq> None" for c
      using ds(1) by (metis list.set_map map_of_eq_None_iff set_rev)
    have given: "jsonField ''mandatory'' d = Some (JBool False)" if "map_of (rev ds) c = Some d" for c d
      using ds(2) map_of_SomeD [OF that] by simp
    have claims: "chainedField c (jsonField ''claims'' ?cfg) = map_of (rev ds) c" for c
      using subject by (auto simp: f(3) chainedField_def field_objectOf simp del: jsonField.simps)
    have none: "jsonField x (JObj []) = None" for x by simp
    have "\<exists>d. map_of (rev ds) c = Some d \<and> jsonField ''mandatory'' d = Some (JBool False)"
      if "c \<in> fst ` set described" for c
      using that given unfolding keys by blast
    moreover have "map_of (rev ds) c = None" if "c \<notin> fst ` set described" for c
      using that unfolding keys by blast
    moreover have "jsonField k ?cfg = (case map_of (writtenFields (so_vct options)
        (so_supportedAlgorithms options)) k of Some v \<Rightarrow> Some v | None \<Rightarrow> None)" if "k \<noteq> ''claims''" for k
      unfolding k using that by (simp split: option.split)
    ultimately show ?thesis
      unfolding syncedConfiguration_def claims f(2) none by simp
  qed
  have "syncedConfiguration options described old cs
      (mergeConfiguration False ?cfg (the (map_of (oi_configurations existing) ?id)))"
    if "map_of (oi_configurations existing) ?id = Some (JObj old) \<and>
      (jsonField ''claims'' (JObj old) = Some (JObj cs) \<or> jsonField ''claims'' (JObj old) = None \<and> cs = [])" for old cs
    using merged_synced [OF subject ds, where old = old and cs = cs and options = options] that by simp
  moreover have "createSdJwtOffer A options s =
        andThen (ia_getIssuerByIssuerId A (oi_issuerId existing)) (\<lambda>issuerRecord.
        andThen (ia_createCredentialOffer A
          \<lparr>fo_issuerId = oi_issuerId issuerRecord, fo_configurationIds = [so_configurationId options],
           fo_preAuthorizedCode = so_preAuthorizedCode options,
           fo_issuanceMetadata = issuanceMetadataOf options\<rparr>) (\<lambda>(offer, session).
        ret (offer, iss_id session))) s2"
    if "ia_updateIssuerMetadata A updated s1 = (Inr (), s2)" for s2
    using assms(2) that
    by (auto simp: createSdJwtOffer_def built ensureIssuer_def truthyText_def andThen_run catching_run
        createCredentialOffer_def updated_def)
  ultimately show ?thesis
    using lookup fresh
    by (intro exI [of _ updated] conjI)
      (auto simp: updated_def updatedIssuer_def onlyConfigurations_def orElse_def isTruthy_def simp del: jsonField.simps)
qed

definition sampleIssuerRecord :: oidIssuer where
  "sampleIssuerRecord =
     \<lparr>oi_issuerId = ''w'', oi_display = Some (JArr []), oi_configurations = [(''c'', JObj
        [(''vct'', JStr ''old''), (''display'', JStr ''card''), (''claims'', JObj [(''age'', JNum 1)])])],
      oi_dpop = None, oi_batch = None, oi_authorizationServers = None\<rparr>"

definition sampleIssuerApi :: "oidIssuer issuerApi" where
  "sampleIssuerApi =
     \<lparr>ia_getIssuerByIssuerId = (\<lambda>i r. (Inr r, r)), ia_getAllIssuers = (\<lambda>r. (Inr [r], r)),
      ia_updateIssuerMetadata = (\<lambda>new r. (Inr (), new)), ia_createIssuer = (\<lambda>i opts r. (Inr r, r)),
      ia_createCredentialOffer = (\<lambda>offer. ret (fo_issuerId offer, \<lparr>iss_id = ''s1'', iss_issuanceMetadata = None\<rparr>)),
      ia_getIssuanceSessionById = (\<lambda>i. throw ''no session''), ia_getCreatedDids = (\<lambda>m. ret [])\<rparr>"

definition sampleOffer :: sdJwtOffer where
  "sampleOffer =
     \<lparr>so_configurationId = ''c'', so_preAuthorizedCode = None, so_vct = ''v'', so_claims = None,
      so_claimsDisplay = Some (JObj [(''name'', JObj [])]), so_disclosureFrame = None,
      so_issuerId = Some ''w'', so_supportedAlgorithms = None, so_status = None\<rparr>"

theorem offer_keeps_metadata_witness:
  "\<exists>updated new. createSdJwtOffer sampleIssuerApi sampleOffer sampleIssuerRecord =
      (Inr (oi_issuerId updated, ''s1''), updated) \<and>
    oi_display updated = Some (JArr []) \<and> map_of (oi_configurations updated) ''c'' = Some new \<and>
    jsonField ''display'' new = Some (JStr ''card'') \<and>
    chainedField ''age'' (jsonField ''claims'' new) = Some (JNum 1) \<and> jsonField ''vct'' new = Some (JStr ''v'')"
proof -
  have "describes (so_claimsDisplay sampleOffer) [(''name'', JObj [])]"
    by (simp add: describes_def sampleOffer_def)
  moreover have "so_issuerId sampleOffer = Some (CHR ''w'' # []) \<and>
      ia_getIssuerByIssuerId sampleIssuerApi (CHR ''w'' # []) sampleIssuerRecord =
        (Inr sampleIssuerRecord, sampleIssuerRecord) \<or>
    so_issuerId sampleOffer = None \<and> ia_getAllIssuers sampleIssuerApi sampleIssuerRecord =
        (Inr (sampleIssuerRecord # []), sampleIssuerRecord)"
    by (simp add: sampleOffer_def sampleIssuerApi_def)
  ultimately obtain updated new where u: "oi_display updated = Some (JArr [])"
      "map_of (oi_configurations updated) ''c'' = Some new"
    and synced: "syncedConfiguration sampleOffer [(''name'', JObj [])]
        [(''vct'', JStr ''old''), (''display'', JStr ''card''), (''claims'', JObj [(''age'', JNum 1)])]
        [(''age'', JNum 1)] new"
    and run: "createSdJwtOffer sampleIssuerApi sampleOffer sampleIssuerRecord =
        (Inr (oi_issuerId updated, ''s1''), updated)"
    using offer_keeps_metadata [of sampleOffer "[(''name'', JObj [])]" "CHR ''w''" "[]" sampleIssuerApi
        sampleIssuerRecord sampleIssuerRecord sampleIssuerRecord "[]"]
    by (auto simp: sampleIssuerRecord_def sampleIssuerApi_def sampleOffer_def andThen_run)
  have "jsonField ''display'' new = Some (JStr ''card'')"
    "chainedField ''age'' (jsonField ''claims'' new) = Some (JNum 1)" "jsonField ''vct'' new = Some (JStr ''v'')"
    using synced by (simp_all add: syncedConfiguration_def writtenFields_def sampleOffer_def)
  with run u show ?thesis by blast
qed

section \<open>The credential of a holder of the platform\<close>

lemma jwk_binding:
  assumes "buildCredentialBindingResolver creates methods algs x = (Inr us, y)"
    and "''did:key'' \<notin> set (coalesce methods [])"
  obtains r where "creates ''jwk'' (bindingKeyType algs) x = (Inr r, y)" and "us = [coalesce (kc_did r) [] @ ''#0'']"
  using assms
  by (auto simp: buildCredentialBindingResolver_def truthyText_def elim!: andThen_InrE split: if_splits)

lemma keyAlg_did: "CHR ''#'' \<notin> set did \<Longrightarrow> keyAlg (DidKey (did @ ''#0'')) = ES256"
  by (simp add: keyAlg_def splitOn_first startsWith_def)

lemma upTo_before: "c \<notin> set a \<Longrightarrow> upTo c (a @ c # b) = a"
  unfolding upTo_def by (induction a) auto

text \<open>
  C7. A wallet issues to the holders of the platform: a holder that is not asked for \<open>did:key\<close>
  binds the credential to a \<open>did:jwk\<close> whatever algorithm the issuer lists first, and the issuer then
  signs it with the P-256 key of the document the registrar made for the wallet, in the name of the
  identifier of that wallet unless a claim \<open>iss\<close> says otherwise, bound to the key of the holder.
\<close>

theorem wallet_issues_to_holder:
  assumes "\<forall>d. de_fromJSON E d = Inr d"
    and "WebDidRegistrar_create E opts s = (Inr (Finished did doc), t)"
    and "CHR ''#'' \<notin> set (wo_domain opts)"
    and "buildCredentialBindingResolver creates methods algs x = (Inr us, y)"
    and "''did:key'' \<notin> set (coalesce methods [])"
    and "\<forall>r. fst (creates ''jwk'' (bindingKeyType algs) x) = Inr r \<longrightarrow> CHR ''#'' \<notin> set (coalesce (kc_did r) [])"
  shows "\<exists>c. sdJwtCredentialFor doc metadata (map DidKey us) = Inr c \<and>
    sc_issuerDidUrl c = webDid (wo_domain opts) @ WEB_DID_KEY_P256_FRAGMENT \<and>
    sc_holder c = DidKey (hd us) \<and> sc_payload c = sdJwtPayload metadata (webDid (wo_domain opts))"
proof -
  obtain r where r: "creates ''jwk'' (bindingKeyType algs) x = (Inr r, y)"
    and us: "us = [coalesce (kc_did r) [] @ ''#0'']"
    by (rule jwk_binding [OF assms(4,5)])
  with assms(6) have alg: "keyAlg (DidKey (hd us)) = ES256" by (simp add: keyAlg_did)
  have did: "did = webDid (wo_domain opts)" using assms(2) by (rule create_finished)
  with assms(3) have "CHR ''#'' \<notin> set did" by (simp add: webDid_def)
  then have "upTo (CHR ''#'') (did @ WEB_DID_KEY_P256_FRAGMENT) = did"
    by (simp add: WEB_DID_KEY_P256_FRAGMENT_def upTo_before)
  with alg us did created_p256 [OF assms(1,2)] show ?thesis
    by (simp add: sdJwtCredentialFor_def extractProofAlg_def toSdJwtHolderBinding_def)
qed

definition sampleKeys :: "string \<Rightarrow> keyType \<Rightarrow> (unit, string, didKeyCreated) op" where
  "sampleKeys m k = ret \<lparr>kc_did = Some (''did:'' @ m @ '':abc''), kc_methodIds = None\<rparr>"

theorem wallet_issues_to_holder_witness:
  "\<exists>c. sdJwtCredentialFor sampleDocument (JObj []) [DidKey ''did:jwk:abc#0''] = Inr c \<and>
    sc_issuerDidUrl c = ''did:web:issuer.example#key-p256''"
proof -
  have "buildCredentialBindingResolver sampleKeys None (Some [''EdDSA'']) () = (Inr [''did:jwk:abc#0''], ())"
    by (simp add: buildCredentialBindingResolver_def sampleKeys_def op_simps truthyText_def)
  from wallet_issues_to_holder [OF sampleConverts sampleCreated _ this, of "JObj []"] show ?thesis
    by (auto simp: webCreateOptions_def sampleEnsureOptions_def webDid_def WEB_DID_KEY_P256_FRAGMENT_def
        sampleKeys_def)
qed

section \<open>The credentials a holder presents\<close>

lemma fold_fold_concat: "fold (fold f) xss = fold f (concat xss)"
  by (induction xss) (auto simp: fun_eq_iff)

lemma chosen_lookup:
  "map_of (fold chosenEntry es credentials) k =
    (case map_of (rev (List.map_filter (\<lambda>e. case se_verifiableCredentials e of
        [] \<Rightarrow> None | v # _ \<Rightarrow> Some (se_inputDescriptorId e, [v])) es)) k of
       None \<Rightarrow> map_of credentials k | Some v \<Rightarrow> Some v)"
  by (induction es arbitrary: credentials)
    (auto simp: chosenEntry_def update_conv' List.map_filter_simps map_add_def
      split: list.splits option.splits)

text \<open>Every credential that is presented is the first candidate of an entry for its descriptor.\<close>

lemma presented_candidates:
  assumes "selectCredentialsForRequest resolved = Some (PexSelection sel)"
    and "map_of sel k = Some vs"
  shows "\<exists>c e v rest. rr_presentationExchange resolved = Some (Some c) \<and>
    e \<in> set (concat (cr_requirements c)) \<and> se_inputDescriptorId e = k \<and>
    se_verifiableCredentials e = v # rest \<and> vs = [v]"
proof -
  from assms(1) obtain c where c: "rr_presentationExchange resolved = Some (Some c)"
    and sel: "sel = fold chosenEntry (concat (cr_requirements c)) []"
    by (auto simp: selectCredentialsForRequest_def fold_fold_concat split: option.splits if_splits)
  from assms(2) have "(k, vs) \<in> set (List.map_filter (\<lambda>e. case se_verifiableCredentials e of
      [] \<Rightarrow> None | v # _ \<Rightarrow> Some (se_inputDescriptorId e, [v])) (concat (cr_requirements c)))"
    unfolding sel chosen_lookup by (auto dest!: map_of_SomeD split: option.splits)
  then show ?thesis using c by (fastforce simp: List.map_filter_def split: list.splits)
qed

end
