(* ===== verification/DidCommListeners.thy ===== *)
theory DidCommListeners
  imports DidCommServices
begin

text \<open>
  What the agents do when an exchange changes state (\<^verbatim>\<open>protocol/didcomm/issuer.listener.ts\<close>,
  \<^verbatim>\<open>holder.listener.ts\<close>, \<^verbatim>\<open>verifier.listener.ts\<close>). An event of the root agent is
  handled in the tenant that finds its record; what a listener throws is written to the log. The
  modules of the framework are records of their calls.
\<close>

section \<open>Tenants and their modules\<close>

record ('s, 'g) tenants =
  tn_getAllTenants :: "('s, string, string list) op"
  tn_open :: "string \<Rightarrow> ('s, string, 'g) op"

definition withTenantAgent ::
  "('s, 'g) tenants \<Rightarrow> string \<Rightarrow> ('g \<Rightarrow> ('s, string, 'a) op) \<Rightarrow> ('s, string, 'a) op" where
  "withTenantAgent T tenantId callback = andThen (tn_open T tenantId) callback"

text \<open>The tenant of a record; a module that fails to look finds nothing.\<close>

definition tenantOfRecord ::
  "('s, 'g) tenants \<Rightarrow> ('g \<Rightarrow> string \<Rightarrow> ('s, string, bool) op) \<Rightarrow> string \<Rightarrow> ('s, string, string option) op" where
  "tenantOfRecord T finds recordId =
     findTenantIdForRecord (tn_getAllTenants T)
       (\<lambda>t. withTenantAgent T t (\<lambda>a. catching (finds a recordId) (\<lambda>_. ret False)))"

definition inTenantOf ::
  "('s, 'g) tenants \<Rightarrow> ('g \<Rightarrow> string \<Rightarrow> ('s, string, bool) op) \<Rightarrow> string \<Rightarrow> ('g \<Rightarrow> ('s, string, unit) op) \<Rightarrow>
    ('s, string, unit) op" where
  "inTenantOf T finds recordId callback =
     andThen (tenantOfRecord T finds recordId) (\<lambda>tenantId.
     if truthyText tenantId then withTenantAgent T (coalesce tenantId []) callback else ret ())"

definition logged :: "('s, string, unit) op \<Rightarrow> ('s, string, unit) op" where
  "logged m = catching m (\<lambda>_. ret ())"

record 's credentialAgent =
  ca_findCredential :: "string \<Rightarrow> ('s, string, bool) op"
  ca_createdDids :: "string \<Rightarrow> ('s, string, string option list) op"
  ca_uuid :: "('s, string, string) op"
  ca_getFormatData :: "string \<Rightarrow> ('s, string, json) op"
  ca_acceptRequest :: "string \<Rightarrow> string \<Rightarrow> ('s, string, unit) op"
  ca_acceptProposal :: "string \<Rightarrow> string \<Rightarrow> ('s, string, unit) op"
  ca_negotiateProposal :: "string \<Rightarrow> json \<Rightarrow> json option \<Rightarrow> string \<Rightarrow> ('s, string, unit) op"
  ca_acceptOffer :: "string \<Rightarrow> json \<Rightarrow> ('s, string, unit) op"
  ca_acceptCredential :: "string \<Rightarrow> ('s, string, unit) op"

section \<open>The issuer\<close>

definition lengthOf :: "json option \<Rightarrow> int option" where
  "lengthOf v =
     (case v of
        Some (JArr vs) \<Rightarrow> Some (int (length vs))
      | Some (JStr s) \<Rightarrow> Some (int (length s))
      | Some (JObj kvs) \<Rightarrow> numberOf (jsonField ''length'' (JObj kvs))
      | _ \<Rightarrow> None)"

definition keepsContext :: "json option \<Rightarrow> bool" where
  "keepsContext context \<longleftrightarrow> (case lengthOf context of Some n \<Rightarrow> 1 < n | None \<Rightarrow> False)"

text \<open>\<open>(proposed.type ?? []).filter(...)\<close> throws on what is not an array.\<close>

definition customTypes :: "json \<Rightarrow> json list option" where
  "customTypes proposed =
     (case coalesce (orElse (jsonField ''type'' proposed) None) (JArr []) of
        JArr vs \<Rightarrow> Some (filter (\<lambda>t. t \<noteq> JStr ''VerifiableCredential'') vs)
      | _ \<Rightarrow> None)"

definition customContext :: "json list \<Rightarrow> json" where
  "customContext types =
     JArr [JStr ''https://www.w3.org/2018/credentials/v1'', JStr ''http://schema.org/'',
       JObj (objectOf (map (\<lambda>t. (toText t, JStr (''https://www.w3.org/2018/credentials#'' @ toText t))) types))]"

definition proposedCredential :: "json \<Rightarrow> json list \<Rightarrow> json \<Rightarrow> string \<Rightarrow> json" where
  "proposedCredential proposed types credentialId issuerDid =
     JObj (objectOf (spreadOf proposed @
       [(''id'', credentialId),
        (''@context'', if keepsContext (jsonField ''@context'' proposed)
           then coalesce (jsonField ''@context'' proposed) JNull else customContext types),
        (''issuer'', if isTruthy (jsonField ''issuer'' proposed)
           then coalesce (jsonField ''issuer'' proposed) JNull else JStr issuerDid)]))"

definition OFFER_COMMENT :: string where
  "OFFER_COMMENT = ''JSON-LD Credential Offer''"

definition proposalReceived :: "'s credentialAgent \<Rightarrow> string \<Rightarrow> ('s, string, unit) op" where
  "proposalReceived A recordId =
     andThen (ca_createdDids A ''web'') (\<lambda>didRecords.
     andThen (ca_getFormatData A recordId) (\<lambda>formatData.
     let issuerDid = (case didRecords of [] \<Rightarrow> [] | d # _ \<Rightarrow> coalesce d []);
         proposalJsonLd = chainedField ''jsonld'' (jsonField ''proposal'' formatData);
         given = chainedField ''credential'' proposalJsonLd
     in if \<not> isTruthy given then ca_acceptProposal A recordId OFFER_COMMENT
        else
          (let proposed = coalesce given JNull in
           case customTypes proposed of
             None \<Rightarrow> throw ''proposed.type.filter is not a function''
           | Some types \<Rightarrow>
               andThen (if isTruthy (jsonField ''id'' proposed) then ret (coalesce (jsonField ''id'' proposed) JNull)
                 else andThen (ca_uuid A) (\<lambda>u. ret (JStr (''urn:uuid:'' @ u)))) (\<lambda>credentialId.
               ca_negotiateProposal A recordId (proposedCredential proposed types credentialId issuerDid)
                 (chainedField ''options'' proposalJsonLd) OFFER_COMMENT))))"

datatype credentialState =
    ProposalReceived
  | OfferReceived
  | RequestReceived
  | CredentialReceived
  | CredentialDone
  | OtherState

definition issuerCredentialChanged ::
  "('s, 's credentialAgent) tenants \<Rightarrow> string \<Rightarrow> credentialState \<Rightarrow> ('s, string, unit) op" where
  "issuerCredentialChanged T recordId state =
     logged (inTenantOf T ca_findCredential recordId (\<lambda>A.
       case state of
         ProposalReceived \<Rightarrow> proposalReceived A recordId
       | RequestReceived \<Rightarrow> ca_acceptRequest A recordId ''JSON-LD Credential''
       | _ \<Rightarrow> ret ()))"

section \<open>The holder\<close>

definition holderCredentialChanged ::
  "('s, 's credentialAgent) tenants \<Rightarrow> string \<Rightarrow> credentialState \<Rightarrow> ('s, string, unit) op" where
  "holderCredentialChanged T recordId state =
     logged (case state of
       OfferReceived \<Rightarrow>
         inTenantOf T ca_findCredential recordId (\<lambda>A.
           andThen (ca_getFormatData A recordId) (\<lambda>formatData.
           ca_acceptOffer A recordId
             (coalesce (orElse (chainedField ''proofType'' (chainedField ''options'' (chainedField ''jsonld''
                (jsonField ''offer'' formatData)))) None) (JStr BBS_PROOF_TYPE))))
     | CredentialReceived \<Rightarrow>
         inTenantOf T ca_findCredential recordId (\<lambda>A. ca_acceptCredential A recordId)
     | _ \<Rightarrow> ret ())"

text \<open>
  A record of the wallet with its first credential: its types and its format; reading the
  credential may throw.
\<close>

record w3cRecord =
  wr_id :: string
  wr_firstCredential :: "string + (string list option \<times> string option) option"

record pexChoice =
  pc_claimFormat :: "string option"
  pc_credentialRecord :: "w3cRecord option"

type_synonym credentialsMap = "(string \<times> pexChoice list) list"

record ('s, 'p) proofAgent =
  pa_findProof :: "string \<Rightarrow> ('s, string, bool) op"
  pa_getFormatData :: "string \<Rightarrow> ('s, string, json) op"
  pa_getAllRecords :: "('s, string, w3cRecord list) op"
  pa_selectCredentials :: "string \<Rightarrow> ('s, string, credentialsMap option option \<times> 'p) op"
  pa_acceptRequest :: "string \<Rightarrow> credentialsMap option option \<times> 'p \<Rightarrow> ('s, string, unit) op"
  pa_acceptPresentation :: "string \<Rightarrow> ('s, string, unit) op"

definition presentationDefinition :: "json \<Rightarrow> json option" where
  "presentationDefinition formatData =
     chainedField ''presentation_definition'' (chainedField ''presentationExchange'' (jsonField ''request'' formatData))"

text \<open>The types a descriptor asks for; \<open>None\<close> where reading them throws.\<close>

definition typeConsts :: "json \<Rightarrow> string list option" where
  "typeConsts desc =
     (case coalesce (orElse (chainedField ''fields'' (orElse (jsonField ''constraints'' desc) None)) None) (JArr []) of
        JArr fs \<Rightarrow>
          if JNull \<in> set fs then None
          else Some (List.map_filter (\<lambda>field.
            Option.bind (chainedField ''const'' (chainedField ''contains'' (jsonField ''filter'' field))) jsonStr) fs)
      | JStr _ \<Rightarrow> Some []
      | _ \<Rightarrow> None)"

fun requiredTypes :: "json list \<Rightarrow> string list option" where
  "requiredTypes [] = Some []"
| "requiredTypes (d # ds) =
     (case (typeConsts d, requiredTypes ds) of (Some a, Some b) \<Rightarrow> Some (a @ b) | _ \<Rightarrow> None)"

definition freeDescriptors :: "json list \<Rightarrow> credentialsMap \<Rightarrow> json option list" where
  "freeDescriptors descriptors credentials =
     filter (\<lambda>i. \<not> list_ex (\<lambda>(k, _). i = Some (JStr k)) credentials) (map (jsonField ''id'') descriptors)"

definition usedRecordIds :: "credentialsMap \<Rightarrow> string list" where
  "usedRecordIds credentials =
     filter (\<lambda>i. i \<noteq> []) (map wr_id (List.map_filter pc_credentialRecord (concat (map snd credentials))))"

definition unusedRecords :: "string list \<Rightarrow> string list \<Rightarrow> w3cRecord list \<Rightarrow> w3cRecord list" where
  "unusedRecords used required records =
     filter (\<lambda>r. wr_id r \<notin> set used \<and>
       (case wr_firstCredential r of
          Inr (Some (types, _)) \<Rightarrow> set required \<subseteq> set (coalesce types [])
        | _ \<Rightarrow> False)) records"

definition choiceOf :: "w3cRecord \<Rightarrow> pexChoice" where
  "choiceOf r =
     \<lparr>pc_claimFormat = (case wr_firstCredential r of Inr (Some (_, f)) \<Rightarrow> f | _ \<Rightarrow> None),
      pc_credentialRecord = Some r\<rparr>"

definition assigned :: "json option list \<Rightarrow> w3cRecord list \<Rightarrow> credentialsMap \<Rightarrow> credentialsMap" where
  "assigned free unused credentials =
     fold (\<lambda>(i, r). AList.update (templateText i) [choiceOf r]) (zip free unused) credentials"

definition expandPexSelection ::
  "('s, 'p) proofAgent \<Rightarrow> string \<Rightarrow> credentialsMap option \<Rightarrow> ('s, string, credentialsMap option) op" where
  "expandPexSelection A proofRecordId pex =
     catching
       (case pex of
          None \<Rightarrow> ret None
        | Some credentials \<Rightarrow>
            andThen (pa_getFormatData A proofRecordId) (\<lambda>formatData.
            case chainedField ''input_descriptors'' (presentationDefinition formatData) of
              Some (JArr descriptors) \<Rightarrow>
                if JNull \<in> set descriptors then throw ''Cannot read properties of null''
                else if freeDescriptors descriptors credentials = [] then ret pex
                else
                  (case requiredTypes descriptors of
                     None \<Rightarrow> throw ''fields is not iterable''
                   | Some required \<Rightarrow>
                       andThen (pa_getAllRecords A) (\<lambda>allRecords.
                       ret (Some (assigned (freeDescriptors descriptors credentials)
                         (unusedRecords (usedRecordIds credentials) required allRecords) credentials))))
            | v \<Rightarrow> if isTruthy v then throw ''map is not a function'' else ret pex))
       (\<lambda>_. ret pex)"

datatype proofState =
    PresentationReceived
  | ProofRequestReceived
  | ProofDone
  | OtherProofState

definition holderProofChanged ::
  "('s, ('s, 'p) proofAgent) tenants \<Rightarrow> string \<Rightarrow> proofState \<Rightarrow> ('s, string, unit) op" where
  "holderProofChanged T recordId state =
     logged (if state = ProofRequestReceived
       then inTenantOf T pa_findProof recordId (\<lambda>A.
         andThen (pa_selectCredentials A recordId) (\<lambda>(pex, rest).
         andThen (case pex of
             None \<Rightarrow> ret None
           | Some credentials \<Rightarrow> andThen (expandPexSelection A recordId credentials) (\<lambda>c. ret (Some c))) (\<lambda>pex'.
         pa_acceptRequest A recordId (pex', rest))))
       else ret ())"

section \<open>The verifier\<close>

definition verifierProofChanged ::
  "('s, ('s, 'p) proofAgent) tenants \<Rightarrow> string \<Rightarrow> proofState \<Rightarrow> ('s, string, unit) op" where
  "verifierProofChanged T recordId state =
     logged (if state = PresentationReceived
       then inTenantOf T pa_findProof recordId (\<lambda>A. pa_acceptPresentation A recordId)
       else ret ())"

end
