(* ===== verification/DidCommListenerProps.thy ===== *)
theory DidCommListenerProps
  imports DidCommListeners
begin

text \<open>
  What the listeners do on their own: the credentials a holder adds to a presentation, and the
  proposals an issuer offers back.
\<close>

section \<open>Events in the tenant of their record\<close>

lemma logged_run: "logged m s = (Inr (), snd (m s))"
  by (auto simp: logged_def catching_run split: prod.split sum.split)

lemma inTenantOf_run:
  assumes "tenantOfRecord T finds recordId s = (Inr (Some t), s1)" and "t \<noteq> []"
    and "tn_open T t s1 = (Inr A, s2)"
  shows "inTenantOf T finds recordId callback s = callback A s2"
  using assms by (simp add: inTenantOf_def andThen_run truthyText_def withTenantAgent_def)

section \<open>The selection of a holder is expanded\<close>

lemma assigned_lookup:
  assumes "distinct ids"
  shows "map_of (assigned (map (Some \<circ> JStr) ids) records credentials) =
    map_of credentials ++ map_of (zip ids (map (\<lambda>r. [choiceOf r]) records))"
  using assms
proof (induction ids arbitrary: records credentials)
  case Nil
  show ?case by (simp add: assigned_def)
next
  case (Cons i ids)
  show ?case
  proof (cases records)
    case (Cons r rs)
    have step: "assigned (map (Some \<circ> JStr) (i # ids)) records credentials =
        assigned (map (Some \<circ> JStr) ids) rs (AList.update i [choiceOf r] credentials)"
      by (simp add: assigned_def Cons templateText_def)
    have "map_of (assigned (map (Some \<circ> JStr) ids) rs (AList.update i [choiceOf r] credentials)) =
        map_of (AList.update i [choiceOf r] credentials) ++ map_of (zip ids (map (\<lambda>r. [choiceOf r]) rs))"
      by (rule Cons.IH) (use \<open>distinct (i # ids)\<close> in simp)
    moreover have "map_of (zip ids (map (\<lambda>r. [choiceOf r]) rs)) i = None"
      using \<open>distinct (i # ids)\<close> by (auto simp: map_of_eq_None_iff dest: set_zip_leftD)
    ultimately show ?thesis
      unfolding step by (simp add: Cons update_conv' map_add_upd_left map_add_upd dom_def)
        (simp add: map_add_def fun_eq_iff)
  qed (simp add: assigned_def)
qed

lemma freeDescriptors_ids:
  assumes "map (jsonField ''id'') descriptors = map (Some \<circ> JStr) ids"
  shows "freeDescriptors descriptors credentials =
    map (Some \<circ> JStr) (filter (\<lambda>i. i \<notin> fst ` set credentials) ids)"
  unfolding freeDescriptors_def assms
  by (auto simp: filter_map comp_def list_ex_iff image_iff intro!: filter_cong arg_cong [where f = "map _"])

lemma expand_run:
  assumes "pa_getFormatData A recordId s = (Inr formatData, s1)"
    and "chainedField ''input_descriptors'' (presentationDefinition formatData) = Some (JArr descriptors)"
    and "map (jsonField ''id'') descriptors = map (Some \<circ> JStr) ids"
    and "requiredTypes descriptors = Some required" and "pa_getAllRecords A s1 = (Inr records, s2)"
    and "filter (\<lambda>i. i \<notin> fst ` set credentials) ids \<noteq> []"
  shows "expandPexSelection A recordId (Some credentials) s =
    (Inr (Some (assigned (map (Some \<circ> JStr) (filter (\<lambda>i. i \<notin> fst ` set credentials) ids))
       (unusedRecords (usedRecordIds credentials) required records) credentials)), s2)"
proof -
  have "JNull \<notin> set descriptors"
  proof
    assume "JNull \<in> set descriptors"
    then have "jsonField ''id'' JNull \<in> set (map (jsonField ''id'') descriptors)" by force
    then show False unfolding assms(3) by auto
  qed
  with assms show ?thesis
    by (simp add: expandPexSelection_def catching_run andThen_run freeDescriptors_ids)
qed

text \<open>
  What a request says, read off its JSON: a descriptor names a type when one of its fields has a
  filter that contains that constant, and it is plain when its constraints and fields, if any, are
  an object and a list of objects.
\<close>

definition namesType :: "json \<Rightarrow> string \<Rightarrow> bool" where
  "namesType d t \<longleftrightarrow> (\<exists>constraints fs f p q. jsonField ''constraints'' d = Some constraints \<and>
     jsonField ''fields'' constraints = Some (JArr fs) \<and> f \<in> set fs \<and> jsonField ''filter'' f = Some p \<and>
     jsonField ''contains'' p = Some q \<and> jsonField ''const'' q = Some (JStr t))"

definition plainDescriptor :: "json \<Rightarrow> bool" where
  "plainDescriptor d \<longleftrightarrow> jsonField ''constraints'' d = None \<or>
     (\<exists>c. jsonField ''constraints'' d = Some (JObj c) \<and> (jsonField ''fields'' (JObj c) = None \<or>
       (\<exists>fs. jsonField ''fields'' (JObj c) = Some (JArr (map JObj fs)))))"

text \<open>
  A record is already chosen when some entry of the selection holds a record of its identifier. The
  holder discloses one that is not, whose first credential can be read and has every type that any
  descriptor names.
\<close>

definition alreadyChosen :: "credentialsMap \<Rightarrow> w3cRecord \<Rightarrow> bool" where
  "alreadyChosen credentials r \<longleftrightarrow> (\<exists>k choices c u. (k, choices) \<in> set credentials \<and> c \<in> set choices \<and>
     pc_credentialRecord c = Some u \<and> wr_id u = wr_id r \<and> wr_id u \<noteq> [])"

definition disclosable :: "json list \<Rightarrow> credentialsMap \<Rightarrow> w3cRecord \<Rightarrow> bool" where
  "disclosable descriptors credentials r \<longleftrightarrow> \<not> alreadyChosen credentials r \<and>
     (\<exists>types format. wr_firstCredential r = Inr (Some (types, format)) \<and>
       (\<forall>d\<in>set descriptors. \<forall>t. namesType d t \<longrightarrow> t \<in> set (coalesce types [])))"

lemma usedRecordIds_iff: "wr_id r \<in> set (usedRecordIds credentials) \<longleftrightarrow> alreadyChosen credentials r"
  by (force simp: usedRecordIds_def alreadyChosen_def List.map_filter_def)

lemma typeConsts_plain:
  assumes "plainDescriptor d"
  obtains ts where "typeConsts d = Some ts" and "\<And>t. t \<in> set ts \<longleftrightarrow> namesType d t"
proof (cases "\<exists>c fs. jsonField ''constraints'' d = Some (JObj c) \<and>
    jsonField ''fields'' (JObj c) = Some (JArr (map JObj fs))")
  case True
  then obtain c fs where c: "jsonField ''constraints'' d = Some (JObj c)"
      "jsonField ''fields'' (JObj c) = Some (JArr (map JObj fs))" by blast
  let ?ts = "List.map_filter (\<lambda>field. Option.bind (chainedField ''const'' (chainedField ''contains''
    (jsonField ''filter'' field))) jsonStr) (map JObj fs)"
  have "typeConsts d = Some ?ts"
    using c by (auto simp: typeConsts_def orElse_def chainedField_def simp del: jsonField.simps)
  moreover have "t \<in> set ?ts \<longleftrightarrow> namesType d t" for t
  proof -
    have "jsonStr q = Some t \<longleftrightarrow> q = JStr t" for q by (cases q) auto
    then show ?thesis
      by (simp add: List.map_filter_def namesType_def c chainedField_def bind_eq_Some_conv image_iff
          del: jsonField.simps) (auto simp: bind_eq_Some_conv simp del: jsonField.simps; blast)
  qed
  ultimately show thesis by (rule that)
next
  case False
  then have "jsonField ''constraints'' d = None \<or> (\<exists>c. jsonField ''constraints'' d = Some (JObj c) \<and>
      jsonField ''fields'' (JObj c) = None)"
    using assms unfolding plainDescriptor_def by blast
  then have "typeConsts d = Some []" and "\<not> namesType d t" for t
    by (auto simp: typeConsts_def orElse_def chainedField_def namesType_def List.map_filter_simps
        simp del: jsonField.simps)
  then show thesis by (intro that [of "[]"]) simp_all
qed

lemma requiredTypes_plain:
  assumes "list_all plainDescriptor descriptors"
  obtains ts where "requiredTypes descriptors = Some ts"
    and "\<And>t. t \<in> set ts \<longleftrightarrow> (\<exists>d\<in>set descriptors. namesType d t)"
proof -
  have "\<exists>ts. requiredTypes descriptors = Some ts \<and>
      (\<forall>t. t \<in> set ts \<longleftrightarrow> (\<exists>d\<in>set descriptors. namesType d t))"
    using assms
  proof (induction descriptors)
    case (Cons d ds)
    obtain a where a: "typeConsts d = Some a" "\<And>t. t \<in> set a \<longleftrightarrow> namesType d t"
      using Cons.prems by (auto intro: typeConsts_plain)
    obtain b where "requiredTypes ds = Some b" "\<forall>t. t \<in> set b \<longleftrightarrow> (\<exists>d\<in>set ds. namesType d t)"
      using Cons by auto
    with a show ?case by simp
  qed simp
  then show thesis using that by blast
qed

lemma unusedRecords_disclosable:
  assumes "\<And>t. t \<in> set ts \<longleftrightarrow> (\<exists>d\<in>set descriptors. namesType d t)"
  shows "unusedRecords (usedRecordIds credentials) ts records =
    filter (disclosable descriptors credentials) records"
  unfolding unusedRecords_def usedRecordIds_iff
  by (rule filter_cong) (use assms in \<open>auto simp: disclosable_def split: sum.split option.split\<close>)

text \<open>
  C3. A holder answers a proof request with more than the selection: every descriptor of the
  request that was left without a credential gets, in order, the next record of the wallet that no
  choice of the selection holds and whose first credential has every type named by any descriptor
  of the request, whatever the descriptor it is added for asks; when no descriptor names a type,
  that is any readable record of the wallet. What was selected stays as it is, and the presentation
  is sent with the enlarged selection.
\<close>

theorem holder_discloses_unselected:
  assumes "tenantOfRecord T pa_findProof recordId s = (Inr (Some t), s1)" and "t \<noteq> []"
    and "tn_open T t s1 = (Inr A, s2)"
    and "pa_selectCredentials A recordId s2 = (Inr (Some (Some credentials), rest), s3)"
    and "pa_getFormatData A recordId s3 = (Inr formatData, s4)"
    and "jsonField ''request'' formatData = Some request"
    and "jsonField ''presentationExchange'' request = Some exchange"
    and "jsonField ''presentation_definition'' exchange = Some pd"
    and "jsonField ''input_descriptors'' pd = Some (JArr descriptors)"
    and "list_all plainDescriptor descriptors"
    and "map (jsonField ''id'') descriptors = map (Some \<circ> JStr) ids" and "distinct ids"
    and "pa_getAllRecords A s4 = (Inr records, s5)"
    and "free = filter (\<lambda>i. map_of credentials i = None) ids" and "free \<noteq> []"
  shows "\<exists>sent. holderProofChanged T recordId ProofRequestReceived s =
      (Inr (), snd (pa_acceptRequest A recordId (Some (Some sent), rest) s5)) \<and>
    map_of sent = map_of credentials ++ map_of (zip free (map
      (\<lambda>r. [\<lparr>pc_claimFormat = (case wr_firstCredential r of Inr (Some (_, format)) \<Rightarrow> format | _ \<Rightarrow> None),
        pc_credentialRecord = Some r\<rparr>])
      (filter (disclosable descriptors credentials) records)))"
proof -
  obtain required where req: "requiredTypes descriptors = Some required"
      "\<And>t. t \<in> set required \<longleftrightarrow> (\<exists>d\<in>set descriptors. namesType d t)"
    by (rule requiredTypes_plain [OF assms(10)]) blast
  have pd: "chainedField ''input_descriptors'' (presentationDefinition formatData) = Some (JArr descriptors)"
    by (simp only: presentationDefinition_def chainedField_def assms(6-9) bind.bind_lunit)
  have free: "free = filter (\<lambda>i. i \<notin> fst ` set credentials) ids"
    by (simp add: assms(14) map_of_eq_None_iff)
  let ?sent = "assigned (map (Some \<circ> JStr) free)
    (unusedRecords (usedRecordIds credentials) required records) credentials"
  have "holderProofChanged T recordId ProofRequestReceived s =
      (Inr (), snd (pa_acceptRequest A recordId (Some (Some ?sent), rest) s5))"
    using expand_run [OF assms(5) pd assms(11) req(1) assms(13) assms(15) [unfolded free]] assms(4)
    by (simp add: holderProofChanged_def logged_run inTenantOf_run [OF assms(1-3)] andThen_run free)
  moreover have "map_of ?sent = map_of credentials ++ map_of (zip free (map (\<lambda>r. [choiceOf r])
      (filter (disclosable descriptors credentials) records)))"
    using assms(12) by (simp add: assigned_lookup assms(14) unusedRecords_disclosable [OF req(2)])
  ultimately show ?thesis unfolding choiceOf_def by blast
qed

section \<open>Proposals\<close>

lemma proposed_field:
  "jsonField k (proposedCredential (JObj proposed) types credentialId issuerDid) =
    (if k = ''id'' then Some credentialId
     else if k = ''@context'' then Some (if keepsContext (jsonField ''@context'' (JObj proposed))
       then coalesce (jsonField ''@context'' (JObj proposed)) JNull else customContext types)
     else if k = ''issuer'' then Some (if isTruthy (jsonField ''issuer'' (JObj proposed))
       then coalesce (jsonField ''issuer'' (JObj proposed)) JNull else JStr issuerDid)
     else jsonField k (JObj proposed))"
  unfolding proposedCredential_def field_objectOf map_of_rev_append by simp

text \<open>
  C2. An issuer signs what a holder proposes: a proposal that reaches a tenant is answered with an
  offer of the very credential that was proposed, its subject, its types and every other field
  included, and also its issuer when it names one; only the context may be replaced. The request
  that follows is accepted. Nothing else is asked for: no pending offer and no API key.
\<close>

theorem proposals_are_issued:
  assumes "tenantOfRecord T ca_findCredential recordId s = (Inr (Some t), s1)" and "t \<noteq> []"
    and "tn_open T t s1 = (Inr A, s2)"
    and "ca_createdDids A ''web'' s2 = (Inr dids, s3)"
    and "ca_getFormatData A recordId s3 = (Inr formatData, s4)"
    and "chainedField ''credential'' (chainedField ''jsonld'' (jsonField ''proposal'' formatData)) =
      Some (JObj proposed)"
    and "jsonField ''type'' (JObj proposed) = Some (JArr types)"
    and "jsonField ''id'' (JObj proposed) = Some (JStr (c # i))"
  shows "(\<exists>credential. issuerCredentialChanged T recordId ProposalReceived s =
      (Inr (), snd (ca_negotiateProposal A recordId credential
        (chainedField ''options'' (chainedField ''jsonld'' (jsonField ''proposal'' formatData))) OFFER_COMMENT s4)) \<and>
      (\<forall>k. k \<noteq> ''@context'' \<and> (k = ''issuer'' \<longrightarrow> isTruthy (jsonField k (JObj proposed))) \<longrightarrow>
        jsonField k credential = jsonField k (JObj proposed))) \<and>
    issuerCredentialChanged T recordId RequestReceived s =
      (Inr (), snd (ca_acceptRequest A recordId ''JSON-LD Credential'' s2))"
proof -
  have types: "customTypes (JObj proposed) = Some (filter (\<lambda>t. t \<noteq> JStr ''VerifiableCredential'') types)"
    using assms(7) by (simp add: customTypes_def orElse_def)
  have kept: "jsonField k (proposedCredential (JObj proposed) ts (JStr (c # i)) issuerDid) =
      jsonField k (JObj proposed)"
    if "k \<noteq> ''@context''" "k = ''issuer'' \<longrightarrow> isTruthy (jsonField k (JObj proposed))" for k ts issuerDid
    using that assms(8)
    by (cases "jsonField k (JObj proposed)") (auto simp: proposed_field isTruthy_def simp del: jsonField.simps)
  let ?offer = "\<lambda>issuerDid. proposedCredential (JObj proposed)
    (filter (\<lambda>t. t \<noteq> JStr ''VerifiableCredential'') types) (JStr (c # i)) issuerDid"
  have "issuerCredentialChanged T recordId ProposalReceived s =
      (Inr (), snd (ca_negotiateProposal A recordId (?offer (case dids of [] \<Rightarrow> [] | d # _ \<Rightarrow> coalesce d []))
        (chainedField ''options'' (chainedField ''jsonld'' (jsonField ''proposal'' formatData))) OFFER_COMMENT s4))"
    using assms(4-6,8) types
    by (simp add: issuerCredentialChanged_def logged_run inTenantOf_run [OF assms(1-3)]
        proposalReceived_def andThen_run Let_def isTruthy_def del: jsonField.simps)
  moreover have "issuerCredentialChanged T recordId RequestReceived s =
      (Inr (), snd (ca_acceptRequest A recordId ''JSON-LD Credential'' s2))"
    by (simp add: issuerCredentialChanged_def logged_run inTenantOf_run [OF assms(1-3)])
  ultimately show ?thesis using kept by blast
qed

text \<open>A presentation is accepted in the tenant of its record without a look at its verdict.\<close>

lemma presentation_accepted:
  assumes "tenantOfRecord T pa_findProof recordId s = (Inr (Some t), s1)" and "t \<noteq> []"
    and "tn_open T t s1 = (Inr A, s2)"
  shows "verifierProofChanged T recordId PresentationReceived s =
    (Inr (), snd (pa_acceptPresentation A recordId s2))"
  by (simp add: verifierProofChanged_def logged_run inTenantOf_run [OF assms])

section \<open>Samples\<close>

text \<open>
  A wallet with three records, one of them selected, and a request for two descriptors that name a
  type each.
\<close>

definition passport :: w3cRecord where
  "passport = \<lparr>wr_id = ''r1'', wr_firstCredential = Inr (Some (Some [''Passport''], Some ''ldp_vc''))\<rparr>"
definition libraryCard :: w3cRecord where
  "libraryCard = \<lparr>wr_id = ''r2'', wr_firstCredential = Inr (Some (Some [''Card''], Some ''ldp_vc''))\<rparr>"
definition medicalRecord :: w3cRecord where
  "medicalRecord = \<lparr>wr_id = ''r3'',
     wr_firstCredential = Inr (Some (Some [''Card'', ''Medical''], Some ''ldp_vc''))\<rparr>"

definition asking :: "string \<Rightarrow> string \<Rightarrow> json" where
  "asking i t = JObj [(''id'', JStr i), (''constraints'', JObj [(''fields'', JArr (map JObj
     [[(''filter'', JObj [(''contains'', JObj [(''const'', JStr t)])])]]))])]"

definition sampleDefinition :: json where
  "sampleDefinition = JObj [(''input_descriptors'', JArr [asking ''a'' ''Card'', asking ''b'' ''Medical''])]"

definition sampleFormatData :: json where
  "sampleFormatData = JObj [(''request'', JObj [(''presentationExchange'',
     JObj [(''presentation_definition'', sampleDefinition)])])]"

lemma asking_id: "jsonField ''id'' (asking i t) = Some (JStr i)"
  by (simp add: asking_def)

lemma asking_names: "namesType (asking i t) u \<longleftrightarrow> u = t"
  by (auto simp: namesType_def asking_def)

lemma asking_plain: "plainDescriptor (asking i t)"
proof -
  have "jsonField ''constraints'' (asking i t) = Some (JObj [(''fields'', JArr (map JObj
      [[(''filter'', JObj [(''contains'', JObj [(''const'', JStr t)])])]]))])"
    by (simp add: asking_def)
  moreover have "jsonField ''fields'' (JObj [(''fields'', v)]) = Some v" for v by simp
  ultimately show ?thesis unfolding plainDescriptor_def by blast
qed

type_synonym sentLog = "credentialsMap option option list"

definition sampleProofAgent :: "(sentLog, unit) proofAgent" where
  "sampleProofAgent =
     \<lparr>pa_findProof = (\<lambda>_. ret True), pa_getFormatData = (\<lambda>_. ret sampleFormatData),
      pa_getAllRecords = ret [passport, libraryCard, medicalRecord],
      pa_selectCredentials = (\<lambda>_. ret (Some (Some [(''a'', [choiceOf passport])]), ())),
      pa_acceptRequest = (\<lambda>_ (pex, _) log. (Inr (), pex # log)),
      pa_acceptPresentation = (\<lambda>_. ret ())\<rparr>"

definition sampleHolderTenants :: "(sentLog, (sentLog, unit) proofAgent) tenants" where
  "sampleHolderTenants = \<lparr>tn_getAllTenants = ret [''t1''], tn_open = (\<lambda>_. ret sampleProofAgent)\<rparr>"

lemmas sample_run = andThen_run catching_run tenantOfRecord_def findTenantIdForRecord_def withTenantAgent_def

lemma sample_disclosed:
  "filter (disclosable [asking ''a'' ''Card'', asking ''b'' ''Medical''] [(''a'', [choiceOf passport])])
    [passport, libraryCard, medicalRecord] = [medicalRecord]"
proof -
  have "alreadyChosen [(''a'', [choiceOf passport])] r \<longleftrightarrow> wr_id r = ''r1''" for r
    by (auto simp: alreadyChosen_def choiceOf_def passport_def)
  then show ?thesis
    by (simp add: disclosable_def asking_names passport_def libraryCard_def medicalRecord_def)
qed

theorem holder_discloses_unselected_witness:
  "\<exists>sent. holderProofChanged sampleHolderTenants ''x'' ProofRequestReceived [] = (Inr (), [Some (Some sent)]) \<and>
    map_of sent ''a'' = Some [choiceOf passport] \<and> map_of sent ''b'' = Some [choiceOf medicalRecord]"
proof -
  have "tenantOfRecord sampleHolderTenants pa_findProof ''x'' [] = (Inr (Some ''t1''), [])"
    by (simp add: sampleHolderTenants_def sampleProofAgent_def sample_run)
  from holder_discloses_unselected [OF this, where A = sampleProofAgent and credentials = "[(''a'', [choiceOf passport])]"
      and ids = "[''a'', ''b'']" and rest = "()" and free = "[''b'']" and ?s2.0 = "[]"
      and ?s3.0 = "[]" and ?s4.0 = "[]" and ?s5.0 = "[]" and formatData = sampleFormatData and pd = sampleDefinition
      and request = "JObj [(''presentationExchange'', JObj [(''presentation_definition'', sampleDefinition)])]"
      and exchange = "JObj [(''presentation_definition'', sampleDefinition)]"
      and descriptors = "[asking ''a'' ''Card'', asking ''b'' ''Medical'']"
      and records = "[passport, libraryCard, medicalRecord]"]
  show ?thesis
    unfolding sample_disclosed
    by (auto simp: sampleHolderTenants_def sampleProofAgent_def sampleFormatData_def sampleDefinition_def asking_id
        asking_plain choiceOf_def medicalRecord_def)
qed

text \<open>An issuer that records what it sends.\<close>

definition sampleProposal :: json where
  "sampleProposal = JObj [(''proposal'', JObj [(''jsonld'', JObj [(''credential'', JObj
     [(''id'', JStr ''urn:1''), (''type'', JArr [JStr ''Degree'']), (''issuer'', JStr ''did:web:university''),
      (''credentialSubject'', JObj [(''degree'', JStr ''PhD'')])])])])]"

definition sampleCredentialAgent :: "json list credentialAgent" where
  "sampleCredentialAgent =
     \<lparr>ca_findCredential = (\<lambda>_. ret True), ca_createdDids = (\<lambda>_. ret [Some ''did:web:w'']),
      ca_uuid = ret ''u'', ca_getFormatData = (\<lambda>_. ret sampleProposal),
      ca_acceptRequest = (\<lambda>_ c log. (Inr (), JStr c # log)), ca_acceptProposal = (\<lambda>_ _. ret ()),
      ca_negotiateProposal = (\<lambda>_ credential _ _ log. (Inr (), credential # log)),
      ca_acceptOffer = (\<lambda>_ _. ret ()), ca_acceptCredential = (\<lambda>_. ret ())\<rparr>"

definition sampleIssuerTenants :: "(json list, json list credentialAgent) tenants" where
  "sampleIssuerTenants = \<lparr>tn_getAllTenants = ret [''t1''], tn_open = (\<lambda>_. ret sampleCredentialAgent)\<rparr>"

theorem proposals_are_issued_witness:
  "\<exists>credential. issuerCredentialChanged sampleIssuerTenants ''x'' ProposalReceived [] = (Inr (), [credential]) \<and>
    jsonField ''issuer'' credential = Some (JStr ''did:web:university'') \<and>
    jsonField ''credentialSubject'' credential = Some (JObj [(''degree'', JStr ''PhD'')])"
proof -
  have "tenantOfRecord sampleIssuerTenants ca_findCredential ''x'' [] = (Inr (Some ''t1''), [])"
    by (simp add: sampleIssuerTenants_def sampleCredentialAgent_def sample_run)
  from proposals_are_issued [OF this, where A = sampleCredentialAgent and ?s2.0 = "[]" and ?s3.0 = "[]"
      and ?s4.0 = "[]" and dids = "[Some ''did:web:w'']" and formatData = sampleProposal
      and types = "[JStr ''Degree'']" and c = "CHR ''u''" and i = "''rn:1''" and
      proposed = "[(''id'', JStr ''urn:1''), (''type'', JArr [JStr ''Degree'']),
        (''issuer'', JStr ''did:web:university''), (''credentialSubject'', JObj [(''degree'', JStr ''PhD'')])]"]
  show ?thesis
    by (auto simp: sampleIssuerTenants_def sampleCredentialAgent_def sampleProposal_def chainedField_def isTruthy_def)
qed

end
