(* ===== verification/KeyManagement.thy ===== *)
theory KeyManagement
  imports Dids JsObjects Tables Retry
begin

text \<open>
  The key management service over PostgreSQL (\<^verbatim>\<open>kms/postgres-key-management.service.ts\<close>) and
  the sidecar of BBS (\<^verbatim>\<open>kms/bbs-key-management.service.ts\<close>): creation, import, signatures
  and the encryption of DIDComm and of the answers of OpenID. The primitives are those of Node and
  of three libraries, a record of functions; a primitive that may throw gives an option.
\<close>

text \<open>
  The table \<open>keys\<close> of the key management services of the core
  (\<^verbatim>\<open>kms/postgres-key-management.service.ts\<close>, \<^verbatim>\<open>kms/bbs-key-management.service.ts\<close>):
  its initialisation, the reads and writes both services make of it, and which wallet sees which
  key. What a wallet is called here is the \<open>contextCorrelationId\<close> of its agent.
\<close>

section \<open>Rows\<close>

record kmsRow =
  kr_id :: string
  kr_wallet_id :: string
  kr_public_jwk :: string
  kr_private_jwk :: string

text \<open>The rows, the queries so far and the draws from the sources of randomness.\<close>

record keyDb =
  kd_rows :: "kmsRow list"
  kd_queries :: nat
  kd_draws :: nat

datatype kmsError =
    KeyQueryFailed string
  | KeyNotJson
  | KeyManagementError string
  | AlgorithmNotSupported string string
  | KeyExists string string
  | KeyMissing string string
  | CryptoThrew string

text \<open>A query fails with the SQLSTATE the stream of faults has for it.\<close>

definition keyQuery :: "(nat \<Rightarrow> string option) \<Rightarrow> (keyDb, kmsError, 'a) op \<Rightarrow> (keyDb, kmsError, 'a) op" where
  "keyQuery F statement = (\<lambda>s.
     let s' = s\<lparr>kd_queries := Suc (kd_queries s)\<rparr> in
     case F (kd_queries s) of Some code \<Rightarrow> (Inl (KeyQueryFailed code), s') | None \<Rightarrow> statement s')"

definition keyDraw :: "(nat \<Rightarrow> 'a) \<Rightarrow> (keyDb, 'e, 'a) op" where
  "keyDraw source = (\<lambda>s. (Inr (source (kd_draws s)), s\<lparr>kd_draws := Suc (kd_draws s)\<rparr>))"

interpretation kt: row_table kr_id "saveRow kr_id" "rowAt kr_id"
  by (rule saveRow_row_table)

section \<open>Initialisation\<close>

definition duplicateObject :: "kmsError \<Rightarrow> bool" where
  "duplicateObject e \<longleftrightarrow> e = KeyQueryFailed ''42P07'' \<or> e = KeyQueryFailed ''23505''"

text \<open>The statements that create the table only matter by how they fail.\<close>

definition initializeKeys :: "(nat \<Rightarrow> string option) \<Rightarrow> (keyDb, kmsError, unit) op" where
  "initializeKeys F =
     andThen (catching (keyQuery F (ret ())) (\<lambda>e. if duplicateObject e then ret () else throw e)) (\<lambda>_.
     andThen (keyQuery F (ret ())) (\<lambda>_.
     keyQuery F (ret ())))"

text \<open>\<open>ready\<close> of both services: what the last attempt threw is only logged.\<close>

definition keysReady :: "(nat \<Rightarrow> string option) \<Rightarrow> (int \<Rightarrow> keyDb \<Rightarrow> keyDb) \<Rightarrow> keyDb \<Rightarrow> keyDb" where
  "keysReady F delay s =
     snd (withRetry \<lparr>attempts = 10, baseDelayMs = 2000, maxDelayMs = 15000,
       shouldRetry = Some (\<lambda>e. \<not> duplicateObject e)\<rparr> delay (initializeKeys F) s)"

section \<open>Reads and writes\<close>

definition DOMAIN_KEY_SCOPE :: string where "DOMAIN_KEY_SCOPE = ''domain-key''"

record storedKeyPair =
  sk_publicJwk :: json
  sk_privateJwk :: json

definition parsedKey :: "kmsRow \<Rightarrow> kmsError + storedKeyPair" where
  "parsedKey r =
     (case (jsonParse (kr_public_jwk r), jsonParse (kr_private_jwk r)) of
        (Some p, Some q) \<Rightarrow> Inr \<lparr>sk_publicJwk = p, sk_privateJwk = q\<rparr>
      | _ \<Rightarrow> Inl KeyNotJson)"

definition firstKey :: "kmsRow list \<Rightarrow> (keyDb, kmsError, storedKeyPair option) op" where
  "firstKey rows =
     (case rows of
        [] \<Rightarrow> ret None
      | r # _ \<Rightarrow> (case parsedKey r of Inl e \<Rightarrow> throw e | Inr k \<Rightarrow> ret (Some k)))"

text \<open>The PostgreSQL service also reads the keys of the domain, the sidecar of BBS does not.\<close>

definition visibleTo :: "string \<Rightarrow> string \<Rightarrow> kmsRow \<Rightarrow> bool" where
  "visibleTo wallet keyId r \<longleftrightarrow>
     kr_id r = keyId \<and> (kr_wallet_id r = wallet \<or> kr_wallet_id r = DOMAIN_KEY_SCOPE)"

definition ownKey :: "string \<Rightarrow> string \<Rightarrow> kmsRow \<Rightarrow> bool" where
  "ownKey wallet keyId r \<longleftrightarrow> kr_id r = keyId \<and> kr_wallet_id r = wallet"

definition getKey :: "(nat \<Rightarrow> string option) \<Rightarrow> string \<Rightarrow> string \<Rightarrow> (keyDb, kmsError, storedKeyPair option) op" where
  "getKey F wallet keyId =
     andThen (keyQuery F (gets (\<lambda>s. filter (visibleTo wallet keyId) (kd_rows s)))) firstKey"

definition bbsGetKey :: "(nat \<Rightarrow> string option) \<Rightarrow> string \<Rightarrow> string \<Rightarrow> (keyDb, kmsError, storedKeyPair option) op" where
  "bbsGetKey F wallet keyId =
     andThen (keyQuery F (gets (\<lambda>s. filter (ownKey wallet keyId) (kd_rows s)))) firstKey"

text \<open>The statement of both services: on a conflict the row changes its wallet too.\<close>

definition saveKey :: "(nat \<Rightarrow> string option) \<Rightarrow> string \<Rightarrow> string \<Rightarrow> json \<Rightarrow> json \<Rightarrow> (keyDb, kmsError, unit) op" where
  "saveKey F wallet keyId publicJwk privateJwk =
     keyQuery F (modify (\<lambda>s. s\<lparr>kd_rows := saveRow kr_id
       \<lparr>kr_id = keyId, kr_wallet_id = wallet, kr_public_jwk = stringify publicJwk,
        kr_private_jwk = stringify privateJwk\<rparr> (kd_rows s)\<rparr>))"

definition kmsDeleteKey :: "(nat \<Rightarrow> string option) \<Rightarrow> string \<Rightarrow> string \<Rightarrow> (keyDb, kmsError, bool) op" where
  "kmsDeleteKey F wallet keyId =
     keyQuery F (\<lambda>s. (Inr (0 < countWhere (ownKey wallet keyId) (kd_rows s)),
       s\<lparr>kd_rows := deleteWhere (ownKey wallet keyId) (kd_rows s)\<rparr>))"

definition kmsGetPublicKey :: "(nat \<Rightarrow> string option) \<Rightarrow> string \<Rightarrow> string \<Rightarrow> (keyDb, kmsError, json option) op" where
  "kmsGetPublicKey F wallet keyId =
     andThen (getKey F wallet keyId) (\<lambda>entry. ret (map_option sk_publicJwk entry))"

definition bbsGetPublicKey :: "(nat \<Rightarrow> string option) \<Rightarrow> string \<Rightarrow> string \<Rightarrow> (keyDb, kmsError, json option) op" where
  "bbsGetPublicKey F wallet keyId =
     andThen (bbsGetKey F wallet keyId) (\<lambda>entry. ret (map_option sk_publicJwk entry))"

section \<open>What the table keeps\<close>

definition keysWf :: "keyDb \<Rightarrow> bool" where
  "keysWf s \<longleftrightarrow> distinct (map kr_id (kd_rows s))"

lemma preserves_keyQuery [pres]: "preserves keysWf m \<Longrightarrow> preserves keysWf (keyQuery F m)"
  unfolding preserves_def keyQuery_def Let_def
  by (auto simp: keysWf_def split: option.splits)

lemma preserves_keyDraw [pres]: "preserves keysWf (keyDraw f)"
  by (simp add: preserves_def keyDraw_def keysWf_def)

lemma preserves_firstKey [pres]: "preserves keysWf (firstKey rows)"
  by (simp add: firstKey_def split: list.splits sum.splits)

lemma preserves_getKey [pres]: "preserves keysWf (getKey F w i)"
  unfolding getKey_def by (intro preserves_andThen preserves_keyQuery preserves_firstKey) simp

lemma preserves_bbsGetKey [pres]: "preserves keysWf (bbsGetKey F w i)"
  unfolding bbsGetKey_def by (intro preserves_andThen preserves_keyQuery preserves_firstKey) simp

lemma preserves_saveKey [pres]: "preserves keysWf (saveKey F w i p q)"
  unfolding saveKey_def
  by (intro preserves_keyQuery preserves_modify) (simp add: keysWf_def kt.unique_save)

lemma preserves_kmsDeleteKey [pres]: "preserves keysWf (kmsDeleteKey F w i)"
  unfolding kmsDeleteKey_def
  by (intro preserves_keyQuery) (simp add: preserves_def keysWf_def distinct_deleteWhere)

text \<open>Reading leaves the rows alone, whatever fails.\<close>

lemma getKey_rows: "kd_rows (snd (getKey F w i s)) = kd_rows s \<and> kd_draws (snd (getKey F w i s)) = kd_draws s"
  by (simp add: getKey_def andThen_def keyQuery_def firstKey_def Let_def throw_def ret_def
      split: option.splits list.splits sum.splits)

text \<open>A key is unique: the rows a wallet sees under an identifier are one row or none.\<close>

lemma seen_rows:
  assumes "keysWf s"
  shows "filter (\<lambda>r. kr_id r = i \<and> P r) (kd_rows s) =
    (case rowAt kr_id i (kd_rows s) of None \<Rightarrow> [] | Some r \<Rightarrow> if P r then [r] else [])"
proof -
  have "distinct (map kr_id rows) \<Longrightarrow> filter (\<lambda>r. kr_id r = i \<and> P r) rows =
    (case rowAt kr_id i rows of None \<Rightarrow> [] | Some r \<Rightarrow> if P r then [r] else [])" for rows
  proof (induction rows)
    case (Cons r rows)
    show ?case
    proof (cases "kr_id r = i")
      case True
      with Cons.prems have "\<forall>x\<in>set rows. kr_id x \<noteq> i"
        by (metis distinct.simps(2) imageI list.set_map list.simps(9))
      then have "filter (\<lambda>r. kr_id r = i \<and> P r) rows = []"
        by (intro filter_False) simp
      with True show ?thesis by (simp add: rowAt_def)
    next
      case False
      with Cons show ?thesis by (simp add: rowAt_def)
    qed
  qed (simp add: rowAt_def)
  with assms show ?thesis by (simp add: keysWf_def)
qed

definition seenBy :: "string \<Rightarrow> kmsRow \<Rightarrow> bool" where
  "seenBy w r \<longleftrightarrow> kr_wallet_id r = w \<or> kr_wallet_id r = DOMAIN_KEY_SCOPE"

lemma getKey_run:
  assumes "keysWf s" and "F (kd_queries s) = None"
  shows "getKey F w i s =
    (case rowAt kr_id i (kd_rows s) of
       None \<Rightarrow> (Inr None, s\<lparr>kd_queries := Suc (kd_queries s)\<rparr>)
     | Some r \<Rightarrow> if seenBy w r then (map_sum id Some (parsedKey r), s\<lparr>kd_queries := Suc (kd_queries s)\<rparr>)
         else (Inr None, s\<lparr>kd_queries := Suc (kd_queries s)\<rparr>))"
proof -
  have "visibleTo w i = (\<lambda>r. kr_id r = i \<and> seenBy w r)"
    by (simp add: fun_eq_iff visibleTo_def seenBy_def)
  with seen_rows [OF assms(1), where i = i and P = "seenBy w"] assms(2) show ?thesis
    by (simp add: getKey_def keyQuery_def andThen_def firstKey_def Let_def
        split: option.splits sum.splits)
qed

text \<open>What was saved is what the same wallet reads.\<close>

lemma parsedKey_saved [simp]:
  "parsedKey \<lparr>kr_id = i, kr_wallet_id = w, kr_public_jwk = stringify p, kr_private_jwk = stringify q\<rparr> =
    Inr \<lparr>sk_publicJwk = p, sk_privateJwk = q\<rparr>"
  by (simp add: parsedKey_def)

lemma saveKey_run:
  assumes "F (kd_queries s) = None"
  shows "saveKey F w i p q s = (Inr (), s\<lparr>kd_queries := Suc (kd_queries s),
    kd_rows := saveRow kr_id \<lparr>kr_id = i, kr_wallet_id = w, kr_public_jwk = stringify p,
      kr_private_jwk = stringify q\<rparr> (kd_rows s)\<rparr>)"
  using assms by (simp add: saveKey_def keyQuery_def Let_def)

lemma getKey_after_save:
  assumes "keysWf s" and "\<And>n. F n = None"
  shows "fst (getKey F w' i' (snd (saveKey F w i p q s))) =
    (if i' = i then Inr (if w' = w \<or> w = DOMAIN_KEY_SCOPE then Some \<lparr>sk_publicJwk = p, sk_privateJwk = q\<rparr> else None)
     else fst (getKey F w' i' s))"
proof -
  have "keysWf (snd (saveKey F w i p q s))"
    by (rule preservesD [OF preserves_saveKey assms(1)])
  then show ?thesis
    using assms by (auto simp: getKey_run saveKey_run kt.lookup_save seenBy_def split: option.splits)
qed

section \<open>Primitives\<close>

datatype signatureScheme = PlainEd25519 | Sha256P1363

datatype cipher = Aes128Gcm | Aes256Gcm | Chacha20Poly1305

record blsPair =
  bp_publicKey :: string
  bp_privateKey :: "string option"
  bp_publicKeyBuffer :: bytes
  bp_privateKeyBuffer :: "bytes option"

text \<open>
  Sources of randomness are read at the number of draws so far. A cipher takes its key, nonce and
  additional data, and gives the text with its tag; the box takes message, nonce, public and
  secret key.
\<close>

record 'k crypto =
  cy_uuid :: "nat \<Rightarrow> string"
  cy_random :: "nat \<Rightarrow> nat \<Rightarrow> bytes"
  cy_generateP256 :: "nat \<Rightarrow> (string \<times> json) list \<times> (string \<times> json) list"
  cy_generateEd25519 :: "nat \<Rightarrow> (string \<times> json) list \<times> (string \<times> json) list"
  cy_generateBls :: "nat \<Rightarrow> blsPair"
  cy_publicJwkFromPrivateJwk :: "json \<Rightarrow> (string \<times> json) list option"
  cy_createPrivateKey :: "json \<Rightarrow> 'k option"
  cy_createPublicKey :: "json \<Rightarrow> 'k option"
  cy_sign :: "signatureScheme \<Rightarrow> bytes \<Rightarrow> 'k \<Rightarrow> bytes option"
  cy_verify :: "signatureScheme \<Rightarrow> bytes \<Rightarrow> 'k \<Rightarrow> bytes \<Rightarrow> bool option"
  cy_diffieHellman :: "'k \<Rightarrow> 'k \<Rightarrow> bytes option"
  cy_sha256 :: "bytes \<Rightarrow> bytes"
  cy_seal :: "cipher \<Rightarrow> bytes \<Rightarrow> bytes \<Rightarrow> bytes option \<Rightarrow> bytes \<Rightarrow> (bytes \<times> bytes) option"
  cy_open :: "cipher \<Rightarrow> bytes \<Rightarrow> bytes \<Rightarrow> bytes option \<Rightarrow> bytes option \<Rightarrow> bytes \<Rightarrow> bytes option"
  cy_convertSecretKey :: "bytes \<Rightarrow> bytes option"
  cy_boxKeyPair :: "nat \<Rightarrow> bytes \<times> bytes"
  cy_box :: "bytes \<Rightarrow> bytes \<Rightarrow> bytes \<Rightarrow> bytes \<Rightarrow> bytes"
  cy_boxOpen :: "bytes \<Rightarrow> bytes \<Rightarrow> bytes \<Rightarrow> bytes \<Rightarrow> bytes option"

type_synonym 'a kms = "(keyDb, kmsError, 'a) op"

definition thrown :: "string \<Rightarrow> 'a option \<Rightarrow> 'a kms" where
  "thrown what v = orThrow v (CryptoThrew what)"

definition kmsFails :: "string \<Rightarrow> 'a kms" where
  "kmsFails m = throw (KeyManagementError m)"

section \<open>Which operations are supported\<close>

definition fieldIs :: "json option \<Rightarrow> string \<Rightarrow> string \<Rightarrow> bool" where
  "fieldIs v k t \<longleftrightarrow> chainedField k v = Some (JStr t)"

definition isBls12381G2CreateType :: "json option \<Rightarrow> bool" where
  "isBls12381G2CreateType ty \<longleftrightarrow>
     fieldIs ty ''keyType'' ''Bls12381G2'' \<or> fieldIs ty ''kty'' ''OKP'' \<and> fieldIs ty ''crv'' ''Bls12381G2''"

definition isP256Type :: "json option \<Rightarrow> bool" where
  "isP256Type ty \<longleftrightarrow> fieldIs ty ''kty'' ''EC'' \<and> fieldIs ty ''crv'' ''P-256''"

definition isEd25519Type :: "json option \<Rightarrow> bool" where
  "isEd25519Type ty \<longleftrightarrow> fieldIs ty ''kty'' ''OKP'' \<and> fieldIs ty ''crv'' ''Ed25519''"

definition supportedByPostgres :: "json \<Rightarrow> bool" where
  "supportedByPostgres operation =
     (let op = (\<lambda>t. jsonField ''operation'' operation = Some (JStr t));
          ty = jsonField ''type'' operation;
          alg = orElse (chainedField ''algorithm'' (jsonField ''encryption'' operation))
            (chainedField ''algorithm'' (jsonField ''decryption'' operation));
          ka = chainedField ''algorithm'' (jsonField ''keyAgreement'' operation)
      in if op ''randomBytes'' then True
         else if op ''createKey'' then
           \<not> isTruthy ty \<or> isEd25519Type ty \<or> isP256Type ty \<or> isBls12381G2CreateType ty
         else if op ''importKey'' \<or> op ''deleteKey'' then True
         else if op ''encrypt'' \<or> op ''decrypt'' then
           \<not> (alg = Some (JStr ''XSALSA20-POLY1305'') \<or> ka = Some (JStr ''ECDH-HSALSA20''))
         else op ''sign'' \<or> op ''verify'')"

definition supportedByBbs :: "json \<Rightarrow> bool" where
  "supportedByBbs operation =
     (if jsonField ''operation'' operation = Some (JStr ''createKey'')
      then isTruthy (jsonField ''type'' operation) \<and> isBls12381G2CreateType (jsonField ''type'' operation)
      else jsonField ''operation'' operation = Some (JStr ''deleteKey''))"

section \<open>Keys\<close>

record createdKey =
  ck_keyId :: string
  ck_publicJwk :: json
  ck_base58 :: "string option"

definition withKid :: "string \<Rightarrow> (string \<times> json) list \<Rightarrow> json" where
  "withKid kid jwk = JObj (AList.update ''kid'' (JStr kid) jwk)"

text \<open>\<open>{...a, k: v}\<close> on objects whose keys are distinct writes the entries in place.\<close>

definition blsPublicJwk :: "string \<Rightarrow> blsPair \<Rightarrow> (string \<times> json) list" where
  "blsPublicJwk kid pair =
     [(''kty'', JStr ''OKP''), (''crv'', JStr ''Bls12381G2''),
      (''x'', JStr (toBase64url (bp_publicKeyBuffer pair))), (''kid'', JStr kid),
      (''publicKeyBase58'', JStr (bp_publicKey pair))]"

definition blsPrivateJwk :: "string \<Rightarrow> blsPair \<Rightarrow> (string \<times> json) list" where
  "blsPrivateJwk kid pair =
     blsPublicJwk kid pair @
       [(''d'', JStr (toBase64url (coalesce (bp_privateKeyBuffer pair) []))),
        (''privateKeyBase58'', JStr (coalesce (bp_privateKey pair) []))]"

definition saveBlsKey ::
  "(nat \<Rightarrow> string option) \<Rightarrow> 'k crypto \<Rightarrow> kmsError \<Rightarrow> string \<Rightarrow> string \<Rightarrow> createdKey kms" where
  "saveBlsKey F Y noPrivateKey wallet kid =
     andThen (keyDraw (cy_generateBls Y)) (\<lambda>pair.
     if \<not> truthyText (bp_privateKey pair) then throw noPrivateKey
     else andThen (saveKey F wallet kid (JObj (blsPublicJwk kid pair)) (JObj (blsPrivateJwk kid pair))) (\<lambda>_.
       ret \<lparr>ck_keyId = kid, ck_publicJwk = JObj (blsPublicJwk kid pair),
         ck_base58 = Some (bp_publicKey pair)\<rparr>))"

definition saveNodeKey ::
  "(nat \<Rightarrow> string option) \<Rightarrow> (nat \<Rightarrow> (string \<times> json) list \<times> (string \<times> json) list) \<Rightarrow> string \<Rightarrow> string \<Rightarrow>
    createdKey kms" where
  "saveNodeKey F generate wallet kid =
     andThen (keyDraw generate) (\<lambda>(publicKey, privateKey).
     andThen (saveKey F wallet kid (withKid kid publicKey) (withKid kid privateKey)) (\<lambda>_.
     ret \<lparr>ck_keyId = kid, ck_publicJwk = withKid kid publicKey, ck_base58 = None\<rparr>))"

definition kidOr :: "'k crypto \<Rightarrow> string option \<Rightarrow> string kms" where
  "kidOr Y keyId = (case keyId of Some k \<Rightarrow> ret k | None \<Rightarrow> keyDraw (cy_uuid Y))"

definition NO_BLS_PRIVATE_KEY :: string where
  "NO_BLS_PRIVATE_KEY = ''Bls12381G2KeyPair.generate did not return a private key''"

definition kmsCreateKey ::
  "(nat \<Rightarrow> string option) \<Rightarrow> 'k crypto \<Rightarrow> string \<Rightarrow> json \<Rightarrow> string option \<Rightarrow> createdKey kms" where
  "kmsCreateKey F Y wallet ty keyId =
     andThen (kidOr Y keyId) (\<lambda>kid.
     if isBls12381G2CreateType (Some ty) then saveBlsKey F Y (CryptoThrew NO_BLS_PRIVATE_KEY) wallet kid
     else if isP256Type (Some ty) then saveNodeKey F (cy_generateP256 Y) wallet kid
     else if isEd25519Type (Some ty) then saveNodeKey F (cy_generateEd25519 Y) wallet kid
     else throw (CryptoThrew (''Only OKP Ed25519, EC P-256 and Bls12381G2 supported in '' @
       ''PostgresKeyManagementService'')))"

definition bbsCreateKey ::
  "(nat \<Rightarrow> string option) \<Rightarrow> 'k crypto \<Rightarrow> string \<Rightarrow> json \<Rightarrow> string option \<Rightarrow> createdKey kms" where
  "bbsCreateKey F Y wallet ty keyId =
     (if \<not> isBls12381G2CreateType (Some ty)
      then throw (AlgorithmNotSupported (''createKey '' @
        coalesce (Option.bind (orElse (orElse (jsonField ''keyType'' ty) (jsonField ''crv'' ty))
          (jsonField ''kty'' ty)) jsonStr) ''undefined'') ''bbs-postgres'')
      else andThen (kidOr Y keyId) (saveBlsKey F Y (KeyManagementError NO_BLS_PRIVATE_KEY) wallet))"

definition kmsImportKey :: "(nat \<Rightarrow> string option) \<Rightarrow> 'k crypto \<Rightarrow> string \<Rightarrow> json \<Rightarrow> createdKey kms" where
  "kmsImportKey F Y wallet privateJwk =
     andThen (kidOr Y (Option.bind (jsonField ''kid'' privateJwk) jsonStr)) (\<lambda>kid.
     andThen (thrown ''publicJwkFromPrivateJwk'' (cy_publicJwkFromPrivateJwk Y privateJwk)) (\<lambda>jwk.
     let publicJwk = withKid kid jwk in
     andThen (saveKey F wallet kid publicJwk privateJwk) (\<lambda>_.
     ret \<lparr>ck_keyId = kid, ck_publicJwk = publicJwk, ck_base58 = None\<rparr>)))"

text \<open>The pair of BBS, rebuilt from the table: the public and the private key in Base58.\<close>

definition blsPairOf :: "string \<Rightarrow> storedKeyPair option \<Rightarrow> (string \<times> string) kms" where
  "blsPairOf keyId entry =
     (case entry of
        None \<Rightarrow> kmsFails (''Key '' @ keyId @ '' not found'')
      | Some e \<Rightarrow>
          if jsonField ''crv'' (sk_privateJwk e) \<noteq> Some (JStr ''Bls12381G2'')
          then kmsFails (''Key '' @ keyId @ '' is not Bls12381G2'')
          else
            (let public58 = Option.bind (orElse (jsonField ''publicKeyBase58'' (sk_privateJwk e))
                   (jsonField ''publicKeyBase58'' (sk_publicJwk e))) jsonStr;
                 private58 = Option.bind (jsonField ''privateKeyBase58'' (sk_privateJwk e)) jsonStr
             in if \<not> truthyText public58 \<or> \<not> truthyText private58
                then kmsFails (''Key '' @ keyId @ '' missing BLS Base58 material'')
                else ret (coalesce public58 [], coalesce private58 [])))"

definition getBls12381G2KeyPair :: "(nat \<Rightarrow> string option) \<Rightarrow> string \<Rightarrow> string \<Rightarrow> (string \<times> string) kms" where
  "getBls12381G2KeyPair F wallet keyId = andThen (getKey F wallet keyId) (blsPairOf keyId)"

definition bbsKeyPair :: "(nat \<Rightarrow> string option) \<Rightarrow> string \<Rightarrow> string \<Rightarrow> (string \<times> string) kms" where
  "bbsKeyPair F wallet keyId = andThen (bbsGetKey F wallet keyId) (blsPairOf keyId)"

definition kmsRandomBytes :: "'k crypto \<Rightarrow> nat \<Rightarrow> bytes kms" where
  "kmsRandomBytes Y count = keyDraw (\<lambda>n. cy_random Y n count)"

text \<open>What the sidecar leaves to the primary service: import, signatures, encryption and random bytes.\<close>

definition bbsRefuses :: "string \<Rightarrow> 'a kms" where
  "bbsRefuses operation = throw (AlgorithmNotSupported operation ''bbs-postgres'')"

section \<open>Signatures\<close>

text \<open>Which primitive an algorithm names: the digest, if any.\<close>

definition schemeOf :: "string \<Rightarrow> signatureScheme kms" where
  "schemeOf algorithm =
     (if algorithm = ''EdDSA'' \<or> algorithm = ''Ed25519'' then ret PlainEd25519
      else if algorithm = ''ES256'' then ret Sha256P1363
      else kmsFails (''Unsupported algorithm: '' @ algorithm))"

definition kmsSign ::
  "(nat \<Rightarrow> string option) \<Rightarrow> 'k crypto \<Rightarrow> string \<Rightarrow> string \<Rightarrow> string \<Rightarrow> bytes \<Rightarrow> bytes kms" where
  "kmsSign F Y wallet keyId algorithm data =
     andThen (getKey F wallet keyId) (\<lambda>entry.
     case entry of
       None \<Rightarrow> kmsFails (''Key '' @ keyId @ '' not found'')
     | Some e \<Rightarrow>
         andThen (thrown ''createPrivateKey'' (cy_createPrivateKey Y (sk_privateJwk e))) (\<lambda>privateKey.
         andThen (schemeOf algorithm) (\<lambda>scheme. thrown ''sign'' (cy_sign Y scheme data privateKey))))"

datatype verifyKey = ByKeyId string | ByPublicJwk "json option"

text \<open>The key verified with, when the signature is right.\<close>

definition kmsVerify ::
  "(nat \<Rightarrow> string option) \<Rightarrow> 'k crypto \<Rightarrow> string \<Rightarrow> verifyKey \<Rightarrow> string \<Rightarrow> bytes \<Rightarrow> bytes \<Rightarrow> json option kms" where
  "kmsVerify F Y wallet key algorithm data signature =
     andThen (case key of
         ByKeyId i \<Rightarrow> if i = [] then ret None else kmsGetPublicKey F wallet i
       | ByPublicJwk jwk \<Rightarrow> ret jwk) (\<lambda>found.
     if \<not> isTruthy found then kmsFails ''Public key not found for verify''
     else
         let publicJwk = coalesce found JNull in
         andThen (thrown ''createPublicKey'' (cy_createPublicKey Y publicJwk)) (\<lambda>pubKey.
         andThen (schemeOf algorithm) (\<lambda>scheme.
         andThen (thrown ''verify'' (cy_verify Y scheme data pubKey signature)) (\<lambda>valid.
         ret (if valid then Some publicJwk else None)))))"

end
