(* ===== verification/KeyEncryption.thy ===== *)
theory KeyEncryption
  imports KeyManagement
begin

text \<open>
  Encryption and decryption of the key management service over PostgreSQL
  (\<^verbatim>\<open>kms/postgres-key-management.service.ts\<close>): the boxes of DIDComm with a known or an
  ephemeral sender, keys given with the call, and ECDH-ES with its key derivation. Texts are
  ASCII where the code encodes them as UTF-8.
\<close>

section \<open>Options\<close>

text \<open>A text or bytes, as \<open>iv\<close>, \<open>tag\<close> and the additional data are given.\<close>

datatype textOrBytes = GivenText string | GivenBytes bytes

text \<open>\<open>Buffer.from(s, 'base64')\<close> reads the same two alphabets as \<open>'base64url'\<close>.\<close>

fun readBase64 :: "textOrBytes \<Rightarrow> bytes" where
  "readBase64 (GivenText s) = fromBase64url s"
| "readBase64 (GivenBytes b) = b"

fun readUtf8 :: "textOrBytes \<Rightarrow> bytes" where
  "readUtf8 (GivenText s) = textBytes s"
| "readUtf8 (GivenBytes b) = b"

text \<open>\<open>encOpts.aad ? ... : undefined\<close>: an empty text is no data, empty bytes are.\<close>

fun truthyAad :: "textOrBytes option \<Rightarrow> bool" where
  "truthyAad None = False"
| "truthyAad (Some (GivenText s)) = (s \<noteq> [])"
| "truthyAad (Some (GivenBytes b)) = True"

record keyAgreement =
  ka_keyId :: "string option"
  ka_senderKeyId :: "string option"
  ka_algorithm :: "string option"
  ka_apu :: "bytes option"
  ka_apv :: "bytes option"
  ka_externalPublicJwk :: "json option"
  ka_recipientPublicKey :: "json option"
  ka_recipientKey :: "json option"

text \<open>The key of a call; the last form stands for what neither branch reads.\<close>

datatype encryptionKey = Agreement keyAgreement | OctKey string | OtherKey

record encryptOptions =
  ec_data :: "bytes option"
  ec_plaintext :: "bytes option"
  ec_key :: encryptionKey
  ec_algorithm :: "string option"
  ec_aad :: "textOrBytes option"

record encryptedData =
  ed_encrypted :: bytes
  ed_iv :: "bytes option"
  ed_tag :: "bytes option"

record decryptOptions =
  dc_encrypted :: bytes
  dc_key :: encryptionKey
  dc_algorithm :: "string option"
  dc_iv :: "textOrBytes option"
  dc_tag :: "textOrBytes option"
  dc_aad :: "textOrBytes option"

section \<open>Derivation of the content key\<close>

text \<open>\<open>writeUInt32BE\<close>, on lengths below \<open>2 ^ 32\<close>.\<close>

definition uint32be :: "nat \<Rightarrow> bytes" where
  "uint32be n = [of_nat (n div 2 ^ 24), of_nat (n div 2 ^ 16), of_nat (n div 2 ^ 8), of_nat n]"

definition lenPrefix :: "bytes \<Rightarrow> bytes" where
  "lenPrefix buf = uint32be (length buf) @ buf"

definition concatKdf :: "'k crypto \<Rightarrow> bytes \<Rightarrow> string \<Rightarrow> nat \<Rightarrow> bytes option \<Rightarrow> bytes option \<Rightarrow> bytes" where
  "concatKdf Y sharedSecret algorithm keyLengthBits apu apv =
     take (keyLengthBits div 8)
       (cy_sha256 Y (uint32be 1 @ sharedSecret @ lenPrefix (textBytes algorithm) @
          lenPrefix (coalesce apu []) @ lenPrefix (coalesce apv []) @ uint32be keyLengthBits))"

definition gcmOf :: "string \<Rightarrow> cipher" where
  "gcmOf encAlg = (if encAlg = ''A128GCM'' then Aes128Gcm else Aes256Gcm)"

definition gcmBits :: "string \<Rightarrow> nat" where
  "gcmBits encAlg = (if encAlg = ''A128GCM'' then 128 else 256)"

text \<open>The key both ends derive from a stored private key and a public key of the call.\<close>

definition contentKey ::
  "(nat \<Rightarrow> string option) \<Rightarrow> 'k crypto \<Rightarrow> string \<Rightarrow> string \<Rightarrow> string \<Rightarrow> json \<Rightarrow> keyAgreement \<Rightarrow> string \<Rightarrow> bytes kms" where
  "contentKey F Y notFound wallet keyId extPub ka encAlg =
     andThen (getKey F wallet keyId) (\<lambda>entry.
     case entry of
       None \<Rightarrow> kmsFails (notFound @ keyId @ '' not found'')
     | Some e \<Rightarrow>
         andThen (thrown ''createPrivateKey'' (cy_createPrivateKey Y (sk_privateJwk e))) (\<lambda>privateKey.
         andThen (thrown ''createPublicKey'' (cy_createPublicKey Y extPub)) (\<lambda>publicKey.
         andThen (thrown ''diffieHellman'' (cy_diffieHellman Y privateKey publicKey)) (\<lambda>sharedSecret.
         ret (concatKdf Y sharedSecret encAlg (gcmBits encAlg) (ka_apu ka) (ka_apv ka))))))"

section \<open>ECDH-ES\<close>

definition encryptEcdhEs ::
  "(nat \<Rightarrow> string option) \<Rightarrow> 'k crypto \<Rightarrow> string \<Rightarrow> keyAgreement \<Rightarrow> bytes \<Rightarrow> string option \<Rightarrow>
    textOrBytes option \<Rightarrow> encryptedData kms" where
  "encryptEcdhEs F Y wallet ka data algorithm aad =
     (if \<not> truthyText (ka_keyId ka) then kmsFails ''ECDH-ES encrypt: keyId required''
      else if \<not> isTruthy (ka_externalPublicJwk ka) then kmsFails ''ECDH-ES encrypt: externalPublicJwk required''
      else
          (let extPub = coalesce (ka_externalPublicJwk ka) JNull; encAlg = coalesce algorithm ''A256GCM'' in
           andThen (contentKey F Y ''ECDH-ES encrypt: key '' wallet (coalesce (ka_keyId ka) []) extPub ka encAlg) (\<lambda>cek.
           andThen (keyDraw (\<lambda>n. cy_random Y n 12)) (\<lambda>iv.
           andThen (thrown ''createCipheriv'' (cy_seal Y (gcmOf encAlg) cek iv (map_option readBase64 aad) data)) (\<lambda>(c, tag).
           ret \<lparr>ed_encrypted = c, ed_iv = Some iv, ed_tag = Some tag\<rparr>)))))"

definition decryptEcdhEs ::
  "(nat \<Rightarrow> string option) \<Rightarrow> 'k crypto \<Rightarrow> string \<Rightarrow> keyAgreement \<Rightarrow> decryptOptions \<Rightarrow> bytes kms" where
  "decryptEcdhEs F Y wallet ka opts =
     (if \<not> truthyText (ka_keyId ka) then kmsFails ''ECDH-ES decrypt: keyId required''
      else if \<not> isTruthy (ka_externalPublicJwk ka) then kmsFails ''ECDH-ES decrypt: externalPublicJwk (epk) required''
      else
          (let extPub = coalesce (ka_externalPublicJwk ka) JNull; encAlg = coalesce (dc_algorithm opts) ''A256GCM'' in
           andThen (contentKey F Y ''ECDH-ES decrypt: key '' wallet (coalesce (ka_keyId ka) []) extPub ka encAlg) (\<lambda>cek.
           case map_option readBase64 (dc_iv opts) of
             None \<Rightarrow> kmsFails ''ECDH-ES decrypt: iv (12 bytes) required''
           | Some iv \<Rightarrow>
               if length iv \<noteq> 12 then kmsFails ''ECDH-ES decrypt: iv (12 bytes) required''
               else (case map_option readBase64 (dc_tag opts) of
                   None \<Rightarrow> kmsFails ''ECDH-ES decrypt: tag required''
                 | Some tag \<Rightarrow> thrown ''createDecipheriv'' (cy_open Y (gcmOf encAlg) cek iv
                     (map_option readUtf8 (dc_aad opts)) (Some tag) (dc_encrypted opts))))))"

section \<open>Boxes\<close>

definition ed25519ToX25519Secret ::
  "(nat \<Rightarrow> string option) \<Rightarrow> 'k crypto \<Rightarrow> string \<Rightarrow> string \<Rightarrow> bytes kms" where
  "ed25519ToX25519Secret F Y wallet keyId =
     andThen (getKey F wallet keyId) (\<lambda>entry.
     case entry of
       None \<Rightarrow> kmsFails (''Key '' @ keyId @ '' not found'')
     | Some e \<Rightarrow>
         (case (Option.bind (jsonField ''d'' (sk_privateJwk e)) jsonStr,
             Option.bind (jsonField ''x'' (sk_publicJwk e)) jsonStr) of
            (Some d, Some x) \<Rightarrow>
              (let secret = fromBase64url d @ fromBase64url x in
               if length secret \<noteq> 64 then kmsFails ''Invalid Ed25519 key format (expected 64 bytes)''
               else orThrow (cy_convertSecretKey Y secret)
                 (KeyManagementError ''Failed to convert Ed25519 to X25519''))
          | _ \<Rightarrow> throw (CryptoThrew ''Buffer.from'')))"

definition externalKey :: "keyAgreement \<Rightarrow> string option" where
  "externalKey ka = Option.bind (chainedField ''x''
     (orElse (orElse (ka_externalPublicJwk ka) (ka_recipientPublicKey ka)) (ka_recipientKey ka))) jsonStr"

definition encryptBox ::
  "(nat \<Rightarrow> string option) \<Rightarrow> 'k crypto \<Rightarrow> string \<Rightarrow> keyAgreement \<Rightarrow> bytes \<Rightarrow> encryptedData kms" where
  "encryptBox F Y wallet ka data =
     (let keyId = (case ka_keyId ka of Some k \<Rightarrow> Some k | None \<Rightarrow> ka_senderKeyId ka);
          theirs = fromBase64url (coalesce (externalKey ka) [])
      in if \<not> truthyText (externalKey ka)
         then kmsFails ''encrypt: keyAgreement.externalPublicJwk required''
         else if length theirs \<noteq> 32 then kmsFails ''encrypt: externalPublicJwk.x must be 32 bytes''
         else if truthyText keyId then
           andThen (ed25519ToX25519Secret F Y wallet (coalesce keyId [])) (\<lambda>secret.
           andThen (keyDraw (\<lambda>n. cy_random Y n 24)) (\<lambda>nonce.
           ret \<lparr>ed_encrypted = cy_box Y data nonce theirs secret, ed_iv = Some nonce, ed_tag = None\<rparr>))
         else
           andThen (keyDraw (cy_boxKeyPair Y)) (\<lambda>(ephemeralPub, secret).
           andThen (keyDraw (\<lambda>n. cy_random Y n 24)) (\<lambda>nonce.
           ret \<lparr>ed_encrypted = ephemeralPub @ nonce @ cy_box Y data nonce theirs secret,
             ed_iv = None, ed_tag = None\<rparr>)))"

definition decryptBox ::
  "(nat \<Rightarrow> string option) \<Rightarrow> 'k crypto \<Rightarrow> string \<Rightarrow> keyAgreement \<Rightarrow> decryptOptions \<Rightarrow> bytes kms" where
  "decryptBox F Y wallet ka opts =
     (if \<not> truthyText (ka_keyId ka) then kmsFails ''decrypt: keyAgreement.keyId required''
      else
        andThen (ed25519ToX25519Secret F Y wallet (coalesce (ka_keyId ka) [])) (\<lambda>secret.
        let iv = coalesce (map_option readBase64 (dc_iv opts)) [];
            x = Option.bind (chainedField ''x'' (ka_externalPublicJwk ka)) jsonStr;
            encrypted = dc_encrypted opts
        in if truthyText x \<and> length iv = 24 then
             orThrow (cy_boxOpen Y encrypted iv (fromBase64url (coalesce x [])) secret)
               (KeyManagementError ''decrypt: nacl.box.open failed (authcrypt)'')
           else if length encrypted \<le> 56
           then kmsFails ''decrypt: encrypted too short for anoncrypt (need 32+24+data)''
           else
             orThrow (cy_boxOpen Y (drop 56 encrypted) (take 24 (drop 32 encrypted)) (take 32 encrypted) secret)
               (KeyManagementError ''decrypt: nacl.box.open failed (anoncrypt)'')))"

section \<open>The two operations\<close>

definition NO_ENCRYPTION_KEY :: string where
  "NO_ENCRYPTION_KEY = ''key.keyAgreement or key.privateJwk (oct) required''"

text \<open>\<open>Buffer.from(undefined)\<close> throws when neither \<open>data\<close> nor \<open>plaintext\<close> is given.\<close>

definition kmsEncrypt ::
  "(nat \<Rightarrow> string option) \<Rightarrow> 'k crypto \<Rightarrow> string \<Rightarrow> encryptOptions \<Rightarrow> encryptedData kms" where
  "kmsEncrypt F Y wallet opts =
     andThen (thrown ''Buffer.from''
       (case ec_data opts of Some d \<Rightarrow> Some d | None \<Rightarrow> ec_plaintext opts)) (\<lambda>data.
     case ec_key opts of
       Agreement ka \<Rightarrow>
         if ka_algorithm ka = Some ''ECDH-ES''
         then encryptEcdhEs F Y wallet ka data (ec_algorithm opts) (ec_aad opts)
         else encryptBox F Y wallet ka data
     | OctKey k \<Rightarrow>
         if length (fromBase64url k) \<noteq> 32 then kmsFails ''encrypt: symmetric key must be 32 bytes''
         else
           andThen (keyDraw (\<lambda>n. cy_random Y n 12)) (\<lambda>iv.
           andThen (thrown ''createCipheriv'' (cy_seal Y Chacha20Poly1305 (fromBase64url k) iv
             (if truthyAad (ec_aad opts) then map_option readBase64 (ec_aad opts) else None) data)) (\<lambda>(c, tag).
           ret \<lparr>ed_encrypted = c, ed_iv = Some iv, ed_tag = Some tag\<rparr>))
     | OtherKey \<Rightarrow> kmsFails (''encrypt: '' @ NO_ENCRYPTION_KEY))"

text \<open>The key management takes any additional data here, an empty text too.\<close>

definition kmsDecrypt ::
  "(nat \<Rightarrow> string option) \<Rightarrow> 'k crypto \<Rightarrow> string \<Rightarrow> decryptOptions \<Rightarrow> bytes kms" where
  "kmsDecrypt F Y wallet opts =
     (case dc_key opts of
        Agreement ka \<Rightarrow>
          if ka_algorithm ka = Some ''ECDH-ES'' then decryptEcdhEs F Y wallet ka opts
          else decryptBox F Y wallet ka opts
      | OctKey k \<Rightarrow>
          (case map_option readBase64 (dc_iv opts) of
             None \<Rightarrow> kmsFails ''decrypt: iv (12 bytes) required for symmetric''
           | Some iv \<Rightarrow>
               if length iv \<noteq> 12 then kmsFails ''decrypt: iv (12 bytes) required for symmetric''
               else thrown ''createDecipheriv'' (cy_open Y Chacha20Poly1305 (fromBase64url k) iv
                 (map_option readUtf8 (dc_aad opts)) (map_option readBase64 (dc_tag opts)) (dc_encrypted opts)))
      | OtherKey \<Rightarrow> kmsFails (''decrypt: '' @ NO_ENCRYPTION_KEY))"

end
