(* ===== verification/DomainKeys.thy ===== *)
theory DomainKeys
  imports KeyManagement RecordHttp
begin

text \<open>
  Keys every tenant shares (\<^verbatim>\<open>kms/askar-domain-key-management.service.ts\<close>,
  \<^verbatim>\<open>kms/domain-key.ts\<close>) and the route of the verifier that imports one
  (\<^verbatim>\<open>domain-key/\<close>). Askar and the framework are a record of their calls over a state
  \<open>'s\<close>; the memory its handles hold is left out.
\<close>

section \<open>The store\<close>

datatype sigType = SigEdDSA | SigES256 | SigES256K | SigES384

text \<open>
  A stored entry may have no key. What the framework refuses about a key is an error of the key
  management.
\<close>

record ('s, 'k) askar =
  as_openStore :: "('s, kmsError, unit) op"
  as_createProfile :: "string \<Rightarrow> ('s, string, unit) op"
  as_openSession :: "string \<Rightarrow> ('s, kmsError, unit) op"
  as_closeSession :: "('s, kmsError, unit) op"
  as_fetchKey :: "string \<Rightarrow> ('s, kmsError, 'k option option) op"
  as_insertKey :: "string \<Rightarrow> 'k \<Rightarrow> ('s, kmsError, unit) op"
  as_removeKey :: "string \<Rightarrow> ('s, kmsError, unit) op"
  as_uuid :: "('s, kmsError, string) op"
  as_fromJwk :: "json \<Rightarrow> 'k option"
  as_jwkSecret :: "'k \<Rightarrow> (string \<times> json) list"
  as_signMessage :: "'k \<Rightarrow> bytes \<Rightarrow> sigType \<Rightarrow> bytes option"
  as_verifySignature :: "'k \<Rightarrow> bytes \<Rightarrow> bytes \<Rightarrow> sigType \<Rightarrow> bool option"
  as_publicJwkFromPrivateJwk :: "json \<Rightarrow> kmsError + (string \<times> json) list"
  as_assertAllowedSigningAlg :: "json \<Rightarrow> string \<Rightarrow> kmsError + unit"
  as_assertKeyAllowsSign :: "json \<Rightarrow> kmsError + unit"
  as_assertKeyAllowsVerify :: "json \<Rightarrow> kmsError + unit"

text \<open>
  \<open>profileReady\<close> holds a promise per store manager, of which a process has one: none yet, or
  how it ended. The state of a handler is that of Askar and this.
\<close>

type_synonym 's domain = "'s \<times> (kmsError + unit) option"

definition kmsOfSum :: "kmsError + 'a \<Rightarrow> ('s, kmsError, 'a) op" where
  "kmsOfSum v = (case v of Inl e \<Rightarrow> throw e | Inr a \<Rightarrow> ret a)"

definition onAskar :: "('s, 'e, 'a) op \<Rightarrow> ('s \<times> 'p, 'e, 'a) op" where
  "onAskar m = (\<lambda>(s, p). case m s of (r, s') \<Rightarrow> (r, (s', p)))"

definition alreadyThere :: "string \<Rightarrow> bool" where
  "alreadyThere message \<longleftrightarrow>
     includesStr (toLowerCase message) ''already exists'' \<or> includesStr (toLowerCase message) ''duplicate''"

definition createDomainProfile :: "('s, 'k) askar \<Rightarrow> ('s, kmsError, unit) op" where
  "createDomainProfile K =
     andThen (as_openStore K) (\<lambda>_ s.
     case as_createProfile K DOMAIN_KEY_SCOPE s of
       (Inr u, s') \<Rightarrow> (Inr u, s')
     | (Inl message, s') \<Rightarrow> if alreadyThere message then (Inr (), s') else (Inl (CryptoThrew message), s'))"

definition ensureDomainProfile :: "('s, 'k) askar \<Rightarrow> ('s domain, kmsError, unit) op" where
  "ensureDomainProfile K = (\<lambda>(s, p).
     case p of
       Some outcome \<Rightarrow> (outcome, (s, p))
     | None \<Rightarrow> (case createDomainProfile K s of (r, s') \<Rightarrow> (r, (s', Some r))))"

text \<open>\<open>try ... finally\<close>: what the last part throws is what is thrown.\<close>

definition afterwards :: "('s, 'e, unit) op \<Rightarrow> ('s, 'e, 'a) op \<Rightarrow> ('s, 'e, 'a) op" where
  "afterwards close m = (\<lambda>s. case m s of (r, s') \<Rightarrow>
     (case close s' of (Inl e, s'') \<Rightarrow> (Inl e, s'') | (Inr _, s'') \<Rightarrow> (r, s'')))"

definition withDomainSession ::
  "('s, 'k) askar \<Rightarrow> ('s, kmsError, 'a) op \<Rightarrow> ('s domain, kmsError, 'a) op" where
  "withDomainSession K callback =
     andThen (ensureDomainProfile K) (\<lambda>_.
     onAskar (andThen (as_openStore K) (\<lambda>_.
       andThen (as_openSession K DOMAIN_KEY_SCOPE) (\<lambda>_. afterwards (as_closeSession K) callback))))"

definition fetchKey :: "('s, 'k) askar \<Rightarrow> string \<Rightarrow> ('s domain, kmsError, 'k option option) op" where
  "fetchKey K keyId = withDomainSession K (as_fetchKey K keyId)"

definition domainBackend :: string where "domainBackend = ''askar-domain-key''"

definition fetchKeyAsserted :: "('s, 'k) askar \<Rightarrow> string \<Rightarrow> ('s domain, kmsError, 'k option) op" where
  "fetchKeyAsserted K keyId =
     andThen (fetchKey K keyId) (\<lambda>storageKey. orThrow storageKey (KeyMissing keyId domainBackend))"

section \<open>Operations\<close>

definition algToSig :: "string \<Rightarrow> sigType option" where
  "algToSig = map_of [(''EdDSA'', SigEdDSA), (''Ed25519'', SigEdDSA), (''ES256'', SigES256),
     (''ES256K'', SigES256K), (''ES384'', SigES384)]"

definition sigTypeForAlg :: "string \<Rightarrow> kmsError + sigType" where
  "sigTypeForAlg algorithm =
     (case algToSig algorithm of
        Some t \<Rightarrow> Inr t | None \<Rightarrow> Inl (AlgorithmNotSupported (''algorithm '' @ algorithm) domainBackend))"

definition supportedByDomain :: "json \<Rightarrow> bool" where
  "supportedByDomain operation =
     (let op = (\<lambda>t. jsonField ''operation'' operation = Some (JStr t));
          kty = chainedField ''kty'' (jsonField ''privateJwk'' operation)
      in if op ''deleteKey'' then True
         else if op ''importKey'' then kty = Some (JStr ''EC'') \<or> kty = Some (JStr ''OKP'')
         else if op ''sign'' \<or> op ''verify''
         then Option.bind (Option.bind (jsonField ''algorithm'' operation) jsonStr) algToSig \<noteq> None
         else False)"

text \<open>Encryption, decryption, creation and random bytes are left to the primary service.\<close>

definition domainRefuses :: "string \<Rightarrow> ('s, kmsError, 'a) op" where
  "domainRefuses operation = throw (AlgorithmNotSupported operation domainBackend)"

definition privateJwkFromKey :: "('s, 'k) askar \<Rightarrow> 'k \<Rightarrow> string option \<Rightarrow> json" where
  "privateJwkFromKey K key kid =
     JObj (objectOf (textEntry ''kid'' kid @ filter (\<lambda>(k, _). k \<noteq> ''alg'') (as_jwkSecret K key)))"

definition domainPublicJwkFromKey :: "('s, 'k) askar \<Rightarrow> 'k \<Rightarrow> string option \<Rightarrow> kmsError + json" where
  "domainPublicJwkFromKey K key kid =
     (case as_publicJwkFromPrivateJwk K (privateJwkFromKey K key kid) of
        Inl e \<Rightarrow> Inl e
      | Inr jwk \<Rightarrow>
          if jsonField ''kty'' (JObj jwk) = Some (JStr ''oct'')
          then Inl (AlgorithmNotSupported ''kty oct'' domainBackend) else Inr (JObj jwk))"

definition domainGetPublicKey :: "('s, 'k) askar \<Rightarrow> string \<Rightarrow> ('s domain, kmsError, json option) op" where
  "domainGetPublicKey K keyId =
     andThen (fetchKey K keyId) (\<lambda>entry.
     case entry of
       Some (Some key) \<Rightarrow> andThen (kmsOfSum (domainPublicJwkFromKey K key (Some keyId))) (\<lambda>jwk. ret (Some jwk))
     | _ \<Rightarrow> ret None)"

text \<open>\<open>error instanceof Kms.KeyManagementError\<close> and what the services make of another error.\<close>

fun isKmsError :: "kmsError \<Rightarrow> bool" where
  "isKmsError (CryptoThrew _) = False"
| "isKmsError (KeyQueryFailed _) = False"
| "isKmsError KeyNotJson = False"
| "isKmsError _ = True"

definition wrapping :: "string \<Rightarrow> ('s, kmsError, 'a) op \<Rightarrow> ('s, kmsError, 'a) op" where
  "wrapping message m = catching m (\<lambda>e. throw (if isKmsError e then e else KeyManagementError message))"

definition importKid :: "('s, 'k) askar \<Rightarrow> json \<Rightarrow> ('s domain, kmsError, string) op" where
  "importKid K given =
     (case Option.bind (jsonField ''kid'' given) jsonStr of Some k \<Rightarrow> ret k | None \<Rightarrow> onAskar (as_uuid K))"

definition domainImportKey :: "('s, 'k) askar \<Rightarrow> json \<Rightarrow> ('s domain, kmsError, createdKey) op" where
  "domainImportKey K given =
     andThen (importKid K given) (\<lambda>kid.
     let privateJwk = JObj (objectOf (spreadOf given @ [(''kid'', JStr kid)])) in
     wrapping ''Error importing domain key''
       (andThen (throwIf (\<not> (fieldIs (Some privateJwk) ''kty'' ''EC'' \<or> fieldIs (Some privateJwk) ''kty'' ''OKP''))
          (AlgorithmNotSupported (''kty '' @ quote @
             coalesce (Option.bind (jsonField ''kty'' privateJwk) jsonStr) ''undefined'' @ quote) domainBackend)) (\<lambda>_.
        andThen (fetchKey K kid) (\<lambda>existing.
        andThen (throwIf (Option.bind existing id \<noteq> None) (KeyExists kid domainBackend)) (\<lambda>_.
        andThen (orThrow (as_fromJwk K privateJwk) (CryptoThrew ''Key.fromJwk'')) (\<lambda>key.
        andThen (withDomainSession K (as_insertKey K kid key)) (\<lambda>_.
        andThen (kmsOfSum (as_publicJwkFromPrivateJwk K privateJwk)) (\<lambda>publicJwk.
        ret \<lparr>ck_keyId = kid, ck_publicJwk = JObj (objectOf (publicJwk @ [(''kid'', JStr kid)])),
          ck_base58 = None\<rparr>))))))))"

definition domainDeleteKey :: "('s, 'k) askar \<Rightarrow> string \<Rightarrow> ('s domain, kmsError, bool) op" where
  "domainDeleteKey K keyId =
     catching
       (andThen (fetchKey K keyId) (\<lambda>existing.
        case existing of
          None \<Rightarrow> ret False
        | Some _ \<Rightarrow> andThen (withDomainSession K (as_removeKey K keyId)) (\<lambda>_. ret True)))
       (\<lambda>_. throw (KeyManagementError (''Error deleting domain key '' @ quote @ keyId @ quote)))"

definition domainSign :: "('s, 'k) askar \<Rightarrow> string \<Rightarrow> string \<Rightarrow> bytes \<Rightarrow> ('s domain, kmsError, bytes) op" where
  "domainSign K keyId algorithm data =
     andThen (fetchKeyAsserted K keyId) (\<lambda>entry.
     wrapping ''Error signing with domain key''
       (andThen (kmsOfSum (sigTypeForAlg algorithm)) (\<lambda>sigType.
        andThen (orThrow entry (AlgorithmNotSupported (''algorithm '' @ algorithm) domainBackend)) (\<lambda>key.
        andThen (kmsOfSum (domainPublicJwkFromKey K key (Some keyId))) (\<lambda>publicJwk.
        andThen (kmsOfSum (as_assertAllowedSigningAlg K (privateJwkFromKey K key (Some keyId)) algorithm)) (\<lambda>_.
        andThen (kmsOfSum (as_assertKeyAllowsSign K publicJwk)) (\<lambda>_.
        orThrow (as_signMessage K key data sigType) (CryptoThrew ''signMessage''))))))))"

text \<open>The key of a verification: by identifier, or as a public key of one of two kinds.\<close>

definition verificationKey :: "('s, 'k) askar \<Rightarrow> verifyKey \<Rightarrow> ('s domain, kmsError, 'k option) op" where
  "verificationKey K keyInput =
     (case keyInput of
        ByKeyId i \<Rightarrow>
          if i \<noteq> [] then fetchKeyAsserted K i else throw (AlgorithmNotSupported ''kty undefined'' domainBackend)
      | ByPublicJwk jwk \<Rightarrow>
          if fieldIs jwk ''kty'' ''EC'' \<or> fieldIs jwk ''kty'' ''OKP''
          then andThen (orThrow (as_fromJwk K (coalesce jwk JNull)) (CryptoThrew ''Key.fromJwk'')) (\<lambda>k. ret (Some k))
          else throw (AlgorithmNotSupported (''kty '' @
            coalesce (Option.bind (chainedField ''kty'' jwk) jsonStr) ''undefined'') domainBackend))"

definition domainVerify ::
  "('s, 'k) askar \<Rightarrow> verifyKey \<Rightarrow> string \<Rightarrow> bytes \<Rightarrow> bytes \<Rightarrow> ('s domain, kmsError, json option) op" where
  "domainVerify K keyInput algorithm data signature =
     andThen (kmsOfSum (sigTypeForAlg algorithm)) (\<lambda>sigType.
     wrapping ''Error verifying with domain key''
       (andThen (verificationKey K keyInput) (\<lambda>found.
        andThen (orThrow found (AlgorithmNotSupported (''algorithm '' @ algorithm) domainBackend)) (\<lambda>key.
        let kid = (case keyInput of ByKeyId i \<Rightarrow> Some i
                   | ByPublicJwk jwk \<Rightarrow> Option.bind (chainedField ''kid'' jwk) jsonStr) in
        andThen (kmsOfSum (domainPublicJwkFromKey K key kid)) (\<lambda>publicJwk.
        andThen (kmsOfSum (as_assertAllowedSigningAlg K publicJwk algorithm)) (\<lambda>_.
        andThen (kmsOfSum (as_assertKeyAllowsVerify K publicJwk)) (\<lambda>_.
        andThen (orThrow (as_verifySignature K key data signature sigType) (CryptoThrew ''verifySignature'')) (\<lambda>valid.
        if \<not> valid then ret None
        else (case keyInput of
            ByKeyId _ \<Rightarrow> ret (Some publicJwk)
          | ByPublicJwk jwk \<Rightarrow> ret jwk)))))))))"

section \<open>The route of the verifier\<close>

text \<open>
  The key management of the framework, given a backend and a private key; the errors of the
  service are an agent that is not there, a key that is, and whatever else it throws.
\<close>

datatype domainFailure =
    DomainGuard guardFailure
  | DomainBody
  | DomainUnavailable
  | DomainConflict string
  | DomainFailed kmsError

definition importDomainKey ::
  "(string \<Rightarrow> json \<Rightarrow> ('s, kmsError, string) op) \<Rightarrow> string \<Rightarrow> json \<Rightarrow> ('s, kmsError, string) op" where
  "importDomainKey importKey keyId privateJwk =
     importKey domainBackend (JObj (objectOf (spreadOf privateJwk @ [(''kid'', JStr keyId)])))"

definition DomainKeyService ::
  "(string \<Rightarrow> json \<Rightarrow> ('s, kmsError, string) op) option \<Rightarrow> string \<Rightarrow> json \<Rightarrow> ('s, domainFailure, string) op" where
  "DomainKeyService rootKms keyId privateJwk =
     (case rootKms of
        None \<Rightarrow> throw DomainUnavailable
      | Some importKey \<Rightarrow> (\<lambda>s.
          case importDomainKey importKey keyId privateJwk s of
            (Inr k, s') \<Rightarrow> (Inr k, s')
          | (Inl (KeyExists _ _), s') \<Rightarrow> (Inl (DomainConflict keyId), s')
          | (Inl e, s') \<Rightarrow> (Inl (DomainFailed e), s')))"

definition ImportDomainKeyDto :: "json \<Rightarrow> (string \<times> json) option" where
  "ImportDomainKeyDto body =
     (case (reqField ''keyId'' (decString 0 None) body, jsonField ''privateJwk'' body) of
        (Some k, Some (JObj jwk)) \<Rightarrow> Some (k, JObj jwk)
      | _ \<Rightarrow> None)"

definition domainKeyServe ::
  "(request \<Rightarrow> ('b, guardFailure, json option) op) \<Rightarrow>
    (string \<Rightarrow> json \<Rightarrow> ('s, kmsError, string) op) option \<Rightarrow> (string \<Rightarrow> headerField) \<Rightarrow> json \<Rightarrow>
    ('b \<times> 's, domainFailure, string) op" where
  "domainKeyServe guard rootKms hdrs body =
     andThen (onFst DomainGuard (guard \<lparr>rq_headers = hdrs, rq_walletId = None, rq_body = body\<rparr>)) (\<lambda>_.
     andThen (orThrow (ImportDomainKeyDto body) DomainBody) (\<lambda>(keyId, privateJwk).
     onSnd (DomainKeyService rootKms keyId privateJwk)))"

end
