(* ===== verification/KmsProps.thy ===== *)
theory KmsProps
  imports KeyEncryption DomainKeys
begin

text \<open>
  What the key management services guarantee and where they do not: signatures of created keys,
  the round trips of the encryption, the additional data of a text, the owner of a key, and the
  profile of the domain keys.
\<close>

section \<open>Running the primitives\<close>

lemma thrown_run [op_simps]:
  "thrown what v s = (case v of None \<Rightarrow> (Inl (CryptoThrew what), s) | Some a \<Rightarrow> (Inr a, s))"
  by (simp add: thrown_def orThrow_def throw_def ret_def split: option.splits)

lemma kmsFails_run [simp]: "kmsFails m s = (Inl (KeyManagementError m), s)"
  by (simp add: kmsFails_def)

lemma keyDraw_run [simp]: "keyDraw f s = (Inr (f (kd_draws s)), s\<lparr>kd_draws := Suc (kd_draws s)\<rparr>)"
  by (simp add: keyDraw_def)

text \<open>A row a wallet sees, whose two texts are keys.\<close>

definition holdsKey :: "string \<Rightarrow> string \<Rightarrow> storedKeyPair \<Rightarrow> keyDb \<Rightarrow> bool" where
  "holdsKey w i k s \<longleftrightarrow> keysWf s \<and>
     (\<exists>r. rowAt kr_id i (kd_rows s) = Some r \<and> seenBy w r \<and> parsedKey r = Inr k)"

lemma getKey_held:
  assumes "holdsKey w i k s" and "F (kd_queries s) = None"
  shows "getKey F w i s = (Inr (Some k), s\<lparr>kd_queries := Suc (kd_queries s)\<rparr>)"
  using assms by (auto simp: holdsKey_def getKey_run)

section \<open>Whose a key is\<close>

text \<open>
  C5. Importing a private key under an identifier that another wallet already uses answers
  normally and takes the row: the former owner, which could read and sign with its key before,
  does not find it any more, and the importer does. Only a key whose public half cannot be derived
  is refused, and then the former owner keeps its key.
\<close>

theorem key_taken_over:
  assumes "holdsKey w i k s" and "\<And>n. F n = None"
    and "w \<noteq> w'" and "w' \<noteq> DOMAIN_KEY_SCOPE" and "jsonField ''kid'' jwk = Some (JStr i)"
  shows "fst (getKey F w i s) = Inr (Some k) \<and>
    (case cy_publicJwkFromPrivateJwk Y jwk of
      Some pub \<Rightarrow>
        fst (kmsImportKey F Y w' jwk s) =
          Inr \<lparr>ck_keyId = i, ck_publicJwk = withKid i pub, ck_base58 = None\<rparr> \<and>
        fst (getKey F w i (snd (kmsImportKey F Y w' jwk s))) = Inr None \<and>
        fst (getKey F w' i (snd (kmsImportKey F Y w' jwk s))) =
          Inr (Some \<lparr>sk_publicJwk = withKid i pub, sk_privateJwk = jwk\<rparr>)
    | None \<Rightarrow>
        fst (kmsImportKey F Y w' jwk s) = Inl (CryptoThrew ''publicJwkFromPrivateJwk'') \<and>
        fst (getKey F w i (snd (kmsImportKey F Y w' jwk s))) = Inr (Some k))"
proof (cases "cy_publicJwkFromPrivateJwk Y jwk")
  case None
  then have "kmsImportKey F Y w' jwk s = (Inl (CryptoThrew ''publicJwkFromPrivateJwk''), s)"
    using assms(5) by (simp add: kmsImportKey_def kidOr_def andThen_run thrown_run)
  with None getKey_held [OF assms(1,2)] show ?thesis by simp
next
  case (Some pub)
  let ?pub = "withKid i pub"
  have s: "keysWf s" using assms(1) by (simp add: holdsKey_def)
  have run: "kmsImportKey F Y w' jwk s =
      (Inr \<lparr>ck_keyId = i, ck_publicJwk = ?pub, ck_base58 = None\<rparr>, snd (saveKey F w' i ?pub jwk s))"
    using assms(2,5) Some by (simp add: kmsImportKey_def kidOr_def andThen_run thrown_run Let_def saveKey_run)
  have saved: "fst (getKey F v i (snd (saveKey F w' i ?pub jwk s))) =
      Inr (if v = w' then Some \<lparr>sk_publicJwk = ?pub, sk_privateJwk = jwk\<rparr> else None)" for v
    using assms(4) by (subst getKey_after_save [OF s assms(2)]) simp
  show ?thesis
    unfolding run snd_conv saved Some using getKey_held [OF assms(1,2)] assms(3) by simp
qed

definition sampleTag :: "bytes option \<Rightarrow> bytes \<Rightarrow> bytes" where
  "sampleTag aad n = (if coalesce aad [] = [] then n else 1 # coalesce aad [] @ n)"

definition sampleCrypto :: "bytes crypto" where
  "sampleCrypto =
     \<lparr>cy_uuid = (\<lambda>n. ''id''), cy_random = (\<lambda>n k. replicate k (of_nat n)),
      cy_generateP256 = (\<lambda>n. ([(''kty'', JStr ''EC'')], [(''kty'', JStr ''EC'')])),
      cy_generateEd25519 = (\<lambda>n. ([(''kty'', JStr ''OKP'')], [(''kty'', JStr ''OKP'')])),
      cy_generateBls = (\<lambda>n. \<lparr>bp_publicKey = ''p'', bp_privateKey = Some ''s'', bp_publicKeyBuffer = [1],
        bp_privateKeyBuffer = Some [2]\<rparr>),
      cy_publicJwkFromPrivateJwk = (\<lambda>j. Some [(''kty'', JStr ''OKP'')]),
      cy_createPrivateKey = (\<lambda>j. Some [7]), cy_createPublicKey = (\<lambda>j. Some [7]),
      cy_sign = (\<lambda>_ d k. Some (d @ k)), cy_verify = (\<lambda>_ d k g. Some (g = d @ k)),
      cy_diffieHellman = (\<lambda>a b. Some [9]), cy_sha256 = (\<lambda>b. replicate 32 3),
      cy_seal = (\<lambda>c k n aad m. Some (m, sampleTag aad n)),
      cy_open = (\<lambda>c k n aad tag m. if tag = Some (sampleTag aad n) then Some m else None),
      cy_convertSecretKey = (\<lambda>b. Some (take 32 b)),
      cy_boxKeyPair = (\<lambda>n. (replicate 32 5, replicate 32 5)),
      cy_box = (\<lambda>m n p k. replicate 16 0 @ m), cy_boxOpen = (\<lambda>b n p k. Some (drop 16 b))\<rparr>"

text \<open>A wallet with a key.\<close>

definition heldRow :: kmsRow where
  "heldRow = \<lparr>kr_id = ''k'', kr_wallet_id = ''acme'', kr_public_jwk = stringify (JObj [(''x'', JStr ''AA'')]),
     kr_private_jwk = stringify (JObj [(''d'', JStr ''AA'')])\<rparr>"

definition heldDb :: keyDb where
  "heldDb = \<lparr>kd_rows = [heldRow], kd_queries = 0, kd_draws = 0\<rparr>"

definition heldPair :: storedKeyPair where
  "heldPair = \<lparr>sk_publicJwk = JObj [(''x'', JStr ''AA'')], sk_privateJwk = JObj [(''d'', JStr ''AA'')]\<rparr>"

lemma held: "holdsKey ''acme'' ''k'' heldPair heldDb"
  by (simp add: holdsKey_def keysWf_def heldDb_def heldRow_def rowAt_def seenBy_def heldPair_def
      del: stringify.simps)

theorem key_taken_over_witness:
  "fst (getKey (\<lambda>_. None) ''acme'' ''k'' heldDb) = Inr (Some heldPair) \<and>
   fst (getKey (\<lambda>_. None) ''acme'' ''k'' (snd (kmsImportKey (\<lambda>_. None) sampleCrypto ''globex''
     (JObj [(''kid'', JStr ''k'')]) heldDb))) = Inr None"
  using key_taken_over [OF held, where F = "\<lambda>_. None" and w' = "''globex''"
      and jwk = "JObj [(''kid'', JStr ''k'')]" and Y = sampleCrypto]
  by (simp add: DOMAIN_KEY_SCOPE_def sampleCrypto_def)

section \<open>Signatures\<close>

lemma map_sum_Some [simp]: "map_sum id Some v = Inr (Some k) \<longleftrightarrow> v = Inr k"
  by (cases v) auto

text \<open>
  Whoever signs uses a key of its wallet or of the domain, with one of the three algorithms.
\<close>

lemma kmsSign_key:
  assumes "keysWf s" and "\<And>n. F n = None" and "fst (kmsSign F Y w i a d s) = Inr g"
  shows "\<exists>k key scheme. holdsKey w i k s \<and> cy_createPrivateKey Y (sk_privateJwk k) = Some key \<and>
    cy_sign Y scheme d key = Some g \<and> a \<in> {''EdDSA'', ''Ed25519'', ''ES256''}"
  using assms
  by (auto simp: kmsSign_def getKey_run andThen_run thrown_run schemeOf_def holdsKey_def
      split: option.splits if_splits sum.splits prod.splits)

text \<open>
  A key of EC P-256 or of Ed25519 made under a fresh or a given identifier signs at once: if
  the runtime verifies with the public half what it signed with the private half of a pair it
  generated, the service verifies under the same identifier what it signed, and answers with the
  public key it returned at creation.
\<close>

theorem created_key_signs:
  assumes wf: "keysWf s" and F: "\<And>n. F n = None"
    and made: "kmsCreateKey F Y w ty keyId s = (Inr ck, s1)"
    and alg: "isP256Type (Some ty) \<and> a = ''ES256'' \<and> sc = Sha256P1363 \<and> gen = cy_generateP256 Y \<or>
      isEd25519Type (Some ty) \<and> a = ''EdDSA'' \<and> sc = PlainEd25519 \<and> gen = cy_generateEd25519 Y"
    and ks: "\<not> isBls12381G2CreateType (Some ty)"
    and runtime: "\<And>n kid p q. gen n = (p, q) \<Longrightarrow>
      \<exists>priv pub g. cy_createPrivateKey Y (withKid kid q) = Some priv \<and>
        cy_createPublicKey Y (withKid kid p) = Some pub \<and>
        cy_sign Y sc d priv = Some g \<and> cy_verify Y sc d pub g = Some True"
  shows "\<exists>g s2. kmsSign F Y w (ck_keyId ck) a d s1 = (Inr g, s2) \<and>
    (ck_keyId ck \<noteq> [] \<longrightarrow> fst (kmsVerify F Y w (ByKeyId (ck_keyId ck)) a d g s2) = Inr (Some (ck_publicJwk ck)))"
proof -
  obtain kid t where kid: "kidOr Y keyId s = (Inr kid, t)" and t: "keysWf t"
    using wf by (cases keyId) (auto simp: kidOr_def keysWf_def)
  from alg have ne: "isP256Type (Some ty) \<Longrightarrow> gen = cy_generateP256 Y"
    by (auto simp: isP256Type_def isEd25519Type_def fieldIs_def)
  obtain p q where pq: "gen (kd_draws t) = (p, q)" by fastforce
  from made kid ks alg have "saveNodeKey F gen w kid t = (Inr ck, s1)"
    by (auto simp: kmsCreateKey_def andThen_run isP256Type_def isEd25519Type_def fieldIs_def)
  then have ck: "ck = \<lparr>ck_keyId = kid, ck_publicJwk = withKid kid p, ck_base58 = None\<rparr>"
    and s1: "s1 = snd (saveKey F w kid (withKid kid p) (withKid kid q) (t\<lparr>kd_draws := Suc (kd_draws t)\<rparr>))"
    using pq F by (auto simp: saveNodeKey_def andThen_run saveKey_run)
  let ?k = "\<lparr>sk_publicJwk = withKid kid p, sk_privateJwk = withKid kid q\<rparr>"
  have wf1: "keysWf s1"
    unfolding s1 by (rule preservesD [OF preserves_saveKey]) (use t in \<open>simp add: keysWf_def\<close>)
  have held: "holdsKey w kid ?k s1"
    using wf1 by (simp add: holdsKey_def s1 saveKey_run F kt.lookup_save seenBy_def)
  then have held': "holdsKey w kid ?k (s1\<lparr>kd_queries := n\<rparr>)" for n
    by (simp add: holdsKey_def keysWf_def)
  from runtime [OF pq] obtain priv pub g where r:
    "cy_createPrivateKey Y (withKid kid q) = Some priv" "cy_createPublicKey Y (withKid kid p) = Some pub"
    "cy_sign Y sc d priv = Some g" "cy_verify Y sc d pub g = Some True" by blast
  from alg have sch: "schemeOf a = ret sc" by (auto simp: schemeOf_def)
  have "kmsSign F Y w kid a d s1 = (Inr g, s1\<lparr>kd_queries := Suc (kd_queries s1)\<rparr>)"
    by (simp add: kmsSign_def andThen_run getKey_held [OF held F] thrown_run r sch)
  moreover have "fst (kmsVerify F Y w (ByKeyId kid) a d g (s1\<lparr>kd_queries := Suc (kd_queries s1)\<rparr>)) =
      Inr (Some (withKid kid p))" if "kid \<noteq> []"
    using that by (simp add: kmsVerify_def kmsGetPublicKey_def andThen_run getKey_held [OF held' F] thrown_run r sch
        Let_def isTruthy_def) (simp add: withKid_def)
  ultimately show ?thesis by (simp add: ck)
qed

definition emptyKeys :: keyDb where
  "emptyKeys = \<lparr>kd_rows = [], kd_queries = 0, kd_draws = 0\<rparr>"

theorem created_key_signs_witness:
  "\<exists>g s2. kmsSign (\<lambda>_. None) sampleCrypto ''acme'' ''k'' ''ES256'' [1]
      (snd (kmsCreateKey (\<lambda>_. None) sampleCrypto ''acme''
        (JObj [(''kty'', JStr ''EC''), (''crv'', JStr ''P-256'')]) (Some ''k'') emptyKeys)) = (Inr g, s2) \<and>
    fst (kmsVerify (\<lambda>_. None) sampleCrypto ''acme'' (ByKeyId ''k'') ''ES256'' [1] g s2) =
      Inr (Some (withKid ''k'' [(''kty'', JStr ''EC'')]))"
proof -
  let ?ty = "JObj [(''kty'', JStr ''EC''), (''crv'', JStr ''P-256'')]"
  have p: "isP256Type (Some ?ty)" and n: "\<not> isBls12381G2CreateType (Some ?ty)"
    by (simp_all add: isP256Type_def isBls12381G2CreateType_def fieldIs_def chainedField_def)
  have "kmsCreateKey (\<lambda>_. None) sampleCrypto ''acme'' ?ty (Some ''k'') emptyKeys =
      (Inr \<lparr>ck_keyId = ''k'', ck_publicJwk = withKid ''k'' [(''kty'', JStr ''EC'')], ck_base58 = None\<rparr>,
       snd (kmsCreateKey (\<lambda>_. None) sampleCrypto ''acme'' ?ty (Some ''k'') emptyKeys))"
    using p n by (simp add: kmsCreateKey_def kidOr_def saveNodeKey_def andThen_run saveKey_run sampleCrypto_def)
  from created_key_signs [OF _ _ this, where a = "''ES256''" and sc = Sha256P1363 and d = "[1]"
      and gen = "cy_generateP256 sampleCrypto"] p n
  show ?thesis by (simp add: emptyKeys_def keysWf_def sampleCrypto_def)
qed

section \<open>Encryption\<close>

text \<open>Two ends agree when each derives the same secret from its own key and the other's public key.\<close>

definition agree :: "'k crypto \<Rightarrow> json \<Rightarrow> json \<Rightarrow> json \<Rightarrow> json \<Rightarrow> bool" where
  "agree Y privA pubB privB pubA \<longleftrightarrow>
     (\<exists>a b a' b' z. cy_createPrivateKey Y privA = Some a \<and> cy_createPublicKey Y pubB = Some b' \<and>
        cy_createPrivateKey Y privB = Some b \<and> cy_createPublicKey Y pubA = Some a' \<and>
        cy_diffieHellman Y a b' = Some z \<and> cy_diffieHellman Y b a' = Some z)"

text \<open>
  What the authenticated ciphers promise: with a key and a nonce of the right length a message is
  sealed, and only the same additional data opens it. Data that is missing is the same as none.
\<close>

definition keyBytes :: "cipher \<Rightarrow> nat" where
  "keyBytes c = (if c = Aes128Gcm then 16 else 32)"

definition authenticated :: "'k crypto \<Rightarrow> bool" where
  "authenticated Y \<longleftrightarrow>
     (\<forall>c k n aad m. length k = keyBytes c \<and> length n = 12 \<longrightarrow> cy_seal Y c k n aad m \<noteq> None) \<and>
     (\<forall>c k n aad m ct tag. cy_seal Y c k n aad m = Some (ct, tag) \<longrightarrow>
       (\<forall>aad'. cy_open Y c k n aad' (Some tag) ct = (if coalesce aad' [] = coalesce aad [] then Some m else None)))"

lemma opened:
  "authenticated Y \<Longrightarrow> cy_seal Y c k n aad m = Some (ct, tag) \<Longrightarrow>
    cy_open Y c k n aad' (Some tag) ct = (if coalesce aad' [] = coalesce aad [] then Some m else None)"
  unfolding authenticated_def by blast

lemma concatKdf_length:
  assumes "\<And>b. length (cy_sha256 Y b) = 32"
  shows "length (concatKdf Y z encAlg (gcmBits encAlg) apu apv) = keyBytes (gcmOf encAlg)"
  by (simp add: concatKdf_def assms gcmBits_def gcmOf_def keyBytes_def)

text \<open>An agreement of ECDH-ES with a stored key, without and with the parties' information.\<close>

definition ecdhEs :: "string \<Rightarrow> json \<Rightarrow> bytes option \<Rightarrow> bytes option \<Rightarrow> keyAgreement" where
  "ecdhEs keyId pub apu apv =
     \<lparr>ka_keyId = Some keyId, ka_senderKeyId = None, ka_algorithm = Some ''ECDH-ES'', ka_apu = apu,
      ka_apv = apv, ka_externalPublicJwk = Some pub, ka_recipientPublicKey = None, ka_recipientKey = None\<rparr>"

definition sealedFor :: "encryptionKey \<Rightarrow> string option \<Rightarrow> textOrBytes option \<Rightarrow> encryptedData \<Rightarrow> decryptOptions" where
  "sealedFor key alg aad e =
     \<lparr>dc_encrypted = ed_encrypted e, dc_key = key, dc_algorithm = alg,
      dc_iv = map_option GivenBytes (ed_iv e), dc_tag = map_option GivenBytes (ed_tag e), dc_aad = aad\<rparr>"

definition plainFor :: "encryptionKey \<Rightarrow> string option \<Rightarrow> textOrBytes option \<Rightarrow> bytes \<Rightarrow> encryptOptions" where
  "plainFor key alg aad m =
     \<lparr>ec_data = Some m, ec_plaintext = None, ec_key = key, ec_algorithm = alg, ec_aad = aad\<rparr>"

text \<open>Both ends use the same content key.\<close>

lemma contentKey_agrees:
  assumes "holdsKey wA iA kA sA" and "holdsKey wB iB kB sB" and "\<And>n. F n = None"
    and "agree Y (sk_privateJwk kA) pubB (sk_privateJwk kB) pubA"
    and "\<And>b. length (cy_sha256 Y b) = 32"
  shows "\<exists>cek. contentKey F Y m wA iA pubB (ecdhEs iA pubB apu apv) alg sA =
      (Inr cek, sA\<lparr>kd_queries := Suc (kd_queries sA)\<rparr>) \<and>
    contentKey F Y m' wB iB pubA (ecdhEs iB pubA apu apv) alg sB =
      (Inr cek, sB\<lparr>kd_queries := Suc (kd_queries sB)\<rparr>) \<and> length cek = keyBytes (gcmOf alg)"
  using assms
  by (auto simp: contentKey_def andThen_run getKey_held thrown_run agree_def ecdhEs_def concatKdf_length)

text \<open>
  C16. A wallet that has its key encrypts with ECDH-ES for the public key of another one, which
  then decrypts, with its own key, the sender's public key and the same parties' information, and
  reads exactly the message, provided that the additional data has the same bytes read as Base64
  and as UTF-8: missing, empty or given as bytes. For any other text the encryption succeeds all the
  same and the decryption with the very same text fails, because one end authenticates the Base64
  reading and the other the UTF-8 one.
\<close>

theorem ecdh_es_round_trip:
  assumes "holdsKey wA iA kA sA" and "holdsKey wB iB kB sB" and "\<And>n. F n = None"
    and "agree Y (sk_privateJwk kA) (JObj jwkB) (sk_privateJwk kB) (JObj jwkA)" and "authenticated Y"
    and "\<And>n. length (cy_random Y n 12) = 12" and "\<And>b. length (cy_sha256 Y b) = 32"
    and "iA \<noteq> []" and "iB \<noteq> []"
  shows "\<exists>e sA'. kmsEncrypt F Y wA (plainFor (Agreement (ecdhEs iA (JObj jwkB) apu apv)) alg aad m) sA = (Inr e, sA') \<and>
    fst (kmsDecrypt F Y wB (sealedFor (Agreement (ecdhEs iB (JObj jwkA) apu apv)) alg aad e) sB) =
      (if coalesce (map_option readUtf8 aad) [] = coalesce (map_option readBase64 aad) [] then Inr m
       else Inl (CryptoThrew ''createDecipheriv''))"
proof -
  let ?enc = "coalesce alg ''A256GCM''"
  obtain cek where
    a: "contentKey F Y ''ECDH-ES encrypt: key '' wA iA (JObj jwkB) (ecdhEs iA (JObj jwkB) apu apv) ?enc sA =
      (Inr cek, sA\<lparr>kd_queries := Suc (kd_queries sA)\<rparr>)" and
    b: "contentKey F Y ''ECDH-ES decrypt: key '' wB iB (JObj jwkA) (ecdhEs iB (JObj jwkA) apu apv) ?enc sB =
      (Inr cek, sB\<lparr>kd_queries := Suc (kd_queries sB)\<rparr>)" and len: "length cek = keyBytes (gcmOf ?enc)"
    using contentKey_agrees [where F = F, OF assms(1-4,7)] by blast
  let ?iv = "cy_random Y (kd_draws sA) 12"
  obtain ct tag where c: "cy_seal Y (gcmOf ?enc) cek ?iv (map_option readBase64 aad) m = Some (ct, tag)"
    using assms(5,6) len unfolding authenticated_def by (metis not_Some_eq surj_pair)
  let ?e = "\<lparr>ed_encrypted = ct, ed_iv = Some ?iv, ed_tag = Some tag\<rparr>"
  have "\<exists>sA'. kmsEncrypt F Y wA (plainFor (Agreement (ecdhEs iA (JObj jwkB) apu apv)) alg aad m) sA = (Inr ?e, sA')"
    using a c assms(8)
    by (simp add: kmsEncrypt_def plainFor_def ecdhEs_def encryptEcdhEs_def andThen_run thrown_run truthyText_def
        Let_def isTruthy_def)
  moreover have "fst (kmsDecrypt F Y wB (sealedFor (Agreement (ecdhEs iB (JObj jwkA) apu apv)) alg aad ?e) sB) =
      (if coalesce (map_option readUtf8 aad) [] = coalesce (map_option readBase64 aad) [] then Inr m
       else Inl (CryptoThrew ''createDecipheriv''))"
    using b assms(6,9) opened [OF assms(5) c]
    by (simp add: kmsDecrypt_def sealedFor_def decryptEcdhEs_def ecdhEs_def andThen_run thrown_run truthyText_def
        Let_def isTruthy_def)
  ultimately show ?thesis by blast
qed

lemma sample_authenticated: "authenticated sampleCrypto"
proof -
  have "n \<noteq> 1 # a @ n" for a n :: bytes
    by (metis append_Cons append_self_conv2 list.distinct(1))
  then have "sampleTag aad n = sampleTag aad' n \<longleftrightarrow> coalesce aad' [] = coalesce aad []" for aad aad' n
    unfolding sampleTag_def by (auto simp del: append_Cons)
  then show ?thesis by (simp add: authenticated_def sampleCrypto_def)
qed

lemma sample_agree: "agree sampleCrypto privA pubB privB pubA"
  by (simp add: agree_def sampleCrypto_def)

theorem ecdh_es_round_trip_witness:
  "\<exists>e s. kmsEncrypt (\<lambda>_. None) sampleCrypto ''acme''
      (plainFor (Agreement (ecdhEs ''k'' (JObj [(''x'', JStr ''AA'')]) None None)) None (Some (GivenText ''AAAA'')) [1, 2])
      heldDb = (Inr e, s) \<and>
    fst (kmsDecrypt (\<lambda>_. None) sampleCrypto ''acme''
      (sealedFor (Agreement (ecdhEs ''k'' (JObj [(''x'', JStr ''AA'')]) None None)) None (Some (GivenText ''AAAA'')) e)
      heldDb) = Inl (CryptoThrew ''createDecipheriv'')"
proof -
  have "coalesce (map_option readUtf8 (Some (GivenText ''AAAA''))) [] \<noteq>
      coalesce (map_option readBase64 (Some (GivenText ''AAAA''))) []"
    by code_simp
  with ecdh_es_round_trip [OF held held _ sample_agree sample_authenticated, where F = "\<lambda>_. None"
      and jwkA = "[(''x'', JStr ''AA'')]" and jwkB = "[(''x'', JStr ''AA'')]" and apu = None and apv = None
      and alg = None and aad = "Some (GivenText ''AAAA'')" and m = "[1, 2]"]
  show ?thesis by (auto simp: sampleCrypto_def)
qed

section \<open>Boxes\<close>

text \<open>The X25519 secret of a stored key of Ed25519.\<close>

definition boxSecret :: "'k crypto \<Rightarrow> storedKeyPair \<Rightarrow> bytes \<Rightarrow> bool" where
  "boxSecret Y k secret \<longleftrightarrow>
     (\<exists>d x. jsonField ''d'' (sk_privateJwk k) = Some (JStr d) \<and> jsonField ''x'' (sk_publicJwk k) = Some (JStr x) \<and>
        length (fromBase64url d) + length (fromBase64url x) = 64 \<and>
        cy_convertSecretKey Y (fromBase64url d @ fromBase64url x) = Some secret)"

lemma ed25519_run:
  assumes "holdsKey w i k s" and "F (kd_queries s) = None" and "boxSecret Y k secret"
  shows "ed25519ToX25519Secret F Y w i s = (Inr secret, s\<lparr>kd_queries := Suc (kd_queries s)\<rparr>)"
  using assms(3)
  by (auto simp: ed25519ToX25519Secret_def andThen_run getKey_held [where F = F, OF assms(1,2)] boxSecret_def orThrow_def)

definition boxFor :: "string option \<Rightarrow> json option \<Rightarrow> keyAgreement" where
  "boxFor keyId pub =
     \<lparr>ka_keyId = keyId, ka_senderKeyId = None, ka_algorithm = None, ka_apu = None, ka_apv = None,
      ka_externalPublicJwk = pub, ka_recipientPublicKey = None, ka_recipientKey = None\<rparr>"

text \<open>
  A box for the public key of a wallet always opens: with a known sender, given the sender's
  public key, and with an ephemeral one, whose public key and nonce travel in front of the text.
  The primitives are only asked to open what was sealed between two pairs, to keep the lengths of
  the library, and to convert the stored keys.
\<close>

theorem box_round_trip:
  assumes A: "holdsKey wA iA kA sA" and B: "holdsKey wB iB kB sB" and F: "\<And>n. F n = None"
    and secrets: "boxSecret Y kA secA" "boxSecret Y kB secB" and ids: "iA \<noteq> []" "iB \<noteq> []" "xA \<noteq> []" "xB \<noteq> []"
    and len: "length (fromBase64url xB) = 32" "\<And>n. length (cy_random Y n 24) = 24"
      "\<And>n. length (fst (cy_boxKeyPair Y n)) = 32" "\<And>m n p k. length (cy_box Y m n p k) = length m + 16"
    and known: "\<And>m n. cy_boxOpen Y (cy_box Y m n (fromBase64url xB) secA) n (fromBase64url xA) secB = Some m"
    and ephemeral: "\<And>m n i. cy_boxOpen Y (cy_box Y m n (fromBase64url xB) (snd (cy_boxKeyPair Y i))) n
      (fst (cy_boxKeyPair Y i)) secB = Some m"
  shows "(\<exists>e s. kmsEncrypt F Y wA (plainFor (Agreement (boxFor (Some iA) (Some (JObj [(''x'', JStr xB)])))) alg aad m) sA =
        (Inr e, s) \<and>
      fst (kmsDecrypt F Y wB (sealedFor (Agreement (boxFor (Some iB) (Some (JObj [(''x'', JStr xA)])))) alg aad e) sB) =
        Inr m) \<and>
    (\<exists>e s. kmsEncrypt F Y wA (plainFor (Agreement (boxFor None (Some (JObj [(''x'', JStr xB)])))) alg aad m) sA =
        (Inr e, s) \<and>
      fst (kmsDecrypt F Y wB (sealedFor (Agreement (boxFor (Some iB) None)) alg aad e) sB) = Inr m)"
proof
  have secret: "ed25519ToX25519Secret F Y wA iA sA = (Inr secA, sA\<lparr>kd_queries := Suc (kd_queries sA)\<rparr>)"
    "ed25519ToX25519Secret F Y wB iB sB = (Inr secB, sB\<lparr>kd_queries := Suc (kd_queries sB)\<rparr>)"
    using ed25519_run [OF A F secrets(1)] ed25519_run [OF B F secrets(2)] by simp_all
  note run = kmsEncrypt_def kmsDecrypt_def plainFor_def sealedFor_def boxFor_def encryptBox_def decryptBox_def
    externalKey_def chainedField_def orElse_def Let_def andThen_run thrown_run truthyText_def orThrow_def secret
  show "\<exists>e s. kmsEncrypt F Y wA (plainFor (Agreement (boxFor (Some iA) (Some (JObj [(''x'', JStr xB)])))) alg aad m) sA =
        (Inr e, s) \<and>
      fst (kmsDecrypt F Y wB (sealedFor (Agreement (boxFor (Some iB) (Some (JObj [(''x'', JStr xA)])))) alg aad e) sB) =
        Inr m"
    using ids len known by (simp add: run)
  obtain p q where pq: "cy_boxKeyPair Y (kd_draws sA) = (p, q)" by fastforce
  show "\<exists>e s. kmsEncrypt F Y wA (plainFor (Agreement (boxFor None (Some (JObj [(''x'', JStr xB)])))) alg aad m) sA =
        (Inr e, s) \<and>
      fst (kmsDecrypt F Y wB (sealedFor (Agreement (boxFor (Some iB) None)) alg aad e) sB) = Inr m"
    using ids len(1,2,4) len(3) [of "kd_draws sA"] ephemeral [where i = "kd_draws sA"] pq by (simp add: run)
qed

definition boxText :: string where
  "boxText = replicate 43 (CHR ''A'')"

definition boxPair :: storedKeyPair where
  "boxPair = \<lparr>sk_publicJwk = JObj [(''x'', JStr boxText)], sk_privateJwk = JObj [(''d'', JStr boxText)]\<rparr>"

definition boxDb :: keyDb where
  "boxDb = \<lparr>kd_rows = [\<lparr>kr_id = ''k'', kr_wallet_id = ''acme'', kr_public_jwk = stringify (sk_publicJwk boxPair),
     kr_private_jwk = stringify (sk_privateJwk boxPair)\<rparr>], kd_queries = 0, kd_draws = 0\<rparr>"

lemma boxText_length: "length (fromBase64url boxText) = 32"
  by code_simp

theorem box_round_trip_witness:
  "\<exists>e s. kmsEncrypt (\<lambda>_. None) sampleCrypto ''acme''
      (plainFor (Agreement (boxFor None (Some (JObj [(''x'', JStr boxText)])))) None None [1, 2]) boxDb = (Inr e, s) \<and>
    fst (kmsDecrypt (\<lambda>_. None) sampleCrypto ''acme''
      (sealedFor (Agreement (boxFor (Some ''k'') None)) None None e) boxDb) = Inr [1, 2]"
proof -
  have held: "holdsKey ''acme'' ''k'' boxPair boxDb"
    by (simp add: holdsKey_def keysWf_def boxDb_def rowAt_def seenBy_def parsedKey_def)
  have secret: "boxSecret sampleCrypto boxPair (take 32 (fromBase64url boxText @ fromBase64url boxText))"
    by (simp add: boxSecret_def boxPair_def sampleCrypto_def boxText_length)
  have "boxText \<noteq> []" by (simp add: boxText_def)
  with box_round_trip [OF held held _ secret secret, where F = "\<lambda>_. None" and xA = boxText and xB = boxText
      and alg = None and aad = None and m = "[1, 2]"] boxText_length
  show ?thesis by (simp add: sampleCrypto_def)
qed

section \<open>The keys of the domain\<close>

text \<open>
  When the first use of the domain keys finds the store unavailable, or cannot create the
  profile for another reason than that it exists, the failure is kept for the life of the
  process: every later reading, import, deletion and signature fails with that same first error
  (as it is, or wrapped), however well the store answers by then.
\<close>

theorem failed_profile_is_kept:
  assumes "createDomainProfile K s = (Inl e, s')"
  shows "fst (fetchKey K i (s, None)) = Inl e \<and>
    (let after = (t, snd (snd (fetchKey K i (s, None)))) in
       domainGetPublicKey K j after = (Inl e, after) \<and>
       fst (domainDeleteKey K j after) = Inl (KeyManagementError (''Error deleting domain key '' @ quote @ j @ quote)) \<and>
       domainSign K j a d after = (Inl e, after) \<and>
       (\<exists>e'. fst (domainImportKey K jwk after) = Inl e'))"
proof -
  have first: "ensureDomainProfile K (s, None) = (Inl e, (s', Some (Inl e)))"
    using assms by (simp add: ensureDomainProfile_def)
  have later: "fetchKey K k (t, Some (Inl e)) = (Inl e, (t, Some (Inl e)))" for k t
    by (simp add: fetchKey_def withDomainSession_def andThen_run ensureDomainProfile_def)
  have fst: "fetchKey K i (s, None) = (Inl e, (s', Some (Inl e)))"
    by (simp add: fetchKey_def withDomainSession_def andThen_run first)
  have "\<exists>e'. fst (domainImportKey K jwk (t, Some (Inl e))) = Inl e'"
  proof -
    obtain r t' where u: "importKid K jwk (t, Some (Inl e)) = (r, (t', Some (Inl e)))"
      by (cases "Option.bind (jsonField ''kid'' jwk) jsonStr"; cases "as_uuid K t")
        (auto simp: importKid_def onAskar_def)
    then show ?thesis
      by (cases r)
        (simp_all add: domainImportKey_def andThen_run Let_def wrapping_def catching_run later throwIf_run)
  qed
  then show ?thesis
    by (simp add: fst Let_def domainGetPublicKey_def domainDeleteKey_def domainSign_def fetchKeyAsserted_def
        andThen_run catching_run later)
qed

text \<open>A store that is down once and answers from then on.\<close>

definition recoveringAskar :: "(nat, bytes) askar" where
  "recoveringAskar =
     \<lparr>as_openStore = (\<lambda>n. if n = 0 then (Inl (CryptoThrew ''connection refused''), 1) else (Inr (), n)),
      as_createProfile = (\<lambda>_. ret ()), as_openSession = (\<lambda>_. ret ()), as_closeSession = ret (),
      as_fetchKey = (\<lambda>_. ret (Some (Some [7]))), as_insertKey = (\<lambda>_ _. ret ()), as_removeKey = (\<lambda>_. ret ()),
      as_uuid = ret ''id'', as_fromJwk = (\<lambda>_. Some [7]), as_jwkSecret = (\<lambda>_. []),
      as_signMessage = (\<lambda>_ d _. Some d), as_verifySignature = (\<lambda>_ _ _ _. Some True),
      as_publicJwkFromPrivateJwk = (\<lambda>_. Inr []), as_assertAllowedSigningAlg = (\<lambda>_ _. Inr ()),
      as_assertKeyAllowsSign = (\<lambda>_. Inr ()), as_assertKeyAllowsVerify = (\<lambda>_. Inr ())\<rparr>"

theorem failed_profile_is_kept_witness:
  "fst (fetchKey recoveringAskar ''k'' (0, None)) = Inl (CryptoThrew ''connection refused'') \<and>
   fst (domainGetPublicKey recoveringAskar ''k'' (snd (fetchKey recoveringAskar ''k'' (0, None)))) =
     Inl (CryptoThrew ''connection refused'') \<and>
   fst (createDomainProfile recoveringAskar 1) = Inr ()"
proof -
  have down: "createDomainProfile recoveringAskar 0 = (Inl (CryptoThrew ''connection refused''), 1)"
    by (simp add: createDomainProfile_def recoveringAskar_def andThen_run)
  moreover have "fst (createDomainProfile recoveringAskar 1) = Inr ()"
    by (simp add: createDomainProfile_def recoveringAskar_def andThen_run)
  moreover have "fst (snd (fetchKey recoveringAskar ''k'' (0, None))) = 1"
    by (simp add: fetchKey_def withDomainSession_def andThen_run ensureDomainProfile_def down)
  ultimately show ?thesis
    using failed_profile_is_kept [OF down, where i = "''k''" and j = "''k''" and t = 1]
    by (simp add: Let_def) (metis fst_conv prod.collapse)
qed

section \<open>No overwriting in the domain\<close>

text \<open>
  Unlike the table, the domain store refuses a key under an identifier it has: the import throws
  and nothing is inserted.
\<close>

lemma domain_import_refuses:
  assumes "fetchKey K kid t = (Inr (Some (Some key)), t')"
    and "jsonField ''kid'' jwk = Some (JStr kid)" and "fieldIs (Some jwk) ''kty'' ''EC''"
    and "jwk = JObj kvs"
  shows "domainImportKey K jwk t = (Inl (KeyExists kid domainBackend), t')"
proof -
  have "fieldIs (Some (JObj (objectOf (kvs @ [(''kid'', JStr kid)])))) ''kty'' ''EC''"
    using assms(3,4)
    by (simp add: fieldIs_def chainedField_def map_of_rev_distinct [OF distinct_objectOf] map_of_objectOf)
  then show ?thesis
    using assms(1,2)
    by (simp add: domainImportKey_def importKid_def andThen_run Let_def wrapping_def catching_run throwIf_run
        assms(4))
qed

end
