(* ===== verification/Wallets.thy ===== *)
theory Wallets
  imports OpenIdIssuer OpenIdVerifier DidResolvers DomainKeys Signers
begin

text \<open>
  The wallets of the three services: the tenants of the framework (\<^verbatim>\<open>agent/tenant.ts\<close>),
  what creates a wallet of each role (\<^verbatim>\<open>agent/wallet.ts\<close>), the map of the process
  (\<^verbatim>\<open>agent/agent-store.ts\<close>), its start (\<^verbatim>\<open>agent/agent-issuer.ts\<close>) and the
  routes that create and list wallets, and the configuration of the services. The tenants and the agents of the framework are records of
  their calls over a state \<open>'s\<close>; what \<open>new URL\<close> finds is a parameter.
\<close>

section \<open>Tenants\<close>

record tenantRecord =
  tr_id :: string
  tr_label :: string
  tr_walletConfigId :: "string option"

record ('s, 'g) tenantsApi =
  ta_getAllTenants :: "('s, string, tenantRecord list) op"
  ta_createTenant :: "string \<Rightarrow> ('s, string, tenantRecord) op"
  ta_openTenant :: "string \<Rightarrow> ('s, string, 'g) op"

definition getLogicalWalletId :: "tenantRecord \<Rightarrow> string" where
  "getLogicalWalletId t = coalesce (tr_walletConfigId t) (tr_label t)"

definition ensureTenant :: "('s, 'g) tenantsApi \<Rightarrow> string \<Rightarrow> ('s, string, string) op" where
  "ensureTenant T walletId =
     andThen (ta_getAllTenants T) (\<lambda>tenants.
     case find (\<lambda>t. getLogicalWalletId t = walletId) tenants of
       Some existing \<Rightarrow> ret (tr_id existing)
     | None \<Rightarrow> andThen (ta_createTenant T walletId) (\<lambda>r. ret (tr_id r)))"

text \<open>A \<open>Map\<close> is the list of its entries: a key that is set again keeps its place.\<close>

definition tenantEntries :: "tenantRecord list \<Rightarrow> (string \<times> string) list" where
  "tenantEntries tenants =
     foldl (\<lambda>m t. if getLogicalWalletId t = [] then m else AList.update (getLogicalWalletId t) (tr_id t) m) [] tenants"

definition loadTenantMap :: "('s, 'g) tenantsApi \<Rightarrow> ('s, string, (string \<times> string) list) op" where
  "loadTenantMap T = andThen (ta_getAllTenants T) (\<lambda>tenants. ret (tenantEntries tenants))"

section \<open>Creation in the core\<close>

datatype walletError =
    AgentMissing
  | WalletExists string
  | WalletUnknown string
  | TenantThrew string
  | DidThrew didError
  | UrlInvalid
  | ProtocolThrew string
  | WalletGuard guardFailure
  | WalletBody
  | NoDocument

definition failingAs :: "('e \<Rightarrow> 'f) \<Rightarrow> ('s, 'e, 'a) op \<Rightarrow> ('s, 'f, 'a) op" where
  "failingAs f m = (\<lambda>s. case m s of (Inl e, s') \<Rightarrow> (Inl (f e), s') | (Inr a, s') \<Rightarrow> (Inr a, s'))"

record 's walletAgent =
  wa_did :: "'s didAgent"
  wa_createWebDid :: "webDidCreateOptions \<Rightarrow> ('s, didError, didState) op"
  wa_createKeyDid :: "keyType \<Rightarrow> ('s, didError, didCreated) op"

record 's issuerAgent = "'s walletAgent" +
  wa_issuer :: "'s issuerApi"

record ('s, 'c) verifierAgent = "'s walletAgent" +
  wa_verifier :: "('s, 'c) verifierApi"

definition insideTenant ::
  "('s, 'g) tenantsApi \<Rightarrow> string \<Rightarrow> ('g \<Rightarrow> ('s, walletError, 'a) op) \<Rightarrow> ('s, walletError, 'a) op" where
  "insideTenant T tenantId callback = andThen (failingAs TenantThrew (ta_openTenant T tenantId)) callback"

definition walletDidOptions :: "urlParts \<Rightarrow> string \<Rightarrow> string \<Rightarrow> ensureWebDidOptions" where
  "walletDidOptions url didcommEndpoint walletId =
     \<lparr>eo_domain = walletDomain url walletId, eo_keyType = None, eo_didcommEndpoint = Some didcommEndpoint,
      eo_addEd25519Key = None, eo_addDidCommKey = Some True, eo_addBbsKey = None\<rparr>"

text \<open>The identifier of a wallet of an issuer or a verifier.\<close>

definition ensureWalletDid ::
  "(string \<Rightarrow> urlParts option) \<Rightarrow> ('s, 'z) walletAgent_scheme \<Rightarrow> string \<Rightarrow> string \<Rightarrow> ('s, walletError, unit) op" where
  "ensureWalletDid parseUrl agent didcommEndpoint walletId =
     andThen (orThrow (parseUrl didcommEndpoint) UrlInvalid) (\<lambda>url.
     andThen (failingAs DidThrew (ensureWebDid (wa_did agent) (wa_createWebDid agent)
       (walletDidOptions url didcommEndpoint walletId))) (\<lambda>_. ret ()))"

text \<open>A tenant that is found or created, prepared, and its identifier.\<close>

definition prepareTenant ::
  "('s, 'g) tenantsApi \<Rightarrow> string \<Rightarrow> ('g \<Rightarrow> ('s, walletError, unit) op) \<Rightarrow> ('s, walletError, string) op" where
  "prepareTenant T walletId prepare =
     andThen (failingAs TenantThrew (ensureTenant T walletId)) (\<lambda>tenantId.
     andThen (insideTenant T tenantId prepare) (\<lambda>_. ret tenantId))"

definition prepareIssuer ::
  "(string \<Rightarrow> urlParts option) \<Rightarrow> string \<Rightarrow> string \<Rightarrow> issuerOptions option \<Rightarrow> 's issuerAgent \<Rightarrow>
    ('s, walletError, unit) op" where
  "prepareIssuer parseUrl walletId didcommEndpoint oid4vcOptions agent =
     andThen (ensureWalletDid parseUrl agent didcommEndpoint walletId) (\<lambda>_.
     case oid4vcOptions of
       None \<Rightarrow> ret ()
     | Some options \<Rightarrow>
         andThen (failingAs ProtocolThrew (initializeIssuerOid4vc (wa_issuer agent) options (Some walletId))) (\<lambda>_. ret ()))"

definition createIssuerWallet ::
  "(string \<Rightarrow> urlParts option) \<Rightarrow> ('s, 's issuerAgent) tenantsApi \<Rightarrow> string \<Rightarrow> string \<Rightarrow> issuerOptions option \<Rightarrow>
    ('s, walletError, string) op" where
  "createIssuerWallet parseUrl T walletId didcommEndpoint oid4vcOptions =
     prepareTenant T walletId (prepareIssuer parseUrl walletId didcommEndpoint oid4vcOptions)"

definition prepareVerifier ::
  "(string \<Rightarrow> urlParts option) \<Rightarrow> string \<Rightarrow> string \<Rightarrow> verifierOptions option \<Rightarrow> ('s, 'c) verifierAgent \<Rightarrow>
    ('s, walletError, unit) op" where
  "prepareVerifier parseUrl walletId didcommEndpoint oid4vpOptions agent =
     andThen (ensureWalletDid parseUrl agent didcommEndpoint walletId) (\<lambda>_.
     case oid4vpOptions of
       None \<Rightarrow> ret ()
     | Some options \<Rightarrow>
         andThen (failingAs ProtocolThrew (initializeVerifierOid4vc (wa_verifier agent)
           (Some (options\<lparr>vo_verifierId := Some walletId\<rparr>)))) (\<lambda>_. ret ()))"

definition createVerifierWallet ::
  "(string \<Rightarrow> urlParts option) \<Rightarrow> ('s, ('s, 'c) verifierAgent) tenantsApi \<Rightarrow> string \<Rightarrow> string \<Rightarrow>
    verifierOptions option \<Rightarrow> ('s, walletError, string) op" where
  "createVerifierWallet parseUrl T walletId didcommEndpoint oid4vpOptions =
     prepareTenant T walletId (prepareVerifier parseUrl walletId didcommEndpoint oid4vpOptions)"

definition prepareHolder :: "'s walletAgent \<Rightarrow> ('s, walletError, unit) op" where
  "prepareHolder agent =
     andThen (failingAs DidThrew (ensureKeyDid (wa_did agent) (wa_createKeyDid agent) (Some HolderEd25519))) (\<lambda>_. ret ())"

definition createHolderWallet ::
  "('s, 's walletAgent) tenantsApi \<Rightarrow> string \<Rightarrow> ('s, walletError, string) op" where
  "createHolderWallet T walletId = prepareTenant T walletId prepareHolder"

definition firstDid :: "storedDid list \<Rightarrow> string option" where
  "firstDid records = (case records of [] \<Rightarrow> None | r # _ \<Rightarrow> Some (sd_did r))"

definition getTenantWebDid :: "('s, 'z) walletAgent_scheme \<Rightarrow> ('s, walletError, string option) op" where
  "getTenantWebDid agent =
     andThen (failingAs DidThrew (da_getCreatedDids (wa_did agent) ''web'')) (\<lambda>records. ret (firstDid records))"

definition getTenantKeyDid :: "('s, 'z) walletAgent_scheme \<Rightarrow> ('s, walletError, string option) op" where
  "getTenantKeyDid agent =
     andThen (failingAs DidThrew (da_getCreatedDids (wa_did agent) ''key'')) (\<lambda>records. ret (firstDid records))"

section \<open>The process\<close>

record ('s, 'g) walletProcess =
  wp_rootAgent :: "('s, 'g) tenantsApi option"
  wp_tenantMap :: "(string \<times> string) list"

type_synonym ('s, 'g) walletState = "'s \<times> ('s, 'g) walletProcess"

definition installRootAgent ::
  "('s, 'g) tenantsApi \<Rightarrow> (string \<times> string) list \<Rightarrow> ('s, 'g) walletProcess \<Rightarrow> ('s, 'g) walletProcess" where
  "installRootAgent agent wallets P =
     P\<lparr>wp_rootAgent := Some agent,
       wp_tenantMap := foldl (\<lambda>m (walletId, tenantId). AList.update walletId tenantId m) (wp_tenantMap P) wallets\<rparr>"

definition walletKnown :: "string \<Rightarrow> ('s, 'g) walletProcess \<Rightarrow> bool" where
  "walletKnown walletId P \<longleftrightarrow> map_of (wp_tenantMap P) walletId \<noteq> None"

definition recordTenant :: "string \<Rightarrow> string \<Rightarrow> ('s, 'g) walletProcess \<Rightarrow> ('s, 'g) walletProcess" where
  "recordTenant walletId tenantId P = P\<lparr>wp_tenantMap := AList.update walletId tenantId (wp_tenantMap P)\<rparr>"

text \<open>\<open>localeCompare\<close> is a parameter: whether it puts the first text before the second or with it.\<close>

definition listWallets :: "collation \<Rightarrow> ('s, 'g) walletProcess \<Rightarrow> (string \<times> string) list" where
  "listWallets le P = sortBy (\<lambda>a b. le (fst a) (fst b)) (wp_tenantMap P)"

definition insideWallet ::
  "string \<Rightarrow> ('g \<Rightarrow> ('s, walletError, 'a) op) \<Rightarrow> (('s, 'g) walletState, walletError, 'a) op" where
  "insideWallet walletId callback = (\<lambda>(s, P).
     case wp_rootAgent P of
       None \<Rightarrow> (Inl AgentMissing, (s, P))
     | Some T \<Rightarrow>
         if \<not> truthyText (map_of (wp_tenantMap P) walletId) then (Inl (WalletUnknown walletId), (s, P))
         else (case insideTenant T (coalesce (map_of (wp_tenantMap P) walletId) []) callback s of
                 (r, s') \<Rightarrow> (r, (s', P))))"

text \<open>
  The start of a service: the store is provisioned, the agent of its role is made and the tenants
  it has are loaded. The first two are calls of the framework.
\<close>

definition initializeRootAgent ::
  "('s, walletError, unit) op \<Rightarrow> ('s, walletError, ('s, 'g) tenantsApi) op \<Rightarrow>
    (('s, 'g) walletState, walletError, unit) op" where
  "initializeRootAgent openStore createRoot = (\<lambda>(s, P).
     case andThen openStore (\<lambda>_. andThen createRoot (\<lambda>agent.
         andThen (failingAs TenantThrew (loadTenantMap agent)) (\<lambda>m. ret (agent, m)))) s of
       (Inl e, s') \<Rightarrow> (Inl e, (s', P))
     | (Inr (agent, m), s') \<Rightarrow> (Inr (), (s', installRootAgent agent m P)))"

section \<open>The services\<close>

record walletItem =
  wi_walletId :: string
  wi_tenantId :: string
  wi_did :: "string option"

fun itemsOf ::
  "('g \<Rightarrow> ('s, walletError, string option) op) \<Rightarrow> (string \<times> string) list \<Rightarrow>
    (('s, 'g) walletState, walletError, walletItem list) op" where
  "itemsOf didOf [] = ret []"
| "itemsOf didOf ((walletId, tenantId) # wallets) =
     andThen (catching (insideWallet walletId didOf) (\<lambda>_. ret None)) (\<lambda>did.
     andThen (itemsOf didOf wallets) (\<lambda>items.
     ret (\<lparr>wi_walletId = walletId, wi_tenantId = tenantId, wi_did = did\<rparr> # items)))"

definition listItems ::
  "collation \<Rightarrow> ('g \<Rightarrow> ('s, walletError, string option) op) \<Rightarrow>
    (('s, 'g) walletState, walletError, walletItem list) op" where
  "listItems le didOf = (\<lambda>(s, P).
     if wp_rootAgent P = None then (Inl AgentMissing, (s, P))
     else itemsOf didOf (listWallets le P) (s, P))"

definition issuersList ::
  "collation \<Rightarrow> (('s, 's issuerAgent) walletState, walletError, walletItem list) op" where
  "issuersList le = listItems le getTenantWebDid"

definition verifiersList ::
  "collation \<Rightarrow> (('s, ('s, 'c) verifierAgent) walletState, walletError, walletItem list) op" where
  "verifiersList le = listItems le getTenantWebDid"

definition holdersList ::
  "collation \<Rightarrow> (('s, 's walletAgent) walletState, walletError, walletItem list) op" where
  "holdersList le = listItems le getTenantKeyDid"

record walletCreated =
  wc_walletId :: string
  wc_tenantId :: string
  wc_did :: "string option"
  wc_recordsCreated :: "string list"

text \<open>What is published when a wallet has an identifier; whatever goes wrong there is only logged.\<close>

record didCreatedEvent =
  ev_did :: string
  ev_didDocument :: "didDocument option"
  ev_source :: string

definition onProcess :: "('s, 'e, 'a) op \<Rightarrow> (('s, 'g) walletState, 'e, 'a) op" where
  "onProcess m = (\<lambda>(s, P). case m s of (r, s') \<Rightarrow> (r, (s', P)))"

text \<open>
  A creation in three stretches: the guard of the name, the tenant with its preparation, and,
  once it is in the map, the reading of its identifier.
\<close>

definition refuseKnown :: "string \<Rightarrow> (('s, 'g) walletState, walletError, ('s, 'g) tenantsApi) op" where
  "refuseKnown walletId = (\<lambda>(s, P).
     case wp_rootAgent P of
       None \<Rightarrow> (Inl AgentMissing, (s, P))
     | Some T \<Rightarrow> if walletKnown walletId P then (Inl (WalletExists walletId), (s, P)) else (Inr T, (s, P)))"

definition announceWallet ::
  "(didCreatedEvent \<Rightarrow> 's \<Rightarrow> 's) \<Rightarrow> ('g \<Rightarrow> ('s, walletError, storedDid list) op) \<Rightarrow> string \<Rightarrow> string list \<Rightarrow>
    string \<Rightarrow> string \<Rightarrow> (('s, 'g) walletState, walletError, walletCreated) op" where
  "announceWallet publish createdDids role recordsCreated walletId tenantId =
     andThen (modify (\<lambda>(s, P). (s, recordTenant walletId tenantId P))) (\<lambda>_.
     andThen (insideWallet walletId createdDids) (\<lambda>records.
     andThen (if truthyText (firstDid records)
       then modify (\<lambda>(s, P). (publish \<lparr>ev_did = coalesce (firstDid records) [],
         ev_didDocument = firstDocument records, ev_source = role @ ''-'' @ walletId\<rparr> s, P))
       else ret ()) (\<lambda>_.
     ret \<lparr>wc_walletId = walletId, wc_tenantId = tenantId, wc_did = firstDid records,
       wc_recordsCreated = recordsCreated\<rparr>)))"

definition createWallet ::
  "(('s, 'g) tenantsApi \<Rightarrow> ('s, walletError, string) op) \<Rightarrow>
    (string \<Rightarrow> (('s, 'g) walletState, walletError, walletCreated) op) \<Rightarrow> string \<Rightarrow>
    (('s, 'g) walletState, walletError, walletCreated) op" where
  "createWallet creates announce walletId =
     andThen (refuseKnown walletId) (\<lambda>T. andThen (onProcess (creates T)) announce)"

definition webDidsOf :: "('s, 'z) walletAgent_scheme \<Rightarrow> ('s, walletError, storedDid list) op" where
  "webDidsOf agent = failingAs DidThrew (da_getCreatedDids (wa_did agent) ''web'')"

definition keyDidsOf :: "('s, 'z) walletAgent_scheme \<Rightarrow> ('s, walletError, storedDid list) op" where
  "keyDidsOf agent = failingAs DidThrew (da_getCreatedDids (wa_did agent) ''key'')"

definition baseRecords :: "string list" where
  "baseRecords = [''DidRecord'', ''StorageVersionRecord'']"

definition issuersCreate ::
  "(string \<Rightarrow> urlParts option) \<Rightarrow> (didCreatedEvent \<Rightarrow> 's \<Rightarrow> 's) \<Rightarrow> string option \<Rightarrow> string \<Rightarrow> issuerOptions option \<Rightarrow>
    (('s, 's issuerAgent) walletState, walletError, walletCreated) op" where
  "issuersCreate parseUrl publish didcommEndpoint issuerId oid4vc =
     createWallet (\<lambda>T. createIssuerWallet parseUrl T issuerId (coalesce didcommEndpoint []) oid4vc)
       (announceWallet publish webDidsOf ''issuer''
          (baseRecords @ (if oid4vc = None then [] else [''OpenId4VcIssuerRecord''])) issuerId) issuerId"

definition verifiersCreate ::
  "(string \<Rightarrow> urlParts option) \<Rightarrow> (didCreatedEvent \<Rightarrow> 's \<Rightarrow> 's) \<Rightarrow> string option \<Rightarrow> string \<Rightarrow> verifierOptions option \<Rightarrow>
    (('s, ('s, 'c) verifierAgent) walletState, walletError, walletCreated) op" where
  "verifiersCreate parseUrl publish didcommEndpoint verifierId oid4vp =
     createWallet (\<lambda>T. createVerifierWallet parseUrl T verifierId (coalesce didcommEndpoint []) oid4vp)
       (announceWallet publish webDidsOf ''verifier''
          (baseRecords @ (if oid4vp = None then [] else [''OpenId4VcVerifierRecord''])) verifierId) verifierId"

definition holdersCreate ::
  "(didCreatedEvent \<Rightarrow> 's \<Rightarrow> 's) \<Rightarrow> string \<Rightarrow> (('s, 's walletAgent) walletState, walletError, walletCreated) op" where
  "holdersCreate publish holderId =
     createWallet (\<lambda>T. createHolderWallet T holderId)
       (announceWallet publish keyDidsOf ''holder'' baseRecords holderId) holderId"

section \<open>Routes\<close>

text \<open>
  Optional fields that are \<open>null\<close> count as absent here, although inside the options \<open>null\<close> is
  passed on; an array in place of the options is left out.
\<close>

definition decArray :: "json \<Rightarrow> json option" where
  "decArray v = (case v of JArr vs \<Rightarrow> Some (JArr vs) | _ \<Rightarrow> None)"

definition decObject :: "json \<Rightarrow> (string \<times> json) list option" where
  "decObject v = (case v of JObj kvs \<Rightarrow> Some kvs | _ \<Rightarrow> None)"

definition CreateIssuerOid4vcDto :: "json \<Rightarrow> issuerOptions option" where
  "CreateIssuerOid4vcDto v =
     (case (BillingHttp.optField ''display'' decArray v,
            BillingHttp.optField ''credentialConfigurationsSupported'' decObject v,
            BillingHttp.optField ''dpopSigningAlgValuesSupported'' decArray v,
            BillingHttp.optField ''batchCredentialIssuance'' decObject v,
            BillingHttp.optField ''authorizationServerConfigs'' decArray v) of
        (Some d, Some c, Some p, Some b, Some a) \<Rightarrow>
          Some \<lparr>op_display = nullish d, op_configurations = nullish c, op_dpop = nullish p,
            op_batch = map_option JObj (nullish b), op_authorizationServers = nullish a, op_signerDidUrl = None\<rparr>
      | _ \<Rightarrow> None)"

definition nestedDto :: "(json \<Rightarrow> 'a option) \<Rightarrow> json \<Rightarrow> 'a option" where
  "nestedDto dec v = (case v of JObj kvs \<Rightarrow> dec (JObj kvs) | _ \<Rightarrow> None)"

definition CreateIssuerDto :: "json \<Rightarrow> (string \<times> issuerOptions option) option" where
  "CreateIssuerDto body =
     (case (reqField ''issuerId'' (decMatching walletIdValid) body,
            BillingHttp.optField ''oid4vc'' (nestedDto CreateIssuerOid4vcDto) body) of
        (Some i, Some opts) \<Rightarrow> Some (i, nullish opts)
      | _ \<Rightarrow> None)"

definition CreateVerifierDto :: "json \<Rightarrow> (string \<times> verifierOptions option) option" where
  "CreateVerifierDto body =
     (case (reqField ''verifierId'' (decMatching walletIdValid) body,
            BillingHttp.optField ''oid4vp'' (nestedDto (\<lambda>v. map_option
              (\<lambda>m. \<lparr>vo_verifierId = None, vo_clientMetadata = map_option JObj (nullish m)\<rparr>)
              (BillingHttp.optField ''clientMetadata'' decObject v))) body) of
        (Some i, Some opts) \<Rightarrow> Some (i, nullish opts)
      | _ \<Rightarrow> None)"

definition CreateHolderDto :: "json \<Rightarrow> string option" where
  "CreateHolderDto body = reqField ''holderId'' (decMatching walletIdValid) body"

text \<open>\<open>req.billingAuth?.walletId\<close>, and the listing it leaves.\<close>

definition boundWallet :: "json option \<Rightarrow> json option" where
  "boundWallet auth = chainedField ''walletId'' auth"

definition boundItems :: "json option \<Rightarrow> walletItem list \<Rightarrow> walletItem list" where
  "boundItems auth items =
     (if isTruthy (boundWallet auth)
      then filter (\<lambda>item. boundWallet auth = Some (JStr (wi_walletId item))) items else items)"

definition walletsList ::
  "(request \<Rightarrow> ('b, guardFailure, json option) op) \<Rightarrow> ('s, walletError, walletItem list) op \<Rightarrow>
    (string \<Rightarrow> headerField) \<Rightarrow> ('b \<times> 's, walletError, walletItem list) op" where
  "walletsList guard list hdrs =
     andThen (onFst WalletGuard (guard \<lparr>rq_headers = hdrs, rq_walletId = None, rq_body = JObj []\<rparr>)) (\<lambda>auth.
     andThen (onSnd list) (\<lambda>items. ret (boundItems auth items)))"

definition walletsCreate ::
  "(request \<Rightarrow> ('b, guardFailure, json option) op) \<Rightarrow> (json \<Rightarrow> 'd option) \<Rightarrow>
    ('d \<Rightarrow> ('s, walletError, walletCreated) op) \<Rightarrow> (string \<Rightarrow> headerField) \<Rightarrow> json \<Rightarrow>
    ('b \<times> 's, walletError, walletCreated) op" where
  "walletsCreate guard dto creates hdrs body =
     andThen (onFst WalletGuard (guard \<lparr>rq_headers = hdrs, rq_walletId = None, rq_body = body\<rparr>)) (\<lambda>_.
     andThen (orThrow (dto body) WalletBody) (\<lambda>d. onSnd (creates d)))"

text \<open>The public routes: whether the process has its agent, and the document of a wallet.\<close>

definition readyRoute :: "(('s, 'g) walletState, walletError, unit) op" where
  "readyRoute = (\<lambda>(s, P). if wp_rootAgent P = None then (Inl AgentMissing, (s, P)) else (Inr (), (s, P)))"

definition walletDid ::
  "string \<Rightarrow> (('s, ('s, 'z) walletAgent_scheme) walletState, walletError, didDocument) op" where
  "walletDid walletId =
     insideWallet walletId (\<lambda>agent.
       andThen (webDidsOf agent) (\<lambda>records. orThrow (firstDocument records) NoDocument))"

section \<open>The configuration of a service\<close>

text \<open>\<open>env.K || d\<close>: an empty variable counts as absent. A list drops its empty parts.\<close>

definition envOr :: "(string \<rightharpoonup> string) \<Rightarrow> string \<Rightarrow> string \<Rightarrow> string" where
  "envOr env k d = (if truthyText (env k) then coalesce (env k) [] else d)"

definition commaList :: "string \<Rightarrow> string list" where
  "commaList v = filter (\<lambda>w. w \<noteq> []) (map trim (splitOn CHR '','' v))"

record serviceConfig =
  sc_port :: "int option"
  sc_serviceHost :: string
  sc_logLevel :: string
  sc_didcommEndpoint :: string
  sc_databaseUrl :: string
  sc_askarStoreId :: string
  sc_askarStoreKey :: string
  sc_vdrServiceUrl :: string
  sc_rabbitmqUrl :: string

definition serviceConfigOf :: "(string \<rightharpoonup> string) \<Rightarrow> string \<Rightarrow> string \<Rightarrow> serviceConfig" where
  "serviceConfigOf env baseUrl defaultPort =
     \<lparr>sc_port = textNumber (envOr env ''PORT'' defaultPort),
      sc_serviceHost = envOr env ''SERVICE_HOST'' ''localhost'',
      sc_logLevel = map upperChar (envOr env ''LOG_LEVEL'' ''INFO''),
      sc_didcommEndpoint = baseUrl @ ''/didcomm'',
      sc_databaseUrl = envOr env ''DATABASE_URL'' [],
      sc_askarStoreId = envOr env ''ASKAR_STORE_ID'' [],
      sc_askarStoreKey = envOr env ''ASKAR_STORE_KEY'' [],
      sc_vdrServiceUrl = envOr env ''VDR_SERVICE_URL'' ''http://localhost:4003'',
      sc_rabbitmqUrl = envOr env ''RABBITMQ_URL'' ''amqp://localhost:5672''\<rparr>"

record issuerConfig =
  ic_service :: serviceConfig
  ic_corsOrigins :: "string list"
  ic_jwtSecret :: "string option"
  ic_jwtIssuer :: string
  ic_jwtAudience :: string
  ic_publicBaseUrl :: string
  ic_invitationUrlPrefix :: string
  ic_revocationSigner :: derivationOptions
  ic_oid4vcBaseUrl :: string
  ic_oid4vcSupportedAlgs :: "string list"

definition issuerBaseUrl :: "(string \<rightharpoonup> string) \<Rightarrow> string" where
  "issuerBaseUrl env = envOr env ''BASE_URL'' ''http://identity-issuer-service:9001''"

definition issuerEnvironment :: "(string \<rightharpoonup> string) \<Rightarrow> issuerConfig" where
  "issuerEnvironment env =
     (let baseUrl = issuerBaseUrl env in
      \<lparr>ic_service = serviceConfigOf env baseUrl ''3000'',
       ic_corsOrigins = commaList (envOr env ''CORS_ORIGINS'' []),
       ic_jwtSecret = env ''JWT_SECRET'',
       ic_jwtIssuer = coalesce (env ''JWT_ISSUER'') ''quarkid'',
       ic_jwtAudience = coalesce (env ''JWT_AUDIENCE'') ''quarkid-services'',
       ic_publicBaseUrl = baseUrl,
       ic_invitationUrlPrefix = baseUrl,
       ic_revocationSigner = revocationSigner env,
       ic_oid4vcBaseUrl = baseUrl @ ''/openid4vc-flow'',
       ic_oid4vcSupportedAlgs = map trim (splitOn CHR '','' (coalesce (env ''OID4VC_SUPPORTED_ALGS'') ''ES256''))\<rparr>)"

record verifierConfig =
  vc_service :: serviceConfig
  vc_corsOrigins :: "string list"
  vc_invitationUrlPrefix :: string
  vc_didWebDomain :: string
  vc_useHttpForWebDid :: bool
  vc_oid4vcBaseUrl :: string
  vc_x5cCertificatesBase64 :: "string list"
  vc_x5cLeafCertificateKeyId :: string
  vc_x5cClientIdPrefix :: string

text \<open>A base address that is none throws.\<close>

definition verifierEnvironment :: "(string \<Rightarrow> urlParts option) \<Rightarrow> (string \<rightharpoonup> string) \<Rightarrow> verifierConfig option" where
  "verifierEnvironment parseUrl env =
     (let baseUrl = envOr env ''BASE_URL'' ''http://identity-verifier-service:9002'' in
      map_option (\<lambda>parsedUrl.
       \<lparr>vc_service = serviceConfigOf env baseUrl ''9004'',
        vc_corsOrigins = commaList (envOr env ''CORS_ORIGINS'' []),
        vc_invitationUrlPrefix = baseUrl,
        vc_didWebDomain = (if up_port parsedUrl \<noteq> [] then up_hostname parsedUrl @ ''%3A'' @ up_port parsedUrl
          else up_hostname parsedUrl),
        vc_useHttpForWebDid = (env ''NODE_ENV'' \<noteq> Some ''production''),
        vc_oid4vcBaseUrl = baseUrl @ ''/openid4vc-flow'',
        vc_x5cCertificatesBase64 = (if truthyText (env ''OID4VP_X5C_CERTIFICATES_BASE64'')
          then commaList (coalesce (env ''OID4VP_X5C_CERTIFICATES_BASE64'') []) else []),
        vc_x5cLeafCertificateKeyId = envOr env ''OID4VP_X5C_LEAF_CERTIFICATE_KEY_ID'' [],
        vc_x5cClientIdPrefix = envOr env ''OID4VP_X5C_CLIENT_ID_PREFIX'' ''x509_hash''\<rparr>) (parseUrl baseUrl))"

record holderConfig =
  hc_service :: serviceConfig
  hc_useHttpForWebDid :: bool
  hc_walletOrigin :: string

definition holderEnvironment :: "(string \<rightharpoonup> string) \<Rightarrow> holderConfig" where
  "holderEnvironment env =
     \<lparr>hc_service = serviceConfigOf env (envOr env ''BASE_URL'' ''http://identity-holder-service:9005'') ''9005'',
      hc_useHttpForWebDid = (env ''NODE_ENV'' \<noteq> Some ''production''),
      hc_walletOrigin = envOr env ''WALLET_ORIGIN'' ''*''\<rparr>"

end
