(* ===== verification/WalletProps.thy ===== *)
theory WalletProps
  imports Wallets
begin

text \<open>
  The tenants of a service and the map of its process: what every creation keeps, what a restart
  finds again, and what a creation that failed half way leaves behind. What is asked of the
  framework is that its list of tenants is the list of those created, and that working inside a
  tenant does not change it.
\<close>

section \<open>The framework\<close>

definition tenantLaws :: "('s, 'g) tenantsApi \<Rightarrow> ('s \<Rightarrow> tenantRecord list) \<Rightarrow> bool" where
  "tenantLaws T view \<longleftrightarrow>
     (\<forall>s. ta_getAllTenants T s = (Inr (view s), s)) \<and>
     (\<forall>w s. case ta_createTenant T w s of
        (Inl _, s') \<Rightarrow> view s' = view s
      | (Inr r, s') \<Rightarrow> tr_label r = w \<and> tr_walletConfigId r = None \<and> view s' = view s @ [r])"

definition keepsTenants :: "('s \<Rightarrow> tenantRecord list) \<Rightarrow> ('s, 'e, 'a) op \<Rightarrow> bool" where
  "keepsTenants view m \<longleftrightarrow> (\<forall>s. view (snd (m s)) = view s)"

text \<open>Opening a tenant and preparing it for its role leave the list of tenants alone.\<close>

definition quietTenants ::
  "('s, 'g) tenantsApi \<Rightarrow> ('s \<Rightarrow> tenantRecord list) \<Rightarrow> ('g \<Rightarrow> ('s, walletError, 'a) op) \<Rightarrow> bool" where
  "quietTenants T view m \<longleftrightarrow> (\<forall>t. keepsTenants view (ta_openTenant T t)) \<and>
     (\<forall>t s g s'. ta_openTenant T t s = (Inr g, s') \<longrightarrow> keepsTenants view (m g))"

lemma failingAs_run:
  "failingAs f m s = (case m s of (Inl e, s') \<Rightarrow> (Inl (f e), s') | (Inr a, s') \<Rightarrow> (Inr a, s'))"
  by (simp add: failingAs_def)

lemma quiet_inside:
  assumes "quietTenants T view m"
  shows "keepsTenants view (insideTenant T t m)"
  unfolding keepsTenants_def
proof
  fix s
  obtain r s' where o: "ta_openTenant T t s = (r, s')" by fastforce
  with assms have v: "view s' = view s"
    unfolding quietTenants_def keepsTenants_def by (metis snd_conv)
  show "view (snd (insideTenant T t m s)) = view s"
  proof (cases r)
    case (Inr g)
    with assms o have "keepsTenants view (m g)" unfolding quietTenants_def by blast
    with Inr v show ?thesis
      by (simp add: insideTenant_def andThen_run failingAs_run o keepsTenants_def)
  qed (simp add: insideTenant_def andThen_run failingAs_run o v)
qed

text \<open>Names are used by one tenant each, and the map of the process only names tenants there are.\<close>

definition distinctNames :: "tenantRecord list \<Rightarrow> bool" where
  "distinctNames tenants \<longleftrightarrow> distinct (map getLogicalWalletId tenants)"

definition mapSound :: "tenantRecord list \<Rightarrow> ('s, 'g) walletProcess \<Rightarrow> bool" where
  "mapSound tenants P \<longleftrightarrow> (\<forall>w t. map_of (wp_tenantMap P) w = Some t \<longrightarrow>
     (\<exists>r\<in>set tenants. getLogicalWalletId r = w \<and> tr_id r = t))"

definition walletsInv :: "('s \<Rightarrow> tenantRecord list) \<Rightarrow> ('s, 'g) walletState \<Rightarrow> bool" where
  "walletsInv view S \<longleftrightarrow> distinctNames (view (fst S)) \<and> mapSound (view (fst S)) (snd S)"

lemma createTenant_laws:
  assumes "tenantLaws T view"
  shows "ta_createTenant T w s = (Inl e, u) \<Longrightarrow> view u = view s"
    and "ta_createTenant T w s = (Inr x, u) \<Longrightarrow>
      getLogicalWalletId x = w \<and> view u = view s @ [x]"
proof -
  have "case ta_createTenant T w s of
      (Inl _, s') \<Rightarrow> view s' = view s
    | (Inr r, s') \<Rightarrow> tr_label r = w \<and> tr_walletConfigId r = None \<and> view s' = view s @ [r]"
    using assms unfolding tenantLaws_def by (elim conjE allE [of _ w] allE [of _ s])
  then show "ta_createTenant T w s = (Inl e, u) \<Longrightarrow> view u = view s"
    and "ta_createTenant T w s = (Inr x, u) \<Longrightarrow> getLogicalWalletId x = w \<and> view u = view s @ [x]"
    by (auto simp: getLogicalWalletId_def)
qed

lemma getAllTenants_laws: "tenantLaws T view \<Longrightarrow> ta_getAllTenants T s = (Inr (view s), s)"
  by (simp add: tenantLaws_def)

lemma inside_view:
  assumes "quietTenants T view m" and "insideTenant T t m s = (r, s')"
  shows "view s' = view s"
  using quiet_inside [OF assms(1), of t] assms(2) unfolding keepsTenants_def by (metis snd_conv)

lemma prepareTenant_tenants:
  assumes laws: "tenantLaws T view" and quiet: "quietTenants T view m" and d: "distinctNames (view s)"
    and run: "prepareTenant T w m s = (r, s')"
  shows "distinctNames (view s') \<and> set (view s) \<subseteq> set (view s') \<and>
    (\<forall>t. r = Inr t \<longrightarrow> (\<exists>x\<in>set (view s'). getLogicalWalletId x = w \<and> tr_id x = t))"
proof (cases "find (\<lambda>t. getLogicalWalletId t = w) (view s)")
  case (Some x)
  then have x: "x \<in> set (view s)" "getLogicalWalletId x = w"
    by (auto dest: find_Some_iff_in)
  obtain q u where i: "insideTenant T (tr_id x) m s = (q, u)" by fastforce
  from run Some i have "s' = u" "\<And>t. r = Inr t \<Longrightarrow> t = tr_id x"
    by (auto simp: prepareTenant_def andThen_run failingAs_run ensureTenant_def getAllTenants_laws [OF laws]
        split: sum.splits)
  with inside_view [OF quiet i] d x show ?thesis by auto
next
  case None
  then have fresh: "w \<notin> getLogicalWalletId ` set (view s)" by (auto simp: find_None_iff)
  obtain c u where c: "ta_createTenant T w s = (c, u)" by fastforce
  show ?thesis
  proof (cases c)
    case (Inl e)
    with createTenant_laws(1) [OF laws, of w s e u] run None c d show ?thesis
      by (auto simp: prepareTenant_def andThen_run failingAs_run ensureTenant_def getAllTenants_laws [OF laws])
  next
    case (Inr x)
    with createTenant_laws(2) [OF laws, of w s x u] c
    have u: "getLogicalWalletId x = w" "view u = view s @ [x]" by auto
    obtain q v where i: "insideTenant T (tr_id x) m u = (q, v)" by fastforce
    from run None c Inr i have "s' = v" "\<And>t. r = Inr t \<Longrightarrow> t = tr_id x"
      by (auto simp: prepareTenant_def andThen_run failingAs_run ensureTenant_def getAllTenants_laws [OF laws]
          split: sum.splits)
    with u inside_view [OF quiet i] d fresh show ?thesis by (auto simp: distinctNames_def)
  qed
qed

section \<open>Every creation\<close>

lemma mapSound_more: "mapSound tenants P \<Longrightarrow> set tenants \<subseteq> set others \<Longrightarrow> mapSound others P"
  unfolding mapSound_def by blast

lemma mapSound_record:
  assumes "mapSound tenants P" and "\<exists>x\<in>set tenants. getLogicalWalletId x = w \<and> tr_id x = t"
  shows "mapSound tenants (recordTenant w t P)"
  using assms by (auto simp: mapSound_def recordTenant_def update_conv')

lemma insideWallet_process: "snd (snd (insideWallet w m S)) = snd S"
  by (cases S) (auto simp: insideWallet_def split: option.splits prod.splits)

lemma announce_inv:
  assumes quiet: "\<forall>T. wp_rootAgent P = Some T \<longrightarrow> quietTenants T view dids"
    and publish: "\<And>e s. view (publish e s) = view s"
    and inv: "distinctNames (view s)" "mapSound (view s) (recordTenant w t P)"
  shows "walletsInv view (snd (announceWallet publish dids role recs w t (s, P)))"
proof -
  let ?P = "recordTenant w t P"
  obtain r s' P' where i: "insideWallet w dids (s, ?P) = (r, (s', P'))" by (metis prod.exhaust)
  then have P': "P' = ?P" using insideWallet_process [of w dids "(s, ?P)"] by simp
  have "view s' = view s"
  proof (cases "wp_rootAgent P")
    case None
    with i show ?thesis by (simp add: insideWallet_def recordTenant_def)
  next
    case (Some T)
    with quiet have "keepsTenants view (insideTenant T x dids)" for x
      by (simp add: quiet_inside)
    with i Some show ?thesis
      by (auto simp: insideWallet_def recordTenant_def keepsTenants_def split: if_splits prod.splits)
        (metis snd_conv)
  qed
  then show ?thesis
    using inv publish P'
    by (cases r) (simp_all add: announceWallet_def andThen_run i walletsInv_def)
qed

lemma createWallet_inv:
  assumes laws: "\<forall>T. wp_rootAgent P = Some T \<longrightarrow> tenantLaws T view \<and> quietTenants T view (prep T) \<and>
      quietTenants T view dids"
    and publish: "\<And>e s. view (publish e s) = view s"
    and inv: "walletsInv view (s, P)"
  shows "walletsInv view (snd (createWallet (\<lambda>T. prepareTenant T w (prep T))
    (announceWallet publish dids role recs w) w (s, P)))"
proof (cases "wp_rootAgent P")
  case None
  with inv show ?thesis by (simp add: createWallet_def andThen_run refuseKnown_def)
next
  case (Some T)
  show ?thesis
  proof (cases "walletKnown w P")
    case True
    with Some inv show ?thesis by (simp add: createWallet_def andThen_run refuseKnown_def)
  next
    case False
    obtain r s' where p: "prepareTenant T w (prep T) s = (r, s')" by fastforce
    with laws Some inv have t: "distinctNames (view s')" "set (view s) \<subseteq> set (view s')"
      "\<And>t. r = Inr t \<Longrightarrow> \<exists>x\<in>set (view s'). getLogicalWalletId x = w \<and> tr_id x = t"
      using prepareTenant_tenants [of T view "prep T" s w r s'] by (auto simp: walletsInv_def)
    have m: "mapSound (view s') P"
      using inv t(2) by (auto simp: walletsInv_def intro: mapSound_more)
    show ?thesis
    proof (cases r)
      case (Inl e)
      with Some False p t(1) m show ?thesis
        by (simp add: createWallet_def andThen_run refuseKnown_def onProcess_def walletsInv_def)
    next
      case (Inr tid)
      have "walletsInv view (snd (announceWallet publish dids role recs w tid (s', P)))"
        using laws Some by (intro announce_inv [OF _ publish t(1) mapSound_record [OF m t(3) [OF Inr]]]) simp
      with Some False p Inr show ?thesis
        by (simp add: createWallet_def andThen_run refuseKnown_def onProcess_def)
    qed
  qed
qed

definition worksWith ::
  "('s \<Rightarrow> tenantRecord list) \<Rightarrow> ('g \<Rightarrow> ('s, walletError, unit) op) \<Rightarrow>
    ('g \<Rightarrow> ('s, walletError, storedDid list) op) \<Rightarrow> ('s, 'g) walletProcess \<Rightarrow> bool" where
  "worksWith view prep dids P \<longleftrightarrow> (\<forall>T. wp_rootAgent P = Some T \<longrightarrow>
     tenantLaws T view \<and> quietTenants T view prep \<and> quietTenants T view dids)"

text \<open>
  C17. Whatever the outcome of a creation, in each of the three services, every name belongs to one
  tenant at most and the map of the process only names tenants of that name: a creation that
  failed after its tenant was made, and is tried again any number of times, never makes a second
  one, and no wallet is ever sent to the tenant of another.
\<close>

theorem wallets_stay_consistent:
  assumes "worksWith view (prepareIssuer parseUrl w (coalesce ep []) opts) webDidsOf P"
    and "worksWith view (prepareVerifier parseUrl w (coalesce ep []) opts') webDidsOf Q"
    and "worksWith view prepareHolder keyDidsOf R"
    and "\<And>e s. view (publish e s) = view s"
    and "walletsInv view (s, P)" and "walletsInv view (s, Q)" and "walletsInv view (s, R)"
  shows "walletsInv view (snd (issuersCreate parseUrl publish ep w opts (s, P))) \<and>
    walletsInv view (snd (verifiersCreate parseUrl publish ep w opts' (s, Q))) \<and>
    walletsInv view (snd (holdersCreate publish w (s, R)))"
proof (intro conjI)
  show "walletsInv view (snd (issuersCreate parseUrl publish ep w opts (s, P)))"
    unfolding issuersCreate_def createIssuerWallet_def
    by (rule createWallet_inv [OF assms(1) [unfolded worksWith_def] assms(4,5)])
  show "walletsInv view (snd (verifiersCreate parseUrl publish ep w opts' (s, Q)))"
    unfolding verifiersCreate_def createVerifierWallet_def
    by (rule createWallet_inv [OF assms(2) [unfolded worksWith_def] assms(4,6)])
  show "walletsInv view (snd (holdersCreate publish w (s, R)))"
    unfolding holdersCreate_def createHolderWallet_def
    by (rule createWallet_inv [OF assms(3) [unfolded worksWith_def] assms(4,7)])
qed

section \<open>A restart\<close>

lemma map_of_updates:
  "map_of (foldl (\<lambda>m (k, v). AList.update k v m) al kvs) = map_of al ++ map_of (rev kvs)"
  by (induction kvs arbitrary: al) (auto simp: update_conv' map_add_def fun_eq_iff split: option.splits)

lemma distinct_updates:
  "distinct (map fst al) \<Longrightarrow> distinct (map fst (foldl (\<lambda>m (k, v). AList.update k v m) al kvs))"
  by (induction kvs arbitrary: al) (auto simp: distinct_update)

definition namedTenants :: "tenantRecord list \<Rightarrow> (string \<times> string) list" where
  "namedTenants tenants =
     map (\<lambda>t. (getLogicalWalletId t, tr_id t)) (filter (\<lambda>t. getLogicalWalletId t \<noteq> []) tenants)"

lemma tenantEntries_conv:
  "tenantEntries tenants = foldl (\<lambda>m (k, v). AList.update k v m) [] (namedTenants tenants)"
proof -
  have "foldl (\<lambda>m t. if getLogicalWalletId t = [] then m else AList.update (getLogicalWalletId t) (tr_id t) m) al tenants =
      foldl (\<lambda>m (k, v). AList.update k v m) al (namedTenants tenants)" for al
    by (induction tenants arbitrary: al) (auto simp: namedTenants_def)
  then show ?thesis by (simp add: tenantEntries_def)
qed

lemma map_of_tenantEntries:
  assumes "distinctNames tenants" and "x \<in> set tenants" and "getLogicalWalletId x \<noteq> []"
  shows "map_of (tenantEntries tenants) (getLogicalWalletId x) = Some (tr_id x)"
proof -
  have "distinct (map fst (namedTenants tenants))"
    using assms(1) by (simp add: namedTenants_def distinctNames_def comp_def distinct_map_filter)
  moreover have "(getLogicalWalletId x, tr_id x) \<in> set (namedTenants tenants)"
    using assms(2,3) by (auto simp: namedTenants_def)
  ultimately show ?thesis
    by (simp add: tenantEntries_conv map_of_updates map_of_rev_distinct)
qed

text \<open>What the start of a process asks of the framework.\<close>

definition startsWell ::
  "('s \<Rightarrow> tenantRecord list) \<Rightarrow> ('s, walletError, unit) op \<Rightarrow>
    ('s, walletError, ('s, 'g) tenantsApi) op \<Rightarrow> bool" where
  "startsWell view openStore createRoot \<longleftrightarrow>
     keepsTenants view openStore \<and> keepsTenants view createRoot \<and>
     (\<forall>s T s'. createRoot s = (Inr T, s') \<longrightarrow> tenantLaws T view)"

lemma initialize_run:
  assumes well: "startsWell view openStore createRoot"
    and run: "initializeRootAgent openStore createRoot (s, \<lparr>wp_rootAgent = None, wp_tenantMap = []\<rparr>) =
      (Inr (), (s', P'))"
  shows "view s' = view s \<and> wp_rootAgent P' \<noteq> None \<and>
    map_of (wp_tenantMap P') = map_of (tenantEntries (view s))"
proof -
  from run obtain u T v ts where
    o: "openStore s = (Inr (), u)" and c': "createRoot u = (Inr T, v)" and
    g: "ta_getAllTenants T v = (Inr ts, s')" and
    P': "P' = installRootAgent T (tenantEntries ts) \<lparr>wp_rootAgent = None, wp_tenantMap = []\<rparr>"
    by (auto simp: initializeRootAgent_def andThen_run failingAs_run loadTenantMap_def
        split: sum.splits prod.splits)
  have laws: "tenantLaws T view" and quiet: "keepsTenants view openStore" "keepsTenants view createRoot"
    using well c' unfolding startsWell_def by blast+
  from c' g getAllTenants_laws [OF laws, of v] have c: "createRoot u = (Inr T, s')" and ts: "ts = view s'"
    by auto
  from quiet o c have v: "view s' = view s"
    unfolding keepsTenants_def by (metis snd_conv)
  have "distinct (map fst (tenantEntries tenants))" for tenants
    unfolding tenantEntries_conv by (rule distinct_updates) simp
  then have "map_of (rev (tenantEntries tenants)) = map_of (tenantEntries tenants)" for tenants
    by (simp add: fun_eq_iff map_of_rev_distinct)
  with v ts show ?thesis by (simp add: P' installRootAgent_def map_of_updates)
qed

text \<open>
  C18. A restart forgets nothing: the process that comes up again finds every wallet it had in its
  map, at the very tenant it had it, and also every tenant that is in the store under a name.
\<close>

theorem restart_finds_wallets:
  assumes "walletsInv view (s, P)"
    and "startsWell view openStore createRoot"
    and "initializeRootAgent openStore createRoot (s, \<lparr>wp_rootAgent = None, wp_tenantMap = []\<rparr>) =
      (Inr (), (s', P'))"
  shows "(\<forall>w t. w \<noteq> [] \<longrightarrow> map_of (wp_tenantMap P) w = Some t \<longrightarrow> map_of (wp_tenantMap P') w = Some t) \<and>
    (\<forall>x\<in>set (view s). getLogicalWalletId x \<noteq> [] \<longrightarrow>
       map_of (wp_tenantMap P') (getLogicalWalletId x) = Some (tr_id x)) \<and>
    walletsInv view (s', P')"
proof -
  note i = initialize_run [OF assms(2,3)]
  have d: "distinctNames (view s)" and m: "mapSound (view s) P"
    using assms(1) by (auto simp: walletsInv_def)
  have all: "map_of (wp_tenantMap P') (getLogicalWalletId x) = Some (tr_id x)"
    if "x \<in> set (view s)" "getLogicalWalletId x \<noteq> []" for x
    using i map_of_tenantEntries [OF d that] by simp
  have kept: "map_of (wp_tenantMap P') w = Some t" if "w \<noteq> []" "map_of (wp_tenantMap P) w = Some t" for w t
    using m that all unfolding mapSound_def by blast
  have "mapSound (view s) P'"
    unfolding mapSound_def
  proof (intro allI impI)
    fix w t assume "map_of (wp_tenantMap P') w = Some t"
    with i have "map_of (tenantEntries (view s)) w = Some t" by simp
    then have "(w, t) \<in> set (namedTenants (view s))"
      by (auto simp: tenantEntries_conv map_of_updates dest: map_of_SomeD)
    then show "\<exists>r\<in>set (view s). getLogicalWalletId r = w \<and> tr_id r = t"
      by (auto simp: namedTenants_def)
  qed
  with all kept d i show ?thesis by (auto simp: walletsInv_def)
qed

section \<open>A creation that failed half way\<close>

lemma prepareTenant_failed:
  assumes laws: "tenantLaws T view" and quiet: "quietTenants T view m"
    and run: "prepareTenant T w m s = (Inl e, s')" and e: "\<And>d. e \<noteq> TenantThrew d"
  shows "\<exists>x\<in>set (view s'). getLogicalWalletId x = w"
proof -
  from run e obtain t u where t: "ensureTenant T w s = (Inr t, u)" and i: "insideTenant T t m u = (Inl e, s')"
    by (auto simp: prepareTenant_def andThen_run failingAs_run split: sum.splits prod.splits)
  have "\<exists>x\<in>set (view u). getLogicalWalletId x = w"
    using t createTenant_laws(2) [OF laws, of w s]
    by (auto simp: ensureTenant_def andThen_run getAllTenants_laws [OF laws] split: option.splits sum.splits prod.splits
        dest!: find_Some_iff_in)
  with inside_view [OF quiet i] show ?thesis by simp
qed

text \<open>
  C19. When the preparation of a new issuer fails (its endpoint is no address, its identifier or
  its metadata cannot be made), the answer is that failure and the name stays free in the process,
  so that the creation can be tried again; but the tenant stays in the store. After a restart
  every creation of that name, whatever its options, is refused with a conflict: the wallet can
  not be finished any more through the service.
\<close>

theorem restart_freezes_failed_wallet:
  assumes works: "worksWith view (prepareIssuer parseUrl w (coalesce ep []) opts) webDidsOf P"
    and T: "wp_rootAgent P = Some T" and new: "\<not> walletKnown w P" and w: "w \<noteq> []"
    and inv: "walletsInv view (s, P)"
    and failed: "createIssuerWallet parseUrl T w (coalesce ep []) opts s = (Inl e, s')" "\<And>d. e \<noteq> TenantThrew d"
    and restart: "startsWell view openStore createRoot"
      "initializeRootAgent openStore createRoot (s', \<lparr>wp_rootAgent = None, wp_tenantMap = []\<rparr>) = (Inr (), (s2, P2))"
  shows "issuersCreate parseUrl publish ep w opts (s, P) = (Inl e, (s', P)) \<and> \<not> walletKnown w P \<and>
    issuersCreate parseUrl' publish ep' w opts' (s2, P2) = (Inl (WalletExists w), (s2, P2))"
proof -
  let ?prep = "prepareIssuer parseUrl w (coalesce ep []) opts"
  have laws: "tenantLaws T view" and quiet: "quietTenants T view ?prep"
    using works T by (auto simp: worksWith_def)
  have p: "prepareTenant T w ?prep s = (Inl e, s')"
    using failed(1) by (simp add: createIssuerWallet_def)
  have d: "distinctNames (view s')"
    using prepareTenant_tenants [OF laws quiet _ p] inv by (simp add: walletsInv_def)
  obtain x where x: "x \<in> set (view s')" "getLogicalWalletId x = w"
    using prepareTenant_failed [OF laws quiet p failed(2)] by blast
  have "map_of (wp_tenantMap P2) w = Some (tr_id x)" "wp_rootAgent P2 \<noteq> None"
    using initialize_run [OF restart] map_of_tenantEntries [OF d x(1)] x(2) w by auto
  then show ?thesis
    using T new failed(1)
    by (auto simp: issuersCreate_def createWallet_def andThen_run refuseKnown_def onProcess_def walletKnown_def)
qed

section \<open>A small installation\<close>

text \<open>Its state is the list of its tenants; its agents make every identifier at once.\<close>

definition sampleDidAgent :: "tenantRecord list didAgent" where
  "sampleDidAgent =
     \<lparr>da_getCreatedDids = (\<lambda>_. ret []), da_getPublicKey = (\<lambda>_. ret ()), da_deleteById = (\<lambda>_. ret ()),
      da_backends = []\<rparr>"

definition sampleDocument :: didDocument where
  "sampleDocument =
     \<lparr>dd_context = [], dd_id = ''did:web:x'', dd_verificationMethod = [], dd_authentication = None,
      dd_assertionMethod = None, dd_keyAgreement = None, dd_service = None\<rparr>"

definition sampleHolder :: "tenantRecord list walletAgent" where
  "sampleHolder =
     \<lparr>wa_did = sampleDidAgent, wa_createWebDid = (\<lambda>_. ret (Finished ''did:web:x'' sampleDocument)),
      wa_createKeyDid = (\<lambda>_. ret \<lparr>cr_finished = True, cr_did = Some ''did:key:z'', cr_reason = None\<rparr>)\<rparr>"

definition sampleIssuer :: "tenantRecord list issuerAgent" where
  "sampleIssuer = walletAgent.extend sampleHolder (issuerAgent.fields
     \<lparr>ia_getIssuerByIssuerId = (\<lambda>_. throw []), ia_getAllIssuers = ret [], ia_updateIssuerMetadata = (\<lambda>_. ret ()),
      ia_createIssuer = (\<lambda>_ _. throw []), ia_createCredentialOffer = (\<lambda>_. throw []),
      ia_getIssuanceSessionById = (\<lambda>_. throw []), ia_getCreatedDids = (\<lambda>_. ret [])\<rparr>)"

definition sampleVerifier :: "(tenantRecord list, unit) verifierAgent" where
  "sampleVerifier = walletAgent.extend sampleHolder (verifierAgent.fields
     \<lparr>va_getVerifierByVerifierId = (\<lambda>_. throw []), va_getAllVerifiers = ret [], va_updateVerifierMetadata = (\<lambda>_. ret ()),
      va_createVerifier = (\<lambda>_. throw []), va_createAuthorizationRequest = (\<lambda>_. throw []),
      va_getVerificationSessionById = (\<lambda>_. throw []), va_getCreatedDids = (\<lambda>_. ret []),
      va_fromEncodedCertificate = (\<lambda>_. Inl [])\<rparr>)"

definition sampleTenants :: "'g \<Rightarrow> (tenantRecord list, 'g) tenantsApi" where
  "sampleTenants agent =
     \<lparr>ta_getAllTenants = (\<lambda>s. (Inr s, s)),
      ta_createTenant = (\<lambda>w s. let r = \<lparr>tr_id = ''t-'' @ w, tr_label = w, tr_walletConfigId = None\<rparr> in (Inr r, s @ [r])),
      ta_openTenant = (\<lambda>_. ret agent)\<rparr>"

definition startedWith :: "'g \<Rightarrow> (tenantRecord list, 'g) walletProcess" where
  "startedWith agent = \<lparr>wp_rootAgent = Some (sampleTenants agent), wp_tenantMap = []\<rparr>"

lemma sample_laws: "tenantLaws (sampleTenants g) (\<lambda>s. s)"
  by (simp add: tenantLaws_def sampleTenants_def Let_def)

lemma sample_starts: "startsWell (\<lambda>s. s) (ret ()) (ret (sampleTenants g))"
  using sample_laws by (auto simp: startsWell_def keepsTenants_def)

lemma sample_works:
  assumes "\<And>s. snd (prep g s) = s" and "\<And>s. snd (dids g s) = s"
  shows "worksWith (\<lambda>s. s) prep dids (startedWith g)"
  using assms sample_laws [of g]
  by (simp add: worksWith_def startedWith_def quietTenants_def keepsTenants_def)
    (simp add: sampleTenants_def)

text \<open>With an endpoint that is an address the preparation succeeds, with another one it fails.\<close>

definition someHost :: "string \<Rightarrow> urlParts option" where
  "someHost u = (if u = [] then None else Some \<lparr>up_hostname = ''localhost'', up_port = []\<rparr>)"

lemmas sample_prep = prepareIssuer_def prepareVerifier_def prepareHolder_def ensureWalletDid_def ensureWebDid_def
  ensureKeyDid_def keptDid_def andThen_run failingAs_run orThrow_run someHost_def sampleDidAgent_def sampleHolder_def
  sampleIssuer_def sampleVerifier_def issuerAgent.defs verifierAgent.defs walletAgent.defs truthyText_def Let_def
  webDidsOf_def keyDidsOf_def

lemma sample_issuer_prep: "prepareIssuer someHost w ep None sampleIssuer s =
    (if ep = [] then (Inl UrlInvalid, s) else (Inr (), s))"
  by (simp add: sample_prep)

lemma sample_issuer_works: "worksWith (\<lambda>s. s) (prepareIssuer someHost w ep None) webDidsOf (startedWith sampleIssuer)"
  by (rule sample_works) (simp add: sample_issuer_prep, simp add: sample_prep)

lemma sample_verifier_works: "worksWith (\<lambda>s. s) (prepareVerifier someHost w ep None) webDidsOf (startedWith sampleVerifier)"
  by (rule sample_works) (simp_all add: sample_prep)

lemma sample_holder_works: "worksWith (\<lambda>s. s) prepareHolder keyDidsOf (startedWith sampleHolder)"
  by (rule sample_works) (simp_all add: sample_prep)

lemma sample_inv: "walletsInv (\<lambda>s. s) ([], startedWith g)"
  by (simp add: walletsInv_def distinctNames_def mapSound_def startedWith_def)

theorem wallets_stay_consistent_witness:
  "walletsInv (\<lambda>s. s) (snd (holdersCreate (\<lambda>_ s. s) ''ana'' ([], startedWith sampleHolder))) \<and>
   fst (holdersCreate (\<lambda>_ s. s) ''ana'' ([], startedWith sampleHolder)) =
     Inr \<lparr>wc_walletId = ''ana'', wc_tenantId = ''t-ana'', wc_did = None, wc_recordsCreated = baseRecords\<rparr>"
proof
  show "walletsInv (\<lambda>s. s) (snd (holdersCreate (\<lambda>_ s. s) ''ana'' ([], startedWith sampleHolder)))"
    using wallets_stay_consistent [OF sample_issuer_works sample_verifier_works sample_holder_works _
        sample_inv sample_inv sample_inv, where publish = "\<lambda>_ s. s" and w = "''ana''" and ep = "Some ''http://h''"]
    by simp
  show "fst (holdersCreate (\<lambda>_ s. s) ''ana'' ([], startedWith sampleHolder)) =
     Inr \<lparr>wc_walletId = ''ana'', wc_tenantId = ''t-ana'', wc_did = None, wc_recordsCreated = baseRecords\<rparr>"
    by (simp add: holdersCreate_def createWallet_def refuseKnown_def walletKnown_def onProcess_def createHolderWallet_def
        prepareTenant_def ensureTenant_def insideTenant_def announceWallet_def insideWallet_def recordTenant_def
        firstDid_def startedWith_def sampleTenants_def sample_prep)
qed

text \<open>The stored tenants of a process that created one wallet.\<close>

definition storedTenants :: "tenantRecord list" where
  "storedTenants = [\<lparr>tr_id = ''t-acme'', tr_label = ''acme'', tr_walletConfigId = None\<rparr>]"

theorem restart_finds_wallets_witness:
  "map_of (wp_tenantMap (snd (snd (initializeRootAgent (ret ()) (ret (sampleTenants sampleHolder))
     (storedTenants, \<lparr>wp_rootAgent = None, wp_tenantMap = []\<rparr>))))) ''acme'' = Some ''t-acme''"
proof -
  let ?P = "\<lparr>wp_rootAgent = None, wp_tenantMap = []\<rparr> :: (tenantRecord list, tenantRecord list walletAgent) walletProcess"
  have "walletsInv (\<lambda>s. s) (storedTenants, ?P)"
    by (simp add: walletsInv_def distinctNames_def mapSound_def storedTenants_def)
  moreover have "fst (initializeRootAgent (ret ()) (ret (sampleTenants sampleHolder)) (storedTenants, ?P)) = Inr ()"
    by (simp add: initializeRootAgent_def andThen_run failingAs_run loadTenantMap_def sampleTenants_def)
  then obtain s' P' where "initializeRootAgent (ret ()) (ret (sampleTenants sampleHolder)) (storedTenants, ?P) =
      (Inr (), (s', P'))" by (metis prod.collapse)
  ultimately show ?thesis
    using restart_finds_wallets [OF _ sample_starts, where s = storedTenants and P = ?P and s' = s' and P' = P']
    by simp (simp add: storedTenants_def getLogicalWalletId_def)
qed

theorem restart_freezes_failed_wallet_witness:
  "issuersCreate someHost (\<lambda>_ s. s) None ''acme'' None ([], startedWith sampleIssuer) =
     (Inl UrlInvalid, (storedTenants, startedWith sampleIssuer)) \<and>
   fst (issuersCreate someHost (\<lambda>_ s. s) (Some ''http://h'') ''acme'' None
     (snd (initializeRootAgent (ret ()) (ret (sampleTenants sampleIssuer))
        (storedTenants, \<lparr>wp_rootAgent = None, wp_tenantMap = []\<rparr>)))) = Inl (WalletExists ''acme'')"
proof -
  let ?P = "\<lparr>wp_rootAgent = None, wp_tenantMap = []\<rparr> :: (tenantRecord list, tenantRecord list issuerAgent) walletProcess"
  have failed: "createIssuerWallet someHost (sampleTenants sampleIssuer) ''acme'' (coalesce None []) None [] =
      (Inl UrlInvalid, storedTenants)"
    by (simp add: createIssuerWallet_def prepareTenant_def ensureTenant_def insideTenant_def andThen_run failingAs_run
        sample_issuer_prep sampleTenants_def storedTenants_def Let_def)
  have "fst (initializeRootAgent (ret ()) (ret (sampleTenants sampleIssuer)) (storedTenants, ?P)) = Inr ()"
    by (simp add: initializeRootAgent_def andThen_run failingAs_run loadTenantMap_def sampleTenants_def)
  then obtain s' P' where run: "initializeRootAgent (ret ()) (ret (sampleTenants sampleIssuer)) (storedTenants, ?P) =
      (Inr (), (s', P'))" by (metis prod.collapse)
  have "wp_rootAgent (startedWith sampleIssuer) = Some (sampleTenants sampleIssuer)"
    "\<not> walletKnown ''acme'' (startedWith sampleIssuer)"
    by (simp_all add: startedWith_def walletKnown_def)
  from restart_freezes_failed_wallet [OF sample_issuer_works this _ sample_inv failed _ sample_starts run,
      where publish = "\<lambda>_ s. s" and ep' = "Some ''http://h''" and parseUrl' = someHost and opts' = None] run
  show ?thesis by simp
qed

end
