(* ===== verification/BbsCredentials.thy ===== *)
theory BbsCredentials
  imports DidCommCalls Dids RecordQuery
begin

text \<open>
  Credentials with BBS+ proofs (\<^verbatim>\<open>credential/bbs/\<close> of the core): which claims a holder
  reveals, the derivation of a proof for a presentation, the definition its presentation is signed
  under, and the verification of what a presentation holds. The libraries that sign, derive and
  verify, and the classes of the framework, are a record of their calls over a state \<open>'s\<close>.
\<close>

section \<open>Proof types\<close>

text \<open>\<open>isBbsProofType\<close> of a value that may be no text.\<close>

definition hasBbsType :: "json option \<Rightarrow> bool" where
  "hasBbsType proofType \<longleftrightarrow> (case proofType of Some (JStr t) \<Rightarrow> isBbsProofType t | _ \<Rightarrow> False)"

text \<open>\<open>vc.proof?.type\<close>.\<close>

definition proofTypeOf :: "json \<Rightarrow> json option" where
  "proofTypeOf vc = chainedField ''type'' (jsonField ''proof'' vc)"

section \<open>What a definition asks for\<close>

text \<open>\<open>for (const x of v)\<close>; what cannot be iterated throws.\<close>

fun iterated :: "json \<Rightarrow> json list option" where
  "iterated (JArr vs) = Some vs"
| "iterated (JStr s) = Some (map (\<lambda>c. JStr [c]) s)"
| "iterated _ = None"

fun allSome :: "'a option list \<Rightarrow> 'a list option" where
  "allSome [] = Some []"
| "allSome (None # vs) = None"
| "allSome (Some v # vs) = map_option (Cons v) (allSome vs)"

text \<open>Reading a property of \<open>null\<close> throws.\<close>

definition fieldPaths :: "json \<Rightarrow> string list option" where
  "fieldPaths field =
     (if field = JNull then None
      else case jsonField ''path'' field of
        Some (JStr p) \<Rightarrow> Some [p]
      | Some (JArr ps) \<Rightarrow> Some (List.map_filter jsonStr ps)
      | _ \<Rightarrow> Some [])"

definition descriptorPaths :: "json \<Rightarrow> string list option" where
  "descriptorPaths desc =
     (if desc = JNull then None
      else case orElse (chainedField ''fields'' (jsonField ''constraints'' desc)) (Some (JArr [])) of
        None \<Rightarrow> Some []
      | Some asked \<Rightarrow>
          Option.bind (iterated asked) (\<lambda>fs. map_option concat (allSome (map fieldPaths fs))))"

text \<open>\<open>[...new Set(paths)]\<close>.\<close>

definition uniqueInOrder :: "'a list \<Rightarrow> 'a list" where
  "uniqueInOrder xs = rev (remdups (rev xs))"

definition extractRevealPathsFromPresentationDefinition :: "json \<Rightarrow> string list option" where
  "extractRevealPathsFromPresentationDefinition presentationDefinition =
     (if presentationDefinition = JNull then None
      else case jsonField ''input_descriptors'' presentationDefinition of
        Some (JArr descriptors) \<Rightarrow>
          map_option (uniqueInOrder \<circ> concat) (allSome (map descriptorPaths descriptors))
      | _ \<Rightarrow> Some [])"

section \<open>What a holder reveals\<close>

definition isValidJsonLdType :: "json option \<Rightarrow> bool" where
  "isValidJsonLdType value =
     (case value of
        Some (JStr s) \<Rightarrow> s \<noteq> []
      | Some (JArr ts) \<Rightarrow> list_all (\<lambda>t. jsonStr t \<noteq> None) ts
      | _ \<Rightarrow> False)"

text \<open>\<open>/^\$\.credentialSubject\.([A-Za-z0-9_]+)$/\<close>.\<close>

definition wordChar :: "char \<Rightarrow> bool" where
  "wordChar c \<longleftrightarrow>
     (let n = of_char c :: nat in
      48 \<le> n \<and> n \<le> 57 \<or> 65 \<le> n \<and> n \<le> 90 \<or> 97 \<le> n \<and> n \<le> 122 \<or> n = 95)"

definition subjectPrefix :: string where "subjectPrefix = ''$.credentialSubject.''"

definition subjectKey :: "string \<Rightarrow> string option" where
  "subjectKey path =
     (let key = drop (length subjectPrefix) path in
      if startsWith path subjectPrefix \<and> key \<noteq> [] \<and> list_all wordChar key then Some key else None)"

text \<open>
  \<open>key in subject\<close>: also what every object inherits. \<open>__proto__\<close> counts as absent: assigning it adds
  no property. A list of subjects has its indices and its length here; the methods of lists are left
  out. A subject that is no object throws.
\<close>

definition inheritedNames :: "string list" where
  "inheritedNames = [''constructor'', ''hasOwnProperty'', ''isPrototypeOf'', ''propertyIsEnumerable'',
     ''toLocaleString'', ''toString'', ''valueOf'', ''__defineGetter__'', ''__defineSetter__'',
     ''__lookupGetter__'', ''__lookupSetter__'']"

definition keyIn :: "string \<Rightarrow> json \<Rightarrow> bool option" where
  "keyIn key subject =
     (case subject of
        JObj kvs \<Rightarrow> Some (key \<noteq> ''__proto__'' \<and> (key \<in> fst ` set kvs \<or> key \<in> set inheritedNames))
      | JArr vs \<Rightarrow> Some (key \<in> set (map natStr [0..<length vs]) \<or> key = ''length'' \<or> key \<in> set inheritedNames)
      | _ \<Rightarrow> None)"

fun revealPaths :: "json \<Rightarrow> string list \<Rightarrow> (string \<times> json) list \<Rightarrow> (string \<times> json) list option" where
  "revealPaths subject [] revealed = Some revealed"
| "revealPaths subject (path # paths) revealed =
     (case subjectKey path of
        None \<Rightarrow> revealPaths subject paths revealed
      | Some key \<Rightarrow>
          if key = ''id'' \<or> key = ''type'' then revealPaths subject paths revealed
          else Option.bind (keyIn key subject) (\<lambda>present.
            revealPaths subject paths (if present then AList.update key (JObj []) revealed else revealed)))"

definition subjectOf :: "json \<Rightarrow> json" where
  "subjectOf credential = coalesce (orElse (jsonField ''credentialSubject'' credential) (Some (JObj []))) (JObj [])"

definition alwaysRevealed :: "json \<Rightarrow> (string \<times> json) list" where
  "alwaysRevealed subject =
     [(''@explicit'', JBool True)] @
     (case jsonField ''id'' subject of Some (JStr (c # i)) \<Rightarrow> [(''id'', JObj [])] | _ \<Rightarrow> []) @
     (if isValidJsonLdType (jsonField ''type'' subject) then entryOf ''type'' (jsonField ''type'' subject) else [])"

definition buildRevealFrame :: "json \<Rightarrow> string list \<Rightarrow> json option" where
  "buildRevealFrame credential requestedPaths =
     map_option (\<lambda>revealed. JObj (entryOf ''@context'' (jsonField ''@context'' credential) @
         [(''type'', if isValidJsonLdType (jsonField ''type'' credential)
             then coalesce (jsonField ''type'' credential) JNull else JArr [JStr ''VerifiableCredential'']),
          (''credentialSubject'', JObj revealed)]))
       (revealPaths (subjectOf credential) requestedPaths (alwaysRevealed (subjectOf credential)))"

section \<open>The libraries\<close>

record 's bbsApi =
  bb_derive :: "json \<Rightarrow> json \<Rightarrow> bytes option \<Rightarrow> ('s, string, json) op"
  bb_verify :: "bool \<Rightarrow> json \<Rightarrow> ('s, string, bool \<times> string option) op"
  bb_sign :: "string \<times> string \<Rightarrow> string \<Rightarrow> json \<Rightarrow> ('s, string, json) op"
  bb_keyPair :: "string \<Rightarrow> ('s, string, string \<times> string) op"
  bb_findCreatedDid :: "string \<Rightarrow> ('s, string, storedDid option) op"
  bb_transform :: "json \<Rightarrow> string + json"
  bb_fromJson :: "json \<Rightarrow> string + json"

definition sumOp :: "'e + 'a \<Rightarrow> ('s, 'e, 'a) op" where
  "sumOp v = (case v of Inl e \<Rightarrow> throw e | Inr a \<Rightarrow> ret a)"

definition signBbsCredential :: "'s bbsApi \<Rightarrow> json \<Rightarrow> string \<Rightarrow> string \<Rightarrow> ('s, string, json) op" where
  "signBbsCredential A credential verificationMethod kmsKeyId =
     andThen (bb_keyPair A kmsKeyId) (\<lambda>keyPair. bb_sign A keyPair verificationMethod credential)"

text \<open>Whatever is thrown becomes the error of a credential that does not verify.\<close>

definition verifyBbsCredential :: "'s bbsApi \<Rightarrow> json \<Rightarrow> ('s, string, bool \<times> string option) op" where
  "verifyBbsCredential A credential =
     catching (bb_verify A (proofTypeOf credential = Some (JStr BBS_PROOF_TYPE_DERIVED)) credential)
       (\<lambda>e. ret (False, Some e))"

definition deriveBbsProof :: "'s bbsApi \<Rightarrow> json \<Rightarrow> json \<Rightarrow> string option \<Rightarrow> ('s, string, json) op" where
  "deriveBbsProof A credential revealDocument nonce =
     bb_derive A credential revealDocument
       (if truthyText nonce then Some (textBytes (coalesce nonce [])) else None)"

definition resolveBbsKmsKeyId :: "'s bbsApi \<Rightarrow> string \<Rightarrow> ('s, string, string \<times> string) op" where
  "resolveBbsKmsKeyId A issuerDid =
     andThen (bb_findCreatedDid A issuerDid) (\<lambda>record.
     case Option.bind record sd_keys of
       None \<Rightarrow> throw (''DID '' @ issuerDid @ '' not found or has no keys in wallet'')
     | Some keys \<Rightarrow>
         if keys = [] then throw (''DID '' @ issuerDid @ '' not found or has no keys in wallet'')
         else
           (case find (\<lambda>k. dk_relativeKeyId k = Some WEB_DID_KEY_BBS_LDP_FRAGMENT) keys of
              None \<Rightarrow> throw (''Missing verification method '' @ WEB_DID_KEY_BBS_LDP_FRAGMENT @ '' for '' @ issuerDid @
                ''. Create DID with addBbsKey.'')
            | Some bbsKey \<Rightarrow> ret (issuerDid @ WEB_DID_KEY_BBS_LDP_FRAGMENT, dk_kmsKeyId bbsKey)))"

section \<open>Derivation for a presentation\<close>

text \<open>
  An entry of a presentation; of its record the encoded credential and the JSON of its first one.
\<close>

record pexEntry =
  pe_claimFormat :: "string option"
  pe_encoded :: "json option"
  pe_recordEncoded :: "json option"
  pe_firstCredential :: "json option"

definition encodedFromPexEntry :: "pexEntry \<Rightarrow> json option" where
  "encodedFromPexEntry entry =
     orElse (pe_encoded entry) (orElse (pe_recordEncoded entry) (pe_firstCredential entry))"

text \<open>\<open>encoded && typeof encoded === 'object'\<close>.\<close>

definition objectEncoded :: "pexEntry \<Rightarrow> json option" where
  "objectEncoded entry =
     (case encodedFromPexEntry entry of
        Some (JObj kvs) \<Rightarrow> Some (JObj kvs) | Some (JArr vs) \<Rightarrow> Some (JArr vs) | _ \<Rightarrow> None)"

definition pexEntriesIncludeBbs :: "(string \<times> pexEntry list) list \<Rightarrow> bool" where
  "pexEntriesIncludeBbs credentials \<longleftrightarrow>
     list_ex (\<lambda>entry. case objectEncoded entry of None \<Rightarrow> False | Some vc \<Rightarrow> hasBbsType (proofTypeOf vc))
       (concat (map snd credentials))"

text \<open>The identifier of the subject is put back when the derived credential has none.\<close>

definition restoreSubjectId :: "json \<Rightarrow> json \<Rightarrow> json" where
  "restoreSubjectId vc derived =
     (let originalSubjectId = chainedField ''id'' (jsonField ''credentialSubject'' vc);
          derivedSubject = jsonField ''credentialSubject'' derived
      in if isTruthy originalSubjectId \<and> isTruthy derivedSubject \<and>
            Option.bind (chainedField ''id'' derivedSubject) jsonStr = None
         then JObj (objectOf (spreadOf derived @ [(''credentialSubject'',
           JObj (objectOf (spreadOf (coalesce derivedSubject JNull) @ entryOf ''id'' originalSubjectId)))]))
         else derived)"

definition maybeDeriveBbsCredentialForPex ::
  "'s bbsApi \<Rightarrow> pexEntry \<Rightarrow> json \<Rightarrow> string option \<Rightarrow> ('s, string, pexEntry) op" where
  "maybeDeriveBbsCredentialForPex A entry presentationDefinition nonce =
     (case objectEncoded entry of
        None \<Rightarrow> ret entry
      | Some vc \<Rightarrow>
          if proofTypeOf vc \<noteq> Some (JStr BBS_PROOF_TYPE) then ret entry
          else
            andThen (orThrow
              (extractRevealPathsFromPresentationDefinition presentationDefinition) ''TypeError'') (\<lambda>paths.
            if paths = [] then ret entry
            else
              andThen (orThrow (buildRevealFrame vc paths) ''TypeError'') (\<lambda>frame.
              andThen (deriveBbsProof A vc frame nonce) (\<lambda>derived.
              andThen (sumOp (bb_fromJson A (restoreSubjectId vc derived))) (\<lambda>derivedCredential.
              ret \<lparr>pe_claimFormat = Some (coalesce (pe_claimFormat entry) ''ldp_vc''), pe_encoded = None,
                pe_recordEncoded = Some derivedCredential, pe_firstCredential = Some derivedCredential\<rparr>)))))"

fun deriveEntries ::
  "'s bbsApi \<Rightarrow> pexEntry list \<Rightarrow> json \<Rightarrow> string option \<Rightarrow> ('s, string, pexEntry list) op" where
  "deriveEntries A [] pd nonce = ret []"
| "deriveEntries A (entry # es) pd nonce =
     andThen (maybeDeriveBbsCredentialForPex A entry pd nonce) (\<lambda>derived.
     andThen (deriveEntries A es pd nonce) (\<lambda>rest. ret (derived # rest)))"

fun applyBbsDeriveToPexCredentials ::
  "'s bbsApi \<Rightarrow> (string \<times> pexEntry list) list \<Rightarrow> json \<Rightarrow> string option \<Rightarrow>
    ('s, string, (string \<times> pexEntry list) list) op" where
  "applyBbsDeriveToPexCredentials A [] pd nonce = ret []"
| "applyBbsDeriveToPexCredentials A ((descriptorId, es) # credentials) pd nonce =
     andThen (deriveEntries A es pd nonce) (\<lambda>derived.
     andThen (applyBbsDeriveToPexCredentials A credentials pd nonce) (\<lambda>rest.
     ret ((descriptorId, derived) # rest)))"

section \<open>The definition a presentation is signed under\<close>

definition HOLDER_VP_PROOF_TYPES :: "string list" where
  "HOLDER_VP_PROOF_TYPES = [''Ed25519Signature2018'', ''Ed25519Signature2020'']"

text \<open>Formats are objects here and proof types, where there are any, a list.\<close>

definition mergeVpProofTypes :: "json option \<Rightarrow> json" where
  "mergeVpProofTypes proofTypes =
     JArr (fold (\<lambda>t types. if JStr t \<in> set types then types else types @ [JStr t]) HOLDER_VP_PROOF_TYPES
       (coalesce (Option.bind proofTypes iterated) []))"

definition putField :: "string \<Rightarrow> json \<Rightarrow> json \<Rightarrow> json" where
  "putField k v obj = (case obj of JObj kvs \<Rightarrow> JObj (AList.update k v kvs) | _ \<Rightarrow> obj)"

definition allowHolderProofs :: "json \<Rightarrow> json" where
  "allowHolderProofs holder =
     (case jsonField ''format'' holder of
        None \<Rightarrow> holder
      | Some format \<Rightarrow>
          if isTruthy (jsonField ''ldp_vc'' format)
          then putField ''format'' (putField ''ldp_vc'' (putField ''proof_type''
              (mergeVpProofTypes (chainedField ''proof_type'' (jsonField ''ldp_vc'' format)))
              (coalesce (jsonField ''ldp_vc'' format) JNull)) format) holder
          else if isTruthy (Some format)
          then putField ''format'' (putField ''ldp_vc''
              (JObj [(''proof_type'', JArr (map JStr HOLDER_VP_PROOF_TYPES))]) format) holder
          else holder)"

definition presentationDefinitionForHolderVpSigning :: "json \<Rightarrow> (string \<times> pexEntry list) list \<Rightarrow> json" where
  "presentationDefinitionForHolderVpSigning presentationDefinition credentials =
     (if \<not> pexEntriesIncludeBbs credentials then presentationDefinition
      else
        (let pd = allowHolderProofs presentationDefinition in
         case jsonField ''input_descriptors'' pd of
           Some (JArr ds) \<Rightarrow> putField ''input_descriptors'' (JArr (map allowHolderProofs ds)) pd
         | _ \<Rightarrow> pd))"

section \<open>The credentials of a presentation\<close>

text \<open>\<open>Array.isArray(v) ? v : v ? [v] : []\<close>.\<close>

definition listOf :: "json option \<Rightarrow> json list" where
  "listOf v = (case v of Some (JArr vs) \<Rightarrow> vs | _ \<Rightarrow> if isTruthy v then [coalesce v JNull] else [])"

definition asCredential :: "'s bbsApi \<Rightarrow> json \<Rightarrow> string + json" where
  "asCredential A raw =
     (case raw of JObj kvs \<Rightarrow> Inr raw | JArr vs \<Rightarrow> Inr raw | _ \<Rightarrow> bb_transform A raw)"

text \<open>The error of the first credential with a BBS proof that does not verify.\<close>

fun firstBbsError :: "'s bbsApi \<Rightarrow> json list \<Rightarrow> ('s, string, string option) op" where
  "firstBbsError A [] = ret None"
| "firstBbsError A (raw # vcs) =
     andThen (sumOp (asCredential A raw)) (\<lambda>vc.
     if \<not> hasBbsType (proofTypeOf vc) then firstBbsError A vcs
     else andThen (verifyBbsCredential A vc) (\<lambda>(verified, error).
       if verified then firstBbsError A vcs
       else ret (Some (coalesce error ''BBS credential verification failed''))))"

definition verifyBbsCredentialsInPresentation :: "'s bbsApi \<Rightarrow> json \<Rightarrow> ('s, string, string option) op" where
  "verifyBbsCredentialsInPresentation A presentation =
     firstBbsError A (listOf (jsonField ''verifiableCredential'' presentation))"

section \<open>Verification methods\<close>

definition absolutizeVerificationMethodForDid ::
  "string \<times> string option \<Rightarrow> string \<Rightarrow> string \<times> string option" where
  "absolutizeVerificationMethodForDid vm subjectDid =
     (if \<not> startsWith subjectDid ''did:'' then vm
      else
        ((if startsWith (fst vm) ''did:'' \<or> startsWith (fst vm) ''http'' then fst vm
          else subjectDid @ (if startsWith (fst vm) ''#'' then fst vm else CHR ''#'' # fst vm)),
         (case snd vm of
            None \<Rightarrow> None
          | Some c \<Rightarrow> Some (if startsWith c ''did:'' \<or> startsWith c ''http'' then c else subjectDid))))"

text \<open>
  The loader of documents: for a fragment of a DID the method itself, as the framework
  dereferences it in the resolved document; anything else is left to the framework's loader. A
  resolved document is its identifier, its context and what a method is found as.
\<close>

record loadedMethod =
  lm_id :: string
  lm_type :: "string option"
  lm_controller :: "string option"
  lm_json :: "(string \<times> json) list"

record resolvedDocument =
  rs_id :: string
  rs_context :: json
  rs_dereferenceMethod :: "string \<Rightarrow> loadedMethod option"
  rs_dereferenceKey :: "string \<Rightarrow> string + loadedMethod"

definition methodDocument :: "resolvedDocument \<Rightarrow> string \<Rightarrow> loadedMethod \<Rightarrow> string + json" where
  "methodDocument doc url vm =
     (let absolute = absolutizeVerificationMethodForDid (lm_id vm, lm_controller vm) (rs_id doc);
          ty = orElse (jsonField ''type'' (JObj (lm_json vm))) (map_option JStr (lm_type vm))
      in case ty of
           Some (JStr (c # t)) \<Rightarrow>
             Inr (JObj (objectOf (lm_json vm @ [(''@context'', rs_context doc), (''id'', JStr (fst absolute)),
               (''type'', JStr (c # t)), (''controller'', JStr (coalesce (snd absolute) (rs_id doc)))])))
         | _ \<Rightarrow> Inl (''Verification method '' @ url @ '' has no string type''))"

definition quarkDocumentLoader ::
  "(string \<Rightarrow> ('s, string, json) op) \<Rightarrow> (string \<Rightarrow> ('s, string, resolvedDocument) op) \<Rightarrow> string \<Rightarrow>
    ('s, string, json) op" where
  "quarkDocumentLoader fallback resolve url =
     (if startsWith url ''did:'' \<and> CHR ''#'' \<in> set url then
        andThen (resolve (takeWhile (\<lambda>c. c \<noteq> CHR ''#'') url)) (\<lambda>doc.
        andThen (sumOp (case rs_dereferenceMethod doc url of
            Some vm \<Rightarrow> Inr vm | None \<Rightarrow> rs_dereferenceKey doc url)) (\<lambda>vm.
        sumOp (methodDocument doc url vm)))
      else fallback url)"

text \<open>
  The two DIDComm formats that carry BBS+ proofs (\<^verbatim>\<open>quark-jsonld-credential-format.service.ts\<close>,
  \<^verbatim>\<open>quark-dif-pex-proof-format.service.ts\<close>) and the middleware that links an inbound message to
  its connection (\<^verbatim>\<open>didcomm-inbound-connection.middleware.ts\<close>). The methods of the framework a
  format overrides and the services it calls are arguments.
\<close>

datatype attachmentData = Base64Json json | PlainJson json

record didAttachment =
  da_id :: string
  da_data :: attachmentData

text \<open>Reading a property of nothing or of \<open>null\<close> throws.\<close>

definition fieldOrThrow :: "string \<Rightarrow> json option \<Rightarrow> ('s, string, json option) op" where
  "fieldOrThrow k v =
     (if v = None \<or> v = Some JNull then throw ''TypeError'' else ret (chainedField k v))"

section \<open>Credentials\<close>

text \<open>
  \<open>jl_attachmentId\<close> is the identifier a format takes when it is given none, \<open>jl_store\<close> stores a
  credential and returns the identifier of its record.
\<close>

record 's jsonLdApi =
  jl_superAccept :: "json \<Rightarrow> ('s, string, didAttachment) op"
  jl_superProcess :: "json \<Rightarrow> ('s, string, string list) op"
  jl_attachmentId :: "('s, string, string) op"
  jl_store :: "json \<Rightarrow> ('s, string, string) op"
  jl_areObjectsEqual :: "json \<Rightarrow> json \<Rightarrow> bool"

definition attachmentIdOr :: "('s, string, string) op \<Rightarrow> string option \<Rightarrow> ('s, string, string) op" where
  "attachmentIdOr generate attachmentId = (case attachmentId of Some i \<Rightarrow> ret i | None \<Rightarrow> generate)"

definition unsupportedOptions :: "string list" where
  "unsupportedOptions = [''challenge'', ''domain'', ''credentialStatus'', ''created'']"

text \<open>\<open>typeof issuer === 'string' ? issuer : issuer?.id\<close>; an identifier is a text here.\<close>

definition issuerOf :: "json option \<Rightarrow> string option" where
  "issuerOf issuer =
     (case issuer of
        Some (JStr s) \<Rightarrow> Some s
      | _ \<Rightarrow> Option.bind (chainedField ''id'' issuer) jsonStr)"

definition acceptBbsRequest ::
  "'s bbsApi \<Rightarrow> 's jsonLdApi \<Rightarrow> string option \<Rightarrow> string option \<Rightarrow> json \<Rightarrow> json option \<Rightarrow>
    ('s, string, didAttachment) op" where
  "acceptBbsRequest A J vm attachmentId credentialRequest requestOptions =
     (let foundFields = filter (\<lambda>field. chainedField field requestOptions \<noteq> None) unsupportedOptions;
          credential = jsonField ''credential'' credentialRequest
      in
        andThen (throwIf (foundFields \<noteq> [])
          (''Some fields are not currently supported in credential options: '' @ joinWith '', '' foundFields)) (\<lambda>_.
        andThen (fieldOrThrow ''issuer'' credential) (\<lambda>issuer.
        andThen (throwIf (\<not> truthyText (issuerOf issuer)) ''Missing issuer in credential request'') (\<lambda>_.
        andThen (resolveBbsKmsKeyId A (coalesce (issuerOf issuer) [])) (\<lambda>(verificationMethod, kmsKeyId).
        andThen (signBbsCredential A (coalesce credential JNull) (coalesce vm verificationMethod) kmsKeyId)
          (\<lambda>signedCredential.
        andThen (attachmentIdOr (jl_attachmentId J) attachmentId) (\<lambda>i.
        ret \<lparr>da_id = i, da_data = Base64Json signedCredential\<rparr>)))))))"

definition jsonLdAcceptRequest ::
  "'s bbsApi \<Rightarrow> 's jsonLdApi \<Rightarrow> string option \<Rightarrow> string option \<Rightarrow> json \<Rightarrow>
    ('s, string, didAttachment) op" where
  "jsonLdAcceptRequest A J vm attachmentId credentialRequest =
     andThen (fieldOrThrow ''options'' (Some credentialRequest)) (\<lambda>requestOptions.
     andThen (fieldOrThrow ''proofType'' requestOptions) (\<lambda>proofType.
     if proofType \<noteq> Some (JStr BBS_PROOF_TYPE) then jl_superAccept J credentialRequest
     else acceptBbsRequest A J vm attachmentId credentialRequest requestOptions))"

definition withoutField :: "string \<Rightarrow> json \<Rightarrow> json" where
  "withoutField k v = JObj (filter (\<lambda>(k', _). k' \<noteq> k) (spreadOf v))"

text \<open>\<open>a === b\<close> where either may be absent.\<close>

definition strictlyEqual :: "json option \<Rightarrow> json option \<Rightarrow> bool" where
  "strictlyEqual a b = (case (a, b) of (None, None) \<Rightarrow> True | (Some x, Some y) \<Rightarrow> strictEq x y | _ \<Rightarrow> False)"

definition verifyReceivedCredentialMatchesRequestBbs ::
  "'s jsonLdApi \<Rightarrow> json \<Rightarrow> json \<Rightarrow> ('s, string, unit) op" where
  "verifyReceivedCredentialMatchesRequestBbs J credential request =
     (let proof = jsonField ''proof'' credential in
      andThen (throwIf (\<not> isTruthy proof \<or> (case proof of Some (JArr _) \<Rightarrow> True | _ \<Rightarrow> False))
        ''Credential proof arrays are not supported'') (\<lambda>_.
      andThen (fieldOrThrow ''options'' (Some request)) (\<lambda>requestOptions.
      andThen (fieldOrThrow ''proofType'' requestOptions) (\<lambda>proofType.
      andThen (throwIf (\<not> strictlyEqual (chainedField ''type'' proof) proofType)
        ''Received credential proof type does not match proof type from credential request'') (\<lambda>_.
      andThen (throwIf (isTruthy (chainedField ''proofPurpose'' requestOptions) \<and>
          \<not> strictlyEqual (chainedField ''proofPurpose'' proof) (chainedField ''proofPurpose'' requestOptions))
        ''Received credential proof purpose does not match proof purpose from credential request'') (\<lambda>_.
      throwIf (\<not> jl_areObjectsEqual J (withoutField ''proof'' credential)
          (coalesce (jsonField ''credential'' request) JNull))
        ''Received credential does not match credential request''))))))"

text \<open>The identifiers of the records the exchange has afterwards.\<close>

definition jsonLdProcessCredential ::
  "'s bbsApi \<Rightarrow> 's jsonLdApi \<Rightarrow> string list \<Rightarrow> json \<Rightarrow> json \<Rightarrow> ('s, string, string list) op" where
  "jsonLdProcessCredential A J credentials credentialAsJson requestAsJson =
     andThen (fieldOrThrow ''proof'' (Some credentialAsJson)) (\<lambda>_.
     if proofTypeOf credentialAsJson \<noteq> Some (JStr BBS_PROOF_TYPE) then jl_superProcess J credentialAsJson
     else
       andThen (verifyReceivedCredentialMatchesRequestBbs J credentialAsJson requestAsJson) (\<lambda>_.
       andThen (verifyBbsCredential A credentialAsJson) (\<lambda>(verified, error).
       andThen (throwIf (\<not> verified) (''Failed to validate BBS credential, error = '' @ coalesce error ''undefined''))
         (\<lambda>_.
       andThen (sumOp (bb_fromJson A credentialAsJson)) (\<lambda>credential.
       andThen (jl_store J credential) (\<lambda>recordId. ret (credentials @ [recordId])))))))"

section \<open>Presentations\<close>

record createdPresentation =
  cr_presentations :: "json list"
  cr_external :: bool

text \<open>
  \<open>xp_create\<close> gets the lookup of the holder's verification method as the service has it during the
  call: the format replaces it and puts it back afterwards.
\<close>

type_synonym 's methodLookup = "string \<Rightarrow> ('s, string, string \<times> string option) op"

record 's exchangeApi =
  xp_select :: "json \<Rightarrow> ('s, string, (string \<times> pexEntry list) list) op"
  xp_challenge :: "('s, string, json) op"
  xp_method :: "'s methodLookup"
  xp_create :: "'s methodLookup \<Rightarrow> json \<Rightarrow> (string \<times> pexEntry list) list \<Rightarrow> json \<Rightarrow> json option \<Rightarrow>
    ('s, string, createdPresentation option) op"
  xp_attachmentId :: "('s, string, string) op"
  xp_fromJwt :: "string \<Rightarrow> string + json"
  xp_fromJson :: "json \<Rightarrow> string + json"
  xp_validDefinition :: "json option \<Rightarrow> bool"
  xp_validSubmission :: "json \<Rightarrow> bool"
  xp_superProcess :: "('s, string, bool) op"

definition absolutizedLookup :: "'s methodLookup \<Rightarrow> 's methodLookup" where
  "absolutizedLookup getVm subjectDid =
     andThen (getVm subjectDid) (\<lambda>vm. ret (absolutizeVerificationMethodForDid vm subjectDid))"

text \<open>A challenge is a text here, so that a proof can be derived for it.\<close>

definition pexAcceptRequest ::
  "'s bbsApi \<Rightarrow> 's exchangeApi \<Rightarrow> string option \<Rightarrow> (string \<times> pexEntry list) list option \<Rightarrow> json \<Rightarrow>
    ('s, string, didAttachment) op" where
  "pexAcceptRequest A X attachmentId chosen request =
     andThen (fieldOrThrow ''presentation_definition'' (Some request)) (\<lambda>definition.
     let presentationDefinition = coalesce definition JNull;
         pexOptions = jsonField ''options'' request
     in
       andThen (case chosen of Some credentials \<Rightarrow> ret credentials
         | None \<Rightarrow> xp_select X presentationDefinition) (\<lambda>credentials.
       andThen (case orElse (chainedField ''challenge'' pexOptions) None of
           Some c \<Rightarrow> ret c | None \<Rightarrow> xp_challenge X) (\<lambda>challenge.
       andThen (applyBbsDeriveToPexCredentials A credentials presentationDefinition (jsonStr challenge))
         (\<lambda>derivedCredentials.
       andThen (xp_create X (absolutizedLookup (xp_method X))
           (presentationDefinitionForHolderVpSigning presentationDefinition derivedCredentials)
           derivedCredentials challenge (chainedField ''domain'' pexOptions)) (\<lambda>presentation.
       case presentation of
         None \<Rightarrow> throw ''Failed to create presentation for request.''
       | Some created \<Rightarrow>
           andThen (throwIf (1 < length (cr_presentations created))
             ''Invalid amount of verifiable presentations. Only one is allowed.'') (\<lambda>_.
           andThen (throwIf (cr_external created) ''External presentation submission is not supported.'') (\<lambda>_.
           case cr_presentations created of
             [] \<Rightarrow> throw ''TypeError''
           | encoded # _ \<Rightarrow>
               andThen (attachmentIdOr (xp_attachmentId X) attachmentId) (\<lambda>i.
               ret \<lparr>da_id = i, da_data = PlainJson encoded\<rparr>))))))))"

definition jsonPresentationOf :: "'s exchangeApi \<Rightarrow> json \<Rightarrow> string + json" where
  "jsonPresentationOf X presentation =
     (case presentation of
        JStr s \<Rightarrow>
          if CHR ''~'' \<in> set s
          then Inl ''Received SD-JWT VC in PEX proof format. This is not supported yet.''
          else xp_fromJwt X s
      | _ \<Rightarrow> xp_fromJson X presentation)"

definition hasBbsCredential :: "json \<Rightarrow> bool" where
  "hasBbsCredential presentation \<longleftrightarrow>
     list_ex (\<lambda>raw. hasBbsType (proofTypeOf raw)) (listOf (jsonField ''verifiableCredential'' presentation))"

text \<open>\<open>proofs.some((p) => p.challenge === challenge)\<close>; a proof that is \<open>null\<close> throws.\<close>

fun matchesChallenge :: "json \<Rightarrow> json list \<Rightarrow> ('s, string, bool) op" where
  "matchesChallenge challenge [] = ret False"
| "matchesChallenge challenge (p # proofs) =
     andThen (fieldOrThrow ''challenge'' (Some p)) (\<lambda>c.
     if strictlyEqual c (Some challenge) then ret True else matchesChallenge challenge proofs)"

definition processBbsPresentation ::
  "'s bbsApi \<Rightarrow> 's exchangeApi \<Rightarrow> json \<Rightarrow> json \<Rightarrow> ('s, string, bool) op" where
  "processBbsPresentation A X request jsonPresentation =
     (if \<not> isTruthy (jsonField ''presentation_submission'' jsonPresentation) then ret False
      else
        andThen (fieldOrThrow ''options'' (Some request)) (\<lambda>requestOptions.
        let challenge = chainedField ''challenge'' requestOptions in
        if \<not> isTruthy challenge then ret False
        else if \<not> xp_validDefinition X (jsonField ''presentation_definition'' request) \<or>
          \<not> xp_validSubmission X (coalesce (jsonField ''presentation_submission'' jsonPresentation) JNull)
        then ret False
        else
          andThen (verifyBbsCredentialsInPresentation A jsonPresentation) (\<lambda>error.
          if error \<noteq> None then ret False
          else matchesChallenge (coalesce challenge JNull) (listOf (jsonField ''proof'' jsonPresentation)))))"

definition pexProcessPresentation ::
  "'s bbsApi \<Rightarrow> 's exchangeApi \<Rightarrow> json \<Rightarrow> json \<Rightarrow> ('s, string, bool) op" where
  "pexProcessPresentation A X request presentation =
     andThen (sumOp (jsonPresentationOf X presentation)) (\<lambda>jsonPresentation.
     if hasBbsCredential jsonPresentation then processBbsPresentation A X request jsonPresentation
     else xp_superProcess X)"

section \<open>Inbound messages\<close>

record inboundConnection =
  ic_id :: string
  ic_isReady :: bool

record inboundMessage =
  im_type :: "string option"
  im_threadId :: "string option"
  im_connection :: "inboundConnection option"
  im_sessionId :: "string option"

record 's inboundApi =
  in_getByThreadId :: "string \<Rightarrow> ('s, string, inboundConnection) op"
  in_findById :: "string \<Rightarrow> ('s, string, inboundConnection option) op"
  in_issuerExchanges :: "string \<Rightarrow> ('s, string, string option list) op"
  in_verifierExchanges :: "string \<Rightarrow> ('s, string, string option list) op"
  in_bindSession :: "string \<Rightarrow> string \<Rightarrow> ('s, string, unit) op"

definition isComplete :: "string \<Rightarrow> bool" where
  "isComplete msgType \<longleftrightarrow> sublist ''didexchange'' msgType \<and> endsWith msgType ''/complete''"

definition isRequestCredential :: "string \<Rightarrow> bool" where
  "isRequestCredential msgType \<longleftrightarrow>
     sublist ''issue-credential'' msgType \<and> endsWith msgType ''/request-credential''"

definition isPresentationMessage :: "string \<Rightarrow> bool" where
  "isPresentationMessage msgType \<longleftrightarrow>
     sublist ''present-proof'' msgType \<and> endsWith msgType ''/presentation''"

definition readyConnection :: "inboundConnection option \<Rightarrow> inboundConnection option" where
  "readyConnection c = (case c of Some d \<Rightarrow> if ic_isReady d then Some d else None | None \<Rightarrow> None)"

definition firstConnectionId :: "string option list \<Rightarrow> string option" where
  "firstConnectionId exchanges = (case exchanges of [] \<Rightarrow> None | c # _ \<Rightarrow> c)"

definition findInboundConnection ::
  "'s inboundApi \<Rightarrow> string \<Rightarrow> string \<Rightarrow> ('s, string, inboundConnection option) op" where
  "findInboundConnection N msgType threadId =
     (if isComplete msgType then
        andThen (in_getByThreadId N threadId) (\<lambda>connection. ret (readyConnection (Some connection)))
      else
        andThen (if isRequestCredential msgType then in_issuerExchanges N threadId
          else in_verifierExchanges N threadId) (\<lambda>exchanges.
        let connectionId = firstConnectionId exchanges in
        if truthyText connectionId
        then andThen (in_findById N (coalesce connectionId [])) (\<lambda>connection. ret (readyConnection connection))
        else ret None))"

text \<open>The connection of the message the handler gets.\<close>

definition inboundConnectionMiddleware ::
  "'s inboundApi \<Rightarrow> inboundMessage \<Rightarrow> ('s, string, inboundConnection option) op" where
  "inboundConnectionMiddleware N msg =
     (let msgType = coalesce (im_type msg) [];
          needsConnection = isComplete msgType \<or> isRequestCredential msgType \<or> isPresentationMessage msgType
      in
        andThen (if needsConnection \<and> im_connection msg = None \<and> truthyText (im_threadId msg)
          then catching (findInboundConnection N msgType (coalesce (im_threadId msg) [])) (\<lambda>_. ret None)
          else ret (im_connection msg)) (\<lambda>connection.
        andThen (case connection of
            Some c \<Rightarrow>
              if needsConnection \<and> ic_id c \<noteq> [] \<and> truthyText (im_sessionId msg)
              then catching (in_bindSession N (coalesce (im_sessionId msg) []) (ic_id c)) (\<lambda>_. ret ())
              else ret ()
          | None \<Rightarrow> ret ()) (\<lambda>_.
        ret connection)))"

end
