(* ===== verification/BbsProps.thy ===== *)
theory BbsProps
  imports BbsCredentials
begin

text \<open>
  Properties of the credentials with BBS+ proofs: what a verifier accepts, what a holder stores and
  what a holder reveals.
\<close>

section \<open>What a verifier accepts\<close>

text \<open>
  The library's verdict on a credential depends on the suite it is checked with and on nothing else;
  a verification that throws counts as failed.
\<close>

definition bbsVerifier :: "'s bbsApi \<Rightarrow> (bool \<Rightarrow> json \<Rightarrow> bool) \<Rightarrow> bool" where
  "bbsVerifier A V \<longleftrightarrow> (\<forall>derived vc s. case bb_verify A derived vc s of
     (Inr (verified, e), s') \<Rightarrow> verified = V derived vc | (Inl e, s') \<Rightarrow> \<not> V derived vc)"

definition objects :: "json list \<Rightarrow> bool" where
  "objects vcs \<longleftrightarrow> list_all (\<lambda>vc. case vc of JObj _ \<Rightarrow> True | _ \<Rightarrow> False) vcs"

definition presentedCredentials :: "json \<Rightarrow> json list" where
  "presentedCredentials vp = listOf (jsonField ''verifiableCredential'' vp)"

definition presentationProofs :: "json \<Rightarrow> json list" where
  "presentationProofs vp = listOf (jsonField ''proof'' vp)"

text \<open>A credential with a BBS+ proof verifies under the suite of its proof type.\<close>

definition bbsVerified :: "(bool \<Rightarrow> json \<Rightarrow> bool) \<Rightarrow> json \<Rightarrow> bool" where
  "bbsVerified V vc \<longleftrightarrow>
     (proofTypeOf vc = Some (JStr ''BbsBlsSignature2020'') \<longrightarrow> V False vc) \<and>
     (proofTypeOf vc = Some (JStr ''BbsBlsSignatureProof2020'') \<longrightarrow> V True vc)"

lemma hasBbsType_iff: "hasBbsType t \<longleftrightarrow>
    t = Some (JStr ''BbsBlsSignature2020'') \<or> t = Some (JStr ''BbsBlsSignatureProof2020'')"
  unfolding hasBbsType_def isBbsProofType_def BBS_PROOF_TYPE_def BBS_PROOF_TYPE_DERIVED_def
  by (cases "\<exists>x. t = Some (JStr x)") (auto split: option.splits json.splits)

lemma other_suite: "JStr ''BbsBlsSignature2020'' \<noteq> JStr ''BbsBlsSignatureProof2020''"
  by simp

lemma suite_choice:
  "a \<noteq> b \<Longrightarrow> t = Some a \<or> t = Some b \<Longrightarrow>
    ((t = Some a \<longrightarrow> V False x) \<and> (t = Some b \<longrightarrow> V True x)) = V (t = Some b) x"
  by auto

lemma bbsVerified_suite:
  assumes "hasBbsType (proofTypeOf vc)"
  shows "bbsVerified V vc \<longleftrightarrow> V (proofTypeOf vc = Some (JStr BBS_PROOF_TYPE_DERIVED)) vc"
  unfolding bbsVerified_def BBS_PROOF_TYPE_DERIVED_def
  by (rule suite_choice [OF other_suite assms [unfolded hasBbsType_iff]])

lemma bbsVerified_other: "\<not> hasBbsType (proofTypeOf vc) \<Longrightarrow> bbsVerified V vc"
  unfolding bbsVerified_def hasBbsType_iff by simp

lemma verifyBbs_run:
  assumes "bbsVerifier A V"
  shows "\<exists>e s'. verifyBbsCredential A vc s =
    (Inr (V (proofTypeOf vc = Some (JStr BBS_PROOF_TYPE_DERIVED)) vc, e), s')"
proof -
  let ?d = "proofTypeOf vc = Some (JStr BBS_PROOF_TYPE_DERIVED)"
  obtain r s' where run: "bb_verify A ?d vc s = (r, s')" by (cases "bb_verify A ?d vc s")
  have "case bb_verify A ?d vc s of (Inr (verified, e), s') \<Rightarrow> verified = V ?d vc | (Inl e, s') \<Rightarrow> \<not> V ?d vc"
    by (rule assms [unfolded bbsVerifier_def, rule_format])
  with run show ?thesis
    by (cases r) (auto simp: verifyBbsCredential_def op_simps)
qed

lemma firstBbsError_run:
  assumes V: "bbsVerifier A V" and "objects vcs"
  shows "\<exists>e s'. firstBbsError A vcs s = (Inr e, s') \<and>
    (e = None \<longleftrightarrow> (\<forall>vc \<in> set vcs. bbsVerified V vc))"
  using assms(2)
proof (induction vcs arbitrary: s)
  case Nil
  then show ?case by simp
next
  case (Cons vc vcs)
  then obtain kvs where vc: "vc = JObj kvs" by (auto simp: objects_def split: json.splits)
  from Cons have rest: "objects vcs" by (simp add: objects_def)
  have here: "sumOp (asCredential A vc) s = (Inr vc, s)" for s
    by (simp add: vc sumOp_def asCredential_def)
  show ?case
  proof (cases "hasBbsType (proofTypeOf vc)")
    case False
    with Cons.IH [OF rest, of s] bbsVerified_other [OF False, of V] show ?thesis
      by (auto simp: op_simps here)
  next
    case True
    obtain e s' where run: "verifyBbsCredential A vc s =
        (Inr (V (proofTypeOf vc = Some (JStr BBS_PROOF_TYPE_DERIVED)) vc, e), s')"
      using verifyBbs_run [OF V] by blast
    with Cons.IH [OF rest, of s'] True bbsVerified_suite [OF True, of V] show ?thesis
      by (auto simp: op_simps here)
  qed
qed

lemma matchesChallenge_run:
  assumes "\<forall>p \<in> set proofs. p \<noteq> JNull"
  shows "matchesChallenge c proofs s =
    (Inr (\<exists>p \<in> set proofs. strictlyEqual (jsonField ''challenge'' p) (Some c)), s)"
  using assms
  by (induction proofs) (auto simp: op_simps fieldOrThrow_def chainedField_def)

text \<open>
  C4. The exact condition under which a verifier takes a presentation with a BBS+ credential as
  valid: a submission and a challenge are there, definition and submission are well formed, every
  credential with a BBS+ proof verifies under the suite of its own proof type, the one for
  signatures or the one for derived proofs, and some proof of the presentation names the challenge.
  No signature of the presentation is checked, and nothing is asked of its other credentials:
  neither that they verify nor that they answer the definition.
\<close>

theorem bbs_presentation_unverified:
  assumes "jsonPresentationOf X presentation = Inr vp" and "bbsVerifier A V"
    and "objects (presentedCredentials vp)" and "vc \<in> set (presentedCredentials vp)"
    and "proofTypeOf vc \<in> {Some (JStr ''BbsBlsSignature2020''), Some (JStr ''BbsBlsSignatureProof2020'')}"
    and "\<forall>p \<in> set (presentationProofs vp). p \<noteq> JNull" and "request \<noteq> JNull"
    and "challenge = chainedField ''challenge'' (jsonField ''options'' request)"
    and "submission = jsonField ''presentation_submission'' vp"
  shows "fst (pexProcessPresentation A X request presentation s) = Inr True \<longleftrightarrow>
    isTruthy submission \<and> isTruthy challenge \<and>
    xp_validDefinition X (jsonField ''presentation_definition'' request) \<and>
    xp_validSubmission X (coalesce submission JNull) \<and>
    (\<forall>vc \<in> set (presentedCredentials vp).
      (proofTypeOf vc = Some (JStr ''BbsBlsSignature2020'') \<longrightarrow> V False vc) \<and>
      (proofTypeOf vc = Some (JStr ''BbsBlsSignatureProof2020'') \<longrightarrow> V True vc)) \<and>
    (\<exists>p \<in> set (presentationProofs vp). strictlyEqual (jsonField ''challenge'' p) challenge)"
proof -
  obtain e s' where e: "firstBbsError A (presentedCredentials vp) s = (Inr e, s')"
    "e = None \<longleftrightarrow> (\<forall>vc \<in> set (presentedCredentials vp). bbsVerified V vc)"
    using firstBbsError_run [OF assms(2,3)] by blast
  have "hasBbsType (proofTypeOf vc)" using assms(5) unfolding hasBbsType_iff by simp
  then have "hasBbsCredential vp"
    using assms(4) by (auto simp: hasBbsCredential_def presentedCredentials_def list_ex_iff)
  then have run: "pexProcessPresentation A X request presentation s = processBbsPresentation A X request vp s"
    using assms(1) by (simp add: pexProcessPresentation_def op_simps sumOp_def)
  have challenge: "isTruthy challenge \<Longrightarrow> Some (coalesce challenge JNull) = challenge"
    by (cases challenge) (simp_all add: isTruthy_def)
  show ?thesis
    unfolding run processBbsPresentation_def bbsVerified_def [symmetric]
    using e assms(7) challenge
    by (auto simp: op_simps fieldOrThrow_def chainedField_def assms(8,9) Let_def
        verifyBbsCredentialsInPresentation_def presentedCredentials_def [symmetric]
        presentationProofs_def [symmetric] matchesChallenge_run [OF assms(6)])
qed

definition forgedCredential :: json where
  "forgedCredential = JObj [(''proof'', JObj [(''type'', JStr ''Ed25519Signature2018'')])]"

definition bbsCredential :: json where
  "bbsCredential = JObj [(''proof'', JObj [(''type'', JStr BBS_PROOF_TYPE_DERIVED)])]"

definition forgedPresentation :: json where
  "forgedPresentation = JObj [(''presentation_submission'', JObj []),
     (''verifiableCredential'', JArr [bbsCredential, forgedCredential]),
     (''proof'', JObj [(''challenge'', JStr ''c'')])]"

definition challengeRequest :: json where
  "challengeRequest = JObj [(''options'', JObj [(''challenge'', JStr ''c'')])]"

definition sampleBbsApi :: "unit bbsApi" where
  "sampleBbsApi =
     \<lparr>bb_derive = (\<lambda>vc frame nonce. ret frame),
      bb_verify = (\<lambda>derived vc. if derived \<and> vc = bbsCredential then ret (True, None)
        else ret (False, Some ''Verification error(s).'')),
      bb_sign = (\<lambda>keys vm vc. ret vc), bb_keyPair = (\<lambda>k. ret (k, k)),
      bb_findCreatedDid = (\<lambda>did. ret None), bb_transform = Inr, bb_fromJson = Inr\<rparr>"

definition sampleExchange :: "unit exchangeApi" where
  "sampleExchange =
     \<lparr>xp_select = (\<lambda>pd. ret []), xp_challenge = ret (JStr ''c''), xp_method = (\<lambda>did. ret (did, None)),
      xp_create = (\<lambda>getVm pd creds c d. ret None), xp_attachmentId = ret ''a'',
      xp_fromJwt = (\<lambda>t. Inr JNull), xp_fromJson = Inr, xp_validDefinition = (\<lambda>pd. True),
      xp_validSubmission = (\<lambda>sub. True), xp_superProcess = ret False\<rparr>"

theorem bbs_presentation_unverified_witness:
  "fst (pexProcessPresentation sampleBbsApi sampleExchange challengeRequest forgedPresentation ()) =
    Inr True"
proof -
  have V: "bbsVerifier sampleBbsApi (\<lambda>derived vc. derived \<and> vc = bbsCredential)"
    by (simp add: bbsVerifier_def sampleBbsApi_def)
  have vcs: "presentedCredentials forgedPresentation = [bbsCredential, forgedCredential]"
    by (simp add: presentedCredentials_def forgedPresentation_def listOf_def)
  have proofs: "presentationProofs forgedPresentation = [JObj [(''challenge'', JStr ''c'')]]"
    by (simp add: presentationProofs_def forgedPresentation_def listOf_def isTruthy_def)
  have types: "proofTypeOf bbsCredential = Some (JStr ''BbsBlsSignatureProof2020'')"
    "proofTypeOf forgedCredential = Some (JStr ''Ed25519Signature2018'')"
    by (code_simp, code_simp)
  have read: "jsonPresentationOf sampleExchange forgedPresentation = Inr forgedPresentation"
    by (simp add: jsonPresentationOf_def forgedPresentation_def sampleExchange_def)
  have objs: "objects (presentedCredentials forgedPresentation)"
    by (simp add: objects_def vcs bbsCredential_def forgedCredential_def)
  have here: "bbsCredential \<in> set (presentedCredentials forgedPresentation)" by (simp add: vcs)
  have bbs: "proofTypeOf bbsCredential \<in>
      {Some (JStr ''BbsBlsSignature2020''), Some (JStr ''BbsBlsSignatureProof2020'')}"
    by (simp add: types)
  have "\<forall>p \<in> set (presentationProofs forgedPresentation). p \<noteq> JNull" "challengeRequest \<noteq> JNull"
    by (simp_all add: proofs challengeRequest_def)
  note accepted = bbs_presentation_unverified [OF read V objs here bbs this refl refl]
  show ?thesis
    unfolding accepted vcs proofs
    by (simp add: types sampleExchange_def forgedPresentation_def challengeRequest_def isTruthy_def
        chainedField_def strictlyEqual_def strictEq_def primitive_def)
qed

section \<open>What a holder reveals\<close>

text \<open>
  What a definition asks for, read off its JSON: some field of some descriptor has the path, alone
  or in a list.
\<close>

definition asksPath :: "json \<Rightarrow> string \<Rightarrow> bool" where
  "asksPath pd path \<longleftrightarrow> (\<exists>descriptors d constraints fs f.
     jsonField ''input_descriptors'' pd = Some (JArr descriptors) \<and> d \<in> set descriptors \<and>
     jsonField ''constraints'' d = Some constraints \<and> jsonField ''fields'' constraints = Some (JArr fs) \<and>
     f \<in> set fs \<and> (jsonField ''path'' f = Some (JStr path) \<or>
       (\<exists>ps. jsonField ''path'' f = Some (JArr ps) \<and> JStr path \<in> set ps)))"

text \<open>A property of the subject is asked for when its name is a word and follows the prefix of a path.\<close>

definition wordChars :: string where
  "wordChars = ''ABCDEFGHIJKLMNOPQRSTUVWXYZabcdefghijklmnopqrstuvwxyz0123456789_''"

definition asksKey :: "json \<Rightarrow> string \<Rightarrow> bool" where
  "asksKey pd key \<longleftrightarrow> asksPath pd (''$.credentialSubject.'' @ key) \<and> key \<noteq> [] \<and> set key \<subseteq> set wordChars"

definition mayReveal :: "json \<Rightarrow> (string \<times> json) list \<Rightarrow> string \<Rightarrow> bool" where
  "mayReveal pd subject key \<longleftrightarrow>
     (if key = ''@explicit'' then True
      else if key = ''id'' then \<exists>c i. jsonField ''id'' (JObj subject) = Some (JStr (c # i))
      else if key = ''type'' then (\<exists>c t. jsonField ''type'' (JObj subject) = Some (JStr (c # t))) \<or>
        (\<exists>ts. jsonField ''type'' (JObj subject) = Some (JArr (map JStr ts)))
      else asksKey pd key \<and> key \<noteq> ''__proto__'' \<and>
        (jsonField key (JObj subject) \<noteq> None \<or> key \<in> set inheritedNames))"

lemma set_uniqueInOrder [simp]: "set (uniqueInOrder xs) = set xs"
  by (simp add: uniqueInOrder_def)

lemma set_concat_allSome:
  assumes "allSome (map f xs) = Some yss"
  shows "y \<in> set (concat yss) \<longleftrightarrow> (\<exists>x \<in> set xs. \<exists>ys. f x = Some ys \<and> y \<in> set ys)"
    and "x \<in> set xs \<Longrightarrow> f x \<noteq> None"
proof -
  have "(y \<in> set (concat yss) \<longleftrightarrow> (\<exists>x \<in> set xs. \<exists>ys. f x = Some ys \<and> y \<in> set ys)) \<and>
    (\<forall>x\<in>set xs. f x \<noteq> None)"
    using assms
  proof (induction xs arbitrary: yss)
    case Nil
    then show ?case by simp
  next
    case (Cons x xs)
    then obtain ys zss where "f x = Some ys" "allSome (map f xs) = Some zss" "yss = ys # zss"
      by (cases "f x") auto
    with Cons.IH [of zss] show ?case by auto
  qed
  then show "y \<in> set (concat yss) \<longleftrightarrow> (\<exists>x \<in> set xs. \<exists>ys. f x = Some ys \<and> y \<in> set ys)"
    and "x \<in> set xs \<Longrightarrow> f x \<noteq> None" by blast+
qed

lemma fieldPaths_path:
  assumes "fieldPaths f = Some ps"
  shows "path \<in> set ps \<longleftrightarrow> jsonField ''path'' f = Some (JStr path) \<or>
    (\<exists>vs. jsonField ''path'' f = Some (JArr vs) \<and> JStr path \<in> set vs)"
proof -
  have "path \<in> set (List.map_filter jsonStr vs) \<longleftrightarrow> JStr path \<in> set vs" for vs
  proof (induction vs)
    case (Cons v vs)
    then show ?case by (cases v) (auto simp: List.map_filter_simps)
  qed (simp add: List.map_filter_simps)
  then have read: "path \<in> set ps \<longleftrightarrow> v = Some (JStr path) \<or> (\<exists>vs. v = Some (JArr vs) \<and> JStr path \<in> set vs)"
    if "(case v of Some (JStr p) \<Rightarrow> Some [p] | Some (JArr ps) \<Rightarrow> Some (List.map_filter jsonStr ps)
      | _ \<Rightarrow> Some []) = Some ps" for v
    using that by (cases v rule: option.exhaust, simp) (rename_tac w, case_tac w; auto)
  obtain v where v: "jsonField ''path'' f = v" by blast
  have "f \<noteq> JNull" using assms by (auto simp: fieldPaths_def)
  then have "(case v of Some (JStr p) \<Rightarrow> Some [p] | Some (JArr ps) \<Rightarrow> Some (List.map_filter jsonStr ps)
      | _ \<Rightarrow> Some []) = Some ps"
    using assms unfolding fieldPaths_def v by (simp only: if_False)
  from read [OF this] show ?thesis unfolding v .
qed

lemma iterated_iff: "iterated v = Some fs \<longleftrightarrow>
    v = JArr fs \<or> (\<exists>t. v = JStr t \<and> fs = map (\<lambda>c. JStr [c]) t)"
  by (cases v) auto

lemma descriptorPaths_path:
  assumes "descriptorPaths d = Some ps"
  shows "path \<in> set ps \<longleftrightarrow> (\<exists>constraints fs f. jsonField ''constraints'' d = Some constraints \<and>
    jsonField ''fields'' constraints = Some (JArr fs) \<and> f \<in> set fs \<and>
    (jsonField ''path'' f = Some (JStr path) \<or>
      (\<exists>vs. jsonField ''path'' f = Some (JArr vs) \<and> JStr path \<in> set vs)))"
proof -
  let ?v = "chainedField ''fields'' (jsonField ''constraints'' d)"
  have v: "?v = Some w \<longleftrightarrow> (\<exists>c. jsonField ''constraints'' d = Some c \<and> jsonField ''fields'' c = Some w)" for w
    by (simp add: chainedField_def bind_eq_Some_conv del: jsonField.simps)
  obtain asked fs pss where asked: "orElse ?v (Some (JArr [])) = Some asked" "iterated asked = Some fs"
      and pss: "allSome (map fieldPaths fs) = Some pss" "ps = concat pss"
    using assms by (auto simp: descriptorPaths_def orElse_def bind_eq_Some_conv split: if_splits option.splits json.splits)
  have ps: "path \<in> set ps \<longleftrightarrow> (\<exists>f\<in>set fs. jsonField ''path'' f = Some (JStr path) \<or>
      (\<exists>vs. jsonField ''path'' f = Some (JArr vs) \<and> JStr path \<in> set vs))"
    unfolding pss(2) set_concat_allSome(1) [OF pss(1)]
    using set_concat_allSome(2) [OF pss(1)] fieldPaths_path by blast
  show ?thesis
  proof (cases "\<exists>w. ?v = Some (JArr w)")
    case True
    then obtain w where w: "?v = Some (JArr w)" by blast
    from asked(1) w have "asked = JArr w" by (simp add: orElse_def)
    with asked(2) have "fs = w" by simp
    with w v ps show ?thesis by fastforce
  next
    case False
    then have "fs = [] \<or> (\<exists>t. fs = map (\<lambda>c. JStr [c]) t)"
      using asked by (auto simp: orElse_def iterated_iff split: option.splits json.splits)
    then have "path \<notin> set ps" unfolding ps by auto
    with False v show ?thesis by blast
  qed
qed

lemma extracted_paths:
  assumes "extractRevealPathsFromPresentationDefinition pd = Some paths"
  shows "path \<in> set paths \<longleftrightarrow> asksPath pd path"
proof (cases "\<exists>ds. jsonField ''input_descriptors'' pd = Some (JArr ds)")
  case True
  then obtain ds where ds: "jsonField ''input_descriptors'' pd = Some (JArr ds)" by blast
  obtain pss where pss: "allSome (map descriptorPaths ds) = Some pss" "paths = uniqueInOrder (concat pss)"
    using assms ds by (auto simp: extractRevealPathsFromPresentationDefinition_def split: if_splits)
  show ?thesis
    unfolding pss(2) set_uniqueInOrder set_concat_allSome(1) [OF pss(1)] asksPath_def ds
    using set_concat_allSome(2) [OF pss(1)] descriptorPaths_path by fast
next
  case False
  then have "paths = []"
    using assms by (auto simp: extractRevealPathsFromPresentationDefinition_def
        split: if_splits option.splits json.splits)
  with False show ?thesis by (auto simp: asksPath_def)
qed

lemma wordChar_iff: "wordChar c \<longleftrightarrow> c \<in> set wordChars"
proof -
  have "list_all (\<lambda>c. wordChar c \<longleftrightarrow> c \<in> set wordChars) Enum.enum" by code_simp
  then show ?thesis by (simp add: list_all_iff enum_UNIV)
qed

lemma subjectKey_iff: "subjectKey path = Some key \<longleftrightarrow>
    path = ''$.credentialSubject.'' @ key \<and> key \<noteq> [] \<and> set key \<subseteq> set wordChars"
proof -
  have "list_all wordChar key \<longleftrightarrow> set key \<subseteq> set wordChars" for key
    by (auto simp: list_all_iff wordChar_iff)
  moreover have "startsWith path subjectPrefix \<and> drop (length subjectPrefix) path = key \<longleftrightarrow>
      path = subjectPrefix @ key"
    unfolding startsWith_def by (metis append_eq_conv_conj)
  ultimately show ?thesis
    unfolding subjectKey_def Let_def by (auto simp: subjectPrefix_def [symmetric] split: if_splits)
qed

lemma extracted_keys:
  assumes "extractRevealPathsFromPresentationDefinition pd = Some paths"
  shows "(\<exists>path\<in>set paths. subjectKey path = Some key) \<longleftrightarrow> asksKey pd key"
  unfolding Bex_def extracted_paths [OF assms] subjectKey_iff asksKey_def by blast

lemma revealPaths_keys:
  assumes "revealPaths subject paths revealed = Some out"
  shows "key \<in> fst ` set out \<longleftrightarrow> key \<in> fst ` set revealed \<or>
    (\<exists>path \<in> set paths. subjectKey path = Some key) \<and> key \<notin> {''id'', ''type''} \<and>
      keyIn key subject = Some True"
  using assms
proof (induction paths arbitrary: revealed)
  case Nil
  then show ?case by simp
next
  case (Cons path paths)
  show ?case
  proof (cases "subjectKey path")
    case None
    with Cons show ?thesis by auto
  next
    case (Some k)
    show ?thesis
    proof (cases "k = ''id'' \<or> k = ''type''")
      case True
      with Some Cons show ?thesis by auto
    next
      case False
      then obtain present where p: "keyIn k subject = Some present"
        using Cons.prems Some by (cases "keyIn k subject") auto
      with False Some Cons.prems
      have "revealPaths subject paths (if present then AList.update k (JObj []) revealed else revealed) = Some out"
        by auto
      from Cons.IH [OF this] p False Some show ?thesis
        by (auto simp: dom_update split: if_splits)
    qed
  qed
qed

lemma always_keys:
  "fst ` set (alwaysRevealed subject) =
     {''@explicit''} \<union>
     (if truthyText (Option.bind (jsonField ''id'' subject) jsonStr) then {''id''} else {}) \<union>
     (if isValidJsonLdType (jsonField ''type'' subject) then {''type''} else {})"
proof -
  have "fst ` set (case i of Some (JStr (c # t)) \<Rightarrow> [(''id'', JObj [])] | _ \<Rightarrow> []) =
      (if truthyText (Option.bind i jsonStr) then {''id''} else {})" for i
  proof (cases "Option.bind i jsonStr")
    case None
    then show ?thesis by (cases i) (auto simp: truthyText_def split: json.splits)
  next
    case (Some t)
    then have "i = Some (JStr t)" by (cases i) (auto elim: jsonStr.elims)
    then show ?thesis by (cases t) (simp_all add: truthyText_def)
  qed
  moreover have "fst ` set (if isValidJsonLdType t then entryOf ''type'' t else []) =
      (if isValidJsonLdType t then {''type''} else {})" for t
    by (cases t) (simp_all add: isValidJsonLdType_def entryOf_def)
  ultimately show ?thesis
    by (simp add: alwaysRevealed_def image_Un)
qed

lemma always_key:
  "key \<in> fst ` set (alwaysRevealed subject) \<longleftrightarrow>
     key = ''@explicit'' \<or>
     key = ''id'' \<and> truthyText (Option.bind (jsonField ''id'' subject) jsonStr) \<or>
     key = ''type'' \<and> isValidJsonLdType (jsonField ''type'' subject)"
  unfolding always_keys
  by (cases "truthyText (Option.bind (jsonField ''id'' subject) jsonStr)";
      cases "isValidJsonLdType (jsonField ''type'' subject)")
    (simp_all only: if_True if_False Un_iff singleton_iff empty_iff simp_thms disj_assoc)

lemma mayReveal_iff:
  "mayReveal pd subject key \<longleftrightarrow>
     (key = ''@explicit'' \<or>
      key = ''id'' \<and> truthyText (Option.bind (jsonField ''id'' (JObj subject)) jsonStr) \<or>
      key = ''type'' \<and> isValidJsonLdType (jsonField ''type'' (JObj subject))) \<or>
     asksKey pd key \<and> key \<notin> {''id'', ''type''} \<and> keyIn key (JObj subject) = Some True"
proof -
  have i: "truthyText (Option.bind v jsonStr) \<longleftrightarrow> (\<exists>c i. v = Some (JStr (c # i)))" for v
    by (cases v rule: option.exhaust, simp add: truthyText_def)
      (rename_tac w, case_tac w; auto simp: truthyText_def neq_Nil_conv)
  have "(\<forall>t\<in>set ts. jsonStr t \<noteq> None) \<longleftrightarrow> (\<exists>us. ts = map JStr us)" for ts
  proof
    assume "\<forall>t\<in>set ts. jsonStr t \<noteq> None"
    then have "ts = map JStr (map (the \<circ> jsonStr) ts)"
      by (induction ts) (auto elim: jsonStr.elims)
    then show "\<exists>us. ts = map JStr us" by blast
  qed auto
  then have t: "isValidJsonLdType v \<longleftrightarrow> (\<exists>c t. v = Some (JStr (c # t))) \<or> (\<exists>ts. v = Some (JArr (map JStr ts)))" for v
    by (cases v rule: option.exhaust, simp add: isValidJsonLdType_def)
      (rename_tac w, case_tac w; auto simp: isValidJsonLdType_def neq_Nil_conv list_all_iff)
  have k: "keyIn key (JObj subject) = Some True \<longleftrightarrow>
      key \<noteq> ''__proto__'' \<and> (jsonField key (JObj subject) \<noteq> None \<or> key \<in> set inheritedNames)"
    by (simp add: keyIn_def map_of_eq_None_iff)
  have mark: "\<not> asksKey pd ''@explicit''"
    by (simp add: asksKey_def wordChars_def)
  have names: "''id'' \<noteq> ''@explicit''" "''type'' \<noteq> ''@explicit''" "''type'' \<noteq> ''id''" by simp_all
  show ?thesis
    unfolding mayReveal_def i t k insert_iff empty_iff
    using mark names by (cases "key = ''@explicit''"; cases "key = ''id''"; cases "key = ''type''")
      (simp_all only: simp_thms if_True if_False)
qed

definition frameFollows :: "json \<Rightarrow> json \<Rightarrow> json \<Rightarrow> bool" where
  "frameFollows pd vc frame \<longleftrightarrow>
     (\<forall>subject. jsonField ''credentialSubject'' vc = Some (JObj subject) \<longrightarrow>
       (\<exists>revealed. jsonField ''credentialSubject'' frame = Some (JObj revealed) \<and>
         (\<forall>key. key \<in> fst ` set revealed \<longleftrightarrow> mayReveal pd subject key)))"

lemma frame_follows:
  assumes "extractRevealPathsFromPresentationDefinition pd = Some paths"
    and "buildRevealFrame vc paths = Some frame"
  shows "frameFollows pd vc frame"
  unfolding frameFollows_def
proof (intro allI impI)
  fix subject
  assume "jsonField ''credentialSubject'' vc = Some (JObj subject)"
  then have "subjectOf vc = JObj subject" by (simp add: subjectOf_def orElse_def)
  then obtain revealed where revealed: "revealPaths (JObj subject) paths (alwaysRevealed (JObj subject)) = Some revealed"
    and frame: "jsonField ''credentialSubject'' frame = Some (JObj revealed)"
    using assms(2) by (auto simp: buildRevealFrame_def entryOf_def split: option.splits)
  have "key \<in> fst ` set revealed \<longleftrightarrow> mayReveal pd subject key" for key
    unfolding mayReveal_iff revealPaths_keys [OF revealed] always_key extracted_keys [OF assms(1)] ..
  with frame show "\<exists>revealed. jsonField ''credentialSubject'' frame = Some (JObj revealed) \<and>
      (\<forall>key. key \<in> fst ` set revealed \<longleftrightarrow> mayReveal pd subject key)" by blast
qed

text \<open>
  The signed credentials among the entries of a presentation, and a library that keeps a log of the
  frames it derives proofs for.
\<close>

definition bbsSigned :: "pexEntry list \<Rightarrow> json list" where
  "bbsSigned es = filter (\<lambda>vc. proofTypeOf vc = Some (JStr ''BbsBlsSignature2020''))
     (List.map_filter objectEncoded es)"

definition logsFrames :: "'s bbsApi \<Rightarrow> ('s \<Rightarrow> (json \<times> json) list) \<Rightarrow> bool" where
  "logsFrames A log \<longleftrightarrow>
     (\<forall>vc frame nonce s. log (snd (bb_derive A vc frame nonce s)) = log s @ [(vc, frame)])"

definition disclosed :: "('s \<Rightarrow> (json \<times> json) list) \<Rightarrow> json \<Rightarrow> pexEntry list \<Rightarrow> 's \<Rightarrow> 's \<Rightarrow> bool \<Rightarrow> bool" where
  "disclosed log pd es s s' finished \<longleftrightarrow>
     (\<exists>frames. log s' = log s @ frames \<and>
       (\<forall>(vc, frame) \<in> set frames. vc \<in> set (bbsSigned es) \<and> frameFollows pd vc frame) \<and>
       (finished \<longrightarrow> map fst frames = (if \<exists>path. asksPath pd path then bbsSigned es else [])))"

lemma bbsSigned_append: "bbsSigned (es @ fs) = bbsSigned es @ bbsSigned fs"
  by (simp add: bbsSigned_def List.map_filter_def)

lemma disclosed_stop: "disclosed log pd es s s' b \<Longrightarrow> disclosed log pd (es @ fs) s s' False"
  unfolding disclosed_def bbsSigned_append by fastforce

lemma disclosed_append:
  assumes "disclosed log pd es s s1 True" and "disclosed log pd fs s1 s2 b"
  shows "disclosed log pd (es @ fs) s s2 b"
proof -
  from assms obtain a c where "log s1 = log s @ a" "log s2 = log s1 @ c"
    "\<forall>(vc, frame) \<in> set a. vc \<in> set (bbsSigned es) \<and> frameFollows pd vc frame"
    "\<forall>(vc, frame) \<in> set c. vc \<in> set (bbsSigned fs) \<and> frameFollows pd vc frame"
    "map fst a = (if \<exists>path. asksPath pd path then bbsSigned es else [])"
    "b \<longrightarrow> map fst c = (if \<exists>path. asksPath pd path then bbsSigned fs else [])"
    unfolding disclosed_def by blast
  then show ?thesis
    unfolding disclosed_def bbsSigned_append by (intro exI [of _ "a @ c"]) auto
qed

lemma disclosed_nothing: "bbsSigned es = [] \<or> (\<nexists>path. asksPath pd path) \<Longrightarrow> disclosed log pd es s s b"
  unfolding disclosed_def by auto

lemma disclosed_failed: "disclosed log pd es s s False"
  unfolding disclosed_def by auto

lemma maybeDerive_discloses:
  assumes "logsFrames A log" and run: "maybeDeriveBbsCredentialForPex A entry pd nonce s = (r, s')"
  shows "disclosed log pd [entry] s s' (\<exists>e. r = Inr e)"
    and "(\<nexists>path. asksPath pd path) \<Longrightarrow> r = Inr e \<Longrightarrow> e = entry"
proof -
  have "disclosed log pd [entry] s s' (\<exists>e. r = Inr e) \<and>
    ((\<nexists>path. asksPath pd path) \<and> r = Inr e \<longrightarrow> e = entry)"
  proof (cases "\<exists>vc. objectEncoded entry = Some vc \<and> proofTypeOf vc = Some (JStr BBS_PROOF_TYPE)")
    case False
    then have "bbsSigned [entry] = []"
      by (auto simp: bbsSigned_def BBS_PROOF_TYPE_def List.map_filter_simps split: option.splits)
    moreover have "maybeDeriveBbsCredentialForPex A entry pd nonce = ret entry"
      using False by (auto simp: maybeDeriveBbsCredentialForPex_def split: option.splits)
    ultimately show ?thesis using run by (auto simp: disclosed_nothing)
  next
    case True
    then obtain vc where vc: "objectEncoded entry = Some vc" "proofTypeOf vc = Some (JStr BBS_PROOF_TYPE)" by blast
    then have signed: "bbsSigned [entry] = [vc]"
      by (simp add: bbsSigned_def BBS_PROOF_TYPE_def List.map_filter_simps)
    show ?thesis
    proof (cases "extractRevealPathsFromPresentationDefinition pd")
      case None
      then show ?thesis
        using run vc by (auto simp: maybeDeriveBbsCredentialForPex_def op_simps disclosed_failed)
    next
      case (Some paths)
      note asked = extracted_paths [OF Some]
      show ?thesis
      proof (cases "paths = []")
        case True
        then have "\<nexists>path. asksPath pd path" using asked by auto
        with True Some show ?thesis
          using run vc by (auto simp: maybeDeriveBbsCredentialForPex_def op_simps disclosed_nothing)
      next
        case False
        then have some: "\<exists>path. asksPath pd path" using asked by (metis list.set_intros(1) neq_Nil_conv)
        show ?thesis
        proof (cases "buildRevealFrame vc paths")
          case None
          with False Some some show ?thesis
            using run vc by (auto simp: maybeDeriveBbsCredentialForPex_def op_simps disclosed_failed)
        next
          case frame: (Some frame)
          let ?n = "if truthyText nonce then Some (textBytes (coalesce nonce [])) else None"
          have "s' = snd (bb_derive A vc frame ?n s)"
            using run vc Some False frame
            by (auto simp: maybeDeriveBbsCredentialForPex_def op_simps deriveBbsProof_def sumOp_def
                split: prod.splits sum.splits)
          then have "log s' = log s @ [(vc, frame)]"
            using assms(1) by (simp add: logsFrames_def)
          then have "disclosed log pd [entry] s s' b" for b
            unfolding disclosed_def signed using frame_follows [OF Some frame] some by auto
          with some show ?thesis by blast
        qed
      qed
    qed
  qed
  then show "disclosed log pd [entry] s s' (\<exists>e. r = Inr e)"
    and "(\<nexists>path. asksPath pd path) \<Longrightarrow> r = Inr e \<Longrightarrow> e = entry" by blast+
qed

lemma deriveEntries_discloses:
  assumes "logsFrames A log" and "deriveEntries A es pd nonce s = (r, s')"
  shows "disclosed log pd es s s' (\<exists>out. r = Inr out) \<and>
    ((\<nexists>path. asksPath pd path) \<and> r = Inr out \<longrightarrow> out = es)"
  using assms(2)
proof (induction es arbitrary: s r s' out)
  case Nil
  then show ?case by (auto simp: disclosed_nothing bbsSigned_def List.map_filter_simps)
next
  case (Cons entry es)
  obtain q t where first: "maybeDeriveBbsCredentialForPex A entry pd nonce s = (q, t)"
    by (cases "maybeDeriveBbsCredentialForPex A entry pd nonce s")
  note one = maybeDerive_discloses [OF assms(1) first]
  show ?case
  proof (cases q)
    case (Inl e)
    with first Cons.prems have "r = Inl e" "s' = t" by (auto simp: op_simps)
    with disclosed_stop [OF one(1), of es] show ?thesis by simp
  next
    case (Inr e)
    obtain q2 t2 where rest: "deriveEntries A es pd nonce t = (q2, t2)"
      by (cases "deriveEntries A es pd nonce t")
    have r: "r = (case q2 of Inl x \<Rightarrow> Inl x | Inr x \<Rightarrow> Inr (e # x))" "s' = t2"
      using Cons.prems first rest Inr by (auto simp: op_simps split: sum.splits)
    have "disclosed log pd [entry] s t True" using one(1) Inr by simp
    with Cons.IH [OF rest] have "disclosed log pd (entry # es) s s' (\<exists>x. q2 = Inr x)"
      using disclosed_append [of log pd "[entry]"] r(2) by fastforce
    moreover have "(\<exists>x. q2 = Inr x) \<longleftrightarrow> (\<exists>out. r = Inr out)" using r(1) by (cases q2) auto
    ultimately show ?thesis
      using one(2) [OF _ Inr] Cons.IH [OF rest] r(1) by (cases q2) auto
  qed
qed

lemma derivation_discloses:
  assumes "logsFrames A log" and "applyBbsDeriveToPexCredentials A credentials pd nonce s = (r, s')"
  shows "disclosed log pd (concat (map snd credentials)) s s' (\<exists>out. r = Inr out) \<and>
    ((\<nexists>path. asksPath pd path) \<and> r = Inr out \<longrightarrow> out = credentials)"
  using assms(2)
proof (induction credentials arbitrary: s r s' out)
  case Nil
  then show ?case by (auto simp: disclosed_nothing bbsSigned_def List.map_filter_simps)
next
  case (Cons c credentials)
  obtain i es where c: "c = (i, es)" by (cases c)
  obtain q t where first: "deriveEntries A es pd nonce s = (q, t)"
    by (cases "deriveEntries A es pd nonce s")
  note one = deriveEntries_discloses [OF assms(1) first]
  show ?case
  proof (cases q)
    case (Inl e)
    with first Cons.prems c have "r = Inl e" "s' = t" by (auto simp: op_simps)
    with one disclosed_stop [of log pd es s t _ "concat (map snd credentials)"] Inl c show ?thesis by auto
  next
    case (Inr e)
    obtain q2 t2 where rest: "applyBbsDeriveToPexCredentials A credentials pd nonce t = (q2, t2)"
      by (cases "applyBbsDeriveToPexCredentials A credentials pd nonce t")
    have r: "r = (case q2 of Inl x \<Rightarrow> Inl x | Inr x \<Rightarrow> Inr ((i, e) # x))" "s' = t2"
      using Cons.prems first rest Inr c by (auto simp: op_simps split: sum.splits)
    have "disclosed log pd es s t True" using one Inr by simp
    with Cons.IH [OF rest] have "disclosed log pd (es @ concat (map snd credentials)) s s' (\<exists>x. q2 = Inr x)"
      using disclosed_append [of log pd es] r(2) by blast
    moreover have "(\<exists>x. q2 = Inr x) \<longleftrightarrow> (\<exists>out. r = Inr out)" using r(1) by (cases q2) auto
    ultimately show ?thesis
      using one [of e] Cons.IH [OF rest] r(1) Inr c by (cases q2) auto
  qed
qed

text \<open>
  C20. What a holder discloses of the BBS+ signed credentials it was chosen to present. Every frame
  a proof is derived for belongs to one of these credentials, and of a subject that is an object it
  reveals, besides the mark, the identifier and the type, exactly the properties that any path of any
  descriptor of the definition names, whichever descriptor the credential was chosen for; the names
  every object inherits count as properties. When the derivation succeeds there is one such frame for
  each signed credential, in order; when the definition names no path at all there is none, and the
  credentials are presented whole.
\<close>

theorem reveal_follows_every_descriptor:
  assumes "logsFrames A log" and "applyBbsDeriveToPexCredentials A credentials pd nonce s = (r, s')"
    and "vcs = bbsSigned (concat (map snd credentials))"
  shows "\<exists>frames. log s' = log s @ frames \<and>
    (\<forall>(vc, frame) \<in> set frames. vc \<in> set vcs \<and>
      (\<forall>subject. jsonField ''credentialSubject'' vc = Some (JObj subject) \<longrightarrow>
        (\<exists>revealed. jsonField ''credentialSubject'' frame = Some (JObj revealed) \<and>
          (\<forall>key. key \<in> fst ` set revealed \<longleftrightarrow> mayReveal pd subject key)))) \<and>
    (\<forall>out. r = Inr out \<longrightarrow>
      (if \<exists>path. asksPath pd path then map fst frames = vcs else frames = [] \<and> out = credentials))"
proof -
  obtain frames where f: "log s' = log s @ frames"
    "\<forall>(vc, frame) \<in> set frames. vc \<in> set vcs \<and> frameFollows pd vc frame"
    "(\<exists>out. r = Inr out) \<longrightarrow> map fst frames = (if \<exists>path. asksPath pd path then vcs else [])"
    using derivation_discloses [OF assms(1,2)] unfolding disclosed_def assms(3) by blast
  have "\<forall>out. r = Inr out \<longrightarrow>
      (if \<exists>path. asksPath pd path then map fst frames = vcs else frames = [] \<and> out = credentials)"
    using f(3) derivation_discloses [OF assms(1,2)] by (auto split: if_splits)
  with f(1,2) show ?thesis unfolding frameFollows_def by blast
qed

definition twoDescriptors :: json where
  "twoDescriptors = JObj [(''input_descriptors'', JArr
     [JObj [(''constraints'', JObj [(''fields'', JArr [JObj [(''path'', JArr [JStr ''$.credentialSubject.name''])]])])],
      JObj [(''constraints'', JObj [(''fields'', JArr [JObj [(''path'', JArr [JStr ''$.credentialSubject.age''])]])])]])]"

definition personSubject :: "(string \<times> json) list" where
  "personSubject = [(''id'', JStr ''did:x''), (''name'', JStr ''Ana''), (''age'', JNum 30), (''email'', JStr ''e'')]"

definition personCredential :: json where
  "personCredential = JObj [(''credentialSubject'', JObj personSubject),
     (''proof'', JObj [(''type'', JStr ''BbsBlsSignature2020'')])]"

definition personEntry :: pexEntry where
  "personEntry = \<lparr>pe_claimFormat = None, pe_encoded = Some personCredential, pe_recordEncoded = None,
     pe_firstCredential = None\<rparr>"

definition loggingBbsApi :: "(json \<times> json) list bbsApi" where
  "loggingBbsApi =
     \<lparr>bb_derive = (\<lambda>vc frame nonce log. (Inr frame, log @ [(vc, frame)])),
      bb_verify = (\<lambda>derived vc. ret (True, None)),
      bb_sign = (\<lambda>keys vm vc. ret vc), bb_keyPair = (\<lambda>k. ret (k, k)),
      bb_findCreatedDid = (\<lambda>did. ret None), bb_transform = Inr, bb_fromJson = Inr\<rparr>"

lemma sample_asked:
  "asksPath twoDescriptors path \<longleftrightarrow>
    path = ''$.credentialSubject.name'' \<or> path = ''$.credentialSubject.age''"
proof -
  have "extractRevealPathsFromPresentationDefinition twoDescriptors =
      Some [''$.credentialSubject.name'', ''$.credentialSubject.age'']" by code_simp
  from extracted_paths [OF this, of path] show ?thesis by simp
qed

theorem reveal_follows_every_descriptor_witness:
  "\<exists>frame revealed.
    snd (applyBbsDeriveToPexCredentials loggingBbsApi [(''d1'', [personEntry])] twoDescriptors None []) =
      [(personCredential, frame)] \<and>
    jsonField ''credentialSubject'' frame = Some (JObj revealed) \<and>
    {''name'', ''age''} \<subseteq> fst ` set revealed \<and> ''email'' \<notin> fst ` set revealed"
proof -
  obtain r frames where run: "applyBbsDeriveToPexCredentials loggingBbsApi [(''d1'', [personEntry])]
      twoDescriptors None [] = (r, frames)"
    by (cases "applyBbsDeriveToPexCredentials loggingBbsApi [(''d1'', [personEntry])] twoDescriptors None []")
  have "case fst (applyBbsDeriveToPexCredentials loggingBbsApi [(''d1'', [personEntry])]
      twoDescriptors None []) of Inr out \<Rightarrow> True | Inl e \<Rightarrow> False" by code_simp
  then obtain out where out: "r = Inr out" unfolding run by (cases r) auto
  have logs: "logsFrames loggingBbsApi (\<lambda>log. log)" by (simp add: logsFrames_def loggingBbsApi_def)
  have one: "[personCredential] = bbsSigned (concat (map snd [(''d1'', [personEntry])]))"
    by code_simp
  have subject: "jsonField ''credentialSubject'' personCredential = Some (JObj personSubject)"
    by (simp add: personCredential_def)
  have some: "\<exists>path. asksPath twoDescriptors path" unfolding sample_asked by blast
  have f: "map fst frames = [personCredential]"
    "\<forall>(vc, frame) \<in> set frames. vc \<in> set [personCredential] \<and>
      (\<forall>subject. jsonField ''credentialSubject'' vc = Some (JObj subject) \<longrightarrow>
        (\<exists>revealed. jsonField ''credentialSubject'' frame = Some (JObj revealed) \<and>
          (\<forall>key. key \<in> fst ` set revealed \<longleftrightarrow> mayReveal twoDescriptors subject key)))"
    using reveal_follows_every_descriptor [OF logs run one] some out
    unfolding append_Nil by auto
  from f(1) obtain frame where frame: "frames = [(personCredential, frame)]" by auto
  with f(2) subject obtain revealed where r: "jsonField ''credentialSubject'' frame = Some (JObj revealed)"
    "\<And>key. key \<in> fst ` set revealed \<longleftrightarrow> mayReveal twoDescriptors personSubject key" by auto
  have "asksKey twoDescriptors ''name''" "asksKey twoDescriptors ''age''" "\<not> asksKey twoDescriptors ''email''"
    by (simp_all add: asksKey_def sample_asked wordChars_def)
  then have "mayReveal twoDescriptors personSubject ''name''" "mayReveal twoDescriptors personSubject ''age''"
    "\<not> mayReveal twoDescriptors personSubject ''email''"
    by (simp_all add: mayReveal_def personSubject_def)
  with run frame r show ?thesis by auto
qed

section \<open>What a holder stores\<close>

lemma matching_request:
  assumes "verifyReceivedCredentialMatchesRequestBbs J credential request s = (Inr u, s')"
  shows "s' = s \<and>
    jl_areObjectsEqual J (withoutField ''proof'' credential)
      (coalesce (jsonField ''credential'' request) JNull) \<and>
    strictlyEqual (proofTypeOf credential) (chainedField ''proofType'' (jsonField ''options'' request)) \<and>
    (isTruthy (chainedField ''proofPurpose'' (jsonField ''options'' request)) \<longrightarrow>
      strictlyEqual (chainedField ''proofPurpose'' (jsonField ''proof'' credential))
        (chainedField ''proofPurpose'' (jsonField ''options'' request)))"
  using assms
  by (auto simp: verifyReceivedCredentialMatchesRequestBbs_def op_simps fieldOrThrow_def Let_def
      chainedField_def proofTypeOf_def split: if_splits)

lemma request_check_reads [simp]:
  "snd (verifyReceivedCredentialMatchesRequestBbs J credential request s) = s"
  by (auto simp: verifyReceivedCredentialMatchesRequestBbs_def op_simps fieldOrThrow_def Let_def
      split: if_splits)

text \<open>
  C21. A holder that takes a credential with a BBS+ proof has checked that, without its proof, it
  equals the credential that was asked for, that its proof has the type and the purpose of the request,
  and that the proof verifies; it adds one record to the exchange, the one its store returned. A
  credential that does not match is refused before anything is verified or stored.
\<close>

theorem bbs_credential_matches_request:
  assumes "proofTypeOf credential = Some (JStr BBS_PROOF_TYPE)"
  shows "case jsonLdProcessCredential A J known credential request s of
    (Inr records, s') \<Rightarrow>
      jl_areObjectsEqual J (withoutField ''proof'' credential)
        (coalesce (jsonField ''credential'' request) JNull) \<and>
      chainedField ''proofType'' (jsonField ''options'' request) = Some (JStr BBS_PROOF_TYPE) \<and>
      (isTruthy (chainedField ''proofPurpose'' (jsonField ''options'' request)) \<longrightarrow>
        strictlyEqual (chainedField ''proofPurpose'' (jsonField ''proof'' credential))
          (chainedField ''proofPurpose'' (jsonField ''options'' request))) \<and>
      (\<exists>stored e verified recordId. fst (bb_verify A False credential s) = Inr (True, e) \<and>
        bb_fromJson A credential = Inr stored \<and>
        snd (bb_verify A False credential s) = verified \<and>
        jl_store J stored verified = (Inr recordId, s') \<and> records = known @ [recordId])
  | (Inl e, s') \<Rightarrow>
      \<not> jl_areObjectsEqual J (withoutField ''proof'' credential)
        (coalesce (jsonField ''credential'' request) JNull) \<longrightarrow> s' = s"
proof -
  let ?match = "verifyReceivedCredentialMatchesRequestBbs J credential request s"
  have asked: "fieldOrThrow ''proof'' (Some credential) s = (Inr (jsonField ''proof'' credential), s)"
    using assms by (auto simp: fieldOrThrow_def proofTypeOf_def chainedField_def)
  have suite: "BBS_PROOF_TYPE \<noteq> BBS_PROOF_TYPE_DERIVED" by code_simp
  show ?thesis
  proof (cases "fst ?match")
    case (Inl e)
    then have "?match = (Inl e, s)" by (metis prod.collapse request_check_reads)
    then show ?thesis
      by (simp add: jsonLdProcessCredential_def op_simps asked assms)
  next
    case (Inr u)
    then have m: "?match = (Inr u, s)" by (metis prod.collapse request_check_reads)
    note checked = matching_request [OF m]
    show ?thesis
      using checked
      by (auto simp: jsonLdProcessCredential_def op_simps asked assms m verifyBbsCredential_def sumOp_def
          suite strictlyEqual_def strictEq_def split: prod.splits sum.splits option.splits if_splits)
  qed
qed

definition signedDegree :: json where
  "signedDegree = JObj [(''name'', JStr ''Ana''), (''proof'', JObj [(''type'', JStr BBS_PROOF_TYPE)])]"

definition degreeRequest :: json where
  "degreeRequest = JObj [(''credential'', JObj [(''name'', JStr ''Ana'')]),
     (''options'', JObj [(''proofType'', JStr BBS_PROOF_TYPE)])]"

definition sampleJsonLd :: "unit jsonLdApi" where
  "sampleJsonLd =
     \<lparr>jl_superAccept = (\<lambda>r. ret \<lparr>da_id = ''a'', da_data = PlainJson r\<rparr>), jl_superProcess = (\<lambda>r. ret []),
      jl_attachmentId = ret ''a'', jl_store = (\<lambda>c. ret ''r1''), jl_areObjectsEqual = (=)\<rparr>"

theorem bbs_credential_matches_request_witness:
  "case jsonLdProcessCredential (sampleBbsApi\<lparr>bb_verify := \<lambda>derived vc. ret (True, None)\<rparr>) sampleJsonLd
      [''r0''] signedDegree degreeRequest () of
    (Inr records, s') \<Rightarrow> records = [''r0'', ''r1''] | (Inl e, s') \<Rightarrow> False"
proof -
  let ?A = "sampleBbsApi\<lparr>bb_verify := \<lambda>derived vc. ret (True, None)\<rparr>"
  have p: "proofTypeOf signedDegree = Some (JStr BBS_PROOF_TYPE)"
    by (simp add: proofTypeOf_def signedDegree_def chainedField_def)
  have "jsonLdProcessCredential ?A sampleJsonLd [''r0''] signedDegree degreeRequest () \<noteq> (Inl e, s)" for e s
    by (cases s) code_simp
  with bbs_credential_matches_request [OF p, where A = ?A and J = sampleJsonLd and known = "[''r0'']"
      and request = degreeRequest and s = "()"]
  show ?thesis
    by (auto simp: sampleJsonLd_def split: prod.splits sum.splits)
qed

end
