(* ===== verification/Observability.thy ===== *)
theory Observability
  imports IssuerHttp JsObjects
begin

text \<open>
  What the services tell the outside about a request besides its answer: the events they publish
  over a broker (\<^verbatim>\<open>messaging/\<close>), the audit of every handler, the body of an error
  (\<^verbatim>\<open>common/http-exception.filter.ts\<close>) and the log (\<^verbatim>\<open>common/logger.ts\<close>). The
  broker's client library, the clock and the names of the HTTP statuses are parameters; a
  publication that is not awaited is one that ended before the next step.
\<close>

section \<open>The client of the broker\<close>

definition INDEX_EXCHANGE :: string where "INDEX_EXCHANGE = ''quarkid.index''"
definition AUDIT_EXCHANGE :: string where "AUDIT_EXCHANGE = ''quarkid.audit''"
definition AUDIT_OPERATION :: string where "AUDIT_OPERATION = ''audit.operation''"

text \<open>The channel is there after \<open>connect\<close>; the client of the holder has no \<open>connected\<close>.\<close>

record messagingClient =
  mc_exchange :: string
  mc_channel :: bool
  mc_connected :: bool

definition newClient :: messagingClient where
  "newClient = \<lparr>mc_exchange = INDEX_EXCHANGE, mc_channel = False, mc_connected = False\<rparr>"

definition connectTo :: "string \<Rightarrow> messagingClient \<Rightarrow> messagingClient" where
  "connectTo exchange c = c\<lparr>mc_exchange := exchange, mc_channel := True, mc_connected := False\<rparr>"

definition onConnect :: "messagingClient \<Rightarrow> messagingClient" where
  "onConnect c = c\<lparr>mc_connected := True\<rparr>"

definition onDisconnect :: "messagingClient \<Rightarrow> messagingClient" where
  "onDisconnect c = c\<lparr>mc_connected := False\<rparr>"

definition closeClient :: "messagingClient \<Rightarrow> messagingClient" where
  "closeClient c = c\<lparr>mc_connected := False\<rparr>"

text \<open>Only a connection that \<open>connect\<close> made has events.\<close>

inductive clientStep :: "messagingClient \<Rightarrow> messagingClient \<Rightarrow> bool" where
  "clientStep c (connectTo ex c)"
| "mc_channel c \<Longrightarrow> clientStep c (onConnect c)"
| "mc_channel c \<Longrightarrow> clientStep c (onDisconnect c)"
| "clientStep c (closeClient c)"

inductive clientReachable :: "messagingClient \<Rightarrow> bool" where
  "clientReachable newClient"
| "clientReachable c \<Longrightarrow> clientStep c c' \<Longrightarrow> clientReachable c'"

text \<open>The library sends to an exchange, under a routing key, and fails when the broker does.\<close>

type_synonym ('s, 'e) broker = "string \<Rightarrow> string \<Rightarrow> bytes \<Rightarrow> ('s, 'e, unit) op"

definition sendPayload :: "('s, 'e) broker \<Rightarrow> messagingClient \<Rightarrow> string \<Rightarrow> json \<Rightarrow> ('s, 'e, unit) op" where
  "sendPayload broker c routingKey payload =
     broker (mc_exchange c) routingKey (textBytes (stringify payload))"

definition issuerPublish :: "('s, 'e) broker \<Rightarrow> messagingClient \<Rightarrow> string \<Rightarrow> json \<Rightarrow> ('s, 'e, unit) op" where
  "issuerPublish broker c routingKey payload =
     (if \<not> mc_channel c \<or> \<not> mc_connected c then ret () else sendPayload broker c routingKey payload)"

definition verifierPublish :: "('s, 'e) broker \<Rightarrow> messagingClient \<Rightarrow> string \<Rightarrow> json \<Rightarrow> ('s, 'e, unit) op" where
  "verifierPublish broker c routingKey payload =
     (if \<not> mc_channel c \<or> \<not> mc_connected c then ret ()
      else catching (sendPayload broker c routingKey payload) (\<lambda>_. ret ()))"

definition holderPublish :: "('s, 'e) broker \<Rightarrow> messagingClient \<Rightarrow> string \<Rightarrow> json \<Rightarrow> ('s, 'e, unit) op" where
  "holderPublish broker c routingKey payload =
     (if \<not> mc_channel c then ret ()
      else catching (sendPayload broker c routingKey payload) (\<lambda>_. ret ()))"

text \<open>The svc for events of the issuer, and the audit services of the three.\<close>

definition indexPublish :: "('s, 'e) broker \<Rightarrow> messagingClient \<Rightarrow> string \<Rightarrow> json \<Rightarrow> ('s, 'e, unit) op" where
  "indexPublish broker c routingKey payload =
     catching (issuerPublish broker c routingKey payload) (\<lambda>_. ret ())"

definition issuerAudit :: "('s, 'e) broker \<Rightarrow> messagingClient \<Rightarrow> json \<Rightarrow> ('s, 'e, unit) op" where
  "issuerAudit broker c payload =
     catching (issuerPublish broker c AUDIT_OPERATION payload) (\<lambda>_. ret ())"

definition verifierAudit :: "('s, 'e) broker \<Rightarrow> messagingClient \<Rightarrow> json \<Rightarrow> ('s, 'e, unit) op" where
  "verifierAudit broker c payload = verifierPublish broker c AUDIT_OPERATION payload"

definition holderAudit :: "('s, 'e) broker \<Rightarrow> messagingClient \<Rightarrow> json \<Rightarrow> ('s, 'e, unit) op" where
  "holderAudit broker c payload = holderPublish broker c AUDIT_OPERATION payload"

section \<open>The audit of a handler\<close>

record httpRequest =
  hr_method :: string
  hr_url :: string
  hr_correlation :: headerField

record 's clockApi =
  ck_now :: "'s \<Rightarrow> millis"
  ck_toISOString :: "millis \<Rightarrow> string"

definition correlationIdOf :: "headerField \<Rightarrow> string option" where
  "correlationIdOf raw =
     (case raw of
        NoHeader \<Rightarrow> Some ''unknown'' | OneHeader t \<Rightarrow> Some t
      | ManyHeaders ts \<Rightarrow> (case ts of [] \<Rightarrow> None | t # _ \<Rightarrow> Some t))"

definition auditEvent :: "'s clockApi \<Rightarrow> string \<Rightarrow> httpRequest \<Rightarrow> millis \<Rightarrow> string \<Rightarrow> 's \<Rightarrow> json" where
  "auditEvent K source req start status s =
     JObj (textEntry ''correlationId'' (correlationIdOf (hr_correlation req)) @
       [(''source'', JStr source), (''operation'', JStr (hr_method req @ '' '' @ hr_url req)),
        (''status'', JStr status), (''durationMs'', JNum (ck_now K s - start)),
        (''timestamp'', JStr (ck_toISOString K (ck_now K s)))])"

text \<open>\<open>catchError\<close> stands after \<open>tap\<close>: it also catches what the publication of a success throws.\<close>

definition auditIntercept ::
  "'s clockApi \<Rightarrow> (json \<Rightarrow> ('s, 'e, unit) op) \<Rightarrow> string \<Rightarrow> httpRequest \<Rightarrow> ('s, 'e, 'a) op \<Rightarrow> ('s, 'e, 'a) op" where
  "auditIntercept K publish source req handler = (\<lambda>s.
     let start = ck_now K s;
         report = (\<lambda>status t. publish (auditEvent K source req start status t) t)
     in catching (andThen handler (\<lambda>a. andThen (report ''success'') (\<lambda>_. ret a)))
          (\<lambda>e. andThen (report ''error'') (\<lambda>_. throw e)) s)"

text \<open>What the interceptor relies on: a publication never fails.\<close>

locale quiet_publisher =
  fixes publish :: "json \<Rightarrow> ('s, 'e, unit) op"
  assumes quiet: "fst (publish payload s) = Inr ()"
begin

lemma then_publish: "andThen (\<lambda>t. publish (p t) t) f s = f () (snd (publish (p s) s))"
  using quiet [of "p s" s] by (cases "publish (p s) s") (simp add: andThen_run)

lemma audited:
  "auditIntercept K publish source req handler s =
     (let (r, t) = handler s;
          status = (case r of Inl _ \<Rightarrow> ''error'' | Inr _ \<Rightarrow> ''success'')
      in (r, snd (publish (auditEvent K source req (ck_now K s) status t) t)))"
proof (cases "handler s")
  case (Pair r t)
  show ?thesis
  proof (cases r)
    case (Inl e)
    with Pair show ?thesis
      by (simp add: auditIntercept_def catching_run andThen_run [of handler] then_publish Let_def)
  next
    case (Inr a)
    with Pair show ?thesis
      by (simp add: auditIntercept_def catching_run andThen_run [of handler] then_publish Let_def)
  qed
qed

end

lemma catching_quiet: "fst (catching m (\<lambda>_. ret ()) s) = Inr ()"
  by (auto simp: catching_run split: prod.splits sum.splits)

interpretation issuer_audit: quiet_publisher "issuerAudit broker c" for broker :: "('s, 'e) broker" and c
  by unfold_locales (simp add: issuerAudit_def catching_quiet)

interpretation verifier_audit: quiet_publisher "verifierAudit broker c" for broker :: "('s, 'e) broker" and c
  by unfold_locales (simp add: verifierAudit_def verifierPublish_def catching_quiet)

interpretation holder_audit: quiet_publisher "holderAudit broker c" for broker :: "('s, 'e) broker" and c
  by unfold_locales (simp add: holderAudit_def holderPublish_def catching_quiet)

section \<open>The body of an error\<close>

datatype nestException =
    HttpException nat string json
  | OtherException string

fun exceptionStatus :: "nestException \<Rightarrow> nat" where
  "exceptionStatus (HttpException status _ _) = status"
| "exceptionStatus (OtherException _) = 500"

text \<open>Issuer and verifier; a response that was begun is left alone.\<close>

fun exceptionMessage :: "nestException \<Rightarrow> string" where
  "exceptionMessage (HttpException _ message _) = message"
| "exceptionMessage (OtherException _) = ''Internal server error''"

definition errorResponse :: "bool \<Rightarrow> string \<Rightarrow> string \<Rightarrow> nestException \<Rightarrow> (nat \<times> json) option" where
  "errorResponse headersSent url timestamp e =
     (if headersSent then None
      else Some (exceptionStatus e,
        JObj [(''statusCode'', JNum (int (exceptionStatus e))), (''message'', JStr (exceptionMessage e)),
          (''path'', JStr url), (''timestamp'', JStr timestamp)]))"

definition capitalized :: "string \<Rightarrow> string" where
  "capitalized w = (case w of [] \<Rightarrow> [] | c # cs \<Rightarrow> upperChar c # cs)"

definition statusToErrorName :: "(nat \<Rightarrow> string option) \<Rightarrow> nat \<Rightarrow> string" where
  "statusToErrorName names status =
     (if \<not> truthyText (names status) then ''Error''
      else joinWith '' '' (map capitalized (splitOn CHR ''_'' (toLowerCase (coalesce (names status) [])))))"

record errorPayload =
  ep_message :: string
  ep_error :: string
  ep_errorCode :: "string option"
  ep_details :: "json option"

text \<open>A field of a response is a text, or it is read as absent.\<close>

definition textField :: "string \<Rightarrow> json \<Rightarrow> string option" where
  "textField k v = Option.bind (jsonField k v) jsonStr"

fun extractPayload :: "(nat \<Rightarrow> string option) \<Rightarrow> nestException \<Rightarrow> errorPayload" where
  "extractPayload names (OtherException _) =
     \<lparr>ep_message = ''Internal server error'', ep_error = ''Internal Server Error'', ep_errorCode = None,
      ep_details = None\<rparr>"
| "extractPayload names (HttpException status message (JStr response)) =
     \<lparr>ep_message = response, ep_error = statusToErrorName names status, ep_errorCode = None, ep_details = None\<rparr>"
| "extractPayload names (HttpException status message response) =
     (let rawMessage = jsonField ''message'' response;
          isValidationArray = (case rawMessage of Some (JArr _) \<Rightarrow> True | _ \<Rightarrow> False)
      in \<lparr>ep_message = (if isValidationArray then ''Validation failed''
            else toText (coalesce (orElse rawMessage None) (JStr message))),
          ep_error = coalesce (textField ''error'' response) (statusToErrorName names status),
          ep_errorCode = textField ''errorCode'' response,
          ep_details = (if isValidationArray then rawMessage else jsonField ''details'' response)\<rparr>)"

definition holderErrorResponse ::
  "(nat \<Rightarrow> string option) \<Rightarrow> string \<Rightarrow> string \<Rightarrow> nestException \<Rightarrow> nat \<times> json" where
  "holderErrorResponse names url timestamp e =
     (let p = extractPayload names e in
      (exceptionStatus e,
       JObj ([(''statusCode'', JNum (int (exceptionStatus e))), (''message'', JStr (ep_message p)),
           (''error'', JStr (ep_error p))] @
         (if truthyText (ep_errorCode p) then textEntry ''errorCode'' (ep_errorCode p) else []) @
         entryOf ''details'' (ep_details p) @
         [(''path'', JStr url), (''timestamp'', JStr timestamp)])))"

section \<open>The log\<close>

text \<open>What is logged: a value, or an error with its name, message, trace and, of several, the errors.\<close>

datatype logValue =
    LogJson json
  | LogError string string "string option" "logValue list option"

definition logPriority :: "string \<Rightarrow> nat option" where
  "logPriority level =
     map_of [(''DEBUG'', 0), (''INFO'', 1), (''WARN'', 2), (''ERROR'', 3)] level"

definition minLevelOf :: "string option \<Rightarrow> nat" where
  "minLevelOf logLevel = coalesce (logPriority (map upperChar (coalesce logLevel ''INFO''))) 1"

text \<open>Only the holder lists the errors of an error that has several.\<close>

fun formatMessage :: "bool \<Rightarrow> logValue \<Rightarrow> json" where
  "formatMessage several (LogJson j) = j"
| "formatMessage several (LogError name message stack errors) =
     JObj ([(''error'', JStr name), (''message'', JStr message)] @ textEntry ''stack'' stack @
       (case errors of
          Some es \<Rightarrow> if several then [(''errors'', JArr (map (formatMessage several) es))] else []
        | None \<Rightarrow> []))"

definition logContext :: "logValue list \<Rightarrow> string \<times> logValue list" where
  "logContext params =
     (if params = [] then (''System'', [])
      else (case last params of LogJson (JStr context) \<Rightarrow> (context, butlast params) | _ \<Rightarrow> (''System'', params)))"

record logStreams =
  ls_stdout :: "string list"
  ls_stderr :: "string list"

text \<open>
  Values are trees: the replacer, which writes an object that it has seen as \<open>[Circular]\<close>, also when
  it is only shared, has nothing to replace.
\<close>

definition printLog ::
  "bool \<Rightarrow> string \<Rightarrow> nat \<Rightarrow> string \<Rightarrow> string \<Rightarrow> logValue \<Rightarrow> logValue list \<Rightarrow> logStreams \<Rightarrow> logStreams" where
  "printLog several svc minLevel timestamp level message params out =
     (if coalesce (logPriority level) 0 < minLevel then out
      else
        (let (context, details) = logContext params;
             line = stringify (JObj ([(''timestamp'', JStr timestamp), (''level'', JStr level),
               (''service'', JStr svc), (''context'', JStr context),
               (''message'', formatMessage several message)] @
               (if details = [] then [] else [(''details'', JArr (map (formatMessage several) details))])))
         in if level = ''ERROR'' then out\<lparr>ls_stderr := ls_stderr out @ [line]\<rparr>
            else out\<lparr>ls_stdout := ls_stdout out @ [line]\<rparr>))"

section \<open>Properties\<close>

lemma connected_channel: "clientReachable c \<Longrightarrow> mc_connected c \<Longrightarrow> mc_channel c"
  by (induction rule: clientReachable.induct)
    (auto simp: newClient_def connectTo_def onConnect_def onDisconnect_def closeClient_def elim: clientStep.cases)

text \<open>
  The audit never changes what a handler does to the state before it nor the outcome of a request,
  whatever the broker does, and publishes one event, with the outcome as its status, in each of
  the three services.
\<close>

theorem audit_transparent:
  "let (r, t) = handler s;
       event = auditEvent K source req (ck_now K s) (case r of Inl _ \<Rightarrow> ''error'' | Inr _ \<Rightarrow> ''success'') t
   in auditIntercept K (issuerAudit broker c) source req handler s = (r, snd (issuerAudit broker c event t)) \<and>
      auditIntercept K (verifierAudit broker c) source req handler s = (r, snd (verifierAudit broker c event t)) \<and>
      auditIntercept K (holderAudit broker c) source req handler s = (r, snd (holderAudit broker c event t))"
  by (simp add: issuer_audit.audited verifier_audit.audited holder_audit.audited Let_def split: prod.split)

text \<open>
  An event reaches the broker exactly when the client of the issuer or the verifier is connected;
  the client of the holder hands it on from its first \<open>connect\<close> on. Events of the time in between
  are lost without a trace.
\<close>

lemma audit_delivery:
  assumes "clientReachable c"
  shows "snd (issuerAudit broker c event s) =
      (if mc_connected c then snd (sendPayload broker c AUDIT_OPERATION event s) else s)"
    and "snd (verifierAudit broker c event s) =
      (if mc_connected c then snd (sendPayload broker c AUDIT_OPERATION event s) else s)"
    and "snd (holderAudit broker c event s) =
      (if mc_channel c then snd (sendPayload broker c AUDIT_OPERATION event s) else s)"
  using connected_channel [OF assms]
  by (auto simp: issuerAudit_def issuerPublish_def verifierAudit_def verifierPublish_def holderAudit_def
      holderPublish_def catching_run split: prod.splits sum.splits)

text \<open>
  The answer to an exception that is none of the framework's tells nothing of it. Of the fields a
  request got wrong, the holder tells which they are; issuer and verifier answer the same whatever
  they are.
\<close>

theorem error_bodies:
  "errorResponse h url ts (OtherException m) = errorResponse h url ts (OtherException m') \<and>
   holderErrorResponse names url ts (OtherException m) = holderErrorResponse names url ts (OtherException m') \<and>
   errorResponse h url ts (HttpException st m r) = errorResponse h url ts (HttpException st m r') \<and>
   jsonField ''details'' (snd (holderErrorResponse names url ts
     (HttpException st m (JObj [(''message'', JArr vs), (''error'', e)])))) = Some (JArr vs)"
  by (simp add: errorResponse_def holderErrorResponse_def Let_def entryOf_def textEntry_def split: option.split)

lemma printLog_streams:
  "ls_stdout (printLog several svc n ts ''ERROR'' m ps out) = ls_stdout out"
  "level \<noteq> ''ERROR'' \<Longrightarrow> ls_stderr (printLog several svc n ts level m ps out) = ls_stderr out"
  by (simp_all add: printLog_def Let_def split: prod.split)

end
