(* ===== verification/Spec2Isabelle.thy ===== *)
theory Spec2Isabelle
  imports BillingReach MeterRuns RateProps VerifierProps IssuerProps OAuthProps RecordHttpProps DidProps DidResolverProps DidResolvers PendingProps DidCommCalls IssuanceProps OpenIdProps DidCommListenerProps KmsProps WalletProps BbsProps Observability
begin

text \<open>
  A verification library for the digital identity platform: the billing service, the core package
  \<^verbatim>\<open>src/packages/identity-core\<close> and the issuer, verifier and holder services built on it.

  \<^bold>\<open>The program.\<close> A wallet is a tenant of one of three services. The issuer signs credentials
  and publishes their revocation, the holder keeps and presents them, the verifier asks for them and
  checks them, over DIDComm or over OpenID. All three run agents of the Credo framework; the core
  package gives them identifiers (DIDs), key management, records, status lists, the protocol
  listeners and the BBS+ formats. \<^verbatim>\<open>src/identity-billing-service\<close> sells access: an account
  owns products, a product has one resource (a tenant of issuer or verifier) and a resource has API
  keys. Issuer and verifier send the key of every request to \<^verbatim>\<open>POST /internal/validate-and-meter\<close>,
  which authenticates it, applies the requests-per-minute window of the account and counts the
  request against its monthly quota; creating a product provisions the tenant over HTTP, and the
  remote service calls metering back meanwhile.

  \<^bold>\<open>Foundations.\<close> \<open>Prelude\<close>: handlers as state transformers that may throw, and what they
  preserve. \<open>Tables\<close>: a table as a list of rows, the locale \<open>row_table\<close>, integrity rules.
  \<open>JsValues\<close>, \<open>Json\<close>, \<open>JsCoercion\<close>, \<open>JsObjects\<close>: strings, Base64, JSON with its text,
  truth, number and text of a value, objects. \<open>Retry\<close> (\<^verbatim>\<open>utils/retry.ts\<close>): the loop with its
  waits; that it ends, with which outcome, after how long.

  \<^bold>\<open>Billing\<close> (\<^verbatim>\<open>src/identity-billing-service/source/src\<close>).
  \<^item> \<open>Plans\<close>, \<open>BillingDb\<close>, \<open>BillingStore\<close> (\<^verbatim>\<open>billing/plans.ts\<close>,
    \<^verbatim>\<open>entities/\<close>, credentials), \<open>PaymentPort\<close> (the locale \<open>payment_provider\<close>), \<open>Accounts\<close>,
    \<open>Products\<close>, \<open>Metering\<close> with the payments (\<^verbatim>\<open>billing/billing.service.ts\<close>,
    \<^verbatim>\<open>tenant-provisioner.ts\<close>), \<open>BillingHttp\<close> (guards, bodies, controllers and \<open>serve\<close>),
    \<open>OAuth\<close> (\<^verbatim>\<open>auth/oauth.service.ts\<close>).
  \<^item> \<open>BillingInv\<close>, \<open>BillingSafe\<close>, \<open>ProductOps\<close>, \<open>KeyOps\<close>: the invariant \<open>db_inv\<close>
    through every write and every operation, and the operations in closed form. \<open>BillingReach\<close>: the
    service as a transition system. \<open>Samples\<close>, \<open>ProductWitnesses\<close>: concrete instances.
  \<^item> \<open>FixedWindow\<close> (the locale \<open>fixed_window\<close>) and its instances: the account window in
    \<open>MeterRuns\<close>, the middleware for anonymous requests (\<^verbatim>\<open>http/public-rate-limit.ts\<close>) in
    \<open>PublicRateLimit\<close> and \<open>RateProps\<close>.
  \<^item> \<open>MeterProps\<close>, \<open>AuthProps\<close>, \<open>ProductProps\<close>, \<open>KeyProps\<close>, \<open>AccountProps\<close>,
    \<open>OAuthProps\<close>: what metering grants, who is authenticated, what products and keys become, which
    account a login reaches.

  \<^bold>\<open>Revocation\<close> (\<^verbatim>\<open>revocation/\<close> of core, issuer and verifier). \<open>StatusListTypes\<close>,
  \<open>StatusLists\<close> (encoding), \<open>StatusListStore\<close> (the PostgreSQL tables, with faults), \<open>Revocation\<close> (the
  service), \<open>StorageContract\<close> (the locale \<open>status_list_storage\<close>, interpreted for the pool and for a
  transaction), \<open>RevocationOps\<close> and \<open>RevocationReach\<close> (invariant, register of statuses,
  interleaving of requests between their read and their write), \<open>RevocationProps\<close>; \<open>Signers\<close>
  (who signs a list), \<open>IssuerHttp\<close> with \<open>IssuerProps\<close> (API key guard, endpoints, composed with
  billing), \<open>Verifier\<close> with \<open>VerifierProps\<close> (download and check of a list).

  \<^bold>\<open>Records\<close> (\<^verbatim>\<open>record/\<close>, \<^verbatim>\<open>records/\<close>). \<open>RecordQuery\<close> (tag queries in memory and as
  SQL), \<open>RecordTypes\<close>, \<open>RecordStores\<close> (PostgreSQL), \<open>RecordPort\<close> (Askar, which the services wire, the locale
  \<open>record_storage\<close>, reads of a tenant), \<open>RecordHttp\<close> (endpoints behind the guard), and
  \<open>RecordQueryProps\<close>, \<open>RecordProps\<close>, \<open>RecordHttpProps\<close>.

  \<^bold>\<open>Identifiers\<close> (\<^verbatim>\<open>did/\<close>). \<open>Dids\<close> (registrar of did:web, what ensures an identifier,
  choice of a signing key), \<open>DidResolvers\<close> (resolvers over HTTP, registrar of did:custom);
  \<open>DidProps\<close>, \<open>DidResolverProps\<close>.

  \<^bold>\<open>Keys\<close> (\<^verbatim>\<open>kms/\<close>). \<open>KeyManagement\<close> (the table of keys, keys and signatures over
  PostgreSQL, the BBS sidecar), \<open>KeyEncryption\<close> (ECDH-ES, boxes, AES-GCM), \<open>DomainKeys\<close> (keys of the
  domain over Askar and their route); \<open>KmsProps\<close>: whose key a wallet sees, round trips.

  \<^bold>\<open>Wallets\<close> (\<^verbatim>\<open>agent/tenant.ts\<close>, \<^verbatim>\<open>agent/wallet.ts\<close>, the endpoints that create and
  list wallets). \<open>Wallets\<close>: tenants, the map of a process and its start; \<open>WalletProps\<close>: what
  creations keep and what a restart finds.

  \<^bold>\<open>DIDComm\<close> (\<^verbatim>\<open>protocol/didcomm/\<close>, \<^verbatim>\<open>didcomm/\<close> of the services). \<open>DidCommCalls\<close>
  (invitations, offers, proof requests), \<open>PendingStores\<close> and \<open>PendingContract\<close> (the stores of
  exchanges that wait for a connection, the locale \<open>pending_store\<close>), \<open>DidCommServices\<close>,
  \<open>DidCommListeners\<close> (what the agents do when an exchange changes); \<open>PendingProps\<close>,
  \<open>DidCommListenerProps\<close>. \<open>BbsCredentials\<close> (\<^verbatim>\<open>credential/bbs/\<close> and the two formats that
  carry BBS+ proofs, the middleware of inbound messages) with \<open>BbsProps\<close>.

  \<^bold>\<open>OpenID\<close> (\<^verbatim>\<open>protocol/openid4vc/\<close>, \<^verbatim>\<open>openid4vc/\<close>). \<open>OpenIdIssuer\<close> (metadata,
  offers, the credential mapper), \<open>OpenIdVerifier\<close>, \<open>OpenIdServices\<close> (the holder and the services of
  the three processes); \<open>OpenIdProps\<close>, and \<open>IssuanceProps\<close>, which follows a credential from its offer
  through its revocation to the check of the verifier.

  \<^bold>\<open>Observability\<close> (\<^verbatim>\<open>messaging/\<close>, \<^verbatim>\<open>common/\<close>). \<open>Observability\<close>: the broker client,
  the audit of a handler (the locale \<open>quiet_publisher\<close>), error bodies and log lines.

  \<^bold>\<open>Correspondence.\<close> A method is a definition of its name over the state of its component: the
  database of billing \<open>db\<close> (with the rate windows in memory, the clock and counters for UUIDs and random
  draws), the tables of status lists, records or keys, the map of wallets of a process, a store of
  pending exchanges. It returns a value or an error, one constructor (or message) per throw site, and
  the state in which it stopped: outside a transaction an error keeps earlier writes. Records stand for
  classes and rows, \<open>json\<close> for values whose type the code does not check. Nothing of a library is
  defined here: the Credo framework, Askar, Node's cryptography, NaCl and BBS, the SD-JWT and status
  list libraries, PostgreSQL's faults and jsonb operators, \<open>fetch\<close>, \<open>new URL\<close>, the locale's order and
  the clock are parameters. What the code relies on of them is a named hypothesis
  (\<open>env_ok\<close>, \<open>remote_meters\<close>, \<open>tenantLaws\<close>, \<open>storePerContext\<close>, \<open>bbsVerifier\<close>,
  \<open>authenticated\<close> and others) that a witness instantiates.

  \<^bold>\<open>Bounds and fuel.\<close> Machine integers matter only in bytes, which are words of 8 bits; the lengths of
  the key derivation are written as four of them. JSON numbers are integers. Loops are structural
  or have a measure; only the JSON parser spends fuel, one unit for each call on the way down, and twice the
  length of the text is given, which \<open>jsonParse_stringify\<close> shows to be enough for every text the code writes. Texts are lists of
  8-bit characters: UTF-8 beyond ASCII is left out except in the escapes of identifiers.

  \<^bold>\<open>Limits of the model.\<close> A handler runs to its end before the next one starts, except where
  the interleaving matters and is modelled: metering during provisioning, two metered requests,
  revocations between read and commit, pending exchanges between two \<open>await\<close>s. Concurrent creations of
  products or wallets and timers are not. A save stamps \<open>updatedAt\<close> even when nothing changed.

  \<^bold>\<open>Not modelled.\<close> The assembly of agents and NestJS modules, which only passes options to
  frameworks that are not part of the repository; request logging and metrics; the command line clients
  and the Postman generators, which call endpoints modelled here; the web front end.
\<close>

end
